(* ===== verification/Kora_Prelude.thy ===== *)
theory Kora_Prelude
  imports Main "HOL-Library.Signed_Division"
begin

text \<open>
  Shared vocabulary of the development: the result type of a contract call, Rust's checked
  and saturating integer arithmetic at the widths the contracts use, and the simplification
  rules that turn ``this call succeeded'' into the facts the code has checked on the way.

  A contract call ends in a value or in a failure.  A failure is an error code of the
  contract (\<open>Err\<close>) or a trap of the host (\<open>Trap\<close>: a failed \<open>require_auth\<close>, an arithmetic
  overflow under \<open>overflow-checks\<close>, an \<open>unwrap\<close> of \<open>None\<close>, a failing cross-contract
  call made through the non-\<open>try_\<close> client).  In both cases the host rolls the storage back,
  so a failing operation of the model returns no state.
\<close>

section \<open>Results\<close>

datatype 'e failure = Err 'e | Trap

type_synonym ('e, 'a) result = "'e failure + 'a"

definition rbind :: "('f + 'a) \<Rightarrow> ('a \<Rightarrow> 'f + 'b) \<Rightarrow> 'f + 'b" where
  "rbind m k = (case m of Inl e \<Rightarrow> Inl e | Inr x \<Rightarrow> k x)"

definition ok_or :: "'a option \<Rightarrow> 'f \<Rightarrow> 'f + 'a" where
  "ok_or m e = (case m of None \<Rightarrow> Inl e | Some x \<Rightarrow> Inr x)"

text \<open>\<open>map_err\<close> is the \<open>From\<close> conversion applied by \<open>?\<close>; \<open>or_trap\<close> is a cross-contract
  call through the plain client, whose failure aborts the caller.\<close>

definition map_err :: "('e \<Rightarrow> 'd) \<Rightarrow> ('e, 'a) result \<Rightarrow> ('d, 'a) result" where
  "map_err g m = (case m of Inl (Err x) \<Rightarrow> Inl (Err (g x)) | Inl Trap \<Rightarrow> Inl Trap | Inr y \<Rightarrow> Inr y)"

definition or_trap :: "('e, 'a) result \<Rightarrow> ('d, 'a) result" where
  "or_trap m = (case m of Inl _ \<Rightarrow> Inl Trap | Inr y \<Rightarrow> Inr y)"

text \<open>\<open>or_else\<close> is \<open>unwrap_or\<close>.\<close>

definition or_else :: "'a option \<Rightarrow> 'a \<Rightarrow> 'a" where
  "or_else x d = (case x of None \<Rightarrow> d | Some y \<Rightarrow> y)"

definition is_ok :: "('f + 'a) \<Rightarrow> bool" where
  "is_ok m = (case m of Inl _ \<Rightarrow> False | Inr _ \<Rightarrow> True)"

text \<open>Inversion of success: each rule replaces one step of a successful call by what it
  guarantees.  They are simp rules, so \<open>simp add: op_def\<close> reads off the guards of \<open>op\<close>.\<close>

lemma rbind_Inr_iff [simp]: "rbind m k = Inr y \<longleftrightarrow> (\<exists>x. m = Inr x \<and> k x = Inr y)"
  by (cases m) (auto simp: rbind_def)

lemma rbind_simps [simp]:
  "rbind (Inl e) k = Inl e" "rbind (Inr x) k = k x"
  by (simp_all add: rbind_def)

text \<open>To evaluate a call on a concrete state, its steps are rewritten one after the other.\<close>

lemma rbind_weak_cong: "m = m' \<Longrightarrow> rbind m k = rbind m' k"
  by simp

lemma bind_weak_cong: "m = m' \<Longrightarrow> Option.bind m k = Option.bind m' k"
  by simp

lemma ok_or_Inr_iff [simp]: "ok_or m e = Inr x \<longleftrightarrow> m = Some x"
  by (cases m) (auto simp: ok_or_def)

lemma ok_or_simps [simp]: "ok_or None e = Inl e" "ok_or (Some x) e = Inr x"
  by (simp_all add: ok_or_def)

lemma map_err_Inr_iff [simp]: "map_err g m = Inr y \<longleftrightarrow> m = Inr y"
  by (auto simp: map_err_def split: sum.splits failure.splits)

lemma map_err_simps [simp]:
  "map_err g (Inr y) = Inr y" "map_err g (Inl (Err x)) = Inl (Err (g x))"
  "map_err g (Inl Trap) = Inl Trap"
  by (simp_all add: map_err_def)

lemma or_trap_Inr_iff [simp]: "or_trap m = Inr y \<longleftrightarrow> m = Inr y"
  by (auto simp: or_trap_def split: sum.splits)

lemma or_trap_simps [simp]: "or_trap (Inr y) = Inr y" "or_trap (Inl x) = Inl Trap"
  by (simp_all add: or_trap_def)

lemma if_fail_Inr_iff [simp]:
  "(if c then Inl e else k) = Inr y \<longleftrightarrow> \<not> c \<and> k = Inr y"
  "(if c then k else Inl e) = Inr y \<longleftrightarrow> c \<and> k = Inr y"
  by auto

lemma or_else_simps [simp]: "or_else None d = d" "or_else (Some x) d = x"
  by (simp_all add: or_else_def)

lemma is_ok_iff: "is_ok m \<longleftrightarrow> (\<exists>y. m = Inr y)"
  by (cases m) (auto simp: is_ok_def)

lemma is_ok_simps [simp]: "is_ok (Inr y)" "\<not> is_ok (Inl e)"
  by (simp_all add: is_ok_def)

section \<open>Machine integers\<close>

text \<open>
  \<open>i128\<close> values are integers, \<open>u64\<close> and \<open>u32\<close> values naturals; every operation of the
  code is written with the check or the saturation the code applies at its width.  Rust's
  division truncates towards zero (\<open>sdiv\<close>).
\<close>

type_synonym i128 = int
type_synonym u64 = nat
type_synonym u32 = nat

definition i128_max :: int where "i128_max = 2 ^ 127 - 1"
definition i128_min :: int where "i128_min = - (2 ^ 127)"
definition u64_max :: nat where "u64_max = 2 ^ 64 - 1"
definition u32_max :: nat where "u32_max = 2 ^ 32 - 1"

definition i128_fit :: "int \<Rightarrow> int option" where
  "i128_fit x = (if i128_min \<le> x \<and> x \<le> i128_max then Some x else None)"

definition i128_add :: "i128 \<Rightarrow> i128 \<Rightarrow> i128 option" where "i128_add a b = i128_fit (a + b)"
definition i128_sub :: "i128 \<Rightarrow> i128 \<Rightarrow> i128 option" where "i128_sub a b = i128_fit (a - b)"
definition i128_mul :: "i128 \<Rightarrow> i128 \<Rightarrow> i128 option" where "i128_mul a b = i128_fit (a * b)"
definition i128_div :: "i128 \<Rightarrow> i128 \<Rightarrow> i128 option" where
  "i128_div a b = (if b = 0 then None else i128_fit (a sdiv b))"
definition i128_pow :: "i128 \<Rightarrow> u32 \<Rightarrow> i128 option" where "i128_pow a n = i128_fit (a ^ n)"

definition i128_clamp :: "int \<Rightarrow> int" where
  "i128_clamp x = (if x < i128_min then i128_min else if i128_max < x then i128_max else x)"

definition i128_sat_add :: "i128 \<Rightarrow> i128 \<Rightarrow> i128" where "i128_sat_add a b = i128_clamp (a + b)"
definition i128_sat_sub :: "i128 \<Rightarrow> i128 \<Rightarrow> i128" where "i128_sat_sub a b = i128_clamp (a - b)"

definition u64_add :: "u64 \<Rightarrow> u64 \<Rightarrow> u64 option" where
  "u64_add a b = (if a + b \<le> u64_max then Some (a + b) else None)"
definition u64_sub :: "u64 \<Rightarrow> u64 \<Rightarrow> u64 option" where
  "u64_sub a b = (if b \<le> a then Some (a - b) else None)"
definition u64_mul :: "u64 \<Rightarrow> u64 \<Rightarrow> u64 option" where
  "u64_mul a b = (if a * b \<le> u64_max then Some (a * b) else None)"
definition u64_sat_sub :: "u64 \<Rightarrow> u64 \<Rightarrow> u64" where "u64_sat_sub a b = a - b"

definition u32_add :: "u32 \<Rightarrow> u32 \<Rightarrow> u32 option" where
  "u32_add a b = (if a + b \<le> u32_max then Some (a + b) else None)"
definition u32_sub :: "u32 \<Rightarrow> u32 \<Rightarrow> u32 option" where
  "u32_sub a b = (if b \<le> a then Some (a - b) else None)"
definition u32_sat_add :: "u32 \<Rightarrow> u32 \<Rightarrow> u32" where "u32_sat_add a b = min u32_max (a + b)"
definition u32_sat_sub :: "u32 \<Rightarrow> u32 \<Rightarrow> u32" where "u32_sat_sub a b = a - b"

definition i128_as_u32 :: "i128 \<Rightarrow> u32" where "i128_as_u32 x = nat (x mod 2 ^ 32)"

named_theorems int_defs
lemmas [int_defs] = i128_max_def i128_min_def u64_max_def u32_max_def i128_fit_def i128_add_def
  i128_sub_def i128_mul_def i128_div_def i128_pow_def i128_clamp_def i128_sat_add_def
  i128_sat_sub_def u64_add_def u64_sub_def u64_mul_def u64_sat_sub_def u32_add_def u32_sub_def
  u32_sat_add_def u32_sat_sub_def i128_as_u32_def

lemma i128_fit_Some_iff [simp]: "i128_fit x = Some y \<longleftrightarrow> y = x \<and> i128_min \<le> x \<and> x \<le> i128_max"
  by (auto simp: i128_fit_def)

lemma i128_add_Some_iff [simp]:
  "i128_add a b = Some c \<longleftrightarrow> c = a + b \<and> i128_min \<le> a + b \<and> a + b \<le> i128_max"
  by (auto simp: i128_add_def)

lemma i128_sub_Some_iff [simp]:
  "i128_sub a b = Some c \<longleftrightarrow> c = a - b \<and> i128_min \<le> a - b \<and> a - b \<le> i128_max"
  by (auto simp: i128_sub_def)

lemma i128_mul_Some_iff [simp]:
  "i128_mul a b = Some c \<longleftrightarrow> c = a * b \<and> i128_min \<le> a * b \<and> a * b \<le> i128_max"
  by (auto simp: i128_mul_def)

lemma u64_add_Some_iff [simp]: "u64_add a b = Some c \<longleftrightarrow> c = a + b \<and> a + b \<le> u64_max"
  by (auto simp: u64_add_def)

lemma u64_sub_Some_iff [simp]: "u64_sub a b = Some c \<longleftrightarrow> b \<le> a \<and> c = a - b"
  by (auto simp: u64_sub_def)

lemma u32_add_Some_iff [simp]: "u32_add a b = Some c \<longleftrightarrow> c = a + b \<and> a + b \<le> u32_max"
  by (auto simp: u32_add_def)

lemma u32_sub_Some_iff [simp]: "u32_sub a b = Some c \<longleftrightarrow> b \<le> a \<and> c = a - b"
  by (auto simp: u32_sub_def)

lemma i128_bounds [simp]: "i128_min \<le> 0" "0 \<le> i128_max" "i128_min < 0" "0 < i128_max"
  by (simp_all add: i128_min_def i128_max_def)

lemma i128_min_le [simp, intro]: "0 \<le> x \<Longrightarrow> i128_min \<le> x"
  by (rule order_trans[of _ 0]) simp_all

text \<open>The same operations as rewrite rules, for evaluating a branch once the range is known.\<close>

lemma i128_eqs [simp]:
  "i128_min \<le> a + b \<Longrightarrow> a + b \<le> i128_max \<Longrightarrow> i128_add a b = Some (a + b)"
  "i128_min \<le> a - b \<Longrightarrow> a - b \<le> i128_max \<Longrightarrow> i128_sub a b = Some (a - b)"
  "i128_min \<le> a * b \<Longrightarrow> a * b \<le> i128_max \<Longrightarrow> i128_mul a b = Some (a * b)"
  by (simp_all add: i128_add_def i128_sub_def i128_mul_def i128_fit_def)

lemma u64_eqs [simp]:
  "a + b \<le> u64_max \<Longrightarrow> u64_add a b = Some (a + b)"
  "b \<le> a \<Longrightarrow> u64_sub a b = Some (a - b)"
  by (simp_all add: u64_add_def u64_sub_def)

lemma i128_clamp_id: "i128_min \<le> x \<Longrightarrow> x \<le> i128_max \<Longrightarrow> i128_clamp x = x"
  by (simp add: i128_clamp_def)

lemma i128_div_nonneg:
  assumes "0 \<le> a" "a \<le> i128_max" "0 < b"
  shows "i128_div a b = Some (a div b)"
proof -
  have "a sdiv b = a div b"
    using assms by (simp add: signed_divide_int_def sgn_if)
  moreover have "0 \<le> a div b" "a div b \<le> a"
    using assms zdiv_mono2[of a 1 b] by (simp_all add: pos_imp_zdiv_nonneg_iff)
  ultimately show ?thesis
    using assms by (auto simp: i128_div_def i128_fit_def intro: order_trans[of i128_min 0])
qed

section \<open>Sums over association-like data\<close>

lemma sum_list_map_le:
  fixes f g :: "'a \<Rightarrow> int"
  assumes "\<And>x. x \<in> set xs \<Longrightarrow> f x \<le> g x"
  shows "(\<Sum>x\<leftarrow>xs. f x) \<le> (\<Sum>x\<leftarrow>xs. g x)"
  using assms by (induction xs) (auto intro: add_mono)

text \<open>Floor division distributes over a sum only up to rounding down: the parts never
  exceed the whole.\<close>

lemma div_sum_list_le:
  fixes f :: "'a \<Rightarrow> int" and d :: int
  assumes "0 < d" "\<And>x. x \<in> set xs \<Longrightarrow> 0 \<le> f x"
  shows "(\<Sum>x\<leftarrow>xs. f x div d) \<le> (\<Sum>x\<leftarrow>xs. f x) div d"
  using assms
proof (induction xs)
  case Nil
  then show ?case by simp
next
  case (Cons x xs)
  have "f x div d + (\<Sum>y\<leftarrow>xs. f y) div d \<le> (f x + (\<Sum>y\<leftarrow>xs. f y)) div d"
    using Cons.prems(1) by (smt (verit, best) div_add1_eq pos_imp_zdiv_nonneg_iff pos_mod_sign)
  with Cons show ?case by fastforce
qed

end
