(* ===== verification/Kora_Types.thy ===== *)
theory Kora_Types
  imports Kora_Prelude
begin

text \<open>
  The shared data of the protocol (\<open>contracts/shared/src/types.rs\<close> and the \<open>CommonError\<close>
  enum of \<open>contracts/shared/src/errors.rs\<close>) and the transaction environment every contract
  call runs in.  A struct is a record whose fields carry a short prefix of the struct's name,
  an enum a datatype with the source's constructors.
\<close>

section \<open>Addresses and the transaction environment\<close>

type_synonym address = nat
type_synonym symbol = string
type_synonym bytes = "nat list"

datatype InvoiceStatus = Created | Listed | Funded | Repaid | Defaulted

datatype RiskTier = AAA | AA | A | B | C

text \<open>\<open>RiskTier::from_score\<close>.\<close>

definition from_score :: "u32 \<Rightarrow> RiskTier" where
  "from_score score =
     (if score \<le> 20 then AAA
      else if 21 \<le> score \<and> score \<le> 40 then AA
      else if 41 \<le> score \<and> score \<le> 60 then A
      else if 61 \<le> score \<and> score \<le> 80 then B
      else C)"

record Invoice =
  inv_id :: u64
  inv_sme :: address
  inv_debtor_hash :: bytes
  inv_amount :: i128
  inv_currency :: symbol
  inv_due_date :: u64
  inv_ipfs_cid :: string
  inv_metadata_hash :: bytes
  inv_risk_score :: u32
  inv_risk_tier :: RiskTier
  inv_status :: InvoiceStatus
  inv_created_at :: u64
  inv_funded_at :: "u64 option"
  inv_repaid_at :: "u64 option"
  inv_notes :: "string option"

record Installment =
  in_amount :: i128
  in_due_date :: u64
  in_paid :: bool

record InstallmentSchedule =
  sch_installments :: "Installment list"
  sch_next_index :: u32

record ProtocolStats =
  st_pools_opened :: u32
  st_total_repaid :: i128
  st_pools_defaulted :: u32
  st_active_pools :: u32

record Position =
  pos_investor :: address
  pos_invoice_id :: u64
  pos_contributed :: i128
  pos_share_bps :: u32
  pos_yield_claimed :: i128

record Pool =
  pl_invoice_id :: u64
  pl_token :: address
  pl_total_funded :: i128
  pl_face_value :: i128
  pl_repaid_amount :: i128
  pl_is_closed :: bool
  pl_late_penalty_bps :: u32
  pl_total_owed :: i128
  pl_penalty_applied :: bool

record PositionSaleOffer =
  so_seller :: address
  so_invoice_id :: u64
  so_token :: address
  so_price :: i128

record EarlySettlementOffer =
  es_invoice_id :: u64
  es_amount :: i128
  es_accepted_bps :: u32
  es_accepted :: "address list"

record RepaymentApproval =
  ra_invoice_id :: u64
  ra_amount :: i128
  ra_approvals :: "address list"
  ra_executed :: bool

record ProtocolConfig =
  cfg_fee_bps :: u32
  cfg_late_penalty_bps :: u32
  cfg_max_risk_score :: u32
  cfg_min_funding_period :: u64

record AmountBounds =
  ab_min :: i128
  ab_max :: i128

definition is_within :: "AmountBounds \<Rightarrow> i128 \<Rightarrow> bool" where
  "is_within b amount \<longleftrightarrow> amount \<ge> ab_min b \<and> amount \<le> ab_max b"

record SmeProfile =
  sp_address :: address
  sp_verified :: bool
  sp_verifier :: address
  sp_risk_score :: u32
  sp_total_invoices :: u32
  sp_defaults :: u32
  sp_registered_at :: u64
  sp_compliance_attested :: bool
  sp_credit_limit :: i128

record PositionShare =
  sh_invoice_id :: u64
  sh_original_investor :: address
  sh_share_index :: u32
  sh_amount :: i128
  sh_owner :: address

record ShareSaleOffer =
  sso_seller :: address
  sso_invoice_id :: u64
  sso_original_investor :: address
  sso_share_index :: u32
  sso_token :: address
  sso_price :: i128

record RiskTierDefinition =
  rt_version :: u32
  rt_aaa_max :: u32
  rt_aa_max :: u32
  rt_a_max :: u32
  rt_b_max :: u32
  rt_activated_at :: u64

text \<open>\<open>RiskTierDefinition::score_to_tier\<close>: each arm is a fixed range with a guard on the
  configured maximum; a score that misses its guard falls through to the last arm.\<close>

definition score_to_tier :: "RiskTierDefinition \<Rightarrow> u32 \<Rightarrow> RiskTier" where
  "score_to_tier d score =
     (if score \<le> 20 \<and> score \<le> rt_aaa_max d then AAA
      else if 21 \<le> score \<and> score \<le> 40 \<and> score \<le> rt_aa_max d then AA
      else if 41 \<le> score \<and> score \<le> 60 \<and> score \<le> rt_a_max d then A
      else if 61 \<le> score \<and> score \<le> 80 \<and> score \<le> rt_b_max d then B
      else C)"

datatype RegistryParamKey =
    MarketplaceFeeBps | ReferrerSplitBps | MinContributionAmount
  | TierFeeAaa | TierFeeAa | TierFeeA | TierFeeB | TierFeeC
  | LatePenaltyBps | LatePenaltyTreasurySplitBps | MaxPositionBps | GracePeriodSecs
  | MinimumVerifierStake | SlashPercentageBps | MinimumDebtorScore
  | TreasuryFeeBps | ReserveAllocationBps | MinReserveRatioBps

record MultisigConfig =
  ms_threshold :: u32
  ms_signers :: "address list"

record Listing =
  li_invoice_id :: u64
  li_seller :: address
  li_asking_price :: i128
  li_face_value :: i128
  li_token :: address
  li_funded_amount :: i128
  li_funding_deadline :: u64
  li_is_active :: bool
  li_bidding_deadline :: "u64 option"

record RegistryParam =
  rp_value :: i128
  rp_min_value :: i128
  rp_max_value :: i128
  rp_updated_at :: u64
  rp_updated_by :: address

section \<open>Errors shared by the validation helpers\<close>

datatype CommonError =
    CE_InvalidAmount | CE_InvalidDueDate | CE_InvalidRiskScore | CE_InvalidCid
  | CE_InvalidFeeRate | CE_InvalidAddress | CE_EmptyString | CE_EmptyBytes | CE_FieldTooLong
  | CE_ArithmeticOverflow | CE_ArithmeticUnderflow | CE_Reentrancy | CE_InvalidLength
  | CE_BatchSizeExceeded

section \<open>The environment of a call\<close>

text \<open>
  \<open>env\<close> is what a contract reads from outside its own storage during one call: the ledger
  time, its own address, its immediate invoker, which addresses have authorised the call
  (\<open>require_auth\<close> succeeds exactly for these), and the answers of the read-only views of
  other contracts.  \<open>None\<close> is a view call that fails.  Token metadata is the answer of a
  Stellar asset contract, which is not part of the repository.
\<close>

record env =
  timestamp :: u64
  self_addr :: address
  invoker :: address
  authorised :: "address \<Rightarrow> bool"
  view_is_paused :: "address \<Rightarrow> bool"
  view_sme_profile :: "address \<Rightarrow> address \<Rightarrow> SmeProfile option"
  view_registry_param :: "address \<Rightarrow> RegistryParamKey \<Rightarrow> RegistryParam option"
  view_convert :: "address \<Rightarrow> i128 \<Rightarrow> symbol \<Rightarrow> symbol \<Rightarrow> i128 option"
  view_open_dispute :: "address \<Rightarrow> u64 \<Rightarrow> bool option"
  token_decimals :: "address \<Rightarrow> u32"
  token_symbol :: "address \<Rightarrow> string"

definition require_auth :: "env \<Rightarrow> address \<Rightarrow> ('e, unit) result" where
  "require_auth e a = (if authorised e a then Inr () else Inl Trap)"

lemma require_auth_Inr_iff [simp]: "require_auth e a = Inr u \<longleftrightarrow> authorised e a"
  by (simp add: require_auth_def)

text \<open>The environment of a callee: the calling contract is the invoker and its own address
  counts as authorised; the signatures of the transaction stay available.\<close>

definition callee_env :: "env \<Rightarrow> address \<Rightarrow> env" where
  "callee_env e callee =
     e\<lparr>self_addr := callee, invoker := self_addr e,
       authorised := (\<lambda>a. a = self_addr e \<or> authorised e a)\<rparr>"

lemma callee_env_simps [simp]:
  "timestamp (callee_env e c) = timestamp e"
  "self_addr (callee_env e c) = c"
  "invoker (callee_env e c) = self_addr e"
  "authorised (callee_env e c) a \<longleftrightarrow> a = self_addr e \<or> authorised e a"
  "view_is_paused (callee_env e c) = view_is_paused e"
  "view_sme_profile (callee_env e c) = view_sme_profile e"
  by (simp_all add: callee_env_def)

text \<open>A concrete environment for the examples: ledger time 1000, contract 1 called by 2,
  everybody has signed, nothing is paused, every other view answers emptily.\<close>

definition sample_env :: env where
  "sample_env = \<lparr>timestamp = 1000, self_addr = 1, invoker = 2, authorised = (\<lambda>_. True),
     view_is_paused = (\<lambda>_. False), view_sme_profile = (\<lambda>_ _. None),
     view_registry_param = (\<lambda>_ _. None), view_convert = (\<lambda>_ _ _ _. None),
     view_open_dispute = (\<lambda>_ _. None), token_decimals = (\<lambda>_. 7),
     token_symbol = (\<lambda>_. ''USDC'')\<rparr>"

lemma sample_env_simps [simp]:
  "timestamp sample_env = 1000" "self_addr sample_env = 1" "invoker sample_env = 2"
  "authorised sample_env a" "\<not> view_is_paused sample_env a"
  "view_sme_profile sample_env a b = None" "view_registry_param sample_env a k = None"
  "view_convert sample_env a n x y = None" "view_open_dispute sample_env a i = None"
  "token_decimals sample_env a = 7" "token_symbol sample_env a = ''USDC''"
  by (simp_all add: sample_env_def)

section \<open>Effects on contracts outside the model\<close>

text \<open>
  A state-changing call on a contract that the model does not hold the state of (a token, the
  treasury's fee ledger, the risk registry's default counter) is recorded in order.  A token
  call that traps aborts the whole transaction, so the recorded calls are those of the runs
  in which every one of them succeeds.
\<close>

datatype ext_call =
    Transfer address address address i128   \<comment> \<open>token, from, to, amount\<close>
  | CollectFee address address i128         \<comment> \<open>treasury, token, amount (result ignored)\<close>
  | RecordDefault address address address   \<comment> \<open>registry, admin, sme (result ignored)\<close>
  | RefundFee address address address i128 address   \<comment> \<open>treasury, caller, token, amount, investor\<close>
  | SetParameter address address RegistryParamKey i128   \<comment> \<open>registry, admin, key, value\<close>

text \<open>What a list of calls moves into and out of an account, per token.\<close>

fun moved_out :: "address \<Rightarrow> address \<Rightarrow> ext_call list \<Rightarrow> i128" where
  "moved_out tok a [] = 0"
| "moved_out tok a (Transfer t f d n # cs) = (if t = tok \<and> f = a then n else 0) + moved_out tok a cs"
| "moved_out tok a (_ # cs) = moved_out tok a cs"

fun moved_in :: "address \<Rightarrow> address \<Rightarrow> ext_call list \<Rightarrow> i128" where
  "moved_in tok a [] = 0"
| "moved_in tok a (Transfer t f d n # cs) = (if t = tok \<and> d = a then n else 0) + moved_in tok a cs"
| "moved_in tok a (_ # cs) = moved_in tok a cs"

lemma moved_out_append [simp]: "moved_out t a (xs @ ys) = moved_out t a xs + moved_out t a ys"
  by (induction t a xs rule: moved_out.induct) auto

lemma moved_in_append [simp]: "moved_in t a (xs @ ys) = moved_in t a xs + moved_in t a ys"
  by (induction t a xs rule: moved_in.induct) auto

section \<open>Risk tiers\<close>

lemma from_score_eq_AAA: "from_score s = AAA \<longleftrightarrow> s \<le> 20"
  by (auto simp: from_score_def)

lemma score_to_tier_default:
  assumes "rt_aaa_max d \<ge> 20" "rt_aa_max d \<ge> 40" "rt_a_max d \<ge> 60" "rt_b_max d \<ge> 80"
  shows "score_to_tier d s = from_score s"
  using assms by (auto simp: score_to_tier_def from_score_def)

text \<open>Configured tier cutoffs can only demote: whatever the definition says, a score lands in
  its fixed tier or in \<open>C\<close>, and it is demoted exactly when it exceeds the cutoff configured for
  its fixed tier.  Raising a cutoff never promotes a score.\<close>

theorem tier_cutoffs_only_demote:
  "score_to_tier d s =
     (let cutoff = (case from_score s of AAA \<Rightarrow> rt_aaa_max d | AA \<Rightarrow> rt_aa_max d | A \<Rightarrow> rt_a_max d
                      | B \<Rightarrow> rt_b_max d | C \<Rightarrow> 0) in
      if s \<le> cutoff then from_score s else C)"
  by (auto simp: score_to_tier_def from_score_def Let_def)

end
