(* ===== verification/Kora_Validation.thy ===== *)
theory Kora_Validation
  imports Kora_Types
begin

text \<open>
  The guards and the checked arithmetic every contract shares
  (\<open>contracts/shared/src/validation.rs\<close>), in the order of the file.
\<close>

type_synonym 'a cresult = "(CommonError, 'a) result"

definition UPGRADE_TIMELOCK_DELAY :: u64 where "UPGRADE_TIMELOCK_DELAY = 86400"
definition MAX_AMOUNT :: i128 where "MAX_AMOUNT = i128_max div 2"

section \<open>Guards\<close>

definition require_within_max_amount :: "i128 \<Rightarrow> unit cresult" where
  "require_within_max_amount amount =
     (if amount > MAX_AMOUNT then Inl (Err CE_InvalidAmount) else Inr ())"

definition require_non_zero_amount :: "i128 \<Rightarrow> unit cresult" where
  "require_non_zero_amount amount =
     (if amount \<le> 0 then Inl (Err CE_InvalidAmount) else Inr ())"

definition require_non_negative_amount :: "i128 \<Rightarrow> unit cresult" where
  "require_non_negative_amount amount =
     (if amount < 0 then Inl (Err CE_InvalidAmount) else Inr ())"

definition require_amount_within_bounds :: "i128 \<Rightarrow> i128 \<Rightarrow> i128 \<Rightarrow> unit cresult" where
  "require_amount_within_bounds amount mn mx =
     (if amount < mn \<or> amount > mx then Inl (Err CE_InvalidAmount) else Inr ())"

definition require_future_timestamp :: "env \<Rightarrow> u64 \<Rightarrow> unit cresult" where
  "require_future_timestamp e ts =
     (if ts \<le> timestamp e then Inl (Err CE_InvalidDueDate) else Inr ())"

definition require_valid_risk_score :: "u32 \<Rightarrow> unit cresult" where
  "require_valid_risk_score score =
     (if score > 100 then Inl (Err CE_InvalidRiskScore) else Inr ())"

definition require_valid_risk_score_with_max :: "u32 \<Rightarrow> u32 \<Rightarrow> unit cresult" where
  "require_valid_risk_score_with_max score max_score =
     (if score > max_score then Inl (Err CE_InvalidRiskScore) else Inr ())"

definition require_risk_score_within_ceiling :: "u32 \<Rightarrow> u32 \<Rightarrow> unit cresult" where
  "require_risk_score_within_ceiling score ceil =
     (if score > ceil then Inl (Err CE_InvalidRiskScore) else Inr ())"

definition require_valid_fee_bps :: "u32 \<Rightarrow> unit cresult" where
  "require_valid_fee_bps bps = (if bps > 10000 then Inl (Err CE_InvalidFeeRate) else Inr ())"

definition require_valid_bps_range :: "u32 \<Rightarrow> u32 \<Rightarrow> u32 \<Rightarrow> unit cresult" where
  "require_valid_bps_range bps min_bps max_bps =
     (if bps < min_bps \<or> bps > max_bps then Inl (Err CE_InvalidFeeRate) else Inr ())"

definition require_non_empty_string :: "string \<Rightarrow> unit cresult" where
  "require_non_empty_string s = (if length s = 0 then Inl (Err CE_EmptyString) else Inr ())"

definition CID_MAX_LEN :: u32 where "CID_MAX_LEN = 128"

definition is_base58_char :: "char \<Rightarrow> bool" where
  "is_base58_char ch =
     (let c = of_char ch :: nat in
        of_char (CHR ''1'') \<le> c \<and> c \<le> of_char (CHR ''9'')
      \<or> of_char (CHR ''A'') \<le> c \<and> c \<le> of_char (CHR ''H'')
      \<or> of_char (CHR ''J'') \<le> c \<and> c \<le> of_char (CHR ''N'')
      \<or> of_char (CHR ''P'') \<le> c \<and> c \<le> of_char (CHR ''Z'')
      \<or> of_char (CHR ''a'') \<le> c \<and> c \<le> of_char (CHR ''k'')
      \<or> of_char (CHR ''m'') \<le> c \<and> c \<le> of_char (CHR ''z''))"

definition require_valid_ipfs_cid :: "string \<Rightarrow> unit cresult" where
  "require_valid_ipfs_cid cid =
     (let len = length cid in
      if len < 2 \<or> len > CID_MAX_LEN then Inl (Err CE_InvalidCid)
      else let first = cid ! 0; second = cid ! 1 in
      if first = CHR ''Q'' \<and> second = CHR ''m'' then
        (if len \<noteq> 46 then Inl (Err CE_InvalidCid)
         else if \<exists>c \<in> set (take 46 cid). \<not> is_base58_char c then Inl (Err CE_InvalidCid)
         else Inr ())
      else if first \<in> set ''bBzfFuUkK'' then
        (if len < 10 then Inl (Err CE_InvalidCid) else Inr ())
      else Inl (Err CE_InvalidCid))"

definition require_non_empty_bytes :: "bytes \<Rightarrow> unit cresult" where
  "require_non_empty_bytes b = (if length b = 0 then Inl (Err CE_EmptyBytes) else Inr ())"

definition require_max_length_string :: "string \<Rightarrow> u32 \<Rightarrow> unit cresult" where
  "require_max_length_string s max_bytes =
     (if length s > max_bytes then Inl (Err CE_FieldTooLong) else Inr ())"

definition require_max_length_bytes :: "bytes \<Rightarrow> u32 \<Rightarrow> unit cresult" where
  "require_max_length_bytes b max_bytes =
     (if length b > max_bytes then Inl (Err CE_FieldTooLong) else Inr ())"

definition require_exact_length :: "bytes \<Rightarrow> u32 \<Rightarrow> unit cresult" where
  "require_exact_length b expected =
     (if length b \<noteq> expected then Inl (Err CE_EmptyBytes) else Inr ())"

definition MAX_IPFS_CID_LEN :: u32 where "MAX_IPFS_CID_LEN = 128"
definition MAX_DEBTOR_HASH_LEN :: u32 where "MAX_DEBTOR_HASH_LEN = 64"
definition MAX_BATCH_MINT_SIZE :: u32 where "MAX_BATCH_MINT_SIZE = 25"

definition require_batch_size_within_limit :: "u32 \<Rightarrow> unit cresult" where
  "require_batch_size_within_limit n =
     (if n > MAX_BATCH_MINT_SIZE then Inl (Err CE_InvalidAmount) else Inr ())"

section \<open>Safe arithmetic\<close>

definition bps_of :: "i128 \<Rightarrow> u32 \<Rightarrow> i128 cresult" where
  "bps_of amount bps =
     (if amount < 0 then Inl (Err CE_InvalidAmount)
      else ok_or (Option.bind (i128_mul amount (int bps)) (\<lambda>v. i128_div v 10000))
             (Err CE_ArithmeticOverflow))"

definition safe_add :: "i128 \<Rightarrow> i128 \<Rightarrow> i128 cresult" where
  "safe_add a b = ok_or (i128_add a b) (Err CE_ArithmeticOverflow)"

definition safe_sub :: "i128 \<Rightarrow> i128 \<Rightarrow> i128 cresult" where
  "safe_sub a b = ok_or (i128_sub a b) (Err CE_ArithmeticUnderflow)"

definition require_not_self :: "env \<Rightarrow> address \<Rightarrow> unit cresult" where
  "require_not_self e addr = (if addr = self_addr e then Inl (Err CE_InvalidAddress) else Inr ())"

definition require_distinct :: "address \<Rightarrow> address \<Rightarrow> unit cresult" where
  "require_distinct a b = (if a = b then Inl (Err CE_InvalidAddress) else Inr ())"

definition safe_mul :: "i128 \<Rightarrow> i128 \<Rightarrow> i128 cresult" where
  "safe_mul a b = ok_or (i128_mul a b) (Err CE_ArithmeticOverflow)"

definition safe_div :: "i128 \<Rightarrow> i128 \<Rightarrow> i128 cresult" where
  "safe_div a b =
     (if b = 0 then Inl (Err CE_InvalidAmount)
      else ok_or (i128_div a b) (Err CE_ArithmeticOverflow))"

section \<open>Decimal normalisation\<close>

definition STANDARD_DECIMALS :: u32 where "STANDARD_DECIMALS = 7"

definition normalize_amount :: "i128 \<Rightarrow> u32 \<Rightarrow> i128 cresult" where
  "normalize_amount amount decimals =
     (if decimals = STANDARD_DECIMALS then Inr amount
      else if decimals < STANDARD_DECIMALS then
        rbind (ok_or (i128_pow 10 (STANDARD_DECIMALS - decimals)) (Err CE_ArithmeticOverflow)) (\<lambda>scale.
        ok_or (i128_mul amount scale) (Err CE_ArithmeticOverflow))
      else
        rbind (ok_or (i128_pow 10 (decimals - STANDARD_DECIMALS)) (Err CE_ArithmeticOverflow)) (\<lambda>scale.
        ok_or (i128_div amount scale) (Err CE_ArithmeticOverflow)))"

definition denormalize_amount :: "i128 \<Rightarrow> u32 \<Rightarrow> i128 cresult" where
  "denormalize_amount amount decimals =
     (if decimals = STANDARD_DECIMALS then Inr amount
      else if decimals < STANDARD_DECIMALS then
        rbind (ok_or (i128_pow 10 (STANDARD_DECIMALS - decimals)) (Err CE_ArithmeticOverflow)) (\<lambda>scale.
        ok_or (i128_div amount scale) (Err CE_ArithmeticOverflow))
      else
        rbind (ok_or (i128_pow 10 (decimals - STANDARD_DECIMALS)) (Err CE_ArithmeticOverflow)) (\<lambda>scale.
        ok_or (i128_mul amount scale) (Err CE_ArithmeticOverflow)))"

definition bps_of_normalized :: "i128 \<Rightarrow> u32 \<Rightarrow> u32 \<Rightarrow> i128 cresult" where
  "bps_of_normalized amount bps decimals =
     (if amount < 0 then Inl (Err CE_InvalidAmount)
      else
        rbind (normalize_amount amount decimals) (\<lambda>normalized.
        rbind (ok_or (Option.bind (i128_mul normalized (int bps)) (\<lambda>v. i128_div v 10000))
                 (Err CE_ArithmeticOverflow)) (\<lambda>res.
        denormalize_amount res decimals)))"


section \<open>What the guards and the arithmetic guarantee\<close>

named_theorems guard_defs
lemmas [guard_defs] = require_within_max_amount_def require_non_zero_amount_def
  require_non_negative_amount_def require_amount_within_bounds_def require_future_timestamp_def
  require_valid_risk_score_def require_valid_risk_score_with_max_def
  require_risk_score_within_ceiling_def require_valid_fee_bps_def require_valid_bps_range_def
  require_non_empty_string_def require_non_empty_bytes_def require_max_length_string_def
  require_max_length_bytes_def require_exact_length_def require_batch_size_within_limit_def
  require_not_self_def require_distinct_def

lemma mult_bps_fits:
  assumes "0 \<le> a" "0 \<le> (b::int)" "a * b \<le> i128_max"
  shows "Option.bind (i128_mul a b) (\<lambda>v. i128_div v 10000) = Some (a * b div 10000)"
proof -
  have "0 \<le> a * b" using assms by simp
  moreover from this have "i128_min \<le> a * b" by (rule order_trans[rotated]) simp
  ultimately show ?thesis using assms by (simp add: i128_mul_def i128_div_nonneg i128_fit_def)
qed

lemma bps_of_Inr_iff:
  "bps_of a b = Inr r \<longleftrightarrow> 0 \<le> a \<and> a * int b \<le> i128_max \<and> r = a * int b div 10000"
proof (cases "0 \<le> a \<and> a * int b \<le> i128_max")
  case True
  then show ?thesis using mult_bps_fits[of a "int b"] by (auto simp: bps_of_def)
next
  case False
  then show ?thesis
    by (auto simp: bps_of_def i128_mul_def i128_fit_def split: Option.bind_splits if_splits)
qed

lemma bps_of_bounds:
  assumes "bps_of a b = Inr r" "b \<le> 10000"
  shows "0 \<le> r" "r \<le> a"
proof -
  from assms(1) have a: "0 \<le> a" and r: "r = a * int b div 10000"
    by (auto simp: bps_of_Inr_iff)
  show "0 \<le> r" using a by (simp add: r pos_imp_zdiv_nonneg_iff)
  have "a * int b \<le> a * 10000" using a assms(2) by (intro mult_left_mono) auto
  then show "r \<le> a" by (simp add: r)
qed

lemma pow10_le_imp_pos: "i128_pow 10 n = Some s \<Longrightarrow> s = 10 ^ n \<and> 0 < s"
  by (auto simp: i128_pow_def)

lemma i128_mul_nonneg_scale:
  assumes "i128_mul a s = Some m" "0 \<le> a" "0 < s" shows "m = a * s" "0 \<le> m" "m \<le> i128_max"
  using assms by (auto simp: i128_mul_def)

text \<open>Decimal normalisation never makes a payout larger than its exact share: all three
  decimal cases round down.\<close>

lemma bps_of_normalized_le:
  assumes "bps_of_normalized a b d = Inr r" and "a \<le> i128_max"
  shows "0 \<le> a" "0 \<le> r" "r * 10000 \<le> a * int b"
proof -
  from assms(1) obtain n res where a: "0 \<le> a"
    and n: "normalize_amount a d = Inr n"
    and res: "Option.bind (i128_mul n (int b)) (\<lambda>v. i128_div v 10000) = Some res"
    and r: "denormalize_amount res d = Inr r"
    by (auto simp: bps_of_normalized_def)
  have core: "0 \<le> res \<and> res \<le> i128_max \<and> res * 10000 \<le> n * int b" if "0 \<le> n"
  proof -
    have "0 \<le> n * int b" using that by simp
    moreover obtain v where "i128_mul n (int b) = Some v" "i128_div v 10000 = Some res"
      using res by (cases "i128_mul n (int b)") auto
    ultimately have "res = n * int b div 10000" "n * int b \<le> i128_max"
      using i128_div_nonneg[of "n * int b" 10000] by auto
    moreover have "n * int b div 10000 \<le> n * int b"
      using zdiv_mono2[of "n * int b" 1 10000] \<open>0 \<le> n * int b\<close> by simp
    ultimately show ?thesis
      using \<open>0 \<le> n * int b\<close> by (auto simp: pos_imp_zdiv_nonneg_iff)
  qed
  have "0 \<le> r \<and> r * 10000 \<le> a * int b"
  proof (cases d STANDARD_DECIMALS rule: linorder_cases)
    case equal
    with n r a core show ?thesis by (auto simp: normalize_amount_def denormalize_amount_def)
  next
    case less
    then obtain s where s: "i128_pow 10 (STANDARD_DECIMALS - d) = Some s" "i128_mul a s = Some n"
      "i128_div res s = Some r"
      using n r by (auto simp: normalize_amount_def denormalize_amount_def)
    have sp: "0 < s" using s(1) pow10_le_imp_pos by auto
    have nn: "n = a * s" "0 \<le> n" using s(2) a sp by (auto simp: i128_mul_def)
    with core have c: "0 \<le> res" "res \<le> i128_max" "res * 10000 \<le> a * s * int b" by auto
    then have rr: "r = res div s" using s(3) i128_div_nonneg[of res s] sp by simp
    have "r * s \<le> res" using sp by (simp add: rr pos_mod_sign minus_mod_eq_div_mult [symmetric])
    then have "(r * 10000) * s \<le> (a * int b) * s" using c by (simp add: algebra_simps)
    with sp rr c show ?thesis by (simp add: pos_imp_zdiv_nonneg_iff)
  next
    case greater
    then obtain s where s: "i128_pow 10 (d - STANDARD_DECIMALS) = Some s" "i128_div a s = Some n"
      "i128_mul res s = Some r"
      using n r by (auto simp: normalize_amount_def denormalize_amount_def)
    have sp: "0 < s" using s(1) pow10_le_imp_pos by auto
    have nn: "n = a div s" "0 \<le> n"
      using s(2) i128_div_nonneg[of a s] a sp assms(2) by (auto simp: pos_imp_zdiv_nonneg_iff)
    with core have c: "0 \<le> res" "res * 10000 \<le> n * int b" by auto
    have rr: "r = res * s" using s(3) by simp
    have "res * 10000 * s \<le> n * int b * s" using c(2) sp by (intro mult_right_mono) auto
    also have "\<dots> = (n * s) * int b" by simp
    also have "n * s \<le> a" using sp by (simp add: nn pos_mod_sign minus_mod_eq_div_mult [symmetric])
    then have "(n * s) * int b \<le> a * int b" by (intro mult_right_mono) auto
    finally show ?thesis using rr c sp by (simp add: algebra_simps)
  qed
  with a show "0 \<le> a" "0 \<le> r" "r * 10000 \<le> a * int b" by auto
qed

text \<open>Every result is an \<open>i128\<close>.\<close>

lemma bps_of_normalized_max:
  assumes "bps_of_normalized a b d = Inr r"
  shows "r \<le> i128_max"
  using assms
  by (auto simp: bps_of_normalized_def denormalize_amount_def i128_div_def
      split: if_splits Option.bind_splits)

lemma normalize_denormalize:
  assumes "normalize_amount a d = Inr n" "d < STANDARD_DECIMALS" "0 \<le> a" "a \<le> i128_max"
  shows "denormalize_amount n d = Inr a"
proof -
  obtain s where s: "i128_pow 10 (STANDARD_DECIMALS - d) = Some s" "i128_mul a s = Some n"
    using assms(1,2) by (auto simp: normalize_amount_def)
  have sp: "0 < s" using s(1) pow10_le_imp_pos by auto
  have "i128_div n s = Some a"
    using i128_div_nonneg[of n s] i128_mul_nonneg_scale[OF s(2) assms(3) sp] sp by simp
  with s(1) assms(2) show ?thesis by (simp add: denormalize_amount_def)
qed

text \<open>Converting an amount to seven decimals and back is exact for tokens with at most seven
  decimals; for a token with more it rounds down by less than one unit of the seventh decimal.\<close>

theorem normalize_roundtrip:
  assumes "normalize_amount a d = Inr n" "0 \<le> a" "a \<le> i128_max"
  shows "\<exists>b. denormalize_amount n d = Inr b \<and> b \<le> a \<and> a < b + 10 ^ (d - STANDARD_DECIMALS)"
proof (cases "d \<le> STANDARD_DECIMALS")
  case True
  have "denormalize_amount n d = Inr a"
  proof (cases "d = STANDARD_DECIMALS")
    case True
    with assms(1) show ?thesis by (simp add: normalize_amount_def denormalize_amount_def)
  next
    case False
    with \<open>d \<le> STANDARD_DECIMALS\<close> normalize_denormalize[OF assms(1) _ assms(2,3)] show ?thesis by simp
  qed
  with True show ?thesis by simp
next
  case False
  then obtain s where s: "i128_pow 10 (d - STANDARD_DECIMALS) = Some s" "i128_div a s = Some n"
    using assms(1) by (auto simp: normalize_amount_def)
  note sp = pow10_le_imp_pos[OF s(1)]
  have n: "n = a div s" using s(2) i128_div_nonneg[of a s] sp assms(2,3) by simp
  have dm: "a div s * s + a mod s = a" by (rule div_mult_mod_eq)
  have "0 \<le> a mod s" "a mod s < s" using sp by auto
  note dm = dm this
  have "0 \<le> a div s * s" using assms(2) sp by (simp add: pos_imp_zdiv_nonneg_iff)
  moreover have "a div s * s \<le> a" using dm by linarith
  ultimately have "i128_mul n s = Some (a div s * s)" using assms(3) n by simp
  moreover have "a < a div s * s + s" using dm by linarith
  ultimately show ?thesis using False s(1) sp \<open>a div s * s \<le> a\<close>
    by (simp add: denormalize_amount_def)
qed

theorem normalize_roundtrip_witness:
  "normalize_amount 1234567891 9 = Inr 12345678 \<and>
     (\<exists>b. denormalize_amount 12345678 9 = Inr b \<and> b \<le> 1234567891 \<and> (1234567891::int) < b + 10 ^ (9 - STANDARD_DECIMALS))"
proof -
  have "normalize_amount 1234567891 9 = Inr 12345678"
    by (simp add: normalize_amount_def STANDARD_DECIMALS_def int_defs signed_divide_int_def)
  from normalize_roundtrip[OF this] this show ?thesis by (simp add: i128_max_def)
qed

end
