(* ===== verification/Kora_Timelock.thy ===== *)
theory Kora_Timelock
  imports Kora_Validation
begin

text \<open>
  The shared timelocked-upgrade module (\<open>contracts/shared/src/timelock.rs\<close>): proposals kept
  by id, executable once the delay has passed, cancellable, never executable twice.  The three
  storage keys \<open>Delay\<close>, \<open>NextId\<close> and \<open>Proposal(id)\<close> are the fields of the state.
\<close>

definition DEFAULT_UPGRADE_DELAY :: u64 where "DEFAULT_UPGRADE_DELAY = 48 * 60 * 60"

record UpgradeProposal =
  up_wasm_hash :: bytes
  up_proposer :: address
  up_proposed_at :: u64
  up_executed :: bool
  up_cancelled :: bool

datatype TimelockError = ProposalNotFound | AlreadyExecuted | AlreadyCancelled | DelayNotElapsed

record timelock =
  tl_delay :: "u64 option"
  tl_next_id :: "u64 option"
  tl_proposals :: "u64 \<Rightarrow> UpgradeProposal option"

definition get_delay :: "timelock \<Rightarrow> u64" where
  "get_delay s = (case tl_delay s of None \<Rightarrow> DEFAULT_UPGRADE_DELAY | Some d \<Rightarrow> d)"

definition set_delay :: "timelock \<Rightarrow> u64 \<Rightarrow> timelock" where
  "set_delay s d = s\<lparr>tl_delay := Some d\<rparr>"

definition propose_upgrade :: "env \<Rightarrow> timelock \<Rightarrow> address \<Rightarrow> bytes \<Rightarrow> (TimelockError, timelock \<times> u64) result" where
  "propose_upgrade e s who wasm_hash =
     (let pid = (case tl_next_id s of None \<Rightarrow> 0 | Some i \<Rightarrow> i);
          proposal = \<lparr>up_wasm_hash = wasm_hash, up_proposer = who, up_proposed_at = timestamp e,
                      up_executed = False, up_cancelled = False\<rparr> in
      rbind (ok_or (u64_add pid 1) Trap) (\<lambda>nxt.
      Inr (s\<lparr>tl_proposals := (tl_proposals s)(pid \<mapsto> proposal), tl_next_id := Some nxt\<rparr>, pid)))"

definition get_proposal :: "timelock \<Rightarrow> u64 \<Rightarrow> (TimelockError, UpgradeProposal) result" where
  "get_proposal s pid = ok_or (tl_proposals s pid) (Err ProposalNotFound)"

definition executable_at :: "timelock \<Rightarrow> u64 \<Rightarrow> (TimelockError, u64) result" where
  "executable_at s pid =
     rbind (get_proposal s pid) (\<lambda>p.
     ok_or (u64_add (up_proposed_at p) (get_delay s)) Trap)"

definition prepare_execute :: "env \<Rightarrow> timelock \<Rightarrow> u64 \<Rightarrow> (TimelockError, UpgradeProposal) result" where
  "prepare_execute e s pid =
     rbind (get_proposal s pid) (\<lambda>p.
     if up_cancelled p then Inl (Err AlreadyCancelled)
     else if up_executed p then Inl (Err AlreadyExecuted)
     else rbind (ok_or (u64_add (up_proposed_at p) (get_delay s)) Trap) (\<lambda>at.
     if timestamp e < at then Inl (Err DelayNotElapsed) else Inr p))"

definition mark_executed :: "timelock \<Rightarrow> u64 \<Rightarrow> UpgradeProposal \<Rightarrow> timelock" where
  "mark_executed s pid p = s\<lparr>tl_proposals := (tl_proposals s)(pid \<mapsto> p\<lparr>up_executed := True\<rparr>)\<rparr>"

definition cancel_upgrade :: "timelock \<Rightarrow> u64 \<Rightarrow> (TimelockError, timelock) result" where
  "cancel_upgrade s pid =
     rbind (get_proposal s pid) (\<lambda>p.
     if up_executed p then Inl (Err AlreadyExecuted)
     else if up_cancelled p then Inl (Err AlreadyCancelled)
     else Inr (s\<lparr>tl_proposals := (tl_proposals s)(pid \<mapsto> p\<lparr>up_cancelled := True\<rparr>)\<rparr>))"

definition propose_and_schedule :: "env \<Rightarrow> timelock \<Rightarrow> address \<Rightarrow> bytes \<Rightarrow> (TimelockError, timelock \<times> u64) result" where
  "propose_and_schedule e s who wasm_hash = propose_upgrade e s who wasm_hash"

section \<open>Runs of the module\<close>

text \<open>The entry points as one step relation: time only moves forward, and an executed step
  is \<open>prepare_execute\<close> followed by \<open>mark_executed\<close>, as a contract's upgrade entry point
  calls them.\<close>

inductive tl_step :: "u64 \<times> timelock \<Rightarrow> u64 \<times> timelock \<Rightarrow> bool" where
  tick: "t \<le> t' \<Longrightarrow> tl_step (t, s) (t', s)"
| propose: "timestamp e = t \<Longrightarrow> propose_upgrade e s who h = Inr (s', pid) \<Longrightarrow> tl_step (t, s) (t, s')"
| execute: "timestamp e = t \<Longrightarrow> prepare_execute e s pid = Inr p \<Longrightarrow>
     tl_step (t, s) (t, mark_executed s pid p)"
| cancel: "cancel_upgrade s pid = Inr s' \<Longrightarrow> tl_step (t, s) (t, s')"

definition tl_fresh :: "timelock \<Rightarrow> u64 \<Rightarrow> bool" where
  "tl_fresh s pid \<longleftrightarrow> (case tl_next_id s of None \<Rightarrow> 0 | Some i \<Rightarrow> i) \<le> pid"

text \<open>No id is handed out twice, no proposal is both executed and cancelled, and every
  proposal was made in the past.\<close>

definition tl_inv :: "u64 \<Rightarrow> timelock \<Rightarrow> bool" where
  "tl_inv t s \<longleftrightarrow>
     (\<forall>pid p. tl_proposals s pid = Some p \<longrightarrow>
        \<not> tl_fresh s pid \<and> \<not> (up_executed p \<and> up_cancelled p) \<and> up_proposed_at p \<le> t)"

lemma prepare_execute_Inr:
  "prepare_execute e s pid = Inr p \<longleftrightarrow>
     tl_proposals s pid = Some p \<and> \<not> up_cancelled p \<and> \<not> up_executed p \<and>
     up_proposed_at p + get_delay s \<le> u64_max \<and> up_proposed_at p + get_delay s \<le> timestamp e"
  by (auto simp: prepare_execute_def get_proposal_def)

lemma cancel_upgrade_Inr:
  "cancel_upgrade s pid = Inr s' \<longleftrightarrow>
     (\<exists>p. tl_proposals s pid = Some p \<and> \<not> up_executed p \<and> \<not> up_cancelled p \<and>
          s' = s\<lparr>tl_proposals := (tl_proposals s)(pid \<mapsto> p\<lparr>up_cancelled := True\<rparr>)\<rparr>)"
  by (auto simp: cancel_upgrade_def get_proposal_def)

lemma tl_step_inv: "tl_step x y \<Longrightarrow> tl_inv (fst x) (snd x) \<Longrightarrow> tl_inv (fst y) (snd y)"
proof (induction rule: tl_step.induct)
  case (tick t t' s)
  then show ?case by (fastforce simp: tl_inv_def)
next
  case (propose e t s who h s' pid)
  then show ?case
    by (fastforce simp: tl_inv_def propose_upgrade_def tl_fresh_def Let_def split: if_splits option.splits)
next
  case (execute e t s pid p)
  then show ?case
    by (auto simp: tl_inv_def mark_executed_def prepare_execute_Inr tl_fresh_def split: if_splits)
next
  case (cancel s pid s' t)
  then show ?case
    by (auto simp: tl_inv_def cancel_upgrade_Inr tl_fresh_def split: if_splits)
qed

text \<open>A settled proposal (executed or cancelled) keeps its outcome through every later step.\<close>

lemma tl_step_settled:
  assumes "tl_step x y" "tl_inv (fst x) (snd x)"
    "tl_proposals (snd x) pid = Some p" "up_executed p \<or> up_cancelled p"
  shows "tl_proposals (snd y) pid = Some p"
  using assms
proof (induction rule: tl_step.induct)
  case (propose e t s who h s' qid)
  then show ?case
    by (fastforce simp: propose_upgrade_def Let_def tl_inv_def tl_fresh_def split: option.splits)
qed (auto simp: mark_executed_def prepare_execute_Inr cancel_upgrade_Inr)

definition tl_empty :: timelock where
  "tl_empty = \<lparr>tl_delay = None, tl_next_id = None, tl_proposals = (\<lambda>_. None)\<rparr>"

lemma tl_inv_empty: "tl_inv t tl_empty"
  by (simp add: tl_inv_def tl_empty_def)

lemma tl_run_inv: "tl_step\<^sup>*\<^sup>* x y \<Longrightarrow> tl_inv (fst x) (snd x) \<Longrightarrow> tl_inv (fst y) (snd y)"
  by (induction rule: rtranclp_induct) (auto intro: tl_step_inv)

lemma tl_run_settled:
  assumes "tl_step\<^sup>*\<^sup>* x y" "tl_inv (fst x) (snd x)"
    "tl_proposals (snd x) pid = Some p" "up_executed p \<or> up_cancelled p"
  shows "tl_proposals (snd y) pid = Some p"
  using assms
  by (induction rule: rtranclp_induct) (auto intro: tl_step_settled tl_run_inv)

text \<open>In any run of the module an upgrade is executed only after its delay, and at most once:
  from then on every attempt to execute or to cancel it fails.\<close>

theorem upgrade_executes_once_after_delay:
  assumes "tl_step\<^sup>*\<^sup>* (t0, tl_empty) (t, s)" "timestamp e = t" "prepare_execute e s pid = Inr p"
    and "tl_step\<^sup>*\<^sup>* (t, mark_executed s pid p) (t', s')"
  shows "up_proposed_at p + get_delay s \<le> t \<and>
    prepare_execute e' s' pid = Inl (Err AlreadyExecuted) \<and> cancel_upgrade s' pid = Inl (Err AlreadyExecuted)"
proof -
  have inv: "tl_inv t s" using tl_run_inv[OF assms(1)] tl_inv_empty by simp
  have p: "tl_proposals s pid = Some p" "\<not> up_cancelled p" "up_proposed_at p + get_delay s \<le> t"
    using assms(2,3) by (auto simp: prepare_execute_Inr)
  have "tl_step (t, s) (t, mark_executed s pid p)" using assms(2,3) by (rule execute)
  from tl_step_inv[OF this] inv have inv1: "tl_inv t (mark_executed s pid p)" by simp
  have "tl_proposals s' pid = Some (p\<lparr>up_executed := True\<rparr>)"
    using tl_run_settled[OF assms(4), of pid "p\<lparr>up_executed := True\<rparr>"] inv1 by (simp add: mark_executed_def)
  with p show ?thesis by (simp add: prepare_execute_def cancel_upgrade_def get_proposal_def)
qed

theorem upgrade_executes_once_after_delay_witness:
  "\<exists>s p. prepare_execute (sample_env\<lparr>timestamp := 200000\<rparr>) s 0 = Inr p \<and>
     prepare_execute (sample_env\<lparr>timestamp := 900000\<rparr>) (mark_executed s 0 p) 0 = Inl (Err AlreadyExecuted)"
proof -
  let ?e = "sample_env\<lparr>timestamp := 200000\<rparr>"
  obtain s where pr: "propose_upgrade sample_env tl_empty 10 [1] = Inr (s, 0)"
    by (simp add: propose_upgrade_def tl_empty_def u64_max_def)
  have "tl_step (1000, tl_empty) (1000, s)" by (rule propose[OF _ pr]) simp
  moreover have "tl_step (1000, s) (200000, s)" by (rule tick) simp
  ultimately have run: "tl_step\<^sup>*\<^sup>* (1000, tl_empty) (200000, s)" by simp
  obtain p where p: "prepare_execute ?e s 0 = Inr p"
    using pr by (auto simp: propose_upgrade_def tl_empty_def prepare_execute_def get_proposal_def
        get_delay_def DEFAULT_UPGRADE_DELAY_def u64_max_def)
  from upgrade_executes_once_after_delay[OF run _ p rtranclp.rtrancl_refl] p show ?thesis by auto
qed

end
