(* ===== verification/Kora_Queue.thy ===== *)
theory Kora_Queue
  imports Kora_Validation
begin

text \<open>
  The FIFO withdrawal queue of \<open>contracts/shared/src/queue.rs\<close>.  The storage keys
  \<open>Pointers\<close> and \<open>Request(id)\<close> are the two fields of the state; the \<open>fill_fn\<close> callback is a
  function on a world \<open>'w\<close> of its own that says whether the payment went through.  The module
  returns \<open>Err(())\<close>, so its error type is \<open>unit\<close>.
\<close>

record WithdrawalRequest =
  wr_id :: u64
  wr_investor :: address
  wr_amount :: i128
  wr_filled_amount :: i128

record QueuePointers =
  qp_head :: u64
  qp_tail :: u64
  qp_next_id :: u64

record queue =
  q_pointers :: "QueuePointers option"
  q_requests :: "u64 \<Rightarrow> WithdrawalRequest option"

definition MAX_QUEUE_LEN :: u64 where "MAX_QUEUE_LEN = 100"

definition get_pointers :: "queue \<Rightarrow> QueuePointers" where
  "get_pointers q =
     (case q_pointers q of
        None \<Rightarrow> \<lparr>qp_head = 0, qp_tail = 0, qp_next_id = 1\<rparr> | Some p \<Rightarrow> p)"

definition set_pointers :: "queue \<Rightarrow> QueuePointers \<Rightarrow> queue" where
  "set_pointers q p = q\<lparr>q_pointers := Some p\<rparr>"

lemma get_set_pointers [simp]:
  "get_pointers (set_pointers q p) = p" "q_requests (set_pointers q p) = q_requests q"
  by (simp_all add: get_pointers_def set_pointers_def)

definition get_request :: "queue \<Rightarrow> u64 \<Rightarrow> WithdrawalRequest option" where
  "get_request q i = q_requests q i"

definition set_request :: "queue \<Rightarrow> WithdrawalRequest \<Rightarrow> queue" where
  "set_request q r = q\<lparr>q_requests := (q_requests q)(wr_id r \<mapsto> r)\<rparr>"

definition remove_request :: "queue \<Rightarrow> u64 \<Rightarrow> queue" where
  "remove_request q i = q\<lparr>q_requests := (q_requests q)(i := None)\<rparr>"

definition request_withdrawal :: "queue \<Rightarrow> address \<Rightarrow> i128 \<Rightarrow> (unit, queue \<times> u64) result" where
  "request_withdrawal q investor amount =
     (if amount \<le> 0 then Inl (Err ())
      else let p = get_pointers q in
      rbind (ok_or (u64_sub (qp_tail p) (qp_head p)) Trap) (\<lambda>current_len.
      if current_len \<ge> MAX_QUEUE_LEN then Inl (Err ())
      else let req_id = qp_next_id p;
               req = \<lparr>wr_id = req_id, wr_investor = investor, wr_amount = amount,
                      wr_filled_amount = 0\<rparr>;
               q1 = set_request q req in
      rbind (ok_or (u64_add (qp_tail p) 1) Trap) (\<lambda>tl.
      rbind (ok_or (u64_add (qp_next_id p) 1) Trap) (\<lambda>nid.
      Inr (set_pointers q1 (p\<lparr>qp_tail := tl, qp_next_id := nid\<rparr>), req_id)))))"

definition cancel_request :: "env \<Rightarrow> queue \<Rightarrow> u64 \<Rightarrow> address \<Rightarrow> (unit, queue \<times> i128) result" where
  "cancel_request e q i investor =
     rbind (require_auth e investor) (\<lambda>_.
     rbind (ok_or (get_request q i) (Err ())) (\<lambda>req.
     if wr_investor req \<noteq> investor then Inl (Err ())
     else rbind (ok_or (i128_sub (wr_amount req) (wr_filled_amount req)) (Err ())) (\<lambda>remaining.
     Inr (remove_request q i, remaining))))"

text \<open>The \<open>while\<close> loop of \<open>process_queue\<close>: its state is the queue, the head pointer, the
  liquidity left and the world of the callback; the tail does not change.\<close>

function process_loop ::
  "('w \<Rightarrow> address \<Rightarrow> i128 \<Rightarrow> 'w \<times> bool) \<Rightarrow> u64 \<Rightarrow> u64 \<Rightarrow> i128 \<Rightarrow> queue \<Rightarrow> 'w
     \<Rightarrow> (unit, u64 \<times> i128 \<times> queue \<times> 'w) result" where
  "process_loop fill hp tp avail q w =
     (if hp < tp \<and> avail > 0 then
        (case get_request q hp of
           None \<Rightarrow> process_loop fill (hp + 1) tp avail q w
         | Some req \<Rightarrow>
             (case i128_sub (wr_amount req) (wr_filled_amount req) of
                None \<Rightarrow> Inl Trap
              | Some remaining \<Rightarrow>
                  let fill_amount = min remaining avail in
                  if fill_amount > 0 then
                    (case fill w (wr_investor req) fill_amount of (w', success) \<Rightarrow>
                      if \<not> success then Inr (hp, avail, q, w')
                      else (case i128_add (wr_filled_amount req) fill_amount of
                              None \<Rightarrow> Inl Trap
                            | Some filled \<Rightarrow>
                                if filled \<ge> wr_amount req
                                then process_loop fill (hp + 1) tp (avail - fill_amount)
                                       (remove_request q hp) w'
                                else process_loop fill hp tp (avail - fill_amount)
                                       (set_request q (req\<lparr>wr_filled_amount := filled\<rparr>)) w'))
                  else Inr (hp, avail, q, w)))
      else Inr (hp, avail, q, w))"
  by pat_completeness auto
termination
  by (relation "measure (\<lambda>(fill, hp, tp, avail, q, w). (tp - hp) + nat avail)")
    (auto split: if_splits)

declare process_loop.simps [simp del]

definition process_queue ::
  "('w \<Rightarrow> address \<Rightarrow> i128 \<Rightarrow> 'w \<times> bool) \<Rightarrow> queue \<Rightarrow> i128 \<Rightarrow> 'w \<Rightarrow> (unit, queue \<times> i128 \<times> 'w) result" where
  "process_queue fill q avail w =
     (let p = get_pointers q in
      rbind (process_loop fill (qp_head p) (qp_tail p) avail q w) (\<lambda>(hp, avail', q', w').
      Inr (set_pointers q' (p\<lparr>qp_head := hp\<rparr>), avail', w')))"

section \<open>Well-formed queues\<close>

definition queue_inv :: "queue \<Rightarrow> bool" where
  "queue_inv q \<longleftrightarrow>
     (let p = get_pointers q in
        qp_head p \<le> qp_tail p \<and> qp_tail p - qp_head p \<le> MAX_QUEUE_LEN \<and>
        qp_next_id p = qp_tail p + 1 \<and>
        (\<forall>i r. q_requests q i = Some r \<longrightarrow>
           wr_id r = i \<and> i \<le> qp_tail p \<and> 0 \<le> wr_filled_amount r \<and>
           wr_filled_amount r < wr_amount r \<and> wr_amount r \<le> i128_max))"

lemmas queue_defs = get_pointers_def set_pointers_def get_request_def set_request_def
  remove_request_def

definition empty_queue :: queue where
  "empty_queue = \<lparr>q_pointers = None, q_requests = (\<lambda>_. None)\<rparr>"

lemma queue_inv_empty: "queue_inv empty_queue"
  by (simp add: queue_inv_def empty_queue_def queue_defs)

lemma request_withdrawal_inv:
  assumes "queue_inv q" "request_withdrawal q a n = Inr (q', i)" "n \<le> i128_max"
  shows "queue_inv q'"
  using assms
  by (auto simp: queue_inv_def request_withdrawal_def Let_def queue_defs MAX_QUEUE_LEN_def
      split: if_splits) fastforce+

lemma cancel_request_inv:
  "queue_inv q \<Longrightarrow> cancel_request e q i a = Inr (q', n) \<Longrightarrow> queue_inv q'"
  by (auto simp: queue_inv_def cancel_request_def queue_defs Let_def split: if_splits)

section \<open>The loop as a step relation\<close>

text \<open>One pass of the loop that goes on: skip a missing request, pay a request in full, or
  pay it in part (which uses up the liquidity).  States are head, liquidity, queue, world.\<close>

inductive serve ::
  "('w \<Rightarrow> address \<Rightarrow> i128 \<Rightarrow> 'w \<times> bool) \<Rightarrow> u64
     \<Rightarrow> u64 \<times> i128 \<times> queue \<times> 'w \<Rightarrow> u64 \<times> i128 \<times> queue \<times> 'w \<Rightarrow> bool"
  for fill tp where
  skip: "hp < tp \<Longrightarrow> 0 < avail \<Longrightarrow> q_requests q hp = None \<Longrightarrow>
     serve fill tp (hp, avail, q, w) (Suc hp, avail, q, w)"
| full: "hp < tp \<Longrightarrow> 0 < avail \<Longrightarrow> q_requests q hp = Some r \<Longrightarrow>
     wr_amount r - wr_filled_amount r \<le> avail \<Longrightarrow>
     fill w (wr_investor r) (wr_amount r - wr_filled_amount r) = (w', True) \<Longrightarrow>
     serve fill tp (hp, avail, q, w)
       (Suc hp, avail - (wr_amount r - wr_filled_amount r), remove_request q hp, w')"
| part: "hp < tp \<Longrightarrow> 0 < avail \<Longrightarrow> q_requests q hp = Some r \<Longrightarrow>
     avail < wr_amount r - wr_filled_amount r \<Longrightarrow>
     fill w (wr_investor r) avail = (w', True) \<Longrightarrow>
     serve fill tp (hp, avail, q, w)
       (hp, 0, set_request q (r\<lparr>wr_filled_amount := wr_filled_amount r + avail\<rparr>), w')"

text \<open>Where the loop ends: nothing left to serve, no liquidity, or a refused payment.\<close>

definition halted ::
  "('w \<Rightarrow> address \<Rightarrow> i128 \<Rightarrow> 'w \<times> bool) \<Rightarrow> u64 \<Rightarrow> u64 \<times> i128 \<times> queue \<times> 'w \<Rightarrow> 'w \<Rightarrow> bool" where
  "halted fill tp x w' \<longleftrightarrow> (case x of (hp, avail, q, w) \<Rightarrow>
     (\<not> (hp < tp \<and> 0 < avail) \<and> w' = w) \<or>
     (hp < tp \<and> 0 < avail \<and> (\<exists>r. q_requests q hp = Some r \<and>
        fill w (wr_investor r) (min (wr_amount r - wr_filled_amount r) avail) = (w', False))))"

definition reqs_ok :: "u64 \<Rightarrow> queue \<Rightarrow> bool" where
  "reqs_ok tp q \<longleftrightarrow> (\<forall>i r. q_requests q i = Some r \<longrightarrow>
     wr_id r = i \<and> i \<le> tp \<and> 0 \<le> wr_filled_amount r \<and>
     wr_filled_amount r < wr_amount r \<and> wr_amount r \<le> i128_max)"

lemma reqs_okD:
  assumes "reqs_ok tp q" "q_requests q i = Some r"
  shows "wr_id r = i" "0 \<le> wr_filled_amount r" "wr_filled_amount r < wr_amount r"
    "wr_amount r \<le> i128_max" "i \<le> tp"
  using assms by (auto simp: reqs_ok_def)

lemma reqs_ok_range:
  assumes "reqs_ok tp q" "q_requests q i = Some r"
  shows "i128_min \<le> wr_amount r - wr_filled_amount r"
    and "wr_amount r - wr_filled_amount r \<le> i128_max"
    and "0 \<le> m \<Longrightarrow> i128_min \<le> wr_filled_amount r + m"
    and "m \<le> wr_amount r - wr_filled_amount r \<Longrightarrow> wr_filled_amount r + m \<le> i128_max"
  using reqs_okD[OF assms] by simp_all

lemma serve_reqs_ok: "serve fill tp x y \<Longrightarrow> reqs_ok tp (fst (snd (snd x))) \<Longrightarrow> reqs_ok tp (fst (snd (snd y)))"
proof (induction rule: serve.induct)
  case (part hp avail q r w w')
  then show ?case by (auto simp: reqs_ok_def queue_defs)
qed (auto simp: reqs_ok_def queue_defs)

lemma process_loop_halted:
  "halted fill tp (hp, avail, q, w) w' \<Longrightarrow> reqs_ok tp q \<Longrightarrow>
     process_loop fill hp tp avail q w = Inr (hp, avail, q, w')"
proof -
  assume h: "halted fill tp (hp, avail, q, w) w'" and ok: "reqs_ok tp q"
  show ?thesis
  proof (cases "hp < tp \<and> 0 < avail")
    case True
    with h obtain r where r: "q_requests q hp = Some r"
      "fill w (wr_investor r) (min (wr_amount r - wr_filled_amount r) avail) = (w', False)"
      by (auto simp: halted_def)
    moreover have "0 < min (wr_amount r - wr_filled_amount r) avail"
      using reqs_okD(3)[OF ok r(1)] True by simp
    ultimately show ?thesis
      using True reqs_ok_range(1,2)[OF ok r(1)]
      by (subst process_loop.simps) (simp add: get_request_def Let_def)
  next
    case False
    with h show ?thesis by (subst process_loop.simps) (auto simp: halted_def)
  qed
qed

lemma process_loop_serve:
  assumes "serve fill tp (hp, avail, q, w) (hp1, avail1, q1, w1)" "reqs_ok tp q"
  shows "process_loop fill hp tp avail q w = process_loop fill hp1 tp avail1 q1 w1"
  using assms
proof (induction "(hp, avail, q, w)" "(hp1, avail1, q1, w1)" rule: serve.induct)
  case skip
  then show ?case by (subst process_loop.simps) (auto simp: get_request_def)
next
  case (full r)
  note ok = reqs_okD[OF full.prems full.hyps(3)] reqs_ok_range(1,2)[OF full.prems full.hyps(3)]
  show ?case
    using full.hyps ok by (subst process_loop.simps) (simp add: get_request_def Let_def min_absorb1)
next
  case (part r)
  note ok = reqs_okD[OF part.prems part.hyps(3)] reqs_ok_range(1,2)[OF part.prems part.hyps(3)]
  show ?case
    using part.hyps ok by (subst process_loop.simps) (simp add: get_request_def Let_def min_absorb2)
qed

lemma serve_or_halt:
  "reqs_ok tp q \<Longrightarrow> (\<exists>y. serve fill tp (hp, avail, q, w) y) \<or> (\<exists>w'. halted fill tp (hp, avail, q, w) w')"
proof (cases "hp < tp \<and> 0 < avail")
  case True
  show ?thesis
  proof (cases "q_requests q hp")
    case None
    with True show ?thesis by (blast intro: serve.skip)
  next
    case (Some r)
    obtain w' b where "fill w (wr_investor r) (min (wr_amount r - wr_filled_amount r) avail) = (w', b)"
      by fastforce
    with True Some show ?thesis
      by (cases b; cases "wr_amount r - wr_filled_amount r \<le> avail")
        (fastforce simp: halted_def min_def not_le intro: serve.full serve.part)+
  qed
qed (auto simp: halted_def)

lemma serve_decreases:
  "serve fill tp x y \<Longrightarrow> reqs_ok tp (fst (snd (snd x))) \<Longrightarrow>
     (tp - fst y) + nat (fst (snd y)) < (tp - fst x) + nat (fst (snd x))"
proof (induction rule: serve.induct)
  case (full hp avail q r w w')
  then have "wr_filled_amount r < wr_amount r" by (auto intro: reqs_okD)
  with full.hyps show ?case by simp
qed auto

text \<open>Every run of the loop is a finite chain of passes that ends in a halted state.\<close>

lemma process_loop_run:
  "reqs_ok tp q \<Longrightarrow> \<exists>hp' avail' q' w0 w'.
     process_loop fill hp tp avail q w = Inr (hp', avail', q', w') \<and>
     (serve fill tp)\<^sup>*\<^sup>* (hp, avail, q, w) (hp', avail', q', w0) \<and>
     halted fill tp (hp', avail', q', w0) w'"
proof (induction "(tp - hp) + nat avail" arbitrary: hp avail q w rule: less_induct)
  case less
  from serve_or_halt[OF less.prems, of fill hp avail w] show ?case
  proof (elim disjE exE)
    fix y assume step: "serve fill tp (hp, avail, q, w) y"
    obtain hp1 avail1 q1 w1 where y: "y = (hp1, avail1, q1, w1)" by (cases y) auto
    have "reqs_ok tp q1" "(tp - hp1) + nat avail1 < (tp - hp) + nat avail"
      using serve_reqs_ok[OF step] serve_decreases[OF step] less.prems by (auto simp: y)
    from less.hyps[OF this(2,1), of w1] process_loop_serve[OF step[unfolded y] less.prems] step
    show ?thesis by (fastforce simp: y intro: converse_rtranclp_into_rtranclp)
  next
    fix w' assume "halted fill tp (hp, avail, q, w) w'"
    with process_loop_halted[OF this less.prems] show ?thesis by blast
  qed
qed

section \<open>Invariants of a run\<close>

text \<open>The requests at or beyond the tail pointer, and those already passed, are untouched.\<close>

lemma serve_frame:
  "(serve fill tp)\<^sup>*\<^sup>* x y \<Longrightarrow> fst x \<le> fst y \<and> (fst x \<le> tp \<longrightarrow> fst y \<le> tp) \<and>
     q_pointers (fst (snd (snd y))) = q_pointers (fst (snd (snd x))) \<and>
     (reqs_ok tp (fst (snd (snd x))) \<longrightarrow>
        reqs_ok tp (fst (snd (snd y))) \<and>
        (\<forall>i. tp \<le> i \<longrightarrow> q_requests (fst (snd (snd y))) i = q_requests (fst (snd (snd x))) i))"
proof (induction rule: rtranclp_induct)
  case (step y z)
  have "fst y \<le> fst z \<and> (fst y \<le> tp \<longrightarrow> fst z \<le> tp) \<and>
     q_pointers (fst (snd (snd z))) = q_pointers (fst (snd (snd y))) \<and>
     (reqs_ok tp (fst (snd (snd y))) \<longrightarrow>
       (\<forall>i. tp \<le> i \<longrightarrow> q_requests (fst (snd (snd z))) i = q_requests (fst (snd (snd y))) i))"
    using step.hyps(2) by cases (auto simp: queue_defs dest: reqs_okD(1))
  with step.IH serve_reqs_ok[OF step.hyps(2)] show ?case by auto
qed auto

text \<open>Liquidity is spent exactly on the payments that went through.\<close>

lemma serve_pays:
  assumes sink: "\<And>w a n w'. fill w a n = (w', True) \<Longrightarrow> paid w' = paid w + n"
  shows "(serve fill tp)\<^sup>*\<^sup>* x y \<Longrightarrow> 0 \<le> fst (snd x) \<Longrightarrow>
     0 \<le> fst (snd y) \<and> paid (snd (snd (snd y))) + fst (snd y) = paid (snd (snd (snd x))) + fst (snd x)"
proof (induction rule: rtranclp_induct)
  case (step y z)
  from step.hyps(2) step.IH step.prems show ?case
    by (cases rule: serve.cases) (auto dest!: sink)
qed auto

lemma queue_inv_reqs_ok: "queue_inv q \<Longrightarrow> reqs_ok (qp_tail (get_pointers q)) q"
  by (auto simp: queue_inv_def reqs_ok_def Let_def)

lemma process_queue_run:
  assumes "queue_inv q"
  shows "\<exists>hp avail' q' w0 w'.
     process_queue fill q avail w =
       Inr (set_pointers q' ((get_pointers q)\<lparr>qp_head := hp\<rparr>), avail', w') \<and>
     (serve fill (qp_tail (get_pointers q)))\<^sup>*\<^sup>* (qp_head (get_pointers q), avail, q, w) (hp, avail', q', w0) \<and>
     halted fill (qp_tail (get_pointers q)) (hp, avail', q', w0) w'"
  using process_loop_run[OF queue_inv_reqs_ok[OF assms], of fill "qp_head (get_pointers q)" avail w]
  by (fastforce simp: process_queue_def Let_def)

lemma process_queue_inv:
  assumes "queue_inv q" "process_queue fill q avail w = Inr (q', avail', w')"
  shows "queue_inv q'"
proof -
  obtain hp q1 w0 where q': "q' = set_pointers q1 ((get_pointers q)\<lparr>qp_head := hp\<rparr>)"
    and run: "(serve fill (qp_tail (get_pointers q)))\<^sup>*\<^sup>* (qp_head (get_pointers q), avail, q, w) (hp, avail', q1, w0)"
    using process_queue_run[OF assms(1), of fill avail w] assms(2) by auto
  have "qp_head (get_pointers q) \<le> hp" "hp \<le> qp_tail (get_pointers q)"
    "reqs_ok (qp_tail (get_pointers q)) q1"
    using serve_frame[OF run] queue_inv_reqs_ok[OF assms(1)] assms(1)
    by (simp_all add: queue_inv_def Let_def)
  with assms(1) show ?thesis
    by (auto simp: q' queue_inv_def Let_def reqs_ok_def)
qed

text \<open>An observer of the callback: it makes the call and notes the investor, the amount and
  the answer, in the order of the calls.\<close>

definition recording ::
  "('w \<Rightarrow> address \<Rightarrow> i128 \<Rightarrow> 'w \<times> bool)
     \<Rightarrow> 'w \<times> (address \<times> i128 \<times> bool) list \<Rightarrow> address \<Rightarrow> i128
     \<Rightarrow> ('w \<times> (address \<times> i128 \<times> bool) list) \<times> bool" where
  "recording fill x a n = (case fill (fst x) a n of (w', b) \<Rightarrow> ((w', snd x @ [(a, n, b)]), b))"

lemma recording_eq:
  "recording fill (w, l) a n = ((w', l'), b) \<longleftrightarrow> fill w a n = (w', b) \<and> l' = l @ [(a, n, b)]"
  by (auto simp: recording_def split: prod.splits)

text \<open>What a request still has to get, the requests waiting in the slots from one id to
  another, and the calls that pay them in full.\<close>

definition wr_remaining :: "WithdrawalRequest \<Rightarrow> i128" where
  "wr_remaining r = wr_amount r - wr_filled_amount r"

definition waiting :: "queue \<Rightarrow> u64 \<Rightarrow> u64 \<Rightarrow> WithdrawalRequest list" where
  "waiting q h t = List.map_filter (q_requests q) [h..<t]"

definition paid_in_full :: "WithdrawalRequest list \<Rightarrow> (address \<times> i128 \<times> bool) list" where
  "paid_in_full rs = map (\<lambda>r. (wr_investor r, wr_remaining r, True)) rs"

definition liquidity_used :: "(address \<times> i128 \<times> bool) list \<Rightarrow> i128" where
  "liquidity_used l = sum_list (map (\<lambda>(a, n, b). if b then n else 0) l)"

lemma liquidity_used_simps [simp]:
  "liquidity_used [] = 0"
  "liquidity_used (l @ l') = liquidity_used l + liquidity_used l'"
  "liquidity_used [(a, n, b)] = (if b then n else 0)"
  by (simp_all add: liquidity_used_def)

lemma waiting_Suc:
  "h \<le> t \<Longrightarrow> waiting q h (Suc t) =
     waiting q h t @ (case q_requests q t of None \<Rightarrow> [] | Some r \<Rightarrow> [r])"
  by (simp add: waiting_def map_filter_def split: option.splits)

text \<open>Where a run that began with the queue \<open>q0\<close> at \<open>h0\<close> stands: the calls so far have paid
  every request it passed in full and in order, and then perhaps the one it stands at in part,
  with the last of the liquidity; no other slot has changed.\<close>

definition served_in_order ::
  "u64 \<Rightarrow> u64 \<Rightarrow> i128 \<Rightarrow> queue \<Rightarrow> u64 \<times> i128 \<times> queue \<times> 'w \<times> (address \<times> i128 \<times> bool) list \<Rightarrow> bool" where
  "served_in_order tp h0 avail0 q0 x \<longleftrightarrow> (case x of (hp, avail, q, w, l) \<Rightarrow>
     h0 \<le> hp \<and> avail + liquidity_used l = avail0 \<and>
     (\<forall>i. h0 \<le> i \<and> i < hp \<longrightarrow> q_requests q i = None) \<and>
     (\<forall>i. i < h0 \<or> hp < i \<longrightarrow> q_requests q i = q_requests q0 i) \<and>
     (l = paid_in_full (waiting q0 h0 hp) \<and> q_requests q hp = q_requests q0 hp \<or>
      (\<exists>r n. q_requests q0 hp = Some r \<and> hp < tp \<and> 0 < n \<and> n < wr_remaining r \<and> avail = 0 \<and>
         l = paid_in_full (waiting q0 h0 hp) @ [(wr_investor r, n, True)] \<and>
         q_requests q hp = Some (r\<lparr>wr_filled_amount := wr_filled_amount r + n\<rparr>))))"

lemma served_in_order_start: "served_in_order tp h a q (h, a, q, w, [])"
  unfolding served_in_order_def by (auto simp: waiting_def map_filter_def paid_in_full_def)

lemma served_in_orderD:
  assumes "served_in_order tp h0 a0 q0 (hp, avail, q, w, l)"
  shows "h0 \<le> hp" "avail + liquidity_used l = a0"
    "h0 \<le> i \<Longrightarrow> i < hp \<Longrightarrow> q_requests q i = None"
    "i < h0 \<or> hp < i \<Longrightarrow> q_requests q i = q_requests q0 i"
    "0 < avail \<Longrightarrow> l = paid_in_full (waiting q0 h0 hp) \<and> q_requests q hp = q_requests q0 hp"
  using assms by (auto simp: served_in_order_def)

lemma served_in_order_passed:
  assumes "h0 \<le> hp" "avail + liquidity_used (paid_in_full (waiting q0 h0 hp)) = a0"
    "\<And>i. h0 \<le> i \<Longrightarrow> i < hp \<Longrightarrow> q_requests q i = None"
    "\<And>i. i < h0 \<or> hp \<le> i \<Longrightarrow> q_requests q i = q_requests q0 i"
  shows "served_in_order tp h0 a0 q0 (hp, avail, q, w, paid_in_full (waiting q0 h0 hp))"
  using assms by (simp add: served_in_order_def)

lemma paid_in_full_append [simp]: "paid_in_full (l @ l') = paid_in_full l @ paid_in_full l'"
  "paid_in_full [r] = [(wr_investor r, wr_remaining r, True)]" "paid_in_full [] = []"
  by (simp_all add: paid_in_full_def)

lemma serve_in_order_step:
  assumes "serve (recording fill) tp x y" "served_in_order tp h0 a0 q0 x" "reqs_ok tp (fst (snd (snd x)))"
  shows "served_in_order tp h0 a0 q0 y"
  using assms(1)
proof cases
  case (skip hp avail q w)
  obtain v l where w: "w = (v, l)" by (cases w)
  note x = served_in_orderD[OF assms(2)[unfolded skip(1) w]]
  have l: "l = paid_in_full (waiting q0 h0 (Suc hp))"
    using x(1) x(5)[OF skip(4)] skip(5) by (simp add: waiting_Suc)
  show ?thesis unfolding skip(2) w l
    by (rule served_in_order_passed)
      (use x skip(5) l in \<open>auto simp: less_Suc_eq\<close>)
next
  case (full hp avail q r w w')
  obtain v l v' l' where w: "w = (v, l)" "w' = (v', l')" by (cases w; cases w')
  note x = served_in_orderD[OF assms(2)[unfolded full(1) w]]
  note l = x(5)[OF full(4)]
  have l': "l' = paid_in_full (waiting q0 h0 (Suc hp))"
    using full(5,7) l x(1) by (simp add: w recording_eq waiting_Suc wr_remaining_def)
  have "avail - (wr_amount r - wr_filled_amount r) + liquidity_used l' = a0"
    using full(7) x(2) by (simp add: w recording_eq)
  then show ?thesis unfolding full(2) w l'
    by (intro served_in_order_passed) (use x in \<open>auto simp: less_Suc_eq queue_defs\<close>)
next
  case (part hp avail q r w w')
  obtain v l v' l' where w: "w = (v, l)" "w' = (v', l')" by (cases w; cases w')
  note x = served_in_orderD[OF assms(2)[unfolded part(1) w]]
  have "wr_id r = hp" using assms(3) part by (auto dest: reqs_okD(1))
  then show ?thesis using part x x(5)[OF part(4)] unfolding part(2) w
    by (auto simp: served_in_order_def queue_defs recording_eq wr_remaining_def)
qed

lemma serve_in_order:
  assumes "(serve (recording fill) tp)\<^sup>*\<^sup>* (h0, a0, q0, w, []) y" "reqs_ok tp q0"
  shows "served_in_order tp h0 a0 q0 y"
  using assms
proof (induction rule: rtranclp_induct)
  case (step y z)
  have "reqs_ok tp (fst (snd (snd y)))" using serve_frame[OF step.hyps(1)] step.prems by auto
  with serve_in_order_step step show ?case by blast
qed (rule served_in_order_start)

section \<open>Properties\<close>

text \<open>Processing a well-formed queue always returns, keeps it well formed, and pays out
  exactly the liquidity it consumes: what the callback has paid, together with the
  liquidity returned, is what was paid before together with the liquidity passed in.\<close>

theorem process_queue_conserves:
  assumes "queue_inv q" "0 \<le> avail"
    and "\<And>w a n w' b. fill w a n = (w', b) \<Longrightarrow> paid w' = paid w + (if b then n else 0)"
  shows "\<exists>q' avail' w'. process_queue fill q avail w = Inr (q', avail', w') \<and> queue_inv q' \<and>
           0 \<le> avail' \<and> paid w' + avail' = paid w + avail"
proof -
  obtain hp avail' q1 w0 w' where pq: "process_queue fill q avail w =
       Inr (set_pointers q1 ((get_pointers q)\<lparr>qp_head := hp\<rparr>), avail', w')"
    and run: "(serve fill (qp_tail (get_pointers q)))\<^sup>*\<^sup>*
       (qp_head (get_pointers q), avail, q, w) (hp, avail', q1, w0)"
    and halt: "halted fill (qp_tail (get_pointers q)) (hp, avail', q1, w0) w'"
    using process_queue_run[OF assms(1), of fill avail w] by blast
  have "0 \<le> avail' \<and> paid w0 + avail' = paid w + avail"
    using serve_pays[OF _ run, of paid] assms(2,3) by fastforce
  moreover have "paid w' = paid w0" using halt assms(3) by (fastforce simp: halted_def)
  ultimately show ?thesis using pq process_queue_inv[OF assms(1) pq] by auto
qed

text \<open>C14: FIFO order of the queue.  Processing a well-formed queue always returns.  The calls it
  makes of the callback, in order, are: one for every request waiting from the old head up to
  the new head, oldest first, of all it still has to get, every one of them accepted; then none,
  when the tail is reached or the liquidity is used up; or one part payment of the request at
  the new head with the last of the liquidity, which is added to what that request has got; or
  one refused payment of it, which changes nothing.  The requests paid in full are gone, every
  other slot is as it was, and the liquidity returned is what was passed in less the accepted
  payments.\<close>

theorem process_queue_fifo:
  assumes "queue_inv q" and "h = qp_head (get_pointers q)" and "t = qp_tail (get_pointers q)"
  shows "\<exists>q' avail' w' l h'.
     process_queue (recording fill) q avail (w, []) = Inr (q', avail', (w', l)) \<and>
     get_pointers q' = (get_pointers q)\<lparr>qp_head := h'\<rparr> \<and> h \<le> h' \<and> h' \<le> t \<and>
     avail' = avail - liquidity_used l \<and>
     (\<forall>i. h \<le> i \<and> i < h' \<longrightarrow> q_requests q' i = None) \<and>
     (\<forall>i. i < h \<or> h' < i \<longrightarrow> q_requests q' i = q_requests q i) \<and>
     (l = paid_in_full (waiting q h h') \<and> (h' = t \<or> avail' \<le> 0) \<and>
        q_requests q' h' = q_requests q h' \<or>
      (\<exists>r n. q_requests q h' = Some r \<and> h' < t \<and>
         (0 < n \<and> n < wr_remaining r \<and> avail' = 0 \<and>
          l = paid_in_full (waiting q h h') @ [(wr_investor r, n, True)] \<and>
          q_requests q' h' = Some (r\<lparr>wr_filled_amount := wr_filled_amount r + n\<rparr>) \<or>
          n = min (wr_remaining r) avail' \<and> 0 < avail' \<and>
          l = paid_in_full (waiting q h h') @ [(wr_investor r, n, False)] \<and>
          q_requests q' h' = Some r)))"
proof -
  obtain h' avail' q1 w0 l0 w' l where pq: "process_queue (recording fill) q avail (w, []) =
       Inr (set_pointers q1 ((get_pointers q)\<lparr>qp_head := h'\<rparr>), avail', (w', l))"
    and run: "(serve (recording fill) t)\<^sup>*\<^sup>* (h, avail, q, w, []) (h', avail', q1, w0, l0)"
    and halt: "halted (recording fill) t (h', avail', q1, w0, l0) (w', l)"
    using process_queue_run[OF assms(1), of "recording fill" avail "(w, [])"]
    unfolding assms(2,3)[symmetric] by fastforce
  have le: "h' \<le> t"
    using serve_frame[OF run] assms by (simp add: queue_inv_def Let_def)
  have s: "served_in_order t h avail q (h', avail', q1, w0, l0)"
    using serve_in_order[OF run] queue_inv_reqs_ok[OF assms(1)] by (simp add: assms(3))
  note x = served_in_orderD[OF s]
  let ?q = "set_pointers q1 ((get_pointers q)\<lparr>qp_head := h'\<rparr>)"
  have used: "avail' = avail - liquidity_used l"
    using halt x(2) by (auto simp: halted_def recording_eq)
  have tail: "l = paid_in_full (waiting q h h') \<and> (h' = t \<or> avail' \<le> 0) \<and>
        q_requests q1 h' = q_requests q h' \<or>
      (\<exists>r n. q_requests q h' = Some r \<and> h' < t \<and>
         (0 < n \<and> n < wr_remaining r \<and> avail' = 0 \<and>
          l = paid_in_full (waiting q h h') @ [(wr_investor r, n, True)] \<and>
          q_requests q1 h' = Some (r\<lparr>wr_filled_amount := wr_filled_amount r + n\<rparr>) \<or>
          n = min (wr_remaining r) avail' \<and> 0 < avail' \<and>
          l = paid_in_full (waiting q h h') @ [(wr_investor r, n, False)] \<and>
          q_requests q1 h' = Some r))"
  proof (cases "h' < t \<and> 0 < avail'")
    case True
    with halt x(5) show ?thesis by (auto simp: halted_def recording_eq wr_remaining_def)
  next
    case False
    with halt have "l = l0" by (auto simp: halted_def)
    with False le s show ?thesis by (auto simp: served_in_order_def)
  qed
  show ?thesis
    by (intro exI[of _ ?q] exI[of _ avail'] exI[of _ w'] exI[of _ l] exI[of _ h'])
      (use pq le used x(1,3,4) tail in auto)
qed

text \<open>The newest request of the queue is never served: ids start at one while the pointers
  start at zero, so the request just accepted sits at the tail itself, outside the range the
  loop visits, whatever liquidity is offered and whatever the callback does.\<close>

theorem newest_request_never_served:
  assumes "queue_inv q" "request_withdrawal q investor amount = Inr (q1, i)" "amount \<le> i128_max"
    and "process_queue fill q1 avail w = Inr (q2, avail', w')"
  shows "i = qp_tail (get_pointers q1) \<and> q_requests q2 i = q_requests q1 i \<and>
         q_requests q2 i = Some \<lparr>wr_id = i, wr_investor = investor, wr_amount = amount, wr_filled_amount = 0\<rparr>"
proof -
  have inv1: "queue_inv q1" using request_withdrawal_inv assms(1-3) by blast
  have i: "i = qp_tail (get_pointers q1)"
    and r: "q_requests q1 i = Some \<lparr>wr_id = i, wr_investor = investor, wr_amount = amount, wr_filled_amount = 0\<rparr>"
    using assms(1,2) by (auto simp: request_withdrawal_def Let_def queue_inv_def set_request_def)
  obtain hp q' w0 where q2: "q2 = set_pointers q' ((get_pointers q1)\<lparr>qp_head := hp\<rparr>)"
    and run: "(serve fill (qp_tail (get_pointers q1)))\<^sup>*\<^sup>* (qp_head (get_pointers q1), avail, q1, w) (hp, avail', q', w0)"
    using process_queue_run[OF inv1, of fill avail w] assms(4) by auto
  from serve_frame[OF run] queue_inv_reqs_ok[OF inv1] i r show ?thesis by (simp add: q2)
qed


section \<open>Witnesses\<close>

text \<open>Two requests of 100 and 200 by investors 7 and 8, as the module stores them.\<close>

definition sample_queue :: queue where
  "sample_queue =
     \<lparr>q_pointers = Some \<lparr>qp_head = 0, qp_tail = 2, qp_next_id = 3\<rparr>,
      q_requests = [1 \<mapsto> \<lparr>wr_id = 1, wr_investor = 7, wr_amount = 100, wr_filled_amount = 0\<rparr>,
                    2 \<mapsto> \<lparr>wr_id = 2, wr_investor = 8, wr_amount = 200, wr_filled_amount = 0\<rparr>]\<rparr>"

lemma sample_queue_inv: "queue_inv sample_queue"
  by (auto simp: queue_inv_def sample_queue_def get_pointers_def MAX_QUEUE_LEN_def i128_max_def
      split: if_splits)

theorem process_queue_conserves_witness:
  "\<exists>q' avail' w'. process_queue (\<lambda>w a n. (w + n, True)) sample_queue 40 (0::int) = Inr (q', avail', w')
     \<and> queue_inv q' \<and> 0 \<le> avail' \<and> w' + avail' = 40"
  using process_queue_conserves[OF sample_queue_inv, of 40 "\<lambda>w a n. (w + n, True)" "\<lambda>w. w" 0] by auto

text \<open>The second round of \<open>test_withdrawal_queue_fifo_and_partial_fill\<close>: with 40 of the first request
  paid, a liquidity of 100 pays its remaining 60 and stops, because the second request sits at
  the tail; 40 comes back unused and the second request has got nothing.\<close>

definition fifo_test_queue :: queue where
  "fifo_test_queue =
     \<lparr>q_pointers = Some \<lparr>qp_head = 1, qp_tail = 2, qp_next_id = 3\<rparr>,
      q_requests = [1 \<mapsto> \<lparr>wr_id = 1, wr_investor = 7, wr_amount = 100, wr_filled_amount = 40\<rparr>,
                    2 \<mapsto> \<lparr>wr_id = 2, wr_investor = 8, wr_amount = 200, wr_filled_amount = 0\<rparr>]\<rparr>"

lemma fifo_test_queue_inv: "queue_inv fifo_test_queue"
  by (auto simp: queue_inv_def fifo_test_queue_def get_pointers_def MAX_QUEUE_LEN_def i128_max_def
      split: if_splits)

lemma fifo_test_second_round:
  "process_queue (recording (\<lambda>w a n. (w, True))) fifo_test_queue 100 ((), []) =
     Inr (\<lparr>q_pointers = Some \<lparr>qp_head = 2, qp_tail = 2, qp_next_id = 3\<rparr>,
           q_requests = (q_requests fifo_test_queue)(1 := None)\<rparr>, 40, ((), [(7, 60, True)]))"
  by (simp add: process_queue_def fifo_test_queue_def queue_defs process_loop.simps recording_def
      Let_def i128_min_def i128_max_def fun_upd_def)

theorem process_queue_fifo_witness:
  "\<exists>q' w'. process_queue (recording (\<lambda>w a n. (w, True))) fifo_test_queue 100 ((), []) =
       Inr (q', 40, (w', [(7, 60, True)])) \<and>
     q_requests q' 1 = None \<and> q_requests q' 2 = q_requests fifo_test_queue 2"
  using process_queue_fifo[OF fifo_test_queue_inv refl refl, of "\<lambda>w a n. (w, True)" 100 "()"]
  unfolding fifo_test_second_round by (auto simp: fifo_test_queue_def get_pointers_def)

theorem newest_request_never_served_witness:
  "\<exists>q1 q2 avail' w'.
     request_withdrawal sample_queue 9 50 = Inr (q1, 3) \<and>
     process_queue (\<lambda>w a n. (w + n, True)) q1 1000 (0::int) = Inr (q2, avail', w') \<and>
     q_requests q2 3 = Some \<lparr>wr_id = 3, wr_investor = 9, wr_amount = 50, wr_filled_amount = 0\<rparr>"
proof -
  obtain q1 where q1: "request_withdrawal sample_queue 9 50 = Inr (q1, 3)"
    by (simp add: request_withdrawal_def sample_queue_def get_pointers_def MAX_QUEUE_LEN_def
        u64_max_def)
  have "queue_inv q1"
    using request_withdrawal_inv[OF sample_queue_inv q1] by (simp add: i128_max_def)
  then obtain q2 avail' w' where run:
    "process_queue (\<lambda>w a n. (w + n, True)) q1 1000 (0::int) = Inr (q2, avail', w')"
    using process_queue_run[of q1 "\<lambda>w a n. (w + n, True)" 1000 0] by blast
  have "50 \<le> i128_max" by (simp add: i128_max_def)
  from newest_request_never_served[OF sample_queue_inv q1 this run] q1 run
  show ?thesis by blast
qed

end
