(* ===== verification/Kora_Key_Rotation.thy ===== *)
theory Kora_Key_Rotation
  imports Kora_Validation
begin

text \<open>
  Key rotation (\<open>contracts/shared/src/key_rotation.rs\<close>): the timelock of a rotation proposal,
  the minimum number of co-signers, and the approval threshold after a rotation.
\<close>

datatype KeyRotationType = MultisigSigner | VerifierKey | AdminKey

record KeyRotationProposal =
  kr_old_key :: address
  kr_new_key :: address
  kr_proposed_at :: u64
  kr_proposer :: address
  kr_rotation_type :: KeyRotationType

datatype RotationValidation =
    Valid | TimelockNotElapsed | MinimumQuorumViolation | PendingObligations | NewKeyAlreadyExists

definition rotation_new ::
  "address \<Rightarrow> address \<Rightarrow> address \<Rightarrow> u64 \<Rightarrow> KeyRotationType \<Rightarrow> KeyRotationProposal" where
  "rotation_new old_key new_key who at ty =
     \<lparr>kr_old_key = old_key, kr_new_key = new_key, kr_proposed_at = at, kr_proposer = who,
      kr_rotation_type = ty\<rparr>"

definition is_timelock_elapsed :: "KeyRotationProposal \<Rightarrow> u64 \<Rightarrow> u64 \<Rightarrow> bool cresult" where
  "is_timelock_elapsed p now delay =
     rbind (ok_or (u64_add (kr_proposed_at p) delay) Trap) (\<lambda>at. Inr (now \<ge> at))"

definition rotation_validate :: "KeyRotationProposal \<Rightarrow> u64 \<Rightarrow> u64 \<Rightarrow> RotationValidation cresult" where
  "rotation_validate p now delay =
     rbind (is_timelock_elapsed p now delay) (\<lambda>elapsed.
     if \<not> elapsed then Inr TimelockNotElapsed else Inr Valid)"

definition MIN_SIGNER_COUNT :: u32 where "MIN_SIGNER_COUNT = 2"

definition validate_minimum_quorum :: "u32 \<Rightarrow> u32 \<Rightarrow> u32 \<Rightarrow> unit cresult" where
  "validate_minimum_quorum current removing adding =
     rbind (ok_or (Option.bind (u32_sub current removing) (\<lambda>n. u32_add n adding))
              (Err CE_ArithmeticOverflow)) (\<lambda>new_count.
     if new_count < MIN_SIGNER_COUNT then Inl (Err CE_InvalidAddress) else Inr ())"

definition calculate_post_rotation_threshold :: "u32 \<Rightarrow> u32 \<Rightarrow> u32 \<Rightarrow> u32 cresult" where
  "calculate_post_rotation_threshold old_threshold old_count new_count =
     rbind (ok_or (u64_mul old_threshold 100) Trap) (\<lambda>t100.
     if old_count = 0 then Inl Trap
     else let percentage = t100 div old_count in
     rbind (ok_or (u64_mul new_count percentage) Trap) (\<lambda>scaled.
     let new_threshold = (scaled div 100) mod 2 ^ 32 in
     Inr (min (max new_threshold 2) new_count)))"

lemma validate_minimum_quorum_Inr:
  "validate_minimum_quorum c r a = Inr () \<longleftrightarrow>
     r \<le> c \<and> c - r + a \<le> u32_max \<and> 2 \<le> c - r + a"
  by (auto simp: validate_minimum_quorum_def MIN_SIGNER_COUNT_def u32_sub_def u32_add_def
      split: if_splits)

text \<open>The threshold after a rotation is at most the number of signers and at least two of
  them (all of them when there are fewer), and, for a valid old setting, it never exceeds the
  old proportion by more than that floor: rounding only ever lowers it.\<close>

theorem post_rotation_threshold_bounds:
  assumes "calculate_post_rotation_threshold t n m = Inr r" "t \<le> n" "m \<le> u32_max"
  shows "r \<le> m \<and> min 2 m \<le> r \<and> (2 < r \<longrightarrow> r * n \<le> t * m)"
proof (intro conjI impI)
  from assms(1) have n: "0 < n" and r: "r = min (max ((m * (t * 100 div n) div 100) mod 2 ^ 32) 2) m"
    by (auto simp: calculate_post_rotation_threshold_def u64_mul_def Let_def mult.commute split: if_splits)
  show "r \<le> m" "min 2 m \<le> r" by (auto simp: r)
  assume "2 < r"
  then have "r \<le> m * (t * 100 div n) div 100" by (auto simp: r intro: order_trans mod_less_eq_dividend)
  then have "r * 100 \<le> m * (t * 100 div n)" by (simp add: less_eq_div_iff_mult_less_eq)
  then have "r * 100 * n \<le> m * (t * 100 div n) * n" by (rule mult_right_mono) simp
  also have "\<dots> = m * ((t * 100 div n) * n)" by simp
  also have "\<dots> \<le> m * (t * 100)" by (intro mult_left_mono) (simp_all add: div_times_less_eq_dividend)
  finally show "r * n \<le> t * m" by (simp add: mult.commute)
qed

text \<open>A rotation that keeps the number of signers can lower the threshold, although the
  function is documented to maintain the same percentage: four of six becomes three of six.\<close>

theorem rotation_can_lower_threshold:
  "calculate_post_rotation_threshold 4 6 6 = Inr 3"
  by (simp add: calculate_post_rotation_threshold_def u64_mul_def u64_max_def)

theorem post_rotation_threshold_bounds_witness:
  "calculate_post_rotation_threshold 3 5 10 = Inr 6 \<and> (6::nat) * 5 \<le> 3 * 10"
proof -
  have run: "calculate_post_rotation_threshold 3 5 10 = Inr 6"
    by (simp add: calculate_post_rotation_threshold_def u64_mul_def u64_max_def)
  show ?thesis
    using post_rotation_threshold_bounds[OF run] run by (simp add: u32_max_def)
qed

end
