(* ===== verification/Kora_Reentrancy.thy ===== *)
theory Kora_Reentrancy
  imports Kora_Validation
begin

text \<open>
  The reentrancy guard (\<open>contracts/shared/src/reentrancy.rs\<close>): a lock in the contract's
  instance storage that an entry point acquires first and that is dropped on every way out.
  The lock sits in each contract's own state, so the guard is written over the getter and the
  setter of that field; the locale \<open>lockable\<close> is the interface it needs of them.
\<close>

definition acquire_guard ::
  "('s \<Rightarrow> bool) \<Rightarrow> (bool \<Rightarrow> 's \<Rightarrow> 's) \<Rightarrow> 's \<Rightarrow> 's cresult" where
  "acquire_guard get_lock set_lock s =
     (if get_lock s then Inl (Err CE_Reentrancy) else Inr (set_lock True s))"

definition release_guard :: "(bool \<Rightarrow> 's \<Rightarrow> 's) \<Rightarrow> 's \<Rightarrow> 's" where
  "release_guard set_lock s = set_lock False s"

definition is_locked :: "('s \<Rightarrow> bool) \<Rightarrow> 's \<Rightarrow> bool" where
  "is_locked get_lock s = get_lock s"

text \<open>\<open>ReentrancyGuard::new\<close> at the top of an entry point and its \<open>Drop\<close> at the end: the
  body runs with the lock held; an early error return drops the guard and rolls back.\<close>

definition with_guard ::
  "('s \<Rightarrow> bool) \<Rightarrow> (bool \<Rightarrow> 's \<Rightarrow> 's) \<Rightarrow> (CommonError \<Rightarrow> 'e)
     \<Rightarrow> ('s \<Rightarrow> ('e, 's \<times> 'r) result) \<Rightarrow> 's \<Rightarrow> ('e, 's \<times> 'r) result" where
  "with_guard get_lock set_lock from body s =
     rbind (map_err from (acquire_guard get_lock set_lock s)) (\<lambda>s1.
     rbind (body s1) (\<lambda>(s2, r). Inr (release_guard set_lock s2, r)))"

locale lockable =
  fixes get_lock :: "'s \<Rightarrow> bool" and set_lock :: "bool \<Rightarrow> 's \<Rightarrow> 's"
  assumes get_set: "get_lock (set_lock b s) = b"
    and set_set: "set_lock b (set_lock b' s) = set_lock b s"
    and set_get: "set_lock (get_lock s) s = s"
begin

lemma guard_Inr_iff:
  "with_guard get_lock set_lock from body s = Inr (s', r) \<longleftrightarrow>
     \<not> get_lock s \<and> (\<exists>s2. body (set_lock True s) = Inr (s2, r) \<and> s' = set_lock False s2)"
  by (auto simp: with_guard_def acquire_guard_def release_guard_def)

lemma guard_releases:
  "with_guard get_lock set_lock from body s = Inr (s', r) \<Longrightarrow> \<not> get_lock s'"
  by (auto simp: guard_Inr_iff get_set)

lemma guard_blocks_reentry:
  "get_lock s \<Longrightarrow> with_guard get_lock set_lock from body s = Inl (Err (from CE_Reentrancy))"
  by (simp add: with_guard_def acquire_guard_def)

lemma guard_nested_fails:
  "with_guard get_lock set_lock from
     (\<lambda>s1. with_guard get_lock set_lock from body s1) s = Inl (Err (from CE_Reentrancy))"
  by (simp add: with_guard_def acquire_guard_def get_set)

lemma release_acquire:
  "acquire_guard get_lock set_lock (release_guard set_lock s) = Inr (set_lock True s)"
  by (simp add: acquire_guard_def release_guard_def get_set set_set)

text \<open>The frame of a guarded call: a body that leaves \<open>f\<close> alone, on fields the lock does
  not touch, leaves it alone under the guard.\<close>

lemma guard_frame:
  assumes "with_guard get_lock set_lock from body s = Inr (s', r)"
    and "\<And>b t. f (set_lock b t) = f t"
    and "\<And>t t' r. body t = Inr (t', r) \<Longrightarrow> f t' = f t"
  shows "f s' = f s"
  using assms by (auto simp: guard_Inr_iff)

end

end
