(* ===== verification/Kora_Migration.thy ===== *)
theory Kora_Migration
  imports Kora_Validation
begin

text \<open>
  Version-checked storage migrations (\<open>contracts/shared/src/migration.rs\<close>).  The version is
  one \<open>u32\<close> of a contract's instance storage (absent means zero); a step is a function of
  the contract's state.  The loop of \<open>migrate\<close> commits the version after each step.
\<close>

datatype MigrationError = VersionMismatch | InvalidTarget | MissingStep

definition read_version :: "('s \<Rightarrow> u32 option) \<Rightarrow> 's \<Rightarrow> u32" where
  "read_version get_v s = (case get_v s of None \<Rightarrow> 0 | Some v \<Rightarrow> v)"

definition read_current ::
  "('s \<Rightarrow> u32 option) \<Rightarrow> ('s \<Rightarrow> 'v option) \<Rightarrow> u32 \<Rightarrow> 's \<Rightarrow> (MigrationError, 'v option) result" where
  "read_current get_v get_val expected s =
     (if read_version get_v s \<noteq> expected then Inl (Err VersionMismatch) else Inr (get_val s))"

function migrate_loop ::
  "(MigrationError \<Rightarrow> 'e) \<Rightarrow> (u32 \<Rightarrow> 's \<Rightarrow> 's) \<Rightarrow> (u32 \<Rightarrow> u32 \<Rightarrow> 's \<Rightarrow> ('e, 's) result)
     \<Rightarrow> u32 \<Rightarrow> u32 \<Rightarrow> 's \<Rightarrow> ('e, 's) result" where
  "migrate_loop from set_v step current target s =
     (if current < target then
        (case u32_add current 1 of
           None \<Rightarrow> Inl (Err (from MissingStep))
         | Some nxt \<Rightarrow>
             (case step current nxt s of
                Inl e \<Rightarrow> Inl e
              | Inr s' \<Rightarrow> migrate_loop from set_v step nxt target (set_v nxt s')))
      else Inr s)"
  by pat_completeness auto
termination
  by (relation "measure (\<lambda>(from, set_v, step, current, target, s). target - current)")
    (auto simp: u32_add_def split: if_splits)

declare migrate_loop.simps [simp del]

definition migrate ::
  "(MigrationError \<Rightarrow> 'e) \<Rightarrow> ('s \<Rightarrow> u32 option) \<Rightarrow> (u32 \<Rightarrow> 's \<Rightarrow> 's)
     \<Rightarrow> (u32 \<Rightarrow> u32 \<Rightarrow> 's \<Rightarrow> ('e, 's) result) \<Rightarrow> u32 \<Rightarrow> u32 \<Rightarrow> u32 \<Rightarrow> 's \<Rightarrow> ('e, 's \<times> bool) result" where
  "migrate from get_v set_v step from_version to_version latest s =
     (let stored = read_version get_v s in
      if to_version = 0 \<or> to_version > latest \<or> from_version > to_version
      then Inl (Err (from InvalidTarget))
      else if stored = to_version then Inr (s, False)
      else if stored \<noteq> from_version then Inl (Err (from VersionMismatch))
      else rbind (migrate_loop from set_v step stored to_version s) (\<lambda>s'. Inr (s', True)))"

text \<open>A run of the loop as a relation: the chain of adjacent steps from one version to
  another, each followed by the commit of its version.\<close>

inductive migration_chain ::
  "(u32 \<Rightarrow> 's \<Rightarrow> 's) \<Rightarrow> (u32 \<Rightarrow> u32 \<Rightarrow> 's \<Rightarrow> ('e, 's) result) \<Rightarrow> u32 \<Rightarrow> 's \<Rightarrow> u32 \<Rightarrow> 's \<Rightarrow> bool"
  for set_v step where
  chain_done: "migration_chain set_v step v s v s"
| chain_step: "step v (Suc v) s = Inr s1 \<Longrightarrow>
     migration_chain set_v step (Suc v) (set_v (Suc v) s1) w s' \<Longrightarrow>
     migration_chain set_v step v s w s'"

inductive_cases migration_chain_elim: "migration_chain set_v step v s w s'"

lemma migrate_loop_done [simp]: "migrate_loop from set_v step v v s = Inr s"
  by (simp add: migrate_loop.simps)

lemma migrate_loop_step_Inr:
  "v < w \<Longrightarrow> migrate_loop from set_v step v w s = Inr s' \<longleftrightarrow>
     Suc v \<le> u32_max \<and>
     (\<exists>s1. step v (Suc v) s = Inr s1 \<and>
           migrate_loop from set_v step (Suc v) w (set_v (Suc v) s1) = Inr s')"
  by (subst migrate_loop.simps) (auto simp: u32_add_def split: sum.splits)

lemma migrate_loop_chain:
  "migrate_loop from set_v step v w s = Inr s' \<Longrightarrow> v \<le> w \<Longrightarrow> migration_chain set_v step v s w s'"
proof (induction "w - v" arbitrary: v s)
  case 0
  then have "v = w" by simp
  with 0 show ?case by (auto intro: chain_done)
next
  case (Suc n)
  then have "v < w" by simp
  with Suc.prems obtain s1 where "step v (Suc v) s = Inr s1"
    "migrate_loop from set_v step (Suc v) w (set_v (Suc v) s1) = Inr s'"
    by (auto simp: migrate_loop_step_Inr)
  note run = this
  have "n = w - Suc v" using Suc.hyps(2) by simp
  moreover have "Suc v \<le> w" using \<open>v < w\<close> by simp
  ultimately have "migration_chain set_v step (Suc v) (set_v (Suc v) s1) w s'"
    using Suc.hyps(1) run(2) by blast
  with run(1) show ?case by (rule chain_step)
qed

text \<open>What the steps and the commit leave alone, a migration leaves alone.\<close>

lemma migration_chain_frame:
  assumes "migration_chain set_v step v s w s'"
    and "\<And>x t. f (set_v x t) = f t" "\<And>x y t t'. step x y t = Inr t' \<Longrightarrow> f t' = f t"
  shows "f s' = f s"
  using assms(1) by (induction rule: migration_chain.induct) (auto simp: assms(2) dest: assms(3))

lemma migrate_frame:
  assumes "migrate from get_v set_v step a b latest s = Inr (s', changed)"
    and "\<And>x t. f (set_v x t) = f t" "\<And>x y t t'. step x y t = Inr t' \<Longrightarrow> f t' = f t"
  shows "f s' = f s"
  using assms(1)
  by (auto simp: migrate_def Let_def split: if_splits
        dest!: migrate_loop_chain migration_chain_frame[where f = f, OF _ assms(2,3)])

text \<open>The interface a contract offers to \<open>migrate\<close>: a version field that reads back what the
  loop commits.\<close>

locale versioned_store =
  fixes get_v :: "'s \<Rightarrow> u32 option" and set_v :: "u32 \<Rightarrow> 's \<Rightarrow> 's"
  assumes get_set_v: "get_v (set_v v s) = Some v"
begin

lemma chain_version:
  "migration_chain set_v step v s w s' \<Longrightarrow> v = w \<and> s' = s \<or> get_v s' = Some w"
  by (induction rule: migration_chain.induct) (auto simp: get_set_v)

lemma migrate_commits:
  assumes "migrate from get_v set_v step a b latest s = Inr (s', changed)"
  shows "read_version get_v s' = b" "b \<le> latest"
    "changed \<longleftrightarrow> read_version get_v s \<noteq> b"
    "changed \<Longrightarrow> read_version get_v s = a \<and> migration_chain set_v step a s b s'"
    "\<not> changed \<Longrightarrow> s' = s"
proof -
  have "read_version get_v s' = b \<and> (changed \<longleftrightarrow> read_version get_v s \<noteq> b)
    \<and> (changed \<longrightarrow> read_version get_v s = a \<and> migration_chain set_v step a s b s')
    \<and> (\<not> changed \<longrightarrow> s' = s) \<and> b \<le> latest"
  proof (cases "read_version get_v s = b")
    case True
    with assms show ?thesis by (auto simp: migrate_def Let_def)
  next
    case False
    with assms have run: "migrate_loop from set_v step a b s = Inr s'" and ab: "a \<le> b"
      and st: "read_version get_v s = a" and ch: "changed" and l: "b \<le> latest"
      by (auto simp: migrate_def Let_def)
    have c: "migration_chain set_v step a s b s'" using run ab by (rule migrate_loop_chain)
    with chain_version[OF c] False st have "get_v s' = Some b" by auto
    with c st ch l False show ?thesis by (simp add: read_version_def)
  qed
  then show "read_version get_v s' = b" "b \<le> latest"
    "changed \<longleftrightarrow> read_version get_v s \<noteq> b"
    "changed \<Longrightarrow> read_version get_v s = a \<and> migration_chain set_v step a s b s'"
    "\<not> changed \<Longrightarrow> s' = s" by auto
qed

lemma migrate_idempotent:
  assumes "migrate from get_v set_v step a b latest s = Inr (s', changed)"
  shows "migrate from get_v set_v step a b latest s' = Inr (s', False)"
  using assms migrate_commits[OF assms] by (auto simp: migrate_def Let_def split: if_splits)

end

end
