(* ===== verification/Kora_Audit.thy ===== *)
theory Kora_Audit
  imports Kora_Types
begin

text \<open>
  The on-chain audit log (\<open>contracts/shared/src/audit.rs\<close> and the \<open>append_audit_entry\<close> helper
  of the contracts): a ring buffer of 500 slots, a head index and a running total.
\<close>

definition MAX_AUDIT_LOG_SIZE :: u64 where "MAX_AUDIT_LOG_SIZE = 500"

datatype AuditSource =
    AS_AccessControl | AS_Treasury | AS_RiskRegistry | AS_InvoiceNft | AS_ParameterRegistry
  | AS_ContributorBadges | AS_Marketplace | AS_FinancingPool

datatype (plugins only:) AdminActionType =
    AA_Pause | AA_Unpause | AA_GrantRole | AA_RevokeRole | AA_TransferAdmin | AA_RotateAdmin
    | AA_ConfigureMultisig | AA_ProposeUpgrade | AA_ExecuteUpgrade | AA_MultisigExecuteAction
    | AA_ProposeParameter | AA_ExecuteParameter | AA_ProposeVerifierAction
    | AA_ExecuteVerifierAction | AA_ProposeSignerSetChange | AA_ExecuteSignerSetChange
    | AA_SetFeeBps | AA_WhitelistToken | AA_Withdraw | AA_EmergencyWithdraw
    | AA_ProposeWithdrawalCap | AA_ExecuteWithdrawalCap | AA_TreasuryProposeUpgrade
    | AA_TreasuryExecuteUpgrade | AA_SetAccessControl | AA_DeclareEmergency | AA_RevokeEmergency
    | AA_SetReserveAllocation | AA_SetReserveCaller | AA_DisburseFromReserve
    | AA_ProposeTreasuryAction | AA_ApproveTreasuryAction | AA_ExecuteTreasuryAction
    | AA_ProposeRecipient | AA_ExecuteRecipient | AA_AddVerifier | AA_RemoveVerifier
    | AA_SuspendVerifier | AA_ReinstateVerifier | AA_RequestVerifierRemoval
    | AA_FinalizeVerifierRemoval | AA_RecordDefault | AA_RegistryTransferAdmin
    | AA_RegistryProposeUpgrade | AA_RegistryExecuteUpgrade | AA_CorrectMetadataHash
    | AA_UpdateMetadataCid | AA_InvoiceNftSetRiskRegistry | AA_InvoiceNftSetDebtorAttestation
    | AA_InvoiceNftSetAuthorizedCallers | AA_InvoiceNftSetDefaulted | AA_InvoiceNftFreezeInvoice
    | AA_InvoiceNftUnfreezeInvoice | AA_InvoiceNftAddAllowedCurrency
    | AA_InvoiceNftRemoveAllowedCurrency | AA_InvoiceNftProposeUpgrade
    | AA_InvoiceNftExecuteUpgrade | AA_InvoiceNftMigrate | AA_InvoiceNftSetMintRateLimit
    | AA_RegistrySetParam | AA_RegistryProposeParam | AA_RegistryApproveParam
    | AA_RegistryExecuteParam | AA_RegistryCancelParam | AA_RegistrySetGovernance | AA_BadgeMint
    | AA_BadgeRevoke | AA_BadgeSetIssuer | AA_ScoreDisputeFile | AA_ScoreDisputeSubmitEvidence
    | AA_ScoreDisputeResolve | AA_DiscretionaryWithdrawalPropose
    | AA_DiscretionaryWithdrawalApprove | AA_DiscretionaryWithdrawalExecute
    | AA_DiscretionaryWithdrawalCancel | AA_SetTokenDecimals

record AdminAuditEntry =
  ae_sequence :: u64
  ae_timestamp :: u64
  ae_actor :: address
  ae_action :: AdminActionType
  ae_source :: AuditSource
  ae_token :: "address option"
  ae_amount :: "i128 option"

record audit_log =
  al_head :: "u64 option"
  al_total :: "u64 option"
  al_entries :: "u64 \<Rightarrow> AdminAuditEntry option"

definition empty_audit :: audit_log where
  "empty_audit = \<lparr>al_head = None, al_total = None, al_entries = (\<lambda>_. None)\<rparr>"

text \<open>\<open>append_audit_entry\<close> of \<open>invoice_nft\<close>; the increments trap on \<open>u64\<close> overflow.\<close>

definition audit_append ::
  "AuditSource \<Rightarrow> env \<Rightarrow> audit_log \<Rightarrow> address \<Rightarrow> AdminActionType \<Rightarrow> ('e, audit_log) result" where
  "audit_append src e l actor action =
     (let total = (case al_total l of None \<Rightarrow> 0 | Some n \<Rightarrow> n);
          head = (case al_head l of None \<Rightarrow> 0 | Some n \<Rightarrow> n);
          entry = \<lparr>ae_sequence = total, ae_timestamp = timestamp e, ae_actor = actor,
                   ae_action = action, ae_source = src, ae_token = None, ae_amount = None\<rparr> in
      rbind (ok_or (u64_add head 1) Trap) (\<lambda>h1.
      rbind (ok_or (u64_add total 1) Trap) (\<lambda>t1.
      Inr \<lparr>al_head = Some (h1 mod MAX_AUDIT_LOG_SIZE), al_total = Some t1,
           al_entries = (al_entries l)(head \<mapsto> entry)\<rparr>)))"

text \<open>The abstract log is the list of all entries ever appended; the ring shows the last 500
  of them, each in the slot of its sequence number.\<close>

definition audit_repr :: "audit_log \<Rightarrow> AdminAuditEntry list \<Rightarrow> bool" where
  "audit_repr l h \<longleftrightarrow>
     (case al_total l of None \<Rightarrow> 0 | Some n \<Rightarrow> n) = length h \<and>
     (case al_head l of None \<Rightarrow> 0 | Some n \<Rightarrow> n) = length h mod MAX_AUDIT_LOG_SIZE \<and>
     (\<forall>k < length h. ae_sequence (h ! k) = k \<and>
        (length h \<le> k + MAX_AUDIT_LOG_SIZE \<longrightarrow>
           al_entries l (k mod MAX_AUDIT_LOG_SIZE) = Some (h ! k)))"

lemma audit_repr_empty: "audit_repr empty_audit []"
  by (simp add: audit_repr_def empty_audit_def)

lemma slot_reused:
  "k < n \<Longrightarrow> n < k + m \<Longrightarrow> k mod m \<noteq> n mod (m::nat)"
proof
  assume "k < n" "n < k + m" "k mod m = n mod m"
  then have "m dvd n - k" by (metis mod_eq_dvd_iff_nat less_imp_le_nat)
  with \<open>k < n\<close> \<open>n < k + m\<close> show False by (auto dest: dvd_imp_le)
qed

text \<open>The audit ring buffer refines the list of all entries ever appended: appending
  extends that list by one entry numbered with its position, and the last 500 entries of the
  list stay readable in their slots, the older ones being the only ones overwritten.\<close>

theorem audit_append_refines:
  assumes "audit_repr l h" "audit_append src e l actor action = Inr l'"
  shows "audit_repr l' (h @ [\<lparr>ae_sequence = length h, ae_timestamp = timestamp e, ae_actor = actor,
           ae_action = action, ae_source = src, ae_token = None, ae_amount = None\<rparr>])"
proof -
  let ?n = "length h"
  let ?x = "\<lparr>ae_sequence = ?n, ae_timestamp = timestamp e, ae_actor = actor,
           ae_action = action, ae_source = src, ae_token = None, ae_amount = None\<rparr>"
  have l': "l' = \<lparr>al_head = Some ((?n mod MAX_AUDIT_LOG_SIZE + 1) mod MAX_AUDIT_LOG_SIZE),
      al_total = Some (?n + 1), al_entries = (al_entries l)(?n mod MAX_AUDIT_LOG_SIZE \<mapsto> ?x)\<rparr>"
    using assms by (auto simp: audit_append_def audit_repr_def Let_def)
  have old: "al_entries l' (k mod MAX_AUDIT_LOG_SIZE) = Some (h ! k)"
    if "k < ?n" "Suc ?n \<le> k + MAX_AUDIT_LOG_SIZE" for k
    using assms(1) that slot_reused[of k ?n MAX_AUDIT_LOG_SIZE] by (auto simp: audit_repr_def l')
  show ?thesis
    using assms(1) old by (auto simp: audit_repr_def nth_append less_Suc_eq mod_Suc_eq l')
qed

text \<open>Every append that does not overflow the 64-bit total succeeds.\<close>

lemma audit_append_ok:
  assumes "audit_repr l h" "length h < u64_max"
  shows "\<exists>l'. audit_append src e l actor action = Inr l'"
proof -
  have "Suc (length h mod MAX_AUDIT_LOG_SIZE) \<le> u64_max"
    using assms(2) by (intro Suc_leI le_less_trans[OF mod_less_eq_dividend])
  with assms show ?thesis by (auto simp: audit_append_def audit_repr_def Let_def)
qed

theorem audit_append_refines_witness:
  "\<exists>l'. audit_append AS_InvoiceNft sample_env empty_audit 5 AA_Pause = (Inr l' :: (unit, audit_log) result) \<and>
     audit_repr l' [\<lparr>ae_sequence = 0, ae_timestamp = timestamp sample_env, ae_actor = 5,
           ae_action = AA_Pause, ae_source = AS_InvoiceNft, ae_token = None, ae_amount = None\<rparr>]"
proof -
  obtain l' where run: "audit_append AS_InvoiceNft sample_env empty_audit 5 AA_Pause = (Inr l' :: (unit, audit_log) result)"
    using audit_append_ok[OF audit_repr_empty, of AS_InvoiceNft sample_env 5 AA_Pause]
    by (auto simp: u64_max_def)
  show ?thesis using audit_append_refines[OF audit_repr_empty run] run
    by (auto simp del: sample_env_simps)
qed

end
