(* ===== verification/Invoice_Nft.thy ===== *)
theory Invoice_Nft
  imports Kora_Reentrancy Kora_Migration Kora_Audit
begin

text \<open>
  The invoice contract (\<open>contracts/invoice_nft/src/lib.rs\<close>): the canonical state machine of an
  invoice, its split hot/cold record, the exposure ledger per SME, the mint quota, metadata
  disputes and freezes.  \<open>nft_state\<close> has one field per storage key; an absent entry is
  \<open>None\<close>.  Every entry point is one definition, with the guards in the order of the code.
  Events and the extension of storage time-to-live change no storage value and are left out.
\<close>

section \<open>State\<close>

datatype InvoiceNftError =
    AlreadyInitialized | ArithmeticOverflow | BatchSizeExceeded | CreditLimitExceeded
  | CurrencyNotAllowed | EmptyBytes | EmptyString | FieldTooLong | InvalidAddress
  | InvalidAmount | InvalidDueDate | InvalidInvoiceStatus | InvalidRiskScore | InvoiceNotFound
  | NoUpgradeProposed | NotAdmin | NotInitialized | NotInvoiceOwner | ProtocolPaused
  | Reentrancy | SMENotRegistered | Unauthorized | UpgradeTimelockNotElapsed
  | MintRateLimitExceeded | InvalidParameterValue | InvalidMigrationTarget | InvalidReferrer
  | ReferralAlreadyLocked

definition nft_from_common :: "CommonError \<Rightarrow> InvoiceNftError" where
  "nft_from_common c =
     (case c of
        CE_InvalidAmount \<Rightarrow> InvalidAmount | CE_InvalidDueDate \<Rightarrow> InvalidDueDate
      | CE_InvalidRiskScore \<Rightarrow> InvalidRiskScore | CE_InvalidAddress \<Rightarrow> InvalidAddress
      | CE_EmptyString \<Rightarrow> EmptyString | CE_EmptyBytes \<Rightarrow> EmptyBytes
      | CE_FieldTooLong \<Rightarrow> FieldTooLong | CE_ArithmeticOverflow \<Rightarrow> ArithmeticOverflow
      | CE_Reentrancy \<Rightarrow> Reentrancy | _ \<Rightarrow> InvalidAmount)"

definition nft_from_migration :: "MigrationError \<Rightarrow> InvoiceNftError" where
  "nft_from_migration _ = InvalidMigrationTarget"

record InvoiceHot =
  hot_id :: u64
  hot_sme :: address
  hot_amount :: i128
  hot_currency :: symbol
  hot_due_date :: u64
  hot_risk_score :: u32
  hot_risk_tier :: RiskTier
  hot_status :: InvoiceStatus
  hot_created_at :: u64
  hot_funded_at :: "u64 option"
  hot_repaid_at :: "u64 option"

record InvoiceCold =
  cold_debtor_hash :: bytes
  cold_ipfs_cid :: string
  cold_metadata_hash :: bytes
  cold_notes :: "string option"

record InvoiceV1 =
  v1_id :: u64
  v1_sme :: address
  v1_debtor_hash :: bytes
  v1_amount :: i128
  v1_currency :: symbol
  v1_due_date :: u64
  v1_ipfs_cid :: string
  v1_risk_score :: u32
  v1_risk_tier :: RiskTier
  v1_status :: InvoiceStatus
  v1_created_at :: u64
  v1_funded_at :: "u64 option"
  v1_repaid_at :: "u64 option"

text \<open>The legacy slot \<open>Invoice(id)\<close> holds either encoding; reading one as the other traps.\<close>

datatype legacy_slot = EncodedV1 InvoiceV1 | EncodedV2 Invoice

record MetadataDispute =
  md_challenger :: address
  md_evidence_hash :: bytes
  md_raised_at :: u64
  md_resolved :: bool
  md_upheld :: bool

record MintRateLimit =
  rl_max_mints :: u32
  rl_window_secs :: u64

record BatchInvoiceInput =
  bi_debtor_hash :: bytes
  bi_amount :: i128
  bi_currency :: symbol
  bi_due_date :: u64
  bi_ipfs_cid :: string
  bi_risk_score :: u32
  bi_notes :: "string option"

record nft_state =
  nx_next_id :: "u64 option"
  nx_admin :: "address option"
  nx_access_control :: "address option"
  nx_migration_version :: "u32 option"
  nx_upgrade :: "(bytes \<times> u64) option"
  nx_marketplace :: "address option"
  nx_financing_pool :: "address option"
  nx_risk_registry :: "address option"
  nx_debtor_attestation :: "address option"
  nx_config :: "ProtocolConfig option"
  nx_audit :: audit_log
  nx_next_batch_id :: "u64 option"
  nx_rate_limit :: "MintRateLimit option"
  nx_bounds :: "RiskTier \<Rightarrow> AmountBounds option"
  nx_hot :: "u64 \<Rightarrow> InvoiceHot option"
  nx_cold :: "u64 \<Rightarrow> InvoiceCold option"
  nx_exposure :: "address \<Rightarrow> i128 option"
  nx_allowlist :: "symbol \<Rightarrow> bool option"
  nx_frozen :: "u64 \<Rightarrow> bool option"
  nx_dispute :: "u64 \<Rightarrow> MetadataDispute option"
  nx_sme_ids :: "address \<Rightarrow> u64 list option"
  nx_mint_window :: "address \<Rightarrow> (u64 \<times> u32) option"
  nx_cid_history :: "u64 \<Rightarrow> string list option"
  nx_first_mint :: "address \<Rightarrow> u64 option"
  nx_referrer :: "address \<Rightarrow> address option"
  nx_legacy :: "u64 \<Rightarrow> legacy_slot option"
  nx_lock :: bool

type_synonym 'a nft_result = "(InvoiceNftError, 'a) result"

definition SCHEMA_VERSION :: u32 where "SCHEMA_VERSION = 2"
definition MAX_SME_INVOICE_PAGE :: u32 where "MAX_SME_INVOICE_PAGE = 100"
definition MAX_METADATA_CID_HISTORY :: u32 where "MAX_METADATA_CID_HISTORY = 20"

text \<open>A freshly deployed contract: no storage entry at all.\<close>

definition nft_empty :: nft_state where
  "nft_empty = \<lparr>nx_next_id = None, nx_admin = None, nx_access_control = None,
     nx_migration_version = None, nx_upgrade = None, nx_marketplace = None,
     nx_financing_pool = None, nx_risk_registry = None, nx_debtor_attestation = None,
     nx_config = None, nx_audit = empty_audit, nx_next_batch_id = None, nx_rate_limit = None,
     nx_bounds = (\<lambda>_. None), nx_hot = (\<lambda>_. None), nx_cold = (\<lambda>_. None),
     nx_exposure = (\<lambda>_. None), nx_allowlist = (\<lambda>_. None), nx_frozen = (\<lambda>_. None),
     nx_dispute = (\<lambda>_. None), nx_sme_ids = (\<lambda>_. None), nx_mint_window = (\<lambda>_. None),
     nx_cid_history = (\<lambda>_. None), nx_first_mint = (\<lambda>_. None), nx_referrer = (\<lambda>_. None),
     nx_legacy = (\<lambda>_. None), nx_lock = False\<rparr>"

abbreviation nft_lift :: "(CommonError, 'a) result \<Rightarrow> 'a nft_result" where
  "nft_lift \<equiv> map_err nft_from_common"

section \<open>Helpers\<close>

definition append_audit_entry :: "env \<Rightarrow> nft_state \<Rightarrow> address \<Rightarrow> AdminActionType \<Rightarrow> nft_state nft_result" where
  "append_audit_entry e s actor action =
     rbind (audit_append AS_InvoiceNft e (nx_audit s) actor action) (\<lambda>l. Inr (s\<lparr>nx_audit := l\<rparr>))"

definition load_hot :: "nft_state \<Rightarrow> u64 \<Rightarrow> InvoiceHot nft_result" where
  "load_hot s i = ok_or (nx_hot s i) (Err InvoiceNotFound)"

definition load_cold :: "nft_state \<Rightarrow> u64 \<Rightarrow> InvoiceCold nft_result" where
  "load_cold s i = ok_or (nx_cold s i) (Err InvoiceNotFound)"

definition nft_require_admin :: "nft_state \<Rightarrow> address \<Rightarrow> unit nft_result" where
  "nft_require_admin s caller =
     rbind (ok_or (nx_admin s) (Err NotInitialized)) (\<lambda>admin.
     if admin \<noteq> caller then Inl (Err NotAdmin) else Inr ())"

definition require_allowed_currency :: "nft_state \<Rightarrow> symbol \<Rightarrow> unit nft_result" where
  "require_allowed_currency s currency =
     (if nx_allowlist s currency \<noteq> Some True then Inl (Err CurrencyNotAllowed) else Inr ())"

definition nft_require_not_paused :: "env \<Rightarrow> nft_state \<Rightarrow> unit nft_result" where
  "nft_require_not_paused e s =
     rbind (ok_or (nx_access_control s) (Err NotInitialized)) (\<lambda>ac.
     if view_is_paused e ac then Inl (Err ProtocolPaused) else Inr ())"

text \<open>\<open>require_authorized_caller\<close>: the caller must be one of the wired addresses passed in.\<close>

fun require_authorized_caller :: "address option list \<Rightarrow> address \<Rightarrow> unit nft_result" where
  "require_authorized_caller [] caller = Inl (Err Unauthorized)"
| "require_authorized_caller (wired # rest) caller =
     (if wired = Some caller then Inr () else require_authorized_caller rest caller)"

definition consume_mint_quota :: "env \<Rightarrow> nft_state \<Rightarrow> address \<Rightarrow> u32 \<Rightarrow> nft_state nft_result" where
  "consume_mint_quota e s sme n =
     (case nx_rate_limit s of
        None \<Rightarrow> Inr s
      | Some cfg \<Rightarrow>
          let now = timestamp e;
              (start0, used0) = (case nx_mint_window s sme of None \<Rightarrow> (now, 0) | Some w \<Rightarrow> w);
              (start, used) = (if u64_sat_sub now start0 \<ge> rl_window_secs cfg then (now, 0)
                               else (start0, used0)) in
          rbind (ok_or (u32_add used n) (Err ArithmeticOverflow)) (\<lambda>new_used.
          if new_used > rl_max_mints cfg then Inl (Err MintRateLimitExceeded)
          else Inr (s\<lparr>nx_mint_window := (nx_mint_window s)(sme \<mapsto> (start, new_used))\<rparr>)))"

definition sme_ids :: "nft_state \<Rightarrow> address \<Rightarrow> u64 list" where
  "sme_ids s sme = (case nx_sme_ids s sme of None \<Rightarrow> [] | Some ids \<Rightarrow> ids)"

definition append_sme_invoice_id :: "nft_state \<Rightarrow> address \<Rightarrow> u64 \<Rightarrow> nft_state" where
  "append_sme_invoice_id s sme i = s\<lparr>nx_sme_ids := (nx_sme_ids s)(sme \<mapsto> sme_ids s sme @ [i])\<rparr>"

definition append_sme_invoice_ids :: "nft_state \<Rightarrow> address \<Rightarrow> u64 list \<Rightarrow> nft_state" where
  "append_sme_invoice_ids s sme ids = s\<lparr>nx_sme_ids := (nx_sme_ids s)(sme \<mapsto> sme_ids s sme @ ids)\<rparr>"

text \<open>\<open>remove1\<close> drops the first occurrence, as \<open>first_index_of\<close> and \<open>remove\<close> do.\<close>

definition remove_sme_invoice_id :: "nft_state \<Rightarrow> address \<Rightarrow> u64 \<Rightarrow> nft_state" where
  "remove_sme_invoice_id s sme i =
     (case nx_sme_ids s sme of
        None \<Rightarrow> s
      | Some ids \<Rightarrow>
          if i \<in> set ids then s\<lparr>nx_sme_ids := (nx_sme_ids s)(sme \<mapsto> remove1 i ids)\<rparr> else s)"

definition outstanding :: "nft_state \<Rightarrow> address \<Rightarrow> i128" where
  "outstanding s sme = (case nx_exposure s sme of None \<Rightarrow> 0 | Some x \<Rightarrow> x)"

definition next_id :: "nft_state \<Rightarrow> u64" where
  "next_id s = (case nx_next_id s of None \<Rightarrow> 1 | Some i \<Rightarrow> i)"

definition nft_guarded ::
  "(nft_state \<Rightarrow> (InvoiceNftError, nft_state \<times> 'r) result) \<Rightarrow> nft_state \<Rightarrow> (nft_state \<times> 'r) nft_result" where
  "nft_guarded = with_guard nx_lock (\<lambda>b s. s\<lparr>nx_lock := b\<rparr>) nft_from_common"

section \<open>Initialisation and migration\<close>

definition initialize :: "env \<Rightarrow> nft_state \<Rightarrow> address \<Rightarrow> address \<Rightarrow> nft_state nft_result" where
  "initialize e s admin access_control =
     (if nx_admin s \<noteq> None then Inl (Err AlreadyInitialized)
      else
        rbind (nft_lift (require_not_self e admin)) (\<lambda>_.
        rbind (nft_lift (require_not_self e access_control)) (\<lambda>_.
        rbind (nft_lift (require_distinct admin access_control)) (\<lambda>_.
        Inr (s\<lparr>nx_admin := Some admin, nx_access_control := Some access_control,
               nx_next_id := Some 1, nx_migration_version := Some SCHEMA_VERSION\<rparr>)))))"

definition upgrade_v1 :: "InvoiceV1 \<Rightarrow> Invoice" where
  "upgrade_v1 v =
     \<lparr>inv_id = v1_id v, inv_sme = v1_sme v, inv_debtor_hash = v1_debtor_hash v,
      inv_amount = v1_amount v, inv_currency = v1_currency v, inv_due_date = v1_due_date v,
      inv_ipfs_cid = v1_ipfs_cid v, inv_metadata_hash = [], inv_risk_score = v1_risk_score v,
      inv_risk_tier = v1_risk_tier v, inv_status = v1_status v,
      inv_created_at = v1_created_at v, inv_funded_at = v1_funded_at v,
      inv_repaid_at = v1_repaid_at v, inv_notes = None\<rparr>"

text \<open>The \<open>while id < next_id\<close> loop of the backfill, over the ids from 1.\<close>

fun migrate_ids :: "u64 list \<Rightarrow> nft_state \<Rightarrow> nft_state nft_result" where
  "migrate_ids [] s = Inr s"
| "migrate_ids (i # is) s =
     (case nx_legacy s i of
        None \<Rightarrow> migrate_ids is s
      | Some (EncodedV1 v) \<Rightarrow>
          migrate_ids is (s\<lparr>nx_legacy := (nx_legacy s)(i \<mapsto> EncodedV2 (upgrade_v1 v))\<rparr>)
      | Some (EncodedV2 _) \<Rightarrow> Inl Trap)"

definition migrate_v1_to_v2 :: "nft_state \<Rightarrow> nft_state nft_result" where
  "migrate_v1_to_v2 s =
     rbind (migrate_ids [1..<next_id s] s) (\<lambda>s1. Inr (s1\<lparr>nx_migration_version := Some 2\<rparr>))"

definition nft_migration_step :: "u32 \<Rightarrow> u32 \<Rightarrow> nft_state \<Rightarrow> nft_state nft_result" where
  "nft_migration_step old new s =
     (if (old, new) = (0, 1) then Inr s
      else if (old, new) = (1, 2) then migrate_v1_to_v2 s
      else Inl (Err InvalidMigrationTarget))"

definition migrate_versions :: "env \<Rightarrow> nft_state \<Rightarrow> address \<Rightarrow> u32 \<Rightarrow> u32 \<Rightarrow> nft_state nft_result" where
  "migrate_versions e s admin from_version to_version =
     rbind (require_auth e admin) (\<lambda>_.
     rbind (nft_require_admin s admin) (\<lambda>_.
     rbind (migrate nft_from_migration nx_migration_version
              (\<lambda>v s. s\<lparr>nx_migration_version := Some v\<rparr>) nft_migration_step
              from_version to_version SCHEMA_VERSION s) (\<lambda>(s1, changed).
     if changed then append_audit_entry e s1 admin AA_InvoiceNftMigrate else Inr s1)))"

definition nft_migrate :: "env \<Rightarrow> nft_state \<Rightarrow> address \<Rightarrow> nft_state nft_result" where
  "nft_migrate e s admin =
     migrate_versions e s admin (read_version nx_migration_version s) SCHEMA_VERSION"

section \<open>Admin wiring\<close>

definition set_risk_registry :: "env \<Rightarrow> nft_state \<Rightarrow> address \<Rightarrow> address \<Rightarrow> nft_state nft_result" where
  "set_risk_registry e s admin rr =
     rbind (require_auth e admin) (\<lambda>_.
     rbind (nft_require_admin s admin) (\<lambda>_.
     rbind (nft_lift (require_not_self e rr)) (\<lambda>_.
     append_audit_entry e (s\<lparr>nx_risk_registry := Some rr\<rparr>) admin AA_InvoiceNftSetRiskRegistry)))"

definition set_debtor_attestation :: "env \<Rightarrow> nft_state \<Rightarrow> address \<Rightarrow> address \<Rightarrow> nft_state nft_result" where
  "set_debtor_attestation e s admin att =
     rbind (require_auth e admin) (\<lambda>_.
     rbind (nft_require_admin s admin) (\<lambda>_.
     rbind (nft_lift (require_not_self e att)) (\<lambda>_.
     if nx_debtor_attestation s = Some att then Inr s
     else append_audit_entry e (s\<lparr>nx_debtor_attestation := Some att\<rparr>) admin
            AA_InvoiceNftSetDebtorAttestation)))"

definition get_debtor_attestation :: "nft_state \<Rightarrow> address option" where
  "get_debtor_attestation s = nx_debtor_attestation s"

text \<open>The loop over the wired dependencies: neither new caller may coincide with one.\<close>

fun check_wired :: "address option list \<Rightarrow> address \<Rightarrow> address \<Rightarrow> unit nft_result" where
  "check_wired [] m p = Inr ()"
| "check_wired (None # ws) m p = check_wired ws m p"
| "check_wired (Some x # ws) m p =
     rbind (nft_lift (require_distinct m x)) (\<lambda>_.
     rbind (nft_lift (require_distinct p x)) (\<lambda>_. check_wired ws m p))"

definition set_authorized_callers ::
  "env \<Rightarrow> nft_state \<Rightarrow> address \<Rightarrow> address \<Rightarrow> address \<Rightarrow> nft_state nft_result" where
  "set_authorized_callers e s admin market pool =
     rbind (require_auth e admin) (\<lambda>_.
     rbind (nft_require_admin s admin) (\<lambda>_.
     rbind (nft_lift (require_not_self e market)) (\<lambda>_.
     rbind (nft_lift (require_not_self e pool)) (\<lambda>_.
     rbind (nft_lift (require_distinct market pool)) (\<lambda>_.
     rbind (check_wired [nx_admin s, nx_access_control s, nx_risk_registry s] market pool) (\<lambda>_.
     append_audit_entry e (s\<lparr>nx_marketplace := Some market, nx_financing_pool := Some pool\<rparr>)
       admin AA_InvoiceNftSetAuthorizedCallers))))))"

definition set_protocol_config :: "env \<Rightarrow> nft_state \<Rightarrow> address \<Rightarrow> ProtocolConfig \<Rightarrow> nft_state nft_result" where
  "set_protocol_config e s admin cfg =
     rbind (require_auth e admin) (\<lambda>_.
     rbind (nft_require_admin s admin) (\<lambda>_.
     rbind (nft_lift (require_valid_risk_score (cfg_max_risk_score cfg))) (\<lambda>_.
     Inr (s\<lparr>nx_config := Some cfg\<rparr>))))"

definition get_protocol_config :: "nft_state \<Rightarrow> ProtocolConfig" where
  "get_protocol_config s =
     (case nx_config s of
        None \<Rightarrow> \<lparr>cfg_fee_bps = 0, cfg_late_penalty_bps = 0, cfg_max_risk_score = 100,
                  cfg_min_funding_period = 0\<rparr>
      | Some c \<Rightarrow> c)"

definition set_amount_bounds ::
  "env \<Rightarrow> nft_state \<Rightarrow> address \<Rightarrow> RiskTier \<Rightarrow> i128 \<Rightarrow> i128 \<Rightarrow> nft_state nft_result" where
  "set_amount_bounds e s admin tier min_amount max_amount =
     rbind (require_auth e admin) (\<lambda>_.
     rbind (nft_require_admin s admin) (\<lambda>_.
     if min_amount < 0 \<or> max_amount < 0 \<or> min_amount > max_amount then Inl (Err InvalidAmount)
     else Inr (s\<lparr>nx_bounds := (nx_bounds s)(tier \<mapsto> \<lparr>ab_min = min_amount, ab_max = max_amount\<rparr>)\<rparr>)))"

definition set_mint_rate_limit ::
  "env \<Rightarrow> nft_state \<Rightarrow> address \<Rightarrow> u32 \<Rightarrow> u64 \<Rightarrow> nft_state nft_result" where
  "set_mint_rate_limit e s admin max_mints window_secs =
     rbind (require_auth e admin) (\<lambda>_.
     rbind (nft_require_admin s admin) (\<lambda>_.
     if max_mints = 0 \<or> window_secs = 0 then Inl (Err InvalidParameterValue)
     else append_audit_entry e
            (s\<lparr>nx_rate_limit := Some \<lparr>rl_max_mints = max_mints, rl_window_secs = window_secs\<rparr>\<rparr>)
            admin AA_InvoiceNftSetMintRateLimit))"

definition get_sme_mint_window :: "nft_state \<Rightarrow> address \<Rightarrow> u64 \<times> u32" where
  "get_sme_mint_window s sme = (case nx_mint_window s sme of None \<Rightarrow> (0, 0) | Some w \<Rightarrow> w)"

section \<open>Minting\<close>

definition make_hot ::
  "env \<Rightarrow> u64 \<Rightarrow> address \<Rightarrow> i128 \<Rightarrow> symbol \<Rightarrow> u64 \<Rightarrow> u32 \<Rightarrow> InvoiceHot" where
  "make_hot e i sme amount currency due_date risk_score =
     \<lparr>hot_id = i, hot_sme = sme, hot_amount = amount, hot_currency = currency,
      hot_due_date = due_date, hot_risk_score = risk_score, hot_risk_tier = from_score risk_score,
      hot_status = Created, hot_created_at = timestamp e, hot_funded_at = None,
      hot_repaid_at = None\<rparr>"

definition make_cold :: "bytes \<Rightarrow> string \<Rightarrow> string option \<Rightarrow> InvoiceCold" where
  "make_cold debtor_hash cid notes =
     \<lparr>cold_debtor_hash = debtor_hash, cold_ipfs_cid = cid, cold_metadata_hash = [],
      cold_notes = notes\<rparr>"

definition first_mint :: "nft_state \<Rightarrow> address \<Rightarrow> u64 \<Rightarrow> nft_state" where
  "first_mint s sme i =
     (if nx_first_mint s sme = None then s\<lparr>nx_first_mint := (nx_first_mint s)(sme \<mapsto> i)\<rparr> else s)"

definition mint_invoice ::
  "env \<Rightarrow> nft_state \<Rightarrow> address \<Rightarrow> bytes \<Rightarrow> i128 \<Rightarrow> symbol \<Rightarrow> u64 \<Rightarrow> string \<Rightarrow> u32 \<Rightarrow> string option
     \<Rightarrow> (nft_state \<times> u64) nft_result" where
  "mint_invoice e s0 sme debtor_hash amount currency due_date ipfs_cid risk_score notes =
     rbind (require_auth e sme) (\<lambda>_.
     rbind (nft_require_not_paused e s0) (\<lambda>_.
     nft_guarded (\<lambda>s.
       rbind (nft_lift (require_non_zero_amount amount)) (\<lambda>_.
       rbind (nft_lift (require_future_timestamp e due_date)) (\<lambda>_.
       rbind (nft_lift (require_valid_risk_score risk_score)) (\<lambda>_.
       rbind (nft_lift (require_risk_score_within_ceiling risk_score
                          (cfg_max_risk_score (get_protocol_config s)))) (\<lambda>_.
       let tier = from_score risk_score in
       rbind (case nx_bounds s tier of
                None \<Rightarrow> Inr ()
              | Some b \<Rightarrow> nft_lift (require_amount_within_bounds amount (ab_min b) (ab_max b))) (\<lambda>_.
       rbind (nft_lift (require_non_empty_bytes debtor_hash)) (\<lambda>_.
       rbind (nft_lift (require_max_length_bytes debtor_hash MAX_DEBTOR_HASH_LEN)) (\<lambda>_.
       rbind (nft_lift (require_non_empty_string ipfs_cid)) (\<lambda>_.
       rbind (nft_lift (require_max_length_string ipfs_cid MAX_IPFS_CID_LEN)) (\<lambda>_.
       rbind (consume_mint_quota e s sme 1) (\<lambda>s.
       rbind (ok_or (i128_add (outstanding s sme) amount) (Err ArithmeticOverflow)) (\<lambda>new_exposure.
       rbind (case nx_risk_registry s of
                None \<Rightarrow> Inr ()
              | Some rr \<Rightarrow>
                  (case view_sme_profile e rr sme of
                     None \<Rightarrow> Inr ()
                   | Some profile \<Rightarrow>
                       if sp_credit_limit profile > 0 \<and> new_exposure > sp_credit_limit profile
                       then Inl (Err CreditLimitExceeded) else Inr ())) (\<lambda>_.
       rbind (consume_mint_quota e s sme 1) (\<lambda>s.
       let i = next_id s;
           s = s\<lparr>nx_hot := (nx_hot s)(i \<mapsto> make_hot e i sme amount currency due_date risk_score),
                 nx_cold := (nx_cold s)(i \<mapsto> make_cold debtor_hash ipfs_cid notes)\<rparr> in
       rbind (ok_or (u64_add i 1) (Err ArithmeticOverflow)) (\<lambda>nxt.
       let s = s\<lparr>nx_next_id := Some nxt, nx_exposure := (nx_exposure s)(sme \<mapsto> new_exposure)\<rparr>;
           s = append_sme_invoice_id s sme i in
       Inr (first_mint s sme i, i)))))))))))))))) s0))"

text \<open>The referrer walk of \<open>mint_invoice_with_referrer\<close>: at most 32 hops, none of which may
  reach the SME; a chain that is longer is rejected too.\<close>

fun referrer_walk :: "nft_state \<Rightarrow> address \<Rightarrow> nat \<Rightarrow> address \<Rightarrow> unit nft_result" where
  "referrer_walk s sme 0 cur = Inl (Err InvalidReferrer)"
| "referrer_walk s sme (Suc hops_left) cur =
     (if cur = sme then Inl (Err InvalidReferrer)
      else case nx_referrer s cur of
             Some nxt \<Rightarrow> referrer_walk s sme hops_left nxt
           | None \<Rightarrow> Inr ())"

definition mint_invoice_with_referrer ::
  "env \<Rightarrow> nft_state \<Rightarrow> address \<Rightarrow> bytes \<Rightarrow> i128 \<Rightarrow> symbol \<Rightarrow> u64 \<Rightarrow> string \<Rightarrow> u32 \<Rightarrow> string option
     \<Rightarrow> address option \<Rightarrow> (nft_state \<times> u64) nft_result" where
  "mint_invoice_with_referrer e s sme debtor_hash amount currency due_date ipfs_cid risk_score notes referrer =
     (let has_first_mint = nx_first_mint s sme \<noteq> None in
      rbind (case referrer of
               None \<Rightarrow> Inr ()
             | Some r \<Rightarrow>
                 if r = sme then Inl (Err InvalidReferrer)
                 else if r = self_addr e then Inl (Err InvalidReferrer)
                 else if has_first_mint then Inl (Err ReferralAlreadyLocked)
                 else referrer_walk s sme 32 r) (\<lambda>_.
      rbind (mint_invoice e s sme debtor_hash amount currency due_date ipfs_cid risk_score notes)
        (\<lambda>(s1, i).
        case (has_first_mint, referrer) of
          (False, Some r) \<Rightarrow> Inr (s1\<lparr>nx_referrer := (nx_referrer s1)(sme \<mapsto> r)\<rparr>, i)
        | _ \<Rightarrow> Inr (s1, i))))"

fun check_batch :: "env \<Rightarrow> u32 \<Rightarrow> BatchInvoiceInput list \<Rightarrow> unit nft_result" where
  "check_batch e max_risk [] = Inr ()"
| "check_batch e max_risk (x # xs) =
     rbind (nft_lift (require_non_zero_amount (bi_amount x))) (\<lambda>_.
     rbind (nft_lift (require_future_timestamp e (bi_due_date x))) (\<lambda>_.
     rbind (nft_lift (require_valid_risk_score (bi_risk_score x))) (\<lambda>_.
     rbind (nft_lift (require_risk_score_within_ceiling (bi_risk_score x) max_risk)) (\<lambda>_.
     rbind (nft_lift (require_non_empty_bytes (bi_debtor_hash x))) (\<lambda>_.
     rbind (nft_lift (require_max_length_bytes (bi_debtor_hash x) MAX_DEBTOR_HASH_LEN)) (\<lambda>_.
     rbind (nft_lift (require_non_empty_string (bi_ipfs_cid x))) (\<lambda>_.
     rbind (nft_lift (require_max_length_string (bi_ipfs_cid x) MAX_IPFS_CID_LEN)) (\<lambda>_.
     check_batch e max_risk xs))))))))"

fun batch_loop ::
  "env \<Rightarrow> address \<Rightarrow> BatchInvoiceInput list \<Rightarrow> nft_state \<Rightarrow> u64 \<Rightarrow> i128 \<Rightarrow> u64 list
     \<Rightarrow> (nft_state \<times> u64 \<times> i128 \<times> u64 list) nft_result" where
  "batch_loop e sme [] s nid delta ids = Inr (s, nid, delta, ids)"
| "batch_loop e sme (x # xs) s nid delta ids =
     rbind (ok_or (i128_add delta (bi_amount x)) (Err ArithmeticOverflow)) (\<lambda>delta'.
     let s' = s\<lparr>nx_hot := (nx_hot s)(nid \<mapsto>
                    make_hot e nid sme (bi_amount x) (bi_currency x) (bi_due_date x) (bi_risk_score x)),
                nx_cold := (nx_cold s)(nid \<mapsto>
                    make_cold (bi_debtor_hash x) (bi_ipfs_cid x) (bi_notes x))\<rparr> in
     rbind (ok_or (u64_add nid 1) (Err ArithmeticOverflow)) (\<lambda>nid'.
     batch_loop e sme xs s' nid' delta' (ids @ [nid])))"

definition mint_invoices_batch ::
  "env \<Rightarrow> nft_state \<Rightarrow> address \<Rightarrow> BatchInvoiceInput list \<Rightarrow> (nft_state \<times> u64 list) nft_result" where
  "mint_invoices_batch e s0 sme invoices =
     rbind (require_auth e sme) (\<lambda>_.
     rbind (nft_require_not_paused e s0) (\<lambda>_.
     nft_guarded (\<lambda>s.
       rbind (nft_lift (require_batch_size_within_limit (length invoices))) (\<lambda>_.
       rbind (check_batch e (cfg_max_risk_score (get_protocol_config s)) invoices) (\<lambda>_.
       rbind (consume_mint_quota e s sme (length invoices)) (\<lambda>s.
       rbind (batch_loop e sme invoices s (next_id s) 0 []) (\<lambda>(s, nid, delta, ids).
       let s = s\<lparr>nx_next_id := Some nid\<rparr> in
       rbind (if delta \<noteq> 0 then
                rbind (ok_or (i128_add (outstanding s sme) delta) (Err ArithmeticOverflow)) (\<lambda>x.
                Inr (s\<lparr>nx_exposure := (nx_exposure s)(sme \<mapsto> x)\<rparr>))
              else Inr s) (\<lambda>s.
       let s = append_sme_invoice_ids s sme ids;
           s = (case ids of [] \<Rightarrow> s | i # _ \<Rightarrow> first_mint s sme i);
           batch_id = (case nx_next_batch_id s of None \<Rightarrow> 1 | Some b \<Rightarrow> b) in
       rbind (ok_or (u64_add batch_id 1) (Err ArithmeticOverflow)) (\<lambda>b.
       Inr (s\<lparr>nx_next_batch_id := Some b\<rparr>, ids)))))))) s0))"

section \<open>Amendment and metadata\<close>

definition amend_invoice ::
  "env \<Rightarrow> nft_state \<Rightarrow> address \<Rightarrow> u64 \<Rightarrow> bytes \<Rightarrow> i128 \<Rightarrow> u64 \<Rightarrow> string \<Rightarrow> u32 \<Rightarrow> nft_state nft_result" where
  "amend_invoice e s sme i debtor_hash amount due_date ipfs_cid risk_score =
     rbind (require_auth e sme) (\<lambda>_.
     rbind (nft_require_not_paused e s) (\<lambda>_.
     rbind (nft_lift (require_non_zero_amount amount)) (\<lambda>_.
     rbind (nft_lift (require_future_timestamp e due_date)) (\<lambda>_.
     rbind (nft_lift (require_valid_risk_score risk_score)) (\<lambda>_.
     rbind (nft_lift (require_non_empty_bytes debtor_hash)) (\<lambda>_.
     rbind (nft_lift (require_non_empty_string ipfs_cid)) (\<lambda>_.
     rbind (load_hot s i) (\<lambda>hot.
     if hot_status hot \<noteq> Created then Inl (Err InvalidInvoiceStatus)
     else if hot_sme hot \<noteq> sme then Inl (Err Unauthorized)
     else
       let hot = hot\<lparr>hot_amount := amount, hot_due_date := due_date,
                     hot_risk_score := risk_score, hot_risk_tier := from_score risk_score\<rparr>;
           s = s\<lparr>nx_hot := (nx_hot s)(i \<mapsto> hot)\<rparr> in
       rbind (load_cold s i) (\<lambda>cold.
       Inr (s\<lparr>nx_cold := (nx_cold s)(i \<mapsto>
              cold\<lparr>cold_debtor_hash := debtor_hash, cold_ipfs_cid := ipfs_cid\<rparr>)\<rparr>))))))))))"

definition get_metadata_cid_history :: "nft_state \<Rightarrow> u64 \<Rightarrow> string list" where
  "get_metadata_cid_history s i = (case nx_cid_history s i of None \<Rightarrow> [] | Some h \<Rightarrow> h)"

definition update_metadata_cid ::
  "env \<Rightarrow> nft_state \<Rightarrow> address \<Rightarrow> u64 \<Rightarrow> string \<Rightarrow> nft_state nft_result" where
  "update_metadata_cid e s sme i new_cid =
     rbind (require_auth e sme) (\<lambda>_.
     rbind (nft_require_not_paused e s) (\<lambda>_.
     rbind (nft_lift (require_non_empty_string new_cid)) (\<lambda>_.
     rbind (nft_lift (require_max_length_string new_cid MAX_IPFS_CID_LEN)) (\<lambda>_.
     rbind (load_hot s i) (\<lambda>hot.
     if hot_sme hot \<noteq> sme then Inl (Err NotInvoiceOwner)
     else if hot_status hot \<noteq> Created then Inl (Err InvalidInvoiceStatus)
     else
       rbind (load_cold s i) (\<lambda>cold.
       let history = get_metadata_cid_history s i;
           history = (if length history \<ge> MAX_METADATA_CID_HISTORY then drop 1 history else history);
           history = history @ [cold_ipfs_cid cold] in
       Inr (s\<lparr>nx_cid_history := (nx_cid_history s)(i \<mapsto> history),
              nx_cold := (nx_cold s)(i \<mapsto> cold\<lparr>cold_ipfs_cid := new_cid\<rparr>)\<rparr>)))))))"

definition withdraw_invoice :: "env \<Rightarrow> nft_state \<Rightarrow> address \<Rightarrow> u64 \<Rightarrow> nft_state nft_result" where
  "withdraw_invoice e s sme i =
     rbind (require_auth e sme) (\<lambda>_.
     rbind (nft_require_not_paused e s) (\<lambda>_.
     rbind (load_hot s i) (\<lambda>hot.
     if hot_status hot \<noteq> Created then Inl (Err InvalidInvoiceStatus)
     else if hot_sme hot \<noteq> sme then Inl (Err Unauthorized)
     else
       let s = s\<lparr>nx_hot := (nx_hot s)(i := None), nx_cold := (nx_cold s)(i := None)\<rparr>;
           s = s\<lparr>nx_exposure := (nx_exposure s)(sme \<mapsto>
                   i128_sat_sub (outstanding s sme) (hot_amount hot))\<rparr> in
       Inr (remove_sme_invoice_id s sme i))))"

section \<open>Status transitions\<close>

definition set_created :: "env \<Rightarrow> nft_state \<Rightarrow> address \<Rightarrow> u64 \<Rightarrow> (nft_state \<times> unit) nft_result" where
  "set_created e s0 caller i =
     rbind (require_auth e caller) (\<lambda>_.
     rbind (require_authorized_caller [nx_marketplace s0] caller) (\<lambda>_.
     rbind (nft_require_not_paused e s0) (\<lambda>_.
     nft_guarded (\<lambda>s.
       rbind (load_hot s i) (\<lambda>hot.
       if hot_status hot \<noteq> Listed then Inl (Err InvalidInvoiceStatus)
       else Inr (s\<lparr>nx_hot := (nx_hot s)(i \<mapsto> hot\<lparr>hot_status := Created\<rparr>)\<rparr>, ()))) s0)))"

definition set_listed :: "env \<Rightarrow> nft_state \<Rightarrow> address \<Rightarrow> u64 \<Rightarrow> (nft_state \<times> unit) nft_result" where
  "set_listed e s0 caller i =
     rbind (require_auth e caller) (\<lambda>_.
     rbind (require_authorized_caller [nx_marketplace s0] caller) (\<lambda>_.
     rbind (nft_require_not_paused e s0) (\<lambda>_.
     nft_guarded (\<lambda>s.
       rbind (load_hot s i) (\<lambda>hot.
       if hot_status hot \<noteq> Created then Inl (Err InvalidInvoiceStatus)
       else Inr (s\<lparr>nx_hot := (nx_hot s)(i \<mapsto> hot\<lparr>hot_status := Listed\<rparr>)\<rparr>, ()))) s0)))"

definition set_funded :: "env \<Rightarrow> nft_state \<Rightarrow> address \<Rightarrow> u64 \<Rightarrow> (nft_state \<times> unit) nft_result" where
  "set_funded e s0 caller i =
     rbind (require_auth e caller) (\<lambda>_.
     rbind (require_authorized_caller [nx_financing_pool s0] caller) (\<lambda>_.
     rbind (nft_require_not_paused e s0) (\<lambda>_.
     nft_guarded (\<lambda>s.
       rbind (load_hot s i) (\<lambda>hot.
       if hot_status hot \<noteq> Listed then Inl (Err InvalidInvoiceStatus)
       else Inr (s\<lparr>nx_hot := (nx_hot s)(i \<mapsto>
              hot\<lparr>hot_status := Funded, hot_funded_at := Some (timestamp e)\<rparr>)\<rparr>, ()))) s0)))"

definition release_exposure :: "nft_state \<Rightarrow> address \<Rightarrow> i128 \<Rightarrow> nft_state" where
  "release_exposure s sme amount =
     s\<lparr>nx_exposure := (nx_exposure s)(sme \<mapsto> i128_sat_sub (outstanding s sme) amount)\<rparr>"

definition set_repaid :: "env \<Rightarrow> nft_state \<Rightarrow> address \<Rightarrow> u64 \<Rightarrow> nft_state nft_result" where
  "set_repaid e s caller i =
     rbind (require_auth e caller) (\<lambda>_.
     rbind (require_authorized_caller [nx_financing_pool s] caller) (\<lambda>_.
     rbind (nft_require_not_paused e s) (\<lambda>_.
     rbind (load_hot s i) (\<lambda>hot.
     if hot_status hot \<noteq> Funded then Inl (Err InvalidInvoiceStatus)
     else
       let s = s\<lparr>nx_hot := (nx_hot s)(i \<mapsto>
                 hot\<lparr>hot_status := Repaid, hot_repaid_at := Some (timestamp e)\<rparr>)\<rparr> in
       Inr (release_exposure s (hot_sme hot) (hot_amount hot))))))"

definition set_defaulted :: "env \<Rightarrow> nft_state \<Rightarrow> address \<Rightarrow> u64 \<Rightarrow> (nft_state \<times> unit) nft_result" where
  "set_defaulted e s0 caller i =
     rbind (require_auth e caller) (\<lambda>_.
     rbind (nft_require_admin s0 caller) (\<lambda>_.
     nft_guarded (\<lambda>s.
       rbind (load_hot s i) (\<lambda>hot.
       if hot_status hot \<noteq> Funded then Inl (Err InvalidInvoiceStatus)
       else if timestamp e \<le> hot_due_date hot then Inl (Err InvalidInvoiceStatus)
       else
         let s = s\<lparr>nx_hot := (nx_hot s)(i \<mapsto> hot\<lparr>hot_status := Defaulted\<rparr>)\<rparr>;
             s = release_exposure s (hot_sme hot) (hot_amount hot) in
         rbind (append_audit_entry e s caller AA_InvoiceNftSetDefaulted) (\<lambda>s.
         Inr (s, ())))) s0))"

definition archive_invoice :: "env \<Rightarrow> nft_state \<Rightarrow> address \<Rightarrow> u64 \<Rightarrow> nft_state nft_result" where
  "archive_invoice e s admin i =
     rbind (require_auth e admin) (\<lambda>_.
     rbind (nft_require_admin s admin) (\<lambda>_.
     rbind (load_hot s i) (\<lambda>hot.
     if hot_status hot \<noteq> Repaid \<and> hot_status hot \<noteq> Defaulted then Inl (Err InvalidInvoiceStatus)
     else Inr (s\<lparr>nx_hot := (nx_hot s)(i := None), nx_cold := (nx_cold s)(i := None)\<rparr>))))"

section \<open>Views\<close>

definition get_invoice :: "nft_state \<Rightarrow> u64 \<Rightarrow> Invoice nft_result" where
  "get_invoice s i =
     rbind (load_hot s i) (\<lambda>hot.
     rbind (load_cold s i) (\<lambda>cold.
     Inr \<lparr>inv_id = hot_id hot, inv_sme = hot_sme hot, inv_debtor_hash = cold_debtor_hash cold,
          inv_amount = hot_amount hot, inv_currency = hot_currency hot,
          inv_due_date = hot_due_date hot, inv_ipfs_cid = cold_ipfs_cid cold,
          inv_metadata_hash = cold_metadata_hash cold, inv_risk_score = hot_risk_score hot,
          inv_risk_tier = hot_risk_tier hot, inv_status = hot_status hot,
          inv_created_at = hot_created_at hot, inv_funded_at = hot_funded_at hot,
          inv_repaid_at = hot_repaid_at hot, inv_notes = cold_notes cold\<rparr>))"

definition invoice_count :: "nft_state \<Rightarrow> u64" where
  "invoice_count s = u64_sat_sub (next_id s) 1"

definition counts_as_exposure :: "InvoiceHot \<Rightarrow> address \<Rightarrow> bool" where
  "counts_as_exposure hot sme \<longleftrightarrow>
     hot_sme hot = sme \<and> hot_status hot \<noteq> Repaid \<and> hot_status hot \<noteq> Defaulted"

text \<open>The \<open>while id < next_id\<close> loop of \<open>reconcile_outstanding_exposure\<close>.\<close>

fun reconcile_ids :: "nft_state \<Rightarrow> address \<Rightarrow> u64 list \<Rightarrow> i128 \<Rightarrow> i128" where
  "reconcile_ids s sme [] acc = acc"
| "reconcile_ids s sme (i # is) acc =
     (case nx_hot s i of
        Some hot \<Rightarrow>
          if counts_as_exposure hot sme
          then reconcile_ids s sme is (i128_sat_add acc (hot_amount hot))
          else reconcile_ids s sme is acc
      | None \<Rightarrow> reconcile_ids s sme is acc)"

definition reconcile_outstanding_exposure :: "nft_state \<Rightarrow> address \<Rightarrow> i128" where
  "reconcile_outstanding_exposure s sme = reconcile_ids s sme [1..<next_id s] 0"

definition get_sme_invoice_ids :: "nft_state \<Rightarrow> address \<Rightarrow> u32 \<Rightarrow> u32 \<Rightarrow> u64 list" where
  "get_sme_invoice_ids s sme start limit =
     (let ids = sme_ids s sme; len = length ids in
      if start \<ge> len then []
      else let limit = min limit MAX_SME_INVOICE_PAGE;
               end' = min (u32_sat_add start limit) len in
           take (end' - start) (drop start ids))"

section \<open>Metadata hash and disputes\<close>

definition commit_metadata_hash ::
  "env \<Rightarrow> nft_state \<Rightarrow> address \<Rightarrow> u64 \<Rightarrow> bytes \<Rightarrow> (nft_state \<times> unit) nft_result" where
  "commit_metadata_hash e s0 sme i h =
     rbind (require_auth e sme) (\<lambda>_.
     rbind (nft_require_not_paused e s0) (\<lambda>_.
     nft_guarded (\<lambda>s.
       rbind (nft_lift (require_non_empty_bytes h)) (\<lambda>_.
       rbind (load_hot s i) (\<lambda>hot.
       if hot_sme hot \<noteq> sme then Inl (Err Unauthorized)
       else if hot_status hot \<noteq> Created then Inl (Err InvalidInvoiceStatus)
       else
         rbind (load_cold s i) (\<lambda>cold.
         if length (cold_metadata_hash cold) \<noteq> 0 then Inl (Err AlreadyInitialized)
         else Inr (s\<lparr>nx_cold := (nx_cold s)(i \<mapsto> cold\<lparr>cold_metadata_hash := h\<rparr>)\<rparr>, ()))))) s0))"

definition flag_metadata_mismatch ::
  "env \<Rightarrow> nft_state \<Rightarrow> address \<Rightarrow> u64 \<Rightarrow> bytes \<Rightarrow> (nft_state \<times> unit) nft_result" where
  "flag_metadata_mismatch e s0 challenger i evidence =
     rbind (require_auth e challenger) (\<lambda>_.
     rbind (nft_require_not_paused e s0) (\<lambda>_.
     nft_guarded (\<lambda>s.
       rbind (nft_lift (require_non_empty_bytes evidence)) (\<lambda>_.
       rbind (load_cold s i) (\<lambda>cold.
       if length (cold_metadata_hash cold) = 0 then Inl (Err InvalidInvoiceStatus)
       else if nx_dispute s i \<noteq> None then Inl (Err AlreadyInitialized)
       else
         let dispute = \<lparr>md_challenger = challenger, md_evidence_hash = evidence,
                        md_raised_at = timestamp e, md_resolved = False, md_upheld = False\<rparr> in
         Inr (s\<lparr>nx_dispute := (nx_dispute s)(i \<mapsto> dispute),
                nx_frozen := (nx_frozen s)(i \<mapsto> True)\<rparr>, ())))) s0))"

definition resolve_metadata_dispute ::
  "env \<Rightarrow> nft_state \<Rightarrow> address \<Rightarrow> u64 \<Rightarrow> bool \<Rightarrow> nft_state nft_result" where
  "resolve_metadata_dispute e s admin i upheld =
     rbind (require_auth e admin) (\<lambda>_.
     rbind (nft_require_admin s admin) (\<lambda>_.
     rbind (ok_or (nx_dispute s i) (Err InvalidInvoiceStatus)) (\<lambda>dispute.
     if md_resolved dispute then Inl (Err InvalidInvoiceStatus)
     else
       let s = s\<lparr>nx_dispute := (nx_dispute s)(i \<mapsto>
                 dispute\<lparr>md_resolved := True, md_upheld := upheld\<rparr>)\<rparr> in
       Inr (if \<not> upheld then s\<lparr>nx_frozen := (nx_frozen s)(i := None)\<rparr> else s))))"

definition admin_correct_metadata_hash ::
  "env \<Rightarrow> nft_state \<Rightarrow> address \<Rightarrow> u64 \<Rightarrow> bytes \<Rightarrow> nft_state nft_result" where
  "admin_correct_metadata_hash e s admin i new_hash =
     rbind (require_auth e admin) (\<lambda>_.
     rbind (nft_require_admin s admin) (\<lambda>_.
     rbind (nft_lift (require_non_empty_bytes new_hash)) (\<lambda>_.
     rbind (load_hot s i) (\<lambda>hot.
     if hot_status hot \<noteq> Created then Inl (Err InvalidInvoiceStatus)
     else
       rbind (load_cold s i) (\<lambda>cold.
       append_audit_entry e
         (s\<lparr>nx_cold := (nx_cold s)(i \<mapsto> cold\<lparr>cold_metadata_hash := new_hash\<rparr>)\<rparr>)
         admin AA_CorrectMetadataHash)))))"

section \<open>Freezing\<close>

definition freeze_invoice :: "env \<Rightarrow> nft_state \<Rightarrow> address \<Rightarrow> u64 \<Rightarrow> nft_state nft_result" where
  "freeze_invoice e s admin i =
     rbind (require_auth e admin) (\<lambda>_.
     rbind (nft_require_admin s admin) (\<lambda>_.
     rbind (load_hot s i) (\<lambda>_.
     append_audit_entry e (s\<lparr>nx_frozen := (nx_frozen s)(i \<mapsto> True)\<rparr>) admin
       AA_InvoiceNftFreezeInvoice)))"

definition unfreeze_invoice :: "env \<Rightarrow> nft_state \<Rightarrow> address \<Rightarrow> u64 \<Rightarrow> nft_state nft_result" where
  "unfreeze_invoice e s admin i =
     rbind (require_auth e admin) (\<lambda>_.
     rbind (nft_require_admin s admin) (\<lambda>_.
     rbind (load_hot s i) (\<lambda>_.
     append_audit_entry e (s\<lparr>nx_frozen := (nx_frozen s)(i := None)\<rparr>) admin
       AA_InvoiceNftUnfreezeInvoice)))"

definition is_invoice_frozen :: "nft_state \<Rightarrow> u64 \<Rightarrow> bool" where
  "is_invoice_frozen s i = (case nx_frozen s i of None \<Rightarrow> False | Some b \<Rightarrow> b)"

fun freeze_loop :: "u32 \<Rightarrow> u64 list \<Rightarrow> nft_state \<Rightarrow> u32 \<Rightarrow> nft_state \<times> u32" where
  "freeze_loop mx [] s n = (s, n)"
| "freeze_loop mx (i # is) s n =
     (if n \<ge> mx then (s, n)
      else case nx_hot s i of
        None \<Rightarrow> freeze_loop mx is s n
      | Some hot \<Rightarrow>
          if hot_status hot = Repaid \<or> hot_status hot = Defaulted then freeze_loop mx is s n
          else if nx_frozen s i \<noteq> None then freeze_loop mx is s n
          else freeze_loop mx is (s\<lparr>nx_frozen := (nx_frozen s)(i \<mapsto> True)\<rparr>) (n + 1))"

definition freeze_sme_invoices ::
  "env \<Rightarrow> nft_state \<Rightarrow> address \<Rightarrow> address \<Rightarrow> u32 \<Rightarrow> (nft_state \<times> u32) nft_result" where
  "freeze_sme_invoices e s admin sme mx =
     rbind (require_auth e admin) (\<lambda>_.
     rbind (nft_require_admin s admin) (\<lambda>_.
     Inr (freeze_loop mx (sme_ids s sme) s 0)))"

fun unfreeze_loop :: "u32 \<Rightarrow> u64 list \<Rightarrow> nft_state \<Rightarrow> u32 \<Rightarrow> nft_state \<times> u32" where
  "unfreeze_loop mx [] s n = (s, n)"
| "unfreeze_loop mx (i # is) s n =
     (if n \<ge> mx then (s, n)
      else if nx_frozen s i = None then unfreeze_loop mx is s n
      else unfreeze_loop mx is (s\<lparr>nx_frozen := (nx_frozen s)(i := None)\<rparr>) (n + 1))"

definition unfreeze_sme_invoices ::
  "env \<Rightarrow> nft_state \<Rightarrow> address \<Rightarrow> address \<Rightarrow> u32 \<Rightarrow> (nft_state \<times> u32) nft_result" where
  "unfreeze_sme_invoices e s admin sme mx =
     rbind (require_auth e admin) (\<lambda>_.
     rbind (nft_require_admin s admin) (\<lambda>_.
     Inr (unfreeze_loop mx (sme_ids s sme) s 0)))"

section \<open>Risk refresh, upgrade, currency allowlist\<close>

definition refresh_risk_score :: "env \<Rightarrow> nft_state \<Rightarrow> address \<Rightarrow> u64 \<Rightarrow> (nft_state \<times> unit) nft_result" where
  "refresh_risk_score e s0 caller i =
     rbind (require_auth e caller) (\<lambda>_.
     rbind (nft_require_admin s0 caller) (\<lambda>_.
     rbind (nft_require_not_paused e s0) (\<lambda>_.
     nft_guarded (\<lambda>s.
       rbind (load_hot s i) (\<lambda>hot.
       if hot_status hot \<noteq> Funded then Inl (Err InvalidInvoiceStatus)
       else
         rbind (ok_or (nx_risk_registry s) (Err NotInitialized)) (\<lambda>rr.
         rbind (ok_or (view_sme_profile e rr (hot_sme hot)) (Err SMENotRegistered)) (\<lambda>profile.
         let new_score = sp_risk_score profile in
         Inr (s\<lparr>nx_hot := (nx_hot s)(i \<mapsto>
                hot\<lparr>hot_risk_score := new_score, hot_risk_tier := from_score new_score\<rparr>)\<rparr>, ()))))) s0)))"

definition nft_propose_upgrade :: "env \<Rightarrow> nft_state \<Rightarrow> address \<Rightarrow> bytes \<Rightarrow> nft_state nft_result" where
  "nft_propose_upgrade e s admin h =
     rbind (require_auth e admin) (\<lambda>_.
     rbind (nft_require_admin s admin) (\<lambda>_.
     append_audit_entry e (s\<lparr>nx_upgrade := Some (h, timestamp e)\<rparr>) admin AA_InvoiceNftProposeUpgrade))"

text \<open>The result carries the code hash handed to the deployer.\<close>

definition nft_execute_upgrade :: "env \<Rightarrow> nft_state \<Rightarrow> address \<Rightarrow> (nft_state \<times> bytes) nft_result" where
  "nft_execute_upgrade e s admin =
     rbind (require_auth e admin) (\<lambda>_.
     rbind (nft_require_admin s admin) (\<lambda>_.
     rbind (ok_or (nx_upgrade s) (Err NoUpgradeProposed)) (\<lambda>(wasm_hash, proposed_at).
     rbind (ok_or (u64_add proposed_at UPGRADE_TIMELOCK_DELAY) Trap) (\<lambda>ready.
     if timestamp e < ready then Inl (Err UpgradeTimelockNotElapsed)
     else
       rbind (append_audit_entry e (s\<lparr>nx_upgrade := None\<rparr>) admin AA_InvoiceNftExecuteUpgrade) (\<lambda>s.
       Inr (s, wasm_hash))))))"

definition add_allowed_currency :: "env \<Rightarrow> nft_state \<Rightarrow> address \<Rightarrow> symbol \<Rightarrow> nft_state nft_result" where
  "add_allowed_currency e s admin currency =
     rbind (require_auth e admin) (\<lambda>_.
     rbind (nft_require_admin s admin) (\<lambda>_.
     append_audit_entry e (s\<lparr>nx_allowlist := (nx_allowlist s)(currency \<mapsto> True)\<rparr>) admin
       AA_InvoiceNftAddAllowedCurrency))"

definition remove_allowed_currency :: "env \<Rightarrow> nft_state \<Rightarrow> address \<Rightarrow> symbol \<Rightarrow> nft_state nft_result" where
  "remove_allowed_currency e s admin currency =
     rbind (require_auth e admin) (\<lambda>_.
     rbind (nft_require_admin s admin) (\<lambda>_.
     append_audit_entry e (s\<lparr>nx_allowlist := (nx_allowlist s)(currency := None)\<rparr>) admin
       AA_InvoiceNftRemoveAllowedCurrency))"

definition is_currency_allowed :: "nft_state \<Rightarrow> symbol \<Rightarrow> bool" where
  "is_currency_allowed s currency = (case nx_allowlist s currency of None \<Rightarrow> False | Some b \<Rightarrow> b)"

section \<open>The contract provides the shared interfaces\<close>

interpretation nft_lock: lockable nx_lock "\<lambda>b s. s\<lparr>nx_lock := b\<rparr>"
  by unfold_locales auto

interpretation nft_version: versioned_store nx_migration_version
    "\<lambda>v s. s\<lparr>nx_migration_version := Some v\<rparr>"
  by unfold_locales auto

lemma nft_guarded_Inr_iff [simp]:
  "nft_guarded body s = Inr (s', r) \<longleftrightarrow>
     \<not> nx_lock s \<and>
     (\<exists>s2. body (s\<lparr>nx_lock := True\<rparr>) = Inr (s2, r) \<and> s' = s2\<lparr>nx_lock := False\<rparr>)"
  by (simp add: nft_guarded_def nft_lock.guard_Inr_iff)

lemma nft_require_admin_Inr_iff [simp]:
  "nft_require_admin s a = Inr u \<longleftrightarrow> nx_admin s = Some a"
  by (auto simp: nft_require_admin_def)

lemma nft_require_not_paused_Inr_iff [simp]:
  "nft_require_not_paused e s = Inr u \<longleftrightarrow>
     (\<exists>ac. nx_access_control s = Some ac \<and> \<not> view_is_paused e ac)"
  by (auto simp: nft_require_not_paused_def)

lemma require_authorized_caller_Inr_iff [simp]:
  "require_authorized_caller ws a = Inr u \<longleftrightarrow> Some a \<in> set ws"
  by (induction ws) auto

declare require_authorized_caller.simps [simp del]

lemma load_Inr_iff [simp]:
  "load_hot s i = Inr h \<longleftrightarrow> nx_hot s i = Some h"
  "load_cold s i = Inr c \<longleftrightarrow> nx_cold s i = Some c"
  by (simp_all add: load_hot_def load_cold_def)

end
