(* ===== verification/Nft_Lifecycle.thy ===== *)
theory Nft_Lifecycle
  imports Invoice_Nft
begin

text \<open>
  Runs of the invoice contract.  \<open>nft_call\<close> has one constructor per state-changing entry
  point and \<open>nft_exec\<close> dispatches a call to it; \<open>nft_runs P\<close> are the runs whose calls all
  satisfy \<open>P\<close>.  \<open>ledger\<close> is the abstract contract: the invoices, the id counter and the
  exposure per SME, with the transitions \<open>ledger_step\<close> allows.  The refinement lemma
  \<open>nft_exec_refines\<close> maps every successful call to one abstract transition, and the
  properties of runs are proved on the abstract side.
\<close>

section \<open>Calls and runs\<close>

datatype (plugins only: code) nft_call =
    Call_initialize address address
  | Call_migrate_versions address u32 u32
  | Call_set_risk_registry address address
  | Call_set_debtor_attestation address address
  | Call_set_authorized_callers address address address
  | Call_set_protocol_config address ProtocolConfig
  | Call_set_amount_bounds address RiskTier i128 i128
  | Call_set_mint_rate_limit address u32 u64
  | Call_mint_invoice address bytes i128 symbol u64 string u32 "string option"
  | Call_mint_invoice_with_referrer address bytes i128 symbol u64 string u32 "string option" "address option"
  | Call_mint_invoices_batch address "BatchInvoiceInput list"
  | Call_amend_invoice address u64 bytes i128 u64 string u32
  | Call_update_metadata_cid address u64 string
  | Call_withdraw_invoice address u64
  | Call_set_created address u64
  | Call_set_listed address u64
  | Call_set_funded address u64
  | Call_set_repaid address u64
  | Call_set_defaulted address u64
  | Call_archive_invoice address u64
  | Call_commit_metadata_hash address u64 bytes
  | Call_flag_metadata_mismatch address u64 bytes
  | Call_resolve_metadata_dispute address u64 bool
  | Call_admin_correct_metadata_hash address u64 bytes
  | Call_freeze_invoice address u64
  | Call_unfreeze_invoice address u64
  | Call_freeze_sme_invoices address address u32
  | Call_unfreeze_sme_invoices address address u32
  | Call_refresh_risk_score address u64
  | Call_propose_upgrade address bytes
  | Call_execute_upgrade address
  | Call_add_allowed_currency address symbol
  | Call_remove_allowed_currency address symbol

definition fst_result :: "(nft_state \<times> 'r) nft_result \<Rightarrow> nft_state nft_result" where
  "fst_result m = rbind m (\<lambda>(s, _). Inr s)"

fun nft_exec :: "env \<Rightarrow> nft_call \<Rightarrow> nft_state \<Rightarrow> nft_state nft_result" where
  "nft_exec e (Call_initialize a c) s = initialize e s a c"
| "nft_exec e (Call_migrate_versions a v w) s = migrate_versions e s a v w"
| "nft_exec e (Call_set_risk_registry a r) s = set_risk_registry e s a r"
| "nft_exec e (Call_set_debtor_attestation a t) s = set_debtor_attestation e s a t"
| "nft_exec e (Call_set_authorized_callers a m p) s = set_authorized_callers e s a m p"
| "nft_exec e (Call_set_protocol_config a c) s = set_protocol_config e s a c"
| "nft_exec e (Call_set_amount_bounds a t l u) s = set_amount_bounds e s a t l u"
| "nft_exec e (Call_set_mint_rate_limit a n w) s = set_mint_rate_limit e s a n w"
| "nft_exec e (Call_mint_invoice a h n c d f r t) s = fst_result (mint_invoice e s a h n c d f r t)"
| "nft_exec e (Call_mint_invoice_with_referrer a h n c d f r t x) s =
     fst_result (mint_invoice_with_referrer e s a h n c d f r t x)"
| "nft_exec e (Call_mint_invoices_batch a xs) s = fst_result (mint_invoices_batch e s a xs)"
| "nft_exec e (Call_amend_invoice a i h n d f r) s = amend_invoice e s a i h n d f r"
| "nft_exec e (Call_update_metadata_cid a i f) s = update_metadata_cid e s a i f"
| "nft_exec e (Call_withdraw_invoice a i) s = withdraw_invoice e s a i"
| "nft_exec e (Call_set_created a i) s = fst_result (set_created e s a i)"
| "nft_exec e (Call_set_listed a i) s = fst_result (set_listed e s a i)"
| "nft_exec e (Call_set_funded a i) s = fst_result (set_funded e s a i)"
| "nft_exec e (Call_set_repaid a i) s = set_repaid e s a i"
| "nft_exec e (Call_set_defaulted a i) s = fst_result (set_defaulted e s a i)"
| "nft_exec e (Call_archive_invoice a i) s = archive_invoice e s a i"
| "nft_exec e (Call_commit_metadata_hash a i h) s = fst_result (commit_metadata_hash e s a i h)"
| "nft_exec e (Call_flag_metadata_mismatch a i h) s = fst_result (flag_metadata_mismatch e s a i h)"
| "nft_exec e (Call_resolve_metadata_dispute a i u) s = resolve_metadata_dispute e s a i u"
| "nft_exec e (Call_admin_correct_metadata_hash a i h) s = admin_correct_metadata_hash e s a i h"
| "nft_exec e (Call_freeze_invoice a i) s = freeze_invoice e s a i"
| "nft_exec e (Call_unfreeze_invoice a i) s = unfreeze_invoice e s a i"
| "nft_exec e (Call_freeze_sme_invoices a x m) s = fst_result (freeze_sme_invoices e s a x m)"
| "nft_exec e (Call_unfreeze_sme_invoices a x m) s = fst_result (unfreeze_sme_invoices e s a x m)"
| "nft_exec e (Call_refresh_risk_score a i) s = fst_result (refresh_risk_score e s a i)"
| "nft_exec e (Call_propose_upgrade a h) s = nft_propose_upgrade e s a h"
| "nft_exec e (Call_execute_upgrade a) s = fst_result (nft_execute_upgrade e s a)"
| "nft_exec e (Call_add_allowed_currency a c) s = add_allowed_currency e s a c"
| "nft_exec e (Call_remove_allowed_currency a c) s = remove_allowed_currency e s a c"

inductive nft_runs :: "(nft_call \<Rightarrow> bool) \<Rightarrow> nft_state \<Rightarrow> nft_state \<Rightarrow> bool" for P where
  runs_refl: "nft_runs P s s"
| runs_step: "nft_runs P s s1 \<Longrightarrow> P c \<Longrightarrow> nft_exec e c s1 = Inr s2 \<Longrightarrow> nft_runs P s s2"

inductive_cases nft_runs_elim: "nft_runs P s s'"

abbreviation nft_reachable :: "nft_state \<Rightarrow> bool" where
  "nft_reachable s \<equiv> nft_runs (\<lambda>_. True) nft_empty s"

fun is_amend :: "nft_call \<Rightarrow> bool" where
  "is_amend (Call_amend_invoice a i h n d f r) = True"
| "is_amend _ = False"

lemma nft_runs_mono: "nft_runs P s s' \<Longrightarrow> (\<And>c. P c \<Longrightarrow> Q c) \<Longrightarrow> nft_runs Q s s'"
  by (induction rule: nft_runs.induct) (auto intro: nft_runs.intros)

lemma fst_result_Inr_iff [simp]: "fst_result m = Inr s \<longleftrightarrow> (\<exists>r. m = Inr (s, r))"
  by (auto simp: fst_result_def)

section \<open>The abstract contract\<close>

record ledger =
  lg_open :: bool
  lg_next :: u64
  lg_inv :: "u64 \<Rightarrow> InvoiceHot option"
  lg_due :: "address \<Rightarrow> i128"

definition ledger_of :: "nft_state \<Rightarrow> ledger" where
  "ledger_of s = \<lparr>lg_open = (nx_admin s \<noteq> None), lg_next = next_id s, lg_inv = nx_hot s,
     lg_due = outstanding s\<rparr>"

text \<open>\<open>place\<close> stores a list of new invoices at consecutive ids.\<close>

fun place :: "InvoiceHot list \<Rightarrow> u64 \<Rightarrow> (u64 \<Rightarrow> InvoiceHot option) \<Rightarrow> u64 \<Rightarrow> InvoiceHot option" where
  "place [] n m = m"
| "place (h # hs) n m = place hs (Suc n) (m(n \<mapsto> h))"

fun fresh_invoices :: "address \<Rightarrow> u64 \<Rightarrow> InvoiceHot list \<Rightarrow> bool" where
  "fresh_invoices sme n [] = True"
| "fresh_invoices sme n (h # hs) \<longleftrightarrow>
     hot_id h = n \<and> hot_sme h = sme \<and> hot_status h = Created \<and> 0 < hot_amount h \<and>
     fresh_invoices sme (Suc n) hs"

abbreviation release :: "(address \<Rightarrow> i128) \<Rightarrow> InvoiceHot \<Rightarrow> address \<Rightarrow> i128" where
  "release due h \<equiv> due(hot_sme h := i128_sat_sub (due (hot_sme h)) (hot_amount h))"

text \<open>The transitions the contract promises.  \<open>hot_status_update\<close> and the like leave every
  other field of the record alone.\<close>

inductive ledger_step :: "ledger \<Rightarrow> ledger \<Rightarrow> bool" where
  l_idle: "ledger_step l l"
| l_open: "\<not> lg_open l \<Longrightarrow> ledger_step l (l\<lparr>lg_open := True, lg_next := 1\<rparr>)"
| l_mint: "lg_open l \<Longrightarrow> fresh_invoices sme (lg_next l) hs \<Longrightarrow>
     i128_add (lg_due l sme) (\<Sum>h\<leftarrow>hs. hot_amount h) = Some d \<Longrightarrow>
     ledger_step l (l\<lparr>lg_next := lg_next l + length hs, lg_inv := place hs (lg_next l) (lg_inv l),
                      lg_due := (lg_due l)(sme := d)\<rparr>)"
| l_list: "lg_inv l i = Some h \<Longrightarrow> hot_status h = Created \<Longrightarrow>
     ledger_step l (l\<lparr>lg_inv := (lg_inv l)(i \<mapsto> h\<lparr>hot_status := Listed\<rparr>)\<rparr>)"
| l_unlist: "lg_inv l i = Some h \<Longrightarrow> hot_status h = Listed \<Longrightarrow>
     ledger_step l (l\<lparr>lg_inv := (lg_inv l)(i \<mapsto> h\<lparr>hot_status := Created\<rparr>)\<rparr>)"
| l_fund: "lg_inv l i = Some h \<Longrightarrow> hot_status h = Listed \<Longrightarrow>
     ledger_step l (l\<lparr>lg_inv := (lg_inv l)(i \<mapsto> h\<lparr>hot_status := Funded, hot_funded_at := Some t\<rparr>)\<rparr>)"
| l_rescore: "lg_inv l i = Some h \<Longrightarrow> hot_status h = Funded \<Longrightarrow>
     ledger_step l (l\<lparr>lg_inv := (lg_inv l)(i \<mapsto> h\<lparr>hot_risk_score := r, hot_risk_tier := from_score r\<rparr>)\<rparr>)"
| l_repay: "lg_inv l i = Some h \<Longrightarrow> hot_status h = Funded \<Longrightarrow>
     ledger_step l (l\<lparr>lg_inv := (lg_inv l)(i \<mapsto> h\<lparr>hot_status := Repaid, hot_repaid_at := Some t\<rparr>),
                      lg_due := release (lg_due l) h\<rparr>)"
| l_default: "lg_inv l i = Some h \<Longrightarrow> hot_status h = Funded \<Longrightarrow>
     ledger_step l (l\<lparr>lg_inv := (lg_inv l)(i \<mapsto> h\<lparr>hot_status := Defaulted\<rparr>),
                      lg_due := release (lg_due l) h\<rparr>)"
| l_withdraw: "lg_inv l i = Some h \<Longrightarrow> hot_status h = Created \<Longrightarrow>
     ledger_step l (l\<lparr>lg_inv := (lg_inv l)(i := None), lg_due := release (lg_due l) h\<rparr>)"
| l_archive: "lg_inv l i = Some h \<Longrightarrow> hot_status h = Repaid \<or> hot_status h = Defaulted \<Longrightarrow>
     ledger_step l (l\<lparr>lg_inv := (lg_inv l)(i := None)\<rparr>)"

text \<open>Amendment replaces the terms of a \<open>Created\<close> invoice and nothing else; in particular it
  leaves the exposure as it is.\<close>

inductive ledger_amend :: "ledger \<Rightarrow> ledger \<Rightarrow> bool" where
  l_amend: "lg_inv l i = Some h \<Longrightarrow> hot_status h = Created \<Longrightarrow> 0 < n \<Longrightarrow>
     ledger_amend l (l\<lparr>lg_inv := (lg_inv l)(i \<mapsto> h\<lparr>hot_amount := n, hot_due_date := d,
       hot_risk_score := r, hot_risk_tier := from_score r\<rparr>)\<rparr>)"

text \<open>The part of the state the abstraction reads, and the lock: most entry points leave it
  alone.\<close>

definition nft_core where
  "nft_core s = (nx_admin s, nx_access_control s, nx_next_id s, nx_hot s, nx_exposure s, nx_lock s)"

lemma ledger_of_core: "nft_core s' = nft_core s \<Longrightarrow> ledger_of s' = ledger_of s"
  by (simp add: nft_core_def ledger_of_def next_id_def outstanding_def fun_eq_iff)

lemma append_audit_entry_Inr_iff [simp]:
  "append_audit_entry e s a x = Inr s' \<longleftrightarrow>
     (\<exists>l. (audit_append AS_InvoiceNft e (nx_audit s) a x :: audit_log nft_result) = Inr l \<and> s' = s\<lparr>nx_audit := l\<rparr>)"
  by (auto simp: append_audit_entry_def)

text \<open>Migration rewrites the legacy slots and the version only.\<close>

lemma migrate_ids_frame: "migrate_ids is s = Inr s' \<Longrightarrow> nft_core s' = nft_core s"
  by (induction "is" s rule: migrate_ids.induct)
    (auto simp: nft_core_def split: option.splits legacy_slot.splits)

lemma nft_migration_step_frame:
  "nft_migration_step v w s = Inr s' \<Longrightarrow> nft_core s' = nft_core s"
  by (auto simp: nft_migration_step_def migrate_v1_to_v2_def split: if_splits dest!: migrate_ids_frame)
    (simp add: nft_core_def)

lemma migrate_versions_frame:
  "migrate_versions e s a v w = Inr s' \<Longrightarrow> nft_core s' = nft_core s"
proof -
  assume run: "migrate_versions e s a v w = Inr s'"
  then obtain s1 changed where
    "migrate nft_from_migration nx_migration_version (\<lambda>v s. s\<lparr>nx_migration_version := Some v\<rparr>)
       nft_migration_step v w SCHEMA_VERSION s = Inr (s1, changed)"
    and s': "nft_core s' = nft_core s1"
    by (auto simp: migrate_versions_def nft_core_def split: if_splits)
  from this(1) have "nft_core s1 = nft_core s"
    by (rule migrate_frame) (auto simp: nft_core_def dest: nft_migration_step_frame[unfolded nft_core_def])
  with s' show ?thesis by simp
qed

section \<open>What each entry point does to the abstract contract\<close>

text \<open>The entry points that only touch the administration, the metadata or the freezes.\<close>

named_theorems admin_ops
lemmas [admin_ops] = set_risk_registry_def set_debtor_attestation_def set_authorized_callers_def
  set_protocol_config_def set_amount_bounds_def set_mint_rate_limit_def nft_propose_upgrade_def
  nft_execute_upgrade_def add_allowed_currency_def remove_allowed_currency_def freeze_invoice_def
  unfreeze_invoice_def resolve_metadata_dispute_def admin_correct_metadata_hash_def
  update_metadata_cid_def

lemma admin_frames:
  "set_risk_registry e s a r = Inr s' \<Longrightarrow> nft_core s' = nft_core s"
  "set_debtor_attestation e s a r = Inr s' \<Longrightarrow> nft_core s' = nft_core s"
  "set_authorized_callers e s a m p = Inr s' \<Longrightarrow> nft_core s' = nft_core s"
  "set_protocol_config e s a cfg = Inr s' \<Longrightarrow> nft_core s' = nft_core s"
  "set_amount_bounds e s a tier lo hi = Inr s' \<Longrightarrow> nft_core s' = nft_core s"
  "set_mint_rate_limit e s a n w = Inr s' \<Longrightarrow> nft_core s' = nft_core s"
  "nft_propose_upgrade e s a hash = Inr s' \<Longrightarrow> nft_core s' = nft_core s"
  "nft_execute_upgrade e s a = Inr (s', hash) \<Longrightarrow> nft_core s' = nft_core s"
  "add_allowed_currency e s a cur = Inr s' \<Longrightarrow> nft_core s' = nft_core s"
  "remove_allowed_currency e s a cur = Inr s' \<Longrightarrow> nft_core s' = nft_core s"
  "freeze_invoice e s a i = Inr s' \<Longrightarrow> nft_core s' = nft_core s"
  "unfreeze_invoice e s a i = Inr s' \<Longrightarrow> nft_core s' = nft_core s"
  by (clarsimp simp: admin_ops nft_core_def Let_def split: if_splits)+

lemma metadata_frames:
  "commit_metadata_hash e s a i hash = Inr (s', u) \<Longrightarrow> nft_core s' = nft_core s"
  "flag_metadata_mismatch e s a i hash = Inr (s', u) \<Longrightarrow> nft_core s' = nft_core s"
  "admin_correct_metadata_hash e s a i hash = Inr s' \<Longrightarrow> nft_core s' = nft_core s"
  "update_metadata_cid e s a i cid = Inr s' \<Longrightarrow> nft_core s' = nft_core s"
  by (auto simp: admin_ops commit_metadata_hash_def flag_metadata_mismatch_def nft_core_def Let_def)

lemma resolve_frame: "resolve_metadata_dispute e s a i upheld = Inr s' \<Longrightarrow> nft_core s' = nft_core s"
  by (cases upheld) (auto simp: admin_ops nft_core_def Let_def)

lemma freeze_loop_frame: "nft_core (fst (freeze_loop mx is s n)) = nft_core s"
  by (induction mx "is" s n rule: freeze_loop.induct) (auto simp: nft_core_def split: option.splits)

lemma unfreeze_loop_frame: "nft_core (fst (unfreeze_loop mx is s n)) = nft_core s"
  by (induction mx "is" s n rule: unfreeze_loop.induct) (auto simp: nft_core_def)

lemma freeze_frames:
  "freeze_sme_invoices e s a sme mx = Inr (s', n) \<Longrightarrow> nft_core s' = nft_core s"
  "unfreeze_sme_invoices e s a sme mx = Inr (s', n) \<Longrightarrow> nft_core s' = nft_core s"
  using freeze_loop_frame[of mx "sme_ids s sme" s 0] unfreeze_loop_frame[of mx "sme_ids s sme" s 0]
  by (auto simp: freeze_sme_invoices_def unfreeze_sme_invoices_def)

lemmas nft_frames = admin_frames metadata_frames resolve_frame freeze_frames migrate_versions_frame

section \<open>Minting\<close>

lemma consume_mint_quota_frame:
  assumes "consume_mint_quota e s sme n = Inr s'"
  shows "\<exists>w. s' = s\<lparr>nx_mint_window := w\<rparr>"
proof (cases "nx_rate_limit s")
  case None
  with assms have "s' = s\<lparr>nx_mint_window := nx_mint_window s\<rparr>" by (simp add: consume_mint_quota_def)
  then show ?thesis by blast
next
  case (Some cfg)
  with assms show ?thesis
    by (clarsimp simp: consume_mint_quota_def Let_def split: prod.splits) metis
qed

lemma outstanding_simps [simp]:
  "outstanding (s\<lparr>nx_mint_window := w\<rparr>) = outstanding s"
  "outstanding (s\<lparr>nx_lock := b\<rparr>) = outstanding s"
  "next_id (s\<lparr>nx_mint_window := w\<rparr>) = next_id s"
  "next_id (s\<lparr>nx_lock := b\<rparr>) = next_id s"
  by (simp_all add: outstanding_def next_id_def fun_eq_iff)

lemma first_mint_core [simp]:
  "nft_core (first_mint s sme i) = nft_core s"
  "nft_core (append_sme_invoice_id s sme i) = nft_core s"
  "nft_core (append_sme_invoice_ids s sme ids) = nft_core s"
  "nft_core (remove_sme_invoice_id s sme i) = nft_core s"
  by (simp_all add: first_mint_def append_sme_invoice_id_def append_sme_invoice_ids_def
        remove_sme_invoice_id_def nft_core_def split: option.split)

text \<open>The stages of a mint.\<close>

lemma mint_invoice_stages:
  assumes "mint_invoice e s sme h n cur due cid r notes = Inr (s', i)"
  obtains s1 s2 where "0 < n" "nx_access_control s \<noteq> None" "\<not> nx_lock s"
    "consume_mint_quota e (s\<lparr>nx_lock := True\<rparr>) sme 1 = Inr s1"
    "consume_mint_quota e s1 sme 1 = Inr s2"
    "i = next_id s2" "i128_add (outstanding s1 sme) n = Some (outstanding s1 sme + n)"
    "s' = first_mint (append_sme_invoice_id (s2\<lparr>nx_hot := (nx_hot s2)(i \<mapsto> make_hot e i sme n cur due r),
             nx_cold := (nx_cold s2)(i \<mapsto> make_cold h cid notes),
             nx_next_id := Some (i + 1),
             nx_exposure := (nx_exposure s2)(sme \<mapsto> outstanding s1 sme + n)\<rparr>) sme i) sme i\<lparr>nx_lock := False\<rparr>"
  using assms by (clarsimp simp: mint_invoice_def Let_def require_non_zero_amount_def)

text \<open>The state after a mint, up to the fields outside the abstraction.\<close>

lemma mint_invoice_core:
  assumes "mint_invoice e s sme h n cur due cid r notes = Inr (s', i)"
  shows "i = next_id s \<and> 0 < n \<and> nx_access_control s \<noteq> None \<and> \<not> nx_lock s \<and>
    i128_add (outstanding s sme) n = Some (outstanding s sme + n) \<and>
    nft_core s' = (nx_admin s, nx_access_control s, Some (next_id s + 1),
      (nx_hot s)(next_id s \<mapsto> make_hot e (next_id s) sme n cur due r),
      (nx_exposure s)(sme \<mapsto> outstanding s sme + n), False)"
proof -
  from mint_invoice_stages[OF assms] obtain s1 s2 where run: "0 < n" "nx_access_control s \<noteq> None" "\<not> nx_lock s"
    "consume_mint_quota e (s\<lparr>nx_lock := True\<rparr>) sme 1 = Inr s1"
    "consume_mint_quota e s1 sme 1 = Inr s2"
    "i = next_id s2" "i128_add (outstanding s1 sme) n = Some (outstanding s1 sme + n)"
    "s' = first_mint (append_sme_invoice_id (s2\<lparr>nx_hot := (nx_hot s2)(i \<mapsto> make_hot e i sme n cur due r),
             nx_cold := (nx_cold s2)(i \<mapsto> make_cold h cid notes),
             nx_next_id := Some (i + 1),
             nx_exposure := (nx_exposure s2)(sme \<mapsto> outstanding s1 sme + n)\<rparr>) sme i) sme i\<lparr>nx_lock := False\<rparr>" .
  define s3 where "s3 = s2\<lparr>nx_hot := (nx_hot s2)(i \<mapsto> make_hot e i sme n cur due r),
             nx_cold := (nx_cold s2)(i \<mapsto> make_cold h cid notes),
             nx_next_id := Some (i + 1),
             nx_exposure := (nx_exposure s2)(sme \<mapsto> outstanding s1 sme + n)\<rparr>"
  from consume_mint_quota_frame[OF run(4)] obtain w1 where
    s1: "s1 = s\<lparr>nx_lock := True, nx_mint_window := w1\<rparr>" by blast
  from consume_mint_quota_frame[OF run(5)] obtain w where "s2 = s1\<lparr>nx_mint_window := w\<rparr>" by blast
  with s1 have s2: "s2 = s\<lparr>nx_lock := True, nx_mint_window := w\<rparr>" by simp
  have out: "outstanding s1 = outstanding s" by (simp add: s1)
  have nid: "next_id s2 = next_id s" by (simp add: s2)
  have "nft_core (first_mint (append_sme_invoice_id s3 sme i) sme i) = nft_core s3" by simp
  moreover have "s' = first_mint (append_sme_invoice_id s3 sme i) sme i\<lparr>nx_lock := False\<rparr>"
    using run by (simp add: s3_def)
  moreover have "nft_core s3 = (nx_admin s, nx_access_control s, Some (next_id s + 1),
      (nx_hot s)(next_id s \<mapsto> make_hot e (next_id s) sme n cur due r),
      (nx_exposure s)(sme \<mapsto> outstanding s sme + n), True)"
    by (simp add: nft_core_def s3_def s2 run(6) nid[unfolded s2] out)
  ultimately have "nft_core s' = (nx_admin s, nx_access_control s, Some (next_id s + 1),
      (nx_hot s)(next_id s \<mapsto> make_hot e (next_id s) sme n cur due r),
      (nx_exposure s)(sme \<mapsto> outstanding s sme + n), False)"
    by (simp add: nft_core_def)
  then show ?thesis using run(1-3,6,7) by (simp add: out nid)
qed

lemma mint_with_referrer_core:
  assumes "mint_invoice_with_referrer e s sme h n cur due cid r notes ref = Inr (s', i)"
  shows "\<exists>s1. mint_invoice e s sme h n cur due cid r notes = Inr (s1, i) \<and> nft_core s' = nft_core s1"
proof -
  from assms obtain s1 j where m: "mint_invoice e s sme h n cur due cid r notes = Inr (s1, j)"
    and k: "(case (nx_first_mint s sme \<noteq> None, ref) of
        (False, Some a) \<Rightarrow> Inr (s1\<lparr>nx_referrer := (nx_referrer s1)(sme \<mapsto> a)\<rparr>, j)
      | _ \<Rightarrow> Inr (s1, j)) = (Inr (s', i) :: (nft_state \<times> u64) nft_result)"
    unfolding mint_invoice_with_referrer_def Let_def rbind_Inr_iff by fast
  from k have "j = i \<and> nft_core s' = nft_core s1"
    by (cases "nx_first_mint s sme"; cases ref) (auto simp: nft_core_def)
  with m show ?thesis by blast
qed

text \<open>The batch.\<close>

fun batch_hots :: "env \<Rightarrow> address \<Rightarrow> u64 \<Rightarrow> BatchInvoiceInput list \<Rightarrow> InvoiceHot list" where
  "batch_hots e sme n [] = []"
| "batch_hots e sme n (x # xs) =
     make_hot e n sme (bi_amount x) (bi_currency x) (bi_due_date x) (bi_risk_score x)
       # batch_hots e sme (Suc n) xs"

lemma length_batch_hots [simp]: "length (batch_hots e sme n xs) = length xs"
  by (induction xs arbitrary: n) auto

lemma sum_batch_hots [simp]:
  "(\<Sum>h\<leftarrow>batch_hots e sme n xs. hot_amount h) = (\<Sum>x\<leftarrow>xs. bi_amount x)"
  by (induction xs arbitrary: n) (auto simp: make_hot_def)

lemma batch_loop_core:
  "batch_loop e sme xs s n d ids = Inr (s', n', d', ids') \<Longrightarrow>
     n' = n + length xs \<and> d' = d + (\<Sum>x\<leftarrow>xs. bi_amount x) \<and> ids' = ids @ [n..<n + length xs] \<and>
     nft_core s' = nft_core (s\<lparr>nx_hot := place (batch_hots e sme n xs) n (nx_hot s)\<rparr>)"
proof (induction xs arbitrary: s n d ids)
  case Nil
  then show ?case by (simp add: nft_core_def)
next
  case (Cons x xs)
  define s1 where "s1 = s\<lparr>nx_hot := (nx_hot s)(n \<mapsto>
       make_hot e n sme (bi_amount x) (bi_currency x) (bi_due_date x) (bi_risk_score x)),
     nx_cold := (nx_cold s)(n \<mapsto> make_cold (bi_debtor_hash x) (bi_ipfs_cid x) (bi_notes x))\<rparr>"
  from Cons.prems have "batch_loop e sme xs s1 (Suc n) (d + bi_amount x) (ids @ [n]) = Inr (s', n', d', ids')"
    by (simp add: Let_def s1_def)
  note IH = Cons.IH[OF this]
  have "[n..<n + length (x # xs)] = n # [Suc n..<Suc n + length xs]"
    by (simp add: upt_conv_Cons del: upt_Suc)
  moreover have "nft_core (s1\<lparr>nx_hot := place (batch_hots e sme (Suc n) xs) (Suc n) (nx_hot s1)\<rparr>)
      = nft_core (s\<lparr>nx_hot := place (batch_hots e sme n (x # xs)) n (nx_hot s)\<rparr>)"
    by (simp add: nft_core_def s1_def fun_upd_def)
  ultimately show ?case using IH by (simp del: upt_Suc)
qed

lemma check_batch_positive:
  "check_batch e mx xs = Inr u \<Longrightarrow> x \<in> set xs \<Longrightarrow> 0 < bi_amount x"
  by (induction xs) (auto simp: require_non_zero_amount_def)

lemma fresh_batch_hots:
  "(\<And>x. x \<in> set xs \<Longrightarrow> 0 < bi_amount x) \<Longrightarrow> fresh_invoices sme n (batch_hots e sme n xs)"
  by (induction xs arbitrary: n) (auto simp: make_hot_def)

text \<open>The stages of a batch.\<close>

lemma mint_batch_stages:
  assumes "mint_invoices_batch e s sme xs = Inr (s', ids)"
  obtains s1 s2 s3 nid delta b where "\<not> nx_lock s" "nx_access_control s \<noteq> None"
    "check_batch e (cfg_max_risk_score (get_protocol_config (s\<lparr>nx_lock := True\<rparr>))) xs = Inr ()"
    "consume_mint_quota e (s\<lparr>nx_lock := True\<rparr>) sme (length xs) = Inr s1"
    "batch_loop e sme xs s1 (next_id s1) 0 [] = Inr (s2, nid, delta, ids)"
    "(if delta \<noteq> 0 then
        rbind (ok_or (i128_add (outstanding (s2\<lparr>nx_next_id := Some nid\<rparr>) sme) delta) (Err ArithmeticOverflow)) (\<lambda>x.
        Inr (s2\<lparr>nx_next_id := Some nid, nx_exposure := (nx_exposure (s2\<lparr>nx_next_id := Some nid\<rparr>))(sme \<mapsto> x)\<rparr>))
      else Inr (s2\<lparr>nx_next_id := Some nid\<rparr>)) = (Inr s3 :: nft_state nft_result)"
    "s' = (case ids of [] \<Rightarrow> append_sme_invoice_ids s3 sme ids
            | i # _ \<Rightarrow> first_mint (append_sme_invoice_ids s3 sme ids) sme i)\<lparr>nx_next_batch_id := Some b, nx_lock := False\<rparr>"
  using assms by (clarsimp simp: mint_invoices_batch_def Let_def)

lemma mint_batch_core:
  assumes "mint_invoices_batch e s sme xs = Inr (s', ids)"
  shows "ids = [next_id s..<next_id s + length xs] \<and> (\<forall>x\<in>set xs. 0 < bi_amount x) \<and>
    nx_access_control s \<noteq> None \<and> \<not> nx_lock s \<and>
    (let d = (\<Sum>x\<leftarrow>xs. bi_amount x) in
     (d \<noteq> 0 \<longrightarrow> i128_add (outstanding s sme) d = Some (outstanding s sme + d)) \<and>
     nft_core s' = (nx_admin s, nx_access_control s, Some (next_id s + length xs),
       place (batch_hots e sme (next_id s) xs) (next_id s) (nx_hot s),
       (if d = 0 then nx_exposure s else (nx_exposure s)(sme \<mapsto> outstanding s sme + d)), False))"
proof -
  define d where "d = (\<Sum>x\<leftarrow>xs. bi_amount x)"
  from mint_batch_stages[OF assms] obtain s1 s2 s3 nid delta b where run: "\<not> nx_lock s" "nx_access_control s \<noteq> None"
    "check_batch e (cfg_max_risk_score (get_protocol_config (s\<lparr>nx_lock := True\<rparr>))) xs = Inr ()"
    "consume_mint_quota e (s\<lparr>nx_lock := True\<rparr>) sme (length xs) = Inr s1"
    "batch_loop e sme xs s1 (next_id s1) 0 [] = Inr (s2, nid, delta, ids)"
    "(if delta \<noteq> 0 then
        rbind (ok_or (i128_add (outstanding (s2\<lparr>nx_next_id := Some nid\<rparr>) sme) delta) (Err ArithmeticOverflow)) (\<lambda>x.
        Inr (s2\<lparr>nx_next_id := Some nid, nx_exposure := (nx_exposure (s2\<lparr>nx_next_id := Some nid\<rparr>))(sme \<mapsto> x)\<rparr>))
      else Inr (s2\<lparr>nx_next_id := Some nid\<rparr>)) = (Inr s3 :: nft_state nft_result)"
    "s' = (case ids of [] \<Rightarrow> append_sme_invoice_ids s3 sme ids
            | i # _ \<Rightarrow> first_mint (append_sme_invoice_ids s3 sme ids) sme i)\<lparr>nx_next_batch_id := Some b, nx_lock := False\<rparr>" .
  from consume_mint_quota_frame[OF run(4)] obtain w where
    s1: "s1 = s\<lparr>nx_lock := True, nx_mint_window := w\<rparr>" by blast
  have n1: "next_id s1 = next_id s" by (simp add: s1)
  from batch_loop_core[OF run(5)] have b: "nid = next_id s + length xs" "delta = d"
    "ids = [next_id s..<next_id s + length xs]"
    "nft_core s2 = nft_core (s1\<lparr>nx_hot := place (batch_hots e sme (next_id s) xs) (next_id s) (nx_hot s1)\<rparr>)"
    by (simp_all add: n1 d_def)
  have "nft_core s' = (case nft_core s3 of (a, c, n, h, x, l) \<Rightarrow> (a, c, n, h, x, False))"
    using first_mint_core run(7) by (cases ids) (simp_all add: nft_core_def)
  moreover have out: "outstanding (s2\<lparr>nx_next_id := Some nid\<rparr>) sme = outstanding s sme"
    using b(4) by (simp add: outstanding_def nft_core_def s1)
  ultimately have "(d \<noteq> 0 \<longrightarrow> i128_add (outstanding s sme) d = Some (outstanding s sme + d)) \<and>
     nft_core s' = (nx_admin s, nx_access_control s, Some (next_id s + length xs),
       place (batch_hots e sme (next_id s) xs) (next_id s) (nx_hot s),
       (if d = 0 then nx_exposure s else (nx_exposure s)(sme \<mapsto> outstanding s sme + d)), False)"
    using run(6) b(4) unfolding b(1,2) by (auto simp: nft_core_def s1 split: if_splits)
  then show ?thesis using run(1,2) b(3) check_batch_positive[OF run(3)]
    unfolding d_def[symmetric] by simp
qed

section \<open>Status transitions\<close>

text \<open>The core after each transition.\<close>

abbreviation core_with where
  "core_with s hot due \<equiv> (nx_admin s, nx_access_control s, nx_next_id s, hot, due, False)"

lemma marketplace_transitions:
  "set_created e s a i = Inr (s', u) \<Longrightarrow> \<not> nx_lock s \<and>
     (\<exists>h. nx_hot s i = Some h \<and> hot_status h = Listed \<and> nx_marketplace s = Some a \<and>
       nft_core s' = core_with s ((nx_hot s)(i \<mapsto> h\<lparr>hot_status := Created\<rparr>)) (nx_exposure s))"
  "set_listed e s a i = Inr (s', u) \<Longrightarrow> \<not> nx_lock s \<and>
     (\<exists>h. nx_hot s i = Some h \<and> hot_status h = Created \<and> nx_marketplace s = Some a \<and>
       nft_core s' = core_with s ((nx_hot s)(i \<mapsto> h\<lparr>hot_status := Listed\<rparr>)) (nx_exposure s))"
  by (auto simp: set_created_def set_listed_def nft_core_def)

lemma funding_transitions:
  "set_funded e s a i = Inr (s', u) \<Longrightarrow> \<not> nx_lock s \<and>
     (\<exists>h. nx_hot s i = Some h \<and> hot_status h = Listed \<and> nx_financing_pool s = Some a \<and>
       nft_core s' = core_with s ((nx_hot s)(i \<mapsto>
         h\<lparr>hot_status := Funded, hot_funded_at := Some (timestamp e)\<rparr>)) (nx_exposure s))"
  "refresh_risk_score e s a i = Inr (s', u) \<Longrightarrow> \<not> nx_lock s \<and>
     (\<exists>h r. nx_hot s i = Some h \<and> hot_status h = Funded \<and>
       nft_core s' = core_with s ((nx_hot s)(i \<mapsto>
         h\<lparr>hot_risk_score := r, hot_risk_tier := from_score r\<rparr>)) (nx_exposure s))"
  by (auto simp: set_funded_def refresh_risk_score_def nft_core_def Let_def)

lemma set_repaid_core:
  "set_repaid e s a i = Inr s' \<Longrightarrow>
     \<exists>h. nx_hot s i = Some h \<and> hot_status h = Funded \<and> nx_financing_pool s = Some a \<and>
       nft_core s' = (nx_admin s, nx_access_control s, nx_next_id s,
         (nx_hot s)(i \<mapsto> h\<lparr>hot_status := Repaid, hot_repaid_at := Some (timestamp e)\<rparr>),
         (nx_exposure s)(hot_sme h \<mapsto> i128_sat_sub (outstanding s (hot_sme h)) (hot_amount h)),
         nx_lock s)"
  by (auto simp: set_repaid_def nft_core_def Let_def release_exposure_def outstanding_def)

lemma set_defaulted_core:
  "set_defaulted e s a i = Inr (s', u) \<Longrightarrow> \<not> nx_lock s \<and>
     (\<exists>h. nx_hot s i = Some h \<and> hot_status h = Funded \<and> hot_due_date h < timestamp e \<and>
       nx_admin s = Some a \<and>
       nft_core s' = core_with s ((nx_hot s)(i \<mapsto> h\<lparr>hot_status := Defaulted\<rparr>))
         ((nx_exposure s)(hot_sme h \<mapsto> i128_sat_sub (outstanding s (hot_sme h)) (hot_amount h))))"
  by (auto simp: set_defaulted_def nft_core_def Let_def release_exposure_def outstanding_def)

lemma withdraw_core:
  "withdraw_invoice e s a i = Inr s' \<Longrightarrow>
     \<exists>h. nx_hot s i = Some h \<and> hot_status h = Created \<and> hot_sme h = a \<and>
       nft_core s' = (nx_admin s, nx_access_control s, nx_next_id s, (nx_hot s)(i := None),
         (nx_exposure s)(a \<mapsto> i128_sat_sub (outstanding s a) (hot_amount h)), nx_lock s)"
  using first_mint_core(4)
  by (auto simp: withdraw_invoice_def Let_def) (simp add: nft_core_def outstanding_def)

lemma archive_core:
  "archive_invoice e s a i = Inr s' \<Longrightarrow>
     \<exists>h. nx_hot s i = Some h \<and> (hot_status h = Repaid \<or> hot_status h = Defaulted) \<and>
       nft_core s' = (nx_admin s, nx_access_control s, nx_next_id s, (nx_hot s)(i := None),
         nx_exposure s, nx_lock s)"
  by (auto simp: archive_invoice_def nft_core_def)

lemma amend_core:
  "amend_invoice e s a i hash n d cid r = Inr s' \<Longrightarrow>
     \<exists>h. nx_hot s i = Some h \<and> hot_status h = Created \<and> hot_sme h = a \<and> 0 < n \<and>
       nft_core s' = (nx_admin s, nx_access_control s, nx_next_id s,
         (nx_hot s)(i \<mapsto> h\<lparr>hot_amount := n, hot_due_date := d, hot_risk_score := r,
                            hot_risk_tier := from_score r\<rparr>), nx_exposure s, nx_lock s)"
  by (auto simp: amend_invoice_def nft_core_def Let_def require_non_zero_amount_def)

lemma initialize_core:
  "initialize e s a c = Inr s' \<Longrightarrow> nx_admin s = None \<and>
     nft_core s' = (Some a, Some c, Some 1, nx_hot s, nx_exposure s, nx_lock s)"
  by (auto simp: initialize_def nft_core_def)

section \<open>The refinement\<close>

text \<open>Administration and access control are set together, and no call ends with the lock held.\<close>

definition nft_wf :: "nft_state \<Rightarrow> bool" where
  "nft_wf s \<longleftrightarrow> (nx_access_control s = None \<longleftrightarrow> nx_admin s = None) \<and> \<not> nx_lock s"

lemma ledger_of_eq:
  "nft_core s' = (ad, ac, nid, hot, due, k) \<Longrightarrow>
     ledger_of s' = \<lparr>lg_open = (ad \<noteq> None), lg_next = (case nid of None \<Rightarrow> 1 | Some i \<Rightarrow> i), lg_inv = hot,
       lg_due = (\<lambda>a. case due a of None \<Rightarrow> 0 | Some x \<Rightarrow> x)\<rparr>"
  by (simp add: nft_core_def ledger_of_def next_id_def outstanding_def fun_eq_iff)

lemma ledger_step_eq: "ledger_step l l1 \<Longrightarrow> l' = l1 \<Longrightarrow> ledger_step l l'"
  by simp

lemma ledger_amend_eq: "ledger_amend l l1 \<Longrightarrow> l' = l1 \<Longrightarrow> ledger_amend l l'"
  by simp

lemma ledger_of_sel [simp]:
  "lg_open (ledger_of s) = (nx_admin s \<noteq> None)" "lg_next (ledger_of s) = next_id s"
  "lg_inv (ledger_of s) = nx_hot s" "lg_due (ledger_of s) = outstanding s"
  by (simp_all add: ledger_of_def)

lemma idle_refines: "nft_core s' = nft_core s \<Longrightarrow> ledger_step (ledger_of s) (ledger_of s')"
  by (drule ledger_of_core) (simp add: l_idle)

text \<open>The two states as abstract records, side by side.\<close>

lemmas ledger_unfold = nft_core_def ledger_of_def next_id_def outstanding_def fun_eq_iff

lemma initialize_refines: "initialize e s a c = Inr s' \<Longrightarrow> ledger_step (ledger_of s) (ledger_of s')"
  by (drule initialize_core, rule ledger_step_eq, rule l_open) (auto simp: ledger_unfold)

lemma fresh_nonneg: "fresh_invoices sme n hs \<Longrightarrow> 0 \<le> (\<Sum>h\<leftarrow>hs. hot_amount h)"
  by (induction hs arbitrary: n) (auto intro: add_nonneg_nonneg)

lemma fresh_sum_pos: "fresh_invoices sme n hs \<Longrightarrow> (\<Sum>h\<leftarrow>hs. hot_amount h) = 0 \<Longrightarrow> hs = []"
  by (cases hs) (auto dest: fresh_nonneg)

lemma mints_refine:
  assumes core: "nft_core s' = (nx_admin s, nx_access_control s, Some (next_id s + length hs),
       place hs (next_id s) (nx_hot s),
       (if d = 0 then nx_exposure s else (nx_exposure s)(sme \<mapsto> outstanding s sme + d)), False)"
    and d: "d = (\<Sum>h\<leftarrow>hs. hot_amount h)" and fresh: "fresh_invoices sme (next_id s) hs"
    and "nx_admin s \<noteq> None"
    and "d \<noteq> 0 \<Longrightarrow> i128_add (outstanding s sme) d = Some (outstanding s sme + d)"
  shows "ledger_step (ledger_of s) (ledger_of s')"
proof (cases "d = 0")
  case True
  with d fresh have "hs = []" by (simp add: fresh_sum_pos)
  with True core have "ledger_of s' = ledger_of s" by (simp add: ledger_unfold)
  then show ?thesis by (simp add: l_idle)
next
  case False
  have "ledger_of s' = ledger_of s\<lparr>lg_next := lg_next (ledger_of s) + length hs,
      lg_inv := place hs (lg_next (ledger_of s)) (lg_inv (ledger_of s)),
      lg_due := (lg_due (ledger_of s))(sme := outstanding s sme + d)\<rparr>"
    using core False by (simp add: ledger_unfold)
  with False assms show ?thesis
    by (intro ledger_step_eq[OF l_mint[of "ledger_of s" sme hs "outstanding s sme + d"]]) auto
qed

lemma nft_wf_core: "nft_core s = nft_core s' \<Longrightarrow> nft_wf s = nft_wf s'"
  by (simp add: nft_core_def nft_wf_def)

lemma mint_refines:
  assumes "mint_invoice e s sme h n cur due cid r notes = Inr (s', i)" "nft_wf s"
  shows "ledger_step (ledger_of s) (ledger_of s')"
  using mint_invoice_core[OF assms(1)] assms(2)
  by (intro mints_refine[where hs = "[make_hot e (next_id s) sme n cur due r]" and d = n and sme = sme])
    (auto simp: make_hot_def nft_wf_def)

lemma mint_with_referrer_refines:
  assumes "mint_invoice_with_referrer e s sme h n cur due cid r notes ref = Inr (s', i)" "nft_wf s"
  shows "ledger_step (ledger_of s) (ledger_of s')"
proof -
  from mint_with_referrer_core[OF assms(1)] obtain s1 where
    m: "mint_invoice e s sme h n cur due cid r notes = Inr (s1, i)" and "nft_core s' = nft_core s1"
    by blast
  from ledger_of_core[OF this(2)] mint_refines[OF m assms(2)] show ?thesis by simp
qed

lemma batch_refines:
  assumes "mint_invoices_batch e s sme xs = Inr (s', ids)" "nft_wf s"
  shows "ledger_step (ledger_of s) (ledger_of s')"
  using mint_batch_core[OF assms(1)] assms(2)
  by (intro mints_refine[where hs = "batch_hots e sme (next_id s) xs" and sme = sme
        and d = "\<Sum>x\<leftarrow>xs. bi_amount x"])
    (auto simp: nft_wf_def fresh_batch_hots Let_def)

lemma set_created_refines:
  "set_created e s a i = Inr (s', u) \<Longrightarrow> ledger_step (ledger_of s) (ledger_of s')"
  by (drule marketplace_transitions(1), elim conjE exE, rule ledger_step_eq, rule l_unlist)
    (auto simp: ledger_unfold)

lemma set_listed_refines:
  "set_listed e s a i = Inr (s', u) \<Longrightarrow> ledger_step (ledger_of s) (ledger_of s')"
  by (drule marketplace_transitions(2), elim conjE exE, rule ledger_step_eq, rule l_list)
    (auto simp: ledger_unfold)

lemma set_funded_refines:
  "set_funded e s a i = Inr (s', u) \<Longrightarrow> ledger_step (ledger_of s) (ledger_of s')"
  by (drule funding_transitions(1), elim conjE exE, rule ledger_step_eq, rule l_fund)
    (auto simp: ledger_unfold)

lemma refresh_refines:
  "refresh_risk_score e s a i = Inr (s', u) \<Longrightarrow> ledger_step (ledger_of s) (ledger_of s')"
  by (drule funding_transitions(2), elim conjE exE, rule ledger_step_eq, rule l_rescore)
    (auto simp: ledger_unfold)

lemma set_repaid_refines:
  "set_repaid e s a i = Inr s' \<Longrightarrow> ledger_step (ledger_of s) (ledger_of s')"
  by (drule set_repaid_core, elim conjE exE, rule ledger_step_eq, rule l_repay)
    (auto simp: ledger_unfold)

lemma set_defaulted_refines:
  "set_defaulted e s a i = Inr (s', u) \<Longrightarrow> ledger_step (ledger_of s) (ledger_of s')"
  by (drule set_defaulted_core, elim conjE exE, rule ledger_step_eq, rule l_default)
    (auto simp: ledger_unfold)

lemma withdraw_refines:
  "withdraw_invoice e s a i = Inr s' \<Longrightarrow> ledger_step (ledger_of s) (ledger_of s')"
  by (drule withdraw_core, elim conjE exE, rule ledger_step_eq, rule l_withdraw)
    (auto simp: ledger_unfold)

lemma archive_refines:
  "archive_invoice e s a i = Inr s' \<Longrightarrow> ledger_step (ledger_of s) (ledger_of s')"
  by (drule archive_core, elim conjE exE, rule ledger_step_eq, rule l_archive)
    (auto simp: ledger_unfold)

lemma amend_refines:
  "amend_invoice e s a i h n d cid r = Inr s' \<Longrightarrow> ledger_amend (ledger_of s) (ledger_of s')"
  by (drule amend_core, elim conjE exE, rule ledger_amend_eq, rule l_amend)
    (auto simp: ledger_unfold)

lemmas op_refines = initialize_refines mint_refines mint_with_referrer_refines batch_refines
  set_created_refines set_listed_refines set_funded_refines refresh_refines set_repaid_refines
  set_defaulted_refines withdraw_refines archive_refines nft_frames[THEN idle_refines]

lemma nft_exec_refines:
  assumes "nft_exec e c s = Inr s'" "nft_wf s" "\<not> is_amend c"
  shows "ledger_step (ledger_of s) (ledger_of s')"
  using assms by (cases c) (auto intro: op_refines)

lemma nft_exec_amend:
  assumes "nft_exec e c s = Inr s'" "is_amend c"
  shows "ledger_amend (ledger_of s) (ledger_of s')"
  using assms by (cases c) (auto intro: amend_refines)

section \<open>Well-formedness along runs\<close>

lemma wf_cores:
  "mint_invoice e s sme h n cur due cid r notes = Inr (s', i) \<Longrightarrow> nft_wf s \<Longrightarrow> nft_wf s'"
  "mint_invoices_batch e s sme xs = Inr (s', ids) \<Longrightarrow> nft_wf s \<Longrightarrow> nft_wf s'"
  "set_created e s a i = Inr (s', u) \<Longrightarrow> nft_wf s \<Longrightarrow> nft_wf s'"
  "set_listed e s a i = Inr (s', u) \<Longrightarrow> nft_wf s \<Longrightarrow> nft_wf s'"
  "set_funded e s a i = Inr (s', u) \<Longrightarrow> nft_wf s \<Longrightarrow> nft_wf s'"
  "refresh_risk_score e s a i = Inr (s', u) \<Longrightarrow> nft_wf s \<Longrightarrow> nft_wf s'"
  "set_repaid e s a i = Inr s' \<Longrightarrow> nft_wf s \<Longrightarrow> nft_wf s'"
  "set_defaulted e s a i = Inr (s', u) \<Longrightarrow> nft_wf s \<Longrightarrow> nft_wf s'"
  "withdraw_invoice e s a i = Inr s' \<Longrightarrow> nft_wf s \<Longrightarrow> nft_wf s'"
  "archive_invoice e s a i = Inr s' \<Longrightarrow> nft_wf s \<Longrightarrow> nft_wf s'"
  "amend_invoice e s a i hash n d cid r = Inr s' \<Longrightarrow> nft_wf s \<Longrightarrow> nft_wf s'"
  "initialize e s a c = Inr s' \<Longrightarrow> nft_wf s \<Longrightarrow> nft_wf s'"
  by (auto simp: nft_wf_def nft_core_def Let_def
      dest!: mint_invoice_core mint_batch_core marketplace_transitions funding_transitions
        set_repaid_core set_defaulted_core withdraw_core archive_core amend_core initialize_core)

lemma wf_with_referrer:
  "mint_invoice_with_referrer e s sme h n cur due cid r notes ref = Inr (s', i) \<Longrightarrow> nft_wf s \<Longrightarrow> nft_wf s'"
  by (drule mint_with_referrer_core) (auto dest: wf_cores(1) nft_wf_core)

lemma wf_frame: "nft_core s' = nft_core s \<Longrightarrow> nft_wf s \<Longrightarrow> nft_wf s'"
  using nft_wf_core by blast

lemma nft_exec_wf: "nft_exec e c s = Inr s' \<Longrightarrow> nft_wf s \<Longrightarrow> nft_wf s'"
  by (cases c) (auto intro: wf_cores wf_with_referrer nft_frames[THEN wf_frame])

lemma nft_runs_wf: "nft_runs P s s' \<Longrightarrow> nft_wf s \<Longrightarrow> nft_wf s'"
  by (induction rule: nft_runs.induct) (auto intro: nft_exec_wf)

lemma nft_empty_wf: "nft_wf nft_empty"
  by (simp add: nft_wf_def nft_empty_def)

section \<open>Invariants of the abstract contract\<close>

definition ledger_ok :: "ledger \<Rightarrow> bool" where
  "ledger_ok l \<longleftrightarrow> 1 \<le> lg_next l \<and>
     (\<forall>i h. lg_inv l i = Some h \<longrightarrow> 1 \<le> i \<and> i < lg_next l \<and> hot_id h = i \<and> 0 < hot_amount h) \<and>
     (\<not> lg_open l \<longrightarrow> lg_next l = 1 \<and> lg_inv l = (\<lambda>_. None) \<and> lg_due l = (\<lambda>_. 0))"

lemma place_outside: "i < n \<or> n + length hs \<le> i \<Longrightarrow> place hs n m i = m i"
  by (induction hs n m rule: place.induct) auto

lemma place_inside: "k < length hs \<Longrightarrow> place hs n m (n + k) = Some (hs ! k)"
proof (induction hs n m arbitrary: k rule: place.induct)
  case (2 h hs n m)
  show ?case
  proof (cases k)
    case 0
    then show ?thesis by (simp add: place_outside)
  next
    case (Suc j)
    with 2 show ?thesis by (simp add: fun_upd_def)
  qed
qed simp

lemma fresh_nth:
  "fresh_invoices sme n hs \<Longrightarrow> k < length hs \<Longrightarrow>
     hot_id (hs ! k) = n + k \<and> hot_sme (hs ! k) = sme \<and> hot_status (hs ! k) = Created \<and>
     0 < hot_amount (hs ! k)"
  by (induction hs arbitrary: n k) (auto simp: nth_Cons split: nat.split)

lemma place_fresh:
  assumes "fresh_invoices sme n hs" "place hs n m i = Some h"
  shows "m i = Some h \<and> (i < n \<or> n + length hs \<le> i) \<or>
    n \<le> i \<and> i < n + length hs \<and> hot_id h = i \<and> hot_sme h = sme \<and> hot_status h = Created \<and> 0 < hot_amount h"
proof (cases "n \<le> i \<and> i < n + length hs")
  case True
  then obtain k where "k < length hs" "i = n + k" by (metis add_less_cancel_left le_Suc_ex)
  with assms fresh_nth[of sme n hs k] show ?thesis by (auto simp: place_inside)
next
  case False
  with assms show ?thesis by (auto simp: place_outside)
qed

lemma ledger_ok_step: "ledger_step l l' \<Longrightarrow> ledger_ok l \<Longrightarrow> ledger_ok l'"
proof (induction rule: ledger_step.induct)
  case (l_mint l sme hs d)
  then show ?case
    by (auto simp: ledger_ok_def dest!: place_fresh[OF l_mint.hyps(2)]) (fastforce+)?
qed (auto simp: ledger_ok_def fun_upd_def split: if_splits)

lemma ledger_ok_amend: "ledger_amend l l' \<Longrightarrow> ledger_ok l \<Longrightarrow> ledger_ok l'"
  by (induction rule: ledger_amend.induct) (auto simp: ledger_ok_def fun_upd_def split: if_splits)

lemma nft_exec_ok:
  assumes "nft_exec e c s = Inr s'" "nft_wf s" "ledger_ok (ledger_of s)"
  shows "ledger_ok (ledger_of s')"
  using assms nft_exec_refines nft_exec_amend ledger_ok_step ledger_ok_amend by blast

lemma nft_runs_ok:
  "nft_runs P s s' \<Longrightarrow> nft_wf s \<Longrightarrow> ledger_ok (ledger_of s) \<Longrightarrow> ledger_ok (ledger_of s')"
  by (induction rule: nft_runs.induct) (auto intro: nft_exec_ok nft_runs_wf)

lemma nft_empty_ok: "ledger_ok (ledger_of nft_empty)"
  by (simp add: ledger_ok_def ledger_of_def nft_empty_def next_id_def outstanding_def fun_eq_iff)

lemma nft_reachable_ok: "nft_runs P nft_empty s \<Longrightarrow> nft_wf s \<and> ledger_ok (ledger_of s)"
  using nft_runs_ok nft_runs_wf nft_empty_ok nft_empty_wf by blast

section \<open>Replaying a list of calls\<close>

fun nft_replay :: "(env \<times> nft_call) list \<Rightarrow> nft_state \<Rightarrow> nft_state nft_result" where
  "nft_replay [] s = Inr s"
| "nft_replay ((e, c) # cs) s = rbind (nft_exec e c s) (nft_replay cs)"

lemma nft_runs_trans: "nft_runs P s1 s2 \<Longrightarrow> nft_runs P s0 s1 \<Longrightarrow> nft_runs P s0 s2"
  by (induction rule: nft_runs.induct) (auto intro: nft_runs.intros)

lemma nft_replay_runs:
  "nft_replay cs s = Inr s' \<Longrightarrow> \<forall>(e, c)\<in>set cs. P c \<Longrightarrow> nft_runs P s s'"
proof (induction cs arbitrary: s)
  case Nil
  then show ?case by (simp add: runs_refl)
next
  case (Cons x cs)
  obtain e c where x: "x = (e, c)" by (cases x)
  with Cons.prems obtain s1 where "nft_exec e c s = Inr s1" "nft_replay cs s1 = Inr s'" "P c" by auto
  note step = this
  from Cons.prems(2) have "\<forall>(e, c)\<in>set cs. P c" by simp
  with Cons.IH[OF step(2)] have "nft_runs P s1 s'" .
  moreover have "nft_runs P s s1" using step(1,3) by (auto intro: runs_step runs_refl)
  ultimately show ?case by (rule nft_runs_trans)
qed

text \<open>An example history: admin 10, access control 11, SME 20, marketplace 30, pool 31; one
  invoice of 500 due at time 2000.  Checking a boolean of the final state is evaluation.\<close>

definition example_calls :: "nft_call list" where
  "example_calls =
     [Call_initialize 10 11, Call_set_authorized_callers 10 30 31,
      Call_mint_invoice 20 [7] 500 ''USD'' 2000 ''cid'' 15 None]"

text \<open>Its continuations: the invoice is listed and funded, then repaid, then archived.\<close>

definition fund_calls :: "nft_call list" where
  "fund_calls = [Call_set_listed 30 1, Call_set_funded 31 1]"

definition repay_calls :: "nft_call list" where
  "repay_calls = [Call_set_repaid 31 1]"

definition late_env :: env where "late_env = sample_env\<lparr>timestamp := 3000\<rparr>"

definition after_calls :: "env \<Rightarrow> nft_call list \<Rightarrow> nft_state" where
  "after_calls e cs = (case nft_replay (map (Pair e) cs) nft_empty of Inr s \<Rightarrow> s | Inl _ \<Rightarrow> nft_empty)"

lemma after_calls_runs:
  assumes "is_ok (nft_replay (map (Pair e) cs) nft_empty)" "\<forall>c\<in>set cs. P c"
  shows "nft_runs P nft_empty (after_calls e cs)"
proof -
  from assms(1) obtain s where "nft_replay (map (Pair e) cs) nft_empty = Inr s" by (auto simp: is_ok_iff)
  with nft_replay_runs[OF this, of P] assms(2) show ?thesis by (auto simp: after_calls_def)
qed

lemma replay_append:
  "nft_replay (xs @ ys) s = rbind (nft_replay xs s) (nft_replay ys)"
  by (induction xs arbitrary: s) (auto simp: rbind_def split: sum.splits)

lemma after_calls_append:
  assumes "is_ok (nft_replay (map (Pair e) (xs @ ys)) nft_empty)" "\<forall>c\<in>set ys. P c"
  shows "nft_runs P (after_calls e xs) (after_calls e (xs @ ys))"
  using assms nft_replay_runs[of "map (Pair e) ys" "after_calls e xs" "after_calls e (xs @ ys)" P]
  by (auto simp: after_calls_def replay_append is_ok_iff)

text \<open>The definitions an example unfolds.\<close>

named_theorems nft_eval
lemmas [nft_eval] = nft_empty_def initialize_def set_authorized_callers_def set_risk_registry_def
  set_protocol_config_def set_amount_bounds_def set_mint_rate_limit_def mint_invoice_def
  mint_invoice_with_referrer_def mint_invoices_batch_def amend_invoice_def update_metadata_cid_def
  withdraw_invoice_def set_created_def set_listed_def set_funded_def set_repaid_def set_defaulted_def
  archive_invoice_def nft_guarded_def with_guard_def acquire_guard_def release_guard_def
  nft_require_admin_def nft_require_not_paused_def append_audit_entry_def audit_append_def
  consume_mint_quota_def outstanding_def next_id_def make_hot_def make_cold_def release_exposure_def
  append_sme_invoice_id_def append_sme_invoice_ids_def remove_sme_invoice_id_def first_mint_def
  sme_ids_def fst_result_def require_auth_def load_hot_def load_cold_def get_protocol_config_def
  from_score_def require_authorized_caller.simps empty_audit_def MAX_AUDIT_LOG_SIZE_def
  MAX_DEBTOR_HASH_LEN_def MAX_IPFS_CID_LEN_def guard_defs int_defs example_calls_def after_calls_def
  fund_calls_def repay_calls_def
  late_env_def Let_def freeze_sme_invoices_def nft_propose_upgrade_def nft_execute_upgrade_def
  UPGRADE_TIMELOCK_DELAY_def nft_from_common_def MAX_BATCH_MINT_SIZE_def

end
