(* ===== verification/Nft_Props.thy ===== *)
theory Nft_Props
  imports Nft_Lifecycle
begin

text \<open>
  What the invoice contract guarantees: exposure accounting, the life cycle of an invoice, the
  behaviour of individual operations, and the places where the code departs from what it
  promises.
\<close>

section \<open>Exposure accounting\<close>

definition contribution :: "address \<Rightarrow> InvoiceHot option \<Rightarrow> i128" where
  "contribution a x = (case x of Some h \<Rightarrow> if counts_as_exposure h a then hot_amount h else 0 | None \<Rightarrow> 0)"

definition active_sum :: "ledger \<Rightarrow> address \<Rightarrow> i128" where
  "active_sum l a = (\<Sum>i\<in>{1..<lg_next l}. contribution a (lg_inv l i))"

definition exposure_exact :: "ledger \<Rightarrow> bool" where
  "exposure_exact l \<longleftrightarrow> (\<forall>a. lg_due l a = active_sum l a \<and> active_sum l a \<le> i128_max)"

lemma contribution_nonneg: "ledger_ok l \<Longrightarrow> 0 \<le> contribution a (lg_inv l i)"
  by (auto simp: contribution_def ledger_ok_def less_imp_le split: option.split)

lemma active_sum_nonneg: "ledger_ok l \<Longrightarrow> 0 \<le> active_sum l a"
  by (simp add: active_sum_def sum_nonneg contribution_nonneg)

lemma contribution_le: 
  assumes "ledger_ok l" "lg_inv l i = Some h"
  shows "contribution a (Some h) \<le> active_sum l a"
proof -
  have "i \<in> {1..<lg_next l}" using assms by (auto simp: ledger_ok_def)
  then have "contribution a (lg_inv l i) \<le> active_sum l a"
    unfolding active_sum_def by (rule member_le_sum) (auto simp: contribution_nonneg[OF assms(1)])
  with assms(2) show ?thesis by simp
qed

lemma sum_contribution_upd:
  fixes i n :: nat
  assumes "i \<in> {1..<n}"
  shows "(\<Sum>j\<in>{1..<n}. contribution a ((m(i := x)) j)) =
    (\<Sum>j\<in>{1..<n}. contribution a (m j)) - contribution a (m i) + contribution a x"
proof -
  have "(\<Sum>j\<in>{1..<n} - {i}. contribution a ((m(i := x)) j)) = (\<Sum>j\<in>{1..<n} - {i}. contribution a (m j))"
    by (rule sum.cong) auto
  moreover have "(\<Sum>j\<in>{1..<n}. contribution a (m j)) = contribution a (m i) + (\<Sum>j\<in>{1..<n} - {i}. contribution a (m j))"
    using assms by (intro sum.remove) auto
  moreover have "(\<Sum>j\<in>{1..<n}. contribution a ((m(i := x)) j)) =
      contribution a ((m(i := x)) i) + (\<Sum>j\<in>{1..<n} - {i}. contribution a ((m(i := x)) j))"
    using assms by (intro sum.remove) auto
  ultimately show ?thesis by (simp del: fun_upd_apply) simp
qed

lemma active_sum_upd:
  assumes "ledger_ok l" "lg_inv l i = Some h"
  shows "active_sum (l\<lparr>lg_inv := (lg_inv l)(i := x)\<rparr>) a =
    active_sum l a - contribution a (Some h) + contribution a x"
proof -
  have "i \<in> {1..<lg_next l}" using assms by (auto simp: ledger_ok_def)
  from sum_contribution_upd[OF this, of a "lg_inv l" x] assms(2)
  show ?thesis by (simp add: active_sum_def del: fun_upd_apply)
qed

lemma active_sum_due [simp]: "active_sum (l\<lparr>lg_due := d\<rparr>) a = active_sum l a"
  "active_sum (l\<lparr>lg_inv := m, lg_due := d\<rparr>) a = active_sum (l\<lparr>lg_inv := m\<rparr>) a"
  by (simp_all add: active_sum_def)

lemma sum_place:
  assumes "fresh_invoices sme n hs" "1 \<le> n"
  shows "(\<Sum>i\<in>{1..<n + length hs}. contribution a (place hs n m i)) =
    (\<Sum>i\<in>{1..<n}. contribution a (m i)) + (if a = sme then \<Sum>h\<leftarrow>hs. hot_amount h else 0)"
  using assms
proof (induction hs arbitrary: n m)
  case Nil
  then show ?case by simp
next
  case (Cons h hs)
  let ?m = "m(n \<mapsto> h)"
  have "(\<Sum>i\<in>{1..<Suc n}. contribution a (?m i)) = (\<Sum>i\<in>{1..<n}. contribution a (?m i)) + contribution a (?m n)"
    using Cons.prems(2) by simp
  also have "(\<Sum>i\<in>{1..<n}. contribution a (?m i)) = (\<Sum>i\<in>{1..<n}. contribution a (m i))"
    by (rule sum.cong) auto
  finally show ?case
    using Cons.IH[of "Suc n" ?m] Cons.prems
    by (auto simp: contribution_def counts_as_exposure_def fun_upd_def)
qed

text \<open>Releasing an active invoice subtracts exactly, without saturation.\<close>

lemma release_exact:
  assumes "ledger_ok l" "exposure_exact l" "lg_inv l i = Some h"
    "hot_status h \<noteq> Repaid" "hot_status h \<noteq> Defaulted"
  shows "release (lg_due l) h = (lg_due l)(hot_sme h := lg_due l (hot_sme h) - hot_amount h)"
    "0 < hot_amount h" "active_sum l (hot_sme h) - hot_amount h \<le> i128_max"
proof -
  have "hot_amount h \<le> active_sum l (hot_sme h)"
    using contribution_le[OF assms(1,3), of "hot_sme h"] assms(4,5)
    by (simp add: contribution_def counts_as_exposure_def)
  moreover show pos: "0 < hot_amount h" using assms(1,3) by (auto simp: ledger_ok_def)
  moreover have mx: "active_sum l (hot_sme h) \<le> i128_max" using assms(2) by (simp add: exposure_exact_def)
  from mx pos show "active_sum l (hot_sme h) - hot_amount h \<le> i128_max" by simp
  ultimately have "i128_clamp (active_sum l (hot_sme h) - hot_amount h) = active_sum l (hot_sme h) - hot_amount h"
    by (intro i128_clamp_id) auto
  with assms(2) show "release (lg_due l) h = (lg_due l)(hot_sme h := lg_due l (hot_sme h) - hot_amount h)"
    by (simp add: i128_sat_sub_def exposure_exact_def)
qed

lemma exposure_step:
  assumes "ledger_step l l'" "ledger_ok l" "exposure_exact l"
  shows "exposure_exact l'"
  using assms
proof (induction rule: ledger_step.induct)
  case (l_open l)
  then have "active_sum l a = 0" for a by (simp add: exposure_exact_def ledger_ok_def fun_eq_iff)
  with l_open show ?case by (simp add: exposure_exact_def ledger_ok_def active_sum_def)
next
  case (l_mint l sme hs d)
  have "1 \<le> lg_next l" using l_mint.prems(1) by (simp add: ledger_ok_def)
  from sum_place[OF l_mint.hyps(2) this, of _ "lg_inv l"] l_mint show ?case
    by (auto simp: exposure_exact_def active_sum_def)
next
  case (l_repay l i h t)
  from release_exact[OF l_repay.prems l_repay.hyps(1)] l_repay show ?case
    by (auto simp: exposure_exact_def active_sum_upd contribution_def counts_as_exposure_def)
next
  case (l_default l i h)
  from release_exact[OF l_default.prems l_default.hyps(1)] l_default show ?case
    by (auto simp: exposure_exact_def active_sum_upd contribution_def counts_as_exposure_def)
next
  case (l_withdraw l i h)
  from release_exact[OF l_withdraw.prems l_withdraw.hyps(1)] l_withdraw show ?case
    by (auto simp: exposure_exact_def active_sum_upd contribution_def counts_as_exposure_def)
qed (auto simp: exposure_exact_def active_sum_upd contribution_def counts_as_exposure_def)

text \<open>\<open>reconcile_outstanding_exposure\<close> adds with saturation; on non-negative amounts that is the
  sum, clamped once.\<close>

lemma reconcile_ids_sum:
  assumes "\<And>i. 0 \<le> contribution a (nx_hot s i)" "0 \<le> acc" "acc \<le> i128_max"
  shows "reconcile_ids s a is acc = i128_clamp (acc + (\<Sum>i\<leftarrow>is. contribution a (nx_hot s i)))"
  using assms(2,3)
proof (induction "is" arbitrary: acc)
  case Nil
  then show ?case by (simp add: i128_clamp_id)
next
  case (Cons i "is")
  let ?c = "contribution a (nx_hot s i)"
  have step: "reconcile_ids s a (i # is) acc = reconcile_ids s a is (i128_clamp (acc + ?c))"
    using Cons.prems by (simp add: contribution_def i128_sat_add_def i128_clamp_id split: option.split)
  have c: "0 \<le> ?c" by (rule assms(1))
  have r: "0 \<le> (\<Sum>i\<leftarrow>is. contribution a (nx_hot s i))"
    by (rule sum_list_nonneg) (auto simp: assms(1))
  have mono: "0 \<le> x \<Longrightarrow> i128_clamp x = min i128_max x" for x
    by (auto simp: i128_clamp_def min_def dest: order.strict_trans2)
  from c Cons.prems have "0 \<le> i128_clamp (acc + ?c)" "i128_clamp (acc + ?c) \<le> i128_max"
    by (simp_all add: mono)
  from Cons.IH[OF this] step c r Cons.prems show ?case by (simp add: mono min_def)
qed

lemma reconcile_active_sum:
  assumes "ledger_ok (ledger_of s)"
  shows "reconcile_outstanding_exposure s a = i128_clamp (active_sum (ledger_of s) a)"
  using contribution_nonneg[OF assms, of a]
  by (simp add: reconcile_outstanding_exposure_def reconcile_ids_sum active_sum_def
      interv_sum_list_conv_sum_set_nat)

lemma nft_runs_exact:
  "nft_runs (\<lambda>c. \<not> is_amend c) s s' \<Longrightarrow> nft_wf s \<Longrightarrow> ledger_ok (ledger_of s) \<Longrightarrow>
     exposure_exact (ledger_of s) \<Longrightarrow> exposure_exact (ledger_of s')"
  by (induction rule: nft_runs.induct)
    (auto intro: exposure_step nft_exec_refines nft_runs_wf nft_runs_ok)

lemma nft_empty_exact: "exposure_exact (ledger_of nft_empty)"
  by (simp add: exposure_exact_def ledger_of_def nft_empty_def next_id_def outstanding_def active_sum_def)

lemma nft_reachable_exact:
  "nft_runs (\<lambda>c. \<not> is_amend c) nft_empty s \<Longrightarrow> exposure_exact (ledger_of s)"
  using nft_runs_exact nft_empty_exact nft_empty_ok nft_empty_wf by blast

text \<open>C4: In every state reached without \<open>amend_invoice\<close>, the incrementally maintained
  exposure of every SME equals what \<open>reconcile_outstanding_exposure\<close> recomputes by scanning all
  invoices, and it is a non-negative \<open>i128\<close>.\<close>

theorem exposure_matches_reconciliation:
  assumes "nft_runs (\<lambda>c. \<not> is_amend c) nft_empty s"
  shows "outstanding s sme = reconcile_outstanding_exposure s sme \<and>
    0 \<le> outstanding s sme \<and> outstanding s sme \<le> i128_max"
proof -
  from nft_reachable_ok[OF assms] have ok: "ledger_ok (ledger_of s)" by simp
  from nft_reachable_exact[OF assms] have "outstanding s sme = active_sum (ledger_of s) sme"
    "active_sum (ledger_of s) sme \<le> i128_max" by (simp_all add: exposure_exact_def)
  with ok active_sum_nonneg[OF ok, of sme] show ?thesis
    by (simp add: reconcile_active_sum i128_clamp_id)
qed

theorem exposure_matches_reconciliation_witness:
  "\<exists>s. nft_runs (\<lambda>c. \<not> is_amend c) nft_empty s \<and> outstanding s 20 = 500 \<and>
     reconcile_outstanding_exposure s 20 = 500"
proof -
  let ?s = "after_calls sample_env example_calls"
  have run: "nft_runs (\<lambda>c. \<not> is_amend c) nft_empty ?s"
    by (rule after_calls_runs) (simp_all add: nft_eval)
  have "outstanding ?s 20 = 500" by (simp add: nft_eval)
  with exposure_matches_reconciliation[OF run, of 20] run show ?thesis by auto
qed

text \<open>\<open>amend_invoice\<close> changes the amount of an invoice without touching the exposure: from a
  state where ledger and reconciliation agree, one amendment leaves them apart by the difference
  between the old and the new amount.\<close>

theorem amend_leaves_exposure_stale:
  assumes "nft_runs (\<lambda>c. \<not> is_amend c) nft_empty s" "nx_hot s i = Some h"
    and "amend_invoice e s sme i hash n d cid r = Inr s'"
  shows "outstanding s' sme = outstanding s sme \<and>
    reconcile_outstanding_exposure s' sme = i128_clamp (outstanding s sme - hot_amount h + n)"
proof -
  from nft_reachable_ok[OF assms(1)] have ok: "ledger_ok (ledger_of s)" by simp
  obtain h' where core: "hot_sme h = sme" "hot_status h = Created" "0 < n"
    "nft_core s' = (nx_admin s, nx_access_control s, nx_next_id s, (nx_hot s)(i \<mapsto> h'), nx_exposure s, nx_lock s)"
    "hot_amount h' = n" "hot_sme h' = sme" "hot_status h' = Created"
    using amend_core[OF assms(3)] assms(2) by auto
  have "ledger_of s' = ledger_of s\<lparr>lg_inv := (lg_inv (ledger_of s))(i \<mapsto> h')\<rparr>"
    using core(4) by (simp add: ledger_unfold)
  moreover have "active_sum (ledger_of s\<lparr>lg_inv := (lg_inv (ledger_of s))(i \<mapsto> h')\<rparr>) sme
      = outstanding s sme - hot_amount h + n"
    using active_sum_upd[OF ok, of i h "Some h'" sme] assms(2) core nft_reachable_exact[OF assms(1)]
    by (simp add: contribution_def counts_as_exposure_def exposure_exact_def)
  moreover have "ledger_ok (ledger_of s')"
    using amend_refines[OF assms(3)] ok by (rule ledger_ok_amend)
  moreover have "outstanding s' sme = outstanding s sme"
    using core(4) by (simp add: nft_core_def outstanding_def)
  ultimately show ?thesis by (simp add: reconcile_active_sum)
qed

theorem amend_leaves_exposure_stale_witness:
  "\<exists>s s'. amend_invoice sample_env s 20 1 [7] 900 2500 ''cid2'' 30 = Inr s' \<and>
     outstanding s' 20 = 500 \<and> reconcile_outstanding_exposure s' 20 = 900"
proof -
  let ?s = "after_calls sample_env example_calls"
  have run: "nft_runs (\<lambda>c. \<not> is_amend c) nft_empty ?s"
    by (rule after_calls_runs) (simp_all add: nft_eval)
  obtain h where h: "nx_hot ?s 1 = Some h" "hot_amount h = 500" by (simp add: nft_eval)
  have "is_ok (amend_invoice sample_env ?s 20 1 [7] 900 2500 ''cid2'' 30)" by (simp add: nft_eval)
  then obtain s' where a: "amend_invoice sample_env ?s 20 1 [7] 900 2500 ''cid2'' 30 = Inr s'"
    by (auto simp: is_ok_iff)
  have "outstanding ?s 20 = 500" by (simp add: nft_eval)
  with amend_leaves_exposure_stale[OF run h(1) a] h(2)
  have "outstanding s' 20 = 500" "reconcile_outstanding_exposure s' 20 = i128_clamp 900" by simp_all
  with a show ?thesis by (auto simp: i128_clamp_def i128_min_def i128_max_def)
qed

section \<open>The life cycle of an invoice\<close>

text \<open>What may still change on an invoice once it is funded: its risk score, and once its status.\<close>

definition settles :: "InvoiceHot \<Rightarrow> InvoiceHot \<Rightarrow> bool" where
  "settles h h' \<longleftrightarrow>
     hot_id h' = hot_id h \<and> hot_sme h' = hot_sme h \<and> hot_amount h' = hot_amount h \<and>
     hot_currency h' = hot_currency h \<and> hot_due_date h' = hot_due_date h \<and>
     hot_created_at h' = hot_created_at h \<and> hot_funded_at h' = hot_funded_at h \<and>
     hot_status h' \<in> {Funded, Repaid, Defaulted} \<and>
     (hot_status h = Funded \<or> hot_status h' = hot_status h)"

definition past_funding :: "InvoiceHot \<Rightarrow> bool" where
  "past_funding h \<longleftrightarrow> hot_status h \<in> {Funded, Repaid, Defaulted}"

lemma settles_refl: "past_funding h \<Longrightarrow> settles h h"
  by (simp add: settles_def past_funding_def)

lemma settles_trans: "settles h1 h2 \<Longrightarrow> settles h2 h3 \<Longrightarrow> settles h1 h3"
  by (auto simp: settles_def)

lemma settles_past: "settles h h' \<Longrightarrow> past_funding h'"
  by (simp add: settles_def past_funding_def)

definition ledger_any :: "ledger \<Rightarrow> ledger \<Rightarrow> bool" where
  "ledger_any l l' \<longleftrightarrow> ledger_step l l' \<or> ledger_amend l l'"

lemma nft_exec_any: "nft_exec e c s = Inr s' \<Longrightarrow> nft_wf s \<Longrightarrow> ledger_any (ledger_of s) (ledger_of s')"
  unfolding ledger_any_def using nft_exec_refines nft_exec_amend by blast

lemma any_next_mono: "ledger_any l l' \<Longrightarrow> ledger_ok l \<Longrightarrow> lg_next l \<le> lg_next l'"
  by (auto simp: ledger_any_def ledger_ok_def elim!: ledger_step.cases ledger_amend.cases)

lemma any_gone:
  "ledger_any l l' \<Longrightarrow> i < lg_next l \<Longrightarrow> lg_inv l i = None \<Longrightarrow> lg_inv l' i = None"
  by (auto simp: ledger_any_def place_outside elim!: ledger_step.cases ledger_amend.cases)

lemma any_settles:
  assumes "ledger_any l l'" "ledger_ok l" "lg_inv l i = Some h" "past_funding h" "lg_inv l' i = Some h'"
  shows "settles h h'"
proof -
  have "i < lg_next l" using assms(2,3) by (auto simp: ledger_ok_def)
  with assms show ?thesis
    by (auto simp: ledger_any_def settles_def past_funding_def place_outside
        elim!: ledger_step.cases ledger_amend.cases split: if_splits)
qed

lemma runs_next_mono:
  assumes "nft_runs P s s'" "nft_wf s" "ledger_ok (ledger_of s)"
  shows "next_id s \<le> next_id s'"
  using assms
proof (induction rule: nft_runs.induct)
  case (runs_step s s1 c e s2)
  then have "nft_wf s1" "ledger_ok (ledger_of s1)" by (auto intro: nft_runs_wf nft_runs_ok)
  with runs_step nft_exec_any[OF runs_step.hyps(3)] any_next_mono[of "ledger_of s1" "ledger_of s2"]
  show ?case by simp
qed simp

lemma runs_gone:
  assumes "nft_runs P s s'" "nft_wf s" "ledger_ok (ledger_of s)" "i < next_id s" "nx_hot s i = None"
  shows "nx_hot s' i = None \<and> i < next_id s'"
  using assms
proof (induction rule: nft_runs.induct)
  case (runs_step s s1 c e s2)
  then have "nx_hot s1 i = None" "i < next_id s1" "nft_wf s1" "ledger_ok (ledger_of s1)"
    by (auto intro: nft_runs_wf nft_runs_ok)
  with nft_exec_any[OF runs_step.hyps(3)] any_gone[of "ledger_of s1" "ledger_of s2" i]
    any_next_mono[of "ledger_of s1" "ledger_of s2"] show ?case by simp
qed simp

lemma runs_settles:
  assumes "nft_runs P s s'" "nft_wf s" "ledger_ok (ledger_of s)" "nx_hot s i = Some h" "past_funding h"
    "nx_hot s' i = Some h'"
  shows "settles h h'"
  using assms
proof (induction arbitrary: h' rule: nft_runs.induct)
  case (runs_refl s)
  then show ?case by (auto intro: settles_refl)
next
  case (runs_step s s1 c e s2)
  have ok: "nft_wf s1" "ledger_ok (ledger_of s1)"
    using runs_step by (auto intro: nft_runs_wf nft_runs_ok)
  have "i < next_id s" using runs_step.prems(2,3) by (auto simp: ledger_ok_def)
  then have "i < next_id s1"
    using runs_next_mono[OF runs_step.hyps(1) runs_step.prems(1,2)] by simp
  with any_gone[OF nft_exec_any[OF runs_step.hyps(3) ok(1)], of i] runs_step.prems(5)
  obtain h1 where h1: "nx_hot s1 i = Some h1" by (cases "nx_hot s1 i") auto
  from runs_step.IH[OF runs_step.prems(1-4) h1] have "settles h h1" .
  moreover have "settles h1 h'"
    using any_settles[OF nft_exec_any[OF runs_step.hyps(3) ok(1)] ok(2), of i h1 h'] h1
      settles_past[OF calculation] runs_step.prems(5) by simp
  ultimately show ?case by (rule settles_trans)
qed

text \<open>C11: Once an invoice is funded its terms are final: in every later state in which the
  invoice is still stored, SME, amount, currency, due date and funding time are what they were,
  the status is \<open>Funded\<close>, \<open>Repaid\<close> or \<open>Defaulted\<close>, and the last two are terminal.\<close>

theorem funded_terms_are_final:
  assumes "nft_reachable s" "nx_hot s i = Some h" "hot_status h \<in> {Funded, Repaid, Defaulted}"
    and "nft_runs (\<lambda>_. True) s s'" "nx_hot s' i = Some h'"
  shows "hot_id h' = hot_id h \<and> hot_sme h' = hot_sme h \<and> hot_amount h' = hot_amount h \<and>
     hot_currency h' = hot_currency h \<and> hot_due_date h' = hot_due_date h \<and>
     hot_funded_at h' = hot_funded_at h \<and> hot_status h' \<in> {Funded, Repaid, Defaulted} \<and>
     (hot_status h \<noteq> Funded \<longrightarrow> hot_status h' = hot_status h)"
  using runs_settles[OF assms(4) _ _ assms(2) _ assms(5)] nft_reachable_ok[OF assms(1)] assms(3)
  by (auto simp: settles_def past_funding_def)

theorem funded_terms_are_final_witness:
  "\<exists>s s' h h'. nft_runs (\<lambda>_. True) s s' \<and> nx_hot s 1 = Some h \<and> nx_hot s' 1 = Some h' \<and>
     hot_status h = Funded \<and> hot_status h' = Repaid \<and> hot_amount h' = hot_amount h"
proof -
  let ?f = "example_calls @ fund_calls"
  let ?s = "after_calls sample_env ?f" and ?t = "after_calls sample_env (?f @ repay_calls)"
  have ok: "is_ok (nft_replay (map (Pair sample_env) (?f @ repay_calls)) nft_empty)"
    by (simp add: nft_eval)
  have run: "nft_runs (\<lambda>_. True) ?s ?t" by (rule after_calls_append[OF ok]) simp
  have reach: "nft_reachable ?s" by (rule after_calls_runs) (simp_all add: nft_eval)
  obtain h where h: "nx_hot ?s 1 = Some h" "hot_status h = Funded" by (simp add: nft_eval)
  obtain h' where h': "nx_hot ?t 1 = Some h'" "hot_status h' = Repaid" by (simp add: nft_eval)
  from funded_terms_are_final[OF reach h(1) _ run h'(1)] h(2)
  have "hot_amount h' = hot_amount h" by simp
  with run h h' show ?thesis by blast
qed

text \<open>Ids are never reused: an invoice that existed and was withdrawn or archived stays
  absent in every later state.\<close>

theorem removed_invoice_never_returns:
  assumes "nft_reachable s0" "nx_hot s0 i \<noteq> None" "nft_runs (\<lambda>_. True) s0 s1" "nx_hot s1 i = None"
    and "nft_runs (\<lambda>_. True) s1 s2"
  shows "nx_hot s2 i = None"
proof -
  note ok0 = nft_reachable_ok[OF assms(1)]
  have "nft_reachable s1" using assms(3,1) by (rule nft_runs_trans)
  note ok1 = nft_reachable_ok[OF this]
  have "i < next_id s0" using ok0 assms(2) by (auto simp: ledger_ok_def)
  also have "next_id s0 \<le> next_id s1" using runs_next_mono[OF assms(3)] ok0 by blast
  finally show ?thesis using runs_gone[OF assms(5)] ok1 assms(4) by blast
qed

theorem removed_invoice_never_returns_witness:
  "\<exists>(s0 :: nft_state) s1 s2. nx_hot s0 1 \<noteq> None \<and> nft_runs (\<lambda>_. True) s1 s2 \<and> nx_hot s2 1 = None \<and>
     next_id s2 = 3"
proof -
  let ?a = "example_calls" and ?b = "[Call_withdraw_invoice 20 1]"
  let ?c = "[Call_mint_invoice 21 [7] 500 ''USD'' 2000 ''cid'' 15 None]"
  let ?s0 = "after_calls sample_env ?a" and ?s1 = "after_calls sample_env (?a @ ?b)"
    and ?s2 = "after_calls sample_env ((?a @ ?b) @ ?c)"
  have ok: "is_ok (nft_replay (map (Pair sample_env) (?a @ ?b)) nft_empty)"
    "is_ok (nft_replay (map (Pair sample_env) ((?a @ ?b) @ ?c)) nft_empty)"
    by (simp_all add: nft_eval)
  have r1: "nft_runs (\<lambda>_. True) ?s0 ?s1" by (rule after_calls_append[OF ok(1)]) simp
  have r2: "nft_runs (\<lambda>_. True) ?s1 ?s2" by (rule after_calls_append[OF ok(2)]) simp
  have reach: "nft_reachable ?s0" by (rule after_calls_runs) (simp_all add: nft_eval)
  have i0: "nx_hot ?s0 1 \<noteq> None" and i1: "nx_hot ?s1 1 = None" and n: "next_id ?s2 = 3"
    by (simp_all add: nft_eval)
  have "nx_hot ?s0 1 \<noteq> None \<and> nft_runs (\<lambda>_. True) ?s1 ?s2 \<and> nx_hot ?s2 1 = None \<and> next_id ?s2 = 3"
    using removed_invoice_never_returns[OF reach i0 r1 i1 r2] r2 i0 n by blast
  then show ?thesis by (intro exI)
qed

section \<open>Mint quota\<close>

text \<open>\<open>mint_invoice\<close> takes two slots of the SME's quota: with a limit of one mint per
  window no single mint ever succeeds, whatever the window holds.\<close>

theorem single_mint_needs_two_slots:
  assumes "nx_rate_limit s = Some cfg" "rl_max_mints cfg = 1" "0 < rl_window_secs cfg"
  shows "\<not> is_ok (mint_invoice e s sme h n cur due cid r notes)"
proof
  assume "is_ok (mint_invoice e s sme h n cur due cid r notes)"
  then obtain s1 s2 where "consume_mint_quota e (s\<lparr>nx_lock := True\<rparr>) sme 1 = Inr s1"
    "consume_mint_quota e s1 sme 1 = Inr s2"
    by (clarsimp simp: is_ok_iff mint_invoice_def Let_def)
  note q = this
  from q(1) assms obtain w where w: "nx_mint_window s1 sme = Some w" "1 \<le> snd w"
    "u64_sat_sub (timestamp e) (fst w) < rl_window_secs cfg" "nx_rate_limit s1 = Some cfg"
    by (auto simp: consume_mint_quota_def Let_def u64_sat_sub_def split: prod.splits if_splits option.splits)
  with q(2) assms show False
    by (auto simp: consume_mint_quota_def Let_def split: prod.splits if_splits)
qed

text \<open>A batch takes one slot per invoice, so the same quota admits a batch of one.\<close>

theorem single_mint_needs_two_slots_witness:
  "\<exists>s. \<not> is_ok (mint_invoice sample_env s 20 [7] 500 ''USD'' 2000 ''cid'' 15 None) \<and>
     is_ok (mint_invoices_batch sample_env s 20 [\<lparr>bi_debtor_hash = [7], bi_amount = 500,
       bi_currency = ''USD'', bi_due_date = 2000, bi_ipfs_cid = ''cid'', bi_risk_score = 15,
       bi_notes = None\<rparr>])"
proof -
  let ?s = "after_calls sample_env [Call_initialize 10 11, Call_set_mint_rate_limit 10 1 60]"
  have "nx_rate_limit ?s = Some \<lparr>rl_max_mints = 1, rl_window_secs = 60\<rparr>" by (simp add: nft_eval)
  from single_mint_needs_two_slots[OF this]
  have "\<not> is_ok (mint_invoice sample_env ?s 20 [7] 500 ''USD'' 2000 ''cid'' 15 None)" by simp
  moreover have "is_ok (mint_invoices_batch sample_env ?s 20 [\<lparr>bi_debtor_hash = [7], bi_amount = 500,
       bi_currency = ''USD'', bi_due_date = 2000, bi_ipfs_cid = ''cid'', bi_risk_score = 15,
       bi_notes = None\<rparr>])" by (simp add: nft_eval)
  ultimately show ?thesis by blast
qed

section \<open>Pages of an SME's invoices\<close>

lemma page_take_drop:
  assumes "limit \<le> MAX_SME_INVOICE_PAGE" "length (sme_ids s sme) \<le> u32_max"
  shows "get_sme_invoice_ids s sme start limit = take limit (drop start (sme_ids s sme))"
  using assms by (auto simp: get_sme_invoice_ids_def Let_def u32_sat_add_def min_def)

lemma concat_pages: "concat (map (\<lambda>k. take n (drop (k * n) xs)) [0..<m]) = take (m * n) xs"
proof (induction m)
  case (Suc m)
  then have "concat (map (\<lambda>k. take n (drop (k * n) xs)) [0..<Suc m]) = take (m * n) xs @ take n (drop (m * n) xs)"
    by simp
  also have "\<dots> = take (m * n + n) xs" by (simp only: take_add)
  finally show ?case by (simp add: add.commute)
qed simp

text \<open>Reading an SME's invoices page by page with any page size up to 100 yields exactly the
  stored list, in order, once as many pages were read as it takes.\<close>

theorem sme_pages_enumerate:
  assumes "0 < n" "n \<le> MAX_SME_INVOICE_PAGE" "length (sme_ids s sme) \<le> u32_max"
    and "length (sme_ids s sme) \<le> m * n"
  shows "concat (map (\<lambda>k. get_sme_invoice_ids s sme (k * n) n) [0..<m]) = sme_ids s sme \<and>
    (\<forall>k. length (get_sme_invoice_ids s sme (k * n) n) \<le> n)"
  using assms by (simp add: page_take_drop concat_pages)

theorem sme_pages_enumerate_witness:
  "concat (map (\<lambda>k. get_sme_invoice_ids (nft_empty\<lparr>nx_sme_ids := (\<lambda>_. Some [4, 9, 2])\<rparr>) 20 (k * 2) 2) [0..<2])
     = [4, 9, 2]"
  using sme_pages_enumerate[of 2 "nft_empty\<lparr>nx_sme_ids := (\<lambda>_. Some [4, 9, 2])\<rparr>" 20 2]
  by (simp add: sme_ids_def MAX_SME_INVOICE_PAGE_def u32_max_def)

section \<open>The referral graph\<close>

definition referral_graph :: "nft_state \<Rightarrow> (address \<times> address) set" where
  "referral_graph s = {(a, b). nx_referrer s a = Some b}"

text \<open>A walk that succeeds has seen the whole chain, and the SME is not on it.\<close>

lemma referrer_walk_avoids:
  "referrer_walk s sme n r = Inr () \<Longrightarrow> (r, x) \<in> (referral_graph s)\<^sup>* \<Longrightarrow> x \<noteq> sme"
proof (induction n arbitrary: r)
  case (Suc n)
  from Suc.prems(2) show ?case
  proof (cases rule: converse_rtranclE)
    case base
    with Suc.prems(1) show ?thesis by (auto split: if_splits)
  next
    case (step y)
    with Suc show ?thesis by (auto simp: referral_graph_def split: if_splits)
  qed
qed simp

definition referral_inv :: "nft_state \<Rightarrow> bool" where
  "referral_inv s \<longleftrightarrow> acyclic (referral_graph s) \<and>
     (\<forall>a. nx_referrer s a \<noteq> None \<longrightarrow> nx_first_mint s a \<noteq> None)"

definition nft_referral where "nft_referral s = (nx_referrer s, nx_first_mint s)"

lemma referral_inv_frame: "nft_referral s' = nft_referral s \<Longrightarrow> referral_inv s \<Longrightarrow> referral_inv s'"
  by (simp add: nft_referral_def referral_inv_def referral_graph_def)

lemma referral_inv_first_mint: "referral_inv s \<Longrightarrow> referral_inv (first_mint s a i)"
  by (auto simp: first_mint_def referral_inv_def referral_graph_def)

lemma referral_helpers [simp]:
  "nft_referral (append_sme_invoice_id s a i) = nft_referral s"
  "nft_referral (append_sme_invoice_ids s a is) = nft_referral s"
  "nft_referral (remove_sme_invoice_id s a i) = nft_referral s"
  "nft_referral (release_exposure s a n) = nft_referral s"
  by (simp_all add: append_sme_invoice_id_def append_sme_invoice_ids_def remove_sme_invoice_id_def
      release_exposure_def nft_referral_def split: option.split)

lemma migrate_ids_referral: "migrate_ids is s = Inr s' \<Longrightarrow> nft_referral s' = nft_referral s"
  by (induction "is" s rule: migrate_ids.induct)
    (auto simp: nft_referral_def split: option.splits legacy_slot.splits)

lemma migration_step_referral: "nft_migration_step v w s = Inr s' \<Longrightarrow> nft_referral s' = nft_referral s"
  by (auto simp: nft_migration_step_def migrate_v1_to_v2_def split: if_splits dest!: migrate_ids_referral)
    (simp add: nft_referral_def)

lemma migrate_referral: "migrate_versions e s a v w = Inr s' \<Longrightarrow> nft_referral s' = nft_referral s"
proof -
  assume run: "migrate_versions e s a v w = Inr s'"
  then obtain s1 changed where
    m: "migrate nft_from_migration nx_migration_version (\<lambda>v s. s\<lparr>nx_migration_version := Some v\<rparr>)
       nft_migration_step v w SCHEMA_VERSION s = Inr (s1, changed)"
    and s': "nft_referral s' = nft_referral s1"
    by (auto simp: migrate_versions_def nft_referral_def split: if_splits)
  from m have "nft_referral s1 = nft_referral s"
    by (rule migrate_frame)
      (auto simp: nft_referral_def dest: migration_step_referral[unfolded nft_referral_def])
  with s' show ?thesis by simp
qed

lemma freeze_loop_referral:
  "nft_referral (fst (freeze_loop mx is s n)) = nft_referral s"
  "nft_referral (fst (unfreeze_loop mx is s n)) = nft_referral s"
  by (induction mx "is" s n rule: freeze_loop.induct; simp add: nft_referral_def split: option.splits)
    (induction mx "is" s n rule: unfreeze_loop.induct; simp add: nft_referral_def)

lemma admin_referral:
  "initialize e s a c = Inr s' \<Longrightarrow> nft_referral s' = nft_referral s"
  "set_risk_registry e s a r = Inr s' \<Longrightarrow> nft_referral s' = nft_referral s"
  "set_debtor_attestation e s a r = Inr s' \<Longrightarrow> nft_referral s' = nft_referral s"
  "set_authorized_callers e s a m p = Inr s' \<Longrightarrow> nft_referral s' = nft_referral s"
  "set_protocol_config e s a cfg = Inr s' \<Longrightarrow> nft_referral s' = nft_referral s"
  "set_amount_bounds e s a tier lo hi = Inr s' \<Longrightarrow> nft_referral s' = nft_referral s"
  "set_mint_rate_limit e s a n w = Inr s' \<Longrightarrow> nft_referral s' = nft_referral s"
  "nft_propose_upgrade e s a hash = Inr s' \<Longrightarrow> nft_referral s' = nft_referral s"
  "nft_execute_upgrade e s a = Inr (s', hash) \<Longrightarrow> nft_referral s' = nft_referral s"
  "add_allowed_currency e s a cur = Inr s' \<Longrightarrow> nft_referral s' = nft_referral s"
  "remove_allowed_currency e s a cur = Inr s' \<Longrightarrow> nft_referral s' = nft_referral s"
  "freeze_invoice e s a i = Inr s' \<Longrightarrow> nft_referral s' = nft_referral s"
  "unfreeze_invoice e s a i = Inr s' \<Longrightarrow> nft_referral s' = nft_referral s"
  "archive_invoice e s a i = Inr s' \<Longrightarrow> nft_referral s' = nft_referral s"
  by (clarsimp simp: admin_ops initialize_def archive_invoice_def nft_referral_def split: if_splits)+

lemma invoice_referral:
  "set_created e s a i = Inr (s', u) \<Longrightarrow> nft_referral s' = nft_referral s"
  "set_listed e s a i = Inr (s', u) \<Longrightarrow> nft_referral s' = nft_referral s"
  "set_funded e s a i = Inr (s', u) \<Longrightarrow> nft_referral s' = nft_referral s"
  "refresh_risk_score e s a i = Inr (s', u) \<Longrightarrow> nft_referral s' = nft_referral s"
  "set_defaulted e s a i = Inr (s', u) \<Longrightarrow> nft_referral s' = nft_referral s"
  "set_repaid e s a i = Inr s' \<Longrightarrow> nft_referral s' = nft_referral s"
  "amend_invoice e s a i hash n d cid r = Inr s' \<Longrightarrow> nft_referral s' = nft_referral s"
  "commit_metadata_hash e s a i hash = Inr (s', u) \<Longrightarrow> nft_referral s' = nft_referral s"
  "flag_metadata_mismatch e s a i hash = Inr (s', u) \<Longrightarrow> nft_referral s' = nft_referral s"
  "admin_correct_metadata_hash e s a i hash = Inr s' \<Longrightarrow> nft_referral s' = nft_referral s"
  "update_metadata_cid e s a i cid = Inr s' \<Longrightarrow> nft_referral s' = nft_referral s"
  by (auto simp: set_created_def set_listed_def set_funded_def refresh_risk_score_def set_defaulted_def
      set_repaid_def amend_invoice_def commit_metadata_hash_def flag_metadata_mismatch_def
      admin_ops nft_referral_def Let_def release_exposure_def)

lemma withdraw_referral: "withdraw_invoice e s a i = Inr s' \<Longrightarrow> nft_referral s' = nft_referral s"
  by (auto simp: withdraw_invoice_def Let_def) (simp add: nft_referral_def)

lemma resolve_referral: "resolve_metadata_dispute e s a i b = Inr s' \<Longrightarrow> nft_referral s' = nft_referral s"
  by (cases b) (auto simp: admin_ops nft_referral_def Let_def)

lemma freeze_referral:
  "freeze_sme_invoices e s a sme mx = Inr (s', n) \<Longrightarrow> nft_referral s' = nft_referral s"
  "unfreeze_sme_invoices e s a sme mx = Inr (s', n) \<Longrightarrow> nft_referral s' = nft_referral s"
  using freeze_loop_referral(1)[of mx "sme_ids s sme" s 0] freeze_loop_referral(2)[of mx "sme_ids s sme" s 0]
  by (auto simp: freeze_sme_invoices_def unfreeze_sme_invoices_def)

lemmas referral_frames = admin_referral invoice_referral withdraw_referral resolve_referral
  freeze_referral migrate_referral

lemma quota_referral: "consume_mint_quota e s a n = Inr s' \<Longrightarrow> nft_referral s' = nft_referral s"
  by (drule consume_mint_quota_frame) (auto simp: nft_referral_def)

lemma first_mint_Some [simp]: "nx_first_mint (first_mint s a i) a \<noteq> None"
  by (simp add: first_mint_def)

lemma first_mint_referrer [simp]: "nx_referrer (first_mint s a i) = nx_referrer s"
  by (simp add: first_mint_def)

lemma mint_referral:
  assumes "mint_invoice e s sme h n cur due cid r notes = Inr (s', i)"
  shows "\<exists>s1. nft_referral s1 = nft_referral s \<and> nft_referral s' = nft_referral (first_mint s1 sme i)"
proof (rule mint_invoice_stages[OF assms])
  fix s1 s2 :: nft_state
  define s3 where "s3 = s2\<lparr>nx_hot := (nx_hot s2)(i \<mapsto> make_hot e i sme n cur due r),
             nx_cold := (nx_cold s2)(i \<mapsto> make_cold h cid notes), nx_next_id := Some (i + 1),
             nx_exposure := (nx_exposure s2)(sme \<mapsto> outstanding s1 sme + n)\<rparr>"
  assume q: "consume_mint_quota e (s\<lparr>nx_lock := True\<rparr>) sme 1 = Inr s1"
    "consume_mint_quota e s1 sme 1 = Inr s2"
    "s' = first_mint (append_sme_invoice_id (s2\<lparr>nx_hot := (nx_hot s2)(i \<mapsto> make_hot e i sme n cur due r),
             nx_cold := (nx_cold s2)(i \<mapsto> make_cold h cid notes), nx_next_id := Some (i + 1),
             nx_exposure := (nx_exposure s2)(sme \<mapsto> outstanding s1 sme + n)\<rparr>) sme i) sme i\<lparr>nx_lock := False\<rparr>"
  from quota_referral[OF q(1)] quota_referral[OF q(2)]
  have "nft_referral s3 = nft_referral s" by (simp add: nft_referral_def s3_def)
  with q(3) show ?thesis
    by (intro exI[of _ "append_sme_invoice_id s3 sme i"]) (simp add: s3_def, simp add: nft_referral_def)
qed

lemma batch_loop_referral:
  "batch_loop e sme xs s n d ids = Inr (s', n', d', ids') \<Longrightarrow> nft_referral s' = nft_referral s"
  by (induction xs arbitrary: s n d ids) (fastforce simp: Let_def nft_referral_def)+

lemma batch_referral:
  assumes "mint_invoices_batch e s sme xs = Inr (s', ids)" "referral_inv s"
  shows "referral_inv s'"
proof (rule mint_batch_stages[OF assms(1)])
  fix s1 s2 s3 :: nft_state and nid b and delta :: i128
  assume q: "consume_mint_quota e (s\<lparr>nx_lock := True\<rparr>) sme (length xs) = Inr s1"
    "batch_loop e sme xs s1 (next_id s1) 0 [] = Inr (s2, nid, delta, ids)"
    and d: "(if delta \<noteq> 0 then
        rbind (ok_or (i128_add (outstanding (s2\<lparr>nx_next_id := Some nid\<rparr>) sme) delta) (Err ArithmeticOverflow)) (\<lambda>x.
        Inr (s2\<lparr>nx_next_id := Some nid, nx_exposure := (nx_exposure (s2\<lparr>nx_next_id := Some nid\<rparr>))(sme \<mapsto> x)\<rparr>))
      else Inr (s2\<lparr>nx_next_id := Some nid\<rparr>)) = (Inr s3 :: nft_state nft_result)"
    and s': "s' = (case ids of [] \<Rightarrow> append_sme_invoice_ids s3 sme ids
            | i # _ \<Rightarrow> first_mint (append_sme_invoice_ids s3 sme ids) sme i)\<lparr>nx_next_batch_id := Some b, nx_lock := False\<rparr>"
  have "nft_referral s3 = nft_referral s2" using d by (auto simp: nft_referral_def split: if_splits)
  with quota_referral[OF q(1)] batch_loop_referral[OF q(2)] have "nft_referral s3 = nft_referral s"
    by (simp add: nft_referral_def)
  then have "referral_inv s3" using assms(2) by (rule referral_inv_frame)
  then have "referral_inv (append_sme_invoice_ids s3 sme ids)" by (rule referral_inv_frame[rotated]) simp
  then have "referral_inv (case ids of [] \<Rightarrow> append_sme_invoice_ids s3 sme ids
      | i # _ \<Rightarrow> first_mint (append_sme_invoice_ids s3 sme ids) sme i)"
    by (auto intro: referral_inv_first_mint split: list.split)
  then show ?thesis by (rule referral_inv_frame[rotated]) (simp add: s' nft_referral_def)
qed

lemma mint_referral_inv:
  assumes "mint_invoice e s sme h n cur due cid r notes = Inr (s', i)" "referral_inv s"
  shows "referral_inv s' \<and> nx_first_mint s' sme \<noteq> None \<and> nx_referrer s' = nx_referrer s"
proof -
  from mint_referral[OF assms(1)] obtain s1 where s1: "nft_referral s1 = nft_referral s"
    "nft_referral s' = nft_referral (first_mint s1 sme i)" by blast
  then have "nx_first_mint s' sme \<noteq> None" "nx_referrer s' = nx_referrer s"
    using first_mint_Some by (simp_all add: nft_referral_def)
  moreover have "referral_inv s'"
    using s1 assms(2) by (blast intro: referral_inv_frame referral_inv_first_mint)
  ultimately show ?thesis by blast
qed

lemma with_referrer_inv:
  assumes "mint_invoice_with_referrer e s sme h n cur due cid r notes ref = Inr (s', i)" "referral_inv s"
  shows "referral_inv s'"
proof -
  from assms(1) obtain s1 j where m: "mint_invoice e s sme h n cur due cid r notes = Inr (s1, j)"
    and g: "(case ref of None \<Rightarrow> Inr ()
             | Some r \<Rightarrow> if r = sme then Inl (Err InvalidReferrer)
                 else if r = self_addr e then Inl (Err InvalidReferrer)
                 else if nx_first_mint s sme \<noteq> None then Inl (Err ReferralAlreadyLocked)
                 else referrer_walk s sme 32 r) = (Inr () :: unit nft_result)"
    and k: "(case (nx_first_mint s sme \<noteq> None, ref) of
        (False, Some a) \<Rightarrow> Inr (s1\<lparr>nx_referrer := (nx_referrer s1)(sme \<mapsto> a)\<rparr>, j)
      | _ \<Rightarrow> Inr (s1, j)) = (Inr (s', i) :: (nft_state \<times> u64) nft_result)"
    unfolding mint_invoice_with_referrer_def Let_def rbind_Inr_iff by auto
  note inv1 = mint_referral_inv[OF m assms(2)]
  show ?thesis
  proof (cases "nx_first_mint s sme = None \<and> ref \<noteq> None")
    case False
    with k have "s' = s1" by (cases "nx_first_mint s sme"; cases ref) auto
    with inv1 show ?thesis by simp
  next
    case True
    then obtain a where a: "ref = Some a" by auto
    with True g have "a \<noteq> sme" and w: "referrer_walk s sme 32 a = Inr ()" by (auto split: if_splits)
    from True a k have s': "s' = s1\<lparr>nx_referrer := (nx_referrer s1)(sme \<mapsto> a)\<rparr>" by simp
    have none: "nx_referrer s sme = None" using True assms(2) by (auto simp: referral_inv_def)
    have "(a, sme) \<notin> (referral_graph s)\<^sup>*" using referrer_walk_avoids[OF w] by blast
    moreover have "referral_graph s' = insert (sme, a) (referral_graph s)"
      using none inv1 by (auto simp: referral_graph_def s' split: if_splits)
    ultimately show ?thesis
      using inv1 assms(2) by (auto simp: referral_inv_def s' acyclic_insert)
  qed
qed

lemma nft_exec_referral: "nft_exec e c s = Inr s' \<Longrightarrow> referral_inv s \<Longrightarrow> referral_inv s'"
  by (cases c)
    (auto intro: with_referrer_inv batch_referral referral_frames[THEN referral_inv_frame]
      dest: mint_referral_inv)

lemma runs_referral: "nft_runs P s s' \<Longrightarrow> referral_inv s \<Longrightarrow> referral_inv s'"
  by (induction rule: nft_runs.induct) (auto intro: nft_exec_referral)

lemma referrer_walk_numeral [simp]:
  "referrer_walk s sme (numeral k) cur =
     (if cur = sme then Inl (Err InvalidReferrer)
      else case nx_referrer s cur of
             Some nxt \<Rightarrow> referrer_walk s sme (pred_numeral k) nxt
           | None \<Rightarrow> Inr ())"
  by (simp only: numeral_eq_Suc referrer_walk.simps)

text \<open>No reachable state has a referral cycle: following referrers never leads back to the
  SME one started from.  (A referrer is only recorded at an SME's first mint, after the walk of
  up to 32 hops has reached the end of the chain.)\<close>

theorem referrals_are_acyclic:
  assumes "nft_reachable s"
  shows "acyclic {(a, b). nx_referrer s a = Some b}"
proof -
  have "referral_inv nft_empty" by (simp add: referral_inv_def referral_graph_def nft_empty_def acyclic_def)
  with runs_referral[OF assms] show ?thesis by (simp add: referral_inv_def referral_graph_def)
qed

theorem referrals_are_acyclic_witness:
  "\<exists>s. nx_referrer s 20 = Some 21 \<and> nx_referrer s 21 = Some 22 \<and>
     acyclic {(a, b). nx_referrer (s :: nft_state) a = Some b}"
proof -
  let ?s = "after_calls sample_env [Call_initialize 10 11,
     Call_mint_invoice_with_referrer 21 [7] 500 ''USD'' 2000 ''cid'' 15 None (Some 22),
     Call_mint_invoice_with_referrer 20 [7] 500 ''USD'' 2000 ''cid'' 15 None (Some 21)]"
  have "nft_reachable ?s"
    by (rule after_calls_runs) (simp_all add: nft_eval)
  from referrals_are_acyclic[OF this] show ?thesis
    by (intro exI[of _ ?s]) (simp add: nft_eval)
qed

section \<open>Reading back what was minted\<close>

lemma helper_records [simp]:
  "nx_hot (first_mint s a i) = nx_hot s" "nx_cold (first_mint s a i) = nx_cold s"
  "nx_hot (append_sme_invoice_id s a i) = nx_hot s" "nx_cold (append_sme_invoice_id s a i) = nx_cold s"
  by (simp_all add: first_mint_def append_sme_invoice_id_def)

text \<open>C40: A minted invoice reads back through \<open>get_invoice\<close> with exactly the submitted terms,
  the tier derived from its score, status \<open>Created\<close> and no funding or repayment time; its id is
  listed last among the SME's invoices.\<close>

theorem mint_then_get_invoice:
  assumes "mint_invoice e s sme dh n cur due cid r notes = Inr (s', i)"
  shows "get_invoice s' i = Inr \<lparr>inv_id = i, inv_sme = sme, inv_debtor_hash = dh, inv_amount = n,
      inv_currency = cur, inv_due_date = due, inv_ipfs_cid = cid, inv_metadata_hash = [],
      inv_risk_score = r, inv_risk_tier = from_score r, inv_status = Created,
      inv_created_at = timestamp e, inv_funded_at = None, inv_repaid_at = None, inv_notes = notes\<rparr> \<and>
    sme_ids s' sme = sme_ids s sme @ [i]"
proof (rule mint_invoice_stages[OF assms])
  fix s1 s2 :: nft_state
  assume q: "consume_mint_quota e (s\<lparr>nx_lock := True\<rparr>) sme 1 = Inr s1"
    "consume_mint_quota e s1 sme 1 = Inr s2"
    and s': "s' = first_mint (append_sme_invoice_id (s2\<lparr>nx_hot := (nx_hot s2)(i \<mapsto> make_hot e i sme n cur due r),
             nx_cold := (nx_cold s2)(i \<mapsto> make_cold dh cid notes), nx_next_id := Some (i + 1),
             nx_exposure := (nx_exposure s2)(sme \<mapsto> outstanding s1 sme + n)\<rparr>) sme i) sme i\<lparr>nx_lock := False\<rparr>"
  have "sme_ids s2 sme = sme_ids s sme"
    using consume_mint_quota_frame[OF q(1)] consume_mint_quota_frame[OF q(2)] by (auto simp: sme_ids_def)
  then show ?thesis
    by (simp add: s' get_invoice_def load_hot_def load_cold_def make_hot_def make_cold_def)
      (simp add: sme_ids_def first_mint_def append_sme_invoice_id_def)
qed

theorem mint_then_get_invoice_witness:
  "\<exists>s s' i. mint_invoice sample_env s 20 [7] 500 ''USD'' 2000 ''cid'' 15 None = Inr (s', i) \<and>
     sme_ids s' 20 = [i]"
proof -
  let ?s = "after_calls sample_env [Call_initialize 10 11]"
  have "is_ok (mint_invoice sample_env ?s 20 [7] 500 ''USD'' 2000 ''cid'' 15 None)" by (simp add: nft_eval)
  then obtain s' i where m: "mint_invoice sample_env ?s 20 [7] 500 ''USD'' 2000 ''cid'' 15 None = Inr (s', i)"
    by (auto simp: is_ok_iff)
  have "sme_ids ?s 20 = []" by (simp add: nft_eval)
  with mint_then_get_invoice[OF m] m show ?thesis by auto
qed

section \<open>Default\<close>

text \<open>\<open>set_defaulted\<close> goes through only for the admin, on a funded invoice whose due date has
  passed; it releases exactly the invoice's amount from the SME's exposure and leaves every other
  invoice alone.\<close>

theorem default_only_when_overdue:
  assumes "nft_runs (\<lambda>c. \<not> is_amend c) nft_empty s" "set_defaulted e s caller i = Inr (s', u)"
  shows "\<exists>h. nx_hot s i = Some h \<and> hot_status h = Funded \<and> hot_due_date h < timestamp e \<and>
    nx_admin s = Some caller \<and> authorised e caller \<and>
    outstanding s' (hot_sme h) = outstanding s (hot_sme h) - hot_amount h \<and>
    nx_hot s' = (nx_hot s)(i \<mapsto> h\<lparr>hot_status := Defaulted\<rparr>)"
proof -
  from set_defaulted_core[OF assms(2)] obtain h where h: "nx_hot s i = Some h" "hot_status h = Funded"
    "hot_due_date h < timestamp e" "nx_admin s = Some caller"
    "nft_core s' = core_with s ((nx_hot s)(i \<mapsto> h\<lparr>hot_status := Defaulted\<rparr>))
       ((nx_exposure s)(hot_sme h \<mapsto> i128_sat_sub (outstanding s (hot_sme h)) (hot_amount h)))"
    by blast
  have "authorised e caller" using assms(2) by (simp add: set_defaulted_def)
  have "release (outstanding s) h = (outstanding s)(hot_sme h := outstanding s (hot_sme h) - hot_amount h)"
    using release_exact(1)[of "ledger_of s" i h] h(1,2) nft_reachable_ok[OF assms(1)]
      nft_reachable_exact[OF assms(1)] by simp
  then have "i128_sat_sub (outstanding s (hot_sme h)) (hot_amount h) = outstanding s (hot_sme h) - hot_amount h"
    by (metis fun_upd_same)
  with h(5) have "outstanding s' (hot_sme h) = outstanding s (hot_sme h) - hot_amount h"
    "nx_hot s' = (nx_hot s)(i \<mapsto> h\<lparr>hot_status := Defaulted\<rparr>)"
    by (simp_all add: nft_core_def outstanding_def)
  with h \<open>authorised e caller\<close> show ?thesis by blast
qed

theorem default_only_when_overdue_witness:
  "\<exists>s s'. set_defaulted late_env s 10 1 = Inr (s', ()) \<and> outstanding s' 20 = 0"
proof -
  let ?s = "after_calls sample_env (example_calls @ fund_calls)"
  have run: "nft_runs (\<lambda>c. \<not> is_amend c) nft_empty ?s"
    by (rule after_calls_runs) (simp_all add: nft_eval)
  have "is_ok (set_defaulted late_env ?s 10 1)" by (simp add: nft_eval)
  then obtain s' where d: "set_defaulted late_env ?s 10 1 = Inr (s', ())" by (auto simp: is_ok_iff)
  obtain h where h: "nx_hot ?s 1 = Some h" "hot_sme h = 20" "hot_amount h = 500" "outstanding ?s 20 = 500"
    by (simp add: nft_eval)
  from default_only_when_overdue[OF run d] h have "outstanding s' 20 = 0" by auto
  with d show ?thesis by blast
qed

section \<open>Freezing in batches\<close>

definition newly_frozen :: "nft_state \<Rightarrow> nft_state \<Rightarrow> u64 set" where
  "newly_frozen s s' = {i. nx_frozen s i = None \<and> nx_frozen s' i \<noteq> None}"

lemma newly_frozen_refl [simp]: "newly_frozen s s = {}"
  by (auto simp: newly_frozen_def)

lemma freeze_loop_spec:
  assumes "freeze_loop mx is s n = (s', m)" "n \<le> mx"
  shows "m \<le> mx \<and> nx_hot s' = nx_hot s \<and> finite (newly_frozen s s') \<and> m = n + card (newly_frozen s s') \<and>
    newly_frozen s s' \<subseteq> set is \<and>
    (\<forall>i\<in>newly_frozen s s'. \<exists>h. nx_hot s i = Some h \<and> hot_status h \<noteq> Repaid \<and> hot_status h \<noteq> Defaulted) \<and>
    (\<forall>i. nx_frozen s i \<noteq> None \<longrightarrow> nx_frozen s' i = nx_frozen s i) \<and>
    (m < mx \<longrightarrow> (\<forall>i\<in>set is. \<forall>h. nx_hot s i = Some h \<and> hot_status h \<noteq> Repaid \<and> hot_status h \<noteq> Defaulted \<longrightarrow>
       nx_frozen s' i \<noteq> None))"
  using assms
proof (induction "is" arbitrary: s n)
  case Nil
  then show ?case by auto
next
  case (Cons i "is")
  show ?case
  proof (cases "n < mx \<and> (\<exists>h. nx_hot s i = Some h \<and> hot_status h \<noteq> Repaid \<and> hot_status h \<noteq> Defaulted) \<and> nx_frozen s i = None")
    case True
    let ?s = "s\<lparr>nx_frozen := (nx_frozen s)(i \<mapsto> True)\<rparr>"
    from True Cons.prems have run: "freeze_loop mx is ?s (Suc n) = (s', m)" "Suc n \<le> mx"
      by (auto split: option.splits)
    note IH = Cons.IH[OF run]
    have keep: "\<forall>j. nx_frozen ?s j \<noteq> None \<longrightarrow> nx_frozen s' j = nx_frozen ?s j" using IH by blast
    from keep[rule_format, of i] have fz: "nx_frozen s' i = Some True" by simp
    have old: "\<forall>j. nx_frozen s j \<noteq> None \<longrightarrow> nx_frozen s' j = nx_frozen s j"
    proof (intro allI impI)
      fix j assume "nx_frozen s j \<noteq> None"
      with keep[rule_format, of j] True show "nx_frozen s' j = nx_frozen s j" by (cases "j = i") auto
    qed
    have "newly_frozen s s' = insert i (newly_frozen ?s s')" "i \<notin> newly_frozen ?s s'"
      using True fz by (auto simp: newly_frozen_def)
    moreover have "card (newly_frozen s s') = Suc (card (newly_frozen ?s s'))"
      using IH calculation by simp
    ultimately show ?thesis using IH True fz old by (simp add: subset_insertI2) (metis insert_iff)
  next
    case False
    with Cons.prems have "freeze_loop mx is s n = (s', m) \<or> n = mx \<and> s' = s \<and> m = n"
      by (auto split: option.splits if_splits)
    then show ?thesis
    proof
      assume "freeze_loop mx is s n = (s', m)"
      from Cons.IH[OF this Cons.prems(2)] False show ?thesis by fastforce
    qed auto
  qed
qed

text \<open>\<open>freeze_sme_invoices\<close> freezes at most \<open>max\<close> invoices and reports exactly how many
  it newly froze; they are active invoices of the SME, earlier freezes stay as they are, and a
  count below the maximum means that every active invoice of the SME is now frozen.\<close>

theorem freeze_sme_invoices_spec:
  assumes "freeze_sme_invoices e s admin sme mx = Inr (s', n)"
  shows "n \<le> mx \<and> n = card (newly_frozen s s') \<and> newly_frozen s s' \<subseteq> set (sme_ids s sme) \<and>
    (\<forall>i. nx_frozen s i \<noteq> None \<longrightarrow> nx_frozen s' i = nx_frozen s i) \<and>
    (n < mx \<longrightarrow> (\<forall>i\<in>set (sme_ids s sme). \<forall>h. nx_hot s i = Some h \<and>
       hot_status h \<noteq> Repaid \<and> hot_status h \<noteq> Defaulted \<longrightarrow> nx_frozen s' i \<noteq> None))"
  using assms freeze_loop_spec[of mx "sme_ids s sme" s 0 s' n] by (simp add: freeze_sme_invoices_def)

theorem freeze_sme_invoices_spec_witness:
  "\<exists>s s'. freeze_sme_invoices sample_env s 10 20 5 = Inr (s', 1) \<and> card (newly_frozen s s') = 1"
proof -
  let ?s = "after_calls sample_env example_calls"
  obtain s' n where f: "freeze_sme_invoices sample_env ?s 10 20 5 = Inr (s', n)" "n = 1"
    by (simp add: nft_eval)
  from freeze_sme_invoices_spec[OF f(1)] f show ?thesis by auto
qed

section \<open>Upgrades\<close>

text \<open>An upgrade of the invoice contract runs only code that the admin proposed at least a
  day before, and the proposal is consumed: a second execution fails.\<close>

theorem nft_upgrade_waits_a_day:
  assumes "nft_execute_upgrade e s admin = Inr (s', hash)"
  shows "nx_admin s = Some admin \<and>
    (\<exists>t. nx_upgrade s = Some (hash, t) \<and> t + 24 * 60 * 60 \<le> timestamp e) \<and>
    nft_execute_upgrade e' s' admin \<in> {Inl (Err NoUpgradeProposed), Inl Trap}"
proof -
  have "nx_upgrade s' = None" "nx_admin s' = Some admin"
    using assms by (auto simp: nft_execute_upgrade_def)
  then have "nft_execute_upgrade e' s' admin \<in> {Inl (Err NoUpgradeProposed), Inl Trap}"
    by (simp add: nft_execute_upgrade_def nft_require_admin_def require_auth_def)
  with assms show ?thesis
    by (auto simp: nft_execute_upgrade_def UPGRADE_TIMELOCK_DELAY_def)
qed

theorem nft_upgrade_waits_a_day_witness:
  "\<exists>s s'. nft_execute_upgrade (sample_env\<lparr>timestamp := 90000\<rparr>) s 10 = Inr (s', [1, 2]) \<and>
     nft_execute_upgrade (sample_env\<lparr>timestamp := 90000\<rparr>) s' 10 \<in> {Inl (Err NoUpgradeProposed), Inl Trap}"
proof -
  let ?s = "after_calls sample_env [Call_initialize 10 11, Call_propose_upgrade 10 [1, 2]]"
  let ?e = "sample_env\<lparr>timestamp := 90000\<rparr>"
  obtain s' where x: "nft_execute_upgrade ?e ?s 10 = Inr (s', [1, 2])" by (simp add: nft_eval)
  from nft_upgrade_waits_a_day[OF x, of ?e] x show ?thesis by blast
qed

section \<open>Checks a batch leaves out\<close>

text \<open>A batch mint skips the SME's credit limit and the amount bounds of the tier: there is
  a state in which a single mint of an invoice is rejected for either reason and the same invoice
  goes through as a batch of one.\<close>

theorem batch_skips_limits:
  "(\<exists>e s x. mint_invoice e s 20 (bi_debtor_hash x) (bi_amount x) (bi_currency x) (bi_due_date x)
       (bi_ipfs_cid x) (bi_risk_score x) (bi_notes x) = Inl (Err CreditLimitExceeded) \<and>
     is_ok (mint_invoices_batch e s 20 [x])) \<and>
   (\<exists>e s x. mint_invoice e s 20 (bi_debtor_hash x) (bi_amount x) (bi_currency x) (bi_due_date x)
       (bi_ipfs_cid x) (bi_risk_score x) (bi_notes x) = Inl (Err InvalidAmount) \<and>
     is_ok (mint_invoices_batch e s 20 [x]))"
proof -
  let ?x = "\<lparr>bi_debtor_hash = [7], bi_amount = 500, bi_currency = ''USD'', bi_due_date = 2000,
    bi_ipfs_cid = ''cid'', bi_risk_score = 15, bi_notes = None\<rparr>"
  let ?e = "sample_env\<lparr>view_sme_profile := (\<lambda>_ _. Some \<lparr>sp_address = 20, sp_verified = True,
    sp_verifier = 1, sp_risk_score = 15, sp_total_invoices = 0, sp_defaults = 0, sp_registered_at = 0,
    sp_compliance_attested = True, sp_credit_limit = 100\<rparr>)\<rparr>"
  let ?s = "after_calls sample_env [Call_initialize 10 11, Call_set_risk_registry 10 40]"
  have "mint_invoice ?e ?s 20 (bi_debtor_hash ?x) (bi_amount ?x) (bi_currency ?x) (bi_due_date ?x)
       (bi_ipfs_cid ?x) (bi_risk_score ?x) (bi_notes ?x) = Inl (Err CreditLimitExceeded)"
    "is_ok (mint_invoices_batch ?e ?s 20 [?x])" by (simp_all add: nft_eval)
  note limit = this
  let ?b = "after_calls sample_env [Call_initialize 10 11, Call_set_amount_bounds 10 AAA 600 900]"
  have "mint_invoice sample_env ?b 20 (bi_debtor_hash ?x) (bi_amount ?x) (bi_currency ?x) (bi_due_date ?x)
       (bi_ipfs_cid ?x) (bi_risk_score ?x) (bi_notes ?x) = Inl (Err InvalidAmount)"
    "is_ok (mint_invoices_batch sample_env ?b 20 [?x])" by (simp_all add: nft_eval)
  with limit show ?thesis by blast
qed

section \<open>Reentrancy\<close>

fun is_guarded :: "nft_call \<Rightarrow> bool" where
  "is_guarded (Call_mint_invoice a h n c d f r t) = True"
| "is_guarded (Call_mint_invoice_with_referrer a h n c d f r t x) = True"
| "is_guarded (Call_mint_invoices_batch a xs) = True"
| "is_guarded (Call_set_created a i) = True"
| "is_guarded (Call_set_listed a i) = True"
| "is_guarded (Call_set_funded a i) = True"
| "is_guarded (Call_set_defaulted a i) = True"
| "is_guarded (Call_commit_metadata_hash a i h) = True"
| "is_guarded (Call_flag_metadata_mismatch a i h) = True"
| "is_guarded (Call_refresh_risk_score a i) = True"
| "is_guarded _ = False"

text \<open>Between calls the reentrancy lock is always free, and while a guarded call holds it
  every other guarded entry point fails.\<close>

theorem no_reentry:
  assumes "nft_reachable s"
  shows "\<not> nx_lock s \<and> (\<forall>e c. \<not> (is_guarded c \<and> is_ok (nft_exec e c (s\<lparr>nx_lock := True\<rparr>))))"
proof -
  let ?l = "s\<lparr>nx_lock := True\<rparr>"
  have "\<not> (is_guarded c \<and> is_ok (nft_exec e c ?l))" for e c
  proof (intro notI, elim conjE)
    assume g: "is_guarded c" and "is_ok (nft_exec e c ?l)"
    then obtain s' where x: "nft_exec e c ?l = Inr s'" by (auto simp: is_ok_iff)
    have l: "nx_lock ?l" by simp
    show False using g x l
      by (cases c)
        (auto simp: commit_metadata_hash_def flag_metadata_mismatch_def simp del: nft_state.select_convs
          dest!: mint_with_referrer_core mint_invoice_core mint_batch_core marketplace_transitions
            funding_transitions set_defaulted_core)
  qed
  with nft_reachable_ok[OF assms] show ?thesis by (auto simp: nft_wf_def)
qed

theorem no_reentry_witness:
  "\<exists>s. \<not> nx_lock s \<and> is_ok (nft_exec sample_env (Call_set_listed 30 1) s) \<and>
     \<not> is_ok (nft_exec sample_env (Call_set_listed 30 1) (s\<lparr>nx_lock := True\<rparr>))"
proof -
  let ?s = "after_calls sample_env example_calls"
  have run: "nft_reachable ?s" by (rule after_calls_runs) (simp_all add: nft_eval)
  have ok: "is_ok (nft_exec sample_env (Call_set_listed 30 1) ?s)" by (simp add: nft_eval)
  have "is_guarded (Call_set_listed 30 1)" by simp
  with no_reentry[OF run]
  have "\<not> nx_lock ?s \<and> \<not> is_ok (nft_exec sample_env (Call_set_listed 30 1) (?s\<lparr>nx_lock := True\<rparr>))" by blast
  with ok show ?thesis by blast
qed

section \<open>Migration\<close>

lemma migrate_ids_legacy:
  "migrate_ids is s = Inr s' \<Longrightarrow> distinct is \<Longrightarrow>
     nx_legacy s' i = (case nx_legacy s i of
        Some (EncodedV1 v) \<Rightarrow> if i \<in> set is then Some (EncodedV2 (upgrade_v1 v)) else nx_legacy s i
      | x \<Rightarrow> x)"
proof (induction "is" s rule: migrate_ids.induct)
  case (2 j "is" s)
  then show ?case by (auto split: option.splits legacy_slot.splits if_splits)
qed (auto split: option.splits legacy_slot.splits)

text \<open>A migration from version 1 to 2 re-encodes every legacy record with an empty metadata
  hash and no notes, keeps all its other fields, records the version, and touches none of the
  invoices stored in the split layout -- through which alone \<open>get_invoice\<close> reads.\<close>

theorem migration_reencodes_legacy:
  assumes "migrate_versions e s admin 1 2 = Inr s'" "read_version nx_migration_version s = 1"
  shows "read_version nx_migration_version s' = 2 \<and>
    (\<forall>i v. nx_legacy s i = Some (EncodedV1 v) \<and> 1 \<le> i \<and> i < next_id s \<longrightarrow>
       nx_legacy s' i = Some (EncodedV2 (upgrade_v1 v))) \<and>
    (\<forall>i. nx_hot s' i = nx_hot s i)"
proof -
  from assms obtain s1 where m: "migrate nft_from_migration nx_migration_version
      (\<lambda>v s. s\<lparr>nx_migration_version := Some v\<rparr>) nft_migration_step 1 2 SCHEMA_VERSION s = Inr (s1, True)"
    and s': "nx_legacy s' = nx_legacy s1" "nx_migration_version s' = nx_migration_version s1"
    by (auto simp: migrate_versions_def migrate_def Let_def)
  from nft_version.migrate_commits[OF m] have v: "read_version nx_migration_version s1 = 2" by simp
  from m assms(2) obtain s2 where "migrate_ids [1..<next_id s] s = Inr s2" "nx_legacy s1 = nx_legacy s2"
    by (auto simp: migrate_def Let_def migrate_loop_step_Inr nft_migration_step_def migrate_v1_to_v2_def
        numeral_2_eq_2)
  with migrate_ids_legacy[OF this(1)] s' have "\<forall>i v. nx_legacy s i = Some (EncodedV1 v) \<and> 1 \<le> i \<and> i < next_id s \<longrightarrow>
       nx_legacy s' i = Some (EncodedV2 (upgrade_v1 v))" by auto
  moreover have "nx_hot s' = nx_hot s"
    using migrate_versions_frame[OF assms(1)] by (simp add: nft_core_def)
  ultimately show ?thesis using v s'(2) by (simp add: read_version_def)
qed

theorem migration_reencodes_legacy_witness:
  "\<exists>s s' v. migrate_versions sample_env s 10 1 2 = Inr s' \<and> nx_legacy s' 1 = Some (EncodedV2 (upgrade_v1 v))"
proof -
  let ?v = "\<lparr>v1_id = 1, v1_sme = 20, v1_debtor_hash = [7], v1_amount = 500, v1_currency = ''USD'',
     v1_due_date = 2000, v1_ipfs_cid = ''cid'', v1_risk_score = 15, v1_risk_tier = AAA,
     v1_status = Created, v1_created_at = 900, v1_funded_at = None, v1_repaid_at = None\<rparr>"
  let ?s = "(after_calls sample_env [Call_initialize 10 11])\<lparr>nx_migration_version := Some 1,
     nx_next_id := Some 2, nx_legacy := (\<lambda>i. if i = 1 then Some (EncodedV1 ?v) else None)\<rparr>"
  have rd: "read_version nx_migration_version ?s = 1" by (simp add: read_version_def)
  have "is_ok (migrate_versions sample_env ?s 10 1 2)"
    by (simp add: migrate_versions_def migrate_def migrate_loop.simps nft_migration_step_def
        migrate_v1_to_v2_def nft_eval read_version_def SCHEMA_VERSION_def upt_rec)
  then obtain s' where m: "migrate_versions sample_env ?s 10 1 2 = Inr s'" by (auto simp: is_ok_iff)
  have "nx_legacy ?s 1 = Some (EncodedV1 ?v)" "next_id ?s = 2" by (simp_all add: next_id_def)
  with migration_reencodes_legacy[OF m rd] have "nx_legacy s' 1 = Some (EncodedV2 (upgrade_v1 ?v))" by simp
  with m show ?thesis by blast
qed

end
