(* ===== verification/Kora_Map.thy ===== *)
theory Kora_Map
  imports Kora_Prelude "HOL-Library.Product_Lexorder"
begin

text \<open>
  The host's \<open>Map<K, V>\<close> object: a map iterated in ascending key order.  It is a list of pairs
  sorted by key; \<open>map_get\<close>, \<open>map_set\<close>, \<open>map_remove\<close> and \<open>map_values\<close> are the
  operations the contracts call.  The locale \<open>host_map\<close> states the laws that clients rely on
  and proves once how a sum over all values changes under the updates.
\<close>

type_synonym ('k, 'v) hmap = "('k \<times> 'v) list"

definition map_new :: "('k, 'v) hmap" where "map_new = []"

definition map_get :: "('k, 'v) hmap \<Rightarrow> 'k \<Rightarrow> 'v option" where "map_get m k = map_of m k"

fun map_set :: "'k::linorder \<Rightarrow> 'v \<Rightarrow> ('k, 'v) hmap \<Rightarrow> ('k, 'v) hmap" where
  "map_set k v [] = [(k, v)]"
| "map_set k v ((k', v') # m) =
     (if k < k' then (k, v) # (k', v') # m
      else if k = k' then (k, v) # m
      else (k', v') # map_set k v m)"

definition map_remove :: "'k \<Rightarrow> ('k, 'v) hmap \<Rightarrow> ('k, 'v) hmap" where
  "map_remove k m = filter (\<lambda>(k', _). k' \<noteq> k) m"

definition map_values :: "('k, 'v) hmap \<Rightarrow> 'v list" where "map_values m = map snd m"

definition map_has :: "('k, 'v) hmap \<Rightarrow> 'k \<Rightarrow> bool" where "map_has m k \<longleftrightarrow> map_get m k \<noteq> None"

definition map_ok :: "('k::linorder, 'v) hmap \<Rightarrow> bool" where
  "map_ok m \<longleftrightarrow> sorted (map fst m) \<and> distinct (map fst m)"

text \<open>The interface: lookups after updates, the invariant, and the values as a sum.\<close>

locale host_map =
  fixes get :: "'m \<Rightarrow> 'k \<Rightarrow> 'v option"
    and set_at :: "'k \<Rightarrow> 'v \<Rightarrow> 'm \<Rightarrow> 'm"
    and del :: "'k \<Rightarrow> 'm \<Rightarrow> 'm"
    and vals :: "'m \<Rightarrow> 'v list"
    and ok :: "'m \<Rightarrow> bool"
  assumes get_set: "ok m \<Longrightarrow> get (set_at k v m) k' = (if k' = k then Some v else get m k')"
    and get_del: "ok m \<Longrightarrow> get (del k m) k' = (if k' = k then None else get m k')"
    and ok_set: "ok m \<Longrightarrow> ok (set_at k v m)"
    and ok_del: "ok m \<Longrightarrow> ok (del k m)"
    and sum_set_new: "ok m \<Longrightarrow> get m k = None \<Longrightarrow>
      (\<Sum>x\<leftarrow>vals (set_at k v m). (f x :: int)) = f v + (\<Sum>x\<leftarrow>vals m. f x)"
    and sum_del: "ok m \<Longrightarrow> get m k = Some v \<Longrightarrow>
      (\<Sum>x\<leftarrow>vals m. (f x :: int)) = f v + (\<Sum>x\<leftarrow>vals (del k m). f x)"
    and set_del: "ok m \<Longrightarrow> set_at k v (del k m) = set_at k v m"
begin

text \<open>An overwriting update exchanges the old value for the new one.\<close>

lemma sum_set:
  assumes "ok m"
  shows "(\<Sum>x\<leftarrow>vals (set_at k v m). (f x :: int)) =
    (\<Sum>x\<leftarrow>vals m. f x) - (case get m k of None \<Rightarrow> 0 | Some u \<Rightarrow> f u) + f v"
proof (cases "get m k")
  case None
  with assms show ?thesis by (simp add: sum_set_new)
next
  case (Some u)
  have "get (del k m) k = None" "ok (del k m)" using assms by (simp_all add: get_del ok_del)
  then have "(\<Sum>x\<leftarrow>vals (set_at k v (del k m)). f x) = f v + (\<Sum>x\<leftarrow>vals (del k m). f x)"
    by (intro sum_set_new)
  with assms Some show ?thesis by (simp add: set_del sum_del[OF assms Some, of f])
qed

text \<open>Moving an entry to a key without one keeps the sum if the weight is kept; moving it onto an
  occupied key loses the entry that was there.\<close>

lemma sum_move:
  assumes "ok m" "get m a = Some u" "a \<noteq> b" "f v = f u"
  shows "(\<Sum>x\<leftarrow>vals (set_at b v (del a m)). (f x :: int)) =
    (\<Sum>x\<leftarrow>vals m. f x) - (case get m b of None \<Rightarrow> 0 | Some w \<Rightarrow> f w)"
proof -
  have "ok (del a m)" "get (del a m) b = get m b"
    using assms(1,3) by (auto simp: ok_del get_del)
  with sum_set[of "del a m" f b v] sum_del[OF assms(1,2), of f] assms(4) show ?thesis
    by (simp split: option.split)
qed

end

lemma map_set_keys: "fst ` set (map_set k v m) = insert k (fst ` set m)"
  by (induction k v m rule: map_set.induct) auto

lemma map_ok_Cons: "map_ok ((k, v) # m) \<longleftrightarrow> (\<forall>k'\<in>fst ` set m. k < k') \<and> map_ok m"
  by (auto simp: map_ok_def image_iff intro: le_neq_trans)

lemma map_set_ok: "map_ok m \<Longrightarrow> map_ok (map_set k v m)"
  by (induction k v m rule: map_set.induct) (auto simp: map_ok_Cons map_set_keys intro: less_trans)

lemma map_remove_Cons [simp]:
  "map_remove k ((k', v') # m) = (if k' = k then map_remove k m else (k', v') # map_remove k m)"
  by (simp add: map_remove_def)

lemma map_remove_Nil [simp]: "map_remove k [] = []"
  by (simp add: map_remove_def)

lemma map_remove_ok: "map_ok m \<Longrightarrow> map_ok (map_remove k m)"
  by (induction m) (auto simp: map_ok_Cons map_remove_def)

lemma map_get_set: "map_get (map_set k v m) k' = (if k' = k then Some v else map_get m k')" if "map_ok m"
  using that by (induction k v m rule: map_set.induct) (auto simp: map_get_def map_ok_Cons)

lemma map_get_remove: "map_get (map_remove k m) k' = (if k' = k then None else map_get m k')"
  by (induction m) (auto simp: map_get_def)

lemma map_remove_id: "k \<notin> fst ` set m \<Longrightarrow> map_remove k m = m"
  by (induction m) auto

lemma map_get_None: "map_get m k = None \<longleftrightarrow> k \<notin> fst ` set m"
  by (simp add: map_get_def map_of_eq_None_iff)

lemma map_sum_set_new:
  "map_ok m \<Longrightarrow> map_get m k = None \<Longrightarrow>
     (\<Sum>x\<leftarrow>map_values (map_set k v m). (f x :: int)) = f v + (\<Sum>x\<leftarrow>map_values m. f x)"
  by (induction k v m rule: map_set.induct) (auto simp: map_values_def map_get_None map_ok_Cons)

lemma map_sum_remove:
  "map_ok m \<Longrightarrow> map_get m k = Some v \<Longrightarrow>
     (\<Sum>x\<leftarrow>map_values m. (f x :: int)) = f v + (\<Sum>x\<leftarrow>map_values (map_remove k m). f x)"
proof (induction m)
  case (Cons x m)
  obtain k' v' where x: "x = (k', v')" by (cases x)
  with Cons have "k' = k \<Longrightarrow> map_remove k m = m"
    by (intro map_remove_id) (auto simp: map_ok_Cons)
  with Cons x show ?case by (auto simp: map_values_def map_get_def map_ok_Cons)
qed (simp add: map_get_def)

lemma map_set_remove: "map_ok m \<Longrightarrow> map_set k v (map_remove k m) = map_set k v m"
proof (induction k v m rule: map_set.induct)
  case (2 k v k' v' m)
  have gt: "k' < a" if "a \<in> fst ` set m" for a using that 2(2) by (auto simp: map_ok_Cons)
  show ?case
  proof (cases "k' = k")
    case True
    then have "map_remove k m = m" using gt by (intro map_remove_id) auto
    moreover have "map_set k v m = (k, v) # m"
      using gt True by (cases m) auto
    ultimately show ?thesis using True by simp
  next
    case False
    show ?thesis
    proof (cases "k < k'")
      case True
      then have "map_remove k m = m" using gt by (intro map_remove_id) (auto dest: less_trans)
      with False show ?thesis by simp
    next
      case False2: False
      with False 2 show ?thesis by (simp add: map_ok_Cons)
    qed
  qed
qed simp

interpretation hm: host_map map_get map_set map_remove map_values map_ok
  by unfold_locales
    (simp_all add: map_get_set map_get_remove map_set_ok map_remove_ok map_sum_set_new map_set_remove
      map_sum_remove)

lemma map_new_ok [simp]: "map_ok map_new"
  by (simp add: map_ok_def map_new_def)

lemma map_get_new [simp]: "map_get map_new k = None"
  by (simp add: map_get_def map_new_def)

lemma map_values_get: "map_get m k = Some v \<Longrightarrow> v \<in> set (map_values m)"
  by (auto simp: map_get_def map_values_def image_iff dest!: map_of_SomeD intro!: bexI[of _ "(k, v)"])

end
