(* ===== verification/Pool_State.thy ===== *)
theory Pool_State
  imports Invoice_Nft Kora_Map
begin

text \<open>
  The state of the financing pool (\<open>contracts/financing_pool/src/lib.rs\<close>), the world it runs in
  and its helpers.  \<open>pool_state\<close> has one field per storage key; \<open>world\<close> adds the state of the
  invoice contract the pool is wired to and the ordered record of the calls on contracts outside
  the model.  The keys of the escrow entry points, which the source defines three times over, are
  kept as presence flags, since every other operation only asks whether they are set.
\<close>

section \<open>Errors\<close>

datatype (plugins only: code) FinancingPoolError =
    FP_AlreadyInitialized | FP_ArithmeticOverflow | FP_ExceedsFundingTarget | FP_InvalidAddress
  | FP_InvalidAmount | FP_InvalidDueDate | FP_InvalidFeeRate | FP_InvoiceFrozen
  | FP_NoUpgradeProposed | FP_NotAdmin | FP_NotInitialized | FP_PoolAlreadyClosed
  | FP_PoolNotFound | FP_PositionNotFound | FP_ProtocolPaused | FP_RepaymentAlreadyMade
  | FP_SaleAlreadyListed | FP_SaleNotFound | FP_Unauthorized | FP_UpgradeTimelockNotElapsed
  | FP_ShareNotFound | FP_InvalidShareAmount | FP_AlreadySplit | FP_NotPositionOwner
  | FP_DisputeNotFound | FP_DisputeAlreadyOpen | FP_DisputeAlreadyResolved
  | FP_DisputeWindowExpired | FP_NotDisputeChallenger | FP_NotGovernance | FP_DisputeNotOpen
  | FP_PartialRepayInvalid | FP_ApprovalPending | FP_ApprovalThresholdNotMet
  | FP_GracePeriodActive | FP_EscrowPending | FP_EscrowAlreadyConfigured | FP_TooManyInvestors
  | FP_BatchSizeExceeded | FP_InvalidMigrationTarget | FP_MarketplaceOnly

definition pool_from_common :: "CommonError \<Rightarrow> FinancingPoolError" where
  "pool_from_common c =
     (case c of
        CE_InvalidAmount \<Rightarrow> FP_InvalidAmount | CE_InvalidAddress \<Rightarrow> FP_InvalidAddress
      | CE_InvalidFeeRate \<Rightarrow> FP_InvalidFeeRate | CE_InvalidDueDate \<Rightarrow> FP_InvalidDueDate
      | CE_ArithmeticOverflow \<Rightarrow> FP_ArithmeticOverflow | _ \<Rightarrow> FP_InvalidAmount)"

type_synonym 'a pool_result = "(FinancingPoolError, 'a) result"

abbreviation pool_lift :: "(CommonError, 'a) result \<Rightarrow> 'a pool_result" where
  "pool_lift \<equiv> map_err pool_from_common"

definition POOL_SCHEMA_VERSION :: u32 where "POOL_SCHEMA_VERSION = 1"
definition POOL_MAX_AMOUNT :: i128 where "POOL_MAX_AMOUNT = i128_max div 2"
definition REPAYMENT_APPROVAL_THRESHOLD :: i128 where "REPAYMENT_APPROVAL_THRESHOLD = 10000000000"
definition MAX_NETTING_INVOICES :: u32 where "MAX_NETTING_INVOICES = 10"
definition MAX_POSITIONS_PER_POOL :: u32 where "MAX_POSITIONS_PER_POOL = 100"

section \<open>State\<close>

record AutoCompoundPref =
  ac_enabled :: bool
  ac_target_invoice :: "u64 option"

type_synonym share_key = "u64 \<times> address \<times> u32"

record pool_state =
  fp_schema_version :: "u32 option"
  fp_admin :: "address option"
  fp_invoice_nft :: "address option"
  fp_risk_registry :: "address option"
  fp_treasury :: "address option"
  fp_access_control :: "address option"
  fp_price_oracle :: "address option"
  fp_dispute_resolution :: "address option"
  fp_marketplace :: "address option"
  fp_parameter_registry :: "address option"
  fp_late_penalty_bps :: "u32 option"
  fp_penalty_split :: "u32 option"
  fp_max_position_bps :: "u32 option"
  fp_grace_period :: "u64 option"
  fp_upgrade :: "(bytes \<times> u64) option"
  fp_stats :: "ProtocolStats option"
  fp_aggregate :: "address \<Rightarrow> i128 option"
  fp_pools :: "u64 \<Rightarrow> Pool option"
  fp_positions :: "u64 \<Rightarrow> (address, Position) hmap option"
  fp_penalty_cut :: "u64 \<Rightarrow> i128 option"
  fp_lock :: "u64 \<Rightarrow> bool"
  fp_sale_offer :: "u64 \<Rightarrow> address \<Rightarrow> PositionSaleOffer option"
  fp_early :: "u64 \<Rightarrow> EarlySettlementOffer option"
  fp_schedule :: "u64 \<Rightarrow> InstallmentSchedule option"
  fp_approval :: "u64 \<Rightarrow> RepaymentApproval option"
  fp_shares :: "u64 \<Rightarrow> address \<Rightarrow> (share_key, PositionShare) hmap option"
  fp_share_counter :: "u64 \<Rightarrow> address \<Rightarrow> u32 option"
  fp_share_offer :: "u64 \<Rightarrow> address \<Rightarrow> u32 \<Rightarrow> ShareSaleOffer option"
  fp_auto_compound :: "address \<Rightarrow> AutoCompoundPref option"
  fp_escrow_pending :: "u64 \<Rightarrow> bool"
  fp_escrow_credited :: "u64 \<Rightarrow> bool"

definition pool_empty :: pool_state where
  "pool_empty = \<lparr>fp_schema_version = None, fp_admin = None, fp_invoice_nft = None,
     fp_risk_registry = None, fp_treasury = None, fp_access_control = None, fp_price_oracle = None,
     fp_dispute_resolution = None, fp_marketplace = None, fp_parameter_registry = None,
     fp_late_penalty_bps = None, fp_penalty_split = None, fp_max_position_bps = None,
     fp_grace_period = None, fp_upgrade = None, fp_stats = None, fp_aggregate = (\<lambda>_. None),
     fp_pools = (\<lambda>_. None), fp_positions = (\<lambda>_. None), fp_penalty_cut = (\<lambda>_. None),
     fp_lock = (\<lambda>_. False), fp_sale_offer = (\<lambda>_ _. None), fp_early = (\<lambda>_. None),
     fp_schedule = (\<lambda>_. None), fp_approval = (\<lambda>_. None), fp_shares = (\<lambda>_ _. None),
     fp_share_counter = (\<lambda>_ _. None), fp_share_offer = (\<lambda>_ _ _. None),
     fp_auto_compound = (\<lambda>_. None), fp_escrow_pending = (\<lambda>_. False), fp_escrow_credited = (\<lambda>_. False)\<rparr>"

record world =
  w_pool :: pool_state
  w_nft :: nft_state
  w_calls :: "ext_call list"

definition emit :: "ext_call \<Rightarrow> world \<Rightarrow> world" where
  "emit c w = w\<lparr>w_calls := w_calls w @ [c]\<rparr>"

definition put_pool :: "pool_state \<Rightarrow> world \<Rightarrow> world" where
  "put_pool p w = w\<lparr>w_pool := p\<rparr>"

section \<open>Helpers\<close>

definition pool_require_admin :: "pool_state \<Rightarrow> address \<Rightarrow> unit pool_result" where
  "pool_require_admin p caller =
     rbind (ok_or (fp_admin p) (Err FP_NotInitialized)) (\<lambda>admin.
     if admin \<noteq> caller then Inl (Err FP_NotAdmin) else Inr ())"

definition pool_require_not_paused :: "env \<Rightarrow> pool_state \<Rightarrow> unit pool_result" where
  "pool_require_not_paused e p =
     rbind (ok_or (fp_access_control p) (Err FP_NotInitialized)) (\<lambda>ac.
     if view_is_paused e ac then Inl (Err FP_ProtocolPaused) else Inr ())"

definition require_no_escrow :: "pool_state \<Rightarrow> u64 \<Rightarrow> unit pool_result" where
  "require_no_escrow p i = (if fp_escrow_pending p i then Inl (Err FP_EscrowPending) else Inr ())"

definition require_no_escrow_credit :: "pool_state \<Rightarrow> u64 \<Rightarrow> unit pool_result" where
  "require_no_escrow_credit p i =
     (if fp_escrow_credited p i then Inl (Err FP_PartialRepayInvalid) else Inr ())"

definition get_pool :: "pool_state \<Rightarrow> u64 \<Rightarrow> Pool pool_result" where
  "get_pool p i = ok_or (fp_pools p i) (Err FP_PoolNotFound)"

definition get_positions_map :: "pool_state \<Rightarrow> u64 \<Rightarrow> (address, Position) hmap" where
  "get_positions_map p i = (case fp_positions p i of None \<Rightarrow> map_new | Some m \<Rightarrow> m)"

definition get_stats :: "pool_state \<Rightarrow> ProtocolStats" where
  "get_stats p =
     (case fp_stats p of
        None \<Rightarrow> \<lparr>st_pools_opened = 0, st_total_repaid = 0, st_pools_defaulted = 0, st_active_pools = 0\<rparr>
      | Some s \<Rightarrow> s)"

definition aggregate_funded :: "pool_state \<Rightarrow> address \<Rightarrow> i128" where
  "aggregate_funded p tok = (case fp_aggregate p tok of None \<Rightarrow> 0 | Some n \<Rightarrow> n)"

text \<open>A parameter of the registry, if one is wired, answers, and is a valid rate.\<close>

definition get_registry_bps :: "env \<Rightarrow> pool_state \<Rightarrow> RegistryParamKey \<Rightarrow> u32 option" where
  "get_registry_bps e p key =
     Option.bind (fp_parameter_registry p) (\<lambda>registry.
     Option.bind (view_registry_param e registry key) (\<lambda>param.
     if 0 \<le> rp_value param \<and> rp_value param \<le> int u32_max
     then (if nat (rp_value param) \<le> 10000 then Some (nat (rp_value param)) else None)
     else None))"

definition get_late_penalty_bps :: "env \<Rightarrow> pool_state \<Rightarrow> u32" where
  "get_late_penalty_bps e p =
     (case get_registry_bps e p LatePenaltyBps of
        Some v \<Rightarrow> v
      | None \<Rightarrow> (case fp_late_penalty_bps p of None \<Rightarrow> 500 | Some v \<Rightarrow> v))"

definition get_max_position_bps :: "env \<Rightarrow> pool_state \<Rightarrow> u32" where
  "get_max_position_bps e p =
     (case get_registry_bps e p MaxPositionBps of
        Some v \<Rightarrow> v
      | None \<Rightarrow> (case fp_max_position_bps p of None \<Rightarrow> 5000 | Some v \<Rightarrow> v))"

definition get_late_penalty_split :: "pool_state \<Rightarrow> u32" where
  "get_late_penalty_split p = (case fp_penalty_split p of None \<Rightarrow> 5000 | Some v \<Rightarrow> v)"

definition get_grace_period :: "pool_state \<Rightarrow> u64" where
  "get_grace_period p = (case fp_grace_period p of None \<Rightarrow> 0 | Some v \<Rightarrow> v)"

definition is_symbol_char :: "char \<Rightarrow> bool" where
  "is_symbol_char c =
     (let n = of_char c :: nat in
      48 \<le> n \<and> n \<le> 57 \<or> 65 \<le> n \<and> n \<le> 90 \<or> 97 \<le> n \<and> n \<le> 122 \<or> n = 95)"

definition pool_token_currency :: "env \<Rightarrow> address \<Rightarrow> symbol pool_result" where
  "pool_token_currency e asset =
     (let sym = token_symbol e asset in
      if length sym = 0 \<or> length sym > 32 then Inl (Err FP_InvalidAmount)
      else if \<not> list_all is_symbol_char sym then Inl (Err FP_InvalidAmount)
      else Inr sym)"

definition convert_if_needed :: "env \<Rightarrow> pool_state \<Rightarrow> i128 \<Rightarrow> symbol \<Rightarrow> address \<Rightarrow> i128 pool_result" where
  "convert_if_needed e p amount invoice_currency pool_token =
     (case fp_price_oracle p of
        None \<Rightarrow> Inr amount
      | Some oracle \<Rightarrow>
          if invoice_currency = ''USDC'' then Inr amount
          else if pool_token_currency e pool_token = Inr invoice_currency then Inr amount
          else ok_or (view_convert e oracle amount invoice_currency ''USDC'') Trap)"

text \<open>Calls on the invoice contract at its wired address: a failure there aborts the pool.\<close>

definition load_invoice :: "world \<Rightarrow> u64 \<Rightarrow> Invoice pool_result" where
  "load_invoice w i =
     rbind (ok_or (fp_invoice_nft (w_pool w)) (Err FP_NotInitialized)) (\<lambda>_.
     or_trap (get_invoice (w_nft w) i))"

definition nft_call_on :: "(nft_state \<Rightarrow> nft_state nft_result) \<Rightarrow> world \<Rightarrow> world pool_result" where
  "nft_call_on f w = rbind (or_trap (f (w_nft w))) (\<lambda>n. Inr (w\<lparr>w_nft := n\<rparr>))"

definition call_set_funded :: "env \<Rightarrow> address \<Rightarrow> u64 \<Rightarrow> world \<Rightarrow> world pool_result" where
  "call_set_funded e nft i =
     nft_call_on (\<lambda>n. rbind (set_funded (callee_env e nft) n (self_addr e) i) (\<lambda>(n', _). Inr n'))"

definition call_set_repaid :: "env \<Rightarrow> address \<Rightarrow> u64 \<Rightarrow> world \<Rightarrow> world pool_result" where
  "call_set_repaid e nft i = nft_call_on (\<lambda>n. set_repaid (callee_env e nft) n (self_addr e) i)"

definition call_set_defaulted :: "env \<Rightarrow> address \<Rightarrow> address \<Rightarrow> u64 \<Rightarrow> world \<Rightarrow> world pool_result" where
  "call_set_defaulted e nft admin i =
     nft_call_on (\<lambda>n. rbind (set_defaulted (callee_env e nft) n admin i) (\<lambda>(n', _). Inr n'))"

section \<open>Inversion of the helpers\<close>

lemma pool_helpers_Inr_iff [simp]:
  "pool_require_admin p a = Inr u \<longleftrightarrow> fp_admin p = Some a"
  "pool_require_not_paused e p = Inr u \<longleftrightarrow>
     (\<exists>ac. fp_access_control p = Some ac \<and> \<not> view_is_paused e ac)"
  "require_no_escrow p i = Inr u \<longleftrightarrow> \<not> fp_escrow_pending p i"
  "require_no_escrow_credit p i = Inr u \<longleftrightarrow> \<not> fp_escrow_credited p i"
  "get_pool p i = Inr pl \<longleftrightarrow> fp_pools p i = Some pl"
  by (auto simp: pool_require_admin_def pool_require_not_paused_def require_no_escrow_def
      require_no_escrow_credit_def get_pool_def)

lemma emit_simps [simp]:
  "w_pool (emit c w) = w_pool w" "w_nft (emit c w) = w_nft w" "w_calls (emit c w) = w_calls w @ [c]"
  by (simp_all add: emit_def)

lemma put_pool_simps [simp]:
  "w_pool (put_pool p w) = p" "w_nft (put_pool p w) = w_nft w" "w_calls (put_pool p w) = w_calls w"
  by (simp_all add: put_pool_def)

lemma nft_call_on_frame:
  "nft_call_on f w = Inr w' \<Longrightarrow> w_pool w' = w_pool w \<and> w_calls w' = w_calls w"
  by (auto simp: nft_call_on_def)

lemma nft_calls_frame:
  "call_set_funded e nft i w = Inr w' \<Longrightarrow> w_pool w' = w_pool w \<and> w_calls w' = w_calls w"
  "call_set_repaid e nft i w = Inr w' \<Longrightarrow> w_pool w' = w_pool w \<and> w_calls w' = w_calls w"
  "call_set_defaulted e nft a i w = Inr w' \<Longrightarrow> w_pool w' = w_pool w \<and> w_calls w' = w_calls w"
  unfolding call_set_funded_def call_set_repaid_def call_set_defaulted_def
  by (rule nft_call_on_frame, assumption)+

interpretation pool_version: versioned_store fp_schema_version "\<lambda>v p. p\<lparr>fp_schema_version := Some v\<rparr>"
  by unfold_locales auto

end
