(* ===== verification/Financing_Pool.thy ===== *)
theory Financing_Pool
  imports Pool_State
begin

text \<open>
  The entry points of the financing pool, in the order of the source: configuration, opening a
  pool, recording and trading positions and shares, repayment, netting, the yield distribution
  they share, default, the approval of large repayments, early settlement, installments and
  upgrades.  Every operation takes the environment and the world and returns the new world.
\<close>

section \<open>Configuration\<close>

definition pool_initialize ::
  "env \<Rightarrow> world \<Rightarrow> address \<Rightarrow> address \<Rightarrow> address \<Rightarrow> address \<Rightarrow> address \<Rightarrow> u32 \<Rightarrow> address \<Rightarrow> u32 \<Rightarrow> u64
     \<Rightarrow> address \<Rightarrow> world pool_result" where
  "pool_initialize e w admin invoice_nft risk_registry treasury access_control late_penalty_bps
       price_oracle max_position_bps grace_period dispute_resolution =
     (let p = w_pool w in
      if fp_admin p \<noteq> None then Inl (Err FP_AlreadyInitialized)
      else
        rbind (pool_lift (require_valid_fee_bps late_penalty_bps)) (\<lambda>_.
        rbind (pool_lift (require_valid_bps_range max_position_bps 1 10000)) (\<lambda>_.
        if max_position_bps = 0 \<or> max_position_bps > 10000 then Inl (Err FP_InvalidFeeRate)
        else
          rbind (pool_lift (require_not_self e admin)) (\<lambda>_.
          rbind (pool_lift (require_not_self e invoice_nft)) (\<lambda>_.
          rbind (pool_lift (require_not_self e risk_registry)) (\<lambda>_.
          rbind (pool_lift (require_not_self e treasury)) (\<lambda>_.
          rbind (pool_lift (require_not_self e access_control)) (\<lambda>_.
          rbind (pool_lift (require_not_self e dispute_resolution)) (\<lambda>_.
          Inr (put_pool (p\<lparr>fp_admin := Some admin, fp_invoice_nft := Some invoice_nft,
                 fp_risk_registry := Some risk_registry, fp_treasury := Some treasury,
                 fp_access_control := Some access_control,
                 fp_late_penalty_bps := Some late_penalty_bps,
                 fp_price_oracle := Some price_oracle,
                 fp_max_position_bps := Some max_position_bps,
                 fp_grace_period := Some grace_period,
                 fp_dispute_resolution := Some dispute_resolution,
                 fp_schema_version := Some POOL_SCHEMA_VERSION\<rparr>) w))))))))))"

definition pool_migration_step :: "u32 \<Rightarrow> u32 \<Rightarrow> pool_state \<Rightarrow> pool_state pool_result" where
  "pool_migration_step old new p =
     (if (old, new) = (0, 1) then Inr p else Inl (Err FP_InvalidMigrationTarget))"

definition pool_migrate_versions :: "env \<Rightarrow> world \<Rightarrow> address \<Rightarrow> u32 \<Rightarrow> u32 \<Rightarrow> world pool_result" where
  "pool_migrate_versions e w admin from_version to_version =
     (let p = w_pool w in
      rbind (require_auth e admin) (\<lambda>_.
      rbind (pool_require_admin p admin) (\<lambda>_.
      rbind (migrate (\<lambda>_. FP_InvalidMigrationTarget) fp_schema_version
               (\<lambda>v p. p\<lparr>fp_schema_version := Some v\<rparr>) pool_migration_step
               from_version to_version POOL_SCHEMA_VERSION p) (\<lambda>(p', _).
      Inr (put_pool p' w)))))"

text \<open>The setters share their frame: signature, admin, one or two checks, one field.\<close>

definition pool_admin_set ::
  "env \<Rightarrow> world \<Rightarrow> address \<Rightarrow> unit pool_result \<Rightarrow> (pool_state \<Rightarrow> pool_state) \<Rightarrow> world pool_result" where
  "pool_admin_set e w admin check upd =
     rbind (require_auth e admin) (\<lambda>_.
     rbind (pool_require_admin (w_pool w) admin) (\<lambda>_.
     rbind check (\<lambda>_. Inr (put_pool (upd (w_pool w)) w))))"

definition set_max_position_bps :: "env \<Rightarrow> world \<Rightarrow> address \<Rightarrow> u32 \<Rightarrow> world pool_result" where
  "set_max_position_bps e w admin bps =
     pool_admin_set e w admin
       (rbind (pool_lift (require_valid_bps_range bps 1 10000)) (\<lambda>_.
        if bps = 0 \<or> bps > 10000 then Inl (Err FP_InvalidFeeRate) else Inr ()))
       (\<lambda>p. p\<lparr>fp_max_position_bps := Some bps\<rparr>)"

definition set_parameter_registry :: "env \<Rightarrow> world \<Rightarrow> address \<Rightarrow> address \<Rightarrow> world pool_result" where
  "set_parameter_registry e w admin registry =
     pool_admin_set e w admin (pool_lift (require_not_self e registry))
       (\<lambda>p. p\<lparr>fp_parameter_registry := Some registry\<rparr>)"

definition set_late_penalty_split :: "env \<Rightarrow> world \<Rightarrow> address \<Rightarrow> u32 \<Rightarrow> world pool_result" where
  "set_late_penalty_split e w admin split_bps =
     pool_admin_set e w admin (pool_lift (require_valid_bps_range split_bps 0 10000))
       (\<lambda>p. p\<lparr>fp_penalty_split := Some split_bps\<rparr>)"

definition set_marketplace :: "env \<Rightarrow> world \<Rightarrow> address \<Rightarrow> address \<Rightarrow> world pool_result" where
  "set_marketplace e w admin marketplace =
     pool_admin_set e w admin (pool_lift (require_not_self e marketplace))
       (\<lambda>p. p\<lparr>fp_marketplace := Some marketplace\<rparr>)"

definition set_auto_compound :: "env \<Rightarrow> world \<Rightarrow> address \<Rightarrow> bool \<Rightarrow> u64 option \<Rightarrow> world pool_result" where
  "set_auto_compound e w investor enabled target =
     rbind (require_auth e investor) (\<lambda>_.
     Inr (put_pool ((w_pool w)\<lparr>fp_auto_compound := (fp_auto_compound (w_pool w))(investor \<mapsto>
            \<lparr>ac_enabled = enabled, ac_target_invoice = target\<rparr>)\<rparr>) w))"

definition get_auto_compound :: "pool_state \<Rightarrow> address \<Rightarrow> AutoCompoundPref" where
  "get_auto_compound p investor =
     (case fp_auto_compound p investor of
        None \<Rightarrow> \<lparr>ac_enabled = False, ac_target_invoice = None\<rparr> | Some x \<Rightarrow> x)"

section \<open>Opening a pool\<close>

definition pool_put :: "u64 \<Rightarrow> Pool \<Rightarrow> pool_state \<Rightarrow> pool_state" where
  "pool_put i pl p = p\<lparr>fp_pools := (fp_pools p)(i \<mapsto> pl)\<rparr>"

definition lock_pool :: "u64 \<Rightarrow> pool_state \<Rightarrow> pool_state" where
  "lock_pool i p = p\<lparr>fp_lock := (fp_lock p)(i := True)\<rparr>"

definition unlock_pool :: "u64 \<Rightarrow> pool_state \<Rightarrow> pool_state" where
  "unlock_pool i p = p\<lparr>fp_lock := (fp_lock p)(i := False)\<rparr>"

definition release_funds :: "env \<Rightarrow> world \<Rightarrow> address \<Rightarrow> u64 \<Rightarrow> address \<Rightarrow> world pool_result" where
  "release_funds e w marketplace i tok =
     (let p = w_pool w in
      rbind (require_auth e marketplace) (\<lambda>_.
      rbind (pool_require_not_paused e p) (\<lambda>_.
      rbind (case fp_marketplace p of
               None \<Rightarrow> Inr ()
             | Some configured \<Rightarrow>
                 if invoker e \<noteq> configured then Inl (Err FP_MarketplaceOnly)
                 else if marketplace \<noteq> configured then Inl (Err FP_Unauthorized) else Inr ()) (\<lambda>_.
      if fp_pools p i \<noteq> None then Inl (Err FP_PoolAlreadyClosed)
      else if tok = self_addr e then Inl (Err FP_InvalidAddress)
      else
        rbind (ok_or (fp_invoice_nft p) (Err FP_NotInitialized)) (\<lambda>nft.
        rbind (or_trap (get_invoice (w_nft w) i)) (\<lambda>invoice.
        if inv_amount invoice \<le> 0 \<or> inv_amount invoice > POOL_MAX_AMOUNT then Inl (Err FP_InvalidAmount)
        else
          let pl = \<lparr>pl_invoice_id = i, pl_token = tok, pl_total_funded = 0,
                    pl_face_value = inv_amount invoice, pl_repaid_amount = 0, pl_is_closed = False,
                    pl_late_penalty_bps = get_late_penalty_bps e p,
                    pl_total_owed = inv_amount invoice, pl_penalty_applied = False\<rparr>;
              st = get_stats p;
              st = st\<lparr>st_pools_opened := u32_sat_add (st_pools_opened st) 1,
                      st_active_pools := u32_sat_add (st_active_pools st) 1\<rparr> in
          call_set_funded e nft i (put_pool ((pool_put i pl p)\<lparr>fp_stats := Some st\<rparr>) w)))))))"

section \<open>Positions\<close>

definition put_positions :: "u64 \<Rightarrow> (address, Position) hmap \<Rightarrow> pool_state \<Rightarrow> pool_state" where
  "put_positions i m p = p\<lparr>fp_positions := (fp_positions p)(i \<mapsto> m)\<rparr>"

definition record_position ::
  "env \<Rightarrow> world \<Rightarrow> address \<Rightarrow> u64 \<Rightarrow> address \<Rightarrow> i128 \<Rightarrow> i128 \<Rightarrow> world pool_result" where
  "record_position e w caller i investor contributed total_pool =
     (let p = w_pool w in
      rbind (require_no_escrow_credit p i) (\<lambda>_.
      rbind (require_no_escrow p i) (\<lambda>_.
      rbind (require_auth e caller) (\<lambda>_.
      rbind (pool_require_admin p caller) (\<lambda>_.
      rbind (pool_require_not_paused e p) (\<lambda>_.
      rbind (ok_or (fp_invoice_nft p) (Err FP_NotInitialized)) (\<lambda>_.
      if is_invoice_frozen (w_nft w) i then Inl (Err FP_InvoiceFrozen)
      else if contributed \<le> 0 \<or> total_pool \<le> 0 then Inl (Err FP_InvalidAmount)
      else if contributed > total_pool \<or> contributed > POOL_MAX_AMOUNT \<or> total_pool > POOL_MAX_AMOUNT
      then Inl (Err FP_InvalidAmount)
      else
        rbind (ok_or (Option.bind (i128_mul contributed 10000) (\<lambda>v. i128_div v total_pool))
                 (Err FP_ArithmeticOverflow)) (\<lambda>share.
        let share_bps = i128_as_u32 share in
        if share_bps > get_max_position_bps e p then Inl (Err FP_ExceedsFundingTarget)
        else
          let position = \<lparr>pos_investor = investor, pos_invoice_id = i, pos_contributed = contributed,
                          pos_share_bps = share_bps, pos_yield_claimed = 0\<rparr>;
              positions = get_positions_map p i;
              old_contributed = (case map_get positions investor of None \<Rightarrow> 0 | Some q \<Rightarrow> pos_contributed q) in
          if old_contributed = 0 \<and> length positions \<ge> MAX_POSITIONS_PER_POOL
          then Inl (Err FP_TooManyInvestors)
          else
            let p1 = put_positions i (map_set investor position positions) p in
            rbind (get_pool p1 i) (\<lambda>pl.
            rbind (ok_or (Option.bind (i128_sub (aggregate_funded p1 (pl_token pl)) old_contributed)
                            (\<lambda>v. i128_add v contributed)) (Err FP_ArithmeticOverflow)) (\<lambda>new_agg.
            Inr (put_pool (p1\<lparr>fp_aggregate := (fp_aggregate p1)(pl_token pl \<mapsto> new_agg)\<rparr>) w)))))))))))"

definition open_pool :: "pool_state \<Rightarrow> u64 \<Rightarrow> Pool pool_result" where
  "open_pool p i =
     rbind (get_pool p i) (\<lambda>pl. if pl_is_closed pl then Inl (Err FP_PoolAlreadyClosed) else Inr pl)"

text \<open>Common opening of the operations on positions and shares.\<close>

definition trade_guard :: "env \<Rightarrow> pool_state \<Rightarrow> address \<Rightarrow> u64 \<Rightarrow> unit pool_result" where
  "trade_guard e p who i =
     rbind (require_no_escrow p i) (\<lambda>_.
     rbind (require_auth e who) (\<lambda>_. pool_require_not_paused e p))"

definition shares_of :: "pool_state \<Rightarrow> u64 \<Rightarrow> address \<Rightarrow> (share_key, PositionShare) hmap" where
  "shares_of p i investor = (case fp_shares p i investor of None \<Rightarrow> map_new | Some m \<Rightarrow> m)"

definition put_shares :: "u64 \<Rightarrow> address \<Rightarrow> (share_key, PositionShare) hmap \<Rightarrow> pool_state \<Rightarrow> pool_state" where
  "put_shares i a m p = p\<lparr>fp_shares := (fp_shares p)(i := (fp_shares p i)(a \<mapsto> m))\<rparr>"

definition split_position :: "env \<Rightarrow> world \<Rightarrow> address \<Rightarrow> u64 \<Rightarrow> i128 \<Rightarrow> (world \<times> u32) pool_result" where
  "split_position e w caller i amount =
     (let p = w_pool w in
      rbind (trade_guard e p caller i) (\<lambda>_.
      rbind (open_pool p i) (\<lambda>_.
      rbind (ok_or (map_get (get_positions_map p i) caller) (Err FP_PositionNotFound)) (\<lambda>position.
      if amount \<le> 0 \<or> amount > pos_contributed position then Inl (Err FP_InvalidAmount)
      else
        let share_index = (case fp_share_counter p i caller of None \<Rightarrow> 0 | Some n \<Rightarrow> n);
            new_index = u32_sat_add share_index 1;
            share = \<lparr>sh_invoice_id = i, sh_original_investor = caller, sh_share_index = new_index,
                     sh_amount = amount, sh_owner = caller\<rparr>;
            p1 = put_shares i caller (map_set (i, caller, new_index) share (shares_of p i caller)) p in
        Inr (put_pool (p1\<lparr>fp_share_counter := (fp_share_counter p1)(i := (fp_share_counter p1 i)(caller \<mapsto> new_index))\<rparr>) w,
             new_index)))))"

definition find_share ::
  "pool_state \<Rightarrow> u64 \<Rightarrow> address \<Rightarrow> u32 \<Rightarrow> ((share_key, PositionShare) hmap \<times> PositionShare) pool_result" where
  "find_share p i original k =
     rbind (ok_or (fp_shares p i original) (Err FP_ShareNotFound)) (\<lambda>m.
     rbind (ok_or (map_get m (i, original, k)) (Err FP_ShareNotFound)) (\<lambda>share. Inr (m, share)))"

definition transfer_share ::
  "env \<Rightarrow> world \<Rightarrow> address \<Rightarrow> u64 \<Rightarrow> address \<Rightarrow> u32 \<Rightarrow> address \<Rightarrow> world pool_result" where
  "transfer_share e w caller i original k new_owner =
     (let p = w_pool w in
      rbind (trade_guard e p caller i) (\<lambda>_.
      rbind (open_pool p i) (\<lambda>_.
      rbind (find_share p i original k) (\<lambda>(m, share).
      if sh_owner share \<noteq> caller then Inl (Err FP_NotPositionOwner)
      else Inr (put_pool (put_shares i original
                  (map_set (i, original, k) (share\<lparr>sh_owner := new_owner\<rparr>) m) p) w)))))"

definition set_share_offer ::
  "u64 \<Rightarrow> address \<Rightarrow> u32 \<Rightarrow> ShareSaleOffer option \<Rightarrow> pool_state \<Rightarrow> pool_state" where
  "set_share_offer i a k x p =
     p\<lparr>fp_share_offer := (fp_share_offer p)(i := (fp_share_offer p i)(a := (fp_share_offer p i a)(k := x)))\<rparr>"

definition list_share_for_sale ::
  "env \<Rightarrow> world \<Rightarrow> address \<Rightarrow> u64 \<Rightarrow> address \<Rightarrow> u32 \<Rightarrow> address \<Rightarrow> i128 \<Rightarrow> world pool_result" where
  "list_share_for_sale e w seller i original k tok price =
     (let p = w_pool w in
      rbind (trade_guard e p seller i) (\<lambda>_.
      if price \<le> 0 then Inl (Err FP_InvalidAmount)
      else
        rbind (open_pool p i) (\<lambda>_.
        rbind (find_share p i original k) (\<lambda>(m, share).
        if sh_owner share \<noteq> seller then Inl (Err FP_NotPositionOwner)
        else if fp_lock p i then Inl (Err FP_Unauthorized)
        else if (case fp_early p i of None \<Rightarrow> False | Some offer \<Rightarrow> seller \<in> set (es_accepted offer))
        then Inl (Err FP_Unauthorized)
        else if fp_share_offer p i original k \<noteq> None then Inl (Err FP_SaleAlreadyListed)
        else
          Inr (put_pool (set_share_offer i original k
                 (Some \<lparr>sso_seller = seller, sso_invoice_id = i, sso_original_investor = original,
                        sso_share_index = k, sso_token = tok, sso_price = price\<rparr>) p) w)))))"

definition buy_share ::
  "env \<Rightarrow> world \<Rightarrow> address \<Rightarrow> u64 \<Rightarrow> address \<Rightarrow> address \<Rightarrow> u32 \<Rightarrow> world pool_result" where
  "buy_share e w buyer i seller original k =
     (let p = w_pool w in
      rbind (trade_guard e p buyer i) (\<lambda>_.
      if fp_lock p i then Inl (Err FP_Unauthorized)
      else
        rbind (ok_or (fp_share_offer p i original k) (Err FP_SaleNotFound)) (\<lambda>offer.
        if sso_seller offer \<noteq> seller then Inl (Err FP_SaleNotFound)
        else
          rbind (open_pool p i) (\<lambda>_.
          rbind (find_share p i original k) (\<lambda>(m, share).
          Inr (emit (Transfer (sso_token offer) buyer seller (sso_price offer))
                 (put_pool (put_shares i original
                    (map_set (i, original, k) (share\<lparr>sh_owner := buyer\<rparr>) m)
                    (set_share_offer i original k None p)) w)))))))"

section \<open>Yield distribution\<close>

text \<open>The payouts to the owners of the shares of one position, in key order.\<close>

fun pay_shares ::
  "env \<Rightarrow> address \<Rightarrow> i128 \<Rightarrow> i128 \<Rightarrow> PositionShare list \<Rightarrow> i128 \<Rightarrow> world \<Rightarrow> (world \<times> i128) pool_result" where
  "pay_shares e tok payout contributed [] distributed w = Inr (w, distributed)"
| "pay_shares e tok payout contributed (sh # shs) distributed w =
     rbind (ok_or (Option.bind (i128_mul (sh_amount sh) payout) (\<lambda>v. i128_div v contributed))
              (Err FP_ArithmeticOverflow)) (\<lambda>n.
     pay_shares e tok payout contributed shs (i128_sat_add distributed n)
       (emit (Transfer tok (self_addr e) (sh_owner sh) n) w))"

definition pay_position ::
  "env \<Rightarrow> u64 \<Rightarrow> address \<Rightarrow> i128 \<Rightarrow> address \<Rightarrow> Position \<Rightarrow> world \<Rightarrow> world pool_result" where
  "pay_position e i tok investor_total investor position w =
     rbind (pool_lift (bps_of_normalized investor_total (pos_share_bps position) (token_decimals e tok)))
       (\<lambda>payout.
     rbind (ok_or (i128_sub payout (pos_contributed position)) (Err FP_ArithmeticOverflow)) (\<lambda>_.
     let shares = map_values (shares_of (w_pool w) i investor);
         total_share = foldl i128_sat_add 0 (map sh_amount shares) in
     if total_share > 0 \<and> shares \<noteq> [] then
       rbind (pay_shares e tok payout (pos_contributed position) shares 0 w) (\<lambda>(w1, distributed).
       let remainder = i128_sat_sub payout distributed in
       Inr (if remainder > 0 then emit (Transfer tok (self_addr e) investor remainder) w1 else w1))
     else Inr (emit (Transfer tok (self_addr e) investor payout) w)))"

fun pay_positions ::
  "env \<Rightarrow> u64 \<Rightarrow> address \<Rightarrow> i128 \<Rightarrow> (address, Position) hmap \<Rightarrow> i128 \<Rightarrow> world \<Rightarrow> (world \<times> i128) pool_result" where
  "pay_positions e i tok investor_total [] total_contributed w = Inr (w, total_contributed)"
| "pay_positions e i tok investor_total ((investor, position) # ps) total_contributed w =
     rbind (pay_position e i tok investor_total investor position w) (\<lambda>w1.
     pay_positions e i tok investor_total ps
       (i128_sat_add total_contributed (pos_contributed position)) w1)"

definition penalty_cut :: "pool_state \<Rightarrow> u64 \<Rightarrow> i128" where
  "penalty_cut p i = (case fp_penalty_cut p i of None \<Rightarrow> 0 | Some n \<Rightarrow> n)"

definition distribute_yield :: "env \<Rightarrow> u64 \<Rightarrow> address \<Rightarrow> i128 \<Rightarrow> world \<Rightarrow> world pool_result" where
  "distribute_yield e i tok total_repaid w =
     (let p = w_pool w;
          positions = get_positions_map p i;
          treasury_cut = penalty_cut p i;
          w1 = put_pool (p\<lparr>fp_penalty_cut := (fp_penalty_cut p)(i := None)\<rparr>) w in
      rbind (if treasury_cut > 0 then
               rbind (ok_or (fp_treasury p) (Err FP_NotInitialized)) (\<lambda>treasury.
               Inr (emit (CollectFee treasury tok treasury_cut)
                     (emit (Transfer tok (self_addr e) treasury treasury_cut) w1)))
             else Inr w1) (\<lambda>w2.
      let investor_total = i128_sat_sub total_repaid treasury_cut in
      rbind (pay_positions e i tok investor_total positions 0 w2) (\<lambda>(w3, total_contributed).
      let p3 = w_pool w3 in
      Inr (put_pool (p3\<lparr>fp_aggregate := (fp_aggregate p3)(tok \<mapsto>
             i128_sat_sub (aggregate_funded p3 tok) total_contributed)\<rparr>) w3))))"

section \<open>Repayment\<close>

text \<open>The late penalty: taken once per pool, when the due date has passed; the treasury's part is
  remembered for the distribution, the investors' part raises what is owed.\<close>

definition late_penalty :: "env \<Rightarrow> u64 \<Rightarrow> u64 \<Rightarrow> pool_state \<Rightarrow> Pool \<Rightarrow> (pool_state \<times> Pool) pool_result" where
  "late_penalty e i due p pl =
     (let penalty_bps = get_late_penalty_bps e p in
      if \<not> pl_penalty_applied pl \<and> penalty_bps > 0 \<and> timestamp e > due then
        rbind (pool_lift (bps_of (pl_face_value pl) penalty_bps)) (\<lambda>penalty.
        rbind (pool_lift (bps_of penalty (get_late_penalty_split p))) (\<lambda>treasury_cut.
        rbind (ok_or (i128_sub penalty treasury_cut) (Err FP_ArithmeticOverflow)) (\<lambda>investor_cut.
        let p1 = p\<lparr>fp_penalty_cut := (fp_penalty_cut p)(i \<mapsto> i128_sat_add (penalty_cut p i) treasury_cut)\<rparr> in
        rbind (ok_or (i128_add (pl_total_owed pl) investor_cut) (Err FP_ArithmeticOverflow)) (\<lambda>owed.
        Inr (p1, pl\<lparr>pl_total_owed := owed, pl_penalty_applied := True\<rparr>)))))
      else Inr (p, pl))"

text \<open>The installment the schedule expects next, its penalty, and the advance of the cursor.\<close>

definition take_installment ::
  "env \<Rightarrow> u64 \<Rightarrow> i128 \<Rightarrow> InstallmentSchedule \<Rightarrow> pool_state \<Rightarrow> Pool \<Rightarrow>
     (pool_state \<times> Pool \<times> InstallmentSchedule) pool_result" where
  "take_installment e i amount sch p pl =
     (let idx = sch_next_index sch; len = length (sch_installments sch) in
      if idx \<ge> len then Inl (Err FP_RepaymentAlreadyMade)
      else
        let ins = sch_installments sch ! idx; expected = in_amount ins in
        if (if idx = len - 1 then amount < expected else amount \<noteq> expected) then Inl (Err FP_InvalidAmount)
        else
          rbind (late_penalty e i (in_due_date ins) p pl) (\<lambda>(p1, pl1).
          Inr (p1, pl1, sch\<lparr>sch_installments := (sch_installments sch)[idx := ins\<lparr>in_paid := True\<rparr>],
                            sch_next_index := u32_sat_add idx 1\<rparr>)))"

definition repay_stats :: "i128 \<Rightarrow> bool \<Rightarrow> pool_state \<Rightarrow> pool_state" where
  "repay_stats amount close p =
     (let st = get_stats p;
          st = st\<lparr>st_total_repaid := i128_sat_add (st_total_repaid st) amount\<rparr>;
          st = (if close then st\<lparr>st_active_pools := u32_sat_sub (st_active_pools st) 1\<rparr> else st) in
      p\<lparr>fp_stats := Some st\<rparr>)"

definition unlock_world :: "u64 \<Rightarrow> world \<Rightarrow> world" where
  "unlock_world i w = put_pool (unlock_pool i (w_pool w)) w"

text \<open>The credit of a repayment to the pool record: schedule or lump sum, penalty, close.\<close>

definition credit_repayment ::
  "env \<Rightarrow> u64 \<Rightarrow> Invoice \<Rightarrow> i128 \<Rightarrow> pool_state \<Rightarrow> Pool \<Rightarrow> (pool_state \<times> Pool) pool_result" where
  "credit_repayment e i invoice amount p pl =
     rbind (case fp_schedule p i of
              Some sch \<Rightarrow>
                rbind (take_installment e i amount sch p pl) (\<lambda>(p1, pl1, sch1).
                Inr (p1\<lparr>fp_schedule := (fp_schedule p1)(i \<mapsto> sch1)\<rparr>, pl1))
            | None \<Rightarrow> late_penalty e i (inv_due_date invoice) p pl) (\<lambda>(p1, pl1).
     rbind (ok_or (i128_add (pl_repaid_amount pl1) amount) (Err FP_ArithmeticOverflow)) (\<lambda>repaid.
     let should_close = repaid \<ge> pl_total_owed pl1;
         pl2 = pl1\<lparr>pl_repaid_amount := repaid, pl_is_closed := pl_is_closed pl1 \<or> should_close\<rparr> in
     Inr (pool_put i pl2 p1, pl2)))"

definition repay_internal ::
  "env \<Rightarrow> world \<Rightarrow> address \<Rightarrow> u64 \<Rightarrow> address \<Rightarrow> i128 \<Rightarrow> world pool_result" where
  "repay_internal e w payer i tok amount =
     (let p = w_pool w in
      rbind (require_no_escrow p i) (\<lambda>_.
      rbind (ok_or (fp_invoice_nft p) (Err FP_NotInitialized)) (\<lambda>nft.
      if is_invoice_frozen (w_nft w) i then Inl (Err FP_InvoiceFrozen)
      else if fp_lock p i then Inl (Err FP_Unauthorized)
      else
        let p = lock_pool i p in
        rbind (open_pool p i) (\<lambda>pl.
        rbind (or_trap (get_invoice (w_nft w) i)) (\<lambda>invoice.
        rbind (convert_if_needed e p amount (inv_currency invoice) (pl_token pl)) (\<lambda>effective.
        rbind (credit_repayment e i invoice effective p pl) (\<lambda>(p1, pl1).
        let should_close = pl_is_closed pl1;
            w1 = emit (Transfer tok payer (self_addr e) amount)
                   (put_pool (repay_stats effective should_close p1) w) in
        rbind (if should_close then
                 rbind (distribute_yield e i tok (pl_repaid_amount pl1) w1) (call_set_repaid e nft i)
               else Inr w1) (\<lambda>w2.
        Inr (unlock_world i w2))))))))) "

definition repay :: "env \<Rightarrow> world \<Rightarrow> address \<Rightarrow> u64 \<Rightarrow> address \<Rightarrow> i128 \<Rightarrow> world pool_result" where
  "repay e w payer i tok amount =
     rbind (require_auth e payer) (\<lambda>_.
     if amount \<le> 0 \<or> amount > POOL_MAX_AMOUNT then Inl (Err FP_InvalidAmount)
     else
       rbind (if amount \<ge> REPAYMENT_APPROVAL_THRESHOLD then
                rbind (ok_or (fp_approval (w_pool w) i) (Err FP_ApprovalThresholdNotMet)) (\<lambda>approval.
                if \<not> ra_executed approval then Inl (Err FP_ApprovalThresholdNotMet) else Inr ())
              else Inr ()) (\<lambda>_.
       repay_internal e w payer i tok amount))"

definition repay_partial :: "env \<Rightarrow> world \<Rightarrow> address \<Rightarrow> u64 \<Rightarrow> address \<Rightarrow> i128 \<Rightarrow> world pool_result" where
  "repay_partial e w payer i tok amount =
     (let p = w_pool w in
      rbind (require_auth e payer) (\<lambda>_.
      rbind (require_no_escrow_credit p i) (\<lambda>_.
      rbind (require_no_escrow p i) (\<lambda>_.
      if amount \<le> 0 \<or> amount > POOL_MAX_AMOUNT then Inl (Err FP_InvalidAmount)
      else if fp_lock p i then Inl (Err FP_Unauthorized)
      else
        let p = lock_pool i p in
        rbind (open_pool p i) (\<lambda>pl.
        rbind (ok_or (i128_add (pl_repaid_amount pl) amount) (Err FP_ArithmeticOverflow)) (\<lambda>new_repaid.
        if new_repaid > pl_total_owed pl then Inl (Err FP_PartialRepayInvalid)
        else
          let pl1 = pl\<lparr>pl_repaid_amount := new_repaid\<rparr>;
              w1 = emit (Transfer tok payer (self_addr e) amount)
                     (put_pool (repay_stats amount False (pool_put i pl1 p)) w) in
          rbind (distribute_yield e i tok (pl_repaid_amount pl1) w1) (\<lambda>w2.
          Inr (unlock_world i w2))))))))"

section \<open>Netting\<close>

definition remaining_owed :: "Pool \<Rightarrow> i128" where
  "remaining_owed pl =
     max 0 (case i128_sub (pl_total_owed pl) (pl_repaid_amount pl) of None \<Rightarrow> 0 | Some x \<Rightarrow> x)"

fun net_preflight ::
  "world \<Rightarrow> address \<Rightarrow> address \<Rightarrow> u64 list \<Rightarrow> i128 \<Rightarrow> (Pool list \<times> i128) pool_result" where
  "net_preflight w payer tok [] acc = Inr ([], acc)"
| "net_preflight w payer tok (i # is) acc =
     (let p = w_pool w in
      rbind (require_no_escrow_credit p i) (\<lambda>_.
      rbind (require_no_escrow p i) (\<lambda>_.
      if is_invoice_frozen (w_nft w) i then Inl (Err FP_InvoiceFrozen)
      else if fp_lock p i then Inl (Err FP_Unauthorized)
      else
        rbind (open_pool p i) (\<lambda>pl.
        if pl_token pl \<noteq> tok then Inl (Err FP_InvalidAddress)
        else
          rbind (or_trap (get_invoice (w_nft w) i)) (\<lambda>invoice.
          if inv_sme invoice \<noteq> payer then Inl (Err FP_Unauthorized)
          else
            rbind (ok_or (i128_add acc (remaining_owed pl)) (Err FP_ArithmeticOverflow)) (\<lambda>acc1.
            rbind (net_preflight w payer tok is acc1) (\<lambda>(pools, res). Inr (pl # pools, res))))))))"

fun net_allocate :: "i128 \<Rightarrow> i128 \<Rightarrow> Pool list \<Rightarrow> i128 \<Rightarrow> (i128 list \<times> i128) pool_result" where
  "net_allocate amount total_remaining [] acc = Inr ([], acc)"
| "net_allocate amount total_remaining (pl # pls) acc =
     rbind (ok_or (Option.bind (i128_mul amount (remaining_owed pl)) (\<lambda>v. i128_div v total_remaining))
              (Err FP_ArithmeticOverflow)) (\<lambda>alloc.
     rbind (ok_or (i128_add acc alloc) (Err FP_ArithmeticOverflow)) (\<lambda>acc1.
     rbind (net_allocate amount total_remaining pls acc1) (\<lambda>(allocs, res). Inr (alloc # allocs, res))))"

text \<open>The allocations with the rounding remainder credited to the first pool.\<close>

definition net_allocations :: "i128 \<Rightarrow> i128 \<Rightarrow> Pool list \<Rightarrow> i128 list pool_result" where
  "net_allocations amount total_remaining pools =
     rbind (net_allocate amount total_remaining pools 0) (\<lambda>(allocs, allocated).
     rbind (ok_or (i128_sub amount allocated) (Err FP_ArithmeticOverflow)) (\<lambda>remainder.
     if remainder > 0 then
       (case allocs of
          [] \<Rightarrow> Inl Trap
        | a # as \<Rightarrow> rbind (ok_or (i128_add a remainder) Trap) (\<lambda>a1. Inr (a1 # as)))
     else Inr allocs))"

fun net_apply ::
  "env \<Rightarrow> (u64 \<times> Pool \<times> i128) list \<Rightarrow> world \<Rightarrow> u64 list \<Rightarrow> (world \<times> u64 list) pool_result" where
  "net_apply e [] w closed = Inr (w, closed)"
| "net_apply e ((i, pl, alloc) # xs) w closed =
     (if alloc \<le> 0 then net_apply e xs w closed
      else
        rbind (or_trap (get_invoice (w_nft w) i)) (\<lambda>invoice.
        rbind (if \<not> pl_penalty_applied pl \<and> pl_late_penalty_bps pl > 0 \<and> timestamp e > inv_due_date invoice then
                 rbind (map_err (\<lambda>_. FP_ArithmeticOverflow)
                          (bps_of (pl_face_value pl) (pl_late_penalty_bps pl))) (\<lambda>penalty.
                 rbind (ok_or (i128_add (pl_total_owed pl) penalty) (Err FP_ArithmeticOverflow)) (\<lambda>owed.
                 Inr (pl\<lparr>pl_total_owed := owed, pl_penalty_applied := True\<rparr>)))
               else Inr pl) (\<lambda>pl1.
        rbind (ok_or (i128_add (pl_repaid_amount pl1) alloc) (Err FP_ArithmeticOverflow)) (\<lambda>repaid.
        let should_close = repaid \<ge> pl_total_owed pl1;
            pl2 = pl1\<lparr>pl_repaid_amount := repaid, pl_is_closed := pl_is_closed pl1 \<or> should_close\<rparr> in
        net_apply e xs (put_pool (pool_put i pl2 (w_pool w)) w)
          (if should_close then closed @ [i] else closed)))))"

fun net_close :: "env \<Rightarrow> address \<Rightarrow> address \<Rightarrow> u64 list \<Rightarrow> world \<Rightarrow> world pool_result" where
  "net_close e nft tok [] w = Inr w"
| "net_close e nft tok (i # is) w =
     rbind (ok_or (fp_pools (w_pool w) i) Trap) (\<lambda>pl.
     rbind (distribute_yield e i tok (pl_repaid_amount pl) w) (\<lambda>w1.
     rbind (call_set_repaid e nft i w1) (\<lambda>w2.
     net_close e nft tok is (put_pool (repay_stats (pl_repaid_amount pl) True (w_pool w2)) w2))))"

definition net_settle :: "env \<Rightarrow> world \<Rightarrow> address \<Rightarrow> u64 list \<Rightarrow> address \<Rightarrow> i128 \<Rightarrow> world pool_result" where
  "net_settle e w payer invoice_ids tok amount =
     rbind (require_auth e payer) (\<lambda>_.
     rbind (pool_require_not_paused e (w_pool w)) (\<lambda>_.
     if amount \<le> 0 \<or> amount > POOL_MAX_AMOUNT then Inl (Err FP_InvalidAmount)
     else if length invoice_ids < 2 then Inl (Err FP_InvalidAmount)
     else if length invoice_ids > MAX_NETTING_INVOICES then Inl (Err FP_BatchSizeExceeded)
     else
       rbind (ok_or (fp_invoice_nft (w_pool w)) (Err FP_NotInitialized)) (\<lambda>nft.
       rbind (net_preflight w payer tok invoice_ids 0) (\<lambda>(pools, total_remaining).
       if total_remaining = 0 then Inl (Err FP_InvalidAmount)
       else
         rbind (net_allocations amount total_remaining pools) (\<lambda>allocs.
         let w1 = put_pool (fold lock_pool invoice_ids (w_pool w)) w in
         rbind (net_apply e (zip invoice_ids (zip pools allocs)) w1 []) (\<lambda>(w2, closed).
         let w3 = emit (Transfer tok payer (self_addr e) amount) w2 in
         rbind (net_close e nft tok closed w3) (\<lambda>w4.
         Inr (put_pool (fold unlock_pool invoice_ids (w_pool w4)) w4))))))))"

section \<open>Default\<close>

definition mark_default :: "env \<Rightarrow> world \<Rightarrow> address \<Rightarrow> u64 \<Rightarrow> address \<Rightarrow> world pool_result" where
  "mark_default e w admin i tok =
     (let p = w_pool w in
      rbind (require_auth e admin) (\<lambda>_.
      rbind (pool_require_admin p admin) (\<lambda>_.
      rbind (pool_require_not_paused e p) (\<lambda>_.
      rbind (require_no_escrow p i) (\<lambda>_.
      if fp_lock p i then Inl (Err FP_Unauthorized)
      else
        rbind (open_pool p i) (\<lambda>pl.
        rbind (ok_or (fp_invoice_nft p) (Err FP_NotInitialized)) (\<lambda>nft.
        rbind (or_trap (get_invoice (w_nft w) i)) (\<lambda>invoice.
        rbind (ok_or (u64_add (inv_due_date invoice) (get_grace_period p)) Trap) (\<lambda>deadline.
        if timestamp e < deadline then Inl (Err FP_GracePeriodActive)
        else if (case fp_dispute_resolution p of
                   None \<Rightarrow> False
                 | Some dr \<Rightarrow> (case view_open_dispute e dr i of None \<Rightarrow> False | Some b \<Rightarrow> b))
        then Inl (Err FP_DisputeNotOpen)
        else
          let w1 = (if fp_escrow_credited p i
                    then put_pool (pool_put i (pl\<lparr>pl_is_closed := True\<rparr>) p) w else w) in
          rbind (if pl_repaid_amount pl > 0 then distribute_yield e i tok (pl_repaid_amount pl) w1
                 else Inr w1) (\<lambda>w2.
          rbind (call_set_defaulted e nft admin i w2) (\<lambda>w3.
          let p3 = w_pool w3; st = get_stats p3;
              st = st\<lparr>st_pools_defaulted := u32_sat_add (st_pools_defaulted st) 1,
                      st_active_pools := u32_sat_sub (st_active_pools st) 1\<rparr>;
              w4 = put_pool (p3\<lparr>fp_stats := Some st\<rparr>) w3 in
          Inr (case fp_risk_registry p3 of
                 None \<Rightarrow> w4
               | Some rr \<Rightarrow> emit (RecordDefault rr admin (inv_sme invoice)) w4))))))))))))"

section \<open>Approval of large repayments\<close>

definition put_approval :: "u64 \<Rightarrow> RepaymentApproval \<Rightarrow> pool_state \<Rightarrow> pool_state" where
  "put_approval i a p = p\<lparr>fp_approval := (fp_approval p)(i \<mapsto> a)\<rparr>"

definition propose_repayment :: "env \<Rightarrow> world \<Rightarrow> address \<Rightarrow> u64 \<Rightarrow> i128 \<Rightarrow> world pool_result" where
  "propose_repayment e w payer i amount =
     (let p = w_pool w in
      rbind (require_auth e payer) (\<lambda>_.
      if amount \<le> 0 \<or> amount > POOL_MAX_AMOUNT then Inl (Err FP_InvalidAmount)
      else if amount < REPAYMENT_APPROVAL_THRESHOLD then Inl (Err FP_InvalidAmount)
      else
        rbind (open_pool p i) (\<lambda>_.
        if fp_approval p i \<noteq> None then Inl (Err FP_ApprovalPending)
        else Inr (put_pool (put_approval i \<lparr>ra_invoice_id = i, ra_amount = amount, ra_approvals = [],
                              ra_executed = False\<rparr> p) w))))"

definition approve_repayment :: "env \<Rightarrow> world \<Rightarrow> address \<Rightarrow> u64 \<Rightarrow> world pool_result" where
  "approve_repayment e w approver i =
     (let p = w_pool w in
      rbind (require_auth e approver) (\<lambda>_.
      rbind (open_pool p i) (\<lambda>_.
      rbind (ok_or (fp_approval p i) (Err FP_ApprovalPending)) (\<lambda>approval.
      if ra_executed approval then Inl (Err FP_PoolAlreadyClosed)
      else if approver \<in> set (ra_approvals approval) then Inl (Err FP_AlreadyInitialized)
      else Inr (put_pool (put_approval i
                  (approval\<lparr>ra_approvals := ra_approvals approval @ [approver]\<rparr>) p) w)))))"

definition execute_repayment :: "env \<Rightarrow> world \<Rightarrow> address \<Rightarrow> u64 \<Rightarrow> address \<Rightarrow> world pool_result" where
  "execute_repayment e w payer i tok =
     (let p = w_pool w in
      rbind (require_auth e payer) (\<lambda>_.
      rbind (open_pool p i) (\<lambda>_.
      rbind (ok_or (fp_approval p i) (Err FP_ApprovalThresholdNotMet)) (\<lambda>approval.
      if ra_executed approval then Inl (Err FP_PoolAlreadyClosed)
      else if length (ra_approvals approval) < 2 then Inl (Err FP_ApprovalThresholdNotMet)
      else repay_internal e (put_pool (put_approval i (approval\<lparr>ra_executed := True\<rparr>) p) w)
             payer i tok (ra_amount approval)))))"

section \<open>Early settlement\<close>

definition put_early :: "u64 \<Rightarrow> EarlySettlementOffer option \<Rightarrow> pool_state \<Rightarrow> pool_state" where
  "put_early i x p = p\<lparr>fp_early := (fp_early p)(i := x)\<rparr>"

definition propose_early_settlement :: "env \<Rightarrow> world \<Rightarrow> address \<Rightarrow> u64 \<Rightarrow> i128 \<Rightarrow> world pool_result" where
  "propose_early_settlement e w sme i amount =
     (let p = w_pool w in
      rbind (require_no_escrow_credit p i) (\<lambda>_.
      rbind (trade_guard e p sme i) (\<lambda>_.
      if amount \<le> 0 \<or> amount > POOL_MAX_AMOUNT then Inl (Err FP_InvalidAmount)
      else
        rbind (open_pool p i) (\<lambda>pl.
        if amount < pl_total_funded pl \<or> amount \<ge> pl_total_owed pl then Inl (Err FP_InvalidAmount)
        else if fp_early p i \<noteq> None then Inl (Err FP_AlreadyInitialized)
        else
          rbind (load_invoice w i) (\<lambda>invoice.
          if inv_sme invoice \<noteq> sme then Inl (Err FP_Unauthorized)
          else
            Inr (put_pool (put_early i (Some \<lparr>es_invoice_id = i, es_amount = amount,
                             es_accepted_bps = 0, es_accepted = []\<rparr>) p)
                  (emit (Transfer (pl_token pl) sme (self_addr e) amount) w)))))))"

definition accept_early_settlement :: "env \<Rightarrow> world \<Rightarrow> address \<Rightarrow> u64 \<Rightarrow> world pool_result" where
  "accept_early_settlement e w investor i =
     (let p = w_pool w in
      rbind (trade_guard e p investor i) (\<lambda>_.
      rbind (require_no_escrow p i) (\<lambda>_.
      if fp_lock p i then Inl (Err FP_Unauthorized)
      else
        rbind (ok_or (fp_early p i) (Err FP_PoolNotFound)) (\<lambda>offer.
        rbind (open_pool p i) (\<lambda>pl.
        rbind (ok_or (map_get (get_positions_map p i) investor) (Err FP_Unauthorized)) (\<lambda>position.
        if investor \<in> set (es_accepted offer) then Inl (Err FP_AlreadyInitialized)
        else
          rbind (ok_or (u32_add (es_accepted_bps offer) (pos_share_bps position))
                   (Err FP_ArithmeticOverflow)) (\<lambda>accepted_bps.
          let offer = offer\<lparr>es_accepted := es_accepted offer @ [investor],
                            es_accepted_bps := accepted_bps\<rparr> in
          if accepted_bps \<ge> 10000 then
            let pl1 = pl\<lparr>pl_repaid_amount := es_amount offer, pl_is_closed := True\<rparr> in
            rbind (distribute_yield e i (pl_token pl) (es_amount offer)
                     (put_pool (pool_put i pl1 (lock_pool i p)) w)) (\<lambda>w1.
            rbind (ok_or (fp_invoice_nft (w_pool w1)) (Err FP_NotInitialized)) (\<lambda>nft.
            rbind (call_set_repaid e nft i w1) (\<lambda>w2.
            Inr (put_pool (unlock_pool i (put_early i None
                   (repay_stats (es_amount offer) True (w_pool w2)))) w2))))
          else Inr (put_pool (put_early i (Some offer) p) w))))))))"

definition cancel_early_settlement :: "env \<Rightarrow> world \<Rightarrow> address \<Rightarrow> u64 \<Rightarrow> world pool_result" where
  "cancel_early_settlement e w sme i =
     (let p = w_pool w in
      rbind (require_no_escrow p i) (\<lambda>_.
      rbind (require_auth e sme) (\<lambda>_.
      rbind (ok_or (fp_early p i) (Err FP_PoolNotFound)) (\<lambda>offer.
      rbind (get_pool p i) (\<lambda>pl.
      rbind (load_invoice w i) (\<lambda>invoice.
      if inv_sme invoice \<noteq> sme then Inl (Err FP_Unauthorized)
      else Inr (emit (Transfer (pl_token pl) (self_addr e) sme (es_amount offer))
                 (put_pool (put_early i None p) w))))))))"

section \<open>Installments\<close>

fun check_installments :: "Installment list \<Rightarrow> u64 \<Rightarrow> i128 \<Rightarrow> i128 pool_result" where
  "check_installments [] prev_due acc = Inr acc"
| "check_installments (ins # inss) prev_due acc =
     (if in_amount ins \<le> 0 then Inl (Err FP_InvalidAmount)
      else if in_due_date ins < prev_due then Inl (Err FP_InvalidDueDate)
      else rbind (ok_or (i128_add acc (in_amount ins)) (Err FP_ArithmeticOverflow))
             (check_installments inss (in_due_date ins)))"

definition set_installment_schedule ::
  "env \<Rightarrow> world \<Rightarrow> address \<Rightarrow> u64 \<Rightarrow> InstallmentSchedule \<Rightarrow> world pool_result" where
  "set_installment_schedule e w admin i sch =
     (let p = w_pool w in
      rbind (require_no_escrow_credit p i) (\<lambda>_.
      rbind (require_no_escrow p i) (\<lambda>_.
      rbind (require_auth e admin) (\<lambda>_.
      rbind (pool_require_admin p admin) (\<lambda>_.
      rbind (pool_require_not_paused e p) (\<lambda>_.
      rbind (open_pool p i) (\<lambda>pl.
      if pl_repaid_amount pl > 0 then Inl (Err FP_InvalidAmount)
      else if sch_installments sch = [] then Inl (Err FP_InvalidAmount)
      else if sch_next_index sch \<noteq> 0 then Inl (Err FP_InvalidAmount)
      else
        rbind (check_installments (sch_installments sch) 0 0) (\<lambda>sum.
        if sum \<noteq> pl_total_owed pl then Inl (Err FP_InvalidAmount)
        else Inr (put_pool (p\<lparr>fp_schedule := (fp_schedule p)(i \<mapsto> sch)\<rparr>) w)))))))))"

section \<open>Secondary market\<close>

definition set_sale_offer :: "u64 \<Rightarrow> address \<Rightarrow> PositionSaleOffer option \<Rightarrow> pool_state \<Rightarrow> pool_state" where
  "set_sale_offer i a x p = p\<lparr>fp_sale_offer := (fp_sale_offer p)(i := (fp_sale_offer p i)(a := x))\<rparr>"

definition list_position_for_sale ::
  "env \<Rightarrow> world \<Rightarrow> address \<Rightarrow> u64 \<Rightarrow> address \<Rightarrow> i128 \<Rightarrow> world pool_result" where
  "list_position_for_sale e w seller i tok price =
     (let p = w_pool w in
      rbind (trade_guard e p seller i) (\<lambda>_.
      if price \<le> 0 then Inl (Err FP_InvalidAmount)
      else
        rbind (open_pool p i) (\<lambda>_.
        if \<not> map_has (get_positions_map p i) seller then Inl (Err FP_PositionNotFound)
        else if fp_sale_offer p i seller \<noteq> None then Inl (Err FP_SaleAlreadyListed)
        else Inr (put_pool (set_sale_offer i seller (Some \<lparr>so_seller = seller, so_invoice_id = i,
                    so_token = tok, so_price = price\<rparr>) p) w))))"

definition get_positions_page :: "pool_state \<Rightarrow> u64 \<Rightarrow> u32 \<Rightarrow> u32 \<Rightarrow> Position list" where
  "get_positions_page p i offset limit =
     (let limit = min limit 100;
          all = map_values (get_positions_map p i);
          start = min offset (length all);
          end' = min (start + limit) (length all) in
      take (end' - start) (drop start all))"

definition buy_position :: "env \<Rightarrow> world \<Rightarrow> address \<Rightarrow> u64 \<Rightarrow> address \<Rightarrow> world pool_result" where
  "buy_position e w buyer i seller =
     (let p = w_pool w in
      rbind (trade_guard e p buyer i) (\<lambda>_.
      rbind (ok_or (fp_sale_offer p i seller) (Err FP_SaleNotFound)) (\<lambda>offer.
      rbind (open_pool p i) (\<lambda>_.
      rbind (ok_or (map_get (get_positions_map p i) seller) (Err FP_PositionNotFound)) (\<lambda>sold.
      let p1 = set_sale_offer i seller None p;
          positions = map_remove seller (get_positions_map p i);
          bought = \<lparr>pos_investor = buyer, pos_invoice_id = i, pos_contributed = pos_contributed sold,
                    pos_share_bps = pos_share_bps sold, pos_yield_claimed = pos_yield_claimed sold\<rparr> in
      Inr (emit (Transfer (so_token offer) buyer seller (so_price offer))
            (put_pool (put_positions i (map_set buyer bought positions) p1) w)))))))"

definition get_position :: "pool_state \<Rightarrow> u64 \<Rightarrow> address \<Rightarrow> Position" where
  "get_position p i investor =
     (case map_get (get_positions_map p i) investor of
        Some q \<Rightarrow> q
      | None \<Rightarrow> \<lparr>pos_investor = investor, pos_invoice_id = i, pos_contributed = 0, pos_share_bps = 0,
                 pos_yield_claimed = 0\<rparr>)"

definition transfer_position :: "env \<Rightarrow> world \<Rightarrow> u64 \<Rightarrow> address \<Rightarrow> address \<Rightarrow> world pool_result" where
  "transfer_position e w i from_addr to_addr =
     (let p = w_pool w in
      rbind (trade_guard e p from_addr i) (\<lambda>_.
      if from_addr = to_addr then Inl (Err FP_InvalidAddress)
      else
        rbind (open_pool p i) (\<lambda>_.
        rbind (ok_or (map_get (get_positions_map p i) from_addr) (Err FP_PositionNotFound)) (\<lambda>position.
        let positions = map_remove from_addr (get_positions_map p i) in
        Inr (put_pool (put_positions i
               (map_set to_addr (position\<lparr>pos_investor := to_addr\<rparr>) positions) p) w)))))"

section \<open>Upgrade\<close>

definition pool_propose_upgrade :: "env \<Rightarrow> world \<Rightarrow> address \<Rightarrow> bytes \<Rightarrow> world pool_result" where
  "pool_propose_upgrade e w admin h =
     pool_admin_set e w admin (Inr ()) (\<lambda>p. p\<lparr>fp_upgrade := Some (h, timestamp e)\<rparr>)"

definition pool_execute_upgrade :: "env \<Rightarrow> world \<Rightarrow> address \<Rightarrow> (world \<times> bytes) pool_result" where
  "pool_execute_upgrade e w admin =
     (let p = w_pool w in
      rbind (require_auth e admin) (\<lambda>_.
      rbind (pool_require_admin p admin) (\<lambda>_.
      rbind (ok_or (fp_upgrade p) (Err FP_NoUpgradeProposed)) (\<lambda>(wasm_hash, proposed_at).
      rbind (ok_or (u64_add proposed_at UPGRADE_TIMELOCK_DELAY) Trap) (\<lambda>ready.
      if timestamp e < ready then Inl (Err FP_UpgradeTimelockNotElapsed)
      else Inr (put_pool (p\<lparr>fp_upgrade := None\<rparr>) w, wasm_hash))))))"

section \<open>Reading off the guards\<close>

lemma open_pool_Inr_iff [simp]:
  "open_pool p i = Inr pl \<longleftrightarrow> fp_pools p i = Some pl \<and> \<not> pl_is_closed pl"
  by (auto simp: open_pool_def)

lemma trade_guard_Inr_iff [simp]:
  "trade_guard e p a i = Inr u \<longleftrightarrow> \<not> fp_escrow_pending p i \<and> authorised e a \<and>
     (\<exists>ac. fp_access_control p = Some ac \<and> \<not> view_is_paused e ac)"
  by (auto simp: trade_guard_def)

lemma find_share_Inr_iff [simp]:
  "find_share p i a k = Inr (m, sh) \<longleftrightarrow> fp_shares p i a = Some m \<and> map_get m (i, a, k) = Some sh"
  by (auto simp: find_share_def)

end
