(* ===== verification/Pool_Yield.thy ===== *)
theory Pool_Yield
  imports Financing_Pool
begin

text \<open>
  What a yield distribution pays.  The calls it records are transfers out of the pool whose sum
  is, position by position, exactly the position's payout as long as the position was not split
  into more than it contributed; the payouts together stay within the amount distributed.
\<close>

section \<open>Shares of one position\<close>

definition share_payout :: "i128 \<Rightarrow> i128 \<Rightarrow> PositionShare \<Rightarrow> i128" where
  "share_payout payout contributed sh = sh_amount sh * payout div contributed"

lemma share_payout_step:
  assumes "Option.bind (i128_mul a payout) (\<lambda>v. i128_div v c) = Some n" "0 \<le> a" "0 \<le> payout" "0 < c"
  shows "n = a * payout div c" "0 \<le> n"
proof -
  have "i128_mul a payout = Some (a * payout)" using assms(1) by (cases "i128_mul a payout") auto
  moreover from this have "a * payout \<le> i128_max" by simp
  moreover have "0 \<le> a * payout" using assms by simp
  ultimately show "n = a * payout div c" using assms(1,4) by (simp add: i128_div_nonneg)
  then show "0 \<le> n" using \<open>0 \<le> a * payout\<close> assms(4) by (simp add: pos_imp_zdiv_nonneg_iff)
qed

lemma pay_shares_calls:
  assumes "pay_shares e tok payout c shs d w = Inr (w', d')" "0 \<le> payout" "0 < c" "0 \<le> d"
    and "\<forall>sh\<in>set shs. 0 \<le> sh_amount sh"
    and "d + (\<Sum>sh\<leftarrow>shs. share_payout payout c sh) \<le> i128_max"
  shows "\<exists>cs. w' = w\<lparr>w_calls := w_calls w @ cs\<rparr> \<and>
    moved_out tok (self_addr e) cs = (\<Sum>sh\<leftarrow>shs. share_payout payout c sh) \<and>
    d' = d + (\<Sum>sh\<leftarrow>shs. share_payout payout c sh)"
  using assms
proof (induction shs arbitrary: d w)
  case Nil
  then show ?case by (intro exI[of _ "[]"]) simp
next
  case (Cons sh shs)
  from Cons.prems(1) obtain n where n: "Option.bind (i128_mul (sh_amount sh) payout) (\<lambda>v. i128_div v c) = Some n"
    and run: "pay_shares e tok payout c shs (i128_sat_add d n) (emit (Transfer tok (self_addr e) (sh_owner sh) n) w) = Inr (w', d')"
    by auto
  have np: "n = share_payout payout c sh" "0 \<le> n"
    using share_payout_step[OF n _ Cons.prems(2,3)] Cons.prems(5) by (simp_all add: share_payout_def)
  have rest: "0 \<le> (\<Sum>sh\<leftarrow>shs. share_payout payout c sh)"
    using Cons.prems(2,3,5) by (intro sum_list_nonneg) (auto simp: share_payout_def pos_imp_zdiv_nonneg_iff)
  have sat: "i128_sat_add d n = d + n"
    using Cons.prems(4,6) np rest by (auto simp: i128_sat_add_def intro!: i128_clamp_id)
  have "0 \<le> i128_sat_add d n"
    "i128_sat_add d n + (\<Sum>sh\<leftarrow>shs. share_payout payout c sh) \<le> i128_max"
    using Cons.prems(4,6) np sat by auto
  with Cons.IH[OF run Cons.prems(2,3)] Cons.prems(5) obtain cs where
    "w' = (emit (Transfer tok (self_addr e) (sh_owner sh) n) w)\<lparr>w_calls := w_calls w @ [Transfer tok (self_addr e) (sh_owner sh) n] @ cs\<rparr>"
    "moved_out tok (self_addr e) cs = (\<Sum>sh\<leftarrow>shs. share_payout payout c sh)"
    "d' = d + n + (\<Sum>sh\<leftarrow>shs. share_payout payout c sh)"
    by (auto simp: sat)
  then show ?case
    using np by (intro exI[of _ "Transfer tok (self_addr e) (sh_owner sh) n # cs"]) (simp add: emit_def)
qed

lemma share_payouts_le:
  assumes "0 \<le> payout" "0 < c" "\<forall>sh\<in>set shs. 0 \<le> sh_amount sh" "(\<Sum>sh\<leftarrow>shs. sh_amount sh) \<le> c"
  shows "(\<Sum>sh\<leftarrow>shs. share_payout payout c sh) \<le> payout"
proof -
  have "(\<Sum>sh\<leftarrow>shs. share_payout payout c sh) \<le> (\<Sum>sh\<leftarrow>shs. sh_amount sh * payout) div c"
    unfolding share_payout_def using assms by (intro div_sum_list_le) auto
  also have "(\<Sum>sh\<leftarrow>shs. sh_amount sh * payout) = (\<Sum>sh\<leftarrow>shs. sh_amount sh) * payout"
    by (simp add: sum_list_mult_const)
  also have "(\<Sum>sh\<leftarrow>shs. sh_amount sh) * payout div c \<le> c * payout div c"
    using assms by (intro zdiv_mono1 mult_right_mono) auto
  finally show ?thesis using assms(2) by simp
qed

section \<open>One position\<close>

text \<open>A position that was not split into more than it contributed.\<close>

definition fairly_split :: "pool_state \<Rightarrow> u64 \<Rightarrow> address \<Rightarrow> Position \<Rightarrow> bool" where
  "fairly_split p i a q \<longleftrightarrow> 0 < pos_contributed q \<and>
     (\<forall>sh\<in>set (map_values (shares_of p i a)). 0 \<le> sh_amount sh) \<and>
     (\<Sum>sh\<leftarrow>map_values (shares_of p i a). sh_amount sh) \<le> pos_contributed q"

lemma pay_position_calls:
  assumes "pay_position e i tok tot a q w = Inr w'" "fairly_split (w_pool w) i a q" "tot \<le> i128_max"
  shows "\<exists>cs n. w' = w\<lparr>w_calls := w_calls w @ cs\<rparr> \<and> moved_out tok (self_addr e) cs = n \<and>
    bps_of_normalized tot (pos_share_bps q) (token_decimals e tok) = Inr n"
proof -
  let ?shs = "map_values (shares_of (w_pool w) i a)"
  from assms(1) obtain n where n: "bps_of_normalized tot (pos_share_bps q) (token_decimals e tok) = Inr n"
    and sub: "n - pos_contributed q \<le> i128_max"
    by (auto simp: pay_position_def)
  note nn = bps_of_normalized_le[OF n assms(3)]
  have fair: "0 < pos_contributed q" "\<forall>sh\<in>set ?shs. 0 \<le> sh_amount sh"
    "(\<Sum>sh\<leftarrow>?shs. sh_amount sh) \<le> pos_contributed q"
    using assms(2) by (simp_all add: fairly_split_def)
  show ?thesis
  proof (cases "foldl i128_sat_add 0 (map sh_amount ?shs) > 0 \<and> ?shs \<noteq> []")
    case False
    with assms(1) n have "w' = emit (Transfer tok (self_addr e) a n) w"
      by (auto simp: pay_position_def Let_def)
    with n show ?thesis by (intro exI[of _ "[Transfer tok (self_addr e) a n]"]) (simp add: emit_def)
  next
    case True
    with assms(1) n obtain w1 d where
      run: "pay_shares e tok n (pos_contributed q) ?shs 0 w = Inr (w1, d)"
      and w': "w' = (if i128_sat_sub n d > 0 then emit (Transfer tok (self_addr e) a (i128_sat_sub n d)) w1 else w1)"
      by (auto simp: pay_position_def Let_def)
    have le: "(\<Sum>sh\<leftarrow>?shs. share_payout n (pos_contributed q) sh) \<le> n"
      using share_payouts_le[OF nn(2) fair] .
    have nmax: "n \<le> i128_max" using run True n by (auto dest!: bps_of_normalized_max)
    have "\<exists>cs. w1 = w\<lparr>w_calls := w_calls w @ cs\<rparr> \<and>
        moved_out tok (self_addr e) cs = (\<Sum>sh\<leftarrow>?shs. share_payout n (pos_contributed q) sh) \<and>
        d = 0 + (\<Sum>sh\<leftarrow>?shs. share_payout n (pos_contributed q) sh)"
      using le nmax by (intro pay_shares_calls[OF run nn(2) fair(1) _ fair(2)]) auto
    then obtain cs where cs: "w1 = w\<lparr>w_calls := w_calls w @ cs\<rparr>" "moved_out tok (self_addr e) cs = d"
      and d: "d = (\<Sum>sh\<leftarrow>?shs. share_payout n (pos_contributed q) sh)" by auto
    have d0: "0 \<le> d" unfolding d using fair nn(2)
      by (intro sum_list_nonneg) (auto simp: share_payout_def pos_imp_zdiv_nonneg_iff)
    have dn: "d \<le> n" using le d by simp
    have sat: "i128_sat_sub n d = n - d"
      using dn d0 nmax by (auto simp: i128_sat_sub_def intro!: i128_clamp_id)
    show ?thesis
      by (rule exI[of _ "cs @ (if n - d > 0 then [Transfer tok (self_addr e) a (n - d)] else [])"], rule exI[of _ n])
        (use cs n w' sat dn in \<open>auto simp: emit_def\<close>)
  qed
qed

section \<open>A whole distribution\<close>

lemma pay_positions_calls:
  assumes "pay_positions e i tok tot m c w = Inr (w', c')" "0 \<le> tot" "tot \<le> i128_max"
    and "\<forall>(a, q)\<in>set m. fairly_split (w_pool w) i a q"
  shows "\<exists>cs. w' = w\<lparr>w_calls := w_calls w @ cs\<rparr> \<and>
    0 \<le> moved_out tok (self_addr e) cs \<and>
    moved_out tok (self_addr e) cs * 10000 \<le> tot * (\<Sum>q\<leftarrow>map_values m. int (pos_share_bps q))"
  using assms
proof (induction m arbitrary: c w)
  case Nil
  then show ?case by (intro exI[of _ "[]"]) (simp add: map_values_def)
next
  case (Cons x m)
  obtain a q where x: "x = (a, q)" by (cases x)
  with Cons.prems(1) obtain w1 where one: "pay_position e i tok tot a q w = Inr w1"
    and rest: "pay_positions e i tok tot m (i128_sat_add c (pos_contributed q)) w1 = Inr (w', c')" by auto
  from pay_position_calls[OF one _ Cons.prems(3)] Cons.prems(4) x obtain cs n where
    cs: "w1 = w\<lparr>w_calls := w_calls w @ cs\<rparr>" "moved_out tok (self_addr e) cs = n"
    and n: "bps_of_normalized tot (pos_share_bps q) (token_decimals e tok) = Inr n" by auto
  note nn = bps_of_normalized_le[OF n Cons.prems(3)]
  from Cons.IH[OF rest Cons.prems(2,3)] Cons.prems(4) cs(1) obtain ds where
    ds: "w' = w1\<lparr>w_calls := w_calls w1 @ ds\<rparr>" "0 \<le> moved_out tok (self_addr e) ds"
    "moved_out tok (self_addr e) ds * 10000 \<le> tot * (\<Sum>q\<leftarrow>map_values m. int (pos_share_bps q))" by auto
  show ?case
  proof (intro exI[of _ "cs @ ds"] conjI)
    show "w' = w\<lparr>w_calls := w_calls w @ cs @ ds\<rparr>" using cs(1) ds(1) by simp
    show "0 \<le> moved_out tok (self_addr e) (cs @ ds)" using cs(2) ds(2) nn(2) by simp
    show "moved_out tok (self_addr e) (cs @ ds) * 10000
        \<le> tot * (\<Sum>q\<leftarrow>map_values (x # m). int (pos_share_bps q))"
      using cs(2) ds(3) nn(3) x by (simp add: map_values_def algebra_simps)
  qed
qed

text \<open>The pool state during and after a distribution: only the penalty cut and the aggregate of
  the token change.\<close>

lemma pay_shares_pool: "pay_shares e tok payout c shs d w = Inr (w', d') \<Longrightarrow> w_pool w' = w_pool w \<and> w_nft w' = w_nft w"
  by (induction shs arbitrary: d w) auto

lemma pay_position_pool: "pay_position e i tok tot a q w = Inr w' \<Longrightarrow> w_pool w' = w_pool w \<and> w_nft w' = w_nft w"
  by (auto simp: pay_position_def Let_def dest!: pay_shares_pool split: if_splits)

lemma pay_positions_pool:
  "pay_positions e i tok tot m c w = Inr (w', c') \<Longrightarrow> w_pool w' = w_pool w \<and> w_nft w' = w_nft w"
  by (induction m arbitrary: c w) (fastforce dest!: pay_position_pool)+

lemma distribute_yield_frame:
  assumes "distribute_yield e i tok tot w = Inr w'"
  shows "w_nft w' = w_nft w \<and>
    (\<exists>n. w_pool w' = (w_pool w)\<lparr>fp_penalty_cut := (fp_penalty_cut (w_pool w))(i := None),
       fp_aggregate := (fp_aggregate (w_pool w))(tok \<mapsto> n)\<rparr>)"
  using assms
  by (auto simp: distribute_yield_def Let_def dest!: pay_positions_pool split: if_splits)

text \<open>The treasury's cut on record starts at zero, is cleared by a distribution and otherwise only
  grows, by a part of a late penalty.\<close>

lemma late_penalty_cut:
  assumes "late_penalty e i due p pl = Inr (p1, pl1)"
  shows "p1 = p \<or> (\<exists>pen b c. bps_of pen b = Inr c \<and>
    fp_penalty_cut p1 = (fp_penalty_cut p)(i \<mapsto> i128_sat_add (penalty_cut p i) c))"
proof (cases "\<not> pl_penalty_applied pl \<and> get_late_penalty_bps e p > 0 \<and> timestamp e > due")
  case True
  with assms show ?thesis by (fastforce simp: late_penalty_def Let_def)
next
  case False
  with assms show ?thesis by (simp add: late_penalty_def Let_def)
qed

lemma i128_sat_add_nonneg: "0 \<le> a \<Longrightarrow> 0 \<le> b \<Longrightarrow> 0 \<le> i128_sat_add a b"
  by (simp add: i128_sat_add_def i128_clamp_def i128_max_def)

lemma penalty_cut_nonneg:
  assumes "late_penalty e i due p pl = Inr (p1, pl1)" "0 \<le> penalty_cut p i"
  shows "0 \<le> penalty_cut p1 i"
  using late_penalty_cut[OF assms(1)]
proof (elim disjE exE conjE)
  fix pen b c
  assume c: "bps_of pen b = Inr c" and p1: "fp_penalty_cut p1 = (fp_penalty_cut p)(i \<mapsto> i128_sat_add (penalty_cut p i) c)"
  have "0 \<le> c" using c by (auto simp: bps_of_Inr_iff pos_imp_zdiv_nonneg_iff)
  with p1 i128_sat_add_nonneg[OF assms(2)] show ?thesis by (simp add: penalty_cut_def)
qed (use assms(2) in simp)

lemma pay_positions_nonneg:
  assumes "pay_positions e i tok tot m c w = Inr r" "m \<noteq> []" "tot \<le> i128_max"
  shows "0 \<le> tot"
proof -
  obtain a q m' where "m = (a, q) # m'" using assms(2) by (metis list.exhaust surj_pair)
  with assms(1) obtain n where "bps_of_normalized tot (pos_share_bps q) (token_decimals e tok) = Inr n"
    by (auto simp: pay_position_def)
  then show ?thesis by (rule bps_of_normalized_le(1)) (rule assms(3))
qed

text \<open>C10: A distribution to the positions of a pool never pays out more of the token than the
  amount it distributes, the treasury's part of the late penalty included, as long as the
  positions' shares add up to at most 100%, no position was split into more than it contributed,
  and the treasury's part on record is not negative (which \<open>penalty_cut_nonneg\<close> shows of the code).
  In particular it fails when the treasury's part is more than the amount.  Only a pool without any
  position escapes this: nothing is compared there, and exactly the treasury's part is paid.\<close>

theorem distribution_within_amount:
  assumes "distribute_yield e i tok tot w = Inr w'" "0 \<le> tot" "tot \<le> i128_max"
    and "0 \<le> penalty_cut (w_pool w) i" "penalty_cut (w_pool w) i \<le> i128_max"
    and "(\<Sum>q\<leftarrow>map_values (get_positions_map (w_pool w) i). int (pos_share_bps q)) \<le> 10000"
    and "\<forall>(a, q)\<in>set (get_positions_map (w_pool w) i). fairly_split (w_pool w) i a q"
  shows "\<exists>cs. w_calls w' = w_calls w @ cs \<and>
    (if get_positions_map (w_pool w) i = [] then moved_out tok (self_addr e) cs = penalty_cut (w_pool w) i
     else penalty_cut (w_pool w) i \<le> tot \<and> moved_out tok (self_addr e) cs \<le> tot)"
proof -
  let ?cut = "penalty_cut (w_pool w) i" and ?m = "get_positions_map (w_pool w) i"
  let ?w1 = "put_pool ((w_pool w)\<lparr>fp_penalty_cut := (fp_penalty_cut (w_pool w))(i := None)\<rparr>) w"
  have sat: "i128_sat_sub tot ?cut = tot - ?cut"
    using assms(2-5) by (auto simp: i128_sat_sub_def i128_min_def i128_max_def intro!: i128_clamp_id)
  from assms(1) obtain w2 w3 c where
    w2: "(if ?cut > 0 then rbind (ok_or (fp_treasury (w_pool w)) (Err FP_NotInitialized)) (\<lambda>treasury.
               Inr (emit (CollectFee treasury tok ?cut) (emit (Transfer tok (self_addr e) treasury ?cut) ?w1)))
             else Inr ?w1) = (Inr w2 :: world pool_result)"
    and w3: "pay_positions e i tok (tot - ?cut) ?m 0 w2 = Inr (w3, c)"
    and w': "w_calls w' = w_calls w3"
    by (auto simp: distribute_yield_def Let_def sat)
  from w2 obtain bs where bs: "w_calls w2 = w_calls w @ bs" "moved_out tok (self_addr e) bs = ?cut"
    and p2: "shares_of (w_pool w2) = shares_of (w_pool w)"
    using assms(4) by (cases "?cut > 0") (auto simp: shares_of_def fun_eq_iff)
  show ?thesis
  proof (cases "?m = []")
    case True
    with w3 w' bs show ?thesis by auto
  next
    case False
    have cut: "?cut \<le> tot"
      using pay_positions_nonneg[OF w3 False] assms(3,4) by simp
    have "\<forall>(a, q)\<in>set ?m. fairly_split (w_pool w2) i a q"
      using assms(7) by (simp add: fairly_split_def p2)
    with pay_positions_calls[OF w3] assms(3,4) cut obtain cs where
      cs: "w3 = w2\<lparr>w_calls := w_calls w2 @ cs\<rparr>" "0 \<le> moved_out tok (self_addr e) cs"
      "moved_out tok (self_addr e) cs * 10000 \<le> (tot - ?cut) * (\<Sum>q\<leftarrow>map_values ?m. int (pos_share_bps q))"
      by auto
    have "(tot - ?cut) * (\<Sum>q\<leftarrow>map_values ?m. int (pos_share_bps q)) \<le> (tot - ?cut) * 10000"
      using cut assms(6) by (intro mult_left_mono) auto
    with cs(3) have "moved_out tok (self_addr e) cs \<le> tot - ?cut" by simp
    with bs cs(1) w' cut False show ?thesis by (intro exI[of _ "bs @ cs"]) simp
  qed
qed

end
