(* ===== verification/Pool_Trading.thy ===== *)
theory Pool_Trading
  imports Pool_Yield Nft_Lifecycle
begin

text \<open>
  Positions, shares and their trade: what recording, transferring, buying and splitting do to
  the distribution of a pool among its investors.  The example world at the start is shared by
  the witnesses of the pool's properties.
\<close>

section \<open>An example world\<close>

text \<open>Pool contract 1, invoice contract 50, admin 10, SME 20, treasury 60; invoice 1 over 30000
  is listed.  The operations of an example run in order.\<close>

definition nft_env :: env where "nft_env = sample_env\<lparr>self_addr := 50\<rparr>"

definition sample_nft :: nft_state where
  "sample_nft = after_calls nft_env [Call_initialize 10 11, Call_set_authorized_callers 10 30 1,
     Call_mint_invoice 20 [7] 30000 ''USDC'' 2000 ''cid'' 15 None, Call_set_listed 30 1]"

fun run_ops :: "(world \<Rightarrow> world pool_result) list \<Rightarrow> world \<Rightarrow> world pool_result" where
  "run_ops [] w = Inr w"
| "run_ops (f # fs) w = rbind (f w) (run_ops fs)"

definition after_ops :: "(world \<Rightarrow> world pool_result) list \<Rightarrow> world" where
  "after_ops fs = (let w = \<lparr>w_pool = pool_empty, w_nft = sample_nft, w_calls = []\<rparr> in
     case run_ops fs w of Inr w' \<Rightarrow> w' | Inl _ \<Rightarrow> w)"

definition setup_ops :: "(world \<Rightarrow> world pool_result) list" where
  "setup_ops =
     [\<lambda>w. pool_initialize sample_env w 10 50 51 60 11 500 52 10000 100 53,
      \<lambda>w. release_funds sample_env w 30 1 70]"

definition two_positions :: "(world \<Rightarrow> world pool_result) list" where
  "two_positions = setup_ops @
     [\<lambda>w. record_position sample_env w 10 1 80 10000 30000,
      \<lambda>w. record_position sample_env w 10 1 81 15000 30000]"

named_theorems pool_eval
lemmas [pool_eval] = setup_ops_def two_positions_def after_ops_def sample_nft_def nft_env_def
  pool_empty_def pool_initialize_def release_funds_def record_position_def pool_put_def
  put_positions_def get_positions_map_def map_new_def map_get_def map_remove_def map_values_def
  map_has_def get_stats_def aggregate_funded_def get_registry_bps_def get_late_penalty_bps_def
  get_max_position_bps_def get_late_penalty_split_def get_grace_period_def pool_token_currency_def
  convert_if_needed_def load_invoice_def nft_call_on_def call_set_funded_def call_set_repaid_def
  call_set_defaulted_def callee_env_def pool_require_admin_def pool_require_not_paused_def
  require_no_escrow_def require_no_escrow_credit_def get_pool_def open_pool_def trade_guard_def
  shares_of_def put_shares_def find_share_def set_share_offer_def split_position_def
  transfer_share_def list_share_for_sale_def buy_share_def transfer_position_def buy_position_def
  set_sale_offer_def list_position_for_sale_def emit_def put_pool_def lock_pool_def unlock_pool_def
  unlock_world_def pool_admin_set_def pay_position_def penalty_cut_def distribute_yield_def
  late_penalty_def take_installment_def credit_repayment_def repay_stats_def repay_internal_def
  repay_def repay_partial_def mark_default_def propose_repayment_def approve_repayment_def
  execute_repayment_def put_approval_def get_invoice_def is_invoice_frozen_def pool_from_common_def
  POOL_MAX_AMOUNT_def REPAYMENT_APPROVAL_THRESHOLD_def MAX_POSITIONS_PER_POOL_def
  POOL_SCHEMA_VERSION_def bps_of_def bps_of_normalized_def normalize_amount_def
  denormalize_amount_def STANDARD_DECIMALS_def share_payout_def signed_divide_int_def
  propose_early_settlement_def accept_early_settlement_def put_early_def remaining_owed_def
  set_installment_schedule_def net_allocations_def

theorem distribution_within_amount_witness:
  "\<exists>w w' cs. distribute_yield sample_env 1 70 30000 w = Inr w' \<and> penalty_cut (w_pool w) 1 = 500 \<and>
     w_calls w' = w_calls w @ cs \<and> moved_out 70 1 cs \<le> 30000"
proof -
  let ?w0 = "after_ops two_positions"
  let ?w = "put_pool ((w_pool ?w0)\<lparr>fp_penalty_cut := [1 \<mapsto> 500]\<rparr>) ?w0"
  obtain w' where run: "distribute_yield sample_env 1 70 30000 ?w = Inr w'"
    by (simp add: pool_eval nft_eval sgn_if)
  have cut: "penalty_cut (w_pool ?w) 1 = 500" by (simp add: pool_eval)
  have sum: "(\<Sum>q\<leftarrow>map_values (get_positions_map (w_pool ?w) 1). int (pos_share_bps q)) \<le> 10000"
    by (simp add: pool_eval nft_eval)
  have fair: "\<forall>(a, q)\<in>set (get_positions_map (w_pool ?w) 1). fairly_split (w_pool ?w) 1 a q"
    by (simp add: fairly_split_def pool_eval nft_eval)
  have pos: "get_positions_map (w_pool ?w) 1 \<noteq> []" by (simp add: pool_eval nft_eval)
  have "\<exists>cs. w_calls w' = w_calls ?w @ cs \<and>
     (if get_positions_map (w_pool ?w) 1 = [] then moved_out 70 (self_addr sample_env) cs = penalty_cut (w_pool ?w) 1
      else penalty_cut (w_pool ?w) 1 \<le> 30000 \<and> moved_out 70 (self_addr sample_env) cs \<le> 30000)"
    by (rule distribution_within_amount[OF run _ _ _ _ sum fair]) (simp_all only: cut, simp_all add: i128_max_def)
  moreover have "self_addr sample_env = 1" by (simp add: sample_env_def)
  ultimately show ?thesis using run cut pos by metis
qed

section \<open>Recording a position\<close>

lemma i128_as_u32_id: "0 \<le> x \<Longrightarrow> x \<le> 10000 \<Longrightarrow> i128_as_u32 x = nat x"
  by (simp add: i128_as_u32_def)

text \<open>Recording a position stores the investor's contribution with a share of exactly
  \<open>contributed * 10000 / total_pool\<close> basis points rounded down, never above the concentration cap
  or 100%; other investors keep theirs, and the aggregate of the pool's token moves by the change
  in what this pool's investors have contributed.\<close>

theorem record_position_effect:
  assumes "record_position e w caller i a n tot = Inr w'"
    and "map_ok (get_positions_map (w_pool w) i)" "fp_pools (w_pool w) i = Some pl"
  shows "0 < n \<and> n \<le> tot \<and>
    map_get (get_positions_map (w_pool w') i) a =
      Some \<lparr>pos_investor = a, pos_invoice_id = i, pos_contributed = n,
            pos_share_bps = nat (n * 10000 div tot), pos_yield_claimed = 0\<rparr> \<and>
    nat (n * 10000 div tot) \<le> get_max_position_bps e (w_pool w) \<and> n * 10000 div tot \<le> 10000 \<and>
    (\<forall>b. b \<noteq> a \<longrightarrow> map_get (get_positions_map (w_pool w') i) b = map_get (get_positions_map (w_pool w) i) b) \<and>
    aggregate_funded (w_pool w') (pl_token pl) - aggregate_funded (w_pool w) (pl_token pl) =
      (\<Sum>q\<leftarrow>map_values (get_positions_map (w_pool w') i). pos_contributed q) -
      (\<Sum>q\<leftarrow>map_values (get_positions_map (w_pool w) i). pos_contributed q)"
proof -
  let ?m = "get_positions_map (w_pool w) i"
  from assms(1,3) obtain share where g: "0 < n" "n \<le> tot" "0 < tot"
    "Option.bind (i128_mul n 10000) (\<lambda>v. i128_div v tot) = Some share"
    "i128_as_u32 share \<le> get_max_position_bps e (w_pool w)"
    and w': "get_positions_map (w_pool w') i = map_set a \<lparr>pos_investor = a, pos_invoice_id = i,
        pos_contributed = n, pos_share_bps = i128_as_u32 share, pos_yield_claimed = 0\<rparr> ?m"
      "aggregate_funded (w_pool w') (pl_token pl) = aggregate_funded (w_pool w) (pl_token pl) -
         (case map_get ?m a of None \<Rightarrow> 0 | Some q \<Rightarrow> pos_contributed q) + n"
    by (auto simp: record_position_def Let_def get_positions_map_def put_positions_def
        aggregate_funded_def split: Option.bind_splits)
  have "n * 10000 \<le> i128_max" using g(4) by (auto split: Option.bind_splits)
  with g have share: "share = n * 10000 div tot"
    by (auto simp: i128_div_nonneg split: Option.bind_splits)
  have "n * 10000 div tot \<le> tot * 10000 div tot" using g by (intro zdiv_mono1) auto
  with g(3) have le: "n * 10000 div tot \<le> 10000" by simp
  have "0 \<le> n * 10000 div tot" using g by (simp add: pos_imp_zdiv_nonneg_iff)
  with le share have u: "i128_as_u32 share = nat (n * 10000 div tot)" by (simp add: i128_as_u32_id)
  show ?thesis
    using g(1,2,5) w' le assms(2)
      hm.sum_set[OF assms(2), of pos_contributed a "\<lparr>pos_investor = a, pos_invoice_id = i,
        pos_contributed = n, pos_share_bps = i128_as_u32 share, pos_yield_claimed = 0\<rparr>"]
    by (simp add: u hm.get_set)
qed

theorem record_position_effect_witness:
  "\<exists>w w'. record_position sample_env w 10 1 80 10000 30000 = Inr w' \<and>
     map_get (get_positions_map (w_pool w') 1) 80 = Some \<lparr>pos_investor = 80, pos_invoice_id = 1,
       pos_contributed = 10000, pos_share_bps = 3333, pos_yield_claimed = 0\<rparr>"
proof -
  let ?w = "after_ops setup_ops"
  have "is_ok (record_position sample_env ?w 10 1 80 10000 30000)" by (simp add: pool_eval nft_eval)
  then obtain w' where r: "record_position sample_env ?w 10 1 80 10000 30000 = Inr w'" by (auto simp: is_ok_iff)
  obtain pl where pl: "fp_pools (w_pool ?w) 1 = Some pl" by (simp add: pool_eval nft_eval)
  have "map_ok (get_positions_map (w_pool ?w) 1)" by (simp add: pool_eval nft_eval map_ok_def)
  from record_position_effect[OF r this pl] r show ?thesis by auto
qed

section \<open>Moving a position\<close>

text \<open>Transferring a position hands the investor's whole stake to the receiver; a position
  the receiver already had in the pool is overwritten, so the pool's shares shrink by exactly what
  the receiver held before.\<close>

theorem transfer_position_overwrites:
  assumes "transfer_position e w i a b = Inr w'" "map_ok (get_positions_map (w_pool w) i)"
  shows "\<exists>q. map_get (get_positions_map (w_pool w) i) a = Some q \<and>
    map_get (get_positions_map (w_pool w') i) b = Some (q\<lparr>pos_investor := b\<rparr>) \<and>
    map_get (get_positions_map (w_pool w') i) a = None \<and>
    (\<Sum>x\<leftarrow>map_values (get_positions_map (w_pool w') i). int (pos_share_bps x)) =
      (\<Sum>x\<leftarrow>map_values (get_positions_map (w_pool w) i). int (pos_share_bps x)) -
      (case map_get (get_positions_map (w_pool w) i) b of None \<Rightarrow> 0 | Some x \<Rightarrow> int (pos_share_bps x))"
proof -
  let ?m = "get_positions_map (w_pool w) i"
  from assms(1) obtain q where q: "map_get ?m a = Some q" and ab: "a \<noteq> b" and
    m': "get_positions_map (w_pool w') i = map_set b (q\<lparr>pos_investor := b\<rparr>) (map_remove a ?m)"
    by (auto simp: transfer_position_def Let_def get_positions_map_def put_positions_def)
  have ok: "map_ok (map_remove a ?m)" using assms(2) by (rule map_remove_ok)
  show ?thesis
    using q ab hm.sum_move[OF assms(2) q ab, of "\<lambda>x. int (pos_share_bps x)" "q\<lparr>pos_investor := b\<rparr>"]
    by (simp add: m' hm.get_set[OF ok] hm.get_del[OF assms(2)])
qed

theorem transfer_position_overwrites_witness:
  "\<exists>w w'. transfer_position sample_env w 1 80 81 = Inr w' \<and>
     (\<Sum>x\<leftarrow>map_values (get_positions_map (w_pool w) 1). int (pos_share_bps x)) = 8333 \<and>
     (\<Sum>x\<leftarrow>map_values (get_positions_map (w_pool w') 1). int (pos_share_bps x)) = 3333"
proof -
  let ?w = "after_ops two_positions"
  have "is_ok (transfer_position sample_env ?w 1 80 81)" by (simp add: pool_eval nft_eval)
  then obtain w' where r: "transfer_position sample_env ?w 1 80 81 = Inr w'" by (auto simp: is_ok_iff)
  have ok: "map_ok (get_positions_map (w_pool ?w) 1)" by (simp add: pool_eval nft_eval map_ok_def)
  have before: "(\<Sum>x\<leftarrow>map_values (get_positions_map (w_pool ?w) 1). int (pos_share_bps x)) = 8333"
    "(case map_get (get_positions_map (w_pool ?w) 1) 81 of None \<Rightarrow> 0 | Some x \<Rightarrow> int (pos_share_bps x)) = 5000"
    by (simp_all add: pool_eval nft_eval)
  from transfer_position_overwrites[OF r ok] before
  have "(\<Sum>x\<leftarrow>map_values (get_positions_map (w_pool w') 1). int (pos_share_bps x)) = 3333" by auto
  with r before show ?thesis by blast
qed

section \<open>Splitting and share sales\<close>

text \<open>Splitting leaves the position as it is: the same amount can be split off again, and
  every time another share of that amount comes into being.\<close>

theorem split_position_repeats:
  assumes "split_position e w a i n = Inr (w1, k)" "k < u32_max"
  shows "get_positions_map (w_pool w1) i = get_positions_map (w_pool w) i \<and>
    (\<exists>w2. split_position e w1 a i n = Inr (w2, k + 1) \<and>
       map_get (shares_of (w_pool w2) i a) (i, a, k + 1) =
         Some \<lparr>sh_invoice_id = i, sh_original_investor = a, sh_share_index = k + 1, sh_amount = n, sh_owner = a\<rparr>)"
proof -
  let ?new = "\<lambda>j. \<lparr>sh_invoice_id = i, sh_original_investor = a, sh_share_index = j, sh_amount = n, sh_owner = a\<rparr>"
  have eq: "get_positions_map (w_pool w1) i = get_positions_map (w_pool w) i"
    "fp_pools (w_pool w1) = fp_pools (w_pool w)" "fp_escrow_pending (w_pool w1) = fp_escrow_pending (w_pool w)"
    "fp_access_control (w_pool w1) = fp_access_control (w_pool w)" "fp_share_counter (w_pool w1) i a = Some k"
    using assms(1) by (auto simp: split_position_def Let_def put_shares_def get_positions_map_def)
  moreover obtain pl q where "fp_pools (w_pool w) i = Some pl" "\<not> pl_is_closed pl" "authorised e a"
    "map_get (get_positions_map (w_pool w) i) a = Some q" "0 < n" "n \<le> pos_contributed q"
    "\<not> fp_escrow_pending (w_pool w) i" "\<exists>ac. fp_access_control (w_pool w) = Some ac \<and> \<not> view_is_paused e ac"
    using assms(1) by (auto simp: split_position_def Let_def)
  moreover have "u32_sat_add k 1 = k + 1" using assms(2) by (simp add: u32_sat_add_def)
  moreover have "map_get (map_set key v m) key = Some v" for key :: share_key and v :: PositionShare and m
    by (induction key v m rule: map_set.induct) (auto simp: map_get_def)
  ultimately show ?thesis
    by (auto simp: split_position_def Let_def put_shares_def shares_of_def trade_guard_def open_pool_def
        get_pool_def require_no_escrow_def require_auth_def pool_require_not_paused_def)
qed

theorem split_position_repeats_witness:
  "\<exists>w w1 w2. split_position sample_env w 80 1 10000 = Inr (w1, 1) \<and>
     split_position sample_env w1 80 1 10000 = Inr (w2, 2)"
proof -
  let ?w = "after_ops two_positions"
  obtain w1 where r: "split_position sample_env ?w 80 1 10000 = Inr (w1, 1)"
    by (simp add: pool_eval nft_eval)
  have "(1::u32) < u32_max" by (simp add: u32_max_def)
  from split_position_repeats[OF r this] obtain w2 where
    "split_position sample_env w1 80 1 10000 = Inr (w2, 1 + 1)" by blast
  then have "split_position sample_env w1 80 1 10000 = Inr (w2, 2)" by (simp only: one_add_one)
  with r show ?thesis by blast
qed

text \<open>A listed share that its owner gives away stays on sale: the next buyer pays the former
  owner, and the share is taken from whoever holds it.\<close>

theorem stale_share_offer_sells:
  assumes "list_share_for_sale e1 w a i orig k tok price = Inr w1"
    and "transfer_share e2 w1 a i orig k b = Inr w2"
    and "authorised e3 c" "fp_access_control (w_pool w2) = Some ac" "\<not> view_is_paused e3 ac"
    and "fp_shares (w_pool w) i orig = Some m" "map_ok m"
  shows "\<exists>w3 m2 m3 sh. buy_share e3 w2 c i a orig k = Inr w3 \<and>
    fp_shares (w_pool w2) i orig = Some m2 \<and> map_get m2 (i, orig, k) = Some (sh\<lparr>sh_owner := b\<rparr>) \<and>
    fp_shares (w_pool w3) i orig = Some m3 \<and> map_get m3 (i, orig, k) = Some (sh\<lparr>sh_owner := c\<rparr>) \<and>
    w_calls w3 = w_calls w2 @ [Transfer tok c a price]"
proof -
  from assms(1,6) obtain sh pl where l: "map_get m (i, orig, k) = Some sh" "\<not> fp_lock (w_pool w) i"
    "w_pool w1 = set_share_offer i orig k (Some \<lparr>sso_seller = a, sso_invoice_id = i, sso_original_investor = orig,
        sso_share_index = k, sso_token = tok, sso_price = price\<rparr>) (w_pool w)"
    "\<not> fp_escrow_pending (w_pool w) i" "fp_pools (w_pool w) i = Some pl" "\<not> pl_is_closed pl"
    by (auto simp: list_share_for_sale_def Let_def)
  have sel: "fp_shares (w_pool w1) i orig = Some m" "fp_lock (w_pool w1) = fp_lock (w_pool w)"
    "fp_pools (w_pool w1) = fp_pools (w_pool w)" "fp_escrow_pending (w_pool w1) = fp_escrow_pending (w_pool w)"
    "fp_share_offer (w_pool w1) i orig k = Some \<lparr>sso_seller = a, sso_invoice_id = i, sso_original_investor = orig,
        sso_share_index = k, sso_token = tok, sso_price = price\<rparr>"
    by (simp_all add: l(3) set_share_offer_def assms(6))
  from assms(2) sel(1) l(1) have w2: "w_pool w2 = put_shares i orig
      (map_set (i, orig, k) (sh\<lparr>sh_owner := b\<rparr>) m) (w_pool w1)"
    by (auto simp: transfer_share_def Let_def)
  have ok2: "map_ok (map_set (i, orig, k) (sh\<lparr>sh_owner := b\<rparr>) m)" using assms(7) by (rule map_set_ok)
  have sel2: "fp_shares (w_pool w2) i orig = Some (map_set (i, orig, k) (sh\<lparr>sh_owner := b\<rparr>) m)"
    "\<not> fp_lock (w_pool w2) i" "fp_pools (w_pool w2) i = Some pl" "\<not> fp_escrow_pending (w_pool w2) i"
    "fp_share_offer (w_pool w2) i orig k = Some \<lparr>sso_seller = a, sso_invoice_id = i, sso_original_investor = orig,
        sso_share_index = k, sso_token = tok, sso_price = price\<rparr>"
    using sel l by (simp_all add: w2 put_shares_def)
  then show ?thesis
    using assms(3,4,5) l(6) hm.get_set[OF assms(7)] hm.get_set[OF ok2]
    by (auto simp: buy_share_def Let_def trade_guard_def open_pool_def get_pool_def find_share_def
        require_no_escrow_def require_auth_def pool_require_not_paused_def put_shares_def set_share_offer_def)
qed

theorem stale_share_offer_sells_witness:
  "\<exists>w w3 m3 sh. fp_shares (w_pool w3) 1 80 = Some m3 \<and> map_get m3 (1, 80, 1) = Some sh \<and> sh_owner sh = 92 \<and>
     buy_share sample_env w 92 1 80 80 1 = Inr w3 \<and>
     w_calls w3 = w_calls w @ [Transfer 70 92 80 500]"
proof -
  let ?s = "two_positions @ [\<lambda>w. rbind (split_position sample_env w 80 1 10000) (\<lambda>(w', _). Inr w')]"
  let ?w = "after_ops ?s"
  have "is_ok (list_share_for_sale sample_env ?w 80 1 80 1 70 500)" by (simp add: pool_eval nft_eval)
  then obtain w1 where l: "list_share_for_sale sample_env ?w 80 1 80 1 70 500 = Inr w1" by (auto simp: is_ok_iff)
  have "is_ok (rbind (list_share_for_sale sample_env ?w 80 1 80 1 70 500)
      (\<lambda>w1. transfer_share sample_env w1 80 1 80 1 91))" by (simp add: pool_eval nft_eval)
  then have "is_ok (transfer_share sample_env w1 80 1 80 1 91)" unfolding l by simp
  then obtain w2 where t: "transfer_share sample_env w1 80 1 80 1 91 = Inr w2" by (auto simp: is_ok_iff)
  obtain m where m: "fp_shares (w_pool ?w) 1 80 = Some m" "map_ok m"
    by (simp add: pool_eval nft_eval map_ok_def)
  have ac: "fp_access_control (w_pool ?w) = Some 11" by (simp add: pool_eval nft_eval)
  then have "fp_access_control (w_pool w2) = Some 11" using l t
    by (auto simp: list_share_for_sale_def transfer_share_def Let_def set_share_offer_def put_shares_def)
  from stale_share_offer_sells[OF l t, of sample_env 92, OF _ this _ m] show ?thesis by fastforce
qed

end
