(* ===== verification/Pool_Repay.thy ===== *)
theory Pool_Repay
  imports Pool_Trading
begin

text \<open>
  Repayment, penalties, netting, approvals, installments and default of the financing pool.
\<close>

section \<open>The late penalty\<close>

text \<open>The late penalty is charged at most once.  Its treasury part is set aside and only the
  rest is added to what is owed; since the treasury part is later taken out of the repaid amount,
  a payer who settles exactly what is owed leaves the investors \<open>penalty - 2 * treasury part\<close>
  more than without a penalty -- a loss when the treasury's split is above one half.\<close>

theorem late_penalty_accounting:
  assumes "late_penalty e i due p pl = Inr (p1, pl1)" "\<not> pl_penalty_applied pl"
    and "due < timestamp e" "0 < get_late_penalty_bps e p"
    and "get_late_penalty_split p \<le> 10000" "penalty_cut p i = 0"
  shows "\<exists>pen cut. pen = pl_face_value pl * int (get_late_penalty_bps e p) div 10000 \<and>
    cut = pen * int (get_late_penalty_split p) div 10000 \<and> 0 \<le> cut \<and> cut \<le> pen \<and>
    pl_total_owed pl1 = pl_total_owed pl + pen - cut \<and> penalty_cut p1 i = cut \<and>
    pl_total_owed pl1 - penalty_cut p1 i = pl_total_owed pl + pen - 2 * cut \<and>
    (\<forall>e' due'. late_penalty e' i due' p1 pl1 = Inr (p1, pl1))"
proof -
  from assms obtain pen cut where pc: "bps_of (pl_face_value pl) (get_late_penalty_bps e p) = Inr pen"
    "bps_of pen (get_late_penalty_split p) = Inr cut"
    and p1: "p1 = p\<lparr>fp_penalty_cut := (fp_penalty_cut p)(i \<mapsto> i128_sat_add 0 cut)\<rparr>"
    and pl1: "pl1 = pl\<lparr>pl_total_owed := pl_total_owed pl + (pen - cut), pl_penalty_applied := True\<rparr>"
    by (auto simp: late_penalty_def Let_def)
  have b: "0 \<le> cut" "cut \<le> pen" using bps_of_bounds[OF pc(2) assms(5)] by auto
  have "pen * int (get_late_penalty_split p) \<le> i128_max" "cut = pen * int (get_late_penalty_split p) div 10000"
    using pc(2) by (auto simp: bps_of_Inr_iff)
  then have "cut \<le> i128_max" using b zdiv_mono2[of "pen * int (get_late_penalty_split p)" 1 10000] by auto
  then have "i128_sat_add 0 cut = cut" using b(1) by (auto simp: i128_sat_add_def intro!: i128_clamp_id)
  then have "penalty_cut p1 i = cut" by (simp add: p1 penalty_cut_def)
  moreover have "\<forall>e' due'. late_penalty e' i due' p1 pl1 = Inr (p1, pl1)"
    by (simp add: late_penalty_def Let_def pl1)
  ultimately show ?thesis using b pc by (auto simp: bps_of_Inr_iff pl1)
qed

theorem late_penalty_accounting_witness:
  "\<exists>p1 pl1. late_penalty (sample_env\<lparr>timestamp := 5000\<rparr>) 1 2000 (pool_empty\<lparr>fp_penalty_split := Some 10000\<rparr>)
     \<lparr>pl_invoice_id = 1, pl_token = 70, pl_total_funded = 0, pl_face_value = 30000, pl_repaid_amount = 0,
      pl_is_closed = False, pl_late_penalty_bps = 500, pl_total_owed = 30000, pl_penalty_applied = False\<rparr>
     = Inr (p1, pl1) \<and> pl_total_owed pl1 - penalty_cut p1 1 = 28500"
proof -
  let ?e = "sample_env\<lparr>timestamp := 5000\<rparr>" and ?p = "pool_empty\<lparr>fp_penalty_split := Some 10000\<rparr>"
  let ?pl = "\<lparr>pl_invoice_id = 1, pl_token = 70, pl_total_funded = 0, pl_face_value = 30000,
     pl_repaid_amount = 0, pl_is_closed = False, pl_late_penalty_bps = 500, pl_total_owed = 30000,
     pl_penalty_applied = False\<rparr>"
  obtain p1 pl1 where r: "late_penalty ?e 1 2000 ?p ?pl = Inr (p1, pl1)"
    by (simp add: pool_eval int_defs)
  have h: "get_late_penalty_bps ?e ?p = 500" "get_late_penalty_split ?p = 10000" "penalty_cut ?p 1 = 0"
    by (simp_all add: pool_eval)
  from late_penalty_accounting[OF r] h have "pl_total_owed pl1 - penalty_cut p1 1 = 28500" by auto
  with r show ?thesis by blast
qed

section \<open>The effect of a repayment\<close>

lemma late_penalty_frame:
  assumes "late_penalty e i due p pl = Inr (p1, pl1)"
  shows "\<exists>c. p1 = p\<lparr>fp_penalty_cut := c\<rparr>" "pl_repaid_amount pl1 = pl_repaid_amount pl"
    "pl_is_closed pl1 = pl_is_closed pl" "pl_face_value pl1 = pl_face_value pl" "pl_token pl1 = pl_token pl"
proof -
  have "(p1 = p \<and> pl1 = pl) \<or> (\<exists>c n. p1 = p\<lparr>fp_penalty_cut := c\<rparr> \<and> pl1 = pl\<lparr>pl_total_owed := n, pl_penalty_applied := True\<rparr>)"
    using assms by (auto simp: late_penalty_def Let_def split: if_splits)
  moreover have "p = p\<lparr>fp_penalty_cut := fp_penalty_cut p\<rparr>" by simp
  ultimately show "\<exists>c. p1 = p\<lparr>fp_penalty_cut := c\<rparr>" by metis
  show "pl_repaid_amount pl1 = pl_repaid_amount pl"
    "pl_is_closed pl1 = pl_is_closed pl" "pl_face_value pl1 = pl_face_value pl" "pl_token pl1 = pl_token pl"
    using assms by (auto simp: late_penalty_def Let_def split: if_splits)
qed

text \<open>The fields a credit may touch: the pool, its schedule, its penalty cut.\<close>

lemma credit_repayment_frame:
  assumes "credit_repayment e i ivc n p pl = Inr (p1, pl1)" "\<not> pl_is_closed pl"
  shows "\<exists>c s. p1 = p\<lparr>fp_penalty_cut := c, fp_schedule := s, fp_pools := (fp_pools p)(i \<mapsto> pl1)\<rparr>"
    "pl_repaid_amount pl1 = pl_repaid_amount pl + n" "pl_token pl1 = pl_token pl"
    "pl_face_value pl1 = pl_face_value pl"
    "pl_is_closed pl1 \<longleftrightarrow> pl_total_owed pl1 \<le> pl_repaid_amount pl1"
proof -
  from assms(1) obtain q ql where c: "pl1 = ql\<lparr>pl_repaid_amount := pl_repaid_amount ql + n,
      pl_is_closed := pl_is_closed ql \<or> pl_total_owed ql \<le> pl_repaid_amount ql + n\<rparr>" "p1 = pool_put i pl1 q"
    and q: "(case fp_schedule p i of
              Some sch \<Rightarrow> rbind (take_installment e i n sch p pl) (\<lambda>(p1, pl1, sch1).
                Inr (p1\<lparr>fp_schedule := (fp_schedule p1)(i \<mapsto> sch1)\<rparr>, pl1))
            | None \<Rightarrow> late_penalty e i (inv_due_date ivc) p pl) = (Inr (q, ql) :: (pool_state \<times> Pool) pool_result)"
    by (auto simp: credit_repayment_def Let_def)
  have qs: "(\<exists>c s. q = p\<lparr>fp_penalty_cut := c, fp_schedule := s\<rparr>) \<and>
    pl_repaid_amount ql = pl_repaid_amount pl \<and> pl_is_closed ql = pl_is_closed pl \<and>
    pl_face_value ql = pl_face_value pl \<and> pl_token ql = pl_token pl"
  proof (cases "fp_schedule p i")
    case None
    with q have l: "late_penalty e i (inv_due_date ivc) p pl = Inr (q, ql)" by simp
    from late_penalty_frame(1)[OF l] obtain c where "q = p\<lparr>fp_penalty_cut := c, fp_schedule := fp_schedule p\<rparr>" by auto
    with late_penalty_frame(2-5)[OF l] show ?thesis by blast
  next
    case (Some sch)
    with q obtain q0 sch1 due where l: "late_penalty e i due p pl = Inr (q0, ql)"
      and q': "q = q0\<lparr>fp_schedule := (fp_schedule q0)(i \<mapsto> sch1)\<rparr>"
      by (auto simp: take_installment_def Let_def)
    from late_penalty_frame(1)[OF l] obtain c where "q0 = p\<lparr>fp_penalty_cut := c\<rparr>" by auto
    with q' late_penalty_frame(2-5)[OF l] show ?thesis by auto
  qed
  then obtain c s where "q = p\<lparr>fp_penalty_cut := c, fp_schedule := s\<rparr>" by blast
  with c(2) show "\<exists>c s. p1 = p\<lparr>fp_penalty_cut := c, fp_schedule := s, fp_pools := (fp_pools p)(i \<mapsto> pl1)\<rparr>"
    by (auto simp: pool_put_def)
  show "pl_repaid_amount pl1 = pl_repaid_amount pl + n" "pl_token pl1 = pl_token pl"
    "pl_face_value pl1 = pl_face_value pl"
    "pl_is_closed pl1 \<longleftrightarrow> pl_total_owed pl1 \<le> pl_repaid_amount pl1"
    using qs assms(2) by (simp_all add: c(1))
qed

lemma call_set_repaid_status:
  "call_set_repaid e nft i w = Inr w' \<Longrightarrow> \<exists>h. nx_hot (w_nft w') i = Some h \<and> hot_status h = Repaid"
  by (auto simp: call_set_repaid_def nft_call_on_def nft_core_def dest!: set_repaid_core)

lemma distribute_yield_pools:
  "distribute_yield e i tok n w = Inr w' \<Longrightarrow>
     fp_pools (w_pool w') = fp_pools (w_pool w) \<and> fp_lock (w_pool w') = fp_lock (w_pool w) \<and> w_nft w' = w_nft w"
  by (drule distribute_yield_frame) auto

text \<open>C12: A repayment that goes through credits exactly the converted amount to the open pool; the
  pool closes precisely when what is repaid covers what is owed, and then the invoice is \<open>Repaid\<close>
  at the invoice contract, while otherwise the invoice contract is untouched.  The repayment lock
  is free afterwards.\<close>

theorem repay_effect:
  assumes "repay e w payer i tok n = Inr w'"
  shows "\<exists>pl pl' ivc eff. fp_pools (w_pool w) i = Some pl \<and> \<not> pl_is_closed pl \<and>
    get_invoice (w_nft w) i = Inr ivc \<and>
    convert_if_needed e (lock_pool i (w_pool w)) n (inv_currency ivc) (pl_token pl) = Inr eff \<and>
    fp_pools (w_pool w') i = Some pl' \<and> pl_repaid_amount pl' = pl_repaid_amount pl + eff \<and>
    (pl_is_closed pl' \<longleftrightarrow> pl_total_owed pl' \<le> pl_repaid_amount pl') \<and>
    (if pl_is_closed pl' then \<exists>h. nx_hot (w_nft w') i = Some h \<and> hot_status h = Repaid
     else w_nft w' = w_nft w) \<and>
    \<not> fp_lock (w_pool w') i"
proof -
  let ?p = "lock_pool i (w_pool w)"
  from assms obtain nft pl ivc eff p1 pl1 w2 where
    pl: "fp_pools (w_pool w) i = Some pl" "\<not> pl_is_closed pl"
    and ivc: "get_invoice (w_nft w) i = Inr ivc"
    and eff: "convert_if_needed e ?p n (inv_currency ivc) (pl_token pl) = Inr eff"
    and cr: "credit_repayment e i ivc eff ?p pl = Inr (p1, pl1)"
    and w2: "(if pl_is_closed pl1 then rbind (distribute_yield e i tok (pl_repaid_amount pl1)
          (emit (Transfer tok payer (self_addr e) n) (put_pool (repay_stats eff (pl_is_closed pl1) p1) w)))
          (call_set_repaid e nft i)
        else Inr (emit (Transfer tok payer (self_addr e) n) (put_pool (repay_stats eff (pl_is_closed pl1) p1) w)))
        = (Inr w2 :: world pool_result)"
    and w': "w' = unlock_world i w2"
    by (auto simp: repay_def repay_internal_def Let_def lock_pool_def)
  note fr = credit_repayment_frame[OF cr pl(2)]
  from fr(1) have p1: "fp_pools p1 i = Some pl1" by auto
  have eqs: "fp_pools (w_pool w2) i = Some pl1 \<and>
    (if pl_is_closed pl1 then \<exists>h. nx_hot (w_nft w2) i = Some h \<and> hot_status h = Repaid else w_nft w2 = w_nft w)"
  proof (cases "pl_is_closed pl1")
    case True
    with w2 obtain w3 where d: "distribute_yield e i tok (pl_repaid_amount pl1)
          (emit (Transfer tok payer (self_addr e) n) (put_pool (repay_stats eff True p1) w)) = Inr w3"
      and s: "call_set_repaid e nft i w3 = Inr w2" by auto
    from distribute_yield_pools[OF d] nft_calls_frame(2)[OF s] call_set_repaid_status[OF s] p1 True
    show ?thesis by (simp add: repay_stats_def Let_def)
  next
    case False
    with w2 p1 show ?thesis by (auto simp: repay_stats_def Let_def)
  qed
  have "fp_pools (w_pool w') i = Some pl1" "w_nft w' = w_nft w2" "\<not> fp_lock (w_pool w') i"
    using eqs by (simp_all add: w' unlock_world_def unlock_pool_def)
  with pl ivc eff fr(2,5) eqs show ?thesis by (intro exI[of _ pl] exI[of _ pl1] exI[of _ ivc] exI[of _ eff]) auto
qed

theorem repay_effect_witness:
  "\<exists>w w' pl'. repay sample_env w 20 1 70 30000 = Inr w' \<and> fp_pools (w_pool w') 1 = Some pl' \<and>
     pl_repaid_amount pl' = 30000 \<and> pl_is_closed pl'"
proof -
  let ?w = "after_ops two_positions"
  have "is_ok (repay sample_env ?w 20 1 70 30000)" by (simp add: pool_eval nft_eval sgn_if)
  then obtain w' where r: "repay sample_env ?w 20 1 70 30000 = Inr w'" by (auto simp: is_ok_iff)
  from repay_effect[OF r] obtain pl pl' ivc eff where x: "fp_pools (w_pool ?w) 1 = Some pl"
    "get_invoice (w_nft ?w) 1 = Inr ivc"
    "convert_if_needed sample_env (lock_pool 1 (w_pool ?w)) 30000 (inv_currency ivc) (pl_token pl) = Inr eff"
    "fp_pools (w_pool w') 1 = Some pl'" "pl_repaid_amount pl' = pl_repaid_amount pl + eff"
    "pl_is_closed pl' \<longleftrightarrow> pl_total_owed pl' \<le> pl_repaid_amount pl'" by blast
  obtain q where q: "fp_pools (w_pool w') 1 = Some q" "pl_is_closed q"
    using r by (auto simp: pool_eval nft_eval sgn_if)
  have "pl_repaid_amount pl = 0" "inv_currency ivc = ''USDC''" using x(1,2) by (auto simp: pool_eval nft_eval)
  with x(3) have "eff = 30000" by (auto simp: convert_if_needed_def split: option.splits)
  with x q \<open>pl_repaid_amount pl = 0\<close> r show ?thesis by auto
qed

section \<open>Where repayment departs from its purpose\<close>

definition full_position :: "(world \<Rightarrow> world pool_result) list" where
  "full_position = setup_ops @ [\<lambda>w. record_position sample_env w 10 1 80 30000 30000]"

text \<open>\<open>repay_partial\<close> distributes the cumulative repaid amount every time: with a single
  investor holding the whole pool, two partial payments of 10000 make the pool pay out 30000 of
  its token, having received 20000.\<close>

theorem partial_repayments_pay_twice:
  "\<exists>w w1 w2. repay_partial sample_env w 20 1 70 10000 = Inr w1 \<and>
     repay_partial sample_env w1 20 1 70 10000 = Inr w2 \<and> w_calls w = [] \<and>
     moved_in 70 1 (w_calls w2) = 20000 \<and> moved_out 70 1 (w_calls w2) = 30000"
proof -
  let ?w = "after_ops full_position"
  obtain w1 where r1: "repay_partial sample_env ?w 20 1 70 10000 = Inr w1"
    by (simp add: pool_eval nft_eval sgn_if full_position_def)
  have "\<exists>w2. rbind (repay_partial sample_env ?w 20 1 70 10000) (\<lambda>w1. repay_partial sample_env w1 20 1 70 10000) = Inr w2 \<and>
      moved_in 70 1 (w_calls w2) = 20000 \<and> moved_out 70 1 (w_calls w2) = 30000"
    by (simp add: pool_eval nft_eval sgn_if full_position_def)
  then obtain w2 where "repay_partial sample_env w1 20 1 70 10000 = Inr w2"
    "moved_in 70 1 (w_calls w2) = 20000" "moved_out 70 1 (w_calls w2) = 30000"
    unfolding r1 rbind_simps by blast
  moreover have "w_calls ?w = []" by (simp add: pool_eval nft_eval full_position_def)
  ultimately show ?thesis using r1 by blast
qed

text \<open>\<open>repay\<close> takes any token: paying in a token other than the pool's closes the pool and
  marks the invoice repaid without the pool receiving anything of its own token.\<close>

theorem foreign_token_closes_pool:
  "\<exists>w w' pl pl' h. fp_pools (w_pool w) 1 = Some pl \<and> pl_token pl = 70 \<and> w_calls w = [] \<and>
     repay sample_env w 99 1 71 30000 = Inr w' \<and> fp_pools (w_pool w') 1 = Some pl' \<and> pl_is_closed pl' \<and>
     nx_hot (w_nft w') 1 = Some h \<and> hot_status h = Repaid \<and> moved_in 70 1 (w_calls w') = 0"
proof -
  let ?w = "after_ops two_positions"
  obtain pl where pl: "fp_pools (w_pool ?w) 1 = Some pl" "pl_token pl = 70" "w_calls ?w = []"
    by (simp add: pool_eval nft_eval)
  have "\<exists>w' pl' h. repay sample_env ?w 99 1 71 30000 = Inr w' \<and> fp_pools (w_pool w') 1 = Some pl' \<and> pl_is_closed pl' \<and>
     nx_hot (w_nft w') 1 = Some h \<and> hot_status h = Repaid \<and> moved_in 70 1 (w_calls w') = 0"
    by (simp add: pool_eval nft_eval sgn_if)
  with pl show ?thesis by blast
qed

section \<open>Approval of large repayments\<close>

text \<open>A series of approvals, one signer after the other.\<close>

fun approve_all :: "env \<Rightarrow> u64 \<Rightarrow> address list \<Rightarrow> world \<Rightarrow> world pool_result" where
  "approve_all e i [] w = Inr w"
| "approve_all e i (a # as) w = rbind (approve_repayment e w a i) (approve_all e i as)"

text \<open>A repayment never touches the approvals.\<close>

lemma repay_internal_approval:
  assumes "repay_internal e w payer i tok n = Inr w'"
  shows "fp_approval (w_pool w') = fp_approval (w_pool w)"
proof -
  from assms obtain nft pl ivc eff p1 pl1 w2 where
    pl: "fp_pools (lock_pool i (w_pool w)) i = Some pl" "\<not> pl_is_closed pl"
    and cr: "credit_repayment e i ivc eff (lock_pool i (w_pool w)) pl = Inr (p1, pl1)"
    and w2: "(if pl_is_closed pl1 then rbind (distribute_yield e i tok (pl_repaid_amount pl1)
          (emit (Transfer tok payer (self_addr e) n) (put_pool (repay_stats eff (pl_is_closed pl1) p1) w)))
          (call_set_repaid e nft i)
        else Inr (emit (Transfer tok payer (self_addr e) n) (put_pool (repay_stats eff (pl_is_closed pl1) p1) w)))
        = (Inr w2 :: world pool_result)"
    and w': "w' = unlock_world i w2"
    by (auto simp: repay_internal_def Let_def)
  have p1: "fp_approval p1 = fp_approval (w_pool w)"
    using credit_repayment_frame(1)[OF cr pl(2)] by (auto simp: lock_pool_def)
  have "fp_approval (w_pool w2) = fp_approval (w_pool w)"
    using w2 p1 by (auto simp: repay_stats_def Let_def split: if_splits
        dest!: distribute_yield_frame nft_calls_frame(2))
  then show ?thesis by (simp add: w' unlock_world_def unlock_pool_def)
qed

lemma approve_all_approvals:
  assumes "approve_all e i as w = Inr w'" "fp_approval (w_pool w) i = Some ap" "distinct (ra_approvals ap)"
  shows "\<exists>ap'. fp_approval (w_pool w') i = Some ap' \<and> ra_approvals ap' = ra_approvals ap @ as \<and>
    distinct (ra_approvals ap') \<and> ra_executed ap' = ra_executed ap \<and> ra_amount ap' = ra_amount ap \<and>
    (\<forall>a\<in>set as. authorised e a)"
  using assms
proof (induction as arbitrary: w ap)
  case (Cons a as)
  from Cons.prems(1) obtain w1 where one: "approve_repayment e w a i = Inr w1"
    and rest: "approve_all e i as w1 = Inr w'" by auto
  from one Cons.prems(2) have "fp_approval (w_pool w1) i = Some (ap\<lparr>ra_approvals := ra_approvals ap @ [a]\<rparr>)"
    "a \<notin> set (ra_approvals ap)" "authorised e a"
    by (auto simp: approve_repayment_def Let_def put_approval_def)
  with Cons.IH[OF rest] Cons.prems(3) show ?case by auto
qed simp

text \<open>A repayment above the threshold executes only after it was approved by at least two
  different signers, and it executes once.\<close>

theorem large_repayment_needs_two_signers:
  assumes "propose_repayment e0 w0 payer0 i n = Inr w1" "approve_all e1 i as w1 = Inr w2"
    and "execute_repayment e2 w2 payer i tok = Inr w3"
  shows "distinct as \<and> 2 \<le> length as \<and> (\<forall>a\<in>set as. authorised e1 a) \<and> REPAYMENT_APPROVAL_THRESHOLD \<le> n \<and>
    \<not> is_ok (execute_repayment e3 w3 payer' i tok')"
proof -
  have p: "fp_approval (w_pool w1) i = Some \<lparr>ra_invoice_id = i, ra_amount = n, ra_approvals = [], ra_executed = False\<rparr>"
    "REPAYMENT_APPROVAL_THRESHOLD \<le> n"
    using assms(1) by (auto simp: propose_repayment_def Let_def put_approval_def)
  from approve_all_approvals[OF assms(2) p(1)] obtain ap where ap: "fp_approval (w_pool w2) i = Some ap"
    "ra_approvals ap = as" "distinct as" "\<forall>a\<in>set as. authorised e1 a" by auto
  from assms(3) ap have two: "2 \<le> length as"
    and run: "repay_internal e2 (put_pool (put_approval i (ap\<lparr>ra_executed := True\<rparr>) (w_pool w2)) w2) payer i tok (ra_amount ap) = Inr w3"
    by (auto simp: execute_repayment_def Let_def)
  from repay_internal_approval[OF run] have "\<not> is_ok (execute_repayment e3 w3 payer' i tok')"
    by (auto simp: is_ok_iff execute_repayment_def Let_def put_approval_def)
  with ap two p show ?thesis by blast
qed

text \<open>A pool over 2 * 10^10, above the threshold.\<close>

definition large_ops :: "(world \<Rightarrow> world pool_result) list" where
  "large_ops = [\<lambda>w. Inr (w\<lparr>w_nft := after_calls nft_env [Call_initialize 10 11,
       Call_set_authorized_callers 10 30 1,
       Call_mint_invoice 20 [7] 20000000000 ''USDC'' 2000 ''cid'' 15 None, Call_set_listed 30 1]\<rparr>)] @ setup_ops"

theorem large_repayment_needs_two_signers_witness:
  "\<exists>w0 w1 w2 w3. propose_repayment sample_env w0 20 1 20000000000 = Inr w1 \<and>
     approve_all sample_env 1 [91, 92] w1 = Inr w2 \<and> execute_repayment sample_env w2 20 1 70 = Inr w3 \<and>
     \<not> is_ok (execute_repayment sample_env w3 20 1 70)"
proof -
  let ?w = "after_ops large_ops"
  obtain w1 where p: "propose_repayment sample_env ?w 20 1 20000000000 = Inr w1"
    by (simp add: pool_eval nft_eval large_ops_def)
  have "\<exists>w3. rbind (propose_repayment sample_env ?w 20 1 20000000000) (\<lambda>w1.
      rbind (approve_all sample_env 1 [91, 92] w1) (\<lambda>w2. execute_repayment sample_env w2 20 1 70)) = Inr w3"
    by (simp add: pool_eval nft_eval large_ops_def sgn_if)
  then obtain w2 w3 where r: "approve_all sample_env 1 [91, 92] w1 = Inr w2"
    "execute_repayment sample_env w2 20 1 70 = Inr w3"
    unfolding p rbind_simps rbind_Inr_iff by blast
  from large_repayment_needs_two_signers[OF p r, of sample_env 20 70] p r show ?thesis by blast
qed

section \<open>Netting\<close>

lemma net_preflight_total:
  "net_preflight w payer tok is acc = Inr (pools, tot) \<Longrightarrow>
     tot = acc + (\<Sum>pl\<leftarrow>pools. remaining_owed pl) \<and> length pools = length is \<and> tot \<le> max acc i128_max"
proof (induction "is" arbitrary: acc pools)
  case (Cons i "is")
  then obtain pl pls where "net_preflight w payer tok is (acc + remaining_owed pl) = Inr (pls, tot)"
    "pools = pl # pls" "acc + remaining_owed pl \<le> i128_max"
    by (auto simp: Let_def)
  with Cons.IH[OF this(1)] show ?case by auto
qed auto

lemma remaining_owed_nonneg: "0 \<le> remaining_owed pl"
  by (simp add: remaining_owed_def)

lemma net_allocate_floor:
  assumes "net_allocate n tot pls acc = Inr (allocs, res)" "0 \<le> n" "0 < tot"
  shows "allocs = map (\<lambda>pl. n * remaining_owed pl div tot) pls \<and> res = acc + sum_list allocs"
  using assms
proof (induction pls arbitrary: acc allocs)
  case (Cons pl pls)
  then obtain al as where al: "Option.bind (i128_mul n (remaining_owed pl)) (\<lambda>v. i128_div v tot) = Some al"
    and rest: "net_allocate n tot pls (acc + al) = Inr (as, res)" and allocs: "allocs = al # as"
    by auto
  have "n * remaining_owed pl \<le> i128_max" using al by (auto split: Option.bind_splits)
  then have "al = n * remaining_owed pl div tot"
    using al Cons.prems(2,3) remaining_owed_nonneg[of pl]
    by (auto simp: i128_div_nonneg split: Option.bind_splits)
  with Cons.IH[OF rest Cons.prems(2,3)] allocs show ?case by simp
qed simp

text \<open>C13: Netting splits a payment exactly: over the pools that passed the pre-flight checks the
  allocations add up to the amount paid, every pool but the first gets its proportional part
  rounded down, no pool gets less, and a payment within the total owed over-credits no pool but
  the first.\<close>

theorem netting_splits_exactly:
  assumes "net_preflight w payer tok is 0 = Inr (pools, tot)" "tot \<noteq> 0" "0 < n"
    and "net_allocations n tot pools = Inr allocs"
  shows "length allocs = length is \<and> sum_list allocs = n \<and>
    (\<forall>k<length pools. n * remaining_owed (pools ! k) div tot \<le> allocs ! k \<and>
       (0 < k \<longrightarrow> allocs ! k = n * remaining_owed (pools ! k) div tot \<and>
          (n \<le> tot \<longrightarrow> allocs ! k \<le> remaining_owed (pools ! k))))"
proof -
  note pre = net_preflight_total[OF assms(1)]
  have "0 \<le> (\<Sum>pl\<leftarrow>pools. remaining_owed pl)" by (rule sum_list_nonneg) (auto simp: remaining_owed_nonneg)
  with pre assms(2) have tot: "0 < tot" "tot = (\<Sum>pl\<leftarrow>pools. remaining_owed pl)" by auto
  let ?f = "\<lambda>pl. n * remaining_owed pl div tot"
  from assms(4) obtain as r where run: "net_allocate n tot pools 0 = Inr (as, r)" and fin0: "(if n - r > 0 then
       (case as of [] \<Rightarrow> Inl Trap
        | a # as' \<Rightarrow> rbind (ok_or (i128_add a (n - r)) Trap) (\<lambda>a1. Inr (a1 # as')))
     else Inr as) = (Inr allocs :: i128 list pool_result)"
    unfolding net_allocations_def by auto
  have as: "as = map ?f pools" and r: "r = sum_list as"
    using net_allocate_floor[OF run] assms(3) tot(1) by auto
  note fin = fin0[unfolded r]
  have "sum_list as \<le> (\<Sum>pl\<leftarrow>pools. n * remaining_owed pl) div tot"
    unfolding as using tot(1) assms(3) by (intro div_sum_list_le) (auto simp: remaining_owed_nonneg)
  also have "(\<Sum>pl\<leftarrow>pools. n * remaining_owed pl) = n * tot" by (simp add: tot(2) sum_list_const_mult)
  finally have le: "sum_list as \<le> n" using tot(1) by simp
  have shape: "\<exists>a as'. as = a # as' \<and> allocs = (a + (n - sum_list as)) # as'"
    using fin le tot by (cases as) (auto simp: as split: if_splits)
  then obtain a as' where sh: "as = a # as'" "allocs = (a + (n - sum_list as)) # as'" by blast
  have bound: "?f pl \<le> remaining_owed pl" if "n \<le> tot" for pl
  proof -
    have "n * remaining_owed pl \<le> tot * remaining_owed pl" using that by (intro mult_right_mono) (auto simp: remaining_owed_nonneg)
    then have "?f pl \<le> tot * remaining_owed pl div tot" using tot(1) by (rule zdiv_mono1)
    with tot(1) show ?thesis by simp
  qed
  have len: "length allocs = length pools" using sh as by (metis length_Cons length_map)
  have "sum_list allocs = n" using sh by simp
  moreover have "?f (pools ! k) \<le> allocs ! k \<and> (0 < k \<longrightarrow> allocs ! k = ?f (pools ! k) \<and>
      (n \<le> tot \<longrightarrow> allocs ! k \<le> remaining_owed (pools ! k)))" if "k < length pools" for k
  proof -
    have ak: "as ! k = ?f (pools ! k)" using that by (simp add: as)
    have al: "allocs ! k = (if k = 0 then as ! 0 + (n - sum_list as) else as ! k)"
      using sh by (cases k) auto
    show ?thesis using ak al le bound by auto
  qed
  moreover have "length allocs = length is" using pre len by simp
  ultimately show ?thesis by blast
qed

theorem netting_splits_exactly_witness:
  "\<exists>w pools allocs. net_preflight w 20 70 [1, 1] 0 = Inr (pools, 60000) \<and>
     net_allocations 30001 60000 pools = Inr allocs \<and> sum_list allocs = 30001"
proof -
  let ?w = "after_ops two_positions"
  obtain pools where p: "net_preflight ?w 20 70 [1, 1] 0 = Inr (pools, 60000)"
    "\<exists>al. net_allocations 30001 60000 pools = Inr al"
    by (simp add: pool_eval nft_eval sgn_if)
  then obtain al where al: "net_allocations 30001 60000 pools = Inr al" by blast
  from netting_splits_exactly[OF p(1) _ _ al] p al show ?thesis by auto
qed

section \<open>Installments\<close>

lemma check_installments_Inr:
  "check_installments xs d acc = Inr r \<Longrightarrow>
     r = acc + (\<Sum>x\<leftarrow>xs. in_amount x) \<and> (\<forall>x\<in>set xs. 0 < in_amount x \<and> d \<le> in_due_date x) \<and>
     sorted (map in_due_date xs)"
  by (induction xs d acc rule: check_installments.induct) fastforce+

text \<open>A schedule that is accepted consists of positive amounts with non-decreasing due dates
  that add up to exactly what the pool is owed, starts at its first installment, and is attached
  to an open pool nothing has been repaid on.\<close>

theorem accepted_schedule_is_sound:
  assumes "set_installment_schedule e w admin i sch = Inr w'"
  shows "\<exists>pl. fp_pools (w_pool w) i = Some pl \<and> \<not> pl_is_closed pl \<and> pl_repaid_amount pl \<le> 0 \<and>
    fp_schedule (w_pool w') i = Some sch \<and> sch_next_index sch = 0 \<and> sch_installments sch \<noteq> [] \<and>
    (\<Sum>x\<leftarrow>sch_installments sch. in_amount x) = pl_total_owed pl \<and>
    (\<forall>x\<in>set (sch_installments sch). 0 < in_amount x) \<and>
    sorted (map in_due_date (sch_installments sch))"
  using assms
  by (auto simp: set_installment_schedule_def Let_def dest!: check_installments_Inr)

theorem accepted_schedule_is_sound_witness:
  "\<exists>w w'. set_installment_schedule sample_env w 10 1 \<lparr>sch_installments =
       [\<lparr>in_amount = 10000, in_due_date = 1500, in_paid = False\<rparr>, \<lparr>in_amount = 20000, in_due_date = 1800, in_paid = False\<rparr>],
       sch_next_index = 0\<rparr> = Inr w' \<and>
     (\<exists>pl. fp_pools (w_pool w) 1 = Some pl \<and> pl_total_owed pl = 30000)"
proof -
  let ?w = "after_ops two_positions"
  let ?sch = "\<lparr>sch_installments =
       [\<lparr>in_amount = 10000, in_due_date = 1500, in_paid = False\<rparr>, \<lparr>in_amount = 20000, in_due_date = 1800, in_paid = False\<rparr>],
       sch_next_index = 0\<rparr>"
  have "is_ok (set_installment_schedule sample_env ?w 10 1 ?sch)" by (simp add: pool_eval nft_eval)
  then obtain w' where r: "set_installment_schedule sample_env ?w 10 1 ?sch = Inr w'" by (auto simp: is_ok_iff)
  from accepted_schedule_is_sound[OF r] r show ?thesis by fastforce
qed

text \<open>The installments before the cursor are paid, those from the cursor on are not.\<close>

definition cursor_ok :: "InstallmentSchedule \<Rightarrow> bool" where
  "cursor_ok sch \<longleftrightarrow> sch_next_index sch \<le> length (sch_installments sch) \<and>
     (\<forall>k<length (sch_installments sch). in_paid (sch_installments sch ! k) \<longleftrightarrow> k < sch_next_index sch)"

text \<open>Installments are paid strictly in order: a payment is accepted only for the installment
  at the cursor, with its exact amount (at least its amount for the last one); it is marked paid,
  the cursor moves on by one, no amount or due date changes, and the marks stay in line with the
  cursor.\<close>

theorem installments_in_order:
  assumes "take_installment e i n sch p pl = Inr (p1, pl1, sch1)" "cursor_ok sch"
    and "length (sch_installments sch) < u32_max"
  shows "cursor_ok sch1 \<and> sch_next_index sch1 = Suc (sch_next_index sch) \<and>
    sch_next_index sch < length (sch_installments sch) \<and>
    in_amount (sch_installments sch ! sch_next_index sch) \<le> n \<and>
    (Suc (sch_next_index sch) < length (sch_installments sch) \<longrightarrow>
       n = in_amount (sch_installments sch ! sch_next_index sch)) \<and>
    map in_amount (sch_installments sch1) = map in_amount (sch_installments sch) \<and>
    map in_due_date (sch_installments sch1) = map in_due_date (sch_installments sch)"
proof -
  let ?k = "sch_next_index sch" and ?xs = "sch_installments sch"
  from assms(1) have k: "?k < length ?xs" by (auto simp: take_installment_def Let_def)
  with assms(3) have u: "u32_sat_add ?k 1 = Suc ?k" by (simp add: u32_sat_add_def)
  from assms(1) have raw: "sch_installments sch1 = ?xs[?k := (?xs ! ?k)\<lparr>in_paid := True\<rparr>]"
    "sch_next_index sch1 = u32_sat_add ?k 1"
    and n: "if ?k = length ?xs - 1 then in_amount (?xs ! ?k) \<le> n else n = in_amount (?xs ! ?k)"
    by (auto simp: take_installment_def Let_def split: if_splits)
  note sch1 = raw(1) raw(2)[unfolded u]
  have "map in_amount (sch_installments sch1) = map in_amount ?xs"
    "map in_due_date (sch_installments sch1) = map in_due_date ?xs"
    using k by (simp_all add: sch1 map_update list_update_same_conv)
  moreover have "cursor_ok sch1"
    using assms(2) k by (auto simp: cursor_ok_def sch1 nth_list_update less_Suc_eq)
  ultimately show ?thesis using n k sch1(2) by (auto split: if_splits)
qed

theorem installments_in_order_witness:
  "\<exists>p1 pl1 sch1. take_installment sample_env 1 10000 \<lparr>sch_installments =
       [\<lparr>in_amount = 10000, in_due_date = 1500, in_paid = False\<rparr>, \<lparr>in_amount = 20000, in_due_date = 1800, in_paid = False\<rparr>],
       sch_next_index = 0\<rparr> pool_empty
     \<lparr>pl_invoice_id = 1, pl_token = 70, pl_total_funded = 0, pl_face_value = 30000, pl_repaid_amount = 0,
      pl_is_closed = False, pl_late_penalty_bps = 500, pl_total_owed = 30000, pl_penalty_applied = False\<rparr>
     = Inr (p1, pl1, sch1) \<and> cursor_ok sch1 \<and> sch_next_index sch1 = 1"
proof -
  let ?sch = "\<lparr>sch_installments =
       [\<lparr>in_amount = 10000, in_due_date = 1500, in_paid = False\<rparr>, \<lparr>in_amount = 20000, in_due_date = 1800, in_paid = False\<rparr>],
       sch_next_index = 0\<rparr>"
  let ?pl = "\<lparr>pl_invoice_id = 1, pl_token = 70, pl_total_funded = 0, pl_face_value = 30000,
      pl_repaid_amount = 0, pl_is_closed = False, pl_late_penalty_bps = 500, pl_total_owed = 30000, pl_penalty_applied = False\<rparr>"
  obtain p1 pl1 sch1 where r: "take_installment sample_env 1 10000 ?sch pool_empty ?pl = Inr (p1, pl1, sch1)"
    by (simp add: pool_eval)
  have "cursor_ok ?sch" by (auto simp: cursor_ok_def less_Suc_eq)
  moreover have "length (sch_installments ?sch) < u32_max" by (simp add: u32_max_def)
  ultimately show ?thesis using installments_in_order[OF r] r by auto
qed

section \<open>Default\<close>

lemma call_set_defaulted_effect:
  "call_set_defaulted e nft a i w = Inr w' \<Longrightarrow> w_pool w' = w_pool w \<and> w_calls w' = w_calls w \<and>
     (\<exists>h h'. nx_hot (w_nft w) i = Some h \<and> hot_due_date h < timestamp e \<and>
       nx_hot (w_nft w') i = Some h' \<and> hot_status h' = Defaulted)"
  by (auto simp: call_set_defaulted_def nft_call_on_def nft_core_def dest!: set_defaulted_core)

text \<open>A default is marked only by the admin, once due date and grace period are over and no
  dispute is open; the invoice is \<open>Defaulted\<close> afterwards, but unless an escrow credit is on it
  the pool's record stays exactly as it was, open for further repayments.\<close>

theorem default_leaves_pool_open:
  assumes "mark_default e w admin i tok = Inr w'" "\<not> fp_escrow_credited (w_pool w) i"
  shows "\<exists>pl ivc h. fp_admin (w_pool w) = Some admin \<and> authorised e admin \<and>
    fp_pools (w_pool w) i = Some pl \<and> \<not> pl_is_closed pl \<and> fp_pools (w_pool w') i = Some pl \<and>
    get_invoice (w_nft w) i = Inr ivc \<and> inv_due_date ivc + get_grace_period (w_pool w) \<le> timestamp e \<and>
    nx_hot (w_nft w') i = Some h \<and> hot_status h = Defaulted"
proof -
  let ?p = "w_pool w"
  from assms obtain pl ivc nft w2 w3 where g: "fp_admin ?p = Some admin" "authorised e admin"
    "fp_pools ?p i = Some pl" "\<not> pl_is_closed pl" "get_invoice (w_nft w) i = Inr ivc"
    "inv_due_date ivc + get_grace_period ?p \<le> timestamp e"
    and w2: "(if pl_repaid_amount pl > 0 then distribute_yield e i tok (pl_repaid_amount pl) w else Inr w) = Inr w2"
    and w3: "call_set_defaulted e nft admin i w2 = Inr w3"
    and w': "fp_pools (w_pool w') = fp_pools (w_pool w3)" "w_nft w' = w_nft w3"
    by (auto simp: mark_default_def Let_def split: option.splits)
  have "fp_pools (w_pool w2) = fp_pools ?p" using w2 by (auto dest!: distribute_yield_pools split: if_splits)
  with call_set_defaulted_effect[OF w3] g w' show ?thesis by auto
qed

theorem default_leaves_pool_open_witness:
  "\<exists>w w' pl. mark_default (sample_env\<lparr>timestamp := 3000\<rparr>) w 10 1 70 = Inr w' \<and>
     fp_pools (w_pool w') 1 = Some pl \<and> \<not> pl_is_closed pl"
proof -
  let ?w = "after_ops two_positions" and ?e = "sample_env\<lparr>timestamp := 3000\<rparr>"
  have "is_ok (mark_default ?e ?w 10 1 70)" by (simp add: pool_eval nft_eval)
  then obtain w' where r: "mark_default ?e ?w 10 1 70 = Inr w'" by (auto simp: is_ok_iff)
  have "\<not> fp_escrow_credited (w_pool ?w) 1" by (simp add: pool_eval nft_eval)
  from default_leaves_pool_open[OF r this] r show ?thesis by blast
qed

end
