(* ===== verification/Kora_Errors.thy ===== *)
theory Kora_Errors
  imports Kora_Migration
begin

text \<open>
  The error type the older contracts share (\<open>contracts/shared/src/errors.rs\<close>) and its conversions.
\<close>

text \<open>The variants of \<open>KoraError\<close> (\<open>shared/src/errors.rs\<close>) the modelled contracts return, with their
  discriminants, which \<open>e as u32\<close> yields.\<close>

datatype (plugins only: code) KoraError =
    KE_Unauthorized | KE_NotAdmin | KE_ProtocolPaused | KE_InvalidAmount | KE_InvalidDueDate
  | KE_InvalidRiskScore | KE_InvalidCid | KE_InvoiceFrozen | KE_BatchSizeExceeded
  | KE_ListingNotFound | KE_ListingAlreadyCancelled | KE_FundingDeadlinePassed
  | KE_InsufficientFunds | KE_ExceedsFundingTarget | KE_ListingFullyFunded | KE_FundingNotExpired
  | KE_InvalidFeeRate | KE_TokenNotWhitelisted | KE_ComplianceNotAttested | KE_ArithmeticOverflow
  | KE_ArithmeticUnderflow | KE_InvalidAddress | KE_AlreadyInitialized | KE_NotInitialized
  | KE_Reentrancy | KE_NoUpgradeProposed | KE_UpgradeTimelockNotElapsed
  | KE_ParameterProposalNotFound | KE_ParameterProposalAlreadyExecuted | KE_NotMultisigSigner
  | KE_AlreadyVoted | KE_GovernanceThresholdNotMet | KE_NoPendingAdminProposal | KE_NotPendingAdmin | KE_CancellationPending
  | KE_NoCancellationPending | KE_InvestorConcentrationExceeded | KE_InvestorNotAccredited
  | KE_ListingAlreadyFunded | KE_MultisigNotConfigured | KE_MultisigApprovalRequired
  | KE_DependencyUpdateTimelockNotElapsed | KE_NoDependencyUpdateProposed
  | KE_TokenWhitelistTimelockNotElapsed | KE_NoTokenWhitelistProposed
  | KE_ContributionBelowMinimum | KE_CircuitBreakerTripped | KE_InvalidParameterValue
  | KE_DebtorNotAttested | KE_AttestationAmountMismatch
  | KE_InsufficientPoolBalance | KE_WithdrawalRateLimitExceeded | KE_GovernanceTimelockNotElapsed | KE_AlreadyApproved
  | KE_ProposalNotFound | KE_ProposalAlreadyExecuted | KE_ProposalExpired | KE_ThresholdNotMet | KE_SignerNotFound
  | KE_QuorumRequired | KE_InsufficientReserveBalance | KE_ReserveCallerNotAuthorized | KE_RecipientNotAllowed
  | KE_NoRecipientProposed | KE_RecipientTimelockNotElapsed | KE_SweepSplitsNotConfigured | KE_InvalidSweepSplits

definition kora_code :: "KoraError \<Rightarrow> u32" where
  "kora_code e =
    (case e of
       KE_Unauthorized \<Rightarrow> 1 | KE_NotAdmin \<Rightarrow> 2 | KE_ProtocolPaused \<Rightarrow> 4
     | KE_InvalidAmount \<Rightarrow> 14 | KE_InvalidDueDate \<Rightarrow> 15
     | KE_InvalidRiskScore \<Rightarrow> 16 | KE_InvalidCid \<Rightarrow> 17
     | KE_InvoiceFrozen \<Rightarrow> 18 | KE_BatchSizeExceeded \<Rightarrow> 19
     | KE_ListingNotFound \<Rightarrow> 20 | KE_ListingAlreadyCancelled \<Rightarrow> 21
     | KE_FundingDeadlinePassed \<Rightarrow> 23 | KE_InsufficientFunds \<Rightarrow> 24
     | KE_ExceedsFundingTarget \<Rightarrow> 25 | KE_ListingFullyFunded \<Rightarrow> 27
     | KE_FundingNotExpired \<Rightarrow> 28 | KE_InvalidFeeRate \<Rightarrow> 40
     | KE_TokenNotWhitelisted \<Rightarrow> 42 | KE_NoPendingAdminProposal \<Rightarrow> 44 | KE_NotPendingAdmin \<Rightarrow> 45 | KE_ComplianceNotAttested \<Rightarrow> 53
     | KE_ArithmeticOverflow \<Rightarrow> 90 | KE_ArithmeticUnderflow \<Rightarrow> 91
     | KE_InvalidAddress \<Rightarrow> 92 | KE_AlreadyInitialized \<Rightarrow> 94
     | KE_NotInitialized \<Rightarrow> 96 | KE_Reentrancy \<Rightarrow> 98
     | KE_NoUpgradeProposed \<Rightarrow> 100 | KE_UpgradeTimelockNotElapsed \<Rightarrow> 101
     | KE_ParameterProposalNotFound \<Rightarrow> 110 | KE_ParameterProposalAlreadyExecuted \<Rightarrow> 111
     | KE_NotMultisigSigner \<Rightarrow> 112 | KE_AlreadyVoted \<Rightarrow> 113
     | KE_GovernanceThresholdNotMet \<Rightarrow> 114 | KE_CancellationPending \<Rightarrow> 118
     | KE_NoCancellationPending \<Rightarrow> 119 | KE_InvestorConcentrationExceeded \<Rightarrow> 123
     | KE_InvestorNotAccredited \<Rightarrow> 124 | KE_ListingAlreadyFunded \<Rightarrow> 125
     | KE_MultisigNotConfigured \<Rightarrow> 145 | KE_MultisigApprovalRequired \<Rightarrow> 146
     | KE_DependencyUpdateTimelockNotElapsed \<Rightarrow> 150
     | KE_NoDependencyUpdateProposed \<Rightarrow> 151 | KE_TokenWhitelistTimelockNotElapsed \<Rightarrow> 152
     | KE_NoTokenWhitelistProposed \<Rightarrow> 153 | KE_ContributionBelowMinimum \<Rightarrow> 154
     | KE_CircuitBreakerTripped \<Rightarrow> 164 | KE_InvalidParameterValue \<Rightarrow> 165
     | KE_DebtorNotAttested \<Rightarrow> 166 | KE_AttestationAmountMismatch \<Rightarrow> 167
     | KE_InsufficientPoolBalance \<Rightarrow> 33 | KE_WithdrawalRateLimitExceeded \<Rightarrow> 43
     | KE_GovernanceTimelockNotElapsed \<Rightarrow> 115 | KE_AlreadyApproved \<Rightarrow> 126
     | KE_ProposalNotFound \<Rightarrow> 140 | KE_ProposalAlreadyExecuted \<Rightarrow> 141
     | KE_ProposalExpired \<Rightarrow> 142 | KE_ThresholdNotMet \<Rightarrow> 143
     | KE_SignerNotFound \<Rightarrow> 144 | KE_QuorumRequired \<Rightarrow> 147
     | KE_InsufficientReserveBalance \<Rightarrow> 155 | KE_ReserveCallerNotAuthorized \<Rightarrow> 156
     | KE_RecipientNotAllowed \<Rightarrow> 158 | KE_NoRecipientProposed \<Rightarrow> 159
     | KE_RecipientTimelockNotElapsed \<Rightarrow> 160 | KE_SweepSplitsNotConfigured \<Rightarrow> 162
     | KE_InvalidSweepSplits \<Rightarrow> 163)"

definition kora_from_common :: "CommonError \<Rightarrow> KoraError" where
  "kora_from_common c =
     (case c of
        CE_InvalidAmount \<Rightarrow> KE_InvalidAmount | CE_InvalidDueDate \<Rightarrow> KE_InvalidDueDate
      | CE_InvalidRiskScore \<Rightarrow> KE_InvalidRiskScore | CE_InvalidCid \<Rightarrow> KE_InvalidCid
      | CE_InvalidFeeRate \<Rightarrow> KE_InvalidFeeRate | CE_InvalidAddress \<Rightarrow> KE_InvalidAddress
      | CE_ArithmeticOverflow \<Rightarrow> KE_ArithmeticOverflow
      | CE_ArithmeticUnderflow \<Rightarrow> KE_ArithmeticUnderflow | CE_Reentrancy \<Rightarrow> KE_Reentrancy
      | CE_BatchSizeExceeded \<Rightarrow> KE_BatchSizeExceeded | _ \<Rightarrow> KE_InvalidAmount)"

definition kora_from_migration :: "MigrationError \<Rightarrow> KoraError" where
  "kora_from_migration _ = KE_InvalidParameterValue"

type_synonym 'a kresult = "(KoraError, 'a) result"

abbreviation kora_lift :: "(CommonError, 'a) result \<Rightarrow> 'a kresult" where
  "kora_lift \<equiv> map_err kora_from_common"

end
