(* ===== verification/Market_State.thy ===== *)
theory Market_State
  imports Financing_Pool Kora_Errors
begin

text \<open>
  The state of the marketplace (\<open>contracts/marketplace/src/lib.rs\<close>), the world it runs in and
  its private helpers.  \<open>mkt_state\<close> has one field per storage key.  A marketplace call sees the
  pool and the invoice contract through the world \<open>mw_base\<close>, and calls their modelled operations.

  The source calls \<open>check_debtor_cap\<close>, \<open>add_debtor_exposure\<close> and \<open>remove_debtor_exposure\<close> and
  uses a constant \<open>SCHEMA_VERSION\<close>, none of which it defines.  They are the parameters \<open>hooks\<close>:
  functions on a bookkeeping part of the state of a type \<open>'d\<close> that no other operation touches.
\<close>

section \<open>Data\<close>

definition MAX_BATCH_SIZE :: u32 where "MAX_BATCH_SIZE = 20"
definition DEFAULT_MIN_CONTRIBUTION :: i128 where "DEFAULT_MIN_CONTRIBUTION = 10000000"

datatype DependencyField =
    DF_InvoiceNft | DF_FinancingPool | DF_Treasury | DF_AccessControl | DF_RiskRegistry
  | DF_ParameterRegistry | DF_DebtorAttestation

datatype MarketplaceAction =
    MA_SetFeeBps u32 | MA_SetReferrerSplitBps u32 | MA_SetTierFeeBps u32 u32
  | MA_WhitelistToken address | MA_RemoveTokenWhitelist address | MA_ProposeUpgrade bytes
  | MA_ExecuteUpgrade

record AdminProposal =
  ap_id :: u64
  ap_action :: MarketplaceAction
  ap_approvals :: "address list"
  ap_executed :: bool
  ap_created_at :: u64

record MarketplaceConfig =
  mc_admin :: address
  mc_invoice_nft :: address
  mc_financing_pool :: address
  mc_treasury :: address
  mc_access_control :: address
  mc_price_oracle :: address
  mc_risk_registry :: address
  mc_parameter_registry :: address
  mc_fee_bps :: u32
  mc_referrer_split_bps :: u32

record BatchAllocationResult =
  ba_invoice_id :: u64
  ba_success :: bool
  ba_error_code :: u32

record PriorityWindow =
  pw_whitelist :: "address list"
  pw_window_end :: u64

datatype AttestationStatus = AS_Pending | AS_Confirmed | AS_Rejected | AS_Expired

text \<open>The keys of the contract's storage.\<close>

record 'd mkt_state =
  mk_config :: "MarketplaceConfig option"
  mk_admin :: "address option"
  mk_invoice_nft :: "address option"
  mk_financing_pool :: "address option"
  mk_treasury :: "address option"
  mk_access_control :: "address option"
  mk_price_oracle :: "address option"
  mk_fee_bps :: "u32 option"
  mk_risk_registry :: "address option"
  mk_parameter_registry :: "address option"
  mk_referrer_split :: "u32 option"
  mk_schema_version :: "u32 option"
  mk_attestation :: "address option"
  mk_upgrade :: "(bytes \<times> u64) option"
  mk_tier_fee :: "u32 \<Rightarrow> u32 option"
  mk_min_contribution :: "i128 option"
  mk_max_share :: "u32 option"
  mk_whitelist_list :: "address list option"
  mk_whitelist_proposal :: "address \<Rightarrow> u64 option"
  mk_dependency :: "u32 \<Rightarrow> (address \<times> u64) option"
  mk_exposure_cap :: "address \<Rightarrow> i128 option"
  mk_exposure :: "address \<Rightarrow> i128 option"
  mk_next_proposal :: "u64 option"
  mk_lock :: bool
  mk_listing :: "u64 \<Rightarrow> Listing option"
  mk_whitelisted :: "address \<Rightarrow> bool option"
  mk_token_currency :: "address \<Rightarrow> symbol option"
  mk_accredited :: "address \<Rightarrow> bool option"
  mk_contribution :: "u64 \<Rightarrow> address \<Rightarrow> i128 option"
  mk_fee_contribution :: "u64 \<Rightarrow> address \<Rightarrow> i128 option"
  mk_gross :: "u64 \<Rightarrow> address \<Rightarrow> i128 option"
  mk_refund_claimed :: "u64 \<Rightarrow> address \<Rightarrow> bool option"
  mk_investors :: "u64 \<Rightarrow> address list option"
  mk_referrer :: "u64 \<Rightarrow> address option"
  mk_cancel_request :: "u64 \<Rightarrow> address option"
  mk_cancel_confirmed :: "u64 \<Rightarrow> bool option"
  mk_priority :: "u64 \<Rightarrow> PriorityWindow option"
  mk_expiry_emitted :: "u64 \<Rightarrow> bool option"
  mk_proposal :: "u64 \<Rightarrow> AdminProposal option"
  mk_debtor :: 'd

record 'd mworld =
  mw_mkt :: "'d mkt_state"
  mw_base :: world

definition mk_empty :: "'d \<Rightarrow> 'd mkt_state" where
  "mk_empty d = \<lparr>mk_config = None, mk_admin = None, mk_invoice_nft = None, mk_financing_pool = None,
     mk_treasury = None, mk_access_control = None, mk_price_oracle = None, mk_fee_bps = None,
     mk_risk_registry = None, mk_parameter_registry = None, mk_referrer_split = None,
     mk_schema_version = None, mk_attestation = None, mk_upgrade = None, mk_tier_fee = (\<lambda>_. None),
     mk_min_contribution = None, mk_max_share = None, mk_whitelist_list = None,
     mk_whitelist_proposal = (\<lambda>_. None), mk_dependency = (\<lambda>_. None), mk_exposure_cap = (\<lambda>_. None),
     mk_exposure = (\<lambda>_. None), mk_next_proposal = None, mk_lock = False, mk_listing = (\<lambda>_. None),
     mk_whitelisted = (\<lambda>_. None), mk_token_currency = (\<lambda>_. None), mk_accredited = (\<lambda>_. None),
     mk_contribution = (\<lambda>_ _. None), mk_fee_contribution = (\<lambda>_ _. None), mk_gross = (\<lambda>_ _. None),
     mk_refund_claimed = (\<lambda>_ _. None), mk_investors = (\<lambda>_. None), mk_referrer = (\<lambda>_. None),
     mk_cancel_request = (\<lambda>_. None), mk_cancel_confirmed = (\<lambda>_. None), mk_priority = (\<lambda>_. None),
     mk_expiry_emitted = (\<lambda>_. None), mk_proposal = (\<lambda>_. None), mk_debtor = d\<rparr>"

text \<open>The read-only answers of further contracts: the risk registry, the debtor attestation, the
  oracle's conversion with decimals (\<open>None\<close> where the call fails), the multisig of access control
  (\<open>None\<close> where \<open>try_get_multisig_config\<close> does not answer).\<close>

record market_views =
  mv_compliance :: "address \<Rightarrow> address \<Rightarrow> bool"
  mv_debtor_verified :: "address \<Rightarrow> bytes \<Rightarrow> bool"
  mv_debtor_paused :: "address \<Rightarrow> bytes \<Rightarrow> bool"
  mv_tier_paused :: "address \<Rightarrow> symbol \<Rightarrow> bool"
  mv_confirmed :: "address \<Rightarrow> u64 \<Rightarrow> i128 \<Rightarrow> bool option"
  mv_attestation :: "address \<Rightarrow> u64 \<Rightarrow> AttestationStatus option"
  mv_convert :: "address \<Rightarrow> i128 \<Rightarrow> symbol \<Rightarrow> symbol \<Rightarrow> u32 \<Rightarrow> u32 \<Rightarrow> i128 option"
  mv_multisig :: "address \<Rightarrow> MultisigConfig option"

record 'd hooks =
  hk_schema_version :: u32
  hk_check_cap :: "'d \<Rightarrow> bytes \<Rightarrow> i128 \<Rightarrow> unit kresult"
  hk_add :: "'d \<Rightarrow> bytes \<Rightarrow> u64 \<Rightarrow> i128 \<Rightarrow> 'd kresult"
  hk_remove :: "'d \<Rightarrow> bytes \<Rightarrow> u64 \<Rightarrow> i128 \<Rightarrow> 'd kresult"

section \<open>Helpers\<close>

text \<open>\<open>load_config\<close> writes the consolidated entry when it still reads the legacy keys.\<close>

definition load_config :: "'d mkt_state \<Rightarrow> ('d mkt_state \<times> MarketplaceConfig) kresult" where
  "load_config s =
     (case mk_config s of
        Some cfg \<Rightarrow> Inr (s, cfg)
      | None \<Rightarrow>
          rbind (ok_or (mk_admin s) (Err KE_NotInitialized)) (\<lambda>admin.
          rbind (ok_or (mk_invoice_nft s) (Err KE_NotInitialized)) (\<lambda>nft.
          rbind (ok_or (mk_financing_pool s) (Err KE_NotInitialized)) (\<lambda>pool.
          rbind (ok_or (mk_treasury s) (Err KE_NotInitialized)) (\<lambda>treasury.
          rbind (ok_or (mk_access_control s) (Err KE_NotInitialized)) (\<lambda>ac.
          rbind (ok_or (mk_fee_bps s) (Err KE_NotInitialized)) (\<lambda>fee.
          rbind (ok_or (mk_risk_registry s) (Err KE_NotInitialized)) (\<lambda>rr.
          rbind (ok_or (mk_price_oracle s) (Err KE_NotInitialized)) (\<lambda>oracle.
          rbind (ok_or (mk_parameter_registry s) (Err KE_NotInitialized)) (\<lambda>pr.
          let cfg = \<lparr>mc_admin = admin, mc_invoice_nft = nft, mc_financing_pool = pool,
                     mc_treasury = treasury, mc_access_control = ac, mc_price_oracle = oracle,
                     mc_risk_registry = rr, mc_parameter_registry = pr, mc_fee_bps = fee,
                     mc_referrer_split_bps = (case mk_referrer_split s of None \<Rightarrow> 0 | Some b \<Rightarrow> b)\<rparr> in
          Inr (s\<lparr>mk_config := Some cfg\<rparr>, cfg)))))))))))"

definition mkt_require_admin :: "'d mkt_state \<Rightarrow> address \<Rightarrow> ('d mkt_state \<times> MarketplaceConfig) kresult" where
  "mkt_require_admin s admin =
     rbind (load_config s) (\<lambda>(s, cfg).
     if mc_admin cfg \<noteq> admin then Inl (Err KE_NotAdmin) else Inr (s, cfg))"

definition mkt_require_not_paused :: "env \<Rightarrow> 'd mkt_state \<Rightarrow> unit kresult" where
  "mkt_require_not_paused e s =
     (case mk_access_control s of
        None \<Rightarrow> Inr ()
      | Some ac \<Rightarrow> if view_is_paused e ac then Inl (Err KE_ProtocolPaused) else Inr ())"

definition get_listing :: "'d mkt_state \<Rightarrow> u64 \<Rightarrow> Listing kresult" where
  "get_listing s i = ok_or (mk_listing s i) (Err KE_ListingNotFound)"

definition put_listing :: "u64 \<Rightarrow> Listing \<Rightarrow> 'd mkt_state \<Rightarrow> 'd mkt_state" where
  "put_listing i l s = s\<lparr>mk_listing := (mk_listing s)(i \<mapsto> l)\<rparr>"

definition min_contribution_floor :: "'d mkt_state \<Rightarrow> i128" where
  "min_contribution_floor s = (case mk_min_contribution s of None \<Rightarrow> DEFAULT_MIN_CONTRIBUTION | Some x \<Rightarrow> x)"

definition is_token_whitelisted :: "'d mkt_state \<Rightarrow> address \<Rightarrow> bool" where
  "is_token_whitelisted s tok = (case mk_whitelisted s tok of None \<Rightarrow> False | Some b \<Rightarrow> b)"

definition require_whitelisted_token :: "'d mkt_state \<Rightarrow> address \<Rightarrow> unit kresult" where
  "require_whitelisted_token s tok =
     (if \<not> is_token_whitelisted s tok then Inl (Err KE_TokenNotWhitelisted) else Inr ())"

definition is_investor_accredited :: "'d mkt_state \<Rightarrow> address \<Rightarrow> bool" where
  "is_investor_accredited s a = (case mk_accredited s a of None \<Rightarrow> False | Some b \<Rightarrow> b)"

definition require_investor_accredited :: "'d mkt_state \<Rightarrow> address \<Rightarrow> unit kresult" where
  "require_investor_accredited s a =
     (if \<not> is_investor_accredited s a then Inl (Err KE_InvestorNotAccredited) else Inr ())"

definition require_priority_window_allowed :: "env \<Rightarrow> 'd mkt_state \<Rightarrow> u64 \<Rightarrow> address \<Rightarrow> unit kresult" where
  "require_priority_window_allowed e s i investor =
     (case mk_priority s i of
        None \<Rightarrow> Inr ()
      | Some w \<Rightarrow>
          if timestamp e \<le> pw_window_end w \<and> investor \<notin> set (pw_whitelist w)
          then Inl (Err KE_Unauthorized) else Inr ())"

definition risk_tier_to_symbol :: "RiskTier \<Rightarrow> symbol" where
  "risk_tier_to_symbol tier =
     (case tier of AAA \<Rightarrow> ''AAA'' | AA \<Rightarrow> ''AA'' | A \<Rightarrow> ''A'' | B \<Rightarrow> ''B'' | C \<Rightarrow> ''C'')"

definition tier_ordinal :: "RiskTier \<Rightarrow> u32" where
  "tier_ordinal tier = (case tier of AAA \<Rightarrow> 0 | AA \<Rightarrow> 1 | A \<Rightarrow> 2 | B \<Rightarrow> 3 | C \<Rightarrow> 4)"

definition dependency_field_ordinal :: "DependencyField \<Rightarrow> u32" where
  "dependency_field_ordinal f =
     (case f of DF_InvoiceNft \<Rightarrow> 0 | DF_FinancingPool \<Rightarrow> 1 | DF_Treasury \<Rightarrow> 2 | DF_AccessControl \<Rightarrow> 3
      | DF_RiskRegistry \<Rightarrow> 4 | DF_ParameterRegistry \<Rightarrow> 5 | DF_DebtorAttestation \<Rightarrow> 6)"

definition require_circuit_breaker_not_tripped ::
  "market_views \<Rightarrow> MarketplaceConfig \<Rightarrow> bytes \<Rightarrow> RiskTier \<Rightarrow> unit kresult" where
  "require_circuit_breaker_not_tripped v cfg debtor_hash tier =
     (let rr = mc_risk_registry cfg in
      if mv_debtor_paused v rr debtor_hash \<or> mv_tier_paused v rr (risk_tier_to_symbol tier)
      then Inl (Err KE_CircuitBreakerTripped) else Inr ())"

definition require_debtor_attestation_if_needed ::
  "market_views \<Rightarrow> 'd mkt_state \<Rightarrow> u64 \<Rightarrow> i128 \<Rightarrow> RiskTier \<Rightarrow> unit kresult" where
  "require_debtor_attestation_if_needed v s i face_value tier =
     (if tier \<noteq> C then Inr ()
      else case mk_attestation s of
        None \<Rightarrow> Inr ()
      | Some addr \<Rightarrow>
          rbind (ok_or (mv_confirmed v addr i face_value) Trap) (\<lambda>confirmed.
          if \<not> confirmed then
            rbind (ok_or (mv_attestation v addr i) Trap) (\<lambda>st.
            if st = AS_Confirmed then Inl (Err KE_AttestationAmountMismatch)
            else Inl (Err KE_DebtorNotAttested))
          else Inr ()))"

definition exposure_current :: "'d mkt_state \<Rightarrow> address \<Rightarrow> i128" where
  "exposure_current s tok = (case mk_exposure s tok of None \<Rightarrow> 0 | Some x \<Rightarrow> x)"

definition exposure_cap :: "'d mkt_state \<Rightarrow> address \<Rightarrow> i128" where
  "exposure_cap s tok = (case mk_exposure_cap s tok of None \<Rightarrow> 0 | Some x \<Rightarrow> x)"

definition put_exposure :: "address \<Rightarrow> i128 \<Rightarrow> 'd mkt_state \<Rightarrow> 'd mkt_state" where
  "put_exposure tok x s = s\<lparr>mk_exposure := (mk_exposure s)(tok \<mapsto> x)\<rparr>"

definition add_token_exposure :: "'d mkt_state \<Rightarrow> address \<Rightarrow> i128 \<Rightarrow> 'd mkt_state kresult" where
  "add_token_exposure s tok amount =
     rbind (kora_lift (safe_add (exposure_current s tok) amount)) (\<lambda>new_total.
     if exposure_cap s tok \<noteq> 0 \<and> new_total > exposure_cap s tok then Inl (Err KE_ExceedsFundingTarget)
     else Inr (put_exposure tok new_total s))"

definition remove_token_exposure :: "'d mkt_state \<Rightarrow> address \<Rightarrow> i128 \<Rightarrow> 'd mkt_state" where
  "remove_token_exposure s tok amount =
     put_exposure tok (i128_sat_sub (exposure_current s tok) amount) s"

definition convert_via_oracle ::
  "env \<Rightarrow> 'd mkt_state \<Rightarrow> world \<Rightarrow> i128 \<Rightarrow> address \<Rightarrow> address \<Rightarrow> i128 kresult" where
  "convert_via_oracle e s w amount from_token to_token =
     rbind (ok_or (mk_token_currency s from_token) (Err KE_TokenNotWhitelisted)) (\<lambda>from_currency.
     rbind (ok_or (mk_token_currency s to_token) (Err KE_TokenNotWhitelisted)) (\<lambda>to_currency.
     rbind (ok_or (fp_price_oracle (w_pool w)) Trap) (\<lambda>oracle.
     ok_or (view_convert e oracle amount from_currency to_currency) Trap)))"

text \<open>\<open>parameter_registry.get_value\<close>: zero when nothing is registered.\<close>

definition registry_value :: "env \<Rightarrow> address \<Rightarrow> RegistryParamKey \<Rightarrow> i128" where
  "registry_value e pr key = (case view_registry_param e pr key of None \<Rightarrow> 0 | Some p \<Rightarrow> rp_value p)"

definition base_fee_bps :: "env \<Rightarrow> MarketplaceConfig \<Rightarrow> u32 kresult" where
  "base_fee_bps e cfg =
     (let v = registry_value e (mc_parameter_registry cfg) MarketplaceFeeBps in
      if v > 0 then
        let bps = i128_as_u32 v in
        rbind (kora_lift (require_valid_fee_bps bps)) (\<lambda>_. Inr bps)
      else Inr (mc_fee_bps cfg))"

definition referrer_split_bps :: "env \<Rightarrow> MarketplaceConfig \<Rightarrow> u32 kresult" where
  "referrer_split_bps e cfg =
     (let v = registry_value e (mc_parameter_registry cfg) ReferrerSplitBps in
      if v > 0 then
        let bps = i128_as_u32 v in
        rbind (kora_lift (require_valid_fee_bps bps)) (\<lambda>_. Inr bps)
      else Inr (mc_referrer_split_bps cfg))"

definition add_to_whitelist_registry :: "address \<Rightarrow> 'd mkt_state \<Rightarrow> 'd mkt_state" where
  "add_to_whitelist_registry tok s =
     (let xs = (case mk_whitelist_list s of None \<Rightarrow> [] | Some xs \<Rightarrow> xs) in
      if tok \<in> set xs then s else s\<lparr>mk_whitelist_list := Some (xs @ [tok])\<rparr>)"

definition remove_from_whitelist_registry :: "address \<Rightarrow> 'd mkt_state \<Rightarrow> 'd mkt_state" where
  "remove_from_whitelist_registry tok s =
     (let xs = (case mk_whitelist_list s of None \<Rightarrow> [] | Some xs \<Rightarrow> xs) in
      s\<lparr>mk_whitelist_list := Some (filter (\<lambda>x. x \<noteq> tok) xs)\<rparr>)"

definition multisig_config :: "market_views \<Rightarrow> 'd mkt_state \<Rightarrow> MultisigConfig option" where
  "multisig_config v s = Option.bind (mk_access_control s) (mv_multisig v)"

definition require_multisig :: "market_views \<Rightarrow> 'd mkt_state \<Rightarrow> MultisigConfig kresult" where
  "require_multisig v s = ok_or (multisig_config v s) (Err KE_MultisigNotConfigured)"

definition require_signer :: "MultisigConfig \<Rightarrow> address \<Rightarrow> unit kresult" where
  "require_signer cfg who =
     (if who \<in> set (ms_signers cfg) then Inr () else Inl (Err KE_NotMultisigSigner))"

definition is_multisig_required :: "market_views \<Rightarrow> 'd mkt_state \<Rightarrow> bool" where
  "is_multisig_required v s =
     (case multisig_config v s of Some cfg \<Rightarrow> ms_threshold cfg > 1 | None \<Rightarrow> False)"

definition require_direct_admin_allowed :: "market_views \<Rightarrow> 'd mkt_state \<Rightarrow> unit kresult" where
  "require_direct_admin_allowed v s =
     (if is_multisig_required v s then Inl (Err KE_MultisigApprovalRequired) else Inr ())"

definition load_proposal :: "'d mkt_state \<Rightarrow> u64 \<Rightarrow> AdminProposal kresult" where
  "load_proposal s n = ok_or (mk_proposal s n) (Err KE_ParameterProposalNotFound)"

text \<open>The reentrancy guard over the lock of the marketplace.\<close>

definition mkt_guarded ::
  "('d mworld \<Rightarrow> (KoraError, 'd mworld \<times> 'r) result) \<Rightarrow> 'd mworld \<Rightarrow> ('d mworld \<times> 'r) kresult" where
  "mkt_guarded = with_guard (\<lambda>w. mk_lock (mw_mkt w))
     (\<lambda>b w. w\<lparr>mw_mkt := (mw_mkt w)\<lparr>mk_lock := b\<rparr>\<rparr>) kora_from_common"

definition put_mkt :: "'d mkt_state \<Rightarrow> 'd mworld \<Rightarrow> 'd mworld" where
  "put_mkt s w = w\<lparr>mw_mkt := s\<rparr>"

definition mkt_emit :: "ext_call \<Rightarrow> 'd mworld \<Rightarrow> 'd mworld" where
  "mkt_emit c w = w\<lparr>mw_base := emit c (mw_base w)\<rparr>"

definition mkt_nft_call :: "(nft_state \<Rightarrow> (nft_state \<times> unit) nft_result) \<Rightarrow> 'd mworld \<Rightarrow> 'd mworld kresult" where
  "mkt_nft_call f w =
     rbind (or_trap (f (w_nft (mw_base w)))) (\<lambda>(n, _).
     Inr (w\<lparr>mw_base := (mw_base w)\<lparr>w_nft := n\<rparr>\<rparr>))"

interpretation mkt_lock: lockable "\<lambda>w :: 'd mworld. mk_lock (mw_mkt w)"
  "\<lambda>b w. w\<lparr>mw_mkt := (mw_mkt w)\<lparr>mk_lock := b\<rparr>\<rparr>"
  by unfold_locales auto

interpretation mkt_version: versioned_store "mk_schema_version :: 'd mkt_state \<Rightarrow> u32 option"
  "\<lambda>v s. s\<lparr>mk_schema_version := Some v\<rparr>"
  by unfold_locales auto

lemma mkt_helpers_Inr_iff [simp]:
  "mkt_require_admin s a = Inr (s', cfg) \<longleftrightarrow> load_config s = Inr (s', cfg) \<and> mc_admin cfg = a"
  "mkt_require_not_paused e s = Inr u \<longleftrightarrow> (\<forall>ac. mk_access_control s = Some ac \<longrightarrow> \<not> view_is_paused e ac)"
  "get_listing s i = Inr l \<longleftrightarrow> mk_listing s i = Some l"
  "require_whitelisted_token s tok = Inr u \<longleftrightarrow> is_token_whitelisted s tok"
  "require_investor_accredited s b = Inr u \<longleftrightarrow> is_investor_accredited s b"
  "require_direct_admin_allowed v s = Inr u \<longleftrightarrow> \<not> is_multisig_required v s"
  "load_proposal s n = Inr p \<longleftrightarrow> mk_proposal s n = Some p"
  by (auto simp: mkt_require_admin_def mkt_require_not_paused_def get_listing_def
      require_whitelisted_token_def require_investor_accredited_def
      require_direct_admin_allowed_def load_proposal_def split: option.splits if_splits)

lemma load_config_state:
  "load_config s = Inr (s', cfg) \<Longrightarrow> s' = s\<lparr>mk_config := Some cfg\<rparr>"
  by (auto simp: load_config_def Let_def split: option.splits)

end
