(* ===== verification/Marketplace.thy ===== *)
theory Marketplace
  imports Market_State
begin

text \<open>
  The entry points of the marketplace, in the order of the source: configuration and whitelist,
  listing, funding, cancellation in one and in two phases, refunds, amendment, views, upgrades,
  admin actions under a multisig, and the migration of dependency addresses.  An operation that
  calls another contract works on the world \<open>'d mworld\<close>, the others on \<open>'d mkt_state\<close>.
\<close>

section \<open>Initialisation and migration\<close>

definition mkt_migration_step :: "u32 \<Rightarrow> u32 \<Rightarrow> 'd mkt_state \<Rightarrow> 'd mkt_state kresult" where
  "mkt_migration_step old new s =
     (if old = 0 \<and> new = 1 then Inr s else Inl (Err KE_InvalidParameterValue))"

definition mkt_migrate_versions ::
  "env \<Rightarrow> 'd hooks \<Rightarrow> 'd mkt_state \<Rightarrow> address \<Rightarrow> u32 \<Rightarrow> u32 \<Rightarrow> 'd mkt_state kresult" where
  "mkt_migrate_versions e hk s admin from_version to_version =
     rbind (require_auth e admin) (\<lambda>_.
     rbind (mkt_require_admin s admin) (\<lambda>(s, _).
     rbind (migrate kora_from_migration mk_schema_version (\<lambda>v s. s\<lparr>mk_schema_version := Some v\<rparr>)
              mkt_migration_step from_version to_version (hk_schema_version hk) s) (\<lambda>(s, _).
     Inr s)))"

definition mkt_schema_version :: "'d mkt_state \<Rightarrow> u32" where
  "mkt_schema_version s = read_version mk_schema_version s"

definition mkt_initialize ::
  "'d hooks \<Rightarrow> 'd mkt_state \<Rightarrow> address \<Rightarrow> address \<Rightarrow> address \<Rightarrow> address \<Rightarrow> address \<Rightarrow> address \<Rightarrow> address
     \<Rightarrow> address \<Rightarrow> u32 \<Rightarrow> u32 \<Rightarrow> 'd mkt_state kresult" where
  "mkt_initialize hk s admin nft pool treasury ac oracle rr pr fee_bps split_bps =
     (if mk_config s \<noteq> None then Inl (Err KE_AlreadyInitialized)
      else
        rbind (kora_lift (require_valid_fee_bps fee_bps)) (\<lambda>_.
        rbind (kora_lift (require_valid_fee_bps split_bps)) (\<lambda>_.
        Inr (s\<lparr>mk_admin := Some admin, mk_invoice_nft := Some nft, mk_financing_pool := Some pool,
               mk_treasury := Some treasury, mk_fee_bps := Some fee_bps, mk_access_control := Some ac,
               mk_price_oracle := Some oracle, mk_risk_registry := Some rr,
               mk_parameter_registry := Some pr, mk_referrer_split := Some split_bps,
               mk_config := Some \<lparr>mc_admin = admin, mc_invoice_nft = nft, mc_financing_pool = pool,
                 mc_treasury = treasury, mc_access_control = ac, mc_price_oracle = oracle,
                 mc_risk_registry = rr, mc_parameter_registry = pr, mc_fee_bps = fee_bps,
                 mc_referrer_split_bps = split_bps\<rparr>,
               mk_schema_version := Some (hk_schema_version hk)\<rparr>))))"

section \<open>The bodies of the privileged actions\<close>

definition apply_set_fee_bps :: "'d mworld \<Rightarrow> address \<Rightarrow> u32 \<Rightarrow> 'd mworld kresult" where
  "apply_set_fee_bps w admin fee_bps =
     rbind (kora_lift (require_valid_fee_bps fee_bps)) (\<lambda>_.
     rbind (load_config (mw_mkt w)) (\<lambda>(s, cfg).
     Inr (mkt_emit (SetParameter (mc_parameter_registry cfg) admin MarketplaceFeeBps (int fee_bps))
            (put_mkt (s\<lparr>mk_config := Some (cfg\<lparr>mc_fee_bps := fee_bps\<rparr>)\<rparr>) w))))"

definition apply_set_referrer_split_bps :: "'d mworld \<Rightarrow> address \<Rightarrow> u32 \<Rightarrow> 'd mworld kresult" where
  "apply_set_referrer_split_bps w admin bps =
     rbind (kora_lift (require_valid_fee_bps bps)) (\<lambda>_.
     rbind (load_config (mw_mkt w)) (\<lambda>(s, cfg).
     Inr (mkt_emit (SetParameter (mc_parameter_registry cfg) admin ReferrerSplitBps (int bps))
            (put_mkt (s\<lparr>mk_config := Some (cfg\<lparr>mc_referrer_split_bps := bps\<rparr>)\<rparr>) w))))"

definition apply_set_tier_fee_bps :: "'d mkt_state \<Rightarrow> u32 \<Rightarrow> u32 \<Rightarrow> 'd mkt_state kresult" where
  "apply_set_tier_fee_bps s ordinal fee_bps =
     rbind (kora_lift (require_valid_fee_bps fee_bps)) (\<lambda>_.
     Inr (s\<lparr>mk_tier_fee := (mk_tier_fee s)(ordinal \<mapsto> fee_bps)\<rparr>))"

definition apply_whitelist_token :: "'d mkt_state \<Rightarrow> address \<Rightarrow> 'd mkt_state kresult" where
  "apply_whitelist_token s tok = Inr (s\<lparr>mk_whitelisted := (mk_whitelisted s)(tok \<mapsto> True)\<rparr>)"

definition apply_remove_token_whitelist :: "'d mkt_state \<Rightarrow> address \<Rightarrow> 'd mkt_state kresult" where
  "apply_remove_token_whitelist s tok =
     (if \<not> is_token_whitelisted s tok then Inl (Err KE_TokenNotWhitelisted)
      else Inr (s\<lparr>mk_whitelisted := (mk_whitelisted s)(tok := None)\<rparr>))"

definition apply_propose_upgrade :: "env \<Rightarrow> 'd mkt_state \<Rightarrow> bytes \<Rightarrow> 'd mkt_state kresult" where
  "apply_propose_upgrade e s h = Inr (s\<lparr>mk_upgrade := Some (h, timestamp e)\<rparr>)"

text \<open>The hash handed to \<open>update_current_contract_wasm\<close> is the second component.\<close>

definition apply_execute_upgrade :: "env \<Rightarrow> 'd mkt_state \<Rightarrow> ('d mkt_state \<times> bytes) kresult" where
  "apply_execute_upgrade e s =
     rbind (ok_or (mk_upgrade s) (Err KE_NoUpgradeProposed)) (\<lambda>(h, proposed_at).
     rbind (ok_or (u64_add proposed_at UPGRADE_TIMELOCK_DELAY) Trap) (\<lambda>ready.
     if timestamp e < ready then Inl (Err KE_UpgradeTimelockNotElapsed)
     else Inr (s\<lparr>mk_upgrade := None\<rparr>, h)))"

section \<open>Configuration by the admin\<close>

definition set_referrer_split_bps ::
  "env \<Rightarrow> market_views \<Rightarrow> 'd mworld \<Rightarrow> address \<Rightarrow> u32 \<Rightarrow> 'd mworld kresult" where
  "set_referrer_split_bps e v w admin bps =
     rbind (require_auth e admin) (\<lambda>_.
     rbind (mkt_require_admin (mw_mkt w) admin) (\<lambda>(s, _).
     rbind (require_direct_admin_allowed v s) (\<lambda>_.
     apply_set_referrer_split_bps (put_mkt s w) admin bps)))"

definition set_fee_bps ::
  "env \<Rightarrow> market_views \<Rightarrow> 'd mworld \<Rightarrow> address \<Rightarrow> u32 \<Rightarrow> 'd mworld kresult" where
  "set_fee_bps e v w admin bps =
     rbind (require_auth e admin) (\<lambda>_.
     rbind (mkt_require_admin (mw_mkt w) admin) (\<lambda>(s, _).
     rbind (require_direct_admin_allowed v s) (\<lambda>_.
     apply_set_fee_bps (put_mkt s w) admin bps)))"

definition update_fee_bps ::
  "env \<Rightarrow> market_views \<Rightarrow> 'd mworld \<Rightarrow> address \<Rightarrow> u32 \<Rightarrow> 'd mworld kresult" where
  "update_fee_bps = set_fee_bps"

definition get_fee_bps :: "env \<Rightarrow> 'd mkt_state \<Rightarrow> u32 kresult" where
  "get_fee_bps e s = rbind (load_config s) (\<lambda>(_, cfg). base_fee_bps e cfg)"

text \<open>The setters that only ask for the admin's signature share their frame.\<close>

definition mkt_admin_set ::
  "env \<Rightarrow> 'd mkt_state \<Rightarrow> address \<Rightarrow> unit kresult \<Rightarrow> ('d mkt_state \<Rightarrow> 'd mkt_state) \<Rightarrow> 'd mkt_state kresult" where
  "mkt_admin_set e s admin check upd =
     rbind (require_auth e admin) (\<lambda>_.
     rbind (mkt_require_admin s admin) (\<lambda>(s, _).
     rbind check (\<lambda>_. Inr (upd s))))"

definition set_min_contribution :: "env \<Rightarrow> 'd mkt_state \<Rightarrow> address \<Rightarrow> i128 \<Rightarrow> 'd mkt_state kresult" where
  "set_min_contribution e s admin x =
     mkt_admin_set e s admin (if x < 0 then Inl (Err KE_InvalidAmount) else Inr ())
       (\<lambda>s. s\<lparr>mk_min_contribution := Some x\<rparr>)"

definition set_max_investor_share_bps :: "env \<Rightarrow> 'd mkt_state \<Rightarrow> address \<Rightarrow> u32 \<Rightarrow> 'd mkt_state kresult" where
  "set_max_investor_share_bps e s admin x =
     mkt_admin_set e s admin (kora_lift (require_valid_fee_bps x)) (\<lambda>s. s\<lparr>mk_max_share := Some x\<rparr>)"

definition get_max_investor_share_bps :: "'d mkt_state \<Rightarrow> u32" where
  "get_max_investor_share_bps s = (case mk_max_share s of None \<Rightarrow> 0 | Some x \<Rightarrow> x)"

definition set_investor_accredited ::
  "env \<Rightarrow> 'd mkt_state \<Rightarrow> address \<Rightarrow> address \<Rightarrow> bool \<Rightarrow> 'd mkt_state kresult" where
  "set_investor_accredited e s admin investor b =
     mkt_admin_set e s admin (Inr ()) (\<lambda>s. s\<lparr>mk_accredited := (mk_accredited s)(investor \<mapsto> b)\<rparr>)"

definition set_tier_fee_bps ::
  "env \<Rightarrow> market_views \<Rightarrow> 'd mkt_state \<Rightarrow> address \<Rightarrow> RiskTier \<Rightarrow> u32 \<Rightarrow> 'd mkt_state kresult" where
  "set_tier_fee_bps e v s admin tier bps =
     rbind (require_auth e admin) (\<lambda>_.
     rbind (mkt_require_admin s admin) (\<lambda>(s, _).
     rbind (require_direct_admin_allowed v s) (\<lambda>_.
     apply_set_tier_fee_bps s (tier_ordinal tier) bps)))"

definition effective_fee_bps :: "env \<Rightarrow> 'd mkt_state \<Rightarrow> MarketplaceConfig \<Rightarrow> RiskTier \<Rightarrow> u32 kresult" where
  "effective_fee_bps e s cfg tier =
     (case mk_tier_fee s (tier_ordinal tier) of Some b \<Rightarrow> Inr b | None \<Rightarrow> base_fee_bps e cfg)"

definition get_tier_fee_bps :: "env \<Rightarrow> 'd mkt_state \<Rightarrow> RiskTier \<Rightarrow> u32 kresult" where
  "get_tier_fee_bps e s tier =
     (case mk_tier_fee s (tier_ordinal tier) of
        Some b \<Rightarrow> Inr b
      | None \<Rightarrow> rbind (load_config s) (\<lambda>(_, cfg). base_fee_bps e cfg))"

definition propose_token_whitelist :: "env \<Rightarrow> 'd mkt_state \<Rightarrow> address \<Rightarrow> address \<Rightarrow> 'd mkt_state kresult" where
  "propose_token_whitelist e s admin tok =
     mkt_admin_set e s admin (Inr ())
       (\<lambda>s. s\<lparr>mk_whitelist_proposal := (mk_whitelist_proposal s)(tok \<mapsto> timestamp e)\<rparr>)"

definition execute_token_whitelist :: "env \<Rightarrow> 'd mkt_state \<Rightarrow> address \<Rightarrow> address \<Rightarrow> 'd mkt_state kresult" where
  "execute_token_whitelist e s admin tok =
     rbind (require_auth e admin) (\<lambda>_.
     rbind (mkt_require_admin s admin) (\<lambda>(s, _).
     rbind (ok_or (mk_whitelist_proposal s tok) (Err KE_NoTokenWhitelistProposed)) (\<lambda>proposed_at.
     rbind (ok_or (u64_add proposed_at UPGRADE_TIMELOCK_DELAY) Trap) (\<lambda>ready.
     if timestamp e < ready then Inl (Err KE_TokenWhitelistTimelockNotElapsed)
     else Inr (add_to_whitelist_registry tok
            (s\<lparr>mk_whitelist_proposal := (mk_whitelist_proposal s)(tok := None),
               mk_whitelisted := (mk_whitelisted s)(tok \<mapsto> True)\<rparr>))))))"

definition remove_token_whitelist :: "env \<Rightarrow> 'd mkt_state \<Rightarrow> address \<Rightarrow> address \<Rightarrow> 'd mkt_state kresult" where
  "remove_token_whitelist e s admin tok =
     mkt_admin_set e s admin (require_whitelisted_token s tok)
       (\<lambda>s. remove_from_whitelist_registry tok (s\<lparr>mk_whitelisted := (mk_whitelisted s)(tok := None)\<rparr>))"

definition set_token_currency :: "env \<Rightarrow> 'd mkt_state \<Rightarrow> address \<Rightarrow> address \<Rightarrow> symbol \<Rightarrow> 'd mkt_state kresult" where
  "set_token_currency e s admin tok currency =
     mkt_admin_set e s admin (Inr ()) (\<lambda>s. s\<lparr>mk_token_currency := (mk_token_currency s)(tok \<mapsto> currency)\<rparr>)"

definition set_token_exposure_cap :: "env \<Rightarrow> 'd mkt_state \<Rightarrow> address \<Rightarrow> address \<Rightarrow> i128 \<Rightarrow> 'd mkt_state kresult" where
  "set_token_exposure_cap e s admin tok x =
     mkt_admin_set e s admin (if x < 0 then Inl (Err KE_InvalidAmount) else Inr ())
       (\<lambda>s. s\<lparr>mk_exposure_cap := (mk_exposure_cap s)(tok \<mapsto> x)\<rparr>)"

definition mkt_set_debtor_attestation ::
  "env \<Rightarrow> 'd mkt_state \<Rightarrow> address \<Rightarrow> address option \<Rightarrow> 'd mkt_state kresult" where
  "mkt_set_debtor_attestation e s admin x =
     mkt_admin_set e s admin (Inr ()) (\<lambda>s. s\<lparr>mk_attestation := x\<rparr>)"

definition set_priority_window ::
  "env \<Rightarrow> 'd mkt_state \<Rightarrow> address \<Rightarrow> u64 \<Rightarrow> address list \<Rightarrow> u64 \<Rightarrow> 'd mkt_state kresult" where
  "set_priority_window e s admin i xs t =
     mkt_admin_set e s admin (Inr ())
       (\<lambda>s. s\<lparr>mk_priority := (mk_priority s)(i \<mapsto> \<lparr>pw_whitelist = xs, pw_window_end = t\<rparr>)\<rparr>)"

section \<open>Listing\<close>

definition check_bounds :: "AmountBounds option \<Rightarrow> i128 \<Rightarrow> unit kresult" where
  "check_bounds b face_value =
     (case b of
        None \<Rightarrow> Inr ()
      | Some b \<Rightarrow> if face_value < ab_min b \<or> face_value > ab_max b then Inl (Err KE_InvalidAmount) else Inr ())"

definition list_invoice ::
  "env \<Rightarrow> market_views \<Rightarrow> 'd hooks \<Rightarrow> 'd mworld \<Rightarrow> address \<Rightarrow> u64 \<Rightarrow> i128 \<Rightarrow> i128 \<Rightarrow> address \<Rightarrow> u64
     \<Rightarrow> address option \<Rightarrow> ('d mworld \<times> unit) kresult" where
  "list_invoice e v hk w0 seller i asking_price face_value tok deadline referrer =
     rbind (require_auth e seller) (\<lambda>_.
     rbind (mkt_require_not_paused e (mw_mkt w0)) (\<lambda>_.
     rbind (kora_lift (require_non_zero_amount asking_price)) (\<lambda>_.
     rbind (kora_lift (require_non_zero_amount face_value)) (\<lambda>_.
     rbind (kora_lift (require_within_max_amount asking_price)) (\<lambda>_.
     rbind (kora_lift (require_within_max_amount face_value)) (\<lambda>_.
     rbind (kora_lift (require_future_timestamp e deadline)) (\<lambda>_.
     if asking_price \<ge> face_value then Inl (Err KE_InvalidAmount)
     else
     rbind (require_whitelisted_token (mw_mkt w0) tok) (\<lambda>_.
     rbind (load_config (mw_mkt w0)) (\<lambda>(s, cfg).
     if \<not> mv_compliance v (mc_risk_registry cfg) seller then Inl (Err KE_ComplianceNotAttested)
     else if mk_listing s i \<noteq> None then Inl (Err KE_AlreadyInitialized)
     else mkt_guarded (\<lambda>w.
       let s = mw_mkt w; nft = w_nft (mw_base w) in
       rbind (case referrer of
                None \<Rightarrow> Inr s
              | Some r \<Rightarrow> if r = seller then Inl (Err KE_InvalidAddress)
                          else Inr (s\<lparr>mk_referrer := (mk_referrer s)(i \<mapsto> r)\<rparr>)) (\<lambda>s.
       rbind (or_trap (get_invoice nft i)) (\<lambda>invoice.
       if inv_amount invoice \<noteq> face_value then Inl (Err KE_InvalidAmount)
       else
       rbind (check_bounds (nx_bounds nft (inv_risk_tier invoice)) face_value) (\<lambda>_.
       if \<not> mv_debtor_verified v (mc_risk_registry cfg) (inv_debtor_hash invoice)
       then Inl (Err KE_ComplianceNotAttested)
       else
       rbind (hk_check_cap hk (mk_debtor s) (inv_debtor_hash invoice) asking_price) (\<lambda>_.
       rbind (require_circuit_breaker_not_tripped v cfg (inv_debtor_hash invoice) (inv_risk_tier invoice)) (\<lambda>_.
       rbind (require_debtor_attestation_if_needed v s i face_value (inv_risk_tier invoice)) (\<lambda>_.
       rbind (add_token_exposure s tok asking_price) (\<lambda>s.
       rbind (mkt_nft_call (\<lambda>n. set_listed (callee_env e (mc_invoice_nft cfg)) n (self_addr e) i)
                (put_mkt s w)) (\<lambda>w.
       Inr (put_mkt (put_listing i
              \<lparr>li_invoice_id = i, li_seller = seller, li_asking_price = asking_price,
               li_face_value = face_value, li_token = tok, li_funded_amount = 0,
               li_funding_deadline = deadline, li_is_active = True, li_bidding_deadline = None\<rparr>
              (mw_mkt w)) w, ()))))))))))
     (put_mkt s w0))))))))))"

section \<open>Funding\<close>

text \<open>\<open>core::str::from_utf8\<close> of the standard library: whether bytes are well-formed UTF-8.\<close>

definition utf8_cont :: "nat \<Rightarrow> bool" where "utf8_cont b \<longleftrightarrow> 128 \<le> b \<and> b \<le> 191"

fun utf8_ok :: "nat list \<Rightarrow> bool" where
  "utf8_ok [] = True"
| "utf8_ok (b # bs) =
     (if b < 128 then utf8_ok bs
      else case bs of
        [] \<Rightarrow> False
      | c # cs \<Rightarrow>
          if 194 \<le> b \<and> b \<le> 223 then utf8_cont c \<and> utf8_ok cs
          else case cs of
            [] \<Rightarrow> False
          | d # ds \<Rightarrow>
              if 224 \<le> b \<and> b \<le> 239 then
                utf8_cont c \<and> (b = 224 \<longrightarrow> 160 \<le> c) \<and> (b = 237 \<longrightarrow> c \<le> 159) \<and> utf8_cont d \<and> utf8_ok ds
              else case ds of
                [] \<Rightarrow> False
              | f # fs \<Rightarrow>
                  240 \<le> b \<and> b \<le> 244 \<and> utf8_cont c \<and> (b = 240 \<longrightarrow> 144 \<le> c) \<and> (b = 244 \<longrightarrow> c \<le> 143) \<and>
                  utf8_cont d \<and> utf8_cont f \<and> utf8_ok fs)"

text \<open>The currency of the listing's token: the registered symbol, or the token's own, copied
  through a buffer of 32 bytes (a longer one traps in \<open>copy_into_slice\<close>, a character no
  \<open>Symbol\<close> may hold traps in \<open>Symbol::new\<close>); the invoice's currency if it is not UTF-8.\<close>

definition listing_currency :: "env \<Rightarrow> 'd mkt_state \<Rightarrow> address \<Rightarrow> symbol \<Rightarrow> symbol kresult" where
  "listing_currency e s tok invoice_currency =
     (case mk_token_currency s tok of
        Some c \<Rightarrow> Inr c
      | None \<Rightarrow>
          let sym = token_symbol e tok in
          if length sym > 32 then Inl Trap
          else if \<not> utf8_ok (map of_char sym) then Inr invoice_currency
          else if list_all is_symbol_char sym then Inr sym else Inl Trap)"

text \<open>The checks on the listing alone.\<close>

definition fund_listing :: "env \<Rightarrow> 'd mkt_state \<Rightarrow> u64 \<Rightarrow> i128 \<Rightarrow> Listing kresult" where
  "fund_listing e s i amount =
     rbind (kora_lift (require_non_zero_amount amount)) (\<lambda>_.
     rbind (kora_lift (require_within_max_amount amount)) (\<lambda>_.
     rbind (get_listing s i) (\<lambda>l.
     if \<not> li_is_active l then Inl (Err KE_ListingAlreadyCancelled)
     else if timestamp e > li_funding_deadline l then Inl (Err KE_FundingDeadlinePassed)
     else Inr l)))"

text \<open>Room left in the listing's own currency, and the floor on small contributions.\<close>

definition fund_room ::
  "env \<Rightarrow> market_views \<Rightarrow> 'd mkt_state \<Rightarrow> MarketplaceConfig \<Rightarrow> Listing \<Rightarrow> Invoice \<Rightarrow> i128 \<Rightarrow> unit kresult" where
  "fund_room e v s cfg l invoice amount =
     rbind (listing_currency e s (li_token l) (inv_currency invoice)) (\<lambda>currency.
     rbind (if currency \<noteq> inv_currency invoice
            then ok_or (mv_convert v (mc_price_oracle cfg) amount currency (inv_currency invoice)
                          (token_decimals e (li_token l)) 7) Trap
            else Inr amount) (\<lambda>credited.
     rbind (kora_lift (safe_sub (li_asking_price l) (li_funded_amount l))) (\<lambda>remaining.
     if credited > remaining then Inl (Err KE_ExceedsFundingTarget)
     else if amount < min_contribution_floor s \<and> amount \<noteq> remaining
     then Inl (Err KE_ContributionBelowMinimum)
     else Inr ())))"

text \<open>The concentration cap on one investor's gross contribution.\<close>

definition check_concentration :: "'d mkt_state \<Rightarrow> u64 \<Rightarrow> address \<Rightarrow> i128 \<Rightarrow> i128 \<Rightarrow> unit kresult" where
  "check_concentration s i investor asking_price amount =
     (let cap_bps = get_max_investor_share_bps s in
      if cap_bps > 0 then
        rbind (kora_lift (safe_add (case mk_gross s i investor of None \<Rightarrow> 0 | Some g \<Rightarrow> g) amount)) (\<lambda>prospective.
        rbind (ok_or (i128_mul prospective 10000) (Err KE_ArithmeticOverflow)) (\<lambda>lhs.
        rbind (ok_or (i128_mul (int cap_bps) asking_price) (Err KE_ArithmeticOverflow)) (\<lambda>rhs.
        if lhs > rhs then Inl (Err KE_InvestorConcentrationExceeded) else Inr ())))
      else Inr ())"

definition contribution_of :: "'d mkt_state \<Rightarrow> u64 \<Rightarrow> address \<Rightarrow> i128" where
  "contribution_of s i a = (case mk_contribution s i a of None \<Rightarrow> 0 | Some x \<Rightarrow> x)"

definition fee_of :: "'d mkt_state \<Rightarrow> u64 \<Rightarrow> address \<Rightarrow> i128" where
  "fee_of s i a = (case mk_fee_contribution s i a of None \<Rightarrow> 0 | Some x \<Rightarrow> x)"

definition investors_of :: "'d mkt_state \<Rightarrow> u64 \<Rightarrow> address list" where
  "investors_of s i = (case mk_investors s i of None \<Rightarrow> [] | Some xs \<Rightarrow> xs)"

text \<open>What a contribution amounts to: in the listing's token the gross amount, the fee and the
  rest, in the paying token the two transfers, and the sums to be stored.\<close>

record fund_quote =
  fq_debtor_hash :: bytes
  fq_amount :: i128
  fq_fee :: i128
  fq_net :: i128
  fq_pay_token :: address
  fq_pay_fee :: i128
  fq_pay_net :: i128
  fq_funded_after :: i128
  fq_contrib_after :: i128
  fq_fee_after :: i128

definition quote_contribution ::
  "env \<Rightarrow> 'd hooks \<Rightarrow> 'd mkt_state \<Rightarrow> MarketplaceConfig \<Rightarrow> world \<Rightarrow> Listing \<Rightarrow> Invoice \<Rightarrow> address \<Rightarrow> u64 \<Rightarrow> i128
     \<Rightarrow> address option \<Rightarrow> fund_quote kresult" where
  "quote_contribution e hk s cfg w l invoice investor i amount payment_token =
     (let pay_token = (case payment_token of None \<Rightarrow> li_token l | Some t \<Rightarrow> t);
          native = (pay_token = li_token l) in
      rbind (if native then Inr amount
             else
               rbind (require_whitelisted_token s pay_token) (\<lambda>_.
               rbind (convert_via_oracle e s w amount pay_token (li_token l)) (\<lambda>converted.
               rbind (kora_lift (require_within_max_amount converted)) (\<lambda>_. Inr converted)))) (\<lambda>listing_amount.
      rbind (kora_lift (safe_sub (li_asking_price l) (li_funded_amount l))) (\<lambda>remaining.
      if listing_amount > remaining then Inl (Err KE_ExceedsFundingTarget)
      else
      rbind (hk_check_cap hk (mk_debtor s) (inv_debtor_hash invoice) listing_amount) (\<lambda>_.
      rbind (effective_fee_bps e s cfg (inv_risk_tier invoice)) (\<lambda>bps.
      rbind (kora_lift (bps_of_normalized listing_amount bps (token_decimals e (li_token l)))) (\<lambda>fee.
      rbind (ok_or (i128_sub listing_amount fee) (Err KE_ArithmeticOverflow)) (\<lambda>net.
      rbind (if native then Inr (fee, net)
             else
               rbind (kora_lift (safe_mul amount fee)) (\<lambda>x.
               rbind (kora_lift (safe_div x listing_amount)) (\<lambda>pay_fee.
               rbind (kora_lift (safe_sub amount pay_fee)) (\<lambda>pay_net. Inr (pay_fee, pay_net))))) (\<lambda>(pay_fee, pay_net).
      rbind (kora_lift (safe_add (li_funded_amount l) listing_amount)) (\<lambda>funded_after.
      rbind (kora_lift (safe_add (contribution_of s i investor) net)) (\<lambda>contrib_after.
      rbind (kora_lift (safe_add (fee_of s i investor) fee)) (\<lambda>fee_after.
      Inr \<lparr>fq_debtor_hash = inv_debtor_hash invoice, fq_amount = listing_amount, fq_fee = fee,
           fq_net = net, fq_pay_token = pay_token, fq_pay_fee = pay_fee, fq_pay_net = pay_net,
           fq_funded_after = funded_after, fq_contrib_after = contrib_after,
           fq_fee_after = fee_after\<rparr>)))))))))))"

text \<open>Everything that is checked before the first write.\<close>

definition fund_checks ::
  "env \<Rightarrow> market_views \<Rightarrow> 'd hooks \<Rightarrow> 'd mkt_state \<Rightarrow> MarketplaceConfig \<Rightarrow> world \<Rightarrow> Listing \<Rightarrow> address \<Rightarrow> u64
     \<Rightarrow> i128 \<Rightarrow> address option \<Rightarrow> fund_quote kresult" where
  "fund_checks e v hk s cfg w l investor i amount payment_token =
     rbind (or_trap (get_invoice (w_nft w) i)) (\<lambda>invoice.
     rbind (require_circuit_breaker_not_tripped v cfg (inv_debtor_hash invoice) (inv_risk_tier invoice)) (\<lambda>_.
     rbind (fund_room e v s cfg l invoice amount) (\<lambda>_.
     rbind (require_investor_accredited s investor) (\<lambda>_.
     rbind (require_priority_window_allowed e s i investor) (\<lambda>_.
     rbind (check_concentration s i investor (li_asking_price l) amount) (\<lambda>_.
     if is_invoice_frozen (w_nft w) i then Inl (Err KE_InvoiceFrozen)
     else quote_contribution e hk s cfg w l invoice investor i amount payment_token))))))"

text \<open>The first contribution enters the index of the listing's investors; this write comes
  before the last check that can fail.\<close>

definition note_investor :: "u64 \<Rightarrow> address \<Rightarrow> 'd mkt_state \<Rightarrow> 'd mkt_state" where
  "note_investor i investor s =
     (if contribution_of s i investor = 0
      then s\<lparr>mk_investors := (mk_investors s)(i \<mapsto> investors_of s i @ [investor])\<rparr> else s)"

text \<open>The transfers, the bookkeeping, and the hand-over of a fully funded listing to the pool.\<close>

definition fund_commit ::
  "env \<Rightarrow> MarketplaceConfig \<Rightarrow> Listing \<Rightarrow> address \<Rightarrow> u64 \<Rightarrow> fund_quote \<Rightarrow> 'd mworld \<Rightarrow> 'd mworld kresult" where
  "fund_commit e cfg l investor i q w =
     (let w = (if fq_pay_fee q > 0
               then mkt_emit (CollectFee (mc_treasury cfg) (fq_pay_token q) (fq_pay_fee q))
                      (mkt_emit (Transfer (fq_pay_token q) investor (mc_treasury cfg) (fq_pay_fee q)) w)
               else w);
          w = (if fq_pay_net q > 0
               then mkt_emit (Transfer (fq_pay_token q) investor (mc_financing_pool cfg) (fq_pay_net q)) w
               else w);
          s = mw_mkt w;
          s = s\<lparr>mk_contribution := (mk_contribution s)(i := (mk_contribution s i)(investor \<mapsto> fq_contrib_after q)),
                mk_fee_contribution := (mk_fee_contribution s)(i := (mk_fee_contribution s i)(investor \<mapsto> fq_fee_after q))\<rparr>;
          full = (fq_funded_after q \<ge> li_asking_price l);
          l = l\<lparr>li_funded_amount := fq_funded_after q, li_is_active := li_is_active l \<and> \<not> full\<rparr>;
          s = (if full then remove_token_exposure s (li_token l) (li_asking_price l) else s);
          w = put_mkt (put_listing i l s) w in
      if full then
        rbind (or_trap (release_funds (callee_env e (mc_financing_pool cfg)) (mw_base w) (self_addr e) i (li_token l)))
          (\<lambda>b. Inr (w\<lparr>mw_base := b\<rparr>))
      else Inr w)"

text \<open>\<open>fund_invoice_internal\<close> returns the state also when it returns an error, because the batch
  entry point goes on after one; only a trap takes everything back.\<close>

definition fund_invoice_internal ::
  "env \<Rightarrow> market_views \<Rightarrow> 'd hooks \<Rightarrow> 'd mworld \<Rightarrow> address \<Rightarrow> u64 \<Rightarrow> i128 \<Rightarrow> address option
     \<Rightarrow> ('d mworld \<times> KoraError option) kresult" where
  "fund_invoice_internal e v hk w investor i amount payment_token =
     (let s = mw_mkt w in
      case rbind (fund_listing e s i amount) (\<lambda>l. rbind (load_config s) (\<lambda>(s, cfg). Inr (l, s, cfg))) of
        Inl Trap \<Rightarrow> Inl Trap
      | Inl (Err x) \<Rightarrow> Inr (w, Some x)
      | Inr (l, s, cfg) \<Rightarrow>
          (case fund_checks e v hk s cfg (mw_base w) l investor i amount payment_token of
             Inl Trap \<Rightarrow> Inl Trap
           | Inl (Err x) \<Rightarrow> Inr (put_mkt s w, Some x)
           | Inr q \<Rightarrow>
               let s = note_investor i investor s in
               (case hk_add hk (mk_debtor s) (fq_debtor_hash q) i (fq_amount q) of
                  Inl Trap \<Rightarrow> Inl Trap
                | Inl (Err x) \<Rightarrow> Inr (put_mkt s w, Some x)
                | Inr d \<Rightarrow>
                    rbind (fund_commit e cfg l investor i q (put_mkt (s\<lparr>mk_debtor := d\<rparr>) w)) (\<lambda>w. Inr (w, None)))))"

definition fund_invoice ::
  "env \<Rightarrow> market_views \<Rightarrow> 'd hooks \<Rightarrow> 'd mworld \<Rightarrow> address \<Rightarrow> u64 \<Rightarrow> i128 \<Rightarrow> address option
     \<Rightarrow> ('d mworld \<times> unit) kresult" where
  "fund_invoice e v hk w0 investor i amount payment_token =
     rbind (require_auth e investor) (\<lambda>_.
     rbind (mkt_require_not_paused e (mw_mkt w0)) (\<lambda>_.
     mkt_guarded (\<lambda>w.
       rbind (fund_invoice_internal e v hk w investor i amount payment_token) (\<lambda>(w, r).
       case r of None \<Rightarrow> Inr (w, ()) | Some x \<Rightarrow> Inl (Err x))) w0))"

fun batch_fund ::
  "env \<Rightarrow> market_views \<Rightarrow> 'd hooks \<Rightarrow> address \<Rightarrow> bool \<Rightarrow> (u64 \<times> i128) list \<Rightarrow> 'd mworld
     \<Rightarrow> ('d mworld \<times> BatchAllocationResult list) kresult" where
  "batch_fund e v hk investor atomic [] w = Inr (w, [])"
| "batch_fund e v hk investor atomic ((i, amount) # xs) w =
     rbind (fund_invoice_internal e v hk w investor i amount None) (\<lambda>(w, r).
     case r of
       None \<Rightarrow>
         rbind (batch_fund e v hk investor atomic xs w) (\<lambda>(w, rs).
         Inr (w, \<lparr>ba_invoice_id = i, ba_success = True, ba_error_code = 0\<rparr> # rs))
     | Some x \<Rightarrow>
         if atomic then Inl (Err x)
         else
           rbind (batch_fund e v hk investor atomic xs w) (\<lambda>(w, rs).
           Inr (w, \<lparr>ba_invoice_id = i, ba_success = False, ba_error_code = kora_code x\<rparr> # rs)))"

definition fund_invoices_batch ::
  "env \<Rightarrow> market_views \<Rightarrow> 'd hooks \<Rightarrow> 'd mworld \<Rightarrow> address \<Rightarrow> (u64 \<times> i128) list \<Rightarrow> bool
     \<Rightarrow> ('d mworld \<times> BatchAllocationResult list) kresult" where
  "fund_invoices_batch e v hk w0 investor allocations atomic =
     rbind (require_auth e investor) (\<lambda>_.
     rbind (mkt_require_not_paused e (mw_mkt w0)) (\<lambda>_.
     mkt_guarded (\<lambda>w.
       if allocations = [] \<or> length allocations > MAX_BATCH_SIZE then Inl (Err KE_InvalidAmount)
       else batch_fund e v hk investor atomic allocations w) w0))"

section \<open>Refunds and cancellation\<close>

text \<open>The part that \<open>claim_refund\<close> and the loop of \<open>cancel_listing\<close> share: the claim is marked,
  debtor and token exposure go down by the gross contribution, the net contribution comes back
  from the pool and the fee from the treasury.\<close>

definition refund_investor ::
  "env \<Rightarrow> 'd hooks \<Rightarrow> MarketplaceConfig \<Rightarrow> address \<Rightarrow> bytes \<Rightarrow> u64 \<Rightarrow> address \<Rightarrow> 'd mworld \<Rightarrow> 'd mworld kresult" where
  "refund_investor e hk cfg tok debtor_hash i investor w =
     (let s = mw_mkt w; net = contribution_of s i investor; fee = fee_of s i investor in
      rbind (kora_lift (safe_add net fee)) (\<lambda>gross.
      rbind (hk_remove hk (mk_debtor s) debtor_hash i gross) (\<lambda>d.
      rbind (kora_lift (safe_sub (exposure_current s tok) gross)) (\<lambda>x.
      let s = put_exposure tok x (s\<lparr>mk_debtor := d,
                mk_refund_claimed := (mk_refund_claimed s)(i := (mk_refund_claimed s i)(investor \<mapsto> True))\<rparr>);
          w = mkt_emit (Transfer tok (mc_financing_pool cfg) investor net) (put_mkt s w) in
      Inr (if fee > 0
           then put_mkt (s\<lparr>mk_fee_contribution := (mk_fee_contribution s)(i := (mk_fee_contribution s i)(investor := None))\<rparr>)
                  (mkt_emit (RefundFee (mc_treasury cfg) (self_addr e) tok fee investor) w)
           else w)))))"

fun cancel_refunds ::
  "env \<Rightarrow> 'd hooks \<Rightarrow> MarketplaceConfig \<Rightarrow> address \<Rightarrow> bytes \<Rightarrow> u64 \<Rightarrow> address list \<Rightarrow> 'd mworld \<Rightarrow> 'd mworld kresult" where
  "cancel_refunds e hk cfg tok debtor_hash i [] w = Inr w"
| "cancel_refunds e hk cfg tok debtor_hash i (investor # xs) w =
     (if contribution_of (mw_mkt w) i investor \<le> 0 then cancel_refunds e hk cfg tok debtor_hash i xs w
      else
        rbind (refund_investor e hk cfg tok debtor_hash i investor w) (\<lambda>w.
        let s = mw_mkt w in
        cancel_refunds e hk cfg tok debtor_hash i xs
          (put_mkt (s\<lparr>mk_contribution := (mk_contribution s)(i := (mk_contribution s i)(investor := None))\<rparr>) w)))"

text \<open>The listing of an operation by its seller or the admin.\<close>

definition own_active_listing ::
  "env \<Rightarrow> 'd mkt_state \<Rightarrow> address \<Rightarrow> u64 \<Rightarrow> (Listing \<Rightarrow> unit kresult) \<Rightarrow> (Listing \<times> 'd mkt_state \<times> MarketplaceConfig) kresult" where
  "own_active_listing e s caller i check =
     rbind (get_listing s i) (\<lambda>l.
     if \<not> li_is_active l then Inl (Err KE_ListingAlreadyCancelled)
     else
       rbind (check l) (\<lambda>_.
       rbind (load_config s) (\<lambda>(s, cfg).
       if caller \<noteq> li_seller l \<and> caller \<noteq> mc_admin cfg then Inl (Err KE_Unauthorized)
       else Inr (l, s, cfg))))"

definition require_unfunded :: "Listing \<Rightarrow> unit kresult" where
  "require_unfunded l = (if li_funded_amount l > 0 then Inl (Err KE_ListingAlreadyFunded) else Inr ())"

text \<open>A listing that resolves: inactive, and no longer outstanding for its asking price.\<close>

definition close_listing :: "u64 \<Rightarrow> Listing \<Rightarrow> 'd mkt_state \<Rightarrow> 'd mkt_state" where
  "close_listing i l s =
     put_listing i (l\<lparr>li_is_active := False\<rparr>) (remove_token_exposure s (li_token l) (li_asking_price l))"

definition cancel_listing ::
  "env \<Rightarrow> 'd hooks \<Rightarrow> 'd mworld \<Rightarrow> address \<Rightarrow> u64 \<Rightarrow> 'd mworld kresult" where
  "cancel_listing e hk w caller i =
     rbind (require_auth e caller) (\<lambda>_.
     rbind (own_active_listing e (mw_mkt w) caller i (\<lambda>_. Inr ())) (\<lambda>(l, s, cfg).
     rbind (if li_funded_amount l > 0 then
              rbind (or_trap (get_invoice (w_nft (mw_base w)) i)) (\<lambda>invoice.
              rbind (cancel_refunds e hk cfg (li_token l) (inv_debtor_hash invoice) i (investors_of s i) (put_mkt s w)) (\<lambda>w.
              let s = mw_mkt w in
              Inr (put_mkt (s\<lparr>mk_investors := (mk_investors s)(i := None)\<rparr>) w)))
            else Inr (put_mkt s w)) (\<lambda>w.
     Inr (put_mkt (close_listing i l (mw_mkt w)) w))))"

definition withdraw_listing :: "env \<Rightarrow> 'd mworld \<Rightarrow> address \<Rightarrow> u64 \<Rightarrow> 'd mworld kresult" where
  "withdraw_listing e w caller i =
     rbind (require_auth e caller) (\<lambda>_.
     rbind (own_active_listing e (mw_mkt w) caller i require_unfunded) (\<lambda>(l, s, cfg).
     let s = s\<lparr>mk_listing := (mk_listing s)(i := None)\<rparr>;
         s = remove_token_exposure s (li_token l) (li_asking_price l) in
     mkt_nft_call (\<lambda>n. set_created (callee_env e (mc_invoice_nft cfg)) n (self_addr e) i) (put_mkt s w)))"

definition request_cancellation :: "env \<Rightarrow> 'd mkt_state \<Rightarrow> address \<Rightarrow> u64 \<Rightarrow> 'd mkt_state kresult" where
  "request_cancellation e s caller i =
     rbind (require_auth e caller) (\<lambda>_.
     rbind (own_active_listing e s caller i (\<lambda>_. Inr ())) (\<lambda>(l, s, cfg).
     if li_funded_amount l = 0 then Inr (close_listing i l s)
     else if mk_cancel_request s i \<noteq> None then Inl (Err KE_CancellationPending)
     else Inr (s\<lparr>mk_cancel_request := (mk_cancel_request s)(i \<mapsto> caller)\<rparr>)))"

definition admin_confirm_cancellation :: "env \<Rightarrow> 'd mkt_state \<Rightarrow> address \<Rightarrow> u64 \<Rightarrow> 'd mkt_state kresult" where
  "admin_confirm_cancellation e s admin i =
     rbind (require_auth e admin) (\<lambda>_.
     rbind (mkt_require_admin s admin) (\<lambda>(s, _).
     if mk_cancel_request s i = None then Inl (Err KE_NoCancellationPending)
     else
       rbind (get_listing s i) (\<lambda>l.
       if \<not> li_is_active l then Inl (Err KE_ListingAlreadyCancelled)
       else
         let s = close_listing i l s in
         Inr (s\<lparr>mk_cancel_request := (mk_cancel_request s)(i := None),
                mk_cancel_confirmed := (mk_cancel_confirmed s)(i \<mapsto> True)\<rparr>))))"

definition mark_listing_expired :: "u64 \<Rightarrow> Listing \<Rightarrow> 'd mkt_state \<Rightarrow> 'd mkt_state" where
  "mark_listing_expired i l s =
     (if li_funded_amount l \<ge> li_asking_price l then s
      else
        let s = put_listing i (l\<lparr>li_is_active := False\<rparr>) s in
        if mk_expiry_emitted s i = Some True then s
        else s\<lparr>mk_expiry_emitted := (mk_expiry_emitted s)(i \<mapsto> True)\<rparr>)"

definition refund_claimed :: "'d mkt_state \<Rightarrow> u64 \<Rightarrow> address \<Rightarrow> bool" where
  "refund_claimed s i a = (mk_refund_claimed s i a = Some True)"

definition cancel_confirmed :: "'d mkt_state \<Rightarrow> u64 \<Rightarrow> bool" where
  "cancel_confirmed s i = (mk_cancel_confirmed s i = Some True)"

definition claim_refund :: "env \<Rightarrow> 'd hooks \<Rightarrow> 'd mworld \<Rightarrow> address \<Rightarrow> u64 \<Rightarrow> 'd mworld kresult" where
  "claim_refund e hk w investor i =
     rbind (require_auth e investor) (\<lambda>_.
     let s = mw_mkt w in
     rbind (get_listing s i) (\<lambda>l.
     if li_funded_amount l \<ge> li_asking_price l then Inl (Err KE_ListingFullyFunded)
     else if \<not> cancel_confirmed s i \<and> timestamp e \<le> li_funding_deadline l
     then Inl (Err KE_FundingNotExpired)
     else
       let s = (if \<not> cancel_confirmed s i then mark_listing_expired i l s else s) in
       if refund_claimed s i investor then Inl (Err KE_AlreadyInitialized)
       else if contribution_of s i investor \<le> 0 then Inl (Err KE_InsufficientFunds)
       else
         rbind (load_config s) (\<lambda>(s, cfg).
         rbind (or_trap (get_invoice (w_nft (mw_base w)) i)) (\<lambda>invoice.
         refund_investor e hk cfg (li_token l) (inv_debtor_hash invoice) i investor (put_mkt s w)))))"

definition amend_listing ::
  "env \<Rightarrow> 'd mkt_state \<Rightarrow> address \<Rightarrow> u64 \<Rightarrow> i128 option \<Rightarrow> u64 option \<Rightarrow> address option \<Rightarrow> 'd mkt_state kresult" where
  "amend_listing e s caller i new_price new_deadline new_token =
     rbind (require_auth e caller) (\<lambda>_.
     rbind (mkt_require_not_paused e s) (\<lambda>_.
     rbind (own_active_listing e s caller i require_unfunded) (\<lambda>(l, s, cfg).
     rbind (case new_price of
              None \<Rightarrow> Inr l
            | Some price \<Rightarrow>
                rbind (kora_lift (require_non_zero_amount price)) (\<lambda>_.
                rbind (kora_lift (require_within_max_amount price)) (\<lambda>_.
                if price \<ge> li_face_value l then Inl (Err KE_InvalidAmount)
                else Inr (l\<lparr>li_asking_price := price\<rparr>)))) (\<lambda>l.
     rbind (case new_deadline of
              None \<Rightarrow> Inr l
            | Some deadline \<Rightarrow>
                rbind (kora_lift (require_future_timestamp e deadline)) (\<lambda>_.
                Inr (l\<lparr>li_funding_deadline := deadline\<rparr>))) (\<lambda>l.
     rbind (case new_token of
              None \<Rightarrow> Inr l
            | Some tok \<Rightarrow>
                rbind (require_whitelisted_token s tok) (\<lambda>_. Inr (l\<lparr>li_token := tok\<rparr>))) (\<lambda>l.
     Inr (put_listing i l s)))))))"

text \<open>A page of the investors; \<open>usize\<close> has 32 bits on the contract's target.\<close>

definition get_listing_investors :: "'d mkt_state \<Rightarrow> u64 \<Rightarrow> u32 \<Rightarrow> u32 \<Rightarrow> address list kresult" where
  "get_listing_investors s i page page_size =
     (let ps = min (max page_size 1) 50; start = min u32_max (page * ps) in
      rbind (ok_or (u32_add start ps) Trap) (\<lambda>stop.
      Inr (drop start (take stop (investors_of s i)))))"

definition get_outstanding_contribution :: "'d mkt_state \<Rightarrow> u64 \<Rightarrow> i128" where
  "get_outstanding_contribution s i =
     foldl i128_sat_add 0 (map (contribution_of s i) (investors_of s i))"

section \<open>Upgrades and multisig actions\<close>

definition mkt_propose_upgrade ::
  "env \<Rightarrow> market_views \<Rightarrow> 'd mkt_state \<Rightarrow> address \<Rightarrow> bytes \<Rightarrow> 'd mkt_state kresult" where
  "mkt_propose_upgrade e v s admin h =
     rbind (require_auth e admin) (\<lambda>_.
     rbind (mkt_require_admin s admin) (\<lambda>(s, _).
     rbind (require_direct_admin_allowed v s) (\<lambda>_.
     apply_propose_upgrade e s h)))"

definition mkt_execute_upgrade ::
  "env \<Rightarrow> market_views \<Rightarrow> 'd mkt_state \<Rightarrow> address \<Rightarrow> ('d mkt_state \<times> bytes) kresult" where
  "mkt_execute_upgrade e v s admin =
     rbind (require_auth e admin) (\<lambda>_.
     rbind (mkt_require_admin s admin) (\<lambda>(s, _).
     rbind (require_direct_admin_allowed v s) (\<lambda>_.
     apply_execute_upgrade e s)))"

definition propose_admin_action ::
  "env \<Rightarrow> market_views \<Rightarrow> 'd mkt_state \<Rightarrow> address \<Rightarrow> MarketplaceAction \<Rightarrow> ('d mkt_state \<times> u64) kresult" where
  "propose_admin_action e v s proposer action =
     rbind (require_auth e proposer) (\<lambda>_.
     rbind (require_multisig v s) (\<lambda>cfg.
     rbind (require_signer cfg proposer) (\<lambda>_.
     let n = (case mk_next_proposal s of None \<Rightarrow> 1 | Some n \<Rightarrow> n) in
     rbind (ok_or (u64_add n 1) (Err KE_ArithmeticOverflow)) (\<lambda>nxt.
     Inr (s\<lparr>mk_proposal := (mk_proposal s)(n \<mapsto>
              \<lparr>ap_id = n, ap_action = action, ap_approvals = [proposer], ap_executed = False,
               ap_created_at = timestamp e\<rparr>),
            mk_next_proposal := Some nxt\<rparr>, n)))))"

definition approve_admin_action ::
  "env \<Rightarrow> market_views \<Rightarrow> 'd mkt_state \<Rightarrow> address \<Rightarrow> u64 \<Rightarrow> 'd mkt_state kresult" where
  "approve_admin_action e v s approver n =
     rbind (require_auth e approver) (\<lambda>_.
     rbind (require_multisig v s) (\<lambda>cfg.
     rbind (require_signer cfg approver) (\<lambda>_.
     rbind (load_proposal s n) (\<lambda>p.
     if ap_executed p then Inl (Err KE_ParameterProposalAlreadyExecuted)
     else if approver \<in> set (ap_approvals p) then Inl (Err KE_AlreadyVoted)
     else Inr (s\<lparr>mk_proposal := (mk_proposal s)(n \<mapsto> p\<lparr>ap_approvals := ap_approvals p @ [approver]\<rparr>)\<rparr>)))))"

definition dispatch_action ::
  "env \<Rightarrow> 'd mworld \<Rightarrow> address \<Rightarrow> MarketplaceAction \<Rightarrow> ('d mworld \<times> bytes option) kresult" where
  "dispatch_action e w admin action =
     (let s = mw_mkt w; loc = (\<lambda>m. rbind m (\<lambda>s. Inr (put_mkt s w, None))) in
      case action of
        MA_SetFeeBps bps \<Rightarrow> rbind (apply_set_fee_bps w admin bps) (\<lambda>w. Inr (w, None))
      | MA_SetReferrerSplitBps bps \<Rightarrow> rbind (apply_set_referrer_split_bps w admin bps) (\<lambda>w. Inr (w, None))
      | MA_SetTierFeeBps ordinal bps \<Rightarrow> loc (apply_set_tier_fee_bps s ordinal bps)
      | MA_WhitelistToken tok \<Rightarrow> loc (apply_whitelist_token s tok)
      | MA_RemoveTokenWhitelist tok \<Rightarrow> loc (apply_remove_token_whitelist s tok)
      | MA_ProposeUpgrade h \<Rightarrow> loc (apply_propose_upgrade e s h)
      | MA_ExecuteUpgrade \<Rightarrow> rbind (apply_execute_upgrade e s) (\<lambda>(s, h). Inr (put_mkt s w, Some h)))"

definition execute_admin_action ::
  "env \<Rightarrow> market_views \<Rightarrow> 'd mworld \<Rightarrow> address \<Rightarrow> u64 \<Rightarrow> ('d mworld \<times> bytes option) kresult" where
  "execute_admin_action e v w executor n =
     rbind (require_auth e executor) (\<lambda>_.
     let s = mw_mkt w in
     rbind (require_multisig v s) (\<lambda>cfg.
     rbind (require_signer cfg executor) (\<lambda>_.
     rbind (load_proposal s n) (\<lambda>p.
     if ap_executed p then Inl (Err KE_ParameterProposalAlreadyExecuted)
     else if length (ap_approvals p) < ms_threshold cfg then Inl (Err KE_GovernanceThresholdNotMet)
     else
       let s = s\<lparr>mk_proposal := (mk_proposal s)(n \<mapsto> p\<lparr>ap_executed := True\<rparr>)\<rparr> in
       rbind (load_config s) (\<lambda>(s, cfg).
       dispatch_action e (put_mkt s w) (mc_admin cfg) (ap_action p))))))"

section \<open>Dependency addresses\<close>

definition propose_dependency_update ::
  "env \<Rightarrow> 'd mkt_state \<Rightarrow> address \<Rightarrow> DependencyField \<Rightarrow> address \<Rightarrow> 'd mkt_state kresult" where
  "propose_dependency_update e s admin field new_address =
     mkt_admin_set e s admin (Inr ())
       (\<lambda>s. s\<lparr>mk_dependency := (mk_dependency s)(dependency_field_ordinal field \<mapsto> (new_address, timestamp e))\<rparr>)"

definition execute_dependency_update ::
  "env \<Rightarrow> 'd mkt_state \<Rightarrow> address \<Rightarrow> DependencyField \<Rightarrow> 'd mkt_state kresult" where
  "execute_dependency_update e s admin field =
     rbind (require_auth e admin) (\<lambda>_.
     rbind (mkt_require_admin s admin) (\<lambda>(s, cfg).
     let ordinal = dependency_field_ordinal field in
     rbind (ok_or (mk_dependency s ordinal) (Err KE_NoDependencyUpdateProposed)) (\<lambda>(a, proposed_at).
     rbind (ok_or (u64_add proposed_at UPGRADE_TIMELOCK_DELAY) Trap) (\<lambda>ready.
     if timestamp e < ready then Inl (Err KE_DependencyUpdateTimelockNotElapsed)
     else
       let s = s\<lparr>mk_dependency := (mk_dependency s)(ordinal := None)\<rparr> in
       rbind (case field of
                DF_InvoiceNft \<Rightarrow> Inr (s, cfg\<lparr>mc_invoice_nft := a\<rparr>)
              | DF_FinancingPool \<Rightarrow> Inr (s, cfg\<lparr>mc_financing_pool := a\<rparr>)
              | DF_Treasury \<Rightarrow> Inr (s, cfg\<lparr>mc_treasury := a\<rparr>)
              | DF_AccessControl \<Rightarrow> Inr (s, cfg\<lparr>mc_access_control := a\<rparr>)
              | DF_RiskRegistry \<Rightarrow> Inr (s, cfg\<lparr>mc_risk_registry := a\<rparr>)
              | DF_ParameterRegistry \<Rightarrow> Inr (s, cfg\<lparr>mc_parameter_registry := a\<rparr>)
              | DF_DebtorAttestation \<Rightarrow>
                  rbind (ok_or (mk_attestation s) (Err KE_NotInitialized)) (\<lambda>_.
                  Inr (s\<lparr>mk_attestation := Some a\<rparr>, cfg))) (\<lambda>(s, cfg).
       Inr (s\<lparr>mk_config := Some cfg\<rparr>))))))"

end
