(* ===== verification/Market_Runs.thy ===== *)
theory Market_Runs
  imports Marketplace
begin

text \<open>
  Runs of the marketplace.  \<open>mkt_call\<close> has one constructor per state-changing entry point,
  \<open>mkt_exec\<close> dispatches a call, and \<open>mkt_runs\<close> interleaves successful calls, in any environment,
  with arbitrary changes of the other contracts.  \<open>mkt_inv\<close> is the invariant of the funding
  ledger; every entry point preserves it.
\<close>

section \<open>Calls and runs\<close>

datatype (plugins only: code) mkt_call =
    MC_initialize address address address address address address address address u32 u32
  | MC_migrate_versions address u32 u32
  | MC_set_referrer_split_bps address u32
  | MC_set_fee_bps address u32
  | MC_set_min_contribution address i128
  | MC_set_max_investor_share_bps address u32
  | MC_set_investor_accredited address address bool
  | MC_set_tier_fee_bps address RiskTier u32
  | MC_propose_token_whitelist address address
  | MC_execute_token_whitelist address address
  | MC_remove_token_whitelist address address
  | MC_set_token_currency address address symbol
  | MC_set_token_exposure_cap address address i128
  | MC_set_debtor_attestation address "address option"
  | MC_set_priority_window address u64 "address list" u64
  | MC_list_invoice address u64 i128 i128 address u64 "address option"
  | MC_fund_invoice address u64 i128 "address option"
  | MC_fund_invoices_batch address "(u64 \<times> i128) list" bool
  | MC_cancel_listing address u64
  | MC_withdraw_listing address u64
  | MC_request_cancellation address u64
  | MC_admin_confirm_cancellation address u64
  | MC_claim_refund address u64
  | MC_amend_listing address u64 "i128 option" "u64 option" "address option"
  | MC_propose_upgrade address bytes
  | MC_execute_upgrade address
  | MC_propose_admin_action address MarketplaceAction
  | MC_approve_admin_action address u64
  | MC_execute_admin_action address u64
  | MC_propose_dependency_update address DependencyField address
  | MC_execute_dependency_update address DependencyField

definition on_mkt :: "'d mworld \<Rightarrow> ('d mkt_state \<Rightarrow> 'd mkt_state kresult) \<Rightarrow> 'd mworld kresult" where
  "on_mkt w f = rbind (f (mw_mkt w)) (\<lambda>s. Inr (put_mkt s w))"

definition drop_value :: "('a \<times> 'r) kresult \<Rightarrow> 'a kresult" where
  "drop_value m = rbind m (\<lambda>(w, _). Inr w)"

fun mkt_exec ::
  "env \<Rightarrow> market_views \<Rightarrow> 'd hooks \<Rightarrow> mkt_call \<Rightarrow> 'd mworld \<Rightarrow> 'd mworld kresult" where
  "mkt_exec e v hk (MC_initialize a b c d f g h k x y) w =
     on_mkt w (\<lambda>s. mkt_initialize hk s a b c d f g h k x y)"
| "mkt_exec e v hk (MC_migrate_versions a x y) w = on_mkt w (\<lambda>s. mkt_migrate_versions e hk s a x y)"
| "mkt_exec e v hk (MC_set_referrer_split_bps a x) w = set_referrer_split_bps e v w a x"
| "mkt_exec e v hk (MC_set_fee_bps a x) w = set_fee_bps e v w a x"
| "mkt_exec e v hk (MC_set_min_contribution a x) w = on_mkt w (\<lambda>s. set_min_contribution e s a x)"
| "mkt_exec e v hk (MC_set_max_investor_share_bps a x) w = on_mkt w (\<lambda>s. set_max_investor_share_bps e s a x)"
| "mkt_exec e v hk (MC_set_investor_accredited a b x) w = on_mkt w (\<lambda>s. set_investor_accredited e s a b x)"
| "mkt_exec e v hk (MC_set_tier_fee_bps a t x) w = on_mkt w (\<lambda>s. set_tier_fee_bps e v s a t x)"
| "mkt_exec e v hk (MC_propose_token_whitelist a b) w = on_mkt w (\<lambda>s. propose_token_whitelist e s a b)"
| "mkt_exec e v hk (MC_execute_token_whitelist a b) w = on_mkt w (\<lambda>s. execute_token_whitelist e s a b)"
| "mkt_exec e v hk (MC_remove_token_whitelist a b) w = on_mkt w (\<lambda>s. remove_token_whitelist e s a b)"
| "mkt_exec e v hk (MC_set_token_currency a b c) w = on_mkt w (\<lambda>s. set_token_currency e s a b c)"
| "mkt_exec e v hk (MC_set_token_exposure_cap a b x) w = on_mkt w (\<lambda>s. set_token_exposure_cap e s a b x)"
| "mkt_exec e v hk (MC_set_debtor_attestation a x) w = on_mkt w (\<lambda>s. mkt_set_debtor_attestation e s a x)"
| "mkt_exec e v hk (MC_set_priority_window a i xs t) w = on_mkt w (\<lambda>s. set_priority_window e s a i xs t)"
| "mkt_exec e v hk (MC_list_invoice a i p f t d r) w = drop_value (list_invoice e v hk w a i p f t d r)"
| "mkt_exec e v hk (MC_fund_invoice a i n t) w = drop_value (fund_invoice e v hk w a i n t)"
| "mkt_exec e v hk (MC_fund_invoices_batch a xs b) w = drop_value (fund_invoices_batch e v hk w a xs b)"
| "mkt_exec e v hk (MC_cancel_listing a i) w = cancel_listing e hk w a i"
| "mkt_exec e v hk (MC_withdraw_listing a i) w = withdraw_listing e w a i"
| "mkt_exec e v hk (MC_request_cancellation a i) w = on_mkt w (\<lambda>s. request_cancellation e s a i)"
| "mkt_exec e v hk (MC_admin_confirm_cancellation a i) w = on_mkt w (\<lambda>s. admin_confirm_cancellation e s a i)"
| "mkt_exec e v hk (MC_claim_refund a i) w = claim_refund e hk w a i"
| "mkt_exec e v hk (MC_amend_listing a i p d t) w = on_mkt w (\<lambda>s. amend_listing e s a i p d t)"
| "mkt_exec e v hk (MC_propose_upgrade a h) w = on_mkt w (\<lambda>s. mkt_propose_upgrade e v s a h)"
| "mkt_exec e v hk (MC_execute_upgrade a) w = on_mkt w (\<lambda>s. drop_value (mkt_execute_upgrade e v s a))"
| "mkt_exec e v hk (MC_propose_admin_action a x) w = on_mkt w (\<lambda>s. drop_value (propose_admin_action e v s a x))"
| "mkt_exec e v hk (MC_approve_admin_action a n) w = on_mkt w (\<lambda>s. approve_admin_action e v s a n)"
| "mkt_exec e v hk (MC_execute_admin_action a n) w = drop_value (execute_admin_action e v w a n)"
| "mkt_exec e v hk (MC_propose_dependency_update a f b) w = on_mkt w (\<lambda>s. propose_dependency_update e s a f b)"
| "mkt_exec e v hk (MC_execute_dependency_update a f) w = on_mkt w (\<lambda>s. execute_dependency_update e s a f)"

inductive mkt_runs :: "'d mworld \<Rightarrow> 'd mworld \<Rightarrow> bool" where
  mkt_none: "mkt_runs w w"
| mkt_other: "mkt_runs w w1 \<Longrightarrow> mkt_runs w (w1\<lparr>mw_base := b\<rparr>)"
| mkt_step: "mkt_runs w w1 \<Longrightarrow> mkt_exec e v hk c w1 = Inr w2 \<Longrightarrow> mkt_runs w w2"

definition mkt_reachable :: "'d mworld \<Rightarrow> bool" where
  "mkt_reachable w \<longleftrightarrow> (\<exists>d b. mkt_runs \<lparr>mw_mkt = mk_empty d, mw_base = b\<rparr> w)"

section \<open>The funding ledger\<close>

text \<open>The part of the state the funding ledger consists of.\<close>

definition mkt_core where
  "mkt_core s = (mk_listing s, mk_contribution s, mk_fee_contribution s, mk_refund_claimed s,
     mk_investors s, mk_cancel_confirmed s, mk_gross s)"

definition gross_of :: "'d mkt_state \<Rightarrow> u64 \<Rightarrow> address \<Rightarrow> i128" where
  "gross_of s i a = contribution_of s i a + fee_of s i a"

definition funding_exact :: "'d mkt_state \<Rightarrow> u64 \<Rightarrow> i128 \<Rightarrow> bool" where
  "funding_exact s i n \<longleftrightarrow>
     (\<forall>a. gross_of s i a \<noteq> 0 \<longrightarrow> a \<in> set (investors_of s i)) \<and>
     n = (\<Sum>a\<in>set (investors_of s i). gross_of s i a)"

definition listing_ok :: "'d mkt_state \<Rightarrow> u64 \<Rightarrow> bool" where
  "listing_ok s i \<longleftrightarrow>
     (\<forall>a. 0 \<le> contribution_of s i a \<and> 0 \<le> fee_of s i a) \<and>
     (case mk_listing s i of
        None \<Rightarrow> (\<forall>a. gross_of s i a = 0 \<and> \<not> refund_claimed s i a) \<and> \<not> cancel_confirmed s i
      | Some l \<Rightarrow>
          0 \<le> li_funded_amount l \<and> li_funded_amount l \<le> li_asking_price l \<and>
          (li_is_active l \<longrightarrow> li_funded_amount l < li_asking_price l \<and> \<not> cancel_confirmed s i) \<and>
          (li_is_active l \<or> li_funded_amount l = li_asking_price l \<longrightarrow>
             funding_exact s i (li_funded_amount l) \<and> (\<forall>a. \<not> refund_claimed s i a)))"

definition fees_ok :: "'d mkt_state \<Rightarrow> bool" where
  "fees_ok s \<longleftrightarrow>
     (\<forall>cfg. mk_config s = Some cfg \<longrightarrow> mc_fee_bps cfg \<le> 10000) \<and>
     (\<forall>b. mk_fee_bps s = Some b \<longrightarrow> b \<le> 10000) \<and>
     (\<forall>k b. mk_tier_fee s k = Some b \<longrightarrow> b \<le> 10000)"

definition mkt_inv :: "'d mkt_state \<Rightarrow> bool" where
  "mkt_inv s \<longleftrightarrow> fees_ok s \<and> (\<forall>i. listing_ok s i) \<and> mk_gross s = (\<lambda>_ _. None)"

lemma mkt_inv_empty: "mkt_inv (mk_empty d)"
  by (simp add: mkt_inv_def fees_ok_def listing_ok_def mk_empty_def contribution_of_def fee_of_def
      gross_of_def refund_claimed_def cancel_confirmed_def)

text \<open>The invariant depends on the ledger and the three fee fields only.\<close>

definition fee_fields where
  "fee_fields s = (mk_config s, mk_fee_bps s, mk_tier_fee s)"

lemma mkt_core_reads:
  assumes "mkt_core s = mkt_core t"
  shows "mk_listing s = mk_listing t" "contribution_of s = contribution_of t" "fee_of s = fee_of t"
    "investors_of s = investors_of t" "refund_claimed s = refund_claimed t"
    "cancel_confirmed s = cancel_confirmed t" "gross_of s = gross_of t" "mk_gross s = mk_gross t"
  using assms
  by (auto simp: mkt_core_def contribution_of_def fee_of_def investors_of_def refund_claimed_def
      cancel_confirmed_def gross_of_def fun_eq_iff)

lemma listing_ok_core:
  assumes "mkt_core s = mkt_core t" shows "listing_ok s i = listing_ok t i"
  unfolding listing_ok_def funding_exact_def mkt_core_reads[OF assms] ..

lemma mkt_inv_core:
  assumes "mkt_inv s" "mkt_core s' = mkt_core s" "fees_ok s'"
  shows "mkt_inv s'"
  using assms listing_ok_core[OF assms(2)] mkt_core_reads(8)[OF assms(2)] by (simp add: mkt_inv_def)

lemma mkt_inv_cong:
  assumes "mkt_core s = mkt_core t" "fees_ok s = fees_ok t" shows "mkt_inv s = mkt_inv t"
  unfolding mkt_inv_def assms(2) listing_ok_core[OF assms(1)] mkt_core_reads(8)[OF assms(1)] ..

lemma load_config_core:
  assumes "load_config s = Inr (s', cfg)"
  shows "s' = s\<lparr>mk_config := Some cfg\<rparr> \<and> mkt_core s' = mkt_core s \<and>
    (fees_ok s \<longrightarrow> fees_ok s' \<and> mc_fee_bps cfg \<le> 10000)"
  using load_config_state[OF assms] assms
  by (auto simp: mkt_core_def fees_ok_def load_config_def Let_def split: option.splits)

section \<open>Entry points that leave the ledger alone\<close>

text \<open>Fields outside the ledger and the fees.\<close>

lemma unrelated_fields [simp]:
  "mkt_core (s\<lparr>mk_admin := x_admin\<rparr>) = mkt_core s" "fees_ok (s\<lparr>mk_admin := x_admin\<rparr>) = fees_ok s"
  "mkt_core (s\<lparr>mk_invoice_nft := x_invoice_nft\<rparr>) = mkt_core s" "fees_ok (s\<lparr>mk_invoice_nft := x_invoice_nft\<rparr>) = fees_ok s"
  "mkt_core (s\<lparr>mk_financing_pool := x_financing_pool\<rparr>) = mkt_core s" "fees_ok (s\<lparr>mk_financing_pool := x_financing_pool\<rparr>) = fees_ok s"
  "mkt_core (s\<lparr>mk_treasury := x_treasury\<rparr>) = mkt_core s" "fees_ok (s\<lparr>mk_treasury := x_treasury\<rparr>) = fees_ok s"
  "mkt_core (s\<lparr>mk_access_control := x_access_control\<rparr>) = mkt_core s" "fees_ok (s\<lparr>mk_access_control := x_access_control\<rparr>) = fees_ok s"
  "mkt_core (s\<lparr>mk_price_oracle := x_price_oracle\<rparr>) = mkt_core s" "fees_ok (s\<lparr>mk_price_oracle := x_price_oracle\<rparr>) = fees_ok s"
  "mkt_core (s\<lparr>mk_risk_registry := x_risk_registry\<rparr>) = mkt_core s" "fees_ok (s\<lparr>mk_risk_registry := x_risk_registry\<rparr>) = fees_ok s"
  "mkt_core (s\<lparr>mk_parameter_registry := x_parameter_registry\<rparr>) = mkt_core s" "fees_ok (s\<lparr>mk_parameter_registry := x_parameter_registry\<rparr>) = fees_ok s"
  "mkt_core (s\<lparr>mk_referrer_split := x_referrer_split\<rparr>) = mkt_core s" "fees_ok (s\<lparr>mk_referrer_split := x_referrer_split\<rparr>) = fees_ok s"
  "mkt_core (s\<lparr>mk_schema_version := x_schema_version\<rparr>) = mkt_core s" "fees_ok (s\<lparr>mk_schema_version := x_schema_version\<rparr>) = fees_ok s"
  "mkt_core (s\<lparr>mk_attestation := x_attestation\<rparr>) = mkt_core s" "fees_ok (s\<lparr>mk_attestation := x_attestation\<rparr>) = fees_ok s"
  "mkt_core (s\<lparr>mk_upgrade := x_upgrade\<rparr>) = mkt_core s" "fees_ok (s\<lparr>mk_upgrade := x_upgrade\<rparr>) = fees_ok s"
  "mkt_core (s\<lparr>mk_min_contribution := x_min_contribution\<rparr>) = mkt_core s" "fees_ok (s\<lparr>mk_min_contribution := x_min_contribution\<rparr>) = fees_ok s"
  "mkt_core (s\<lparr>mk_max_share := x_max_share\<rparr>) = mkt_core s" "fees_ok (s\<lparr>mk_max_share := x_max_share\<rparr>) = fees_ok s"
  "mkt_core (s\<lparr>mk_whitelist_list := x_whitelist_list\<rparr>) = mkt_core s" "fees_ok (s\<lparr>mk_whitelist_list := x_whitelist_list\<rparr>) = fees_ok s"
  "mkt_core (s\<lparr>mk_whitelist_proposal := x_whitelist_proposal\<rparr>) = mkt_core s" "fees_ok (s\<lparr>mk_whitelist_proposal := x_whitelist_proposal\<rparr>) = fees_ok s"
  "mkt_core (s\<lparr>mk_dependency := x_dependency\<rparr>) = mkt_core s" "fees_ok (s\<lparr>mk_dependency := x_dependency\<rparr>) = fees_ok s"
  "mkt_core (s\<lparr>mk_exposure_cap := x_exposure_cap\<rparr>) = mkt_core s" "fees_ok (s\<lparr>mk_exposure_cap := x_exposure_cap\<rparr>) = fees_ok s"
  "mkt_core (s\<lparr>mk_exposure := x_exposure\<rparr>) = mkt_core s" "fees_ok (s\<lparr>mk_exposure := x_exposure\<rparr>) = fees_ok s"
  "mkt_core (s\<lparr>mk_next_proposal := x_next_proposal\<rparr>) = mkt_core s" "fees_ok (s\<lparr>mk_next_proposal := x_next_proposal\<rparr>) = fees_ok s"
  "mkt_core (s\<lparr>mk_lock := x_lock\<rparr>) = mkt_core s" "fees_ok (s\<lparr>mk_lock := x_lock\<rparr>) = fees_ok s"
  "mkt_core (s\<lparr>mk_whitelisted := x_whitelisted\<rparr>) = mkt_core s" "fees_ok (s\<lparr>mk_whitelisted := x_whitelisted\<rparr>) = fees_ok s"
  "mkt_core (s\<lparr>mk_token_currency := x_token_currency\<rparr>) = mkt_core s" "fees_ok (s\<lparr>mk_token_currency := x_token_currency\<rparr>) = fees_ok s"
  "mkt_core (s\<lparr>mk_accredited := x_accredited\<rparr>) = mkt_core s" "fees_ok (s\<lparr>mk_accredited := x_accredited\<rparr>) = fees_ok s"
  "mkt_core (s\<lparr>mk_referrer := x_referrer\<rparr>) = mkt_core s" "fees_ok (s\<lparr>mk_referrer := x_referrer\<rparr>) = fees_ok s"
  "mkt_core (s\<lparr>mk_cancel_request := x_cancel_request\<rparr>) = mkt_core s" "fees_ok (s\<lparr>mk_cancel_request := x_cancel_request\<rparr>) = fees_ok s"
  "mkt_core (s\<lparr>mk_priority := x_priority\<rparr>) = mkt_core s" "fees_ok (s\<lparr>mk_priority := x_priority\<rparr>) = fees_ok s"
  "mkt_core (s\<lparr>mk_expiry_emitted := x_expiry_emitted\<rparr>) = mkt_core s" "fees_ok (s\<lparr>mk_expiry_emitted := x_expiry_emitted\<rparr>) = fees_ok s"
  "mkt_core (s\<lparr>mk_proposal := x_proposal\<rparr>) = mkt_core s" "fees_ok (s\<lparr>mk_proposal := x_proposal\<rparr>) = fees_ok s"
  "mkt_core (s\<lparr>mk_debtor := x_debtor\<rparr>) = mkt_core s" "fees_ok (s\<lparr>mk_debtor := x_debtor\<rparr>) = fees_ok s"
  by (simp_all add: mkt_core_def fees_ok_def)

lemma unrelated_inv [simp]:
  "mkt_inv (s\<lparr>mk_debtor := d\<rparr>) = mkt_inv s" "mkt_inv (s\<lparr>mk_lock := b\<rparr>) = mkt_inv s"
  "mkt_inv (s\<lparr>mk_cancel_request := r\<rparr>) = mkt_inv s" "mkt_inv (s\<lparr>mk_referrer := f\<rparr>) = mkt_inv s"
  "mkt_inv (s\<lparr>mk_exposure := x\<rparr>) = mkt_inv s" "mkt_inv (s\<lparr>mk_expiry_emitted := y\<rparr>) = mkt_inv s"
  by (rule mkt_inv_cong; simp)+

lemma fees_ok_ledger [simp]:
  "fees_ok (s\<lparr>mk_investors := a\<rparr>) = fees_ok s" "fees_ok (s\<lparr>mk_contribution := b\<rparr>) = fees_ok s"
  "fees_ok (s\<lparr>mk_fee_contribution := c\<rparr>) = fees_ok s" "fees_ok (s\<lparr>mk_listing := d\<rparr>) = fees_ok s"
  "fees_ok (s\<lparr>mk_refund_claimed := f\<rparr>) = fees_ok s" "fees_ok (s\<lparr>mk_cancel_confirmed := g\<rparr>) = fees_ok s"
  by (simp_all add: fees_ok_def)

lemma admin_set_frame:
  assumes "mkt_admin_set e s a chk upd = Inr s'"
    and "\<And>t. mkt_core (upd t) = mkt_core t" "\<And>t. fees_ok (upd t) = fees_ok t"
  shows "mkt_core s' = mkt_core s \<and> (fees_ok s \<longrightarrow> fees_ok s')"
  using assms by (auto simp: mkt_admin_set_def dest!: load_config_core)

lemma registry_frame [simp]:
  "mkt_core (add_to_whitelist_registry tok s) = mkt_core s"
  "fees_ok (add_to_whitelist_registry tok s) = fees_ok s"
  "mkt_core (remove_from_whitelist_registry tok s) = mkt_core s"
  "fees_ok (remove_from_whitelist_registry tok s) = fees_ok s"
  by (auto simp: add_to_whitelist_registry_def remove_from_whitelist_registry_def Let_def)

lemma require_valid_fee_Inr [simp]: "require_valid_fee_bps b = Inr u \<longleftrightarrow> b \<le> 10000"
  by (auto simp: require_valid_fee_bps_def)

lemma apply_frames:
  "apply_set_fee_bps w a x = Inr w' \<Longrightarrow>
     mkt_core (mw_mkt w') = mkt_core (mw_mkt w) \<and> (fees_ok (mw_mkt w) \<longrightarrow> fees_ok (mw_mkt w'))"
  "apply_set_referrer_split_bps w a x = Inr w' \<Longrightarrow>
     mkt_core (mw_mkt w') = mkt_core (mw_mkt w) \<and> (fees_ok (mw_mkt w) \<longrightarrow> fees_ok (mw_mkt w'))"
  "apply_set_tier_fee_bps s k x = Inr s' \<Longrightarrow> mkt_core s' = mkt_core s \<and> (fees_ok s \<longrightarrow> fees_ok s')"
  "apply_whitelist_token s tok = Inr s' \<Longrightarrow> mkt_core s' = mkt_core s \<and> (fees_ok s \<longrightarrow> fees_ok s')"
  "apply_remove_token_whitelist s tok = Inr s' \<Longrightarrow> mkt_core s' = mkt_core s \<and> (fees_ok s \<longrightarrow> fees_ok s')"
  "apply_propose_upgrade e s h = Inr s' \<Longrightarrow> mkt_core s' = mkt_core s \<and> (fees_ok s \<longrightarrow> fees_ok s')"
  "apply_execute_upgrade e s = Inr (s', h) \<Longrightarrow> mkt_core s' = mkt_core s \<and> (fees_ok s \<longrightarrow> fees_ok s')"
  by (auto simp: apply_set_fee_bps_def apply_set_referrer_split_bps_def apply_set_tier_fee_bps_def
      apply_whitelist_token_def apply_remove_token_whitelist_def apply_propose_upgrade_def
      apply_execute_upgrade_def mkt_emit_def put_mkt_def mkt_core_def fees_ok_def
      split: if_splits dest!: load_config_core)

definition is_ledger_call :: "mkt_call \<Rightarrow> bool" where
  "is_ledger_call c =
     (case c of
        MC_list_invoice a i p f t d r \<Rightarrow> True | MC_fund_invoice a i n t \<Rightarrow> True
      | MC_fund_invoices_batch a xs b \<Rightarrow> True | MC_cancel_listing a i \<Rightarrow> True
      | MC_withdraw_listing a i \<Rightarrow> True | MC_request_cancellation a i \<Rightarrow> True
      | MC_admin_confirm_cancellation a i \<Rightarrow> True | MC_claim_refund a i \<Rightarrow> True
      | MC_amend_listing a i p d t \<Rightarrow> True | _ \<Rightarrow> False)"

lemma migrate_no_effect:
  "migrate_loop kora_from_migration (\<lambda>v s. s\<lparr>mk_schema_version := Some v\<rparr>) mkt_migration_step a b s = Inr s'
     \<Longrightarrow> mkt_core s' = mkt_core s \<and> fees_ok s' = fees_ok s"
proof (induction kora_from_migration "\<lambda>v s. s\<lparr>mk_schema_version := Some v\<rparr> :: 'a mkt_state"
    "mkt_migration_step :: _ \<Rightarrow> _ \<Rightarrow> 'a mkt_state \<Rightarrow> _" a b s rule: migrate_loop.induct)
  case (1 a b s)
  then show ?case
    by (subst (asm) migrate_loop.simps)
      (auto simp: mkt_migration_step_def mkt_core_def fees_ok_def split: if_splits option.splits sum.splits)
qed

lemma dispatch_frame:
  assumes "dispatch_action e w a x = Inr (w', h)"
  shows "mkt_core (mw_mkt w') = mkt_core (mw_mkt w) \<and> (fees_ok (mw_mkt w) \<longrightarrow> fees_ok (mw_mkt w'))"
  using assms
  by (cases x) (auto simp: dispatch_action_def put_mkt_def dest!: apply_frames)

lemma config_op_frames:
  "mkt_initialize hk s a0 a1 a2 a3 a4 a5 a6 a7 x y = Inr s' \<Longrightarrow> mkt_core s' = mkt_core s \<and> (fees_ok s \<longrightarrow> fees_ok s')"
  "mkt_migrate_versions e hk s a x y = Inr s' \<Longrightarrow> mkt_core s' = mkt_core s \<and> (fees_ok s \<longrightarrow> fees_ok s')"
  "set_min_contribution e s a z = Inr s' \<Longrightarrow> mkt_core s' = mkt_core s \<and> (fees_ok s \<longrightarrow> fees_ok s')"
  "set_max_investor_share_bps e s a x = Inr s' \<Longrightarrow> mkt_core s' = mkt_core s \<and> (fees_ok s \<longrightarrow> fees_ok s')"
  "set_investor_accredited e s a b bb = Inr s' \<Longrightarrow> mkt_core s' = mkt_core s \<and> (fees_ok s \<longrightarrow> fees_ok s')"
  "set_tier_fee_bps e v s a t x = Inr s' \<Longrightarrow> mkt_core s' = mkt_core s \<and> (fees_ok s \<longrightarrow> fees_ok s')"
  "propose_token_whitelist e s a b = Inr s' \<Longrightarrow> mkt_core s' = mkt_core s \<and> (fees_ok s \<longrightarrow> fees_ok s')"
  "remove_token_whitelist e s a b = Inr s' \<Longrightarrow> mkt_core s' = mkt_core s \<and> (fees_ok s \<longrightarrow> fees_ok s')"
  "set_token_currency e s a b cur = Inr s' \<Longrightarrow> mkt_core s' = mkt_core s \<and> (fees_ok s \<longrightarrow> fees_ok s')"
  "set_token_exposure_cap e s a b z = Inr s' \<Longrightarrow> mkt_core s' = mkt_core s \<and> (fees_ok s \<longrightarrow> fees_ok s')"
  "mkt_set_debtor_attestation e s a att = Inr s' \<Longrightarrow> mkt_core s' = mkt_core s \<and> (fees_ok s \<longrightarrow> fees_ok s')"
  "set_priority_window e s a i xs d = Inr s' \<Longrightarrow> mkt_core s' = mkt_core s \<and> (fees_ok s \<longrightarrow> fees_ok s')"
  "propose_dependency_update e s a f b = Inr s' \<Longrightarrow> mkt_core s' = mkt_core s \<and> (fees_ok s \<longrightarrow> fees_ok s')"
  subgoal by (auto simp: mkt_initialize_def mkt_core_def fees_ok_def)
  subgoal by (auto simp: mkt_migrate_versions_def migrate_def Let_def split: if_splits
        dest!: load_config_core migrate_no_effect)
  subgoal unfolding set_min_contribution_def by (erule admin_set_frame) auto
  subgoal unfolding set_max_investor_share_bps_def by (erule admin_set_frame) auto
  subgoal unfolding set_investor_accredited_def by (erule admin_set_frame) auto
  subgoal by (auto simp: set_tier_fee_bps_def dest!: load_config_core apply_frames)
  subgoal unfolding propose_token_whitelist_def by (erule admin_set_frame) auto
  subgoal unfolding remove_token_whitelist_def by (erule admin_set_frame) auto
  subgoal unfolding set_token_currency_def by (erule admin_set_frame) auto
  subgoal unfolding set_token_exposure_cap_def by (erule admin_set_frame) auto
  subgoal unfolding mkt_set_debtor_attestation_def by (erule admin_set_frame) auto
  subgoal unfolding set_priority_window_def by (erule admin_set_frame) auto
  subgoal unfolding propose_dependency_update_def by (erule admin_set_frame) auto
  done

lemma timelocked_op_frames:
  "execute_token_whitelist e s a b = Inr s' \<Longrightarrow> mkt_core s' = mkt_core s \<and> (fees_ok s \<longrightarrow> fees_ok s')"
  "mkt_propose_upgrade e v s a h = Inr s' \<Longrightarrow> mkt_core s' = mkt_core s \<and> (fees_ok s \<longrightarrow> fees_ok s')"
  "mkt_execute_upgrade e v s a = Inr (s', h) \<Longrightarrow> mkt_core s' = mkt_core s \<and> (fees_ok s \<longrightarrow> fees_ok s')"
  "propose_admin_action e v s a x = Inr (s', n) \<Longrightarrow> mkt_core s' = mkt_core s \<and> (fees_ok s \<longrightarrow> fees_ok s')"
  "approve_admin_action e v s a n = Inr s' \<Longrightarrow> mkt_core s' = mkt_core s \<and> (fees_ok s \<longrightarrow> fees_ok s')"
  "execute_dependency_update e s a f = Inr s' \<Longrightarrow> mkt_core s' = mkt_core s \<and> (fees_ok s \<longrightarrow> fees_ok s')"
  subgoal by (auto simp: execute_token_whitelist_def dest!: load_config_core)
  subgoal by (auto simp: mkt_propose_upgrade_def dest!: load_config_core apply_frames)
  subgoal by (auto simp: mkt_execute_upgrade_def dest!: load_config_core apply_frames)
  subgoal by (auto simp: propose_admin_action_def Let_def mkt_core_def fees_ok_def)
  subgoal by (auto simp: approve_admin_action_def mkt_core_def fees_ok_def)
  subgoal by (cases f) (auto simp: execute_dependency_update_def Let_def mkt_core_def fees_ok_def
        dest!: load_config_core)
  done

lemma world_op_frames:
  "set_fee_bps e v w a x = Inr w' \<Longrightarrow>
     mkt_core (mw_mkt w') = mkt_core (mw_mkt w) \<and> (fees_ok (mw_mkt w) \<longrightarrow> fees_ok (mw_mkt w'))"
  "set_referrer_split_bps e v w a x = Inr w' \<Longrightarrow>
     mkt_core (mw_mkt w') = mkt_core (mw_mkt w) \<and> (fees_ok (mw_mkt w) \<longrightarrow> fees_ok (mw_mkt w'))"
  "execute_admin_action e v w a n = Inr (w', h) \<Longrightarrow>
     mkt_core (mw_mkt w') = mkt_core (mw_mkt w) \<and> (fees_ok (mw_mkt w) \<longrightarrow> fees_ok (mw_mkt w'))"
  subgoal by (auto simp: set_fee_bps_def put_mkt_def dest!: load_config_core apply_frames)
  subgoal by (auto simp: set_referrer_split_bps_def put_mkt_def dest!: load_config_core apply_frames)
  subgoal by (auto simp: execute_admin_action_def Let_def put_mkt_def mkt_core_def fees_ok_def
        dest!: load_config_core dispatch_frame)
  done

lemma config_call_frame:
  assumes "mkt_exec e v hk c w = Inr w'" "\<not> is_ledger_call c"
  shows "mkt_core (mw_mkt w') = mkt_core (mw_mkt w) \<and> (fees_ok (mw_mkt w) \<longrightarrow> fees_ok (mw_mkt w'))"
  using assms
  by (cases c) (auto simp: is_ledger_call_def on_mkt_def drop_value_def put_mkt_def
      dest!: config_op_frames timelocked_op_frames world_op_frames)

section \<open>One listing at a time\<close>

definition core_at where
  "core_at s i = (mk_listing s i, mk_contribution s i, mk_fee_contribution s i,
     mk_refund_claimed s i, mk_investors s i, mk_cancel_confirmed s i)"

lemma listing_ok_at:
  assumes "core_at s i = core_at t i" shows "listing_ok s i = listing_ok t i"
proof -
  have "mk_listing s i = mk_listing t i" "contribution_of s i = contribution_of t i" "fee_of s i = fee_of t i"
    "investors_of s i = investors_of t i" "refund_claimed s i = refund_claimed t i"
    "cancel_confirmed s i = cancel_confirmed t i" "gross_of s i = gross_of t i"
    using assms
    by (auto simp: core_at_def contribution_of_def fee_of_def investors_of_def refund_claimed_def
        cancel_confirmed_def gross_of_def fun_eq_iff)
  note eqs = this
  show ?thesis unfolding listing_ok_def funding_exact_def eqs ..
qed

lemma mkt_inv_at:
  assumes "mkt_inv s" "\<And>j. j \<noteq> i \<Longrightarrow> core_at s' j = core_at s j" "listing_ok s' i" "fees_ok s'"
    and "mk_gross s' = mk_gross s"
  shows "mkt_inv s'"
proof -
  have "listing_ok s' j" for j
    using assms(1,3) listing_ok_at[OF assms(2), of j] by (cases "j = i") (auto simp: mkt_inv_def)
  with assms show ?thesis by (simp add: mkt_inv_def)
qed

lemma load_config_inv:
  assumes "load_config s = Inr (s', cfg)" "mkt_inv s"
  shows "mkt_inv s'" "mc_fee_bps cfg \<le> 10000" "mk_listing s' = mk_listing s"
    "contribution_of s' = contribution_of s" "fee_of s' = fee_of s" "investors_of s' = investors_of s"
    "refund_claimed s' = refund_claimed s" "cancel_confirmed s' = cancel_confirmed s"
proof -
  note c = load_config_core[OF assms(1)]
  then have core: "mkt_core s' = mkt_core s" by (elim conjE)
  show "mkt_inv s'" "mc_fee_bps cfg \<le> 10000"
    using c assms(2) mkt_inv_core[OF assms(2) core] by (auto simp: mkt_inv_def)
qed (use mkt_core_reads[OF load_config_core[OF assms(1), THEN conjunct2, THEN conjunct1]] in auto)

section \<open>Funding\<close>

lemma effective_fee_le:
  assumes "effective_fee_bps e s cfg tier = Inr b" "fees_ok s" "mc_fee_bps cfg \<le> 10000"
  shows "b \<le> 10000"
  using assms
  by (auto simp: effective_fee_bps_def base_fee_bps_def fees_ok_def Let_def split: option.splits if_splits)

text \<open>The split of a payment in another token follows the split in the listing's token.\<close>

lemma pay_split:
  assumes "kora_lift (safe_mul n fee) = Inr x" "kora_lift (safe_div x amount) = Inr pay_fee"
    and "0 < n" "0 \<le> fee" "fee \<le> amount"
  shows "0 \<le> pay_fee" "pay_fee \<le> n"
proof -
  have x: "x = n * fee" "x \<le> i128_max" and amt: "amount \<noteq> 0" "i128_div x amount = Some pay_fee"
    using assms(1,2) by (auto simp: safe_mul_def safe_div_def split: if_splits)
  with assms have pos: "0 < amount" "0 \<le> x" by auto
  with amt x i128_div_nonneg[of x amount] have p: "pay_fee = n * fee div amount" by simp
  show "0 \<le> pay_fee" using pos x p by (simp add: pos_imp_zdiv_nonneg_iff)
  have "n * fee div amount \<le> n * amount div amount" using assms pos by (intro zdiv_mono1 mult_left_mono) auto
  then show "pay_fee \<le> n" using p pos by simp
qed

lemma quote_facts:
  assumes "quote_contribution e hk s cfg w l invoice investor i n pt = Inr q"
    and "fees_ok s" "mc_fee_bps cfg \<le> 10000" "0 < n" "n \<le> MAX_AMOUNT"
  shows "0 < fq_amount q" "fq_amount q \<le> li_asking_price l - li_funded_amount l"
    "0 \<le> fq_fee q" "0 \<le> fq_net q" "fq_fee q + fq_net q = fq_amount q"
    "fq_funded_after q = li_funded_amount l + fq_amount q"
    "fq_contrib_after q = contribution_of s i investor + fq_net q"
    "fq_fee_after q = fee_of s i investor + fq_fee q"
    "0 \<le> fq_pay_fee q" "0 \<le> fq_pay_net q" "fq_pay_fee q + fq_pay_net q = n"
    "fq_pay_token q = (case pt of None \<Rightarrow> li_token l | Some t \<Rightarrow> t)"
    "fq_pay_token q = li_token l \<Longrightarrow> fq_amount q = n"
    "fq_pay_token q = li_token l \<Longrightarrow> fq_pay_fee q = fq_fee q"
proof -
  let ?pt = "case pt of None \<Rightarrow> li_token l | Some t \<Rightarrow> t"
  from assms(1) obtain amt bps fee pf pn where
    amt: "(if ?pt = li_token l then Inr n
           else rbind (require_whitelisted_token s ?pt) (\<lambda>_.
               rbind (convert_via_oracle e s w n ?pt (li_token l)) (\<lambda>converted.
               rbind (kora_lift (require_within_max_amount converted)) (\<lambda>_. Inr converted)))) = Inr amt"
    and room: "amt \<le> li_asking_price l - li_funded_amount l"
    and bps: "effective_fee_bps e s cfg (inv_risk_tier invoice) = Inr bps"
    and fee: "bps_of_normalized amt bps (token_decimals e (li_token l)) = Inr fee"
    and pay: "(if ?pt = li_token l then Inr (fee, amt - fee)
           else rbind (kora_lift (safe_mul n fee)) (\<lambda>x.
               rbind (kora_lift (safe_div x amt)) (\<lambda>pay_fee.
               rbind (kora_lift (safe_sub n pay_fee)) (\<lambda>pay_net. Inr (pay_fee, pay_net))))) = Inr (pf, pn)"
    and q: "q = \<lparr>fq_debtor_hash = inv_debtor_hash invoice, fq_amount = amt, fq_fee = fee,
           fq_net = amt - fee, fq_pay_token = ?pt, fq_pay_fee = pf, fq_pay_net = pn,
           fq_funded_after = li_funded_amount l + amt, fq_contrib_after = contribution_of s i investor + (amt - fee),
           fq_fee_after = fee_of s i investor + fee\<rparr>"
    by (auto simp: quote_contribution_def Let_def safe_sub_def safe_add_def)
  have "amt \<le> i128_max" using amt assms(5)
    by (auto simp: MAX_AMOUNT_def i128_max_def require_within_max_amount_def split: if_splits)
  from bps_of_normalized_le[OF fee this] have nn: "0 \<le> amt" "0 \<le> fee" "fee * 10000 \<le> amt * int bps" by auto
  have "amt * int bps \<le> amt * 10000"
    using effective_fee_le[OF bps assms(2,3)] nn(1) by (intro mult_left_mono) auto
  with nn(3) have le: "fee \<le> amt" by linarith
  have pos: "0 < amt"
  proof (rule ccontr)
    assume "\<not> 0 < amt"
    with nn(1) have "amt = 0" by simp
    with amt pay assms(4) show False by (auto simp: safe_div_def split: if_splits)
  qed
  have pay': "0 \<le> pf \<and> 0 \<le> pn \<and> pf + pn = n"
  proof (cases "?pt = li_token l")
    case True
    with pay amt nn le show ?thesis by auto
  next
    case False
    with pay obtain x where x: "kora_lift (safe_mul n fee) = Inr x" "kora_lift (safe_div x amt) = Inr pf"
      "pn = n - pf" by (auto simp: safe_sub_def)
    with pay_split[OF x(1,2) assms(4) nn(2) le] show ?thesis by simp
  qed
  show "0 < fq_amount q" "fq_amount q \<le> li_asking_price l - li_funded_amount l"
    "0 \<le> fq_fee q" "0 \<le> fq_net q" "fq_fee q + fq_net q = fq_amount q"
    "fq_funded_after q = li_funded_amount l + fq_amount q"
    "fq_contrib_after q = contribution_of s i investor + fq_net q"
    "fq_fee_after q = fee_of s i investor + fq_fee q"
    "fq_pay_token q = ?pt" "0 \<le> fq_pay_fee q" "0 \<le> fq_pay_net q" "fq_pay_fee q + fq_pay_net q = n"
    using pos room nn le pay' by (simp_all add: q)
  show "fq_pay_token q = li_token l \<Longrightarrow> fq_amount q = n" using amt by (simp add: q)
  show "fq_pay_token q = li_token l \<Longrightarrow> fq_pay_fee q = fq_fee q" using pay by (simp add: q)
qed

lemma note_investor_simps [simp]:
  "contribution_of (note_investor i a s) = contribution_of s" "fee_of (note_investor i a s) = fee_of s"
  "gross_of (note_investor i a s) = gross_of s"
  "refund_claimed (note_investor i a s) = refund_claimed s"
  "cancel_confirmed (note_investor i a s) = cancel_confirmed s"
  "mk_listing (note_investor i a s) = mk_listing s" "fees_ok (note_investor i a s) = fees_ok s"
  "mk_gross (note_investor i a s) = mk_gross s"
  by (auto simp: note_investor_def contribution_of_def fee_of_def gross_of_def refund_claimed_def
      cancel_confirmed_def fees_ok_def fun_eq_iff)

lemma note_investor_index:
  "investors_of (note_investor i a s) j =
     (if j = i \<and> contribution_of s i a = 0 then investors_of s i @ [a] else investors_of s j)"
  by (auto simp: note_investor_def investors_of_def)

text \<open>A new entry of the index counts for nothing until it is credited.\<close>

lemma note_investor_exact:
  assumes "funding_exact s i n" shows "funding_exact (note_investor i a s) i n"
proof -
  have "(\<Sum>b\<in>insert a (set (investors_of s i)). gross_of s i b) = (\<Sum>b\<in>set (investors_of s i). gross_of s i b)"
  proof (cases "a \<in> set (investors_of s i)")
    case True
    then show ?thesis by (simp add: insert_absorb)
  next
    case False
    with assms have "gross_of s i a = 0" by (auto simp: funding_exact_def)
    with False show ?thesis by simp
  qed
  with assms show ?thesis by (auto simp: funding_exact_def note_investor_index)
qed

lemma note_investor_inv:
  assumes "mkt_inv s" shows "mkt_inv (note_investor i a s)"
proof (rule mkt_inv_at[OF assms])
  show "core_at (note_investor i a s) j = core_at s j" if "j \<noteq> i" for j
    using that by (simp add: note_investor_def core_at_def)
  have "listing_ok s i" using assms by (simp add: mkt_inv_def)
  then show "listing_ok (note_investor i a s) i"
    by (cases "mk_listing s i") (auto simp: listing_ok_def intro: note_investor_exact)
qed (use assms in \<open>simp_all add: mkt_inv_def\<close>)

text \<open>What a successful commit writes.\<close>

lemma fund_commit_state:
  assumes "fund_commit e cfg l a i q w = Inr w'"
  defines "s \<equiv> mw_mkt w" and "t \<equiv> mw_mkt w'"
  shows "mk_contribution t = (mk_contribution s)(i := (mk_contribution s i)(a \<mapsto> fq_contrib_after q))"
    "mk_fee_contribution t = (mk_fee_contribution s)(i := (mk_fee_contribution s i)(a \<mapsto> fq_fee_after q))"
    "mk_listing t = (mk_listing s)(i \<mapsto> l\<lparr>li_funded_amount := fq_funded_after q,
         li_is_active := li_is_active l \<and> fq_funded_after q < li_asking_price l\<rparr>)"
    "mk_refund_claimed t = mk_refund_claimed s" "mk_investors t = mk_investors s"
    "mk_cancel_confirmed t = mk_cancel_confirmed s" "mk_gross t = mk_gross s" "fees_ok t = fees_ok s"
  using assms(1)
  by (auto simp: s_def t_def fund_commit_def Let_def put_mkt_def mkt_emit_def put_listing_def
      remove_token_exposure_def put_exposure_def fees_ok_def not_le split: if_splits)

lemma fund_commit_inv:
  assumes run: "fund_commit e cfg l a i q w = Inr w'" and inv: "mkt_inv (mw_mkt w)"
    and l: "mk_listing (mw_mkt w) i = Some l" "li_is_active l"
    and mem: "a \<in> set (investors_of (mw_mkt w) i)"
    and q: "0 < fq_amount q" "fq_amount q \<le> li_asking_price l - li_funded_amount l"
      "0 \<le> fq_fee q" "0 \<le> fq_net q" "fq_fee q + fq_net q = fq_amount q"
      "fq_funded_after q = li_funded_amount l + fq_amount q"
      "fq_contrib_after q = contribution_of (mw_mkt w) i a + fq_net q"
      "fq_fee_after q = fee_of (mw_mkt w) i a + fq_fee q"
  shows "mkt_inv (mw_mkt w')"
proof -
  let ?s = "mw_mkt w" and ?t = "mw_mkt w'"
  note t = fund_commit_state[OF run]
  have ok: "listing_ok ?s i" and fees: "fees_ok ?s" using inv by (auto simp: mkt_inv_def)
  from ok l have nn: "\<And>b. 0 \<le> contribution_of ?s i b" "\<And>b. 0 \<le> fee_of ?s i b"
    and ex: "funding_exact ?s i (li_funded_amount l)" and nc: "\<And>b. \<not> refund_claimed ?s i b"
    and l0: "0 \<le> li_funded_amount l" "\<not> cancel_confirmed ?s i"
    by (auto simp: listing_ok_def)
  have reads: "contribution_of ?t i = (contribution_of ?s i)(a := fq_contrib_after q)"
    "fee_of ?t i = (fee_of ?s i)(a := fq_fee_after q)" "investors_of ?t = investors_of ?s"
    "refund_claimed ?t = refund_claimed ?s" "cancel_confirmed ?t = cancel_confirmed ?s"
    by (auto simp: t contribution_of_def fee_of_def investors_of_def refund_claimed_def
        cancel_confirmed_def fun_eq_iff)
  have lt: "mk_listing ?t i = Some (l\<lparr>li_funded_amount := fq_funded_after q,
         li_is_active := li_is_active l \<and> fq_funded_after q < li_asking_price l\<rparr>)" by (simp add: t)
  have g: "gross_of ?t i = (gross_of ?s i)(a := gross_of ?s i a + fq_amount q)"
    using q by (auto simp: gross_of_def reads fun_eq_iff)
  have "(\<Sum>b\<in>set (investors_of ?s i). gross_of ?t i b)
      = (\<Sum>b\<in>set (investors_of ?s i). gross_of ?s i b + (if b = a then fq_amount q else 0))"
    by (rule sum.cong) (auto simp: g)
  also have "\<dots> = li_funded_amount l + fq_amount q"
    using mem ex by (simp add: sum.distrib funding_exact_def)
  finally have "funding_exact ?t i (fq_funded_after q)"
    using ex mem q by (auto simp: funding_exact_def reads g)
  with nn nc l0 q l(2) have "listing_ok ?t i"
    by (auto simp: listing_ok_def reads lt)
  moreover have "core_at ?t j = core_at ?s j" if "j \<noteq> i" for j
    using that by (simp add: t core_at_def)
  moreover have "fees_ok ?t" "mk_gross ?t = mk_gross ?s" using fees by (simp_all add: t)
  ultimately show ?thesis using mkt_inv_at[OF inv] by blast
qed

text \<open>The ways through \<open>fund_invoice_internal\<close>: an error before the first write, an error of the
  debtor hook after the index entry, and success.\<close>

lemma fund_internal_cases:
  assumes "fund_invoice_internal e v hk w a i n pt = Inr (w', r)"
  obtains (early) x where "r = Some x" "w' = w"
  | (checked) x l s cfg where "r = Some x" "fund_listing e (mw_mkt w) i n = Inr l"
      "load_config (mw_mkt w) = Inr (s, cfg)" "w' = put_mkt s w"
  | (hook) x l s cfg where "r = Some x" "fund_listing e (mw_mkt w) i n = Inr l"
      "load_config (mw_mkt w) = Inr (s, cfg)" "w' = put_mkt (note_investor i a s) w"
  | (funded) l s cfg q d where "r = None" "fund_listing e (mw_mkt w) i n = Inr l"
      "load_config (mw_mkt w) = Inr (s, cfg)"
      "fund_checks e v hk s cfg (mw_base w) l a i n pt = Inr q"
      "fund_commit e cfg l a i q (put_mkt ((note_investor i a s)\<lparr>mk_debtor := d\<rparr>) w) = Inr w'"
proof (cases "rbind (fund_listing e (mw_mkt w) i n) (\<lambda>l. rbind (load_config (mw_mkt w)) (\<lambda>(s, cfg). Inr (l, s, cfg)))")
  case (Inl f)
  with assms early show ?thesis by (cases f) (auto simp: fund_invoice_internal_def Let_def)
next
  case (Inr z)
  then obtain l s cfg where z: "fund_listing e (mw_mkt w) i n = Inr l" "load_config (mw_mkt w) = Inr (s, cfg)"
    "z = (l, s, cfg)" by auto
  show ?thesis
  proof (cases "fund_checks e v hk s cfg (mw_base w) l a i n pt")
    case (Inl f)
    with z assms checked show ?thesis by (cases f) (auto simp: fund_invoice_internal_def Let_def)
  next
    case (Inr q)
    show ?thesis
    proof (cases "hk_add hk (mk_debtor (note_investor i a s)) (fq_debtor_hash q) i (fq_amount q)")
      case (Inl f)
      with z Inr assms hook show ?thesis
        by (cases f) (auto simp: fund_invoice_internal_def Let_def)
    next
      case (Inr d)
      with z \<open>fund_checks _ _ _ _ _ _ _ _ _ _ _ = Inr q\<close> assms funded show ?thesis
        by (auto simp: fund_invoice_internal_def Let_def)
    qed
  qed
qed

lemma fund_listing_facts:
  assumes "fund_listing e s i n = Inr l"
  shows "mk_listing s i = Some l" "li_is_active l" "timestamp e \<le> li_funding_deadline l" "0 < n" "n \<le> MAX_AMOUNT"
  using assms by (auto simp: fund_listing_def guard_defs split: if_splits)

lemma fund_checks_facts:
  assumes "fund_checks e v hk s cfg w l a i n pt = Inr q"
  obtains inv where "get_invoice (w_nft w) i = Inr inv" "\<not> is_invoice_frozen (w_nft w) i"
    "is_investor_accredited s a" "check_concentration s i a (li_asking_price l) n = Inr ()"
    "n < min_contribution_floor s \<longrightarrow> n = li_asking_price l - li_funded_amount l"
    "quote_contribution e hk s cfg w l inv a i n pt = Inr q"
  using assms by (auto simp: fund_checks_def fund_room_def safe_sub_def split: if_splits)

lemma note_investor_member:
  assumes "mkt_inv s" "mk_listing s i = Some l" "li_is_active l"
  shows "a \<in> set (investors_of (note_investor i a s) i)"
proof (cases "contribution_of s i a = 0")
  case False
  have "listing_ok s i" using assms by (simp add: mkt_inv_def)
  then have "0 \<le> contribution_of s i a" "0 \<le> fee_of s i a" "funding_exact s i (li_funded_amount l)"
    using assms(2,3) by (auto simp: listing_ok_def)
  with False show ?thesis by (auto simp: funding_exact_def gross_of_def note_investor_index)
qed (simp add: note_investor_index)

lemma fund_internal_inv:
  assumes run: "fund_invoice_internal e v hk w a i n pt = Inr (w', r)" and inv: "mkt_inv (mw_mkt w)"
  shows "mkt_inv (mw_mkt w')"
  using run
proof (cases rule: fund_internal_cases)
  case (checked x l s cfg)
  with load_config_inv(1)[OF _ inv] show ?thesis by (auto simp: put_mkt_def)
next
  case (hook x l s cfg)
  with load_config_inv(1)[OF _ inv] note_investor_inv show ?thesis by (auto simp: put_mkt_def)
next
  case (funded l s cfg q d)
  note l = fund_listing_facts[OF funded(2)]
  note s = load_config_inv[OF funded(3) inv]
  obtain ivc where quote: "quote_contribution e hk s cfg (mw_base w) l ivc a i n pt = Inr q"
    using funded(4) by (rule fund_checks_facts)
  have "fees_ok s" using s(1) by (simp add: mkt_inv_def)
  note q = quote_facts[OF quote this s(2) l(4,5)]
  let ?w = "put_mkt ((note_investor i a s)\<lparr>mk_debtor := d\<rparr>) w"
  have ctx: "mkt_inv (mw_mkt ?w)" "mk_listing (mw_mkt ?w) i = Some l"
    "contribution_of (mw_mkt ?w) = contribution_of s" "fee_of (mw_mkt ?w) = fee_of s"
    "a \<in> set (investors_of (mw_mkt ?w) i)"
    using note_investor_inv[OF s(1)] note_investor_member[OF s(1) _ l(2), of i a] s(3) l(1)
    by (auto simp: put_mkt_def contribution_of_def fee_of_def investors_of_def note_investor_def fun_eq_iff
        split: if_splits)
  from fund_commit_inv[OF funded(5) ctx(1,2) l(2) ctx(5)] q ctx(3,4) show ?thesis by simp
qed (use inv in simp)

lemma batch_fund_inv:
  "batch_fund e v hk a b xs w = Inr (w', rs) \<Longrightarrow> mkt_inv (mw_mkt w) \<Longrightarrow> mkt_inv (mw_mkt w')"
proof (induction e v hk a b xs w arbitrary: w' rs rule: batch_fund.induct)
  case (2 e v hk a b i n xs w)
  from "2.prems" obtain w1 r where r: "fund_invoice_internal e v hk w a i n None = Inr (w1, r)" by auto
  with "2.prems" have "mkt_inv (mw_mkt w1)" by (auto intro: fund_internal_inv)
  with "2.prems" "2.IH" r show ?case by (auto split: option.splits if_splits)
qed simp

lemma funding_inv:
  "fund_invoice e v hk w a i n pt = Inr (w', u) \<Longrightarrow> mkt_inv (mw_mkt w) \<Longrightarrow> mkt_inv (mw_mkt w')"
  "fund_invoices_batch e v hk w a xs b = Inr (w', rs) \<Longrightarrow> mkt_inv (mw_mkt w) \<Longrightarrow> mkt_inv (mw_mkt w')"
  by (auto simp: fund_invoice_def fund_invoices_batch_def mkt_guarded_def mkt_lock.guard_Inr_iff
      dest!: fund_internal_inv batch_fund_inv split: option.splits if_splits)

section \<open>Listing, cancellation and refunds\<close>

lemma close_listing_at:
  "core_at (close_listing i l s) j =
     (if j = i then (case core_at s i of (_, rest) \<Rightarrow> (Some (l\<lparr>li_is_active := False\<rparr>), rest)) else core_at s j)"
  "fees_ok (close_listing i l s) = fees_ok s" "mk_gross (close_listing i l s) = mk_gross s"
  by (auto simp: close_listing_def put_listing_def remove_token_exposure_def put_exposure_def core_at_def fees_ok_def)

text \<open>A listing that is taken out of the market before it is fully funded keeps its records.\<close>

lemma deactivate_ok:
  assumes ok: "listing_ok s i" and l: "mk_listing s i = Some l" "li_funded_amount l < li_asking_price l"
    and s': "mk_listing s' i = Some (l\<lparr>li_is_active := False\<rparr>)"
      "contribution_of s' i = contribution_of s i" "fee_of s' i = fee_of s i"
  shows "listing_ok s' i"
  using ok l s' by (auto simp: listing_ok_def)

lemma close_listing_reads [simp]:
  "mk_listing (close_listing i l s) i = Some (l\<lparr>li_is_active := False\<rparr>)"
  "contribution_of (close_listing i l s) = contribution_of s" "fee_of (close_listing i l s) = fee_of s"
  "gross_of (close_listing i l s) = gross_of s" "investors_of (close_listing i l s) = investors_of s"
  by (simp_all add: close_listing_def put_listing_def remove_token_exposure_def put_exposure_def
      contribution_of_def fee_of_def gross_of_def investors_of_def fun_eq_iff)

lemma active_not_full:
  assumes "mkt_inv s" "mk_listing s i = Some l" "li_is_active l"
  shows "li_funded_amount l < li_asking_price l"
proof -
  have "listing_ok s i" using assms(1) by (simp add: mkt_inv_def)
  with assms(2,3) show ?thesis by (simp add: listing_ok_def)
qed

lemma close_listing_inv:
  assumes "mkt_inv s" "mk_listing s i = Some l" "li_is_active l"
  shows "mkt_inv (close_listing i l s)"
proof (rule mkt_inv_at[OF assms(1)])
  show "core_at (close_listing i l s) j = core_at s j" if "j \<noteq> i" for j
    using that by (simp add: close_listing_at)
  have "listing_ok s i" using assms(1) by (simp add: mkt_inv_def)
  then show "listing_ok (close_listing i l s) i"
    by (rule deactivate_ok[OF _ assms(2) active_not_full[OF assms]]) simp_all
qed (use assms in \<open>simp_all add: close_listing_at mkt_inv_def\<close>)

lemma own_active_listing_facts:
  assumes "own_active_listing e s caller i chk = Inr (l, s', cfg)"
  shows "mk_listing s i = Some l" "li_is_active l" "chk l = Inr ()" "load_config s = Inr (s', cfg)"
    "caller = li_seller l \<or> caller = mc_admin cfg"
  using assms by (auto simp: own_active_listing_def split: if_splits)

text \<open>Clearing contributions keeps a listing that is no longer active well-formed.\<close>

definition refunded_state :: "address \<Rightarrow> u64 \<Rightarrow> address \<Rightarrow> 'd \<Rightarrow> 'd mkt_state \<Rightarrow> 'd mkt_state" where
  "refunded_state tok i a d s =
     (let s1 = put_exposure tok (exposure_current s tok - gross_of s i a) (s\<lparr>mk_debtor := d,
                 mk_refund_claimed := (mk_refund_claimed s)(i := (mk_refund_claimed s i)(a \<mapsto> True))\<rparr>) in
      if 0 < fee_of s i a
      then s1\<lparr>mk_fee_contribution := (mk_fee_contribution s1)(i := (mk_fee_contribution s1 i)(a := None))\<rparr>
      else s1)"

lemma refund_investor_Inr:
  assumes "refund_investor e hk cfg tok h i a w = Inr w'"
  shows "\<exists>d. mw_mkt w' = refunded_state tok i a d (mw_mkt w) \<and>
    w_calls (mw_base w') = w_calls (mw_base w) @
      Transfer tok (mc_financing_pool cfg) a (contribution_of (mw_mkt w) i a) #
      (if 0 < fee_of (mw_mkt w) i a
       then [RefundFee (mc_treasury cfg) (self_addr e) tok (fee_of (mw_mkt w) i a) a] else [])"
proof -
  from assms obtain d where
    "hk_remove hk (mk_debtor (mw_mkt w)) h i (gross_of (mw_mkt w) i a) = Inr d"
    by (auto simp: refund_investor_def Let_def safe_add_def gross_of_def)
  with assms show ?thesis
    by (intro exI[of _ d])
      (auto simp: refund_investor_def Let_def put_mkt_def mkt_emit_def safe_add_def safe_sub_def
        refunded_state_def gross_of_def split: if_splits)
qed

lemma refunded_state_reads:
  "mk_listing (refunded_state tok i a d s) = mk_listing s"
  "mk_contribution (refunded_state tok i a d s) = mk_contribution s"
  "fee_of (refunded_state tok i a d s) j b = (if j = i \<and> b = a \<and> 0 < fee_of s i a then 0 else fee_of s j b)"
  "mk_investors (refunded_state tok i a d s) = mk_investors s"
  "mk_cancel_confirmed (refunded_state tok i a d s) = mk_cancel_confirmed s"
  "mk_gross (refunded_state tok i a d s) = mk_gross s"
  "fees_ok (refunded_state tok i a d s) = fees_ok s"
  "refund_claimed (refunded_state tok i a d s) j b \<longleftrightarrow> j = i \<and> b = a \<or> refund_claimed s j b"
  "j \<noteq> i \<Longrightarrow> core_at (refunded_state tok i a d s) j = core_at s j"
  "exposure_current (refunded_state tok i a d s) t =
     (if t = tok then exposure_current s tok - gross_of s i a else exposure_current s t)"
  by (auto simp: refunded_state_def put_exposure_def Let_def fee_of_def refund_claimed_def fees_ok_def core_at_def
      exposure_current_def)

text \<open>The state of a listing in the middle of its cancellation: every record nonnegative.\<close>

definition records_nonneg :: "'d mkt_state \<Rightarrow> u64 \<Rightarrow> bool" where
  "records_nonneg s i \<longleftrightarrow> (\<forall>a. 0 \<le> contribution_of s i a \<and> 0 \<le> fee_of s i a)"

lemma cancel_refunds_Cons:
  assumes "cancel_refunds e hk cfg tok h i (a # xs) w = Inr w'" "0 < contribution_of (mw_mkt w) i a"
  obtains d w1 where "cancel_refunds e hk cfg tok h i xs w1 = Inr w'"
    "mw_mkt w1 = (let s = refunded_state tok i a d (mw_mkt w) in
       s\<lparr>mk_contribution := (mk_contribution s)(i := (mk_contribution s i)(a := None))\<rparr>)"
proof -
  from assms obtain w1 where r: "refund_investor e hk cfg tok h i a w = Inr w1"
    and rest: "cancel_refunds e hk cfg tok h i xs (put_mkt ((mw_mkt w1)\<lparr>mk_contribution :=
        (mk_contribution (mw_mkt w1))(i := (mk_contribution (mw_mkt w1) i)(a := None))\<rparr>) w1) = Inr w'"
    by (auto simp: Let_def)
  from refund_investor_Inr[OF r] obtain d where "mw_mkt w1 = refunded_state tok i a d (mw_mkt w)" by blast
  with rest that show ?thesis by (auto simp: put_mkt_def Let_def)
qed

lemma cancel_refunds_state:
  "cancel_refunds e hk cfg tok h i xs w = Inr w' \<Longrightarrow> records_nonneg (mw_mkt w) i \<Longrightarrow>
     records_nonneg (mw_mkt w') i \<and> mk_listing (mw_mkt w') = mk_listing (mw_mkt w) \<and>
     mk_gross (mw_mkt w') = mk_gross (mw_mkt w) \<and> fees_ok (mw_mkt w') = fees_ok (mw_mkt w) \<and>
     (\<forall>j. j \<noteq> i \<longrightarrow> core_at (mw_mkt w') j = core_at (mw_mkt w) j)"
proof (induction xs arbitrary: w)
  case (Cons a xs)
  show ?case
  proof (cases "0 < contribution_of (mw_mkt w) i a")
    case True
    from cancel_refunds_Cons[OF Cons.prems(1) True] obtain d w1 where
      rest: "cancel_refunds e hk cfg tok h i xs w1 = Inr w'" and w1: "mw_mkt w1 =
        (let s = refunded_state tok i a d (mw_mkt w) in
           s\<lparr>mk_contribution := (mk_contribution s)(i := (mk_contribution s i)(a := None))\<rparr>)" by blast
    let ?r = "refunded_state tok i a d (mw_mkt w)"
    have same: "mk_listing (mw_mkt w1) = mk_listing (mw_mkt w)" "mk_gross (mw_mkt w1) = mk_gross (mw_mkt w)"
      "fees_ok (mw_mkt w1) = fees_ok (mw_mkt w)" "fee_of (mw_mkt w1) = fee_of ?r"
      "\<And>b. contribution_of (mw_mkt w1) i b = (if b = a then 0 else contribution_of (mw_mkt w) i b)"
      using refunded_state_reads(7)[of tok i a d "mw_mkt w"]
      by (auto simp: w1 Let_def refunded_state_reads fees_ok_def fee_of_def contribution_of_def fun_eq_iff)
    have other: "core_at (mw_mkt w1) j = core_at (mw_mkt w) j" if "j \<noteq> i" for j
      using refunded_state_reads(9)[OF that, of tok a d "mw_mkt w"] that by (simp add: w1 Let_def core_at_def)
    have "records_nonneg (mw_mkt w1) i"
      using Cons.prems(2) by (auto simp: records_nonneg_def same refunded_state_reads)
    from Cons.IH[OF rest this] same other show ?thesis by simp
  qed (use Cons in auto)
qed simp

lemma own_listing_inv:
  assumes "own_active_listing e s caller i chk = Inr (l, s', cfg)" "mkt_inv s"
  shows "mkt_inv s'" "mk_listing s' i = Some l" "li_is_active l" "listing_ok s' i"
proof -
  note f = own_active_listing_facts[OF assms(1)]
  note g = load_config_inv[OF f(4) assms(2)]
  show "mkt_inv s'" "mk_listing s' i = Some l" "li_is_active l" using f g by auto
  then show "listing_ok s' i" by (simp add: mkt_inv_def)
qed

lemma clear_investors_inv:
  assumes "records_nonneg s i" "li_funded_amount l < li_asking_price l" "0 \<le> li_funded_amount l"
    and "\<And>j. j \<noteq> i \<Longrightarrow> core_at s j = core_at s0 j" "mkt_inv s0" "fees_ok s" "mk_gross s = mk_gross s0"
  shows "mkt_inv (close_listing i l (s\<lparr>mk_investors := (mk_investors s)(i := None)\<rparr>))" (is "mkt_inv ?c")
proof (rule mkt_inv_at[OF assms(5)])
  show "core_at ?c j = core_at s0 j" if "j \<noteq> i" for j
    using assms(4)[OF that] that by (simp add: close_listing_at) (simp add: core_at_def)
  have "contribution_of ?c = contribution_of s" "fee_of ?c = fee_of s"
    by (simp_all add: contribution_of_def fee_of_def fun_eq_iff close_listing_def put_listing_def
        remove_token_exposure_def put_exposure_def)
  with assms(1-3) show "listing_ok ?c i" by (auto simp: listing_ok_def records_nonneg_def)
qed (use assms in \<open>simp_all add: close_listing_at\<close>)

lemma cancel_listing_inv:
  assumes run: "cancel_listing e hk w caller i = Inr w'" and inv: "mkt_inv (mw_mkt w)"
  shows "mkt_inv (mw_mkt w')"
proof -
  from run obtain l s cfg w1 where own: "own_active_listing e (mw_mkt w) caller i (\<lambda>_. Inr ()) = Inr (l, s, cfg)"
    and w1: "(if li_funded_amount l > 0 then
              rbind (or_trap (get_invoice (w_nft (mw_base w)) i)) (\<lambda>invoice.
              rbind (cancel_refunds e hk cfg (li_token l) (inv_debtor_hash invoice) i (investors_of s i) (put_mkt s w)) (\<lambda>w.
              let s = mw_mkt w in Inr (put_mkt (s\<lparr>mk_investors := (mk_investors s)(i := None)\<rparr>) w)))
            else Inr (put_mkt s w)) = Inr w1"
    and w': "mw_mkt w' = close_listing i l (mw_mkt w1)"
    by (auto simp: cancel_listing_def put_mkt_def)
  note s = own_listing_inv[OF own inv]
  show ?thesis
  proof (cases "li_funded_amount l > 0")
    case True
    with w1 have "\<exists>(ivc :: Invoice) w2. cancel_refunds e hk cfg (li_token l) (inv_debtor_hash ivc) i (investors_of s i) (put_mkt s w) = Inr w2 \<and>
      w1 = put_mkt ((mw_mkt w2)\<lparr>mk_investors := (mk_investors (mw_mkt w2))(i := None)\<rparr>) w2"
      by (auto simp: Let_def)
    then obtain ivc :: Invoice and w2 where r: "cancel_refunds e hk cfg (li_token l) (inv_debtor_hash ivc) i (investors_of s i) (put_mkt s w) = Inr w2"
      and m: "w1 = put_mkt ((mw_mkt w2)\<lparr>mk_investors := (mk_investors (mw_mkt w2))(i := None)\<rparr>) w2" by blast
    have nn: "records_nonneg s i" using s(4) by (simp add: listing_ok_def records_nonneg_def)
    from cancel_refunds_state[OF r] nn have st: "records_nonneg (mw_mkt w2) i" "mk_listing (mw_mkt w2) = mk_listing s"
      "mk_gross (mw_mkt w2) = mk_gross s" "fees_ok (mw_mkt w2) = fees_ok s"
      "\<And>j. j \<noteq> i \<Longrightarrow> core_at (mw_mkt w2) j = core_at s j" by (auto simp: put_mkt_def)
    have "mkt_inv (close_listing i l ((mw_mkt w2)\<lparr>mk_investors := (mk_investors (mw_mkt w2))(i := None)\<rparr>))"
      by (rule clear_investors_inv[OF st(1) _ _ st(5) s(1)])
        (use st s active_not_full[OF s(1-3)] True in \<open>auto simp: mkt_inv_def\<close>)
    then show ?thesis by (simp add: w' m put_mkt_def)
  next
    case False
    with w1 w' s show ?thesis by (auto simp: put_mkt_def intro: close_listing_inv)
  qed
qed

lemma request_inv:
  "request_cancellation e s caller i = Inr s' \<Longrightarrow> mkt_inv s \<Longrightarrow> mkt_inv s'"
  by (auto simp: request_cancellation_def dest: own_listing_inv split: if_splits intro: close_listing_inv)

lemma confirm_inv:
  assumes "admin_confirm_cancellation e s admin i = Inr s'" "mkt_inv s"
  shows "mkt_inv s'"
proof -
  from assms(1) obtain s1 cfg l where s1: "load_config s = Inr (s1, cfg)" and l: "mk_listing s1 i = Some l"
    "li_is_active l" and s': "s' = (close_listing i l s1)\<lparr>mk_cancel_request := (mk_cancel_request (close_listing i l s1))(i := None),
        mk_cancel_confirmed := (mk_cancel_confirmed (close_listing i l s1))(i \<mapsto> True)\<rparr>"
    by (auto simp: admin_confirm_cancellation_def Let_def)
  note inv = load_config_inv(1)[OF s1 assms(2)]
  let ?c = "close_listing i l s1"
  have ok: "listing_ok s1 i" using inv by (simp add: mkt_inv_def)
  show ?thesis
  proof (rule mkt_inv_at[OF inv])
    show "core_at s' j = core_at s1 j" if "j \<noteq> i" for j
      using that close_listing_at(1)[of i l s1 j] by (simp add: s' core_at_def)
    have "contribution_of s' i = contribution_of s1 i" "fee_of s' i = fee_of s1 i"
      "mk_listing s' i = Some (l\<lparr>li_is_active := False\<rparr>)"
      by (auto simp: s' contribution_of_def fee_of_def fun_eq_iff close_listing_def put_listing_def
          remove_token_exposure_def put_exposure_def)
    then show "listing_ok s' i" by (intro deactivate_ok[OF ok l(1) active_not_full[OF inv l]])
  qed (use inv in \<open>simp_all add: s' close_listing_at mkt_inv_def\<close>)
qed

lemma mark_expired_inv:
  assumes "mkt_inv s" "mk_listing s i = Some l"
  shows "mkt_inv (mark_listing_expired i l s)" "contribution_of (mark_listing_expired i l s) = contribution_of s"
    "fee_of (mark_listing_expired i l s) = fee_of s"
    "li_funded_amount l < li_asking_price l \<Longrightarrow>
       mk_listing (mark_listing_expired i l s) = (mk_listing s)(i \<mapsto> l\<lparr>li_is_active := False\<rparr>)"
proof -
  have ok: "listing_ok s i" using assms(1) by (simp add: mkt_inv_def)
  have "mkt_inv (put_listing i (l\<lparr>li_is_active := False\<rparr>) s)" if lt: "li_funded_amount l < li_asking_price l"
  proof (rule mkt_inv_at[OF assms(1)])
    show "core_at (put_listing i (l\<lparr>li_is_active := False\<rparr>) s) j = core_at s j" if "j \<noteq> i" for j
      using that by (simp add: put_listing_def core_at_def)
    show "listing_ok (put_listing i (l\<lparr>li_is_active := False\<rparr>) s) i"
      by (rule deactivate_ok[OF ok assms(2) lt]) (simp_all add: put_listing_def contribution_of_def fee_of_def fun_eq_iff)
  qed (use assms in \<open>simp_all add: put_listing_def mkt_inv_def\<close>)
  with assms(1) show "mkt_inv (mark_listing_expired i l s)" by (auto simp: mark_listing_expired_def Let_def)
qed (auto simp: mark_listing_expired_def put_listing_def contribution_of_def fee_of_def fun_eq_iff Let_def)

lemma refunded_state_inv:
  assumes "mkt_inv s" "mk_listing s i = Some l" "\<not> li_is_active l" "li_funded_amount l < li_asking_price l"
  shows "mkt_inv (refunded_state tok i a d s)"
proof (rule mkt_inv_at[OF assms(1)])
  have ok: "listing_ok s i" using assms(1) by (simp add: mkt_inv_def)
  have "contribution_of (refunded_state tok i a d s) = contribution_of s"
    by (simp add: contribution_of_def refunded_state_reads fun_eq_iff)
  with ok assms show "listing_ok (refunded_state tok i a d s) i"
    by (auto simp: listing_ok_def refunded_state_reads)
qed (use assms in \<open>auto simp: refunded_state_reads mkt_inv_def\<close>)

text \<open>What a successful claim has checked, and the state it leaves.\<close>

lemma claim_refund_Inr:
  assumes "claim_refund e hk w a i = Inr w'"
  obtains l s1 s cfg d where "authorised e a" "mk_listing (mw_mkt w) i = Some l"
    "li_funded_amount l < li_asking_price l"
    "cancel_confirmed (mw_mkt w) i \<or> li_funding_deadline l < timestamp e"
    "\<not> refund_claimed (mw_mkt w) i a" "0 < contribution_of (mw_mkt w) i a"
    "s1 = (if \<not> cancel_confirmed (mw_mkt w) i then mark_listing_expired i l (mw_mkt w) else mw_mkt w)"
    "load_config s1 = Inr (s, cfg)" "mw_mkt w' = refunded_state (li_token l) i a d s"
    "w_calls (mw_base w') = w_calls (mw_base w) @
      Transfer (li_token l) (mc_financing_pool cfg) a (contribution_of s i a) #
      (if 0 < fee_of s i a then [RefundFee (mc_treasury cfg) (self_addr e) (li_token l) (fee_of s i a) a] else [])"
proof -
  let ?s0 = "mw_mkt w"
  define s1 where "s1 l = (if \<not> cancel_confirmed ?s0 i then mark_listing_expired i l ?s0 else ?s0)" for l
  have eqs: "refund_claimed (s1 l) = refund_claimed ?s0" "contribution_of (s1 l) = contribution_of ?s0" for l
    by (auto simp: s1_def mark_listing_expired_def put_listing_def Let_def refund_claimed_def contribution_of_def fun_eq_iff)
  from assms have "\<exists>l s cfg (ivc :: Invoice). authorised e a \<and> mk_listing ?s0 i = Some l \<and> \<not> li_asking_price l \<le> li_funded_amount l \<and>
    \<not> (\<not> cancel_confirmed ?s0 i \<and> timestamp e \<le> li_funding_deadline l) \<and> \<not> refund_claimed (s1 l) i a \<and>
    \<not> contribution_of (s1 l) i a \<le> 0 \<and> load_config (s1 l) = Inr (s, cfg) \<and>
    refund_investor e hk cfg (li_token l) (inv_debtor_hash ivc) i a (put_mkt s w) = Inr w'"
    unfolding claim_refund_def Let_def s1_def[symmetric] by auto
  then obtain l s cfg and ivc :: Invoice where g: "authorised e a" "mk_listing ?s0 i = Some l" "\<not> li_asking_price l \<le> li_funded_amount l"
    "\<not> (\<not> cancel_confirmed ?s0 i \<and> timestamp e \<le> li_funding_deadline l)" "\<not> refund_claimed (s1 l) i a"
    "\<not> contribution_of (s1 l) i a \<le> 0" "load_config (s1 l) = Inr (s, cfg)"
    and r: "refund_investor e hk cfg (li_token l) (inv_debtor_hash ivc) i a (put_mkt s w) = Inr w'"
    by blast
  from refund_investor_Inr[OF r] that[OF g(1,2) _ _ _ _ _ g(7)] g eqs show ?thesis
    by (auto simp: s1_def put_mkt_def)
qed

lemma claim_refund_inv:
  assumes "claim_refund e hk w a i = Inr w'" "mkt_inv (mw_mkt w)"
  shows "mkt_inv (mw_mkt w')"
  using assms(1)
proof (rule claim_refund_Inr)
  fix l s1 s cfg d
  assume l: "mk_listing (mw_mkt w) i = Some l" "li_funded_amount l < li_asking_price l"
    and s1: "s1 = (if \<not> cancel_confirmed (mw_mkt w) i then mark_listing_expired i l (mw_mkt w) else mw_mkt w)"
    and s: "load_config s1 = Inr (s, cfg)" and w': "mw_mkt w' = refunded_state (li_token l) i a d s"
  have "listing_ok (mw_mkt w) i" using assms(2) by (simp add: mkt_inv_def)
  then have "mkt_inv s1 \<and> (\<exists>l'. mk_listing s1 i = Some l' \<and> \<not> li_is_active l' \<and> li_funded_amount l' < li_asking_price l')"
    using mark_expired_inv[OF assms(2) l(1)] l assms(2) by (auto simp: s1 listing_ok_def)
  then obtain l' where "mkt_inv s1" "mk_listing s1 i = Some l'" "\<not> li_is_active l'" "li_funded_amount l' < li_asking_price l'"
    by blast
  with load_config_inv(1,3)[OF s] show ?thesis unfolding w' by (auto intro: refunded_state_inv)
qed

lemma put_listing_ex: "P l \<Longrightarrow> \<exists>l'. put_listing i l s = put_listing i l' s \<and> P l'"
  by blast

lemma amend_listing_Inr:
  assumes "amend_listing e s caller i p d t = Inr s'"
  shows "\<exists>l s1 cfg (l' :: Listing). own_active_listing e s caller i require_unfunded = Inr (l, s1, cfg) \<and>
    s' = put_listing i l' s1 \<and> li_funded_amount l' = li_funded_amount l \<and> li_is_active l' = li_is_active l \<and>
    (li_asking_price l' = li_asking_price l \<or> 0 < li_asking_price l')"
  using assms
  by (auto simp: amend_listing_def guard_defs intro!: put_listing_ex split: option.splits if_splits)

lemma amend_inv:
  assumes "amend_listing e s caller i p d t = Inr s'" "mkt_inv s"
  shows "mkt_inv s'"
proof -
  from amend_listing_Inr[OF assms(1)] obtain l s1 cfg and l' :: Listing where
    own: "own_active_listing e s caller i require_unfunded = Inr (l, s1, cfg)"
    and l': "li_funded_amount l' = li_funded_amount l" "li_is_active l' = li_is_active l"
      "li_asking_price l' = li_asking_price l \<or> 0 < li_asking_price l'"
    and s': "s' = put_listing i l' s1" by blast
  note inv = own_listing_inv[OF own assms(2)]
  have "\<not> 0 < li_funded_amount l"
    using own_active_listing_facts(3)[OF own] by (auto simp: require_unfunded_def split: if_splits)
  then have "listing_ok s' i"
    using inv(2-4) l' by (auto simp: s' listing_ok_def put_listing_def contribution_of_def fee_of_def
        refund_claimed_def cancel_confirmed_def funding_exact_def investors_of_def gross_of_def)
  moreover have "core_at s' j = core_at s1 j" if "j \<noteq> i" for j
    using that by (simp add: s' put_listing_def core_at_def)
  moreover have "fees_ok s'" "mk_gross s' = mk_gross s1" using inv(1) by (simp_all add: s' put_listing_def mkt_inv_def)
  ultimately show ?thesis using mkt_inv_at[OF inv(1)] by blast
qed

lemma exposure_inv [simp]: "mkt_inv (put_exposure tok x s) = mkt_inv s" "mkt_inv (remove_token_exposure s tok y) = mkt_inv s"
  by (simp_all add: put_exposure_def remove_token_exposure_def)

lemma add_exposure_inv: "add_token_exposure s tok x = Inr s' \<Longrightarrow> mkt_inv s' = mkt_inv s \<and> mk_listing s' = mk_listing s"
  by (auto simp: add_token_exposure_def) (simp_all add: put_exposure_def)

lemma nft_call_mkt: "mkt_nft_call f w = Inr w' \<Longrightarrow> mw_mkt w' = mw_mkt w"
  by (auto simp: mkt_nft_call_def)

text \<open>An unfunded listing has no records, so it can go; a fresh one starts empty.\<close>

lemma remove_listing_inv:
  assumes "mkt_inv s" "mk_listing s i = Some l" "li_is_active l" "li_funded_amount l \<le> 0"
  shows "mkt_inv (s\<lparr>mk_listing := (mk_listing s)(i := None)\<rparr>)" (is "mkt_inv ?t")
proof (rule mkt_inv_at[OF assms(1)])
  have ok: "listing_ok s i" using assms(1) by (simp add: mkt_inv_def)
  have nn: "0 \<le> gross_of s i b" for b using ok by (simp add: listing_ok_def gross_of_def)
  from ok assms have z: "(\<Sum>b\<in>set (investors_of s i). gross_of s i b) = 0"
    and out: "\<And>b. gross_of s i b \<noteq> 0 \<Longrightarrow> b \<in> set (investors_of s i)"
    by (auto simp: listing_ok_def funding_exact_def)
  have "gross_of s i b = 0" for b
    using z out[of b] nn by (metis sum_nonneg_eq_0_iff finite_set)
  moreover have "contribution_of ?t = contribution_of s" "fee_of ?t = fee_of s" "gross_of ?t = gross_of s"
    "refund_claimed ?t = refund_claimed s" "cancel_confirmed ?t = cancel_confirmed s"
    by (simp_all add: contribution_of_def fee_of_def gross_of_def refund_claimed_def cancel_confirmed_def fun_eq_iff)
  ultimately show "listing_ok ?t i" using ok assms by (auto simp: listing_ok_def)
qed (use assms in \<open>auto simp: core_at_def mkt_inv_def\<close>)

lemma new_listing_inv:
  assumes "mkt_inv s" "mk_listing s i = None" "li_funded_amount l = 0" "0 < li_asking_price l"
  shows "mkt_inv (put_listing i l s)"
proof (rule mkt_inv_at[OF assms(1)])
  have "listing_ok s i" using assms(1) by (simp add: mkt_inv_def)
  moreover have "contribution_of (put_listing i l s) = contribution_of s" "fee_of (put_listing i l s) = fee_of s"
    "gross_of (put_listing i l s) = gross_of s" "investors_of (put_listing i l s) = investors_of s"
    "refund_claimed (put_listing i l s) = refund_claimed s" "cancel_confirmed (put_listing i l s) = cancel_confirmed s"
    by (simp_all add: put_listing_def contribution_of_def fee_of_def gross_of_def investors_of_def
        refund_claimed_def cancel_confirmed_def fun_eq_iff)
  ultimately show "listing_ok (put_listing i l s) i"
    using assms(2-4) unfolding listing_ok_def funding_exact_def by (simp add: put_listing_def)
qed (use assms in \<open>auto simp: core_at_def mkt_inv_def put_listing_def\<close>)

lemma withdraw_inv:
  assumes "withdraw_listing e w caller i = Inr w'" "mkt_inv (mw_mkt w)"
  shows "mkt_inv (mw_mkt w')"
proof -
  from assms(1) obtain l s cfg where own: "own_active_listing e (mw_mkt w) caller i require_unfunded = Inr (l, s, cfg)"
    and w': "mw_mkt w' = remove_token_exposure (s\<lparr>mk_listing := (mk_listing s)(i := None)\<rparr>) (li_token l) (li_asking_price l)"
    by (auto simp: withdraw_listing_def Let_def put_mkt_def dest!: nft_call_mkt)
  have "li_funded_amount l \<le> 0"
    using own_active_listing_facts(3)[OF own] by (auto simp: require_unfunded_def split: if_splits)
  with own_listing_inv[OF own assms(2)] show ?thesis by (auto simp: w' intro: remove_listing_inv)
qed

text \<open>What a successful listing has checked and what it writes.\<close>

lemma list_invoice_Inr:
  assumes "list_invoice e v hk w seller i price face tok deadline r = Inr (w', u)"
  obtains s cfg s1 ivc l where "load_config (mw_mkt w) = Inr (s, cfg)" "mk_listing s i = None"
    "0 < price" "price < face" "face \<le> MAX_AMOUNT" "timestamp e < deadline" "is_token_whitelisted (mw_mkt w) tok"
    "get_invoice (w_nft (mw_base w)) i = Inr ivc" "inv_amount ivc = face"
    "add_token_exposure (case r of None \<Rightarrow> s\<lparr>mk_lock := True\<rparr>
       | Some x \<Rightarrow> s\<lparr>mk_lock := True, mk_referrer := (mk_referrer s)(i \<mapsto> x)\<rparr>) tok price = Inr s1"
    "set_listed (callee_env e (mc_invoice_nft cfg)) (w_nft (mw_base w)) (self_addr e) i = Inr (w_nft (mw_base w'), ())"
    "w_pool (mw_base w') = w_pool (mw_base w)" "w_calls (mw_base w') = w_calls (mw_base w)"
    "l = \<lparr>li_invoice_id = i, li_seller = seller, li_asking_price = price, li_face_value = face, li_token = tok,
       li_funded_amount = 0, li_funding_deadline = deadline, li_is_active = True, li_bidding_deadline = None\<rparr>"
    "mw_mkt w' = (put_listing i l s1)\<lparr>mk_lock := False\<rparr>"
proof -
  from assms obtain s cfg w1 where a: "load_config (mw_mkt w) = Inr (s, cfg)" "mk_listing s i = None"
    "0 < price" "price < face" "face \<le> MAX_AMOUNT" "timestamp e < deadline" "is_token_whitelisted (mw_mkt w) tok"
    and g: "mkt_guarded (\<lambda>w.
       let s = mw_mkt w; nft = w_nft (mw_base w) in
       rbind (case r of
                None \<Rightarrow> Inr s
              | Some r \<Rightarrow> if r = seller then Inl (Err KE_InvalidAddress)
                          else Inr (s\<lparr>mk_referrer := (mk_referrer s)(i \<mapsto> r)\<rparr>)) (\<lambda>s.
       rbind (or_trap (get_invoice nft i)) (\<lambda>invoice.
       if inv_amount invoice \<noteq> face then Inl (Err KE_InvalidAmount)
       else
       rbind (check_bounds (nx_bounds nft (inv_risk_tier invoice)) face) (\<lambda>_.
       if \<not> mv_debtor_verified v (mc_risk_registry cfg) (inv_debtor_hash invoice)
       then Inl (Err KE_ComplianceNotAttested)
       else
       rbind (hk_check_cap hk (mk_debtor s) (inv_debtor_hash invoice) price) (\<lambda>_.
       rbind (require_circuit_breaker_not_tripped v cfg (inv_debtor_hash invoice) (inv_risk_tier invoice)) (\<lambda>_.
       rbind (require_debtor_attestation_if_needed v s i face (inv_risk_tier invoice)) (\<lambda>_.
       rbind (add_token_exposure s tok price) (\<lambda>s.
       rbind (mkt_nft_call (\<lambda>n. set_listed (callee_env e (mc_invoice_nft cfg)) n (self_addr e) i)
                (put_mkt s w)) (\<lambda>w.
       Inr (put_mkt (put_listing i
              \<lparr>li_invoice_id = i, li_seller = seller, li_asking_price = price,
               li_face_value = face, li_token = tok, li_funded_amount = 0,
               li_funding_deadline = deadline, li_is_active = True, li_bidding_deadline = None\<rparr>
              (mw_mkt w)) w, ())))))))))) (put_mkt s w) = Inr (w', u)"
    by (auto simp: list_invoice_def guard_defs split: if_splits)
  show ?thesis
    using g unfolding mkt_guarded_def mkt_lock.guard_Inr_iff
    by (cases r; cases u)
      (auto simp: put_mkt_def mkt_nft_call_def Let_def split: if_splits intro!: that[OF a])
qed

lemma list_invoice_inv:
  assumes "list_invoice e v hk w seller i price face tok deadline r = Inr (w', u)" "mkt_inv (mw_mkt w)"
  shows "mkt_inv (mw_mkt w')"
  using assms(1)
proof (rule list_invoice_Inr)
  fix s cfg s1 ivc l
  assume s: "load_config (mw_mkt w) = Inr (s, cfg)" "mk_listing s i = None" "0 < price"
    and add: "add_token_exposure (case r of None \<Rightarrow> s\<lparr>mk_lock := True\<rparr>
       | Some x \<Rightarrow> s\<lparr>mk_lock := True, mk_referrer := (mk_referrer s)(i \<mapsto> x)\<rparr>) tok price = Inr s1"
    and l: "l = \<lparr>li_invoice_id = i, li_seller = seller, li_asking_price = price, li_face_value = face, li_token = tok,
       li_funded_amount = 0, li_funding_deadline = deadline, li_is_active = True, li_bidding_deadline = None\<rparr>"
    and w': "mw_mkt w' = (put_listing i l s1)\<lparr>mk_lock := False\<rparr>"
  have "mkt_inv s1 \<and> mk_listing s1 = mk_listing s"
    using add_exposure_inv[OF add] load_config_inv(1)[OF s(1) assms(2)] by (auto split: option.splits)
  then show ?thesis using s l by (simp add: w' new_listing_inv)
qed

section \<open>The invariant of every run\<close>

lemma mkt_exec_inv:
  assumes "mkt_exec e v hk c w = Inr w'" "mkt_inv (mw_mkt w)"
  shows "mkt_inv (mw_mkt w')"
proof (cases "is_ledger_call c")
  case False
  from config_call_frame[OF assms(1) False] assms(2) show ?thesis
    by (intro mkt_inv_core[OF assms(2)]) (auto simp: mkt_inv_def)
next
  case True
  with assms show ?thesis
    by (cases c) (auto simp: is_ledger_call_def on_mkt_def drop_value_def put_mkt_def
        dest: list_invoice_inv funding_inv cancel_listing_inv withdraw_inv request_inv confirm_inv
          claim_refund_inv amend_inv)
qed

lemma mkt_runs_inv: "mkt_runs w w' \<Longrightarrow> mkt_inv (mw_mkt w) \<Longrightarrow> mkt_inv (mw_mkt w')"
  by (induction rule: mkt_runs.induct) (auto intro: mkt_exec_inv)

lemma mkt_reachable_inv: "mkt_reachable w \<Longrightarrow> mkt_inv (mw_mkt w)"
  by (auto simp: mkt_reachable_def dest!: mkt_runs_inv simp: mkt_inv_empty)

end
