(* ===== verification/Market_Props.thy ===== *)
theory Market_Props
  imports Market_Runs Pool_Trading
begin

text \<open>
  What the marketplace guarantees: exact funding records, refunds paid once, the hand-over of a
  fully funded listing to the pool, the timelock of the token whitelist, and the places where the
  code departs from what it promises.
\<close>

section \<open>Retired listings\<close>

text \<open>A listing that is no longer active stays as it is, and a claim stays marked.\<close>

definition retired :: "'d mkt_state \<Rightarrow> u64 \<Rightarrow> Listing \<Rightarrow> bool" where
  "retired s i l \<longleftrightarrow> mk_listing s i = Some l \<and> \<not> li_is_active l"

definition still_retired :: "'d mkt_state \<Rightarrow> 'd mkt_state \<Rightarrow> u64 \<Rightarrow> Listing \<Rightarrow> bool" where
  "still_retired s s' i l \<longleftrightarrow> retired s' i l \<and> (\<forall>a. refund_claimed s i a \<longrightarrow> refund_claimed s' i a)"

lemma still_retired_core:
  assumes "mkt_core s' = mkt_core s" "retired s i l" shows "still_retired s s' i l"
  using mkt_core_reads[OF assms(1)] assms(2) by (simp add: still_retired_def retired_def)

lemma still_retired_at:
  assumes "core_at s' i = core_at s i" "retired s i l" shows "still_retired s s' i l"
  using assms by (auto simp: still_retired_def retired_def core_at_def refund_claimed_def)

lemma own_listing_other:
  assumes "own_active_listing e s caller j chk = Inr (k, s', cfg)" "retired s i l"
  shows "i \<noteq> j \<and> retired s' i l \<and> core_at s' i = core_at s i"
  using own_active_listing_facts[OF assms(1)] assms(2) load_config_core[of s s' cfg]
  by (auto simp: retired_def mkt_core_def core_at_def)

lemma fund_internal_retired:
  assumes "fund_invoice_internal e v hk w a j n pt = Inr (w', r)" "retired (mw_mkt w) i l"
  shows "still_retired (mw_mkt w) (mw_mkt w') i l"
  using assms(1)
proof (cases rule: fund_internal_cases)
  case early
  with assms(2) show ?thesis by (simp add: still_retired_def)
next
  case (checked x k s cfg)
  with assms(2) load_config_core[OF checked(3)] show ?thesis
    by (auto simp: put_mkt_def intro: still_retired_core)
next
  case (hook x k s cfg)
  have "i \<noteq> j" using fund_listing_facts[OF hook(2)] assms(2) by (auto simp: retired_def)
  then have "core_at (note_investor j a s) i = core_at s i" by (simp add: note_investor_def core_at_def)
  moreover have "core_at s i = core_at (mw_mkt w) i"
    using load_config_core[OF hook(3)] by (auto simp: mkt_core_def core_at_def)
  ultimately show ?thesis using assms(2) hook by (auto simp: put_mkt_def intro: still_retired_at)
next
  case (funded k s cfg q d)
  have "i \<noteq> j" using fund_listing_facts[OF funded(2)] assms(2) by (auto simp: retired_def)
  moreover have "core_at s i = core_at (mw_mkt w) i"
    using load_config_core[OF funded(3)] by (auto simp: mkt_core_def core_at_def)
  ultimately have "core_at (mw_mkt w') i = core_at (mw_mkt w) i"
    using fund_commit_state[OF funded(5)] by (simp add: core_at_def put_mkt_def note_investor_def)
  then show ?thesis using assms(2) by (rule still_retired_at)
qed

lemma batch_fund_retired:
  "batch_fund e v hk a b xs w = Inr (w', rs) \<Longrightarrow> retired (mw_mkt w) i l \<Longrightarrow> still_retired (mw_mkt w) (mw_mkt w') i l"
proof (induction e v hk a b xs w arbitrary: w' rs rule: batch_fund.induct)
  case (2 e v hk a b j n xs w)
  from "2.prems" obtain w1 r where r: "fund_invoice_internal e v hk w a j n None = Inr (w1, r)" by auto
  note one = fund_internal_retired[OF r "2.prems"(2)]
  with "2.prems" "2.IH" r have "still_retired (mw_mkt w1) (mw_mkt w') i l"
    by (auto simp: still_retired_def split: option.splits if_splits)
  with one show ?case by (auto simp: still_retired_def)
qed (simp add: still_retired_def)

lemma claim_refund_retired:
  assumes "claim_refund e hk w a j = Inr w'" "retired (mw_mkt w) i l"
  shows "still_retired (mw_mkt w) (mw_mkt w') i l"
  using assms(1)
proof (rule claim_refund_Inr)
  fix k s1 s cfg d
  assume k: "mk_listing (mw_mkt w) j = Some k"
    and s1: "s1 = (if \<not> cancel_confirmed (mw_mkt w) j then mark_listing_expired j k (mw_mkt w) else mw_mkt w)"
    and s: "load_config s1 = Inr (s, cfg)" and w': "mw_mkt w' = refunded_state (li_token k) j a d s"
  have one: "still_retired (mw_mkt w) s1 i l"
  proof (cases "i = j")
    case True
    with k assms(2) have "l = k" "k\<lparr>li_is_active := False\<rparr> = k" by (auto simp: retired_def)
    with True assms(2) show ?thesis
      by (auto simp: s1 still_retired_def retired_def mark_listing_expired_def put_listing_def Let_def refund_claimed_def)
  next
    case False
    then show ?thesis using assms(2)
      by (auto simp: s1 still_retired_def retired_def mark_listing_expired_def put_listing_def Let_def refund_claimed_def)
  qed
  have eqs: "mk_listing s = mk_listing s1" "refund_claimed s = refund_claimed s1"
    using mkt_core_reads[OF load_config_core[OF s, THEN conjunct2, THEN conjunct1]] by auto
  with one show ?thesis by (auto simp: w' still_retired_def retired_def refunded_state_reads)
qed

lemma list_invoice_retired:
  assumes "list_invoice e v hk w seller j price face tok deadline r = Inr (w', u)" "retired (mw_mkt w) i l"
  shows "still_retired (mw_mkt w) (mw_mkt w') i l"
  using assms(1)
proof (rule list_invoice_Inr)
  fix s cfg s1 ivc k
  assume s: "load_config (mw_mkt w) = Inr (s, cfg)" "mk_listing s j = None"
    and add: "add_token_exposure (case r of None \<Rightarrow> s\<lparr>mk_lock := True\<rparr>
       | Some x \<Rightarrow> s\<lparr>mk_lock := True, mk_referrer := (mk_referrer s)(j \<mapsto> x)\<rparr>) tok price = Inr s1"
    and w': "mw_mkt w' = (put_listing j k s1)\<lparr>mk_lock := False\<rparr>"
  have eqs: "mk_listing s = mk_listing (mw_mkt w)" "refund_claimed s = refund_claimed (mw_mkt w)"
    using mkt_core_reads[OF load_config_core[OF s(1), THEN conjunct2, THEN conjunct1]] by auto
  with s(2) assms(2) have "i \<noteq> j" by (auto simp: retired_def)
  moreover have "mk_listing s1 = mk_listing s" "mk_refund_claimed s1 = mk_refund_claimed s"
    using add by (auto simp: add_token_exposure_def put_exposure_def split: option.splits if_splits)
  ultimately show ?thesis using eqs assms(2)
    by (auto simp: w' still_retired_def retired_def put_listing_def refund_claimed_def fun_eq_iff)
qed

lemma cancel_listing_retired:
  assumes run: "cancel_listing e hk w caller j = Inr w'" and inv: "mkt_inv (mw_mkt w)" and ret: "retired (mw_mkt w) i l"
  shows "still_retired (mw_mkt w) (mw_mkt w') i l"
proof -
  from run obtain k s cfg w1 where own: "own_active_listing e (mw_mkt w) caller j (\<lambda>_. Inr ()) = Inr (k, s, cfg)"
    and w1: "(if li_funded_amount k > 0 then
              rbind (or_trap (get_invoice (w_nft (mw_base w)) j)) (\<lambda>invoice.
              rbind (cancel_refunds e hk cfg (li_token k) (inv_debtor_hash invoice) j (investors_of s j) (put_mkt s w)) (\<lambda>w.
              let s = mw_mkt w in Inr (put_mkt (s\<lparr>mk_investors := (mk_investors s)(j := None)\<rparr>) w)))
            else Inr (put_mkt s w)) = Inr w1"
    and w': "mw_mkt w' = close_listing j k (mw_mkt w1)"
    by (auto simp: cancel_listing_def put_mkt_def)
  note o = own_listing_other[OF own ret]
  have nn: "records_nonneg s j" using own_listing_inv(4)[OF own inv] by (simp add: listing_ok_def records_nonneg_def)
  have "core_at (mw_mkt w1) i = core_at s i"
  proof (cases "li_funded_amount k > 0")
    case True
    with w1 obtain ivc :: Invoice and w2 where
      "cancel_refunds e hk cfg (li_token k) (inv_debtor_hash ivc) j (investors_of s j) (put_mkt s w) = Inr w2"
      "w1 = put_mkt ((mw_mkt w2)\<lparr>mk_investors := (mk_investors (mw_mkt w2))(j := None)\<rparr>) w2"
      by (auto simp: Let_def)
    with cancel_refunds_state[OF this(1)] nn o show ?thesis by (simp add: put_mkt_def core_at_def)
  qed (use w1 in \<open>auto simp: put_mkt_def\<close>)
  with o have "core_at (mw_mkt w') i = core_at (mw_mkt w) i" by (simp add: w' close_listing_at)
  then show ?thesis using ret by (rule still_retired_at)
qed

lemma withdraw_listing_retired:
  "withdraw_listing e w caller j = Inr w' \<Longrightarrow> retired (mw_mkt w) i l \<Longrightarrow> still_retired (mw_mkt w) (mw_mkt w') i l"
  by (rule still_retired_at) (auto simp: withdraw_listing_def Let_def put_mkt_def remove_token_exposure_def
      put_exposure_def core_at_def dest!: own_listing_other nft_call_mkt)

lemma request_cancellation_retired:
  assumes "request_cancellation e s caller j = Inr s'" "retired s i l"
  shows "still_retired s s' i l"
proof -
  from assms(1) obtain k s1 cfg where own: "own_active_listing e s caller j (\<lambda>_. Inr ()) = Inr (k, s1, cfg)"
    and s': "s' = close_listing j k s1 \<or> s' = s1\<lparr>mk_cancel_request := (mk_cancel_request s1)(j \<mapsto> caller)\<rparr>"
    by (auto simp: request_cancellation_def split: if_splits)
  have "core_at s' i = core_at s1 i"
    using s' own_listing_other[OF own assms(2)] by (elim disjE) (simp_all add: close_listing_at, simp add: core_at_def)
  with own_listing_other[OF own assms(2)] show ?thesis by (intro still_retired_at[OF _ assms(2)]) simp
qed

lemma confirm_cancellation_retired:
  assumes "admin_confirm_cancellation e s caller j = Inr s'" "retired s i l"
  shows "still_retired s s' i l"
proof -
  from assms(1) obtain s1 cfg k where s1: "load_config s = Inr (s1, cfg)" and k: "mk_listing s1 j = Some k" "li_is_active k"
    and s': "s' = (close_listing j k s1)\<lparr>mk_cancel_request := (mk_cancel_request (close_listing j k s1))(j := None),
        mk_cancel_confirmed := (mk_cancel_confirmed (close_listing j k s1))(j \<mapsto> True)\<rparr>"
    by (auto simp: admin_confirm_cancellation_def Let_def)
  have eq: "core_at s1 i = core_at s i" using load_config_core[OF s1] by (simp add: mkt_core_def core_at_def)
  with assms(2) k have "i \<noteq> j" by (auto simp: retired_def core_at_def)
  then have "core_at s' i = core_at s1 i"
    using close_listing_at(1)[of j k s1 i] by (simp add: s' core_at_def)
  with eq show ?thesis by (intro still_retired_at[OF _ assms(2)]) simp
qed

lemma amend_listing_retired:
  assumes "amend_listing e s caller j p d t = Inr s'" "retired s i l"
  shows "still_retired s s' i l"
proof -
  from amend_listing_Inr[OF assms(1)] obtain k s1 cfg and l' :: Listing where
    own: "own_active_listing e s caller j require_unfunded = Inr (k, s1, cfg)" and s': "s' = put_listing j l' s1"
    by blast
  with own_listing_other[OF own assms(2)] have "core_at s' i = core_at s i"
    by (simp add: put_listing_def core_at_def)
  then show ?thesis using assms(2) by (rule still_retired_at)
qed

lemma mkt_exec_retired:
  assumes "mkt_exec e v hk c w = Inr w'" "mkt_inv (mw_mkt w)" "retired (mw_mkt w) i l"
  shows "still_retired (mw_mkt w) (mw_mkt w') i l"
proof (cases "is_ledger_call c")
  case False
  from config_call_frame[OF assms(1) False] show ?thesis using still_retired_core[OF _ assms(3)] by blast
next
  case True
  have lock: "retired (s\<lparr>mk_lock := b\<rparr>) i l = retired s i l"
    "still_retired (s\<lparr>mk_lock := b\<rparr>) s' i l = still_retired s s' i l"
    "still_retired s (s'\<lparr>mk_lock := b\<rparr>) i l = still_retired s s' i l" for s s' :: "'a mkt_state" and b
    by (auto simp: retired_def still_retired_def refund_claimed_def)
  have fund: "fund_invoice e v hk w a j n pt = Inr (w', u) \<Longrightarrow> still_retired (mw_mkt w) (mw_mkt w') i l" for a j n pt u
    using assms(3) fund_internal_retired[of e v hk "w\<lparr>mw_mkt := (mw_mkt w)\<lparr>mk_lock := True\<rparr>\<rparr>" a j n pt _ _ i l]
    by (fastforce simp: fund_invoice_def mkt_guarded_def mkt_lock.guard_Inr_iff lock split: option.splits)
  have batch: "fund_invoices_batch e v hk w a xs b = Inr (w', u) \<Longrightarrow> still_retired (mw_mkt w) (mw_mkt w') i l" for a xs b u
    using assms(3) batch_fund_retired[of e v hk a b xs "w\<lparr>mw_mkt := (mw_mkt w)\<lparr>mk_lock := True\<rparr>\<rparr>" _ _ i l]
    by (fastforce simp: fund_invoices_batch_def mkt_guarded_def mkt_lock.guard_Inr_iff lock split: if_splits)
  from assms True show ?thesis
    by (cases c) (auto simp: is_ledger_call_def on_mkt_def drop_value_def put_mkt_def
        intro: list_invoice_retired fund batch cancel_listing_retired 
          withdraw_listing_retired request_cancellation_retired confirm_cancellation_retired amend_listing_retired claim_refund_retired)
qed

lemma mkt_runs_retired:
  "mkt_runs w w' \<Longrightarrow> mkt_inv (mw_mkt w) \<Longrightarrow> retired (mw_mkt w) i l \<Longrightarrow> still_retired (mw_mkt w) (mw_mkt w') i l"
proof (induction rule: mkt_runs.induct)
  case (mkt_step w w1 e v hk c w2)
  then have "mkt_inv (mw_mkt w1)" by (auto intro: mkt_runs_inv)
  with mkt_step mkt_exec_retired[OF mkt_step.hyps(2)] show ?case by (auto simp: still_retired_def)
qed (auto simp: still_retired_def)

section \<open>Funding\<close>

text \<open>C1: In every state the marketplace can reach, whatever the other contracts do in between, a
  listing that is active or fully funded has been funded with exactly the net contributions and
  the fees on record for the investors in its index, never beyond its asking price, and nobody
  has been refunded on it.\<close>

theorem funding_ledger_exact:
  assumes "mkt_reachable w" "mk_listing (mw_mkt w) i = Some l"
    and "li_is_active l \<or> li_funded_amount l = li_asking_price l"
  shows "li_funded_amount l =
      (\<Sum>a\<in>set (investors_of (mw_mkt w) i). contribution_of (mw_mkt w) i a + fee_of (mw_mkt w) i a) \<and>
    0 \<le> li_funded_amount l \<and> li_funded_amount l \<le> li_asking_price l \<and>
    (\<forall>a. 0 \<le> contribution_of (mw_mkt w) i a \<and> 0 \<le> fee_of (mw_mkt w) i a \<and> \<not> refund_claimed (mw_mkt w) i a \<and>
      (a \<notin> set (investors_of (mw_mkt w) i) \<longrightarrow> contribution_of (mw_mkt w) i a = 0 \<and> fee_of (mw_mkt w) i a = 0))"
proof -
  have "listing_ok (mw_mkt w) i" using mkt_reachable_inv[OF assms(1)] by (simp add: mkt_inv_def)
  with assms(2,3) have ok: "funding_exact (mw_mkt w) i (li_funded_amount l)" "\<forall>a. \<not> refund_claimed (mw_mkt w) i a"
    "0 \<le> li_funded_amount l" "li_funded_amount l \<le> li_asking_price l"
    "\<And>a. 0 \<le> contribution_of (mw_mkt w) i a" "\<And>a. 0 \<le> fee_of (mw_mkt w) i a"
    by (auto simp: listing_ok_def)
  have out: "contribution_of (mw_mkt w) i a = 0 \<and> fee_of (mw_mkt w) i a = 0"
    if "a \<notin> set (investors_of (mw_mkt w) i)" for a
  proof -
    have "gross_of (mw_mkt w) i a = 0" using ok(1) that by (auto simp: funding_exact_def)
    with ok(5,6)[of a] show ?thesis by (simp add: gross_of_def add_nonneg_eq_0_iff)
  qed
  have "li_funded_amount l =
      (\<Sum>a\<in>set (investors_of (mw_mkt w) i). contribution_of (mw_mkt w) i a + fee_of (mw_mkt w) i a)"
    using ok(1) by (simp add: funding_exact_def gross_of_def)
  with ok(2-6) out show ?thesis by blast
qed

lemma release_funds_effect:
  assumes "release_funds e w m i tok = Inr w'"
  shows "w_calls w' = w_calls w \<and> (\<exists>pl h. fp_pools (w_pool w') i = Some pl \<and> pl_token pl = tok \<and>
    pl_repaid_amount pl = 0 \<and> \<not> pl_is_closed pl \<and> nx_hot (w_nft w') i = Some h \<and> hot_status h = Funded)"
proof -
  from assms obtain nft st and ivc :: Invoice where
    c: "call_set_funded e nft i (put_pool ((pool_put i \<lparr>pl_invoice_id = i, pl_token = tok, pl_total_funded = 0,
          pl_face_value = inv_amount ivc, pl_repaid_amount = 0, pl_is_closed = False,
          pl_late_penalty_bps = get_late_penalty_bps e (w_pool w), pl_total_owed = inv_amount ivc,
          pl_penalty_applied = False\<rparr> (w_pool w))\<lparr>fp_stats := Some st\<rparr>) w) = Inr w'"
    by (auto simp: release_funds_def Let_def)
  then obtain n where n: "set_funded (callee_env e nft) (w_nft w) (self_addr e) i = Inr (n, ())"
    and w': "w_nft w' = n" "w_calls w' = w_calls w" "w_pool w' = (pool_put i \<lparr>pl_invoice_id = i, pl_token = tok, pl_total_funded = 0,
          pl_face_value = inv_amount ivc, pl_repaid_amount = 0, pl_is_closed = False,
          pl_late_penalty_bps = get_late_penalty_bps e (w_pool w), pl_total_owed = inv_amount ivc,
          pl_penalty_applied = False\<rparr> (w_pool w))\<lparr>fp_stats := Some st\<rparr>"
    by (auto simp: call_set_funded_def nft_call_on_def)
  from funding_transitions(1)[OF n] obtain h where "nx_hot n i = Some h \<and> hot_status h = Funded"
    by (auto simp: nft_core_def)
  with w' show ?thesis by (simp add: pool_put_def)
qed

text \<open>A contribution in another token is credited with what the oracle makes of it.\<close>

lemma quote_converted:
  assumes "quote_contribution e hk s cfg w l invoice investor i n pt = Inr q"
    and "fq_pay_token q \<noteq> li_token l"
  shows "is_token_whitelisted s (fq_pay_token q)"
    "convert_via_oracle e s w n (fq_pay_token q) (li_token l) = Inr (fq_amount q)"
  using assms
  by (auto simp: quote_contribution_def Let_def require_whitelisted_token_def
      split: if_splits)

text \<open>C2: What funding does.  The token paid is the one named, or the token of the listing when
  none is.  The call takes exactly the amount from the investor in that token, fee and net
  contribution together.  What is credited is the amount itself in the token of the listing; in
  another token, which must then be on the whitelist, it is what the oracle converts the amount
  to.  That much, and it is positive, is added to the listing and to the investor's record,
  split into a fee and a contribution, nobody else's record moves, and the asking price is never
  exceeded.  The contribution that completes the listing closes it, opens the pool and marks the
  invoice Funded in the same call; any other leaves pool and invoice alone.\<close>

theorem fund_invoice_effect:
  assumes "mkt_reachable w" "fund_invoice e v hk w a i n pt = Inr (w', u)"
  shows "\<exists>l l' t m f cs. mk_listing (mw_mkt w) i = Some l \<and> li_is_active l \<and>
    is_investor_accredited (mw_mkt w) a \<and> \<not> is_invoice_frozen (w_nft (mw_base w)) i \<and>
    t = (case pt of None \<Rightarrow> li_token l | Some t' \<Rightarrow> t') \<and>
    (if t = li_token l then m = n
     else is_token_whitelisted (mw_mkt w) t \<and>
          convert_via_oracle e (mw_mkt w) (mw_base w) n t (li_token l) = Inr m) \<and>
    0 < m \<and> 0 \<le> f \<and> f \<le> m \<and>
    mk_listing (mw_mkt w') i = Some l' \<and> li_funded_amount l' = li_funded_amount l + m \<and>
    li_funded_amount l' \<le> li_asking_price l \<and> gross_of (mw_mkt w') i a = gross_of (mw_mkt w) i a + m \<and>
    fee_of (mw_mkt w') i a = fee_of (mw_mkt w) i a + f \<and>
    contribution_of (mw_mkt w') i a = contribution_of (mw_mkt w) i a + (m - f) \<and>
    (\<forall>b. b \<noteq> a \<longrightarrow> gross_of (mw_mkt w') i b = gross_of (mw_mkt w) i b) \<and>
    w_calls (mw_base w') = w_calls (mw_base w) @ cs \<and> moved_out t a cs = n \<and>
    (if li_funded_amount l' = li_asking_price l then \<not> li_is_active l' \<and>
       (\<exists>pl h. fp_pools (w_pool (mw_base w')) i = Some pl \<and> pl_token pl = li_token l \<and>
          nx_hot (w_nft (mw_base w')) i = Some h \<and> hot_status h = Funded)
     else li_is_active l' \<and> w_pool (mw_base w') = w_pool (mw_base w) \<and> w_nft (mw_base w') = w_nft (mw_base w))"
proof -
  let ?w = "w\<lparr>mw_mkt := (mw_mkt w)\<lparr>mk_lock := True\<rparr>\<rparr>"
  from assms(2) obtain w1 where r: "fund_invoice_internal e v hk ?w a i n pt = Inr (w1, None)"
    and w': "w' = w1\<lparr>mw_mkt := (mw_mkt w1)\<lparr>mk_lock := False\<rparr>\<rparr>"
    by (auto simp: fund_invoice_def mkt_guarded_def mkt_lock.guard_Inr_iff split: option.splits)
  from r obtain l s cfg q d where f: "fund_listing e (mw_mkt ?w) i n = Inr l" "load_config (mw_mkt ?w) = Inr (s, cfg)"
    "fund_checks e v hk s cfg (mw_base ?w) l a i n pt = Inr q"
    "fund_commit e cfg l a i q (put_mkt ((note_investor i a s)\<lparr>mk_debtor := d\<rparr>) ?w) = Inr w1"
    by (rule fund_internal_cases) auto
  note l = fund_listing_facts[OF f(1)]
  have inv: "mkt_inv (mw_mkt ?w)" using mkt_reachable_inv[OF assms(1)] by simp
  note s = load_config_inv[OF f(2) inv]
  from f(3) obtain ivc where chk: "\<not> is_invoice_frozen (w_nft (mw_base ?w)) i" "is_investor_accredited s a"
    "quote_contribution e hk s cfg (mw_base ?w) l ivc a i n pt = Inr q" by (rule fund_checks_facts)
  have "fees_ok s" using s(1) by (simp add: mkt_inv_def)
  note q = quote_facts[OF chk(3) this s(2) l(4,5)]
  let ?l = "l\<lparr>li_funded_amount := fq_funded_after q, li_is_active := li_is_active l \<and> fq_funded_after q < li_asking_price l\<rparr>"
  note c = fund_commit_state[OF f(4)]
  have rec: "gross_of (mw_mkt w') i a = gross_of (mw_mkt w) i a + fq_amount q"
    "fee_of (mw_mkt w') i a = fee_of (mw_mkt w) i a + fq_fee q"
    "contribution_of (mw_mkt w') i a = contribution_of (mw_mkt w) i a + (fq_amount q - fq_fee q)"
    "\<forall>b. b \<noteq> a \<longrightarrow> gross_of (mw_mkt w') i b = gross_of (mw_mkt w) i b"
  proof -
    have "contribution_of (mw_mkt w') i a = fq_contrib_after q" "fee_of (mw_mkt w') i a = fq_fee_after q"
      using c by (simp_all add: w' contribution_of_def fee_of_def)
    moreover have "contribution_of s = contribution_of (mw_mkt w)" "fee_of s = fee_of (mw_mkt w)"
      using s(4,5) by (simp_all add: contribution_of_def fee_of_def fun_eq_iff)
    ultimately show "gross_of (mw_mkt w') i a = gross_of (mw_mkt w) i a + fq_amount q"
      "fee_of (mw_mkt w') i a = fee_of (mw_mkt w) i a + fq_fee q"
      "contribution_of (mw_mkt w') i a = contribution_of (mw_mkt w) i a + (fq_amount q - fq_fee q)"
      using q(5,7,8) by (simp_all add: gross_of_def)
    show "\<forall>b. b \<noteq> a \<longrightarrow> gross_of (mw_mkt w') i b = gross_of (mw_mkt w) i b"
      using c(1,2) load_config_state[OF f(2)]
      by (simp add: w' gross_of_def contribution_of_def fee_of_def put_mkt_def note_investor_def)
  qed
  have conv: "if fq_pay_token q = li_token l then fq_amount q = n
     else is_token_whitelisted (mw_mkt w) (fq_pay_token q) \<and>
          convert_via_oracle e (mw_mkt w) (mw_base w) n (fq_pay_token q) (li_token l) = Inr (fq_amount q)"
    using q(13) quote_converted[OF chk(3)] load_config_state[OF f(2)]
    by (simp add: is_token_whitelisted_def convert_via_oracle_def)
  have acc: "is_investor_accredited (mw_mkt w) a"
    using chk(2) load_config_state[OF f(2)] by (simp add: is_investor_accredited_def)
  have lst: "mk_listing (mw_mkt w) i = Some l" "mk_listing (mw_mkt w') i = Some ?l" using l c by (simp_all add: w')
  define cs where "cs = (if fq_pay_fee q > 0 then [Transfer (fq_pay_token q) a (mc_treasury cfg) (fq_pay_fee q),
      CollectFee (mc_treasury cfg) (fq_pay_token q) (fq_pay_fee q)] else []) @
    (if fq_pay_net q > 0 then [Transfer (fq_pay_token q) a (mc_financing_pool cfg) (fq_pay_net q)] else [])"
  have cs: "moved_out (fq_pay_token q) a cs = n" using q(9,10,11) by (auto simp: cs_def)
  have base: "w_calls (mw_base w1) = w_calls (mw_base w) @ cs \<and>
    (if li_asking_price l \<le> fq_funded_after q
     then \<exists>pl h. fp_pools (w_pool (mw_base w1)) i = Some pl \<and> pl_token pl = li_token l \<and>
          nx_hot (w_nft (mw_base w1)) i = Some h \<and> hot_status h = Funded
     else w_pool (mw_base w1) = w_pool (mw_base w) \<and> w_nft (mw_base w1) = w_nft (mw_base w))"
    using f(4) unfolding cs_def
    by (auto simp: fund_commit_def Let_def put_mkt_def mkt_emit_def dest!: release_funds_effect split: if_splits)
  have full: "fq_funded_after q = li_funded_amount l + fq_amount q" "fq_funded_after q \<le> li_asking_price l"
    "fq_fee q \<le> fq_amount q"
    using q(2,4,5,6) by simp_all
  show ?thesis
    by (intro exI[of _ l] exI[of _ ?l] exI[of _ "fq_pay_token q"] exI[of _ "fq_amount q"]
        exI[of _ "fq_fee q"] exI[of _ cs])
      (use lst l(2) acc chk(1) rec conv cs base full q(1,3,12) in \<open>auto simp: w' simp del: split_paired_Ex\<close>)
qed

section \<open>Refunds\<close>

lemma retired_not_owned:
  "own_active_listing e s caller i chk = Inr r \<Longrightarrow> \<not> retired s i l"
  using own_active_listing_facts(1,2)[of e s caller i chk "fst r" "fst (snd r)" "snd (snd r)"]
  by (auto simp: retired_def)

lemma retired_blocks:
  assumes "retired (mw_mkt w) i l"
  shows "\<not> is_ok (cancel_listing e hk w b i)" "\<not> is_ok (fund_invoice e v hk w b i n pt)"
    "\<not> is_ok (list_invoice e v hk w b i p f tok d r)" "\<not> is_ok (withdraw_listing e w b i)"
proof -
  show "\<not> is_ok (cancel_listing e hk w b i)" "\<not> is_ok (withdraw_listing e w b i)"
    using assms by (auto simp: is_ok_iff cancel_listing_def withdraw_listing_def dest: retired_not_owned)
  show "\<not> is_ok (list_invoice e v hk w b i p f tok d r)"
  proof
    assume "is_ok (list_invoice e v hk w b i p f tok d r)"
    then obtain w' where "list_invoice e v hk w b i p f tok d r = Inr (w', ())" by (auto simp: is_ok_iff)
    then show False
    proof (rule list_invoice_Inr)
      fix s cfg assume "load_config (mw_mkt w) = Inr (s, cfg)" "mk_listing s i = None"
      with assms load_config_core[OF this(1)] show False by (auto simp: retired_def mkt_core_def)
    qed
  qed
  show "\<not> is_ok (fund_invoice e v hk w b i n pt)"
  proof
    assume "is_ok (fund_invoice e v hk w b i n pt)"
    then obtain w1 where r: "fund_invoice_internal e v hk (w\<lparr>mw_mkt := (mw_mkt w)\<lparr>mk_lock := True\<rparr>\<rparr>) b i n pt = Inr (w1, None)"
      by (auto simp: is_ok_iff fund_invoice_def mkt_guarded_def mkt_lock.guard_Inr_iff split: option.splits)
    then obtain l' where "fund_listing e ((mw_mkt w)\<lparr>mk_lock := True\<rparr>) i n = Inr l'"
      by (rule fund_internal_cases) auto
    from fund_listing_facts[OF this] assms show False by (auto simp: retired_def)
  qed
qed

text \<open>C3: A refund pays the investor exactly the net contribution and the fee on record, from the
  pool and from the treasury, on a listing that never reached its asking price; in whatever way
  the marketplace and the other contracts go on, no later call pays this investor again for it,
  and the listing can be neither funded nor listed again.\<close>

theorem refund_pays_once:
  assumes "mkt_reachable w" "claim_refund e hk w a i = Inr w1" "mkt_runs w1 w2"
  shows "\<exists>l pool treasury. mk_listing (mw_mkt w) i = Some l \<and> li_funded_amount l < li_asking_price l \<and>
    (cancel_confirmed (mw_mkt w) i \<or> li_funding_deadline l < timestamp e) \<and> authorised e a \<and>
    w_calls (mw_base w1) = w_calls (mw_base w) @
      Transfer (li_token l) pool a (contribution_of (mw_mkt w) i a) #
      (if 0 < fee_of (mw_mkt w) i a
       then [RefundFee treasury (self_addr e) (li_token l) (fee_of (mw_mkt w) i a) a] else []) \<and>
    \<not> is_ok (claim_refund e' hk' w2 a i) \<and> \<not> is_ok (cancel_listing e' hk' w2 b i) \<and>
    \<not> is_ok (fund_invoice e' v' hk' w2 b i n pt) \<and> \<not> is_ok (list_invoice e' v' hk' w2 b i p f tok d r)"
  using assms(2)
proof (rule claim_refund_Inr)
  fix l s1 s cfg dd
  assume g: "authorised e a" "mk_listing (mw_mkt w) i = Some l" "li_funded_amount l < li_asking_price l"
    "cancel_confirmed (mw_mkt w) i \<or> li_funding_deadline l < timestamp e"
    and s1: "s1 = (if \<not> cancel_confirmed (mw_mkt w) i then mark_listing_expired i l (mw_mkt w) else mw_mkt w)"
    and s: "load_config s1 = Inr (s, cfg)" and w1: "mw_mkt w1 = refunded_state (li_token l) i a dd s"
    and calls: "w_calls (mw_base w1) = w_calls (mw_base w) @
      Transfer (li_token l) (mc_financing_pool cfg) a (contribution_of s i a) #
      (if 0 < fee_of s i a then [RefundFee (mc_treasury cfg) (self_addr e) (li_token l) (fee_of s i a) a] else [])"
  have inv: "mkt_inv (mw_mkt w)" by (rule mkt_reachable_inv[OF assms(1)])
  note x = mark_expired_inv[OF inv g(2)]
  have "listing_ok (mw_mkt w) i" using inv by (simp add: mkt_inv_def)
  with g x have "\<exists>l'. retired s1 i l'" "contribution_of s1 = contribution_of (mw_mkt w)" "fee_of s1 = fee_of (mw_mkt w)"
    by (auto simp: s1 retired_def listing_ok_def)
  moreover have "mk_listing s = mk_listing s1" "contribution_of s = contribution_of s1" "fee_of s = fee_of s1"
    using mkt_core_reads[OF load_config_core[OF s, THEN conjunct2, THEN conjunct1]] by auto
  ultimately obtain l' where ret: "retired (mw_mkt w1) i l'"
    and same: "contribution_of s = contribution_of (mw_mkt w)" "fee_of s = fee_of (mw_mkt w)"
    by (auto simp: w1 retired_def refunded_state_reads)
  have "still_retired (mw_mkt w1) (mw_mkt w2) i l'"
    using mkt_runs_retired[OF assms(3) claim_refund_inv[OF assms(2) inv] ret] .
  then have end_state: "retired (mw_mkt w2) i l'" "refund_claimed (mw_mkt w2) i a"
    by (auto simp: still_retired_def w1 refunded_state_reads)
  have "\<not> is_ok (claim_refund e' hk' w2 a i)"
  proof
    assume "is_ok (claim_refund e' hk' w2 a i)"
    then obtain w3 where "claim_refund e' hk' w2 a i = Inr w3" by (auto simp: is_ok_iff)
    then show False by (rule claim_refund_Inr) (use end_state in simp)
  qed
  with g calls same retired_blocks[OF end_state(1)] show ?thesis by fastforce
qed

section \<open>Listing\<close>

text \<open>Listing an invoice needs an unlisted \<open>Created\<close> invoice over exactly the face value, a
  discount and a whitelisted token; it marks the invoice \<open>Listed\<close>, opens an empty listing and adds
  the asking price to the token's exposure, which stays within the cap set for the token.\<close>

theorem list_invoice_effect:
  assumes "list_invoice e v hk w seller i price face tok deadline r = Inr (w', u)"
  shows "\<exists>h h' l. nx_hot (w_nft (mw_base w)) i = Some h \<and> hot_status h = Created \<and> hot_amount h = face \<and>
    nx_hot (w_nft (mw_base w')) i = Some h' \<and> hot_status h' = Listed \<and>
    mk_listing (mw_mkt w) i = None \<and> 0 < price \<and> price < face \<and> is_token_whitelisted (mw_mkt w) tok \<and>
    mk_listing (mw_mkt w') i = Some l \<and> li_is_active l \<and> li_asking_price l = price \<and> li_funded_amount l = 0 \<and>
    timestamp e < li_funding_deadline l \<and>
    exposure_current (mw_mkt w') tok = exposure_current (mw_mkt w) tok + price \<and>
    (exposure_cap (mw_mkt w) tok \<noteq> 0 \<longrightarrow> exposure_current (mw_mkt w') tok \<le> exposure_cap (mw_mkt w) tok) \<and>
    w_calls (mw_base w') = w_calls (mw_base w)"
  using assms
proof (rule list_invoice_Inr)
  fix s cfg s1 ivc l
  assume s: "load_config (mw_mkt w) = Inr (s, cfg)" "mk_listing s i = None"
    and g: "0 < price" "price < face" "timestamp e < deadline" "is_token_whitelisted (mw_mkt w) tok"
    and ivc: "get_invoice (w_nft (mw_base w)) i = Inr ivc" "inv_amount ivc = face"
    and add: "add_token_exposure (case r of None \<Rightarrow> s\<lparr>mk_lock := True\<rparr>
       | Some x \<Rightarrow> s\<lparr>mk_lock := True, mk_referrer := (mk_referrer s)(i \<mapsto> x)\<rparr>) tok price = Inr s1"
    and nft: "set_listed (callee_env e (mc_invoice_nft cfg)) (w_nft (mw_base w)) (self_addr e) i = Inr (w_nft (mw_base w'), ())"
    and calls: "w_calls (mw_base w') = w_calls (mw_base w)"
    and l: "l = \<lparr>li_invoice_id = i, li_seller = seller, li_asking_price = price, li_face_value = face, li_token = tok,
       li_funded_amount = 0, li_funding_deadline = deadline, li_is_active = True, li_bidding_deadline = None\<rparr>"
    and w': "mw_mkt w' = (put_listing i l s1)\<lparr>mk_lock := False\<rparr>"
  from marketplace_transitions(2)[OF nft] obtain h where h: "nx_hot (w_nft (mw_base w)) i = Some h" "hot_status h = Created"
    "nx_hot (w_nft (mw_base w')) i = Some (h\<lparr>hot_status := Listed\<rparr>)" by (auto simp: nft_core_def)
  have h': "hot_status (h\<lparr>hot_status := Listed\<rparr>) = Listed" by simp
  have face: "hot_amount h = face" using ivc h(1) by (auto simp: get_invoice_def)
  have none: "mk_listing (mw_mkt w) i = None"
    using s load_config_core[OF s(1)] by (simp add: mkt_core_def)
  have cur: "exposure_current s tok = exposure_current (mw_mkt w) tok" "exposure_cap s tok = exposure_cap (mw_mkt w) tok"
    using load_config_state[OF s(1)] by (simp_all add: exposure_current_def exposure_cap_def)
  have ex: "exposure_current s1 tok = exposure_current s tok + price \<and>
    (exposure_cap s tok \<noteq> 0 \<longrightarrow> exposure_current s1 tok \<le> exposure_cap s tok)"
    using add by (auto simp: add_token_exposure_def safe_add_def put_exposure_def exposure_current_def
        exposure_cap_def split: option.splits if_splits)
  have exw: "exposure_current (mw_mkt w') tok = exposure_current s1 tok"
    by (simp add: w' put_listing_def exposure_current_def)
  have lst: "mk_listing (mw_mkt w') i = Some l" by (simp add: w' put_listing_def)
  from ex cur exw have "exposure_current (mw_mkt w') tok = exposure_current (mw_mkt w) tok + price \<and>
    (exposure_cap (mw_mkt w) tok \<noteq> 0 \<longrightarrow> exposure_current (mw_mkt w') tok \<le> exposure_cap (mw_mkt w) tok)"
    by auto
  moreover have "li_is_active l" "li_asking_price l = price" "li_funded_amount l = 0"
    "timestamp e < li_funding_deadline l" using g by (simp_all add: l)
  ultimately show ?thesis using h h' face g none calls lst by blast
qed

section \<open>Cancellation\<close>

text \<open>What the calls of an operation hand back to an investor, contribution and fee.\<close>

fun refund_to :: "address \<Rightarrow> address \<Rightarrow> ext_call list \<Rightarrow> int" where
  "refund_to tok a [] = 0"
| "refund_to tok a (c # cs) =
     (case c of
        Transfer t x y n \<Rightarrow> if t = tok \<and> y = a then n else 0
      | RefundFee p x t n y \<Rightarrow> if t = tok \<and> y = a then n else 0
      | _ \<Rightarrow> 0) + refund_to tok a cs"

lemma refund_to_append [simp]: "refund_to tok a (xs @ ys) = refund_to tok a xs + refund_to tok a ys"
  by (induction xs) simp_all

definition refundable :: "'d mkt_state \<Rightarrow> u64 \<Rightarrow> address \<Rightarrow> bool" where
  "refundable s i a \<longleftrightarrow> 0 < contribution_of s i a"

lemma cancel_refunds_effect:
  "cancel_refunds e hk cfg tok h i xs w = Inr w' \<Longrightarrow> records_nonneg (mw_mkt w) i \<Longrightarrow>
   \<exists>cs. w_calls (mw_base w') = w_calls (mw_base w) @ cs \<and>
     (\<forall>a. refund_to tok a cs = (if a \<in> set xs \<and> refundable (mw_mkt w) i a then gross_of (mw_mkt w) i a else 0)) \<and>
     exposure_current (mw_mkt w') tok = exposure_current (mw_mkt w) tok -
       (\<Sum>a\<in>{a\<in>set xs. refundable (mw_mkt w) i a}. gross_of (mw_mkt w) i a)"
proof (induction xs arbitrary: w)
  case (Cons a xs)
  show ?case
  proof (cases "0 < contribution_of (mw_mkt w) i a")
    case True
    from Cons.prems(1) True obtain w1 where r: "refund_investor e hk cfg tok h i a w = Inr w1"
      and rest: "cancel_refunds e hk cfg tok h i xs (put_mkt ((mw_mkt w1)\<lparr>mk_contribution :=
        (mk_contribution (mw_mkt w1))(i := (mk_contribution (mw_mkt w1) i)(a := None))\<rparr>) w1) = Inr w'"
      by (auto simp: Let_def)
    let ?w = "put_mkt ((mw_mkt w1)\<lparr>mk_contribution :=
        (mk_contribution (mw_mkt w1))(i := (mk_contribution (mw_mkt w1) i)(a := None))\<rparr>) w1"
    from refund_investor_Inr[OF r] obtain d where w1: "mw_mkt w1 = refunded_state tok i a d (mw_mkt w)"
      and calls: "w_calls (mw_base w1) = w_calls (mw_base w) @
        Transfer tok (mc_financing_pool cfg) a (contribution_of (mw_mkt w) i a) #
        (if 0 < fee_of (mw_mkt w) i a
         then [RefundFee (mc_treasury cfg) (self_addr e) tok (fee_of (mw_mkt w) i a) a] else [])" by blast
    have con: "contribution_of (mw_mkt ?w) i b = (if b = a then 0 else contribution_of (mw_mkt w) i b)"
      and fee: "fee_of (mw_mkt ?w) i b = fee_of (refunded_state tok i a d (mw_mkt w)) i b" for b
      by (auto simp: w1 put_mkt_def contribution_of_def fee_of_def refunded_state_reads)
    have nn: "0 \<le> contribution_of (mw_mkt w) i b" "0 \<le> fee_of (mw_mkt w) i b" for b
      using Cons.prems(2) by (auto simp: records_nonneg_def)
    have gross: "gross_of (mw_mkt ?w) i b = (if b = a then 0 else gross_of (mw_mkt w) i b)" for b
      using con[of b] fee[of b] nn[of a] by (auto simp: gross_of_def refunded_state_reads)
    have refb: "refundable (mw_mkt ?w) i b \<longleftrightarrow> b \<noteq> a \<and> refundable (mw_mkt w) i b" for b
      using con[of b] by (auto simp: refundable_def)
    have "records_nonneg (mw_mkt ?w) i"
      using nn con fee by (auto simp: records_nonneg_def refunded_state_reads)
    from Cons.IH[OF rest this, unfolded refb] obtain cs where c: "w_calls (mw_base w') = w_calls (mw_base ?w) @ cs"
      "\<forall>b. refund_to tok b cs =
        (if b \<in> set xs \<and> b \<noteq> a \<and> refundable (mw_mkt w) i b then gross_of (mw_mkt ?w) i b else 0)"
      "exposure_current (mw_mkt w') tok = exposure_current (mw_mkt ?w) tok -
        (\<Sum>b\<in>{b\<in>set xs. b \<noteq> a \<and> refundable (mw_mkt w) i b}. gross_of (mw_mkt ?w) i b)" by blast
    have cs: "w_calls (mw_base w') = w_calls (mw_base w1) @ cs" using c(1) by (simp add: put_mkt_def)
    have cs2: "refund_to tok b cs =
      (if b \<in> set xs \<and> b \<noteq> a \<and> refundable (mw_mkt w) i b then gross_of (mw_mkt w) i b else 0)" for b
      using c(2) gross[of b] by simp
    have "{b \<in> set (a # xs). refundable (mw_mkt w) i b} = insert a {b\<in>set xs. b \<noteq> a \<and> refundable (mw_mkt w) i b}"
      using True by (auto simp: refundable_def)
    moreover have "exposure_current (mw_mkt ?w) tok = exposure_current (mw_mkt w) tok - gross_of (mw_mkt w) i a"
      using refunded_state_reads(10)[of tok i a d "mw_mkt w" tok] by (simp add: put_mkt_def w1 exposure_current_def)
    ultimately have "exposure_current (mw_mkt w') tok = exposure_current (mw_mkt w) tok -
       (\<Sum>b\<in>{b\<in>set (a # xs). refundable (mw_mkt w) i b}. gross_of (mw_mkt w) i b)"
      by (simp add: c(3) gross)
    moreover have "\<forall>b. refund_to tok b (Transfer tok (mc_financing_pool cfg) a (contribution_of (mw_mkt w) i a) #
        (if 0 < fee_of (mw_mkt w) i a
         then [RefundFee (mc_treasury cfg) (self_addr e) tok (fee_of (mw_mkt w) i a) a] else []) @ cs) =
        (if b \<in> set (a # xs) \<and> refundable (mw_mkt w) i b then gross_of (mw_mkt w) i b else 0)"
      using True nn(2)[of a] by (auto simp: cs2 refundable_def gross_of_def)
    ultimately show ?thesis using calls cs by fastforce
  next
    case False
    then have "{b \<in> set (a # xs). refundable (mw_mkt w) i b} = {b\<in>set xs. refundable (mw_mkt w) i b}"
      by (auto simp: refundable_def)
    with False Cons.IH[of w] Cons.prems show ?thesis by (auto simp: refundable_def)
  qed
qed simp

lemma cancel_listing_Inr:
  assumes "cancel_listing e hk w caller i = Inr w'" "mkt_inv (mw_mkt w)"
  shows "\<exists>l. mk_listing (mw_mkt w) i = Some l \<and> li_is_active l \<and> authorised e caller \<and>
    (\<exists>cs. w_calls (mw_base w') = w_calls (mw_base w) @ cs \<and>
      (\<forall>a. refund_to (li_token l) a cs =
        (if refundable (mw_mkt w) i a then gross_of (mw_mkt w) i a else 0)) \<and>
      exposure_current (mw_mkt w') (li_token l) = i128_sat_sub (exposure_current (mw_mkt w) (li_token l) -
        (\<Sum>a\<in>{a\<in>set (investors_of (mw_mkt w) i). refundable (mw_mkt w) i a}. gross_of (mw_mkt w) i a)) (li_asking_price l))"
proof -
  from assms(1) obtain l s cfg w1 where own: "own_active_listing e (mw_mkt w) caller i (\<lambda>_. Inr ()) = Inr (l, s, cfg)"
    and auth: "authorised e caller"
    and w1: "(if li_funded_amount l > 0 then
              rbind (or_trap (get_invoice (w_nft (mw_base w)) i)) (\<lambda>invoice.
              rbind (cancel_refunds e hk cfg (li_token l) (inv_debtor_hash invoice) i (investors_of s i) (put_mkt s w)) (\<lambda>w.
              let s = mw_mkt w in Inr (put_mkt (s\<lparr>mk_investors := (mk_investors s)(i := None)\<rparr>) w)))
            else Inr (put_mkt s w)) = Inr w1"
    and w': "w' = put_mkt (close_listing i l (mw_mkt w1)) w1"
    by (auto simp: cancel_listing_def)
  note s = own_listing_inv[OF own assms(2)]
  note f = own_active_listing_facts[OF own]
  have reads: "contribution_of s = contribution_of (mw_mkt w)" "gross_of s = gross_of (mw_mkt w)"
    "investors_of s = investors_of (mw_mkt w)" "exposure_current s = exposure_current (mw_mkt w)"
    using load_config_state[OF f(4)]
    by (simp_all add: contribution_of_def gross_of_def fee_of_def investors_of_def exposure_current_def fun_eq_iff)
  have rf: "refundable s i a \<longleftrightarrow> refundable (mw_mkt w) i a" for a by (simp add: refundable_def reads)
  have nn: "records_nonneg s i" and ex: "funding_exact s i (li_funded_amount l)"
    using s(2-4) by (auto simp: listing_ok_def records_nonneg_def)
  have idx: "refundable s i a \<Longrightarrow> a \<in> set (investors_of s i)" for a
    using ex nn by (auto simp: funding_exact_def refundable_def records_nonneg_def gross_of_def add_nonneg_eq_0_iff)
  have closed: "exposure_current (close_listing i l t) (li_token l) =
    i128_sat_sub (exposure_current t (li_token l)) (li_asking_price l)" for t :: "'a mkt_state"
    by (simp add: close_listing_def put_listing_def remove_token_exposure_def put_exposure_def exposure_current_def)
  show ?thesis
  proof (cases "li_funded_amount l > 0")
    case True
    with w1 have "\<exists>(ivc :: Invoice) w2. cancel_refunds e hk cfg (li_token l) (inv_debtor_hash ivc) i (investors_of s i) (put_mkt s w) = Inr w2 \<and>
      w1 = put_mkt ((mw_mkt w2)\<lparr>mk_investors := (mk_investors (mw_mkt w2))(i := None)\<rparr>) w2"
      by (auto simp: Let_def)
    then obtain ivc :: Invoice and w2 where r: "cancel_refunds e hk cfg (li_token l) (inv_debtor_hash ivc) i (investors_of s i) (put_mkt s w) = Inr w2"
      and m: "w1 = put_mkt ((mw_mkt w2)\<lparr>mk_investors := (mk_investors (mw_mkt w2))(i := None)\<rparr>) w2" by blast
    from cancel_refunds_effect[OF r] nn obtain cs where cs: "w_calls (mw_base w2) = w_calls (mw_base w) @ cs"
      "\<forall>a. refund_to (li_token l) a cs = (if a \<in> set (investors_of s i) \<and> refundable s i a then gross_of s i a else 0)"
      "exposure_current (mw_mkt w2) (li_token l) = exposure_current s (li_token l) -
         (\<Sum>a\<in>{a\<in>set (investors_of s i). refundable s i a}. gross_of s i a)" by (auto simp: put_mkt_def)
    have "exposure_current (mw_mkt w1) (li_token l) = exposure_current (mw_mkt w2) (li_token l)"
      by (simp add: m put_mkt_def exposure_current_def)
    with cs(3) have "exposure_current (mw_mkt w') (li_token l) = i128_sat_sub (exposure_current (mw_mkt w) (li_token l) -
        (\<Sum>a\<in>{a\<in>set (investors_of (mw_mkt w) i). refundable (mw_mkt w) i a}. gross_of (mw_mkt w) i a)) (li_asking_price l)"
      by (simp add: w' put_mkt_def closed reads rf)
    moreover have "\<forall>a. refund_to (li_token l) a cs = (if refundable (mw_mkt w) i a then gross_of (mw_mkt w) i a else 0)"
      using cs(2) idx by (auto simp: reads rf)
    moreover have "w_calls (mw_base w') = w_calls (mw_base w) @ cs" using cs(1) by (simp add: w' m put_mkt_def)
    ultimately show ?thesis using f auth by blast
  next
    case False
    have pos: "0 \<le> gross_of s i a" for a using nn by (simp add: records_nonneg_def gross_of_def)
    from ex False have "(\<Sum>a\<in>set (investors_of s i). gross_of s i a) \<le> 0" by (simp add: funding_exact_def)
    then have "(\<Sum>a\<in>set (investors_of s i). gross_of s i a) = 0" using sum_nonneg[of "set (investors_of s i)" "gross_of s i"] pos by simp
    then have zero: "\<forall>a\<in>set (investors_of s i). gross_of s i a = 0"
      using pos by (simp add: sum_nonneg_eq_0_iff)
    then have none: "\<not> refundable s i a" for a
      using idx[of a] nn by (auto simp: refundable_def gross_of_def records_nonneg_def add_nonneg_eq_0_iff)
    have "w_calls (mw_base w') = w_calls (mw_base w) @ []" using w1 False by (auto simp: w' put_mkt_def)
    moreover have "exposure_current (mw_mkt w') (li_token l) = i128_sat_sub (exposure_current (mw_mkt w) (li_token l)) (li_asking_price l)"
      using w1 False closed[of s] by (auto simp: w' put_mkt_def reads)
    ultimately show ?thesis using f auth none rf
      by (intro exI[of _ l] conjI exI[of _ "[]"]) (simp_all del: append_Nil2)
  qed
qed


text \<open>Cancelling lowers the token's exposure by the refunds and again by the whole asking price,
  although listing added the asking price only: if every investor of the listing still has a
  contribution, the exposure ends lower by the funded amount than before the listing existed.\<close>

theorem cancel_releases_exposure_twice:
  assumes "mkt_reachable w" "cancel_listing e hk w caller i = Inr w'" "mk_listing (mw_mkt w) i = Some l"
    and "\<forall>a\<in>set (investors_of (mw_mkt w) i). 0 < contribution_of (mw_mkt w) i a"
  shows "exposure_current (mw_mkt w') (li_token l) =
    i128_sat_sub (exposure_current (mw_mkt w) (li_token l) - li_funded_amount l) (li_asking_price l)"
proof -
  have inv: "mkt_inv (mw_mkt w)" by (rule mkt_reachable_inv[OF assms(1)])
  from cancel_listing_Inr[OF assms(2) inv] assms(3) have act: "li_is_active l"
    and e: "exposure_current (mw_mkt w') (li_token l) = i128_sat_sub (exposure_current (mw_mkt w) (li_token l) -
        (\<Sum>a\<in>{a\<in>set (investors_of (mw_mkt w) i). refundable (mw_mkt w) i a}. gross_of (mw_mkt w) i a)) (li_asking_price l)"
    by auto
  have "{a\<in>set (investors_of (mw_mkt w) i). refundable (mw_mkt w) i a} = set (investors_of (mw_mkt w) i)"
    using assms(4) by (auto simp: refundable_def)
  moreover have "funding_exact (mw_mkt w) i (li_funded_amount l)"
    using inv assms(3) act by (auto simp: mkt_inv_def listing_ok_def dest: spec[of _ i])
  ultimately show ?thesis by (simp add: e funding_exact_def)
qed

section \<open>The concentration cap\<close>

text \<open>The cap on one investor's share of a listing looks at single contributions: the record of
  what an investor has already put in is never written, so in every reachable state a contribution
  within the cap passes, whatever the investor has on record.\<close>

theorem concentration_cap_is_per_call:
  assumes "mkt_reachable w" "0 < n" "n * 10000 \<le> int (get_max_investor_share_bps (mw_mkt w)) * price"
    and "int (get_max_investor_share_bps (mw_mkt w)) * price \<le> i128_max"
  shows "check_concentration (mw_mkt w) i a price n = Inr ()"
proof -
  have none: "mk_gross (mw_mkt w) i a = None" using mkt_reachable_inv[OF assms(1)] by (simp add: mkt_inv_def)
  have "n \<le> n * 10000" using assms(2) by simp
  with assms have "n \<le> i128_max" by linarith
  moreover have "0 \<le> int (get_max_investor_share_bps (mw_mkt w)) * price" using assms(2,3) by linarith
  ultimately show ?thesis using assms none by (auto simp: check_concentration_def Let_def safe_add_def)
qed

end
