(* ===== verification/Market_Gate.thy ===== *)
theory Market_Gate
  imports Market_Runs
begin

text \<open>
  Who may change the token whitelist and the admin proposals: a token enters the whitelist through
  the timelock of the admin or through a multisig action, and a multisig action runs once.
\<close>

definition gate_fields where
  "gate_fields s = (mk_whitelisted s, mk_whitelist_proposal s, mk_proposal s, mk_next_proposal s)"

lemma gate_unrelated [simp]:
  "gate_fields (s\<lparr>mk_lock := b\<rparr>) = gate_fields s" "gate_fields (s\<lparr>mk_debtor := d\<rparr>) = gate_fields s"
  "gate_fields (s\<lparr>mk_config := c\<rparr>) = gate_fields s" "gate_fields (s\<lparr>mk_referrer := r\<rparr>) = gate_fields s"
  "gate_fields (s\<lparr>mk_investors := x\<rparr>) = gate_fields s" "gate_fields (s\<lparr>mk_contribution := y\<rparr>) = gate_fields s"
  "gate_fields (s\<lparr>mk_fee_contribution := z\<rparr>) = gate_fields s" "gate_fields (s\<lparr>mk_refund_claimed := q\<rparr>) = gate_fields s"
  "gate_fields (s\<lparr>mk_cancel_request := cr\<rparr>) = gate_fields s" "gate_fields (s\<lparr>mk_cancel_confirmed := cc\<rparr>) = gate_fields s"
  "gate_fields (s\<lparr>mk_listing := l\<rparr>) = gate_fields s" "gate_fields (s\<lparr>mk_exposure := ex\<rparr>) = gate_fields s"
  "gate_fields (s\<lparr>mk_expiry_emitted := ee\<rparr>) = gate_fields s" "gate_fields (s\<lparr>mk_upgrade := up\<rparr>) = gate_fields s"
  "gate_fields (s\<lparr>mk_tier_fee := tf\<rparr>) = gate_fields s"
  "gate_fields (put_listing i k s) = gate_fields s" "gate_fields (put_exposure tok n s) = gate_fields s"
  "gate_fields (remove_token_exposure s tok n) = gate_fields s" "gate_fields (close_listing i k s) = gate_fields s"
  "gate_fields (note_investor i a s) = gate_fields s" "gate_fields (mark_listing_expired i k s) = gate_fields s"
  by (simp_all add: gate_fields_def put_listing_def put_exposure_def remove_token_exposure_def close_listing_def
      note_investor_def mark_listing_expired_def Let_def)

lemma load_config_gate: "load_config s = Inr (s', cfg) \<Longrightarrow> gate_fields s' = gate_fields s"
  by (drule load_config_state) simp

lemma refund_investor_gate:
  "refund_investor e hk cfg tok dh i a w = Inr w' \<Longrightarrow> gate_fields (mw_mkt w') = gate_fields (mw_mkt w)"
  by (auto simp: refund_investor_def Let_def put_mkt_def mkt_emit_def)

lemma cancel_refunds_gate:
  "cancel_refunds e hk cfg tok dh i xs w = Inr w' \<Longrightarrow> gate_fields (mw_mkt w') = gate_fields (mw_mkt w)"
  by (induction xs arbitrary: w)
    (auto simp: Let_def put_mkt_def split: if_splits dest!: refund_investor_gate)

lemma fund_internal_gate:
  assumes "fund_invoice_internal e v hk w a i n pt = Inr (w', r)"
  shows "gate_fields (mw_mkt w') = gate_fields (mw_mkt w)"
  using assms
proof (cases rule: fund_internal_cases)
  case (funded k s cfg q d)
  from funded(5) load_config_gate[OF funded(3)] show ?thesis
    by (auto simp: fund_commit_def Let_def put_mkt_def mkt_emit_def split: if_splits)
qed (auto simp: put_mkt_def dest!: load_config_gate)

lemma batch_fund_gate:
  "batch_fund e v hk a b xs w = Inr (w', rs) \<Longrightarrow> gate_fields (mw_mkt w') = gate_fields (mw_mkt w)"
proof (induction e v hk a b xs w arbitrary: w' rs rule: batch_fund.induct)
  case (2 e v hk a b j n xs w)
  from "2.prems" obtain w1 r where r: "fund_invoice_internal e v hk w a j n None = Inr (w1, r)" by auto
  from fund_internal_gate[OF r] "2.prems" "2.IH" r show ?case by (auto split: option.splits if_splits)
qed simp

lemma ledger_call_gate:
  assumes "mkt_exec e v hk c w = Inr w'" "is_ledger_call c"
  shows "gate_fields (mw_mkt w') = gate_fields (mw_mkt w)"
proof -
  have fund: "fund_invoice e v hk w a i n pt = Inr (w', u) \<Longrightarrow> gate_fields (mw_mkt w') = gate_fields (mw_mkt w)" for a i n pt u
    by (auto simp: fund_invoice_def mkt_guarded_def mkt_lock.guard_Inr_iff split: option.splits dest!: fund_internal_gate)
  have batch: "fund_invoices_batch e v hk w a xs b = Inr (w', u) \<Longrightarrow> gate_fields (mw_mkt w') = gate_fields (mw_mkt w)" for a xs b u
    by (auto simp: fund_invoices_batch_def mkt_guarded_def mkt_lock.guard_Inr_iff split: if_splits dest!: batch_fund_gate)
  have lst: "list_invoice e v hk w a i p f tok d r = Inr (w', u) \<Longrightarrow> gate_fields (mw_mkt w') = gate_fields (mw_mkt w)" for a i p f tok d r u
    by (erule list_invoice_Inr) (auto simp: add_token_exposure_def dest!: load_config_gate split: option.splits if_splits)
  have claim: "claim_refund e hk w a i = Inr w' \<Longrightarrow> gate_fields (mw_mkt w') = gate_fields (mw_mkt w)" for a i
    by (auto simp: claim_refund_def Let_def put_mkt_def split: if_splits dest!: refund_investor_gate load_config_gate)
  have own: "own_active_listing e s a i chk = Inr (k, s', cfg) \<Longrightarrow> gate_fields s' = gate_fields s" for s s' :: "'a mkt_state" and a i chk k cfg
    by (auto dest!: own_active_listing_facts(4) load_config_gate)
  have cancel: "cancel_listing e hk w a i = Inr w' \<Longrightarrow> gate_fields (mw_mkt w') = gate_fields (mw_mkt w)" for a i
    by (auto simp: cancel_listing_def put_mkt_def Let_def split: if_splits dest!: cancel_refunds_gate own)
  have withdraw: "withdraw_listing e w a i = Inr w' \<Longrightarrow> gate_fields (mw_mkt w') = gate_fields (mw_mkt w)" for a i
    by (auto simp: withdraw_listing_def put_mkt_def Let_def dest!: nft_call_mkt own)
  have request: "request_cancellation e s a i = Inr s' \<Longrightarrow> gate_fields s' = gate_fields s" for s s' :: "'a mkt_state" and a i
    by (auto simp: request_cancellation_def split: if_splits dest!: own)
  have confirm: "admin_confirm_cancellation e s a i = Inr s' \<Longrightarrow> gate_fields s' = gate_fields s" for s s' :: "'a mkt_state" and a i
    by (auto simp: admin_confirm_cancellation_def Let_def split: if_splits dest!: load_config_gate)
  have amend: "amend_listing e s a i p d t = Inr s' \<Longrightarrow> gate_fields s' = gate_fields s" for s s' :: "'a mkt_state" and a i p d t
    by (auto dest!: amend_listing_Inr own)
  from assms show ?thesis
    by (cases c) (auto simp: is_ledger_call_def on_mkt_def drop_value_def put_mkt_def
        dest: fund batch lst claim cancel withdraw request confirm amend)
qed

section \<open>Configuration calls\<close>

definition next_proposal :: "'d mkt_state \<Rightarrow> u64" where
  "next_proposal s = (case mk_next_proposal s of None \<Rightarrow> 1 | Some n \<Rightarrow> n)"

text \<open>Every proposal was made under a number already handed out, and its approvals are distinct.\<close>

definition gate_ok :: "'d mkt_state \<Rightarrow> bool" where
  "gate_ok s \<longleftrightarrow> (\<forall>n p. mk_proposal s n = Some p \<longrightarrow>
     n < next_proposal s \<and> ap_approvals p \<noteq> [] \<and> distinct (ap_approvals p))"

text \<open>What one call may do to the whitelist and to the proposals.\<close>

definition whitelisting_call :: "env \<Rightarrow> market_views \<Rightarrow> mkt_call \<Rightarrow> 'd mkt_state \<Rightarrow> address \<Rightarrow> bool" where
  "whitelisting_call e v c s tok =
     (case c of
        MC_execute_token_whitelist admin t \<Rightarrow> t = tok \<and> authorised e admin \<and>
          (\<exists>t0. mk_whitelist_proposal s tok = Some t0 \<and> t0 + UPGRADE_TIMELOCK_DELAY \<le> timestamp e)
      | MC_execute_admin_action who n \<Rightarrow> authorised e who \<and>
          (\<exists>p cfg. mk_proposal s n = Some p \<and> \<not> ap_executed p \<and> ap_action p = MA_WhitelistToken tok \<and>
             multisig_config v s = Some cfg \<and> who \<in> set (ms_signers cfg) \<and>
             ms_threshold cfg \<le> length (ap_approvals p))
      | _ \<Rightarrow> False)"

definition proposals_kept :: "'d mkt_state \<Rightarrow> 'd mkt_state \<Rightarrow> bool" where
  "proposals_kept s s' \<longleftrightarrow> next_proposal s \<le> next_proposal s' \<and>
     (\<forall>n p. mk_proposal s n = Some p \<longrightarrow> (\<exists>p' :: AdminProposal. mk_proposal s' n = Some p' \<and>
        ap_action p' = ap_action p \<and> (ap_executed p \<longrightarrow> ap_executed p')))"

definition gate_step :: "env \<Rightarrow> market_views \<Rightarrow> mkt_call \<Rightarrow> 'd mkt_state \<Rightarrow> 'd mkt_state \<Rightarrow> bool" where
  "gate_step e v c s s' \<longleftrightarrow>
     (\<forall>tok. is_token_whitelisted s' tok \<longrightarrow> is_token_whitelisted s tok \<or> whitelisting_call e v c s tok) \<and>
     (gate_ok s \<longrightarrow> gate_ok s' \<and> proposals_kept s s')"

lemma gate_same:
  assumes "gate_fields s' = gate_fields s" shows "gate_step e v c s s'"
  using assms by (auto simp: gate_step_def gate_fields_def is_token_whitelisted_def gate_ok_def
      proposals_kept_def next_proposal_def)

lemma admin_set_gate:
  assumes "mkt_admin_set e s a chk upd = Inr s'" "\<And>t. gate_fields (upd t) = gate_fields t"
  shows "gate_fields s' = gate_fields s"
  using assms by (auto simp: mkt_admin_set_def dest!: load_config_gate)

lemma apply_gate:
  "apply_set_fee_bps w a x = Inr w' \<Longrightarrow> gate_fields (mw_mkt w') = gate_fields (mw_mkt w)"
  "apply_set_referrer_split_bps w a x = Inr w' \<Longrightarrow> gate_fields (mw_mkt w') = gate_fields (mw_mkt w)"
  "apply_set_tier_fee_bps s k x = Inr s' \<Longrightarrow> gate_fields s' = gate_fields s"
  "apply_propose_upgrade e s h = Inr s' \<Longrightarrow> gate_fields s' = gate_fields s"
  "apply_execute_upgrade e s = Inr (s', h) \<Longrightarrow> gate_fields s' = gate_fields s"
  by (auto simp: apply_set_fee_bps_def apply_set_referrer_split_bps_def apply_set_tier_fee_bps_def
      apply_propose_upgrade_def apply_execute_upgrade_def mkt_emit_def put_mkt_def
      split: if_splits dest!: load_config_gate)

lemma migrate_gate:
  "migrate_loop kora_from_migration (\<lambda>v s. s\<lparr>mk_schema_version := Some v\<rparr>) mkt_migration_step a b s = Inr s'
     \<Longrightarrow> gate_fields s' = gate_fields s"
proof (induction kora_from_migration "\<lambda>v s. s\<lparr>mk_schema_version := Some v\<rparr> :: 'a mkt_state"
    "mkt_migration_step :: _ \<Rightarrow> _ \<Rightarrow> 'a mkt_state \<Rightarrow> _" a b s rule: migrate_loop.induct)
  case (1 a b s)
  then show ?case
    by (subst (asm) migrate_loop.simps)
      (auto simp: mkt_migration_step_def gate_fields_def split: if_splits option.splits sum.splits)
qed

lemma config_gate:
  "mkt_initialize hk s a0 a1 a2 a3 a4 a5 a6 a7 x y = Inr s' \<Longrightarrow> gate_fields s' = gate_fields s"
  "mkt_migrate_versions e hk s a x y = Inr s' \<Longrightarrow> gate_fields s' = gate_fields s"
  "set_min_contribution e s a z = Inr s' \<Longrightarrow> gate_fields s' = gate_fields s"
  "set_max_investor_share_bps e s a x = Inr s' \<Longrightarrow> gate_fields s' = gate_fields s"
  "set_investor_accredited e s a b bb = Inr s' \<Longrightarrow> gate_fields s' = gate_fields s"
  "set_tier_fee_bps e v s a t x = Inr s' \<Longrightarrow> gate_fields s' = gate_fields s"
  "set_token_currency e s a b cur = Inr s' \<Longrightarrow> gate_fields s' = gate_fields s"
  "set_token_exposure_cap e s a b z = Inr s' \<Longrightarrow> gate_fields s' = gate_fields s"
  "mkt_set_debtor_attestation e s a att = Inr s' \<Longrightarrow> gate_fields s' = gate_fields s"
  "set_priority_window e s a i xs d = Inr s' \<Longrightarrow> gate_fields s' = gate_fields s"
  "propose_dependency_update e s a f b = Inr s' \<Longrightarrow> gate_fields s' = gate_fields s"
  "execute_dependency_update e s a f = Inr s' \<Longrightarrow> gate_fields s' = gate_fields s"
  "mkt_propose_upgrade e v s a h = Inr s' \<Longrightarrow> gate_fields s' = gate_fields s"
  "mkt_execute_upgrade e v s a = Inr (s', h) \<Longrightarrow> gate_fields s' = gate_fields s"
  "set_fee_bps e v w a x = Inr w' \<Longrightarrow> gate_fields (mw_mkt w') = gate_fields (mw_mkt w)"
  "set_referrer_split_bps e v w a x = Inr w' \<Longrightarrow> gate_fields (mw_mkt w') = gate_fields (mw_mkt w)"
  subgoal by (auto simp: mkt_initialize_def gate_fields_def)
  subgoal by (auto simp: mkt_migrate_versions_def migrate_def Let_def split: if_splits
        dest!: load_config_gate migrate_gate)
  subgoal unfolding set_min_contribution_def by (erule admin_set_gate) (simp add: gate_fields_def)
  subgoal unfolding set_max_investor_share_bps_def by (erule admin_set_gate) (simp add: gate_fields_def)
  subgoal unfolding set_investor_accredited_def by (erule admin_set_gate) (simp add: gate_fields_def)
  subgoal by (auto simp: set_tier_fee_bps_def dest!: load_config_gate apply_gate)
  subgoal unfolding set_token_currency_def by (erule admin_set_gate) (simp add: gate_fields_def)
  subgoal unfolding set_token_exposure_cap_def by (erule admin_set_gate) (simp add: gate_fields_def)
  subgoal unfolding mkt_set_debtor_attestation_def by (erule admin_set_gate) (simp add: gate_fields_def)
  subgoal unfolding set_priority_window_def by (erule admin_set_gate) (simp add: gate_fields_def)
  subgoal unfolding propose_dependency_update_def by (erule admin_set_gate) (simp add: gate_fields_def)
  subgoal by (cases f) (auto simp: execute_dependency_update_def Let_def gate_fields_def
        dest!: load_config_state)
  subgoal by (auto simp: mkt_propose_upgrade_def dest!: load_config_gate apply_gate)
  subgoal by (auto simp: mkt_execute_upgrade_def dest!: load_config_gate apply_gate)
  subgoal by (auto simp: set_fee_bps_def put_mkt_def dest!: load_config_gate apply_gate)
  subgoal by (auto simp: set_referrer_split_bps_def put_mkt_def dest!: load_config_gate apply_gate)
  done

section \<open>The gated calls\<close>

lemma registry_gate [simp]:
  "gate_fields (add_to_whitelist_registry tok s) = gate_fields s"
  "gate_fields (remove_from_whitelist_registry tok s) = gate_fields s"
  by (auto simp: add_to_whitelist_registry_def remove_from_whitelist_registry_def gate_fields_def Let_def)

text \<open>A step that leaves the proposals alone.\<close>

lemma gate_step_tokens:
  assumes "mk_proposal s' = mk_proposal s" "mk_next_proposal s' = mk_next_proposal s"
    and "\<And>t. is_token_whitelisted s' t \<Longrightarrow> is_token_whitelisted s t \<or> whitelisting_call e v c s t"
  shows "gate_step e v c s s'"
  using assms by (auto simp: gate_step_def gate_ok_def proposals_kept_def next_proposal_def)

text \<open>A step that leaves the whitelist alone.\<close>

lemma gate_step_proposals:
  assumes "mk_whitelisted s' = mk_whitelisted s" "gate_ok s \<Longrightarrow> gate_ok s' \<and> proposals_kept s s'"
  shows "gate_step e v c s s'"
  using assms by (simp add: gate_step_def is_token_whitelisted_def)

lemma registry_reads [simp]:
  "mk_whitelisted (add_to_whitelist_registry tok s) = mk_whitelisted s"
  "mk_proposal (add_to_whitelist_registry tok s) = mk_proposal s"
  "mk_next_proposal (add_to_whitelist_registry tok s) = mk_next_proposal s"
  "mk_whitelisted (remove_from_whitelist_registry tok s) = mk_whitelisted s"
  "mk_proposal (remove_from_whitelist_registry tok s) = mk_proposal s"
  "mk_next_proposal (remove_from_whitelist_registry tok s) = mk_next_proposal s"
  by (simp_all add: add_to_whitelist_registry_def remove_from_whitelist_registry_def Let_def)

lemma propose_token_gate: "propose_token_whitelist e s a b = Inr s' \<Longrightarrow> gate_step e v c s s'"
  by (rule gate_step_tokens) (auto simp: propose_token_whitelist_def mkt_admin_set_def is_token_whitelisted_def
      dest!: load_config_state)

lemma remove_token_gate: "remove_token_whitelist e s a b = Inr s' \<Longrightarrow> gate_step e v c s s'"
  by (rule gate_step_tokens) (auto simp: remove_token_whitelist_def mkt_admin_set_def is_token_whitelisted_def
      split: if_splits dest!: load_config_state)

lemma execute_token_gate:
  assumes "execute_token_whitelist e s a tok = Inr s'"
  shows "gate_step e v (MC_execute_token_whitelist a tok) s s'"
proof -
  from assms obtain s1 cfg t0 where g: "authorised e a" "load_config s = Inr (s1, cfg)"
    "mk_whitelist_proposal s1 tok = Some t0" "t0 + UPGRADE_TIMELOCK_DELAY \<le> timestamp e"
    and s': "s' = add_to_whitelist_registry tok (s1\<lparr>mk_whitelist_proposal := (mk_whitelist_proposal s1)(tok := None),
               mk_whitelisted := (mk_whitelisted s1)(tok \<mapsto> True)\<rparr>)"
    by (auto simp: execute_token_whitelist_def u64_add_def not_less split: if_splits)
  note s1 = load_config_state[OF g(2)]
  show ?thesis
  proof (rule gate_step_tokens)
    fix t assume "is_token_whitelisted s' t"
    with g(1,3,4) s1 show "is_token_whitelisted s t \<or> whitelisting_call e v (MC_execute_token_whitelist a tok) s t"
      by (auto simp: s' is_token_whitelisted_def whitelisting_call_def split: if_splits)
  qed (simp_all add: s' s1)
qed

lemma propose_action_gate:
  assumes "propose_admin_action e v s a x = Inr (s', n)" shows "gate_step e v c s s'"
proof -
  from assms have n: "n = next_proposal s"
    and s': "s' = s\<lparr>mk_proposal := (mk_proposal s)(n \<mapsto> \<lparr>ap_id = n, ap_action = x, ap_approvals = [a],
      ap_executed = False, ap_created_at = timestamp e\<rparr>), mk_next_proposal := Some (n + 1)\<rparr>"
    by (auto simp: propose_admin_action_def Let_def next_proposal_def u64_add_def split: if_splits)
  have "mk_proposal s n = None" if "gate_ok s" using that n by (cases "mk_proposal s n") (auto simp: gate_ok_def)
  then show ?thesis
    using n by (intro gate_step_proposals)
      (auto simp: s' gate_ok_def proposals_kept_def next_proposal_def less_Suc_eq)
qed

lemma approve_action_gate:
  assumes "approve_admin_action e v s a n = Inr s'" shows "gate_step e v c s s'"
proof -
  from assms obtain p where p: "mk_proposal s n = Some p" "a \<notin> set (ap_approvals p)"
    and s': "s' = s\<lparr>mk_proposal := (mk_proposal s)(n \<mapsto> p\<lparr>ap_approvals := ap_approvals p @ [a]\<rparr>)\<rparr>"
    by (auto simp: approve_admin_action_def split: if_splits)
  then show ?thesis
    by (intro gate_step_proposals) (auto simp: gate_ok_def proposals_kept_def next_proposal_def)
qed

lemma dispatch_gate:
  assumes "dispatch_action e w a x = Inr (w', h)"
  shows "gate_fields (mw_mkt w') = gate_fields (mw_mkt w) \<or>
    (\<exists>tok b. (x = MA_WhitelistToken tok \<and> b = Some True \<or> x = MA_RemoveTokenWhitelist tok \<and> b = None) \<and>
       mw_mkt w' = (mw_mkt w)\<lparr>mk_whitelisted := (mk_whitelisted (mw_mkt w))(tok := b)\<rparr>)"
  using assms
  by (cases x) (auto simp: dispatch_action_def Let_def put_mkt_def apply_whitelist_token_def
      apply_remove_token_whitelist_def split: if_splits dest!: apply_gate)

lemma execute_action_gate:
  assumes "execute_admin_action e v w a n = Inr (w', h)"
  shows "gate_step e v (MC_execute_admin_action a n) (mw_mkt w) (mw_mkt w') \<and>
    (\<exists>p' :: AdminProposal. mk_proposal (mw_mkt w') n = Some p' \<and> ap_executed p')"
proof -
  from assms obtain cfg p s2 c2 where g: "authorised e a" "multisig_config v (mw_mkt w) = Some cfg"
    "a \<in> set (ms_signers cfg)" "mk_proposal (mw_mkt w) n = Some p" "\<not> ap_executed p"
    "ms_threshold cfg \<le> length (ap_approvals p)"
    "load_config ((mw_mkt w)\<lparr>mk_proposal := (mk_proposal (mw_mkt w))(n \<mapsto> p\<lparr>ap_executed := True\<rparr>)\<rparr>) = Inr (s2, c2)"
    and d: "dispatch_action e (put_mkt s2 w) (mc_admin c2) (ap_action p) = Inr (w', h)"
    by (auto simp: execute_admin_action_def Let_def require_multisig_def require_signer_def not_less split: if_splits)
  let ?s = "(mw_mkt w)\<lparr>mk_proposal := (mk_proposal (mw_mkt w))(n \<mapsto> p\<lparr>ap_executed := True\<rparr>), mk_config := Some c2\<rparr>"
  have s2: "s2 = ?s" using load_config_state[OF g(7)] .
  have kept: "gate_ok (mw_mkt w) \<Longrightarrow> mk_proposal s = mk_proposal ?s \<Longrightarrow> mk_next_proposal s = mk_next_proposal ?s \<Longrightarrow>
      gate_ok s \<and> proposals_kept (mw_mkt w) s" for s :: "'a mkt_state"
    using g(4) by (auto simp: gate_ok_def proposals_kept_def next_proposal_def)
  from dispatch_gate[OF d] show ?thesis
  proof (elim disjE exE conjE)
    assume same: "gate_fields (mw_mkt w') = gate_fields (mw_mkt (put_mkt s2 w))"
    with kept[of "mw_mkt w'"] show ?thesis
      by (simp add: s2 put_mkt_def gate_fields_def gate_step_def is_token_whitelisted_def)
  next
    fix tok b assume "ap_action p = MA_WhitelistToken tok" "b = Some True"
      "mw_mkt w' = (mw_mkt (put_mkt s2 w))\<lparr>mk_whitelisted := (mk_whitelisted (mw_mkt (put_mkt s2 w)))(tok := b)\<rparr>"
    with g kept[of "mw_mkt w'"] show ?thesis
      by (simp add: s2 put_mkt_def gate_step_def is_token_whitelisted_def whitelisting_call_def)
  next
    fix tok b assume "ap_action p = MA_RemoveTokenWhitelist tok" "b = None"
      "mw_mkt w' = (mw_mkt (put_mkt s2 w))\<lparr>mk_whitelisted := (mk_whitelisted (mw_mkt (put_mkt s2 w)))(tok := b)\<rparr>"
    with kept[of "mw_mkt w'"] show ?thesis
      by (simp add: s2 put_mkt_def gate_step_def is_token_whitelisted_def)
  qed
qed

lemma mkt_exec_gate:
  assumes "mkt_exec e v hk c w = Inr w'" shows "gate_step e v c (mw_mkt w) (mw_mkt w')"
proof (cases "is_ledger_call c")
  case True
  from ledger_call_gate[OF assms this] show ?thesis by (rule gate_same)
next
  case False
  with assms show ?thesis
    by (cases c) (auto simp: is_ledger_call_def on_mkt_def drop_value_def put_mkt_def
        dest!: config_gate intro: gate_same propose_token_gate remove_token_gate execute_token_gate propose_action_gate
          approve_action_gate execute_action_gate[THEN conjunct1])
qed

lemma mkt_runs_gate:
  "mkt_runs w w' \<Longrightarrow> gate_ok (mw_mkt w) \<Longrightarrow> gate_ok (mw_mkt w') \<and> proposals_kept (mw_mkt w) (mw_mkt w')"
proof (induction rule: mkt_runs.induct)
  case (mkt_step w w1 e v hk c w2)
  with mkt_exec_gate[OF mkt_step.hyps(2)] show ?case
    unfolding gate_step_def proposals_kept_def by (metis (no_types, lifting) le_trans)
qed (auto simp: proposals_kept_def)

lemma gate_ok_empty: "gate_ok (mk_empty d)"
  by (simp add: gate_ok_def mk_empty_def)

lemma mkt_reachable_gate:
  assumes "mkt_reachable w" shows "gate_ok (mw_mkt w)"
proof -
  from assms obtain d b where "mkt_runs \<lparr>mw_mkt = mk_empty d, mw_base = b\<rparr> w" by (auto simp: mkt_reachable_def)
  from mkt_runs_gate[OF this] show ?thesis by (simp add: gate_ok_empty)
qed

text \<open>A token enters the whitelist in one of two ways only: the admin executes a proposal made
  at least a day before, or a signer of the multisig executes an action that as many different
  signers have approved as the threshold asks.\<close>

theorem tokens_enter_through_gate:
  assumes "mkt_reachable w" "mkt_exec e v hk c w = Inr w'"
    and "is_token_whitelisted (mw_mkt w') tok" "\<not> is_token_whitelisted (mw_mkt w) tok"
  shows "(\<exists>admin t. c = MC_execute_token_whitelist admin tok \<and> authorised e admin \<and>
      mk_whitelist_proposal (mw_mkt w) tok = Some t \<and> t + 86400 \<le> timestamp e) \<or>
    (\<exists>who n p cfg. c = MC_execute_admin_action who n \<and> authorised e who \<and> who \<in> set (ms_signers cfg) \<and>
      multisig_config v (mw_mkt w) = Some cfg \<and> mk_proposal (mw_mkt w) n = Some p \<and> \<not> ap_executed p \<and>
      ap_action p = MA_WhitelistToken tok \<and> ms_threshold cfg \<le> card (set (ap_approvals p)))"
proof -
  from mkt_exec_gate[OF assms(2)] assms(3,4) have "whitelisting_call e v c (mw_mkt w) tok"
    by (auto simp: gate_step_def)
  then show ?thesis using mkt_reachable_gate[OF assms(1)]
    by (cases c) (auto simp: whitelisting_call_def gate_ok_def distinct_card UPGRADE_TIMELOCK_DELAY_def)
qed

text \<open>An admin action executes only on enough approvals by different signers, and once: however
  the marketplace goes on, executing it again fails.\<close>

theorem admin_action_runs_once:
  assumes "mkt_reachable w" "execute_admin_action e v w a n = Inr (w1, h)" "mkt_runs w1 w2"
  shows "(\<exists>p cfg. mk_proposal (mw_mkt w) n = Some p \<and> multisig_config v (mw_mkt w) = Some cfg \<and>
      ms_threshold cfg \<le> card (set (ap_approvals p))) \<and> \<not> is_ok (execute_admin_action e' v' w2 b n)"
proof -
  note g = execute_action_gate[OF assms(2)]
  have ok: "gate_ok (mw_mkt w)" by (rule mkt_reachable_gate[OF assms(1)])
  with g have "gate_ok (mw_mkt w1)" by (simp add: gate_step_def)
  with mkt_runs_gate[OF assms(3)] have "proposals_kept (mw_mkt w1) (mw_mkt w2)" by blast
  with g obtain p :: AdminProposal where "mk_proposal (mw_mkt w2) n = Some p" "ap_executed p"
    unfolding proposals_kept_def by blast
  then have "\<not> is_ok (execute_admin_action e' v' w2 b n)"
    by (auto simp: is_ok_iff execute_admin_action_def Let_def)
  moreover have "\<exists>p cfg. mk_proposal (mw_mkt w) n = Some p \<and> multisig_config v (mw_mkt w) = Some cfg \<and>
      ms_threshold cfg \<le> card (set (ap_approvals p))"
    using assms(2) ok
    by (auto simp: execute_admin_action_def Let_def require_multisig_def gate_ok_def distinct_card not_less split: if_splits)
  ultimately show ?thesis by blast
qed

end
