(* ===== verification/Market_Example.thy ===== *)
theory Market_Example
  imports Market_Props Market_Gate
begin

text \<open>
  A concrete marketplace for the examples: admin 10, marketplace 30, treasury 40, invoice contract
  50, pool 1, token 70, seller 20 with one invoice of 500 due at time 200000, investors 80 and 81.
  The debtor bookkeeping of the hooks is a plain sum.
\<close>

definition sample_hooks :: "int hooks" where
  "sample_hooks = \<lparr>hk_schema_version = 1, hk_check_cap = (\<lambda>_ _ _. Inr ()),
     hk_add = (\<lambda>d _ _ n. Inr (d + n)), hk_remove = (\<lambda>d _ _ n. Inr (d - n))\<rparr>"

definition sample_views :: market_views where
  "sample_views = \<lparr>mv_compliance = (\<lambda>_ _. True), mv_debtor_verified = (\<lambda>_ _. True),
     mv_debtor_paused = (\<lambda>_ _. False), mv_tier_paused = (\<lambda>_ _. False), mv_confirmed = (\<lambda>_ _ _. None),
     mv_attestation = (\<lambda>_ _. None), mv_convert = (\<lambda>_ _ _ _ _ _. None),
     mv_multisig = (\<lambda>_. Some \<lparr>ms_threshold = 2, ms_signers = [90, 91, 92]\<rparr>)\<rparr>"

definition no_multisig :: market_views where
  "no_multisig = sample_views\<lparr>mv_multisig := (\<lambda>_. None)\<rparr>"

definition market_env :: "nat \<Rightarrow> env" where
  "market_env t = sample_env\<lparr>self_addr := 30, timestamp := t\<rparr>"

definition market_base :: world where
  "market_base =
     (let w = \<lparr>w_pool = pool_empty,
        w_nft = after_calls nft_env [Call_initialize 10 11, Call_set_authorized_callers 10 30 1,
          Call_mint_invoice 20 [7] 500 ''USDC'' 200000 ''cid'' 15 None], w_calls = []\<rparr> in
      case pool_initialize sample_env w 10 50 51 40 11 500 60 10000 100 53 of Inr w' \<Rightarrow> w' | Inl _ \<Rightarrow> w)"

definition market_new :: "int mworld" where
  "market_new = \<lparr>mw_mkt = mk_empty 0, mw_base = market_base\<rparr>"

fun mkt_replay :: "(env \<times> mkt_call) list \<Rightarrow> int mworld \<Rightarrow> (KoraError failure + int mworld)" where
  "mkt_replay [] w = Inr w"
| "mkt_replay ((e, c) # cs) w = rbind (mkt_exec e no_multisig sample_hooks c w) (mkt_replay cs)"

lemma mkt_runs_trans: "mkt_runs w1 w2 \<Longrightarrow> mkt_runs w w1 \<Longrightarrow> mkt_runs w w2"
proof (induction rule: mkt_runs.induct)
  case (mkt_step w1 w2 e v hk c w3)
  then show ?case by (blast intro: mkt_runs.mkt_step)
qed (auto intro: mkt_other)

lemma mkt_replay_runs: "mkt_replay cs w = Inr w' \<Longrightarrow> mkt_runs w w'"
proof (induction cs arbitrary: w)
  case (Cons c cs)
  obtain e d where c: "c = (e, d)" by (cases c)
  with Cons.prems obtain w1 where "mkt_exec e no_multisig sample_hooks d w = Inr w1" "mkt_replay cs w1 = Inr w'" by auto
  from mkt_runs_trans[OF Cons.IH[OF this(2)] mkt_step[OF mkt_none this(1)]] show ?case .
qed (simp add: mkt_none)

lemma mkt_replay_reachable:
  assumes "mkt_replay cs market_new = Inr w" shows "mkt_reachable w"
  using mkt_replay_runs[OF assms] by (auto simp: mkt_reachable_def market_new_def)

definition setup_calls :: "(env \<times> mkt_call) list" where
  "setup_calls =
     [(market_env 1000, MC_initialize 10 50 1 40 11 60 61 62 200 0),
      (market_env 1000, MC_set_min_contribution 10 0),
      (market_env 1000, MC_set_investor_accredited 10 80 True),
      (market_env 1000, MC_set_investor_accredited 10 81 True),
      (market_env 1000, MC_propose_token_whitelist 10 70)]"

definition whitelist_call :: "env \<times> mkt_call" where
  "whitelist_call = (market_env 90000, MC_execute_token_whitelist 10 70)"

definition list_call :: "env \<times> mkt_call" where
  "list_call = (market_env 90000, MC_list_invoice 20 1 400 500 70 100000 None)"

definition fund_call :: "address \<Rightarrow> i128 \<Rightarrow> env \<times> mkt_call" where
  "fund_call a n = (market_env 90000, MC_fund_invoice a 1 n None)"

definition market_after :: "(env \<times> mkt_call) list \<Rightarrow> int mworld" where
  "market_after cs = (case mkt_replay cs market_new of Inr w \<Rightarrow> w | Inl _ \<Rightarrow> market_new)"

named_theorems market_eval
lemmas [market_eval] = sample_hooks_def sample_views_def no_multisig_def market_env_def market_base_def
  market_new_def setup_calls_def whitelist_call_def list_call_def fund_call_def market_after_def mk_empty_def
  mkt_initialize_def set_min_contribution_def set_investor_accredited_def propose_token_whitelist_def
  execute_token_whitelist_def mkt_admin_set_def mkt_require_admin_def load_config_def mkt_require_not_paused_def
  list_invoice_def fund_invoice_def mkt_guarded_def fund_invoice_internal_def fund_listing_def fund_checks_def
  fund_room_def fund_commit_def note_investor_def check_concentration_def quote_contribution_def
  get_listing_def put_listing_def is_token_whitelisted_def require_whitelisted_token_def
  is_investor_accredited_def require_investor_accredited_def require_priority_window_allowed_def
  require_circuit_breaker_not_tripped_def require_debtor_attestation_if_needed_def exposure_current_def
  exposure_cap_def put_exposure_def add_token_exposure_def remove_token_exposure_def registry_value_def
  base_fee_bps_def effective_fee_bps_def add_to_whitelist_registry_def put_mkt_def mkt_emit_def mkt_nft_call_def
  on_mkt_def drop_value_def contribution_of_def fee_of_def investors_of_def listing_currency_def utf8_cont_def
  is_symbol_char_def check_bounds_def min_contribution_floor_def get_max_investor_share_bps_def tier_ordinal_def
  refund_claimed_def cancel_confirmed_def claim_refund_def refund_investor_def mark_listing_expired_def
  cancel_listing_def own_active_listing_def close_listing_def risk_tier_to_symbol_def
  safe_add_def safe_sub_def UPGRADE_TIMELOCK_DELAY_def MAX_AMOUNT_def

lemma market_after_reachable:
  "is_ok (mkt_replay cs market_new) \<Longrightarrow> mkt_reachable (market_after cs)"
  by (auto simp: is_ok_iff market_after_def intro: mkt_replay_reachable)

definition listed_calls :: "(env \<times> mkt_call) list" where
  "listed_calls = setup_calls @ [whitelist_call, list_call]"

definition half_calls :: "(env \<times> mkt_call) list" where
  "half_calls = listed_calls @ [fund_call 80 200]"

lemmas [market_eval] = listed_calls_def half_calls_def

lemma listed_ok: "is_ok (mkt_replay listed_calls market_new)"
  by (simp add: market_eval pool_eval nft_eval)

lemma half_ok: "is_ok (mkt_replay half_calls market_new)"
  by (simp add: market_eval pool_eval nft_eval)

lemmas listed_reachable = market_after_reachable[OF listed_ok]
lemmas half_reachable = market_after_reachable[OF half_ok]

section \<open>Witnesses\<close>

lemma half_listing:
  "mk_listing (mw_mkt (market_after half_calls)) 1 = Some \<lparr>li_invoice_id = 1, li_seller = 20,
     li_asking_price = 400, li_face_value = 500, li_token = 70, li_funded_amount = 200,
     li_funding_deadline = 100000, li_is_active = True, li_bidding_deadline = None\<rparr>"
  by (simp add: market_eval pool_eval nft_eval)

lemma half_ledger:
  "contribution_of (mw_mkt (market_after half_calls)) 1 80 = 196" "fee_of (mw_mkt (market_after half_calls)) 1 80 = 4"
  "investors_of (mw_mkt (market_after half_calls)) 1 = [80]"
  "exposure_current (mw_mkt (market_after half_calls)) 70 = 400"
  by (simp_all add: market_eval pool_eval nft_eval)

theorem funding_ledger_exact_witness:
  "\<exists>w :: int mworld. mkt_reachable w \<and> (\<exists>l. mk_listing (mw_mkt w) 1 = Some l \<and> li_is_active l \<and>
     li_funded_amount l = 200 \<and>
     (\<Sum>a\<in>set (investors_of (mw_mkt w) 1). contribution_of (mw_mkt w) 1 a + fee_of (mw_mkt w) 1 a) = 200)"
  using funding_ledger_exact[OF half_reachable half_listing] half_reachable half_listing by fastforce

theorem fund_invoice_effect_witness:
  "\<exists>w w' :: int mworld. mkt_reachable w \<and>
     fund_invoice (market_env 90000) no_multisig sample_hooks w 81 1 200 None = Inr (w', ()) \<and>
     (\<exists>l h. mk_listing (mw_mkt w') 1 = Some l \<and> li_funded_amount l = 400 \<and> \<not> li_is_active l \<and>
        nx_hot (w_nft (mw_base w')) 1 = Some h \<and> hot_status h = Funded)"
proof -
  let ?w = "market_after half_calls"
  have "is_ok (fund_invoice (market_env 90000) no_multisig sample_hooks ?w 81 1 200 None)"
    by (simp add: market_eval pool_eval nft_eval)
  then obtain w' where r: "fund_invoice (market_env 90000) no_multisig sample_hooks ?w 81 1 200 None = Inr (w', ())"
    by (auto simp: is_ok_iff)
  from fund_invoice_effect[OF half_reachable r] half_listing
  have "\<exists>l h. mk_listing (mw_mkt w') 1 = Some l \<and> li_funded_amount l = 400 \<and> \<not> li_is_active l \<and>
        nx_hot (w_nft (mw_base w')) 1 = Some h \<and> hot_status h = Funded" by auto
  with half_reachable r show ?thesis by blast
qed

theorem refund_pays_once_witness:
  "\<exists>w w1 :: int mworld. mkt_reachable w \<and> claim_refund (market_env 100001) sample_hooks w 80 1 = Inr w1 \<and>
     refund_to 70 80 (w_calls (mw_base w1)) = 200 \<and> \<not> is_ok (claim_refund (market_env 100002) sample_hooks w1 80 1)"
proof -
  let ?w = "market_after half_calls"
  have "\<exists>w1. claim_refund (market_env 100001) sample_hooks ?w 80 1 = Inr w1 \<and>
     refund_to 70 80 (w_calls (mw_base w1)) = 200"
    by (simp add: market_eval pool_eval nft_eval)
  then obtain w1 where r: "claim_refund (market_env 100001) sample_hooks ?w 80 1 = Inr w1"
     "refund_to 70 80 (w_calls (mw_base w1)) = 200" by blast
  from refund_pays_once[OF half_reachable r(1) mkt_none] r half_reachable show ?thesis by blast
qed

theorem list_invoice_effect_witness:
  "\<exists>w w' :: int mworld. list_invoice (market_env 90000) no_multisig sample_hooks w 20 1 400 500 70 100000 None = Inr (w', ()) \<and>
     exposure_current (mw_mkt w') 70 = exposure_current (mw_mkt w) 70 + 400"
proof -
  let ?w = "market_after (setup_calls @ [whitelist_call])"
  have "is_ok (list_invoice (market_env 90000) no_multisig sample_hooks ?w 20 1 400 500 70 100000 None)"
    by (simp add: market_eval pool_eval nft_eval)
  then obtain w' where r: "list_invoice (market_env 90000) no_multisig sample_hooks ?w 20 1 400 500 70 100000 None = Inr (w', ())"
    by (auto simp: is_ok_iff)
  from list_invoice_effect[OF r] r show ?thesis by blast
qed

lemma half_cancel_ok: "is_ok (cancel_listing (market_env 90001) sample_hooks (market_after half_calls) 20 1)"
  by (simp add: market_eval pool_eval nft_eval)


theorem cancel_releases_exposure_twice_witness:
  "\<exists>w w' :: int mworld. mkt_reachable w \<and> cancel_listing (market_env 90001) sample_hooks w 20 1 = Inr w' \<and>
     exposure_current (mw_mkt w) 70 = 400 \<and> exposure_current (mw_mkt w') 70 = -200"
proof -
  let ?w = "market_after half_calls"
  from half_cancel_ok obtain w' where r: "cancel_listing (market_env 90001) sample_hooks ?w 20 1 = Inr w'"
    by (auto simp: is_ok_iff)
  from cancel_releases_exposure_twice[OF half_reachable r half_listing] half_ledger
  have "exposure_current (mw_mkt w') 70 = -200" by (simp add: int_defs)
  with r half_reachable half_ledger(4) show ?thesis by blast
qed

theorem concentration_cap_is_per_call_witness:
  "\<exists>w :: int mworld. mkt_reachable w \<and> get_max_investor_share_bps (mw_mkt w) = 5000 \<and>
     gross_of (mw_mkt w) 1 80 = 200 \<and> check_concentration (mw_mkt w) 1 80 400 200 = Inr ()"
proof -
  let ?cs = "half_calls @ [(market_env 90000, MC_set_max_investor_share_bps 10 5000)]"
  let ?w = "market_after ?cs"
  have ok: "is_ok (mkt_replay ?cs market_new)" and b: "get_max_investor_share_bps (mw_mkt ?w) = 5000"
    and g: "gross_of (mw_mkt ?w) 1 80 = 200"
    by (simp_all add: market_eval pool_eval nft_eval set_max_investor_share_bps_def gross_of_def)
  note reach = market_after_reachable[OF ok]
  have "check_concentration (mw_mkt ?w) 1 80 400 200 = Inr ()"
    by (rule concentration_cap_is_per_call[OF reach]) (simp_all add: b i128_max_def)
  with reach b g show ?thesis by blast
qed

theorem tokens_enter_through_gate_witness:
  "\<exists>w w' :: int mworld. mkt_reachable w \<and> mkt_exec (market_env 90000) no_multisig sample_hooks
       (MC_execute_token_whitelist 10 70) w = Inr w' \<and> \<not> is_token_whitelisted (mw_mkt w) 70 \<and>
     is_token_whitelisted (mw_mkt w') 70 \<and> (\<exists>t. mk_whitelist_proposal (mw_mkt w) 70 = Some t \<and> t + 86400 \<le> 90000)"
proof -
  let ?w = "market_after setup_calls"
  have ok: "is_ok (mkt_replay setup_calls market_new)" by (simp add: market_eval pool_eval nft_eval)
  have "\<exists>w'. mkt_exec (market_env 90000) no_multisig sample_hooks (MC_execute_token_whitelist 10 70) ?w = Inr w' \<and>
     is_token_whitelisted (mw_mkt w') 70 \<and> \<not> is_token_whitelisted (mw_mkt ?w) 70"
    by (simp add: market_eval pool_eval nft_eval)
  then obtain w' where r: "mkt_exec (market_env 90000) no_multisig sample_hooks (MC_execute_token_whitelist 10 70) ?w = Inr w'"
    "is_token_whitelisted (mw_mkt w') 70" "\<not> is_token_whitelisted (mw_mkt ?w) 70" by blast
  from tokens_enter_through_gate[OF market_after_reachable[OF ok] r] r market_after_reachable[OF ok]
  show ?thesis by (auto simp: market_env_def)
qed

theorem admin_action_runs_once_witness:
  "\<exists>w w1 :: int mworld. mkt_reachable w \<and>
     execute_admin_action (market_env 90000) sample_views w 92 1 = Inr (w1, None) \<and> is_token_whitelisted (mw_mkt w1) 71 \<and>
     \<not> is_ok (execute_admin_action (market_env 90001) sample_views w1 92 1)"
proof -
  let ?w = "market_after setup_calls"
  have ok: "is_ok (mkt_replay setup_calls market_new)" by (simp add: market_eval pool_eval nft_eval)
  have "\<exists>w1 w2 w3. mkt_exec (market_env 90000) sample_views sample_hooks (MC_propose_admin_action 90 (MA_WhitelistToken 71)) ?w = Inr w1 \<and>
    mkt_exec (market_env 90000) sample_views sample_hooks (MC_approve_admin_action 91 1) w1 = Inr w2 \<and>
    execute_admin_action (market_env 90000) sample_views w2 92 1 = Inr (w3, None) \<and> is_token_whitelisted (mw_mkt w3) 71"
    by (simp add: market_eval pool_eval nft_eval propose_admin_action_def approve_admin_action_def
        execute_admin_action_def dispatch_action_def apply_whitelist_token_def require_multisig_def require_signer_def
        multisig_config_def load_proposal_def)
  then obtain w1 w2 w3 where r: "mkt_exec (market_env 90000) sample_views sample_hooks (MC_propose_admin_action 90 (MA_WhitelistToken 71)) ?w = Inr w1"
    "mkt_exec (market_env 90000) sample_views sample_hooks (MC_approve_admin_action 91 1) w1 = Inr w2"
    "execute_admin_action (market_env 90000) sample_views w2 92 1 = Inr (w3, None)" "is_token_whitelisted (mw_mkt w3) 71" by blast
  have "mkt_reachable w2"
    using mkt_step[OF mkt_step[OF _ r(1)] r(2)] market_after_reachable[OF ok] unfolding mkt_reachable_def by blast
  from admin_action_runs_once[OF this r(3) mkt_none] this r(3,4) show ?thesis by blast
qed

end
