(* ===== verification/Kora_Ballot.thy ===== *)
theory Kora_Ballot
  imports Kora_Types
begin

text \<open>
  The proposal books of the governance contracts.  Several contracts keep numbered proposals that
  addresses approve one by one and that are settled (executed, cancelled or concluded) once.  The
  locale \<open>ballot\<close> is the interface of such a book: where it sits in the state, how a proposal is
  written, who has voted and whether it is settled; its lemmas say what proposing, voting and
  settling keep.
\<close>

locale ballot =
  fixes nxt :: "'s \<Rightarrow> u64" and book :: "'s \<Rightarrow> u64 \<Rightarrow> 'p option"
    and put :: "u64 \<Rightarrow> 'p \<Rightarrow> 's \<Rightarrow> 's" and open_at :: "u64 \<Rightarrow> 'p \<Rightarrow> 's \<Rightarrow> 's"
    and votes :: "'p \<Rightarrow> address list" and subject :: "'p \<Rightarrow> 'k" and settled :: "'p \<Rightarrow> bool"
  assumes put_book: "book (put n p s) = (book s)(n \<mapsto> p)" "nxt (put n p s) = nxt s"
    and open_book: "book (open_at n p s) = (book s)(n \<mapsto> p)" "nxt (open_at n p s) = n + 1"
begin

text \<open>Every proposal has a number already handed out, and nobody has voted twice.\<close>

definition book_ok :: "'s \<Rightarrow> bool" where
  "book_ok s \<longleftrightarrow> (\<forall>n p. book s n = Some p \<longrightarrow> n < nxt s \<and> distinct (votes p))"

text \<open>Proposals stay, keep what they are about, and stay settled.\<close>

definition book_kept :: "'s \<Rightarrow> 's \<Rightarrow> bool" where
  "book_kept s s' \<longleftrightarrow> (\<forall>n p. book s n = Some p \<longrightarrow>
     (\<exists>p'. book s' n = Some p' \<and> subject p' = subject p \<and> (settled p \<longrightarrow> settled p')))"

definition book_step :: "'s \<Rightarrow> 's \<Rightarrow> bool" where
  "book_step s s' \<longleftrightarrow> (book_ok s \<longrightarrow> book_ok s' \<and> book_kept s s')"

lemma book_kept_refl: "book_kept s s"
  by (auto simp: book_kept_def)

lemma book_kept_trans: "book_kept s t \<Longrightarrow> book_kept t u \<Longrightarrow> book_kept s u"
  unfolding book_kept_def by metis

lemma book_step_trans: "book_step s t \<Longrightarrow> book_step t u \<Longrightarrow> book_step s u"
  by (auto simp: book_step_def intro: book_kept_trans)

lemma same_step:
  assumes "book s' = book s" "nxt s' = nxt s" shows "book_step s s'"
  using assms by (auto simp: book_step_def book_ok_def book_kept_def)

text \<open>A new proposal under the next number.\<close>

lemma open_step:
  assumes "distinct (votes p)" shows "book_step s (open_at (nxt s) p s)"
proof -
  have "book s (nxt s) = None" if "book_ok s" using that by (cases "book s (nxt s)") (auto simp: book_ok_def)
  then show ?thesis using assms
    by (auto simp: book_step_def book_ok_def book_kept_def open_book less_Suc_eq)
qed

text \<open>A change of an existing proposal: a vote, a settlement.\<close>

lemma put_step:
  assumes "book s n = Some p" "distinct (votes p) \<Longrightarrow> distinct (votes p')" "subject p' = subject p"
    and "settled p \<Longrightarrow> settled p'"
  shows "book_step s (put n p' s)"
  using assms by (auto simp: book_step_def book_ok_def book_kept_def put_book)

lemma settled_stays:
  assumes "book_kept s s'" "book s n = Some p" "settled p"
  shows "\<exists>p'. book s' n = Some p' \<and> settled p'"
  using assms by (auto simp: book_kept_def)

end

end
