(* ===== verification/Access_State.thy ===== *)
theory Access_State
  imports Kora_Errors Kora_Audit Kora_Reentrancy Kora_Ballot
begin

text \<open>
  The state of access control (\<open>contracts/access_control/src/lib.rs\<close>) and its helpers.
  \<open>ac_state\<close> has one field per storage key; the calls on the dispute contract that executing an
  action makes are logged in \<open>ac_world\<close>.  The proposals of \<open>shared/src/types.rs\<close> the contract
  keeps are declared here as well.
\<close>

section \<open>Data\<close>

datatype (plugins only: code) AccessControlError =
    AC_AlreadyApproved | AC_AlreadyInitialized | AC_AlreadyPaused | AC_AlreadyVoted
  | AC_ArithmeticOverflow | AC_GovernanceThresholdNotMet | AC_GovernanceTimelockNotElapsed
  | AC_InvalidAddress | AC_InvalidParameterValue | AC_InvalidThreshold | AC_MultisigNotConfigured
  | AC_NoUpgradeProposed | AC_NotAdmin | AC_NotInitialized | AC_NotMultisigSigner | AC_NotPaused
  | AC_ParameterProposalAlreadyExecuted | AC_ParameterProposalNotFound | AC_ProposalAlreadyExecuted
  | AC_ProposalExpired | AC_ProposalNotFound | AC_Reentrancy | AC_RoleNotAssigned
  | AC_SignerNotFound | AC_ThresholdNotMet | AC_Unauthorized | AC_UpgradeTimelockNotElapsed
  | AC_ProposalCancelled | AC_ParameterProposalCancelled | AC_DirectCallProhibited
  | AC_RotationBlockedByPendingProposal | AC_NotGuardian | AC_GuardianEmergencyPauseFailed
  | AC_CannotDelegateToSelf | AC_DelegateNotSigner | AC_NoDelegationExists
  | AC_InvalidCouncilTermLength | AC_QuorumSafetyViolation | AC_CouncilTermExpired
  | AC_RotationElectionNotFound | AC_RotationElectionAlreadyConcluded | AC_AdminRotationWhilePaused

type_synonym 'a ac_result = "(AccessControlError, 'a) result"

definition ac_from_common :: "CommonError \<Rightarrow> AccessControlError" where
  "ac_from_common c =
     (case c of
        CE_InvalidAddress \<Rightarrow> AC_InvalidAddress | CE_ArithmeticOverflow \<Rightarrow> AC_ArithmeticOverflow
      | CE_Reentrancy \<Rightarrow> AC_Reentrancy | _ \<Rightarrow> AC_InvalidParameterValue)"

definition GOVERNANCE_TIMELOCK_DELAY :: u64 where "GOVERNANCE_TIMELOCK_DELAY = UPGRADE_TIMELOCK_DELAY"
definition RECOVERY_TIMELOCK_DELAY :: u64 where "RECOVERY_TIMELOCK_DELAY = 518400"
definition COMMUNITY_PROPOSAL_COOLDOWN :: u64 where "COMMUNITY_PROPOSAL_COOLDOWN = 17280"
definition PROPOSAL_TTL_LEDGERS :: u64 where "PROPOSAL_TTL_LEDGERS = 120960"

datatype AdminAction =
    ActPause | ActUnpause | ActGrantRole address u32 | ActRevokeRole address
  | ActTransferAdmin address | ActRotateAdmin address | ActResolveDispute address u64 bool

record Proposal =
  pr_id :: u64
  pr_action :: AdminAction
  pr_proposer :: address
  pr_approvals :: "address list"
  pr_executed :: bool
  pr_cancelled :: bool
  pr_created_at :: u64
  pr_expires_at :: u64

datatype ParameterKey = PK_FeeBps | PK_LatePenaltyBps | PK_MaxRiskScore | PK_TimelockDelay

record ParameterProposal =
  pa_id :: u64
  pa_key :: ParameterKey
  pa_new_value :: u32
  pa_proposer :: address
  pa_approvals :: "address list"
  pa_created_at :: u64
  pa_expires_at :: u64
  pa_executed :: bool
  pa_cancelled :: bool

record RecoveryProposal =
  rv_id :: u64
  rv_proposer :: address
  rv_new_signers :: "address list"
  rv_new_threshold :: u32
  rv_created_at :: u64
  rv_objections :: "address list"
  rv_executed :: bool

record CommunityProposal =
  cp_id :: u64
  cp_submitter :: address
  cp_action :: AdminAction
  cp_description :: string
  cp_submitted_at :: u64
  cp_expires_at :: u64

record CouncilElectionRecord =
  ce_election_id :: u64
  ce_current_seat :: address
  ce_candidate :: address
  ce_initiated_at :: u64
  ce_votes_for :: u32
  ce_votes_against :: u32
  ce_voters :: "address list"
  ce_concluded :: bool
  ce_confirmed :: bool

datatype Role = RoleAdmin | RoleOperator | RoleVerifier | RoleGuardian | RoleNone

record ac_state =
  ac_admin :: "address option"
  ac_pending_admin :: "address option"
  ac_paused :: "bool option"
  ac_role :: "address \<Rightarrow> Role option"
  ac_members :: "Role \<Rightarrow> address list option"
  ac_upgrade :: "(bytes \<times> u64) option"
  ac_multisig :: "MultisigConfig option"
  ac_next_proposal :: "u64 option"
  ac_proposal :: "u64 \<Rightarrow> Proposal option"
  ac_pending_rotation :: "u64 option"
  ac_param_proposal :: "u64 \<Rightarrow> ParameterProposal option"
  ac_next_param :: "u64 option"
  ac_param :: "ParameterKey \<Rightarrow> u32 option"
  ac_recovery :: "u64 \<Rightarrow> RecoveryProposal option"
  ac_next_recovery :: "u64 option"
  ac_dispute :: "address option"
  ac_last_pause :: "u64 option"
  ac_pause_initiator :: "address option"
  ac_community :: "u64 \<Rightarrow> CommunityProposal option"
  ac_next_community :: "u64 option"
  ac_cooldown :: "address \<Rightarrow> u64 option"
  ac_audit :: audit_log
  ac_delegated :: "address \<Rightarrow> address option"
  ac_delegators :: "address \<Rightarrow> address list option"
  ac_term_length :: "u64 option"
  ac_grace :: "u64 option"
  ac_term_start :: "address \<Rightarrow> u64 option"
  ac_seat_election :: "address \<Rightarrow> u64 option"
  ac_next_election :: "u64 option"
  ac_election :: "u64 \<Rightarrow> CouncilElectionRecord option"
  ac_lock :: bool

definition ac_empty :: ac_state where
  "ac_empty = \<lparr>ac_admin = None, ac_pending_admin = None, ac_paused = None, ac_role = (\<lambda>_. None),
     ac_members = (\<lambda>_. None), ac_upgrade = None, ac_multisig = None, ac_next_proposal = None,
     ac_proposal = (\<lambda>_. None), ac_pending_rotation = None, ac_param_proposal = (\<lambda>_. None),
     ac_next_param = None, ac_param = (\<lambda>_. None), ac_recovery = (\<lambda>_. None), ac_next_recovery = None,
     ac_dispute = None, ac_last_pause = None, ac_pause_initiator = None, ac_community = (\<lambda>_. None),
     ac_next_community = None, ac_cooldown = (\<lambda>_. None), ac_audit = empty_audit,
     ac_delegated = (\<lambda>_. None), ac_delegators = (\<lambda>_. None), ac_term_length = None, ac_grace = None,
     ac_term_start = (\<lambda>_. None), ac_seat_election = (\<lambda>_. None), ac_next_election = None,
     ac_election = (\<lambda>_. None), ac_lock = False\<rparr>"

datatype ac_call = ResolveDispute address address u64 bool  \<comment> \<open>contract, resolver, invoice, upheld\<close>

record ac_world =
  aw_st :: ac_state
  aw_calls :: "ac_call list"

section \<open>Helpers\<close>

definition first_id :: "u64 option \<Rightarrow> u64" where
  "first_id n = (case n of None \<Rightarrow> 1 | Some n \<Rightarrow> n)"

definition ac_audited :: "env \<Rightarrow> address \<Rightarrow> AdminActionType \<Rightarrow> ac_state \<Rightarrow> ac_state ac_result" where
  "ac_audited e actor action s =
     rbind (audit_append AS_AccessControl e (ac_audit s) actor action) (\<lambda>l. Inr (s\<lparr>ac_audit := l\<rparr>))"

definition ac_is_paused :: "ac_state \<Rightarrow> bool" where
  "ac_is_paused s = (case ac_paused s of None \<Rightarrow> False | Some b \<Rightarrow> b)"

definition ac_require_admin :: "ac_state \<Rightarrow> address \<Rightarrow> unit ac_result" where
  "ac_require_admin s caller =
     rbind (ok_or (ac_admin s) (Err AC_NotInitialized)) (\<lambda>admin.
     if admin \<noteq> caller then Inl (Err AC_NotAdmin) else Inr ())"

definition role_of :: "ac_state \<Rightarrow> address \<Rightarrow> Role" where
  "role_of s a = (case ac_role s a of None \<Rightarrow> RoleNone | Some r \<Rightarrow> r)"

definition require_guardian :: "ac_state \<Rightarrow> address \<Rightarrow> unit ac_result" where
  "require_guardian s caller = (if role_of s caller \<noteq> RoleGuardian then Inl (Err AC_NotGuardian) else Inr ())"

definition load_multisig_config :: "ac_state \<Rightarrow> MultisigConfig ac_result" where
  "load_multisig_config s = ok_or (ac_multisig s) (Err AC_MultisigNotConfigured)"

definition require_direct :: "ac_state \<Rightarrow> unit ac_result" where
  "require_direct s = (if is_ok (load_multisig_config s) then Inl (Err AC_DirectCallProhibited) else Inr ())"

definition ac_require_signer :: "MultisigConfig \<Rightarrow> address \<Rightarrow> unit ac_result" where
  "ac_require_signer cfg caller =
     (if caller \<in> set (ms_signers cfg) then Inr () else Inl (Err AC_SignerNotFound))"

text \<open>What every multisig entry point begins with.\<close>

definition as_signer :: "env \<Rightarrow> ac_state \<Rightarrow> address \<Rightarrow> MultisigConfig ac_result" where
  "as_signer e s who =
     rbind (require_auth e who) (\<lambda>_.
     rbind (load_multisig_config s) (\<lambda>cfg.
     rbind (ac_require_signer cfg who) (\<lambda>_. Inr cfg)))"

definition validate_grant_role_target :: "address \<Rightarrow> address \<Rightarrow> unit ac_result" where
  "validate_grant_role_target target admin = (if target = admin then Inl (Err AC_Unauthorized) else Inr ())"

definition validate_transfer_admin_target :: "env \<Rightarrow> ac_state \<Rightarrow> address \<Rightarrow> address \<Rightarrow> unit ac_result" where
  "validate_transfer_admin_target e s new_admin current_admin =
     (if current_admin = new_admin then Inl (Err AC_InvalidAddress)
      else
        rbind (map_err ac_from_common (require_not_self e new_admin)) (\<lambda>_.
        let existing = role_of s new_admin in
        if existing \<noteq> RoleNone \<and> existing \<noteq> RoleAdmin then Inl (Err AC_Unauthorized) else Inr ()))"

definition members_of :: "ac_state \<Rightarrow> Role \<Rightarrow> address list" where
  "members_of s r = (case ac_members s r of None \<Rightarrow> [] | Some xs \<Rightarrow> xs)"

definition add_to_role_members :: "Role \<Rightarrow> address \<Rightarrow> ac_state \<Rightarrow> ac_state" where
  "add_to_role_members r a s =
     (if a \<in> set (members_of s r) then s
      else s\<lparr>ac_members := (ac_members s)(r \<mapsto> members_of s r @ [a])\<rparr>)"

text \<open>The first position of an element, and the removal that puts the last element there.\<close>

fun position_of :: "'a \<Rightarrow> 'a list \<Rightarrow> nat option" where
  "position_of x [] = None"
| "position_of x (y # ys) = (if y = x then Some 0 else map_option Suc (position_of x ys))"

definition swap_remove :: "nat \<Rightarrow> 'a list \<Rightarrow> 'a list" where
  "swap_remove i xs = (let ys = butlast xs in if i < length ys then ys[i := last xs] else ys)"

definition remove_from_role_members :: "Role \<Rightarrow> address \<Rightarrow> ac_state \<Rightarrow> ac_state" where
  "remove_from_role_members r a s =
     (case ac_members s r of
        None \<Rightarrow> s
      | Some xs \<Rightarrow>
          (case position_of a xs of
             None \<Rightarrow> s
           | Some i \<Rightarrow>
               let ys = swap_remove i xs in
               s\<lparr>ac_members := (ac_members s)(r := (if ys = [] then None else Some ys))\<rparr>))"

text \<open>A proposal still in flight, and the scan of all of them.\<close>

definition in_flight :: "env \<Rightarrow> Proposal \<Rightarrow> bool" where
  "in_flight e p \<longleftrightarrow> \<not> pr_executed p \<and> \<not> pr_cancelled p \<and> timestamp e \<le> pr_expires_at p"

definition blocks_rotation :: "env \<Rightarrow> ac_state \<Rightarrow> u64 \<Rightarrow> u64 \<Rightarrow> bool" where
  "blocks_rotation e s skip_id i \<longleftrightarrow>
     i \<noteq> skip_id \<and> (case ac_proposal s i of None \<Rightarrow> False | Some p \<Rightarrow> in_flight e p)"

function scan_proposals :: "env \<Rightarrow> ac_state \<Rightarrow> u64 \<Rightarrow> u64 \<Rightarrow> u64 \<Rightarrow> unit ac_result" where
  "scan_proposals e s skip_id next_id i =
     (if i < next_id then
        if blocks_rotation e s skip_id i then Inl (Err AC_RotationBlockedByPendingProposal)
        else scan_proposals e s skip_id next_id (i + 1)
      else Inr ())"
  by pat_completeness auto
termination by (relation "measure (\<lambda>(e, s, skip_id, next_id, i). next_id - i)") auto

declare scan_proposals.simps [simp del]

definition require_no_other_active_proposals :: "env \<Rightarrow> ac_state \<Rightarrow> u64 \<Rightarrow> unit ac_result" where
  "require_no_other_active_proposals e s skip_id =
     scan_proposals e s skip_id (first_id (ac_next_proposal s)) 1"

definition require_no_active_proposals :: "env \<Rightarrow> ac_state \<Rightarrow> unit ac_result" where
  "require_no_active_proposals e s = require_no_other_active_proposals e s u64_max"

definition supersede_pending_admin_rotation :: "env \<Rightarrow> u64 \<Rightarrow> ac_state \<Rightarrow> ac_state" where
  "supersede_pending_admin_rotation e n s =
     (let s1 = (case ac_pending_rotation s of
                  None \<Rightarrow> s
                | Some old \<Rightarrow>
                    (case ac_proposal s old of
                       None \<Rightarrow> s
                     | Some p \<Rightarrow>
                         if in_flight e p \<and> (\<exists>a. pr_action p = ActRotateAdmin a)
                         then s\<lparr>ac_proposal := (ac_proposal s)(old \<mapsto> p\<lparr>pr_cancelled := True\<rparr>)\<rparr>
                         else s)) in
      s1\<lparr>ac_pending_rotation := Some n\<rparr>)"

definition validate_admin_rotation_timing :: "env \<Rightarrow> Proposal \<Rightarrow> unit ac_result" where
  "validate_admin_rotation_timing e p =
     rbind (ok_or (u64_add (pr_created_at p) GOVERNANCE_TIMELOCK_DELAY) (Err AC_ArithmeticOverflow)) (\<lambda>activation_at.
     if timestamp e > pr_expires_at p \<or> activation_at > pr_expires_at p then Inl (Err AC_ProposalExpired)
     else if timestamp e < activation_at then Inl (Err AC_GovernanceTimelockNotElapsed) else Inr ())"

definition require_valid_parameter :: "ParameterKey \<Rightarrow> u32 \<Rightarrow> unit ac_result" where
  "require_valid_parameter k v =
     (let ok = (case k of
                  PK_FeeBps \<Rightarrow> v \<le> 10000 | PK_LatePenaltyBps \<Rightarrow> v \<le> 10000 | PK_MaxRiskScore \<Rightarrow> v \<le> 100
                | PK_TimelockDelay \<Rightarrow> v \<ge> 43200 \<and> v \<le> 7776000) in
      if ok then Inr () else Inl (Err AC_InvalidParameterValue))"

text \<open>Delegations.\<close>

definition internal_get_delegators :: "ac_state \<Rightarrow> address \<Rightarrow> address list" where
  "internal_get_delegators s d = (case ac_delegators s d of None \<Rightarrow> [] | Some xs \<Rightarrow> xs)"

definition add_delegator :: "address \<Rightarrow> address \<Rightarrow> ac_state \<Rightarrow> ac_state" where
  "add_delegator d signer s =
     (let xs = internal_get_delegators s d in
      if signer \<in> set xs then s else s\<lparr>ac_delegators := (ac_delegators s)(d \<mapsto> xs @ [signer])\<rparr>)"

definition remove_delegator :: "address \<Rightarrow> address \<Rightarrow> ac_state \<Rightarrow> ac_state" where
  "remove_delegator d signer s =
     (let xs = filter (\<lambda>x. x \<noteq> signer) (internal_get_delegators s d) in
      s\<lparr>ac_delegators := (ac_delegators s)(d := (if xs = [] then None else Some xs))\<rparr>)"

text \<open>Whether two actions may not run in one batch.\<close>

definition actions_conflict :: "AdminAction \<Rightarrow> AdminAction \<Rightarrow> bool" where
  "actions_conflict a b =
     (case (a, b) of
        (ActTransferAdmin _, ActTransferAdmin _) \<Rightarrow> True
      | (ActTransferAdmin _, ActRotateAdmin _) \<Rightarrow> True
      | (ActRotateAdmin _, ActTransferAdmin _) \<Rightarrow> True
      | (ActRotateAdmin _, ActRotateAdmin _) \<Rightarrow> True
      | (ActGrantRole t _, ActGrantRole u _) \<Rightarrow> t = u
      | (ActGrantRole t _, ActRevokeRole u) \<Rightarrow> t = u
      | (ActRevokeRole t, ActGrantRole u _) \<Rightarrow> t = u
      | (ActRevokeRole t, ActRevokeRole u) \<Rightarrow> t = u
      | _ \<Rightarrow> False)"

definition require_no_conflict :: "Proposal \<Rightarrow> Proposal list \<Rightarrow> unit ac_result" where
  "require_no_conflict p batch =
     (if \<exists>q\<in>set batch. actions_conflict (pr_action p) (pr_action q) then Inl (Err AC_Unauthorized) else Inr ())"

text \<open>The reentrancy guard over the lock of access control.\<close>

definition ac_guarded ::
  "(ac_state \<Rightarrow> (ac_state \<times> unit) ac_result) \<Rightarrow> ac_state \<Rightarrow> (ac_state \<times> unit) ac_result" where
  "ac_guarded = with_guard ac_lock (\<lambda>b s. s\<lparr>ac_lock := b\<rparr>) ac_from_common"

interpretation ac_lockable: lockable ac_lock "\<lambda>b s. s\<lparr>ac_lock := b\<rparr>"
  by unfold_locales auto

lemma ac_helpers_Inr_iff [simp]:
  "ac_require_admin s a = Inr u \<longleftrightarrow> ac_admin s = Some a"
  "require_guardian s a = Inr u \<longleftrightarrow> role_of s a = RoleGuardian"
  "load_multisig_config s = Inr cfg \<longleftrightarrow> ac_multisig s = Some cfg"
  "require_direct s = Inr u \<longleftrightarrow> ac_multisig s = None"
  "ac_require_signer cfg a = Inr u \<longleftrightarrow> a \<in> set (ms_signers cfg)"
  "validate_grant_role_target t a = Inr u \<longleftrightarrow> t \<noteq> a"
  by (auto simp: ac_require_admin_def require_guardian_def load_multisig_config_def require_direct_def
      ac_require_signer_def validate_grant_role_target_def is_ok_iff split: if_splits)

lemma as_signer_Inr_iff [simp]:
  "as_signer e s who = Inr cfg \<longleftrightarrow> authorised e who \<and> ac_multisig s = Some cfg \<and> who \<in> set (ms_signers cfg)"
  by (auto simp: as_signer_def)

end
