(* ===== verification/Access_Control.thy ===== *)
theory Access_Control
  imports Access_State
begin

text \<open>
  The entry points of access control in the order of the source: pause, roles, admin handover,
  the multisig with single and batched execution, parameter governance, community proposals,
  signer recovery, delegation, council elections, views, upgrade, audit log.
\<close>

section \<open>Initialisation and pause\<close>

definition ac_initialize :: "env \<Rightarrow> ac_state \<Rightarrow> address \<Rightarrow> ac_state ac_result" where
  "ac_initialize e s admin =
     (if ac_admin s \<noteq> None then Inl (Err AC_AlreadyInitialized)
      else
        rbind (map_err ac_from_common (require_not_self e admin)) (\<lambda>_.
        Inr (s\<lparr>ac_admin := Some admin, ac_paused := Some False,
               ac_role := (ac_role s)(admin \<mapsto> RoleAdmin),
               ac_param := (ac_param s)(PK_TimelockDelay \<mapsto> 86400)\<rparr>)))"

definition pause :: "env \<Rightarrow> ac_state \<Rightarrow> address \<Rightarrow> ac_state ac_result" where
  "pause e s admin =
     rbind (require_auth e admin) (\<lambda>_.
     rbind (ac_require_admin s admin) (\<lambda>_.
     rbind (require_direct s) (\<lambda>_.
     if ac_is_paused s then Inl (Err AC_AlreadyPaused)
     else
       rbind (ac_guarded (\<lambda>s.
         rbind (ac_audited e admin AA_Pause (s\<lparr>ac_paused := Some True\<rparr>)) (\<lambda>s. Inr (s, ()))) s) (\<lambda>(s, _).
       Inr s))))"

definition unpause :: "env \<Rightarrow> ac_state \<Rightarrow> address \<Rightarrow> ac_state ac_result" where
  "unpause e s admin =
     rbind (require_auth e admin) (\<lambda>_.
     rbind (ac_require_admin s admin) (\<lambda>_.
     rbind (require_direct s) (\<lambda>_.
     if \<not> ac_is_paused s then Inl (Err AC_NotPaused)
     else
       rbind (ac_guarded (\<lambda>s.
         rbind (ac_audited e admin AA_Unpause (s\<lparr>ac_paused := Some False\<rparr>)) (\<lambda>s. Inr (s, ()))) s) (\<lambda>(s, _).
       Inr s))))"

definition emergency_pause_by_guardian :: "env \<Rightarrow> ac_state \<Rightarrow> address \<Rightarrow> ac_state ac_result" where
  "emergency_pause_by_guardian e s guardian =
     rbind (require_auth e guardian) (\<lambda>_.
     rbind (require_guardian s guardian) (\<lambda>_.
     if ac_is_paused s then Inl (Err AC_AlreadyPaused)
     else
       rbind (ac_guarded (\<lambda>s.
         rbind (ac_audited e guardian AA_Pause
                  (s\<lparr>ac_paused := Some True, ac_last_pause := Some (timestamp e),
                     ac_pause_initiator := Some guardian\<rparr>)) (\<lambda>s. Inr (s, ()))) s) (\<lambda>(s, _).
       Inr s)))"

section \<open>Roles and the admin\<close>

definition put_role :: "Role \<Rightarrow> address \<Rightarrow> ac_state \<Rightarrow> ac_state" where
  "put_role r target s = add_to_role_members r target (s\<lparr>ac_role := (ac_role s)(target \<mapsto> r)\<rparr>)"

definition grant_role :: "env \<Rightarrow> ac_state \<Rightarrow> address \<Rightarrow> address \<Rightarrow> Role \<Rightarrow> ac_state ac_result" where
  "grant_role e s admin target r =
     rbind (require_auth e admin) (\<lambda>_.
     rbind (ac_require_admin s admin) (\<lambda>_.
     rbind (require_direct s) (\<lambda>_.
     if r = RoleAdmin then Inl (Err AC_Unauthorized)
     else if r = RoleNone then Inl (Err AC_Unauthorized)
     else
       rbind (validate_grant_role_target target admin) (\<lambda>_.
       ac_audited e admin AA_GrantRole (put_role r target s)))))"

definition revoke_role :: "env \<Rightarrow> ac_state \<Rightarrow> address \<Rightarrow> address \<Rightarrow> ac_state ac_result" where
  "revoke_role e s admin target =
     rbind (require_auth e admin) (\<lambda>_.
     rbind (ac_require_admin s admin) (\<lambda>_.
     rbind (require_direct s) (\<lambda>_.
     let current_role = role_of s target in
     if current_role = RoleAdmin then Inl (Err AC_Unauthorized)
     else if current_role = RoleNone then Inl (Err AC_RoleNotAssigned)
     else ac_audited e admin AA_RevokeRole
            (remove_from_role_members current_role target (s\<lparr>ac_role := (ac_role s)(target := None)\<rparr>)))))"

text \<open>The new admin gets the role entry, the old admin loses it.\<close>

definition hand_over :: "address \<Rightarrow> address \<Rightarrow> ac_state \<Rightarrow> ac_state" where
  "hand_over new_admin current_admin s =
     s\<lparr>ac_admin := Some new_admin,
       ac_role := ((ac_role s)(new_admin \<mapsto> RoleAdmin))(current_admin := None)\<rparr>"

definition transfer_admin :: "env \<Rightarrow> ac_state \<Rightarrow> address \<Rightarrow> address \<Rightarrow> ac_state ac_result" where
  "transfer_admin e s current_admin new_admin =
     rbind (require_auth e current_admin) (\<lambda>_.
     rbind (ac_require_admin s current_admin) (\<lambda>_.
     rbind (require_direct s) (\<lambda>_.
     rbind (validate_transfer_admin_target e s new_admin current_admin) (\<lambda>_.
     ac_audited e current_admin AA_TransferAdmin (hand_over new_admin current_admin s)))))"

definition rotate_admin :: "env \<Rightarrow> ac_state \<Rightarrow> address \<Rightarrow> address \<Rightarrow> ac_state ac_result" where
  "rotate_admin e s current_admin new_admin =
     rbind (require_auth e current_admin) (\<lambda>_.
     rbind (ac_require_admin s current_admin) (\<lambda>_.
     rbind (require_direct s) (\<lambda>_.
     rbind (require_no_active_proposals e s) (\<lambda>_.
     rbind (validate_transfer_admin_target e s new_admin current_admin) (\<lambda>_.
     ac_audited e current_admin AA_RotateAdmin (hand_over new_admin current_admin s))))))"

definition cancel_admin_proposal :: "env \<Rightarrow> ac_state \<Rightarrow> address \<Rightarrow> ac_state kresult" where
  "cancel_admin_proposal e s admin =
     rbind (require_auth e admin) (\<lambda>_.
     rbind (map_err (\<lambda>_. KE_NotAdmin) (ac_require_admin s admin)) (\<lambda>_.
     if ac_pending_admin s = None then Inl (Err KE_NoPendingAdminProposal)
     else Inr (s\<lparr>ac_pending_admin := None\<rparr>)))"

section \<open>The multisig\<close>

definition configure_multisig :: "env \<Rightarrow> ac_state \<Rightarrow> address \<Rightarrow> address list \<Rightarrow> u32 \<Rightarrow> ac_state ac_result" where
  "configure_multisig e s admin signers threshold =
     rbind (require_auth e admin) (\<lambda>_.
     rbind (ac_require_admin s admin) (\<lambda>_.
     if threshold = 0 \<or> threshold > length signers then Inl (Err AC_InvalidThreshold)
     else
       let s = s\<lparr>ac_multisig := Some \<lparr>ms_threshold = threshold, ms_signers = signers\<rparr>\<rparr>;
           s = (if ac_next_proposal s = None then s\<lparr>ac_next_proposal := Some 1\<rparr> else s) in
       ac_audited e admin AA_ConfigureMultisig s))"

definition set_dispute_resolution :: "env \<Rightarrow> ac_state \<Rightarrow> address \<Rightarrow> address \<Rightarrow> ac_state ac_result" where
  "set_dispute_resolution e s admin dispute_resolution =
     rbind (require_auth e admin) (\<lambda>_.
     rbind (ac_require_admin s admin) (\<lambda>_.
     rbind (map_err ac_from_common (require_not_self e dispute_resolution)) (\<lambda>_.
     Inr (s\<lparr>ac_dispute := Some dispute_resolution\<rparr>))))"

definition put_proposal :: "u64 \<Rightarrow> Proposal \<Rightarrow> ac_state \<Rightarrow> ac_state" where
  "put_proposal n p s = s\<lparr>ac_proposal := (ac_proposal s)(n \<mapsto> p)\<rparr>"

text \<open>A new proposal, with the first approval, under the next number.\<close>

definition open_proposal :: "env \<Rightarrow> AdminAction \<Rightarrow> address \<Rightarrow> address \<Rightarrow> u64 \<Rightarrow> ac_state \<Rightarrow> ac_state ac_result" where
  "open_proposal e action proposer first_approver n s =
     rbind (ok_or (u64_add (timestamp e) PROPOSAL_TTL_LEDGERS) Trap) (\<lambda>expires.
     rbind (ok_or (u64_add n 1) (Err AC_ArithmeticOverflow)) (\<lambda>nxt.
     Inr ((put_proposal n
             \<lparr>pr_id = n, pr_action = action, pr_proposer = proposer, pr_approvals = [first_approver],
              pr_executed = False, pr_cancelled = False, pr_created_at = timestamp e,
              pr_expires_at = expires\<rparr> s)\<lparr>ac_next_proposal := Some nxt\<rparr>)))"

definition propose_action :: "env \<Rightarrow> ac_state \<Rightarrow> address \<Rightarrow> AdminAction \<Rightarrow> (ac_state \<times> u64) ac_result" where
  "propose_action e s proposer action =
     rbind (as_signer e s proposer) (\<lambda>cfg.
     let n = first_id (ac_next_proposal s);
         s = (case action of ActRotateAdmin _ \<Rightarrow> supersede_pending_admin_rotation e n s | _ \<Rightarrow> s) in
     rbind (open_proposal e action proposer proposer n s) (\<lambda>s. Inr (s, n)))"

text \<open>A proposal that can still be voted on, executed or, in time, cancelled.\<close>

definition pending_proposal :: "ac_state \<Rightarrow> u64 \<Rightarrow> Proposal ac_result" where
  "pending_proposal s n =
     rbind (ok_or (ac_proposal s n) (Err AC_ProposalNotFound)) (\<lambda>p.
     if pr_executed p then Inl (Err AC_ProposalAlreadyExecuted)
     else if pr_cancelled p then Inl (Err AC_ProposalCancelled) else Inr p)"

definition live_proposal :: "env \<Rightarrow> ac_state \<Rightarrow> u64 \<Rightarrow> Proposal ac_result" where
  "live_proposal e s n =
     rbind (pending_proposal s n) (\<lambda>p.
     if timestamp e > pr_expires_at p then Inl (Err AC_ProposalExpired) else Inr p)"

definition approve_action :: "env \<Rightarrow> ac_state \<Rightarrow> address \<Rightarrow> u64 \<Rightarrow> ac_state ac_result" where
  "approve_action e s approver n =
     rbind (as_signer e s approver) (\<lambda>cfg.
     rbind (live_proposal e s n) (\<lambda>p.
     if approver \<in> set (pr_approvals p) then Inl (Err AC_AlreadyApproved)
     else Inr (put_proposal n (p\<lparr>pr_approvals := pr_approvals p @ [approver]\<rparr>) s)))"

text \<open>Only approvals of addresses that are signers now count (issue 915 of the source).\<close>

definition valid_count :: "MultisigConfig \<Rightarrow> Proposal \<Rightarrow> nat" where
  "valid_count cfg p = length (filter (\<lambda>a. a \<in> set (ms_signers cfg)) (pr_approvals p))"

definition require_quorum :: "MultisigConfig \<Rightarrow> Proposal \<Rightarrow> unit ac_result" where
  "require_quorum cfg p =
     (if valid_count cfg p < ms_threshold cfg then Inl (Err AC_ThresholdNotMet) else Inr ())"

definition execute_admin_rotation :: "env \<Rightarrow> address \<Rightarrow> address \<Rightarrow> Proposal \<Rightarrow> ac_state \<Rightarrow> ac_state ac_result" where
  "execute_admin_rotation e executor new_admin p s =
     rbind (validate_admin_rotation_timing e p) (\<lambda>_.
     if ac_is_paused s then Inl (Err AC_AdminRotationWhilePaused)
     else
       rbind (ok_or (ac_admin s) (Err AC_NotInitialized)) (\<lambda>current_admin.
       rbind (validate_transfer_admin_target e s new_admin current_admin) (\<lambda>_.
       rbind (require_no_other_active_proposals e s (pr_id p)) (\<lambda>_.
       let s = hand_over new_admin current_admin s;
           s = (if ac_pending_rotation s = Some (pr_id p) then s\<lparr>ac_pending_rotation := None\<rparr> else s) in
       ac_audited e executor AA_RotateAdmin s))))"

definition on_st :: "(ac_state \<Rightarrow> ac_state ac_result) \<Rightarrow> ac_world \<Rightarrow> ac_world ac_result" where
  "on_st f w = rbind (f (aw_st w)) (\<lambda>s. Inr (w\<lparr>aw_st := s\<rparr>))"

text \<open>The \<open>match\<close> on the action, which single and batched execution share.\<close>

definition apply_action ::
  "env \<Rightarrow> address \<Rightarrow> address \<Rightarrow> Proposal \<Rightarrow> ac_world \<Rightarrow> ac_world ac_result" where
  "apply_action e current_admin executor p w =
     (case pr_action p of
        ActPause \<Rightarrow> on_st (\<lambda>s. Inr (s\<lparr>ac_paused := Some True\<rparr>)) w
      | ActUnpause \<Rightarrow> on_st (\<lambda>s. Inr (s\<lparr>ac_paused := Some False\<rparr>)) w
      | ActGrantRole target role_val \<Rightarrow>
          on_st (\<lambda>s.
            rbind (if role_val = 1 then Inr RoleOperator else if role_val = 2 then Inr RoleVerifier
                   else Inl (Err AC_Unauthorized)) (\<lambda>r.
            rbind (validate_grant_role_target target current_admin) (\<lambda>_. Inr (put_role r target s)))) w
      | ActRevokeRole target \<Rightarrow>
          on_st (\<lambda>s.
            let current_role = role_of s target; s = s\<lparr>ac_role := (ac_role s)(target := None)\<rparr> in
            Inr (if current_role \<noteq> RoleNone then remove_from_role_members current_role target s else s)) w
      | ActTransferAdmin new_admin \<Rightarrow>
          on_st (\<lambda>s.
            rbind (validate_transfer_admin_target e s new_admin current_admin) (\<lambda>_.
            Inr (s\<lparr>ac_admin := Some new_admin, ac_role := (ac_role s)(new_admin \<mapsto> RoleAdmin)\<rparr>))) w
      | ActRotateAdmin new_admin \<Rightarrow> on_st (execute_admin_rotation e executor new_admin p) w
      | ActResolveDispute resolver i upheld \<Rightarrow>
          Inr (case ac_dispute (aw_st w) of
                 None \<Rightarrow> w
               | Some d \<Rightarrow> w\<lparr>aw_calls := aw_calls w @ [ResolveDispute d resolver i upheld]\<rparr>))"

definition execute_action :: "env \<Rightarrow> ac_world \<Rightarrow> address \<Rightarrow> u64 \<Rightarrow> ac_world ac_result" where
  "execute_action e w executor n =
     rbind (as_signer e (aw_st w) executor) (\<lambda>cfg.
     rbind (live_proposal e (aw_st w) n) (\<lambda>p.
     rbind (require_quorum cfg p) (\<lambda>_.
     let p = p\<lparr>pr_executed := True\<rparr>; s = put_proposal n p (aw_st w) in
     rbind (ok_or (ac_admin s) (Err AC_NotInitialized)) (\<lambda>current_admin.
     rbind (apply_action e current_admin executor p (w\<lparr>aw_st := s\<rparr>)) (\<lambda>w.
     on_st (ac_audited e executor AA_MultisigExecuteAction) w)))))"

definition cancel_action :: "env \<Rightarrow> ac_state \<Rightarrow> address \<Rightarrow> u64 \<Rightarrow> ac_state ac_result" where
  "cancel_action e s canceller n =
     rbind (as_signer e s canceller) (\<lambda>cfg.
     rbind (pending_proposal s n) (\<lambda>p.
     if pr_proposer p \<noteq> canceller \<and> length (pr_approvals p) < ms_threshold cfg then Inl (Err AC_Unauthorized)
     else Inr (put_proposal n (p\<lparr>pr_cancelled := True\<rparr>) s)))"

text \<open>A batch is validated as a whole before its first action runs, on copies of the proposals.\<close>

fun check_batch_proposals ::
  "env \<Rightarrow> ac_state \<Rightarrow> MultisigConfig \<Rightarrow> Proposal list \<Rightarrow> u64 list \<Rightarrow> Proposal list ac_result" where
  "check_batch_proposals e s cfg batch [] = Inr batch"
| "check_batch_proposals e s cfg batch (n # ns) =
     rbind (live_proposal e s n) (\<lambda>p.
     rbind (require_quorum cfg p) (\<lambda>_.
     rbind (case pr_action p of ActRotateAdmin _ \<Rightarrow> validate_admin_rotation_timing e p | _ \<Rightarrow> Inr ()) (\<lambda>_.
     rbind (require_no_conflict p batch) (\<lambda>_.
     check_batch_proposals e s cfg (batch @ [p]) ns))))"

fun run_batch ::
  "env \<Rightarrow> address \<Rightarrow> address \<Rightarrow> (u64 \<times> Proposal) list \<Rightarrow> ac_world \<Rightarrow> ac_world ac_result" where
  "run_batch e current_admin executor [] w = Inr w"
| "run_batch e current_admin executor ((n, p) # ps) w =
     (let p = p\<lparr>pr_executed := True\<rparr> in
      rbind (apply_action e current_admin executor p (w\<lparr>aw_st := put_proposal n p (aw_st w)\<rparr>)) (\<lambda>w.
      run_batch e current_admin executor ps w))"

definition execute_batch :: "env \<Rightarrow> ac_world \<Rightarrow> address \<Rightarrow> u64 list \<Rightarrow> ac_world ac_result" where
  "execute_batch e w executor ids =
     rbind (as_signer e (aw_st w) executor) (\<lambda>cfg.
     rbind (check_batch_proposals e (aw_st w) cfg [] ids) (\<lambda>ps.
     rbind (ok_or (ac_admin (aw_st w)) (Err AC_NotInitialized)) (\<lambda>current_admin.
     rbind (run_batch e current_admin executor (zip ids ps) w) (\<lambda>w.
     on_st (ac_audited e executor AA_MultisigExecuteAction) w))))"

section \<open>Parameter governance\<close>

definition put_param_proposal :: "u64 \<Rightarrow> ParameterProposal \<Rightarrow> ac_state \<Rightarrow> ac_state" where
  "put_param_proposal n p s = s\<lparr>ac_param_proposal := (ac_param_proposal s)(n \<mapsto> p)\<rparr>"

definition propose_parameter_change ::
  "env \<Rightarrow> ac_state \<Rightarrow> address \<Rightarrow> ParameterKey \<Rightarrow> u32 \<Rightarrow> (ac_state \<times> u64) ac_result" where
  "propose_parameter_change e s proposer key v =
     rbind (as_signer e s proposer) (\<lambda>cfg.
     rbind (require_valid_parameter key v) (\<lambda>_.
     let n = first_id (ac_next_param s) in
     rbind (ok_or (u64_add (timestamp e) PROPOSAL_TTL_LEDGERS) Trap) (\<lambda>expires.
     rbind (ok_or (u64_add n 1) (Err AC_ArithmeticOverflow)) (\<lambda>nxt.
     rbind (ac_audited e proposer AA_ProposeParameter
              ((put_param_proposal n
                 \<lparr>pa_id = n, pa_key = key, pa_new_value = v, pa_proposer = proposer, pa_approvals = [proposer],
                  pa_created_at = timestamp e, pa_expires_at = expires, pa_executed = False,
                  pa_cancelled = False\<rparr> s)\<lparr>ac_next_param := Some nxt\<rparr>)) (\<lambda>s.
     Inr (s, n))))))"

definition pending_param :: "ac_state \<Rightarrow> u64 \<Rightarrow> ParameterProposal ac_result" where
  "pending_param s n =
     rbind (ok_or (ac_param_proposal s n) (Err AC_ParameterProposalNotFound)) (\<lambda>p.
     if pa_executed p then Inl (Err AC_ParameterProposalAlreadyExecuted)
     else if pa_cancelled p then Inl (Err AC_ParameterProposalCancelled) else Inr p)"

definition vote_parameter_change :: "env \<Rightarrow> ac_state \<Rightarrow> address \<Rightarrow> u64 \<Rightarrow> ac_state ac_result" where
  "vote_parameter_change e s signer n =
     rbind (as_signer e s signer) (\<lambda>cfg.
     rbind (pending_param s n) (\<lambda>p.
     if signer \<in> set (pa_approvals p) then Inl (Err AC_AlreadyVoted)
     else Inr (put_param_proposal n (p\<lparr>pa_approvals := pa_approvals p @ [signer]\<rparr>) s)))"

definition execute_parameter_change :: "env \<Rightarrow> ac_state \<Rightarrow> address \<Rightarrow> u64 \<Rightarrow> ac_state ac_result" where
  "execute_parameter_change e s caller n =
     rbind (as_signer e s caller) (\<lambda>cfg.
     rbind (pending_param s n) (\<lambda>p.
     if length (pa_approvals p) < ms_threshold cfg then Inl (Err AC_GovernanceThresholdNotMet)
     else
       rbind (ok_or (u64_add (pa_created_at p) GOVERNANCE_TIMELOCK_DELAY) Trap) (\<lambda>ready.
       if timestamp e < ready then Inl (Err AC_GovernanceTimelockNotElapsed)
       else
         let s = put_param_proposal n (p\<lparr>pa_executed := True\<rparr>) s in
         ac_audited e caller AA_ExecuteParameter
           (s\<lparr>ac_param := (ac_param s)(pa_key p \<mapsto> pa_new_value p)\<rparr>))))"

definition cancel_parameter_change :: "env \<Rightarrow> ac_state \<Rightarrow> address \<Rightarrow> u64 \<Rightarrow> ac_state ac_result" where
  "cancel_parameter_change e s canceller n =
     rbind (as_signer e s canceller) (\<lambda>cfg.
     rbind (pending_param s n) (\<lambda>p.
     if pa_proposer p \<noteq> canceller \<and> length (pa_approvals p) < ms_threshold cfg then Inl (Err AC_Unauthorized)
     else Inr (put_param_proposal n (p\<lparr>pa_cancelled := True\<rparr>) s)))"

definition get_governance_timelock_delay :: "ac_state \<Rightarrow> u64" where
  "get_governance_timelock_delay s = (case ac_param s PK_TimelockDelay of None \<Rightarrow> 86400 | Some v \<Rightarrow> v)"

section \<open>Community proposals\<close>

definition submit_community_proposal ::
  "env \<Rightarrow> ac_state \<Rightarrow> address \<Rightarrow> AdminAction \<Rightarrow> string \<Rightarrow> (ac_state \<times> u64) ac_result" where
  "submit_community_proposal e s submitter action description =
     rbind (require_auth e submitter) (\<lambda>_.
     let last_submission = (case ac_cooldown s submitter of None \<Rightarrow> 0 | Some t \<Rightarrow> t) in
     rbind (ok_or (u64_add last_submission COMMUNITY_PROPOSAL_COOLDOWN) Trap) (\<lambda>free_at.
     if timestamp e < free_at then Inl (Err AC_GovernanceTimelockNotElapsed)
     else
       let n = first_id (ac_next_community s) in
       rbind (ok_or (u64_add (timestamp e) PROPOSAL_TTL_LEDGERS) Trap) (\<lambda>expires.
       rbind (ok_or (u64_add n 1) (Err AC_ArithmeticOverflow)) (\<lambda>nxt.
       Inr (s\<lparr>ac_community := (ac_community s)(n \<mapsto>
                \<lparr>cp_id = n, cp_submitter = submitter, cp_action = action, cp_description = description,
                 cp_submitted_at = timestamp e, cp_expires_at = expires\<rparr>),
              ac_cooldown := (ac_cooldown s)(submitter \<mapsto> timestamp e),
              ac_next_community := Some nxt\<rparr>, n)))))"

definition sponsor_community_proposal :: "env \<Rightarrow> ac_state \<Rightarrow> address \<Rightarrow> u64 \<Rightarrow> (ac_state \<times> u64) ac_result" where
  "sponsor_community_proposal e s signer c =
     rbind (as_signer e s signer) (\<lambda>cfg.
     rbind (ok_or (ac_community s c) (Err AC_ProposalNotFound)) (\<lambda>cp.
     if timestamp e > cp_expires_at cp then Inl (Err AC_ProposalExpired)
     else
       let n = first_id (ac_next_proposal s) in
       rbind (open_proposal e (cp_action cp) (cp_submitter cp) signer n s) (\<lambda>s.
       Inr (s\<lparr>ac_community := (ac_community s)(c := None)\<rparr>, n))))"

section \<open>Signer recovery\<close>

definition put_recovery :: "u64 \<Rightarrow> RecoveryProposal \<Rightarrow> ac_state \<Rightarrow> ac_state" where
  "put_recovery n p s = s\<lparr>ac_recovery := (ac_recovery s)(n \<mapsto> p)\<rparr>"

definition propose_signer_recovery ::
  "env \<Rightarrow> ac_state \<Rightarrow> address \<Rightarrow> address list \<Rightarrow> u32 \<Rightarrow> (ac_state \<times> u64) ac_result" where
  "propose_signer_recovery e s proposer new_signers new_threshold =
     rbind (as_signer e s proposer) (\<lambda>cfg.
     if new_threshold = 0 \<or> new_threshold > length new_signers then Inl (Err AC_InvalidThreshold)
     else
       let n = first_id (ac_next_recovery s) in
       rbind (ok_or (u64_add n 1) (Err AC_ArithmeticOverflow)) (\<lambda>nxt.
       rbind (ac_audited e proposer AA_ProposeParameter
                ((put_recovery n
                   \<lparr>rv_id = n, rv_proposer = proposer, rv_new_signers = new_signers,
                    rv_new_threshold = new_threshold, rv_created_at = timestamp e, rv_objections = [],
                    rv_executed = False\<rparr> s)\<lparr>ac_next_recovery := Some nxt\<rparr>)) (\<lambda>s.
       Inr (s, n))))"

definition open_recovery :: "ac_state \<Rightarrow> u64 \<Rightarrow> RecoveryProposal ac_result" where
  "open_recovery s n =
     rbind (ok_or (ac_recovery s n) (Err AC_ProposalNotFound)) (\<lambda>p.
     if rv_executed p then Inl (Err AC_ProposalAlreadyExecuted) else Inr p)"

definition object_signer_recovery :: "env \<Rightarrow> ac_state \<Rightarrow> address \<Rightarrow> u64 \<Rightarrow> ac_state ac_result" where
  "object_signer_recovery e s objector n =
     rbind (as_signer e s objector) (\<lambda>cfg.
     rbind (open_recovery s n) (\<lambda>p.
     if objector \<in> set (rv_objections p) then Inl (Err AC_AlreadyApproved)
     else Inr (put_recovery n (p\<lparr>rv_objections := rv_objections p @ [objector]\<rparr>) s)))"

definition execute_signer_recovery :: "env \<Rightarrow> ac_state \<Rightarrow> address \<Rightarrow> u64 \<Rightarrow> ac_state ac_result" where
  "execute_signer_recovery e s executor n =
     rbind (as_signer e s executor) (\<lambda>cfg.
     rbind (open_recovery s n) (\<lambda>p.
     rbind (ok_or (u64_add (rv_created_at p) RECOVERY_TIMELOCK_DELAY) Trap) (\<lambda>ready.
     if timestamp e < ready then Inl (Err AC_GovernanceTimelockNotElapsed)
     else if rv_objections p \<noteq> [] then Inl (Err AC_AlreadyApproved)
     else ac_audited e executor AA_ConfigureMultisig
            ((put_recovery n (p\<lparr>rv_executed := True\<rparr>) s)
               \<lparr>ac_multisig := Some \<lparr>ms_threshold = rv_new_threshold p, ms_signers = rv_new_signers p\<rparr>\<rparr>))))"

section \<open>Delegation\<close>

definition delegate_vote :: "env \<Rightarrow> ac_state \<Rightarrow> address \<Rightarrow> address \<Rightarrow> ac_state ac_result" where
  "delegate_vote e s signer delegate =
     rbind (as_signer e s signer) (\<lambda>cfg.
     rbind (ac_require_signer cfg delegate) (\<lambda>_.
     if signer = delegate then Inl (Err AC_CannotDelegateToSelf)
     else
       let s = (case ac_delegated s signer of
                  None \<Rightarrow> s
                | Some old \<Rightarrow> if old \<noteq> delegate then remove_delegator old signer s else s) in
       Inr (add_delegator delegate signer (s\<lparr>ac_delegated := (ac_delegated s)(signer \<mapsto> delegate)\<rparr>))))"

definition revoke_delegation :: "env \<Rightarrow> ac_state \<Rightarrow> address \<Rightarrow> ac_state ac_result" where
  "revoke_delegation e s signer =
     rbind (as_signer e s signer) (\<lambda>cfg.
     rbind (ok_or (ac_delegated s signer) (Err AC_NoDelegationExists)) (\<lambda>delegate.
     let s = remove_delegator delegate signer s in
     Inr (s\<lparr>ac_delegated := (ac_delegated s)(signer := None)\<rparr>)))"

section \<open>Council elections\<close>

definition put_election :: "u64 \<Rightarrow> CouncilElectionRecord \<Rightarrow> ac_state \<Rightarrow> ac_state" where
  "put_election n x s = s\<lparr>ac_election := (ac_election s)(n \<mapsto> x)\<rparr>"

definition configure_council_terms :: "env \<Rightarrow> ac_state \<Rightarrow> address \<Rightarrow> u64 \<Rightarrow> u64 \<Rightarrow> ac_state ac_result" where
  "configure_council_terms e s caller term_length grace =
     rbind (require_auth e caller) (\<lambda>_.
     rbind (ac_require_admin s caller) (\<lambda>_.
     if term_length = 0 then Inl (Err AC_InvalidCouncilTermLength)
     else Inr (s\<lparr>ac_term_length := Some term_length, ac_grace := Some grace\<rparr>)))"

definition initiate_council_rotation ::
  "env \<Rightarrow> ac_state \<Rightarrow> address \<Rightarrow> address \<Rightarrow> address \<Rightarrow> (ac_state \<times> u64) ac_result" where
  "initiate_council_rotation e s initiator seat candidate =
     rbind (as_signer e s initiator) (\<lambda>cfg.
     rbind (ac_require_signer cfg seat) (\<lambda>_.
     let n = first_id (ac_next_election s) in
     rbind (ok_or (u64_add n 1) Trap) (\<lambda>nxt.
     Inr ((put_election n
             \<lparr>ce_election_id = n, ce_current_seat = seat, ce_candidate = candidate,
              ce_initiated_at = timestamp e, ce_votes_for = 1, ce_votes_against = 0,
              ce_voters = [initiator], ce_concluded = False, ce_confirmed = False\<rparr> s)
            \<lparr>ac_seat_election := (ac_seat_election s)(seat \<mapsto> n), ac_next_election := Some nxt\<rparr>, n))))"

definition open_election :: "ac_state \<Rightarrow> u64 \<Rightarrow> CouncilElectionRecord ac_result" where
  "open_election s n =
     rbind (ok_or (ac_election s n) (Err AC_RotationElectionNotFound)) (\<lambda>x.
     if ce_concluded x then Inl (Err AC_RotationElectionAlreadyConcluded) else Inr x)"

definition vote_council_rotation :: "env \<Rightarrow> ac_state \<Rightarrow> address \<Rightarrow> u64 \<Rightarrow> bool \<Rightarrow> ac_state ac_result" where
  "vote_council_rotation e s voter n support =
     rbind (as_signer e s voter) (\<lambda>cfg.
     rbind (open_election s n) (\<lambda>x.
     if voter \<in> set (ce_voters x) then Inl (Err AC_AlreadyVoted)
     else
       let x = x\<lparr>ce_voters := ce_voters x @ [voter]\<rparr> in
       rbind (if support
              then rbind (ok_or (u32_add (ce_votes_for x) 1) Trap) (\<lambda>k. Inr (x\<lparr>ce_votes_for := k\<rparr>))
              else rbind (ok_or (u32_add (ce_votes_against x) 1) Trap) (\<lambda>k. Inr (x\<lparr>ce_votes_against := k\<rparr>))) (\<lambda>x.
       Inr (put_election n x s))))"

definition conclude_council_rotation :: "env \<Rightarrow> ac_state \<Rightarrow> address \<Rightarrow> u64 \<Rightarrow> ac_state ac_result" where
  "conclude_council_rotation e s caller n =
     rbind (require_auth e caller) (\<lambda>_.
     rbind (load_multisig_config s) (\<lambda>cfg.
     rbind (open_election s n) (\<lambda>x.
     let confirmed = (ce_votes_for x \<ge> ms_threshold cfg);
         x = x\<lparr>ce_concluded := True, ce_confirmed := confirmed\<rparr>;
         seat = ce_current_seat x; candidate = ce_candidate x in
     rbind (if confirmed then
              let new_signers = map (\<lambda>a. if a = seat then candidate else a) (ms_signers cfg) in
              if length new_signers < ms_threshold cfg \<or> ms_threshold cfg < 2
              then Inl (Err AC_QuorumSafetyViolation)
              else Inr (s\<lparr>ac_multisig := Some (cfg\<lparr>ms_signers := new_signers\<rparr>),
                          ac_term_start := ((ac_term_start s)(candidate \<mapsto> timestamp e))(seat := None)\<rparr>)
            else
              let grace = (case ac_grace s of None \<Rightarrow> 259200 | Some g \<Rightarrow> g);
                  start = (case ac_term_start s seat of None \<Rightarrow> timestamp e | Some t \<Rightarrow> t) in
              rbind (ok_or (u64_add start grace) Trap) (\<lambda>t.
              Inr (s\<lparr>ac_term_start := (ac_term_start s)(seat \<mapsto> t)\<rparr>))) (\<lambda>s.
     Inr ((put_election n x s)\<lparr>ac_seat_election := (ac_seat_election s)(seat := None)\<rparr>)))))"

definition is_council_seat_term_expired :: "env \<Rightarrow> ac_state \<Rightarrow> address \<Rightarrow> bool ac_result" where
  "is_council_seat_term_expired e s seat =
     (case ac_term_length s of
        None \<Rightarrow> Inr False
      | Some len \<Rightarrow>
          let start = (case ac_term_start s seat of None \<Rightarrow> 0 | Some t \<Rightarrow> t) in
          if start > 0
          then rbind (ok_or (u64_add start len) Trap) (\<lambda>t. Inr (timestamp e > t))
          else Inr False)"

section \<open>Views, upgrade, audit log\<close>

definition get_role :: "ac_state \<Rightarrow> address \<Rightarrow> Role" where
  "get_role s a =
     (case ac_role s a of
        Some r \<Rightarrow> r
      | None \<Rightarrow> if ac_admin s = Some a then RoleAdmin else RoleNone)"

definition has_role :: "ac_state \<Rightarrow> address \<Rightarrow> Role \<Rightarrow> bool" where
  "has_role s a r \<longleftrightarrow> role_of s a = r"

definition get_role_members :: "ac_state \<Rightarrow> Role \<Rightarrow> u32 \<Rightarrow> u32 \<Rightarrow> address list" where
  "get_role_members s r page page_size =
     (let ps = min (max page_size 1) 50; skip = min u32_max (page * ps) in
      take ps (drop skip (members_of s r)))"

definition ac_propose_upgrade :: "env \<Rightarrow> ac_state \<Rightarrow> address \<Rightarrow> bytes \<Rightarrow> ac_state ac_result" where
  "ac_propose_upgrade e s admin h =
     rbind (require_auth e admin) (\<lambda>_.
     rbind (ac_require_admin s admin) (\<lambda>_.
     ac_audited e admin AA_ProposeUpgrade (s\<lparr>ac_upgrade := Some (h, timestamp e)\<rparr>)))"

definition ac_execute_upgrade :: "env \<Rightarrow> ac_state \<Rightarrow> address \<Rightarrow> (ac_state \<times> bytes) ac_result" where
  "ac_execute_upgrade e s admin =
     rbind (require_auth e admin) (\<lambda>_.
     rbind (ac_require_admin s admin) (\<lambda>_.
     rbind (ok_or (ac_upgrade s) (Err AC_NoUpgradeProposed)) (\<lambda>(h, proposed_at).
     rbind (ok_or (u64_add proposed_at UPGRADE_TIMELOCK_DELAY) Trap) (\<lambda>ready.
     if timestamp e < ready then Inl (Err AC_UpgradeTimelockNotElapsed)
     else
       rbind (ac_audited e admin AA_ExecuteUpgrade (s\<lparr>ac_upgrade := None\<rparr>)) (\<lambda>s. Inr (s, h))))))"

text \<open>The audit log, newest entry first; the loop stops at the first offset past the stored ones.\<close>

definition get_audit_log :: "audit_log \<Rightarrow> u32 \<Rightarrow> u32 \<Rightarrow> AdminAuditEntry list" where
  "get_audit_log l page page_size =
     (let ps = min (max page_size 1) 50;
          total = (case al_total l of None \<Rightarrow> 0 | Some n \<Rightarrow> n);
          head = (case al_head l of None \<Rightarrow> 0 | Some n \<Rightarrow> n);
          stored = min total MAX_AUDIT_LOG_SIZE;
          skip = min u64_max (page * ps) in
      List.map_filter
        (\<lambda>i. al_entries l ((head + MAX_AUDIT_LOG_SIZE - 1 - (skip + i)) mod MAX_AUDIT_LOG_SIZE))
        (takeWhile (\<lambda>i. skip + i < stored) [0..<ps]))"

end
