(* ===== verification/Registry_State.thy ===== *)
theory Registry_State
  imports Access_Control
begin

text \<open>
  The state of the risk registry (\<open>contracts/risk_registry/src/lib.rs\<close>) and its helpers.
  \<open>rr_state\<close> has one field per storage key the code uses (\<open>DefaultCount\<close> and \<open>TotalScoredCount\<close>,
  which it only declares, have none).  \<open>rr_world\<close> adds the state of the access control contract the
  registry calls and the log of its token transfers.
\<close>

section \<open>Data\<close>

datatype (plugins only: code) RiskRegistryError =
    RR_AlreadyInitialized | RR_ArithmeticOverflow | RR_ArithmeticUnderflow | RR_DebtorNotRegistered
  | RR_InsufficientFunds | RR_InvalidAddress | RR_InvalidAmount | RR_InvalidLength | RR_InvalidRiskScore
  | RR_NoUpgradeProposed | RR_NotAdmin | RR_NotInitialized | RR_NotVerifier | RR_Reentrancy
  | RR_SMENotRegistered | RR_ScoreUpdateCooldownNotElapsed | RR_Unauthorized | RR_UpgradeTimelockNotElapsed
  | RR_NotSmeVerifier | RR_DisputesPending | RR_DisputeWindowExpired | RR_DisputeAlreadyResolved
  | RR_SlashingNotConfigured | RR_DisputeNotFound | RR_CircuitBreakerTripped | RR_BreakerNotConfigured
  | RR_InvalidStatusTransition | RR_NoRemovalRequested | RR_RemovalCooldownNotElapsed | RR_VerifierSuspended
  | RR_ReadditionCooldownNotElapsed | RR_AccessControlNotConfigured | RR_InsufficientReputation
  | RR_ProtocolPaused

type_synonym 'a rr_result = "(RiskRegistryError, 'a) result"

definition rr_from_common :: "CommonError \<Rightarrow> RiskRegistryError" where
  "rr_from_common c =
     (case c of
        CE_InvalidAmount \<Rightarrow> RR_InvalidAmount | CE_InvalidAddress \<Rightarrow> RR_InvalidAddress
      | CE_InvalidRiskScore \<Rightarrow> RR_InvalidRiskScore | CE_ArithmeticOverflow \<Rightarrow> RR_ArithmeticOverflow
      | CE_ArithmeticUnderflow \<Rightarrow> RR_ArithmeticUnderflow | CE_Reentrancy \<Rightarrow> RR_Reentrancy
      | _ \<Rightarrow> RR_InvalidAmount)"

definition VERIFIER_REMOVAL_COOLDOWN_SECS :: u64 where "VERIFIER_REMOVAL_COOLDOWN_SECS = 604800"
definition VERIFIER_READD_COOLDOWN_SECS :: u64 where "VERIFIER_READD_COOLDOWN_SECS = 604800"
definition MIN_SCORE_UPDATE_INTERVAL :: u64 where "MIN_SCORE_UPDATE_INTERVAL = 3600"
definition MIN_REPUTATION_RISK_ACTIONS :: u32 where "MIN_REPUTATION_RISK_ACTIONS = 50"
definition MAX_VERIFIERS_PER_DEBTOR :: u32 where "MAX_VERIFIERS_PER_DEBTOR = 50"

record Bond =
  bo_amount :: i128
  bo_locked_until :: u64

record Dispute =
  dp_subject :: address
  dp_challenger :: address
  dp_raised_at :: u64
  dp_resolved :: bool

datatype VerifierStatus = VS_Active | VS_Suspended | VS_PendingRemoval | VS_Removed

record rr_state =
  rr_admin :: "address option"
  rr_pending_admin :: "address option"
  rr_access :: "address option"
  rr_invoice_nft :: "address option"
  rr_staking_token :: "address option"
  rr_min_stake :: "i128 option"
  rr_slash_bps :: "u32 option"
  rr_verifier :: "address \<Rightarrow> bool option"
  rr_stake :: "address \<Rightarrow> i128 option"
  rr_reputation :: "address \<Rightarrow> u32 option"
  rr_status :: "address \<Rightarrow> VerifierStatus option"
  rr_status_at :: "address \<Rightarrow> u64 option"
  rr_removal_at :: "address \<Rightarrow> u64 option"
  rr_removed_at :: "address \<Rightarrow> u64 option"
  rr_sub :: "address \<Rightarrow> address option"
  rr_sme :: "address \<Rightarrow> SmeProfile option"
  rr_debtor_score :: "bytes \<Rightarrow> address \<Rightarrow> u32 option"
  rr_attestors :: "bytes \<Rightarrow> address list option"
  rr_score_update :: "address \<Rightarrow> bytes \<Rightarrow> u64 option"
  rr_min_debtor_score :: "u32 option"
  rr_upgrade :: "(bytes \<times> u64) option"
  rr_tiers :: "RiskTierDefinition option"
  rr_tier_version :: "u32 \<Rightarrow> RiskTierDefinition option"
  rr_tiers_at :: "u64 option"
  rr_audit :: audit_log
  rr_bond :: "address \<Rightarrow> Bond option"
  rr_window :: "u64 option"
  rr_dispute :: "address \<Rightarrow> address \<Rightarrow> Dispute option"
  rr_dispute_count :: "address \<Rightarrow> u32 option"
  rr_slash_treasury :: "address option"
  rr_default_tier :: "symbol \<Rightarrow> u32 option"
  rr_scored_tier :: "symbol \<Rightarrow> u32 option"
  rr_breaker_bps :: "u32 option"
  rr_breaker_min :: "u32 option"
  rr_debtor_paused :: "bytes \<Rightarrow> bool option"
  rr_tier_paused :: "symbol \<Rightarrow> bool option"
  rr_lock :: bool

definition rr_empty :: rr_state where
  "rr_empty = \<lparr>rr_admin = None, rr_pending_admin = None, rr_access = None, rr_invoice_nft = None,
     rr_staking_token = None, rr_min_stake = None, rr_slash_bps = None, rr_verifier = (\<lambda>_. None),
     rr_stake = (\<lambda>_. None), rr_reputation = (\<lambda>_. None), rr_status = (\<lambda>_. None), rr_status_at = (\<lambda>_. None),
     rr_removal_at = (\<lambda>_. None), rr_removed_at = (\<lambda>_. None), rr_sub = (\<lambda>_. None), rr_sme = (\<lambda>_. None),
     rr_debtor_score = (\<lambda>_ _. None), rr_attestors = (\<lambda>_. None), rr_score_update = (\<lambda>_ _. None),
     rr_min_debtor_score = None, rr_upgrade = None, rr_tiers = None, rr_tier_version = (\<lambda>_. None),
     rr_tiers_at = None, rr_audit = empty_audit, rr_bond = (\<lambda>_. None), rr_window = None,
     rr_dispute = (\<lambda>_ _. None), rr_dispute_count = (\<lambda>_. None), rr_slash_treasury = None,
     rr_default_tier = (\<lambda>_. None), rr_scored_tier = (\<lambda>_. None), rr_breaker_bps = None,
     rr_breaker_min = None, rr_debtor_paused = (\<lambda>_. None), rr_tier_paused = (\<lambda>_. None), rr_lock = False\<rparr>"

record rr_world =
  rw_st :: rr_state
  rw_ac :: ac_state
  rw_calls :: "ext_call list"

section \<open>Helpers\<close>

definition rr_audited :: "env \<Rightarrow> address \<Rightarrow> AdminActionType \<Rightarrow> rr_state \<Rightarrow> ('e, rr_state) result" where
  "rr_audited e actor action s =
     rbind (audit_append AS_RiskRegistry e (rr_audit s) actor action) (\<lambda>l. Inr (s\<lparr>rr_audit := l\<rparr>))"

definition rr_require_admin :: "rr_state \<Rightarrow> address \<Rightarrow> unit rr_result" where
  "rr_require_admin s caller =
     rbind (ok_or (rr_admin s) (Err RR_NotInitialized)) (\<lambda>admin.
     if admin \<noteq> caller then Inl (Err RR_NotAdmin) else Inr ())"

text \<open>The pause flag is that of access control, if one is configured.\<close>

definition rr_require_not_paused :: "ac_state \<Rightarrow> rr_state \<Rightarrow> unit rr_result" where
  "rr_require_not_paused ac s =
     (case rr_access s of
        None \<Rightarrow> Inr ()
      | Some _ \<Rightarrow> if ac_is_paused ac then Inl (Err RR_ProtocolPaused) else Inr ())"

definition as_admin :: "env \<Rightarrow> rr_state \<Rightarrow> address \<Rightarrow> unit rr_result" where
  "as_admin e s admin = rbind (require_auth e admin) (\<lambda>_. rr_require_admin s admin)"

definition as_running_admin :: "env \<Rightarrow> ac_state \<Rightarrow> rr_state \<Rightarrow> address \<Rightarrow> unit rr_result" where
  "as_running_admin e ac s admin = rbind (as_admin e s admin) (\<lambda>_. rr_require_not_paused ac s)"

definition stake_of :: "rr_state \<Rightarrow> address \<Rightarrow> i128" where
  "stake_of s v = (case rr_stake s v of None \<Rightarrow> 0 | Some n \<Rightarrow> n)"

definition require_min_reputation :: "rr_state \<Rightarrow> address \<Rightarrow> u32 \<Rightarrow> unit rr_result" where
  "require_min_reputation s v threshold =
     (let reputation = (case rr_reputation s v of None \<Rightarrow> 0 | Some n \<Rightarrow> n) in
      if reputation < threshold then Inl (Err RR_InsufficientReputation) else Inr ())"

definition verifier_flag :: "rr_state \<Rightarrow> address \<Rightarrow> bool" where
  "verifier_flag s v = (case rr_verifier s v of None \<Rightarrow> False | Some b \<Rightarrow> b)"

definition verifier_status :: "rr_state \<Rightarrow> address \<Rightarrow> VerifierStatus" where
  "verifier_status s v =
     (case rr_status s v of
        Some st \<Rightarrow> st
      | None \<Rightarrow> if verifier_flag s v then VS_Active else VS_Removed)"

definition resolve_verifier :: "rr_state \<Rightarrow> address \<Rightarrow> address rr_result" where
  "resolve_verifier s caller =
     (if verifier_flag s caller then
        if verifier_status s caller \<noteq> VS_Active then Inl (Err RR_VerifierSuspended) else Inr caller
      else
        case rr_sub s caller of
          None \<Rightarrow> Inl (Err RR_NotVerifier)
        | Some primary \<Rightarrow>
            if verifier_flag s primary then
              if verifier_status s primary \<noteq> VS_Active then Inl (Err RR_VerifierSuspended) else Inr primary
            else Inl (Err RR_NotVerifier))"

definition require_verifier :: "rr_state \<Rightarrow> address \<Rightarrow> unit rr_result" where
  "require_verifier s caller = rbind (resolve_verifier s caller) (\<lambda>_. Inr ())"

definition require_verifier_flag :: "rr_state \<Rightarrow> address \<Rightarrow> unit rr_result" where
  "require_verifier_flag s v = (if \<not> verifier_flag s v then Inl (Err RR_NotVerifier) else Inr ())"

definition counts_toward_aggregate :: "rr_state \<Rightarrow> address \<Rightarrow> bool" where
  "counts_toward_aggregate s v = (verifier_status s v \<noteq> VS_Removed)"

definition require_verifier_primary :: "rr_state \<Rightarrow> address \<Rightarrow> unit rr_result" where
  "require_verifier_primary s caller =
     (if \<not> verifier_flag s caller then Inl (Err RR_NotVerifier)
      else if verifier_status s caller \<noteq> VS_Active then Inl (Err RR_VerifierSuspended) else Inr ())"

definition require_invoice_nft :: "rr_state \<Rightarrow> address \<Rightarrow> unit rr_result" where
  "require_invoice_nft s caller =
     rbind (ok_or (rr_invoice_nft s) (Err RR_NotInitialized)) (\<lambda>nft.
     if nft \<noteq> caller then Inl (Err RR_Unauthorized) else Inr ())"

definition rr_exact_length :: "bytes \<Rightarrow> u32 \<Rightarrow> unit rr_result" where
  "rr_exact_length b n = (if length b \<noteq> n then Inl (Err RR_InvalidLength) else Inr ())"

definition score_to_tier_symbol :: "u32 \<Rightarrow> symbol" where
  "score_to_tier_symbol score =
     (if score \<le> 20 then ''AAA'' else if score \<le> 40 then ''AA'' else if score \<le> 60 then ''A''
      else if score \<le> 80 then ''B'' else ''C'')"

definition default_tiers :: "env \<Rightarrow> RiskTierDefinition" where
  "default_tiers e = \<lparr>rt_version = 1, rt_aaa_max = 20, rt_aa_max = 40, rt_a_max = 60, rt_b_max = 80,
     rt_activated_at = timestamp e\<rparr>"

definition current_tiers :: "env \<Rightarrow> rr_state \<Rightarrow> RiskTierDefinition" where
  "current_tiers e s = (case rr_tiers s of None \<Rightarrow> default_tiers e | Some d \<Rightarrow> d)"

text \<open>\<open>(amount as u128 * bps as u128 / 10_000) as i128\<close>: the first cast wraps, the product traps
  above \<open>u128\<close>, and the quotient is small enough for the last cast to be exact.\<close>

definition slash_part :: "i128 \<Rightarrow> u32 \<Rightarrow> i128 rr_result" where
  "slash_part amount bps =
     (let p = (amount mod 2 ^ 128) * int bps in
      if p \<ge> 2 ^ 128 then Inl Trap else Inr (p div 10000))"

lemma slash_part_bounds:
  assumes "slash_part amount bps = Inr n" "0 \<le> amount" "bps \<le> 10000"
  shows "0 \<le> n \<and> n \<le> amount"
proof -
  let ?a = "amount mod 2 ^ 128"
  have a: "0 \<le> ?a" "?a \<le> amount" using assms(2) by (simp_all add: zmod_le_nonneg_dividend)
  have n: "n = ?a * int bps div 10000" using assms(1) by (auto simp: slash_part_def Let_def split: if_splits)
  have "?a * int bps \<le> ?a * 10000" using a(1) assms(3) by (intro mult_left_mono) auto
  then have "n \<le> ?a * 10000 div 10000" unfolding n by (rule zdiv_mono1) simp
  moreover have "0 \<le> n" unfolding n using a(1) by (simp add: pos_imp_zdiv_nonneg_iff)
  ultimately show ?thesis using a(2) by simp
qed

text \<open>The reentrancy guard over the lock of the registry.\<close>

definition rr_guarded ::
  "(rr_state \<Rightarrow> (rr_state \<times> unit) rr_result) \<Rightarrow> rr_state \<Rightarrow> (rr_state \<times> unit) rr_result" where
  "rr_guarded = with_guard rr_lock (\<lambda>b s. s\<lparr>rr_lock := b\<rparr>) rr_from_common"

interpretation rr_lockable: lockable rr_lock "\<lambda>b s. s\<lparr>rr_lock := b\<rparr>"
  by unfold_locales auto

lemma rr_helpers_Inr_iff [simp]:
  "rr_require_admin s a = Inr u \<longleftrightarrow> rr_admin s = Some a"
  "rr_require_not_paused ac s = Inr u \<longleftrightarrow> (rr_access s = None \<or> \<not> ac_is_paused ac)"
  "as_admin e s a = Inr u \<longleftrightarrow> authorised e a \<and> rr_admin s = Some a"
  "as_running_admin e ac s a = Inr u \<longleftrightarrow> authorised e a \<and> rr_admin s = Some a \<and> (rr_access s = None \<or> \<not> ac_is_paused ac)"
  "require_verifier_flag s v = Inr u \<longleftrightarrow> verifier_flag s v"
  "require_verifier_primary s v = Inr u \<longleftrightarrow> verifier_flag s v \<and> verifier_status s v = VS_Active"
  "require_invoice_nft s v = Inr u \<longleftrightarrow> rr_invoice_nft s = Some v"
  "rr_exact_length b n = Inr u \<longleftrightarrow> length b = n"
  by (auto simp: rr_require_admin_def rr_require_not_paused_def as_admin_def as_running_admin_def require_verifier_flag_def
      require_verifier_primary_def require_invoice_nft_def rr_exact_length_def split: if_splits option.splits)

end
