(* ===== verification/Risk_Registry.thy ===== *)
theory Risk_Registry
  imports Registry_State
begin

text \<open>
  The entry points of the risk registry in the order of the source: setup and admin handover,
  verifiers and their life cycle, sub-accounts, SME profiles, debtor scores, upgrade, slashing,
  circuit breaker, tier definitions.  Operations that only change the registry's storage map
  \<open>rr_state\<close> to itself; those that move tokens or call access control act on \<open>rr_world\<close>.
\<close>

section \<open>Setup and admin\<close>

definition rr_initialize ::
  "env \<Rightarrow> rr_state \<Rightarrow> address \<Rightarrow> address \<Rightarrow> address \<Rightarrow> i128 \<Rightarrow> u32 \<Rightarrow> rr_state rr_result" where
  "rr_initialize e s admin invoice_nft staking_token minimum_stake slash_bps =
     (if rr_admin s \<noteq> None then Inl (Err RR_AlreadyInitialized)
      else
        rbind (map_err rr_from_common (require_not_self e admin)) (\<lambda>_.
        Inr (s\<lparr>rr_admin := Some admin, rr_invoice_nft := Some invoice_nft,
               rr_staking_token := Some staking_token, rr_min_stake := Some minimum_stake,
               rr_slash_bps := Some slash_bps, rr_tiers := Some (default_tiers e),
               rr_tier_version := (rr_tier_version s)(1 \<mapsto> default_tiers e),
               rr_tiers_at := Some (timestamp e)\<rparr>)))"

definition set_access_control :: "env \<Rightarrow> rr_state \<Rightarrow> address \<Rightarrow> address \<Rightarrow> rr_state rr_result" where
  "set_access_control e s admin access_control =
     rbind (as_admin e s admin) (\<lambda>_.
     rbind (map_err rr_from_common (require_not_self e access_control)) (\<lambda>_.
     Inr (s\<lparr>rr_access := Some access_control\<rparr>)))"

definition rr_transfer_admin :: "env \<Rightarrow> rr_state \<Rightarrow> address \<Rightarrow> address \<Rightarrow> rr_state rr_result" where
  "rr_transfer_admin e s admin new_admin =
     rbind (as_admin e s admin) (\<lambda>_.
     if admin = new_admin then Inl (Err RR_InvalidAddress)
     else
       rbind (map_err rr_from_common (require_not_self e new_admin)) (\<lambda>_.
       Inr (s\<lparr>rr_pending_admin := Some new_admin\<rparr>)))"

definition accept_admin :: "env \<Rightarrow> rr_state \<Rightarrow> address \<Rightarrow> rr_state kresult" where
  "accept_admin e s new_admin =
     rbind (require_auth e new_admin) (\<lambda>_.
     rbind (ok_or (rr_pending_admin s) (Err KE_NoPendingAdminProposal)) (\<lambda>pending.
     if pending \<noteq> new_admin then Inl (Err KE_NotPendingAdmin)
     else
       let current_admin = (case rr_admin s of None \<Rightarrow> new_admin | Some a \<Rightarrow> a) in
       rr_audited e current_admin AA_RegistryTransferAdmin (s\<lparr>rr_admin := Some new_admin\<rparr>)))"

definition set_invoice_nft :: "env \<Rightarrow> rr_state \<Rightarrow> address \<Rightarrow> address \<Rightarrow> rr_state rr_result" where
  "set_invoice_nft e s admin invoice_nft =
     rbind (as_admin e s admin) (\<lambda>_.
     rbind (map_err rr_from_common (require_not_self e invoice_nft)) (\<lambda>_.
     Inr (s\<lparr>rr_invoice_nft := Some invoice_nft\<rparr>)))"

definition rr_cancel_admin_proposal :: "env \<Rightarrow> rr_state \<Rightarrow> address \<Rightarrow> rr_state kresult" where
  "rr_cancel_admin_proposal e s admin =
     rbind (require_auth e admin) (\<lambda>_.
     rbind (map_err (\<lambda>_. KE_NotAdmin) (rr_require_admin s admin)) (\<lambda>_.
     if rr_pending_admin s = None then Inl (Err KE_NoPendingAdminProposal)
     else Inr (s\<lparr>rr_pending_admin := None\<rparr>)))"

section \<open>Verifiers\<close>

definition on_rr :: "(rr_state \<Rightarrow> ('e, rr_state) result) \<Rightarrow> rr_world \<Rightarrow> ('e, rr_world) result" where
  "on_rr f w = rbind (f (rw_st w)) (\<lambda>s. Inr (w\<lparr>rw_st := s\<rparr>))"

definition rr_emit :: "ext_call \<Rightarrow> rr_world \<Rightarrow> rr_world" where
  "rr_emit c w = w\<lparr>rw_calls := rw_calls w @ [c]\<rparr>"

text \<open>The calls on access control, made only when one is configured; a failure aborts the caller.\<close>

definition call_access ::
  "env \<Rightarrow> (env \<Rightarrow> ac_state \<Rightarrow> ac_state ac_result) \<Rightarrow> rr_world \<Rightarrow> rr_world rr_result" where
  "call_access e call w =
     (case rr_access (rw_st w) of
        None \<Rightarrow> Inr w
      | Some ac \<Rightarrow> rbind (or_trap (call (callee_env e ac) (rw_ac w))) (\<lambda>a. Inr (w\<lparr>rw_ac := a\<rparr>)))"

definition require_addable :: "env \<Rightarrow> rr_state \<Rightarrow> address \<Rightarrow> unit rr_result" where
  "require_addable e s verifier =
     (if verifier_flag s verifier then Inl (Err RR_AlreadyInitialized)
      else if rr_status s verifier \<noteq> None \<and> rr_status s verifier \<noteq> Some VS_Removed
      then Inl (Err RR_AlreadyInitialized)
      else
        case rr_removed_at s verifier of
          None \<Rightarrow> Inr ()
        | Some last_removed \<Rightarrow>
            rbind (ok_or (u64_add last_removed VERIFIER_READD_COOLDOWN_SECS) (Err RR_ArithmeticOverflow)) (\<lambda>next_allowed.
            if timestamp e < next_allowed then Inl (Err RR_ReadditionCooldownNotElapsed) else Inr ()))"

definition add_verifier :: "env \<Rightarrow> rr_world \<Rightarrow> address \<Rightarrow> address \<Rightarrow> i128 \<Rightarrow> rr_world rr_result" where
  "add_verifier e w admin verifier stake_amount =
     (let s = rw_st w in
      rbind (as_running_admin e (rw_ac w) s admin) (\<lambda>_.
      rbind (map_err rr_from_common (require_not_self e verifier)) (\<lambda>_.
      rbind (require_addable e s verifier) (\<lambda>_.
      rbind (ok_or (rr_min_stake s) (Err RR_NotInitialized)) (\<lambda>minimum_stake.
      if stake_amount < minimum_stake then Inl (Err RR_InsufficientFunds)
      else
        rbind (ok_or (rr_staking_token s) (Err RR_NotInitialized)) (\<lambda>token.
        let w = rr_emit (Transfer token verifier (self_addr e) stake_amount) w;
            w = w\<lparr>rw_st := s\<lparr>rr_verifier := (rr_verifier s)(verifier \<mapsto> True),
                       rr_stake := (rr_stake s)(verifier \<mapsto> stake_amount),
                       rr_reputation := (rr_reputation s)(verifier \<mapsto> 100),
                       rr_bond := (rr_bond s)(verifier \<mapsto> \<lparr>bo_amount = stake_amount, bo_locked_until = 0\<rparr>),
                       rr_dispute_count := (rr_dispute_count s)(verifier \<mapsto> 0)\<rparr>\<rparr> in
        rbind (call_access e (\<lambda>e' ac. grant_role e' ac admin verifier RoleVerifier) w) (\<lambda>w.
        on_rr (rr_audited e admin AA_AddVerifier) w)))))))"

definition top_up_stake :: "env \<Rightarrow> rr_world \<Rightarrow> address \<Rightarrow> address \<Rightarrow> i128 \<Rightarrow> rr_world rr_result" where
  "top_up_stake e w admin verifier additional =
     (let s = rw_st w in
      rbind (as_running_admin e (rw_ac w) s admin) (\<lambda>_.
      if additional \<le> 0 then Inl (Err RR_InvalidAmount)
      else if \<not> verifier_flag s verifier then Inl (Err RR_NotVerifier)
      else if verifier_status s verifier \<noteq> VS_Active then Inl (Err RR_VerifierSuspended)
      else
        rbind (ok_or (rr_staking_token s) (Err RR_NotInitialized)) (\<lambda>token.
        let w = rr_emit (Transfer token verifier (self_addr e) additional) w in
        rbind (ok_or (i128_add (stake_of s verifier) additional) (Err RR_ArithmeticOverflow)) (\<lambda>new_stake.
        on_rr (\<lambda>s. rr_audited e admin AA_AddVerifier (s\<lparr>rr_stake := (rr_stake s)(verifier \<mapsto> new_stake)\<rparr>)) w))))"

definition set_minimum_stake :: "env \<Rightarrow> rr_state \<Rightarrow> address \<Rightarrow> i128 \<Rightarrow> rr_state rr_result" where
  "set_minimum_stake e s admin minimum_stake =
     rbind (as_admin e s admin) (\<lambda>_.
     if minimum_stake < 0 then Inl (Err RR_InvalidAmount)
     else rr_audited e admin AA_AddVerifier (s\<lparr>rr_min_stake := Some minimum_stake\<rparr>))"

definition set_slash_percentage :: "env \<Rightarrow> rr_state \<Rightarrow> address \<Rightarrow> u32 \<Rightarrow> rr_state rr_result" where
  "set_slash_percentage e s admin bps =
     rbind (as_admin e s admin) (\<lambda>_.
     if bps > 10000 then Inl (Err RR_InvalidAmount)
     else rr_audited e admin AA_AddVerifier (s\<lparr>rr_slash_bps := Some bps\<rparr>))"

text \<open>The stake goes back and the verifier's records are dropped, in both ways out.\<close>

definition return_stake :: "env \<Rightarrow> address \<Rightarrow> rr_world \<Rightarrow> rr_world rr_result" where
  "return_stake e verifier w =
     (let stake = stake_of (rw_st w) verifier in
      if stake > 0 then
        rbind (ok_or (rr_staking_token (rw_st w)) (Err RR_NotInitialized)) (\<lambda>token.
        Inr (rr_emit (Transfer token (self_addr e) verifier stake) w))
      else Inr w)"

definition retire_verifier :: "env \<Rightarrow> address \<Rightarrow> rr_state \<Rightarrow> rr_state" where
  "retire_verifier e verifier s =
     s\<lparr>rr_verifier := (rr_verifier s)(verifier := None), rr_stake := (rr_stake s)(verifier := None),
       rr_reputation := (rr_reputation s)(verifier := None),
       rr_status := (rr_status s)(verifier \<mapsto> VS_Removed),
       rr_status_at := (rr_status_at s)(verifier \<mapsto> timestamp e),
       rr_removed_at := (rr_removed_at s)(verifier \<mapsto> timestamp e),
       rr_removal_at := (rr_removal_at s)(verifier := None)\<rparr>"

definition remove_and_revoke ::
  "env \<Rightarrow> address \<Rightarrow> address \<Rightarrow> AdminActionType \<Rightarrow> rr_world \<Rightarrow> rr_world rr_result" where
  "remove_and_revoke e admin verifier action w =
     rbind (return_stake e verifier w) (\<lambda>w.
     rbind (call_access e (\<lambda>e' ac. revoke_role e' ac admin verifier)
              (w\<lparr>rw_st := retire_verifier e verifier (rw_st w)\<rparr>)) (\<lambda>w.
     on_rr (rr_audited e admin action) w))"

definition remove_verifier :: "env \<Rightarrow> rr_world \<Rightarrow> address \<Rightarrow> address \<Rightarrow> rr_world rr_result" where
  "remove_verifier e w admin verifier =
     (let s = rw_st w in
      rbind (as_running_admin e (rw_ac w) s admin) (\<lambda>_.
      rbind (require_verifier_flag s verifier) (\<lambda>_.
      if (case rr_dispute_count s verifier of None \<Rightarrow> 0 | Some n \<Rightarrow> n) > 0 then Inl (Err RR_DisputesPending)
      else remove_and_revoke e admin verifier AA_RemoveVerifier w)))"

section \<open>The life cycle of a verifier\<close>

definition as_keeper :: "env \<Rightarrow> ac_state \<Rightarrow> rr_state \<Rightarrow> address \<Rightarrow> address \<Rightarrow> unit rr_result" where
  "as_keeper e ac s admin verifier =
     rbind (as_running_admin e ac s admin) (\<lambda>_. require_verifier_flag s verifier)"

definition put_status :: "env \<Rightarrow> address \<Rightarrow> VerifierStatus \<Rightarrow> rr_state \<Rightarrow> rr_state" where
  "put_status e verifier st s =
     s\<lparr>rr_status := (rr_status s)(verifier \<mapsto> st), rr_status_at := (rr_status_at s)(verifier \<mapsto> timestamp e)\<rparr>"

definition suspend_verifier :: "env \<Rightarrow> ac_state \<Rightarrow> rr_state \<Rightarrow> address \<Rightarrow> address \<Rightarrow> rr_state rr_result" where
  "suspend_verifier e ac s admin verifier =
     rbind (as_keeper e ac s admin verifier) (\<lambda>_.
     if verifier_status s verifier \<noteq> VS_Active then Inl (Err RR_InvalidStatusTransition)
     else rr_audited e admin AA_SuspendVerifier (put_status e verifier VS_Suspended s))"

definition reinstate_verifier :: "env \<Rightarrow> ac_state \<Rightarrow> rr_state \<Rightarrow> address \<Rightarrow> address \<Rightarrow> rr_state rr_result" where
  "reinstate_verifier e ac s admin verifier =
     rbind (as_keeper e ac s admin verifier) (\<lambda>_.
     if verifier_status s verifier \<noteq> VS_Suspended then Inl (Err RR_InvalidStatusTransition)
     else rr_audited e admin AA_ReinstateVerifier (put_status e verifier VS_Active s))"

definition request_verifier_removal :: "env \<Rightarrow> ac_state \<Rightarrow> rr_state \<Rightarrow> address \<Rightarrow> address \<Rightarrow> rr_state rr_result" where
  "request_verifier_removal e ac s admin verifier =
     rbind (as_keeper e ac s admin verifier) (\<lambda>_.
     let status = verifier_status s verifier in
     if status \<noteq> VS_Active \<and> status \<noteq> VS_Suspended then Inl (Err RR_InvalidStatusTransition)
     else
       let s = put_status e verifier VS_PendingRemoval s in
       rr_audited e admin AA_RequestVerifierRemoval
         (s\<lparr>rr_removal_at := (rr_removal_at s)(verifier \<mapsto> timestamp e)\<rparr>))"

definition cancel_verifier_removal :: "env \<Rightarrow> ac_state \<Rightarrow> rr_state \<Rightarrow> address \<Rightarrow> address \<Rightarrow> rr_state rr_result" where
  "cancel_verifier_removal e ac s admin verifier =
     rbind (as_keeper e ac s admin verifier) (\<lambda>_.
     if verifier_status s verifier \<noteq> VS_PendingRemoval then Inl (Err RR_NoRemovalRequested)
     else
       let s = put_status e verifier VS_Active s in
       rr_audited e admin AA_ReinstateVerifier (s\<lparr>rr_removal_at := (rr_removal_at s)(verifier := None)\<rparr>))"

definition finalize_verifier_removal :: "env \<Rightarrow> rr_world \<Rightarrow> address \<Rightarrow> address \<Rightarrow> rr_world rr_result" where
  "finalize_verifier_removal e w admin verifier =
     (let s = rw_st w in
      rbind (as_keeper e (rw_ac w) s admin verifier) (\<lambda>_.
      if verifier_status s verifier \<noteq> VS_PendingRemoval then Inl (Err RR_NoRemovalRequested)
      else
        rbind (ok_or (rr_removal_at s verifier) (Err RR_NoRemovalRequested)) (\<lambda>requested.
        rbind (ok_or (u64_add requested VERIFIER_REMOVAL_COOLDOWN_SECS) (Err RR_ArithmeticOverflow)) (\<lambda>eligible_at.
        if timestamp e < eligible_at then Inl (Err RR_RemovalCooldownNotElapsed)
        else remove_and_revoke e admin verifier AA_FinalizeVerifierRemoval w))))"

definition get_verifier_removal_deadline :: "rr_state \<Rightarrow> address \<Rightarrow> u64 option" where
  "get_verifier_removal_deadline s verifier =
     (case rr_removal_at s verifier of None \<Rightarrow> None | Some t \<Rightarrow> u64_add t VERIFIER_REMOVAL_COOLDOWN_SECS)"

section \<open>Sub-accounts\<close>

definition as_primary :: "env \<Rightarrow> ac_state \<Rightarrow> rr_state \<Rightarrow> address \<Rightarrow> unit rr_result" where
  "as_primary e ac s primary =
     rbind (require_auth e primary) (\<lambda>_.
     rbind (require_verifier_primary s primary) (\<lambda>_.
     rbind (rr_require_not_paused ac s) (\<lambda>_.
     require_min_reputation s primary MIN_REPUTATION_RISK_ACTIONS)))"

definition add_sub_account :: "env \<Rightarrow> ac_state \<Rightarrow> rr_state \<Rightarrow> address \<Rightarrow> address \<Rightarrow> rr_state rr_result" where
  "add_sub_account e ac s primary sub =
     rbind (as_primary e ac s primary) (\<lambda>_.
     if verifier_flag s sub then Inl (Err RR_InvalidAddress)
     else if rr_sub s sub \<noteq> None then Inl (Err RR_AlreadyInitialized)
     else Inr (s\<lparr>rr_sub := (rr_sub s)(sub \<mapsto> primary)\<rparr>))"

definition remove_sub_account :: "env \<Rightarrow> ac_state \<Rightarrow> rr_state \<Rightarrow> address \<Rightarrow> address \<Rightarrow> rr_state rr_result" where
  "remove_sub_account e ac s primary sub =
     rbind (as_primary e ac s primary) (\<lambda>_.
     rbind (ok_or (rr_sub s sub) (Err RR_NotVerifier)) (\<lambda>stored.
     if stored \<noteq> primary then Inl (Err RR_Unauthorized)
     else Inr (s\<lparr>rr_sub := (rr_sub s)(sub := None)\<rparr>)))"

section \<open>SME profiles\<close>

text \<open>The verifier on whose behalf the caller acts, with the gates of issues 904 and 906.\<close>

definition as_verifier :: "env \<Rightarrow> ac_state \<Rightarrow> rr_state \<Rightarrow> address \<Rightarrow> address rr_result" where
  "as_verifier e ac s verifier =
     rbind (require_auth e verifier) (\<lambda>_.
     rbind (resolve_verifier s verifier) (\<lambda>primary.
     rbind (rr_require_not_paused ac s) (\<lambda>_.
     rbind (require_min_reputation s primary MIN_REPUTATION_RISK_ACTIONS) (\<lambda>_. Inr primary))))"

definition put_sme :: "address \<Rightarrow> SmeProfile \<Rightarrow> rr_state \<Rightarrow> rr_state" where
  "put_sme sme p s = s\<lparr>rr_sme := (rr_sme s)(sme \<mapsto> p)\<rparr>"

definition tier_count :: "(symbol \<Rightarrow> u32 option) \<Rightarrow> symbol \<Rightarrow> u32" where
  "tier_count counts tier = (case counts tier of None \<Rightarrow> 0 | Some n \<Rightarrow> n)"

definition register_sme ::
  "env \<Rightarrow> ac_state \<Rightarrow> rr_state \<Rightarrow> address \<Rightarrow> address \<Rightarrow> u32 \<Rightarrow> bool \<Rightarrow> rr_state rr_result" where
  "register_sme e ac s verifier sme risk_score compliance_attested =
     rbind (as_verifier e ac s verifier) (\<lambda>primary.
     rbind (map_err rr_from_common (require_valid_risk_score risk_score)) (\<lambda>_.
     if rr_sme s sme \<noteq> None then Inl (Err RR_AlreadyInitialized)
     else
       let tier = score_to_tier_symbol risk_score in
       Inr ((put_sme sme
               \<lparr>sp_address = sme, sp_verified = True, sp_verifier = primary, sp_risk_score = risk_score,
                sp_total_invoices = 0, sp_defaults = 0, sp_registered_at = timestamp e,
                sp_compliance_attested = compliance_attested, sp_credit_limit = 0\<rparr> s)
              \<lparr>rr_scored_tier := (rr_scored_tier s)(tier \<mapsto> u32_sat_add (tier_count (rr_scored_tier s) tier) 1)\<rparr>)))"

definition sme_of_record :: "rr_state \<Rightarrow> address \<Rightarrow> address \<Rightarrow> SmeProfile rr_result" where
  "sme_of_record s primary sme =
     rbind (ok_or (rr_sme s sme) (Err RR_SMENotRegistered)) (\<lambda>p.
     if sp_verifier p \<noteq> primary then Inl (Err RR_NotSmeVerifier) else Inr p)"

definition update_sme_score :: "env \<Rightarrow> ac_state \<Rightarrow> rr_state \<Rightarrow> address \<Rightarrow> address \<Rightarrow> u32 \<Rightarrow> rr_state rr_result" where
  "update_sme_score e ac s verifier sme new_score =
     rbind (as_verifier e ac s verifier) (\<lambda>primary.
     rbind (map_err rr_from_common (require_valid_risk_score new_score)) (\<lambda>_.
     rbind (rr_guarded (\<lambda>s.
       rbind (sme_of_record s primary sme) (\<lambda>p.
       Inr (put_sme sme (p\<lparr>sp_risk_score := new_score\<rparr>) s, ()))) s) (\<lambda>(s, _).
     Inr s)))"

definition set_credit_limit :: "env \<Rightarrow> ac_state \<Rightarrow> rr_state \<Rightarrow> address \<Rightarrow> address \<Rightarrow> i128 \<Rightarrow> rr_state rr_result" where
  "set_credit_limit e ac s verifier sme credit_limit =
     rbind (as_verifier e ac s verifier) (\<lambda>primary.
     rbind (require_verifier s verifier) (\<lambda>_.
     rbind (map_err rr_from_common (require_non_negative_amount credit_limit)) (\<lambda>_.
     if credit_limit < 0 then Inl (Err RR_InvalidAmount)
     else
       rbind (sme_of_record s primary sme) (\<lambda>p.
       Inr (put_sme sme (p\<lparr>sp_credit_limit := credit_limit\<rparr>) s)))))"

definition reassign_sme_verifier :: "env \<Rightarrow> ac_state \<Rightarrow> rr_state \<Rightarrow> address \<Rightarrow> address \<Rightarrow> address \<Rightarrow> rr_state rr_result" where
  "reassign_sme_verifier e ac s admin sme new_verifier =
     rbind (as_running_admin e ac s admin) (\<lambda>_.
     if \<not> verifier_flag s new_verifier then Inl (Err RR_NotVerifier)
     else if verifier_status s new_verifier \<noteq> VS_Active then Inl (Err RR_VerifierSuspended)
     else
       rbind (ok_or (rr_sme s sme) (Err RR_SMENotRegistered)) (\<lambda>p.
       rr_audited e admin AA_RecordDefault (put_sme sme (p\<lparr>sp_verifier := new_verifier\<rparr>) s)))"

definition increment_invoice_count :: "env \<Rightarrow> rr_state \<Rightarrow> address \<Rightarrow> address \<Rightarrow> rr_state rr_result" where
  "increment_invoice_count e s caller sme =
     rbind (require_auth e caller) (\<lambda>_.
     rbind (require_invoice_nft s caller) (\<lambda>_.
     rbind (ok_or (rr_sme s sme) (Err RR_SMENotRegistered)) (\<lambda>p.
     rbind (ok_or (u32_add (sp_total_invoices p) 1) (Err RR_ArithmeticOverflow)) (\<lambda>n.
     Inr (put_sme sme (p\<lparr>sp_total_invoices := n\<rparr>) s)))))"

text \<open>The two penalties of a default: on the stake, which keeps the tokens in the contract, and
  on the reputation.\<close>

definition slash_stake :: "address \<Rightarrow> u32 \<Rightarrow> rr_state \<Rightarrow> rr_state rr_result" where
  "slash_stake verifier bps s =
     (let current = stake_of s verifier in
      if current > 0 then
        rbind (slash_part current bps) (\<lambda>slash.
        rbind (ok_or (i128_sub current slash) (Err RR_ArithmeticUnderflow)) (\<lambda>remaining.
        Inr (s\<lparr>rr_stake := (rr_stake s)(verifier \<mapsto> remaining)\<rparr>)))
      else Inr s)"

definition lower_reputation :: "address \<Rightarrow> rr_state \<Rightarrow> rr_state" where
  "lower_reputation verifier s =
     (let current = (case rr_reputation s verifier of None \<Rightarrow> 100 | Some n \<Rightarrow> n) in
      s\<lparr>rr_reputation := (rr_reputation s)(verifier \<mapsto> u32_sat_sub current 10)\<rparr>)"

text \<open>The circuit breaker of a tier: one more default, and the pause when the rate is reached.  An
  empty tier with a minimum sample of zero divides by zero.\<close>

definition count_default :: "symbol \<Rightarrow> rr_state \<Rightarrow> rr_state rr_result" where
  "count_default tier s =
     (let new_defaults = u32_sat_add (tier_count (rr_default_tier s) tier) 1;
          s = s\<lparr>rr_default_tier := (rr_default_tier s)(tier \<mapsto> new_defaults)\<rparr> in
      case (rr_breaker_bps s, rr_breaker_min s) of
        (Some threshold_bps, Some min_sample) \<Rightarrow>
          let total_scored = tier_count (rr_scored_tier s) tier in
          if total_scored \<ge> min_sample then
            if total_scored = 0 then Inl Trap
            else if new_defaults * 10000 div total_scored \<ge> threshold_bps
            then Inr (s\<lparr>rr_tier_paused := (rr_tier_paused s)(tier \<mapsto> True)\<rparr>)
            else Inr s
          else Inr s
      | _ \<Rightarrow> Inr s)"

definition record_default :: "env \<Rightarrow> ac_state \<Rightarrow> rr_state \<Rightarrow> address \<Rightarrow> address \<Rightarrow> rr_state rr_result" where
  "record_default e ac s admin sme =
     rbind (as_running_admin e ac s admin) (\<lambda>_.
     rbind (rr_guarded (\<lambda>s.
       rbind (ok_or (rr_sme s sme) (Err RR_SMENotRegistered)) (\<lambda>p.
       rbind (ok_or (u32_add (sp_defaults p) 1) (Err RR_ArithmeticOverflow)) (\<lambda>n.
       rbind (ok_or (rr_slash_bps s) (Err RR_NotInitialized)) (\<lambda>bps.
       rbind (slash_stake (sp_verifier p) bps s) (\<lambda>s.
       rbind (count_default (score_to_tier_symbol (sp_risk_score p))
                (put_sme sme (p\<lparr>sp_defaults := n\<rparr>) (lower_reputation (sp_verifier p) s))) (\<lambda>s.
       rbind (rr_audited e admin AA_RecordDefault s) (\<lambda>s. Inr (s, ())))))))) s) (\<lambda>(s, _).
     Inr s))"

definition record_successful_repayment :: "env \<Rightarrow> ac_state \<Rightarrow> rr_state \<Rightarrow> address \<Rightarrow> address \<Rightarrow> rr_state rr_result" where
  "record_successful_repayment e ac s admin sme =
     rbind (as_running_admin e ac s admin) (\<lambda>_.
     rbind (ok_or (rr_sme s sme) (Err RR_SMENotRegistered)) (\<lambda>p.
     let current = (case rr_reputation s (sp_verifier p) of None \<Rightarrow> 100 | Some n \<Rightarrow> n);
         new_reputation = (if current \<ge> 100 then 100 else current + 1) in
     rr_audited e admin AA_RecordDefault
       (s\<lparr>rr_reputation := (rr_reputation s)(sp_verifier p \<mapsto> new_reputation)\<rparr>)))"

section \<open>Debtor scores\<close>

definition set_debtor_score :: "env \<Rightarrow> ac_state \<Rightarrow> rr_state \<Rightarrow> address \<Rightarrow> bytes \<Rightarrow> u32 \<Rightarrow> rr_state rr_result" where
  "set_debtor_score e ac s verifier h score =
     rbind (require_auth e verifier) (\<lambda>_.
     rbind (require_verifier s verifier) (\<lambda>_.
     rbind (rr_require_not_paused ac s) (\<lambda>_.
     rbind (require_min_reputation s verifier MIN_REPUTATION_RISK_ACTIONS) (\<lambda>_.
     rbind (rr_exact_length h 32) (\<lambda>_.
     rbind (map_err rr_from_common (require_valid_risk_score score)) (\<lambda>_.
     rbind (case rr_score_update s verifier h of
              None \<Rightarrow> Inr ()
            | Some last_update \<Rightarrow>
                rbind (ok_or (u64_add last_update MIN_SCORE_UPDATE_INTERVAL) (Err RR_ArithmeticOverflow)) (\<lambda>next_allowed.
                if timestamp e < next_allowed then Inl (Err RR_ScoreUpdateCooldownNotElapsed) else Inr ())) (\<lambda>_.
     let s = s\<lparr>rr_debtor_score := (rr_debtor_score s)(h := (rr_debtor_score s h)(verifier \<mapsto> score))\<rparr>;
         attestors = (case rr_attestors s h of None \<Rightarrow> [] | Some xs \<Rightarrow> xs) in
     rbind (if verifier \<in> set attestors then Inr s
            else if length attestors \<ge> MAX_VERIFIERS_PER_DEBTOR then Inl (Err RR_InvalidLength)
            else Inr (s\<lparr>rr_attestors := (rr_attestors s)(h \<mapsto> attestors @ [verifier])\<rparr>)) (\<lambda>s.
     Inr (s\<lparr>rr_score_update := (rr_score_update s)(verifier := (rr_score_update s verifier)(h \<mapsto> timestamp e))\<rparr>)))))))))"

text \<open>The loop over the attestors that both averages share: the scores that count and their number.\<close>

fun add_scores :: "rr_state \<Rightarrow> bytes \<Rightarrow> address list \<Rightarrow> u64 \<Rightarrow> u32 \<Rightarrow> (u64 \<times> u32) option" where
  "add_scores s h [] tot n = Some (tot, n)"
| "add_scores s h (v # vs) tot n =
     (if counts_toward_aggregate s v then
        case rr_debtor_score s h v of
          None \<Rightarrow> add_scores s h vs tot n
        | Some score \<Rightarrow> Option.bind (u64_add tot score) (\<lambda>tot. add_scores s h vs tot (n + 1))
      else add_scores s h vs tot n)"

definition get_debtor_score :: "rr_state \<Rightarrow> bytes \<Rightarrow> u32 rr_result" where
  "get_debtor_score s h =
     rbind (ok_or (rr_attestors s h) (Err RR_DebtorNotRegistered)) (\<lambda>attestors.
     rbind (ok_or (add_scores s h attestors 0 0) (Err RR_ArithmeticOverflow)) (\<lambda>(tot, n).
     if n = 0 then Inl (Err RR_DebtorNotRegistered) else Inr (tot div n)))"

definition debtor_score_average :: "rr_state \<Rightarrow> bytes \<Rightarrow> u32 option" where
  "debtor_score_average s h =
     Option.bind (rr_attestors s h) (\<lambda>attestors.
     Option.bind (add_scores s h attestors 0 0) (\<lambda>(tot, n).
     if n = 0 then None else Some (tot div n)))"

definition get_debtor_risk_tier :: "env \<Rightarrow> rr_state \<Rightarrow> bytes \<Rightarrow> RiskTier option" where
  "get_debtor_risk_tier e s h =
     Option.bind (debtor_score_average s h) (\<lambda>score.
     let limits = current_tiers e s in
     Some (if score \<le> rt_aaa_max limits then AAA else if score \<le> rt_aa_max limits then AA
           else if score \<le> rt_a_max limits then A else if score \<le> rt_b_max limits then B else C))"

definition set_min_debtor_score :: "env \<Rightarrow> ac_state \<Rightarrow> rr_state \<Rightarrow> address \<Rightarrow> u32 \<Rightarrow> rr_state rr_result" where
  "set_min_debtor_score e ac s admin min_score =
     rbind (as_running_admin e ac s admin) (\<lambda>_. Inr (s\<lparr>rr_min_debtor_score := Some min_score\<rparr>))"

definition get_min_debtor_score :: "rr_state \<Rightarrow> u32" where
  "get_min_debtor_score s = (case rr_min_debtor_score s of None \<Rightarrow> 0 | Some n \<Rightarrow> n)"

definition is_debtor_verified :: "rr_state \<Rightarrow> bytes \<Rightarrow> bool" where
  "is_debtor_verified s h =
     (if get_min_debtor_score s = 0 then True
      else case debtor_score_average s h of Some avg \<Rightarrow> avg \<ge> get_min_debtor_score s | None \<Rightarrow> False)"

section \<open>Views\<close>

definition get_sme_profile :: "rr_state \<Rightarrow> address \<Rightarrow> SmeProfile rr_result" where
  "get_sme_profile s sme = ok_or (rr_sme s sme) (Err RR_SMENotRegistered)"

definition is_verified_sme :: "rr_state \<Rightarrow> address \<Rightarrow> bool" where
  "is_verified_sme s sme = (case rr_sme s sme of None \<Rightarrow> False | Some p \<Rightarrow> sp_verified p)"

definition is_compliance_attested :: "rr_state \<Rightarrow> address \<Rightarrow> bool" where
  "is_compliance_attested s sme = (case rr_sme s sme of None \<Rightarrow> False | Some p \<Rightarrow> sp_compliance_attested p)"

definition is_verifier :: "rr_state \<Rightarrow> address \<Rightarrow> bool" where
  "is_verifier s v \<longleftrightarrow> verifier_flag s v \<and> verifier_status s v = VS_Active"

definition is_debtor_paused :: "rr_state \<Rightarrow> bytes \<Rightarrow> bool" where
  "is_debtor_paused s h = (case rr_debtor_paused s h of None \<Rightarrow> False | Some b \<Rightarrow> b)"

definition is_tier_paused :: "rr_state \<Rightarrow> symbol \<Rightarrow> bool" where
  "is_tier_paused s tier = (case rr_tier_paused s tier of None \<Rightarrow> False | Some b \<Rightarrow> b)"

section \<open>Upgrade\<close>

definition rr_propose_upgrade :: "env \<Rightarrow> rr_state \<Rightarrow> address \<Rightarrow> bytes \<Rightarrow> rr_state rr_result" where
  "rr_propose_upgrade e s admin h =
     rbind (as_admin e s admin) (\<lambda>_.
     rr_audited e admin AA_RegistryProposeUpgrade (s\<lparr>rr_upgrade := Some (h, timestamp e)\<rparr>))"

definition rr_execute_upgrade :: "env \<Rightarrow> rr_state \<Rightarrow> address \<Rightarrow> (rr_state \<times> bytes) rr_result" where
  "rr_execute_upgrade e s admin =
     rbind (as_admin e s admin) (\<lambda>_.
     rbind (ok_or (rr_upgrade s) (Err RR_NoUpgradeProposed)) (\<lambda>(h, proposed_at).
     rbind (ok_or (u64_add proposed_at UPGRADE_TIMELOCK_DELAY) Trap) (\<lambda>ready.
     if timestamp e < ready then Inl (Err RR_UpgradeTimelockNotElapsed)
     else rbind (rr_audited e admin AA_RegistryExecuteUpgrade (s\<lparr>rr_upgrade := None\<rparr>)) (\<lambda>s. Inr (s, h)))))"

section \<open>Slashing by dispute\<close>

definition configure_slashing :: "env \<Rightarrow> ac_state \<Rightarrow> rr_state \<Rightarrow> address \<Rightarrow> u64 \<Rightarrow> address \<Rightarrow> rr_state rr_result" where
  "configure_slashing e ac s admin dispute_window slash_treasury =
     rbind (as_running_admin e ac s admin) (\<lambda>_.
     rr_audited e admin AA_RegistryTransferAdmin
       (s\<lparr>rr_window := Some dispute_window, rr_slash_treasury := Some slash_treasury\<rparr>))"

definition put_dispute :: "address \<Rightarrow> address \<Rightarrow> Dispute \<Rightarrow> rr_state \<Rightarrow> rr_state" where
  "put_dispute v subject d s = s\<lparr>rr_dispute := (rr_dispute s)(v := (rr_dispute s v)(subject \<mapsto> d))\<rparr>"

definition raise_dispute ::
  "env \<Rightarrow> ac_state \<Rightarrow> rr_state \<Rightarrow> address \<Rightarrow> address \<Rightarrow> address \<Rightarrow> rr_state rr_result" where
  "raise_dispute e ac s challenger verifier subject =
     rbind (require_auth e challenger) (\<lambda>_.
     rbind (require_verifier s verifier) (\<lambda>_.
     rbind (rr_require_not_paused ac s) (\<lambda>_.
     rbind (ok_or (rr_bond s verifier) (Err RR_NotVerifier)) (\<lambda>bond.
     rbind (ok_or (rr_window s) (Err RR_SlashingNotConfigured)) (\<lambda>window.
     let s = put_dispute verifier subject
               \<lparr>dp_subject = subject, dp_challenger = challenger, dp_raised_at = timestamp e, dp_resolved = False\<rparr> s;
         count = (case rr_dispute_count s verifier of None \<Rightarrow> 0 | Some n \<Rightarrow> n) in
     rbind (ok_or (u32_add count 1) Trap) (\<lambda>count1.
     rbind (ok_or (u64_add (timestamp e) window) Trap) (\<lambda>new_locked.
     Inr (s\<lparr>rr_dispute_count := (rr_dispute_count s)(verifier \<mapsto> count1),
            rr_bond := (if new_locked > bo_locked_until bond
                        then (rr_bond s)(verifier \<mapsto> bond\<lparr>bo_locked_until := new_locked\<rparr>)
                        else rr_bond s)\<rparr>))))))))"

text \<open>The slash of an upheld dispute: out of the bond, to the treasury, mirrored in the stake.\<close>

definition slash_bond :: "env \<Rightarrow> address \<Rightarrow> rr_world \<Rightarrow> rr_world rr_result" where
  "slash_bond e verifier w =
     (let s = rw_st w in
      rbind (ok_or (rr_bond s verifier) (Err RR_NotVerifier)) (\<lambda>bond.
      rbind (ok_or (rr_slash_bps s) (Err RR_SlashingNotConfigured)) (\<lambda>bps.
      rbind (ok_or (rr_slash_treasury s) (Err RR_SlashingNotConfigured)) (\<lambda>treasury.
      rbind (slash_part (bo_amount bond) bps) (\<lambda>slash.
      if slash > 0 then
        rbind (ok_or (i128_sub (bo_amount bond) slash) (Err RR_ArithmeticUnderflow)) (\<lambda>rest.
        rbind (ok_or (rr_staking_token s) Trap) (\<lambda>token.
        let stake = (case i128_sub (stake_of s verifier) slash of None \<Rightarrow> 0 | Some n \<Rightarrow> n) in
        Inr (rr_emit (Transfer token (self_addr e) treasury slash)
               (w\<lparr>rw_st := s\<lparr>rr_bond := (rr_bond s)(verifier \<mapsto> bond\<lparr>bo_amount := rest\<rparr>),
                             rr_stake := (rr_stake s)(verifier \<mapsto> stake)\<rparr>\<rparr>))))
      else Inr w)))))"

definition close_dispute :: "address \<Rightarrow> address \<Rightarrow> Dispute \<Rightarrow> rr_state \<Rightarrow> rr_state" where
  "close_dispute verifier subject d s =
     (let s = put_dispute verifier subject (d\<lparr>dp_resolved := True\<rparr>) s;
          count = (case rr_dispute_count s verifier of None \<Rightarrow> 1 | Some n \<Rightarrow> n) in
      s\<lparr>rr_dispute_count := (rr_dispute_count s)(verifier \<mapsto> u32_sat_sub count 1)\<rparr>)"

definition resolve_dispute ::
  "env \<Rightarrow> rr_world \<Rightarrow> address \<Rightarrow> address \<Rightarrow> address \<Rightarrow> bool \<Rightarrow> rr_world rr_result" where
  "resolve_dispute e w admin verifier subject slash =
     rbind (as_running_admin e (rw_ac w) (rw_st w) admin) (\<lambda>_.
     rbind (ok_or (rr_dispute (rw_st w) verifier subject) (Err RR_DisputeNotFound)) (\<lambda>d.
     if dp_resolved d then Inl (Err RR_DisputeAlreadyResolved)
     else
       rbind (if slash
              then rbind (slash_bond e verifier w) (\<lambda>w. Inr (w\<lparr>rw_st := lower_reputation verifier (rw_st w)\<rparr>))
              else Inr w) (\<lambda>w.
       Inr (w\<lparr>rw_st := close_dispute verifier subject d (rw_st w)\<rparr>))))"

section \<open>Circuit breaker\<close>

definition configure_circuit_breaker :: "env \<Rightarrow> ac_state \<Rightarrow> rr_state \<Rightarrow> address \<Rightarrow> u32 \<Rightarrow> u32 \<Rightarrow> rr_state rr_result" where
  "configure_circuit_breaker e ac s admin threshold_bps min_sample =
     rbind (as_running_admin e ac s admin) (\<lambda>_.
     Inr (s\<lparr>rr_breaker_bps := Some threshold_bps, rr_breaker_min := Some min_sample\<rparr>))"

definition clear_circuit_breaker_debtor :: "env \<Rightarrow> ac_state \<Rightarrow> rr_state \<Rightarrow> address \<Rightarrow> bytes \<Rightarrow> rr_state rr_result" where
  "clear_circuit_breaker_debtor e ac s admin h =
     rbind (as_running_admin e ac s admin) (\<lambda>_. Inr (s\<lparr>rr_debtor_paused := (rr_debtor_paused s)(h := None)\<rparr>))"

definition clear_circuit_breaker_tier :: "env \<Rightarrow> ac_state \<Rightarrow> rr_state \<Rightarrow> address \<Rightarrow> symbol \<Rightarrow> rr_state rr_result" where
  "clear_circuit_breaker_tier e ac s admin tier =
     rbind (as_running_admin e ac s admin) (\<lambda>_. Inr (s\<lparr>rr_tier_paused := (rr_tier_paused s)(tier := None)\<rparr>))"

section \<open>Tier definitions\<close>

definition update_risk_tier_definition ::
  "env \<Rightarrow> ac_state \<Rightarrow> rr_state \<Rightarrow> address \<Rightarrow> u32 \<Rightarrow> u32 \<Rightarrow> u32 \<Rightarrow> u32 \<Rightarrow> rr_state rr_result" where
  "update_risk_tier_definition e ac s admin aaa_max aa_max a_max b_max =
     rbind (as_running_admin e ac s admin) (\<lambda>_.
     if aaa_max \<ge> aa_max \<or> aa_max \<ge> a_max \<or> a_max \<ge> b_max \<or> b_max > 100 then Inl (Err RR_InvalidRiskScore)
     else
       rbind (ok_or (u32_add (rt_version (current_tiers e s)) 1) (Err RR_ArithmeticOverflow)) (\<lambda>version.
       let d = \<lparr>rt_version = version, rt_aaa_max = aaa_max, rt_aa_max = aa_max, rt_a_max = a_max,
                rt_b_max = b_max, rt_activated_at = timestamp e\<rparr> in
       Inr (s\<lparr>rr_tiers := Some d, rr_tier_version := (rr_tier_version s)(version \<mapsto> d),
              rr_tiers_at := Some (timestamp e)\<rparr>)))"

end
