(* ===== verification/Access_Runs.thy ===== *)
theory Access_Runs
  imports Access_Control
begin

text \<open>
  Runs of access control.  \<open>ac_op\<close> has one constructor per state-changing entry point and
  \<open>ac_exec\<close> dispatches.  The four books of the contract (actions, parameters, recoveries, council
  elections) are interpretations of \<open>ballot\<close>; every call is a step of each of them.
\<close>

section \<open>Calls and runs\<close>

datatype (plugins only: code) ac_op =
    Ac_initialize address
  | Ac_pause address
  | Ac_unpause address
  | Ac_emergency_pause address
  | Ac_grant_role address address Role
  | Ac_revoke_role address address
  | Ac_transfer_admin address address
  | Ac_rotate_admin address address
  | Ac_cancel_admin_proposal address
  | Ac_configure_multisig address "address list" u32
  | Ac_set_dispute_resolution address address
  | Ac_propose_action address AdminAction
  | Ac_approve_action address u64
  | Ac_execute_action address u64
  | Ac_cancel_action address u64
  | Ac_execute_batch address "u64 list"
  | Ac_propose_parameter address ParameterKey u32
  | Ac_vote_parameter address u64
  | Ac_execute_parameter address u64
  | Ac_cancel_parameter address u64
  | Ac_submit_community address AdminAction string
  | Ac_sponsor_community address u64
  | Ac_propose_recovery address "address list" u32
  | Ac_object_recovery address u64
  | Ac_execute_recovery address u64
  | Ac_delegate_vote address address
  | Ac_revoke_delegation address
  | Ac_configure_terms address u64 u64
  | Ac_initiate_rotation address address address
  | Ac_vote_rotation address u64 bool
  | Ac_conclude_rotation address u64
  | Ac_propose_upgrade address bytes
  | Ac_execute_upgrade address

text \<open>Errors of the two error types of the contract both roll back; runs only record success.\<close>

definition succeeds :: "('e, 'a) result \<Rightarrow> 'a option" where
  "succeeds m = (case m of Inl _ \<Rightarrow> None | Inr x \<Rightarrow> Some x)"

lemma succeeds_Some_iff [simp]: "succeeds m = Some x \<longleftrightarrow> m = Inr x"
  by (cases m) (auto simp: succeeds_def)

definition st_op :: "('e, ac_state) result \<Rightarrow> ac_world \<Rightarrow> ac_world option" where
  "st_op m w = map_option (\<lambda>s. w\<lparr>aw_st := s\<rparr>) (succeeds m)"

definition st_op2 :: "('e, ac_state \<times> 'r) result \<Rightarrow> ac_world \<Rightarrow> ac_world option" where
  "st_op2 m w = map_option (\<lambda>(s, _). w\<lparr>aw_st := s\<rparr>) (succeeds m)"

lemma st_op_Some_iff [simp]:
  "st_op m w = Some w' \<longleftrightarrow> (\<exists>s. m = Inr s \<and> w' = w\<lparr>aw_st := s\<rparr>)"
  "st_op2 m2 w = Some w' \<longleftrightarrow> (\<exists>s r. m2 = Inr (s, r) \<and> w' = w\<lparr>aw_st := s\<rparr>)"
  by (auto simp: st_op_def st_op2_def)

fun ac_exec :: "env \<Rightarrow> ac_op \<Rightarrow> ac_world \<Rightarrow> ac_world option" where
  "ac_exec e (Ac_initialize a) w = st_op (ac_initialize e (aw_st w) a) w"
| "ac_exec e (Ac_pause a) w = st_op (pause e (aw_st w) a) w"
| "ac_exec e (Ac_unpause a) w = st_op (unpause e (aw_st w) a) w"
| "ac_exec e (Ac_emergency_pause a) w = st_op (emergency_pause_by_guardian e (aw_st w) a) w"
| "ac_exec e (Ac_grant_role a b r) w = st_op (grant_role e (aw_st w) a b r) w"
| "ac_exec e (Ac_revoke_role a b) w = st_op (revoke_role e (aw_st w) a b) w"
| "ac_exec e (Ac_transfer_admin a b) w = st_op (transfer_admin e (aw_st w) a b) w"
| "ac_exec e (Ac_rotate_admin a b) w = st_op (rotate_admin e (aw_st w) a b) w"
| "ac_exec e (Ac_cancel_admin_proposal a) w = st_op (cancel_admin_proposal e (aw_st w) a) w"
| "ac_exec e (Ac_configure_multisig a xs k) w = st_op (configure_multisig e (aw_st w) a xs k) w"
| "ac_exec e (Ac_set_dispute_resolution a b) w = st_op (set_dispute_resolution e (aw_st w) a b) w"
| "ac_exec e (Ac_propose_action a x) w = st_op2 (propose_action e (aw_st w) a x) w"
| "ac_exec e (Ac_approve_action a n) w = st_op (approve_action e (aw_st w) a n) w"
| "ac_exec e (Ac_execute_action a n) w = succeeds (execute_action e w a n)"
| "ac_exec e (Ac_cancel_action a n) w = st_op (cancel_action e (aw_st w) a n) w"
| "ac_exec e (Ac_execute_batch a ns) w = succeeds (execute_batch e w a ns)"
| "ac_exec e (Ac_propose_parameter a k v) w = st_op2 (propose_parameter_change e (aw_st w) a k v) w"
| "ac_exec e (Ac_vote_parameter a n) w = st_op (vote_parameter_change e (aw_st w) a n) w"
| "ac_exec e (Ac_execute_parameter a n) w = st_op (execute_parameter_change e (aw_st w) a n) w"
| "ac_exec e (Ac_cancel_parameter a n) w = st_op (cancel_parameter_change e (aw_st w) a n) w"
| "ac_exec e (Ac_submit_community a x d) w = st_op2 (submit_community_proposal e (aw_st w) a x d) w"
| "ac_exec e (Ac_sponsor_community a n) w = st_op2 (sponsor_community_proposal e (aw_st w) a n) w"
| "ac_exec e (Ac_propose_recovery a xs k) w = st_op2 (propose_signer_recovery e (aw_st w) a xs k) w"
| "ac_exec e (Ac_object_recovery a n) w = st_op (object_signer_recovery e (aw_st w) a n) w"
| "ac_exec e (Ac_execute_recovery a n) w = st_op (execute_signer_recovery e (aw_st w) a n) w"
| "ac_exec e (Ac_delegate_vote a b) w = st_op (delegate_vote e (aw_st w) a b) w"
| "ac_exec e (Ac_revoke_delegation a) w = st_op (revoke_delegation e (aw_st w) a) w"
| "ac_exec e (Ac_configure_terms a x y) w = st_op (configure_council_terms e (aw_st w) a x y) w"
| "ac_exec e (Ac_initiate_rotation a b c) w = st_op2 (initiate_council_rotation e (aw_st w) a b c) w"
| "ac_exec e (Ac_vote_rotation a n b) w = st_op (vote_council_rotation e (aw_st w) a n b) w"
| "ac_exec e (Ac_conclude_rotation a n) w = st_op (conclude_council_rotation e (aw_st w) a n) w"
| "ac_exec e (Ac_propose_upgrade a h) w = st_op (ac_propose_upgrade e (aw_st w) a h) w"
| "ac_exec e (Ac_execute_upgrade a) w = st_op2 (ac_execute_upgrade e (aw_st w) a) w"

inductive ac_runs :: "ac_world \<Rightarrow> ac_world \<Rightarrow> bool" where
  ac_none: "ac_runs w w"
| ac_step: "ac_runs w w1 \<Longrightarrow> ac_exec e c w1 = Some w2 \<Longrightarrow> ac_runs w w2"

definition ac_reachable :: "ac_world \<Rightarrow> bool" where
  "ac_reachable w \<longleftrightarrow> ac_runs \<lparr>aw_st = ac_empty, aw_calls = []\<rparr> w"

section \<open>The books\<close>

interpretation actions: ballot "\<lambda>s. first_id (ac_next_proposal s)" ac_proposal put_proposal
  "\<lambda>n p s. (put_proposal n p s)\<lparr>ac_next_proposal := Some (n + 1)\<rparr>" pr_approvals
  "\<lambda>p. (pr_id p, pr_action p)" "\<lambda>p. pr_executed p \<or> pr_cancelled p"
  by unfold_locales (simp_all add: put_proposal_def first_id_def)

interpretation params: ballot "\<lambda>s. first_id (ac_next_param s)" ac_param_proposal put_param_proposal
  "\<lambda>n p s. (put_param_proposal n p s)\<lparr>ac_next_param := Some (n + 1)\<rparr>" pa_approvals
  "\<lambda>p. (pa_key p, pa_new_value p)" "\<lambda>p. pa_executed p \<or> pa_cancelled p"
  by unfold_locales (simp_all add: put_param_proposal_def first_id_def)

interpretation recoveries: ballot "\<lambda>s. first_id (ac_next_recovery s)" ac_recovery put_recovery
  "\<lambda>n p s. (put_recovery n p s)\<lparr>ac_next_recovery := Some (n + 1)\<rparr>" rv_objections
  "\<lambda>p. (rv_new_signers p, rv_new_threshold p)" rv_executed
  by unfold_locales (simp_all add: put_recovery_def first_id_def)

interpretation elections: ballot "\<lambda>s. first_id (ac_next_election s)" ac_election put_election
  "\<lambda>n p s. (put_election n p s)\<lparr>ac_next_election := Some (n + 1)\<rparr>" ce_voters
  "\<lambda>p. (ce_current_seat p, ce_candidate p)" ce_concluded
  by unfold_locales (simp_all add: put_election_def first_id_def)

section \<open>What the calls leave alone\<close>

lemma ac_audited_Inr: "ac_audited e a x s = Inr s' \<Longrightarrow> \<exists>l. s' = s\<lparr>ac_audit := l\<rparr>"
  by (auto simp: ac_audited_def)

text \<open>The books and the multisig.\<close>

definition books where
  "books s = (ac_proposal s, ac_next_proposal s, ac_param_proposal s, ac_next_param s, ac_recovery s,
     ac_next_recovery s, ac_election s, ac_next_election s, ac_multisig s)"

lemma books_unrelated [simp]:
  "books (s\<lparr>ac_audit := l\<rparr>) = books s" "books (s\<lparr>ac_admin := a\<rparr>) = books s" "books (s\<lparr>ac_role := r\<rparr>) = books s"
  "books (s\<lparr>ac_paused := b\<rparr>) = books s" "books (s\<lparr>ac_members := m\<rparr>) = books s" "books (s\<lparr>ac_lock := k\<rparr>) = books s"
  "books (s\<lparr>ac_pending_rotation := pr\<rparr>) = books s" "books (s\<lparr>ac_param := pm\<rparr>) = books s"
  "books (s\<lparr>ac_community := cm\<rparr>) = books s" "books (s\<lparr>ac_delegated := dg\<rparr>) = books s"
  "books (s\<lparr>ac_delegators := ds\<rparr>) = books s" "books (s\<lparr>ac_upgrade := u\<rparr>) = books s"
  "books (s\<lparr>ac_last_pause := lp\<rparr>) = books s" "books (s\<lparr>ac_pause_initiator := pi\<rparr>) = books s"
  "books (s\<lparr>ac_cooldown := co\<rparr>) = books s" "books (s\<lparr>ac_next_community := nc\<rparr>) = books s"
  "books (s\<lparr>ac_term_length := tml\<rparr>) = books s" "books (s\<lparr>ac_grace := g\<rparr>) = books s"
  "books (s\<lparr>ac_pending_admin := pa\<rparr>) = books s" "books (s\<lparr>ac_dispute := di\<rparr>) = books s"
  "books (s\<lparr>ac_term_start := ts\<rparr>) = books s" "books (s\<lparr>ac_seat_election := se\<rparr>) = books s"
  by (simp_all add: books_def)

lemma books_helpers [simp]:
  "books (add_to_role_members r a s) = books s" "books (remove_from_role_members r a s) = books s"
  "books (put_role r a s) = books s" "books (hand_over a b s) = books s"
  "books (add_delegator d a s) = books s" "books (remove_delegator d a s) = books s"
  by (auto simp: add_to_role_members_def remove_from_role_members_def put_role_def hand_over_def
      add_delegator_def remove_delegator_def Let_def split: option.splits)

lemma audited_books: "ac_audited e a x s = Inr s' \<Longrightarrow> books s' = books s"
  by (auto dest: ac_audited_Inr)

lemma rotation_books: "execute_admin_rotation e x a p s = Inr s' \<Longrightarrow> books s' = books s"
  by (auto simp: execute_admin_rotation_def Let_def dest!: audited_books split: if_splits)

lemma apply_action_books:
  "apply_action e ca x p w = Inr w' \<Longrightarrow> books (aw_st w') = books (aw_st w)"
  by (auto simp: apply_action_def on_st_def Let_def dest!: rotation_books split: AdminAction.splits option.splits if_splits)

definition off_book :: "ac_op \<Rightarrow> bool" where
  "off_book c \<longleftrightarrow>
     (case c of
        Ac_configure_multisig a xs k \<Rightarrow> False | Ac_propose_action a x \<Rightarrow> False | Ac_approve_action a n \<Rightarrow> False
      | Ac_execute_action a n \<Rightarrow> False | Ac_cancel_action a n \<Rightarrow> False | Ac_execute_batch a ns \<Rightarrow> False
      | Ac_propose_parameter a k v \<Rightarrow> False | Ac_vote_parameter a n \<Rightarrow> False | Ac_execute_parameter a n \<Rightarrow> False
      | Ac_cancel_parameter a n \<Rightarrow> False | Ac_sponsor_community a n \<Rightarrow> False | Ac_propose_recovery a xs k \<Rightarrow> False
      | Ac_object_recovery a n \<Rightarrow> False | Ac_execute_recovery a n \<Rightarrow> False | Ac_initiate_rotation a b d \<Rightarrow> False
      | Ac_vote_rotation a n b \<Rightarrow> False | Ac_conclude_rotation a n \<Rightarrow> False | _ \<Rightarrow> True)"

lemma off_book_ops:
  "ac_initialize e s a = Inr s' \<Longrightarrow> books s' = books s"
  "pause e s a = Inr s' \<Longrightarrow> books s' = books s"
  "unpause e s a = Inr s' \<Longrightarrow> books s' = books s"
  "emergency_pause_by_guardian e s a = Inr s' \<Longrightarrow> books s' = books s"
  "grant_role e s a b r = Inr s' \<Longrightarrow> books s' = books s"
  "revoke_role e s a b = Inr s' \<Longrightarrow> books s' = books s"
  "transfer_admin e s a b = Inr s' \<Longrightarrow> books s' = books s"
  "rotate_admin e s a b = Inr s' \<Longrightarrow> books s' = books s"
  "cancel_admin_proposal e s a = Inr s' \<Longrightarrow> books s' = books s"
  "set_dispute_resolution e s a b = Inr s' \<Longrightarrow> books s' = books s"
  "submit_community_proposal e s a x d = Inr (s', n) \<Longrightarrow> books s' = books s"
  "delegate_vote e s a b = Inr s' \<Longrightarrow> books s' = books s"
  "revoke_delegation e s a = Inr s' \<Longrightarrow> books s' = books s"
  "configure_council_terms e s a y z = Inr s' \<Longrightarrow> books s' = books s"
  "ac_propose_upgrade e s a h = Inr s' \<Longrightarrow> books s' = books s"
  "ac_execute_upgrade e s a = Inr (s', h) \<Longrightarrow> books s' = books s"
  subgoal by (auto simp: ac_initialize_def)
  subgoal by (auto simp: pause_def ac_guarded_def ac_lockable.guard_Inr_iff dest!: audited_books)
  subgoal by (auto simp: unpause_def ac_guarded_def ac_lockable.guard_Inr_iff dest!: audited_books)
  subgoal by (auto simp: emergency_pause_by_guardian_def ac_guarded_def ac_lockable.guard_Inr_iff dest!: audited_books)
  subgoal by (auto simp: grant_role_def dest!: audited_books)
  subgoal by (auto simp: revoke_role_def Let_def dest!: audited_books)
  subgoal by (auto simp: transfer_admin_def dest!: audited_books)
  subgoal by (auto simp: rotate_admin_def dest!: audited_books)
  subgoal by (auto simp: cancel_admin_proposal_def)
  subgoal by (auto simp: set_dispute_resolution_def)
  subgoal by (auto simp: submit_community_proposal_def Let_def)
  subgoal by (auto simp: delegate_vote_def Let_def split: option.splits)
  subgoal by (auto simp: revoke_delegation_def Let_def)
  subgoal by (auto simp: configure_council_terms_def)
  subgoal by (auto simp: ac_propose_upgrade_def dest!: audited_books)
  subgoal by (auto simp: ac_execute_upgrade_def dest!: audited_books)
  done

lemma off_book_exec:
  assumes "ac_exec e c w = Some w'" "off_book c" shows "books (aw_st w') = books (aw_st w)"
  using assms by (cases c) (auto simp: off_book_def dest: off_book_ops)

section \<open>Steps of the books\<close>

definition books_step :: "ac_state \<Rightarrow> ac_state \<Rightarrow> bool" where
  "books_step s s' \<longleftrightarrow> actions.book_step s s' \<and> params.book_step s s' \<and> recoveries.book_step s s' \<and> elections.book_step s s'"

lemma books_step_same: "books s' = books s \<Longrightarrow> books_step s s'"
  by (simp add: books_step_def books_def actions.same_step params.same_step recoveries.same_step elections.same_step)

lemma books_step_trans: "books_step s t \<Longrightarrow> books_step t u \<Longrightarrow> books_step s u"
  by (auto simp: books_step_def intro: actions.book_step_trans params.book_step_trans
      recoveries.book_step_trans elections.book_step_trans)

lemma put_steps:
  "ac_proposal s n = Some p \<Longrightarrow> (distinct (pr_approvals p) \<Longrightarrow> distinct (pr_approvals p')) \<Longrightarrow>
     pr_id p' = pr_id p \<Longrightarrow> pr_action p' = pr_action p \<Longrightarrow>
     (pr_executed p \<or> pr_cancelled p \<Longrightarrow> pr_executed p' \<or> pr_cancelled p') \<Longrightarrow> books_step s (put_proposal n p' s)"
  "ac_param_proposal s n = Some q \<Longrightarrow> (distinct (pa_approvals q) \<Longrightarrow> distinct (pa_approvals q')) \<Longrightarrow>
     pa_key q' = pa_key q \<Longrightarrow> pa_new_value q' = pa_new_value q \<Longrightarrow>
     (pa_executed q \<or> pa_cancelled q \<Longrightarrow> pa_executed q' \<or> pa_cancelled q') \<Longrightarrow> books_step s (put_param_proposal n q' s)"
  "ac_recovery s n = Some r \<Longrightarrow> (distinct (rv_objections r) \<Longrightarrow> distinct (rv_objections r')) \<Longrightarrow>
     rv_new_signers r' = rv_new_signers r \<Longrightarrow> rv_new_threshold r' = rv_new_threshold r \<Longrightarrow>
     (rv_executed r \<Longrightarrow> rv_executed r') \<Longrightarrow> books_step s (put_recovery n r' s)"
  "ac_election s n = Some x \<Longrightarrow> (distinct (ce_voters x) \<Longrightarrow> distinct (ce_voters x')) \<Longrightarrow>
     ce_current_seat x' = ce_current_seat x \<Longrightarrow> ce_candidate x' = ce_candidate x \<Longrightarrow>
     (ce_concluded x \<Longrightarrow> ce_concluded x') \<Longrightarrow> books_step s (put_election n x' s)"
  unfolding books_step_def
  subgoal by (intro conjI actions.put_step[of s n p] params.same_step recoveries.same_step elections.same_step)
      (simp_all add: put_proposal_def)
  subgoal by (intro conjI params.put_step[of s n q] actions.same_step recoveries.same_step elections.same_step)
      (simp_all add: put_param_proposal_def)
  subgoal by (intro conjI recoveries.put_step[of s n r] params.same_step actions.same_step elections.same_step)
      (simp_all add: put_recovery_def)
  subgoal by (intro conjI elections.put_step[of s n x] params.same_step recoveries.same_step actions.same_step)
      (simp_all add: put_election_def)
  done

lemma open_steps:
  "distinct (pr_approvals p) \<Longrightarrow> books_step s
     ((put_proposal (first_id (ac_next_proposal s)) p s)\<lparr>ac_next_proposal := Some (Suc (first_id (ac_next_proposal s)))\<rparr>)"
  "distinct (pa_approvals q) \<Longrightarrow> books_step s
     ((put_param_proposal (first_id (ac_next_param s)) q s)\<lparr>ac_next_param := Some (Suc (first_id (ac_next_param s)))\<rparr>)"
  "distinct (rv_objections r) \<Longrightarrow> books_step s
     ((put_recovery (first_id (ac_next_recovery s)) r s)\<lparr>ac_next_recovery := Some (Suc (first_id (ac_next_recovery s)))\<rparr>)"
  "distinct (ce_voters x) \<Longrightarrow> books_step s
     ((put_election (first_id (ac_next_election s)) x s)\<lparr>ac_next_election := Some (Suc (first_id (ac_next_election s)))\<rparr>)"
  unfolding books_step_def Suc_eq_plus1
  subgoal by (intro conjI actions.open_step params.same_step recoveries.same_step elections.same_step)
      (simp_all add: put_proposal_def)
  subgoal by (intro conjI params.open_step actions.same_step recoveries.same_step elections.same_step)
      (simp_all add: put_param_proposal_def)
  subgoal by (intro conjI recoveries.open_step params.same_step actions.same_step elections.same_step)
      (simp_all add: put_recovery_def)
  subgoal by (intro conjI elections.open_step params.same_step recoveries.same_step actions.same_step)
      (simp_all add: put_election_def)
  done

text \<open>A step up to fields outside the books.\<close>

lemma books_step_frame: "books_step s t \<Longrightarrow> books u = books t \<Longrightarrow> books_step s u"
  by (rule books_step_trans[OF _ books_step_same])

lemma multisig_unrelated: "books_step s t \<Longrightarrow> books_step s (t\<lparr>ac_multisig := m\<rparr>)"
  by (simp add: books_step_def actions.book_step_def params.book_step_def recoveries.book_step_def elections.book_step_def
      actions.book_ok_def params.book_ok_def recoveries.book_ok_def elections.book_ok_def
      actions.book_kept_def params.book_kept_def recoveries.book_kept_def elections.book_kept_def)

lemma pending_Inr [simp]:
  "pending_proposal s n = Inr p \<longleftrightarrow> ac_proposal s n = Some p \<and> \<not> pr_executed p \<and> \<not> pr_cancelled p"
  "live_proposal e s n = Inr p \<longleftrightarrow> ac_proposal s n = Some p \<and> in_flight e p"
  "pending_param s n = Inr q \<longleftrightarrow> ac_param_proposal s n = Some q \<and> \<not> pa_executed q \<and> \<not> pa_cancelled q"
  "open_recovery s n = Inr r \<longleftrightarrow> ac_recovery s n = Some r \<and> \<not> rv_executed r"
  "open_election s n = Inr x \<longleftrightarrow> ac_election s n = Some x \<and> \<not> ce_concluded x"
  "require_quorum cfg p = Inr u \<longleftrightarrow> ms_threshold cfg \<le> valid_count cfg p"
  by (auto simp: pending_proposal_def live_proposal_def in_flight_def pending_param_def open_recovery_def
      open_election_def require_quorum_def not_less split: if_splits)

lemma supersede_step: "books_step s (supersede_pending_admin_rotation e n s)"
proof -
  have "books_step s (s\<lparr>ac_pending_rotation := k\<rparr>)" for k by (rule books_step_same) simp
  moreover have "books_step s (put_proposal old (p\<lparr>pr_cancelled := True\<rparr>) s)" if "ac_proposal s old = Some p" for old p
    using that by (rule put_steps(1)) auto
  ultimately show ?thesis
    by (auto simp: supersede_pending_admin_rotation_def Let_def put_proposal_def[symmetric]
        intro: books_step_frame[OF _ books_unrelated(7)] split: option.splits)
qed

lemma supersede_next [simp]: "ac_next_proposal (supersede_pending_admin_rotation e n s) = ac_next_proposal s"
  by (auto simp: supersede_pending_admin_rotation_def Let_def split: option.splits)

lemma open_proposal_step:
  assumes "open_proposal e action proposer a (first_id (ac_next_proposal s)) s = Inr s'"
  shows "books_step s s'"
  using assms by (auto simp: open_proposal_def intro: open_steps(1))

lemma propose_action_step: "propose_action e s a x = Inr (s', n) \<Longrightarrow> books_step s s'"
  by (cases x) (auto simp: propose_action_def Let_def intro: open_proposal_step
      books_step_trans[OF supersede_step open_proposal_step])

lemma sponsor_step: "sponsor_community_proposal e s a c = Inr (s', n) \<Longrightarrow> books_step s s'"
  by (auto simp: sponsor_community_proposal_def Let_def intro: books_step_frame[OF open_proposal_step])

lemma signer_steps:
  "approve_action e s a n = Inr s' \<Longrightarrow> books_step s s'"
  "cancel_action e s a n = Inr s' \<Longrightarrow> books_step s s'"
  "vote_parameter_change e s a n = Inr s' \<Longrightarrow> books_step s s'"
  "cancel_parameter_change e s a n = Inr s' \<Longrightarrow> books_step s s'"
  "object_signer_recovery e s a n = Inr s' \<Longrightarrow> books_step s s'"
  by (auto simp: approve_action_def cancel_action_def vote_parameter_change_def cancel_parameter_change_def
      object_signer_recovery_def split: if_splits intro: put_steps)

lemma propose_parameter_step: "propose_parameter_change e s a k v = Inr (s', n) \<Longrightarrow> books_step s s'"
  by (auto simp: propose_parameter_change_def Let_def dest!: audited_books intro!: books_step_frame[OF open_steps(2)])

lemma execute_parameter_step:
  assumes "execute_parameter_change e s a n = Inr s'" shows "books_step s s'"
proof -
  from assms obtain p where p: "ac_param_proposal s n = Some p"
    and b: "books s' = books (put_param_proposal n (p\<lparr>pa_executed := True\<rparr>) s)"
    by (auto simp: execute_parameter_change_def Let_def split: if_splits dest!: audited_books)
  show ?thesis by (rule books_step_frame[OF _ b], rule put_steps(2)[OF p]) auto
qed

lemma propose_recovery_step: "propose_signer_recovery e s a xs k = Inr (s', n) \<Longrightarrow> books_step s s'"
  by (auto simp: propose_signer_recovery_def Let_def split: if_splits dest!: audited_books
      intro!: books_step_frame[OF open_steps(3)])

lemma execute_recovery_step:
  assumes "execute_signer_recovery e s a n = Inr s'" shows "books_step s s'"
proof -
  from assms obtain p where p: "ac_recovery s n = Some p"
    and b: "books s' = books ((put_recovery n (p\<lparr>rv_executed := True\<rparr>) s)
       \<lparr>ac_multisig := Some \<lparr>ms_threshold = rv_new_threshold p, ms_signers = rv_new_signers p\<rparr>\<rparr>)"
    by (auto simp: execute_signer_recovery_def split: if_splits dest!: audited_books)
  show ?thesis by (rule books_step_frame[OF multisig_unrelated b], rule put_steps(3)[OF p]) auto
qed

lemma configure_step: "configure_multisig e s a xs k = Inr s' \<Longrightarrow> books_step s s'"
proof -
  assume "configure_multisig e s a xs k = Inr s'"
  then have b: "books s' = books ((if ac_next_proposal s = None then s\<lparr>ac_next_proposal := Some 1\<rparr> else s)
      \<lparr>ac_multisig := Some \<lparr>ms_threshold = k, ms_signers = xs\<rparr>\<rparr>)"
    by (auto simp: configure_multisig_def Let_def dest!: audited_books) (simp add: books_def)
  have "books_step s (if ac_next_proposal s = None then s\<lparr>ac_next_proposal := Some 1\<rparr> else s)"
    unfolding books_step_def
    by (intro conjI actions.same_step params.same_step recoveries.same_step elections.same_step)
      (auto simp: first_id_def)
  from books_step_frame[OF multisig_unrelated[OF this] b] show ?thesis .
qed

lemma initiate_step:
  assumes "initiate_council_rotation e s a b c = Inr (s', n)" shows "books_step s s'"
proof -
  let ?x = "\<lparr>ce_election_id = n, ce_current_seat = b, ce_candidate = c, ce_initiated_at = timestamp e,
    ce_votes_for = 1, ce_votes_against = 0, ce_voters = [a], ce_concluded = False, ce_confirmed = False\<rparr>"
  have b: "books s' = books ((put_election (first_id (ac_next_election s)) ?x s)
      \<lparr>ac_next_election := Some (Suc (first_id (ac_next_election s)))\<rparr>)"
    using assms by (auto simp: initiate_council_rotation_def Let_def books_def put_election_def)
  show ?thesis by (rule books_step_frame[OF open_steps(4) b]) simp
qed

lemma vote_rotation_step: "vote_council_rotation e s a n b = Inr s' \<Longrightarrow> books_step s s'"
  by (auto simp: vote_council_rotation_def Let_def split: if_splits intro!: put_steps(4))

lemma conclude_step:
  assumes "conclude_council_rotation e s a n = Inr s'" shows "books_step s s'"
proof -
  from assms obtain x b m where x: "ac_election s n = Some x"
    and s': "books s' = books ((put_election n (x\<lparr>ce_concluded := True, ce_confirmed := b\<rparr>) s)\<lparr>ac_multisig := m\<rparr>)"
    by (auto simp: conclude_council_rotation_def Let_def split: if_splits)
      (auto simp: books_def put_election_def)
  show ?thesis by (rule books_step_frame[OF multisig_unrelated s'], rule put_steps(4)[OF x]) auto
qed

lemma execute_action_Inr:
  assumes "execute_action e w a n = Inr w'"
  obtains cfg p ca w1 l where "authorised e a" "ac_multisig (aw_st w) = Some cfg" "a \<in> set (ms_signers cfg)"
    "ac_proposal (aw_st w) n = Some p" "in_flight e p" "ms_threshold cfg \<le> valid_count cfg p"
    "ac_admin (aw_st w) = Some ca"
    "apply_action e ca a (p\<lparr>pr_executed := True\<rparr>) (w\<lparr>aw_st := put_proposal n (p\<lparr>pr_executed := True\<rparr>) (aw_st w)\<rparr>) = Inr w1"
    "w' = w1\<lparr>aw_st := (aw_st w1)\<lparr>ac_audit := l\<rparr>\<rparr>"
  using assms
  by (auto simp: execute_action_def Let_def on_st_def put_proposal_def dest!: ac_audited_Inr)

lemma execute_action_step: "execute_action e w a n = Inr w' \<Longrightarrow> books_step (aw_st w) (aw_st w')"
proof (erule execute_action_Inr)
  fix cfg p ca w1 l
  assume p: "ac_proposal (aw_st w) n = Some p"
    and w1: "apply_action e ca a (p\<lparr>pr_executed := True\<rparr>) (w\<lparr>aw_st := put_proposal n (p\<lparr>pr_executed := True\<rparr>) (aw_st w)\<rparr>) = Inr w1"
    and w': "w' = w1\<lparr>aw_st := (aw_st w1)\<lparr>ac_audit := l\<rparr>\<rparr>"
  have "books_step (aw_st w) (put_proposal n (p\<lparr>pr_executed := True\<rparr>) (aw_st w))"
    by (rule put_steps(1)[OF p]) auto
  then show ?thesis by (rule books_step_frame) (use apply_action_books[OF w1] w' in simp)
qed

text \<open>Batches work on copies made before the first action ran.\<close>

definition copies_of :: "ac_state \<Rightarrow> (u64 \<times> Proposal) list \<Rightarrow> bool" where
  "copies_of s ps \<longleftrightarrow> (\<forall>n p. (n, p) \<in> set ps \<longrightarrow> distinct (pr_approvals p) \<and>
     (\<exists>q. ac_proposal s n = Some q \<and> pr_id q = pr_id p \<and> pr_action q = pr_action p))"

lemma books_proposal: "books s = books t \<Longrightarrow> ac_proposal s = ac_proposal t"
  by (simp add: books_def)

lemma run_batch_step:
  "run_batch e ca x ps w = Inr w' \<Longrightarrow> copies_of (aw_st w) ps \<Longrightarrow>
     books_step (aw_st w) (aw_st w') \<and>
     (\<forall>n\<in>fst ` set ps. \<exists>q. ac_proposal (aw_st w') n = Some q \<and> pr_executed q) \<and>
     (\<forall>n q. ac_proposal (aw_st w) n = Some q \<and> pr_executed q \<longrightarrow>
        (\<exists>q'. ac_proposal (aw_st w') n = Some q' \<and> pr_executed q'))"
proof (induction ps arbitrary: w)
  case (Cons a ps)
  obtain n p where a: "a = (n, p)" by (cases a)
  let ?s = "put_proposal n (p\<lparr>pr_executed := True\<rparr>) (aw_st w)"
  from Cons.prems(1) obtain w1 where act: "apply_action e ca x (p\<lparr>pr_executed := True\<rparr>) (w\<lparr>aw_st := ?s\<rparr>) = Inr w1"
    and rest: "run_batch e ca x ps w1 = Inr w'" by (auto simp: a Let_def)
  from Cons.prems(2) obtain q where q: "ac_proposal (aw_st w) n = Some q" "pr_id q = pr_id p" "pr_action q = pr_action p"
    "distinct (pr_approvals p)" by (auto simp: copies_of_def a)
  have b: "books (aw_st w1) = books ?s" using apply_action_books[OF act] by simp
  note pr = books_proposal[OF b]
  have one: "books_step (aw_st w) (aw_st w1)"
    by (rule books_step_frame[OF _ b], rule put_steps(1)[OF q(1)]) (use q in auto)
  have "copies_of (aw_st w1) ps"
    using Cons.prems(2) q by (fastforce simp: copies_of_def a pr put_proposal_def)
  note ih = Cons.IH[OF rest this]
  have exec: "\<exists>q'. ac_proposal (aw_st w') m = Some q' \<and> pr_executed q'"
    if "m = n \<or> (\<exists>q. ac_proposal (aw_st w) m = Some q \<and> pr_executed q)" for m
  proof -
    from that have "\<exists>q. ac_proposal (aw_st w1) m = Some q \<and> pr_executed q"
      by (auto simp: pr put_proposal_def)
    with ih show ?thesis by blast
  qed
  with one ih show ?case by (auto simp: a intro: books_step_trans)
qed (simp add: books_step_same copies_of_def)

lemma check_batch_Inr:
  "check_batch_proposals e s cfg batch ns = Inr ps \<Longrightarrow>
     \<exists>qs. ps = batch @ qs \<and> length qs = length ns \<and>
       (\<forall>(n, p)\<in>set (zip ns qs). ac_proposal s n = Some p \<and> in_flight e p \<and> ms_threshold cfg \<le> valid_count cfg p)"
proof (induction ns arbitrary: batch)
  case (Cons n ns)
  from Cons.prems obtain p where p: "ac_proposal s n = Some p" "in_flight e p" "ms_threshold cfg \<le> valid_count cfg p"
    and rest: "check_batch_proposals e s cfg (batch @ [p]) ns = Inr ps" by auto
  from Cons.IH[OF rest] obtain qs where "ps = batch @ p # qs" "length qs = length ns"
    "\<forall>(n, p)\<in>set (zip ns qs). ac_proposal s n = Some p \<and> in_flight e p \<and> ms_threshold cfg \<le> valid_count cfg p" by auto
  with p show ?case by (intro exI[of _ "p # qs"]) auto
qed simp

lemma execute_batch_Inr:
  assumes "execute_batch e w a ns = Inr w'"
  obtains cfg ps ca w1 l where "authorised e a" "ac_multisig (aw_st w) = Some cfg" "a \<in> set (ms_signers cfg)"
    "length ps = length ns"
    "\<forall>(n, p)\<in>set (zip ns ps). ac_proposal (aw_st w) n = Some p \<and> in_flight e p \<and> ms_threshold cfg \<le> valid_count cfg p"
    "ac_admin (aw_st w) = Some ca" "run_batch e ca a (zip ns ps) w = Inr w1"
    "w' = w1\<lparr>aw_st := (aw_st w1)\<lparr>ac_audit := l\<rparr>\<rparr>"
  using assms by (fastforce simp: execute_batch_def on_st_def dest!: ac_audited_Inr check_batch_Inr)

lemma execute_batch_step:
  assumes "execute_batch e w a ns = Inr w'" "actions.book_ok (aw_st w)"
  shows "books_step (aw_st w) (aw_st w') \<and> (\<forall>n\<in>set ns. \<exists>q. ac_proposal (aw_st w') n = Some q \<and> pr_executed q)"
  using assms(1)
proof (rule execute_batch_Inr)
  fix cfg ps ca w1 l
  assume len: "length ps = length ns"
    and ps: "\<forall>(n, p)\<in>set (zip ns ps). ac_proposal (aw_st w) n = Some p \<and> in_flight e p \<and> ms_threshold cfg \<le> valid_count cfg p"
    and run: "run_batch e ca a (zip ns ps) w = Inr w1" and w': "w' = w1\<lparr>aw_st := (aw_st w1)\<lparr>ac_audit := l\<rparr>\<rparr>"
  have "copies_of (aw_st w) (zip ns ps)" using ps assms(2) by (auto simp: copies_of_def actions.book_ok_def)
  moreover have "fst ` set (zip ns ps) = set ns" using len by (metis list.set_map map_fst_zip)
  ultimately show ?thesis using run_batch_step[OF run] w'
    by (auto intro: books_step_frame)
qed

section \<open>The invariant\<close>

definition multisig_ok :: "MultisigConfig \<Rightarrow> bool" where
  "multisig_ok cfg \<longleftrightarrow> 1 \<le> ms_threshold cfg \<and> ms_threshold cfg \<le> length (ms_signers cfg)"

definition recovery_ok :: "RecoveryProposal \<Rightarrow> bool" where
  "recovery_ok r \<longleftrightarrow> 1 \<le> rv_new_threshold r \<and> rv_new_threshold r \<le> length (rv_new_signers r)"

definition stored_ok :: "ac_state \<Rightarrow> bool" where
  "stored_ok s \<longleftrightarrow> (\<forall>cfg. ac_multisig s = Some cfg \<longrightarrow> multisig_ok cfg) \<and>
     (\<forall>n r. ac_recovery s n = Some r \<longrightarrow> recovery_ok r) \<and> (\<forall>n p. ac_proposal s n = Some p \<longrightarrow> pr_id p = n)"

definition books_ok :: "ac_state \<Rightarrow> bool" where
  "books_ok s \<longleftrightarrow> actions.book_ok s \<and> params.book_ok s \<and> recoveries.book_ok s \<and> elections.book_ok s"

definition ac_inv :: "ac_state \<Rightarrow> bool" where
  "ac_inv s \<longleftrightarrow> books_ok s \<and> stored_ok s \<and> (ac_multisig s \<noteq> None \<longrightarrow> ac_admin s \<noteq> None)"

lemma stored_ok_books: "books s' = books s \<Longrightarrow> stored_ok s' = stored_ok s"
  by (simp add: books_def stored_ok_def)

text \<open>The calls that change what is stored, one by one.\<close>

lemma put_stored:
  "stored_ok s \<Longrightarrow> pr_id p = n \<Longrightarrow> stored_ok (put_proposal n p s)"
  "stored_ok s \<Longrightarrow> stored_ok (put_param_proposal n q s)"
  "stored_ok s \<Longrightarrow> recovery_ok r \<Longrightarrow> stored_ok (put_recovery n r s)"
  "stored_ok s \<Longrightarrow> stored_ok (put_election n x s)"
  by (auto simp: stored_ok_def put_proposal_def put_param_proposal_def put_recovery_def put_election_def)

lemma next_stored [simp]:
  "stored_ok (s\<lparr>ac_next_proposal := a\<rparr>) = stored_ok s" "stored_ok (s\<lparr>ac_next_param := b\<rparr>) = stored_ok s"
  "stored_ok (s\<lparr>ac_next_recovery := c\<rparr>) = stored_ok s" "stored_ok (s\<lparr>ac_next_election := d\<rparr>) = stored_ok s"
  "stored_ok (s\<lparr>ac_multisig := Some cfg\<rparr>) = (stored_ok (s\<lparr>ac_multisig := None\<rparr>) \<and> multisig_ok cfg)"
  by (auto simp: stored_ok_def)

lemma stored_drop: "stored_ok s \<Longrightarrow> stored_ok (s\<lparr>ac_multisig := None\<rparr>)"
  by (simp add: stored_ok_def)

lemma stored_reads:
  "stored_ok s \<Longrightarrow> ac_proposal s n = Some p \<Longrightarrow> pr_id p = n"
  "stored_ok s \<Longrightarrow> ac_recovery s n = Some r \<Longrightarrow> recovery_ok r"
  "stored_ok s \<Longrightarrow> ac_multisig s = Some cfg \<Longrightarrow> multisig_ok cfg"
  by (auto simp: stored_ok_def)

lemma supersede_stored: "stored_ok s \<Longrightarrow> stored_ok (supersede_pending_admin_rotation e n s)"
  by (auto simp: supersede_pending_admin_rotation_def Let_def stored_ok_def split: option.splits)

lemma open_proposal_stored: "open_proposal e x a b n s = Inr s' \<Longrightarrow> stored_ok s \<Longrightarrow> stored_ok s'"
  by (auto simp: open_proposal_def intro!: put_stored)

lemma run_batch_stored:
  "run_batch e ca x ps w = Inr w' \<Longrightarrow> stored_ok (aw_st w) \<Longrightarrow> \<forall>(n, p)\<in>set ps. pr_id p = n \<Longrightarrow> stored_ok (aw_st w')"
proof (induction ps arbitrary: w)
  case (Cons a ps)
  then show ?case
    by (cases a) (auto simp: Let_def stored_ok_books[OF apply_action_books] intro!: Cons.IH put_stored(1))
qed simp

lemma conclude_multisig:
  assumes "conclude_council_rotation e s a n = Inr s'"
  shows "ac_multisig s' = ac_multisig s \<or>
    (\<exists>cfg xs. ac_multisig s = Some cfg \<and> ac_multisig s' = Some (cfg\<lparr>ms_signers := xs\<rparr>) \<and> ms_threshold cfg \<le> length xs)"
  using assms by (auto simp: conclude_council_rotation_def Let_def put_election_def split: if_splits)

lemma stored_ops:
  "propose_action e s a x = Inr (s', n) \<Longrightarrow> stored_ok s \<Longrightarrow> stored_ok s'"
  "sponsor_community_proposal e s a c = Inr (s', n) \<Longrightarrow> stored_ok s \<Longrightarrow> stored_ok s'"
  "approve_action e s a n = Inr s' \<Longrightarrow> stored_ok s \<Longrightarrow> stored_ok s'"
  "cancel_action e s a n = Inr s' \<Longrightarrow> stored_ok s \<Longrightarrow> stored_ok s'"
  "propose_parameter_change e s a k v = Inr (s', n) \<Longrightarrow> stored_ok s \<Longrightarrow> stored_ok s'"
  "vote_parameter_change e s a n = Inr s' \<Longrightarrow> stored_ok s \<Longrightarrow> stored_ok s'"
  "execute_parameter_change e s a n = Inr s' \<Longrightarrow> stored_ok s \<Longrightarrow> stored_ok s'"
  "cancel_parameter_change e s a n = Inr s' \<Longrightarrow> stored_ok s \<Longrightarrow> stored_ok s'"
  "propose_signer_recovery e s a xs m = Inr (s', n) \<Longrightarrow> stored_ok s \<Longrightarrow> stored_ok s'"
  "object_signer_recovery e s a n = Inr s' \<Longrightarrow> stored_ok s \<Longrightarrow> stored_ok s'"
  "execute_signer_recovery e s a n = Inr s' \<Longrightarrow> stored_ok s \<Longrightarrow> stored_ok s'"
  "configure_multisig e s a xs m = Inr s' \<Longrightarrow> stored_ok s \<Longrightarrow> stored_ok s'"
  "initiate_council_rotation e s a b d = Inr (s', n) \<Longrightarrow> stored_ok s \<Longrightarrow> stored_ok s'"
  "vote_council_rotation e s a n su = Inr s' \<Longrightarrow> stored_ok s \<Longrightarrow> stored_ok s'"
  "conclude_council_rotation e s a n = Inr s' \<Longrightarrow> stored_ok s \<Longrightarrow> stored_ok s'"
  subgoal by (cases x) (auto simp: propose_action_def Let_def intro: open_proposal_stored supersede_stored)
  subgoal by (auto simp: sponsor_community_proposal_def Let_def stored_ok_books[of "s\<lparr>ac_community := cc\<rparr>" s for s cc]
        dest: open_proposal_stored)
  subgoal by (auto simp: approve_action_def intro!: put_stored dest: stored_reads(1))
  subgoal by (auto simp: cancel_action_def intro!: put_stored dest: stored_reads(1))
  subgoal by (auto simp: propose_parameter_change_def Let_def stored_ok_books[OF audited_books] intro!: put_stored)
  subgoal by (auto simp: vote_parameter_change_def intro!: put_stored)
  subgoal by (auto simp: execute_parameter_change_def Let_def stored_ok_books[OF audited_books]
        stored_ok_books[of "s\<lparr>ac_param := cc\<rparr>" s for s cc] intro!: put_stored)
  subgoal by (auto simp: cancel_parameter_change_def intro!: put_stored)
  subgoal by (auto simp: propose_signer_recovery_def Let_def stored_ok_books[OF audited_books] recovery_ok_def
        intro!: put_stored)
  subgoal by (auto simp: object_signer_recovery_def recovery_ok_def intro!: put_stored dest: stored_reads(2))
  subgoal premises prems
  proof -
    from prems(1) obtain r where r: "ac_recovery s n = Some r"
      and b: "books s' = books ((put_recovery n (r\<lparr>rv_executed := True\<rparr>) s)
        \<lparr>ac_multisig := Some \<lparr>ms_threshold = rv_new_threshold r, ms_signers = rv_new_signers r\<rparr>\<rparr>)"
      by (auto simp: execute_signer_recovery_def dest!: audited_books)
    from stored_reads(2)[OF prems(2) r] show ?thesis
      by (auto simp: stored_ok_books[OF b] recovery_ok_def multisig_ok_def prems intro!: stored_drop put_stored)
  qed
  subgoal by (auto simp: configure_multisig_def Let_def stored_ok_books[OF audited_books] multisig_ok_def
        intro!: stored_drop)
  subgoal by (auto simp: initiate_council_rotation_def Let_def
        stored_ok_books[of "s\<lparr>ac_seat_election := cc\<rparr>" s for s cc] intro!: put_stored)
  subgoal by (auto simp: vote_council_rotation_def Let_def intro!: put_stored split: if_splits)
  subgoal premises prems
  proof -
    have "ac_recovery s' = ac_recovery s" "ac_proposal s' = ac_proposal s"
      using prems(1) by (auto simp: conclude_council_rotation_def Let_def put_election_def split: if_splits)
    with conclude_multisig[OF prems(1)] prems(2) show ?thesis by (auto simp: stored_ok_def multisig_ok_def)
  qed
  done

lemma execute_stored:
  "execute_action e w a n = Inr w' \<Longrightarrow> stored_ok (aw_st w) \<Longrightarrow> stored_ok (aw_st w')"
  "execute_batch e w a ns = Inr w' \<Longrightarrow> stored_ok (aw_st w) \<Longrightarrow> stored_ok (aw_st w')"
  subgoal by (erule execute_action_Inr)
      (auto simp: stored_ok_books[OF apply_action_books] stored_ok_books[of "s\<lparr>ac_audit := l\<rparr>" s for s l]
        intro!: put_stored dest: stored_reads(1))
  subgoal by (erule execute_batch_Inr)
      (auto simp: stored_ok_books[of "s\<lparr>ac_audit := l\<rparr>" s for s l] dest!: run_batch_stored intro: stored_reads(1))
  done

text \<open>The multisig is set up by the admin or by the signers, and the admin is never removed.\<close>

lemma apply_action_admin:
  "apply_action e ca x p w = Inr w' \<Longrightarrow> ac_admin (aw_st w) \<noteq> None \<Longrightarrow> ac_admin (aw_st w') \<noteq> None"
  by (auto simp: apply_action_def on_st_def Let_def put_role_def add_to_role_members_def remove_from_role_members_def
      execute_admin_rotation_def hand_over_def dest!: ac_audited_Inr split: AdminAction.splits option.splits if_splits)

lemma run_batch_admin:
  "run_batch e ca x ps w = Inr w' \<Longrightarrow> ac_admin (aw_st w) \<noteq> None \<Longrightarrow> ac_admin (aw_st w') \<noteq> None"
proof (induction ps arbitrary: w)
  case (Cons a ps)
  obtain n p where a: "a = (n, p)" by (cases a)
  from Cons.prems(1) obtain w1 where act: "apply_action e ca x (p\<lparr>pr_executed := True\<rparr>)
      (w\<lparr>aw_st := put_proposal n (p\<lparr>pr_executed := True\<rparr>) (aw_st w)\<rparr>) = Inr w1"
    and rest: "run_batch e ca x ps w1 = Inr w'" by (auto simp: a Let_def)
  from apply_action_admin[OF act] Cons.prems(2) have "ac_admin (aw_st w1) \<noteq> None" by (simp add: put_proposal_def)
  from Cons.IH[OF rest this] show ?case .
qed simp

text \<open>The pause flag, the admin, the roles and their members: the authority of the contract.\<close>

definition authority where
  "authority s = (ac_is_paused s, ac_admin s, ac_role s, ac_members s)"

lemma authority_unrelated [simp]:
  "authority (s\<lparr>ac_audit := l\<rparr>) = authority s" "authority (s\<lparr>ac_lock := k\<rparr>) = authority s"
  "authority (s\<lparr>ac_pending_rotation := pr\<rparr>) = authority s"
  "authority (s\<lparr>ac_multisig := ms\<rparr>) = authority s" "authority (s\<lparr>ac_param := pm\<rparr>) = authority s"
  "authority (s\<lparr>ac_community := cm\<rparr>) = authority s" "authority (s\<lparr>ac_delegated := dg\<rparr>) = authority s"
  "authority (s\<lparr>ac_delegators := ds\<rparr>) = authority s" "authority (s\<lparr>ac_upgrade := u\<rparr>) = authority s"
  "authority (s\<lparr>ac_cooldown := co\<rparr>) = authority s" "authority (s\<lparr>ac_next_community := nc\<rparr>) = authority s"
  "authority (s\<lparr>ac_term_length := tml\<rparr>) = authority s" "authority (s\<lparr>ac_grace := g\<rparr>) = authority s"
  "authority (s\<lparr>ac_pending_admin := pa\<rparr>) = authority s" "authority (s\<lparr>ac_dispute := di\<rparr>) = authority s"
  "authority (s\<lparr>ac_term_start := ts\<rparr>) = authority s" "authority (s\<lparr>ac_seat_election := se\<rparr>) = authority s"
  "authority (s\<lparr>ac_next_proposal := n1\<rparr>) = authority s" "authority (s\<lparr>ac_next_param := n2\<rparr>) = authority s"
  "authority (s\<lparr>ac_next_recovery := n3\<rparr>) = authority s" "authority (s\<lparr>ac_next_election := n4\<rparr>) = authority s"
  "authority (put_proposal n p s) = authority s" "authority (put_param_proposal n q s) = authority s"
  "authority (put_recovery n r s) = authority s" "authority (put_election n x s) = authority s"
  "authority (supersede_pending_admin_rotation e n s) = authority s"
  "authority (add_delegator d a s) = authority s" "authority (remove_delegator d a s) = authority s"
  by (auto simp: authority_def ac_is_paused_def put_proposal_def put_param_proposal_def put_recovery_def put_election_def
      supersede_pending_admin_rotation_def add_delegator_def remove_delegator_def Let_def split: option.splits)

lemma audited_authority: "ac_audited e a x s = Inr s' \<Longrightarrow> authority s' = authority s \<and> ac_multisig s' = ac_multisig s"
  by (auto dest!: ac_audited_Inr)

text \<open>The calls that never touch the authority.\<close>

definition governs :: "ac_op \<Rightarrow> bool" where
  "governs c \<longleftrightarrow>
     (case c of
        Ac_initialize a \<Rightarrow> True | Ac_pause a \<Rightarrow> True | Ac_unpause a \<Rightarrow> True | Ac_emergency_pause a \<Rightarrow> True
      | Ac_grant_role a b r \<Rightarrow> True | Ac_revoke_role a b \<Rightarrow> True | Ac_transfer_admin a b \<Rightarrow> True
      | Ac_rotate_admin a b \<Rightarrow> True | Ac_execute_action a n \<Rightarrow> True | Ac_execute_batch a ns \<Rightarrow> True | _ \<Rightarrow> False)"

lemma authority_ops:
  "cancel_admin_proposal e s a = Inr s' \<Longrightarrow> authority s' = authority s"
  "configure_multisig e s a xs m = Inr s' \<Longrightarrow> authority s' = authority s"
  "set_dispute_resolution e s a b = Inr s' \<Longrightarrow> authority s' = authority s"
  "propose_action e s a x = Inr (s', n) \<Longrightarrow> authority s' = authority s"
  "approve_action e s a n = Inr s' \<Longrightarrow> authority s' = authority s"
  "cancel_action e s a n = Inr s' \<Longrightarrow> authority s' = authority s"
  "propose_parameter_change e s a k v = Inr (s', n) \<Longrightarrow> authority s' = authority s"
  "vote_parameter_change e s a n = Inr s' \<Longrightarrow> authority s' = authority s"
  "execute_parameter_change e s a n = Inr s' \<Longrightarrow> authority s' = authority s"
  "cancel_parameter_change e s a n = Inr s' \<Longrightarrow> authority s' = authority s"
  "submit_community_proposal e s a x d = Inr (s', n) \<Longrightarrow> authority s' = authority s"
  "sponsor_community_proposal e s a c = Inr (s', n) \<Longrightarrow> authority s' = authority s"
  "propose_signer_recovery e s a xs m = Inr (s', n) \<Longrightarrow> authority s' = authority s"
  "object_signer_recovery e s a n = Inr s' \<Longrightarrow> authority s' = authority s"
  "execute_signer_recovery e s a n = Inr s' \<Longrightarrow> authority s' = authority s"
  "delegate_vote e s a b = Inr s' \<Longrightarrow> authority s' = authority s"
  "revoke_delegation e s a = Inr s' \<Longrightarrow> authority s' = authority s"
  "configure_council_terms e s a y z = Inr s' \<Longrightarrow> authority s' = authority s"
  "initiate_council_rotation e s a b c = Inr (s', n) \<Longrightarrow> authority s' = authority s"
  "vote_council_rotation e s a n su = Inr s' \<Longrightarrow> authority s' = authority s"
  "conclude_council_rotation e s a n = Inr s' \<Longrightarrow> authority s' = authority s"
  "ac_propose_upgrade e s a h = Inr s' \<Longrightarrow> authority s' = authority s"
  "ac_execute_upgrade e s a = Inr (s', h) \<Longrightarrow> authority s' = authority s"
  subgoal by (auto simp: cancel_admin_proposal_def)
  subgoal by (auto simp: configure_multisig_def Let_def dest!: audited_authority)
  subgoal by (auto simp: set_dispute_resolution_def)
  subgoal by (cases x) (auto simp: propose_action_def open_proposal_def Let_def)
  subgoal by (auto simp: approve_action_def)
  subgoal by (auto simp: cancel_action_def)
  subgoal by (auto simp: propose_parameter_change_def Let_def dest!: audited_authority)
  subgoal by (auto simp: vote_parameter_change_def)
  subgoal by (auto simp: execute_parameter_change_def Let_def dest!: audited_authority)
  subgoal by (auto simp: cancel_parameter_change_def)
  subgoal by (auto simp: submit_community_proposal_def Let_def)
  subgoal by (auto simp: sponsor_community_proposal_def open_proposal_def Let_def)
  subgoal by (auto simp: propose_signer_recovery_def Let_def dest!: audited_authority)
  subgoal by (auto simp: object_signer_recovery_def)
  subgoal by (auto simp: execute_signer_recovery_def dest!: audited_authority)
  subgoal by (auto simp: delegate_vote_def Let_def split: option.splits)
  subgoal by (auto simp: revoke_delegation_def Let_def)
  subgoal by (auto simp: configure_council_terms_def)
  subgoal by (auto simp: initiate_council_rotation_def Let_def)
  subgoal by (auto simp: vote_council_rotation_def Let_def split: if_splits)
  subgoal by (auto simp: conclude_council_rotation_def Let_def split: if_splits)
  subgoal by (auto simp: ac_propose_upgrade_def dest!: audited_authority)
  subgoal by (auto simp: ac_execute_upgrade_def dest!: audited_authority)
  done

lemma authority_kept:
  assumes "ac_exec e c w = Some w'" "\<not> governs c" shows "authority (aw_st w') = authority (aw_st w)"
  using assms by (cases c) (auto simp: governs_def dest: authority_ops)

section \<open>Every call keeps the invariant\<close>

lemma governing_ops_admin:
  "ac_initialize e s a = Inr s' \<Longrightarrow> ac_admin s' \<noteq> None"
  "pause e s a = Inr s' \<Longrightarrow> ac_admin s' = ac_admin s"
  "unpause e s a = Inr s' \<Longrightarrow> ac_admin s' = ac_admin s"
  "emergency_pause_by_guardian e s a = Inr s' \<Longrightarrow> ac_admin s' = ac_admin s \<and> ac_role s' = ac_role s \<and> ac_is_paused s'"
  "grant_role e s a b r = Inr s' \<Longrightarrow> ac_admin s' = ac_admin s"
  "revoke_role e s a b = Inr s' \<Longrightarrow> ac_admin s' = ac_admin s"
  "transfer_admin e s a b = Inr s' \<Longrightarrow> ac_admin s' \<noteq> None"
  "rotate_admin e s a b = Inr s' \<Longrightarrow> ac_admin s' \<noteq> None"
  subgoal by (auto simp: ac_initialize_def)
  subgoal by (auto simp: pause_def ac_guarded_def ac_lockable.guard_Inr_iff dest!: ac_audited_Inr)
  subgoal by (auto simp: unpause_def ac_guarded_def ac_lockable.guard_Inr_iff dest!: ac_audited_Inr)
  subgoal by (auto simp: emergency_pause_by_guardian_def ac_guarded_def ac_lockable.guard_Inr_iff ac_is_paused_def
        dest!: ac_audited_Inr)
  subgoal by (auto simp: grant_role_def put_role_def add_to_role_members_def dest!: ac_audited_Inr)
  subgoal by (auto simp: revoke_role_def Let_def remove_from_role_members_def split: option.splits dest!: ac_audited_Inr)
  subgoal by (auto simp: transfer_admin_def hand_over_def dest!: ac_audited_Inr)
  subgoal by (auto simp: rotate_admin_def hand_over_def dest!: ac_audited_Inr)
  done

lemma execute_admin:
  "execute_action e w a n = Inr w' \<Longrightarrow> ac_admin (aw_st w') \<noteq> None"
  "execute_batch e w a ns = Inr w' \<Longrightarrow> ac_admin (aw_st w') \<noteq> None"
  subgoal by (erule execute_action_Inr) (auto simp: put_proposal_def dest!: apply_action_admin)
  subgoal by (erule execute_batch_Inr) (auto dest!: run_batch_admin)
  done

lemma admin_stays:
  assumes "ac_exec e c w = Some w'" "ac_admin (aw_st w) \<noteq> None" shows "ac_admin (aw_st w') \<noteq> None"
proof (cases "governs c")
  case True
  with assms show ?thesis
    by (cases c) (auto simp: governs_def dest: governing_ops_admin execute_admin)
next
  case False
  with authority_kept[OF assms(1)] assms(2) show ?thesis by (simp add: authority_def)
qed

lemma multisig_origin:
  assumes "ac_exec e c w = Some w'" "ac_multisig (aw_st w') \<noteq> None"
  shows "ac_multisig (aw_st w) \<noteq> None \<or> ac_admin (aw_st w) \<noteq> None"
proof (cases "off_book c")
  case True
  with off_book_exec[OF assms(1)] assms(2) show ?thesis by (simp add: books_def)
next
  case False
  with assms(1) show ?thesis
    by (cases c) (auto simp: off_book_def configure_multisig_def propose_action_def approve_action_def execute_action_def
        cancel_action_def execute_batch_def propose_parameter_change_def vote_parameter_change_def
        execute_parameter_change_def cancel_parameter_change_def sponsor_community_proposal_def
        propose_signer_recovery_def object_signer_recovery_def execute_signer_recovery_def
        initiate_council_rotation_def vote_council_rotation_def conclude_council_rotation_def)
qed

lemma ac_exec_step:
  assumes "ac_exec e c w = Some w'" "books_ok (aw_st w)" shows "books_step (aw_st w) (aw_st w')"
proof (cases "off_book c")
  case True
  from off_book_exec[OF assms(1) this] show ?thesis by (rule books_step_same)
next
  case False
  have bk: "actions.book_ok (aw_st w)" using assms(2) by (simp add: books_ok_def)
  from False assms(1) show ?thesis
    by (cases c) (auto simp: off_book_def intro: signer_steps propose_action_step sponsor_step propose_parameter_step
        execute_parameter_step propose_recovery_step execute_recovery_step configure_step initiate_step
        vote_rotation_step conclude_step execute_action_step conjunct1[OF execute_batch_step[OF _ bk]])
qed

lemma ac_exec_stored:
  assumes "ac_exec e c w = Some w'" "stored_ok (aw_st w)" shows "stored_ok (aw_st w')"
proof (cases "off_book c")
  case True
  from stored_ok_books[OF off_book_exec[OF assms(1) this]] assms(2) show ?thesis by simp
next
  case False
  with assms show ?thesis
    by (cases c) (auto simp: off_book_def intro: stored_ops execute_stored)
qed

lemma ac_exec_inv:
  assumes "ac_exec e c w = Some w'" "ac_inv (aw_st w)" shows "ac_inv (aw_st w')"
proof -
  from ac_exec_step[OF assms(1)] assms(2) have "books_ok (aw_st w')"
    by (simp add: ac_inv_def books_ok_def books_step_def actions.book_step_def params.book_step_def
        recoveries.book_step_def elections.book_step_def)
  with ac_exec_stored[OF assms(1)] assms(2) multisig_origin[OF assms(1)] admin_stays[OF assms(1)]
  show ?thesis unfolding ac_inv_def by blast
qed

lemma ac_runs_inv: "ac_runs w w' \<Longrightarrow> ac_inv (aw_st w) \<Longrightarrow> ac_inv (aw_st w')"
  by (induction rule: ac_runs.induct) (auto intro: ac_exec_inv)

lemma ac_inv_empty: "ac_inv ac_empty"
  by (simp add: ac_inv_def books_ok_def stored_ok_def actions.book_ok_def params.book_ok_def
      recoveries.book_ok_def elections.book_ok_def ac_empty_def)

lemma ac_reachable_inv: "ac_reachable w \<Longrightarrow> ac_inv (aw_st w)"
  unfolding ac_reachable_def by (drule ac_runs_inv) (simp_all add: ac_inv_empty)

text \<open>Over a run, a settled proposal stays settled.\<close>

lemma ac_runs_kept:
  "ac_runs w w' \<Longrightarrow> ac_inv (aw_st w) \<Longrightarrow>
     actions.book_kept (aw_st w) (aw_st w') \<and> params.book_kept (aw_st w) (aw_st w') \<and>
     recoveries.book_kept (aw_st w) (aw_st w') \<and> elections.book_kept (aw_st w) (aw_st w')"
proof (induction rule: ac_runs.induct)
  case (ac_step w w1 e c w2)
  then have inv: "ac_inv (aw_st w1)" by (auto intro: ac_runs_inv)
  then have ok: "books_ok (aw_st w1)" by (simp add: ac_inv_def)
  from ac_exec_step[OF ac_step.hyps(2) ok] ok ac_step.IH[OF ac_step.prems] show ?case
    by (auto simp: books_step_def books_ok_def actions.book_step_def params.book_step_def recoveries.book_step_def
        elections.book_step_def intro: actions.book_kept_trans params.book_kept_trans recoveries.book_kept_trans
        elections.book_kept_trans)
qed (simp add: actions.book_kept_refl params.book_kept_refl recoveries.book_kept_refl elections.book_kept_refl)

end
