(* ===== verification/Registry_Runs.thy ===== *)
theory Registry_Runs
  imports Risk_Registry Access_Runs
begin

text \<open>
  Runs of the risk registry: \<open>rr_op\<close> has one constructor per state-changing entry point and \<open>rr_exec\<close>
  dispatches.  Between the calls access control changes as it likes.  A run may be restricted to the
  calls a predicate allows.
\<close>

section \<open>Calls and runs\<close>

datatype (plugins only: code) rr_op =
    Rr_initialize address address address i128 u32
  | Rr_set_access_control address address
  | Rr_transfer_admin address address
  | Rr_accept_admin address
  | Rr_set_invoice_nft address address
  | Rr_cancel_admin_proposal address
  | Rr_add_verifier address address i128
  | Rr_top_up_stake address address i128
  | Rr_set_minimum_stake address i128
  | Rr_set_slash_percentage address u32
  | Rr_remove_verifier address address
  | Rr_suspend address address
  | Rr_reinstate address address
  | Rr_request_removal address address
  | Rr_cancel_removal address address
  | Rr_finalize_removal address address
  | Rr_add_sub address address
  | Rr_remove_sub address address
  | Rr_register_sme address address u32 bool
  | Rr_update_score address address u32
  | Rr_set_credit_limit address address i128
  | Rr_reassign address address address
  | Rr_count_invoice address address
  | Rr_record_default address address
  | Rr_record_repayment address address
  | Rr_set_debtor_score address bytes u32
  | Rr_set_min_debtor_score address u32
  | Rr_propose_upgrade address bytes
  | Rr_execute_upgrade address
  | Rr_configure_slashing address u64 address
  | Rr_raise_dispute address address address
  | Rr_resolve_dispute address address address bool
  | Rr_configure_breaker address u32 u32
  | Rr_clear_debtor address bytes
  | Rr_clear_tier address symbol
  | Rr_update_tiers address u32 u32 u32 u32

definition rr_st_op :: "('e, rr_state) result \<Rightarrow> rr_world \<Rightarrow> rr_world option" where
  "rr_st_op m w = map_option (\<lambda>s. w\<lparr>rw_st := s\<rparr>) (succeeds m)"

lemma rr_st_op_Some_iff [simp]: "rr_st_op m w = Some w' \<longleftrightarrow> (\<exists>s. m = Inr s \<and> w' = w\<lparr>rw_st := s\<rparr>)"
  by (auto simp: rr_st_op_def)

fun rr_exec :: "env \<Rightarrow> rr_op \<Rightarrow> rr_world \<Rightarrow> rr_world option" where
  "rr_exec e (Rr_initialize a b c d x) w = rr_st_op (rr_initialize e (rw_st w) a b c d x) w"
| "rr_exec e (Rr_set_access_control a b) w = rr_st_op (set_access_control e (rw_st w) a b) w"
| "rr_exec e (Rr_transfer_admin a b) w = rr_st_op (rr_transfer_admin e (rw_st w) a b) w"
| "rr_exec e (Rr_accept_admin a) w = rr_st_op (accept_admin e (rw_st w) a) w"
| "rr_exec e (Rr_set_invoice_nft a b) w = rr_st_op (set_invoice_nft e (rw_st w) a b) w"
| "rr_exec e (Rr_cancel_admin_proposal a) w = rr_st_op (rr_cancel_admin_proposal e (rw_st w) a) w"
| "rr_exec e (Rr_add_verifier a b c) w = succeeds (add_verifier e w a b c)"
| "rr_exec e (Rr_top_up_stake a b c) w = succeeds (top_up_stake e w a b c)"
| "rr_exec e (Rr_set_minimum_stake a b) w = rr_st_op (set_minimum_stake e (rw_st w) a b) w"
| "rr_exec e (Rr_set_slash_percentage a b) w = rr_st_op (set_slash_percentage e (rw_st w) a b) w"
| "rr_exec e (Rr_remove_verifier a b) w = succeeds (remove_verifier e w a b)"
| "rr_exec e (Rr_suspend a b) w = rr_st_op (suspend_verifier e (rw_ac w) (rw_st w) a b) w"
| "rr_exec e (Rr_reinstate a b) w = rr_st_op (reinstate_verifier e (rw_ac w) (rw_st w) a b) w"
| "rr_exec e (Rr_request_removal a b) w = rr_st_op (request_verifier_removal e (rw_ac w) (rw_st w) a b) w"
| "rr_exec e (Rr_cancel_removal a b) w = rr_st_op (cancel_verifier_removal e (rw_ac w) (rw_st w) a b) w"
| "rr_exec e (Rr_finalize_removal a b) w = succeeds (finalize_verifier_removal e w a b)"
| "rr_exec e (Rr_add_sub a b) w = rr_st_op (add_sub_account e (rw_ac w) (rw_st w) a b) w"
| "rr_exec e (Rr_remove_sub a b) w = rr_st_op (remove_sub_account e (rw_ac w) (rw_st w) a b) w"
| "rr_exec e (Rr_register_sme a b c d) w = rr_st_op (register_sme e (rw_ac w) (rw_st w) a b c d) w"
| "rr_exec e (Rr_update_score a b c) w = rr_st_op (update_sme_score e (rw_ac w) (rw_st w) a b c) w"
| "rr_exec e (Rr_set_credit_limit a b c) w = rr_st_op (set_credit_limit e (rw_ac w) (rw_st w) a b c) w"
| "rr_exec e (Rr_reassign a b c) w = rr_st_op (reassign_sme_verifier e (rw_ac w) (rw_st w) a b c) w"
| "rr_exec e (Rr_count_invoice a b) w = rr_st_op (increment_invoice_count e (rw_st w) a b) w"
| "rr_exec e (Rr_record_default a b) w = rr_st_op (record_default e (rw_ac w) (rw_st w) a b) w"
| "rr_exec e (Rr_record_repayment a b) w = rr_st_op (record_successful_repayment e (rw_ac w) (rw_st w) a b) w"
| "rr_exec e (Rr_set_debtor_score a b c) w = rr_st_op (set_debtor_score e (rw_ac w) (rw_st w) a b c) w"
| "rr_exec e (Rr_set_min_debtor_score a b) w = rr_st_op (set_min_debtor_score e (rw_ac w) (rw_st w) a b) w"
| "rr_exec e (Rr_propose_upgrade a b) w = rr_st_op (rr_propose_upgrade e (rw_st w) a b) w"
| "rr_exec e (Rr_execute_upgrade a) w = rr_st_op (rbind (rr_execute_upgrade e (rw_st w) a) (\<lambda>(s, _). Inr s)) w"
| "rr_exec e (Rr_configure_slashing a b c) w = rr_st_op (configure_slashing e (rw_ac w) (rw_st w) a b c) w"
| "rr_exec e (Rr_raise_dispute a b c) w = rr_st_op (raise_dispute e (rw_ac w) (rw_st w) a b c) w"
| "rr_exec e (Rr_resolve_dispute a b c d) w = succeeds (resolve_dispute e w a b c d)"
| "rr_exec e (Rr_configure_breaker a b c) w = rr_st_op (configure_circuit_breaker e (rw_ac w) (rw_st w) a b c) w"
| "rr_exec e (Rr_clear_debtor a b) w = rr_st_op (clear_circuit_breaker_debtor e (rw_ac w) (rw_st w) a b) w"
| "rr_exec e (Rr_clear_tier a b) w = rr_st_op (clear_circuit_breaker_tier e (rw_ac w) (rw_st w) a b) w"
| "rr_exec e (Rr_update_tiers a b c d x) w = rr_st_op (update_risk_tier_definition e (rw_ac w) (rw_st w) a b c d x) w"

inductive rr_runs :: "(rr_state \<Rightarrow> rr_op \<Rightarrow> bool) \<Rightarrow> address \<Rightarrow> rr_world \<Rightarrow> rr_world \<Rightarrow> bool" for allowed self where
  rr_none: "rr_runs allowed self w w"
| rr_step: "rr_runs allowed self w w1 \<Longrightarrow> self_addr e = self \<Longrightarrow> allowed (rw_st w1) c \<Longrightarrow>
    rr_exec e c w1 = Some w2 \<Longrightarrow> rr_runs allowed self w w2"
| rr_other: "rr_runs allowed self w w1 \<Longrightarrow> rr_runs allowed self w (w1\<lparr>rw_ac := ac\<rparr>)"

definition rr_new :: "ac_state \<Rightarrow> rr_world" where
  "rr_new ac = \<lparr>rw_st = rr_empty, rw_ac = ac, rw_calls = []\<rparr>"

definition rr_reachable :: "(rr_state \<Rightarrow> rr_op \<Rightarrow> bool) \<Rightarrow> address \<Rightarrow> rr_world \<Rightarrow> bool" where
  "rr_reachable allowed self w \<longleftrightarrow> (\<exists>ac. rr_runs allowed self (rr_new ac) w)"

lemma rr_reachable_induct:
  assumes "rr_reachable allowed self w" "I rr_empty []"
    and "\<And>e c w w'. self_addr e = self \<Longrightarrow> allowed (rw_st w) c \<Longrightarrow> rr_exec e c w = Some w' \<Longrightarrow>
      I (rw_st w) (rw_calls w) \<Longrightarrow> I (rw_st w') (rw_calls w')"
  shows "I (rw_st w) (rw_calls w)"
proof -
  from assms(1) obtain ac where "rr_runs allowed self (rr_new ac) w" by (auto simp: rr_reachable_def)
  moreover have "rr_runs allowed self v w \<Longrightarrow> I (rw_st v) (rw_calls v) \<Longrightarrow> I (rw_st w) (rw_calls w)" for v
    by (induction rule: rr_runs.induct) (auto intro: assms(3))
  ultimately show ?thesis using assms(2) by (simp add: rr_new_def)
qed

lemma rr_audited_Inr: "rr_audited e a x s = Inr s' \<Longrightarrow> \<exists>l. s' = s\<lparr>rr_audit := l\<rparr>"
  by (auto simp: rr_audited_def)

section \<open>What the calls leave alone\<close>

text \<open>The stakes with what they are measured by, the owners, the stages of the verifiers, the scores.\<close>

definition custody where
  "custody s = (rr_staking_token s, rr_verifier s, rr_stake s, (\<lambda>v. map_option bo_amount (rr_bond s v)),
     rr_min_stake s, rr_slash_bps s)"

definition owners where
  "owners s = (rr_admin s, rr_pending_admin s, rr_staking_token s)"

definition stages where
  "stages s = (rr_status s, rr_verifier s)"

definition scores where
  "scores s = (rr_debtor_score s, rr_attestors s)"

lemmas frame_defs = custody_def owners_def stages_def scores_def

lemma rr_initialize_frame:
  "rr_initialize e s a b c d f = Inr s' \<Longrightarrow>
     stages s' = stages s \<and> rr_sme s' = rr_sme s \<and> rr_reputation s' = rr_reputation s \<and> scores s' = scores s \<and> rr_debtor_paused s' = rr_debtor_paused s"
  by (auto simp: rr_initialize_def frame_defs dest!: rr_audited_Inr)

lemma set_access_control_frame:
  "set_access_control e s a b = Inr s' \<Longrightarrow>
     custody s' = custody s \<and> owners s' = owners s \<and> stages s' = stages s \<and> rr_sme s' = rr_sme s \<and> rr_reputation s' = rr_reputation s \<and> scores s' = scores s \<and> rr_debtor_paused s' = rr_debtor_paused s"
  by (auto simp: set_access_control_def frame_defs dest!: rr_audited_Inr)

lemma rr_transfer_admin_frame:
  "rr_transfer_admin e s a b = Inr s' \<Longrightarrow>
     custody s' = custody s \<and> stages s' = stages s \<and> rr_sme s' = rr_sme s \<and> rr_reputation s' = rr_reputation s \<and> scores s' = scores s \<and> rr_debtor_paused s' = rr_debtor_paused s"
  by (auto simp: rr_transfer_admin_def frame_defs dest!: rr_audited_Inr)

lemma accept_admin_frame:
  "accept_admin e s a = Inr s' \<Longrightarrow>
     custody s' = custody s \<and> stages s' = stages s \<and> rr_sme s' = rr_sme s \<and> rr_reputation s' = rr_reputation s \<and> scores s' = scores s \<and> rr_debtor_paused s' = rr_debtor_paused s"
  by (auto simp: accept_admin_def Let_def frame_defs dest!: rr_audited_Inr split: if_splits)

lemma set_invoice_nft_frame:
  "set_invoice_nft e s a b = Inr s' \<Longrightarrow>
     custody s' = custody s \<and> owners s' = owners s \<and> stages s' = stages s \<and> rr_sme s' = rr_sme s \<and> rr_reputation s' = rr_reputation s \<and> scores s' = scores s \<and> rr_debtor_paused s' = rr_debtor_paused s"
  by (auto simp: set_invoice_nft_def frame_defs dest!: rr_audited_Inr)

lemma rr_cancel_admin_proposal_frame:
  "rr_cancel_admin_proposal e s a = Inr s' \<Longrightarrow>
     custody s' = custody s \<and> stages s' = stages s \<and> rr_sme s' = rr_sme s \<and> rr_reputation s' = rr_reputation s \<and> scores s' = scores s \<and> rr_debtor_paused s' = rr_debtor_paused s"
  by (auto simp: rr_cancel_admin_proposal_def frame_defs dest!: rr_audited_Inr)

lemma set_minimum_stake_frame:
  "set_minimum_stake e s a n = Inr s' \<Longrightarrow>
     owners s' = owners s \<and> stages s' = stages s \<and> rr_sme s' = rr_sme s \<and> rr_reputation s' = rr_reputation s \<and> scores s' = scores s \<and> rr_debtor_paused s' = rr_debtor_paused s"
  by (auto simp: set_minimum_stake_def frame_defs dest!: rr_audited_Inr)

lemma set_slash_percentage_frame:
  "set_slash_percentage e s a k = Inr s' \<Longrightarrow>
     owners s' = owners s \<and> stages s' = stages s \<and> rr_sme s' = rr_sme s \<and> rr_reputation s' = rr_reputation s \<and> scores s' = scores s \<and> rr_debtor_paused s' = rr_debtor_paused s"
  by (auto simp: set_slash_percentage_def frame_defs dest!: rr_audited_Inr)

lemma suspend_verifier_frame:
  "suspend_verifier e ac s a b = Inr s' \<Longrightarrow>
     custody s' = custody s \<and> owners s' = owners s \<and> rr_sme s' = rr_sme s \<and> rr_reputation s' = rr_reputation s \<and> scores s' = scores s \<and> rr_debtor_paused s' = rr_debtor_paused s"
  by (auto simp: suspend_verifier_def put_status_def frame_defs dest!: rr_audited_Inr)

lemma reinstate_verifier_frame:
  "reinstate_verifier e ac s a b = Inr s' \<Longrightarrow>
     custody s' = custody s \<and> owners s' = owners s \<and> rr_sme s' = rr_sme s \<and> rr_reputation s' = rr_reputation s \<and> scores s' = scores s \<and> rr_debtor_paused s' = rr_debtor_paused s"
  by (auto simp: reinstate_verifier_def put_status_def frame_defs dest!: rr_audited_Inr)

lemma request_verifier_removal_frame:
  "request_verifier_removal e ac s a b = Inr s' \<Longrightarrow>
     custody s' = custody s \<and> owners s' = owners s \<and> rr_sme s' = rr_sme s \<and> rr_reputation s' = rr_reputation s \<and> scores s' = scores s \<and> rr_debtor_paused s' = rr_debtor_paused s"
  by (auto simp: request_verifier_removal_def put_status_def Let_def frame_defs dest!: rr_audited_Inr split: if_splits)

lemma cancel_verifier_removal_frame:
  "cancel_verifier_removal e ac s a b = Inr s' \<Longrightarrow>
     custody s' = custody s \<and> owners s' = owners s \<and> rr_sme s' = rr_sme s \<and> rr_reputation s' = rr_reputation s \<and> scores s' = scores s \<and> rr_debtor_paused s' = rr_debtor_paused s"
  by (auto simp: cancel_verifier_removal_def put_status_def Let_def frame_defs dest!: rr_audited_Inr split: if_splits)

lemma add_sub_account_frame:
  "add_sub_account e ac s a b = Inr s' \<Longrightarrow>
     custody s' = custody s \<and> owners s' = owners s \<and> stages s' = stages s \<and> rr_sme s' = rr_sme s \<and> rr_reputation s' = rr_reputation s \<and> scores s' = scores s \<and> rr_debtor_paused s' = rr_debtor_paused s"
  by (auto simp: add_sub_account_def frame_defs dest!: rr_audited_Inr)

lemma remove_sub_account_frame:
  "remove_sub_account e ac s a b = Inr s' \<Longrightarrow>
     custody s' = custody s \<and> owners s' = owners s \<and> stages s' = stages s \<and> rr_sme s' = rr_sme s \<and> rr_reputation s' = rr_reputation s \<and> scores s' = scores s \<and> rr_debtor_paused s' = rr_debtor_paused s"
  by (auto simp: remove_sub_account_def frame_defs dest!: rr_audited_Inr)

lemma register_sme_frame:
  "register_sme e ac s a b k y = Inr s' \<Longrightarrow>
     custody s' = custody s \<and> owners s' = owners s \<and> stages s' = stages s \<and> rr_reputation s' = rr_reputation s \<and> scores s' = scores s \<and> rr_debtor_paused s' = rr_debtor_paused s"
  by (auto simp: register_sme_def put_sme_def Let_def frame_defs dest!: rr_audited_Inr split: if_splits)

lemma update_sme_score_frame:
  "update_sme_score e ac s a b k = Inr s' \<Longrightarrow>
     custody s' = custody s \<and> owners s' = owners s \<and> stages s' = stages s \<and> rr_reputation s' = rr_reputation s \<and> scores s' = scores s \<and> rr_debtor_paused s' = rr_debtor_paused s"
  by (auto simp: update_sme_score_def rr_guarded_def rr_lockable.guard_Inr_iff put_sme_def frame_defs dest!: rr_audited_Inr)

lemma set_credit_limit_frame:
  "set_credit_limit e ac s a b n = Inr s' \<Longrightarrow>
     custody s' = custody s \<and> owners s' = owners s \<and> stages s' = stages s \<and> rr_reputation s' = rr_reputation s \<and> scores s' = scores s \<and> rr_debtor_paused s' = rr_debtor_paused s"
  by (auto simp: set_credit_limit_def put_sme_def frame_defs dest!: rr_audited_Inr)

lemma reassign_sme_verifier_frame:
  "reassign_sme_verifier e ac s a b c = Inr s' \<Longrightarrow>
     custody s' = custody s \<and> owners s' = owners s \<and> stages s' = stages s \<and> rr_reputation s' = rr_reputation s \<and> scores s' = scores s \<and> rr_debtor_paused s' = rr_debtor_paused s"
  by (auto simp: reassign_sme_verifier_def put_sme_def frame_defs dest!: rr_audited_Inr)

lemma increment_invoice_count_frame:
  "increment_invoice_count e s a b = Inr s' \<Longrightarrow>
     custody s' = custody s \<and> owners s' = owners s \<and> stages s' = stages s \<and> rr_reputation s' = rr_reputation s \<and> scores s' = scores s \<and> rr_debtor_paused s' = rr_debtor_paused s"
  by (auto simp: increment_invoice_count_def put_sme_def frame_defs dest!: rr_audited_Inr)

lemma record_successful_repayment_frame:
  "record_successful_repayment e ac s a b = Inr s' \<Longrightarrow>
     custody s' = custody s \<and> owners s' = owners s \<and> stages s' = stages s \<and> rr_sme s' = rr_sme s \<and> scores s' = scores s \<and> rr_debtor_paused s' = rr_debtor_paused s"
  by (auto simp: record_successful_repayment_def Let_def frame_defs dest!: rr_audited_Inr)

lemma set_debtor_score_frame:
  "set_debtor_score e ac s a h k = Inr s' \<Longrightarrow>
     custody s' = custody s \<and> owners s' = owners s \<and> stages s' = stages s \<and> rr_sme s' = rr_sme s \<and> rr_reputation s' = rr_reputation s \<and> rr_debtor_paused s' = rr_debtor_paused s"
  by (simp add: set_debtor_score_def Let_def frame_defs split del: if_split) (auto split: if_splits)

lemma set_min_debtor_score_frame:
  "set_min_debtor_score e ac s a k = Inr s' \<Longrightarrow>
     custody s' = custody s \<and> owners s' = owners s \<and> stages s' = stages s \<and> rr_sme s' = rr_sme s \<and> rr_reputation s' = rr_reputation s \<and> scores s' = scores s \<and> rr_debtor_paused s' = rr_debtor_paused s"
  by (auto simp: set_min_debtor_score_def frame_defs dest!: rr_audited_Inr)

lemma rr_propose_upgrade_frame:
  "rr_propose_upgrade e s a h = Inr s' \<Longrightarrow>
     custody s' = custody s \<and> owners s' = owners s \<and> stages s' = stages s \<and> rr_sme s' = rr_sme s \<and> rr_reputation s' = rr_reputation s \<and> scores s' = scores s \<and> rr_debtor_paused s' = rr_debtor_paused s"
  by (auto simp: rr_propose_upgrade_def frame_defs dest!: rr_audited_Inr)

lemma rr_execute_upgrade_frame:
  "rr_execute_upgrade e s a = Inr (s', h) \<Longrightarrow>
     custody s' = custody s \<and> owners s' = owners s \<and> stages s' = stages s \<and> rr_sme s' = rr_sme s \<and> rr_reputation s' = rr_reputation s \<and> scores s' = scores s \<and> rr_debtor_paused s' = rr_debtor_paused s"
  by (auto simp: rr_execute_upgrade_def frame_defs dest!: rr_audited_Inr)

lemma configure_slashing_frame:
  "configure_slashing e ac s a k b = Inr s' \<Longrightarrow>
     custody s' = custody s \<and> owners s' = owners s \<and> stages s' = stages s \<and> rr_sme s' = rr_sme s \<and> rr_reputation s' = rr_reputation s \<and> scores s' = scores s \<and> rr_debtor_paused s' = rr_debtor_paused s"
  by (auto simp: configure_slashing_def frame_defs dest!: rr_audited_Inr)

lemma raise_dispute_frame:
  "raise_dispute e ac s a b c = Inr s' \<Longrightarrow>
     custody s' = custody s \<and> owners s' = owners s \<and> stages s' = stages s \<and> rr_sme s' = rr_sme s \<and> rr_reputation s' = rr_reputation s \<and> scores s' = scores s \<and> rr_debtor_paused s' = rr_debtor_paused s"
  by (clarsimp simp: raise_dispute_def put_dispute_def Let_def frame_defs) (simp add: fun_eq_iff)

lemma configure_circuit_breaker_frame:
  "configure_circuit_breaker e ac s a k l = Inr s' \<Longrightarrow>
     custody s' = custody s \<and> owners s' = owners s \<and> stages s' = stages s \<and> rr_sme s' = rr_sme s \<and> rr_reputation s' = rr_reputation s \<and> scores s' = scores s \<and> rr_debtor_paused s' = rr_debtor_paused s"
  by (auto simp: configure_circuit_breaker_def frame_defs dest!: rr_audited_Inr)

lemma clear_circuit_breaker_debtor_frame:
  "clear_circuit_breaker_debtor e ac s a h = Inr s' \<Longrightarrow>
     custody s' = custody s \<and> owners s' = owners s \<and> stages s' = stages s \<and> rr_sme s' = rr_sme s \<and> rr_reputation s' = rr_reputation s \<and> scores s' = scores s"
  by (auto simp: clear_circuit_breaker_debtor_def frame_defs dest!: rr_audited_Inr)

lemma clear_circuit_breaker_tier_frame:
  "clear_circuit_breaker_tier e ac s a t = Inr s' \<Longrightarrow>
     custody s' = custody s \<and> owners s' = owners s \<and> stages s' = stages s \<and> rr_sme s' = rr_sme s \<and> rr_reputation s' = rr_reputation s \<and> scores s' = scores s \<and> rr_debtor_paused s' = rr_debtor_paused s"
  by (auto simp: clear_circuit_breaker_tier_def frame_defs dest!: rr_audited_Inr)

lemma update_risk_tier_definition_frame:
  "update_risk_tier_definition e ac s a k l m q = Inr s' \<Longrightarrow>
     custody s' = custody s \<and> owners s' = owners s \<and> stages s' = stages s \<and> rr_sme s' = rr_sme s \<and> rr_reputation s' = rr_reputation s \<and> scores s' = scores s \<and> rr_debtor_paused s' = rr_debtor_paused s"
  by (auto simp: update_risk_tier_definition_def Let_def frame_defs dest!: rr_audited_Inr split: if_splits)

lemmas rr_frames =
  rr_initialize_frame set_access_control_frame rr_transfer_admin_frame accept_admin_frame
  set_invoice_nft_frame rr_cancel_admin_proposal_frame set_minimum_stake_frame
  set_slash_percentage_frame suspend_verifier_frame reinstate_verifier_frame
  request_verifier_removal_frame cancel_verifier_removal_frame add_sub_account_frame
  remove_sub_account_frame register_sme_frame update_sme_score_frame set_credit_limit_frame
  reassign_sme_verifier_frame increment_invoice_count_frame record_successful_repayment_frame
  set_debtor_score_frame set_min_debtor_score_frame rr_propose_upgrade_frame
  rr_execute_upgrade_frame configure_slashing_frame raise_dispute_frame
  configure_circuit_breaker_frame clear_circuit_breaker_debtor_frame
  clear_circuit_breaker_tier_frame update_risk_tier_definition_frame

section \<open>The calls that move tokens\<close>

lemma call_access_Inr: "call_access e f w = Inr w' \<Longrightarrow> \<exists>ac. w' = w\<lparr>rw_ac := ac\<rparr>"
  by (cases w) (auto simp: call_access_def split: option.splits)

definition added :: "address \<Rightarrow> i128 \<Rightarrow> rr_state \<Rightarrow> rr_state" where
  "added v n s = s\<lparr>rr_verifier := (rr_verifier s)(v \<mapsto> True), rr_stake := (rr_stake s)(v \<mapsto> n),
     rr_reputation := (rr_reputation s)(v \<mapsto> 100),
     rr_bond := (rr_bond s)(v \<mapsto> \<lparr>bo_amount = n, bo_locked_until = 0\<rparr>),
     rr_dispute_count := (rr_dispute_count s)(v \<mapsto> 0)\<rparr>"

lemma on_rr_audited:
  assumes "on_rr (rr_audited e a x) w = Inr w'"
  shows "\<exists>l. rw_st w' = (rw_st w)\<lparr>rr_audit := l\<rparr>" "rw_calls w' = rw_calls w"
  using assms by (auto simp: on_rr_def dest!: rr_audited_Inr)

lemma call_access_frame: "call_access e f w = Inr w' \<Longrightarrow> rw_st w' = rw_st w \<and> rw_calls w' = rw_calls w"
  by (auto dest!: call_access_Inr)

lemma add_verifier_Inr:
  assumes "add_verifier e w a v n = Inr w'"
  shows "authorised e a \<and> rr_admin (rw_st w) = Some a \<and> v \<noteq> self_addr e \<and> require_addable e (rw_st w) v = Inr () \<and>
      (\<exists>m. rr_min_stake (rw_st w) = Some m \<and> m \<le> n)"
    and "\<exists>tok l. rr_staking_token (rw_st w) = Some tok \<and> rw_calls w' = rw_calls w @ [Transfer tok v (self_addr e) n] \<and>
      rw_st w' = (added v n (rw_st w))\<lparr>rr_audit := l\<rparr>"
proof -
  from assms obtain tok w1 where tok: "rr_staking_token (rw_st w) = Some tok"
    and call: "call_access e (\<lambda>e' ac. grant_role e' ac a v RoleVerifier)
      (w\<lparr>rw_calls := rw_calls w @ [Transfer tok v (self_addr e) n], rw_st := added v n (rw_st w)\<rparr>) = Inr w1"
    and audit: "on_rr (rr_audited e a AA_AddVerifier) w1 = (Inr w' :: rr_world rr_result)"
    by (simp add: add_verifier_def Let_def rr_emit_def added_def) blast
  from call_access_frame[OF call] on_rr_audited[OF audit] tok
  show "\<exists>tok l. rr_staking_token (rw_st w) = Some tok \<and> rw_calls w' = rw_calls w @ [Transfer tok v (self_addr e) n] \<and>
      rw_st w' = (added v n (rw_st w))\<lparr>rr_audit := l\<rparr>" by auto
  show "authorised e a \<and> rr_admin (rw_st w) = Some a \<and> v \<noteq> self_addr e \<and> require_addable e (rw_st w) v = Inr () \<and>
      (\<exists>m. rr_min_stake (rw_st w) = Some m \<and> m \<le> n)"
    using assms by (clarsimp simp: add_verifier_def Let_def require_not_self_def)
qed

lemma top_up_Inr:
  assumes "top_up_stake e w a v n = Inr w'"
  shows "authorised e a \<and> rr_admin (rw_st w) = Some a \<and> 0 < n \<and> verifier_flag (rw_st w) v \<and>
      verifier_status (rw_st w) v = VS_Active"
    and "\<exists>tok l. rr_staking_token (rw_st w) = Some tok \<and> rw_calls w' = rw_calls w @ [Transfer tok v (self_addr e) n] \<and>
      rw_st w' = (rw_st w)\<lparr>rr_stake := (rr_stake (rw_st w))(v \<mapsto> stake_of (rw_st w) v + n), rr_audit := l\<rparr>"
  subgoal using assms by (clarsimp simp: top_up_stake_def Let_def)
  subgoal using assms by (clarsimp simp: top_up_stake_def Let_def rr_emit_def on_rr_def dest!: rr_audited_Inr) blast
  done

lemma return_stake_Inr:
  assumes "return_stake e v w = Inr w'"
  shows "rw_st w' = rw_st w" "rw_ac w' = rw_ac w"
    and "\<exists>tok. (0 < stake_of (rw_st w) v \<longrightarrow> rr_staking_token (rw_st w) = Some tok) \<and>
      rw_calls w' = rw_calls w @ (if 0 < stake_of (rw_st w) v then [Transfer tok (self_addr e) v (stake_of (rw_st w) v)] else [])"
  using assms by (auto simp: return_stake_def Let_def rr_emit_def split: if_splits)

lemma remove_and_revoke_Inr:
  assumes "remove_and_revoke e a v x w = Inr w'"
  shows "\<exists>tok l. (0 < stake_of (rw_st w) v \<longrightarrow> rr_staking_token (rw_st w) = Some tok) \<and>
    rw_st w' = (retire_verifier e v (rw_st w))\<lparr>rr_audit := l\<rparr> \<and>
    rw_calls w' = rw_calls w @ (if 0 < stake_of (rw_st w) v then [Transfer tok (self_addr e) v (stake_of (rw_st w) v)] else [])"
proof -
  from assms obtain w1 w2 where pay: "return_stake e v w = Inr w1"
    and call: "call_access e (\<lambda>e' ac. revoke_role e' ac a v) (w1\<lparr>rw_st := retire_verifier e v (rw_st w1)\<rparr>) = Inr w2"
    and audit: "on_rr (rr_audited e a x) w2 = (Inr w' :: rr_world rr_result)"
    by (simp add: remove_and_revoke_def) blast
  from return_stake_Inr[OF pay] call_access_frame[OF call] on_rr_audited[OF audit] show ?thesis by auto
qed

lemma remove_verifier_Inr:
  assumes "remove_verifier e w a v = Inr w'"
  shows "authorised e a" "rr_admin (rw_st w) = Some a" "verifier_flag (rw_st w) v"
    "remove_and_revoke e a v AA_RemoveVerifier w = Inr w'"
  using assms by (auto simp: remove_verifier_def Let_def)

lemma finalize_Inr:
  assumes "finalize_verifier_removal e w a v = Inr w'"
  shows "authorised e a" "rr_admin (rw_st w) = Some a" "verifier_flag (rw_st w) v"
    "verifier_status (rw_st w) v = VS_PendingRemoval"
    "\<exists>t. rr_removal_at (rw_st w) v = Some t \<and> t + VERIFIER_REMOVAL_COOLDOWN_SECS \<le> timestamp e"
    "remove_and_revoke e a v AA_FinalizeVerifierRemoval w = Inr w'"
  using assms by (auto simp: finalize_verifier_removal_def as_keeper_def Let_def)

lemma resolve_dispute_Inr:
  assumes "resolve_dispute e w a v u slash = Inr w'"
  obtains d w1 where "authorised e a" "rr_admin (rw_st w) = Some a" "rr_dispute (rw_st w) v u = Some d" "\<not> dp_resolved d"
    "slash \<longrightarrow> slash_bond e v w = Inr w1" "\<not> slash \<longrightarrow> w1 = w"
    "rw_st w' = close_dispute v u d (if slash then lower_reputation v (rw_st w1) else rw_st w1)" "rw_calls w' = rw_calls w1"
  using assms by (auto simp: resolve_dispute_def split: if_splits)

lemma slash_bond_Inr:
  assumes "slash_bond e v w = Inr w'"
  obtains b bps treasury n where "rr_bond (rw_st w) v = Some b" "rr_slash_bps (rw_st w) = Some bps"
    "rr_slash_treasury (rw_st w) = Some treasury" "slash_part (bo_amount b) bps = Inr n"
    "n \<le> 0 \<longrightarrow> w' = w"
    "0 < n \<longrightarrow> (\<exists>tok k. rr_staking_token (rw_st w) = Some tok \<and> (k = stake_of (rw_st w) v - n \<or> k = 0) \<and>
       w' = rr_emit (Transfer tok (self_addr e) treasury n)
         (w\<lparr>rw_st := (rw_st w)\<lparr>rr_bond := (rr_bond (rw_st w))(v \<mapsto> b\<lparr>bo_amount := bo_amount b - n\<rparr>),
                            rr_stake := (rr_stake (rw_st w))(v \<mapsto> k)\<rparr>\<rparr>))"
proof -
  from assms obtain b bps treasury n where g: "rr_bond (rw_st w) v = Some b" "rr_slash_bps (rw_st w) = Some bps"
    "rr_slash_treasury (rw_st w) = Some treasury" "slash_part (bo_amount b) bps = Inr n"
    by (auto simp: slash_bond_def Let_def)
  show ?thesis
  proof (rule that[OF g])
    show "n \<le> 0 \<longrightarrow> w' = w" using assms g by (auto simp: slash_bond_def Let_def)
    let ?k = "case i128_sub (stake_of (rw_st w) v) n of None \<Rightarrow> 0 | Some k \<Rightarrow> k"
    have "\<exists>tok k. rr_staking_token (rw_st w) = Some tok \<and> (k = stake_of (rw_st w) v - n \<or> k = 0) \<and>
       w' = rr_emit (Transfer tok (self_addr e) treasury n)
         (w\<lparr>rw_st := (rw_st w)\<lparr>rr_bond := (rr_bond (rw_st w))(v \<mapsto> b\<lparr>bo_amount := bo_amount b - n\<rparr>),
                            rr_stake := (rr_stake (rw_st w))(v \<mapsto> k)\<rparr>\<rparr>)" if "0 < n"
    proof -
    from that assms g obtain tok where "rr_staking_token (rw_st w) = Some tok"
      "w' = rr_emit (Transfer tok (self_addr e) treasury n)
         (w\<lparr>rw_st := (rw_st w)\<lparr>rr_bond := (rr_bond (rw_st w))(v \<mapsto> b\<lparr>bo_amount := bo_amount b - n\<rparr>),
                            rr_stake := (rr_stake (rw_st w))(v \<mapsto> ?k)\<rparr>\<rparr>)"
      by (auto simp: slash_bond_def Let_def)
    moreover have "?k = stake_of (rw_st w) v - n \<or> ?k = 0" by (simp split: option.splits)
    ultimately show ?thesis by blast
    qed
    then show "0 < n \<longrightarrow> (\<exists>tok k. rr_staking_token (rw_st w) = Some tok \<and> (k = stake_of (rw_st w) v - n \<or> k = 0) \<and>
       w' = rr_emit (Transfer tok (self_addr e) treasury n)
         (w\<lparr>rw_st := (rw_st w)\<lparr>rr_bond := (rr_bond (rw_st w))(v \<mapsto> b\<lparr>bo_amount := bo_amount b - n\<rparr>),
                            rr_stake := (rr_stake (rw_st w))(v \<mapsto> k)\<rparr>\<rparr>))" by blast
  qed
qed

section \<open>A default\<close>

lemma slash_stake_Inr:
  assumes "slash_stake v bps s = Inr s'"
  shows "s' = s \<or> (\<exists>n. 0 < stake_of s v \<and> slash_part (stake_of s v) bps = Inr n \<and>
    s' = s\<lparr>rr_stake := (rr_stake s)(v \<mapsto> stake_of s v - n)\<rparr>)"
  using assms by (auto simp: slash_stake_def Let_def split: if_splits)

lemma count_default_Inr:
  assumes "count_default tier s = Inr s'"
  shows "\<exists>k q. s' = s\<lparr>rr_default_tier := k, rr_tier_paused := q\<rparr>"
  using assms by (cases s) (auto simp: count_default_def Let_def split: option.splits if_splits)

lemma record_default_Inr:
  assumes "record_default e ac s a sme = Inr s'"
  obtains p bps s1 k q l where "authorised e a" "rr_admin s = Some a" "rr_sme s sme = Some p" "rr_slash_bps s = Some bps"
    "slash_stake (sp_verifier p) bps (s\<lparr>rr_lock := True\<rparr>) = Inr s1"
    "s' = (put_sme sme (p\<lparr>sp_defaults := sp_defaults p + 1\<rparr>) (lower_reputation (sp_verifier p) s1))
      \<lparr>rr_default_tier := k, rr_tier_paused := q, rr_audit := l, rr_lock := False\<rparr>"
  using assms
  by (fastforce simp: record_default_def rr_guarded_def rr_lockable.guard_Inr_iff dest!: rr_audited_Inr count_default_Inr)

end
