(* ===== verification/Registry_Stakes.thy ===== *)
theory Registry_Stakes
  imports Registry_Runs
begin

text \<open>
  The registry holds the verifiers' stakes.  What it can still be made to pay for a verifier, as a
  returned stake or out of the bond, is never more than what came in for it, as long as only current
  verifiers are slashed; slashing a removed one takes the stake of another.
\<close>

section \<open>What the registry owes\<close>

definition bond_of :: "rr_state \<Rightarrow> address \<Rightarrow> i128" where
  "bond_of s v = (case rr_bond s v of None \<Rightarrow> 0 | Some b \<Rightarrow> bo_amount b)"

definition current :: "rr_state \<Rightarrow> address set" where
  "current s = {v. verifier_flag s v}"

definition liable :: "rr_state \<Rightarrow> address \<Rightarrow> i128" where
  "liable s v = max 0 (max (stake_of s v) (bond_of s v))"

definition held :: "address \<Rightarrow> address \<Rightarrow> ext_call list \<Rightarrow> i128" where
  "held tok self calls = moved_in tok self calls - moved_out tok self calls"

lemma held_append [simp]:
  "held tok self (calls @ cs) = held tok self calls + held tok self cs"
  "held tok self [] = 0"
  "held tok self [Transfer t f d n] = (if t = tok \<and> d = self then n else 0) - (if t = tok \<and> f = self then n else 0)"
  by (simp_all add: held_def)

definition origin :: "rr_state \<Rightarrow> bool" where
  "origin s \<longleftrightarrow> (rr_admin s = None \<longrightarrow> rr_pending_admin s = None \<and> rr_staking_token s = None)"

definition covered :: "address \<Rightarrow> rr_state \<Rightarrow> ext_call list \<Rightarrow> bool" where
  "covered self s calls \<longleftrightarrow>
     finite (current s) \<and> self \<notin> current s \<and>
     (\<forall>m. rr_min_stake s = Some m \<longrightarrow> 0 \<le> m) \<and> (\<forall>b. rr_slash_bps s = Some b \<longrightarrow> b \<le> 10000) \<and>
     (\<forall>v. 0 \<le> bond_of s v) \<and> (rr_staking_token s = None \<longrightarrow> current s = {} \<and> calls = []) \<and>
     (\<forall>tok. rr_staking_token s = Some tok \<longrightarrow> (\<Sum>v\<in>current s. liable s v) \<le> held tok self calls)"

text \<open>The calls that keep to the contract: an initialisation with sound parameters, and a slash of
  somebody who still is a verifier.\<close>

definition careful :: "rr_state \<Rightarrow> rr_op \<Rightarrow> bool" where
  "careful s c \<longleftrightarrow>
     (case c of
        Rr_initialize adm nft tok m bps \<Rightarrow> 0 \<le> m \<and> bps \<le> 10000
      | Rr_resolve_dispute a v u slash \<Rightarrow> slash \<longrightarrow> verifier_flag s v
      | _ \<Rightarrow> True)"

definition takes_custody :: "rr_op \<Rightarrow> bool" where
  "takes_custody c \<longleftrightarrow>
     (case c of
        Rr_initialize a b d m k \<Rightarrow> True | Rr_add_verifier a v n \<Rightarrow> True | Rr_top_up_stake a v n \<Rightarrow> True
      | Rr_set_minimum_stake a n \<Rightarrow> True | Rr_set_slash_percentage a k \<Rightarrow> True | Rr_remove_verifier a v \<Rightarrow> True
      | Rr_finalize_removal a v \<Rightarrow> True | Rr_record_default a u \<Rightarrow> True | Rr_resolve_dispute a v u b \<Rightarrow> True
      | _ \<Rightarrow> False)"

lemma custody_kept:
  assumes "rr_exec e c w = Some w'" "\<not> takes_custody c"
  shows "custody (rw_st w') = custody (rw_st w) \<and> rw_calls w' = rw_calls w"
  using assms by (cases c) (auto simp: takes_custody_def dest: rr_frames)

lemma covered_custody:
  assumes "custody s' = custody s" shows "covered self s' calls = covered self s calls"
proof -
  have f: "rr_staking_token s' = rr_staking_token s" "rr_verifier s' = rr_verifier s" "rr_stake s' = rr_stake s"
    "rr_min_stake s' = rr_min_stake s" "rr_slash_bps s' = rr_slash_bps s"
    and b: "\<And>v. map_option bo_amount (rr_bond s' v) = map_option bo_amount (rr_bond s v)"
    using assms by (auto simp: custody_def dest: fun_cong)
  have "bond_of s' v = bond_of s v" for v
    using b[of v] by (auto simp: bond_of_def split: option.splits)
  then show ?thesis
    by (simp add: covered_def current_def liable_def verifier_flag_def stake_of_def f)
qed

text \<open>One verifier's claim changes and nobody else's.\<close>

lemma sum_changed_at:
  fixes f g :: "'a \<Rightarrow> int"
  assumes "finite S" "v \<in> S" "\<And>x. x \<in> S \<Longrightarrow> x \<noteq> v \<Longrightarrow> g x = f x"
  shows "sum g S = sum f S - f v + g v"
proof -
  have "sum g (S - {v}) = sum f (S - {v})" using assms(3) by (intro sum.cong) auto
  then show ?thesis using assms(1,2) by (simp add: sum.remove)
qed

lemma covered_change:
  assumes cov: "covered self s calls" and cur: "current s' = current s"
    and fields: "rr_staking_token s' = rr_staking_token s" "rr_min_stake s' = rr_min_stake s" "rr_slash_bps s' = rr_slash_bps s"
    and others: "\<And>x. x \<noteq> v \<Longrightarrow> liable s' x = liable s x" and bonds: "\<And>x. 0 \<le> bond_of s' x"
    and paid: "\<And>tok. rr_staking_token s = Some tok \<Longrightarrow>
      (if v \<in> current s then liable s' v - liable s v else 0) \<le> held tok self cs"
    and none: "rr_staking_token s = None \<Longrightarrow> cs = []"
  shows "covered self s' (calls @ cs)"
proof -
  have "(\<Sum>x\<in>current s. liable s' x) = (\<Sum>x\<in>current s. liable s x) + (if v \<in> current s then liable s' v - liable s v else 0)"
  proof (cases "v \<in> current s")
    case True
    then show ?thesis
      using sum_changed_at[of "current s" v "liable s'" "liable s"] cov others by (simp add: covered_def)
  next
    case False
    then have "liable s' x = liable s x" if "x \<in> current s" for x using that others[of x] by metis
    with False show ?thesis by simp
  qed
  then show ?thesis
    using cov cur fields bonds paid none by (fastforce simp: covered_def)
qed

section \<open>Every careful call stays covered\<close>

lemma verifier_flag_simps [simp]:
  "verifier_flag (s\<lparr>rr_audit := l\<rparr>) v = verifier_flag s v" "verifier_flag (s\<lparr>rr_stake := st\<rparr>) v = verifier_flag s v"
  "verifier_flag (added u n s) v = (v = u \<or> verifier_flag s v)"
  "verifier_flag (retire_verifier e u s) v = (v \<noteq> u \<and> verifier_flag s v)"
  by (auto simp: verifier_flag_def added_def retire_verifier_def)

lemma stake_of_simps [simp]:
  "stake_of (s\<lparr>rr_audit := l\<rparr>) v = stake_of s v"
  "stake_of (s\<lparr>rr_stake := (rr_stake s)(u \<mapsto> n)\<rparr>) v = (if v = u then n else stake_of s v)"
  "stake_of (added u n s) v = (if v = u then n else stake_of s v)"
  "stake_of (retire_verifier e u s) v = (if v = u then 0 else stake_of s v)"
  by (auto simp: stake_of_def added_def retire_verifier_def)

lemma bond_of_simps [simp]:
  "bond_of (s\<lparr>rr_audit := l\<rparr>) v = bond_of s v" "bond_of (s\<lparr>rr_stake := st\<rparr>) v = bond_of s v"
  "bond_of (added u n s) v = (if v = u then n else bond_of s v)"
  "bond_of (retire_verifier e u s) v = bond_of s v"
  by (auto simp: bond_of_def added_def retire_verifier_def)

lemma covered_add:
  assumes "add_verifier e w a v n = Inr w'" "self_addr e = self" "covered self (rw_st w) (rw_calls w)"
  shows "covered self (rw_st w') (rw_calls w')"
proof -
  let ?s = "rw_st w"
  from add_verifier_Inr(1)[OF assms(1)] assms(2) obtain m where v: "v \<noteq> self" "require_addable e ?s v = Inr ()"
    and m: "rr_min_stake ?s = Some m" "m \<le> n" by auto
  have new: "\<not> verifier_flag ?s v" using v(2) by (auto simp: require_addable_def split: if_splits)
  have pos: "0 \<le> n" using assms(3) m by (auto simp: covered_def)
  from add_verifier_Inr(2)[OF assms(1)] assms(2) obtain tok l where tok: "rr_staking_token ?s = Some tok"
    and calls: "rw_calls w' = rw_calls w @ [Transfer tok v self n]" and s': "rw_st w' = (added v n ?s)\<lparr>rr_audit := l\<rparr>" by auto
  have cur: "current (rw_st w') = insert v (current ?s)" by (auto simp: current_def s')
  have "(\<Sum>x\<in>current ?s. liable (rw_st w') x) = (\<Sum>x\<in>current ?s. liable ?s x)"
    using new by (intro sum.cong) (auto simp: current_def liable_def s')
  moreover have "finite (current ?s)" "v \<notin> current ?s" using new assms(3) by (auto simp: covered_def current_def)
  moreover have "liable (rw_st w') v = n" using pos by (simp add: liable_def s')
  ultimately have "(\<Sum>x\<in>current (rw_st w'). liable (rw_st w') x) = n + (\<Sum>x\<in>current ?s. liable ?s x)"
    by (simp add: cur)
  then show ?thesis
    using assms(3) pos v(1) tok calls cur
    by (auto simp: covered_def s' added_def bond_of_def split: option.splits)
qed

lemma covered_top_up:
  assumes "top_up_stake e w a v n = Inr w'" "self_addr e = self" "covered self (rw_st w) (rw_calls w)"
  shows "covered self (rw_st w') (rw_calls w')"
proof -
  from top_up_Inr[OF assms(1)] assms(2) obtain tok l where g: "0 < n" "verifier_flag (rw_st w) v"
    "rr_staking_token (rw_st w) = Some tok" "rw_calls w' = rw_calls w @ [Transfer tok v self n]"
    "rw_st w' = (rw_st w)\<lparr>rr_stake := (rr_stake (rw_st w))(v \<mapsto> stake_of (rw_st w) v + n), rr_audit := l\<rparr>" by auto
  have "v \<noteq> self" using g(2) assms(3) by (auto simp: covered_def current_def)
  then show ?thesis
    unfolding g(4)
    by (intro covered_change[OF assms(3), where v = v])
      (use g assms(3) in \<open>auto simp: covered_def current_def liable_def\<close>)
qed

lemma covered_removal:
  assumes "remove_and_revoke e a v x w = Inr w'" "verifier_flag (rw_st w) v" "self_addr e = self"
    and "covered self (rw_st w) (rw_calls w)"
  shows "covered self (rw_st w') (rw_calls w')"
proof -
  let ?s = "rw_st w"
  from remove_and_revoke_Inr[OF assms(1)] assms(3) obtain tok l where
    tok: "0 < stake_of ?s v \<longrightarrow> rr_staking_token ?s = Some tok" and s': "rw_st w' = (retire_verifier e v ?s)\<lparr>rr_audit := l\<rparr>"
    and calls: "rw_calls w' = rw_calls w @ (if 0 < stake_of ?s v then [Transfer tok self v (stake_of ?s v)] else [])" by auto
  have v: "v \<in> current ?s" "v \<noteq> self" using assms(2,4) by (auto simp: covered_def current_def)
  have cur: "current (rw_st w') = current ?s - {v}" by (auto simp: current_def s')
  have "(\<Sum>x\<in>current ?s - {v}. liable (rw_st w') x) = (\<Sum>x\<in>current ?s - {v}. liable ?s x)"
    by (intro sum.cong) (auto simp: liable_def s')
  also have "\<dots> = (\<Sum>x\<in>current ?s. liable ?s x) - liable ?s v"
    using v(1) assms(4) by (simp add: covered_def sum.remove)
  finally have sum: "(\<Sum>x\<in>current (rw_st w'). liable (rw_st w') x) = (\<Sum>x\<in>current ?s. liable ?s x) - liable ?s v"
    by (simp add: cur)
  have paid: "max 0 (stake_of ?s v) \<le> liable ?s v" by (simp add: liable_def)
  have some: "rr_staking_token ?s \<noteq> None" using v(1) assms(4) by (auto simp: covered_def)
  have held: "held t self (rw_calls w') \<ge> held t self (rw_calls w) - max 0 (stake_of ?s v)" for t
    using v(2) by (auto simp: calls)
  have st: "rr_staking_token (rw_st w') = rr_staking_token ?s" "rr_min_stake (rw_st w') = rr_min_stake ?s"
    "rr_slash_bps (rw_st w') = rr_slash_bps ?s" "\<And>x. bond_of (rw_st w') x = bond_of ?s x"
    by (simp_all add: s' retire_verifier_def bond_of_def)
  have "(\<Sum>x\<in>current (rw_st w'). liable (rw_st w') x) \<le> held t self (rw_calls w')" if "rr_staking_token ?s = Some t" for t
    using that assms(4) sum paid held[of t] by (fastforce simp: covered_def)
  then show ?thesis using assms(4) some cur by (auto simp: covered_def st)
qed

lemma covered_default:
  assumes "record_default e ac s a sme = Inr s'" "covered self s calls"
  shows "covered self s' calls"
proof -
  from assms(1) obtain p bps s1 k q l where bps: "rr_slash_bps s = Some bps"
    and slash: "slash_stake (sp_verifier p) bps (s\<lparr>rr_lock := True\<rparr>) = Inr s1"
    and s': "s' = (put_sme sme (p\<lparr>sp_defaults := sp_defaults p + 1\<rparr>) (lower_reputation (sp_verifier p) s1))
      \<lparr>rr_default_tier := k, rr_tier_paused := q, rr_audit := l, rr_lock := False\<rparr>"
    by (rule record_default_Inr)
  let ?v = "sp_verifier p"
  have same: "custody s' = custody s1"
    by (simp add: s' custody_def put_sme_def lower_reputation_def Let_def)
  from slash_stake_Inr[OF slash] show ?thesis
  proof
    assume "s1 = s\<lparr>rr_lock := True\<rparr>"
    then have "custody s1 = custody s" by (simp add: custody_def)
    with same assms(2) covered_custody show ?thesis by metis
  next
    assume "\<exists>n. 0 < stake_of (s\<lparr>rr_lock := True\<rparr>) ?v \<and> slash_part (stake_of (s\<lparr>rr_lock := True\<rparr>) ?v) bps = Inr n \<and>
      s1 = s\<lparr>rr_lock := True\<rparr>\<lparr>rr_stake := (rr_stake (s\<lparr>rr_lock := True\<rparr>))(?v \<mapsto> stake_of (s\<lparr>rr_lock := True\<rparr>) ?v - n)\<rparr>"
    then obtain n where n: "0 < stake_of s ?v" "slash_part (stake_of s ?v) bps = Inr n"
      and s1: "s1 = s\<lparr>rr_lock := True, rr_stake := (rr_stake s)(?v \<mapsto> stake_of s ?v - n)\<rparr>"
      by (auto simp: stake_of_def)
    have "bps \<le> 10000" using assms(2) bps by (auto simp: covered_def)
    with slash_part_bounds[OF n(2)] n(1) have "0 \<le> n" by simp
    let ?s = "s\<lparr>rr_stake := (rr_stake s)(?v \<mapsto> stake_of s ?v - n)\<rparr>"
    have "covered self ?s (calls @ [])"
      by (rule covered_change[OF assms(2), where v = "?v"])
        (use \<open>0 \<le> n\<close> assms(2) in \<open>auto simp: current_def liable_def covered_def\<close>)
    moreover have "custody s1 = custody ?s" by (simp add: s1 custody_def)
    ultimately show ?thesis using same covered_custody by (metis append_Nil2)
  qed
qed

lemma covered_slash:
  assumes "slash_bond e v w = Inr w'" "self_addr e = self" "verifier_flag (rw_st w) v"
    and "covered self (rw_st w) (rw_calls w)"
  shows "covered self (rw_st w') (rw_calls w')"
proof -
  let ?s = "rw_st w"
  from assms(1) obtain b bps treasury n where b: "rr_bond ?s v = Some b" and bps: "rr_slash_bps ?s = Some bps"
    and n: "slash_part (bo_amount b) bps = Inr n" and zero: "n \<le> 0 \<longrightarrow> w' = w"
    and pos: "0 < n \<longrightarrow> (\<exists>tok k. rr_staking_token ?s = Some tok \<and> (k = stake_of ?s v - n \<or> k = 0) \<and>
       w' = rr_emit (Transfer tok (self_addr e) treasury n)
         (w\<lparr>rw_st := ?s\<lparr>rr_bond := (rr_bond ?s)(v \<mapsto> b\<lparr>bo_amount := bo_amount b - n\<rparr>),
                            rr_stake := (rr_stake ?s)(v \<mapsto> k)\<rparr>\<rparr>))"
    by (rule slash_bond_Inr)
  have bond: "bond_of ?s v = bo_amount b" using b by (simp add: bond_of_def)
  have "0 \<le> bond_of ?s v" "bps \<le> 10000" using assms(4) bps by (simp_all add: covered_def)
  then have "0 \<le> bo_amount b" "bps \<le> 10000" by (simp_all add: bond)
  from slash_part_bounds[OF n this] have n_le: "n \<le> bo_amount b" by simp
  show ?thesis
  proof (cases "0 < n")
    case True
    from pos True assms(2) obtain tok k where tok: "rr_staking_token ?s = Some tok" and k: "k = stake_of ?s v - n \<or> k = 0"
      and w': "w' = rr_emit (Transfer tok self treasury n)
         (w\<lparr>rw_st := ?s\<lparr>rr_bond := (rr_bond ?s)(v \<mapsto> b\<lparr>bo_amount := bo_amount b - n\<rparr>), rr_stake := (rr_stake ?s)(v \<mapsto> k)\<rparr>\<rparr>)"
      by auto
    let ?t = "?s\<lparr>rr_bond := (rr_bond ?s)(v \<mapsto> b\<lparr>bo_amount := bo_amount b - n\<rparr>), rr_stake := (rr_stake ?s)(v \<mapsto> k)\<rparr>"
    have bonds: "bond_of (?s\<lparr>rr_bond := (rr_bond ?s)(v \<mapsto> b\<lparr>bo_amount := bo_amount b - n\<rparr>)\<rparr>) x = (if x = v then bo_amount b - n else bond_of ?s x)" for x by (simp add: bond_of_def)
    have stakes: "stake_of ?t x = (if x = v then k else stake_of ?s x)" for x by (simp add: stake_of_def)
    have less: "liable ?t v \<le> liable ?s v - n"
      using k n_le by (auto simp: liable_def bonds stakes bond)
    have "covered self ?t (rw_calls w @ [Transfer tok self treasury n])"
    proof (rule covered_change[OF assms(4), where v = v])
      show "current ?t = current ?s" by (simp add: current_def verifier_flag_def)
      show "liable ?t x = liable ?s x" if "x \<noteq> v" for x using that by (simp add: liable_def bonds stakes)
      show "0 \<le> bond_of ?t x" for x using assms(4) n_le by (simp add: bonds covered_def)
      show "(if v \<in> current ?s then liable ?t v - liable ?s v else 0) \<le> held t self [Transfer tok self treasury n]"
        if "rr_staking_token ?s = Some t" for t
        using less that tok True assms(3) by (auto simp: current_def)
    qed (use tok in auto)
    then show ?thesis by (simp add: w' rr_emit_def)
  next
    case False
    with zero assms(4) show ?thesis by simp
  qed
qed

lemma covered_exec:
  assumes "rr_exec e c w = Some w'" "self_addr e = self" "careful (rw_st w) c" "covered self (rw_st w) (rw_calls w)"
    and "origin (rw_st w)"
  shows "covered self (rw_st w') (rw_calls w')"
proof (cases "takes_custody c")
  case False
  from custody_kept[OF assms(1) False] assms(4) covered_custody show ?thesis by metis
next
  case True
  then show ?thesis
  proof (cases c)
    case (Rr_initialize a b d m k)
    with assms show ?thesis
      by (auto simp: rr_initialize_def careful_def covered_def origin_def current_def verifier_flag_def bond_of_def
          split: if_splits)
  next
    case (Rr_add_verifier a v n)
    with assms covered_add show ?thesis by simp
  next
    case (Rr_top_up_stake a v n)
    with assms covered_top_up show ?thesis by simp
  next
    case (Rr_set_minimum_stake a n)
    with assms show ?thesis
      by (auto simp: set_minimum_stake_def covered_def current_def verifier_flag_def bond_of_def liable_def stake_of_def
          dest!: rr_audited_Inr)
  next
    case (Rr_set_slash_percentage a k)
    with assms show ?thesis
      by (auto simp: set_slash_percentage_def covered_def current_def verifier_flag_def bond_of_def liable_def stake_of_def
          dest!: rr_audited_Inr)
  next
    case (Rr_remove_verifier a v)
    with assms(1) have "remove_verifier e w a v = Inr w'" by simp
    from covered_removal[OF remove_verifier_Inr(4,3)[OF this] assms(2,4)] show ?thesis .
  next
    case (Rr_finalize_removal a v)
    with assms(1) have "finalize_verifier_removal e w a v = Inr w'" by simp
    from covered_removal[OF finalize_Inr(6,3)[OF this] assms(2,4)] show ?thesis .
  next
    case (Rr_record_default a u)
    with assms(1,4) covered_default show ?thesis by fastforce
  next
    case (Rr_resolve_dispute a v u slash)
    with assms(1) have "resolve_dispute e w a v u slash = Inr w'" by simp
    then obtain d w1 where w1: "slash \<longrightarrow> slash_bond e v w = Inr w1" "\<not> slash \<longrightarrow> w1 = w"
      and w': "rw_st w' = close_dispute v u d (if slash then lower_reputation v (rw_st w1) else rw_st w1)" "rw_calls w' = rw_calls w1"
      by (rule resolve_dispute_Inr)
    have "covered self (rw_st w1) (rw_calls w1)"
    proof (cases slash)
      case True
      with assms(3) Rr_resolve_dispute have "verifier_flag (rw_st w) v" by (simp add: careful_def)
      from covered_slash[OF w1(1)[THEN mp, OF True] assms(2) this assms(4)] show ?thesis .
    qed (use w1 assms(4) in simp)
    moreover have "custody (rw_st w') = custody (rw_st w1)"
      by (simp add: w' close_dispute_def put_dispute_def lower_reputation_def custody_def Let_def)
    ultimately show ?thesis using covered_custody w'(2) by metis
  qed (auto simp: takes_custody_def)
qed

lemma origin_exec: "rr_exec e c w = Some w' \<Longrightarrow> origin (rw_st w) \<Longrightarrow> origin (rw_st w')"
proof (cases c)
  case (Rr_add_verifier a v n)
  moreover assume "rr_exec e c w = Some w'"
  ultimately have "add_verifier e w a v n = Inr w'" by simp
  from add_verifier_Inr[OF this] show ?thesis by (auto simp: origin_def added_def)
next
  case (Rr_top_up_stake a v n)
  moreover assume "rr_exec e c w = Some w'"
  ultimately have "top_up_stake e w a v n = Inr w'" by simp
  from top_up_Inr[OF this] show ?thesis by (auto simp: origin_def)
next
  case (Rr_remove_verifier a v)
  moreover assume "rr_exec e c w = Some w'"
  ultimately have "remove_verifier e w a v = Inr w'" by simp
  from remove_verifier_Inr[OF this] show ?thesis by (auto dest!: remove_and_revoke_Inr simp: origin_def retire_verifier_def)
next
  case (Rr_finalize_removal a v)
  moreover assume "rr_exec e c w = Some w'"
  ultimately have "finalize_verifier_removal e w a v = Inr w'" by simp
  from finalize_Inr[OF this] show ?thesis by (auto dest!: remove_and_revoke_Inr simp: origin_def retire_verifier_def)
next
  case (Rr_record_default a u)
  moreover assume "rr_exec e c w = Some w'"
  ultimately obtain s' where "record_default e (rw_ac w) (rw_st w) a u = Inr s'" "w' = w\<lparr>rw_st := s'\<rparr>" by auto
  then show ?thesis
    by (auto elim!: record_default_Inr dest!: slash_stake_Inr simp: origin_def put_sme_def lower_reputation_def Let_def)
next
  case (Rr_resolve_dispute a v u b)
  moreover assume "rr_exec e c w = Some w'"
  ultimately have "resolve_dispute e w a v u b = Inr w'" by simp
  then have "rr_admin (rw_st w') = Some a"
    by (rule resolve_dispute_Inr) (auto elim!: slash_bond_Inr simp: close_dispute_def put_dispute_def lower_reputation_def
        Let_def rr_emit_def split: if_splits)
  then show ?thesis by (simp add: origin_def)
qed (auto simp: origin_def rr_initialize_def rr_transfer_admin_def accept_admin_def rr_cancel_admin_proposal_def Let_def
    owners_def dest!: rr_frames rr_audited_Inr)

lemma reachable_covered:
  assumes "rr_reachable allowed self w" "\<And>s c. allowed s c \<Longrightarrow> careful s c"
  shows "origin (rw_st w) \<and> covered self (rw_st w) (rw_calls w)"
proof (rule rr_reachable_induct[OF assms(1), where I = "\<lambda>s calls. origin s \<and> covered self s calls"])
  show "origin rr_empty \<and> covered self rr_empty []"
    by (simp add: origin_def covered_def rr_empty_def current_def verifier_flag_def bond_of_def)
qed (use assms(2) in \<open>auto intro: origin_exec covered_exec\<close>)

text \<open>C16: As long as the registry is initialised with a sound minimum and percentage and only current
  verifiers are slashed, it always holds enough of the staking token to return every current
  verifier's stake, whatever was topped up, returned, slashed and penalised before.\<close>

theorem stakes_are_covered:
  assumes "rr_reachable careful self w" "rr_staking_token (rw_st w) = Some tok"
  shows "finite {v. verifier_flag (rw_st w) v} \<and>
    (\<Sum>v | verifier_flag (rw_st w) v. max 0 (stake_of (rw_st w) v))
      \<le> moved_in tok self (rw_calls w) - moved_out tok self (rw_calls w)"
proof -
  have cov: "covered self (rw_st w) (rw_calls w)" using reachable_covered[OF assms(1)] by blast
  have "(\<Sum>v | verifier_flag (rw_st w) v. max 0 (stake_of (rw_st w) v)) \<le> (\<Sum>v\<in>current (rw_st w). liable (rw_st w) v)"
    unfolding current_def by (intro sum_mono) (simp add: liable_def)
  with cov assms(2) show ?thesis by (auto simp: covered_def held_def current_def)
qed

end
