(* ===== verification/Registry_Verifiers.thy ===== *)
theory Registry_Verifiers
  imports Registry_Stakes
begin

text \<open>
  The life cycle of a verifier as an abstract machine the registry implements, what removal means
  for good, and how access control and open disputes interfere with it.
\<close>

section \<open>The stages of a verifier\<close>

datatype stage = Outside | Serving | Suspended | Leaving | Gone

definition stage_of :: "rr_state \<Rightarrow> address \<Rightarrow> stage" where
  "stage_of s v =
     (case rr_status s v of
        None \<Rightarrow> if verifier_flag s v then Serving else Outside
      | Some VS_Active \<Rightarrow> Serving | Some VS_Suspended \<Rightarrow> Suspended
      | Some VS_PendingRemoval \<Rightarrow> Leaving | Some VS_Removed \<Rightarrow> Gone)"

text \<open>The abstract machine: from which stages a call on a verifier may start and where it leads.\<close>

fun stage_move :: "rr_op \<Rightarrow> (address \<times> stage set \<times> stage) option" where
  "stage_move (Rr_suspend a v) = Some (v, {Serving}, Suspended)"
| "stage_move (Rr_reinstate a v) = Some (v, {Suspended}, Serving)"
| "stage_move (Rr_request_removal a v) = Some (v, {Serving, Suspended}, Leaving)"
| "stage_move (Rr_cancel_removal a v) = Some (v, {Leaving}, Serving)"
| "stage_move (Rr_remove_verifier a v) = Some (v, {Serving, Suspended, Leaving, Gone}, Gone)"
| "stage_move (Rr_finalize_removal a v) = Some (v, {Leaving}, Gone)"
| "stage_move c = None"

definition stage_after :: "rr_op \<Rightarrow> address \<Rightarrow> stage \<Rightarrow> stage" where
  "stage_after c v x =
     (case c of
        Rr_add_verifier a u n \<Rightarrow> if u = v \<and> x = Outside then Serving else x
      | _ \<Rightarrow> (case stage_move c of None \<Rightarrow> x | Some (u, _, y) \<Rightarrow> if u = v then y else x))"

text \<open>Whoever has a live status is a verifier.\<close>

definition staged :: "rr_state \<Rightarrow> bool" where
  "staged s \<longleftrightarrow> (\<forall>v st. rr_status s v = Some st \<and> st \<noteq> VS_Removed \<longrightarrow> verifier_flag s v)"

definition moves_stage :: "rr_op \<Rightarrow> bool" where
  "moves_stage c \<longleftrightarrow> (case c of Rr_add_verifier a u n \<Rightarrow> True | _ \<Rightarrow> stage_move c \<noteq> None)"

lemma stages_same: "stages s' = stages s \<Longrightarrow> stage_of s' = stage_of s \<and> staged s' = staged s"
  by (auto simp: stages_def stage_of_def staged_def verifier_flag_def)

lemma stages_kept:
  assumes "rr_exec e c w = Some w'" "\<not> moves_stage c" shows "stages (rw_st w') = stages (rw_st w)"
proof (cases c)
  case (Rr_initialize a b d m k)
  with assms show ?thesis by (auto dest: rr_frames)
next
  case (Rr_top_up_stake a v n)
  with assms(1) have "top_up_stake e w a v n = Inr w'" by simp
  from top_up_Inr(2)[OF this] show ?thesis by (auto simp: stages_def)
next
  case (Rr_record_default a u)
  with assms(1) obtain s' where "record_default e (rw_ac w) (rw_st w) a u = Inr s'" "w' = w\<lparr>rw_st := s'\<rparr>" by auto
  then show ?thesis
    by (auto elim!: record_default_Inr dest!: slash_stake_Inr simp: stages_def put_sme_def lower_reputation_def Let_def)
next
  case (Rr_resolve_dispute a v u b)
  with assms(1) have "resolve_dispute e w a v u b = Inr w'" by simp
  then show ?thesis
    by (rule resolve_dispute_Inr) (auto elim!: slash_bond_Inr simp: stages_def close_dispute_def put_dispute_def
        lower_reputation_def Let_def rr_emit_def split: if_splits)
next
  case (Rr_set_minimum_stake a n)
  with assms show ?thesis by (auto dest: rr_frames)
next
  case (Rr_set_slash_percentage a k)
  with assms show ?thesis by (auto dest: rr_frames)
qed (use assms in \<open>auto simp: moves_stage_def dest: rr_frames\<close>)

lemma stage_put_status:
  assumes "verifier_flag s v"
  shows "stage_of (put_status e v st s) u = (if u = v then
      (case st of VS_Active \<Rightarrow> Serving | VS_Suspended \<Rightarrow> Suspended | VS_PendingRemoval \<Rightarrow> Leaving | VS_Removed \<Rightarrow> Gone)
      else stage_of s u)"
    and "staged s \<Longrightarrow> staged (put_status e v st s)"
  using assms by (auto simp: stage_of_def put_status_def staged_def verifier_flag_def split: option.splits VerifierStatus.splits)

lemma status_stage: "verifier_flag s v \<Longrightarrow>
  verifier_status s v = (case stage_of s v of Serving \<Rightarrow> VS_Active | Suspended \<Rightarrow> VS_Suspended | Leaving \<Rightarrow> VS_PendingRemoval | _ \<Rightarrow> VS_Removed)"
  by (auto simp: verifier_status_def stage_of_def split: option.splits VerifierStatus.splits)

lemma stage_frames:
  "stage_of (s\<lparr>rr_audit := l\<rparr>) v = stage_of s v" "staged (s\<lparr>rr_audit := l\<rparr>) = staged s"
  "stage_of (s\<lparr>rr_removal_at := r\<rparr>) v = stage_of s v" "staged (s\<lparr>rr_removal_at := r\<rparr>) = staged s"
  "stage_of (retire_verifier e u s) v = (if v = u then Gone else stage_of s v)"
  "staged s \<Longrightarrow> staged (retire_verifier e u s)"
  "stage_of (added u n s) v = (if v = u \<and> stage_of s v = Outside then Serving else stage_of s v)"
  "staged s \<Longrightarrow> staged (added u n s)"
  by (auto simp: stage_of_def staged_def retire_verifier_def added_def verifier_flag_def split: option.splits VerifierStatus.splits)

lemma flag_stage: "verifier_flag s v \<Longrightarrow> stage_of s v \<noteq> Outside"
  by (auto simp: stage_of_def split: option.splits VerifierStatus.splits)

lemma keeper_Inr: "as_keeper e ac s a v = Inr u \<Longrightarrow> verifier_flag s v"
  by (auto simp: as_keeper_def)

lemma audited_keeper:
  assumes "rr_audited e a x s1 = Inr (s' :: rr_state)" "stage_of s1 = f" "staged s1"
  shows "stage_of s' = f \<and> staged s'"
  using assms by (auto simp: stage_frames fun_eq_iff dest!: rr_audited_Inr)

lemma stage_step_status:
  assumes "rr_exec e c w = Some w'" "stage_move c = Some (u, X, y)" "staged (rw_st w)"
    and "\<And>a v. c \<noteq> Rr_remove_verifier a v" "\<And>a v. c \<noteq> Rr_finalize_removal a v"
  shows "stage_of (rw_st w) u \<in> X \<and> stage_of (rw_st w') = (stage_of (rw_st w))(u := y) \<and> staged (rw_st w')"
  using assms
  by (cases c)
    (auto simp: suspend_verifier_def reinstate_verifier_def request_verifier_removal_def cancel_verifier_removal_def
      Let_def status_stage stage_frames stage_put_status fun_eq_iff split: stage.splits if_splits
      dest!: rr_audited_Inr dest: keeper_Inr)

lemma stage_step_removal:
  assumes "remove_and_revoke e a u x w = Inr w'" "staged (rw_st w)"
  shows "stage_of (rw_st w') = (stage_of (rw_st w))(u := Gone) \<and> staged (rw_st w')"
  using remove_and_revoke_Inr[OF assms(1)] assms(2) by (auto simp: stage_frames fun_eq_iff)

lemma stage_step:
  assumes "rr_exec e c w = Some w'" "stage_move c = Some (u, X, y)" "staged (rw_st w)"
  shows "stage_of (rw_st w) u \<in> X \<and> stage_of (rw_st w') = (stage_of (rw_st w))(u := y) \<and> staged (rw_st w')"
proof (cases c)
  case (Rr_remove_verifier a v)
  with assms have run: "remove_verifier e w a u = Inr w'" "X = {Serving, Suspended, Leaving, Gone}" "y = Gone" by auto
  from flag_stage[OF remove_verifier_Inr(3)[OF run(1)]] have "stage_of (rw_st w) u \<in> X"
    by (cases "stage_of (rw_st w) u") (auto simp: run)
  with stage_step_removal[OF remove_verifier_Inr(4)[OF run(1)] assms(3)] run(3) show ?thesis by simp
next
  case (Rr_finalize_removal a v)
  with assms have run: "finalize_verifier_removal e w a u = Inr w'" "X = {Leaving}" "y = Gone" by auto
  have "stage_of (rw_st w) u = Leaving"
    using finalize_Inr(3,4)[OF run(1)] by (auto simp: status_stage split: stage.splits)
  with stage_step_removal[OF finalize_Inr(6)[OF run(1)] assms(3)] run(2,3) show ?thesis by simp
qed (use stage_step_status[OF assms] in auto)

lemma stage_exec:
  assumes "rr_exec e c w = Some w'" "staged (rw_st w)"
  shows "stage_of (rw_st w') v = stage_after c v (stage_of (rw_st w) v) \<and> staged (rw_st w')"
proof (cases "moves_stage c")
  case False
  then have "stage_after c v (stage_of (rw_st w) v) = stage_of (rw_st w) v"
    by (cases c) (auto simp: moves_stage_def stage_after_def)
  with stages_same[OF stages_kept[OF assms(1) False]] assms(2) show ?thesis by simp
next
  case True
  show ?thesis
  proof (cases "stage_move c")
    case None
    with True obtain a u n where c: "c = Rr_add_verifier a u n" by (cases c) (auto simp: moves_stage_def)
    with assms(1) have "add_verifier e w a u n = Inr w'" by simp
    from add_verifier_Inr(2)[OF this] assms(2) show ?thesis
      by (auto simp: stage_frames stage_after_def c)
  next
    case (Some m)
    then obtain u X y where m: "stage_move c = Some (u, X, y)" by (cases m) auto
    then have "stage_after c v x = (if u = v then y else x)" for x
      by (cases c) (auto simp: stage_after_def)
    with stage_step[OF assms(1) m assms(2)] show ?thesis by simp
  qed
qed

lemma reachable_staged:
  assumes "rr_reachable allowed self w" shows "staged (rw_st w)"
proof (rule rr_reachable_induct[OF assms, where I = "\<lambda>s calls. staged s"])
  show "staged rr_empty" by (simp add: staged_def rr_empty_def)
qed (auto dest: stage_exec)

lemma serving_is_verifier: "staged s \<Longrightarrow> is_verifier s v = (stage_of s v = Serving)"
  by (auto simp: is_verifier_def stage_of_def staged_def verifier_status_def split: option.splits VerifierStatus.splits)

text \<open>C17: The life cycle of a verifier is the abstract machine \<open>stage_after\<close>: every call that goes
  through starts from a stage the machine allows and leaves every address in the stage the machine
  names, and the contract calls exactly the addresses in stage \<open>Serving\<close> verifiers.\<close>

theorem verifier_lifecycle_refines:
  assumes "rr_reachable allowed self w" "rr_exec e c w = Some w'"
  shows "stage_of (rw_st w') v = stage_after c v (stage_of (rw_st w) v) \<and>
    (\<forall>X y. stage_move c = Some (v, X, y) \<longrightarrow> stage_of (rw_st w) v \<in> X) \<and>
    is_verifier (rw_st w') v = (stage_of (rw_st w') v = Serving)"
proof -
  have staged: "staged (rw_st w)" by (rule reachable_staged[OF assms(1)])
  with stage_exec[OF assms(2)] stage_step[OF assms(2) _ staged] show ?thesis
    by (auto simp: serving_is_verifier)
qed

section \<open>Removal is for good\<close>

lemma gone_kept:
  assumes "rr_exec e c w = Some w'" "staged (rw_st w)" "stage_of (rw_st w) v = Gone"
  shows "stage_of (rw_st w') v = Gone"
proof -
  have "stage_after c v Gone = Gone" if "\<forall>X y. stage_move c = Some (v, X, y) \<longrightarrow> Gone \<in> X"
    using that by (cases c) (auto simp: stage_after_def)
  with stage_exec[OF assms(1,2)] stage_step[OF assms(1) _ assms(2)] assms(3) show ?thesis by metis
qed

lemma gone_runs:
  assumes "rr_runs allowed self w w'" "staged (rw_st w)" "stage_of (rw_st w) v = Gone"
  shows "staged (rw_st w') \<and> stage_of (rw_st w') v = Gone"
  using assms by (induction rule: rr_runs.induct) (auto dest: stage_exec gone_kept)

lemma gone_status: "stage_of s v = Gone \<longleftrightarrow> rr_status s v = Some VS_Removed"
  by (auto simp: stage_of_def split: option.splits VerifierStatus.splits)

lemma gone_refused:
  assumes "rr_status s v = Some VS_Removed" "verifier_flag s v"
  shows "resolve_verifier s v = Inl (Err RR_VerifierSuspended)" "require_verifier_primary s v = Inl (Err RR_VerifierSuspended)"
  using assms by (simp_all add: resolve_verifier_def require_verifier_primary_def verifier_status_def)

text \<open>Removal is for good although \<open>add_verifier\<close> has a cooldown for taking a verifier back: no call
  ever clears the status \<open>Removed\<close>.  Whatever happens later, a removed verifier that is added again
  pays its stake and has the flag, but never acts as a verifier and can no more be suspended,
  reinstated or put up for removal; every score it gave stays out of the averages.\<close>

theorem removed_verifier_never_serves:
  assumes "rr_reachable allowed self w" "rr_status (rw_st w) v = Some VS_Removed" "rr_runs allowed self w w'"
  shows "rr_status (rw_st w') v = Some VS_Removed \<and> \<not> is_verifier (rw_st w') v \<and>
    \<not> counts_toward_aggregate (rw_st w') v \<and>
    (verifier_flag (rw_st w') v \<longrightarrow> resolve_verifier (rw_st w') v = Inl (Err RR_VerifierSuspended)) \<and>
    \<not> is_ok (suspend_verifier e ac (rw_st w') a v) \<and> \<not> is_ok (reinstate_verifier e ac (rw_st w') a v) \<and>
    \<not> is_ok (request_verifier_removal e ac (rw_st w') a v) \<and> \<not> is_ok (top_up_stake e w' a v n)"
proof -
  from gone_runs[OF assms(3) reachable_staged[OF assms(1)]] assms(2)
  have gone: "rr_status (rw_st w') v = Some VS_Removed" by (simp add: gone_status)
  then have "verifier_status (rw_st w') v = VS_Removed" by (simp add: verifier_status_def)
  with gone gone_refused(1)[OF gone] show ?thesis
    by (auto simp: is_verifier_def counts_toward_aggregate_def suspend_verifier_def reinstate_verifier_def
        request_verifier_removal_def top_up_stake_def is_ok_def Let_def split: sum.splits if_splits dest!: top_up_Inr(1))
qed

section \<open>Access control in the way\<close>

lemma call_access_needs:
  assumes "call_access e f w = Inr w'" "rr_access (rw_st w) \<noteq> None" "\<And>e' ac r. f e' ac = Inr r \<Longrightarrow> P ac"
  shows "P (rw_ac w)"
  using assms by (auto simp: call_access_def)

lemma grant_needs: "grant_role e ac a v r = Inr ac' \<Longrightarrow> ac_multisig ac = None \<and> ac_admin ac = Some a \<and> v \<noteq> a"
  by (auto simp: grant_role_def require_direct_def load_multisig_config_def ac_require_admin_def validate_grant_role_target_def
      ok_or_def split: option.splits if_splits)

lemma revoke_needs: "revoke_role e ac a v = Inr ac' \<Longrightarrow> ac_multisig ac = None \<and> ac_admin ac = Some a \<and> role_of ac v \<notin> {RoleNone, RoleAdmin}"
  by (auto simp: revoke_role_def require_direct_def load_multisig_config_def ac_require_admin_def Let_def ok_or_def
      split: option.splits if_splits)

lemma remove_and_revoke_needs:
  assumes "remove_and_revoke e a v x w = Inr w'" "rr_access (rw_st w) \<noteq> None"
  shows "ac_multisig (rw_ac w) = None \<and> ac_admin (rw_ac w) = Some a \<and> role_of (rw_ac w) v \<notin> {RoleNone, RoleAdmin}"
proof -
  from assms obtain w1 w2 where pay: "return_stake e v w = Inr w1"
    and call: "call_access e (\<lambda>e' ac. revoke_role e' ac a v) (w1\<lparr>rw_st := retire_verifier e v (rw_st w1)\<rparr>) = (Inr w2 :: rr_world rr_result)"
    by (simp add: remove_and_revoke_def) blast
  note kept = return_stake_Inr(1,2)[OF pay]
  have "rr_access (rw_st (w1\<lparr>rw_st := retire_verifier e v (rw_st w1)\<rparr>)) \<noteq> None"
    using assms(2) by (simp add: kept retire_verifier_def)
  from call_access_needs[OF call this revoke_needs] show ?thesis by (simp add: kept)
qed

text \<open>With access control configured, verifiers can only be added and removed while access
  control has no multisig, by an admin that is the admin of both contracts; and a verifier can only
  be removed while access control has some role for it.  Once a multisig is configured there, the set
  of verifiers of the registry is frozen.\<close>

theorem multisig_freezes_verifiers:
  assumes "rr_access (rw_st w) \<noteq> None"
  shows "(is_ok (add_verifier e w a v n) \<longrightarrow> ac_multisig (rw_ac w) = None \<and> ac_admin (rw_ac w) = Some a \<and> v \<noteq> a) \<and>
    (is_ok (remove_verifier e w a v) \<or> is_ok (finalize_verifier_removal e w a v) \<longrightarrow>
      ac_multisig (rw_ac w) = None \<and> ac_admin (rw_ac w) = Some a \<and> role_of (rw_ac w) v \<notin> {RoleNone, RoleAdmin})"
proof -
  have "ac_multisig (rw_ac w) = None \<and> ac_admin (rw_ac w) = Some a \<and> v \<noteq> a" if "is_ok (add_verifier e w a v n)"
  proof -
    from that obtain tok w1 where
      call: "call_access e (\<lambda>e' ac. grant_role e' ac a v RoleVerifier)
        (w\<lparr>rw_calls := rw_calls w @ [Transfer tok v (self_addr e) n], rw_st := added v n (rw_st w)\<rparr>) = (Inr w1 :: rr_world rr_result)"
      by (clarsimp simp: is_ok_iff add_verifier_def Let_def rr_emit_def added_def)
    from call_access_needs[OF call _ grant_needs] assms show ?thesis by (simp add: added_def)
  qed
  moreover have "ac_multisig (rw_ac w) = None \<and> ac_admin (rw_ac w) = Some a \<and> role_of (rw_ac w) v \<notin> {RoleNone, RoleAdmin}"
    if "is_ok (remove_verifier e w a v) \<or> is_ok (finalize_verifier_removal e w a v)"
    using that remove_and_revoke_needs[OF _ assms] remove_verifier_Inr(4) finalize_Inr(6) by (metis is_ok_iff)
  ultimately show ?thesis by blast
qed

section \<open>Slashing who has left\<close>

lemma slash_bond_pays:
  assumes "rr_bond (rw_st w) v = Some b" "rr_slash_bps (rw_st w) = Some bps" "rr_slash_treasury (rw_st w) = Some treasury"
    "rr_staking_token (rw_st w) = Some tok" "slash_part (bo_amount b) bps = Inr n" "0 < n" "0 \<le> bo_amount b" "n \<le> bo_amount b"
    "bo_amount b \<le> i128_max"
  shows "\<exists>w'. slash_bond e v w = Inr w' \<and> rw_ac w' = rw_ac w \<and> rw_calls w' = rw_calls w @ [Transfer tok (self_addr e) treasury n] \<and>
    (\<forall>u. verifier_flag (rw_st w') u = verifier_flag (rw_st w) u) \<and> (\<forall>u. u \<noteq> v \<longrightarrow> stake_of (rw_st w') u = stake_of (rw_st w) u)"
proof -
  have "i128_sub (bo_amount b) n = Some (bo_amount b - n)"
    using assms(6-9) by (simp add: i128_sub_def i128_fit_def i128_min_def i128_max_def)
  with assms show ?thesis
    by (simp add: slash_bond_def Let_def rr_emit_def verifier_flag_def stake_of_def)
qed

text \<open>Nothing ties a slash to a verifier that still is one: when a verifier left through
  \<open>finalize_verifier_removal\<close>, which neither waits for its disputes nor drops its bond, an upheld
  dispute still pays the treasury out of the contract, so out of the stakes of the others.\<close>

theorem slash_after_removal_takes_others_stake:
  assumes "\<not> verifier_flag (rw_st w) v" "rr_bond (rw_st w) v = Some b" "0 \<le> bo_amount b" "bo_amount b \<le> i128_max"
    and "rr_dispute (rw_st w) v u = Some d" "\<not> dp_resolved d"
    and "authorised e a" "rr_admin (rw_st w) = Some a" "rr_access (rw_st w) = None \<or> \<not> ac_is_paused (rw_ac w)"
    and "rr_slash_bps (rw_st w) = Some bps" "bps \<le> 10000" "slash_part (bo_amount b) bps = Inr n" "0 < n"
    and "rr_slash_treasury (rw_st w) = Some treasury" "treasury \<noteq> self_addr e" "rr_staking_token (rw_st w) = Some tok"
  shows "\<exists>w'. resolve_dispute e w a v u True = Inr w' \<and>
    held tok (self_addr e) (rw_calls w') = held tok (self_addr e) (rw_calls w) - n \<and>
    (\<forall>x. verifier_flag (rw_st w') x = verifier_flag (rw_st w) x) \<and>
    (\<Sum>x | verifier_flag (rw_st w') x. max 0 (stake_of (rw_st w') x)) = (\<Sum>x | verifier_flag (rw_st w) x. max 0 (stake_of (rw_st w) x))"
proof -
  have "n \<le> bo_amount b" using slash_part_bounds assms(3,11,12) by blast
  from slash_bond_pays[OF assms(2,10,14,16,12,13,3) this assms(4)] obtain w1 where
    w1: "slash_bond e v w = Inr w1" "rw_calls w1 = rw_calls w @ [Transfer tok (self_addr e) treasury n]"
      "\<And>x. verifier_flag (rw_st w1) x = verifier_flag (rw_st w) x"
      "\<And>x. x \<noteq> v \<Longrightarrow> stake_of (rw_st w1) x = stake_of (rw_st w) x" by blast
  let ?w = "w1\<lparr>rw_st := close_dispute v u d (lower_reputation v (rw_st w1))\<rparr>"
  have run: "resolve_dispute e w a v u True = Inr ?w"
    using assms(5-9) w1(1) by (simp add: resolve_dispute_def as_running_admin_def as_admin_def)
  have kept: "verifier_flag (rw_st ?w) x = verifier_flag (rw_st w1) x" "stake_of (rw_st ?w) x = stake_of (rw_st w1) x" for x
    by (simp_all add: close_dispute_def put_dispute_def lower_reputation_def verifier_flag_def stake_of_def Let_def)
  have "(\<Sum>x | verifier_flag (rw_st ?w) x. max 0 (stake_of (rw_st ?w) x)) = (\<Sum>x | verifier_flag (rw_st w) x. max 0 (stake_of (rw_st w) x))"
    unfolding kept w1(3) using assms(1) w1(4) by (intro sum.cong refl) (metis mem_Collect_eq)
  with run kept w1 assms(15) show ?thesis by (intro exI[of _ ?w]) (auto simp: held_def)
qed

end
