(* ===== verification/Registry_Scores.thy ===== *)
theory Registry_Scores
  imports Registry_Runs
begin

text \<open>
  The scores of the registry: the debtors' averages against their mathematical meaning, who moves an
  SME's profile and how, and what a default does, circuit breaker included.
\<close>

section \<open>The average of a debtor\<close>

definition attestors_of :: "rr_state \<Rightarrow> bytes \<Rightarrow> address list" where
  "attestors_of s h = (case rr_attestors s h of None \<Rightarrow> [] | Some vs \<Rightarrow> vs)"

lemma attestors_frame [simp]: "attestors_of (s\<lparr>rr_debtor_score := d\<rparr>) h = attestors_of s h"
  by (simp add: attestors_of_def)

definition scored :: "rr_state \<Rightarrow> bool" where
  "scored s \<longleftrightarrow> (\<forall>h. distinct (attestors_of s h) \<and> length (attestors_of s h) \<le> 50 \<and>
     (\<forall>v x. rr_debtor_score s h v = Some x \<longrightarrow> x \<le> 100 \<and> v \<in> set (attestors_of s h)))"

text \<open>Who has a score that counts, and the score.\<close>

definition raters :: "rr_state \<Rightarrow> bytes \<Rightarrow> address set" where
  "raters s h = {v. counts_toward_aggregate s v \<and> rr_debtor_score s h v \<noteq> None}"

definition rating :: "rr_state \<Rightarrow> bytes \<Rightarrow> address \<Rightarrow> nat" where
  "rating s h v = (case rr_debtor_score s h v of None \<Rightarrow> 0 | Some x \<Rightarrow> x)"

lemma add_scores_sum:
  assumes "distinct vs" "\<And>v x. rr_debtor_score s h v = Some x \<Longrightarrow> x \<le> 100" "t + 100 * length vs \<le> u64_max"
  shows "add_scores s h vs t n = Some (t + (\<Sum>v\<in>raters s h \<inter> set vs. rating s h v), n + card (raters s h \<inter> set vs))"
  using assms
proof (induction vs arbitrary: t n)
  case (Cons v vs)
  let ?R = "raters s h \<inter> set vs"
  have set: "raters s h \<inter> set (v # vs) = (if v \<in> raters s h then insert v ?R else ?R)" by auto
  have notin: "v \<notin> ?R" "finite ?R" using Cons.prems(1) by auto
  show ?case
  proof (cases "v \<in> raters s h")
    case True
    then obtain x where x: "counts_toward_aggregate s v" "rr_debtor_score s h v = Some x" by (auto simp: raters_def)
    have "x \<le> 100" by (rule Cons.prems(2)[OF x(2)])
    with Cons.prems(3) have "t + x \<le> u64_max" "(t + x) + 100 * length vs \<le> u64_max" by simp_all
    with Cons.IH[of "t + x" "n + 1"] Cons.prems x show ?thesis
      by (simp add: set True notin rating_def u64_add_def)
  next
    case False
    then have "add_scores s h (v # vs) t n = add_scores s h vs t n" by (auto simp: raters_def split: option.splits)
    with Cons.IH[of t n] Cons.prems False show ?thesis by (simp add: set)
  qed
qed simp

lemma scored_raters:
  assumes "scored s"
  shows "raters s h \<subseteq> set (attestors_of s h)" "finite (raters s h)" "card (raters s h) \<le> 50"
proof -
  show sub: "raters s h \<subseteq> set (attestors_of s h)" using assms by (auto simp: raters_def scored_def)
  then show "finite (raters s h)" by (rule finite_subset) simp
  have "card (raters s h) \<le> length (attestors_of s h)"
    using card_mono[OF _ sub] card_length[of "attestors_of s h"] by (meson List.finite_set le_trans)
  with assms show "card (raters s h) \<le> 50" by (auto simp: scored_def intro: le_trans)
qed

lemma scored_sum:
  assumes "scored s" "rr_attestors s h = Some vs"
  shows "add_scores s h vs 0 0 = Some (\<Sum>v\<in>raters s h. rating s h v, card (raters s h))"
proof -
  have vs: "attestors_of s h = vs" using assms(2) by (simp add: attestors_of_def)
  from assms(1) have all: "distinct (attestors_of s h) \<and> length (attestors_of s h) \<le> 50 \<and>
     (\<forall>v x. rr_debtor_score s h v = Some x \<longrightarrow> x \<le> 100)" unfolding scored_def by blast
  then have "distinct vs" "\<And>v x. rr_debtor_score s h v = Some x \<Longrightarrow> x \<le> 100" "0 + 100 * length vs \<le> u64_max"
    by (auto simp: vs u64_max_def)
  from add_scores_sum[OF this, where n = 0] scored_raters(1)[OF assms(1), of h] show ?thesis
    by (simp add: vs Int_absorb2)
qed

lemma mean_bound:
  assumes "scored s" shows "(\<Sum>v\<in>raters s h. rating s h v) div card (raters s h) \<le> 100"
proof -
  have "(\<Sum>v\<in>raters s h. rating s h v) \<le> (\<Sum>v\<in>raters s h. 100)"
    using assms by (intro sum_mono) (auto simp: rating_def scored_def raters_def)
  then have "(\<Sum>v\<in>raters s h. rating s h v) \<le> 100 * card (raters s h)" by simp
  then show ?thesis by (cases "card (raters s h) = 0") (auto simp: div_le_mono dest: div_le_mono[of _ _ "card (raters s h)"])
qed

lemma scored_new:
  assumes "set_debtor_score e ac s a h k = Inr s'" "scored s"
  shows "scored s'"
proof -
  let ?vs = "attestors_of s h"
  have k: "k \<le> 100" using assms(1) by (auto simp: set_debtor_score_def require_valid_risk_score_def split: if_splits)
  from assms(1) have "rr_debtor_score s' = (rr_debtor_score s)(h := (rr_debtor_score s h)(a \<mapsto> k)) \<and>
    rr_attestors s' = (if a \<in> set ?vs then rr_attestors s else (rr_attestors s)(h \<mapsto> ?vs @ [a])) \<and>
    (a \<notin> set ?vs \<longrightarrow> length ?vs < 50)"
    by (simp add: set_debtor_score_def Let_def attestors_of_def[symmetric] split del: if_split)
      (auto simp: MAX_VERIFIERS_PER_DEBTOR_def split: if_splits)
  then have "rr_debtor_score s' = (rr_debtor_score s)(h := (rr_debtor_score s h)(a \<mapsto> k)) \<and>
    (\<forall>g. attestors_of s' g = (if g = h \<and> a \<notin> set ?vs then ?vs @ [a] else attestors_of s g)) \<and>
    (a \<notin> set ?vs \<longrightarrow> length ?vs < 50)" by (auto simp: attestors_of_def)
  with assms(2) k show ?thesis by (auto simp: scored_def)
qed


lemma scores_same: "scores s' = scores s \<Longrightarrow> scored s' = scored s"
  by (simp add: scores_def scored_def attestors_of_def)

lemma scores_kept:
  assumes "rr_exec e c w = Some w'" "\<And>a h k. c \<noteq> Rr_set_debtor_score a h k"
  shows "scores (rw_st w') = scores (rw_st w)"
proof (cases c)
  case (Rr_add_verifier a v n)
  with assms(1) have "add_verifier e w a v n = Inr w'" by simp
  from add_verifier_Inr(2)[OF this] show ?thesis by (auto simp: scores_def added_def)
next
  case (Rr_top_up_stake a v n)
  with assms(1) have "top_up_stake e w a v n = Inr w'" by simp
  from top_up_Inr(2)[OF this] show ?thesis by (auto simp: scores_def)
next
  case (Rr_remove_verifier a v)
  with assms(1) have "remove_verifier e w a v = Inr w'" by simp
  from remove_and_revoke_Inr[OF remove_verifier_Inr(4)[OF this]] show ?thesis by (auto simp: scores_def retire_verifier_def)
next
  case (Rr_finalize_removal a v)
  with assms(1) have "finalize_verifier_removal e w a v = Inr w'" by simp
  from remove_and_revoke_Inr[OF finalize_Inr(6)[OF this]] show ?thesis by (auto simp: scores_def retire_verifier_def)
next
  case (Rr_record_default a u)
  with assms(1) obtain s' where "record_default e (rw_ac w) (rw_st w) a u = Inr s'" "w' = w\<lparr>rw_st := s'\<rparr>" by auto
  then show ?thesis
    by (auto elim!: record_default_Inr dest!: slash_stake_Inr simp: scores_def put_sme_def lower_reputation_def Let_def)
next
  case (Rr_resolve_dispute a v u b)
  with assms(1) have "resolve_dispute e w a v u b = Inr w'" by simp
  then show ?thesis
    by (rule resolve_dispute_Inr) (auto elim!: slash_bond_Inr simp: scores_def close_dispute_def put_dispute_def
        lower_reputation_def Let_def rr_emit_def split: if_splits)
qed (use assms in \<open>auto dest: rr_frames\<close>)

lemma reachable_scored:
  assumes "rr_reachable allowed self w" shows "scored (rw_st w)"
proof (rule rr_reachable_induct[OF assms, where I = "\<lambda>s calls. scored s"])
  show "scored rr_empty" by (simp add: scored_def attestors_of_def rr_empty_def)
  fix e c w w' assume run: "rr_exec e c w = Some w'" and ok: "scored (rw_st w)"
  show "scored (rw_st w')"
  proof (cases "\<exists>a h k. c = Rr_set_debtor_score a h k")
    case True
    with run ok scored_new show ?thesis by auto
  next
    case False
    with scores_same[OF scores_kept[OF run]] ok show ?thesis by simp
  qed
qed

text \<open>The score of a debtor is the floor of the mean of the scores that count: those of every
  attestor not removed, each counted once, at most fifty of them and each at most 100, so the sum
  never overflows and the score is at most 100.  The second implementation of the loop agrees with
  the first, and both report a debtor without a counted score as unknown.\<close>

theorem debtor_score_is_mean:
  assumes "rr_reachable allowed self w"
  shows "let R = raters (rw_st w) h; mean = (\<Sum>v\<in>R. rating (rw_st w) h v) div card R in
    finite R \<and> card R \<le> 50 \<and> mean \<le> 100 \<and>
    get_debtor_score (rw_st w) h = (if R = {} then Inl (Err RR_DebtorNotRegistered) else Inr mean) \<and>
    debtor_score_average (rw_st w) h = (if R = {} then None else Some mean)"
proof -
  let ?s = "rw_st w" let ?R = "raters ?s h"
  have ok: "scored ?s" by (rule reachable_scored[OF assms])
  note fin = scored_raters[OF ok, of h] and bound = mean_bound[OF ok, of h]
  have "get_debtor_score ?s h = (if ?R = {} then Inl (Err RR_DebtorNotRegistered)
      else Inr ((\<Sum>v\<in>?R. rating ?s h v) div card ?R)) \<and>
    debtor_score_average ?s h = (if ?R = {} then None else Some ((\<Sum>v\<in>?R. rating ?s h v) div card ?R))"
  proof (cases "rr_attestors ?s h")
    case None
    with fin(1) have "?R = {}" by (simp add: attestors_of_def)
    with None show ?thesis by (simp add: get_debtor_score_def debtor_score_average_def)
  next
    case (Some vs)
    with scored_sum[OF ok Some] fin(2) show ?thesis
      by (simp add: get_debtor_score_def debtor_score_average_def)
  qed
  with fin bound show ?thesis by (simp add: Let_def)
qed

section \<open>Who moves a profile\<close>

text \<open>The calls on the profile of an SME, with the change they make.\<close>

definition moves_sme :: "rr_op \<Rightarrow> bool" where
  "moves_sme c \<longleftrightarrow>
     (case c of
        Rr_register_sme a u k b \<Rightarrow> True | Rr_update_score a u k \<Rightarrow> True | Rr_set_credit_limit a u n \<Rightarrow> True
      | Rr_reassign a u v \<Rightarrow> True | Rr_count_invoice a u \<Rightarrow> True | Rr_record_default a u \<Rightarrow> True | _ \<Rightarrow> False)"

lemma sme_kept:
  assumes "rr_exec e c w = Some w'" "\<not> moves_sme c" shows "rr_sme (rw_st w') = rr_sme (rw_st w)"
proof (cases c)
  case (Rr_add_verifier a v n)
  with assms(1) have "add_verifier e w a v n = Inr w'" by simp
  from add_verifier_Inr(2)[OF this] show ?thesis by (auto simp: added_def)
next
  case (Rr_top_up_stake a v n)
  with assms(1) have "top_up_stake e w a v n = Inr w'" by simp
  from top_up_Inr(2)[OF this] show ?thesis by auto
next
  case (Rr_remove_verifier a v)
  with assms(1) have "remove_verifier e w a v = Inr w'" by simp
  from remove_and_revoke_Inr[OF remove_verifier_Inr(4)[OF this]] show ?thesis by (auto simp: retire_verifier_def)
next
  case (Rr_finalize_removal a v)
  with assms(1) have "finalize_verifier_removal e w a v = Inr w'" by simp
  from remove_and_revoke_Inr[OF finalize_Inr(6)[OF this]] show ?thesis by (auto simp: retire_verifier_def)
next
  case (Rr_resolve_dispute a v u b)
  with assms(1) have "resolve_dispute e w a v u b = Inr w'" by simp
  then show ?thesis
    by (rule resolve_dispute_Inr) (auto elim!: slash_bond_Inr simp: close_dispute_def put_dispute_def
        lower_reputation_def Let_def rr_emit_def split: if_splits)
qed (use assms in \<open>auto simp: moves_sme_def dest: rr_frames\<close>)

text \<open>What the change of a profile from \<open>p\<close> to \<open>q\<close> says about the call.\<close>

definition of_record :: "env \<Rightarrow> rr_state \<Rightarrow> address \<Rightarrow> SmeProfile \<Rightarrow> bool" where
  "of_record e s a p \<longleftrightarrow> authorised e a \<and> resolve_verifier s a = Inr (sp_verifier p) \<and> is_verifier s (sp_verifier p)"

fun sme_change :: "env \<Rightarrow> rr_state \<Rightarrow> rr_op \<Rightarrow> SmeProfile \<Rightarrow> SmeProfile \<Rightarrow> bool" where
  "sme_change e s (Rr_update_score a u k) p q = (of_record e s a p \<and> k \<le> 100 \<and> q = p\<lparr>sp_risk_score := k\<rparr>)"
| "sme_change e s (Rr_set_credit_limit a u n) p q = (of_record e s a p \<and> 0 \<le> n \<and> q = p\<lparr>sp_credit_limit := n\<rparr>)"
| "sme_change e s (Rr_reassign a u v) p q = (authorised e a \<and> rr_admin s = Some a \<and> is_verifier s v \<and> q = p\<lparr>sp_verifier := v\<rparr>)"
| "sme_change e s (Rr_count_invoice a u) p q =
     (authorised e a \<and> rr_invoice_nft s = Some a \<and> q = p\<lparr>sp_total_invoices := sp_total_invoices p + 1\<rparr>)"
| "sme_change e s (Rr_record_default a u) p q =
     (authorised e a \<and> rr_admin s = Some a \<and> q = p\<lparr>sp_defaults := sp_defaults p + 1\<rparr>)"
| "sme_change e s c p q = False"

fun sme_target :: "rr_op \<Rightarrow> address option" where
  "sme_target (Rr_register_sme a u k b) = Some u"
| "sme_target (Rr_update_score a u k) = Some u"
| "sme_target (Rr_set_credit_limit a u n) = Some u"
| "sme_target (Rr_reassign a u v) = Some u"
| "sme_target (Rr_count_invoice a u) = Some u"
| "sme_target (Rr_record_default a u) = Some u"
| "sme_target c = None"

lemma resolve_is_verifier: "resolve_verifier s a = Inr v \<Longrightarrow> is_verifier s v"
  by (auto simp: resolve_verifier_def is_verifier_def split: if_splits option.splits)

lemma as_verifier_Inr:
  "as_verifier e ac s a = Inr v \<Longrightarrow> authorised e a \<and> resolve_verifier s a = Inr v \<and> is_verifier s v"
  by (auto simp: as_verifier_def dest: resolve_is_verifier)

lemma update_score_effect:
  assumes "update_sme_score e ac s a u k = Inr s'"
  shows "\<exists>p. rr_sme s u = Some p \<and> of_record e s a p \<and> k \<le> 100 \<and> rr_sme s' = (rr_sme s)(u \<mapsto> p\<lparr>sp_risk_score := k\<rparr>)"
  using assms
  by (auto simp: update_sme_score_def rr_guarded_def rr_lockable.guard_Inr_iff put_sme_def sme_of_record_def
      of_record_def require_valid_risk_score_def dest!: as_verifier_Inr)

lemma credit_limit_effect:
  assumes "set_credit_limit e ac s a u n = Inr s'"
  shows "\<exists>p. rr_sme s u = Some p \<and> of_record e s a p \<and> 0 \<le> n \<and> rr_sme s' = (rr_sme s)(u \<mapsto> p\<lparr>sp_credit_limit := n\<rparr>)"
  using assms by (auto simp: set_credit_limit_def put_sme_def sme_of_record_def of_record_def dest!: as_verifier_Inr)

lemma reassign_effect:
  assumes "reassign_sme_verifier e ac s a u v = Inr s'"
  shows "\<exists>p. rr_sme s u = Some p \<and> authorised e a \<and> rr_admin s = Some a \<and> is_verifier s v \<and>
    rr_sme s' = (rr_sme s)(u \<mapsto> p\<lparr>sp_verifier := v\<rparr>)"
  using assms by (auto simp: reassign_sme_verifier_def put_sme_def is_verifier_def dest!: rr_audited_Inr)

lemma count_invoice_effect:
  assumes "increment_invoice_count e s a u = Inr s'"
  shows "\<exists>p. rr_sme s u = Some p \<and> authorised e a \<and> rr_invoice_nft s = Some a \<and>
    rr_sme s' = (rr_sme s)(u \<mapsto> p\<lparr>sp_total_invoices := sp_total_invoices p + 1\<rparr>)"
  using assms by (auto simp: increment_invoice_count_def put_sme_def)

definition fresh_profile :: "env \<Rightarrow> address \<Rightarrow> address \<Rightarrow> u32 \<Rightarrow> bool \<Rightarrow> SmeProfile" where
  "fresh_profile e u v k b = \<lparr>sp_address = u, sp_verified = True, sp_verifier = v, sp_risk_score = k,
     sp_total_invoices = 0, sp_defaults = 0, sp_registered_at = timestamp e, sp_compliance_attested = b,
     sp_credit_limit = 0\<rparr>"

lemma register_effect:
  assumes "register_sme e ac s a u k b = Inr s'"
  shows "\<exists>v. rr_sme s u = None \<and> authorised e a \<and> resolve_verifier s a = Inr v \<and> is_verifier s v \<and> k \<le> 100 \<and>
    rr_sme s' = (rr_sme s)(u \<mapsto> fresh_profile e u v k b)"
  using assms
  by (auto simp: register_sme_def put_sme_def Let_def fresh_profile_def require_valid_risk_score_def
      dest!: as_verifier_Inr)

lemma default_effect:
  assumes "record_default e ac s a u = Inr s'"
  shows "\<exists>p. rr_sme s u = Some p \<and> authorised e a \<and> rr_admin s = Some a \<and>
    rr_sme s' = (rr_sme s)(u \<mapsto> p\<lparr>sp_defaults := sp_defaults p + 1\<rparr>)"
  using assms
  by (auto elim!: record_default_Inr dest!: slash_stake_Inr simp: put_sme_def lower_reputation_def Let_def)

text \<open>C18: A profile appears by registration through a serving verifier, who becomes the verifier of
  record, and is never dropped.  Its score and credit limit change only by a call of its verifier of
  record, serving at the time, or of a sub-account of that verifier; its verifier of record only by
  the admin, to a serving verifier; its counters only by one, the invoices by the invoice contract
  and the defaults by the admin.  Every call on another profile leaves it as it is.\<close>

theorem profile_moved_by_verifier_of_record:
  assumes "rr_exec e c w = Some w'"
  shows "case rr_sme (rw_st w) u of
      None \<Rightarrow> rr_sme (rw_st w') u = None \<or>
        (\<exists>a k b v. c = Rr_register_sme a u k b \<and> authorised e a \<and> resolve_verifier (rw_st w) a = Inr v \<and>
          is_verifier (rw_st w) v \<and> k \<le> 100 \<and> rr_sme (rw_st w') u = Some (fresh_profile e u v k b))
    | Some p \<Rightarrow> \<exists>q. rr_sme (rw_st w') u = Some q \<and> (q = p \<or> sme_target c = Some u \<and> sme_change e (rw_st w) c p q)"
proof (cases "moves_sme c")
  case False
  with sme_kept[OF assms False] show ?thesis by (simp split: option.splits)
next
  case True
  with assms show ?thesis
    by (cases c)
      (auto simp: moves_sme_def split: option.splits if_splits dest!: update_score_effect credit_limit_effect reassign_effect
        count_invoice_effect register_effect default_effect)
qed

section \<open>A default and the circuit breakers\<close>

definition reputation_of :: "rr_state \<Rightarrow> address \<Rightarrow> u32" where
  "reputation_of s v = (case rr_reputation s v of None \<Rightarrow> 100 | Some n \<Rightarrow> n)"

text \<open>The tier reaches its configured default rate, with enough profiles scored.\<close>

definition rate_reached :: "rr_state \<Rightarrow> symbol \<Rightarrow> bool" where
  "rate_reached s tier =
     (case (rr_breaker_bps s, rr_breaker_min s) of
        (Some bps, Some m) \<Rightarrow> m \<le> tier_count (rr_scored_tier s) tier \<and>
          bps \<le> tier_count (rr_default_tier s) tier * 10000 div tier_count (rr_scored_tier s) tier
      | _ \<Rightarrow> False)"

lemma rate_reached_iff:
  "rate_reached s t \<longleftrightarrow> (\<exists>b m. rr_breaker_bps s = Some b \<and> rr_breaker_min s = Some m \<and>
     m \<le> tier_count (rr_scored_tier s) t \<and>
     b \<le> tier_count (rr_default_tier s) t * 10000 div tier_count (rr_scored_tier s) t)"
  by (simp add: rate_reached_def split: option.splits)

lemma breaker_choice:
  assumes "(case (x, y) of
      (Some b, Some m) \<Rightarrow> if P m then if Z then Inl Trap else if Q b then Inr u else Inr v else Inr v
    | _ \<Rightarrow> Inr v) = (Inr s' :: ('e, 's) result)"
  shows "s' = (if \<exists>b m. x = Some b \<and> y = Some m \<and> P m \<and> Q b then u else v)"
  using assms by (auto split: option.splits if_splits)

lemma rate_reached_same:
  "rr_breaker_bps s' = rr_breaker_bps s \<Longrightarrow> rr_breaker_min s' = rr_breaker_min s \<Longrightarrow>
   rr_scored_tier s' = rr_scored_tier s \<Longrightarrow> rr_default_tier s' = rr_default_tier s \<Longrightarrow> rate_reached s' t = rate_reached s t"
  by (simp add: rate_reached_def split: option.splits)

lemma count_default_effect:
  assumes "count_default tier s = Inr s'"
  shows "rr_default_tier s' = (rr_default_tier s)(tier \<mapsto> u32_sat_add (tier_count (rr_default_tier s) tier) 1)"
    "is_tier_paused s' x = (is_tier_paused s x \<or> x = tier \<and> rate_reached s' tier)"
proof -
  define s1 where "s1 = s\<lparr>rr_default_tier := (rr_default_tier s)(tier \<mapsto> u32_sat_add (tier_count (rr_default_tier s) tier) 1)\<rparr>"
  have s1: "rr_breaker_bps s1 = rr_breaker_bps s" "rr_breaker_min s1 = rr_breaker_min s" "rr_tier_paused s1 = rr_tier_paused s"
    "tier_count (rr_default_tier s1) tier = u32_sat_add (tier_count (rr_default_tier s) tier) 1"
    by (simp_all add: s1_def tier_count_def)
  have "count_default tier s = (case (rr_breaker_bps s1, rr_breaker_min s1) of
      (Some b, Some m) \<Rightarrow>
        if m \<le> tier_count (rr_scored_tier s1) tier then
          if tier_count (rr_scored_tier s1) tier = 0 then Inl Trap
          else if b \<le> tier_count (rr_default_tier s1) tier * 10000 div tier_count (rr_scored_tier s1) tier
          then Inr (s1\<lparr>rr_tier_paused := (rr_tier_paused s1)(tier \<mapsto> True)\<rparr>) else Inr s1
        else Inr s1
    | _ \<Rightarrow> Inr s1)"
    by (cases "rr_breaker_bps s"; cases "rr_breaker_min s") (simp_all add: count_default_def s1_def Let_def tier_count_def)
  from breaker_choice[OF trans[OF this[symmetric] assms]]
  have s': "s' = (if rate_reached s1 tier then s1\<lparr>rr_tier_paused := (rr_tier_paused s1)(tier \<mapsto> True)\<rparr> else s1)"
    unfolding rate_reached_iff .
  have "rate_reached s' tier = rate_reached s1 tier"
    by (rule rate_reached_same) (simp_all add: s')
  then show "is_tier_paused s' x = (is_tier_paused s x \<or> x = tier \<and> rate_reached s' tier)"
    by (simp add: s' is_tier_paused_def s1(3))
  show "rr_default_tier s' = (rr_default_tier s)(tier \<mapsto> u32_sat_add (tier_count (rr_default_tier s) tier) 1)"
    by (simp add: s') (simp add: s1_def)
qed

lemma slash_stake_effect:
  assumes "slash_stake v bps s = Inr s'" "bps \<le> 10000" "stake_of s v \<le> i128_max"
  shows "\<exists>st. s' = s\<lparr>rr_stake := st\<rparr> \<and> stake_of s' v = stake_of s v - max 0 (stake_of s v) * int bps div 10000 \<and>
    (\<forall>x. x \<noteq> v \<longrightarrow> stake_of s' x = stake_of s x)"
proof (cases "0 < stake_of s v")
  case True
  then have "stake_of s v mod 2 ^ 128 = stake_of s v" using assms(3) by (simp add: i128_max_def)
  with assms(1) True show ?thesis
    by (cases s) (auto simp: slash_stake_def Let_def slash_part_def stake_of_def split: if_splits)
next
  case False
  with assms(1) show ?thesis by (cases s) (auto simp: slash_stake_def Let_def max_def stake_of_def)
qed

text \<open>A default of an SME costs the verifier of record the configured share of its stake, rounded
  down, and ten points of reputation, and nobody else anything.  It counts against the tier of the
  SME's score, and pauses exactly that tier, and exactly when the rate of defaults to scored profiles
  reaches the threshold with enough of them scored.\<close>

theorem default_penalty_and_breaker:
  assumes "record_default e ac s a u = Inr s'" "rr_sme s u = Some p"
    and "rr_slash_bps s = Some bps" "bps \<le> 10000" "\<forall>v. stake_of s v \<le> i128_max"
  shows "let v = sp_verifier p; tier = score_to_tier_symbol (sp_risk_score p) in
    stake_of s' v = stake_of s v - max 0 (stake_of s v) * int bps div 10000 \<and>
    reputation_of s' v = reputation_of s v - 10 \<and>
    (\<forall>x. x \<noteq> v \<longrightarrow> stake_of s' x = stake_of s x \<and> reputation_of s' x = reputation_of s x) \<and>
    tier_count (rr_default_tier s') tier = u32_sat_add (tier_count (rr_default_tier s) tier) 1 \<and>
    (\<forall>t. is_tier_paused s' t = (is_tier_paused s t \<or> t = tier \<and> rate_reached s' tier))"
proof -
  let ?v = "sp_verifier p" and ?t = "score_to_tier_symbol (sp_risk_score p)"
  from assms(1-3) obtain s1 s2 l where
    slash: "slash_stake ?v bps (s\<lparr>rr_lock := True\<rparr>) = Inr s1"
    and count: "count_default ?t (put_sme u (p\<lparr>sp_defaults := sp_defaults p + 1\<rparr>) (lower_reputation ?v s1)) = Inr s2"
    and s': "s' = s2\<lparr>rr_audit := l, rr_lock := False\<rparr>"
    by (auto simp: record_default_def rr_guarded_def rr_lockable.guard_Inr_iff dest!: rr_audited_Inr)
  from slash_stake_effect[OF slash assms(4)] assms(5) obtain st where
    s1: "s1 = s\<lparr>rr_lock := True, rr_stake := st\<rparr>" "stake_of s1 ?v = stake_of s ?v - max 0 (stake_of s ?v) * int bps div 10000"
      "\<And>x. x \<noteq> ?v \<Longrightarrow> stake_of s1 x = stake_of s x"
    by (auto simp: stake_of_def)
  from count_default_Inr[OF count] obtain k q where
    s2: "s2 = put_sme u (p\<lparr>sp_defaults := sp_defaults p + 1\<rparr>) (lower_reputation ?v s1)\<lparr>rr_default_tier := k, rr_tier_paused := q\<rparr>"
    by blast
  have stake: "stake_of s' x = stake_of s1 x" for x
    by (simp add: s' s2 put_sme_def lower_reputation_def stake_of_def Let_def)
  have rep: "reputation_of s' x = (if x = ?v then reputation_of s x - 10 else reputation_of s x)" for x
    by (auto simp: s' s2 s1(1) put_sme_def lower_reputation_def reputation_of_def u32_sat_sub_def Let_def)
  have "rate_reached s' t = rate_reached s2 t" for t by (rule rate_reached_same) (simp_all add: s')
  moreover have "is_tier_paused s' t = is_tier_paused s2 t" "rr_default_tier s' = rr_default_tier s2" for t
    by (simp_all add: s' is_tier_paused_def)
  moreover have "is_tier_paused (put_sme u (p\<lparr>sp_defaults := sp_defaults p + 1\<rparr>) (lower_reputation ?v s1)) t = is_tier_paused s t" for t
    by (simp add: is_tier_paused_def put_sme_def lower_reputation_def s1(1) Let_def)
  moreover have "rr_default_tier (put_sme u (p\<lparr>sp_defaults := sp_defaults p + 1\<rparr>) (lower_reputation ?v s1)) = rr_default_tier s"
    by (simp add: put_sme_def lower_reputation_def s1(1) Let_def)
  ultimately show ?thesis
    using count_default_effect[OF count] stake rep s1(2,3) by (simp add: Let_def tier_count_def)
qed

text \<open>The breaker of a debtor has a view, a way to clear it and a gate in the callers, but nothing
  that sets it.\<close>

lemma debtor_paused_kept:
  assumes "rr_exec e c w = Some w'" "rr_debtor_paused (rw_st w) = (\<lambda>_. None)"
  shows "rr_debtor_paused (rw_st w') = (\<lambda>_. None)"
proof (cases c)
  case (Rr_add_verifier a v n)
  with assms(1) have "add_verifier e w a v n = Inr w'" by simp
  from add_verifier_Inr(2)[OF this] assms(2) show ?thesis by (auto simp: added_def)
next
  case (Rr_top_up_stake a v n)
  with assms(1) have "top_up_stake e w a v n = Inr w'" by simp
  from top_up_Inr(2)[OF this] assms(2) show ?thesis by auto
next
  case (Rr_remove_verifier a v)
  with assms(1) have "remove_verifier e w a v = Inr w'" by simp
  from remove_and_revoke_Inr[OF remove_verifier_Inr(4)[OF this]] assms(2) show ?thesis by (auto simp: retire_verifier_def)
next
  case (Rr_finalize_removal a v)
  with assms(1) have "finalize_verifier_removal e w a v = Inr w'" by simp
  from remove_and_revoke_Inr[OF finalize_Inr(6)[OF this]] assms(2) show ?thesis by (auto simp: retire_verifier_def)
next
  case (Rr_record_default a u)
  with assms(1) obtain s' where "record_default e (rw_ac w) (rw_st w) a u = Inr s'" "w' = w\<lparr>rw_st := s'\<rparr>" by auto
  with assms(2) show ?thesis
    by (auto elim!: record_default_Inr dest!: slash_stake_Inr simp: put_sme_def lower_reputation_def Let_def)
next
  case (Rr_resolve_dispute a v u b)
  with assms(1) have "resolve_dispute e w a v u b = Inr w'" by simp
  with assms(2) show ?thesis
    by - (erule resolve_dispute_Inr, auto elim!: slash_bond_Inr simp: close_dispute_def put_dispute_def
        lower_reputation_def Let_def rr_emit_def split: if_splits)
next
  case (Rr_clear_debtor a h)
  with assms show ?thesis by (auto simp: clear_circuit_breaker_debtor_def)
qed (use assms in \<open>auto dest: rr_frames\<close>)

text \<open>The circuit breaker of a debtor never trips: no sequence of calls, however many of the
  debtor's invoices default, makes \<open>is_debtor_paused\<close> answer yes.\<close>

theorem debtor_breaker_never_trips:
  assumes "rr_reachable allowed self w" shows "\<not> is_debtor_paused (rw_st w) h"
proof -
  have "rr_debtor_paused (rw_st w) = (\<lambda>_. None)"
    by (rule rr_reachable_induct[OF assms, where I = "\<lambda>s calls. rr_debtor_paused s = (\<lambda>_. None)"])
      (auto simp: rr_empty_def dest: debtor_paused_kept)
  then show ?thesis by (simp add: is_debtor_paused_def)
qed

end
