(* ===== verification/Access_Props.thy ===== *)
theory Access_Props
  imports Access_Runs "HOL-Library.While_Combinator"
begin

text \<open>
  What access control guarantees: authority moves only with a quorum of the current signers,
  actions run once, the multisig stays well-formed, the scan that guards a rotation is complete;
  and where the code departs from what it promises.
\<close>

section \<open>Authority\<close>

definition quorum_backed :: "env \<Rightarrow> ac_state \<Rightarrow> address \<Rightarrow> u64 \<Rightarrow> bool" where
  "quorum_backed e s who n \<longleftrightarrow>
     (\<exists>cfg p. ac_multisig s = Some cfg \<and> who \<in> set (ms_signers cfg) \<and> ac_proposal s n = Some p \<and>
        \<not> pr_executed p \<and> \<not> pr_cancelled p \<and> timestamp e \<le> pr_expires_at p \<and>
        ms_threshold cfg \<le> card (set (pr_approvals p) \<inter> set (ms_signers cfg)))"

lemma valid_count_card: "distinct (pr_approvals p) \<Longrightarrow> valid_count cfg p = card (set (pr_approvals p) \<inter> set (ms_signers cfg))"
proof -
  assume "distinct (pr_approvals p)"
  then have "card (set (filter (\<lambda>a. a \<in> set (ms_signers cfg)) (pr_approvals p))) = valid_count cfg p"
    by (simp add: valid_count_def distinct_card del: set_filter)
  moreover have "set (filter (\<lambda>a. a \<in> set (ms_signers cfg)) (pr_approvals p)) = set (pr_approvals p) \<inter> set (ms_signers cfg)"
    by auto
  ultimately show ?thesis by simp
qed

text \<open>With a multisig configured no call of the admin alone moves the authority.\<close>

lemma direct_prohibited:
  assumes "ac_multisig s \<noteq> None"
  shows "pause e s a \<noteq> Inr s'" "unpause e s a \<noteq> Inr s'" "grant_role e s a b r \<noteq> Inr s'" "revoke_role e s a b \<noteq> Inr s'"
    "transfer_admin e s a b \<noteq> Inr s'" "rotate_admin e s a b \<noteq> Inr s'"
  subgoal using assms by (simp add: pause_def)
  subgoal using assms by (simp add: unpause_def)
  subgoal using assms by (simp add: grant_role_def)
  subgoal using assms by (simp add: revoke_role_def)
  subgoal using assms by (simp add: transfer_admin_def)
  subgoal using assms by (simp add: rotate_admin_def)
  done

lemma no_second_initialize: "ac_admin s \<noteq> None \<Longrightarrow> ac_initialize e s a \<noteq> Inr s'"
  by (simp add: ac_initialize_def)

lemma governs_cases:
  assumes "ac_exec e c w = Some w'" "governs c" "ac_multisig (aw_st w) \<noteq> None" "ac_admin (aw_st w) \<noteq> None"
  obtains (guardian) g s' where "c = Ac_emergency_pause g" "emergency_pause_by_guardian e (aw_st w) g = Inr s'"
      "w' = w\<lparr>aw_st := s'\<rparr>"
    | (single) a n where "c = Ac_execute_action a n" "execute_action e w a n = Inr w'"
    | (batch) a ns where "c = Ac_execute_batch a ns" "execute_batch e w a ns = Inr w'"
  using assms(1,2)
  by (cases c) (simp_all add: governs_def direct_prohibited[OF assms(3)] no_second_initialize[OF assms(4)], blast+)

lemma zip_copy: "n \<in> set ns \<Longrightarrow> length ps = length ns \<Longrightarrow> \<exists>p. (n, p) \<in> set (zip ns ps)"
  by (metis in_set_impl_in_set_zip1)

lemma quorum_backedI:
  assumes "actions.book_ok s" "ac_multisig s = Some cfg" "who \<in> set (ms_signers cfg)" "ac_proposal s n = Some p"
    "in_flight e p" "ms_threshold cfg \<le> valid_count cfg p"
  shows "quorum_backed e s who n"
  using assms valid_count_card[of p cfg] by (auto simp: quorum_backed_def in_flight_def actions.book_ok_def)

lemma execute_action_backed:
  assumes run: "execute_action e w a n = Inr w'" and bk: "actions.book_ok (aw_st w)"
  shows "authorised e a \<and> quorum_backed e (aw_st w) a n"
  using run by (rule execute_action_Inr) (intro conjI quorum_backedI[OF bk])

lemma execute_batch_backed:
  assumes run: "execute_batch e w a ns = Inr w'" and bk: "actions.book_ok (aw_st w)"
  shows "authorised e a \<and> (\<forall>n\<in>set ns. quorum_backed e (aw_st w) a n)"
  using run
proof (rule execute_batch_Inr)
  fix cfg ps ca w1 l
  assume g: "authorised e a" "ac_multisig (aw_st w) = Some cfg" "a \<in> set (ms_signers cfg)" "length ps = length ns"
    and q: "\<forall>(n, p)\<in>set (zip ns ps). ac_proposal (aw_st w) n = Some p \<and> in_flight e p \<and> ms_threshold cfg \<le> valid_count cfg p"
  have "quorum_backed e (aw_st w) a n" if "n \<in> set ns" for n
  proof -
    from zip_copy[OF that g(4)] obtain p where "(n, p) \<in> set (zip ns ps)" ..
    with q have p: "ac_proposal (aw_st w) n = Some p" "in_flight e p" "ms_threshold cfg \<le> valid_count cfg p" by auto
    show ?thesis by (rule quorum_backedI[OF bk g(2,3) p])
  qed
  with g(1) show ?thesis by blast
qed

lemma quorum_backed_pending:
  "quorum_backed e s a n \<Longrightarrow> ac_proposal s n = Some q \<Longrightarrow> \<not> (pr_executed q \<or> pr_cancelled q)"
  by (auto simp: quorum_backed_def)

text \<open>C5: Once a multisig is configured, the pause flag, the admin and the roles change in two ways
  only: a guardian pauses, or a signer executes proposals, each still pending, not expired, and
  approved by as many different current signers as the threshold asks.\<close>

theorem authority_needs_quorum:
  assumes "ac_reachable w" "ac_exec e c w = Some w'" "ac_multisig (aw_st w) \<noteq> None"
    and "(ac_is_paused (aw_st w'), ac_admin (aw_st w'), ac_role (aw_st w')) \<noteq>
         (ac_is_paused (aw_st w), ac_admin (aw_st w), ac_role (aw_st w))"
  shows "(\<exists>g. c = Ac_emergency_pause g \<and> authorised e g \<and> role_of (aw_st w) g = RoleGuardian \<and>
      ac_is_paused (aw_st w') \<and> ac_admin (aw_st w') = ac_admin (aw_st w) \<and> ac_role (aw_st w') = ac_role (aw_st w)) \<or>
    (\<exists>who ns. (c = Ac_execute_batch who ns \<or> (\<exists>n. c = Ac_execute_action who n \<and> ns = [n])) \<and> ns \<noteq> [] \<and>
      authorised e who \<and> (\<forall>n\<in>set ns. quorum_backed e (aw_st w) who n))"
proof -
  have inv: "ac_inv (aw_st w)" by (rule ac_reachable_inv[OF assms(1)])
  then have bk: "actions.book_ok (aw_st w)" and adm: "ac_admin (aw_st w) \<noteq> None"
    using assms(3) by (auto simp: ac_inv_def books_ok_def)
  have gov: "governs c" using authority_kept[OF assms(2)] assms(4) by (auto simp: authority_def)
  from assms(2) gov assms(3) adm show ?thesis
  proof (cases rule: governs_cases)
    case (guardian g s')
    from guardian(2) have "authorised e g \<and> role_of (aw_st w) g = RoleGuardian"
      by (auto simp: emergency_pause_by_guardian_def)
    with guardian governing_ops_admin(4)[OF guardian(2)] show ?thesis by simp
  next
    case (single a n)
    with execute_action_backed[OF single(2) bk] show ?thesis by auto
  next
    case (batch a ns)
    have "ns \<noteq> []"
    proof
      assume "ns = []"
      with batch(2) have "authority (aw_st w') = authority (aw_st w)"
        by (auto simp: execute_batch_def on_st_def dest!: audited_authority)
      with assms(4) show False by (simp add: authority_def)
    qed
    with execute_batch_backed[OF batch(2) bk] batch(1) show ?thesis by blast
  qed
qed

text \<open>C7: An action that was executed, alone or in a batch, is settled for good: in whatever way
  access control goes on, nobody can execute, approve or cancel it again.\<close>

theorem action_runs_once:
  assumes "ac_reachable w" "execute_action e w a n = Inr w1 \<or> execute_batch e w a ns = Inr w1 \<and> n \<in> set ns"
    and "ac_runs w1 w2"
  shows "\<not> is_ok (execute_action e' w2 b n) \<and> \<not> is_ok (approve_action e' (aw_st w2) b n) \<and>
    \<not> is_ok (cancel_action e' (aw_st w2) b n) \<and> (n \<in> set ms \<longrightarrow> \<not> is_ok (execute_batch e' w2 b ms))"
proof -
  have inv: "ac_inv (aw_st w)" by (rule ac_reachable_inv[OF assms(1)])
  then have bk: "actions.book_ok (aw_st w)" by (simp add: ac_inv_def books_ok_def)
  have "ac_exec e (Ac_execute_action a n) w = Some w1 \<or> ac_exec e (Ac_execute_batch a ns) w = Some w1"
    using assms(2) by auto
  then have inv1: "ac_inv (aw_st w1)" using ac_exec_inv[OF _ inv] by blast
  have "\<exists>p. ac_proposal (aw_st w1) n = Some p \<and> pr_executed p"
    using assms(2)
  proof
    assume "execute_action e w a n = Inr w1"
    then show ?thesis
      by (rule execute_action_Inr) (drule apply_action_books, drule books_proposal, simp add: put_proposal_def)
  next
    assume "execute_batch e w a ns = Inr w1 \<and> n \<in> set ns"
    with execute_batch_step[OF _ bk, of e a ns w1] show ?thesis by blast
  qed
  then obtain p where p: "ac_proposal (aw_st w1) n = Some p" "pr_executed p" by blast
  from ac_runs_kept[OF assms(3) inv1] have kept: "actions.book_kept (aw_st w1) (aw_st w2)" by blast
  have "pr_executed p \<or> pr_cancelled p" using p(2) by simp
  from actions.settled_stays[OF kept p(1) this] obtain q where q: "ac_proposal (aw_st w2) n = Some q"
    "pr_executed q \<or> pr_cancelled q" by blast
  have "ac_inv (aw_st w2)" by (rule ac_runs_inv[OF assms(3) inv1])
  then have bk2: "actions.book_ok (aw_st w2)" by (simp add: ac_inv_def books_ok_def)
  have "\<not> is_ok (execute_action e' w2 b n)" "n \<in> set ms \<longrightarrow> \<not> is_ok (execute_batch e' w2 b ms)"
    using execute_action_backed[OF _ bk2] execute_batch_backed[OF _ bk2] quorum_backed_pending[OF _ q(1)] q(2)
    unfolding is_ok_iff by blast+
  moreover have "\<not> is_ok (approve_action e' (aw_st w2) b n)" "\<not> is_ok (cancel_action e' (aw_st w2) b n)"
    using q by (auto simp: is_ok_iff approve_action_def cancel_action_def in_flight_def)
  ultimately show ?thesis by blast
qed

text \<open>C8: Whatever happens to it (configuration, recovery, council elections), the multisig of a
  reachable state asks for at least one approval and at most as many as it has signers, every
  proposal is stored under its own number, and nobody has approved, voted or objected twice.\<close>

theorem governance_well_formed:
  assumes "ac_reachable w"
  shows "(\<forall>cfg. ac_multisig (aw_st w) = Some cfg \<longrightarrow> 1 \<le> ms_threshold cfg \<and> ms_threshold cfg \<le> length (ms_signers cfg)) \<and>
    (\<forall>n p. ac_proposal (aw_st w) n = Some p \<longrightarrow> pr_id p = n \<and> distinct (pr_approvals p)) \<and>
    (\<forall>n p. ac_param_proposal (aw_st w) n = Some p \<longrightarrow> distinct (pa_approvals p)) \<and>
    (\<forall>n p. ac_recovery (aw_st w) n = Some p \<longrightarrow> distinct (rv_objections p)) \<and>
    (\<forall>n x. ac_election (aw_st w) n = Some x \<longrightarrow> distinct (ce_voters x))"
  using ac_reachable_inv[OF assms]
  by (auto simp: ac_inv_def books_ok_def stored_ok_def multisig_ok_def actions.book_ok_def params.book_ok_def
      recoveries.book_ok_def elections.book_ok_def)

section \<open>The guard of a rotation\<close>

lemma scan_proposals_iff:
  "scan_proposals e s k m i = Inr u \<longleftrightarrow> (\<forall>j. i \<le> j \<and> j < m \<longrightarrow> \<not> blocks_rotation e s k j)"
proof (induction e s k m i rule: scan_proposals.induct)
  case (1 e s k m i)
  have split: "(\<forall>j. i \<le> j \<and> j < m \<longrightarrow> P j) \<longleftrightarrow> (i < m \<longrightarrow> P i) \<and> (\<forall>j. i + 1 \<le> j \<and> j < m \<longrightarrow> P j)" for P
    by (auto simp: Suc_le_eq dest: le_neq_implies_less)
  show ?case
  proof (cases "i < m \<and> \<not> blocks_rotation e s k i")
    case True
    with "1.IH" have "scan_proposals e s k m (i + 1) = Inr u \<longleftrightarrow> (\<forall>j. i + 1 \<le> j \<and> j < m \<longrightarrow> \<not> blocks_rotation e s k j)" by blast
    moreover have "scan_proposals e s k m i = scan_proposals e s k m (i + 1)"
      using True by (subst scan_proposals.simps) simp
    ultimately show ?thesis using True split[of "\<lambda>j. \<not> blocks_rotation e s k j"] by simp
  next
    case False
    then show ?thesis by (subst scan_proposals.simps) auto
  qed
qed

text \<open>C9: In a reachable state the loop that guards a rotation passes exactly when no proposal other
  than the one exempted is in flight.\<close>

theorem rotation_guard_is_complete:
  assumes "ac_reachable w"
  shows "is_ok (require_no_other_active_proposals e (aw_st w) k) \<longleftrightarrow>
    (\<forall>n p. ac_proposal (aw_st w) n = Some p \<and> n \<noteq> 0 \<and> n \<noteq> k \<longrightarrow>
       pr_executed p \<or> pr_cancelled p \<or> pr_expires_at p < timestamp e)"
proof -
  have "actions.book_ok (aw_st w)" using ac_reachable_inv[OF assms] by (simp add: ac_inv_def books_ok_def)
  then have lt: "ac_proposal (aw_st w) n = Some p \<Longrightarrow> n < first_id (ac_next_proposal (aw_st w))" for n p
    by (auto simp: actions.book_ok_def)
  show ?thesis
    unfolding is_ok_iff require_no_other_active_proposals_def scan_proposals_iff
    by (auto simp: blocks_rotation_def in_flight_def not_le Suc_le_eq split: option.splits dest: lt)
qed

text \<open>The \<open>while\<close> loop of the guard, as written (a counter that goes up while it stays below the
  next number and no blocking proposal is hit), stops on every storage content, at most at the
  next number, and its result is that of the scan.\<close>

theorem rotation_scan_terminates:
  "\<exists>i hit. while_option (\<lambda>(i, hit). \<not> hit \<and> i < m) (\<lambda>(i, hit). if blocks_rotation e s k i then (i, True) else (i + 1, False))
       (i0, False) = Some (i, hit) \<and> i \<le> max i0 m \<and>
     scan_proposals e s k m i0 = (if hit then Inl (Err AC_RotationBlockedByPendingProposal) else Inr ())"
proof (induction e s k m i0 rule: scan_proposals.induct)
  case (1 e s k m i0)
  show ?case
  proof (cases "i0 < m")
    case True
    show ?thesis
    proof (cases "blocks_rotation e s k i0")
      case True
      with \<open>i0 < m\<close> show ?thesis
        by (intro exI[of _ i0] exI[of _ True], subst while_option_unfold, subst while_option_unfold)
          (auto simp: scan_proposals.simps)
    next
      case False
      from "1.IH"[OF True False] obtain i hit where
        "while_option (\<lambda>(i, hit). \<not> hit \<and> i < m) (\<lambda>(i, hit). if blocks_rotation e s k i then (i, True) else (i + 1, False))
          (i0 + 1, False) = Some (i, hit)" "i \<le> max (i0 + 1) m"
        "scan_proposals e s k m (i0 + 1) = (if hit then Inl (Err AC_RotationBlockedByPendingProposal) else Inr ())" by blast
      moreover have "scan_proposals e s k m i0 = scan_proposals e s k m (i0 + 1)"
        using True False by (subst scan_proposals.simps) simp
      ultimately show ?thesis using True False
        by (intro exI[of _ i] exI[of _ hit], subst while_option_unfold) simp
    qed
  next
    case False
    then show ?thesis
      by (intro exI[of _ i0] exI[of _ False], subst while_option_unfold) (auto simp: scan_proposals.simps)
  qed
qed

end
