(* ===== verification/Access_Paths.thy ===== *)
theory Access_Paths
  imports Access_Props
begin

text \<open>
  What the calls of access control make possible: the signers can always pause, the admin alone can
  always replace them, anyone can end a council election, a batch repeats an action.
\<close>

section \<open>Room in the audit log\<close>

definition audit_room :: "audit_log \<Rightarrow> nat \<Rightarrow> bool" where
  "audit_room l k \<longleftrightarrow> (case al_total l of None \<Rightarrow> 0 | Some n \<Rightarrow> n) + k \<le> u64_max \<and>
     (case al_head l of None \<Rightarrow> 0 | Some n \<Rightarrow> n) + k \<le> u64_max"

lemma audited_room:
  assumes "audit_room (ac_audit s) (Suc k)"
  shows "\<exists>l. ac_audited e a x s = Inr (s\<lparr>ac_audit := l\<rparr>) \<and> audit_room l k"
proof -
  let ?h = "case al_head (ac_audit s) of None \<Rightarrow> 0 | Some n \<Rightarrow> n"
  have "Suc ?h mod MAX_AUDIT_LOG_SIZE + k \<le> u64_max"
    using assms mod_less_eq_dividend[of "Suc ?h" MAX_AUDIT_LOG_SIZE] unfolding audit_room_def by linarith
  with assms show ?thesis
    by (auto simp: ac_audited_def audit_append_def audit_room_def Let_def u64_add_def)
qed

section \<open>The signers can pause\<close>

lemma ac_runs_trans: "ac_runs w1 w2 \<Longrightarrow> ac_runs w w1 \<Longrightarrow> ac_runs w w2"
  by (induction rule: ac_runs.induct) (auto intro: ac_step)

text \<open>A given list of calls, one after the other, all in the same environment.\<close>

fun ac_replay :: "env \<Rightarrow> ac_op list \<Rightarrow> ac_world \<Rightarrow> ac_world option" where
  "ac_replay e [] w = Some w"
| "ac_replay e (c # cs) w = Option.bind (ac_exec e c w) (ac_replay e cs)"

lemma ac_replay_append: "ac_replay e (cs @ ds) w = Option.bind (ac_replay e cs w) (ac_replay e ds)"
proof (induction cs arbitrary: w)
  case (Cons c cs)
  then show ?case by (cases "ac_exec e c w") simp_all
qed simp

lemma ac_replay_runs: "ac_replay e cs w = Some w' \<Longrightarrow> ac_runs w w'"
proof (induction cs arbitrary: w)
  case (Cons c cs)
  then obtain w1 where "ac_exec e c w = Some w1" "ac_replay e cs w1 = Some w'" by (auto simp: bind_eq_Some_conv)
  from ac_runs_trans[OF Cons.IH[OF this(2)] ac_step[OF ac_none this(1)]] show ?case .
qed (simp add: ac_none)

definition approved :: "u64 \<Rightarrow> address list \<Rightarrow> Proposal \<Rightarrow> ac_state \<Rightarrow> ac_state" where
  "approved n xs p s = put_proposal n (p\<lparr>pr_approvals := xs\<rparr>) s"

lemma approved_fields [simp]:
  "ac_proposal (approved n xs p s) n = Some (p\<lparr>pr_approvals := xs\<rparr>)"
  "ac_multisig (approved n xs p s) = ac_multisig s" "ac_admin (approved n xs p s) = ac_admin s"
  "ac_audit (approved n xs p s) = ac_audit s"
  "approved n ys p (approved n xs q s) = approved n ys p s"
  by (simp_all add: approved_def put_proposal_def)

text \<open>One after the other, any signers who have not approved yet can.\<close>

lemma signers_can_approve:
  assumes "ac_multisig (aw_st w) = Some cfg" "ac_proposal (aw_st w) n = Some p" "in_flight e p"
    and "distinct (pr_approvals p @ xs)" "set xs \<subseteq> set (ms_signers cfg)" "\<forall>a\<in>set xs. authorised e a"
  shows "ac_replay e (map (\<lambda>a. Ac_approve_action a n) xs) w
    = Some (w\<lparr>aw_st := approved n (pr_approvals p @ xs) p (aw_st w)\<rparr>)"
  using assms(4-6)
proof (induction xs rule: rev_induct)
  case Nil
  have "approved n (pr_approvals p @ []) p (aw_st w) = aw_st w"
    using assms(2) by (simp add: approved_def put_proposal_def fun_upd_idem)
  then show ?case by simp
next
  case (snoc a xs)
  have IH: "ac_replay e (map (\<lambda>a. Ac_approve_action a n) xs) w
      = Some (w\<lparr>aw_st := approved n (pr_approvals p @ xs) p (aw_st w)\<rparr>)"
    using snoc by (intro snoc.IH) auto
  have "approve_action e (approved n (pr_approvals p @ xs) p (aw_st w)) a n
      = Inr (approved n (pr_approvals p @ xs @ [a]) p (aw_st w))"
    using assms(1,3) snoc.prems
    by (simp add: approve_action_def in_flight_def as_signer_def live_proposal_def pending_proposal_def
        load_multisig_config_def ac_require_signer_def not_less require_auth_def)
      (simp add: approved_def put_proposal_def)
  then have "ac_exec e (Ac_approve_action a n) (w\<lparr>aw_st := approved n (pr_approvals p @ xs) p (aw_st w)\<rparr>)
      = Some (w\<lparr>aw_st := approved n (pr_approvals p @ xs @ [a]) p (aw_st w)\<rparr>)" by simp
  with IH show ?case by (simp add: ac_replay_append del: ac_exec.simps)
qed

lemma execute_plain_ok:
  assumes "authorised e a" "ac_multisig (aw_st w) = Some cfg" "a \<in> set (ms_signers cfg)"
    "ac_proposal (aw_st w) n = Some p" "in_flight e p" "ms_threshold cfg \<le> valid_count cfg p"
    "ac_admin (aw_st w) \<noteq> None" "audit_room (ac_audit (aw_st w)) (Suc k)"
    and "pr_action p = (if b then ActPause else ActUnpause)"
  shows "\<exists>w'. execute_action e w a n = Inr w' \<and> ac_is_paused (aw_st w') = b"
proof -
  obtain ca where ca: "ac_admin (aw_st w) = Some ca" using assms(7) by blast
  let ?s = "(put_proposal n (p\<lparr>pr_executed := True\<rparr>) (aw_st w))\<lparr>ac_paused := Some b\<rparr>"
  have "audit_room (ac_audit ?s) (Suc k)" using assms(8) by (simp add: put_proposal_def)
  from audited_room[OF this] obtain l where l: "ac_audited e a AA_MultisigExecuteAction ?s = Inr (?s\<lparr>ac_audit := l\<rparr>)" by blast
  have gates: "as_signer e (aw_st w) a = Inr cfg" "live_proposal e (aw_st w) n = Inr p" "require_quorum cfg p = Inr ()"
    using assms(1-6) by simp_all
  have "apply_action e ca a (p\<lparr>pr_executed := True\<rparr>) (w\<lparr>aw_st := put_proposal n (p\<lparr>pr_executed := True\<rparr>) (aw_st w)\<rparr>)
      = Inr (w\<lparr>aw_st := ?s\<rparr>)"
    using assms(9) by (cases b) (simp_all add: apply_action_def on_st_def)
  with gates l ca have "execute_action e w a n = Inr (w\<lparr>aw_st := ?s\<lparr>ac_audit := l\<rparr>\<rparr>)"
    by (simp add: execute_action_def on_st_def put_proposal_def)
  then show ?thesis by (auto simp: ac_is_paused_def)
qed

lemma open_proposal_ok:
  assumes "timestamp e + PROPOSAL_TTL_LEDGERS \<le> u64_max" "n < u64_max"
  shows "open_proposal e x a b n s = Inr ((put_proposal n
     \<lparr>pr_id = n, pr_action = x, pr_proposer = a, pr_approvals = [b], pr_executed = False, pr_cancelled = False,
      pr_created_at = timestamp e, pr_expires_at = timestamp e + PROPOSAL_TTL_LEDGERS\<rparr> s)\<lparr>ac_next_proposal := Some (n + 1)\<rparr>)"
  using assms by (simp add: open_proposal_def u64_add_def)

lemma propose_plain_ok:
  assumes "authorised e a" "ac_multisig s = Some cfg" "a \<in> set (ms_signers cfg)"
    and "timestamp e + PROPOSAL_TTL_LEDGERS \<le> u64_max" "first_id (ac_next_proposal s) < u64_max"
    and "x = ActPause \<or> x = ActUnpause"
  obtains s' n p where "propose_action e s a x = Inr (s', n)" "ac_proposal s' n = Some p" "in_flight e p"
    "pr_approvals p = [a]" "pr_action p = x" "ac_multisig s' = Some cfg" "ac_admin s' = ac_admin s"
    "ac_audit s' = ac_audit s"
proof -
  let ?n = "first_id (ac_next_proposal s)"
  let ?p = "\<lparr>pr_id = ?n, pr_action = x, pr_proposer = a, pr_approvals = [a], pr_executed = False,
      pr_cancelled = False, pr_created_at = timestamp e, pr_expires_at = timestamp e + PROPOSAL_TTL_LEDGERS\<rparr>"
  have "as_signer e s a = Inr cfg" using assms by simp
  then have "propose_action e s a x = Inr ((put_proposal ?n ?p s)\<lparr>ac_next_proposal := Some (?n + 1)\<rparr>, ?n)"
    using assms(6) open_proposal_ok[OF assms(4,5)] by (auto simp: propose_action_def Let_def)
  then show ?thesis
    by (rule that[where p = ?p]) (simp_all add: in_flight_def put_proposal_def assms(2))
qed

lemma count_signers:
  assumes "distinct xs" "set xs \<subseteq> set (ms_signers cfg)"
  shows "valid_count cfg (p\<lparr>pr_approvals := xs\<rparr>) = length xs"
  using valid_count_card[of "p\<lparr>pr_approvals := xs\<rparr>" cfg] assms
  by (simp add: Int_absorb2 distinct_card)

text \<open>C6: In every reachable state any signer, together with others up to the threshold, can pause
  the protocol, by their own calls alone.  If the first of them proposes the pause, each of the
  others approves it and the first one executes it, with their signatures and in that order, every
  one of these calls goes through and the protocol is paused at the end.  The clock, the counter of
  proposals and the audit log must be short of their limits.\<close>

theorem signers_can_pause:
  assumes "ac_reachable w" "ac_multisig (aw_st w) = Some cfg"
    and "distinct (a # bs)" "set (a # bs) \<subseteq> set (ms_signers cfg)" "ms_threshold cfg \<le> length (a # bs)"
    and "\<forall>b\<in>set (a # bs). authorised (e :: env) b" "timestamp e + PROPOSAL_TTL_LEDGERS \<le> u64_max"
    and "first_id (ac_next_proposal (aw_st w)) < u64_max" "audit_room (ac_audit (aw_st w)) 1"
  shows "\<exists>n w'. ac_replay e (Ac_propose_action a ActPause #
      map (\<lambda>b. Ac_approve_action b n) bs @ [Ac_execute_action a n]) w = Some w' \<and>
    ac_is_paused (aw_st w') \<and> ac_runs w w'"
proof -
  have inv: "ac_inv (aw_st w)" by (rule ac_reachable_inv[OF assms(1)])
  have a: "a \<in> set (ms_signers cfg)" "authorised e a" using assms(4,6) by simp_all
  obtain s' n p where propose: "propose_action e (aw_st w) a ActPause = Inr (s', n)" and p: "ac_proposal s' n = Some p"
    "in_flight e p" "pr_approvals p = [a]" "pr_action p = ActPause" and s': "ac_multisig s' = Some cfg"
    "ac_admin s' = ac_admin (aw_st w)" "ac_audit s' = ac_audit (aw_st w)"
    by (rule propose_plain_ok[OF a(2) assms(2) a(1) assms(7,8), of ActPause]) auto
  let ?w1 = "w\<lparr>aw_st := s'\<rparr>"
  let ?w2 = "?w1\<lparr>aw_st := approved n (pr_approvals p @ bs) p (aw_st ?w1)\<rparr>"
  have r2: "ac_replay e (map (\<lambda>b. Ac_approve_action b n) bs) ?w1 = Some ?w2"
    by (rule signers_can_approve[of ?w1 cfg]) (use p s' assms(3,4,6) in auto)
  have "valid_count cfg (p\<lparr>pr_approvals := a # bs\<rparr>) = length (a # bs)"
    by (rule count_signers[OF assms(3,4)])
  then obtain w3 where ex: "execute_action e ?w2 a n = Inr w3" and paused: "ac_is_paused (aw_st w3)"
    using execute_plain_ok[of e a ?w2 cfg n "p\<lparr>pr_approvals := a # bs\<rparr>" 0 True] a p s' assms inv
    by (auto simp: in_flight_def ac_inv_def)
  have "ac_replay e (Ac_propose_action a ActPause #
      map (\<lambda>b. Ac_approve_action b n) bs @ [Ac_execute_action a n]) w = Some w3"
    using propose r2 ex by (simp add: ac_replay_append st_op2_def succeeds_def)
  with ac_replay_runs paused show ?thesis by blast
qed

section \<open>Batches\<close>

lemma put_proposal_admin [simp]: "ac_admin (put_proposal n p s) = ac_admin s"
  by (simp add: put_proposal_def)

text \<open>Executing a batch of one proposal and executing the proposal succeed in the same states and with
  the same result.\<close>

theorem batch_of_one_is_execution:
  "execute_batch e w a [n] = Inr w' \<longleftrightarrow> execute_action e w a n = Inr w'"
proof (cases "\<exists>b p. ac_proposal (aw_st w) n = Some p \<and> pr_action p = ActRotateAdmin b")
  case True
  then obtain b p where p: "ac_proposal (aw_st w) n = Some p" "pr_action p = ActRotateAdmin b" by blast
  have timing: "validate_admin_rotation_timing e (p\<lparr>pr_executed := True\<rparr>) = validate_admin_rotation_timing e p"
    by (simp add: validate_admin_rotation_timing_def)
  show ?thesis
    using p by (auto simp: execute_batch_def execute_action_def require_no_conflict_def Let_def apply_action_def on_st_def
        execute_admin_rotation_def timing)
next
  case False
  then have "pr_action p \<noteq> ActRotateAdmin b" if "ac_proposal (aw_st w) n = Some p" for p b using that by blast
  then have "(case pr_action p of ActRotateAdmin _ \<Rightarrow> validate_admin_rotation_timing e p | _ \<Rightarrow> Inr ()) = Inr ()"
    if "ac_proposal (aw_st w) n = Some p" for p using that by (auto split: AdminAction.splits)
  then show ?thesis
    by (auto simp: execute_batch_def execute_action_def require_no_conflict_def Let_def)
qed

text \<open>A batch that names a proposal twice carries it out twice: the dispute contract gets the same
  call two times, on the strength of one vote.\<close>

theorem batch_repeats_dispute:
  assumes "ac_reachable w" "quorum_backed e (aw_st w) a n" "authorised e a" "ac_proposal (aw_st w) n = Some p"
    and "pr_action p = ActResolveDispute r i u" "ac_dispute (aw_st w) = Some d" "audit_room (ac_audit (aw_st w)) 1"
  shows "\<exists>w'. execute_batch e w a [n, n] = Inr w' \<and>
    aw_calls w' = aw_calls w @ [ResolveDispute d r i u, ResolveDispute d r i u]"
proof -
  have inv: "ac_inv (aw_st w)" by (rule ac_reachable_inv[OF assms(1)])
  from assms(2,4) obtain cfg where cfg: "ac_multisig (aw_st w) = Some cfg" "a \<in> set (ms_signers cfg)"
    and live: "in_flight e p" "ms_threshold cfg \<le> card (set (pr_approvals p) \<inter> set (ms_signers cfg))"
    by (auto simp: quorum_backed_def in_flight_def)
  from inv assms(4) have "distinct (pr_approvals p)"
    by (auto simp: ac_inv_def books_ok_def actions.book_ok_def)
  with live(2) have quorum: "ms_threshold cfg \<le> valid_count cfg p" by (simp add: valid_count_card)
  from inv cfg obtain ca where ca: "ac_admin (aw_st w) = Some ca" by (auto simp: ac_inv_def)
  let ?s = "put_proposal n (p\<lparr>pr_executed := True\<rparr>) (aw_st w)"
  have "audit_room (ac_audit ?s) (Suc 0)" using assms(7) by (simp add: put_proposal_def)
  from audited_room[OF this] obtain l where l: "ac_audited e a AA_MultisigExecuteAction ?s = Inr (?s\<lparr>ac_audit := l\<rparr>)" by blast
  have gates: "as_signer e (aw_st w) a = Inr cfg" "live_proposal e (aw_st w) n = Inr p" "require_quorum cfg p = Inr ()"
    using assms(3,4) cfg live(1) quorum by simp_all
  have act: "apply_action e ca a (p\<lparr>pr_executed := True\<rparr>) v = Inr (v\<lparr>aw_calls := aw_calls v @ [ResolveDispute d r i u]\<rparr>)"
    if "ac_dispute (aw_st v) = Some d" for v
    using assms(5) that by (simp add: apply_action_def)
  show ?thesis
    using gates ca l assms(5,6)
    by (simp add: execute_batch_def require_no_conflict_def actions_conflict_def act put_proposal_def on_st_def)
qed

section \<open>The admin beside the multisig\<close>

lemma configure_ok:
  assumes "authorised e a" "ac_admin s = Some a" "audit_room (ac_audit s) (Suc k)"
  obtains s1 where "configure_multisig e s a [a] 1 = Inr s1" "ac_multisig s1 = Some \<lparr>ms_threshold = 1, ms_signers = [a]\<rparr>"
    "ac_admin s1 = Some a" "first_id (ac_next_proposal s1) = first_id (ac_next_proposal s)" "audit_room (ac_audit s1) k"
proof -
  let ?s = "(if ac_next_proposal s = None then s\<lparr>ac_multisig := Some \<lparr>ms_threshold = 1, ms_signers = [a]\<rparr>, ac_next_proposal := Some 1\<rparr>
      else s\<lparr>ac_multisig := Some \<lparr>ms_threshold = 1, ms_signers = [a]\<rparr>\<rparr>)"
  have "audit_room (ac_audit ?s) (Suc k)" using assms(3) by simp
  from audited_room[OF this] obtain l where l: "ac_audited e a AA_ConfigureMultisig ?s = Inr (?s\<lparr>ac_audit := l\<rparr>)" "audit_room l k" by blast
  have "configure_multisig e s a [a] 1 = Inr (?s\<lparr>ac_audit := l\<rparr>)"
    using assms(1,2) l(1) by (auto simp: configure_multisig_def Let_def)
  then show ?thesis by (rule that) (use assms(2) l(2) in \<open>auto simp: first_id_def\<close>)
qed

text \<open>With a multisig configured the direct calls of the admin fail, but \<open>configure_multisig\<close> does
  not: the admin alone replaces the signers by themselves and then proposes and executes what the
  direct call refuses.\<close>

theorem admin_overrides_multisig:
  assumes "ac_admin (aw_st w) = Some a" "ac_multisig (aw_st w) = Some cfg" "authorised (e :: env) a"
    and "timestamp e + PROPOSAL_TTL_LEDGERS \<le> u64_max" "first_id (ac_next_proposal (aw_st w)) < u64_max"
    and "audit_room (ac_audit (aw_st w)) 2"
  shows "\<not> is_ok (pause e (aw_st w) a) \<and> \<not> is_ok (unpause e (aw_st w) a) \<and>
    (\<exists>s1 s2 n w3. configure_multisig e (aw_st w) a [a] 1 = Inr s1 \<and>
       propose_action e s1 a (if b then ActPause else ActUnpause) = Inr (s2, n) \<and>
       execute_action e (w\<lparr>aw_st := s2\<rparr>) a n = Inr w3 \<and> ac_is_paused (aw_st w3) = b)"
proof -
  let ?x = "if b then ActPause else ActUnpause"
  have "audit_room (ac_audit (aw_st w)) (Suc (Suc 0))" using assms(6) by (simp add: numeral_2_eq_2)
  then obtain s1 where s1: "configure_multisig e (aw_st w) a [a] 1 = Inr s1"
    "ac_multisig s1 = Some \<lparr>ms_threshold = 1, ms_signers = [a]\<rparr>" "ac_admin s1 = Some a"
    "first_id (ac_next_proposal s1) = first_id (ac_next_proposal (aw_st w))" "audit_room (ac_audit s1) (Suc 0)"
    by (rule configure_ok[OF assms(3,1)])
  have "first_id (ac_next_proposal s1) < u64_max" using s1(4) assms(5) by simp
  then obtain s2 n p where s2: "propose_action e s1 a ?x = Inr (s2, n)" "ac_proposal s2 n = Some p"
    "in_flight e p" "pr_approvals p = [a]" "pr_action p = ?x" "ac_multisig s2 = Some \<lparr>ms_threshold = 1, ms_signers = [a]\<rparr>"
    "ac_admin s2 = ac_admin s1" "ac_audit s2 = ac_audit s1"
    by (rule propose_plain_ok[OF assms(3) s1(2) _ assms(4), of ?x, simplified]) auto
  obtain w3 where "execute_action e (w\<lparr>aw_st := s2\<rparr>) a n = Inr w3" "ac_is_paused (aw_st w3) = b"
    using execute_plain_ok[of e a "w\<lparr>aw_st := s2\<rparr>" "\<lparr>ms_threshold = 1, ms_signers = [a]\<rparr>" n p 0 b] s1 s2 assms(3)
    by (auto simp: valid_count_def)
  with s1(1) s2(1) direct_prohibited(1,2)[of "aw_st w"] assms(2) show ?thesis
    by (auto simp: is_ok_iff)
qed

text \<open>A transfer executed through the multisig installs the new admin but leaves the old admin's
  role entry, which the direct transfer removes.\<close>

theorem multisig_transfer_keeps_old_role:
  assumes "execute_action e w x n = Inr w'" "ac_proposal (aw_st w) n = Some p" "pr_action p = ActTransferAdmin b"
    and "ac_admin (aw_st w) = Some a"
  shows "a \<noteq> b \<and> ac_admin (aw_st w') = Some b \<and> has_role (aw_st w') b RoleAdmin \<and>
    ac_role (aw_st w') a = ac_role (aw_st w) a \<and>
    (\<forall>e2 s s2. transfer_admin e2 s a b = Inr s2 \<longrightarrow> ac_admin s2 = Some b \<and> ac_role s2 a = None)"
proof -
  have "transfer_admin e2 s a b = Inr s2 \<Longrightarrow> ac_admin s2 = Some b \<and> ac_role s2 a = None" for e2 s s2
    by (auto simp: transfer_admin_def hand_over_def dest!: ac_audited_Inr)
  moreover from assms have "a \<noteq> b \<and> ac_admin (aw_st w') = Some b \<and> has_role (aw_st w') b RoleAdmin \<and>
      ac_role (aw_st w') a = ac_role (aw_st w) a"
    by (auto elim!: execute_action_Inr simp: apply_action_def on_st_def put_proposal_def validate_transfer_admin_target_def
        has_role_def role_of_def)
  ultimately show ?thesis by blast
qed

section \<open>Council elections\<close>

text \<open>Whoever signs the call, signer or not, can end an election that has not got its votes yet:
  it stays unconfirmed for good, and the term of the seat it was to replace is extended.\<close>

theorem anyone_ends_election:
  assumes "ac_election s n = Some x" "\<not> ce_concluded x" "ac_multisig s = Some cfg" "ce_votes_for x < ms_threshold cfg"
    and "authorised e c"
    and "start = (case ac_term_start s (ce_current_seat x) of None \<Rightarrow> timestamp e | Some t \<Rightarrow> t)"
    and "start + (case ac_grace s of None \<Rightarrow> 259200 | Some g \<Rightarrow> g) \<le> u64_max"
  shows "\<exists>s'. conclude_council_rotation e s c n = Inr s' \<and> ac_multisig s' = Some cfg \<and>
    ac_term_start s' (ce_current_seat x) = Some (start + (case ac_grace s of None \<Rightarrow> 259200 | Some g \<Rightarrow> g)) \<and>
    (\<forall>e' v b. \<not> is_ok (vote_council_rotation e' s' v n b) \<and> \<not> is_ok (conclude_council_rotation e' s' v n))"
proof -
  let ?y = "x\<lparr>ce_concluded := True, ce_confirmed := False\<rparr>"
  let ?t = "start + (case ac_grace s of None \<Rightarrow> 259200 | Some g \<Rightarrow> g)"
  let ?s = "(put_election n ?y (s\<lparr>ac_term_start := (ac_term_start s)(ce_current_seat x \<mapsto> ?t)\<rparr>))
      \<lparr>ac_seat_election := (ac_seat_election s)(ce_current_seat x := None)\<rparr>"
  have "require_auth e c = (Inr () :: unit ac_result)" "load_multisig_config s = Inr cfg" "open_election s n = Inr x"
    using assms by simp_all
  then have "conclude_council_rotation e s c n = Inr ?s"
    using assms(4,6,7) by (simp add: conclude_council_rotation_def Let_def u64_add_def put_election_def)
  moreover have "\<not> is_ok (vote_council_rotation e' ?s v n b)" "\<not> is_ok (conclude_council_rotation e' ?s v n)" for e' v b
    by (auto simp: is_ok_iff vote_council_rotation_def conclude_council_rotation_def put_election_def)
  ultimately show ?thesis using assms(3) by (intro exI[of _ ?s]) (simp add: put_election_def)
qed

end
