(* ===== verification/Access_Roles.thy ===== *)
theory Access_Roles
  imports Access_Paths "HOL-Library.Multiset"
begin

text \<open>
  The role book of access control: the role of an address and, per role, the list of members the
  views page through; and the pages of the audit log.
\<close>

section \<open>Removal by swapping\<close>

lemma position_of_Some: "position_of x xs = Some i \<Longrightarrow> i < length xs \<and> xs ! i = x"
  by (induction xs arbitrary: i) (auto split: if_splits)

lemma position_of_None: "position_of x xs = None \<longleftrightarrow> x \<notin> set xs"
  by (induction xs) auto

lemma swap_remove_mset:
  assumes "i < length xs" shows "mset (xs ! i # swap_remove i xs) = mset xs"
proof -
  from assms obtain ys z where xs: "xs = ys @ [z]" by (cases xs rule: rev_cases) auto
  show ?thesis
  proof (cases "i < length ys")
    case True
    then have "ys ! i \<in># mset ys" by simp
    with True show ?thesis by (simp add: swap_remove_def xs nth_append mset_update)
  next
    case False
    with assms have "i = length ys" by (simp add: xs)
    then show ?thesis by (simp add: swap_remove_def xs)
  qed
qed

lemma swap_remove_distinct:
  assumes "distinct xs" "position_of x xs = Some i"
  shows "distinct (swap_remove i xs)" "set (swap_remove i xs) = set xs - {x}"
proof -
  from position_of_Some[OF assms(2)] have m: "mset (x # swap_remove i xs) = mset xs"
    using swap_remove_mset[of i xs] by simp
  then have "distinct (x # swap_remove i xs)" using assms(1) mset_eq_imp_distinct_iff by blast
  moreover have "set (x # swap_remove i xs) = set xs" using m by (rule mset_eq_setD)
  ultimately show "distinct (swap_remove i xs)" "set (swap_remove i xs) = set xs - {x}" by auto
qed

section \<open>The role book\<close>

definition roster_ok :: "ac_state \<Rightarrow> bool" where
  "roster_ok s \<longleftrightarrow> (\<forall>r. distinct (members_of s r)) \<and> (\<forall>a. ac_role s a \<noteq> Some RoleNone) \<and>
     (\<forall>a r. ac_role s a = Some r \<and> r \<noteq> RoleAdmin \<longrightarrow> a \<in> set (members_of s r))"

lemma members_of_upd [simp]:
  "members_of (s\<lparr>ac_members := (ac_members s)(r := m)\<rparr>) q = (if q = r then (case m of None \<Rightarrow> [] | Some xs \<Rightarrow> xs) else members_of s q)"
  by (simp add: members_of_def)

lemma members_after_removal:
  assumes "\<forall>r. distinct (members_of s r)"
  shows "distinct (members_of (remove_from_role_members r a s) q) \<and>
    set (members_of (remove_from_role_members r a s) q) = (if q = r then set (members_of s r) - {a} else set (members_of s q))"
proof (cases "position_of a (members_of s r)")
  case None
  then have "remove_from_role_members r a s = s"
    by (auto simp: remove_from_role_members_def members_of_def split: option.splits)
  with assms None show ?thesis by (simp add: position_of_None)
next
  case (Some i)
  let ?ys = "swap_remove i (members_of s r)"
  have "remove_from_role_members r a s = s\<lparr>ac_members := (ac_members s)(r := (if ?ys = [] then None else Some ?ys))\<rparr>"
    using Some by (auto simp: remove_from_role_members_def members_of_def Let_def split: option.splits)
  then have "members_of (remove_from_role_members r a s) q = (if q = r then ?ys else members_of s q)" by simp
  with swap_remove_distinct[OF _ Some] assms show ?thesis by simp
qed

lemma removal_role [simp]: "ac_role (remove_from_role_members r a s) = ac_role s"
  by (auto simp: remove_from_role_members_def Let_def split: option.splits)

lemma members_after_addition:
  "distinct (members_of s q) \<Longrightarrow> distinct (members_of (add_to_role_members r a s) q)"
  "set (members_of (add_to_role_members r a s) q) = (if q = r then insert a (set (members_of s r)) else set (members_of s q))"
  "ac_role (add_to_role_members r a s) = ac_role s"
  by (auto simp: add_to_role_members_def members_of_def split: option.splits)

lemma members_of_unrelated [simp]:
  "members_of (s\<lparr>ac_role := f\<rparr>) = members_of s" "members_of (s\<lparr>ac_admin := b\<rparr>) = members_of s"
  by (rule ext, simp add: members_of_def)+

lemma roster_put_role: "roster_ok s \<Longrightarrow> r \<noteq> RoleNone \<Longrightarrow> roster_ok (put_role r a s)"
  by (auto simp: roster_ok_def put_role_def members_after_addition)

lemma roster_remove:
  assumes "roster_ok s" "role_of s a = r"
  shows "roster_ok (remove_from_role_members r a (s\<lparr>ac_role := (ac_role s)(a := None)\<rparr>))"
proof -
  let ?s = "s\<lparr>ac_role := (ac_role s)(a := None)\<rparr>"
  have d: "\<forall>r. distinct (members_of ?s r)" using assms(1) by (simp add: roster_ok_def)
  show ?thesis
    using assms(1) members_after_removal[OF d, of r a] by (auto simp: roster_ok_def)
qed

lemma roster_authority: "authority s = authority t \<Longrightarrow> roster_ok s = roster_ok t"
  by (auto simp: authority_def roster_ok_def members_of_def)

lemma roster_roles:
  "roster_ok s \<Longrightarrow> roster_ok (s\<lparr>ac_admin := a, ac_role := (ac_role s)(b \<mapsto> RoleAdmin)\<rparr>)"
  "roster_ok s \<Longrightarrow> roster_ok (hand_over b c s)"
  "roster_ok s \<Longrightarrow> roster_ok (s\<lparr>ac_role := (ac_role s)(b := None)\<rparr>)"
  by (auto simp: roster_ok_def hand_over_def members_of_def)

lemma roster_unrelated [simp]:
  "roster_ok (s\<lparr>ac_audit := l\<rparr>) = roster_ok s" "roster_ok (s\<lparr>ac_paused := b\<rparr>) = roster_ok s"
  "roster_ok (s\<lparr>ac_pending_rotation := k\<rparr>) = roster_ok s" "roster_ok (put_proposal n p s) = roster_ok s"
  by (simp_all add: roster_ok_def members_of_def put_proposal_def)

lemma roster_rotation: "execute_admin_rotation e x b p s = Inr s' \<Longrightarrow> roster_ok s \<Longrightarrow> roster_ok s'"
proof -
  assume run: "execute_admin_rotation e x b p s = Inr s'" and ok: "roster_ok s"
  from run obtain ca s1 where s1: "s1 = hand_over b ca s \<or> s1 = (hand_over b ca s)\<lparr>ac_pending_rotation := None\<rparr>"
    and "ac_audited e x AA_RotateAdmin s1 = Inr s'"
    unfolding execute_admin_rotation_def Let_def by (simp split: if_splits) blast+
  then obtain l where "s' = s1\<lparr>ac_audit := l\<rparr>" using ac_audited_Inr by blast
  then have "roster_ok s' = roster_ok s1" by simp
  also have "\<dots> = roster_ok (hand_over b ca s)" using s1 by (elim disjE) simp_all
  finally show ?thesis using roster_roles(2)[OF ok] by simp
qed

lemma roster_apply:
  assumes "apply_action e ca x p w = Inr w'" "roster_ok (aw_st w)" shows "roster_ok (aw_st w')"
proof (cases "pr_action p")
  case (ActGrantRole t v)
  with assms(1) obtain r where r: "(if v = 1 then Inr RoleOperator else if v = 2 then Inr RoleVerifier
      else Inl (Err AC_Unauthorized)) = (Inr r :: Role ac_result)" "w' = w\<lparr>aw_st := put_role r t (aw_st w)\<rparr>"
    by (simp add: apply_action_def on_st_def) blast
  from r(1) have "r \<noteq> RoleNone" by (auto split: if_splits)
  with r(2) assms(2) show ?thesis by (simp add: roster_put_role)
next
  case (ActRevokeRole t)
  let ?s = "(aw_st w)\<lparr>ac_role := (ac_role (aw_st w))(t := None)\<rparr>"
  from assms(1) ActRevokeRole have w': "aw_st w' = (if role_of (aw_st w) t \<noteq> RoleNone
      then remove_from_role_members (role_of (aw_st w) t) t ?s else ?s)"
    by (auto simp: apply_action_def on_st_def Let_def)
  show ?thesis unfolding w' by (simp add: roster_remove[OF assms(2) refl] roster_roles(3)[OF assms(2)])
next
  case (ActTransferAdmin b)
  from assms(1) ActTransferAdmin have "w' = w\<lparr>aw_st := (aw_st w)\<lparr>ac_admin := Some b, ac_role := (ac_role (aw_st w))(b \<mapsto> RoleAdmin)\<rparr>\<rparr>"
    by (simp add: apply_action_def on_st_def)
  with roster_roles(1)[OF assms(2)] show ?thesis by simp
next
  case (ActRotateAdmin b)
  from assms(1) ActRotateAdmin obtain s' where s': "execute_admin_rotation e x b p (aw_st w) = Inr s'" "aw_st w' = s'"
    by (auto simp: apply_action_def on_st_def)
  with roster_rotation[OF s'(1) assms(2)] show ?thesis by simp
next
  case (ActResolveDispute r i u)
  with assms show ?thesis by (auto simp: apply_action_def split: option.splits)
qed (use assms in \<open>auto simp: apply_action_def on_st_def\<close>)

lemma roster_batch: "run_batch e ca x ps w = Inr w' \<Longrightarrow> roster_ok (aw_st w) \<Longrightarrow> roster_ok (aw_st w')"
proof (induction ps arbitrary: w)
  case (Cons a ps)
  then show ?case by (cases a) (auto simp: Let_def dest!: roster_apply)
qed simp

lemma roster_ops:
  "ac_initialize e s a = Inr s' \<Longrightarrow> roster_ok s \<Longrightarrow> roster_ok s'"
  "pause e s a = Inr s' \<Longrightarrow> roster_ok s \<Longrightarrow> roster_ok s'"
  "unpause e s a = Inr s' \<Longrightarrow> roster_ok s \<Longrightarrow> roster_ok s'"
  "emergency_pause_by_guardian e s a = Inr s' \<Longrightarrow> roster_ok s \<Longrightarrow> roster_ok s'"
  "grant_role e s a b r = Inr s' \<Longrightarrow> roster_ok s \<Longrightarrow> roster_ok s'"
  "revoke_role e s a b = Inr s' \<Longrightarrow> roster_ok s \<Longrightarrow> roster_ok s'"
  "transfer_admin e s a b = Inr s' \<Longrightarrow> roster_ok s \<Longrightarrow> roster_ok s'"
  "rotate_admin e s a b = Inr s' \<Longrightarrow> roster_ok s \<Longrightarrow> roster_ok s'"
  "execute_action e w a n = Inr w' \<Longrightarrow> roster_ok (aw_st w) \<Longrightarrow> roster_ok (aw_st w')"
  "execute_batch e w a ns = Inr w' \<Longrightarrow> roster_ok (aw_st w) \<Longrightarrow> roster_ok (aw_st w')"
  subgoal by (auto simp: ac_initialize_def roster_ok_def members_of_def split: if_splits)
  subgoal by (auto simp: pause_def ac_guarded_def ac_lockable.guard_Inr_iff roster_ok_def members_of_def dest!: ac_audited_Inr)
  subgoal by (auto simp: unpause_def ac_guarded_def ac_lockable.guard_Inr_iff roster_ok_def members_of_def dest!: ac_audited_Inr)
  subgoal by (auto simp: emergency_pause_by_guardian_def ac_guarded_def ac_lockable.guard_Inr_iff roster_ok_def members_of_def
        dest!: ac_audited_Inr)
  subgoal by (auto simp: grant_role_def roster_put_role dest!: ac_audited_Inr)
  subgoal by (auto simp: revoke_role_def Let_def roster_remove dest!: ac_audited_Inr)
  subgoal by (auto simp: transfer_admin_def roster_roles dest!: ac_audited_Inr)
  subgoal by (auto simp: rotate_admin_def roster_roles dest!: ac_audited_Inr)
  subgoal by (erule execute_action_Inr) (auto dest!: roster_apply)
  subgoal by (erule execute_batch_Inr) (auto dest!: roster_batch)
  done

lemma roster_exec: "ac_exec e c w = Some w' \<Longrightarrow> roster_ok (aw_st w) \<Longrightarrow> roster_ok (aw_st w')"
proof (cases "governs c")
  case True
  moreover assume "ac_exec e c w = Some w'" "roster_ok (aw_st w)"
  ultimately show ?thesis by (cases c) (auto simp: governs_def dest: roster_ops)
next
  case False
  moreover assume "ac_exec e c w = Some w'" "roster_ok (aw_st w)"
  ultimately show ?thesis using authority_kept roster_authority by blast
qed

lemma roster_runs: "ac_runs w w' \<Longrightarrow> roster_ok (aw_st w) \<Longrightarrow> roster_ok (aw_st w')"
  by (induction rule: ac_runs.induct) (auto intro: roster_exec)

text \<open>In every reachable state the member list of a role names nobody twice and misses nobody: who
  holds the role of operator, verifier or guardian is listed under it.\<close>

theorem role_members_complete:
  assumes "ac_reachable w"
  shows "distinct (members_of (aw_st w) r) \<and>
    (r \<in> {RoleOperator, RoleVerifier, RoleGuardian} \<and> has_role (aw_st w) a r \<longrightarrow> a \<in> set (members_of (aw_st w) r))"
proof -
  have "roster_ok (aw_st \<lparr>aw_st = ac_empty, aw_calls = []\<rparr>)"
    by (simp add: roster_ok_def ac_empty_def members_of_def)
  with assms have "roster_ok (aw_st w)" unfolding ac_reachable_def by (auto dest: roster_runs)
  then show ?thesis by (auto simp: roster_ok_def has_role_def role_of_def split: option.splits)
qed

text \<open>The converse fails: granting an address another role leaves it listed under the old one, so
  the lists also name addresses that no longer hold the role.\<close>

theorem regrant_keeps_membership:
  assumes "grant_role e s admin t r = Inr s'" "q \<noteq> r" "t \<in> set (members_of s q)"
  shows "t \<in> set (members_of s' q) \<and> has_role s' t r \<and> \<not> has_role s' t q"
proof -
  from assms(1) obtain l where "s' = (put_role r t s)\<lparr>ac_audit := l\<rparr>"
    by (auto simp: grant_role_def dest!: ac_audited_Inr)
  with assms(2,3) show ?thesis
    by (auto simp: put_role_def members_after_addition has_role_def role_of_def add_to_role_members_def members_of_def
        split: option.splits)
qed

section \<open>Pages of the audit log\<close>

lemma takeWhile_eq_upt: "takeWhile (\<lambda>i. m + i < n) [0..<k] = [0..<min k (n - (m::nat))]"
proof -
  have "takeWhile (\<lambda>i. m + i < n) [0..<k] = take (n - m) [0..<k]"
    by (rule takeWhile_eq_take_P_nth) auto
  then show ?thesis by (cases "k \<le> n - m") (simp_all add: min_def take_upt)
qed

lemma map_filter_total: "(\<And>x. x \<in> set xs \<Longrightarrow> f x = Some (g x)) \<Longrightarrow> List.map_filter f xs = map g xs"
  by (induction xs) simp_all

lemma ring_slot:
  assumes "j < m" "j < (n::nat)" shows "(n mod m + m - 1 - j) mod m = (n - 1 - j) mod m"
proof -
  have "n mod m + m - 1 - j + m * (n div m) = (n - 1 - j) + m"
    using assms mult_div_mod_eq[of m n] by linarith
  then have "(n mod m + m - 1 - j + m * (n div m)) mod m = ((n - 1 - j) + m) mod m" by simp
  then show ?thesis by simp
qed

text \<open>When the ring holds the log \<open>h\<close>, a page of the audit log is the corresponding slice of the last
  500 entries, newest first.\<close>

theorem audit_page_refines:
  assumes "audit_repr l h"
  shows "get_audit_log l page page_size = (let ps = min (max page_size 1) 50 in take ps (drop (page * ps) (take 500 (rev h))))"
proof -
  define ps where "ps = min (max page_size 1) 50"
  define skip where "skip = min u64_max (page * ps)"
  define stored where "stored = min (length h) 500"
  define f where "f i = al_entries l ((length h mod 500 + 500 - 1 - (skip + i)) mod 500)" for i
  have entry: "f i = Some (rev h ! (skip + i))" if "skip + i < stored" for i
  proof -
    let ?k = "length h - 1 - (skip + i)"
    have k: "?k < length h" "length h \<le> ?k + 500" "skip + i < 500" "skip + i < length h" using that by (auto simp: stored_def)
    have "(length h mod 500 + 500 - 1 - (skip + i)) mod 500 = ?k mod 500"
      using ring_slot[OF k(3,4)] by simp
    with assms k show ?thesis by (auto simp: f_def audit_repr_def MAX_AUDIT_LOG_SIZE_def rev_nth)
  qed
  have "takeWhile (\<lambda>i. skip + i < stored) [0..<ps] = [0..<min ps (stored - skip)]"
    by (rule takeWhile_eq_upt)
  then have "get_audit_log l page page_size = List.map_filter f [0..<min ps (stored - skip)]"
    using assms by (simp add: get_audit_log_def audit_repr_def MAX_AUDIT_LOG_SIZE_def Let_def ps_def skip_def stored_def f_def[abs_def])
  also have "\<dots> = map (\<lambda>i. rev h ! (skip + i)) [0..<min ps (stored - skip)]"
    by (rule map_filter_total) (use entry in auto)
  also have "\<dots> = take ps (drop (page * ps) (take 500 (rev h)))"
  proof (rule nth_equalityI)
    fix i assume "i < length (map (\<lambda>i. rev h ! (skip + i)) [0..<min ps (stored - skip)])"
    then have "i < ps \<and> i < stored - skip" by simp
    then have i: "i < ps" "skip + i < stored" by linarith+
    then have "skip = page * ps" by (simp add: skip_def stored_def u64_max_def min_def split: if_splits)
    with \<open>i < ps \<and> i < stored - skip\<close> i show "map (\<lambda>i. rev h ! (skip + i)) [0..<min ps (stored - skip)] ! i = take ps (drop (page * ps) (take 500 (rev h))) ! i"
      by (simp add: stored_def)
  qed (simp add: stored_def skip_def u64_max_def)
  finally show ?thesis by (simp add: ps_def Let_def)
qed

end
