(* ===== verification/Access_Example.thy ===== *)
theory Access_Example
  imports Access_Roles
begin

text \<open>
  A concrete access control for the examples: admin 10, operator 80, dispute contract 60, signers
  20, 21 and 22 with threshold 2; two approved proposals each for a pause (1), a dispute ruling (2)
  and a transfer of the admin role to 11 (3), and an election for the seat of 21 with candidate 30.
\<close>

definition ac_new :: ac_world where
  "ac_new = \<lparr>aw_st = ac_empty, aw_calls = []\<rparr>"

definition council_calls :: "ac_op list" where
  "council_calls =
     [Ac_initialize 10, Ac_grant_role 10 80 RoleOperator, Ac_set_dispute_resolution 10 60,
      Ac_configure_multisig 10 [20, 21, 22] 2,
      Ac_propose_action 20 ActPause, Ac_approve_action 21 1,
      Ac_propose_action 20 (ActResolveDispute 20 7 True), Ac_approve_action 22 2,
      Ac_propose_action 21 (ActTransferAdmin 11), Ac_approve_action 22 3,
      Ac_initiate_rotation 20 21 30]"

definition ac_after :: "ac_op list \<Rightarrow> ac_world" where
  "ac_after cs = (case ac_replay sample_env cs ac_new of Some w \<Rightarrow> w | None \<Rightarrow> ac_new)"

lemma ac_after_reachable: "ac_reachable (ac_after cs)"
  using ac_replay_runs[of sample_env cs ac_new]
  by (auto simp: ac_after_def ac_reachable_def ac_new_def ac_none split: option.splits)

named_theorems access_eval
lemmas [access_eval] = ac_new_def ac_empty_def ac_after_def council_calls_def st_op_def st_op2_def succeeds_def
  ac_initialize_def grant_role_def put_role_def add_to_role_members_def members_of_def set_dispute_resolution_def
  configure_multisig_def propose_action_def approve_action_def open_proposal_def put_proposal_def
  initiate_council_rotation_def put_election_def first_id_def ac_audited_def audit_append_def empty_audit_def
  as_signer_def load_multisig_config_def ac_require_signer_def ac_require_admin_def require_direct_def
  validate_grant_role_target_def live_proposal_def pending_proposal_def execute_action_def require_quorum_def
  valid_count_def apply_action_def on_st_def validate_transfer_admin_target_def role_of_def
  PROPOSAL_TTL_LEDGERS_def require_not_self_def u64_max_def u64_add_def require_auth_def MAX_AUDIT_LOG_SIZE_def

definition council :: ac_world where
  "council = ac_after council_calls"

lemma council_reachable: "ac_reachable council"
  by (simp add: council_def ac_after_reachable)

lemma council_fields:
  "ac_multisig (aw_st council) = Some \<lparr>ms_threshold = 2, ms_signers = [20, 21, 22]\<rparr>"
  "ac_admin (aw_st council) = Some 10" "ac_dispute (aw_st council) = Some 60"
  "ac_next_proposal (aw_st council) = Some 4" "ac_paused (aw_st council) = Some False"
  "aw_calls council = []"
  by (simp_all add: council_def access_eval Let_def)

lemma council_books:
  "ac_proposal (aw_st council) 1 = Some \<lparr>pr_id = 1, pr_action = ActPause, pr_proposer = 20, pr_approvals = [20, 21],
     pr_executed = False, pr_cancelled = False, pr_created_at = 1000, pr_expires_at = 121960\<rparr>"
  "ac_proposal (aw_st council) 2 = Some \<lparr>pr_id = 2, pr_action = ActResolveDispute 20 7 True, pr_proposer = 20,
     pr_approvals = [20, 22], pr_executed = False, pr_cancelled = False, pr_created_at = 1000, pr_expires_at = 121960\<rparr>"
  "ac_proposal (aw_st council) 3 = Some \<lparr>pr_id = 3, pr_action = ActTransferAdmin 11, pr_proposer = 21,
     pr_approvals = [21, 22], pr_executed = False, pr_cancelled = False, pr_created_at = 1000, pr_expires_at = 121960\<rparr>"
  "ac_election (aw_st council) 1 = Some \<lparr>ce_election_id = 1, ce_current_seat = 21, ce_candidate = 30,
     ce_initiated_at = 1000, ce_votes_for = 1, ce_votes_against = 0, ce_voters = [20], ce_concluded = False,
     ce_confirmed = False\<rparr>"
  "ac_role (aw_st council) 10 = Some RoleAdmin" "ac_role (aw_st council) 80 = Some RoleOperator"
  "ac_role (aw_st council) 11 = None" "ac_members (aw_st council) RoleOperator = Some [80]"
  "ac_term_start (aw_st council) 21 = None" "ac_grace (aw_st council) = None"
  by (simp_all add: council_def access_eval Let_def)

lemma council_room: "audit_room (ac_audit (aw_st council)) 2"
  by (simp add: council_def access_eval Let_def audit_room_def)

section \<open>Witnesses\<close>

text \<open>The pause of proposal 1 goes through.\<close>

lemma council_pauses: "\<exists>w'. execute_action sample_env council 20 1 = Inr w' \<and> ac_is_paused (aw_st w')"
proof -
  have "audit_room (ac_audit (aw_st council)) (Suc 0)" using council_room by (auto simp: audit_room_def)
  from execute_plain_ok[OF _ council_fields(1) _ council_books(1) _ _ _ this, of sample_env 20 True] show ?thesis
    by (simp add: in_flight_def valid_count_def council_fields)
qed

theorem authority_needs_quorum_witness:
  "\<exists>w'. ac_exec sample_env (Ac_execute_action 20 1) council = Some w' \<and> ac_is_paused (aw_st w') \<and>
     quorum_backed sample_env (aw_st council) 20 1"
proof -
  obtain w' where run: "execute_action sample_env council 20 1 = Inr w'" "ac_is_paused (aw_st w')"
    using council_pauses by blast
  have "\<not> ac_is_paused (aw_st council)" by (simp add: ac_is_paused_def council_fields)
  with run authority_needs_quorum[OF council_reachable, of sample_env "Ac_execute_action 20 1" w'] show ?thesis
    by (auto simp: council_fields)
qed

theorem action_runs_once_witness:
  "\<exists>w'. execute_action sample_env council 20 1 = Inr w' \<and> \<not> is_ok (execute_action sample_env w' 21 1) \<and>
     \<not> is_ok (execute_batch sample_env w' 21 [1])"
proof -
  obtain w' where run: "execute_action sample_env council 20 1 = Inr w'" using council_pauses by blast
  show ?thesis
    using action_runs_once[OF council_reachable disjI1[OF run] ac_none, of sample_env 21 "[1]"] run by simp
qed

theorem governance_well_formed_witness:
  "1 \<le> (2::nat) \<and> ac_multisig (aw_st council) = Some \<lparr>ms_threshold = 2, ms_signers = [20, 21, 22]\<rparr> \<and>
   (\<exists>p. ac_proposal (aw_st council) 1 = Some p \<and> pr_id p = 1 \<and> distinct (pr_approvals p))"
  using governance_well_formed[OF council_reachable] council_fields(1) council_books(1) by auto

theorem rotation_guard_is_complete_witness:
  "\<not> is_ok (require_no_other_active_proposals sample_env (aw_st council) 1)"
  using rotation_guard_is_complete[OF council_reachable, of sample_env 1] council_books(2)
  by (auto intro!: exI[of _ 2])

theorem signers_can_pause_witness:
  "\<exists>n w'. ac_replay sample_env [Ac_propose_action 22 ActPause, Ac_approve_action 20 n,
     Ac_execute_action 22 n] council = Some w' \<and> ac_is_paused (aw_st w')"
proof -
  have "audit_room (ac_audit (aw_st council)) 1" using council_room by (auto simp: audit_room_def)
  with signers_can_pause[OF council_reachable council_fields(1), of 22 "[20]" sample_env] show ?thesis
    by (fastforce simp: council_fields first_id_def u64_max_def PROPOSAL_TTL_LEDGERS_def simp del: ac_replay.simps)
qed

theorem batch_repeats_dispute_witness:
  "\<exists>w'. execute_batch sample_env council 20 [2, 2] = Inr w' \<and>
     aw_calls w' = [ResolveDispute 60 20 7 True, ResolveDispute 60 20 7 True]"
proof -
  have "audit_room (ac_audit (aw_st council)) 1" using council_room by (auto simp: audit_room_def)
  moreover have "quorum_backed sample_env (aw_st council) 20 2"
    by (simp add: quorum_backed_def council_fields council_books)
  ultimately show ?thesis
    using batch_repeats_dispute[OF council_reachable, of sample_env 20 2] by (simp add: council_fields council_books)
qed

theorem admin_overrides_multisig_witness:
  "\<exists>s1 s2 n w3. configure_multisig sample_env (aw_st council) 10 [10] 1 = Inr s1 \<and>
     propose_action sample_env s1 10 ActPause = Inr (s2, n) \<and>
     execute_action sample_env (council\<lparr>aw_st := s2\<rparr>) 10 n = Inr w3 \<and> ac_is_paused (aw_st w3)"
  using admin_overrides_multisig[OF council_fields(2,1), of sample_env True] council_room
  by (simp add: council_fields first_id_def u64_max_def PROPOSAL_TTL_LEDGERS_def)

theorem multisig_transfer_keeps_old_role_witness:
  "\<exists>w'. execute_action sample_env council 21 3 = Inr w' \<and> ac_admin (aw_st w') = Some 11 \<and>
     has_role (aw_st w') 10 RoleAdmin"
proof -
  have "is_ok (execute_action sample_env council 21 3)"
    by (simp add: access_eval Let_def council_fields council_books council_def)
  then obtain w' where run: "execute_action sample_env council 21 3 = Inr w'" by (auto simp: is_ok_iff)
  from multisig_transfer_keeps_old_role[OF run council_books(3) _ council_fields(2), of 11] run show ?thesis
    by (simp add: has_role_def role_of_def council_books)
qed

theorem anyone_ends_election_witness:
  "\<exists>s'. conclude_council_rotation sample_env (aw_st council) 99 1 = Inr s' \<and> ac_term_start s' 21 = Some 260200"
  using anyone_ends_election[OF council_books(4) _ council_fields(1), of sample_env 99 1000]
  by (auto simp: council_books u64_max_def)

theorem role_members_complete_witness: "has_role (aw_st council) 80 RoleOperator \<and> 80 \<in> set (members_of (aw_st council) RoleOperator)"
  using role_members_complete[OF council_reachable, of RoleOperator 80]
  by (simp add: has_role_def role_of_def council_books)

text \<open>The state before the multisig was configured.\<close>

definition granted :: ac_state where
  "granted = aw_st (ac_after [Ac_initialize 10, Ac_grant_role 10 80 RoleOperator])"

lemmas [access_eval] = granted_def

theorem regrant_keeps_membership_witness:
  "\<exists>s'. grant_role sample_env granted 10 80 RoleVerifier = Inr s' \<and> 80 \<in> set (members_of s' RoleOperator) \<and>
     \<not> has_role s' 80 RoleOperator"
proof -
  have "is_ok (grant_role sample_env granted 10 80 RoleVerifier)" by (simp add: access_eval Let_def)
  then obtain s' where run: "grant_role sample_env granted 10 80 RoleVerifier = Inr s'" by (auto simp: is_ok_iff)
  have "80 \<in> set (members_of granted RoleOperator)" by (simp add: access_eval Let_def)
  from regrant_keeps_membership[OF run _ this] run show ?thesis by auto
qed

theorem audit_page_refines_witness:
  "\<exists>l'. audit_append AS_AccessControl sample_env empty_audit 5 AA_Pause = (Inr l' :: (unit, audit_log) result) \<and>
     map ae_actor (get_audit_log l' 0 10) = [5]"
proof -
  obtain l' where run: "audit_append AS_AccessControl sample_env empty_audit 5 AA_Pause = (Inr l' :: (unit, audit_log) result)"
    using audit_append_ok[OF audit_repr_empty, of AS_AccessControl sample_env 5 AA_Pause] by (auto simp: u64_max_def)
  have "audit_repr l' [\<lparr>ae_sequence = 0, ae_timestamp = 1000, ae_actor = 5, ae_action = AA_Pause,
      ae_source = AS_AccessControl, ae_token = None, ae_amount = None\<rparr>]"
    using run by (auto simp: audit_append_def audit_repr_def empty_audit_def MAX_AUDIT_LOG_SIZE_def)
  from audit_page_refines[OF this, of 0 10] run show ?thesis by simp
qed

end
