(* ===== verification/Registry_Example.thy ===== *)
theory Registry_Example
  imports Registry_Verifiers Registry_Scores Access_Example
begin

text \<open>
  A concrete registry for the examples: contract 1, admin 10, staking token 50 with a minimum of
  1000, slash treasury 70; verifiers 20 and 21 with stakes 1000 and 2000, an SME 90 of verifier 20, a
  debtor both have scored, an open dispute on 20, and its removal under way.
\<close>

fun rr_replay :: "(u64 \<times> rr_op) list \<Rightarrow> rr_world \<Rightarrow> rr_world option" where
  "rr_replay [] w = Some w"
| "rr_replay ((t, c) # cs) w = Option.bind (rr_exec (sample_env\<lparr>timestamp := t\<rparr>) c w) (rr_replay cs)"

definition sample_debtor :: bytes where
  "sample_debtor = replicate 32 7"

definition registry_calls :: "rr_op list" where
  "registry_calls =
     [Rr_initialize 10 60 50 1000 1000, Rr_configure_slashing 10 3600 70, Rr_configure_breaker 10 5000 1,
      Rr_add_verifier 10 20 1000, Rr_add_verifier 10 21 2000,
      Rr_register_sme 20 90 15 True, Rr_set_debtor_score 20 sample_debtor 40, Rr_set_debtor_score 21 sample_debtor 61,
      Rr_raise_dispute 33 20 90, Rr_request_removal 10 20]"

lemma rr_replay_runs:
  assumes "rr_replay cs w = Some w'" "\<And>t c s. (t, c) \<in> set cs \<Longrightarrow> allowed s c"
  shows "rr_runs allowed 1 w w'"
proof -
  have "rr_runs allowed 1 v w \<Longrightarrow> rr_replay cs w = Some w' \<Longrightarrow> rr_runs allowed 1 v w'" for v
    using assms(2)
  proof (induction cs arbitrary: w)
    case (Cons x cs)
    then obtain t c w1 where x: "x = (t, c)" "rr_exec (sample_env\<lparr>timestamp := t\<rparr>) c w = Some w1" "rr_replay cs w1 = Some w'"
      by (cases x) (auto simp: bind_eq_Some_conv)
    have "rr_runs allowed 1 v w1"
      by (rule rr_step[OF Cons.prems(1) _ _ x(2)]) (use Cons.prems(3) x(1) in auto)
    from Cons.IH[OF this x(3)] Cons.prems(3) show ?case by auto
  qed simp
  from this[OF rr_none assms(1)] show ?thesis .
qed

text \<open>The audit log fills up as the calls come; no other field of the registry depends on it.\<close>

named_theorems registry_eval
lemmas [registry_eval] = sample_debtor_def registry_calls_def rr_new_def rr_empty_def rr_st_op_def succeeds_def
  rr_initialize_def configure_slashing_def configure_circuit_breaker_def add_verifier_def require_addable_def call_access_def
  register_sme_def set_debtor_score_def raise_dispute_def request_verifier_removal_def as_keeper_def put_status_def
  as_verifier_def resolve_verifier_def verifier_flag_def verifier_status_def require_verifier_def
  require_min_reputation_def as_running_admin_def as_admin_def rr_require_admin_def rr_require_not_paused_def
  require_verifier_flag_def require_valid_risk_score_def rr_exact_length_def put_sme_def put_dispute_def
  score_to_tier_symbol_def tier_count_def rr_audited_def audit_append_def empty_audit_def on_rr_def rr_emit_def
  default_tiers_def require_not_self_def require_auth_def MAX_AUDIT_LOG_SIZE_def MAX_VERIFIERS_PER_DEBTOR_def
  MIN_REPUTATION_RISK_ACTIONS_def u64_max_def u64_add_def u32_add_def u32_max_def u32_sat_add_def finalize_verifier_removal_def
  VERIFIER_REMOVAL_COOLDOWN_SECS_def VERIFIER_READD_COOLDOWN_SECS_def remove_and_revoke_def return_stake_def
  retire_verifier_def stake_of_def

definition registry :: rr_world where
  "registry = (case rr_replay (map (Pair 1000) registry_calls) (rr_new ac_empty) of Some w \<Rightarrow> w | None \<Rightarrow> rr_new ac_empty)"

lemma registry_replay: "rr_replay (map (Pair 1000) registry_calls) (rr_new ac_empty) = Some registry"
  unfolding registry_def by (simp add: registry_eval Let_def)

lemma registry_reachable: "rr_reachable careful 1 registry"
proof -
  have "rr_runs careful 1 (rr_new ac_empty) registry"
    by (rule rr_replay_runs[OF registry_replay]) (auto simp: registry_calls_def careful_def)
  then show ?thesis by (auto simp: rr_reachable_def)
qed

lemma registry_fields:
  "rr_staking_token (rw_st registry) = Some 50" "rr_admin (rw_st registry) = Some 10"
  "rr_access (rw_st registry) = None" "rr_slash_bps (rw_st registry) = Some 1000"
  "rr_verifier (rw_st registry) = [20 \<mapsto> True, 21 \<mapsto> True]" "rr_stake (rw_st registry) = [20 \<mapsto> 1000, 21 \<mapsto> 2000]"
  "rr_status (rw_st registry) = [20 \<mapsto> VS_PendingRemoval]"
  "rw_calls registry = [Transfer 50 20 1 1000, Transfer 50 21 1 2000]"
  "rr_sme (rw_st registry) 90 = Some (fresh_profile sample_env 90 20 15 True)"
  "rr_debtor_score (rw_st registry) sample_debtor = [20 \<mapsto> 40, 21 \<mapsto> 61]"
  "rr_reputation (rw_st registry) = [20 \<mapsto> 100, 21 \<mapsto> 100]"
  "rr_removal_at (rw_st registry) 20 = Some 1000"
  by (simp_all add: registry_def registry_eval Let_def fresh_profile_def)

lemma registry_staff:
  "verifier_flag (rw_st registry) v = (v = 20 \<or> v = 21)" "stake_of (rw_st registry) v = (if v = 20 then 1000 else if v = 21 then 2000 else 0)"
  by (auto simp: verifier_flag_def stake_of_def registry_fields)

text \<open>The removal is finalised a week later, with the dispute still open.\<close>

definition week_later :: env where
  "week_later = sample_env\<lparr>timestamp := 700000\<rparr>"

definition registry_left :: rr_world where
  "registry_left = (case rr_exec week_later (Rr_finalize_removal 10 20) registry of Some w \<Rightarrow> w | None \<Rightarrow> registry)"

lemma registry_leaves: "rr_exec week_later (Rr_finalize_removal 10 20) registry = Some registry_left"
  unfolding registry_left_def registry_def week_later_def by (simp add: registry_eval Let_def)

lemma registry_left_reachable: "rr_reachable careful 1 registry_left"
proof -
  obtain ac where "rr_runs careful 1 (rr_new ac) registry" using registry_reachable by (auto simp: rr_reachable_def)
  from rr_step[OF this _ _ registry_leaves] show ?thesis
    by (auto simp: rr_reachable_def week_later_def careful_def)
qed

lemma registry_left_fields:
  "rr_status (rw_st registry_left) 20 = Some VS_Removed" "rr_verifier (rw_st registry_left) = [21 \<mapsto> True]"
  "rr_stake (rw_st registry_left) = [21 \<mapsto> 2000]" "rr_bond (rw_st registry_left) 20 = Some \<lparr>bo_amount = 1000, bo_locked_until = 4600\<rparr>"
  "rr_dispute (rw_st registry_left) 20 90 = Some \<lparr>dp_subject = 90, dp_challenger = 33, dp_raised_at = 1000, dp_resolved = False\<rparr>"
  "rr_admin (rw_st registry_left) = Some 10" "rr_access (rw_st registry_left) = None"
  "rr_slash_bps (rw_st registry_left) = Some 1000" "rr_slash_treasury (rw_st registry_left) = Some 70"
  "rr_staking_token (rw_st registry_left) = Some 50"
  "rw_calls registry_left = [Transfer 50 20 1 1000, Transfer 50 21 1 2000, Transfer 50 1 20 1000]"
  unfolding registry_left_def registry_def week_later_def
  by (simp_all add: registry_eval Let_def fun_eq_iff)

section \<open>Witnesses\<close>

theorem stakes_are_covered_witness:
  "(\<Sum>v\<in>{20, 21}. max 0 (stake_of (rw_st registry) v)) \<le> moved_in 50 1 (rw_calls registry) - moved_out 50 1 (rw_calls registry) \<and>
   stake_of (rw_st registry) 20 + stake_of (rw_st registry) 21 = 3000"
proof -
  have "{v. verifier_flag (rw_st registry) v} = {20, 21}" by (auto simp: registry_staff)
  with stakes_are_covered[OF registry_reachable registry_fields(1)] show ?thesis by (simp add: registry_staff)
qed

theorem verifier_lifecycle_refines_witness:
  "stage_of (rw_st registry) 20 = Leaving \<and> stage_of (rw_st registry_left) 20 = Gone \<and>
   stage_of (rw_st registry_left) 21 = Serving \<and> \<not> is_verifier (rw_st registry_left) 20"
proof -
  have "stage_of (rw_st registry) 20 = Leaving" "stage_of (rw_st registry) 21 = Serving"
    by (simp_all add: stage_of_def registry_fields verifier_flag_def)
  with verifier_lifecycle_refines[OF registry_reachable registry_leaves, of 20]
    verifier_lifecycle_refines[OF registry_reachable registry_leaves, of 21]
  show ?thesis by (simp add: stage_after_def)
qed

definition registry_again :: rr_world where
  "registry_again = (case rr_exec (sample_env\<lparr>timestamp := 2000000\<rparr>) (Rr_add_verifier 10 20 1000) registry_left of
     Some w \<Rightarrow> w | None \<Rightarrow> registry_left)"

lemma registry_adds_again:
  "rr_exec (sample_env\<lparr>timestamp := 2000000\<rparr>) (Rr_add_verifier 10 20 1000) registry_left = Some registry_again"
  unfolding registry_again_def registry_left_def registry_def week_later_def by (simp add: registry_eval Let_def)

theorem removed_verifier_never_serves_witness:
  "verifier_flag (rw_st registry_again) 20 \<and> moved_in 50 1 (rw_calls registry_again) = 4000 \<and>
   resolve_verifier (rw_st registry_again) 20 = Inl (Err RR_VerifierSuspended)"
proof -
  have "rr_runs careful 1 registry_left registry_again"
    by (rule rr_step[OF rr_none _ _ registry_adds_again]) (simp_all add: careful_def)
  note gone = removed_verifier_never_serves[OF registry_left_reachable registry_left_fields(1) this]
  have "add_verifier (sample_env\<lparr>timestamp := 2000000\<rparr>) registry_left 10 20 1000 = Inr registry_again"
    using registry_adds_again by simp
  from add_verifier_Inr(2)[OF this] have "verifier_flag (rw_st registry_again) 20" "moved_in 50 1 (rw_calls registry_again) = 4000"
    by (auto simp: registry_left_fields verifier_flag_def added_def)
  with gone show ?thesis by blast
qed

theorem multisig_freezes_verifiers_witness:
  "\<not> is_ok (add_verifier sample_env (registry\<lparr>rw_st := (rw_st registry)\<lparr>rr_access := Some 5\<rparr>, rw_ac := aw_st council\<rparr>) 10 22 1000)"
  using multisig_freezes_verifiers[of "registry\<lparr>rw_st := (rw_st registry)\<lparr>rr_access := Some 5\<rparr>, rw_ac := aw_st council\<rparr>"
    sample_env 10 22 1000] by (auto simp: council_fields)

theorem slash_after_removal_takes_others_stake_witness:
  "\<exists>w'. resolve_dispute week_later registry_left 10 20 90 True = Inr w' \<and> held 50 1 (rw_calls w') = 1900 \<and>
     (\<Sum>x | verifier_flag (rw_st w') x. max 0 (stake_of (rw_st w') x)) = 2000"
proof -
  have "{x. verifier_flag (rw_st registry_left) x} = {21}" by (auto simp: verifier_flag_def registry_left_fields)
  then have sum: "(\<Sum>x | verifier_flag (rw_st registry_left) x. max 0 (stake_of (rw_st registry_left) x)) = 2000"
    by (simp add: stake_of_def registry_left_fields)
  have slash: "slash_part 1000 1000 = Inr 100" by (simp add: slash_part_def)
  from slash_after_removal_takes_others_stake[of registry_left 20, OF _ registry_left_fields(4) _ _ registry_left_fields(5) _ _
      registry_left_fields(6) disjI1[OF registry_left_fields(7)] registry_left_fields(8), of week_later 100 70 50]
  obtain w' where "resolve_dispute week_later registry_left 10 20 90 True = Inr w'"
    "held 50 (self_addr week_later) (rw_calls w') = held 50 (self_addr week_later) (rw_calls registry_left) - 100"
    "(\<Sum>x | verifier_flag (rw_st w') x. max 0 (stake_of (rw_st w') x)) = 2000"
    using sum slash by (auto simp: registry_left_fields verifier_flag_def i128_max_def week_later_def)
  then show ?thesis by (auto simp: week_later_def registry_left_fields held_def)
qed

theorem debtor_score_is_mean_witness:
  "get_debtor_score (rw_st registry) sample_debtor = Inr 50 \<and> debtor_score_average (rw_st registry) sample_debtor = Some 50"
proof -
  have "raters (rw_st registry) sample_debtor = {20, 21}"
    by (auto simp: raters_def registry_fields counts_toward_aggregate_def verifier_status_def registry_staff)
  with debtor_score_is_mean[OF registry_reachable, of sample_debtor] show ?thesis
    by (simp add: Let_def rating_def registry_fields flip: numeral_2_eq_2)
qed

theorem profile_moved_by_verifier_of_record_witness:
  "\<exists>w' q. rr_exec sample_env (Rr_count_invoice 60 90) registry = Some w' \<and> rr_sme (rw_st w') 90 = Some q \<and>
     sp_verifier q = 20 \<and> sp_total_invoices q \<le> 1"
proof -
  have "rr_exec sample_env (Rr_count_invoice 60 90) registry \<noteq> None"
    unfolding registry_def by (simp add: registry_eval increment_invoice_count_def require_invoice_nft_def Let_def)
  then obtain w' where run: "rr_exec sample_env (Rr_count_invoice 60 90) registry = Some w'" by blast
  from profile_moved_by_verifier_of_record[OF run, of 90] run show ?thesis
    by (auto simp: registry_fields fresh_profile_def)
qed

theorem default_penalty_and_breaker_witness:
  "\<exists>s'. record_default sample_env ac_empty (rw_st registry) 10 90 = Inr s' \<and> stake_of s' 20 = 900 \<and>
     reputation_of s' 20 = 90 \<and> reputation_of s' 21 = 100 \<and> is_tier_paused s' ''AAA''"
proof -
  have "case record_default sample_env ac_empty (rw_st registry) 10 90 of Inr s' \<Rightarrow> is_tier_paused s' ''AAA'' | _ \<Rightarrow> False"
    unfolding registry_def
    by (simp add: registry_eval record_default_def rr_guarded_def with_guard_def acquire_guard_def release_guard_def i128_sub_def i128_fit_def i128_min_def i128_max_def u32_sat_sub_def
        slash_stake_def slash_part_def lower_reputation_def count_default_def is_tier_paused_def Let_def)
  then obtain s' where run: "record_default sample_env ac_empty (rw_st registry) 10 90 = Inr s'" "is_tier_paused s' ''AAA''"
    by (auto split: sum.splits)
  have "\<forall>v. stake_of (rw_st registry) v \<le> i128_max" by (simp add: registry_staff i128_max_def)
  from default_penalty_and_breaker[OF run(1) registry_fields(9,4) _ this] run show ?thesis
    by (simp add: fresh_profile_def registry_staff reputation_of_def registry_fields Let_def)
qed

theorem debtor_breaker_never_trips_witness: "\<not> is_debtor_paused (rw_st registry) sample_debtor"
  by (rule debtor_breaker_never_trips[OF registry_reachable])

end
