(* ===== verification/Price_Oracle.thy ===== *)
theory Price_Oracle
  imports Kora_Validation
begin

text \<open>
  The price oracle (\<open>contracts/price_oracle/src/lib.rs\<close>): prices of feeders per pair of currencies,
  their median, the guards of a submission, the ring of past prices and conversion.  \<open>po_state\<close> has one
  field per storage key.  The fallback feed is a contract outside the repository: what its
  \<open>get_price\<close> answers is the argument \<open>fb\<close>, with \<open>None\<close> for a failing call.
\<close>

section \<open>Data\<close>

datatype PriceOracleError =
    PO_AlreadyInitialized | PO_ArithmeticOverflow | PO_InvalidAmount | PO_InvoiceExpired | PO_NotAdmin
  | PO_NotInitialized | PO_NoUpgradeProposed | PO_UpgradeTimelockNotElapsed | PO_ProtocolPaused | PO_NotFeeder
  | PO_PegDeviationExceeded | PO_PegAlreadyConfigured | PO_PegNotConfigured | PO_PriceHistoryNotAvailable
  | PO_AllFeedsStale | PO_FallbackNotConfigured | PO_RateChangeExceeded | PO_InsufficientFreshFeeders

type_synonym 'a po_result = "(PriceOracleError, 'a) result"

definition MAX_STALENESS_SECS :: u64 where "MAX_STALENESS_SECS = 3600"
definition PO_UPGRADE_TIMELOCK_DELAY :: u64 where "PO_UPGRADE_TIMELOCK_DELAY = 86400"
definition PRICE_HISTORY_CAP :: u32 where "PRICE_HISTORY_CAP = 32"
definition MAX_FEEDERS :: u32 where "MAX_FEEDERS = 20"
definition MIN_FRESH_FEEDERS_DEFAULT :: u32 where "MIN_FRESH_FEEDERS_DEFAULT = 2"

record PriceData =
  pd_price :: i128
  pd_timestamp :: u64

record PegConfig =
  pg_base :: symbol
  pg_quote :: symbol
  pg_expected_ratio :: i128
  pg_tolerance_bps :: u32
  pg_auto_flag :: bool

record PriceHistoryRing =
  ph_slots :: "PriceData list"
  ph_next :: u32

type_synonym feed = "address \<Rightarrow> symbol \<Rightarrow> symbol \<Rightarrow> PriceData option"

record po_state =
  po_admin :: "address option"
  po_access :: "address option"
  po_upgrade :: "(bytes \<times> u64) option"
  po_feeder :: "address \<Rightarrow> bool option"
  po_feeder_price :: "symbol \<Rightarrow> symbol \<Rightarrow> address \<Rightarrow> PriceData option"
  po_price_feeders :: "symbol \<Rightarrow> symbol \<Rightarrow> address list option"
  po_history :: "symbol \<Rightarrow> symbol \<Rightarrow> PriceHistoryRing option"
  po_base_currency :: "symbol option"
  po_max_deviation :: "u32 option"
  po_max_rate_change :: "symbol \<Rightarrow> symbol \<Rightarrow> u32 option"
  po_peg :: "symbol \<Rightarrow> symbol \<Rightarrow> PegConfig option"
  po_peg_flagged :: "symbol \<Rightarrow> symbol \<Rightarrow> bool option"
  po_max_staleness :: "symbol \<Rightarrow> symbol \<Rightarrow> u64 option"
  po_fallback :: "symbol \<Rightarrow> symbol \<Rightarrow> address option"
  po_min_fresh :: "u32 option"

definition po_empty :: po_state where
  "po_empty = \<lparr>po_admin = None, po_access = None, po_upgrade = None, po_feeder = (\<lambda>_. None),
     po_feeder_price = (\<lambda>_ _ _. None), po_price_feeders = (\<lambda>_ _. None), po_history = (\<lambda>_ _. None),
     po_base_currency = None, po_max_deviation = None, po_max_rate_change = (\<lambda>_ _. None), po_peg = (\<lambda>_ _. None),
     po_peg_flagged = (\<lambda>_ _. None), po_max_staleness = (\<lambda>_ _. None), po_fallback = (\<lambda>_ _. None), po_min_fresh = None\<rparr>"

section \<open>Helpers\<close>

definition po_require_admin :: "po_state \<Rightarrow> address \<Rightarrow> unit po_result" where
  "po_require_admin s caller =
     rbind (ok_or (po_admin s) (Err PO_NotInitialized)) (\<lambda>admin.
     if admin \<noteq> caller then Inl (Err PO_NotAdmin) else Inr ())"

definition po_as_admin :: "env \<Rightarrow> po_state \<Rightarrow> address \<Rightarrow> unit po_result" where
  "po_as_admin e s admin = rbind (require_auth e admin) (\<lambda>_. po_require_admin s admin)"

definition require_feeder :: "po_state \<Rightarrow> address \<Rightarrow> unit po_result" where
  "require_feeder s caller =
     (let is_feeder = (case po_feeder s caller of None \<Rightarrow> False | Some b \<Rightarrow> b) in
      if \<not> is_feeder then Inl (Err PO_NotFeeder) else Inr ())"

text \<open>The call is \<open>try_invoke_contract\<close>: a failing access control counts as not paused.\<close>

definition po_require_not_paused :: "env \<Rightarrow> po_state \<Rightarrow> unit po_result" where
  "po_require_not_paused e s =
     rbind (ok_or (po_access s) (Err PO_NotInitialized)) (\<lambda>ac.
     if view_is_paused e ac then Inl (Err PO_ProtocolPaused) else Inr ())"

definition i128_abs :: "i128 \<Rightarrow> i128 option" where "i128_abs x = i128_fit \<bar>x\<bar>"

text \<open>\<open>(a - b).abs()\<close> with the overflow checks of the bare operators.\<close>

definition distance :: "i128 \<Rightarrow> i128 \<Rightarrow> i128 po_result" where
  "distance a b = rbind (ok_or (i128_sub a b) Trap) (\<lambda>d. ok_or (i128_abs d) Trap)"

text \<open>\<open>checked_mul\<close> and then \<open>checked_div\<close>, an overflow being \<open>ArithmeticOverflow\<close>.\<close>

definition mul_div :: "i128 \<Rightarrow> i128 \<Rightarrow> i128 \<Rightarrow> i128 po_result" where
  "mul_div a b c = ok_or (Option.bind (i128_mul a b) (\<lambda>v. i128_div v c)) (Err PO_ArithmeticOverflow)"

definition compute_reciprocal :: "i128 \<Rightarrow> i128 po_result" where
  "compute_reciprocal price =
     (if price \<le> 0 then Inl (Err PO_InvalidAmount)
      else ok_or (i128_div 100000000000000 price) (Err PO_ArithmeticOverflow))"

definition validate_reciprocal_tolerance :: "i128 \<Rightarrow> i128 \<Rightarrow> i128 \<Rightarrow> unit po_result" where
  "validate_reciprocal_tolerance expected actual tolerance_bps =
     rbind (distance expected actual) (\<lambda>diff.
     rbind (mul_div expected tolerance_bps 10000) (\<lambda>max_diff.
     if diff > max_diff then Inl (Err PO_InvalidAmount) else Inr ()))"

fun compute_10_pow :: "u32 \<Rightarrow> i128 po_result" where
  "compute_10_pow ex = (if ex \<le> 10 then Inr (10 ^ ex) else Inl (Err PO_ArithmeticOverflow))"

definition get_effective_staleness :: "po_state \<Rightarrow> symbol \<Rightarrow> symbol \<Rightarrow> u64" where
  "get_effective_staleness s base quote =
     (case po_max_staleness s base quote of None \<Rightarrow> MAX_STALENESS_SECS | Some n \<Rightarrow> n)"

definition min_fresh_feeders_floor :: "po_state \<Rightarrow> u32" where
  "min_fresh_feeders_floor s = (case po_min_fresh s of None \<Rightarrow> MIN_FRESH_FEEDERS_DEFAULT | Some n \<Rightarrow> n)"

section \<open>The median\<close>

text \<open>The two nested loops: at round \<open>i\<close> every later element smaller than the one at \<open>i\<close> is swapped
  with it.\<close>

definition swap_if_less :: "nat \<Rightarrow> nat \<Rightarrow> i128 list \<Rightarrow> i128 list" where
  "swap_if_less i j xs = (if xs ! j < xs ! i then xs[j := xs ! i, i := xs ! j] else xs)"

definition sort_round :: "nat \<Rightarrow> i128 list \<Rightarrow> i128 list" where
  "sort_round i xs = fold (swap_if_less i) [i..<length xs] xs"

definition exchange_sort :: "i128 list \<Rightarrow> i128 list" where
  "exchange_sort xs = fold sort_round [0..<length xs] xs"

definition calculate_median :: "i128 list \<Rightarrow> i128 po_result" where
  "calculate_median prices =
     (let n = length prices; sorted = exchange_sort prices in
      if n = 0 then Inr 0
      else if n mod 2 = 1 then Inr (sorted ! (n div 2))
      else rbind (ok_or (i128_add (sorted ! (n div 2 - 1)) (sorted ! (n div 2))) Trap) (\<lambda>t.
           ok_or (i128_div t 2) Trap))"

section \<open>Reading a price\<close>

text \<open>The loop over the feeders of a pair: the prices young enough and the oldest of their times.\<close>

fun fresh_prices :: "u64 \<Rightarrow> u64 \<Rightarrow> (address \<Rightarrow> PriceData option) \<Rightarrow> address list \<Rightarrow> i128 list \<Rightarrow> u64 \<Rightarrow> i128 list \<times> u64" where
  "fresh_prices now max_age prices [] acc min_ts = (acc, min_ts)"
| "fresh_prices now max_age prices (f # fs) acc min_ts =
     (case prices f of
        None \<Rightarrow> fresh_prices now max_age prices fs acc min_ts
      | Some d \<Rightarrow>
          if u64_sat_sub now (pd_timestamp d) > max_age then fresh_prices now max_age prices fs acc min_ts
          else fresh_prices now max_age prices fs (acc @ [pd_price d])
                 (if pd_timestamp d < min_ts then pd_timestamp d else min_ts))"

definition feeders_of :: "po_state \<Rightarrow> symbol \<Rightarrow> symbol \<Rightarrow> address list" where
  "feeders_of s base quote = (case po_price_feeders s base quote of None \<Rightarrow> [] | Some fs \<Rightarrow> fs)"

definition get_price :: "env \<Rightarrow> feed \<Rightarrow> po_state \<Rightarrow> symbol \<Rightarrow> symbol \<Rightarrow> PriceData po_result" where
  "get_price e fb s base quote =
     (let (prices, min_ts) = fresh_prices (timestamp e) (get_effective_staleness s base quote)
            (po_feeder_price s base quote) (feeders_of s base quote) [] u64_max in
      if prices = [] then
        case po_fallback s base quote of
          None \<Rightarrow> Inl (Err PO_AllFeedsStale)
        | Some a \<Rightarrow> (case fb a base quote of Some d \<Rightarrow> Inr d | None \<Rightarrow> Inl (Err PO_AllFeedsStale))
      else if length prices < min_fresh_feeders_floor s then Inl (Err PO_InsufficientFreshFeeders)
      else rbind (calculate_median prices) (\<lambda>median. Inr \<lparr>pd_price = median, pd_timestamp = min_ts\<rparr>))"

text \<open>\<open>if let Ok(x) = self call\<close>: an error is skipped, a trap is not.\<close>

definition attempt :: "('e, 'a) result \<Rightarrow> ('d, 'a option) result" where
  "attempt m = (case m of Inl Trap \<Rightarrow> Inl Trap | Inl (Err _) \<Rightarrow> Inr None | Inr x \<Rightarrow> Inr (Some x))"

section \<open>Price history\<close>

definition vec_set :: "'a list \<Rightarrow> nat \<Rightarrow> 'a \<Rightarrow> ('e, 'a list) result" where
  "vec_set xs i x = (if i < length xs then Inr (xs[i := x]) else Inl Trap)"

definition ring_push :: "PriceHistoryRing \<Rightarrow> PriceData \<Rightarrow> ('e, PriceHistoryRing) result" where
  "ring_push ring snapshot =
     (let n = length (ph_slots ring);
          newest = (ph_next ring + PRICE_HISTORY_CAP - 1) mod PRICE_HISTORY_CAP in
      if n > 0 \<and> newest < n \<and> pd_timestamp (ph_slots ring ! newest) = pd_timestamp snapshot
      then Inr (ring\<lparr>ph_slots := (ph_slots ring)[newest := snapshot]\<rparr>)
      else
        rbind (if n < PRICE_HISTORY_CAP then Inr (ph_slots ring @ [snapshot])
               else vec_set (ph_slots ring) (ph_next ring) snapshot) (\<lambda>slots.
        Inr (ring\<lparr>ph_slots := slots, ph_next := (ph_next ring + 1) mod PRICE_HISTORY_CAP\<rparr>)))"

definition record_price_snapshot :: "env \<Rightarrow> po_state \<Rightarrow> symbol \<Rightarrow> symbol \<Rightarrow> i128 \<Rightarrow> po_state po_result" where
  "record_price_snapshot e s base quote price =
     (let ring = (case po_history s base quote of None \<Rightarrow> \<lparr>ph_slots = [], ph_next = 0\<rparr> | Some r \<Rightarrow> r) in
      rbind (ring_push ring \<lparr>pd_price = price, pd_timestamp = timestamp e\<rparr>) (\<lambda>ring.
      Inr (s\<lparr>po_history := (po_history s)(base := (po_history s base)(quote \<mapsto> ring))\<rparr>)))"

fun latest_until :: "u64 \<Rightarrow> PriceData list \<Rightarrow> PriceData option \<Rightarrow> PriceData option" where
  "latest_until t [] best = best"
| "latest_until t (d # ds) best =
     (if pd_timestamp d > t then latest_until t ds best
      else latest_until t ds
             (case best of
                None \<Rightarrow> Some d
              | Some current \<Rightarrow> if pd_timestamp d \<ge> pd_timestamp current then Some d else best))"

definition get_price_at :: "po_state \<Rightarrow> symbol \<Rightarrow> symbol \<Rightarrow> u64 \<Rightarrow> PriceData po_result" where
  "get_price_at s base quote t =
     rbind (ok_or (po_history s base quote) (Err PO_PriceHistoryNotAvailable)) (\<lambda>ring.
     ok_or (latest_until t (ph_slots ring) None) (Err PO_PriceHistoryNotAvailable))"

section \<open>Submitting a price\<close>

definition check_reciprocal ::
  "env \<Rightarrow> feed \<Rightarrow> po_state \<Rightarrow> symbol \<Rightarrow> symbol \<Rightarrow> i128 \<Rightarrow> unit po_result" where
  "check_reciprocal e fb s base quote price =
     rbind (attempt (get_price e fb s quote base)) (\<lambda>reverse.
     case reverse of
       None \<Rightarrow> Inr ()
     | Some d \<Rightarrow> rbind (compute_reciprocal price) (\<lambda>expected.
                 validate_reciprocal_tolerance expected (pd_price d) 100))"

definition check_rate_change :: "po_state \<Rightarrow> address \<Rightarrow> symbol \<Rightarrow> symbol \<Rightarrow> i128 \<Rightarrow> unit po_result" where
  "check_rate_change s feeder base quote price =
     (case po_max_rate_change s base quote of
        None \<Rightarrow> Inr ()
      | Some max_change_bps \<Rightarrow>
          (case po_feeder_price s base quote feeder of
             None \<Rightarrow> Inr ()
           | Some prev \<Rightarrow>
               rbind (distance price (pd_price prev)) (\<lambda>diff.
               rbind (mul_div diff 10000 (pd_price prev)) (\<lambda>change_bps.
               let change_bps = (if 0 \<le> change_bps \<and> change_bps \<le> int u32_max then nat change_bps else u32_max) in
               if change_bps > max_change_bps then Inl (Err PO_RateChangeExceeded) else Inr ()))))"

text \<open>The peg: \<open>Some\<close> of the flagged state when the submission trips an automatic flag.\<close>

definition check_peg :: "po_state \<Rightarrow> symbol \<Rightarrow> symbol \<Rightarrow> i128 \<Rightarrow> po_state option po_result" where
  "check_peg s base quote price =
     (case po_peg s base quote of
        None \<Rightarrow> Inr None
      | Some cfg \<Rightarrow>
          if (case po_peg_flagged s base quote of None \<Rightarrow> False | Some b \<Rightarrow> b) then Inl (Err PO_PegDeviationExceeded)
          else
            rbind (mul_div (pg_expected_ratio cfg) (int (pg_tolerance_bps cfg)) 10000) (\<lambda>max_diff.
            rbind (distance price (pg_expected_ratio cfg)) (\<lambda>deviation.
            if deviation > max_diff then
              if pg_auto_flag cfg
              then Inr (Some (s\<lparr>po_peg_flagged := (po_peg_flagged s)(base := (po_peg_flagged s base)(quote \<mapsto> True))\<rparr>))
              else Inl (Err PO_PegDeviationExceeded)
            else Inr None)))"

definition put_price :: "env \<Rightarrow> po_state \<Rightarrow> address \<Rightarrow> symbol \<Rightarrow> symbol \<Rightarrow> i128 \<Rightarrow> po_state" where
  "put_price e s feeder base quote price =
     (let d = \<lparr>pd_price = price, pd_timestamp = timestamp e\<rparr>;
          s = s\<lparr>po_feeder_price := (po_feeder_price s)(base := (po_feeder_price s base)
                  (quote := (po_feeder_price s base quote)(feeder \<mapsto> d)))\<rparr>;
          feeders = feeders_of s base quote in
      if feeder \<in> set feeders then s
      else s\<lparr>po_price_feeders := (po_price_feeders s)(base := (po_price_feeders s base)(quote \<mapsto> feeders @ [feeder]))\<rparr>)"

definition set_price ::
  "env \<Rightarrow> feed \<Rightarrow> po_state \<Rightarrow> address \<Rightarrow> symbol \<Rightarrow> symbol \<Rightarrow> i128 \<Rightarrow> po_state po_result" where
  "set_price e fb s feeder base quote price =
     rbind (require_auth e feeder) (\<lambda>_.
     rbind (require_feeder s feeder) (\<lambda>_.
     rbind (po_require_not_paused e s) (\<lambda>_.
     if price \<le> 0 then Inl (Err PO_InvalidAmount)
     else
       rbind (check_reciprocal e fb s base quote price) (\<lambda>_.
       rbind (check_rate_change s feeder base quote price) (\<lambda>_.
       rbind (check_peg s base quote price) (\<lambda>tripped.
       case tripped of
         Some flagged \<Rightarrow> Inr flagged
       | None \<Rightarrow>
           let s = put_price e s feeder base quote price in
           rbind (attempt (get_price e fb s base quote)) (\<lambda>aggregate.
           case aggregate of
             None \<Rightarrow> Inr s
           | Some d \<Rightarrow> record_price_snapshot e s base quote (pd_price d))))))))"

section \<open>Conversion\<close>

definition convert :: "env \<Rightarrow> feed \<Rightarrow> po_state \<Rightarrow> i128 \<Rightarrow> symbol \<Rightarrow> symbol \<Rightarrow> i128 po_result" where
  "convert e fb s amount src dst =
     (if src = dst then Inr amount
      else
        rbind (get_price e fb s src dst) (\<lambda>d.
        rbind (mul_div amount (pd_price d) 10000000) (\<lambda>converted.
        if converted \<le> 0 then Inl (Err PO_InvalidAmount) else Inr converted)))"

definition convert_with_decimals ::
  "env \<Rightarrow> feed \<Rightarrow> po_state \<Rightarrow> i128 \<Rightarrow> symbol \<Rightarrow> symbol \<Rightarrow> u32 \<Rightarrow> u32 \<Rightarrow> i128 po_result" where
  "convert_with_decimals e fb s amount src dst src_decimals dst_decimals =
     (if src = dst then Inr amount
      else
        rbind (get_price e fb s src dst) (\<lambda>d.
        rbind (mul_div amount (pd_price d) 10000000) (\<lambda>converted.
        if converted \<le> 0 then Inl (Err PO_InvalidAmount)
        else
          rbind (if src_decimals \<ge> dst_decimals
                 then rbind (compute_10_pow (src_decimals - dst_decimals)) (\<lambda>divisor.
                      ok_or (i128_div converted divisor) (Err PO_ArithmeticOverflow))
                 else rbind (compute_10_pow (dst_decimals - src_decimals)) (\<lambda>multiplier.
                      ok_or (i128_mul converted multiplier) (Err PO_ArithmeticOverflow))) (\<lambda>rescaled.
          if rescaled \<le> 0 then Inl (Err PO_InvalidAmount) else Inr rescaled))))"

section \<open>Administration\<close>

definition po_initialize :: "po_state \<Rightarrow> address \<Rightarrow> address \<Rightarrow> po_state po_result" where
  "po_initialize s admin access_control =
     (if po_admin s \<noteq> None then Inl (Err PO_AlreadyInitialized)
      else Inr (s\<lparr>po_admin := Some admin, po_access := Some access_control\<rparr>))"

definition po_set_access_control :: "env \<Rightarrow> po_state \<Rightarrow> address \<Rightarrow> address \<Rightarrow> po_state po_result" where
  "po_set_access_control e s admin access_control =
     rbind (po_as_admin e s admin) (\<lambda>_. Inr (s\<lparr>po_access := Some access_control\<rparr>))"

definition add_feeder :: "env \<Rightarrow> po_state \<Rightarrow> address \<Rightarrow> address \<Rightarrow> po_state po_result" where
  "add_feeder e s admin feeder =
     rbind (po_as_admin e s admin) (\<lambda>_. Inr (s\<lparr>po_feeder := (po_feeder s)(feeder \<mapsto> True)\<rparr>))"

definition remove_feeder :: "env \<Rightarrow> po_state \<Rightarrow> address \<Rightarrow> address \<Rightarrow> po_state po_result" where
  "remove_feeder e s admin feeder =
     rbind (po_as_admin e s admin) (\<lambda>_. Inr (s\<lparr>po_feeder := (po_feeder s)(feeder := None)\<rparr>))"

definition set_base_currency :: "env \<Rightarrow> po_state \<Rightarrow> address \<Rightarrow> symbol \<Rightarrow> po_state po_result" where
  "set_base_currency e s admin base =
     rbind (po_as_admin e s admin) (\<lambda>_. Inr (s\<lparr>po_base_currency := Some base\<rparr>))"

definition set_max_deviation :: "env \<Rightarrow> po_state \<Rightarrow> address \<Rightarrow> u32 \<Rightarrow> po_state po_result" where
  "set_max_deviation e s admin deviation_bps =
     rbind (po_as_admin e s admin) (\<lambda>_. Inr (s\<lparr>po_max_deviation := Some deviation_bps\<rparr>))"

definition set_max_rate_change_per_update ::
  "env \<Rightarrow> po_state \<Rightarrow> address \<Rightarrow> symbol \<Rightarrow> symbol \<Rightarrow> u32 \<Rightarrow> po_state po_result" where
  "set_max_rate_change_per_update e s admin base quote max_change_bps =
     rbind (po_as_admin e s admin) (\<lambda>_.
     if max_change_bps > 10000 then Inl (Err PO_InvalidAmount)
     else Inr (s\<lparr>po_max_rate_change := (po_max_rate_change s)
                  (base := (po_max_rate_change s base)(quote \<mapsto> max_change_bps))\<rparr>))"

definition set_peg_config ::
  "env \<Rightarrow> po_state \<Rightarrow> address \<Rightarrow> symbol \<Rightarrow> symbol \<Rightarrow> i128 \<Rightarrow> u32 \<Rightarrow> bool \<Rightarrow> po_state po_result" where
  "set_peg_config e s admin base quote expected_ratio tolerance_bps auto_flag =
     rbind (po_as_admin e s admin) (\<lambda>_.
     if expected_ratio \<le> 0 then Inl (Err PO_InvalidAmount)
     else if tolerance_bps > 10000 then Inl (Err PO_InvalidAmount)
     else
       let cfg = \<lparr>pg_base = base, pg_quote = quote, pg_expected_ratio = expected_ratio,
                  pg_tolerance_bps = tolerance_bps, pg_auto_flag = auto_flag\<rparr> in
       Inr (s\<lparr>po_peg := (po_peg s)(base := (po_peg s base)(quote \<mapsto> cfg))\<rparr>))"

definition drop_flag :: "symbol \<Rightarrow> symbol \<Rightarrow> po_state \<Rightarrow> po_state" where
  "drop_flag base quote s = s\<lparr>po_peg_flagged := (po_peg_flagged s)(base := (po_peg_flagged s base)(quote := None))\<rparr>"

definition remove_peg_config :: "env \<Rightarrow> po_state \<Rightarrow> address \<Rightarrow> symbol \<Rightarrow> symbol \<Rightarrow> po_state po_result" where
  "remove_peg_config e s admin base quote =
     rbind (po_as_admin e s admin) (\<lambda>_.
     if po_peg s base quote = None then Inl (Err PO_PegNotConfigured)
     else Inr (drop_flag base quote (s\<lparr>po_peg := (po_peg s)(base := (po_peg s base)(quote := None))\<rparr>)))"

definition clear_peg_flag :: "env \<Rightarrow> po_state \<Rightarrow> address \<Rightarrow> symbol \<Rightarrow> symbol \<Rightarrow> po_state po_result" where
  "clear_peg_flag e s admin base quote = rbind (po_as_admin e s admin) (\<lambda>_. Inr (drop_flag base quote s))"

definition is_peg_flagged :: "po_state \<Rightarrow> symbol \<Rightarrow> symbol \<Rightarrow> bool" where
  "is_peg_flagged s base quote = (case po_peg_flagged s base quote of None \<Rightarrow> False | Some b \<Rightarrow> b)"

definition set_max_staleness :: "env \<Rightarrow> po_state \<Rightarrow> address \<Rightarrow> symbol \<Rightarrow> symbol \<Rightarrow> u64 \<Rightarrow> po_state po_result" where
  "set_max_staleness e s admin base quote secs =
     rbind (po_as_admin e s admin) (\<lambda>_.
     if secs = 0 then Inl (Err PO_InvalidAmount)
     else Inr (s\<lparr>po_max_staleness := (po_max_staleness s)(base := (po_max_staleness s base)(quote \<mapsto> secs))\<rparr>))"

definition set_min_fresh_feeders :: "env \<Rightarrow> po_state \<Rightarrow> address \<Rightarrow> u32 \<Rightarrow> po_state po_result" where
  "set_min_fresh_feeders e s admin m =
     rbind (po_as_admin e s admin) (\<lambda>_.
     if m < 1 \<or> m > MAX_FEEDERS then Inl (Err PO_InvalidAmount) else Inr (s\<lparr>po_min_fresh := Some m\<rparr>))"

definition set_fallback_feed :: "env \<Rightarrow> po_state \<Rightarrow> address \<Rightarrow> symbol \<Rightarrow> symbol \<Rightarrow> address \<Rightarrow> po_state po_result" where
  "set_fallback_feed e s admin base quote a =
     rbind (po_as_admin e s admin) (\<lambda>_.
     Inr (s\<lparr>po_fallback := (po_fallback s)(base := (po_fallback s base)(quote \<mapsto> a))\<rparr>))"

definition remove_fallback_feed :: "env \<Rightarrow> po_state \<Rightarrow> address \<Rightarrow> symbol \<Rightarrow> symbol \<Rightarrow> po_state po_result" where
  "remove_fallback_feed e s admin base quote =
     rbind (po_as_admin e s admin) (\<lambda>_.
     Inr (s\<lparr>po_fallback := (po_fallback s)(base := (po_fallback s base)(quote := None))\<rparr>))"

definition po_transfer_admin :: "env \<Rightarrow> po_state \<Rightarrow> address \<Rightarrow> address \<Rightarrow> po_state po_result" where
  "po_transfer_admin e s admin new_admin =
     rbind (po_as_admin e s admin) (\<lambda>_. Inr (s\<lparr>po_admin := Some new_admin\<rparr>))"

definition po_propose_upgrade :: "env \<Rightarrow> po_state \<Rightarrow> address \<Rightarrow> bytes \<Rightarrow> po_state po_result" where
  "po_propose_upgrade e s admin h =
     rbind (po_as_admin e s admin) (\<lambda>_. Inr (s\<lparr>po_upgrade := Some (h, timestamp e)\<rparr>))"

definition po_execute_upgrade :: "env \<Rightarrow> po_state \<Rightarrow> address \<Rightarrow> (po_state \<times> bytes) po_result" where
  "po_execute_upgrade e s admin =
     rbind (po_as_admin e s admin) (\<lambda>_.
     rbind (ok_or (po_upgrade s) (Err PO_NoUpgradeProposed)) (\<lambda>(h, proposed_at).
     rbind (ok_or (u64_add proposed_at PO_UPGRADE_TIMELOCK_DELAY) Trap) (\<lambda>ready.
     if timestamp e < ready then Inl (Err PO_UpgradeTimelockNotElapsed)
     else Inr (s\<lparr>po_upgrade := None\<rparr>, h))))"

end
