(* ===== verification/Oracle_Median.thy ===== *)
theory Oracle_Median
  imports Price_Oracle "HOL-Library.Multiset"
begin

text \<open>
  The median of the oracle: its two nested loops sort, and the median stays between two bounds as
  soon as more than half of the prices do.
\<close>

section \<open>The exchange sort\<close>

lemma swap_if_less_simps [simp]: "length (swap_if_less i j xs) = length xs"
  by (simp add: swap_if_less_def)

lemma swap_if_less_mset: "i < length xs \<Longrightarrow> j < length xs \<Longrightarrow> mset (swap_if_less i j xs) = mset xs"
  by (simp add: swap_if_less_def mset_swap)

text \<open>After the inner loop up to \<open>k\<close> the element at \<open>i\<close> is the least of those at \<open>i..<k\<close>; what stands
  from \<open>i\<close> on stood there before.\<close>

definition round_inv :: "nat \<Rightarrow> nat \<Rightarrow> i128 list \<Rightarrow> i128 list \<Rightarrow> bool" where
  "round_inv i k xs ys \<longleftrightarrow>
     length ys = length xs \<and> mset ys = mset xs \<and> (\<forall>m<i. ys ! m = xs ! m) \<and>
     (\<forall>m. i \<le> m \<and> m < k \<longrightarrow> ys ! i \<le> ys ! m) \<and>
     (\<forall>m. i \<le> m \<and> m < length xs \<longrightarrow> (\<exists>m'. i \<le> m' \<and> m' < length xs \<and> ys ! m = xs ! m'))"

lemma round_inv_step:
  assumes "round_inv i k xs ys" "i \<le> k" "k < length xs"
  shows "round_inv i (Suc k) xs (swap_if_less i k ys)"
proof -
  let ?zs = "swap_if_less i k ys"
  have len: "length ys = length xs" and ms: "mset ys = mset xs" using assms(1) by (auto simp: round_inv_def)
  have nth: "?zs ! m = (if ys ! k < ys ! i then (if m = i then ys ! k else if m = k then ys ! i else ys ! m) else ys ! m)"
    if "m < length xs" for m
    using that assms(2,3) len by (auto simp: swap_if_less_def nth_list_update)
  have "?zs ! i \<le> ?zs ! m" if "i \<le> m" "m < Suc k" for m
  proof -
    have "ys ! i \<le> ys ! m" if "m < k" using assms(1) \<open>i \<le> m\<close> that by (auto simp: round_inv_def)
    with that assms(2,3) show ?thesis by (cases "m < k") (auto simp: nth less_Suc_eq)
  qed
  moreover have "\<exists>m'. i \<le> m' \<and> m' < length xs \<and> ?zs ! m = xs ! m'" if "i \<le> m" "m < length xs" for m
  proof -
    have "\<exists>l. i \<le> l \<and> l < length xs \<and> ?zs ! m = ys ! l" using nth[OF that(2)] that assms(2,3) by auto
    with assms(1) show ?thesis by (auto simp: round_inv_def)
  qed
  moreover have "?zs ! m = xs ! m" if "m < i" for m
    using that nth[of m] assms by (auto simp: round_inv_def)
  ultimately show ?thesis
    using len ms assms(2,3) by (simp add: round_inv_def swap_if_less_mset)
qed

lemma round_inv_loop: "i \<le> k \<Longrightarrow> k \<le> length xs \<Longrightarrow> round_inv i k xs (fold (swap_if_less i) [i..<k] xs)"
proof (induction k)
  case 0
  then show ?case by (auto simp: round_inv_def)
next
  case (Suc k)
  show ?case
  proof (cases "i \<le> k")
    case True
    with Suc round_inv_step[of i k xs "fold (swap_if_less i) [i..<k] xs"] show ?thesis by simp
  next
    case False
    with Suc.prems have "i = Suc k" by simp
    then show ?thesis by (auto simp: round_inv_def)
  qed
qed

lemma exchange_rounds:
  assumes "k \<le> length xs" "zs = fold sort_round [0..<k] xs"
  shows "length zs = length xs \<and> mset zs = mset xs \<and> (\<forall>a b. a < k \<and> a \<le> b \<and> b < length xs \<longrightarrow> zs ! a \<le> zs ! b)"
  using assms
proof (induction k arbitrary: zs)
  case (Suc k)
  let ?ys = "fold sort_round [0..<k] xs"
  from Suc.IH[of ?ys] Suc.prems(1) have ys: "length ?ys = length xs" "mset ?ys = mset xs"
    "\<And>a b. a < k \<Longrightarrow> a \<le> b \<Longrightarrow> b < length xs \<Longrightarrow> ?ys ! a \<le> ?ys ! b" by auto
  have zs: "zs = sort_round k ?ys" using Suc.prems(2) by simp
  have "k \<le> length ?ys" using Suc.prems(1) ys(1) by simp
  then have inv: "round_inv k (length ?ys) ?ys zs"
    unfolding zs sort_round_def by (rule round_inv_loop) simp
  have "zs ! a \<le> zs ! b" if ab: "a < Suc k" "a \<le> b" "b < length xs" for a b
  proof (cases "a = k")
    case True
    with inv ab ys(1) show ?thesis by (auto simp: round_inv_def)
  next
    case False
    with ab(1) have "a < k" by simp
    have "zs ! a = ?ys ! a" using inv \<open>a < k\<close> by (auto simp: round_inv_def)
    moreover have "\<exists>b'. a \<le> b' \<and> b' < length xs \<and> zs ! b = ?ys ! b'"
    proof (cases "b < k")
      case True
      with inv ab show ?thesis by (auto simp: round_inv_def)
    next
      case False
      then have "\<exists>b'. k \<le> b' \<and> b' < length ?ys \<and> zs ! b = ?ys ! b'"
        using inv ab(3) ys(1) unfolding round_inv_def by (metis leI)
      with \<open>a < k\<close> ys(1) show ?thesis by (metis less_imp_le_nat order_trans)
    qed
    ultimately show ?thesis using ys(3)[OF \<open>a < k\<close>] by auto
  qed
  with inv ys show ?case by (simp add: round_inv_def)
qed simp

lemma exchange_sort_sorts: "exchange_sort xs = sort xs"
proof -
  have *: "length (exchange_sort xs) = length xs" "mset (exchange_sort xs) = mset xs"
    "\<And>a b. a < length xs \<Longrightarrow> a \<le> b \<Longrightarrow> b < length xs \<Longrightarrow> exchange_sort xs ! a \<le> exchange_sort xs ! b"
    using exchange_rounds[of "length xs" xs "exchange_sort xs"] by (auto simp: exchange_sort_def)
  then have "sorted (exchange_sort xs)" by (auto simp: sorted_iff_nth_mono)
  with *(2) show ?thesis by (metis properties_for_sort)
qed

section \<open>Majorities\<close>

definition within :: "i128 \<Rightarrow> i128 \<Rightarrow> i128 \<Rightarrow> bool" where
  "within lo hi x \<longleftrightarrow> lo \<le> x \<and> x \<le> hi"

text \<open>An element outside the bounds has everything on its side outside with it.\<close>

lemma outside_count:
  assumes "sorted zs" "m < length zs" "\<not> within lo hi (zs ! m)"
  shows "Suc m \<le> length (filter (\<lambda>x. \<not> within lo hi x) zs) \<or> length zs - m \<le> length (filter (\<lambda>x. \<not> within lo hi x) zs)"
proof -
  let ?I = "{i. i < length zs \<and> \<not> within lo hi (zs ! i)}"
  have fin: "finite ?I" by simp
  from assms(3) consider "zs ! m < lo" | "hi < zs ! m" by (auto simp: within_def not_le)
  then show ?thesis
  proof cases
    case 1
    have "zs ! i < lo" if "i \<le> m" for i
      using sorted_nth_mono[OF assms(1) that assms(2)] 1 by simp
    then have "{..m} \<subseteq> ?I" using assms(2) by (force simp: within_def)
    from card_mono[OF fin this] show ?thesis by (simp add: length_filter_conv_card)
  next
    case 2
    have "hi < zs ! i" if "m \<le> i" "i < length zs" for i
      using sorted_nth_mono[OF assms(1) that] 2 by simp
    then have "{m..<length zs} \<subseteq> ?I" by (force simp: within_def)
    from card_mono[OF fin this] show ?thesis by (simp add: length_filter_conv_card)
  qed
qed

lemma middle_within:
  assumes "sorted zs" "length zs < 2 * length (filter (within lo hi) zs)"
  shows "within lo hi (zs ! (length zs div 2))"
    and "even (length zs) \<Longrightarrow> within lo hi (zs ! (length zs div 2 - 1))"
proof -
  let ?n = "length zs"
  have "length (filter (within lo hi) zs) + length (filter (\<lambda>x. \<not> within lo hi x) zs) = ?n"
    by (rule sum_length_filter_compl)
  with assms(2) have out: "2 * length (filter (\<lambda>x. \<not> within lo hi x) zs) < ?n" by linarith
  then have "0 < ?n" by linarith
  then have pos: "?n div 2 < ?n" by simp
  show "within lo hi (zs ! (?n div 2))"
    using outside_count[OF assms(1) pos, of lo hi] out by linarith
  assume even: "even ?n"
  define h where "h = ?n div 2"
  define k where "k = length (filter (\<lambda>x. \<not> within lo hi x) zs)"
  have n: "?n = 2 * h" using even by (simp add: h_def)
  have bounds: "0 < h" "k < h" "h - 1 < ?n" using \<open>0 < ?n\<close> out n unfolding k_def[symmetric] by linarith+
  from outside_count[OF assms(1) bounds(3), of lo hi] show "within lo hi (zs ! (?n div 2 - 1))"
    unfolding h_def[symmetric] k_def[symmetric] using bounds n by linarith
qed

lemma sdiv_2_within:
  fixes a b :: int
  assumes "within lo hi a" "within lo hi b" shows "within lo hi ((a + b) sdiv 2)"
proof -
  have ab: "2 * lo \<le> a + b" "a + b \<le> 2 * hi" using assms by (auto simp: within_def)
  show ?thesis
  proof (cases "0 \<le> a + b")
    case True
    then have "(a + b) sdiv 2 = (a + b) div 2" by (auto simp: signed_divide_int_def sgn_if)
    moreover have "lo \<le> (a + b) div 2" "(a + b) div 2 \<le> hi" using ab by linarith+
    ultimately show ?thesis by (simp add: within_def)
  next
    case False
    then have "(a + b) sdiv 2 = - (- (a + b) div 2)" by (simp add: signed_divide_int_def sgn_if)
    moreover have "lo \<le> - (- (a + b) div 2)" "- (- (a + b) div 2) \<le> hi" using ab by linarith+
    ultimately show ?thesis by (simp add: within_def)
  qed
qed

lemma calculate_median_within:
  assumes "calculate_median ps = Inr m" "length ps < 2 * length (filter (within lo hi) ps)"
  shows "within lo hi m"
proof -
  have "mset (filter (within lo hi) (sort ps)) = mset (filter (within lo hi) ps)" by simp
  then have "length (filter (within lo hi) (sort ps)) = length (filter (within lo hi) ps)" by (metis size_mset)
  with assms(2) have maj: "length (sort ps) < 2 * length (filter (within lo hi) (sort ps))" by simp
  note mid = middle_within[OF sorted_sort maj]
  have "ps \<noteq> []" using assms(2) by auto
  show ?thesis
  proof (cases "odd (length ps)")
    case True
    then have "calculate_median ps = Inr (sort ps ! (length ps div 2))"
      using \<open>ps \<noteq> []\<close> by (simp add: calculate_median_def Let_def exchange_sort_sorts odd_iff_mod_2_eq_one)
    with assms(1) mid(1) show ?thesis by simp
  next
    case False
    let ?a = "sort ps ! (length ps div 2 - 1)" and ?b = "sort ps ! (length ps div 2)"
    have "calculate_median ps = rbind (ok_or (i128_add ?a ?b) Trap) (\<lambda>t. ok_or (i128_div t 2) Trap)"
      using \<open>ps \<noteq> []\<close> False by (simp add: calculate_median_def Let_def exchange_sort_sorts)
    with assms(1) have "m = (?a + ?b) sdiv 2" by (simp add: i128_div_def)
    moreover have "within lo hi ?a" "within lo hi ?b" using mid False by simp_all
    ultimately show ?thesis using sdiv_2_within by simp
  qed
qed

end
