(* ===== verification/Oracle_Props.thy ===== *)
theory Oracle_Props
  imports Oracle_Median
begin

text \<open>
  Runs of the oracle under a clock that never goes back, its invariant, and what holds of its prices:
  the aggregate against a minority of wrong feeders, the guards of a submission, the price history.
\<close>

section \<open>Runs\<close>

datatype (plugins only: code) po_op =
    Po_initialize address address
  | Po_set_access_control address address
  | Po_set_price address symbol symbol i128
  | Po_add_feeder address address
  | Po_remove_feeder address address
  | Po_set_base address symbol
  | Po_set_max_deviation address u32
  | Po_set_max_rate_change address symbol symbol u32
  | Po_set_peg address symbol symbol i128 u32 bool
  | Po_remove_peg address symbol symbol
  | Po_clear_flag address symbol symbol
  | Po_set_staleness address symbol symbol u64
  | Po_set_min_fresh address u32
  | Po_set_fallback address symbol symbol address
  | Po_remove_fallback address symbol symbol
  | Po_transfer_admin address address
  | Po_propose_upgrade address bytes
  | Po_execute_upgrade address

fun po_exec :: "env \<Rightarrow> feed \<Rightarrow> po_op \<Rightarrow> po_state \<Rightarrow> po_state po_result" where
  "po_exec e fb (Po_initialize a b) s = po_initialize s a b"
| "po_exec e fb (Po_set_access_control a b) s = po_set_access_control e s a b"
| "po_exec e fb (Po_set_price a b q x) s = set_price e fb s a b q x"
| "po_exec e fb (Po_add_feeder a b) s = add_feeder e s a b"
| "po_exec e fb (Po_remove_feeder a b) s = remove_feeder e s a b"
| "po_exec e fb (Po_set_base a b) s = set_base_currency e s a b"
| "po_exec e fb (Po_set_max_deviation a n) s = set_max_deviation e s a n"
| "po_exec e fb (Po_set_max_rate_change a b q n) s = set_max_rate_change_per_update e s a b q n"
| "po_exec e fb (Po_set_peg a b q x n c) s = set_peg_config e s a b q x n c"
| "po_exec e fb (Po_remove_peg a b q) s = remove_peg_config e s a b q"
| "po_exec e fb (Po_clear_flag a b q) s = clear_peg_flag e s a b q"
| "po_exec e fb (Po_set_staleness a b q n) s = set_max_staleness e s a b q n"
| "po_exec e fb (Po_set_min_fresh a n) s = set_min_fresh_feeders e s a n"
| "po_exec e fb (Po_set_fallback a b q x) s = set_fallback_feed e s a b q x"
| "po_exec e fb (Po_remove_fallback a b q) s = remove_fallback_feed e s a b q"
| "po_exec e fb (Po_transfer_admin a b) s = po_transfer_admin e s a b"
| "po_exec e fb (Po_propose_upgrade a h) s = po_propose_upgrade e s a h"
| "po_exec e fb (Po_execute_upgrade a) s = rbind (po_execute_upgrade e s a) (\<lambda>(s, _). Inr s)"

inductive po_reachable :: "u64 \<Rightarrow> po_state \<Rightarrow> bool" where
  po_none: "po_reachable t po_empty"
| po_step: "po_reachable t s \<Longrightarrow> t \<le> timestamp e \<Longrightarrow> po_exec e fb c s = Inr s' \<Longrightarrow> po_reachable (timestamp e) s'"

lemma po_helpers_Inr [simp]:
  "po_as_admin e s a = Inr u \<longleftrightarrow> authorised e a \<and> po_admin s = Some a"
  "require_feeder s a = Inr u \<longleftrightarrow> po_feeder s a = Some True"
  by (auto simp: po_as_admin_def po_require_admin_def require_feeder_def split: option.splits if_splits)

section \<open>The books of prices\<close>

text \<open>Submitted prices are positive and of feeders on the list of the pair, which names nobody twice.\<close>

definition book_sound :: "po_state \<Rightarrow> bool" where
  "book_sound s \<longleftrightarrow> (\<forall>b q. distinct (feeders_of s b q) \<and>
     (\<forall>f d. po_feeder_price s b q f = Some d \<longrightarrow> 0 < pd_price d \<and> f \<in> set (feeders_of s b q)))"

definition price_books where
  "price_books s = (po_feeder_price s, po_price_feeders s)"

lemma book_sound_same: "price_books s' = price_books s \<Longrightarrow> book_sound s' = book_sound s"
  by (simp add: price_books_def book_sound_def feeders_of_def)

lemma put_price_books:
  "feeders_of (put_price e s f b q x) b' q' =
     (if b' = b \<and> q' = q \<and> f \<notin> set (feeders_of s b q) then feeders_of s b q @ [f] else feeders_of s b' q')"
  "po_feeder_price (put_price e s f b q x) = (po_feeder_price s)(b := (po_feeder_price s b)
     (q := (po_feeder_price s b q)(f \<mapsto> \<lparr>pd_price = x, pd_timestamp = timestamp e\<rparr>)))"
  by (auto simp: put_price_def Let_def feeders_of_def)

lemma put_price_sound: "book_sound s \<Longrightarrow> 0 < x \<Longrightarrow> book_sound (put_price e s f b q x)"
  by (auto simp: book_sound_def put_price_books)

lemma snapshot_books:
  "record_price_snapshot e s b q x = Inr s' \<Longrightarrow> price_books s' = price_books s"
  "record_price_snapshot e s b q x = Inr s' \<Longrightarrow> po_feeder s' = po_feeder s"
  by (auto simp: record_price_snapshot_def price_books_def Let_def)

lemma check_peg_Some:
  assumes "check_peg s b q x = Inr (Some s')"
  shows "s' = s\<lparr>po_peg_flagged := (po_peg_flagged s)(b := (po_peg_flagged s b)(q \<mapsto> True))\<rparr>"
  using assms by (auto simp: check_peg_def split: option.splits if_splits)

text \<open>A submission either trips the flag of the pair, or puts the price and maybe a snapshot.\<close>

lemma set_price_cases:
  assumes "set_price e fb s f b q x = Inr s'"
  shows "0 < x \<and> authorised e f \<and> po_feeder s f = Some True \<and> po_require_not_paused e s = Inr () \<and>
    check_reciprocal e fb s b q x = Inr () \<and> check_rate_change s f b q x = Inr () \<and>
    (check_peg s b q x = Inr (Some s') \<or>
     check_peg s b q x = Inr None \<and> (s' = put_price e s f b q x \<or>
       (\<exists>y. record_price_snapshot e (put_price e s f b q x) b q y = Inr s')))"
proof -
  from assms obtain tripped where g: "authorised e f" "po_feeder s f = Some True" "po_require_not_paused e s = Inr ()" "0 < x"
    "check_reciprocal e fb s b q x = Inr ()" "check_rate_change s f b q x = Inr ()" "check_peg s b q x = Inr tripped"
    by (auto simp: set_price_def not_le)
  with assms show ?thesis
    by (cases tripped) (auto simp: set_price_def Let_def split: option.splits)
qed

lemma set_price_sound:
  assumes "set_price e fb s f b q x = Inr s'" "book_sound s" shows "book_sound s'"
proof -
  note c = set_price_cases[OF assms(1)]
  then have "0 < x" by blast
  have put: "book_sound (put_price e s f b q x)" by (rule put_price_sound[OF assms(2) \<open>0 < x\<close>])
  from c consider "check_peg s b q x = Inr (Some s')" | "s' = put_price e s f b q x"
    | y where "record_price_snapshot e (put_price e s f b q x) b q y = Inr s'" by blast
  then show ?thesis
  proof cases
    case 1
    from check_peg_Some[OF this] assms(2) show ?thesis by (simp add: book_sound_def feeders_of_def)
  next
    case 3
    from book_sound_same[OF snapshot_books(1)[OF this]] put show ?thesis by simp
  qed (use put in simp)
qed

lemma books_kept:
  assumes "po_exec e fb c s = Inr s'" "\<And>f b q x. c \<noteq> Po_set_price f b q x"
  shows "price_books s' = price_books s \<and> po_history s' = po_history s"
  using assms
  by (cases c) (auto simp: price_books_def po_initialize_def po_set_access_control_def add_feeder_def remove_feeder_def
      set_base_currency_def set_max_deviation_def set_max_rate_change_per_update_def set_peg_config_def
      remove_peg_config_def clear_peg_flag_def drop_flag_def set_max_staleness_def set_min_fresh_feeders_def
      set_fallback_feed_def remove_fallback_feed_def po_transfer_admin_def po_propose_upgrade_def
      po_execute_upgrade_def split: if_splits)

lemma reachable_book_sound: "po_reachable t s \<Longrightarrow> book_sound s"
proof (induction rule: po_reachable.induct)
  case po_none
  show ?case by (simp add: book_sound_def po_empty_def feeders_of_def)
next
  case (po_step t s e fb c s')
  show ?case
  proof (cases "\<exists>f b q x. c = Po_set_price f b q x")
    case True
    with po_step set_price_sound show ?thesis by auto
  next
    case False
    with books_kept[OF po_step.hyps(3)] book_sound_same[of s' s] po_step.IH show ?thesis by auto
  qed
qed

section \<open>The aggregate\<close>

text \<open>The feeders whose price counts at the moment, and what they quote.\<close>

definition active :: "env \<Rightarrow> po_state \<Rightarrow> symbol \<Rightarrow> symbol \<Rightarrow> address set" where
  "active e s b q = {f. \<exists>d. po_feeder_price s b q f = Some d \<and>
     timestamp e - pd_timestamp d \<le> get_effective_staleness s b q}"

definition quoted :: "po_state \<Rightarrow> symbol \<Rightarrow> symbol \<Rightarrow> address \<Rightarrow> i128" where
  "quoted s b q f = (case po_feeder_price s b q f of None \<Rightarrow> 0 | Some d \<Rightarrow> pd_price d)"

lemma fresh_prices_list:
  "fst (fresh_prices now age prices fs acc m) = acc @ map (\<lambda>f. pd_price (the (prices f)))
     (filter (\<lambda>f. \<exists>d. prices f = Some d \<and> now - pd_timestamp d \<le> age) fs)"
  by (induction now age prices fs acc m rule: fresh_prices.induct) (auto simp: u64_sat_sub_def split: option.splits)

lemma active_prices:
  assumes "book_sound s"
  shows "fst (fresh_prices (timestamp e) (get_effective_staleness s b q) (po_feeder_price s b q) (feeders_of s b q) [] m) =
     map (quoted s b q) (filter (\<lambda>f. f \<in> active e s b q) (feeders_of s b q))"
    and "finite (active e s b q)" "card (active e s b q) = length (filter (\<lambda>f. f \<in> active e s b q) (feeders_of s b q))"
proof -
  show "fst (fresh_prices (timestamp e) (get_effective_staleness s b q) (po_feeder_price s b q) (feeders_of s b q) [] m) =
     map (quoted s b q) (filter (\<lambda>f. f \<in> active e s b q) (feeders_of s b q))"
    by (auto simp: fresh_prices_list active_def quoted_def)
  have d: "distinct (feeders_of s b q)" and sub: "active e s b q \<subseteq> set (feeders_of s b q)"
    using assms by (auto simp: book_sound_def active_def)
  then show "finite (active e s b q)" by (metis finite_subset List.finite_set)
  have "set (filter (\<lambda>f. f \<in> active e s b q) (feeders_of s b q)) = active e s b q" using sub by auto
  with d show "card (active e s b q) = length (filter (\<lambda>f. f \<in> active e s b q) (feeders_of s b q))"
    by (metis distinct_card distinct_filter)
qed

lemma active_majority:
  assumes "book_sound s"
  shows "card {f \<in> active e s b q. P (quoted s b q f)} =
    length (filter P (map (quoted s b q) (filter (\<lambda>f. f \<in> active e s b q) (feeders_of s b q))))"
proof -
  have d: "distinct (feeders_of s b q)" and sub: "active e s b q \<subseteq> set (feeders_of s b q)"
    using assms by (auto simp: book_sound_def active_def)
  have "set (filter (\<lambda>f. P (quoted s b q f) \<and> f \<in> active e s b q) (feeders_of s b q)) = {f \<in> active e s b q. P (quoted s b q f)}"
    using sub by auto
  with distinct_card[OF distinct_filter[OF d]]
  have "card {f \<in> active e s b q. P (quoted s b q f)} =
    length (filter (\<lambda>f. P (quoted s b q f) \<and> f \<in> active e s b q) (feeders_of s b q))" by metis
  then show ?thesis by (simp add: filter_map comp_def conj_commute)
qed

text \<open>C19: Where the price that is read comes from.  If no feeder of the pair is fresh, it is the
  answer of the fallback feed, as it is: no quorum and no bound applies to it.  If some feeder is
  fresh, the price rests on at least the minimum of fresh feeders, the fallback is not asked, and no
  minority moves the price: when more than half of the fresh feeders quote prices between two
  bounds, it lies between them, whatever the others quote.\<close>

theorem median_resists_minority:
  assumes "po_reachable t s" "get_price e fb s b q = Inr d"
  shows "if active e s b q = {} then \<exists>a. po_fallback s b q = Some a \<and> fb a b q = Some d
    else min_fresh_feeders_floor s \<le> card (active e s b q) \<and>
      (\<forall>fb'. get_price e fb' s b q = Inr d) \<and>
      (card (active e s b q) < 2 * card {f \<in> active e s b q. lo \<le> quoted s b q f \<and> quoted s b q f \<le> hi} \<longrightarrow>
        lo \<le> pd_price d \<and> pd_price d \<le> hi)"
proof -
  have sound: "book_sound s" by (rule reachable_book_sound[OF assms(1)])
  let ?ps = "map (quoted s b q) (filter (\<lambda>f. f \<in> active e s b q) (feeders_of s b q))"
  obtain m where fresh: "fresh_prices (timestamp e) (get_effective_staleness s b q) (po_feeder_price s b q) (feeders_of s b q) [] u64_max = (?ps, m)"
    using active_prices(1)[OF sound, of e b q u64_max] by (metis prod.collapse)
  have card: "card (active e s b q) = length ?ps" using active_prices(3)[OF sound] by simp
  have fin: "finite (active e s b q)" by (rule active_prices(2)[OF sound])
  show ?thesis
  proof (cases "active e s b q = {}")
    case True
    with card have "?ps = []" by simp
    with fresh assms(2) True show ?thesis by (auto simp: get_price_def split: option.splits)
  next
    case False
    with card fin have "?ps \<noteq> []" by (metis card_0_eq list.size(3))
    with assms(2) fresh have run: "min_fresh_feeders_floor s \<le> length ?ps" "calculate_median ?ps = Inr (pd_price d)"
      and same: "\<forall>fb'. get_price e fb' s b q = Inr d"
      by (auto simp: get_price_def)
    have "length (filter (within lo hi) ?ps) = card {f \<in> active e s b q. lo \<le> quoted s b q f \<and> quoted s b q f \<le> hi}"
      using active_majority[OF sound, of e b q "within lo hi"] by (simp add: within_def)
    with calculate_median_within[OF run(2), of lo hi] run(1) same False show ?thesis
      by (simp add: card within_def)
  qed
qed

section \<open>The guards of a submission\<close>

definition limits_sound :: "po_state \<Rightarrow> bool" where
  "limits_sound s \<longleftrightarrow>
     (\<forall>b q m. po_max_rate_change s b q = Some m \<longrightarrow> m \<le> 10000) \<and>
     (\<forall>b q c. po_peg s b q = Some c \<longrightarrow> 0 < pg_expected_ratio c \<and> pg_tolerance_bps c \<le> 10000)"

lemma limits_kept:
  assumes "set_price e fb s f b q x = Inr s'"
  shows "po_max_rate_change s' = po_max_rate_change s \<and> po_peg s' = po_peg s"
  using set_price_cases[OF assms]
  by (auto simp: put_price_def record_price_snapshot_def Let_def dest!: check_peg_Some)

lemma limits_exec: "po_exec e fb c s = Inr s' \<Longrightarrow> limits_sound s \<Longrightarrow> limits_sound s'"
proof (cases "\<exists>f b q x. c = Po_set_price f b q x")
  case True
  moreover assume "po_exec e fb c s = Inr s'" "limits_sound s"
  ultimately obtain f b q x where "set_price e fb s f b q x = Inr s'" by auto
  from limits_kept[OF this] \<open>limits_sound s\<close> show ?thesis by (simp add: limits_sound_def)
next
  case False
  moreover assume "po_exec e fb c s = Inr s'" "limits_sound s"
  ultimately show ?thesis
  by (cases c) (auto simp: limits_sound_def po_initialize_def po_set_access_control_def add_feeder_def remove_feeder_def
      set_base_currency_def set_max_deviation_def set_max_rate_change_per_update_def set_peg_config_def
      remove_peg_config_def clear_peg_flag_def drop_flag_def set_max_staleness_def set_min_fresh_feeders_def
      set_fallback_feed_def remove_fallback_feed_def po_transfer_admin_def po_propose_upgrade_def
      po_execute_upgrade_def split: if_splits)
qed

lemma reachable_limits: "po_reachable t s \<Longrightarrow> limits_sound s"
proof (induction rule: po_reachable.induct)
  case po_none
  show ?case by (simp add: limits_sound_def po_empty_def)
qed (auto intro: limits_exec)

lemma le_div_mult:
  fixes a b c :: int
  assumes "a \<le> b div c" "0 < c" shows "a * c \<le> b"
proof -
  have "a * c \<le> b div c * c" using assms by (simp add: mult_right_mono)
  also have "\<dots> \<le> b" using assms(2) by (simp flip: minus_mod_eq_div_mult)
  finally show ?thesis .
qed

lemma div_less_mult:
  fixes b c k :: int
  assumes "b div c < k" "0 < c" shows "b < k * c"
proof (rule ccontr)
  assume "\<not> b < k * c"
  then have "k * c div c \<le> b div c" using assms(2) by (intro zdiv_mono1) auto
  with assms show False by simp
qed

lemma mul_div_value: "mul_div a b c = Inr v \<Longrightarrow> 0 \<le> a * b \<Longrightarrow> 0 < c \<Longrightarrow> v = a * b div c"
  by (auto simp: mul_div_def i128_div_def signed_divide_int_def sgn_if split: if_splits bind_splits)

lemma distance_value: "distance a b = Inr v \<Longrightarrow> v = \<bar>a - b\<bar>"
  by (auto simp: distance_def i128_abs_def)

lemma check_reciprocal_bound:
  assumes "check_reciprocal e fb s b q x = Inr ()" "get_price e fb s q b = Inr r" "0 < x"
  shows "\<bar>100000000000000 div x - pd_price r\<bar> * 100 \<le> 100000000000000 div x"
proof -
  let ?R = "100000000000000 div x"
  from assms obtain R where R: "compute_reciprocal x = Inr R" "validate_reciprocal_tolerance R (pd_price r) 100 = Inr ()"
    by (auto simp: check_reciprocal_def attempt_def)
  have "R = ?R" using R(1) assms(3) by (auto simp: compute_reciprocal_def i128_div_def signed_divide_int_def split: if_splits)
  moreover have "0 \<le> ?R" using assms(3) by (simp add: pos_imp_zdiv_nonneg_iff)
  ultimately have R': "R = ?R" "0 \<le> R" by simp_all
  from R(2) obtain d m where "distance R (pd_price r) = Inr d" "mul_div R 100 10000 = Inr m" "d \<le> m"
    by (auto simp: validate_reciprocal_tolerance_def not_less)
  with distance_value mul_div_value[of R 100 10000 m] R'(2) have "\<bar>R - pd_price r\<bar> \<le> R * 100 div 10000" by auto
  then have "\<bar>R - pd_price r\<bar> * 10000 \<le> R * 100" by (rule le_div_mult) simp
  then have "\<bar>R - pd_price r\<bar> * 100 \<le> R" by simp
  then show ?thesis by (simp add: R'(1))
qed

lemma check_rate_bound:
  assumes "check_rate_change s f b q x = Inr ()" "po_max_rate_change s b q = Some m" "m \<le> 10000"
    and "po_feeder_price s b q f = Some p" "0 < pd_price p"
  shows "\<bar>x - pd_price p\<bar> * 10000 < (int m + 1) * pd_price p"
proof -
  let ?p = "pd_price p"
  from assms obtain d v where "distance x ?p = Inr d" and v: "mul_div d 10000 ?p = Inr v"
    "(if 0 \<le> v \<and> v \<le> int u32_max then nat v else u32_max) \<le> m"
    by (auto simp: check_rate_change_def Let_def not_less)
  then have "d = \<bar>x - ?p\<bar>" by (simp add: distance_value)
  with mul_div_value[OF v(1)] assms(5) have "v = d * 10000 div ?p" "0 \<le> d" by auto
  moreover have "v \<le> int m" using v(2) assms(3) by (auto simp: u32_max_def split: if_splits)
  ultimately have "d * 10000 div ?p < int m + 1" by simp
  then have "d * 10000 < (int m + 1) * ?p" using assms(5) by (rule div_less_mult)
  then show ?thesis using \<open>d = \<bar>x - ?p\<bar>\<close> by simp
qed

lemma check_peg_bound:
  assumes "check_peg s b q x = Inr None" "po_peg s b q = Some c" "0 < pg_expected_ratio c"
  shows "\<not> is_peg_flagged s b q \<and> \<bar>x - pg_expected_ratio c\<bar> * 10000 \<le> pg_expected_ratio c * int (pg_tolerance_bps c)"
proof -
  let ?E = "pg_expected_ratio c" and ?T = "int (pg_tolerance_bps c)"
  from assms(1,2) obtain m d where "mul_div ?E ?T 10000 = Inr m" "distance x ?E = Inr d" "d \<le> m" "\<not> is_peg_flagged s b q"
    by (auto simp: check_peg_def is_peg_flagged_def not_less split: if_splits)
  with mul_div_value[of ?E ?T 10000 m] distance_value assms(3)
  have "\<bar>x - ?E\<bar> \<le> ?E * ?T div 10000" "\<not> is_peg_flagged s b q" by (auto simp: zero_le_mult_iff)
  moreover from this(1) have "\<bar>x - ?E\<bar> * 10000 \<le> ?E * ?T" by (rule le_div_mult) simp
  ultimately show ?thesis by blast
qed

text \<open>A submission that goes through is of an authorised feeder while the protocol runs, and either
  trips the flag of a pegged pair and leaves every price as it was, or records the price; then the
  price is positive, within the tolerance of the peg of an unflagged pair, within the configured
  change of the feeder's own last price, and within one per cent of the reciprocal of the reverse price.\<close>

theorem accepted_price_is_guarded:
  assumes "po_reachable t s" "set_price e fb s f b q x = Inr s'"
  shows "authorised e f \<and> po_feeder s f = Some True \<and> po_require_not_paused e s = Inr () \<and> 0 < x \<and>
    (price_books s' = price_books s \<and> is_peg_flagged s' b q \<and> \<not> is_peg_flagged s b q \<or>
     po_feeder_price s' b q f = Some \<lparr>pd_price = x, pd_timestamp = timestamp e\<rparr> \<and>
     (\<forall>c. po_peg s b q = Some c \<longrightarrow> \<not> is_peg_flagged s b q \<and>
        \<bar>x - pg_expected_ratio c\<bar> * 10000 \<le> pg_expected_ratio c * int (pg_tolerance_bps c)) \<and>
     (\<forall>m p. po_max_rate_change s b q = Some m \<and> po_feeder_price s b q f = Some p \<longrightarrow>
        \<bar>x - pd_price p\<bar> * 10000 < (int m + 1) * pd_price p) \<and>
     (\<forall>r. get_price e fb s q b = Inr r \<longrightarrow>
        \<bar>100000000000000 div x - pd_price r\<bar> * 100 \<le> 100000000000000 div x))"
proof -
  note c = set_price_cases[OF assms(2)]
  then have x: "0 < x" and rec: "check_reciprocal e fb s b q x = Inr ()" and rate: "check_rate_change s f b q x = Inr ()" by blast+
  from c consider "check_peg s b q x = Inr (Some s')" | "check_peg s b q x = Inr None" "s' = put_price e s f b q x"
    | y where "check_peg s b q x = Inr None" "record_price_snapshot e (put_price e s f b q x) b q y = Inr s'" by blast
  then show ?thesis
  proof cases
    case 1
    from check_peg_Some[OF this] have "price_books s' = price_books s" "is_peg_flagged s' b q"
      by (simp_all add: price_books_def is_peg_flagged_def)
    moreover have "\<not> is_peg_flagged s b q" using 1 by (auto simp: check_peg_def is_peg_flagged_def split: option.splits if_splits)
    ultimately show ?thesis using c by blast
  next
    case 2
    then have new: "po_feeder_price s' b q f = Some \<lparr>pd_price = x, pd_timestamp = timestamp e\<rparr>" by (simp add: put_price_books)
    show ?thesis
      using c new check_peg_bound[OF 2(1)] check_rate_bound[OF rate] check_reciprocal_bound[OF rec _ x]
        reachable_limits[OF assms(1)] reachable_book_sound[OF assms(1)]
      by (fastforce simp: limits_sound_def book_sound_def)
  next
    case 3
    from snapshot_books(1)[OF 3(2)] have new: "po_feeder_price s' b q f = Some \<lparr>pd_price = x, pd_timestamp = timestamp e\<rparr>"
      by (simp add: price_books_def put_price_books)
    show ?thesis
      using c new check_peg_bound[OF 3(1)] check_rate_bound[OF rate] check_reciprocal_bound[OF rec _ x]
        reachable_limits[OF assms(1)] reachable_book_sound[OF assms(1)]
      by (fastforce simp: limits_sound_def book_sound_def)
  qed
qed

section \<open>The price history\<close>

text \<open>The abstract history is the list of all snapshots, at most one per ledger time; the ring holds
  the last 32 of them, each in the slot of its number.\<close>

definition times :: "PriceData list \<Rightarrow> u64 list" where "times h = map pd_timestamp h"

definition ring_repr :: "PriceHistoryRing \<Rightarrow> PriceData list \<Rightarrow> bool" where
  "ring_repr r h \<longleftrightarrow> length (ph_slots r) = min (length h) PRICE_HISTORY_CAP \<and>
     ph_next r = length h mod PRICE_HISTORY_CAP \<and>
     (\<forall>k < length h. length h \<le> k + PRICE_HISTORY_CAP \<longrightarrow> ph_slots r ! (k mod PRICE_HISTORY_CAP) = h ! k)"

definition add_snapshot :: "PriceData \<Rightarrow> PriceData list \<Rightarrow> PriceData list" where
  "add_snapshot d h = (if h \<noteq> [] \<and> pd_timestamp (last h) = pd_timestamp d then butlast h @ [d] else h @ [d])"

definition retained :: "PriceData list \<Rightarrow> PriceData list" where
  "retained h = drop (length h - PRICE_HISTORY_CAP) h"

definition price_as_of :: "u64 \<Rightarrow> PriceData list \<Rightarrow> PriceData option" where
  "price_as_of t h = (case filter (\<lambda>d. pd_timestamp d \<le> t) (retained h) of [] \<Rightarrow> None | ds \<Rightarrow> Some (last ds))"

lemma mod_cap_inj: "k < n \<Longrightarrow> l < n \<Longrightarrow> n \<le> k + m \<Longrightarrow> n \<le> l + m \<Longrightarrow> k mod m = l mod m \<Longrightarrow> k = (l::nat)"
proof (rule ccontr)
  assume a: "k < n" "l < n" "n \<le> k + m" "n \<le> l + m" "k mod m = l mod m" "k \<noteq> l"
  then have "m dvd (max k l - min k l)" by (metis max_def min_def mod_eq_dvd_iff_nat nat_le_linear)
  with a have "m \<le> max k l - min k l" by (intro dvd_imp_le) auto
  with a show False by auto
qed

lemma newest_slot:
  assumes "ring_repr r h" "h \<noteq> []"
  shows "(ph_next r + PRICE_HISTORY_CAP - 1) mod PRICE_HISTORY_CAP = (length h - 1) mod PRICE_HISTORY_CAP"
    and "(length h - 1) mod PRICE_HISTORY_CAP < length (ph_slots r)"
    and "ph_slots r ! ((length h - 1) mod PRICE_HISTORY_CAP) = last h"
proof -
  let ?n = "length h" let ?c = PRICE_HISTORY_CAP
  have c: "0 < ?c" by (simp add: PRICE_HISTORY_CAP_def)
  have n: "0 < ?n" using assms(2) by simp
  have "(?n mod ?c + ?c - 1) mod ?c = (?n mod ?c + (?c - 1)) mod ?c" using c by (metis Nat.add_diff_assoc Suc_leI One_nat_def)
  also have "\<dots> = (?n + (?c - 1)) mod ?c" by (rule mod_add_left_eq)
  also have "?n + (?c - 1) = (?n - 1) + ?c" using n c by linarith
  also have "((?n - 1) + ?c) mod ?c = (?n - 1) mod ?c" by simp
  finally show "(ph_next r + ?c - 1) mod ?c = (?n - 1) mod ?c" using assms(1) by (simp add: ring_repr_def)
  show "(?n - 1) mod ?c < length (ph_slots r)"
    using assms(1) n c mod_less_eq_dividend[of "?n - 1" ?c] mod_less_divisor[OF c, of "?n - 1"]
    by (simp add: ring_repr_def min_def)
  have "ph_slots r ! ((?n - 1) mod ?c) = h ! (?n - 1)" using assms(1) n c by (simp add: ring_repr_def)
  then show "ph_slots r ! ((?n - 1) mod ?c) = last h" using assms(2) by (simp add: last_conv_nth)
qed

lemma ring_push_refines:
  assumes "ring_repr r h"
  shows "\<exists>r'. ring_push r d = (Inr r' :: 'e failure + _) \<and> ring_repr r' (add_snapshot d h)"
proof -
  let ?n = "length h" let ?c = PRICE_HISTORY_CAP
  have c: "0 < ?c" by (simp add: PRICE_HISTORY_CAP_def)
  have len: "length (ph_slots r) = min ?n ?c" and nxt: "ph_next r = ?n mod ?c"
    and slot: "\<And>k. k < ?n \<Longrightarrow> ?n \<le> k + ?c \<Longrightarrow> ph_slots r ! (k mod ?c) = h ! k" using assms by (auto simp: ring_repr_def)
  show ?thesis
  proof (cases "h \<noteq> [] \<and> pd_timestamp (last h) = pd_timestamp d")
    case True
    note new = newest_slot[OF assms conjunct1[OF True]]
    let ?l = "(?n - 1) mod ?c"
    have n: "0 < ?n" using True by simp
    have "ring_push r d = Inr (r\<lparr>ph_slots := (ph_slots r)[?l := d]\<rparr>)"
      using True new n len c by (simp add: ring_push_def Let_def)
    moreover have "(ph_slots r)[?l := d] ! (k mod ?c) = (butlast h @ [d]) ! k" if k: "k < ?n" "?n \<le> k + ?c" for k
    proof (cases "k = ?n - 1")
      case True
      with new(2) n show ?thesis by (simp add: nth_append)
    next
      case False
      have "?n \<le> ?n - 1 + ?c" "?n - 1 < ?n" using n c by linarith+
      with False mod_cap_inj[OF k(1) _ k(2)] have "k mod ?c \<noteq> ?l" by blast
      with False k slot show ?thesis by (simp add: nth_append nth_butlast)
    qed
    ultimately show ?thesis using True len nxt n by (auto simp: add_snapshot_def ring_repr_def)
  next
    case False
    have not: "\<not> (0 < length (ph_slots r) \<and> (ph_next r + ?c - 1) mod ?c < length (ph_slots r) \<and>
        pd_timestamp (ph_slots r ! ((ph_next r + ?c - 1) mod ?c)) = pd_timestamp d)"
      using False newest_slot[OF assms] len by (cases "h = []") auto
    have next_eq: "(ph_next r + 1) mod ?c = Suc ?n mod ?c" using nxt by (simp add: mod_Suc_eq)
    have add: "add_snapshot d h = h @ [d]" using False by (auto simp: add_snapshot_def)
    show ?thesis
    proof (cases "?n < ?c")
      case True
      with not len have "ring_push r d = Inr (r\<lparr>ph_slots := ph_slots r @ [d], ph_next := (ph_next r + 1) mod ?c\<rparr>)"
        by (auto simp: ring_push_def Let_def)
      moreover have "(ph_slots r @ [d]) ! (k mod ?c) = (h @ [d]) ! k" if "k < Suc ?n" for k
        using that True len slot[of k] by (auto simp: nth_append less_Suc_eq)
      ultimately show ?thesis using add len True next_eq by (auto simp: ring_repr_def)
    next
      case False
      have m: "?n mod ?c < length (ph_slots r)" using False len c by simp
      have "ring_push r d = Inr (r\<lparr>ph_slots := (ph_slots r)[?n mod ?c := d], ph_next := (ph_next r + 1) mod ?c\<rparr>)"
        using not len False m nxt by (auto simp: ring_push_def Let_def vec_set_def)
      moreover have "(ph_slots r)[?n mod ?c := d] ! (k mod ?c) = (h @ [d]) ! k" if k: "k < Suc ?n" "Suc ?n \<le> k + ?c" for k
      proof (cases "k = ?n")
        case True
        with m show ?thesis by (simp add: nth_append)
      next
        case False
        with k have "k < ?n" by simp
        have "k mod ?c \<noteq> ?n mod ?c" using mod_cap_inj[of k "Suc ?n" ?n ?c] k False by auto
        with \<open>k < ?n\<close> k slot show ?thesis by (simp add: nth_append)
      qed
      ultimately show ?thesis using add len False next_eq by (auto simp: ring_repr_def)
    qed
  qed
qed

lemma latest_until_None: "latest_until t xs best = None \<longleftrightarrow> best = None \<and> (\<forall>d \<in> set xs. t < pd_timestamp d)"
  by (induction t xs best rule: latest_until.induct) (auto split: option.splits)

lemma latest_until_Some:
  "latest_until t xs best = Some d \<Longrightarrow>
     (best = Some d \<or> d \<in> set xs \<and> pd_timestamp d \<le> t) \<and>
     (\<forall>d' \<in> set xs. pd_timestamp d' \<le> t \<longrightarrow> pd_timestamp d' \<le> pd_timestamp d) \<and>
     (\<forall>b. best = Some b \<longrightarrow> pd_timestamp b \<le> pd_timestamp d)"
proof (induction t xs best rule: latest_until.induct)
  case (2 t x xs best)
  show ?case
  proof (cases "pd_timestamp x > t")
    case True
    with 2 show ?thesis by auto
  next
    case False
    let ?best = "case best of None \<Rightarrow> Some x | Some current \<Rightarrow> if pd_timestamp x \<ge> pd_timestamp current then Some x else best"
    from 2(2)[OF False] 2(3) False have IH: "(?best = Some d \<or> d \<in> set xs \<and> pd_timestamp d \<le> t) \<and>
      (\<forall>d' \<in> set xs. pd_timestamp d' \<le> t \<longrightarrow> pd_timestamp d' \<le> pd_timestamp d) \<and>
      (\<forall>b. ?best = Some b \<longrightarrow> pd_timestamp b \<le> pd_timestamp d)" by simp
    have "?best = Some x \<or> (\<exists>b. best = Some b \<and> ?best = Some b \<and> pd_timestamp x \<le> pd_timestamp b)"
      by (auto split: option.splits)
    with IH False show ?thesis by (auto split: option.splits if_splits)
  qed
qed simp

lemma slots_are_retained:
  assumes "ring_repr r h" shows "set (ph_slots r) = set (retained h)"
proof -
  let ?n = "length h" let ?c = PRICE_HISTORY_CAP let ?K = "{?n - ?c..<?n}"
  have c: "0 < ?c" by (simp add: PRICE_HISTORY_CAP_def)
  have len: "length (ph_slots r) = min ?n ?c"
    and slot: "\<And>k. k \<in> ?K \<Longrightarrow> ph_slots r ! (k mod ?c) = h ! k" using assms by (auto simp: ring_repr_def)
  have inj: "inj_on (\<lambda>k. k mod ?c) ?K" by (rule inj_onI) (rule mod_cap_inj[of _ ?n _ ?c], auto)
  have sub: "(\<lambda>k. k mod ?c) ` ?K \<subseteq> {..<min ?n ?c}"
  proof
    fix j assume "j \<in> (\<lambda>k. k mod ?c) ` ?K"
    then obtain k where "k < ?n" "j = k mod ?c" by auto
    with mod_less_divisor[OF c, of k] le_less_trans[OF mod_less_eq_dividend \<open>k < ?n\<close>] show "j \<in> {..<min ?n ?c}" by simp
  qed
  have "card ((\<lambda>k. k mod ?c) ` ?K) = min ?n ?c" using card_image[OF inj] by auto
  with sub have onto: "(\<lambda>k. k mod ?c) ` ?K = {..<min ?n ?c}" by (intro card_subset_eq) auto
  have "set (ph_slots r) = (\<lambda>j. ph_slots r ! j) ` {..<min ?n ?c}" by (auto simp: set_conv_nth len)
  also have "\<dots> = (\<lambda>k. ph_slots r ! (k mod ?c)) ` ?K" unfolding onto[symmetric] by (simp add: image_image)
  also have "\<dots> = (\<lambda>k. h ! k) ` ?K" using slot by (intro image_cong) auto
  also have "\<dots> = set (retained h)" by (auto simp: retained_def set_conv_nth image_def) (metis add.commute add_diff_inverse_nat less_diff_conv not_less le_add_diff_inverse2 atLeastLessThan_iff diff_less_mono le_add_diff_inverse)
  finally show ?thesis .
qed

lemma last_is_latest:
  assumes "sorted_wrt (<) (times xs)" "xs \<noteq> []" "d \<in> set xs" shows "pd_timestamp d \<le> pd_timestamp (last xs)"
  using assms by (induction xs) (auto simp: times_def intro: less_imp_le)

lemma latest_is_price_as_of:
  assumes "ring_repr r h" "sorted_wrt (<) (times h)"
  shows "latest_until t (ph_slots r) None = price_as_of t h"
proof -
  let ?xs = "filter (\<lambda>d. pd_timestamp d \<le> t) (retained h)"
  note set = slots_are_retained[OF assms(1)]
  have sub: "set (retained h) \<subseteq> set h" by (auto simp: retained_def dest: in_set_dropD)
  have inj: "d = d'" if "d \<in> set h" "d' \<in> set h" "pd_timestamp d = pd_timestamp d'" for d d'
    using assms(2) that by (metis distinct_map inj_onD strict_sorted_iff times_def)
  have sorted: "sorted_wrt (<) (times ?xs)"
    using assms(2) by (simp add: times_def retained_def sorted_wrt_map sorted_wrt_filter sorted_wrt_drop)
  show ?thesis
  proof (cases "latest_until t (ph_slots r) None")
    case None
    then have "?xs = []" by (auto simp: latest_until_None set filter_empty_conv)
    with None show ?thesis by (simp add: price_as_of_def)
  next
    case (Some d)
    from latest_until_Some[OF this] have d: "d \<in> set ?xs" "\<And>d'. d' \<in> set ?xs \<Longrightarrow> pd_timestamp d' \<le> pd_timestamp d" by (auto simp: set)
    have ne: "?xs \<noteq> []" using d(1) by (cases ?xs) auto
    have "pd_timestamp d = pd_timestamp (last ?xs)"
      using last_is_latest[OF sorted ne d(1)] d(2)[OF last_in_set[OF ne]] by simp
    moreover have "last ?xs \<in> set h" "d \<in> set h" using last_in_set[OF ne] d(1) sub by auto
    ultimately have "d = last ?xs" using inj by blast
    with Some ne show ?thesis by (cases ?xs) (auto simp: price_as_of_def)
  qed
qed

text \<open>Every ring of a reachable state stands for a history in the order of time.\<close>

definition history_ok :: "u64 \<Rightarrow> po_state \<Rightarrow> bool" where
  "history_ok t s \<longleftrightarrow> (\<forall>b q r. po_history s b q = Some r \<longrightarrow>
     (\<exists>h. ring_repr r h \<and> sorted_wrt (<) (times h) \<and> (\<forall>d \<in> set h. pd_timestamp d \<le> t)))"

lemma add_snapshot_sorted:
  assumes "sorted_wrt (<) (times h)" "\<forall>d \<in> set h. pd_timestamp d \<le> t" "t \<le> pd_timestamp d"
  shows "sorted_wrt (<) (times (add_snapshot d h)) \<and> (\<forall>x \<in> set (add_snapshot d h). pd_timestamp x \<le> pd_timestamp d)"
proof (cases h rule: rev_cases)
  case Nil
  then show ?thesis by (simp add: add_snapshot_def times_def)
next
  case (snoc g x)
  have "pd_timestamp y \<le> t" if "y \<in> set h" for y using assms(2) that by blast
  then have "pd_timestamp y \<le> pd_timestamp d" if "y \<in> set h" for y using that assms(3) by force
  moreover have "pd_timestamp y < pd_timestamp x" if "y \<in> set g" for y
    using assms(1) that snoc by (auto simp: times_def sorted_wrt_append)
  moreover have "pd_timestamp x = pd_timestamp d \<or> pd_timestamp x < pd_timestamp d"
    using calculation(1)[of x] snoc by (simp add: le_eq_less_or_eq disj_commute)
  ultimately show ?thesis
    using assms(1) snoc by (auto simp: add_snapshot_def times_def sorted_wrt_append dest: less_le_trans intro: less_trans)
qed

lemma snapshot_history:
  assumes "history_ok t s" "t \<le> timestamp e" "record_price_snapshot e s b q x = Inr s'"
  shows "history_ok (timestamp e) s'"
proof -
  let ?d = "\<lparr>pd_price = x, pd_timestamp = timestamp e\<rparr>"
  define r where "r = (case po_history s b q of None \<Rightarrow> \<lparr>ph_slots = [], ph_next = 0\<rparr> | Some r \<Rightarrow> r)"
  have "\<exists>h. ring_repr r h \<and> sorted_wrt (<) (times h) \<and> (\<forall>d \<in> set h. pd_timestamp d \<le> t)"
  proof (cases "po_history s b q")
    case None
    then show ?thesis by (intro exI[of _ "[]"]) (simp add: r_def ring_repr_def times_def)
  next
    case (Some r')
    with assms(1) show ?thesis by (simp add: r_def history_ok_def)
  qed
  then obtain h where h: "ring_repr r h" "sorted_wrt (<) (times h)" "\<forall>d \<in> set h. pd_timestamp d \<le> t" by blast
  obtain r' where r': "ring_push r ?d = (Inr r' :: PriceHistoryRing po_result)" "ring_repr r' (add_snapshot ?d h)"
    using ring_push_refines[OF h(1), of ?d] by blast
  have s': "s' = s\<lparr>po_history := (po_history s)(b := (po_history s b)(q \<mapsto> r'))\<rparr>"
    using assms(3) r'(1) by (simp add: record_price_snapshot_def r_def[symmetric] Let_def)
  have "\<exists>h. ring_repr r' h \<and> sorted_wrt (<) (times h) \<and> (\<forall>d \<in> set h. pd_timestamp d \<le> timestamp e)"
    using r'(2) add_snapshot_sorted[OF h(2,3), of ?d] assms(2) by auto
  moreover have "\<exists>h. ring_repr r2 h \<and> sorted_wrt (<) (times h) \<and> (\<forall>d \<in> set h. pd_timestamp d \<le> timestamp e)"
    if "po_history s b2 q2 = Some r2" for b2 q2 r2
    using assms(1,2) that unfolding history_ok_def by (meson le_trans)
  ultimately show ?thesis by (auto simp: history_ok_def s')
qed

lemma history_later: "history_ok t s \<Longrightarrow> t \<le> u \<Longrightarrow> po_history s' = po_history s \<Longrightarrow> history_ok u s'"
  unfolding history_ok_def by (metis le_trans)

lemma reachable_history: "po_reachable t s \<Longrightarrow> history_ok t s"
proof (induction rule: po_reachable.induct)
  case po_none
  show ?case by (simp add: history_ok_def po_empty_def)
next
  case (po_step t s e fb c s')
  show ?case
  proof (cases "\<exists>f b q x. c = Po_set_price f b q x")
    case False
    with books_kept[OF po_step.hyps(3)] history_later[OF po_step.IH po_step.hyps(2)] show ?thesis by auto
  next
    case True
    with po_step.hyps(3) obtain f b q x where run: "set_price e fb s f b q x = Inr s'" by auto
    have put: "history_ok t (put_price e s f b q x)"
      using history_later[OF po_step.IH order_refl] by (simp add: put_price_def Let_def)
    from set_price_cases[OF run] consider "check_peg s b q x = Inr (Some s')" | "s' = put_price e s f b q x"
      | y where "record_price_snapshot e (put_price e s f b q x) b q y = Inr s'" by blast
    then show ?thesis
    proof cases
      case 1
      from check_peg_Some[OF this] history_later[OF po_step.IH po_step.hyps(2)] show ?thesis by simp
    next
      case 2
      with history_later[OF put po_step.hyps(2)] show ?thesis by simp
    next
      case 3
      from snapshot_history[OF put po_step.hyps(2) this] show ?thesis .
    qed
  qed
qed

text \<open>C20: The ring of past prices implements the history of all snapshots, one per ledger time: in every
  reachable state it stands for such a history, \<open>get_price_at\<close> answers the last snapshot not
  later than the time asked for among the last 32, and a new snapshot always finds its place.\<close>

theorem price_history_refines:
  assumes "po_reachable t s" "po_history s b q = Some r"
  shows "\<exists>h. ring_repr r h \<and> sorted_wrt (<) (times h) \<and>
    (\<forall>u. get_price_at s b q u = ok_or (price_as_of u h) (Err PO_PriceHistoryNotAvailable)) \<and>
    (\<forall>e x. \<exists>r'. record_price_snapshot e s b q x = Inr (s\<lparr>po_history := (po_history s)(b := (po_history s b)(q \<mapsto> r'))\<rparr>) \<and>
       ring_repr r' (add_snapshot \<lparr>pd_price = x, pd_timestamp = timestamp e\<rparr> h))"
proof -
  from reachable_history[OF assms(1)] assms(2) obtain h where h: "ring_repr r h" "sorted_wrt (<) (times h)"
    unfolding history_ok_def by blast
  have "get_price_at s b q u = ok_or (price_as_of u h) (Err PO_PriceHistoryNotAvailable)" for u
    using assms(2) latest_is_price_as_of[OF h, of u] by (simp add: get_price_at_def)
  moreover have "\<exists>r'. record_price_snapshot e s b q x = Inr (s\<lparr>po_history := (po_history s)(b := (po_history s b)(q \<mapsto> r'))\<rparr>) \<and>
      ring_repr r' (add_snapshot \<lparr>pd_price = x, pd_timestamp = timestamp e\<rparr> h)" for e x
  proof -
    obtain r' where "ring_push r \<lparr>pd_price = x, pd_timestamp = timestamp e\<rparr> = (Inr r' :: PriceHistoryRing po_result)"
      "ring_repr r' (add_snapshot \<lparr>pd_price = x, pd_timestamp = timestamp e\<rparr> h)"
      using ring_push_refines[OF h(1), of "\<lparr>pd_price = x, pd_timestamp = timestamp e\<rparr>"] by blast
    with assms(2) show ?thesis by (intro exI[of _ r']) (simp add: record_price_snapshot_def Let_def)
  qed
  ultimately show ?thesis using h by blast
qed

section \<open>Feeders that were removed\<close>

inductive po_runs :: "(po_op \<Rightarrow> bool) \<Rightarrow> po_state \<Rightarrow> po_state \<Rightarrow> bool" for allowed where
  po_stay: "po_runs allowed s s"
| po_go: "po_runs allowed s s1 \<Longrightarrow> allowed c \<Longrightarrow> po_exec e fb c s1 = Inr s2 \<Longrightarrow> po_runs allowed s s2"

lemma feeder_kept:
  assumes "po_exec e fb c s = Inr s'" "\<forall>a. c \<noteq> Po_add_feeder a f" "po_feeder s f \<noteq> Some True"
  shows "po_feeder s' f \<noteq> Some True \<and> (\<forall>b q. po_feeder_price s' b q f = po_feeder_price s b q f)"
proof (cases "\<exists>g b q x. c = Po_set_price g b q x")
  case True
  with assms(1) obtain g b q x where run: "set_price e fb s g b q x = Inr s'" by auto
  note c = set_price_cases[OF run]
  with assms(3) have "g \<noteq> f" by blast
  from c consider "check_peg s b q x = Inr (Some s')" | "s' = put_price e s g b q x"
    | y where "record_price_snapshot e (put_price e s g b q x) b q y = Inr s'" by blast
  then show ?thesis
  proof cases
    case 1
    from check_peg_Some[OF this] assms(3) show ?thesis by simp
  next
    case 2
    with \<open>g \<noteq> f\<close> assms(3) show ?thesis by (auto simp: put_price_def Let_def)
  next
    case 3
    from snapshot_books[OF this] have "po_feeder_price s' = po_feeder_price (put_price e s g b q x)" "po_feeder s' = po_feeder s"
      by (simp_all add: price_books_def put_price_def Let_def)
    with \<open>g \<noteq> f\<close> assms(3) show ?thesis by (simp add: put_price_books)
  qed
next
  case False
  with books_kept[OF assms(1)] have "po_feeder_price s' = po_feeder_price s" by (auto simp: price_books_def)
  moreover have "po_feeder s' f \<noteq> Some True"
    using assms False
    by (cases c) (auto simp: po_initialize_def po_set_access_control_def add_feeder_def remove_feeder_def
      set_base_currency_def set_max_deviation_def set_max_rate_change_per_update_def set_peg_config_def
      remove_peg_config_def clear_peg_flag_def drop_flag_def set_max_staleness_def set_min_fresh_feeders_def
      set_fallback_feed_def remove_fallback_feed_def po_transfer_admin_def po_propose_upgrade_def
      po_execute_upgrade_def split: if_splits)
  ultimately show ?thesis by simp
qed

lemma feeder_kept_on_runs:
  assumes "po_runs (\<lambda>c. \<forall>a. c \<noteq> Po_add_feeder a f) s s'" "po_feeder s f \<noteq> Some True"
  shows "po_feeder s' f \<noteq> Some True \<and> (\<forall>b q. po_feeder_price s' b q f = po_feeder_price s b q f)"
  using assms
proof (induction rule: po_runs.induct)
  case (po_go s s1 c e fb s2)
  from po_go.IH[OF po_go.prems] have "po_feeder s1 f \<noteq> Some True" by simp
  from feeder_kept[OF po_go.hyps(3,2) this] po_go.IH[OF po_go.prems] show ?case by simp
qed simp

text \<open>Removing a feeder does not remove its prices: no pair's price changes by the removal, and in
  whatever state the oracle gets to without adding the feeder again, its last prices stand unchanged
  and count in the median for as long as they are fresh, out of reach of feeder and admin.\<close>

theorem removed_feeder_keeps_its_price:
  assumes "remove_feeder e s a f = Inr s1" "po_runs (\<lambda>c. \<forall>a. c \<noteq> Po_add_feeder a f) s1 s2"
  shows "get_price e' fb s1 b q = get_price e' fb s b q \<and>
    po_feeder_price s2 b q f = po_feeder_price s b q f \<and>
    (\<forall>d. po_feeder_price s b q f = Some d \<and> timestamp e' - pd_timestamp d \<le> get_effective_staleness s2 b q \<longrightarrow>
       f \<in> active e' s2 b q)"
proof -
  have s1: "s1 = s\<lparr>po_feeder := (po_feeder s)(f := None)\<rparr>" using assms(1) by (simp add: remove_feeder_def)
  have same: "get_effective_staleness s1 = get_effective_staleness s" "feeders_of s1 = feeders_of s"
    "min_fresh_feeders_floor s1 = min_fresh_feeders_floor s" "po_fallback s1 = po_fallback s" "po_feeder_price s1 = po_feeder_price s"
    by (simp_all add: s1 get_effective_staleness_def feeders_of_def min_fresh_feeders_floor_def fun_eq_iff)
  have "get_price e' fb s1 b q = get_price e' fb s b q"
    unfolding get_price_def same by (rule refl)
  moreover have "po_feeder_price s2 b q f = po_feeder_price s1 b q f"
    using feeder_kept_on_runs[OF assms(2)] by (simp add: s1)
  ultimately show ?thesis by (auto simp: active_def s1)
qed

end
