(* ===== verification/Oracle_Example.thy ===== *)
theory Oracle_Example
  imports Oracle_Props
begin

text \<open>
  A concrete oracle: admin 10, access control 5, feeders 20, 21 and 22 that quote the pair USD/EUR,
  the last of them five times too high, a peg within one per cent of 2 on the pair USD/CHF.
\<close>

definition no_feed :: feed where "no_feed = (\<lambda>_ _ _. None)"

fun po_replay :: "(u64 \<times> po_op) list \<Rightarrow> po_state \<Rightarrow> po_state po_result" where
  "po_replay [] s = Inr s"
| "po_replay ((t, c) # cs) s = rbind (po_exec (sample_env\<lparr>timestamp := t\<rparr>) no_feed c s) (po_replay cs)"

lemma po_replay_reachable:
  "po_replay cs s = Inr s' \<Longrightarrow> po_reachable t s \<Longrightarrow> sorted (t # map fst cs) \<Longrightarrow> \<exists>t'. po_reachable t' s' \<and> t' \<le> last (t # map fst cs)"
proof (induction cs arbitrary: s t)
  case (Cons x cs)
  then obtain u c s1 where x: "x = (u, c)" "po_exec (sample_env\<lparr>timestamp := u\<rparr>) no_feed c s = Inr s1" "po_replay cs s1 = Inr s'"
    by (cases x) auto
  have "po_reachable u s1" using po_step[OF Cons.prems(2) _ x(2)] Cons.prems(3) x(1) by simp
  from Cons.IH[OF x(3) this] Cons.prems(3) x(1) show ?case by auto
qed auto

definition oracle_calls :: "(u64 \<times> po_op) list" where
  "oracle_calls =
     [(1000, Po_initialize 10 5), (1000, Po_add_feeder 10 20), (1000, Po_add_feeder 10 21), (1000, Po_add_feeder 10 22),
      (1000, Po_set_peg 10 ''USD'' ''CHF'' 20000000 100 True), (1000, Po_set_max_rate_change 10 ''USD'' ''EUR'' 500),
      (1000, Po_set_price 20 ''USD'' ''EUR'' 10000000), (1100, Po_set_price 21 ''USD'' ''EUR'' 10200000),
      (1200, Po_set_price 22 ''USD'' ''EUR'' 50000000)]"

named_theorems oracle_eval
lemmas [oracle_eval] = oracle_calls_def po_empty_def po_initialize_def add_feeder_def set_peg_config_def
  set_max_rate_change_per_update_def po_as_admin_def po_require_admin_def require_auth_def set_price_def require_feeder_def
  po_require_not_paused_def check_reciprocal_def attempt_def get_price_def get_effective_staleness_def feeders_of_def
  min_fresh_feeders_floor_def MIN_FRESH_FEEDERS_DEFAULT_def MAX_STALENESS_SECS_def check_rate_change_def check_peg_def
  put_price_def u64_sat_sub_def u64_max_def feeders_of_def
  i128_add_def i128_sub_def i128_mul_def i128_div_def i128_fit_def i128_min_def i128_max_def i128_abs_def distance_def
  mul_div_def record_price_snapshot_def ring_push_def vec_set_def PRICE_HISTORY_CAP_def u32_max_def no_feed_def

lemma three_halved: "Suc (Suc (Suc 0)) div 2 = 1" "Suc (Suc (Suc 0)) mod 2 = 1"
  by simp_all

lemma example_medians [oracle_eval]:
  "calculate_median [] = Inr 0"
  "calculate_median [10000000] = Inr 10000000"
  "calculate_median [10000000, 10200000] = Inr 10100000"
  "calculate_median [10000000, 10200000, 50000000] = Inr 10200000"
  "calculate_median [10100000, 10200000, 50000000] = Inr 10200000"
  by (simp_all add: calculate_median_def exchange_sort_def sort_round_def swap_if_less_def upt_rec i128_add_def i128_div_def
    i128_fit_def i128_min_def i128_max_def signed_divide_int_def three_halved Let_def)

definition usd_oracle :: po_state where
  "usd_oracle = (case po_replay oracle_calls po_empty of Inr s \<Rightarrow> s | _ \<Rightarrow> po_empty)"

lemma usd_oracle_replay: "po_replay oracle_calls po_empty = Inr usd_oracle"
  unfolding usd_oracle_def
  by (simp add: oracle_eval Let_def signed_divide_int_def upt_rec)

lemma usd_oracle_reachable: "\<exists>t. po_reachable t usd_oracle"
  using po_replay_reachable[OF usd_oracle_replay po_none[of 0]] by (auto simp: oracle_calls_def)

text \<open>What the pair of interest holds after these calls.\<close>

lemma usd_oracle_books:
  "po_feeder_price usd_oracle ''USD'' ''EUR'' =
     [20 \<mapsto> \<lparr>pd_price = 10000000, pd_timestamp = 1000\<rparr>, 21 \<mapsto> \<lparr>pd_price = 10200000, pd_timestamp = 1100\<rparr>,
      22 \<mapsto> \<lparr>pd_price = 50000000, pd_timestamp = 1200\<rparr>]"
  "po_price_feeders usd_oracle ''USD'' ''EUR'' = Some [20, 21, 22]"
  "po_history usd_oracle ''USD'' ''EUR'' = Some \<lparr>ph_slots = [\<lparr>pd_price = 10100000, pd_timestamp = 1100\<rparr>,
     \<lparr>pd_price = 10200000, pd_timestamp = 1200\<rparr>], ph_next = 2\<rparr>"
  "po_feeder usd_oracle = [20 \<mapsto> True, 21 \<mapsto> True, 22 \<mapsto> True]"
  "po_max_staleness usd_oracle = (\<lambda>_ _. None)" "po_min_fresh usd_oracle = None" "po_fallback usd_oracle = (\<lambda>_ _. None)"
  "po_peg_flagged usd_oracle = (\<lambda>_ _. None)" "po_max_rate_change usd_oracle ''USD'' ''EUR'' = Some 500"
  "po_peg usd_oracle ''USD'' ''EUR'' = None" "po_admin usd_oracle = Some 10" "po_access usd_oracle = Some 5"
  "po_price_feeders usd_oracle ''EUR'' ''USD'' = None"
  unfolding usd_oracle_def
  by (simp_all add: oracle_eval Let_def signed_divide_int_def upt_rec)

definition later :: env where
  "later = sample_env\<lparr>timestamp := 1300\<rparr>"

lemma later_active: "active later usd_oracle ''USD'' ''EUR'' = {20, 21, 22}"
  by (auto simp: active_def later_def usd_oracle_books get_effective_staleness_def MAX_STALENESS_SECS_def split: if_splits)

lemma later_price:
  "get_price later no_feed usd_oracle ''USD'' ''EUR'' = Inr \<lparr>pd_price = 10200000, pd_timestamp = 1000\<rparr>"
  by (simp add: oracle_eval usd_oracle_books later_def Let_def)

theorem median_resists_minority_witness:
  "\<exists>d. get_price later no_feed usd_oracle ''USD'' ''EUR'' = Inr d \<and>
     min_fresh_feeders_floor usd_oracle \<le> card (active later usd_oracle ''USD'' ''EUR'') \<and>
     10000000 \<le> pd_price d \<and> pd_price d \<le> 10200000"
proof -
  obtain t where t: "po_reachable t usd_oracle" using usd_oracle_reachable by blast
  have "{f \<in> active later usd_oracle ''USD'' ''EUR''. 10000000 \<le> quoted usd_oracle ''USD'' ''EUR'' f \<and>
      quoted usd_oracle ''USD'' ''EUR'' f \<le> 10200000} = {20, 21}"
    by (auto simp: later_active quoted_def usd_oracle_books)
  with median_resists_minority[OF t later_price, of 10000000 10200000] show ?thesis
    by (simp add: later_price later_active)
qed

theorem accepted_price_is_guarded_witness:
  "\<exists>s'. set_price later no_feed usd_oracle 20 ''USD'' ''EUR'' 10100000 = Inr s' \<and>
     po_feeder_price s' ''USD'' ''EUR'' 20 = Some \<lparr>pd_price = 10100000, pd_timestamp = 1300\<rparr>"
proof -
  obtain t where t: "po_reachable t usd_oracle" using usd_oracle_reachable by blast
  obtain s' where s': "set_price later no_feed usd_oracle 20 ''USD'' ''EUR'' 10100000 = Inr s'"
    "\<not> is_peg_flagged s' ''USD'' ''EUR''"
    by (simp add: oracle_eval usd_oracle_books later_def Let_def is_peg_flagged_def signed_divide_int_def upt_rec)
  from accepted_price_is_guarded[OF t s'(1)] s' show ?thesis by (simp add: later_def)
qed

theorem price_history_refines_witness:
  "\<exists>r h. po_history usd_oracle ''USD'' ''EUR'' = Some r \<and> ring_repr r h \<and> sorted_wrt (<) (times h)"
proof -
  obtain t where "po_reachable t usd_oracle" using usd_oracle_reachable by blast
  from price_history_refines[OF this usd_oracle_books(3)] show ?thesis using usd_oracle_books(3) by blast
qed

theorem removed_feeder_keeps_its_price_witness:
  "\<exists>s'. remove_feeder later usd_oracle 10 22 = Inr s' \<and> \<not> (po_feeder s' 22 = Some True) \<and>
     22 \<in> active later s' ''USD'' ''EUR''"
proof -
  obtain s' where s': "remove_feeder later usd_oracle 10 22 = Inr s'" "po_feeder s' 22 = None" "po_max_staleness s' = (\<lambda>_ _. None)"
    by (simp add: remove_feeder_def oracle_eval usd_oracle_books later_def)
  from removed_feeder_keeps_its_price[OF s'(1) po_stay, of later no_feed "''USD''" "''EUR''"] s' show ?thesis
    by (simp add: usd_oracle_books get_effective_staleness_def MAX_STALENESS_SECS_def later_def)
qed

end
