(* ===== verification/Parameter_Registry.thy ===== *)
theory Parameter_Registry
  imports Access_State
begin

text \<open>
  The parameter registry (\<open>contracts/parameter_registry/src/lib.rs\<close>): the governed parameters with
  their bounds, and the proposals of the signers that change them.  \<open>pm_state\<close> has one field per
  storage key.  The signers are those of the access control contract the registry is wired to:
  \<open>acs\<close> gives the state of the access control contract at an address, \<open>None\<close> where there is none.
  The source leaves out the arm of \<open>MinReserveRatioBps\<close> in the \<open>match\<close> that validates a value; what
  it would check is the argument \<open>arm\<close>.
\<close>

section \<open>Data\<close>

datatype RegistryError =
    PR_AlreadyInitialized | PR_NotInitialized | PR_NotAdmin | PR_NotGovernanceSigner | PR_ParamNotFound
  | PR_ParamValueOutOfBounds | PR_ProposalNotFound | PR_ProposalAlreadyExecuted | PR_ProposalExpired
  | PR_ProposalAlreadyApproved | PR_GovernanceThresholdNotMet | PR_GovernanceTimelockNotElapsed
  | PR_NoUpgradeProposed | PR_UpgradeTimelockNotElapsed | PR_DirectCallProhibited | PR_ArithmeticOverflow
  | PR_InvalidParameterValue | PR_NotMultisigSigner

type_synonym 'a pm_result = "(RegistryError, 'a) result"

definition GOVERNANCE_TIMELOCK :: u64 where "GOVERNANCE_TIMELOCK = UPGRADE_TIMELOCK_DELAY"
definition PROPOSAL_TTL_SECS :: u64 where "PROPOSAL_TTL_SECS = 7 * 86400"

record ParamProposal =
  pu_id :: u64
  pu_key :: RegistryParamKey
  pu_new_value :: i128
  pu_proposer :: address
  pu_approvals :: "address list"
  pu_proposed_at :: u64
  pu_executable_after :: u64
  pu_expires_at :: u64
  pu_executed :: bool
  pu_cancelled :: bool

record pm_state =
  pm_admin :: "address option"
  pm_pending_admin :: "address option"
  pm_access :: "address option"
  pm_upgrade :: "(bytes \<times> u64) option"
  pm_param :: "RegistryParamKey \<Rightarrow> RegistryParam option"
  pm_proposal :: "u64 \<Rightarrow> ParamProposal option"
  pm_next_proposal :: "u64 option"
  pm_audit :: audit_log

definition pm_empty :: pm_state where
  "pm_empty = \<lparr>pm_admin = None, pm_pending_admin = None, pm_access = None, pm_upgrade = None, pm_param = (\<lambda>_. None),
     pm_proposal = (\<lambda>_. None), pm_next_proposal = None, pm_audit = empty_audit\<rparr>"

type_synonym controls = "address \<Rightarrow> ac_state option"
type_synonym key_arm = "i128 \<Rightarrow> unit pm_result"

section \<open>Helpers\<close>

definition pm_require_admin :: "pm_state \<Rightarrow> address \<Rightarrow> unit pm_result" where
  "pm_require_admin s caller =
     rbind (ok_or (pm_admin s) (Err PR_NotInitialized)) (\<lambda>admin.
     if admin \<noteq> caller then Inl (Err PR_NotAdmin) else Inr ())"

definition pm_as_admin :: "env \<Rightarrow> pm_state \<Rightarrow> address \<Rightarrow> unit pm_result" where
  "pm_as_admin e s admin = rbind (require_auth e admin) (\<lambda>_. pm_require_admin s admin)"

text \<open>\<open>try_get_multisig_config\<close> of the access control, if one is wired and answers.\<close>

definition governance_config :: "controls \<Rightarrow> pm_state \<Rightarrow> MultisigConfig option" where
  "governance_config acs s =
     Option.bind (pm_access s) (\<lambda>a. Option.bind (acs a) (\<lambda>ac.
     case load_multisig_config ac of Inr cfg \<Rightarrow> Some cfg | Inl _ \<Rightarrow> None))"

definition require_governance_signer :: "controls \<Rightarrow> pm_state \<Rightarrow> address \<Rightarrow> unit pm_result" where
  "require_governance_signer acs s caller =
     (case governance_config acs s of
        Some cfg \<Rightarrow> if caller \<in> set (ms_signers cfg) then Inr () else Inl (Err PR_NotGovernanceSigner)
      | None \<Rightarrow> pm_require_admin s caller)"

definition governance_threshold :: "controls \<Rightarrow> pm_state \<Rightarrow> u32" where
  "governance_threshold acs s = (case governance_config acs s of Some cfg \<Rightarrow> ms_threshold cfg | None \<Rightarrow> 1)"

definition is_multisig_configured :: "controls \<Rightarrow> pm_state \<Rightarrow> bool" where
  "is_multisig_configured acs s \<longleftrightarrow> governance_config acs s \<noteq> None"

text \<open>The log of this contract: the head counts on, the slot is its remainder.\<close>

definition pm_audited :: "env \<Rightarrow> address \<Rightarrow> AdminActionType \<Rightarrow> pm_state \<Rightarrow> pm_state pm_result" where
  "pm_audited e actor action s =
     (let l = pm_audit s;
          head = (case al_head l of None \<Rightarrow> 0 | Some n \<Rightarrow> n);
          total = (case al_total l of None \<Rightarrow> 0 | Some n \<Rightarrow> n);
          entry = \<lparr>ae_sequence = total, ae_timestamp = timestamp e, ae_actor = actor, ae_action = action,
                   ae_source = AS_ParameterRegistry, ae_token = None, ae_amount = None\<rparr>;
          slot = head mod MAX_AUDIT_LOG_SIZE in
      rbind (ok_or (u64_add head 1) Trap) (\<lambda>h1.
      rbind (ok_or (u64_add total 1) Trap) (\<lambda>t1.
      Inr (s\<lparr>pm_audit := \<lparr>al_head = Some h1, al_total = Some t1, al_entries = (al_entries l)(slot \<mapsto> entry)\<rparr>\<rparr>))))"

section \<open>Parameters\<close>

definition write_param ::
  "env \<Rightarrow> address \<Rightarrow> RegistryParamKey \<Rightarrow> i128 \<Rightarrow> i128 \<Rightarrow> i128 \<Rightarrow> pm_state \<Rightarrow> pm_state" where
  "write_param e by_whom key v min_value max_value s =
     s\<lparr>pm_param := (pm_param s)(key \<mapsto> \<lparr>rp_value = v, rp_min_value = min_value, rp_max_value = max_value,
                                    rp_updated_at = timestamp e, rp_updated_by = by_whom\<rparr>)\<rparr>"

definition bootstrap_defaults :: "env \<Rightarrow> address \<Rightarrow> pm_state \<Rightarrow> pm_state" where
  "bootstrap_defaults e admin =
     fold (\<lambda>(key, v, min_value, max_value). write_param e admin key v min_value max_value)
       [(MarketplaceFeeBps, 50, 0, 10000), (ReferrerSplitBps, 1000, 0, 5000),
        (MinContributionAmount, 10000000, 0, i128_max div 2),
        (TierFeeAaa, 25, 0, 10000), (TierFeeAa, 35, 0, 10000), (TierFeeA, 50, 0, 10000), (TierFeeB, 75, 0, 10000),
        (TierFeeC, 100, 0, 10000), (LatePenaltyBps, 500, 0, 10000), (LatePenaltyTreasurySplitBps, 5000, 0, 10000),
        (MaxPositionBps, 5000, 1, 10000), (GracePeriodSecs, 7 * 86400, 0, 90 * 86400),
        (MinimumVerifierStake, 1000000000, 0, i128_max div 2), (SlashPercentageBps, 500, 0, 10000),
        (MinimumDebtorScore, 0, 0, 100), (TreasuryFeeBps, 50, 0, 10000), (ReserveAllocationBps, 1000, 0, 5000)]"

text \<open>The \<open>match\<close> on the key.\<close>

definition check_key :: "key_arm \<Rightarrow> RegistryParamKey \<Rightarrow> i128 \<Rightarrow> unit pm_result" where
  "check_key arm key v =
     (if key = MinReserveRatioBps then arm v
      else if key = MinimumDebtorScore then
        if v < 0 \<or> v > 100 then Inl (Err PR_ParamValueOutOfBounds) else Inr ()
      else if key = MinContributionAmount \<or> key = MinimumVerifierStake then
        if v < 0 then Inl (Err PR_ParamValueOutOfBounds) else Inr ()
      else if key = GracePeriodSecs then
        if v < 0 \<or> v > 90 * 86400 then Inl (Err PR_ParamValueOutOfBounds) else Inr ()
      else if v < 0 \<or> v > 10000 then Inl (Err PR_ParamValueOutOfBounds) else Inr ())"

definition validate_param_value :: "key_arm \<Rightarrow> pm_state \<Rightarrow> RegistryParamKey \<Rightarrow> i128 \<Rightarrow> unit pm_result" where
  "validate_param_value arm s key v =
     rbind (case pm_param s key of
              None \<Rightarrow> Inr ()
            | Some existing \<Rightarrow>
                if rp_max_value existing > 0 \<and> v > rp_max_value existing then Inl (Err PR_ParamValueOutOfBounds)
                else if v < rp_min_value existing then Inl (Err PR_ParamValueOutOfBounds) else Inr ())
       (\<lambda>_. check_key arm key v)"

definition apply_param_update ::
  "key_arm \<Rightarrow> env \<Rightarrow> address \<Rightarrow> RegistryParamKey \<Rightarrow> i128 \<Rightarrow> pm_state \<Rightarrow> pm_state pm_result" where
  "apply_param_update arm e by_whom key v s =
     rbind (validate_param_value arm s key v) (\<lambda>_.
     let (min_value, max_value) = (case pm_param s key of None \<Rightarrow> (0, 0) | Some p \<Rightarrow> (rp_min_value p, rp_max_value p)) in
     Inr (write_param e by_whom key v min_value max_value s))"

definition get_value :: "pm_state \<Rightarrow> RegistryParamKey \<Rightarrow> i128" where
  "get_value s key = (case pm_param s key of None \<Rightarrow> 0 | Some p \<Rightarrow> rp_value p)"

definition get_values_batch :: "pm_state \<Rightarrow> RegistryParamKey list \<Rightarrow> (RegistryParamKey \<times> i128) list" where
  "get_values_batch s keys = map (\<lambda>key. (key, get_value s key)) keys"

section \<open>Entry points\<close>

definition pm_initialize :: "env \<Rightarrow> pm_state \<Rightarrow> address \<Rightarrow> address option \<Rightarrow> pm_state pm_result" where
  "pm_initialize e s admin access =
     (if pm_admin s \<noteq> None then Inl (Err PR_AlreadyInitialized)
      else
        rbind (require_auth e admin) (\<lambda>_.
        let s = s\<lparr>pm_admin := Some admin\<rparr>;
            s = (case access of None \<Rightarrow> s | Some ac \<Rightarrow> s\<lparr>pm_access := Some ac\<rparr>) in
        Inr (bootstrap_defaults e admin (s\<lparr>pm_next_proposal := Some 1\<rparr>))))"

definition pm_set_access_control :: "env \<Rightarrow> pm_state \<Rightarrow> address \<Rightarrow> address \<Rightarrow> pm_state pm_result" where
  "pm_set_access_control e s admin access =
     rbind (pm_as_admin e s admin) (\<lambda>_. Inr (s\<lparr>pm_access := Some access\<rparr>))"

definition admin_set_parameter ::
  "controls \<Rightarrow> key_arm \<Rightarrow> env \<Rightarrow> pm_state \<Rightarrow> address \<Rightarrow> RegistryParamKey \<Rightarrow> i128 \<Rightarrow> pm_state pm_result" where
  "admin_set_parameter acs arm e s admin key v =
     rbind (pm_as_admin e s admin) (\<lambda>_.
     if is_multisig_configured acs s then Inl (Err PR_DirectCallProhibited)
     else apply_param_update arm e admin key v s)"

definition put_update :: "u64 \<Rightarrow> ParamProposal \<Rightarrow> pm_state \<Rightarrow> pm_state" where
  "put_update n p s = s\<lparr>pm_proposal := (pm_proposal s)(n \<mapsto> p)\<rparr>"

definition propose_param_update ::
  "controls \<Rightarrow> key_arm \<Rightarrow> env \<Rightarrow> pm_state \<Rightarrow> address \<Rightarrow> RegistryParamKey \<Rightarrow> i128 \<Rightarrow> (pm_state \<times> u64) pm_result" where
  "propose_param_update acs arm e s proposer key v =
     rbind (require_auth e proposer) (\<lambda>_.
     rbind (require_governance_signer acs s proposer) (\<lambda>_.
     rbind (validate_param_value arm s key v) (\<lambda>_.
     let n = (case pm_next_proposal s of None \<Rightarrow> 1 | Some k \<Rightarrow> k) in
     rbind (ok_or (u64_add (timestamp e) GOVERNANCE_TIMELOCK) (Err PR_ArithmeticOverflow)) (\<lambda>executable.
     rbind (ok_or (u64_add (timestamp e) PROPOSAL_TTL_SECS) (Err PR_ArithmeticOverflow)) (\<lambda>expires.
     let p = \<lparr>pu_id = n, pu_key = key, pu_new_value = v, pu_proposer = proposer, pu_approvals = [proposer],
              pu_proposed_at = timestamp e, pu_executable_after = executable, pu_expires_at = expires,
              pu_executed = False, pu_cancelled = False\<rparr>;
         s = put_update n p s in
     rbind (ok_or (u64_add n 1) (Err PR_ArithmeticOverflow)) (\<lambda>n1.
     rbind (pm_audited e proposer AA_RegistryProposeParam (s\<lparr>pm_next_proposal := Some n1\<rparr>)) (\<lambda>s.
     Inr (s, n))))))))"

text \<open>The proposal under a number that is neither settled nor expired.\<close>

definition pending_update :: "env \<Rightarrow> pm_state \<Rightarrow> u64 \<Rightarrow> ParamProposal pm_result" where
  "pending_update e s n =
     rbind (ok_or (pm_proposal s n) (Err PR_ProposalNotFound)) (\<lambda>p.
     if pu_executed p \<or> pu_cancelled p then Inl (Err PR_ProposalAlreadyExecuted)
     else if timestamp e > pu_expires_at p then Inl (Err PR_ProposalExpired)
     else Inr p)"

definition approve_param_update :: "controls \<Rightarrow> env \<Rightarrow> pm_state \<Rightarrow> address \<Rightarrow> u64 \<Rightarrow> pm_state pm_result" where
  "approve_param_update acs e s approver n =
     rbind (require_auth e approver) (\<lambda>_.
     rbind (require_governance_signer acs s approver) (\<lambda>_.
     rbind (pending_update e s n) (\<lambda>p.
     if approver \<in> set (pu_approvals p) then Inl (Err PR_ProposalAlreadyApproved)
     else pm_audited e approver AA_RegistryApproveParam
            (put_update n (p\<lparr>pu_approvals := pu_approvals p @ [approver]\<rparr>) s))))"

definition execute_param_update ::
  "controls \<Rightarrow> key_arm \<Rightarrow> env \<Rightarrow> pm_state \<Rightarrow> address \<Rightarrow> u64 \<Rightarrow> pm_state pm_result" where
  "execute_param_update acs arm e s executor n =
     rbind (require_auth e executor) (\<lambda>_.
     rbind (require_governance_signer acs s executor) (\<lambda>_.
     rbind (pending_update e s n) (\<lambda>p.
     if length (pu_approvals p) < governance_threshold acs s then Inl (Err PR_GovernanceThresholdNotMet)
     else if timestamp e < pu_executable_after p then Inl (Err PR_GovernanceTimelockNotElapsed)
     else
       rbind (apply_param_update arm e executor (pu_key p) (pu_new_value p) (put_update n (p\<lparr>pu_executed := True\<rparr>) s)) (\<lambda>s.
       pm_audited e executor AA_RegistryExecuteParam s))))"

definition cancel_param_update :: "env \<Rightarrow> pm_state \<Rightarrow> address \<Rightarrow> u64 \<Rightarrow> pm_state pm_result" where
  "cancel_param_update e s caller n =
     rbind (require_auth e caller) (\<lambda>_.
     rbind (ok_or (pm_proposal s n) (Err PR_ProposalNotFound)) (\<lambda>p.
     if pu_executed p \<or> pu_cancelled p then Inl (Err PR_ProposalAlreadyExecuted)
     else
       rbind (ok_or (pm_admin s) (Err PR_NotInitialized)) (\<lambda>admin.
       if caller \<noteq> pu_proposer p \<and> caller \<noteq> admin then Inl (Err PR_NotAdmin)
       else pm_audited e caller AA_RegistryCancelParam (put_update n (p\<lparr>pu_cancelled := True\<rparr>) s))))"

definition pm_propose_upgrade :: "env \<Rightarrow> pm_state \<Rightarrow> address \<Rightarrow> bytes \<Rightarrow> pm_state pm_result" where
  "pm_propose_upgrade e s admin h =
     rbind (pm_as_admin e s admin) (\<lambda>_. Inr (s\<lparr>pm_upgrade := Some (h, timestamp e)\<rparr>))"

definition pm_execute_upgrade :: "env \<Rightarrow> pm_state \<Rightarrow> address \<Rightarrow> (pm_state \<times> bytes) pm_result" where
  "pm_execute_upgrade e s admin =
     rbind (pm_as_admin e s admin) (\<lambda>_.
     rbind (ok_or (pm_upgrade s) (Err PR_NoUpgradeProposed)) (\<lambda>(h, proposed_at).
     rbind (ok_or (u64_add proposed_at UPGRADE_TIMELOCK_DELAY) Trap) (\<lambda>ready.
     if timestamp e < ready then Inl (Err PR_UpgradeTimelockNotElapsed)
     else Inr (s\<lparr>pm_upgrade := None\<rparr>, h))))"

definition pm_propose_admin :: "env \<Rightarrow> pm_state \<Rightarrow> address \<Rightarrow> address \<Rightarrow> pm_state pm_result" where
  "pm_propose_admin e s admin new_admin =
     rbind (pm_as_admin e s admin) (\<lambda>_. Inr (s\<lparr>pm_pending_admin := Some new_admin\<rparr>))"

definition pm_accept_admin :: "env \<Rightarrow> pm_state \<Rightarrow> address \<Rightarrow> pm_state pm_result" where
  "pm_accept_admin e s new_admin =
     rbind (require_auth e new_admin) (\<lambda>_.
     rbind (ok_or (pm_pending_admin s) (Err PR_NotInitialized)) (\<lambda>pending.
     if pending \<noteq> new_admin then Inl (Err PR_NotAdmin)
     else Inr (s\<lparr>pm_admin := Some new_admin, pm_pending_admin := None\<rparr>)))"

end
