(* ===== verification/Parameter_Props.thy ===== *)
theory Parameter_Props
  imports Parameter_Registry Kora_Ballot Market_State
begin

text \<open>
  The parameter registry over its runs: every governed parameter lies within its declared bounds, it
  moves only with the admin alone or with a quorum of signers and after the timelock, a proposal
  runs once, and what the pool and the marketplace charge is what the registry says.  Between two
  calls the access control contracts may change in any way.
\<close>

section \<open>Calls and runs\<close>

datatype (plugins only: code) pm_op =
    Pm_initialize address "address option"
  | Pm_set_access address address
  | Pm_admin_set address RegistryParamKey i128
  | Pm_propose address RegistryParamKey i128
  | Pm_approve address u64
  | Pm_execute address u64
  | Pm_cancel address u64
  | Pm_propose_upgrade address bytes
  | Pm_execute_upgrade address
  | Pm_propose_admin address address
  | Pm_accept_admin address

fun pm_exec :: "key_arm \<Rightarrow> controls \<Rightarrow> env \<Rightarrow> pm_op \<Rightarrow> pm_state \<Rightarrow> pm_state pm_result" where
  "pm_exec arm acs e (Pm_initialize a ac) s = pm_initialize e s a ac"
| "pm_exec arm acs e (Pm_set_access a ac) s = pm_set_access_control e s a ac"
| "pm_exec arm acs e (Pm_admin_set a k v) s = admin_set_parameter acs arm e s a k v"
| "pm_exec arm acs e (Pm_propose a k v) s = rbind (propose_param_update acs arm e s a k v) (\<lambda>(s, _). Inr s)"
| "pm_exec arm acs e (Pm_approve a n) s = approve_param_update acs e s a n"
| "pm_exec arm acs e (Pm_execute a n) s = execute_param_update acs arm e s a n"
| "pm_exec arm acs e (Pm_cancel a n) s = cancel_param_update e s a n"
| "pm_exec arm acs e (Pm_propose_upgrade a h) s = pm_propose_upgrade e s a h"
| "pm_exec arm acs e (Pm_execute_upgrade a) s = rbind (pm_execute_upgrade e s a) (\<lambda>(s, _). Inr s)"
| "pm_exec arm acs e (Pm_propose_admin a b) s = pm_propose_admin e s a b"
| "pm_exec arm acs e (Pm_accept_admin a) s = pm_accept_admin e s a"

inductive pm_runs :: "key_arm \<Rightarrow> pm_state \<Rightarrow> pm_state \<Rightarrow> bool" for arm where
  pm_none: "pm_runs arm s s"
| pm_step: "pm_runs arm s s1 \<Longrightarrow> pm_exec arm acs e c s1 = Inr s2 \<Longrightarrow> pm_runs arm s s2"

definition pm_reachable :: "key_arm \<Rightarrow> pm_state \<Rightarrow> bool" where
  "pm_reachable arm s \<longleftrightarrow> pm_runs arm pm_empty s"

lemma pm_runs_invariant:
  assumes "pm_runs arm s s'" "I s" "\<And>acs e c u u'. I u \<Longrightarrow> pm_exec arm acs e c u = Inr u' \<Longrightarrow> I u'"
  shows "I s'"
  using assms by (induction rule: pm_runs.induct) blast+

lemma pm_runs_trans: "pm_runs arm s t \<Longrightarrow> pm_runs arm t u \<Longrightarrow> pm_runs arm s u"
  by (rotate_tac, induction rule: pm_runs.induct) (blast intro: pm_step)+

section \<open>What a successful call does\<close>

lemma pm_helpers_Inr [simp]:
  "pm_require_admin s a = Inr u \<longleftrightarrow> pm_admin s = Some a"
  "pm_as_admin e s a = Inr u \<longleftrightarrow> authorised e a \<and> pm_admin s = Some a"
  "pending_update e s n = Inr p \<longleftrightarrow>
     pm_proposal s n = Some p \<and> \<not> pu_executed p \<and> \<not> pu_cancelled p \<and> timestamp e \<le> pu_expires_at p"
  by (auto simp: pm_require_admin_def pm_as_admin_def pending_update_def split: if_splits)

lemma pm_audited_same [simp]:
  assumes "pm_audited e a x s = Inr s'"
  shows "pm_admin s' = pm_admin s" "pm_pending_admin s' = pm_pending_admin s" "pm_access s' = pm_access s"
    "pm_param s' = pm_param s" "pm_proposal s' = pm_proposal s" "pm_next_proposal s' = pm_next_proposal s"
  using assms by (auto simp: pm_audited_def Let_def)

lemma write_param_same [simp]:
  "pm_admin (write_param e a k v lo hi s) = pm_admin s" "pm_access (write_param e a k v lo hi s) = pm_access s"
  "pm_proposal (write_param e a k v lo hi s) = pm_proposal s" "pm_pending_admin (write_param e a k v lo hi s) = pm_pending_admin s"
  "pm_next_proposal (write_param e a k v lo hi s) = pm_next_proposal s"
  by (simp_all add: write_param_def)

lemma put_update_same [simp]:
  "pm_admin (put_update n p s) = pm_admin s" "pm_pending_admin (put_update n p s) = pm_pending_admin s" "pm_param (put_update n p s) = pm_param s"
  "pm_proposal (put_update n p s) = (pm_proposal s)(n \<mapsto> p)" "pm_next_proposal (put_update n p s) = pm_next_proposal s"
  by (simp_all add: put_update_def)

lemma bootstrap_same [simp]:
  "pm_admin (bootstrap_defaults e a s) = pm_admin s" "pm_proposal (bootstrap_defaults e a s) = pm_proposal s"
  "pm_next_proposal (bootstrap_defaults e a s) = pm_next_proposal s" "pm_access (bootstrap_defaults e a s) = pm_access s"
  "pm_audit (bootstrap_defaults e a s) = pm_audit s"
  by (simp_all add: bootstrap_defaults_def write_param_def)

text \<open>An update that is applied: the value passes the stored bounds and the check of its key.\<close>

lemma apply_param_updateE:
  assumes "apply_param_update arm e a k v s = Inr s'"
  shows "s' = s\<lparr>pm_param := pm_param s'\<rparr>"
    and "validate_param_value arm s k v = Inr ()"
    and "\<exists>p. pm_param s' = (pm_param s)(k \<mapsto> p) \<and> rp_value p = v \<and>
      (\<forall>q. pm_param s k = Some q \<longrightarrow> rp_min_value p = rp_min_value q \<and> rp_max_value p = rp_max_value q)"
  using assms by (auto simp: apply_param_update_def write_param_def split: option.splits)

lemma validate_in_bounds:
  assumes "validate_param_value arm s k v = Inr ()" "pm_param s k = Some p" "0 < rp_max_value p"
  shows "rp_min_value p \<le> v \<and> v \<le> rp_max_value p"
  using assms by (auto simp: validate_param_value_def split: if_splits)

lemma propose_param_updateE:
  assumes "propose_param_update acs arm e s a k v = Inr (s', n)"
  shows "authorised e a \<and> require_governance_signer acs s a = Inr () \<and> validate_param_value arm s k v = Inr () \<and>
    n = (case pm_next_proposal s of None \<Rightarrow> 1 | Some m \<Rightarrow> m) \<and> pm_admin s' = pm_admin s \<and> pm_access s' = pm_access s \<and>
    pm_pending_admin s' = pm_pending_admin s \<and> pm_param s' = pm_param s \<and> pm_next_proposal s' = Some (n + 1) \<and>
    pm_proposal s' = (pm_proposal s)(n \<mapsto> \<lparr>pu_id = n, pu_key = k, pu_new_value = v, pu_proposer = a, pu_approvals = [a],
      pu_proposed_at = timestamp e, pu_executable_after = timestamp e + GOVERNANCE_TIMELOCK,
      pu_expires_at = timestamp e + PROPOSAL_TTL_SECS, pu_executed = False, pu_cancelled = False\<rparr>)"
  using assms by (auto simp: propose_param_update_def put_update_def Let_def dest: pm_audited_same)

lemma execute_param_updateE:
  assumes "execute_param_update acs arm e s x n = Inr s'"
  obtains p where "authorised e x" "require_governance_signer acs s x = Inr ()" "pending_update e s n = Inr p"
    "governance_threshold acs s \<le> length (pu_approvals p)" "pu_executable_after p \<le> timestamp e"
    "\<exists>s1. apply_param_update arm e x (pu_key p) (pu_new_value p) (put_update n (p\<lparr>pu_executed := True\<rparr>) s) = Inr s1 \<and>
       pm_audited e x AA_RegistryExecuteParam s1 = Inr s'"
  using assms by (auto simp: execute_param_update_def split: if_splits)

section \<open>Values within their bounds\<close>

text \<open>The range each parameter is declared with; the source gives \<open>MinReserveRatioBps\<close> none.\<close>

fun declared_bounds :: "RegistryParamKey \<Rightarrow> i128 \<times> i128" where
  "declared_bounds ReferrerSplitBps = (0, 5000)"
| "declared_bounds ReserveAllocationBps = (0, 5000)"
| "declared_bounds MinContributionAmount = (0, i128_max div 2)"
| "declared_bounds MinimumVerifierStake = (0, i128_max div 2)"
| "declared_bounds MaxPositionBps = (1, 10000)"
| "declared_bounds GracePeriodSecs = (0, 90 * 86400)"
| "declared_bounds MinimumDebtorScore = (0, 100)"
| "declared_bounds _ = (0, 10000)"

definition in_bounds :: "RegistryParamKey \<Rightarrow> RegistryParam \<Rightarrow> bool" where
  "in_bounds k p \<longleftrightarrow> (rp_min_value p, rp_max_value p) = declared_bounds k \<and>
     rp_min_value p \<le> rp_value p \<and> rp_value p \<le> rp_max_value p"

definition params_ok :: "pm_state \<Rightarrow> bool" where
  "params_ok s \<longleftrightarrow> (pm_pending_admin s \<noteq> None \<longrightarrow> pm_admin s \<noteq> None) \<and> (pm_admin s \<noteq> None \<longrightarrow>
     (\<forall>k. k \<noteq> MinReserveRatioBps \<longrightarrow> (\<exists>p. pm_param s k = Some p \<and> in_bounds k p)))"

lemma params_ok_same:
  "params_ok s \<Longrightarrow> pm_param s' = pm_param s \<Longrightarrow> pm_admin s' = pm_admin s \<Longrightarrow> pm_pending_admin s' = pm_pending_admin s \<Longrightarrow> params_ok s'"
  by (simp add: params_ok_def)

lemma declared_bounds_positive: "0 < snd (declared_bounds k)"
  by (cases k) (simp_all add: i128_max_def)

lemma bootstrap_in_bounds:
  "k \<noteq> MinReserveRatioBps \<Longrightarrow> \<exists>p. pm_param (bootstrap_defaults e a s) k = Some p \<and> in_bounds k p"
  by (cases k) (simp_all add: bootstrap_defaults_def write_param_def in_bounds_def i128_max_def)

lemma apply_keeps_params_ok:
  assumes "apply_param_update arm e a k v s = Inr s'" "params_ok s"
  shows "params_ok s'"
proof -
  note ap = apply_param_updateE[OF assms(1)]
  from ap(3) obtain p where p: "pm_param s' = (pm_param s)(k \<mapsto> p)" "rp_value p = v"
    "\<And>q. pm_param s k = Some q \<Longrightarrow> rp_min_value p = rp_min_value q \<and> rp_max_value p = rp_max_value q" by blast
  have "pm_admin s' = pm_admin s" "pm_pending_admin s' = pm_pending_admin s" by (subst ap(1), simp)+
  moreover have "in_bounds k p" if "pm_param s k = Some q" "in_bounds k q" for q
    using p(2) p(3)[OF that(1)] that validate_in_bounds[OF ap(2) that(1)] declared_bounds_positive[of k]
    by (auto simp: in_bounds_def) (metis snd_conv)+
  ultimately show ?thesis using assms(2) p(1) by (auto simp: params_ok_def)
qed

lemma exec_keeps_params_ok:
  assumes "params_ok s" "pm_exec arm acs e c s = Inr s'"
  shows "params_ok s'"
proof (cases c)
  case (Pm_initialize a ac)
  with assms(2) bootstrap_in_bounds show ?thesis by (auto simp: pm_initialize_def params_ok_def Let_def split: option.splits)
next
  case (Pm_admin_set a k v)
  with assms(2) have "apply_param_update arm e a k v s = Inr s'" by (auto simp: admin_set_parameter_def split: if_splits)
  from apply_keeps_params_ok[OF this assms(1)] show ?thesis .
next
  case (Pm_propose a k v)
  with assms(2) obtain n where "propose_param_update acs arm e s a k v = Inr (s', n)" by auto
  from propose_param_updateE[OF this] show ?thesis by (intro params_ok_same[OF assms(1)]) simp_all
next
  case (Pm_execute x n)
  with assms(2) obtain p s1 where "apply_param_update arm e x (pu_key p) (pu_new_value p) (put_update n (p\<lparr>pu_executed := True\<rparr>) s) = Inr s1"
    "pm_audited e x AA_RegistryExecuteParam s1 = Inr s'" by (auto elim!: execute_param_updateE)
  moreover have "params_ok (put_update n (p\<lparr>pu_executed := True\<rparr>) s)" by (rule params_ok_same[OF assms(1)]) auto
  ultimately show ?thesis by (auto intro: params_ok_same dest: apply_keeps_params_ok)
qed (use assms in \<open>auto simp: pm_set_access_control_def approve_param_update_def cancel_param_update_def
    pm_propose_upgrade_def pm_execute_upgrade_def pm_propose_admin_def pm_accept_admin_def params_ok_def split: if_splits\<close>)

lemma reachable_params_ok: "pm_reachable arm s \<Longrightarrow> params_ok s"
  unfolding pm_reachable_def
proof (erule pm_runs_invariant)
  show "params_ok pm_empty" by (simp add: params_ok_def pm_empty_def)
qed (rule exec_keeps_params_ok)

text \<open>C22: In every reachable state of an initialised registry every parameter the source gives a
  default exists, keeps the bounds it was declared with, and has a value within them.\<close>

theorem parameters_within_bounds:
  assumes "pm_reachable arm s" "pm_admin s \<noteq> None" "k \<noteq> MinReserveRatioBps"
  shows "\<exists>p. pm_param s k = Some p \<and> get_value s k = rp_value p \<and>
    (rp_min_value p, rp_max_value p) = declared_bounds k \<and>
    fst (declared_bounds k) \<le> get_value s k \<and> get_value s k \<le> snd (declared_bounds k)"
proof -
  from reachable_params_ok[OF assms(1)] assms(2,3) obtain p where p: "pm_param s k = Some p" "in_bounds k p"
    unfolding params_ok_def by blast
  then have "(rp_min_value p, rp_max_value p) = declared_bounds k" by (simp add: in_bounds_def)
  with p show ?thesis by (metis get_value_def in_bounds_def option.simps(5) fst_conv snd_conv)
qed

section \<open>The book of proposals\<close>

definition open_update :: "u64 \<Rightarrow> ParamProposal \<Rightarrow> pm_state \<Rightarrow> pm_state" where
  "open_update n p s = (put_update n p s)\<lparr>pm_next_proposal := Some (n + 1)\<rparr>"

definition next_update :: "pm_state \<Rightarrow> u64" where
  "next_update s = (case pm_next_proposal s of None \<Rightarrow> 1 | Some n \<Rightarrow> n)"

interpretation updates: ballot next_update pm_proposal put_update open_update pu_approvals
    "\<lambda>p. (pu_key p, pu_new_value p, pu_proposed_at p, pu_executable_after p, pu_expires_at p)"
    "\<lambda>p. pu_executed p \<or> pu_cancelled p"
  by unfold_locales (simp_all add: put_update_def open_update_def next_update_def)

text \<open>Every proposal waits for the timelock.\<close>

definition timelocked :: "pm_state \<Rightarrow> bool" where
  "timelocked s \<longleftrightarrow> (\<forall>n p. pm_proposal s n = Some p \<longrightarrow> pu_executable_after p = pu_proposed_at p + GOVERNANCE_TIMELOCK)"

lemma timelocked_kept:
  assumes "updates.book_kept s s'" "timelocked s"
    and "\<And>n p. pm_proposal s' n = Some p \<Longrightarrow> pm_proposal s n = None \<Longrightarrow> pu_executable_after p = pu_proposed_at p + GOVERNANCE_TIMELOCK"
  shows "timelocked s'"
  unfolding timelocked_def
proof (intro allI impI)
  fix n p assume p: "pm_proposal s' n = Some p"
  show "pu_executable_after p = pu_proposed_at p + GOVERNANCE_TIMELOCK"
  proof (cases "pm_proposal s n")
    case (Some q)
    with assms(1) p have "pu_executable_after p = pu_executable_after q \<and> pu_proposed_at p = pu_proposed_at q"
      unfolding updates.book_kept_def by fastforce
    with assms(2) Some show ?thesis by (auto simp: timelocked_def)
  qed (rule assms(3)[OF p])
qed

lemma same_book_step: "pm_proposal s' = pm_proposal s \<Longrightarrow> pm_next_proposal s' = pm_next_proposal s \<Longrightarrow> updates.book_step s s'"
  by (rule updates.same_step) (simp_all add: next_update_def)

lemma exec_book_step:
  assumes "pm_exec arm acs e c s = Inr s'" "pm_admin s \<noteq> None \<or> pm_proposal s = (\<lambda>_. None)"
  shows "updates.book_step s s'"
proof (cases c)
  case (Pm_initialize a ac)
  with assms have "pm_proposal s' = (\<lambda>_. None)" by (auto simp: pm_initialize_def Let_def split: option.splits)
  moreover have "pm_proposal s = (\<lambda>_. None)" using assms Pm_initialize by (auto simp: pm_initialize_def split: if_splits)
  ultimately show ?thesis by (auto simp: updates.book_step_def updates.book_ok_def updates.book_kept_def)
next
  case (Pm_propose a k v)
  with assms(1) obtain n where "propose_param_update acs arm e s a k v = Inr (s', n)" by auto
  note pr = propose_param_updateE[OF this]
  let ?p = "\<lparr>pu_id = n, pu_key = k, pu_new_value = v, pu_proposer = a, pu_approvals = [a],
      pu_proposed_at = timestamp e, pu_executable_after = timestamp e + GOVERNANCE_TIMELOCK,
      pu_expires_at = timestamp e + PROPOSAL_TTL_SECS, pu_executed = False, pu_cancelled = False\<rparr>"
  from pr have n: "n = next_update s" by (simp add: next_update_def)
  have "updates.book_step s (open_update n ?p s)" unfolding n by (rule updates.open_step) simp
  moreover have "updates.book_step (open_update n ?p s) s'" by (rule same_book_step) (use pr in \<open>simp_all add: open_update_def\<close>)
  ultimately show ?thesis by (rule updates.book_step_trans)
next
  case (Pm_approve a n)
  with assms(1) obtain p where p: "pm_proposal s n = Some p" "a \<notin> set (pu_approvals p)" "\<not> (pu_executed p \<or> pu_cancelled p)"
    "pm_audited e a AA_RegistryApproveParam (put_update n (p\<lparr>pu_approvals := pu_approvals p @ [a]\<rparr>) s) = Inr s'"
    by (auto simp: approve_param_update_def split: if_splits)
  have "updates.book_step s (put_update n (p\<lparr>pu_approvals := pu_approvals p @ [a]\<rparr>) s)"
    by (rule updates.put_step[OF p(1)]) (use p in auto)
  moreover have "updates.book_step (put_update n (p\<lparr>pu_approvals := pu_approvals p @ [a]\<rparr>) s) s'"
    by (rule same_book_step) (use p(4) in \<open>simp_all del: put_update_same\<close>)
  ultimately show ?thesis by (rule updates.book_step_trans)
next
  case (Pm_execute x n)
  with assms(1) obtain p s1 where p: "pending_update e s n = Inr p"
    "apply_param_update arm e x (pu_key p) (pu_new_value p) (put_update n (p\<lparr>pu_executed := True\<rparr>) s) = Inr s1"
    "pm_audited e x AA_RegistryExecuteParam s1 = Inr s'" by (auto elim!: execute_param_updateE)
  have "updates.book_step s (put_update n (p\<lparr>pu_executed := True\<rparr>) s)"
    by (rule updates.put_step[of _ _ p]) (use p(1) in auto)
  moreover have "updates.book_step (put_update n (p\<lparr>pu_executed := True\<rparr>) s) s'"
    by (rule same_book_step, subst pm_audited_same(5)[OF p(3)], subst apply_param_updateE(1)[OF p(2)], simp,
        subst pm_audited_same(6)[OF p(3)], subst apply_param_updateE(1)[OF p(2)], simp)
  ultimately show ?thesis by (rule updates.book_step_trans)
next
  case (Pm_cancel a n)
  with assms(1) obtain p where p: "pm_proposal s n = Some p"
    "pm_audited e a AA_RegistryCancelParam (put_update n (p\<lparr>pu_cancelled := True\<rparr>) s) = Inr s'"
    by (auto simp: cancel_param_update_def split: if_splits)
  have "updates.book_step s (put_update n (p\<lparr>pu_cancelled := True\<rparr>) s)"
    by (rule updates.put_step[OF p(1)]) auto
  moreover have "updates.book_step (put_update n (p\<lparr>pu_cancelled := True\<rparr>) s) s'"
    by (rule same_book_step) (use p(2) in \<open>simp_all del: put_update_same\<close>)
  ultimately show ?thesis by (rule updates.book_step_trans)
qed (use assms(1) in \<open>auto intro!: same_book_step simp: pm_set_access_control_def admin_set_parameter_def apply_param_update_def
    pm_propose_upgrade_def pm_execute_upgrade_def pm_propose_admin_def pm_accept_admin_def split: if_splits option.splits\<close>)

text \<open>Before it is initialised the registry holds nothing, afterwards it always has an admin.\<close>

definition blank_or_run :: "pm_state \<Rightarrow> bool" where
  "blank_or_run s \<longleftrightarrow> pm_admin s = None \<longrightarrow> pm_access s = None \<and> pm_pending_admin s = None \<and> pm_proposal s = (\<lambda>_. None)"

lemma blank_refuses:
  assumes "pm_admin s = None" "pm_access s = None" "pm_pending_admin s = None" "pm_proposal s = (\<lambda>_. None)"
    "pm_exec arm acs e c s = Inr s'"
  shows "pm_admin s' \<noteq> None"
  using assms
  by (cases c) (auto simp: pm_initialize_def pm_set_access_control_def admin_set_parameter_def propose_param_update_def
    approve_param_update_def execute_param_update_def cancel_param_update_def pm_propose_upgrade_def pm_execute_upgrade_def
    pm_propose_admin_def pm_accept_admin_def require_governance_signer_def governance_config_def Let_def split: option.splits)

lemma pm_admin_stays:
  assumes "pm_exec arm acs e c s = Inr s'" "pm_admin s = Some a"
  shows "pm_admin s' \<noteq> None"
proof (cases c)
  case (Pm_propose x k v)
  with assms(1) obtain n where "propose_param_update acs arm e s x k v = Inr (s', n)" by auto
  from propose_param_updateE[OF this] assms(2) show ?thesis by simp
next
  case (Pm_execute x n)
  with assms(1) obtain p s1 where p: "apply_param_update arm e x (pu_key p) (pu_new_value p) (put_update n (p\<lparr>pu_executed := True\<rparr>) s) = Inr s1"
    "pm_audited e x AA_RegistryExecuteParam s1 = Inr s'" by (auto elim!: execute_param_updateE)
  show ?thesis using assms(2) by (subst pm_audited_same(1)[OF p(2)], subst apply_param_updateE(1)[OF p(1)]) simp
qed (use assms in \<open>auto simp: pm_initialize_def pm_set_access_control_def admin_set_parameter_def apply_param_update_def
    approve_param_update_def cancel_param_update_def pm_propose_upgrade_def pm_execute_upgrade_def
    pm_propose_admin_def pm_accept_admin_def split: if_splits option.splits\<close>)

definition books_sound :: "pm_state \<Rightarrow> bool" where
  "books_sound s \<longleftrightarrow> blank_or_run s \<and> updates.book_ok s \<and> timelocked s"

lemma new_proposal_timelocked:
  assumes "pm_exec arm acs e c s = Inr s'" "pm_proposal s' n = Some p" "pm_proposal s n = None"
  shows "pu_executable_after p = pu_proposed_at p + GOVERNANCE_TIMELOCK"
proof (cases c)
  case (Pm_propose x k v)
  with assms(1) obtain m where "propose_param_update acs arm e s x k v = Inr (s', m)" by auto
  from propose_param_updateE[OF this] assms(2,3) show ?thesis by (auto split: if_splits)
next
  case (Pm_execute x m)
  with assms(1) obtain q s1 where q: "pending_update e s m = Inr q"
    "apply_param_update arm e x (pu_key q) (pu_new_value q) (put_update m (q\<lparr>pu_executed := True\<rparr>) s) = Inr s1"
    "pm_audited e x AA_RegistryExecuteParam s1 = Inr s'" by (auto elim!: execute_param_updateE)
  have "pm_proposal s' = (pm_proposal s)(m \<mapsto> q\<lparr>pu_executed := True\<rparr>)"
    by (subst pm_audited_same(5)[OF q(3)], subst apply_param_updateE(1)[OF q(2)]) simp
  with q(1) assms(2,3) show ?thesis by (auto split: if_splits)
qed (use assms in \<open>auto simp: pm_initialize_def pm_set_access_control_def admin_set_parameter_def apply_param_update_def
    approve_param_update_def cancel_param_update_def pm_propose_upgrade_def pm_execute_upgrade_def
    pm_propose_admin_def pm_accept_admin_def Let_def split: if_splits option.splits\<close>)

lemma exec_keeps_books_sound:
  assumes "books_sound s" "pm_exec arm acs e c s = Inr s'"
  shows "books_sound s' \<and> updates.book_kept s s'"
proof -
  have "pm_admin s \<noteq> None \<or> pm_proposal s = (\<lambda>_. None)" using assms(1) by (auto simp: books_sound_def blank_or_run_def)
  with exec_book_step[OF assms(2)] assms(1) have step: "updates.book_ok s'" "updates.book_kept s s'"
    by (auto simp: books_sound_def updates.book_step_def)
  have "pm_admin s' \<noteq> None"
  proof (cases "pm_admin s")
    case None
    with assms(1) blank_refuses[OF None _ _ _ assms(2)] show ?thesis by (simp add: books_sound_def blank_or_run_def)
  qed (rule pm_admin_stays[OF assms(2)])
  moreover have "timelocked s'"
    by (rule timelocked_kept[OF step(2)]) (use assms new_proposal_timelocked[OF assms(2)] in \<open>auto simp: books_sound_def\<close>)
  ultimately show ?thesis using step by (auto simp: books_sound_def blank_or_run_def)
qed

lemma reachable_books_sound: "pm_reachable arm s \<Longrightarrow> books_sound s"
  unfolding pm_reachable_def
proof (erule pm_runs_invariant)
  show "books_sound pm_empty"
    by (simp add: books_sound_def blank_or_run_def updates.book_ok_def timelocked_def pm_empty_def)
qed (use exec_keeps_books_sound in blast)

lemma runs_keep_books:
  "pm_runs arm s s' \<Longrightarrow> books_sound s \<Longrightarrow> books_sound s' \<and> updates.book_kept s s'"
proof (induction rule: pm_runs.induct)
  case (pm_step s s1 acs e c s2)
  then show ?case using exec_keeps_books_sound[OF _ pm_step.hyps(2)] updates.book_kept_trans by blast
qed (simp add: updates.book_kept_refl)

section \<open>How a parameter moves\<close>

text \<open>C21: A parameter changes only in two ways: the admin sets it, while the access control has no
  multisig, or a proposal for it runs: one that was neither executed nor cancelled, that as many
  different addresses approved as the threshold asks, a day after it was made and before it expired,
  on the call of a current signer.  Nothing else moves in that call.\<close>

theorem parameter_moves_by_quorum:
  assumes "pm_reachable arm s" "pm_admin s \<noteq> None" "pm_exec arm acs e c s = Inr s'" "pm_param s' k \<noteq> pm_param s k"
  shows "(\<forall>j. j \<noteq> k \<longrightarrow> pm_param s' j = pm_param s j) \<and>
    ((\<exists>a v. c = Pm_admin_set a k v \<and> authorised e a \<and> pm_admin s = Some a \<and> governance_config acs s = None \<and>
        get_value s' k = v) \<or>
     (\<exists>x n p. c = Pm_execute x n \<and> authorised e x \<and> require_governance_signer acs s x = Inr () \<and>
        pm_proposal s n = Some p \<and> \<not> pu_executed p \<and> \<not> pu_cancelled p \<and> pu_key p = k \<and>
        governance_threshold acs s \<le> card (set (pu_approvals p)) \<and>
        pu_proposed_at p + GOVERNANCE_TIMELOCK \<le> timestamp e \<and> timestamp e \<le> pu_expires_at p \<and>
        get_value s' k = pu_new_value p \<and> pm_proposal s' n = Some (p\<lparr>pu_executed := True\<rparr>)))"
proof (cases c)
  case (Pm_admin_set a j v)
  with assms(3) have run: "authorised e a" "pm_admin s = Some a" "governance_config acs s = None" "apply_param_update arm e a j v s = Inr s'"
    by (auto simp: admin_set_parameter_def is_multisig_configured_def split: if_splits)
  from apply_param_updateE(3)[OF run(4)] obtain p where "pm_param s' = (pm_param s)(j \<mapsto> p)" "rp_value p = v" by blast
  with assms(4) run Pm_admin_set show ?thesis by (auto simp: get_value_def split: if_splits)
next
  case (Pm_execute x n)
  with assms(3) obtain p s1 where x: "authorised e x" "require_governance_signer acs s x = Inr ()" and p: "pending_update e s n = Inr p"
    and q: "governance_threshold acs s \<le> length (pu_approvals p)" "pu_executable_after p \<le> timestamp e"
    and run: "apply_param_update arm e x (pu_key p) (pu_new_value p) (put_update n (p\<lparr>pu_executed := True\<rparr>) s) = Inr s1"
      "pm_audited e x AA_RegistryExecuteParam s1 = Inr s'"
    by (auto elim!: execute_param_updateE)
  from reachable_books_sound[OF assms(1)] p have sound: "distinct (pu_approvals p)" "pu_executable_after p = pu_proposed_at p + GOVERNANCE_TIMELOCK"
    by (auto simp: books_sound_def updates.book_ok_def timelocked_def)
  from apply_param_updateE(3)[OF run(1)] obtain r where "pm_param s1 = (pm_param s)(pu_key p \<mapsto> r)" "rp_value r = pu_new_value p" by auto
  then have r: "pm_param s' = (pm_param s)(pu_key p \<mapsto> r)" "rp_value r = pu_new_value p" by (simp_all add: pm_audited_same(4)[OF run(2)])
  have "pm_proposal s' n = Some (p\<lparr>pu_executed := True\<rparr>)"
    by (subst pm_audited_same(5)[OF run(2)], subst apply_param_updateE(1)[OF run(1)]) simp
  with r assms(4) Pm_execute x p q sound show ?thesis
    by (auto simp: get_value_def distinct_card split: if_splits)
next
  case (Pm_propose x j v)
  with assms(3) obtain m where "propose_param_update acs arm e s x j v = Inr (s', m)" by auto
  from propose_param_updateE[OF this] assms(4) show ?thesis by simp
qed (use assms in \<open>auto simp: pm_initialize_def pm_set_access_control_def approve_param_update_def cancel_param_update_def
    pm_propose_upgrade_def pm_execute_upgrade_def pm_propose_admin_def pm_accept_admin_def split: if_splits\<close>)

text \<open>A proposal that was executed or cancelled stays so: in no later state can it be approved,
  executed or cancelled, whatever the signers have become.\<close>

theorem settled_update_stays_settled:
  assumes "pm_reachable arm s" "pm_runs arm s s'" "pm_proposal s n = Some p" "pu_executed p \<or> pu_cancelled p"
  shows "\<not> is_ok (approve_param_update acs e s' a n) \<and> \<not> is_ok (execute_param_update acs arm e s' a n) \<and>
    \<not> is_ok (cancel_param_update e s' a n)"
proof -
  from runs_keep_books[OF assms(2) reachable_books_sound[OF assms(1)]] updates.settled_stays assms(3,4)
  obtain p' where "pm_proposal s' n = Some p'" "pu_executed p' \<or> pu_cancelled p'" by blast
  then show ?thesis
    by (auto simp: is_ok_def approve_param_update_def execute_param_update_def cancel_param_update_def split: sum.splits if_splits)
qed

section \<open>Who may run a proposal\<close>

definition may_govern :: "controls \<Rightarrow> pm_state \<Rightarrow> address \<Rightarrow> bool" where
  "may_govern acs s x \<longleftrightarrow>
     (case governance_config acs s of Some cfg \<Rightarrow> x \<in> set (ms_signers cfg) | None \<Rightarrow> pm_admin s = Some x)"

text \<open>The counters of the log have not reached the end of \<open>u64\<close>.\<close>

definition log_room :: "audit_log \<Rightarrow> bool" where
  "log_room l \<longleftrightarrow> (\<forall>h. al_head l = Some h \<longrightarrow> h < u64_max) \<and> (\<forall>h. al_total l = Some h \<longrightarrow> h < u64_max)"

lemma two_counters: "is_ok (rbind (ok_or (u64_add h 1) Trap) (\<lambda>h1. rbind (ok_or (u64_add k 1) Trap) (\<lambda>k1. Inr (f h1 k1)))) \<longleftrightarrow>
    h < u64_max \<and> k < u64_max"
  by (simp add: u64_add_def is_ok_def ok_or_def rbind_def)

lemma audited_iff: "is_ok (pm_audited e a x s) \<longleftrightarrow> log_room (pm_audit s)"
proof -
  have pos: "0 < u64_max" by (simp add: u64_max_def)
  have "is_ok (pm_audited e a x s) \<longleftrightarrow>
      (case al_head (pm_audit s) of None \<Rightarrow> 0 | Some n \<Rightarrow> n) < u64_max \<and> (case al_total (pm_audit s) of None \<Rightarrow> 0 | Some n \<Rightarrow> n) < u64_max"
    unfolding pm_audited_def Let_def by (rule two_counters)
  with pos show ?thesis by (cases "al_head (pm_audit s)"; cases "al_total (pm_audit s)") (simp_all add: log_room_def)
qed

lemma execute_ok_iff:
  "is_ok (execute_param_update acs arm e s x n) \<longleftrightarrow>
    (\<exists>p. pending_update e s n = Inr p \<and> authorised e x \<and> may_govern acs s x \<and>
       governance_threshold acs s \<le> length (pu_approvals p) \<and> pu_executable_after p \<le> timestamp e \<and>
       validate_param_value arm s (pu_key p) (pu_new_value p) = Inr () \<and> log_room (pm_audit s))"
proof -
  have signer: "require_governance_signer acs s x = Inr () \<longleftrightarrow> may_govern acs s x"
    by (auto simp: require_governance_signer_def may_govern_def split: option.splits)
  have upd: "is_ok (rbind (apply_param_update arm e x k v (put_update n q s)) (\<lambda>u. pm_audited e x y u)) \<longleftrightarrow>
      validate_param_value arm s k v = Inr () \<and> log_room (pm_audit s)" for k v q y
  proof -
    have "validate_param_value arm (put_update n q s) k v = validate_param_value arm s k v"
      by (simp add: validate_param_value_def)
    moreover have "pm_audit (write_param e x k v lo hi (put_update n q s)) = pm_audit s" for lo hi
      by (simp add: write_param_def put_update_def)
    ultimately show ?thesis
      using audited_iff by (cases "validate_param_value arm s k v") (auto simp: apply_param_update_def is_ok_iff split: prod.splits)
  qed
  show ?thesis
  proof (cases "pending_update e s n")
    case (Inl f)
    then show ?thesis by (auto simp: execute_param_update_def is_ok_iff simp del: pm_helpers_Inr)
  next
    case (Inr p)
    show ?thesis
    proof (cases "authorised e x \<and> may_govern acs s x")
      case True
      then have "require_governance_signer acs s x = Inr ()" by (simp add: signer)
      with True Inr upd show ?thesis
        by (simp add: execute_param_update_def require_auth_def is_ok_def del: pm_helpers_Inr)
    next
      case False
      with signer show ?thesis by (auto simp: execute_param_update_def is_ok_iff simp del: pm_helpers_Inr)
    qed
  qed
qed

text \<open>A proposal runs exactly when a signer calls, it is pending, approved often enough, ripe and
  not expired, its value is still valid and the audit log has room to count.  Whether those who approved it are
  signers now plays no part: approvals of addresses that have been replaced since count on.\<close>

theorem execution_condition:
  assumes "pm_reachable arm s"
  shows "is_ok (execute_param_update acs arm e s x n) \<longleftrightarrow>
    (\<exists>p. pm_proposal s n = Some p \<and> \<not> pu_executed p \<and> \<not> pu_cancelled p \<and> authorised e x \<and> may_govern acs s x \<and>
       governance_threshold acs s \<le> card (set (pu_approvals p)) \<and>
       pu_proposed_at p + GOVERNANCE_TIMELOCK \<le> timestamp e \<and> timestamp e \<le> pu_expires_at p \<and>
       validate_param_value arm s (pu_key p) (pu_new_value p) = Inr () \<and> log_room (pm_audit s))"
proof -
  have sound: "length (pu_approvals p) = card (set (pu_approvals p)) \<and> pu_executable_after p = pu_proposed_at p + GOVERNANCE_TIMELOCK"
    if "pm_proposal s n = Some p" for p
    using reachable_books_sound[OF assms] that by (auto simp: books_sound_def updates.book_ok_def timelocked_def distinct_card)
  show ?thesis
    unfolding execute_ok_iff by (rule ex_cong1) (use sound in auto)
qed

section \<open>What the other contracts charge\<close>

text \<open>Wired to an initialised registry, the pool takes its late penalty and its position cap, and
  the marketplace its protocol fee unless that is zero, exactly as registered, and each is a rate of
  at most 100 per cent: the local settings and the error of an invalid fee are out of play.\<close>

theorem registry_sets_the_rates:
  assumes "pm_reachable arm s" "pm_admin s \<noteq> None" "view_registry_param e r = pm_param s"
    and "fp_parameter_registry p = Some r" "mc_parameter_registry cfg = r"
  shows "int (get_late_penalty_bps e p) = get_value s LatePenaltyBps \<and> get_late_penalty_bps e p \<le> 10000 \<and>
    int (get_max_position_bps e p) = get_value s MaxPositionBps \<and> 1 \<le> get_max_position_bps e p \<and>
    get_max_position_bps e p \<le> 10000 \<and>
    base_fee_bps e cfg = Inr (if get_value s MarketplaceFeeBps = 0 then mc_fee_bps cfg else nat (get_value s MarketplaceFeeBps))"
proof -
  note b = parameters_within_bounds[OF assms(1,2)]
  obtain lp where lp: "pm_param s LatePenaltyBps = Some lp" "0 \<le> rp_value lp" "rp_value lp \<le> 10000" using b[of LatePenaltyBps] by auto
  obtain mp where mp: "pm_param s MaxPositionBps = Some mp" "1 \<le> rp_value mp" "rp_value mp \<le> 10000" using b[of MaxPositionBps] by auto
  obtain mf where mf: "pm_param s MarketplaceFeeBps = Some mf" "0 \<le> rp_value mf" "rp_value mf \<le> 10000" using b[of MarketplaceFeeBps] by auto
  have bps: "get_registry_bps e p k = Some (nat (rp_value q))" if "pm_param s k = Some q" "0 \<le> rp_value q" "rp_value q \<le> 10000" for k q
    using assms(3,4) that by (simp add: get_registry_bps_def u32_max_def nat_le_iff)
  have pool: "get_late_penalty_bps e p = nat (rp_value lp)" "get_max_position_bps e p = nat (rp_value mp)"
    using bps[OF lp] bps[OF mp(1)] mp(2,3) by (simp_all add: get_late_penalty_bps_def get_max_position_bps_def)
  have "base_fee_bps e cfg = Inr (if rp_value mf = 0 then mc_fee_bps cfg else nat (rp_value mf))"
  proof -
    have "registry_value e (mc_parameter_registry cfg) MarketplaceFeeBps = rp_value mf"
      using assms(3,5) mf by (simp add: registry_value_def)
    moreover have "i128_as_u32 (rp_value mf) = nat (rp_value mf)" using mf(2,3) by (simp add: i128_as_u32_def)
    moreover have "require_valid_fee_bps (nat (rp_value mf)) = Inr ()" using mf(3) by (simp add: require_valid_fee_bps_def)
    ultimately show ?thesis using mf(2) by (simp add: base_fee_bps_def Let_def)
  qed
  then show ?thesis using lp mp mf by (simp add: pool get_value_def nat_le_iff)
qed

end
