(* ===== verification/Parameter_Example.thy ===== *)
theory Parameter_Example
  imports Parameter_Props
begin

text \<open>
  A concrete registry: admin 10, wired to the access control contract 5 with the signers 20, 21 and
  22 and a threshold of 2.  Signers 20 and 21 raise the protocol fee of the marketplace to 75 basis
  points; by the time it may run, both have been replaced.
\<close>

text \<open>The log after one more entry.\<close>

definition logged :: "env \<Rightarrow> address \<Rightarrow> AdminActionType \<Rightarrow> audit_log \<Rightarrow> audit_log" where
  "logged e a x l = pm_audit (case pm_audited e a x (pm_empty\<lparr>pm_audit := l\<rparr>) of Inr s \<Rightarrow> s | _ \<Rightarrow> pm_empty)"

definition counter :: "u64 option \<Rightarrow> u64" where
  "counter x = (case x of None \<Rightarrow> 0 | Some n \<Rightarrow> n)"

lemma counter_simps: "counter None = 0" "counter (Some n) = n"
  by (simp_all add: counter_def)

lemma logged_simps:
  "counter (al_head (pm_audit s)) < 1000 \<Longrightarrow> counter (al_total (pm_audit s)) < 1000 \<Longrightarrow>
     pm_audited e a x s = Inr (s\<lparr>pm_audit := logged e a x (pm_audit s)\<rparr>)"
  "counter (al_head l) < 1000 \<Longrightarrow> counter (al_total l) < 1000 \<Longrightarrow> al_head (logged e a x l) = Some (counter (al_head l) + 1)"
  "counter (al_head l) < 1000 \<Longrightarrow> counter (al_total l) < 1000 \<Longrightarrow> al_total (logged e a x l) = Some (counter (al_total l) + 1)"
  by (auto simp: logged_def pm_audited_def counter_def u64_add_def u64_max_def Let_def)

definition no_arm :: key_arm where "no_arm = (\<lambda>_. Inl Trap)"

definition board :: "address list \<Rightarrow> controls" where
  "board signers a = (if a = 5 then Some (ac_empty\<lparr>ac_multisig := Some \<lparr>ms_threshold = 2, ms_signers = signers\<rparr>\<rparr>) else None)"

fun pm_replay :: "(u64 \<times> pm_op) list \<Rightarrow> pm_state \<Rightarrow> pm_state pm_result" where
  "pm_replay [] s = Inr s"
| "pm_replay ((t, c) # cs) s =
     rbind (pm_exec no_arm (board [20, 21, 22]) (sample_env\<lparr>timestamp := t\<rparr>) c s) (pm_replay cs)"

lemma pm_replay_runs: "pm_replay cs s = Inr s' \<Longrightarrow> pm_runs no_arm u s \<Longrightarrow> pm_runs no_arm u s'"
proof (induction cs arbitrary: s)
  case (Cons x cs)
  then obtain t c s1 where x: "x = (t, c)" "pm_exec no_arm (board [20, 21, 22]) (sample_env\<lparr>timestamp := t\<rparr>) c s = Inr s1"
    "pm_replay cs s1 = Inr s'" by (cases x) auto
  show ?case by (rule Cons.IH[OF x(3) pm_step[OF Cons.prems(2) x(2)]])
qed simp

definition rate_calls :: "(u64 \<times> pm_op) list" where
  "rate_calls = [(1000, Pm_initialize 10 (Some 5)), (1000, Pm_propose 20 MarketplaceFeeBps 75), (2000, Pm_approve 21 1)]"

named_theorems rate_eval
lemmas [rate_eval] = rate_calls_def pm_empty_def pm_initialize_def write_param_def propose_param_update_def
  approve_param_update_def execute_param_update_def put_update_def require_auth_def require_governance_signer_def
  governance_config_def board_def load_multisig_config_def validate_param_value_def check_key_def GOVERNANCE_TIMELOCK_def
  UPGRADE_TIMELOCK_DELAY_def PROPOSAL_TTL_SECS_def u64_add_def u64_max_def empty_audit_def counter_simps logged_simps pending_update_def
  governance_threshold_def apply_param_update_def MAX_AUDIT_LOG_SIZE_def

lemma default_values [rate_eval]:
  "pm_param (bootstrap_defaults e a s) MarketplaceFeeBps =
     Some \<lparr>rp_value = 50, rp_min_value = 0, rp_max_value = 10000, rp_updated_at = timestamp e, rp_updated_by = a\<rparr>"
  "pm_param (bootstrap_defaults e a s) LatePenaltyBps =
     Some \<lparr>rp_value = 500, rp_min_value = 0, rp_max_value = 10000, rp_updated_at = timestamp e, rp_updated_by = a\<rparr>"
  "pm_param (bootstrap_defaults e a s) MaxPositionBps =
     Some \<lparr>rp_value = 5000, rp_min_value = 1, rp_max_value = 10000, rp_updated_at = timestamp e, rp_updated_by = a\<rparr>"
  by (simp_all add: bootstrap_defaults_def write_param_def)

definition rates :: pm_state where
  "rates = (case pm_replay rate_calls pm_empty of Inr s \<Rightarrow> s | _ \<Rightarrow> pm_empty)"

lemma rates_replay: "pm_replay rate_calls pm_empty = Inr rates"
  unfolding rates_def by (simp add: rate_eval Let_def del: One_nat_def cong: rbind_weak_cong)

lemma rates_reachable: "pm_reachable no_arm rates"
  unfolding pm_reachable_def by (rule pm_replay_runs[OF rates_replay pm_none])

lemma rates_facts:
  "pm_admin rates = Some 10" "pm_access rates = Some 5"
  "pm_param rates MarketplaceFeeBps = Some \<lparr>rp_value = 50, rp_min_value = 0, rp_max_value = 10000, rp_updated_at = 1000, rp_updated_by = 10\<rparr>"
  "pm_param rates LatePenaltyBps = Some \<lparr>rp_value = 500, rp_min_value = 0, rp_max_value = 10000, rp_updated_at = 1000, rp_updated_by = 10\<rparr>"
  "pm_param rates MaxPositionBps = Some \<lparr>rp_value = 5000, rp_min_value = 1, rp_max_value = 10000, rp_updated_at = 1000, rp_updated_by = 10\<rparr>"
  "pm_proposal rates 1 = Some \<lparr>pu_id = 1, pu_key = MarketplaceFeeBps, pu_new_value = 75, pu_proposer = 20, pu_approvals = [20, 21],
     pu_proposed_at = 1000, pu_executable_after = 87400, pu_expires_at = 605800, pu_executed = False, pu_cancelled = False\<rparr>"
  "al_head (pm_audit rates) = Some 2" "al_total (pm_audit rates) = Some 2"
  unfolding rates_def by (simp_all add: rate_eval Let_def del: One_nat_def cong: rbind_weak_cong)

definition ripe :: env where "ripe = sample_env\<lparr>timestamp := 87400\<rparr>"

theorem parameters_within_bounds_witness:
  "\<exists>p. pm_param rates MaxPositionBps = Some p \<and> fst (declared_bounds MaxPositionBps) \<le> get_value rates MaxPositionBps"
  using parameters_within_bounds[OF rates_reachable, of MaxPositionBps] rates_facts(1) by auto

text \<open>The board has changed: 30 and 31 are signers now, and 30 runs what 20 and 21 approved.\<close>

theorem execution_condition_witness:
  "is_ok (execute_param_update (board [30, 31]) no_arm ripe rates 30 1)"
  unfolding execution_condition[OF rates_reachable] rates_facts(6) option.inject ex_simps(2)
  by (simp add: rates_facts ripe_def may_govern_def log_room_def rate_eval del: One_nat_def)

definition rates_raised :: pm_state where
  "rates_raised = (case execute_param_update (board [30, 31]) no_arm ripe rates 30 1 of Inr s \<Rightarrow> s | _ \<Rightarrow> rates)"

lemma raised: "pm_exec no_arm (board [30, 31]) ripe (Pm_execute 30 1) rates = Inr rates_raised"
  by (simp add: rates_raised_def execute_param_update_def pending_update_def rates_facts require_governance_signer_def
    governance_config_def board_def load_multisig_config_def governance_threshold_def ripe_def apply_param_update_def
    validate_param_value_def check_key_def write_param_def put_update_def logged_simps counter_simps require_auth_def u64_add_def u64_max_def Let_def del: One_nat_def cong: rbind_weak_cong)

lemma raised_facts: "pm_param rates_raised MarketplaceFeeBps \<noteq> pm_param rates MarketplaceFeeBps"
  "pm_proposal rates_raised 1 = Some ((the (pm_proposal rates 1))\<lparr>pu_executed := True\<rparr>)"
  by (simp_all add: rates_raised_def execute_param_update_def pending_update_def rates_facts require_governance_signer_def
    governance_config_def board_def load_multisig_config_def governance_threshold_def ripe_def apply_param_update_def
    validate_param_value_def check_key_def write_param_def put_update_def logged_simps counter_simps require_auth_def u64_add_def u64_max_def Let_def del: One_nat_def cong: rbind_weak_cong)

theorem parameter_moves_by_quorum_witness:
  "\<exists>p. pm_proposal rates 1 = Some p \<and> pu_key p = MarketplaceFeeBps \<and>
     governance_threshold (board [30, 31]) rates \<le> card (set (pu_approvals p)) \<and>
     pu_proposed_at p + GOVERNANCE_TIMELOCK \<le> timestamp ripe \<and> get_value rates_raised MarketplaceFeeBps = pu_new_value p"
  using parameter_moves_by_quorum[OF rates_reachable _ raised raised_facts(1)] rates_facts(1) by auto

theorem settled_update_stays_settled_witness:
  "\<not> is_ok (execute_param_update (board [30, 31]) no_arm ripe rates_raised 30 1)"
proof -
  have run: "pm_runs no_arm rates rates_raised" by (rule pm_step[OF pm_none raised])
  have "pm_reachable no_arm rates_raised"
    using rates_reachable run unfolding pm_reachable_def by (rule pm_runs_trans)
  from settled_update_stays_settled[OF this pm_none raised_facts(2)] show ?thesis by simp
qed

theorem registry_sets_the_rates_witness:
  "let e = ripe\<lparr>view_registry_param := (\<lambda>_. pm_param rates)\<rparr>;
       cfg = \<lparr>mc_admin = 10, mc_invoice_nft = 2, mc_financing_pool = 3, mc_treasury = 4, mc_access_control = 5,
              mc_price_oracle = 6, mc_risk_registry = 7, mc_parameter_registry = 8, mc_fee_bps = 20, mc_referrer_split_bps = 0\<rparr>
   in get_late_penalty_bps e (pool_empty\<lparr>fp_parameter_registry := Some 8\<rparr>) = 500 \<and> base_fee_bps e cfg = Inr 50"
  using registry_sets_the_rates[OF rates_reachable, of "ripe\<lparr>view_registry_param := (\<lambda>_. pm_param rates)\<rparr>" 8
    "pool_empty\<lparr>fp_parameter_registry := Some 8\<rparr>" "\<lparr>mc_admin = 10, mc_invoice_nft = 2, mc_financing_pool = 3, mc_treasury = 4,
      mc_access_control = 5, mc_price_oracle = 6, mc_risk_registry = 7, mc_parameter_registry = 8, mc_fee_bps = 20, mc_referrer_split_bps = 0\<rparr>"]
    rates_facts(1,3,4)
  by (simp add: get_value_def Let_def)

end
