(* ===== verification/Governance_Voting.thy ===== *)
theory Governance_Voting
  imports Kora_Validation
begin

text \<open>
  Vote tallies and delegation (\<open>contracts/governance_voting/src/lib.rs\<close>).  \<open>gv_state\<close> has one field
  per storage key.  The vested balances of the vesting contract are the argument \<open>vest\<close> (contract,
  beneficiary, time), with \<open>None\<close> for a failing call, which aborts the caller.
\<close>

section \<open>Data\<close>

datatype GovernanceError =
    GV_AlreadyInitialized | GV_NotInitialized | GV_NotAdmin | GV_InvalidAddress | GV_ProposalNotFound
  | GV_ProposalExpired | GV_ProposalAlreadyExecuted | GV_AlreadyVoted | GV_InsufficientVotingWeight
  | GV_InvalidProposalType | GV_InvalidVotingMode | GV_CircularDelegation | GV_ArithmeticOverflow
  | GV_InvalidVoiceCredits | GV_QuadraticVotingNotAllowed | GV_DelegationNotFound | GV_Reentrancy
  | GV_VestingNotConfigured | GV_VestingContractError

type_synonym 'a gv_result = "(GovernanceError, 'a) result"

fun gv_from_common :: "CommonError \<Rightarrow> GovernanceError" where
  "gv_from_common CE_InvalidAddress = GV_InvalidAddress"
| "gv_from_common CE_ArithmeticOverflow = GV_ArithmeticOverflow"
| "gv_from_common CE_Reentrancy = GV_Reentrancy"
| "gv_from_common _ = GV_InvalidAddress"

definition DEFAULT_PROPOSAL_DURATION :: u64 where "DEFAULT_PROPOSAL_DURATION = 604800"

datatype VotingMode = Standard | Quadratic
datatype ProposalType = Financial | Sentiment | Upgrade | ParameterChange
datatype VoteChoice = For | Against | Abstain

record GvProposal =
  gp_id :: u64
  gp_proposer :: address
  gp_title :: string
  gp_description :: string
  gp_type :: ProposalType
  gp_mode :: VotingMode
  gp_votes_for :: i128
  gp_votes_against :: i128
  gp_votes_abstain :: i128
  gp_created_at :: u64
  gp_expires_at :: u64
  gp_executed :: bool
  gp_quorum_required :: i128

record VoteRecord =
  vr_voter :: address
  vr_choice :: VoteChoice
  vr_weight :: i128
  vr_credits :: i128
  vr_voted_at :: u64

record gv_state =
  gv_admin :: "address option"
  gv_access :: "address option"
  gv_next_proposal :: "u64 option"
  gv_proposal :: "u64 \<Rightarrow> GvProposal option"
  gv_vote :: "u64 \<Rightarrow> address \<Rightarrow> VoteRecord option"
  gv_delegation :: "address \<Rightarrow> address option"
  gv_delegated_by :: "address \<Rightarrow> address list option"
  gv_weight :: "address \<Rightarrow> i128 option"
  gv_vesting :: "address option"

definition gv_empty :: gv_state where
  "gv_empty = \<lparr>gv_admin = None, gv_access = None, gv_next_proposal = None, gv_proposal = (\<lambda>_. None), gv_vote = (\<lambda>_ _. None),
     gv_delegation = (\<lambda>_. None), gv_delegated_by = (\<lambda>_. None), gv_weight = (\<lambda>_. None), gv_vesting = None\<rparr>"

type_synonym vested = "address \<Rightarrow> address \<Rightarrow> u64 \<Rightarrow> i128 option"

section \<open>Helpers\<close>

definition gv_require_admin :: "gv_state \<Rightarrow> address \<Rightarrow> unit gv_result" where
  "gv_require_admin s admin =
     rbind (ok_or (gv_admin s) (Err GV_NotInitialized)) (\<lambda>stored.
     if stored \<noteq> admin then Inl (Err GV_NotAdmin) else Inr ())"

definition gv_as_admin :: "env \<Rightarrow> gv_state \<Rightarrow> address \<Rightarrow> unit gv_result" where
  "gv_as_admin e s admin = rbind (require_auth e admin) (\<lambda>_. gv_require_admin s admin)"

definition get_base_weight_at_snapshot :: "vested \<Rightarrow> gv_state \<Rightarrow> address \<Rightarrow> u64 \<Rightarrow> i128 gv_result" where
  "get_base_weight_at_snapshot vest s a t =
     (case gv_vesting s of
        Some v \<Rightarrow> ok_or (vest v a t) Trap
      | None \<Rightarrow> Inr (case gv_weight s a of None \<Rightarrow> 0 | Some w \<Rightarrow> w))"

definition get_base_weight :: "vested \<Rightarrow> env \<Rightarrow> gv_state \<Rightarrow> address \<Rightarrow> i128 gv_result" where
  "get_base_weight vest e s a =
     (case gv_vesting s of
        Some v \<Rightarrow> ok_or (vest v a (timestamp e)) Trap
      | None \<Rightarrow> Inr (case gv_weight s a of None \<Rightarrow> 0 | Some w \<Rightarrow> w))"

definition delegators_of :: "gv_state \<Rightarrow> address \<Rightarrow> address list" where
  "delegators_of s a = (case gv_delegated_by s a of None \<Rightarrow> [] | Some ds \<Rightarrow> ds)"

fun add_weights :: "vested \<Rightarrow> env \<Rightarrow> gv_state \<Rightarrow> address list \<Rightarrow> i128 \<Rightarrow> i128 gv_result" where
  "add_weights vest e s [] acc = Inr acc"
| "add_weights vest e s (d # ds) acc =
     rbind (get_base_weight vest e s d) (\<lambda>w. add_weights vest e s ds (i128_sat_add acc w))"

definition get_delegated_weight :: "vested \<Rightarrow> env \<Rightarrow> gv_state \<Rightarrow> address \<Rightarrow> i128 gv_result" where
  "get_delegated_weight vest e s a = add_weights vest e s (delegators_of s a) 0"

definition get_voting_weight :: "vested \<Rightarrow> env \<Rightarrow> gv_state \<Rightarrow> address \<Rightarrow> i128 gv_result" where
  "get_voting_weight vest e s a =
     rbind (get_base_weight vest e s a) (\<lambda>base.
     rbind (get_delegated_weight vest e s a) (\<lambda>delegated.
     Inr (i128_sat_add base delegated)))"

definition add_to_delegated_by :: "address \<Rightarrow> address \<Rightarrow> gv_state \<Rightarrow> gv_state" where
  "add_to_delegated_by delegate delegator s =
     (let ds = delegators_of s delegate in
      if delegator \<in> set ds then s
      else s\<lparr>gv_delegated_by := (gv_delegated_by s)(delegate \<mapsto> ds @ [delegator])\<rparr>)"

definition remove_from_delegated_by :: "address \<Rightarrow> address \<Rightarrow> gv_state \<Rightarrow> gv_state" where
  "remove_from_delegated_by delegate delegator s =
     (let ds = filter (\<lambda>x. x \<noteq> delegator) (delegators_of s delegate) in
      s\<lparr>gv_delegated_by := (gv_delegated_by s)(delegate := (if length ds > 0 then Some ds else None))\<rparr>)"

section \<open>The integer square root\<close>

text \<open>The binary search; the bounds stay between 0 and \<open>n + 1\<close>, so only the square can leave \<open>i128\<close>, and it
  saturates.\<close>

function sqrt_loop :: "i128 \<Rightarrow> i128 \<Rightarrow> i128 \<Rightarrow> i128 \<Rightarrow> i128" where
  "sqrt_loop n low high res =
     (if low \<le> high then
        let mid = low + (high - low) div 2;
            square = i128_clamp (mid * mid) in
        if square = n then mid
        else if square < n then sqrt_loop n (mid + 1) high mid
        else sqrt_loop n low (mid - 1) res
      else res)"
  by pat_completeness auto

termination
  by (relation "measure (\<lambda>(n, low, high, res). nat (high - low + 1))") auto

definition integer_sqrt :: "i128 \<Rightarrow> i128" where
  "integer_sqrt n = (if n < 0 then 0 else if n = 0 then 0 else if n = 1 then 1 else sqrt_loop n 1 n 1)"

section \<open>Entry points\<close>

definition gv_initialize :: "env \<Rightarrow> gv_state \<Rightarrow> address \<Rightarrow> address \<Rightarrow> gv_state gv_result" where
  "gv_initialize e s admin access =
     (if gv_admin s \<noteq> None then Inl (Err GV_AlreadyInitialized)
      else
        rbind (map_err gv_from_common (require_not_self e admin)) (\<lambda>_.
        rbind (map_err gv_from_common (require_not_self e access)) (\<lambda>_.
        Inr (s\<lparr>gv_admin := Some admin, gv_access := Some access, gv_next_proposal := Some 0\<rparr>))))"

definition set_voting_weight :: "env \<Rightarrow> gv_state \<Rightarrow> address \<Rightarrow> address \<Rightarrow> i128 \<Rightarrow> gv_state gv_result" where
  "set_voting_weight e s admin a w =
     rbind (gv_as_admin e s admin) (\<lambda>_.
     if w < 0 then Inl (Err GV_InsufficientVotingWeight)
     else Inr (s\<lparr>gv_weight := (gv_weight s)(a \<mapsto> w)\<rparr>))"

definition set_vesting_contract :: "env \<Rightarrow> gv_state \<Rightarrow> address \<Rightarrow> address \<Rightarrow> gv_state gv_result" where
  "set_vesting_contract e s admin v =
     rbind (gv_as_admin e s admin) (\<lambda>_.
     rbind (map_err gv_from_common (require_not_self e v)) (\<lambda>_.
     Inr (s\<lparr>gv_vesting := Some v\<rparr>)))"

definition delegate_to :: "env \<Rightarrow> gv_state \<Rightarrow> address \<Rightarrow> address \<Rightarrow> gv_state gv_result" where
  "delegate_to e s delegator delegate =
     rbind (require_auth e delegator) (\<lambda>_.
     if delegator = delegate then Inl (Err GV_InvalidAddress)
     else if gv_delegation s delegate = Some delegator then Inl (Err GV_CircularDelegation)
     else
       let s = (case gv_delegation s delegator of
                  None \<Rightarrow> s | Some old_delegate \<Rightarrow> remove_from_delegated_by old_delegate delegator s);
           s = s\<lparr>gv_delegation := (gv_delegation s)(delegator \<mapsto> delegate)\<rparr> in
       Inr (add_to_delegated_by delegate delegator s))"

definition gv_revoke_delegation :: "env \<Rightarrow> gv_state \<Rightarrow> address \<Rightarrow> gv_state gv_result" where
  "gv_revoke_delegation e s delegator =
     rbind (require_auth e delegator) (\<lambda>_.
     rbind (ok_or (gv_delegation s delegator) (Err GV_DelegationNotFound)) (\<lambda>delegate.
     let s = remove_from_delegated_by delegate delegator s in
     Inr (s\<lparr>gv_delegation := (gv_delegation s)(delegator := None)\<rparr>)))"

definition create_proposal ::
  "env \<Rightarrow> gv_state \<Rightarrow> address \<Rightarrow> string \<Rightarrow> string \<Rightarrow> ProposalType \<Rightarrow> VotingMode \<Rightarrow> i128 \<Rightarrow> u64 \<Rightarrow> (gv_state \<times> u64) gv_result" where
  "create_proposal e s proposer title description ty mode quorum duration =
     rbind (require_auth e proposer) (\<lambda>_.
     if ty = Financial \<and> mode = Quadratic then Inl (Err GV_QuadraticVotingNotAllowed)
     else
       let n = (case gv_next_proposal s of None \<Rightarrow> 0 | Some k \<Rightarrow> k);
           d = (if duration > 0 then duration else DEFAULT_PROPOSAL_DURATION) in
       rbind (ok_or (u64_add (timestamp e) d) (Err GV_ArithmeticOverflow)) (\<lambda>expires.
       let p = \<lparr>gp_id = n, gp_proposer = proposer, gp_title = title, gp_description = description, gp_type = ty,
                gp_mode = mode, gp_votes_for = 0, gp_votes_against = 0, gp_votes_abstain = 0, gp_created_at = timestamp e,
                gp_expires_at = expires, gp_executed = False, gp_quorum_required = quorum\<rparr> in
       rbind (ok_or (u64_add n 1) (Err GV_ArithmeticOverflow)) (\<lambda>n1.
       Inr (s\<lparr>gv_proposal := (gv_proposal s)(n \<mapsto> p), gv_next_proposal := Some n1\<rparr>, n))))"

text \<open>The weight a vote counts and the credits it spends.\<close>

definition effective_weight :: "VotingMode \<Rightarrow> i128 \<Rightarrow> i128 \<Rightarrow> (i128 \<times> i128) gv_result" where
  "effective_weight mode base credits =
     (case mode of
        Standard \<Rightarrow> Inr (base, 0)
      | Quadratic \<Rightarrow>
          if credits \<le> 0 then Inl (Err GV_InvalidVoiceCredits)
          else if credits > base then Inl (Err GV_InvalidVoiceCredits)
          else Inr (integer_sqrt credits, credits))"

definition add_to_tally :: "VoteChoice \<Rightarrow> i128 \<Rightarrow> GvProposal \<Rightarrow> GvProposal gv_result" where
  "add_to_tally choice w p =
     (case choice of
        For \<Rightarrow> rbind (ok_or (i128_add (gp_votes_for p) w) (Err GV_ArithmeticOverflow)) (\<lambda>t. Inr (p\<lparr>gp_votes_for := t\<rparr>))
      | Against \<Rightarrow> rbind (ok_or (i128_add (gp_votes_against p) w) (Err GV_ArithmeticOverflow)) (\<lambda>t. Inr (p\<lparr>gp_votes_against := t\<rparr>))
      | Abstain \<Rightarrow> rbind (ok_or (i128_add (gp_votes_abstain p) w) (Err GV_ArithmeticOverflow)) (\<lambda>t. Inr (p\<lparr>gp_votes_abstain := t\<rparr>)))"

definition vote :: "vested \<Rightarrow> env \<Rightarrow> gv_state \<Rightarrow> address \<Rightarrow> u64 \<Rightarrow> VoteChoice \<Rightarrow> i128 \<Rightarrow> gv_state gv_result" where
  "vote vest e s voter n choice credits =
     rbind (require_auth e voter) (\<lambda>_.
     rbind (ok_or (gv_proposal s n) (Err GV_ProposalNotFound)) (\<lambda>p.
     if timestamp e > gp_expires_at p then Inl (Err GV_ProposalExpired)
     else if gp_executed p then Inl (Err GV_ProposalAlreadyExecuted)
     else if gv_vote s n voter \<noteq> None then Inl (Err GV_AlreadyVoted)
     else
       rbind (get_base_weight_at_snapshot vest s voter (gp_created_at p)) (\<lambda>base.
       if base \<le> 0 then Inl (Err GV_InsufficientVotingWeight)
       else
         rbind (effective_weight (gp_mode p) base credits) (\<lambda>(w, spent).
         let r = \<lparr>vr_voter = voter, vr_choice = choice, vr_weight = w, vr_credits = spent, vr_voted_at = timestamp e\<rparr>;
             s = s\<lparr>gv_vote := (gv_vote s)(n := (gv_vote s n)(voter \<mapsto> r))\<rparr> in
         rbind (add_to_tally choice w p) (\<lambda>p.
         Inr (s\<lparr>gv_proposal := (gv_proposal s)(n \<mapsto> p)\<rparr>))))))"

definition total_votes :: "GvProposal \<Rightarrow> i128 gv_result" where
  "total_votes p =
     ok_or (Option.bind (i128_add (gp_votes_for p) (gp_votes_against p)) (\<lambda>x. i128_add x (gp_votes_abstain p)))
       (Err GV_ArithmeticOverflow)"

definition gv_execute_proposal :: "env \<Rightarrow> gv_state \<Rightarrow> address \<Rightarrow> u64 \<Rightarrow> gv_state gv_result" where
  "gv_execute_proposal e s admin n =
     rbind (gv_as_admin e s admin) (\<lambda>_.
     rbind (ok_or (gv_proposal s n) (Err GV_ProposalNotFound)) (\<lambda>p.
     if gp_executed p then Inl (Err GV_ProposalAlreadyExecuted)
     else if timestamp e > gp_expires_at p then Inl (Err GV_ProposalExpired)
     else
       rbind (total_votes p) (\<lambda>votes.
       if votes < gp_quorum_required p then Inl (Err GV_InsufficientVotingWeight)
       else Inr (s\<lparr>gv_proposal := (gv_proposal s)(n \<mapsto> p\<lparr>gp_executed := True\<rparr>)\<rparr>))))"

end
