(* ===== verification/Voting_Props.thy ===== *)
theory Voting_Props
  imports Governance_Voting
begin

text \<open>
  Governance voting: the binary search computes the square root, tallies are the sums of the recorded
  votes, the delegation index is exact, an executed proposal is final, and what execution looks at.
\<close>

section \<open>The square root\<close>

text \<open>The loop invariant: everything below \<open>low\<close> is too small or the result, everything above \<open>high\<close> is too large.\<close>

definition bracket :: "i128 \<Rightarrow> i128 \<Rightarrow> i128 \<Rightarrow> i128 \<Rightarrow> bool" where
  "bracket n low high res \<longleftrightarrow>
     1 \<le> low \<and> low \<le> high + 1 \<and> high \<le> n \<and> 0 \<le> res \<and> res * res \<le> n \<and> (low = res + 1 \<or> low = 1 \<and> res = 1) \<and> n < (high + 1) * (high + 1)"

lemma square_less_iff: "0 \<le> a \<Longrightarrow> 0 \<le> b \<Longrightarrow> (a::int) * a < b * b \<longleftrightarrow> a < b"
  by (metis linorder_not_le mult_mono mult_strict_mono' nle_le order_le_less_trans)

lemma sqrt_loop_correct:
  assumes "bracket n low high res" "n < i128_max" "1 \<le> n"
  shows "let r = sqrt_loop n low high res in 0 \<le> r \<and> r * r \<le> n \<and> n < (r + 1) * (r + 1)"
  using assms
proof (induction n low high res rule: sqrt_loop.induct)
  case (1 n low high res)
  show ?case
  proof (cases "low \<le> high")
    case False
    with "1.prems" have "low = high + 1" by (simp add: bracket_def)
    with "1.prems"(1) have "n < low * low" "low = res + 1 \<or> low = 1 \<and> res = 1" by (auto simp: bracket_def)
    with "1.prems" False have "n < (res + 1) * (res + 1)" by auto
    with "1.prems"(1) False show ?thesis by (simp add: bracket_def)
  next
    case True
    define mid where "mid = low + (high - low) div 2"
    have mid: "low \<le> mid" "mid \<le> high" using True by (auto simp: mid_def)
    have low: "1 \<le> low" "high \<le> n" using "1.prems"(1) by (auto simp: bracket_def)
    have sq: "i128_clamp (mid * mid) = n \<longleftrightarrow> mid * mid = n" "i128_clamp (mid * mid) < n \<longleftrightarrow> mid * mid < n"
      using "1.prems"(2) low mid by (auto simp: i128_clamp_def i128_max_def i128_min_def)
    consider "mid * mid = n" | "mid * mid < n" | "n < mid * mid" by linarith
    then show ?thesis
    proof cases
      case 1
      have "n < (mid + 1) * (mid + 1)" using 1 low mid by (simp add: algebra_simps)
      with 1 True sq low mid show ?thesis by (subst sqrt_loop.simps) (simp add: Let_def mid_def[symmetric])
    next
      case 2
      have "bracket n (mid + 1) high mid" using "1.prems"(1) low mid 2 by (auto simp: bracket_def)
      from "1.IH"(1)[OF True mid_def refl _ _ this "1.prems"(2,3)] 2 sq True show ?thesis
        by (subst sqrt_loop.simps) (simp add: Let_def mid_def[symmetric])
    next
      case 3
      have "bracket n low (mid - 1) res" using "1.prems"(1) low mid 3 by (auto simp: bracket_def)
      from "1.IH"(2)[OF True mid_def refl _ _ this "1.prems"(2,3)] 3 sq True show ?thesis
        by (subst sqrt_loop.simps) (simp add: Let_def mid_def[symmetric])
    qed
  qed
qed

lemma integer_sqrt_floor:
  assumes "0 \<le> n" "n < i128_max"
  shows "0 \<le> integer_sqrt n \<and> integer_sqrt n * integer_sqrt n \<le> n \<and> n < (integer_sqrt n + 1) * (integer_sqrt n + 1)"
proof (cases "n \<le> 1")
  case True
  then have "n = 0 \<or> n = 1" using assms by linarith
  then show ?thesis by (auto simp: integer_sqrt_def)
next
  case False
  have "n < (n + 1) * (n + 1)"
  proof -
    have "n < 1 * (n + 1)" by simp
    also have "\<dots> \<le> (n + 1) * (n + 1)" using False by (intro mult_right_mono) auto
    finally show ?thesis .
  qed
  then have "bracket n 1 n 1" using False by (simp add: bracket_def)
  from sqrt_loop_correct[OF this] assms False show ?thesis by (simp add: integer_sqrt_def Let_def)
qed

lemma sqrt_loop_pos: "1 \<le> low \<Longrightarrow> 1 \<le> res \<Longrightarrow> 1 \<le> sqrt_loop n low high res"
proof (induction n low high res rule: sqrt_loop.induct)
  case (1 n low high res)
  define mid where "mid = low + (high - low) div 2"
  show ?case
  proof (cases "low \<le> high")
    case True
    then have "1 \<le> mid" using "1.prems" by (simp add: mid_def)
    with "1.IH"(1)[OF True mid_def refl] "1.IH"(2)[OF True mid_def refl] "1.prems" True show ?thesis
      by (subst sqrt_loop.simps) (simp add: Let_def mid_def[symmetric])
  qed (use "1.prems" in simp)
qed

lemma integer_sqrt_pos: "0 < n \<Longrightarrow> 0 < integer_sqrt n"
  using sqrt_loop_pos[of 1 1 n n] by (simp add: integer_sqrt_def)

text \<open>C25: The binary search of quadratic voting ends on every input and, below the largest \<open>i128\<close>, its
  result is the integer square root: the greatest number whose square is at most the credits.  At the
  largest \<open>i128\<close>, where the square saturates to the very number searched, it answers \<open>2 ^ 126\<close>.\<close>

theorem integer_sqrt_is_floor:
  "(0 \<le> n \<and> n < i128_max \<longrightarrow> 0 \<le> integer_sqrt n \<and> integer_sqrt n * integer_sqrt n \<le> n \<and>
     n < (integer_sqrt n + 1) * (integer_sqrt n + 1)) \<and>
   integer_sqrt i128_max = 2 ^ 126"
proof (intro conjI[OF impI])
  show "integer_sqrt i128_max = 2 ^ 126"
    unfolding integer_sqrt_def by (subst sqrt_loop.simps) (simp add: i128_max_def i128_min_def i128_clamp_def Let_def)
qed (use integer_sqrt_floor in blast)

section \<open>Calls and runs\<close>

datatype (plugins only: code) gv_op =
    Gv_initialize address address
  | Gv_set_weight address address i128
  | Gv_set_vesting address address
  | Gv_delegate address address
  | Gv_revoke address
  | Gv_create address string string ProposalType VotingMode i128 u64
  | Gv_vote address u64 VoteChoice i128
  | Gv_execute address u64

fun gv_exec :: "vested \<Rightarrow> env \<Rightarrow> gv_op \<Rightarrow> gv_state \<Rightarrow> gv_state gv_result" where
  "gv_exec vest e (Gv_initialize a b) s = gv_initialize e s a b"
| "gv_exec vest e (Gv_set_weight a b w) s = set_voting_weight e s a b w"
| "gv_exec vest e (Gv_set_vesting a b) s = set_vesting_contract e s a b"
| "gv_exec vest e (Gv_delegate a b) s = delegate_to e s a b"
| "gv_exec vest e (Gv_revoke a) s = gv_revoke_delegation e s a"
| "gv_exec vest e (Gv_create a ti de ty m q d) s = rbind (create_proposal e s a ti de ty m q d) (\<lambda>(s, _). Inr s)"
| "gv_exec vest e (Gv_vote a n c k) s = vote vest e s a n c k"
| "gv_exec vest e (Gv_execute a n) s = gv_execute_proposal e s a n"

inductive gv_runs :: "gv_state \<Rightarrow> gv_state \<Rightarrow> bool" where
  gv_none: "gv_runs s s"
| gv_step: "gv_runs s s1 \<Longrightarrow> gv_exec vest e c s1 = Inr s2 \<Longrightarrow> gv_runs s s2"

text \<open>Runs start with the empty contract, and every call can come at any time but one: proposals can
  be made before the contract is initialised, and \<open>initialize\<close> then hands their numbers out again.
  In the states of \<open>gv_reachable\<close> it was only called while there was no proposal;
  \<open>Voting_Example.early_proposal_loses_its_votes\<close> is what happens otherwise.\<close>

fun in_order :: "gv_op \<Rightarrow> gv_state \<Rightarrow> bool" where
  "in_order (Gv_initialize a b) s = (\<forall>n. gv_proposal s n = None)"
| "in_order _ s = True"

inductive gv_reachable :: "gv_state \<Rightarrow> bool" where
  gv_start: "gv_reachable gv_empty"
| gv_next: "gv_reachable s \<Longrightarrow> gv_exec vest e c s = Inr s' \<Longrightarrow> in_order c s \<Longrightarrow> gv_reachable s'"

lemma gv_reachable_runs: "gv_reachable s \<Longrightarrow> gv_runs gv_empty s"
  by (induction rule: gv_reachable.induct) (auto intro: gv_none gv_step)

lemma gv_helpers_Inr [simp]:
  "gv_require_admin s a = Inr u \<longleftrightarrow> gv_admin s = Some a"
  "gv_as_admin e s a = Inr u \<longleftrightarrow> authorised e a \<and> gv_admin s = Some a"
  by (auto simp: gv_require_admin_def gv_as_admin_def split: if_splits)

section \<open>What the calls leave alone\<close>

definition polls where "polls s = (gv_next_proposal s, gv_proposal s, gv_vote s)"
definition delegations where "delegations s = (gv_delegation s, gv_delegated_by s)"

lemma index_same [simp]:
  "polls (add_to_delegated_by a b s) = polls s" "polls (remove_from_delegated_by a b s) = polls s"
  "gv_admin (add_to_delegated_by a b s) = gv_admin s" "gv_admin (remove_from_delegated_by a b s) = gv_admin s"
  "gv_delegation (add_to_delegated_by a b s) = gv_delegation s" "gv_delegation (remove_from_delegated_by a b s) = gv_delegation s"
  by (simp_all add: add_to_delegated_by_def remove_from_delegated_by_def polls_def Let_def)

lemma polls_unrelated [simp]:
  "polls (s\<lparr>gv_weight := w\<rparr>) = polls s" "polls (s\<lparr>gv_vesting := v\<rparr>) = polls s" "polls (s\<lparr>gv_delegation := d\<rparr>) = polls s"
  by (simp_all add: polls_def)

lemma delegate_to_Inr:
  assumes "delegate_to e s a b = Inr s'"
  shows "a \<noteq> b \<and> gv_delegation s b \<noteq> Some a \<and>
    s' = add_to_delegated_by b a ((case gv_delegation s a of None \<Rightarrow> s | Some d \<Rightarrow> remove_from_delegated_by d a s)
           \<lparr>gv_delegation := (gv_delegation s)(a \<mapsto> b)\<rparr>)"
  using assms by (auto simp: delegate_to_def Let_def split: if_splits option.splits)

lemma delegating_polls:
  "delegate_to e s a b = Inr s' \<Longrightarrow> polls s' = polls s" "gv_revoke_delegation e s a = Inr s' \<Longrightarrow> polls s' = polls s"
  by (auto dest!: delegate_to_Inr simp: gv_revoke_delegation_def Let_def split: option.splits)

lemma admin_polls:
  "set_voting_weight e s a b w = Inr s' \<Longrightarrow> polls s' = polls s" "set_vesting_contract e s a b = Inr s' \<Longrightarrow> polls s' = polls s"
  by (auto simp: set_voting_weight_def set_vesting_contract_def split: if_splits)

lemma vote_Inr:
  assumes "vote vest e s v n c k = Inr s'"
  obtains p base w spent p' where "authorised e v" "gv_proposal s n = Some p" "timestamp e \<le> gp_expires_at p" "\<not> gp_executed p"
    "gv_vote s n v = None" "get_base_weight_at_snapshot vest s v (gp_created_at p) = Inr base" "0 < base"
    "effective_weight (gp_mode p) base k = Inr (w, spent)" "add_to_tally c w p = Inr p'"
    "s' = s\<lparr>gv_vote := (gv_vote s)(n := (gv_vote s n)(v \<mapsto> \<lparr>vr_voter = v, vr_choice = c, vr_weight = w, vr_credits = spent,
       vr_voted_at = timestamp e\<rparr>)), gv_proposal := (gv_proposal s)(n \<mapsto> p')\<rparr>"
  using assms by (auto simp: vote_def Let_def split: if_splits)

lemma create_Inr:
  assumes "create_proposal e s a ti de ty m q d = Inr (s', n)"
  shows "\<exists>p. s' = s\<lparr>gv_proposal := (gv_proposal s)(n \<mapsto> p), gv_next_proposal := Some (n + 1)\<rparr> \<and>
    n = (case gv_next_proposal s of None \<Rightarrow> 0 | Some k \<Rightarrow> k) \<and> gp_votes_for p = 0 \<and> gp_votes_against p = 0 \<and> gp_votes_abstain p = 0 \<and>
    \<not> gp_executed p \<and> gp_mode p = m \<and> gp_created_at p = timestamp e \<and> (ty = Financial \<longrightarrow> m = Standard)"
  using assms by (auto simp: create_proposal_def Let_def split: if_splits intro: VotingMode.exhaust)

lemma execute_Inr:
  assumes "gv_execute_proposal e s a n = Inr s'"
  obtains p k where "authorised e a" "gv_admin s = Some a" "gv_proposal s n = Some p" "\<not> gp_executed p" "timestamp e \<le> gp_expires_at p"
    "total_votes p = Inr k" "gp_quorum_required p \<le> k" "s' = s\<lparr>gv_proposal := (gv_proposal s)(n \<mapsto> p\<lparr>gp_executed := True\<rparr>)\<rparr>"
  using assms by (auto simp: gv_execute_proposal_def split: if_splits)

section \<open>Tallies\<close>

definition cast :: "gv_state \<Rightarrow> u64 \<Rightarrow> VoteChoice \<Rightarrow> address set" where
  "cast s n c = {v. \<exists>r. gv_vote s n v = Some r \<and> vr_choice r = c}"

definition weight_of :: "gv_state \<Rightarrow> u64 \<Rightarrow> address \<Rightarrow> i128" where
  "weight_of s n v = (case gv_vote s n v of None \<Rightarrow> 0 | Some r \<Rightarrow> vr_weight r)"

definition tally :: "gv_state \<Rightarrow> u64 \<Rightarrow> VoteChoice \<Rightarrow> i128" where
  "tally s n c = (\<Sum>v\<in>cast s n c. weight_of s n v)"

fun counted :: "VoteChoice \<Rightarrow> GvProposal \<Rightarrow> i128" where
  "counted For p = gp_votes_for p"
| "counted Against p = gp_votes_against p"
| "counted Abstain p = gp_votes_abstain p"

definition next_poll :: "gv_state \<Rightarrow> u64" where
  "next_poll s = (case gv_next_proposal s of None \<Rightarrow> 0 | Some k \<Rightarrow> k)"

definition polls_ok :: "gv_state \<Rightarrow> bool" where
  "polls_ok s \<longleftrightarrow> (\<forall>n. finite (dom (gv_vote s n)) \<and> (\<forall>p. gv_proposal s n = Some p \<longrightarrow> n < next_poll s \<and> (\<forall>c. counted c p = tally s n c)) \<and>
     (\<forall>v r. gv_vote s n v = Some r \<longrightarrow> n < next_poll s \<and> vr_voter r = v \<and> 0 < vr_weight r))"

lemma polls_ok_same: "polls s' = polls s \<Longrightarrow> polls_ok s \<Longrightarrow> polls_ok s'"
  by (simp add: polls_ok_def polls_def tally_def cast_def weight_of_def next_poll_def)

lemma tally_cong: "gv_vote s' n = gv_vote s n \<Longrightarrow> tally s' n c = tally s n c"
  by (simp add: tally_def cast_def weight_of_def)

lemma finite_cast: "finite (dom (gv_vote s n)) \<Longrightarrow> finite (cast s n c)"
  by (erule rev_finite_subset) (auto simp: cast_def)

lemma add_to_tally_Inr:
  assumes "add_to_tally c w p = Inr p'"
  shows "counted d p' = counted d p + (if d = c then w else 0)" "gp_executed p' = gp_executed p" "gp_mode p' = gp_mode p"
    "gp_quorum_required p' = gp_quorum_required p" "gp_created_at p' = gp_created_at p"
  using assms by (cases c; cases d; auto simp: add_to_tally_def)+

lemma tally_vote:
  assumes "gv_vote s n v = None" "finite (dom (gv_vote s n))" "gv_vote s' n = (gv_vote s n)(v \<mapsto> r)"
  shows "tally s' n c = tally s n c + (if c = vr_choice r then vr_weight r else 0)"
proof -
  have old: "v \<notin> cast s n d" for d using assms(1) by (simp add: cast_def)
  have same: "(\<Sum>x\<in>cast s n d. weight_of s' n x) = tally s n d" for d
    unfolding tally_def using old assms(3) by (intro sum.cong) (auto simp: weight_of_def)
  have "cast s' n c = (if c = vr_choice r then insert v (cast s n c) else cast s n c)"
    using assms(1,3) by (auto simp: cast_def)
  with same old finite_cast[OF assms(2)] assms(3) show ?thesis
    by (simp add: tally_def[of s' n c] weight_of_def)
qed

lemma vote_keeps_polls:
  assumes "polls_ok s" "vote vest e s v n c k = Inr s'"
  shows "polls_ok s'"
proof -
  from assms(2) obtain p base w spent p' where v: "gv_proposal s n = Some p" "gv_vote s n v = None" "0 < base"
    "effective_weight (gp_mode p) base k = Inr (w, spent)" "add_to_tally c w p = Inr p'"
    and s': "s' = s\<lparr>gv_vote := (gv_vote s)(n := (gv_vote s n)(v \<mapsto> \<lparr>vr_voter = v, vr_choice = c, vr_weight = w, vr_credits = spent,
       vr_voted_at = timestamp e\<rparr>)), gv_proposal := (gv_proposal s)(n \<mapsto> p')\<rparr>" by (rule vote_Inr)
  have w: "0 < w"
  proof (cases "gp_mode p")
    case Quadratic
    with v(4) have "0 < k" "w = integer_sqrt k" by (auto simp: effective_weight_def split: if_splits)
    then show ?thesis by (simp add: integer_sqrt_pos)
  qed (use v(3,4) in \<open>simp add: effective_weight_def\<close>)
  from assms(1) v(1) have old: "finite (dom (gv_vote s n))" "n < next_poll s" "counted d p = tally s n d" for d
    by (auto simp: polls_ok_def)
  have "counted d p' = tally s' n d" for d
    using tally_vote[OF v(2) old(1), of s'] add_to_tally_Inr(1)[OF v(5)] old(3) by (simp add: s')
  moreover have "tally s' m d = tally s m d" if "m \<noteq> n" for m d using that by (intro tally_cong) (simp add: s')
  moreover have "next_poll s' = next_poll s" by (simp add: s' next_poll_def)
  moreover have "finite (dom (gv_vote s' m))" for m using assms(1) by (simp add: s' polls_ok_def)
  moreover have "gv_proposal s' = (gv_proposal s)(n \<mapsto> p')" by (simp add: s')
  moreover have "gv_vote s' m x = Some r \<Longrightarrow> m < next_poll s \<and> vr_voter r = x \<and> 0 < vr_weight r" for m x r
    using assms(1) old(2) w by (auto simp: s' polls_ok_def split: if_splits)
  ultimately show ?thesis using assms(1) old(2) by (auto simp: polls_ok_def)
qed

text \<open>Votes are votes on a proposal.\<close>

definition votes_have_polls :: "gv_state \<Rightarrow> bool" where
  "votes_have_polls s \<longleftrightarrow> (\<forall>n v. gv_vote s n v \<noteq> None \<longrightarrow> gv_proposal s n \<noteq> None)"

lemma exec_votes_have_polls:
  assumes "gv_exec vest e c s = Inr s'" "votes_have_polls s"
  shows "votes_have_polls s'"
proof (cases c)
  case (Gv_create x ti de ty m q d)
  with assms(1) obtain n where "create_proposal e s x ti de ty m q d = Inr (s', n)" by auto
  from create_Inr[OF this] have "gv_vote s' = gv_vote s" "\<exists>p. gv_proposal s' = (gv_proposal s)(n \<mapsto> p)" by auto
  with assms(2) show ?thesis unfolding votes_have_polls_def by fastforce
next
  case (Gv_vote v n ch k)
  with assms(1) obtain r p p' where "gv_vote s' = (gv_vote s)(n := (gv_vote s n)(v \<mapsto> r))"
    "gv_proposal s n = Some p" "gv_proposal s' = (gv_proposal s)(n \<mapsto> p')" by (auto elim!: vote_Inr)
  with assms(2) show ?thesis unfolding votes_have_polls_def by fastforce
next
  case (Gv_execute a n)
  with assms(1) obtain p where "gv_vote s' = gv_vote s" "gv_proposal s' = (gv_proposal s)(n \<mapsto> p)"
    by (auto elim!: execute_Inr)
  with assms(2) show ?thesis unfolding votes_have_polls_def by fastforce
next
  case (Gv_initialize a b)
  with assms(1) have "gv_vote s' = gv_vote s" "gv_proposal s' = gv_proposal s"
    by (auto simp: gv_initialize_def split: if_splits)
  with assms(2) show ?thesis unfolding votes_have_polls_def by simp
qed (use assms in \<open>simp_all add: votes_have_polls_def polls_def delegating_polls admin_polls, (fastforce simp: polls_def dest: delegating_polls admin_polls)+\<close>)

lemma exec_keeps_polls:
  assumes "polls_ok s" "gv_admin s \<noteq> None \<or> in_order c s \<and> votes_have_polls s" "gv_exec vest e c s = Inr s'"
  shows "polls_ok s'"
proof (cases c)
  case (Gv_initialize a b)
  with assms(3) have s': "gv_admin s = None" "gv_proposal s' = gv_proposal s" "gv_vote s' = gv_vote s"
    by (auto simp: gv_initialize_def split: if_splits)
  with assms(2) Gv_initialize have "gv_proposal s n = None" "gv_vote s n v = None" for n v
    by (auto simp: votes_have_polls_def)
  with s' show ?thesis by (simp add: polls_ok_def dom_def)
next
  case (Gv_create a ti de ty m q d)
  with assms(3) obtain n where "create_proposal e s a ti de ty m q d = Inr (s', n)" by auto
  from create_Inr[OF this] obtain p where s': "s' = s\<lparr>gv_proposal := (gv_proposal s)(n \<mapsto> p), gv_next_proposal := Some (n + 1)\<rparr>"
    and n: "n = next_poll s" and zero: "gp_votes_for p = 0" "gp_votes_against p = 0" "gp_votes_abstain p = 0" by (auto simp: next_poll_def)
  have none: "gv_vote s n v = None" for v using assms(1) n unfolding polls_ok_def by (meson less_irrefl option.exhaust)
  then have "tally s n d = 0" for d by (simp add: tally_def cast_def)
  moreover have "counted d p = 0" for d using zero by (cases d) simp_all
  moreover have "tally s' m d = tally s m d" for m d by (rule tally_cong) (simp add: s')
  moreover have "next_poll s' = n + 1" by (simp add: s' next_poll_def)
  ultimately show ?thesis using assms(1) n by (auto simp: polls_ok_def s' less_Suc_eq)
next
  case (Gv_vote v n ch k)
  with assms vote_keeps_polls show ?thesis by simp
next
  case (Gv_execute a n)
  with assms(3) obtain p where p: "gv_proposal s n = Some p" "s' = s\<lparr>gv_proposal := (gv_proposal s)(n \<mapsto> p\<lparr>gp_executed := True\<rparr>)\<rparr>"
    by (auto elim: execute_Inr)
  have "counted d (p\<lparr>gp_executed := True\<rparr>) = counted d p" for d by (cases d) simp_all
  moreover have "tally s' m d = tally s m d" for m d by (rule tally_cong) (simp add: p)
  moreover have "next_poll s' = next_poll s" by (simp add: p next_poll_def)
  ultimately show ?thesis using assms(1) p by (auto simp: polls_ok_def)
qed (use assms in \<open>auto intro: polls_ok_same dest: delegating_polls admin_polls\<close>)

lemma gv_admin_stays:
  assumes "gv_exec vest e c s = Inr s'" "gv_admin s = Some a"
  shows "gv_admin s' = Some a"
proof (cases c)
  case (Gv_create x ti de ty m q d)
  with assms(1) obtain n where "create_proposal e s x ti de ty m q d = Inr (s', n)" by auto
  with assms(2) show ?thesis by (auto dest: create_Inr)
next
  case (Gv_vote v n ch k)
  with assms show ?thesis by (auto elim!: vote_Inr)
next
  case (Gv_execute x n)
  with assms show ?thesis by (auto elim!: execute_Inr)
qed (use assms in \<open>auto simp: gv_initialize_def set_voting_weight_def set_vesting_contract_def gv_revoke_delegation_def Let_def
    dest!: delegate_to_Inr split: if_splits option.splits\<close>)

lemma reachable_polls: "gv_reachable s \<Longrightarrow> polls_ok s \<and> votes_have_polls s"
proof (induction rule: gv_reachable.induct)
  case (gv_next s vest e c s')
  then show ?case using exec_keeps_polls exec_votes_have_polls by blast
qed (simp add: gv_empty_def polls_ok_def votes_have_polls_def)

lemma reachable_polls_ok: "gv_reachable s \<Longrightarrow> polls_ok s"
  using reachable_polls by blast

lemma polls_tallies:
  assumes "polls_ok s" "gv_proposal s n = Some p"
  shows "gp_votes_for p = tally s n For" "gp_votes_against p = tally s n Against" "gp_votes_abstain p = tally s n Abstain"
proof -
  have "counted c p = tally s n c" for c using assms by (simp add: polls_ok_def)
  from this[of For] this[of Against] this[of Abstain]
  show "gp_votes_for p = tally s n For" "gp_votes_against p = tally s n Against" "gp_votes_abstain p = tally s n Abstain" by simp_all
qed

lemma all_votes:
  assumes "finite (dom (gv_vote s n))"
  shows "(\<Sum>v\<in>dom (gv_vote s n). weight_of s n v) = tally s n For + tally s n Against + tally s n Abstain"
proof -
  have "v \<in> dom (gv_vote s n) \<longleftrightarrow> v \<in> cast s n For \<union> (cast s n Against \<union> cast s n Abstain)" for v
  proof (cases "gv_vote s n v")
    case (Some r)
    then show ?thesis by (cases "vr_choice r") (auto simp: cast_def)
  qed (simp add: cast_def domIff)
  then have "dom (gv_vote s n) = cast s n For \<union> (cast s n Against \<union> cast s n Abstain)" by blast
  moreover have "cast s n For \<inter> (cast s n Against \<union> cast s n Abstain) = {}" "cast s n Against \<inter> cast s n Abstain = {}"
    by (auto simp: cast_def)
  ultimately show ?thesis using finite_cast[OF assms] by (simp add: tally_def sum.union_disjoint)
qed

text \<open>C23: In every state reached from the empty contract, where \<open>initialize\<close> was not called after a
  proposal had been made, the three tallies of a proposal are the sums of the weights of the votes
  on record for it, each a positive weight of a different voter.\<close>

theorem tallies_are_sums_of_votes:
  assumes "gv_reachable s" "gv_proposal s n = Some p"
  shows "gp_votes_for p = (\<Sum>v\<in>cast s n For. weight_of s n v) \<and>
    gp_votes_against p = (\<Sum>v\<in>cast s n Against. weight_of s n v) \<and>
    gp_votes_abstain p = (\<Sum>v\<in>cast s n Abstain. weight_of s n v) \<and>
    finite (dom (gv_vote s n)) \<and> (\<forall>v r. gv_vote s n v = Some r \<longrightarrow> vr_voter r = v \<and> 0 < vr_weight r)"
proof -
  have ok: "polls_ok s" by (rule reachable_polls_ok[OF assms(1)])
  from polls_tallies[OF ok assms(2)] ok show ?thesis by (auto simp: tally_def polls_ok_def)
qed

section \<open>A vote\<close>

text \<open>A vote counts once, with the voter's own weight at the time the proposal was made, or the
  square root of the credits it spends of it; weight that others have delegated to the voter is never
  counted, and no other tally, vote or proposal changes.\<close>

theorem vote_effect:
  assumes "vote vest e s v n c k = Inr s'"
  shows "\<exists>p p' base r. gv_proposal s n = Some p \<and> \<not> gp_executed p \<and> timestamp e \<le> gp_expires_at p \<and> gv_vote s n v = None \<and>
    get_base_weight_at_snapshot vest s v (gp_created_at p) = Inr base \<and> gv_vote s' n v = Some r \<and> vr_choice r = c \<and>
    (gp_mode p = Standard \<longrightarrow> vr_weight r = base \<and> vr_credits r = 0) \<and>
    (gp_mode p = Quadratic \<longrightarrow> 0 < k \<and> k \<le> base \<and> vr_credits r = k \<and> vr_weight r = integer_sqrt k) \<and>
    gv_proposal s' = (gv_proposal s)(n \<mapsto> p') \<and> (\<forall>d. counted d p' = counted d p + (if d = c then vr_weight r else 0)) \<and>
    (\<forall>m x. (m, x) \<noteq> (n, v) \<longrightarrow> gv_vote s' m x = gv_vote s m x) \<and>
    (\<forall>dl db. vote vest e (s\<lparr>gv_delegation := dl, gv_delegated_by := db\<rparr>) v n c k = Inr (s'\<lparr>gv_delegation := dl, gv_delegated_by := db\<rparr>))"
proof -
  from assms obtain p base w spent p' where v: "authorised e v" "gv_proposal s n = Some p" "timestamp e \<le> gp_expires_at p" "\<not> gp_executed p"
    "gv_vote s n v = None" "get_base_weight_at_snapshot vest s v (gp_created_at p) = Inr base" "0 < base"
    "effective_weight (gp_mode p) base k = Inr (w, spent)" "add_to_tally c w p = Inr p'"
    and s': "s' = s\<lparr>gv_vote := (gv_vote s)(n := (gv_vote s n)(v \<mapsto> \<lparr>vr_voter = v, vr_choice = c, vr_weight = w, vr_credits = spent,
       vr_voted_at = timestamp e\<rparr>)), gv_proposal := (gv_proposal s)(n \<mapsto> p')\<rparr>" by (rule vote_Inr)
  have weights: "gp_mode p = Standard \<longrightarrow> w = base \<and> spent = 0"
    "gp_mode p = Quadratic \<longrightarrow> 0 < k \<and> k \<le> base \<and> spent = k \<and> w = integer_sqrt k"
    using v(8) by (auto simp: effective_weight_def split: if_splits)
  have "get_base_weight_at_snapshot vest (s\<lparr>gv_delegation := dl, gv_delegated_by := db\<rparr>) = get_base_weight_at_snapshot vest s" for dl db
    by (auto simp: get_base_weight_at_snapshot_def fun_eq_iff split: option.splits)
  then have "vote vest e (s\<lparr>gv_delegation := dl, gv_delegated_by := db\<rparr>) v n c k = Inr (s'\<lparr>gv_delegation := dl, gv_delegated_by := db\<rparr>)" for dl db
    using v by (simp add: vote_def Let_def s' require_auth_def)
  with v s' weights add_to_tally_Inr(1)[OF v(9)] show ?thesis by auto
qed

section \<open>Execution\<close>

text \<open>A proposal keeps everything but its tallies, and once executed those as well.\<close>

definition settled_kept :: "gv_state \<Rightarrow> gv_state \<Rightarrow> bool" where
  "settled_kept s s' \<longleftrightarrow> (\<forall>n p. gv_proposal s n = Some p \<and> gp_executed p \<longrightarrow> gv_proposal s' n = Some p \<and> gv_vote s' n = gv_vote s n)"

lemma exec_settled:
  assumes "gv_exec vest e c s = Inr s'" "polls_ok s" "gv_admin s \<noteq> None"
  shows "settled_kept s s'"
proof (cases c)
  case (Gv_create x ti de ty m q d)
  with assms(1) obtain n where "create_proposal e s x ti de ty m q d = Inr (s', n)" by auto
  from create_Inr[OF this] have "n = next_poll s" "\<exists>p. gv_proposal s' = (gv_proposal s)(n \<mapsto> p)" "gv_vote s' = gv_vote s"
    by (auto simp: next_poll_def)
  moreover from this(1) assms(2) have "gv_proposal s n = None" unfolding polls_ok_def by (metis less_irrefl not_None_eq)
  ultimately show ?thesis by (auto simp: settled_kept_def)
next
  case (Gv_vote v n ch k)
  with assms(1) show ?thesis by (auto simp: settled_kept_def elim!: vote_Inr)
next
  case (Gv_execute a n)
  with assms(1) show ?thesis by (auto simp: settled_kept_def elim!: execute_Inr)
next
  case (Gv_initialize a b)
  with assms show ?thesis by (auto simp: gv_initialize_def split: if_splits)
qed (use assms(1) in \<open>auto simp: settled_kept_def polls_def dest!: delegating_polls admin_polls\<close>)

lemma runs_settled:
  "gv_runs s s' \<Longrightarrow> polls_ok s \<Longrightarrow> gv_admin s \<noteq> None \<Longrightarrow> settled_kept s s' \<and> polls_ok s' \<and> gv_admin s' \<noteq> None"
proof (induction rule: gv_runs.induct)
  case (gv_step s s1 vest e c s2)
  then have "settled_kept s s1" "settled_kept s1 s2" using exec_settled[OF gv_step.hyps(2)] by auto
  then have "settled_kept s s2" by (auto simp: settled_kept_def)
  with gv_step exec_keeps_polls gv_admin_stays show ?case by blast
qed (simp add: settled_kept_def)

text \<open>C32: In a state reached without calling \<open>initialize\<close> after a proposal was made, a proposal that is
  executed was pending when the admin executed it, and the recorded votes, whatever their choice, add
  up to its quorum.  In every later state, whatever is called, it stands with the same tallies and
  votes, takes no vote and is not executed again.\<close>

theorem executed_proposal_is_final:
  assumes "gv_reachable s" "gv_execute_proposal e s a n = Inr s1" "gv_runs s1 s2"
  shows "\<exists>p. gv_proposal s n = Some p \<and> \<not> gp_executed p \<and> timestamp e \<le> gp_expires_at p \<and> authorised e a \<and> gv_admin s = Some a \<and>
    gp_quorum_required p \<le> (\<Sum>v\<in>dom (gv_vote s n). weight_of s n v) \<and>
    gv_proposal s2 n = Some (p\<lparr>gp_executed := True\<rparr>) \<and> gv_vote s2 n = gv_vote s n \<and>
    (\<forall>vest e v c k. \<not> is_ok (vote vest e s2 v n c k)) \<and> (\<forall>e b. \<not> is_ok (gv_execute_proposal e s2 b n))"
proof -
  from assms(2) obtain p k where p: "authorised e a" "gv_admin s = Some a" "gv_proposal s n = Some p" "\<not> gp_executed p"
    "timestamp e \<le> gp_expires_at p" "total_votes p = Inr k" "gp_quorum_required p \<le> k"
    and s1: "s1 = s\<lparr>gv_proposal := (gv_proposal s)(n \<mapsto> p\<lparr>gp_executed := True\<rparr>)\<rparr>" by (rule execute_Inr)
  have ok: "polls_ok s" by (rule reachable_polls_ok[OF assms(1)])
  have fin: "finite (dom (gv_vote s n))" using ok by (simp add: polls_ok_def)
  have quorum: "gp_quorum_required p \<le> (\<Sum>v\<in>dom (gv_vote s n). weight_of s n v)"
    using p(6,7) polls_tallies[OF ok p(3)] by (auto simp: all_votes[OF fin] total_votes_def bind_eq_Some_conv)
  have "gv_exec (\<lambda>_ _ _. None) e (Gv_execute a n) s = Inr s1" using assms(2) by simp
  with ok p(2) exec_keeps_polls gv_admin_stays have "polls_ok s1" "gv_admin s1 \<noteq> None" by blast+
  with runs_settled[OF assms(3)] have "settled_kept s1 s2" by simp
  moreover have "gv_proposal s1 n = Some (p\<lparr>gp_executed := True\<rparr>)" "gp_executed (p\<lparr>gp_executed := True\<rparr>)" "gv_vote s1 n = gv_vote s n"
    by (simp_all add: s1)
  ultimately have final: "gv_proposal s2 n = Some (p\<lparr>gp_executed := True\<rparr>)" "gv_vote s2 n = gv_vote s n"
    unfolding settled_kept_def by metis+
  have "\<not> is_ok (vote vest e s2 v n c k)" for vest e v c k
    using final by (auto simp: is_ok_iff elim!: vote_Inr)
  moreover have "\<not> is_ok (gv_execute_proposal e s2 b n)" for e b
    using final by (auto simp: is_ok_iff elim!: execute_Inr)
  ultimately show ?thesis using p quorum final by blast
qed

text \<open>What execution asks of the votes is only their number: a proposal is executable exactly when
  the admin calls it, it is pending and its recorded votes add up to the quorum within \<open>i128\<close>.  A
  proposal that everybody voted against is executed like any other.\<close>

theorem execution_ignores_direction:
  assumes "gv_reachable s"
  shows "is_ok (gv_execute_proposal e s a n) \<longleftrightarrow>
    (\<exists>p. gv_proposal s n = Some p \<and> authorised e a \<and> gv_admin s = Some a \<and> \<not> gp_executed p \<and> timestamp e \<le> gp_expires_at p \<and>
       tally s n For + tally s n Against + tally s n Abstain \<le> i128_max \<and>
       gp_quorum_required p \<le> tally s n For + tally s n Against + tally s n Abstain)"
proof -
  have ok: "polls_ok s" by (rule reachable_polls_ok[OF assms])
  have nonneg: "0 \<le> tally s n c" for c
    unfolding tally_def using ok by (intro sum_nonneg) (auto simp: weight_of_def polls_ok_def less_imp_le split: option.splits)
  have votes: "total_votes p = Inr k \<longleftrightarrow>
      k = tally s n For + tally s n Against + tally s n Abstain \<and> k \<le> i128_max" if "gv_proposal s n = Some p" for p k
  proof -
    show ?thesis
      using polls_tallies[OF ok that]
        nonneg[of For] nonneg[of Against] nonneg[of Abstain]
      by (auto simp: total_votes_def bind_eq_Some_conv i128_min_def)
  qed
  show ?thesis
  proof
    assume "is_ok (gv_execute_proposal e s a n)"
    then show "\<exists>p. gv_proposal s n = Some p \<and> authorised e a \<and> gv_admin s = Some a \<and> \<not> gp_executed p \<and> timestamp e \<le> gp_expires_at p \<and>
       tally s n For + tally s n Against + tally s n Abstain \<le> i128_max \<and>
       gp_quorum_required p \<le> tally s n For + tally s n Against + tally s n Abstain"
      using votes by (auto simp: is_ok_iff elim!: execute_Inr)
  next
    assume "\<exists>p. gv_proposal s n = Some p \<and> authorised e a \<and> gv_admin s = Some a \<and> \<not> gp_executed p \<and> timestamp e \<le> gp_expires_at p \<and>
       tally s n For + tally s n Against + tally s n Abstain \<le> i128_max \<and>
       gp_quorum_required p \<le> tally s n For + tally s n Against + tally s n Abstain"
    then obtain p where p: "gv_proposal s n = Some p" "authorised e a" "gv_admin s = Some a" "\<not> gp_executed p" "timestamp e \<le> gp_expires_at p"
       "tally s n For + tally s n Against + tally s n Abstain \<le> i128_max"
       "gp_quorum_required p \<le> tally s n For + tally s n Against + tally s n Abstain" by blast
    then have "total_votes p = Inr (tally s n For + tally s n Against + tally s n Abstain)" by (simp add: votes)
    with p show "is_ok (gv_execute_proposal e s a n)"
      by (simp add: gv_execute_proposal_def gv_as_admin_def gv_require_admin_def require_auth_def)
  qed
qed

section \<open>Delegation\<close>

definition index_exact :: "gv_state \<Rightarrow> bool" where
  "index_exact s \<longleftrightarrow> (\<forall>a. distinct (delegators_of s a) \<and> gv_delegated_by s a \<noteq> Some [] \<and>
     (\<forall>d. d \<in> set (delegators_of s a) \<longleftrightarrow> gv_delegation s d = Some a))"

definition no_exchange :: "gv_state \<Rightarrow> bool" where
  "no_exchange s \<longleftrightarrow> (\<forall>a b. gv_delegation s a = Some b \<longrightarrow> a \<noteq> b \<and> gv_delegation s b \<noteq> Some a)"

lemma delegations_same:
  "delegations s' = delegations s \<Longrightarrow> index_exact s' = index_exact s" "delegations s' = delegations s \<Longrightarrow> no_exchange s' = no_exchange s"
  by (simp_all add: delegations_def index_exact_def no_exchange_def delegators_of_def)

lemma delegators_of_simps [simp]:
  "delegators_of (add_to_delegated_by b a s) x = (if x = b \<and> a \<notin> set (delegators_of s b) then delegators_of s b @ [a] else delegators_of s x)"
  "delegators_of (remove_from_delegated_by b a s) x = (if x = b then filter (\<lambda>y. y \<noteq> a) (delegators_of s b) else delegators_of s x)"
  "delegators_of (s\<lparr>gv_delegation := d\<rparr>) x = delegators_of s x"
  by (auto simp: add_to_delegated_by_def remove_from_delegated_by_def delegators_of_def Let_def)

lemma delegated_by_nonempty:
  "\<forall>x. gv_delegated_by s x \<noteq> Some [] \<Longrightarrow> gv_delegated_by (add_to_delegated_by b a s) x \<noteq> Some []"
  "\<forall>x. gv_delegated_by s x \<noteq> Some [] \<Longrightarrow> gv_delegated_by (remove_from_delegated_by b a s) x \<noteq> Some []"
  by (auto simp: add_to_delegated_by_def remove_from_delegated_by_def Let_def)

lemma delegate_index:
  assumes "index_exact s" "no_exchange s" "delegate_to e s a b = Inr s'"
  shows "index_exact s' \<and> no_exchange s'"
proof -
  note d = delegate_to_Inr[OF assms(3)]
  define u where "u = (case gv_delegation s a of None \<Rightarrow> s | Some d \<Rightarrow> remove_from_delegated_by d a s)"
  have u: "distinct (delegators_of u x)" "\<And>y. y \<in> set (delegators_of u x) \<longleftrightarrow> y \<noteq> a \<and> gv_delegation s y = Some x"
    "gv_delegated_by u x \<noteq> Some []" for x
    using assms(1) by (auto simp: u_def index_exact_def delegated_by_nonempty split: option.splits)
  have s': "s' = add_to_delegated_by b a (u\<lparr>gv_delegation := (gv_delegation s)(a \<mapsto> b)\<rparr>)" using d by (simp add: u_def)
  have "\<forall>x. gv_delegated_by (u\<lparr>gv_delegation := (gv_delegation s)(a \<mapsto> b)\<rparr>) x \<noteq> Some []" using u(3) by simp
  then have "index_exact s'" using u(1,2) unfolding s' index_exact_def by (auto simp: delegated_by_nonempty)
  moreover have "no_exchange s'" using assms(2) d unfolding s' no_exchange_def by (auto simp: split: if_splits)
  ultimately show ?thesis by simp
qed

lemma exec_delegations:
  assumes "gv_exec vest e c s = Inr s'" "\<nexists>a b. c = Gv_delegate a b" "\<nexists>a. c = Gv_revoke a"
  shows "delegations s' = delegations s"
proof (cases c)
  case (Gv_create x ti de ty m q d)
  with assms(1) obtain n where "create_proposal e s x ti de ty m q d = Inr (s', n)" by auto
  from create_Inr[OF this] show ?thesis by (auto simp: delegations_def)
next
  case (Gv_vote v n ch k)
  with assms show ?thesis by (auto simp: delegations_def elim!: vote_Inr)
next
  case (Gv_execute x n)
  with assms show ?thesis by (auto simp: delegations_def elim!: execute_Inr)
qed (use assms in \<open>auto simp: delegations_def gv_initialize_def set_voting_weight_def set_vesting_contract_def split: if_splits\<close>)

lemma exec_index:
  assumes "index_exact s \<and> no_exchange s" "gv_exec vest e c s = Inr s'"
  shows "index_exact s' \<and> no_exchange s'"
proof -
  show ?thesis
  proof (cases c)
    case (Gv_delegate a b)
    with assms show ?thesis by (auto dest: delegate_index)
  next
    case (Gv_revoke a)
    with assms(2) obtain b where b: "gv_delegation s a = Some b"
      "s' = (remove_from_delegated_by b a s)\<lparr>gv_delegation := (gv_delegation s)(a := None)\<rparr>"
      by (auto simp: gv_revoke_delegation_def Let_def)
    have "\<forall>x. gv_delegated_by s x \<noteq> Some []" using assms(1) by (simp add: index_exact_def)
    from delegated_by_nonempty(2)[OF this] have "gv_delegated_by s' x \<noteq> Some []" for x by (simp add: b(2))
    moreover have "distinct (delegators_of s' x) \<and> (d \<in> set (delegators_of s' x) \<longleftrightarrow> gv_delegation s' d = Some x)" for x d
      using assms(1) b by (simp add: index_exact_def)
    moreover have "gv_delegation s' = (gv_delegation s)(a := None)" by (simp add: b(2))
    then have "no_exchange s'" using assms(1) by (auto simp: no_exchange_def split: if_splits)
    ultimately show ?thesis unfolding index_exact_def by blast
  qed (use exec_delegations[OF assms(2)] delegations_same[of s' s] assms(1) in simp_all)
qed

lemma runs_index: "gv_runs s s' \<Longrightarrow> index_exact s \<and> no_exchange s \<Longrightarrow> index_exact s' \<and> no_exchange s'"
  by (induction rule: gv_runs.induct) (use exec_index in blast)+

lemma empty_index: "index_exact gv_empty \<and> no_exchange gv_empty"
  by (simp add: gv_empty_def index_exact_def no_exchange_def delegators_of_def)

lemma add_weights_sum:
  assumes "gv_vesting s = None" "\<forall>a w. gv_weight s a = Some w \<longrightarrow> 0 \<le> w" "0 \<le> acc"
    and "acc + (\<Sum>d\<leftarrow>ds. (case gv_weight s d of None \<Rightarrow> 0 | Some w \<Rightarrow> w)) \<le> i128_max"
  shows "add_weights vest e s ds acc = Inr (acc + (\<Sum>d\<leftarrow>ds. (case gv_weight s d of None \<Rightarrow> 0 | Some w \<Rightarrow> w)))"
  using assms(3,4)
proof (induction ds arbitrary: acc)
  case (Cons d ds)
  let ?w = "case gv_weight s d of None \<Rightarrow> 0 | Some w \<Rightarrow> w"
  have w: "0 \<le> ?w" using assms(2) by (auto split: option.splits)
  have "0 \<le> (\<Sum>d\<leftarrow>ds. (case gv_weight s d of None \<Rightarrow> 0 | Some w \<Rightarrow> w))"
    using assms(2) by (intro sum_list_nonneg) (auto split: option.splits)
  with Cons.prems w have "acc + ?w \<le> i128_max" by simp
  then have "i128_sat_add acc ?w = acc + ?w" using w Cons.prems(1) by (simp add: i128_sat_add_def i128_clamp_def i128_min_def)
  moreover have "add_weights vest e s ds (acc + ?w) = Inr (acc + ?w + (\<Sum>d\<leftarrow>ds. (case gv_weight s d of None \<Rightarrow> 0 | Some w \<Rightarrow> w)))"
    using Cons.prems w by (intro Cons.IH) (simp_all add: add.assoc)
  ultimately show ?case using assms(1) by (simp add: get_base_weight_def add.assoc)
qed simp

text \<open>C24: The index of delegators is exact after every run of calls from the empty contract: without
  repetition it lists exactly the addresses that delegate to the address, nobody delegates to itself
  or back to its own delegator, and without a vesting contract \<open>get_voting_weight\<close> is the weight of
  the address and of all who delegate to it, as long as that fits \<open>i128\<close>.\<close>

theorem delegation_index_is_exact:
  assumes "gv_runs gv_empty s"
  shows "set (delegators_of s a) = {d. gv_delegation s d = Some a} \<and> distinct (delegators_of s a) \<and>
    (\<forall>b. gv_delegation s a = Some b \<longrightarrow> a \<noteq> b \<and> gv_delegation s b \<noteq> Some a) \<and>
    (let weight = (\<lambda>x. case gv_weight s x of None \<Rightarrow> 0 | Some w \<Rightarrow> w) in
     gv_vesting s = None \<and> (\<forall>x. 0 \<le> weight x) \<and> weight a + (\<Sum>d | gv_delegation s d = Some a. weight d) \<le> i128_max \<longrightarrow>
     get_voting_weight vest e s a = Inr (weight a + (\<Sum>d | gv_delegation s d = Some a. weight d)))"
proof -
  define w where "w x = (case gv_weight s x of None \<Rightarrow> 0 | Some w \<Rightarrow> w)" for x
  from runs_index[OF assms empty_index] have ix: "set (delegators_of s a) = {d. gv_delegation s d = Some a}" "distinct (delegators_of s a)"
    "\<forall>b. gv_delegation s a = Some b \<longrightarrow> a \<noteq> b \<and> gv_delegation s b \<noteq> Some a"
    by (auto simp: index_exact_def no_exchange_def)
  have "get_voting_weight vest e s a = Inr (w a + (\<Sum>d | gv_delegation s d = Some a. w d))"
    if v: "gv_vesting s = None" and pos: "\<forall>x. 0 \<le> w x" and fits: "w a + (\<Sum>d | gv_delegation s d = Some a. w d) \<le> i128_max"
  proof -
    have sum: "(\<Sum>d\<leftarrow>delegators_of s a. w d) = (\<Sum>d | gv_delegation s d = Some a. w d)"
      using ix by (metis sum_list_distinct_conv_sum_set)
    have "0 \<le> (\<Sum>d | gv_delegation s d = Some a. w d)" using pos by (simp add: sum_nonneg)
    moreover have "add_weights vest e s (delegators_of s a) 0 = Inr (\<Sum>d | gv_delegation s d = Some a. w d)"
    proof -
      have "(\<Sum>d | gv_delegation s d = Some a. w d) \<le> i128_max" using fits pos[rule_format, of a] by linarith
      moreover have "\<forall>x y. gv_weight s x = Some y \<longrightarrow> 0 \<le> y" using pos by (metis option.simps(5) w_def)
      ultimately show ?thesis
        using add_weights_sum[OF v, of 0 "delegators_of s a" vest e] sum by (simp add: w_def[abs_def])
    qed
    ultimately show ?thesis
      using v fits pos[rule_format, of a]
      by (simp add: get_voting_weight_def get_delegated_weight_def get_base_weight_def w_def[symmetric] i128_sat_add_def i128_clamp_def i128_min_def)
  qed
  with ix show ?thesis by (simp add: w_def Let_def)
qed

end
