(* ===== verification/Voting_Example.thy ===== *)
theory Voting_Example
  imports Voting_Props
begin

text \<open>
  A concrete poll: admin 10; address 20 has weight 100 and address 21, which delegates to it, 40.
  Both vote against a proposal with a quorum of 120, and the admin can execute it.
\<close>

definition no_grants :: vested where "no_grants = (\<lambda>_ _ _. None)"

definition at :: "u64 \<Rightarrow> env" where "at t = sample_env\<lparr>timestamp := t\<rparr>"

lemma at_simps [simp]: "timestamp (at t) = t" "authorised (at t) a" "self_addr (at t) = self_addr sample_env"
  by (simp_all add: at_def)

fun gv_replay :: "(u64 \<times> gv_op) list \<Rightarrow> gv_state \<Rightarrow> gv_state gv_result" where
  "gv_replay [] s = Inr s"
| "gv_replay ((t, c) # cs) s = rbind (gv_exec no_grants (at t) c s) (gv_replay cs)"

lemma gv_replay_runs: "gv_replay cs s = Inr s' \<Longrightarrow> gv_reachable s \<Longrightarrow> \<forall>x\<in>set cs. \<forall>a b. snd x \<noteq> Gv_initialize a b \<Longrightarrow> gv_reachable s'"
proof (induction cs arbitrary: s)
  case (Cons x cs)
  then obtain t c s1 where x: "x = (t, c)" "gv_exec no_grants (at t) c s = Inr s1" "gv_replay cs s1 = Inr s'" by (cases x) auto
  from x(1) Cons.prems(3) have "in_order c s" by (cases c) auto
  then have "gv_reachable s1" by (rule gv_next[OF Cons.prems(2) x(2)])
  with Cons.IH[OF x(3)] Cons.prems(3) show ?case by simp
qed simp

definition poll_calls :: "(u64 \<times> gv_op) list" where
  "poll_calls =
     [(1000, Gv_set_weight 10 20 100), (1000, Gv_set_weight 10 21 40), (1000, Gv_delegate 21 20),
      (1000, Gv_create 20 ''t'' ''d'' Sentiment Standard 120 0), (2000, Gv_vote 20 0 Against 0)]"

named_theorems poll_eval
lemmas [poll_eval] = poll_calls_def gv_empty_def set_voting_weight_def gv_as_admin_def gv_require_admin_def require_auth_def
  delegate_to_def add_to_delegated_by_def remove_from_delegated_by_def delegators_of_def create_proposal_def
  DEFAULT_PROPOSAL_DURATION_def u64_add_def u64_max_def vote_def get_base_weight_at_snapshot_def effective_weight_def
  add_to_tally_def i128_add_def i128_fit_def i128_min_def i128_max_def gv_execute_proposal_def total_votes_def

definition poll_start :: gv_state where
  "poll_start = gv_empty\<lparr>gv_admin := Some 10, gv_access := Some 5, gv_next_proposal := Some 0\<rparr>"

definition poll :: gv_state where
  "poll = (case gv_replay poll_calls poll_start of Inr s \<Rightarrow> s | _ \<Rightarrow> poll_start)"

lemma poll_replay: "gv_replay poll_calls poll_start = Inr poll"
  unfolding poll_def by (simp add: poll_eval poll_start_def Let_def)

lemma poll_start_reachable: "gv_reachable poll_start"
proof (rule gv_next[OF gv_start])
  show "gv_exec no_grants (at 1000) (Gv_initialize 10 5) gv_empty = Inr poll_start"
    by (simp add: gv_initialize_def poll_start_def gv_empty_def require_not_self_def)
qed (simp add: gv_empty_def)

lemma poll_reachable: "gv_reachable poll"
  by (rule gv_replay_runs[OF poll_replay poll_start_reachable]) (simp add: poll_calls_def)

lemma poll_facts:
  "gv_admin poll = Some 10" "gv_vesting poll = None" "gv_delegation poll = [21 \<mapsto> 20]" "gv_delegated_by poll = [20 \<mapsto> [21]]"
  "gv_weight poll = [20 \<mapsto> 100, 21 \<mapsto> 40]"
  "gv_vote poll 0 = [20 \<mapsto> \<lparr>vr_voter = 20, vr_choice = Against, vr_weight = 100, vr_credits = 0, vr_voted_at = 2000\<rparr>]"
  "gv_proposal poll 0 = Some \<lparr>gp_id = 0, gp_proposer = 20, gp_title = ''t'', gp_description = ''d'', gp_type = Sentiment,
     gp_mode = Standard, gp_votes_for = 0, gp_votes_against = 100, gp_votes_abstain = 0, gp_created_at = 1000,
     gp_expires_at = 605800, gp_executed = False, gp_quorum_required = 120\<rparr>"
  unfolding poll_def by (simp_all add: poll_eval poll_start_def Let_def)

theorem integer_sqrt_is_floor_witness:
  "integer_sqrt 99 * integer_sqrt 99 \<le> 99 \<and> (99::int) < (integer_sqrt 99 + 1) * (integer_sqrt 99 + 1)"
  using integer_sqrt_is_floor[of 99] by (simp add: i128_max_def)

theorem tallies_are_sums_of_votes_witness:
  "\<exists>p. gv_proposal poll 0 = Some p \<and> gp_votes_against p = (\<Sum>v\<in>cast poll 0 Against. weight_of poll 0 v) \<and> gp_votes_against p = 100"
  using tallies_are_sums_of_votes[OF poll_reachable poll_facts(7)] poll_facts(7) by simp

text \<open>The delegator votes as well: its weight is not bound by the vote of its delegate.\<close>

definition poll2 :: gv_state where
  "poll2 = (case vote no_grants (at 3000) poll 21 0 Against 0 of Inr s \<Rightarrow> s | _ \<Rightarrow> poll)"

lemma second_vote: "vote no_grants (at 3000) poll 21 0 Against 0 = Inr poll2"
  by (simp add: poll2_def vote_def poll_facts require_auth_def get_base_weight_at_snapshot_def effective_weight_def add_to_tally_def Let_def
    i128_min_def i128_max_def i128_add_def i128_fit_def)

theorem vote_effect_witness:
  "\<exists>r. gv_vote poll2 0 21 = Some r \<and> vr_weight r = 40 \<and> (\<exists>p. gv_proposal poll2 0 = Some p \<and> counted Against p = 140)"
proof -
  from vote_effect[OF second_vote] obtain p p' base r where v: "gv_proposal poll 0 = Some p"
    "get_base_weight_at_snapshot no_grants poll 21 (gp_created_at p) = Inr base" "gv_vote poll2 0 21 = Some r"
    "gp_mode p = Standard \<longrightarrow> vr_weight r = base \<and> vr_credits r = 0" "gv_proposal poll2 = (gv_proposal poll)(0 \<mapsto> p')"
    "\<forall>d. counted d p' = counted d p + (if d = Against then vr_weight r else 0)" by blast
  have "vr_weight r = 40" using v(1,2,4) by (auto simp: poll_facts get_base_weight_at_snapshot_def)
  with v(1,3,5) v(6)[rule_format, of Against] show ?thesis by (auto simp: poll_facts)
qed

lemma poll2_reachable: "gv_reachable poll2"
proof (rule gv_next[OF poll_reachable])
  show "gv_exec no_grants (at 3000) (Gv_vote 21 0 Against 0) poll = Inr poll2" using second_vote by simp
qed simp

lemma poll2_facts:
  "gv_admin poll2 = Some 10" "gv_vesting poll2 = None" "gv_delegation poll2 = [21 \<mapsto> 20]" "gv_delegated_by poll2 = [20 \<mapsto> [21]]"
  "gv_weight poll2 = [20 \<mapsto> 100, 21 \<mapsto> 40]"
  "gv_vote poll2 0 = [20 \<mapsto> \<lparr>vr_voter = 20, vr_choice = Against, vr_weight = 100, vr_credits = 0, vr_voted_at = 2000\<rparr>,
     21 \<mapsto> \<lparr>vr_voter = 21, vr_choice = Against, vr_weight = 40, vr_credits = 0, vr_voted_at = 3000\<rparr>]"
  "gv_proposal poll2 0 = Some \<lparr>gp_id = 0, gp_proposer = 20, gp_title = ''t'', gp_description = ''d'', gp_type = Sentiment,
     gp_mode = Standard, gp_votes_for = 0, gp_votes_against = 140, gp_votes_abstain = 0, gp_created_at = 1000,
     gp_expires_at = 605800, gp_executed = False, gp_quorum_required = 120\<rparr>"
  by (simp_all add: poll2_def vote_def poll_facts require_auth_def get_base_weight_at_snapshot_def effective_weight_def add_to_tally_def Let_def
    i128_min_def i128_max_def i128_add_def i128_fit_def)

theorem execution_ignores_direction_witness: "is_ok (gv_execute_proposal (at 4000) poll2 10 0)"
proof -
  have "cast poll2 0 For = {}" "cast poll2 0 Abstain = {}" "cast poll2 0 Against = {20, 21}"
    by (auto simp: cast_def poll2_facts split: if_splits)
  then show ?thesis
    unfolding execution_ignores_direction[OF poll2_reachable]
    by (simp add: poll2_facts tally_def weight_of_def i128_max_def)
qed

theorem executed_proposal_is_final_witness:
  "\<exists>s. gv_execute_proposal (at 4000) poll2 10 0 = Inr s \<and> \<not> is_ok (gv_execute_proposal (at 4000) s 10 0)"
proof -
  obtain s where s: "gv_execute_proposal (at 4000) poll2 10 0 = Inr s"
    by (simp add: gv_execute_proposal_def poll2_facts gv_as_admin_def gv_require_admin_def require_auth_def total_votes_def
      i128_add_def i128_fit_def i128_min_def i128_max_def)
  from executed_proposal_is_final[OF poll2_reachable s gv_none] s show ?thesis by blast
qed

theorem delegation_index_is_exact_witness:
  "set (delegators_of poll 20) = {21} \<and> get_voting_weight no_grants (at 2000) poll 20 = Inr 140"
proof -
  have "{d. gv_delegation poll d = Some 20} = {21}" by (auto simp: poll_facts split: if_splits)
  with delegation_index_is_exact[OF gv_reachable_runs[OF poll_reachable], of 20 no_grants "at 2000"] show ?thesis
    by (simp add: poll_facts i128_max_def)
qed

text \<open>What the order of calls excluded by \<open>gv_reachable\<close> does: a proposal made before the contract is
  initialised keeps its number 0, \<open>initialize\<close> sets the counter back to 0, the proposal is voted on,
  and the next proposal made overwrites it with empty tallies, while the vote stays on record and
  bars its voter from the new one.\<close>

definition early_calls :: "(u64 \<times> gv_op) list" where
  "early_calls =
     [(1000, Gv_create 20 ''t'' ''d'' Sentiment Standard 120 0), (1000, Gv_initialize 10 5),
      (1000, Gv_set_weight 10 20 100), (2000, Gv_vote 20 0 For 0),
      (3000, Gv_create 30 ''x'' ''y'' Sentiment Standard 120 0)]"

lemma early_proposal_loses_its_votes:
  "\<exists>s p r. gv_replay early_calls gv_empty = Inr s \<and> gv_proposal s 0 = Some p \<and> gp_proposer p = 30 \<and>
     gp_votes_for p = 0 \<and> gv_vote s 0 20 = Some r \<and> vr_weight r = 100 \<and>
     \<not> is_ok (vote no_grants (at 4000) s 20 0 For 0)"
  by (simp add: early_calls_def poll_eval gv_initialize_def require_not_self_def Let_def is_ok_def)

end
