(* ===== verification/Governance.thy ===== *)
theory Governance
  imports Kora_Timelock
begin

text \<open>
  Governance of upgrades (\<open>contracts/governance/src/lib.rs\<close>): stake-weighted votes on proposals that
  schedule an upgrade in the shared timelock, with off-chain results and a fast track.
  \<open>gn_state\<close> has one field per storage key, \<open>gn_timelock\<close> the keys of the timelock module in the
  storage of this contract.
\<close>

section \<open>Data\<close>

datatype GovError =
    GE_AlreadyInitialized | GE_NotInitialized | GE_Unauthorized | GE_InsufficientStake | GE_ProposalNotFound
  | GE_ProposalClosed | GE_ProposalNotPassed | GE_AlreadyVoted | GE_TargetChangedOrStale | GE_ArithmeticOverflow
  | GE_InvalidVotingMode | GE_ResultAlreadyAnchored | GE_NotEligibleForFastTrack | GE_NoBugBountyReportLinked
  | GE_ProposalTooLarge | GE_FastTrackTimelockNotElapsed | GE_FastTrackThresholdNotMet

type_synonym 'a gn_result = "(GovError, 'a) result"

datatype ProposalStatus = PS_Active | PS_Passed | PS_Failed | PS_Executed
datatype BallotMode = OnChain | OffChain

record OffchainResult =
  or_votes_for :: i128
  or_votes_against :: i128
  or_summary_hash :: bytes

record FastTrackProposal =
  ft_id :: u64
  ft_proposer :: address
  ft_action_hash :: bytes
  ft_target :: address
  ft_report :: u64
  ft_votes_for :: i128
  ft_votes_against :: i128
  ft_voting_end :: u64
  ft_status :: ProposalStatus
  ft_initial_hash :: bytes
  ft_size :: u32
  ft_created_at :: u64
  ft_disclosed :: bool

record GovProposal =
  gq_id :: u64
  gq_proposer :: address
  gq_action_hash :: bytes
  gq_target :: address
  gq_votes_for :: i128
  gq_votes_against :: i128
  gq_voting_end :: u64
  gq_status :: ProposalStatus
  gq_initial_hash :: bytes
  gq_mode :: BallotMode

record gn_state =
  gn_admin :: "address option"
  gn_access :: "address option"
  gn_min_stake :: "i128 option"
  gn_quorum :: "i128 option"
  gn_threshold_bps :: "u32 option"
  gn_voting_duration :: "u64 option"
  gn_proposal :: "u64 \<Rightarrow> GovProposal option"
  gn_count :: "u64 option"
  gn_voted :: "u64 \<Rightarrow> address \<Rightarrow> bool option"
  gn_stake :: "address \<Rightarrow> i128 option"
  gn_target_hash :: "address \<Rightarrow> bytes option"
  gn_offchain :: "u64 \<Rightarrow> OffchainResult option"
  gn_ft_enabled :: "bool option"
  gn_ft_threshold :: "u32 option"
  gn_ft_timelock :: "u64 option"
  gn_ft_max_size :: "u32 option"
  gn_critical :: "u64 \<Rightarrow> bool option"
  gn_fast_track :: "u64 \<Rightarrow> FastTrackProposal option"
  gn_timelock :: timelock

definition gn_empty :: gn_state where
  "gn_empty = \<lparr>gn_admin = None, gn_access = None, gn_min_stake = None, gn_quorum = None, gn_threshold_bps = None,
     gn_voting_duration = None, gn_proposal = (\<lambda>_. None), gn_count = None, gn_voted = (\<lambda>_ _. None), gn_stake = (\<lambda>_. None),
     gn_target_hash = (\<lambda>_. None), gn_offchain = (\<lambda>_. None), gn_ft_enabled = None, gn_ft_threshold = None,
     gn_ft_timelock = None, gn_ft_max_size = None, gn_critical = (\<lambda>_. None), gn_fast_track = (\<lambda>_. None),
     gn_timelock = tl_empty\<rparr>"

section \<open>Helpers\<close>

text \<open>The stored admin must have signed; the caller is not compared with anyone.\<close>

definition gn_signed :: "env \<Rightarrow> gn_state \<Rightarrow> unit gn_result" where
  "gn_signed e s = rbind (ok_or (gn_admin s) (Err GE_NotInitialized)) (\<lambda>admin. require_auth e admin)"

definition gn_as_admin :: "env \<Rightarrow> gn_state \<Rightarrow> address \<Rightarrow> unit gn_result" where
  "gn_as_admin e s admin =
     rbind (ok_or (gn_admin s) (Err GE_NotInitialized)) (\<lambda>stored.
     rbind (require_auth e admin) (\<lambda>_.
     if admin \<noteq> stored then Inl (Err GE_Unauthorized) else Inr ()))"

definition current_hash :: "gn_state \<Rightarrow> address \<Rightarrow> bytes" where
  "current_hash s target = or_else (gn_target_hash s target) (replicate 32 0)"

definition schedule :: "env \<Rightarrow> address \<Rightarrow> bytes \<Rightarrow> gn_state \<Rightarrow> gn_state gn_result" where
  "schedule e proposer action s =
     rbind (or_trap (propose_upgrade e (gn_timelock s) proposer action)) (\<lambda>(t, _). Inr (s\<lparr>gn_timelock := t\<rparr>))"

section \<open>Entry points\<close>

definition gn_initialize ::
  "env \<Rightarrow> gn_state \<Rightarrow> address \<Rightarrow> address \<Rightarrow> i128 \<Rightarrow> i128 \<Rightarrow> u32 \<Rightarrow> u64 \<Rightarrow> gn_state gn_result" where
  "gn_initialize e s admin access min_stake quorum threshold_bps voting_duration =
     (if gn_admin s \<noteq> None then Inl (Err GE_AlreadyInitialized)
      else Inr (s\<lparr>gn_admin := Some admin, gn_access := Some access, gn_min_stake := Some min_stake, gn_quorum := Some quorum,
             gn_threshold_bps := Some threshold_bps, gn_voting_duration := Some voting_duration, gn_count := Some 0\<rparr>))"

definition set_stake :: "env \<Rightarrow> gn_state \<Rightarrow> address \<Rightarrow> i128 \<Rightarrow> gn_state gn_result" where
  "set_stake e s voter amount = rbind (gn_signed e s) (\<lambda>_. Inr (s\<lparr>gn_stake := (gn_stake s)(voter \<mapsto> amount)\<rparr>))"

definition set_target_hash :: "env \<Rightarrow> gn_state \<Rightarrow> address \<Rightarrow> bytes \<Rightarrow> gn_state gn_result" where
  "set_target_hash e s target h = rbind (gn_signed e s) (\<lambda>_. Inr (s\<lparr>gn_target_hash := (gn_target_hash s)(target \<mapsto> h)\<rparr>))"

definition gn_create_proposal :: "env \<Rightarrow> gn_state \<Rightarrow> address \<Rightarrow> address \<Rightarrow> bytes \<Rightarrow> (gn_state \<times> u64) gn_result" where
  "gn_create_proposal e s proposer target action =
     rbind (require_auth e proposer) (\<lambda>_.
     if or_else (gn_stake s proposer) 0 < or_else (gn_min_stake s) 0 then Inl (Err GE_InsufficientStake)
     else
       rbind (ok_or (u64_add (or_else (gn_count s) 0) 1) Trap) (\<lambda>n.
       rbind (ok_or (u64_add (timestamp e) (or_else (gn_voting_duration s) 86400)) Trap) (\<lambda>ending.
       let p = \<lparr>gq_id = n, gq_proposer = proposer, gq_action_hash = action, gq_target = target, gq_votes_for = 0,
                gq_votes_against = 0, gq_voting_end = ending, gq_status = PS_Active, gq_initial_hash = current_hash s target,
                gq_mode = OnChain\<rparr> in
       Inr (s\<lparr>gn_proposal := (gn_proposal s)(n \<mapsto> p), gn_count := Some n\<rparr>, n))))"

definition designate_offchain_voting :: "env \<Rightarrow> gn_state \<Rightarrow> u64 \<Rightarrow> gn_state gn_result" where
  "designate_offchain_voting e s n =
     rbind (gn_signed e s) (\<lambda>_.
     rbind (ok_or (gn_proposal s n) (Err GE_ProposalNotFound)) (\<lambda>p.
     if gq_status p \<noteq> PS_Active \<or> gq_votes_for p \<noteq> 0 \<or> gq_votes_against p \<noteq> 0 \<or> gq_mode p \<noteq> OnChain
     then Inl (Err GE_InvalidVotingMode)
     else Inr (s\<lparr>gn_proposal := (gn_proposal s)(n \<mapsto> p\<lparr>gq_mode := OffChain\<rparr>)\<rparr>)))"

definition anchor_offchain_result :: "env \<Rightarrow> gn_state \<Rightarrow> u64 \<Rightarrow> i128 \<Rightarrow> i128 \<Rightarrow> bytes \<Rightarrow> gn_state gn_result" where
  "anchor_offchain_result e s n votes_for votes_against summary =
     rbind (gn_signed e s) (\<lambda>_.
     rbind (ok_or (gn_proposal s n) (Err GE_ProposalNotFound)) (\<lambda>p.
     if gq_status p \<noteq> PS_Active \<or> gq_mode p \<noteq> OffChain \<or> timestamp e < gq_voting_end p then Inl (Err GE_InvalidVotingMode)
     else if votes_for < 0 \<or> votes_against < 0 then Inl (Err GE_ProposalNotPassed)
     else if gn_offchain s n \<noteq> None then Inl (Err GE_ResultAlreadyAnchored)
     else Inr (s\<lparr>gn_offchain := (gn_offchain s)
            (n \<mapsto> \<lparr>or_votes_for = votes_for, or_votes_against = votes_against, or_summary_hash = summary\<rparr>)\<rparr>)))"

text \<open>The two tallies after a vote of a given weight.\<close>

definition add_stake_vote :: "bool \<Rightarrow> i128 \<Rightarrow> i128 \<Rightarrow> i128 \<Rightarrow> (i128 \<times> i128) gn_result" where
  "add_stake_vote support weight votes_for votes_against =
     (if support then rbind (ok_or (i128_add votes_for weight) (Err GE_ArithmeticOverflow)) (\<lambda>t. Inr (t, votes_against))
      else rbind (ok_or (i128_add votes_against weight) (Err GE_ArithmeticOverflow)) (\<lambda>t. Inr (votes_for, t)))"

text \<open>The voter's stake, if it has one and has not voted under this number.\<close>

definition stake_to_vote :: "gn_state \<Rightarrow> address \<Rightarrow> u64 \<Rightarrow> i128 gn_result" where
  "stake_to_vote s voter n =
     (if gn_voted s n voter \<noteq> None then Inl (Err GE_AlreadyVoted)
      else let weight = or_else (gn_stake s voter) 0 in
        if weight \<le> 0 then Inl (Err GE_InsufficientStake) else Inr weight)"

definition mark_voted :: "u64 \<Rightarrow> address \<Rightarrow> gn_state \<Rightarrow> gn_state" where
  "mark_voted n voter s = s\<lparr>gn_voted := (gn_voted s)(n := (gn_voted s n)(voter \<mapsto> True))\<rparr>"

definition gn_vote :: "env \<Rightarrow> gn_state \<Rightarrow> address \<Rightarrow> u64 \<Rightarrow> bool \<Rightarrow> gn_state gn_result" where
  "gn_vote e s voter n support =
     rbind (require_auth e voter) (\<lambda>_.
     rbind (ok_or (gn_proposal s n) (Err GE_ProposalNotFound)) (\<lambda>p.
     if gq_status p \<noteq> PS_Active \<or> timestamp e \<ge> gq_voting_end p then Inl (Err GE_ProposalClosed)
     else if gq_mode p \<noteq> OnChain then Inl (Err GE_InvalidVotingMode)
     else
       rbind (stake_to_vote s voter n) (\<lambda>weight.
       rbind (add_stake_vote support weight (gq_votes_for p) (gq_votes_against p)) (\<lambda>(f, a).
       Inr ((mark_voted n voter s)\<lparr>gn_proposal := (gn_proposal s)(n \<mapsto> p\<lparr>gq_votes_for := f, gq_votes_against := a\<rparr>)\<rparr>)))))"

text \<open>The tally that decides; the writes of the status \<open>Failed\<close> before an error are rolled back with it.\<close>

definition deciding_votes :: "gn_state \<Rightarrow> u64 \<Rightarrow> GovProposal \<Rightarrow> (i128 \<times> i128) gn_result" where
  "deciding_votes s n p =
     (case gq_mode p of
        OnChain \<Rightarrow> Inr (gq_votes_for p, gq_votes_against p)
      | OffChain \<Rightarrow> rbind (ok_or (gn_offchain s n) (Err GE_ProposalNotPassed)) (\<lambda>r. Inr (or_votes_for r, or_votes_against r)))"

definition gn_execute_proposal :: "env \<Rightarrow> gn_state \<Rightarrow> u64 \<Rightarrow> gn_state gn_result" where
  "gn_execute_proposal e s n =
     rbind (ok_or (gn_proposal s n) (Err GE_ProposalNotFound)) (\<lambda>p.
     if gq_status p = PS_Executed then Inr s
     else
       rbind (deciding_votes s n p) (\<lambda>(f, a).
       rbind (ok_or (i128_add f a) (Err GE_ArithmeticOverflow)) (\<lambda>votes.
       if votes < or_else (gn_quorum s) 0 then Inl (Err GE_ProposalNotPassed)
       else
         rbind (ok_or (i128_mul f 10000) (Err GE_ArithmeticOverflow)) (\<lambda>scaled.
         rbind (ok_or (i128_div scaled votes) Trap) (\<lambda>approval_bps.
         if approval_bps < int (or_else (gn_threshold_bps s) 5000) then Inl (Err GE_ProposalNotPassed)
         else if current_hash s (gq_target p) \<noteq> gq_initial_hash p then Inl (Err GE_TargetChangedOrStale)
         else
           rbind (schedule e (gq_proposer p) (gq_action_hash p) s) (\<lambda>s.
           Inr (s\<lparr>gn_proposal := (gn_proposal s)(n \<mapsto> p\<lparr>gq_status := PS_Executed\<rparr>)\<rparr>)))))))"

section \<open>The fast track\<close>

definition configure_fast_track :: "env \<Rightarrow> gn_state \<Rightarrow> address \<Rightarrow> bool \<Rightarrow> u32 \<Rightarrow> u64 \<Rightarrow> u32 \<Rightarrow> gn_state gn_result" where
  "configure_fast_track e s admin enabled threshold_bps timelock_seconds max_size =
     rbind (gn_as_admin e s admin) (\<lambda>_.
     Inr (s\<lparr>gn_ft_enabled := Some enabled, gn_ft_threshold := Some threshold_bps, gn_ft_timelock := Some timelock_seconds,
            gn_ft_max_size := Some max_size\<rparr>))"

definition register_critical_bug_report :: "env \<Rightarrow> gn_state \<Rightarrow> address \<Rightarrow> u64 \<Rightarrow> gn_state gn_result" where
  "register_critical_bug_report e s admin report =
     rbind (gn_as_admin e s admin) (\<lambda>_. Inr (s\<lparr>gn_critical := (gn_critical s)(report \<mapsto> True)\<rparr>))"

definition create_fast_track_proposal ::
  "env \<Rightarrow> gn_state \<Rightarrow> address \<Rightarrow> address \<Rightarrow> bytes \<Rightarrow> u64 \<Rightarrow> u32 \<Rightarrow> (gn_state \<times> u64) gn_result" where
  "create_fast_track_proposal e s proposer target action report psize =
     rbind (require_auth e proposer) (\<lambda>_.
     if \<not> or_else (gn_ft_enabled s) False then Inl (Err GE_NotEligibleForFastTrack)
     else if \<not> or_else (gn_critical s report) False then Inl (Err GE_NoBugBountyReportLinked)
     else if psize > or_else (gn_ft_max_size s) 1000 then Inl (Err GE_ProposalTooLarge)
     else if or_else (gn_stake s proposer) 0 < or_else (gn_min_stake s) 0 then Inl (Err GE_InsufficientStake)
     else
       rbind (ok_or (u64_add (or_else (gn_count s) 0) 1) Trap) (\<lambda>n.
       rbind (ok_or (u64_add (timestamp e) (or_else (gn_ft_timelock s) 7200)) Trap) (\<lambda>ending.
       let p = \<lparr>ft_id = n, ft_proposer = proposer, ft_action_hash = action, ft_target = target, ft_report = report,
                ft_votes_for = 0, ft_votes_against = 0, ft_voting_end = ending, ft_status = PS_Active,
                ft_initial_hash = current_hash s target, ft_size = psize, ft_created_at = timestamp e, ft_disclosed = False\<rparr> in
       Inr (s\<lparr>gn_fast_track := (gn_fast_track s)(n \<mapsto> p), gn_count := Some n\<rparr>, n))))"

definition vote_fast_track :: "env \<Rightarrow> gn_state \<Rightarrow> address \<Rightarrow> u64 \<Rightarrow> bool \<Rightarrow> gn_state gn_result" where
  "vote_fast_track e s voter n support =
     rbind (require_auth e voter) (\<lambda>_.
     rbind (ok_or (gn_fast_track s n) (Err GE_ProposalNotFound)) (\<lambda>p.
     if ft_status p \<noteq> PS_Active \<or> timestamp e \<ge> ft_voting_end p then Inl (Err GE_ProposalClosed)
     else
       rbind (stake_to_vote s voter n) (\<lambda>weight.
       rbind (add_stake_vote support weight (ft_votes_for p) (ft_votes_against p)) (\<lambda>(f, a).
       Inr ((mark_voted n voter s)\<lparr>gn_fast_track := (gn_fast_track s)(n \<mapsto> p\<lparr>ft_votes_for := f, ft_votes_against := a\<rparr>)\<rparr>)))))"

definition execute_fast_track_proposal :: "env \<Rightarrow> gn_state \<Rightarrow> u64 \<Rightarrow> gn_state gn_result" where
  "execute_fast_track_proposal e s n =
     rbind (ok_or (gn_fast_track s n) (Err GE_ProposalNotFound)) (\<lambda>p.
     if ft_status p = PS_Executed then Inr s
     else
       rbind (ok_or (u64_add (ft_created_at p) (or_else (gn_ft_timelock s) 7200)) Trap) (\<lambda>ready.
       if timestamp e < ready then Inl (Err GE_FastTrackTimelockNotElapsed)
       else
         rbind (ok_or (i128_add (ft_votes_for p) (ft_votes_against p)) Trap) (\<lambda>votes.
         if votes < or_else (gn_quorum s) 0 then Inl (Err GE_ProposalNotPassed)
         else
           rbind (ok_or (i128_mul (ft_votes_for p) 10000) Trap) (\<lambda>scaled.
           rbind (ok_or (i128_div scaled votes) Trap) (\<lambda>approval_bps.
           if approval_bps < int (or_else (gn_ft_threshold s) 7500) then Inl (Err GE_FastTrackThresholdNotMet)
           else if current_hash s (ft_target p) \<noteq> ft_initial_hash p then Inl (Err GE_TargetChangedOrStale)
           else schedule e (ft_proposer p) (ft_action_hash p)
                  (s\<lparr>gn_fast_track := (gn_fast_track s)(n \<mapsto> p\<lparr>ft_status := PS_Executed\<rparr>)\<rparr>))))))"

definition publish_fast_track_disclosure :: "env \<Rightarrow> gn_state \<Rightarrow> address \<Rightarrow> u64 \<Rightarrow> gn_state gn_result" where
  "publish_fast_track_disclosure e s admin n =
     rbind (gn_as_admin e s admin) (\<lambda>_.
     rbind (ok_or (gn_fast_track s n) (Err GE_ProposalNotFound)) (\<lambda>p.
     Inr (s\<lparr>gn_fast_track := (gn_fast_track s)(n \<mapsto> p\<lparr>ft_disclosed := True\<rparr>)\<rparr>)))"

end
