(* ===== verification/Governance_Props.thy ===== *)
theory Governance_Props
  imports Governance
begin

text \<open>
  Governance over its runs: an upgrade is scheduled only by executing a proposal that has passed,
  each executed proposal has scheduled exactly one, and what execution does not look at.
\<close>

section \<open>Calls and runs\<close>

datatype (plugins only: code) gn_op =
    Gn_initialize address address i128 i128 u32 u64
  | Gn_set_stake address i128
  | Gn_set_target_hash address bytes
  | Gn_create address address bytes
  | Gn_designate u64
  | Gn_anchor u64 i128 i128 bytes
  | Gn_vote address u64 bool
  | Gn_execute u64
  | Gn_configure_fast_track address bool u32 u64 u32
  | Gn_register_report address u64
  | Gn_create_fast_track address address bytes u64 u32
  | Gn_vote_fast_track address u64 bool
  | Gn_execute_fast_track u64
  | Gn_publish address u64

fun gn_exec :: "env \<Rightarrow> gn_op \<Rightarrow> gn_state \<Rightarrow> gn_state gn_result" where
  "gn_exec e (Gn_initialize a b m q th d) s = gn_initialize e s a b m q th d"
| "gn_exec e (Gn_set_stake a n) s = set_stake e s a n"
| "gn_exec e (Gn_set_target_hash a h) s = set_target_hash e s a h"
| "gn_exec e (Gn_create a t h) s = rbind (gn_create_proposal e s a t h) (\<lambda>(s, _). Inr s)"
| "gn_exec e (Gn_designate n) s = designate_offchain_voting e s n"
| "gn_exec e (Gn_anchor n f a h) s = anchor_offchain_result e s n f a h"
| "gn_exec e (Gn_vote a n b) s = gn_vote e s a n b"
| "gn_exec e (Gn_execute n) s = gn_execute_proposal e s n"
| "gn_exec e (Gn_configure_fast_track a b th d ms) s = configure_fast_track e s a b th d ms"
| "gn_exec e (Gn_register_report a n) s = register_critical_bug_report e s a n"
| "gn_exec e (Gn_create_fast_track a t h r z) s = rbind (create_fast_track_proposal e s a t h r z) (\<lambda>(s, _). Inr s)"
| "gn_exec e (Gn_vote_fast_track a n b) s = vote_fast_track e s a n b"
| "gn_exec e (Gn_execute_fast_track n) s = execute_fast_track_proposal e s n"
| "gn_exec e (Gn_publish a n) s = publish_fast_track_disclosure e s a n"

inductive gn_runs :: "gn_state \<Rightarrow> gn_state \<Rightarrow> bool" where
  gn_none: "gn_runs s s"
| gn_step: "gn_runs s s1 \<Longrightarrow> gn_exec e c s1 = Inr s2 \<Longrightarrow> gn_runs s s2"

text \<open>Runs start with the empty contract, and every call can come at any time but one: proposals can
  be made and executed before the contract is initialised, and \<open>initialize\<close> then hands their numbers
  out again.  In the states of \<open>gn_reachable\<close> it was only called while there was no proposal;
  \<open>Governance_Example.early_upgrade_is_forgotten\<close> is what happens otherwise.\<close>

fun gn_in_order :: "gn_op \<Rightarrow> gn_state \<Rightarrow> bool" where
  "gn_in_order (Gn_initialize a b m q th d) s = (\<forall>n. gn_proposal s n = None \<and> gn_fast_track s n = None)"
| "gn_in_order _ s = True"

inductive gn_reachable :: "gn_state \<Rightarrow> bool" where
  gn_begin: "gn_reachable gn_empty"
| gn_next: "gn_reachable s \<Longrightarrow> gn_exec e c s = Inr s' \<Longrightarrow> gn_in_order c s \<Longrightarrow> gn_reachable s'"

section \<open>What a successful call does\<close>

lemma gn_helpers_Inr [simp]:
  "gn_signed e s = Inr u \<longleftrightarrow> (\<exists>a. gn_admin s = Some a \<and> authorised e a)"
  "gn_as_admin e s a = Inr u \<longleftrightarrow> authorised e a \<and> gn_admin s = Some a"
  by (auto simp: gn_signed_def gn_as_admin_def split: if_splits)

lemma mark_voted_same [simp]:
  "gn_timelock (mark_voted n v s) = gn_timelock s" "gn_fast_track (mark_voted n v s) = gn_fast_track s"
  "gn_proposal (mark_voted n v s) = gn_proposal s" "gn_admin (mark_voted n v s) = gn_admin s" "gn_count (mark_voted n v s) = gn_count s"
  by (simp_all add: mark_voted_def)

text \<open>Scheduling adds the next entry of the timelock, and nothing else.\<close>

definition next_upgrade :: "gn_state \<Rightarrow> u64" where
  "next_upgrade s = or_else (tl_next_id (gn_timelock s)) 0"

definition scheduled :: "env \<Rightarrow> address \<Rightarrow> bytes \<Rightarrow> gn_state \<Rightarrow> gn_state \<Rightarrow> bool" where
  "scheduled e proposer action s s' \<longleftrightarrow>
     tl_proposals (gn_timelock s') = (tl_proposals (gn_timelock s))(next_upgrade s \<mapsto>
       \<lparr>up_wasm_hash = action, up_proposer = proposer, up_proposed_at = timestamp e, up_executed = False, up_cancelled = False\<rparr>) \<and>
     next_upgrade s' = next_upgrade s + 1 \<and> tl_delay (gn_timelock s') = tl_delay (gn_timelock s)"

lemma schedule_Inr:
  assumes "schedule e a h s = Inr s'"
  shows "scheduled e a h s s' \<and> s' = s\<lparr>gn_timelock := gn_timelock s'\<rparr>"
  using assms
  by (auto simp: schedule_def propose_upgrade_def scheduled_def next_upgrade_def or_else_def Let_def)

text \<open>The tallies carry the motion: the quorum is met and the share of the votes in favour is the threshold.\<close>

definition carried :: "i128 \<Rightarrow> u32 \<Rightarrow> i128 \<Rightarrow> i128 \<Rightarrow> bool" where
  "carried quorum threshold f a \<longleftrightarrow> quorum \<le> f + a \<and> f + a \<noteq> 0 \<and> int threshold \<le> (f * 10000) sdiv (f + a)"

lemma execute_proposal_Inr:
  assumes "gn_execute_proposal e s n = Inr s'"
  obtains "s' = s" | p f a where "gn_proposal s n = Some p" "gq_status p \<noteq> PS_Executed" "deciding_votes s n p = Inr (f, a)"
    "carried (or_else (gn_quorum s) 0) (or_else (gn_threshold_bps s) 5000) f a"
    "current_hash s (gq_target p) = gq_initial_hash p" "scheduled e (gq_proposer p) (gq_action_hash p) s s'"
    "s' = s\<lparr>gn_timelock := gn_timelock s', gn_proposal := (gn_proposal s)(n \<mapsto> p\<lparr>gq_status := PS_Executed\<rparr>)\<rparr>"
proof -
  obtain p where p: "gn_proposal s n = Some p" using assms by (auto simp: gn_execute_proposal_def)
  show thesis
  proof (cases "gq_status p = PS_Executed")
    case True
    with assms p have "s' = s" by (simp add: gn_execute_proposal_def)
    then show thesis by (rule that(1))
  next
    case False
    with assms p obtain f a b s1 where "deciding_votes s n p = Inr (f, a)" and
      c: "or_else (gn_quorum s) 0 \<le> f + a" "i128_div (f * 10000) (f + a) = Some b" "int (or_else (gn_threshold_bps s) 5000) \<le> b"
      and "current_hash s (gq_target p) = gq_initial_hash p"
      and sch: "schedule e (gq_proposer p) (gq_action_hash p) s = Inr s1" "s' = s1\<lparr>gn_proposal := (gn_proposal s1)(n \<mapsto> p\<lparr>gq_status := PS_Executed\<rparr>)\<rparr>"
      by (auto simp: gn_execute_proposal_def split: if_splits)
    moreover from c have "carried (or_else (gn_quorum s) 0) (or_else (gn_threshold_bps s) 5000) f a"
      by (auto simp: carried_def i128_div_def split: if_splits)
    moreover have "s' = s\<lparr>gn_timelock := gn_timelock s', gn_proposal := (gn_proposal s)(n \<mapsto> p\<lparr>gq_status := PS_Executed\<rparr>)\<rparr>"
      using schedule_Inr[OF sch(1)] sch(2) by (metis gn_state.select_convs(19) gn_state.select_convs(7) gn_state.surjective gn_state.update_convs(19) gn_state.update_convs(7))
    moreover have "scheduled e (gq_proposer p) (gq_action_hash p) s s'"
      using schedule_Inr[OF sch(1)] by (simp add: sch(2) scheduled_def next_upgrade_def)
    ultimately show thesis using that(2) p False by blast
  qed
qed

lemma execute_fast_track_Inr:
  assumes "execute_fast_track_proposal e s n = Inr s'"
  obtains "s' = s" | p where "gn_fast_track s n = Some p" "ft_status p \<noteq> PS_Executed"
    "carried (or_else (gn_quorum s) 0) (or_else (gn_ft_threshold s) 7500) (ft_votes_for p) (ft_votes_against p)"
    "ft_created_at p + or_else (gn_ft_timelock s) 7200 \<le> timestamp e"
    "current_hash s (ft_target p) = ft_initial_hash p" "scheduled e (ft_proposer p) (ft_action_hash p) s s'"
    "s' = s\<lparr>gn_timelock := gn_timelock s', gn_fast_track := (gn_fast_track s)(n \<mapsto> p\<lparr>ft_status := PS_Executed\<rparr>)\<rparr>"
proof -
  obtain p where p: "gn_fast_track s n = Some p" using assms by (auto simp: execute_fast_track_proposal_def)
  show thesis
  proof (cases "ft_status p = PS_Executed")
    case True
    with assms p have "s' = s" by (simp add: execute_fast_track_proposal_def)
    then show thesis by (rule that(1))
  next
    case False
    define u where "u = s\<lparr>gn_fast_track := (gn_fast_track s)(n \<mapsto> p\<lparr>ft_status := PS_Executed\<rparr>)\<rparr>"
    from assms p False obtain b where
      c: "or_else (gn_quorum s) 0 \<le> ft_votes_for p + ft_votes_against p"
        "i128_div (ft_votes_for p * 10000) (ft_votes_for p + ft_votes_against p) = Some b" "int (or_else (gn_ft_threshold s) 7500) \<le> b"
      and "ft_created_at p + or_else (gn_ft_timelock s) 7200 \<le> timestamp e" "current_hash s (ft_target p) = ft_initial_hash p"
      and sch: "schedule e (ft_proposer p) (ft_action_hash p) u = Inr s'"
      by (auto simp: execute_fast_track_proposal_def u_def split: if_splits)
    moreover from c have "carried (or_else (gn_quorum s) 0) (or_else (gn_ft_threshold s) 7500) (ft_votes_for p) (ft_votes_against p)"
      by (auto simp: carried_def i128_div_def split: if_splits)
    moreover have "scheduled e (ft_proposer p) (ft_action_hash p) s s'" "s' = u\<lparr>gn_timelock := gn_timelock s'\<rparr>"
      using schedule_Inr[OF sch] by (simp_all add: u_def scheduled_def next_upgrade_def)
    moreover from this(2) have "s' = s\<lparr>gn_timelock := gn_timelock s', gn_fast_track := (gn_fast_track s)(n \<mapsto> p\<lparr>ft_status := PS_Executed\<rparr>)\<rparr>"
      unfolding u_def by (metis gn_state.surjective gn_state.update_convs(18) gn_state.update_convs(19))
    ultimately show thesis using that(2) p False by blast
  qed
qed

text \<open>The executed proposals of each kind, with what they put forward: the proposer and the code.\<close>

definition done_of :: "gn_state \<Rightarrow> u64 \<Rightarrow> (address \<times> bytes) option" where
  "done_of s n = (case gn_proposal s n of None \<Rightarrow> None
     | Some p \<Rightarrow> if gq_status p = PS_Executed then Some (gq_proposer p, gq_action_hash p) else None)"

definition ft_done_of :: "gn_state \<Rightarrow> u64 \<Rightarrow> (address \<times> bytes) option" where
  "ft_done_of s n = (case gn_fast_track s n of None \<Rightarrow> None
     | Some p \<Rightarrow> if ft_status p = PS_Executed then Some (ft_proposer p, ft_action_hash p) else None)"

definition executes :: "gn_op \<Rightarrow> bool" where
  "executes c \<longleftrightarrow> (\<exists>n. c = Gn_execute n \<or> c = Gn_execute_fast_track n)"

text \<open>New proposals get new numbers.\<close>

definition numbered :: "gn_state \<Rightarrow> bool" where
  "numbered s \<longleftrightarrow> (\<forall>n. or_else (gn_count s) 0 < n \<longrightarrow> gn_proposal s n = None \<and> gn_fast_track s n = None)"

lemma gn_create_Inr:
  assumes "gn_create_proposal e s a t h = Inr (s', n)"
  obtains p :: GovProposal where "n = or_else (gn_count s) 0 + 1" "gq_status p = PS_Active"
    "s' = s\<lparr>gn_proposal := (gn_proposal s)(n \<mapsto> p), gn_count := Some n\<rparr>"
proof (rule that)
  let ?p = "\<lparr>gq_id = n, gq_proposer = a, gq_action_hash = h, gq_target = t, gq_votes_for = 0, gq_votes_against = 0,
    gq_voting_end = timestamp e + or_else (gn_voting_duration s) 86400, gq_status = PS_Active,
    gq_initial_hash = current_hash s t, gq_mode = OnChain\<rparr>"
  show "n = or_else (gn_count s) 0 + 1" using assms by (auto simp: gn_create_proposal_def Let_def split: if_splits)
  show "gq_status ?p = PS_Active" by simp
  show "s' = s\<lparr>gn_proposal := (gn_proposal s)(n \<mapsto> ?p), gn_count := Some n\<rparr>"
    using assms by (auto simp: gn_create_proposal_def Let_def split: if_splits)
qed

lemma create_fast_track_Inr:
  assumes "create_fast_track_proposal e s a t h r z = Inr (s', n)"
  obtains p :: FastTrackProposal where "n = or_else (gn_count s) 0 + 1" "ft_status p = PS_Active"
    "s' = s\<lparr>gn_fast_track := (gn_fast_track s)(n \<mapsto> p), gn_count := Some n\<rparr>"
proof (rule that)
  let ?p = "\<lparr>ft_id = n, ft_proposer = a, ft_action_hash = h, ft_target = t, ft_report = r, ft_votes_for = 0,
    ft_votes_against = 0, ft_voting_end = timestamp e + or_else (gn_ft_timelock s) 7200, ft_status = PS_Active,
    ft_initial_hash = current_hash s t, ft_size = z, ft_created_at = timestamp e, ft_disclosed = False\<rparr>"
  show "n = or_else (gn_count s) 0 + 1" using assms by (auto simp: create_fast_track_proposal_def Let_def split: if_splits)
  show "ft_status ?p = PS_Active" by simp
  show "s' = s\<lparr>gn_fast_track := (gn_fast_track s)(n \<mapsto> ?p), gn_count := Some n\<rparr>"
    using assms by (auto simp: create_fast_track_proposal_def Let_def split: if_splits)
qed

lemma timelock_stays:
  assumes "gn_exec e c s = Inr s'" "\<not> executes c"
  shows "gn_timelock s' = gn_timelock s"
  using assms
  by (cases c) (auto simp: executes_def gn_initialize_def gn_vote_def vote_fast_track_def designate_offchain_voting_def
      publish_fast_track_disclosure_def set_stake_def set_target_hash_def anchor_offchain_result_def configure_fast_track_def
      register_critical_bug_report_def gn_create_proposal_def create_fast_track_proposal_def Let_def split: if_splits)

lemma other_calls:
  assumes "gn_exec e c s = Inr s'" "\<not> executes c" "numbered s" "gn_in_order c s"
  shows "done_of s' = done_of s \<and> ft_done_of s' = ft_done_of s \<and> numbered s'"
proof (cases c)
  case (Gn_create a t h)
  with assms(1) obtain n where n: "gn_create_proposal e s a t h = Inr (s', n)" by auto
  from gn_create_Inr[OF n] obtain p where "n = or_else (gn_count s) 0 + 1" "gq_status p = PS_Active"
    "s' = s\<lparr>gn_proposal := (gn_proposal s)(n \<mapsto> p), gn_count := Some n\<rparr>" .
  moreover from this(1) assms(3) have "gn_proposal s n = None" by (simp add: numbered_def)
  ultimately show ?thesis using assms(3) by (auto simp: fun_eq_iff done_of_def ft_done_of_def numbered_def or_else_def split: option.splits)
next
  case (Gn_create_fast_track a t h r z)
  with assms(1) obtain n where n: "create_fast_track_proposal e s a t h r z = Inr (s', n)" by auto
  from create_fast_track_Inr[OF n] obtain p where "n = or_else (gn_count s) 0 + 1" "ft_status p = PS_Active"
    "s' = s\<lparr>gn_fast_track := (gn_fast_track s)(n \<mapsto> p), gn_count := Some n\<rparr>" .
  moreover from this(1) assms(3) have "gn_fast_track s n = None" by (simp add: numbered_def)
  ultimately show ?thesis using assms(3) by (auto simp: fun_eq_iff done_of_def ft_done_of_def numbered_def or_else_def split: option.splits)
next
  case (Gn_vote a n b)
  with assms(1) obtain p f g where "gn_proposal s n = Some p" "gq_status p = PS_Active"
    "s' = (mark_voted n a s)\<lparr>gn_proposal := (gn_proposal s)(n \<mapsto> p\<lparr>gq_votes_for := f, gq_votes_against := g\<rparr>)\<rparr>"
    by (auto simp: gn_vote_def split: if_splits)
  with assms(3) show ?thesis by (auto simp: fun_eq_iff done_of_def ft_done_of_def numbered_def split: if_splits)
next
  case (Gn_vote_fast_track a n b)
  with assms(1) obtain p f g where "gn_fast_track s n = Some p" "ft_status p = PS_Active"
    "s' = (mark_voted n a s)\<lparr>gn_fast_track := (gn_fast_track s)(n \<mapsto> p\<lparr>ft_votes_for := f, ft_votes_against := g\<rparr>)\<rparr>"
    by (auto simp: vote_fast_track_def split: if_splits)
  with assms(3) show ?thesis by (auto simp: fun_eq_iff done_of_def ft_done_of_def numbered_def split: if_splits)
next
  case (Gn_designate n)
  with assms show ?thesis
    by (auto simp: designate_offchain_voting_def fun_eq_iff done_of_def ft_done_of_def numbered_def split: if_splits)
next
  case (Gn_publish a n)
  with assms show ?thesis
    by (auto simp: publish_fast_track_disclosure_def fun_eq_iff done_of_def ft_done_of_def numbered_def split: if_splits)
next
  case (Gn_initialize a b m q th d)
  with assms show ?thesis
    by (auto simp: gn_initialize_def fun_eq_iff numbered_def done_of_def ft_done_of_def split: if_splits)
qed (use assms in \<open>auto simp: executes_def set_stake_def set_target_hash_def anchor_offchain_result_def configure_fast_track_def
    register_critical_bug_report_def fun_eq_iff done_of_def ft_done_of_def numbered_def split: if_splits\<close>)

section \<open>Properties\<close>

lemma execution_effect:
  assumes "gn_exec e (Gn_execute n) s = Inr s'" "gn_timelock s' \<noteq> gn_timelock s"
  obtains p f a where "gn_proposal s n = Some p" "gq_status p \<noteq> PS_Executed" "deciding_votes s n p = Inr (f, a)"
    "carried (or_else (gn_quorum s) 0) (or_else (gn_threshold_bps s) 5000) f a"
    "current_hash s (gq_target p) = gq_initial_hash p" "scheduled e (gq_proposer p) (gq_action_hash p) s s'"
    "s' = s\<lparr>gn_timelock := gn_timelock s', gn_proposal := (gn_proposal s)(n \<mapsto> p\<lparr>gq_status := PS_Executed\<rparr>)\<rparr>"
  using execute_proposal_Inr[of e s n s'] assms by (metis gn_exec.simps(8))

lemma fast_track_effect:
  assumes "gn_exec e (Gn_execute_fast_track n) s = Inr s'" "gn_timelock s' \<noteq> gn_timelock s"
  obtains p where "gn_fast_track s n = Some p" "ft_status p \<noteq> PS_Executed"
    "carried (or_else (gn_quorum s) 0) (or_else (gn_ft_threshold s) 7500) (ft_votes_for p) (ft_votes_against p)"
    "ft_created_at p + or_else (gn_ft_timelock s) 7200 \<le> timestamp e"
    "current_hash s (ft_target p) = ft_initial_hash p" "scheduled e (ft_proposer p) (ft_action_hash p) s s'"
    "s' = s\<lparr>gn_timelock := gn_timelock s', gn_fast_track := (gn_fast_track s)(n \<mapsto> p\<lparr>ft_status := PS_Executed\<rparr>)\<rparr>"
  using execute_fast_track_Inr[of e s n s'] assms by (metis gn_exec.simps(13))

text \<open>C26: nothing but an execution reaches the timelock of upgrades, and it does so for a proposal that
  is not yet executed, whose votes carry it (quorum and threshold, the fast track at its own
  threshold and after its own delay), and whose target still has the code it had when the
  proposal was made. The timelock then gains one entry, in the name of the proposer.\<close>

theorem upgrade_scheduled_only_when_carried:
  assumes "gn_exec e c s = Inr s'" "gn_timelock s' \<noteq> gn_timelock s"
  shows "(\<exists>n (p :: GovProposal) f a. c = Gn_execute n \<and> gn_proposal s n = Some p \<and> gq_status p \<noteq> PS_Executed \<and>
      deciding_votes s n p = Inr (f, a) \<and> carried (or_else (gn_quorum s) 0) (or_else (gn_threshold_bps s) 5000) f a \<and>
      current_hash s (gq_target p) = gq_initial_hash p \<and> scheduled e (gq_proposer p) (gq_action_hash p) s s' \<and>
      gn_proposal s' = (gn_proposal s)(n \<mapsto> p\<lparr>gq_status := PS_Executed\<rparr>)) \<or>
    (\<exists>n (p :: FastTrackProposal). c = Gn_execute_fast_track n \<and> gn_fast_track s n = Some p \<and> ft_status p \<noteq> PS_Executed \<and>
      carried (or_else (gn_quorum s) 0) (or_else (gn_ft_threshold s) 7500) (ft_votes_for p) (ft_votes_against p) \<and>
      ft_created_at p + or_else (gn_ft_timelock s) 7200 \<le> timestamp e \<and>
      current_hash s (ft_target p) = ft_initial_hash p \<and> scheduled e (ft_proposer p) (ft_action_hash p) s s' \<and>
      gn_fast_track s' = (gn_fast_track s)(n \<mapsto> p\<lparr>ft_status := PS_Executed\<rparr>))"
proof -
  from timelock_stays[OF assms(1)] assms(2) have "executes c" by blast
  then consider n where "c = Gn_execute n" | n where "c = Gn_execute_fast_track n" by (auto simp: executes_def)
  then show ?thesis
  proof cases
    case 1
    with assms(1) have x: "gn_exec e (Gn_execute n) s = Inr s'" by blast
    from execution_effect[OF x assms(2)] obtain p f a where p: "gn_proposal s n = Some p" "gq_status p \<noteq> PS_Executed" "deciding_votes s n p = Inr (f, a)"
      "carried (or_else (gn_quorum s) 0) (or_else (gn_threshold_bps s) 5000) f a"
      "current_hash s (gq_target p) = gq_initial_hash p" "scheduled e (gq_proposer p) (gq_action_hash p) s s'"
      and s': "s' = s\<lparr>gn_timelock := gn_timelock s', gn_proposal := (gn_proposal s)(n \<mapsto> p\<lparr>gq_status := PS_Executed\<rparr>)\<rparr>"
      by blast
    have "gn_proposal s' = (gn_proposal s)(n \<mapsto> p\<lparr>gq_status := PS_Executed\<rparr>)" by (subst s') simp
    with 1 p show ?thesis by blast
  next
    case 2
    with assms(1) have x: "gn_exec e (Gn_execute_fast_track n) s = Inr s'" by blast
    from fast_track_effect[OF x assms(2)] obtain p where p: "gn_fast_track s n = Some p" "ft_status p \<noteq> PS_Executed"
      "carried (or_else (gn_quorum s) 0) (or_else (gn_ft_threshold s) 7500) (ft_votes_for p) (ft_votes_against p)"
      "ft_created_at p + or_else (gn_ft_timelock s) 7200 \<le> timestamp e"
      "current_hash s (ft_target p) = ft_initial_hash p" "scheduled e (ft_proposer p) (ft_action_hash p) s s'"
      and s': "s' = s\<lparr>gn_timelock := gn_timelock s', gn_fast_track := (gn_fast_track s)(n \<mapsto> p\<lparr>ft_status := PS_Executed\<rparr>)\<rparr>"
      by blast
    have "gn_fast_track s' = (gn_fast_track s)(n \<mapsto> p\<lparr>ft_status := PS_Executed\<rparr>)" by (subst s') simp
    with 2 p show ?thesis by blast
  qed
qed

text \<open>The books of the schedule: one upgrade per executed proposal, each put forward by one of them.\<close>

definition upgrades_match :: "gn_state \<Rightarrow> bool" where
  "upgrades_match s \<longleftrightarrow> finite (dom (done_of s)) \<and> finite (dom (ft_done_of s)) \<and>
     next_upgrade s = card (dom (done_of s)) + card (dom (ft_done_of s)) \<and>
     dom (tl_proposals (gn_timelock s)) = {..<next_upgrade s} \<and>
     (\<forall>i u. tl_proposals (gn_timelock s) i = Some u \<longrightarrow>
        (up_proposer u, up_wasm_hash u) \<in> ran (done_of s) \<union> ran (ft_done_of s))"

lemma upgrades_match_more:
  assumes "upgrades_match s" "scheduled e a h s s'" "k n = None"
    and "k = done_of s \<and> done_of s' = k(n \<mapsto> (a, h)) \<and> ft_done_of s' = ft_done_of s \<or>
         k = ft_done_of s \<and> ft_done_of s' = k(n \<mapsto> (a, h)) \<and> done_of s' = done_of s"
  shows "upgrades_match s'"
proof -
  have "dom (tl_proposals (gn_timelock s')) = {..<next_upgrade s'}"
    using assms(1,2) by (auto simp: upgrades_match_def scheduled_def)
  moreover have "next_upgrade s' = card (dom (done_of s')) + card (dom (ft_done_of s'))"
    using assms by (auto simp: upgrades_match_def scheduled_def card_insert_if domIff)
  moreover have "finite (dom (done_of s'))" "finite (dom (ft_done_of s'))"
    using assms(1,4) by (auto simp: upgrades_match_def)
  moreover have "ran (done_of s') \<union> ran (ft_done_of s') = insert (a, h) (ran (done_of s) \<union> ran (ft_done_of s))"
    using assms(3,4) by auto
  ultimately show ?thesis
    using assms(1,2) by (auto simp: upgrades_match_def scheduled_def split: if_splits)
qed

lemma upgrades_match_step:
  assumes "numbered s \<and> upgrades_match s" "gn_exec e c s = Inr s'" "gn_in_order c s"
  shows "numbered s' \<and> upgrades_match s'"
proof (cases "executes c")
  case False
  with assms other_calls[of e c s s'] timelock_stays[of e c s s'] show ?thesis
    by (simp add: upgrades_match_def next_upgrade_def)
next
  case True
  then consider n where "c = Gn_execute n" | n where "c = Gn_execute_fast_track n" by (auto simp: executes_def)
  then show ?thesis
  proof cases
    case 1
    from assms(2) have "gn_execute_proposal e s n = Inr s'" by (simp add: 1)
    then show ?thesis
    proof (cases rule: execute_proposal_Inr)
      case (2 p f a)
      have "numbered s'" using assms(1) 2(1) by (subst 2(7)) (auto simp: numbered_def)
      moreover have "done_of s' = (done_of s)(n \<mapsto> (gq_proposer p, gq_action_hash p))" "ft_done_of s' = ft_done_of s"
        by (subst 2(7), simp add: done_of_def ft_done_of_def fun_eq_iff)+
      moreover have "done_of s n = None" using 2(1,2) by (simp add: done_of_def)
      ultimately show ?thesis using upgrades_match_more[OF _ 2(6), of "done_of s" n] assms(1) by simp
    qed (use assms(1) in simp)
  next
    case 2
    from assms(2) have "execute_fast_track_proposal e s n = Inr s'" by (simp add: 2)
    then show ?thesis
    proof (cases rule: execute_fast_track_Inr)
      case (2 p)
      have "numbered s'" using assms(1) 2(1) by (subst 2(7)) (auto simp: numbered_def)
      moreover have "ft_done_of s' = (ft_done_of s)(n \<mapsto> (ft_proposer p, ft_action_hash p))" "done_of s' = done_of s"
        by (subst 2(7), simp add: done_of_def ft_done_of_def fun_eq_iff)+
      moreover have "ft_done_of s n = None" using 2(1,2) by (simp add: ft_done_of_def)
      ultimately show ?thesis using upgrades_match_more[OF _ 2(6), of "ft_done_of s" n] assms(1) by simp
    qed (use assms(1) in simp)
  qed
qed

text \<open>C27: In every state reached from the empty contract, where \<open>initialize\<close> was not called after a
  proposal had been made, the upgrades in the timelock are numbered without a gap, there are as many
  as there are executed proposals of the two kinds, and each was put forward, with this code and by
  this proposer, by an executed proposal.\<close>

theorem scheduled_upgrades_match_executions:
  assumes "gn_reachable s"
  shows "upgrades_match s"
proof -
  from assms have "numbered s \<and> upgrades_match s"
  proof (induction rule: gn_reachable.induct)
    case gn_begin
    show ?case
      by (simp add: numbered_def upgrades_match_def done_of_def ft_done_of_def dom_def gn_empty_def next_upgrade_def or_else_def
          tl_empty_def)
  next
    case (gn_next s e c s')
    then show ?case using upgrades_match_step by blast
  qed
  then show ?thesis by simp
qed

text \<open>The execution of a proposal looks at neither the caller nor the clock: whether it succeeds is
  the same for any two callers and times, so it does not wait for the voting to end.\<close>

theorem execution_ignores_voting_end:
  "is_ok (gn_execute_proposal e s n) = is_ok (gn_execute_proposal e' s n)"
  by (cases "gn_proposal s n")
    (auto simp: is_ok_iff gn_execute_proposal_def schedule_def propose_upgrade_def Let_def split: if_splits option.splits)

end
