(* ===== verification/Governance_Example.thy ===== *)
theory Governance_Example
  imports Governance_Props
begin

text \<open>
  A concrete upgrade: admin 10 gives address 20 a stake of 150 and address 21 one of 50, the first
  proposes to upgrade contract 9 and votes for it, the second against, and the proposal is executed
  while the votes are still open.
\<close>

definition clock :: "u64 \<Rightarrow> env" where "clock t = sample_env\<lparr>timestamp := t\<rparr>"

lemma clock_simps [simp]: "timestamp (clock t) = t" "authorised (clock t) a"
  by (simp_all add: clock_def)

fun gn_replay :: "(u64 \<times> gn_op) list \<Rightarrow> gn_state \<Rightarrow> gn_state gn_result" where
  "gn_replay [] s = Inr s"
| "gn_replay ((t, c) # cs) s = rbind (gn_exec (clock t) c s) (gn_replay cs)"

lemma gn_replay_runs:
  "gn_replay cs s = Inr s' \<Longrightarrow> gn_reachable s \<Longrightarrow> \<forall>x\<in>set cs. \<forall>a b m q th d. snd x \<noteq> Gn_initialize a b m q th d
     \<Longrightarrow> gn_reachable s'"
proof (induction cs arbitrary: s)
  case (Cons x cs)
  then obtain t c s1 where x: "x = (t, c)" "gn_exec (clock t) c s = Inr s1" "gn_replay cs s1 = Inr s'" by (cases x) auto
  from x(1) Cons.prems(3) have "gn_in_order c s" by (cases c) auto
  then have "gn_reachable s1" by (rule gn_next[OF Cons.prems(2) x(2)])
  with Cons.IH[OF x(3)] Cons.prems(3) show ?case by simp
qed simp

definition upgrade_calls :: "(u64 \<times> gn_op) list" where
  "upgrade_calls =
     [(1000, Gn_set_stake 20 150), (1000, Gn_set_stake 21 50), (1000, Gn_create 20 9 [7]), (2000, Gn_vote 20 1 True),
      (2000, Gn_vote 21 1 False)]"

definition gn_start :: gn_state where
  "gn_start = gn_empty\<lparr>gn_admin := Some 10, gn_access := Some 5, gn_min_stake := Some 100, gn_quorum := Some 120,
     gn_threshold_bps := Some 6000, gn_voting_duration := Some 3600, gn_count := Some 0\<rparr>"

definition voted_on :: gn_state where
  "voted_on = (case gn_replay upgrade_calls gn_start of Inr s \<Rightarrow> s | _ \<Rightarrow> gn_start)"

named_theorems gn_eval
lemmas [gn_eval] = upgrade_calls_def gn_start_def gn_empty_def set_stake_def gn_signed_def require_auth_def
  gn_create_proposal_def or_else_def u64_add_def u64_max_def current_hash_def gn_vote_def stake_to_vote_def mark_voted_def
  add_stake_vote_def i128_add_def i128_fit_def i128_min_def i128_max_def Let_def

lemma voted_on_replay: "gn_replay upgrade_calls gn_start = Inr voted_on"
  unfolding voted_on_def by (simp add: gn_eval)

lemma voted_on_facts:
  "gn_proposal voted_on = [1 \<mapsto> \<lparr>gq_id = 1, gq_proposer = 20, gq_action_hash = [7], gq_target = 9, gq_votes_for = 150,
     gq_votes_against = 50, gq_voting_end = 4600, gq_status = PS_Active, gq_initial_hash = replicate 32 0, gq_mode = OnChain\<rparr>]"
  "gn_quorum voted_on = Some 120" "gn_threshold_bps voted_on = Some 6000" "gn_timelock voted_on = tl_empty"
  "gn_target_hash voted_on = (\<lambda>_. None)" "gn_fast_track voted_on = (\<lambda>_. None)"
  unfolding voted_on_def by (simp_all add: gn_eval)

lemma gn_start_reachable: "gn_reachable gn_start"
proof (rule gn_next[OF gn_begin])
  show "gn_exec (clock 1000) (Gn_initialize 10 5 100 120 6000 3600) gn_empty = Inr gn_start"
    by (simp add: gn_initialize_def gn_start_def gn_empty_def)
qed (simp add: gn_empty_def)

lemma voted_on_reachable: "gn_reachable voted_on"
  by (rule gn_replay_runs[OF voted_on_replay gn_start_reachable]) (simp add: upgrade_calls_def)

definition upgraded :: gn_state where
  "upgraded = (case gn_execute_proposal (clock 3000) voted_on 1 of Inr s \<Rightarrow> s | _ \<Rightarrow> voted_on)"

lemmas gn_execute_eval = gn_execute_proposal_def voted_on_facts deciding_votes_def i128_add_def i128_mul_def i128_div_def i128_fit_def
  i128_min_def i128_max_def or_else_def current_hash_def schedule_def propose_upgrade_def tl_empty_def u64_add_def u64_max_def
  signed_divide_int_def Let_def

lemma upgraded_step: "gn_execute_proposal (clock 3000) voted_on 1 = Inr upgraded"
  unfolding upgraded_def by (simp add: gn_execute_eval)

lemma upgraded_facts:
  "next_upgrade upgraded = 1" "gn_timelock upgraded \<noteq> gn_timelock voted_on"
  "tl_proposals (gn_timelock upgraded) 0 = Some \<lparr>up_wasm_hash = [7], up_proposer = 20, up_proposed_at = 3000,
     up_executed = False, up_cancelled = False\<rparr>"
  unfolding upgraded_def next_upgrade_def by (simp_all add: gn_execute_eval)

theorem upgrade_scheduled_only_when_carried_witness:
  "\<exists>f a. deciding_votes voted_on 1 (the (gn_proposal voted_on 1)) = Inr (f, a) \<and> carried 120 6000 f a"
proof -
  have "gn_exec (clock 3000) (Gn_execute 1) voted_on = Inr upgraded" using upgraded_step by simp
  from upgrade_scheduled_only_when_carried[OF this upgraded_facts(2)] show ?thesis
    by (auto simp: voted_on_facts or_else_def)
qed

lemma upgraded_reachable: "gn_reachable upgraded"
proof (rule gn_next[OF voted_on_reachable])
  show "gn_exec (clock 3000) (Gn_execute 1) voted_on = Inr upgraded" using upgraded_step by simp
qed simp

theorem scheduled_upgrades_match_executions_witness:
  "upgrades_match upgraded \<and> next_upgrade upgraded = 1"
  using scheduled_upgrades_match_executions[OF upgraded_reachable] upgraded_facts(1) by simp

text \<open>What the order of calls excluded by \<open>gn_reachable\<close> does: a proposal made before the contract is
  initialised has the number 1, \<open>initialize\<close> sets the counter back to 0, the proposal is voted on and
  executed, which schedules its upgrade, and the next proposal made takes its number and its place:
  an upgrade is scheduled and no proposal on record has been executed.\<close>

definition early_upgrade_calls :: "(u64 \<times> gn_op) list" where
  "early_upgrade_calls =
     [(1000, Gn_create 20 9 [7]), (1000, Gn_initialize 10 5 100 120 6000 3600), (1000, Gn_set_stake 20 150),
      (2000, Gn_vote 20 1 True), (3000, Gn_execute 1), (4000, Gn_create 20 8 [6])]"

lemma early_upgrade_is_forgotten:
  "\<exists>s. gn_replay early_upgrade_calls gn_empty = Inr s \<and> next_upgrade s = 1 \<and> done_of s = (\<lambda>_. None) \<and>
     ft_done_of s = (\<lambda>_. None) \<and> \<not> upgrades_match s"
proof -
  have "\<exists>s. gn_replay early_upgrade_calls gn_empty = Inr s \<and> next_upgrade s = 1 \<and> done_of s = (\<lambda>_. None) \<and>
     ft_done_of s = (\<lambda>_. None)"
    by (simp add: early_upgrade_calls_def gn_eval gn_initialize_def gn_execute_eval next_upgrade_def done_of_def
        ft_done_of_def fun_eq_iff)
  then show ?thesis by (auto simp: upgrades_match_def)
qed

end
