(* ===== verification/Treasury_State.thy ===== *)
theory Treasury_State
  imports Kora_Audit Kora_Timelock Kora_Reentrancy Kora_Errors
begin

text \<open>
  The storage and the helpers of the treasury (\<open>contracts/treasury/src/lib.rs\<close>).

  The crate defines nine of its helpers twice, once with the shared \<open>KoraError\<close> and once with the
  \<open>TreasuryError\<close> of the contract, and the two versions differ.  Both are modelled, with the suffixes
  \<open>_kora\<close> and \<open>_local\<close>; which one a call reaches is an argument (\<open>te_rev\<close>), and the theorems hold for
  both or name the one they are about.  Entry points that return \<open>KoraError\<close> can only use the first
  version, there being no conversion from the other error.  Two functions that are called have no
  definition in the crate, the share of an amount and the emergency withdrawal: they are
  arguments too.
\<close>

section \<open>Data\<close>

datatype TreasuryError =
    TE_AlreadyInitialized | TE_ArithmeticOverflow | TE_InsufficientPoolBalance | TE_InvalidAddress | TE_InvalidAmount
  | TE_InvalidFeeRate | TE_NoCapChangeProposed | TE_NoUpgradeProposed | TE_NotAdmin | TE_NotInitialized | TE_Reentrancy
  | TE_TokenNotWhitelisted | TE_UpgradeTimelockNotElapsed | TE_WithdrawalCapTimelockNotElapsed
  | TE_WithdrawalRateLimitExceeded | TE_NotEligibleStakeholder | TE_NoShareAvailable | TE_InvalidDistributionConfig
  | TE_DistributionProposalNotFound | TE_SweepSplitsNotConfigured | TE_InvalidSweepSplits | TE_InvalidGrant
  | TE_GrantNotFound | TE_TokenDecimalsNotRegistered

type_synonym 'a tresult = "(TreasuryError, 'a) result"

definition te_from_common :: "CommonError \<Rightarrow> TreasuryError" where
  "te_from_common c =
     (case c of
        CE_InvalidAmount \<Rightarrow> TE_InvalidAmount | CE_InvalidAddress \<Rightarrow> TE_InvalidAddress
      | CE_InvalidFeeRate \<Rightarrow> TE_InvalidFeeRate | CE_ArithmeticOverflow \<Rightarrow> TE_ArithmeticOverflow
      | CE_Reentrancy \<Rightarrow> TE_Reentrancy | _ \<Rightarrow> TE_InvalidAmount)"

definition te_from_kora :: "KoraError \<Rightarrow> TreasuryError" where
  "te_from_kora k =
     (case k of
        KE_NotAdmin \<Rightarrow> TE_NotAdmin | KE_InvalidAmount \<Rightarrow> TE_InvalidAmount | KE_InvalidAddress \<Rightarrow> TE_InvalidAddress
      | KE_InvalidFeeRate \<Rightarrow> TE_InvalidFeeRate | KE_ArithmeticOverflow \<Rightarrow> TE_ArithmeticOverflow
      | KE_Reentrancy \<Rightarrow> TE_Reentrancy | KE_NotInitialized \<Rightarrow> TE_NotInitialized
      | KE_AlreadyInitialized \<Rightarrow> TE_AlreadyInitialized | KE_SweepSplitsNotConfigured \<Rightarrow> TE_SweepSplitsNotConfigured
      | KE_InvalidSweepSplits \<Rightarrow> TE_InvalidSweepSplits | KE_InsufficientFunds \<Rightarrow> TE_InsufficientPoolBalance
      | KE_InsufficientPoolBalance \<Rightarrow> TE_InsufficientPoolBalance | KE_TokenNotWhitelisted \<Rightarrow> TE_TokenNotWhitelisted
      | KE_UpgradeTimelockNotElapsed \<Rightarrow> TE_UpgradeTimelockNotElapsed | KE_NoUpgradeProposed \<Rightarrow> TE_NoUpgradeProposed
      | KE_WithdrawalRateLimitExceeded \<Rightarrow> TE_WithdrawalRateLimitExceeded | _ \<Rightarrow> TE_InvalidAmount)"

abbreviation te_lift :: "(CommonError, 'a) result \<Rightarrow> 'a tresult" where
  "te_lift \<equiv> map_err te_from_common"

abbreviation te_lift_kora :: "'a kresult \<Rightarrow> 'a tresult" where
  "te_lift_kora \<equiv> map_err te_from_kora"

definition TREASURY_PROPOSAL_TTL :: u64 where "TREASURY_PROPOSAL_TTL = 604800"
definition MAX_TOKEN_DECIMALS :: u32 where "MAX_TOKEN_DECIMALS = 18"
definition EPOCH_DURATION :: u64 where "EPOCH_DURATION = 86400"
definition GRANT_RECLAIM_DELAY :: u64 where "GRANT_RECLAIM_DELAY = 90 * 24 * 60 * 60"
definition MAX_GRANT_MILESTONES :: u32 where "MAX_GRANT_MILESTONES = 20"

record AuditEntry =
  au_action :: string
  au_actor :: address
  au_timestamp :: u64
  au_sequence :: u64

datatype TreasuryAction =
    TA_Withdraw address address i128
  | TA_EmergencyWithdraw address address
  | TA_SetFeeBps u32
  | TA_ProposeUpgrade bytes
  | TA_ReviewGrant u64
  | TA_ReleaseGrantMilestone u64
  | TA_ReclaimGrant u64
  | TA_SetTimelockDelay u64
  | TA_SetParameterRegistry address
  | TA_SetTokenDecimals address u32

record GrantProposal =
  gr_id :: u64
  gr_proposer :: address
  gr_recipient :: address
  gr_token :: address
  gr_scope :: string
  gr_milestones :: "i128 list"
  gr_next_milestone :: u32
  gr_remaining :: i128
  gr_reviewed :: bool
  gr_closed :: bool
  gr_submitted_at :: u64
  gr_last_activity_at :: u64

record TreasuryProposal =
  tp_id :: u64
  tp_action :: TreasuryAction
  tp_proposer :: address
  tp_approvals :: "address list"
  tp_executed :: bool
  tp_created_at :: u64
  tp_expires_at :: u64

record DistributionConfig =
  dc_epoch :: u64
  dc_stakeholders :: "address list"
  dc_created_at :: u64
  dc_bps :: u32

record DistributionProposal =
  dp_epoch :: u64
  dp_stakeholders :: "address list"
  dp_bps :: u32
  dp_proposed_at :: u64
  dp_expires_at :: u64

record TokenBalance =
  tb_token :: address
  tb_decimals :: u32
  tb_inflows :: i128
  tb_outflows :: i128
  tb_ending_balance :: i128

record TreasuryReport =
  rep_epoch :: u64
  rep_balances :: "TokenBalance list"
  rep_generated_at :: u64
  rep_effective_fee_bps :: u32

text \<open>The keys of the two audit logs: \<open>ta_head\<close>, \<open>ta_total\<close> and \<open>ta_checksum\<close> are written by the first
  version of \<open>append_audit_entry_internal\<close>, \<open>ta_log_head\<close> and \<open>ta_log_total\<close> by the second; both
  write the entries.\<close>

record tr_audit =
  ta_entries :: "u64 \<Rightarrow> AuditEntry option"
  ta_head :: "u64 option"
  ta_total :: "u64 option"
  ta_checksum :: "bytes option"
  ta_log_head :: "u64 option"
  ta_log_total :: "u64 option"

text \<open>One field per storage key. \<open>FeeBps\<close> is written to the persistent and to the instance storage,
  which are separate; \<open>AccessControl\<close> is written to the first and, by the second version of the
  helpers, read from the second (\<open>tr_access_inst\<close>).\<close>

record tr_state =
  tr_admin :: "address option"
  tr_pending_admin :: "address option"
  tr_fee_bps :: "u32 option"
  tr_fee_bps_inst :: "u32 option"
  tr_collected :: "address \<Rightarrow> i128 option"
  tr_whitelisted :: "address \<Rightarrow> bool option"
  tr_upgrade :: "(bytes \<times> u64) option"
  tr_cap :: "address \<Rightarrow> i128 option"
  tr_cap_proposal :: "address \<Rightarrow> (i128 \<times> u64) option"
  tr_registry :: "address option"
  tr_epoch_start :: "address \<Rightarrow> u64 option"
  tr_epoch_withdrawn :: "address \<Rightarrow> i128 option"
  tr_access :: "address option"
  tr_access_inst :: "address option"
  tr_emergency :: "bool option"
  tr_recipient :: "address \<Rightarrow> bool option"
  tr_recipient_proposal :: "address \<Rightarrow> u64 option"
  tr_reserve_caller :: "address \<Rightarrow> bool option"
  tr_reserve :: "address \<Rightarrow> i128 option"
  tr_reserve_bps :: "u32 option"
  tr_next_action :: "u64 option"
  tr_action :: "u64 \<Rightarrow> TreasuryProposal option"
  tr_action_delay :: "u64 \<Rightarrow> u64 option"
  tr_next_grant :: "u64 option"
  tr_grant :: "u64 \<Rightarrow> GrantProposal option"
  tr_proof :: "u64 \<Rightarrow> u32 \<Rightarrow> bytes option"
  tr_marketplace :: "address option"
  tr_oracle :: "address option"
  tr_dist_epoch :: "u64 option"
  tr_dist_proposal :: "DistributionProposal option"
  tr_dist_config :: "u64 \<Rightarrow> DistributionConfig option"
  tr_claim :: "address \<Rightarrow> u64 \<Rightarrow> address \<Rightarrow> i128 option"
  tr_dist_pool :: "address \<Rightarrow> i128 option"
  tr_report :: "u64 \<Rightarrow> TreasuryReport option"
  tr_last_report :: "u64 option"
  tr_splits :: "(address \<times> u32) list option"
  tr_primary :: "address option"
  tr_decimals :: "address \<Rightarrow> u32 option"
  tr_lock :: bool
  tr_timelock :: timelock
  tr_audit :: tr_audit

definition tr_empty :: tr_state where
  "tr_empty = \<lparr>tr_admin = None, tr_pending_admin = None, tr_fee_bps = None, tr_fee_bps_inst = None, tr_collected = (\<lambda>_. None),
     tr_whitelisted = (\<lambda>_. None), tr_upgrade = None, tr_cap = (\<lambda>_. None), tr_cap_proposal = (\<lambda>_. None), tr_registry = None,
     tr_epoch_start = (\<lambda>_. None), tr_epoch_withdrawn = (\<lambda>_. None), tr_access = None, tr_access_inst = None,
     tr_emergency = None, tr_recipient = (\<lambda>_. None), tr_recipient_proposal = (\<lambda>_. None), tr_reserve_caller = (\<lambda>_. None),
     tr_reserve = (\<lambda>_. None), tr_reserve_bps = None, tr_next_action = None, tr_action = (\<lambda>_. None),
     tr_action_delay = (\<lambda>_. None), tr_next_grant = None, tr_grant = (\<lambda>_. None), tr_proof = (\<lambda>_ _. None),
     tr_marketplace = None, tr_oracle = None, tr_dist_epoch = None, tr_dist_proposal = None, tr_dist_config = (\<lambda>_. None),
     tr_claim = (\<lambda>_ _ _. None), tr_dist_pool = (\<lambda>_. None), tr_report = (\<lambda>_. None), tr_last_report = None,
     tr_splits = None, tr_primary = None, tr_decimals = (\<lambda>_. None), tr_lock = False, tr_timelock = tl_empty,
     tr_audit = \<lparr>ta_entries = (\<lambda>_. None), ta_head = None, ta_total = None, ta_checksum = None, ta_log_head = None, ta_log_total = None\<rparr>\<rparr>"

text \<open>What a call reads from outside the contract, and the open points of the crate.  A token answers
  with the treasury's balance (\<open>te_balance\<close>), the access control with its signers (\<open>te_signers\<close>, \<open>None\<close>
  when the view fails), the price oracle with a conversion.\<close>

datatype revision = Kora_Helpers | Local_Helpers

record treasury_env =
  te_rev :: revision
  te_balance :: "address \<Rightarrow> i128"
  te_signers :: "address \<Rightarrow> MultisigConfig option"
  te_convert :: "address \<Rightarrow> i128 \<Rightarrow> symbol \<Rightarrow> symbol \<Rightarrow> u32 \<Rightarrow> u32 \<Rightarrow> i128 option"
  te_chain :: "bytes \<Rightarrow> AuditEntry \<Rightarrow> bytes"
  te_bps_of :: "i128 \<Rightarrow> u32 \<Rightarrow> i128 tresult"
  te_emergency :: "address \<Rightarrow> address \<Rightarrow> address \<Rightarrow> tr_state \<Rightarrow> (tr_state \<times> ext_call list) kresult"
  te_to_kora :: "TreasuryError \<Rightarrow> KoraError"

section \<open>Reading the storage\<close>

definition get_collected :: "tr_state \<Rightarrow> address \<Rightarrow> i128" where
  "get_collected s token = or_else (tr_collected s token) 0"

definition get_reserve_balance :: "tr_state \<Rightarrow> address \<Rightarrow> i128" where
  "get_reserve_balance s token = or_else (tr_reserve s token) 0"

definition get_reserve_allocation_bps :: "tr_state \<Rightarrow> u32" where
  "get_reserve_allocation_bps s = or_else (tr_reserve_bps s) 0"

definition get_withdrawal_cap :: "tr_state \<Rightarrow> address \<Rightarrow> i128" where
  "get_withdrawal_cap s token = or_else (tr_cap s token) 0"

definition is_recipient_allowed :: "tr_state \<Rightarrow> address \<Rightarrow> bool" where
  "is_recipient_allowed s recipient = or_else (tr_recipient s recipient) False"

definition is_reserve_caller :: "tr_state \<Rightarrow> address \<Rightarrow> bool" where
  "is_reserve_caller s caller = or_else (tr_reserve_caller s caller) False"

definition tr_token_listed :: "tr_state \<Rightarrow> address \<Rightarrow> bool" where
  "tr_token_listed s token = or_else (tr_whitelisted s token) False"

section \<open>The helpers in their two versions\<close>

definition pick :: "treasury_env \<Rightarrow> 'a kresult \<Rightarrow> 'a tresult \<Rightarrow> 'a tresult" where
  "pick c kora locl = (case te_rev c of Kora_Helpers \<Rightarrow> te_lift_kora kora | Local_Helpers \<Rightarrow> locl)"

definition require_admin_kora :: "tr_state \<Rightarrow> address \<Rightarrow> unit kresult" where
  "require_admin_kora s caller =
     rbind (ok_or (tr_admin s) (Err KE_NotInitialized)) (\<lambda>admin.
     if admin \<noteq> caller then Inl (Err KE_NotAdmin) else Inr ())"

definition require_admin_local :: "tr_state \<Rightarrow> address \<Rightarrow> unit tresult" where
  "require_admin_local s caller =
     rbind (ok_or (tr_admin s) (Err TE_NotAdmin)) (\<lambda>admin.
     if caller \<noteq> admin then Inl (Err TE_NotAdmin) else Inr ())"

definition require_whitelisted_token_kora :: "tr_state \<Rightarrow> address \<Rightarrow> unit kresult" where
  "require_whitelisted_token_kora s token =
     (if \<not> tr_token_listed s token then Inl (Err KE_TokenNotWhitelisted) else Inr ())"

definition require_whitelisted_token_local :: "tr_state \<Rightarrow> address \<Rightarrow> unit tresult" where
  "require_whitelisted_token_local s token =
     (if \<not> tr_token_listed s token then Inl (Err TE_TokenNotWhitelisted) else Inr ())"

definition require_allowed_recipient_kora :: "tr_state \<Rightarrow> address \<Rightarrow> unit kresult" where
  "require_allowed_recipient_kora s recipient =
     (if \<not> is_recipient_allowed s recipient then Inl (Err KE_RecipientNotAllowed) else Inr ())"

definition require_allowed_recipient_local :: "tr_state \<Rightarrow> address \<Rightarrow> unit tresult" where
  "require_allowed_recipient_local s recipient =
     (if \<not> is_recipient_allowed s recipient then Inl (Err TE_NotAdmin) else Inr ())"

text \<open>The second version calls the view of the access control as if it returned an option; here it
  returns the answer of the view in both.\<close>

definition load_signer_config :: "treasury_env \<Rightarrow> tr_state \<Rightarrow> MultisigConfig kresult" where
  "load_signer_config c s =
     rbind (ok_or (tr_access s) (Err KE_MultisigNotConfigured)) (\<lambda>ac.
     ok_or (te_signers c ac) (Err KE_MultisigNotConfigured))"

definition tr_require_signer :: "MultisigConfig \<Rightarrow> address \<Rightarrow> unit kresult" where
  "tr_require_signer config caller =
     (if caller \<in> set (ms_signers config) then Inr () else Inl (Err KE_SignerNotFound))"

definition require_no_quorum_kora :: "treasury_env \<Rightarrow> tr_state \<Rightarrow> unit kresult" where
  "require_no_quorum_kora c s =
     (case load_signer_config c s of
        Inl _ \<Rightarrow> Inr ()
      | Inr config \<Rightarrow> if ms_threshold config > 1 then Inl (Err KE_QuorumRequired) else Inr ())"

definition require_no_quorum_local :: "treasury_env \<Rightarrow> tr_state \<Rightarrow> unit tresult" where
  "require_no_quorum_local c s =
     (case tr_access_inst s of
        None \<Rightarrow> Inr ()
      | Some ac \<Rightarrow> (case te_signers c ac of
          None \<Rightarrow> Inr ()
        | Some cfg \<Rightarrow> if ms_threshold cfg > 1 then Inl (Err TE_NotAdmin) else Inr ()))"

definition tr_require_not_paused :: "env \<Rightarrow> tr_state \<Rightarrow> unit tresult" where
  "tr_require_not_paused e s =
     (case tr_access_inst s of
        None \<Rightarrow> Inr ()
      | Some ac \<Rightarrow> if view_is_paused e ac then Inl (Err TE_NotAdmin) else Inr ())"

definition tr_as_admin :: "treasury_env \<Rightarrow> env \<Rightarrow> tr_state \<Rightarrow> address \<Rightarrow> unit tresult" where
  "tr_as_admin c e s admin =
     rbind (require_auth e admin) (\<lambda>_. pick c (require_admin_kora s admin) (require_admin_local s admin))"

definition tr_as_admin_kora :: "env \<Rightarrow> tr_state \<Rightarrow> address \<Rightarrow> unit kresult" where
  "tr_as_admin_kora e s admin = rbind (require_auth e admin) (\<lambda>_. require_admin_kora s admin)"

definition tr_require_listed :: "treasury_env \<Rightarrow> tr_state \<Rightarrow> address \<Rightarrow> unit tresult" where
  "tr_require_listed c s token = pick c (require_whitelisted_token_kora s token) (require_whitelisted_token_local s token)"

definition tr_require_recipient :: "treasury_env \<Rightarrow> tr_state \<Rightarrow> address \<Rightarrow> unit tresult" where
  "tr_require_recipient c s a = pick c (require_allowed_recipient_kora s a) (require_allowed_recipient_local s a)"

definition tr_require_no_quorum :: "treasury_env \<Rightarrow> tr_state \<Rightarrow> unit tresult" where
  "tr_require_no_quorum c s = pick c (require_no_quorum_kora c s) (require_no_quorum_local c s)"

text \<open>The withdrawal cap of a day.  The first version only checks (and opens a new day); the
  second records the amount as well, which \<open>record_withdrawal\<close> then does again.\<close>

definition set_epoch :: "address \<Rightarrow> u64 \<Rightarrow> i128 \<Rightarrow> tr_state \<Rightarrow> tr_state" where
  "set_epoch token start withdrawn s =
     s\<lparr>tr_epoch_start := (tr_epoch_start s)(token \<mapsto> start), tr_epoch_withdrawn := (tr_epoch_withdrawn s)(token \<mapsto> withdrawn)\<rparr>"

definition enforce_rate_limit_kora :: "env \<Rightarrow> address \<Rightarrow> i128 \<Rightarrow> tr_state \<Rightarrow> tr_state kresult" where
  "enforce_rate_limit_kora e token amount s =
     (let cap = get_withdrawal_cap s token; now = timestamp e; start = or_else (tr_epoch_start s token) now in
      if cap = 0 then Inr s
      else
        let (s, withdrawn) =
          (if u64_sat_sub now start \<ge> EPOCH_DURATION then (set_epoch token now 0 s, 0)
           else (s, or_else (tr_epoch_withdrawn s token) 0)) in
        rbind (ok_or (i128_add withdrawn amount) (Err KE_ArithmeticOverflow)) (\<lambda>new_total.
        if new_total > cap then Inl (Err KE_WithdrawalRateLimitExceeded) else Inr s))"

definition u64_sat_add :: "u64 \<Rightarrow> u64 \<Rightarrow> u64" where "u64_sat_add a b = min u64_max (a + b)"

definition enforce_rate_limit_local :: "env \<Rightarrow> address \<Rightarrow> i128 \<Rightarrow> tr_state \<Rightarrow> tr_state tresult" where
  "enforce_rate_limit_local e token amount s =
     (let cap = get_withdrawal_cap s token; now = timestamp e; start = or_else (tr_epoch_start s token) now in
      if cap = 0 then Inr s
      else
        let (new_start, withdrawn) =
          (if now \<ge> u64_sat_add start EPOCH_DURATION then (now, 0) else (start, or_else (tr_epoch_withdrawn s token) 0)) in
        rbind (ok_or (i128_add withdrawn amount) (Err TE_ArithmeticOverflow)) (\<lambda>new_withdrawn.
        if new_withdrawn > cap then Inl (Err TE_WithdrawalRateLimitExceeded)
        else Inr (set_epoch token new_start new_withdrawn s)))"

definition enforce_rate_limit :: "treasury_env \<Rightarrow> env \<Rightarrow> address \<Rightarrow> i128 \<Rightarrow> tr_state \<Rightarrow> tr_state tresult" where
  "enforce_rate_limit c e token amount s =
     pick c (enforce_rate_limit_kora e token amount s) (enforce_rate_limit_local e token amount s)"

definition record_withdrawal :: "env \<Rightarrow> address \<Rightarrow> i128 \<Rightarrow> tr_state \<Rightarrow> ('e, tr_state) result" where
  "record_withdrawal e token amount s =
     rbind (ok_or (i128_add (or_else (tr_epoch_withdrawn s token) 0) amount) Trap) (\<lambda>w.
     Inr (set_epoch token (or_else (tr_epoch_start s token) (timestamp e)) w s))"

section \<open>The audit log\<close>

definition action_name :: "AdminActionType \<Rightarrow> string" where
  "action_name a =
     (case a of
        AA_SetFeeBps \<Rightarrow> ''set_fee_bps'' | AA_Withdraw \<Rightarrow> ''withdraw'' | AA_EmergencyWithdraw \<Rightarrow> ''emergency_withdraw''
      | AA_WhitelistToken \<Rightarrow> ''whitelist_token'' | AA_ProposeWithdrawalCap \<Rightarrow> ''propose_withdrawal_cap''
      | AA_ExecuteWithdrawalCap \<Rightarrow> ''execute_withdrawal_cap'' | AA_ProposeUpgrade \<Rightarrow> ''propose_upgrade''
      | AA_ExecuteUpgrade \<Rightarrow> ''execute_upgrade'' | AA_ProposeRecipient \<Rightarrow> ''propose_recipient''
      | AA_ExecuteRecipient \<Rightarrow> ''execute_recipient'' | AA_SetAccessControl \<Rightarrow> ''set_access_control''
      | AA_TreasuryProposeUpgrade \<Rightarrow> ''treasury_propose_upgrade'' | AA_TreasuryExecuteUpgrade \<Rightarrow> ''treasury_execute_upgrade''
      | _ \<Rightarrow> ''unknown_admin_action'')"

text \<open>The only failure is the overflow of a counter.\<close>

definition append_internal_kora ::
  "(bytes \<Rightarrow> AuditEntry \<Rightarrow> bytes) \<Rightarrow> env \<Rightarrow> address \<Rightarrow> string \<Rightarrow> tr_audit \<Rightarrow> tr_audit option" where
  "append_internal_kora chain e actor action l =
     (let tot = or_else (ta_total l) 0; head = or_else (ta_head l) 0;
          entry = \<lparr>au_action = action, au_actor = actor, au_timestamp = timestamp e, au_sequence = tot\<rparr>;
          checksum = chain (or_else (ta_checksum l) (replicate 32 0)) entry in
      Option.bind (u64_add head 1) (\<lambda>h.
      Option.bind (u64_add tot 1) (\<lambda>t.
      Some (l\<lparr>ta_entries := (ta_entries l)(head \<mapsto> entry), ta_head := Some (h mod MAX_AUDIT_LOG_SIZE), ta_total := Some t,
             ta_checksum := Some checksum\<rparr>))))"

definition append_internal_local :: "env \<Rightarrow> address \<Rightarrow> string \<Rightarrow> tr_audit \<Rightarrow> tr_audit option" where
  "append_internal_local e actor action l =
     (let head = or_else (ta_log_head l) 0; tot = or_else (ta_log_total l) 0 in
      Option.bind (u64_add tot 1) (\<lambda>t.
      Option.bind (u64_add head 1) (\<lambda>h.
      Some (l\<lparr>ta_entries := (ta_entries l)(head \<mapsto> \<lparr>au_action = action, au_actor = actor, au_timestamp = timestamp e, au_sequence = t\<rparr>),
             ta_log_head := Some (h mod MAX_AUDIT_LOG_SIZE), ta_log_total := Some t\<rparr>))))"

definition append_entry :: "treasury_env \<Rightarrow> env \<Rightarrow> address \<Rightarrow> string \<Rightarrow> tr_audit \<Rightarrow> tr_audit option" where
  "append_entry c e actor action l =
     (case te_rev c of
        Kora_Helpers \<Rightarrow> append_internal_kora (te_chain c) e actor action l
      | Local_Helpers \<Rightarrow> append_internal_local e actor action l)"

definition tr_append :: "treasury_env \<Rightarrow> env \<Rightarrow> address \<Rightarrow> string \<Rightarrow> tr_state \<Rightarrow> ('e, tr_state) result" where
  "tr_append c e actor action s = rbind (ok_or (append_entry c e actor action (tr_audit s)) Trap) (\<lambda>l. Inr (s\<lparr>tr_audit := l\<rparr>))"

definition tr_log :: "treasury_env \<Rightarrow> env \<Rightarrow> address \<Rightarrow> AdminActionType \<Rightarrow> tr_state \<Rightarrow> ('e, tr_state) result" where
  "tr_log c e actor action s = tr_append c e actor (action_name action) s"

text \<open>Logging changes the log only.\<close>

lemma tr_append_Inr [simp]:
  "tr_append c e actor action s = Inr s' \<longleftrightarrow> (\<exists>l. append_entry c e actor action (tr_audit s) = Some l \<and> s' = s\<lparr>tr_audit := l\<rparr>)"
  by (auto simp: tr_append_def)

lemma tr_log_Inr [simp]:
  "tr_log c e actor action s = Inr s' \<longleftrightarrow>
     (\<exists>l. append_entry c e actor (action_name action) (tr_audit s) = Some l \<and> s' = s\<lparr>tr_audit := l\<rparr>)"
  by (simp add: tr_log_def)

definition tr_get_audit_log :: "tr_state \<Rightarrow> u32 \<Rightarrow> AuditEntry list" where
  "tr_get_audit_log s limit =
     (let l = tr_audit s; tot = or_else (ta_total l) 0; head = or_else (ta_head l) 0;
          count = min limit (min tot MAX_AUDIT_LOG_SIZE) in
      List.map_filter (\<lambda>i. ta_entries l ((head + MAX_AUDIT_LOG_SIZE - (i + 1) mod MAX_AUDIT_LOG_SIZE) mod MAX_AUDIT_LOG_SIZE)) [0..<count])"

text \<open>\<open>ReentrancyGuard\<close> on the lock of this contract.\<close>

definition tr_guarded ::
  "(CommonError \<Rightarrow> 'e) \<Rightarrow> (tr_state \<Rightarrow> ('e, tr_state \<times> 'r) result) \<Rightarrow> tr_state \<Rightarrow> ('e, tr_state \<times> 'r) result" where
  "tr_guarded from = with_guard tr_lock (\<lambda>b. tr_lock_update (\<lambda>_. b)) from"

interpretation tr_locked: lockable tr_lock "\<lambda>b. tr_lock_update (\<lambda>_. b)"
  by unfold_locales simp_all

end
