(* ===== verification/Treasury.thy ===== *)
theory Treasury
  imports Treasury_State
begin

text \<open>
  The entry points of the treasury (\<open>contracts/treasury/src/lib.rs\<close> and \<open>report.rs\<close>): configuration,
  fees, withdrawals, reserve, grants, distribution, sweep, and the actions its signers decide on.
  \<open>c\<close> stands for the open points of the crate and the answers of other contracts.
\<close>

section \<open>Configuration\<close>

definition tr_initialize :: "treasury_env \<Rightarrow> env \<Rightarrow> tr_state \<Rightarrow> address \<Rightarrow> u32 \<Rightarrow> tr_state tresult" where
  "tr_initialize c e s admin fee_bps =
     (if tr_admin s \<noteq> None then Inl (Err TE_AlreadyInitialized)
      else
        rbind (te_lift (require_valid_fee_bps fee_bps)) (\<lambda>_.
        rbind (te_lift (require_not_self e admin)) (\<lambda>_.
        tr_append c e admin ''initialize'' (s\<lparr>tr_admin := Some admin, tr_fee_bps := Some fee_bps\<rparr>))))"

definition do_set_fee_bps :: "treasury_env \<Rightarrow> env \<Rightarrow> address \<Rightarrow> u32 \<Rightarrow> tr_state \<Rightarrow> tr_state kresult" where
  "do_set_fee_bps c e admin fee_bps s =
     rbind (kora_lift (require_valid_fee_bps fee_bps)) (\<lambda>_.
     rbind (tr_append c e admin ''set_fee_bps'' (s\<lparr>tr_fee_bps_inst := Some fee_bps\<rparr>)) (\<lambda>s.
     tr_log c e admin AA_SetFeeBps (s\<lparr>tr_fee_bps := Some fee_bps\<rparr>)))"

definition tr_set_fee_bps :: "treasury_env \<Rightarrow> env \<Rightarrow> tr_state \<Rightarrow> address \<Rightarrow> u32 \<Rightarrow> tr_state tresult" where
  "tr_set_fee_bps c e s admin fee_bps =
     rbind (tr_as_admin c e s admin) (\<lambda>_.
     rbind (tr_require_no_quorum c s) (\<lambda>_.
     te_lift_kora (do_set_fee_bps c e admin fee_bps s)))"

definition set_price_oracle :: "treasury_env \<Rightarrow> env \<Rightarrow> tr_state \<Rightarrow> address \<Rightarrow> address \<Rightarrow> tr_state tresult" where
  "set_price_oracle c e s admin price_oracle =
     rbind (tr_as_admin c e s admin) (\<lambda>_.
     tr_log c e admin AA_SetFeeBps (s\<lparr>tr_oracle := Some price_oracle\<rparr>))"

definition whitelist_token :: "treasury_env \<Rightarrow> env \<Rightarrow> tr_state \<Rightarrow> address \<Rightarrow> address \<Rightarrow> tr_state tresult" where
  "whitelist_token c e s admin token =
     rbind (tr_as_admin c e s admin) (\<lambda>_.
     tr_log c e admin AA_WhitelistToken (s\<lparr>tr_whitelisted := (tr_whitelisted s)(token \<mapsto> True)\<rparr>))"

definition tr_set_marketplace :: "env \<Rightarrow> tr_state \<Rightarrow> address \<Rightarrow> address \<Rightarrow> tr_state kresult" where
  "tr_set_marketplace e s admin marketplace =
     rbind (tr_as_admin_kora e s admin) (\<lambda>_. Inr (s\<lparr>tr_marketplace := Some marketplace\<rparr>))"

definition declare_emergency :: "treasury_env \<Rightarrow> env \<Rightarrow> tr_state \<Rightarrow> address \<Rightarrow> tr_state kresult" where
  "declare_emergency c e s admin =
     rbind (tr_as_admin_kora e s admin) (\<lambda>_. tr_log c e admin AA_DeclareEmergency (s\<lparr>tr_emergency := Some True\<rparr>))"

definition revoke_emergency :: "treasury_env \<Rightarrow> env \<Rightarrow> tr_state \<Rightarrow> address \<Rightarrow> tr_state kresult" where
  "revoke_emergency c e s admin =
     rbind (tr_as_admin_kora e s admin) (\<lambda>_. tr_log c e admin AA_RevokeEmergency (s\<lparr>tr_emergency := Some False\<rparr>))"

definition propose_withdrawal_cap :: "treasury_env \<Rightarrow> env \<Rightarrow> tr_state \<Rightarrow> address \<Rightarrow> address \<Rightarrow> i128 \<Rightarrow> tr_state tresult" where
  "propose_withdrawal_cap c e s admin token new_cap =
     rbind (tr_as_admin c e s admin) (\<lambda>_.
     rbind (te_lift (require_non_negative_amount new_cap)) (\<lambda>_.
     tr_log c e admin AA_ProposeWithdrawalCap
       (s\<lparr>tr_cap_proposal := (tr_cap_proposal s)(token \<mapsto> (new_cap, timestamp e))\<rparr>)))"

definition execute_withdrawal_cap :: "treasury_env \<Rightarrow> env \<Rightarrow> tr_state \<Rightarrow> address \<Rightarrow> address \<Rightarrow> tr_state tresult" where
  "execute_withdrawal_cap c e s admin token =
     rbind (tr_as_admin c e s admin) (\<lambda>_.
     rbind (ok_or (tr_cap_proposal s token) (Err TE_NoCapChangeProposed)) (\<lambda>(new_cap, proposed_at).
     rbind (ok_or (u64_add proposed_at UPGRADE_TIMELOCK_DELAY) Trap) (\<lambda>ready.
     if timestamp e < ready then Inl (Err TE_WithdrawalCapTimelockNotElapsed)
     else tr_log c e admin AA_ExecuteWithdrawalCap
            (s\<lparr>tr_cap := (tr_cap s)(token \<mapsto> new_cap), tr_cap_proposal := (tr_cap_proposal s)(token := None)\<rparr>))))"

definition update_token_decimals :: "treasury_env \<Rightarrow> env \<Rightarrow> address \<Rightarrow> address \<Rightarrow> u32 \<Rightarrow> tr_state \<Rightarrow> tr_state kresult" where
  "update_token_decimals c e actor token decimals s =
     (if decimals > MAX_TOKEN_DECIMALS then Inl (Err KE_InvalidParameterValue)
      else tr_log c e actor AA_SetTokenDecimals (s\<lparr>tr_decimals := (tr_decimals s)(token \<mapsto> decimals)\<rparr>))"

definition set_token_decimals :: "treasury_env \<Rightarrow> env \<Rightarrow> tr_state \<Rightarrow> address \<Rightarrow> address \<Rightarrow> u32 \<Rightarrow> tr_state kresult" where
  "set_token_decimals c e s admin token decimals =
     rbind (tr_as_admin_kora e s admin) (\<lambda>_.
     rbind (require_no_quorum_kora c s) (\<lambda>_. update_token_decimals c e admin token decimals s))"

definition tr_propose_admin :: "env \<Rightarrow> tr_state \<Rightarrow> address \<Rightarrow> address \<Rightarrow> tr_state kresult" where
  "tr_propose_admin e s admin new_admin =
     rbind (tr_as_admin_kora e s admin) (\<lambda>_.
     if admin = new_admin then Inl (Err KE_InvalidAddress)
     else
       rbind (kora_lift (require_not_self e new_admin)) (\<lambda>_.
       Inr (s\<lparr>tr_pending_admin := Some new_admin\<rparr>)))"

definition tr_accept_admin :: "env \<Rightarrow> tr_state \<Rightarrow> address \<Rightarrow> tr_state kresult" where
  "tr_accept_admin e s new_admin =
     rbind (require_auth e new_admin) (\<lambda>_.
     rbind (ok_or (tr_pending_admin s) (Err KE_NoPendingAdminProposal)) (\<lambda>pending.
     if pending \<noteq> new_admin then Inl (Err KE_NotPendingAdmin)
     else Inr (s\<lparr>tr_admin := Some new_admin, tr_pending_admin := None\<rparr>)))"

definition tr_cancel_admin_proposal :: "env \<Rightarrow> tr_state \<Rightarrow> address \<Rightarrow> tr_state kresult" where
  "tr_cancel_admin_proposal e s admin =
     rbind (tr_as_admin_kora e s admin) (\<lambda>_.
     if tr_pending_admin s = None then Inl (Err KE_NoPendingAdminProposal)
     else Inr (s\<lparr>tr_pending_admin := None\<rparr>))"

definition do_propose_upgrade :: "treasury_env \<Rightarrow> env \<Rightarrow> address \<Rightarrow> bytes \<Rightarrow> tr_state \<Rightarrow> tr_state kresult" where
  "do_propose_upgrade c e admin wasm_hash s =
     tr_log c e admin AA_TreasuryProposeUpgrade (s\<lparr>tr_upgrade := Some (wasm_hash, timestamp e)\<rparr>)"

definition tr_propose_upgrade :: "treasury_env \<Rightarrow> env \<Rightarrow> tr_state \<Rightarrow> address \<Rightarrow> bytes \<Rightarrow> tr_state tresult" where
  "tr_propose_upgrade c e s admin wasm_hash =
     rbind (tr_as_admin c e s admin) (\<lambda>_. te_lift_kora (do_propose_upgrade c e admin wasm_hash s))"

text \<open>The hash handed to \<open>update_current_contract_wasm\<close> is the second component.\<close>

definition tr_execute_upgrade :: "treasury_env \<Rightarrow> env \<Rightarrow> tr_state \<Rightarrow> address \<Rightarrow> (tr_state \<times> bytes) tresult" where
  "tr_execute_upgrade c e s admin =
     rbind (tr_as_admin c e s admin) (\<lambda>_.
     rbind (ok_or (tr_upgrade s) (Err TE_NoUpgradeProposed)) (\<lambda>(wasm_hash, proposed_at).
     rbind (ok_or (u64_add proposed_at UPGRADE_TIMELOCK_DELAY) Trap) (\<lambda>ready.
     if timestamp e < ready then Inl (Err TE_UpgradeTimelockNotElapsed)
     else
       rbind (tr_log c e admin AA_TreasuryExecuteUpgrade (s\<lparr>tr_upgrade := None\<rparr>)) (\<lambda>s.
       Inr (s, wasm_hash)))))"

definition propose_recipient :: "treasury_env \<Rightarrow> env \<Rightarrow> tr_state \<Rightarrow> address \<Rightarrow> address \<Rightarrow> tr_state kresult" where
  "propose_recipient c e s admin recipient =
     rbind (tr_as_admin_kora e s admin) (\<lambda>_.
     tr_log c e admin AA_ProposeRecipient
       (s\<lparr>tr_recipient_proposal := (tr_recipient_proposal s)(recipient \<mapsto> timestamp e)\<rparr>))"

definition execute_recipient :: "treasury_env \<Rightarrow> env \<Rightarrow> tr_state \<Rightarrow> address \<Rightarrow> address \<Rightarrow> tr_state kresult" where
  "execute_recipient c e s admin recipient =
     rbind (tr_as_admin_kora e s admin) (\<lambda>_.
     rbind (ok_or (tr_recipient_proposal s recipient) (Err KE_NoRecipientProposed)) (\<lambda>proposed_at.
     rbind (ok_or (u64_add proposed_at UPGRADE_TIMELOCK_DELAY) Trap) (\<lambda>ready.
     if timestamp e < ready then Inl (Err KE_RecipientTimelockNotElapsed)
     else tr_log c e admin AA_ExecuteRecipient
            (s\<lparr>tr_recipient_proposal := (tr_recipient_proposal s)(recipient := None),
               tr_recipient := (tr_recipient s)(recipient \<mapsto> True)\<rparr>))))"

definition set_reserve_allocation_bps :: "treasury_env \<Rightarrow> env \<Rightarrow> tr_state \<Rightarrow> address \<Rightarrow> u32 \<Rightarrow> tr_state kresult" where
  "set_reserve_allocation_bps c e s admin bps =
     rbind (tr_as_admin_kora e s admin) (\<lambda>_.
     rbind (kora_lift (require_valid_fee_bps bps)) (\<lambda>_.
     tr_log c e admin AA_SetReserveAllocation (s\<lparr>tr_reserve_bps := Some bps\<rparr>)))"

definition set_reserve_caller :: "treasury_env \<Rightarrow> env \<Rightarrow> tr_state \<Rightarrow> address \<Rightarrow> address \<Rightarrow> bool \<Rightarrow> tr_state kresult" where
  "set_reserve_caller c e s admin caller ok =
     rbind (tr_as_admin_kora e s admin) (\<lambda>_.
     tr_log c e admin AA_SetReserveCaller (s\<lparr>tr_reserve_caller := (tr_reserve_caller s)(caller \<mapsto> ok)\<rparr>))"

definition tr_set_access_control :: "treasury_env \<Rightarrow> env \<Rightarrow> tr_state \<Rightarrow> address \<Rightarrow> address \<Rightarrow> tr_state kresult" where
  "tr_set_access_control c e s admin access_control =
     rbind (tr_as_admin_kora e s admin) (\<lambda>_.
     rbind (kora_lift (require_not_self e access_control)) (\<lambda>_.
     tr_log c e admin AA_SetAccessControl (s\<lparr>tr_access := Some access_control\<rparr>)))"

text \<open>The ratio the parameter registry holds, within its range.\<close>

definition reserve_ratio :: "env \<Rightarrow> address \<Rightarrow> u32 kresult" where
  "reserve_ratio e registry =
     rbind (ok_or (view_registry_param e registry MinReserveRatioBps) (Err KE_InvalidParameterValue)) (\<lambda>parameter.
     if rp_value parameter < 0 \<or> rp_value parameter > 10000 then Inl (Err KE_InvalidParameterValue)
     else Inr (nat (rp_value parameter)))"

definition update_parameter_registry :: "env \<Rightarrow> address \<Rightarrow> tr_state \<Rightarrow> tr_state kresult" where
  "update_parameter_registry e registry s =
     rbind (kora_lift (require_not_self e registry)) (\<lambda>_.
     rbind (reserve_ratio e registry) (\<lambda>_. Inr (s\<lparr>tr_registry := Some registry\<rparr>)))"

definition tr_set_parameter_registry :: "treasury_env \<Rightarrow> env \<Rightarrow> tr_state \<Rightarrow> address \<Rightarrow> address \<Rightarrow> tr_state kresult" where
  "tr_set_parameter_registry c e s admin registry =
     rbind (tr_as_admin_kora e s admin) (\<lambda>_.
     rbind (require_no_quorum_kora c s) (\<lambda>_. update_parameter_registry e registry s))"

section \<open>Fees\<close>

text \<open>The part of a fee that goes to the reserve.\<close>

definition reserve_part :: "tr_state \<Rightarrow> address \<Rightarrow> i128 \<Rightarrow> tr_state tresult" where
  "reserve_part s token amount =
     (let bps = get_reserve_allocation_bps s in
      if \<not> (bps > 0 \<and> bps \<le> 10000) then Inr s
      else
        rbind (ok_or (i128_mul amount (int bps)) (Err TE_ArithmeticOverflow)) (\<lambda>product.
        rbind (ok_or (i128_div product 10000) (Err TE_ArithmeticOverflow)) (\<lambda>reserve_amount.
        if reserve_amount \<le> 0 then Inr s
        else
          rbind (ok_or (i128_add (get_reserve_balance s token) reserve_amount) (Err TE_ArithmeticOverflow)) (\<lambda>new_reserve.
          Inr (s\<lparr>tr_reserve := (tr_reserve s)(token \<mapsto> new_reserve)\<rparr>)))))"

definition collect_fee :: "treasury_env \<Rightarrow> tr_state \<Rightarrow> address \<Rightarrow> i128 \<Rightarrow> tr_state tresult" where
  "collect_fee c s token amount =
     (if amount \<le> 0 then Inl (Err TE_InvalidAmount)
      else
        rbind (tr_require_listed c s token) (\<lambda>_.
        rbind (reserve_part s token amount) (\<lambda>s.
        rbind (ok_or (i128_add (get_collected s token) amount) (Err TE_ArithmeticOverflow)) (\<lambda>new_total.
        Inr (s\<lparr>tr_collected := (tr_collected s)(token \<mapsto> new_total)\<rparr>)))))"

text \<open>The invoice only appears in the event.\<close>

definition collect_fee_with_invoice :: "treasury_env \<Rightarrow> tr_state \<Rightarrow> address \<Rightarrow> i128 \<Rightarrow> u64 \<Rightarrow> tr_state tresult" where
  "collect_fee_with_invoice c s token amount invoice_id = collect_fee c s token amount"

definition refund_fee ::
  "treasury_env \<Rightarrow> env \<Rightarrow> tr_state \<Rightarrow> address \<Rightarrow> address \<Rightarrow> i128 \<Rightarrow> address \<Rightarrow> (tr_state \<times> ext_call list) tresult" where
  "refund_fee c e s caller token amount investor =
     (if amount \<le> 0 then Inl (Err TE_InvalidAmount)
      else
        rbind (ok_or (tr_marketplace s) (Err TE_NotInitialized)) (\<lambda>marketplace.
        if caller \<noteq> marketplace then Inl (Err TE_NotAdmin)
        else
          rbind (tr_require_listed c s token) (\<lambda>_.
          if amount > te_balance c token then Inl (Err TE_InsufficientPoolBalance)
          else
            rbind (ok_or (i128_sub (get_collected s token) amount) (Err TE_ArithmeticOverflow)) (\<lambda>new_collected.
            Inr (s\<lparr>tr_collected := (tr_collected s)(token \<mapsto> new_collected)\<rparr>, [Transfer token (self_addr e) investor amount])))))"

section \<open>Withdrawals\<close>

definition do_withdraw ::
  "treasury_env \<Rightarrow> env \<Rightarrow> address \<Rightarrow> address \<Rightarrow> address \<Rightarrow> i128 \<Rightarrow> tr_state \<Rightarrow> (tr_state \<times> ext_call list) tresult" where
  "do_withdraw c e admin token recipient amount s =
     (if amount \<le> 0 \<or> amount > MAX_AMOUNT then Inl (Err TE_InvalidAmount)
      else
        rbind (tr_require_listed c s token) (\<lambda>_.
        rbind (tr_require_not_paused e s) (\<lambda>_.
        rbind (enforce_rate_limit c e token amount s) (\<lambda>s.
        rbind (tr_require_recipient c s recipient) (\<lambda>_.
        tr_guarded (\<lambda>_. TE_Reentrancy) (\<lambda>s.
          rbind (ok_or (i128_sub (te_balance c token) (get_reserve_balance s token)) (Err TE_ArithmeticOverflow)) (\<lambda>spendable.
          if amount > spendable then Inl (Err TE_InsufficientPoolBalance)
          else
            rbind (ok_or (i128_sub (get_collected s token) amount) (Err TE_ArithmeticOverflow)) (\<lambda>new_collected.
            rbind (record_withdrawal e token amount (s\<lparr>tr_collected := (tr_collected s)(token \<mapsto> new_collected)\<rparr>)) (\<lambda>s.
            rbind (tr_log c e admin AA_Withdraw s) (\<lambda>s.
            Inr (s, [Transfer token (self_addr e) recipient amount])))))) s)))))"

definition withdraw ::
  "treasury_env \<Rightarrow> env \<Rightarrow> tr_state \<Rightarrow> address \<Rightarrow> address \<Rightarrow> address \<Rightarrow> i128 \<Rightarrow> (tr_state \<times> ext_call list) tresult" where
  "withdraw c e s admin token recipient amount =
     rbind (tr_as_admin c e s admin) (\<lambda>_.
     rbind (tr_require_no_quorum c s) (\<lambda>_.
     do_withdraw c e admin token recipient amount s))"

definition disburse_from_reserve ::
  "treasury_env \<Rightarrow> env \<Rightarrow> tr_state \<Rightarrow> address \<Rightarrow> address \<Rightarrow> i128 \<Rightarrow> address \<Rightarrow> (tr_state \<times> ext_call list) kresult" where
  "disburse_from_reserve c e s caller token amount recipient =
     rbind (require_auth e caller) (\<lambda>_.
     if \<not> is_reserve_caller s caller then Inl (Err KE_ReserveCallerNotAuthorized)
     else if amount \<le> 0 then Inl (Err KE_InvalidAmount)
     else
       rbind (kora_lift (require_within_max_amount amount)) (\<lambda>_.
       if amount > get_reserve_balance s token then Inl (Err KE_InsufficientReserveBalance)
       else
         tr_guarded kora_from_common (\<lambda>s.
           rbind (ok_or (i128_sub (get_reserve_balance s token) amount) Trap) (\<lambda>rest.
           rbind (tr_log c e caller AA_DisburseFromReserve (s\<lparr>tr_reserve := (tr_reserve s)(token \<mapsto> rest)\<rparr>)) (\<lambda>s.
           Inr (s, [Transfer token (self_addr e) recipient amount])))) s))"

section \<open>Grants\<close>

fun requested_sum :: "i128 \<Rightarrow> i128 list \<Rightarrow> i128 tresult" where
  "requested_sum requested [] = Inr requested"
| "requested_sum requested (amount # rest) =
     (if amount \<le> 0 then Inl (Err TE_InvalidGrant)
      else rbind (ok_or (i128_add requested amount) (Err TE_ArithmeticOverflow)) (\<lambda>t. requested_sum t rest))"

definition submit_grant_proposal ::
  "treasury_env \<Rightarrow> env \<Rightarrow> tr_state \<Rightarrow> address \<Rightarrow> address \<Rightarrow> address \<Rightarrow> string \<Rightarrow> i128 list \<Rightarrow> (tr_state \<times> u64) tresult" where
  "submit_grant_proposal c e s proposer recipient token scope milestones =
     rbind (require_auth e proposer) (\<lambda>_.
     if length scope = 0 \<or> length scope > 512 \<or> length milestones = 0 \<or> length milestones > MAX_GRANT_MILESTONES
     then Inl (Err TE_InvalidGrant)
     else
       rbind (tr_require_listed c s token) (\<lambda>_.
       rbind (requested_sum 0 milestones) (\<lambda>requested.
       let n = or_else (tr_next_grant s) 1;
           grant = \<lparr>gr_id = n, gr_proposer = proposer, gr_recipient = recipient, gr_token = token, gr_scope = scope,
             gr_milestones = milestones, gr_next_milestone = 0, gr_remaining = requested, gr_reviewed = False, gr_closed = False,
             gr_submitted_at = timestamp e, gr_last_activity_at = timestamp e\<rparr> in
       rbind (ok_or (u64_add n 1) (Err TE_ArithmeticOverflow)) (\<lambda>next_n.
       Inr (s\<lparr>tr_grant := (tr_grant s)(n \<mapsto> grant), tr_next_grant := Some next_n\<rparr>, n)))))"

definition submit_grant_milestone_proof :: "env \<Rightarrow> tr_state \<Rightarrow> address \<Rightarrow> u64 \<Rightarrow> bytes \<Rightarrow> tr_state kresult" where
  "submit_grant_milestone_proof e s recipient n proof_hash =
     rbind (require_auth e recipient) (\<lambda>_.
     rbind (ok_or (tr_grant s n) (Err KE_ProposalNotFound)) (\<lambda>g.
     if gr_recipient g \<noteq> recipient \<or> \<not> gr_reviewed g \<or> gr_closed g \<or> gr_next_milestone g \<ge> length (gr_milestones g)
     then Inl (Err KE_Unauthorized)
     else if tr_proof s n (gr_next_milestone g) \<noteq> None then Inl (Err KE_Unauthorized)
     else Inr (s\<lparr>tr_proof := (tr_proof s)(n := (tr_proof s n)(gr_next_milestone g \<mapsto> proof_hash)),
                 tr_grant := (tr_grant s)(n \<mapsto> g\<lparr>gr_last_activity_at := timestamp e\<rparr>)\<rparr>)))"

definition review_grant :: "env \<Rightarrow> u64 \<Rightarrow> tr_state \<Rightarrow> tr_state kresult" where
  "review_grant e n s =
     rbind (ok_or (tr_grant s n) (Err KE_ProposalNotFound)) (\<lambda>g.
     if gr_closed g \<or> gr_reviewed g then Inl (Err KE_Unauthorized)
     else Inr (s\<lparr>tr_grant := (tr_grant s)(n \<mapsto> g\<lparr>gr_reviewed := True, gr_last_activity_at := timestamp e\<rparr>)\<rparr>))"

definition check_grant_reserve :: "i128 \<Rightarrow> i128 \<Rightarrow> i128 \<Rightarrow> u32 \<Rightarrow> unit kresult" where
  "check_grant_reserve balance earmarked_reserve amount min_ratio_bps =
     (if i128_sat_sub balance earmarked_reserve < amount then Inl (Err KE_InsufficientPoolBalance)
      else
        rbind (ok_or (i128_mul balance (int min_ratio_bps)) (Err KE_ArithmeticOverflow)) (\<lambda>ratio_product.
        rbind (ok_or (i128_add ratio_product 9999) (Err KE_ArithmeticOverflow)) (\<lambda>rounded.
        rbind (ok_or (i128_div rounded 10000) (Err KE_ArithmeticOverflow)) (\<lambda>minimum_remaining.
        rbind (ok_or (i128_sub balance amount) (Err KE_ArithmeticUnderflow)) (\<lambda>remaining.
        if remaining < minimum_remaining then Inl (Err KE_InsufficientReserveBalance) else Inr ())))))"

definition release_grant_milestone :: "treasury_env \<Rightarrow> env \<Rightarrow> u64 \<Rightarrow> tr_state \<Rightarrow> (tr_state \<times> ext_call list) kresult" where
  "release_grant_milestone c e n s0 =
     tr_guarded kora_from_common (\<lambda>s.
       rbind (ok_or (tr_grant s n) (Err KE_ProposalNotFound)) (\<lambda>g.
       if gr_closed g then Inl (Err KE_Unauthorized)
       else if \<not> gr_reviewed g then Inl (Err KE_Unauthorized)
       else if tr_proof s n (gr_next_milestone g) = None then Inl (Err KE_Unauthorized)
       else if gr_next_milestone g \<ge> length (gr_milestones g) then Inl (Err KE_ProposalNotFound)
       else
         let amount = gr_milestones g ! gr_next_milestone g in
         rbind (ok_or (tr_registry s) (Err KE_NotInitialized)) (\<lambda>registry.
         rbind (reserve_ratio e registry) (\<lambda>ratio.
         rbind (check_grant_reserve (te_balance c (gr_token g)) (get_reserve_balance s (gr_token g)) amount ratio) (\<lambda>_.
         rbind (ok_or (i128_sub (gr_remaining g) amount) (Err KE_ArithmeticUnderflow)) (\<lambda>remaining.
         rbind (ok_or (u32_add (gr_next_milestone g) 1) (Err KE_ArithmeticOverflow)) (\<lambda>nxt.
         let g' = g\<lparr>gr_remaining := remaining, gr_next_milestone := nxt, gr_last_activity_at := timestamp e,
                    gr_closed := gr_closed g \<or> nxt \<ge> length (gr_milestones g)\<rparr> in
         Inr (s\<lparr>tr_grant := (tr_grant s)(n \<mapsto> g')\<rparr>, [Transfer (gr_token g) (self_addr e) (gr_recipient g) amount]))))))))  s0"

definition reclaim_grant :: "env \<Rightarrow> u64 \<Rightarrow> tr_state \<Rightarrow> tr_state kresult" where
  "reclaim_grant e n s =
     rbind (ok_or (tr_grant s n) (Err KE_ProposalNotFound)) (\<lambda>g.
     if gr_closed g \<or> \<not> gr_reviewed g \<or> gr_remaining g \<le> 0
        \<or> timestamp e < u64_sat_add (gr_last_activity_at g) GRANT_RECLAIM_DELAY
     then Inl (Err KE_Unauthorized)
     else Inr (s\<lparr>tr_grant := (tr_grant s)(n \<mapsto> g\<lparr>gr_closed := True, gr_remaining := 0\<rparr>)\<rparr>))"

section \<open>Actions of the signers\<close>

definition as_treasury_signer :: "treasury_env \<Rightarrow> env \<Rightarrow> tr_state \<Rightarrow> address \<Rightarrow> MultisigConfig kresult" where
  "as_treasury_signer c e s caller =
     rbind (require_auth e caller) (\<lambda>_.
     rbind (load_signer_config c s) (\<lambda>config.
     rbind (tr_require_signer config caller) (\<lambda>_. Inr config)))"

definition propose_treasury_action ::
  "treasury_env \<Rightarrow> env \<Rightarrow> tr_state \<Rightarrow> address \<Rightarrow> TreasuryAction \<Rightarrow> (tr_state \<times> u64) kresult" where
  "propose_treasury_action c e s proposer action =
     rbind (as_treasury_signer c e s proposer) (\<lambda>_.
     let n = or_else (tr_next_action s) 1 in
     rbind (ok_or (u64_add (timestamp e) TREASURY_PROPOSAL_TTL) Trap) (\<lambda>expiry.
     let p = \<lparr>tp_id = n, tp_action = action, tp_proposer = proposer, tp_approvals = [proposer], tp_executed = False,
              tp_created_at = timestamp e, tp_expires_at = expiry\<rparr> in
     rbind (ok_or (u64_add n 1) (Err KE_ArithmeticOverflow)) (\<lambda>next_n.
     rbind (tr_log c e proposer AA_ProposeTreasuryAction
       (s\<lparr>tr_action := (tr_action s)(n \<mapsto> p), tr_action_delay := (tr_action_delay s)(n \<mapsto> get_delay (tr_timelock s)),
          tr_next_action := Some next_n\<rparr>)) (\<lambda>s.
     Inr (s, n)))))"

text \<open>A proposal on which its signers can still act.\<close>

definition open_action :: "env \<Rightarrow> tr_state \<Rightarrow> u64 \<Rightarrow> TreasuryProposal kresult" where
  "open_action e s n =
     rbind (ok_or (tr_action s n) (Err KE_ProposalNotFound)) (\<lambda>p.
     if tp_executed p then Inl (Err KE_ProposalAlreadyExecuted)
     else if timestamp e > tp_expires_at p then Inl (Err KE_ProposalExpired)
     else Inr p)"

definition approve_treasury_action :: "treasury_env \<Rightarrow> env \<Rightarrow> tr_state \<Rightarrow> address \<Rightarrow> u64 \<Rightarrow> tr_state kresult" where
  "approve_treasury_action c e s approver n =
     rbind (as_treasury_signer c e s approver) (\<lambda>_.
     rbind (open_action e s n) (\<lambda>p.
     if approver \<in> set (tp_approvals p) then Inl (Err KE_AlreadyApproved)
     else tr_log c e approver AA_ApproveTreasuryAction
            (s\<lparr>tr_action := (tr_action s)(n \<mapsto> p\<lparr>tp_approvals := tp_approvals p @ [approver]\<rparr>)\<rparr>)))"

definition no_calls :: "tr_state kresult \<Rightarrow> (tr_state \<times> ext_call list) kresult" where
  "no_calls m = rbind m (\<lambda>s. Inr (s, []))"

definition run_treasury_action ::
  "treasury_env \<Rightarrow> env \<Rightarrow> address \<Rightarrow> TreasuryAction \<Rightarrow> tr_state \<Rightarrow> (tr_state \<times> ext_call list) kresult" where
  "run_treasury_action c e executor action s =
     (case action of
        TA_Withdraw token recipient amount \<Rightarrow> map_err (te_to_kora c) (do_withdraw c e executor token recipient amount s)
      | TA_EmergencyWithdraw token recipient \<Rightarrow> te_emergency c executor token recipient s
      | TA_SetFeeBps fee_bps \<Rightarrow> no_calls (do_set_fee_bps c e executor fee_bps s)
      | TA_ProposeUpgrade wasm_hash \<Rightarrow> no_calls (do_propose_upgrade c e executor wasm_hash s)
      | TA_ReviewGrant n \<Rightarrow> no_calls (review_grant e n s)
      | TA_ReleaseGrantMilestone n \<Rightarrow> release_grant_milestone c e n s
      | TA_ReclaimGrant n \<Rightarrow> no_calls (reclaim_grant e n s)
      | TA_SetTimelockDelay delay \<Rightarrow>
          if delay < UPGRADE_TIMELOCK_DELAY then Inl (Err KE_InvalidParameterValue)
          else Inr (s\<lparr>tr_timelock := set_delay (tr_timelock s) delay\<rparr>, [])
      | TA_SetParameterRegistry registry \<Rightarrow> no_calls (update_parameter_registry e registry s)
      | TA_SetTokenDecimals token decimals \<Rightarrow> no_calls (update_token_decimals c e executor token decimals s))"

definition execute_treasury_action ::
  "treasury_env \<Rightarrow> env \<Rightarrow> tr_state \<Rightarrow> address \<Rightarrow> u64 \<Rightarrow> (tr_state \<times> ext_call list) kresult" where
  "execute_treasury_action c e s executor n =
     rbind (as_treasury_signer c e s executor) (\<lambda>config.
     rbind (open_action e s n) (\<lambda>p.
     if length (tp_approvals p) < ms_threshold config then Inl (Err KE_ThresholdNotMet)
     else
       let current = get_delay (tr_timelock s); required = max (or_else (tr_action_delay s n) current) current in
       rbind (ok_or (u64_add (tp_created_at p) required) (Err KE_ArithmeticOverflow)) (\<lambda>ready.
       if timestamp e < ready then Inl (Err KE_GovernanceTimelockNotElapsed)
       else
         rbind (run_treasury_action c e executor (tp_action p)
           (s\<lparr>tr_action := (tr_action s)(n \<mapsto> p\<lparr>tp_executed := True\<rparr>)\<rparr>)) (\<lambda>(s, calls).
         rbind (tr_log c e executor AA_ExecuteTreasuryAction s) (\<lambda>s. Inr (s, calls))))))"

section \<open>Distribution and sweep\<close>

definition propose_distribution :: "treasury_env \<Rightarrow> env \<Rightarrow> tr_state \<Rightarrow> address \<Rightarrow> address list \<Rightarrow> u32 \<Rightarrow> tr_state tresult" where
  "propose_distribution c e s admin stakeholders bps =
     rbind (tr_as_admin c e s admin) (\<lambda>_.
     if stakeholders = [] then Inl (Err TE_InvalidDistributionConfig)
     else
       rbind (te_lift (require_valid_fee_bps bps)) (\<lambda>_.
       rbind (ok_or (u64_add (timestamp e) TREASURY_PROPOSAL_TTL) Trap) (\<lambda>expiry.
       rbind (ok_or (u64_add (or_else (tr_dist_epoch s) 0) 1) Trap) (\<lambda>epoch.
       Inr (s\<lparr>tr_dist_proposal := Some \<lparr>dp_epoch = epoch, dp_stakeholders = stakeholders, dp_bps = bps,
              dp_proposed_at = timestamp e, dp_expires_at = expiry\<rparr>\<rparr>)))))"

definition execute_distribution :: "treasury_env \<Rightarrow> env \<Rightarrow> tr_state \<Rightarrow> address \<Rightarrow> tr_state tresult" where
  "execute_distribution c e s admin =
     rbind (tr_as_admin c e s admin) (\<lambda>_.
     rbind (ok_or (tr_dist_proposal s) (Err TE_DistributionProposalNotFound)) (\<lambda>p.
     if timestamp e > dp_expires_at p then Inl (Err TE_DistributionProposalNotFound)
     else Inr (s\<lparr>tr_dist_config := (tr_dist_config s)(dp_epoch p \<mapsto>
              \<lparr>dc_epoch = dp_epoch p, dc_stakeholders = dp_stakeholders p, dc_created_at = timestamp e, dc_bps = dp_bps p\<rparr>),
            tr_dist_epoch := Some (dp_epoch p), tr_dist_proposal := None\<rparr>)))"

definition claim_share ::
  "treasury_env \<Rightarrow> env \<Rightarrow> tr_state \<Rightarrow> address \<Rightarrow> address \<Rightarrow> (tr_state \<times> ext_call list \<times> i128) tresult" where
  "claim_share c e s stakeholder token =
     rbind (require_auth e stakeholder) (\<lambda>_.
     let epoch = or_else (tr_dist_epoch s) 0 in
     rbind (ok_or (tr_dist_config s epoch) (Err TE_NotEligibleStakeholder)) (\<lambda>config.
     if stakeholder \<notin> set (dc_stakeholders config) then Inl (Err TE_NotEligibleStakeholder)
     else if tr_claim s stakeholder epoch token \<noteq> None then Inl (Err TE_NoShareAvailable)
     else
       let pool = or_else (tr_dist_pool s token) 0 in
       rbind (if pool = 0 then te_bps_of c (get_collected s token) (dc_bps config) else Inr pool) (\<lambda>available.
       if available \<le> 0 then Inl (Err TE_NoShareAvailable)
       else
         rbind (ok_or (i128_div available (int (length (dc_stakeholders config)))) Trap) (\<lambda>share.
         if share \<le> 0 then Inl (Err TE_NoShareAvailable)
         else Inr (s\<lparr>tr_claim := (tr_claim s)(stakeholder := (tr_claim s stakeholder)(epoch := (tr_claim s stakeholder epoch)(token \<mapsto> share)))\<rparr>,
                [Transfer token (self_addr e) stakeholder share], share)))))"

fun split_total :: "env \<Rightarrow> (address \<times> u32) list \<Rightarrow> u32 \<Rightarrow> u32 tresult" where
  "split_total e [] t = Inr t"
| "split_total e ((dest, bps) # rest) t =
     rbind (te_lift (require_not_self e dest)) (\<lambda>_.
     rbind (ok_or (u32_add t bps) (Err TE_ArithmeticOverflow)) (\<lambda>t. split_total e rest t))"

definition configure_sweep_splits ::
  "treasury_env \<Rightarrow> env \<Rightarrow> tr_state \<Rightarrow> address \<Rightarrow> (address \<times> u32) list \<Rightarrow> address \<Rightarrow> tr_state tresult" where
  "configure_sweep_splits c e s admin splits primary =
     rbind (tr_as_admin c e s admin) (\<lambda>_.
     if splits = [] then Inl (Err TE_InvalidSweepSplits)
     else
       rbind (split_total e splits 0) (\<lambda>total_bps.
       if total_bps \<noteq> 10000 \<or> primary \<notin> fst ` set splits then Inl (Err TE_InvalidSweepSplits)
       else Inr (s\<lparr>tr_splits := Some splits, tr_primary := Some primary\<rparr>)))"

fun pay_splits ::
  "treasury_env \<Rightarrow> env \<Rightarrow> address \<Rightarrow> i128 \<Rightarrow> (address \<times> u32) list \<Rightarrow> i128 \<Rightarrow> (ext_call list \<times> i128) tresult" where
  "pay_splits c e token distributable [] paid = Inr ([], paid)"
| "pay_splits c e token distributable ((dest, bps) # rest) paid =
     rbind (te_bps_of c distributable bps) (\<lambda>share.
     if share > 0 then
       rbind (ok_or (i128_add paid share) (Err TE_ArithmeticOverflow)) (\<lambda>paid.
       rbind (pay_splits c e token distributable rest paid) (\<lambda>(calls, paid).
       Inr (Transfer token (self_addr e) dest share # calls, paid)))
     else pay_splits c e token distributable rest paid)"

definition sweep :: "treasury_env \<Rightarrow> env \<Rightarrow> tr_state \<Rightarrow> address \<Rightarrow> (tr_state \<times> ext_call list) tresult" where
  "sweep c e s0 token =
     rbind (tr_require_listed c s0 token) (\<lambda>_.
     rbind (ok_or (tr_splits s0) (Err TE_SweepSplitsNotConfigured)) (\<lambda>splits.
     rbind (ok_or (tr_primary s0) (Err TE_SweepSplitsNotConfigured)) (\<lambda>primary.
     let distributable = min (i128_sat_sub (te_balance c token) (get_reserve_balance s0 token)) (get_collected s0 token) in
     if distributable \<le> 0 then Inr (s0, [])
     else
       tr_guarded te_from_common (\<lambda>s.
         rbind (pay_splits c e token distributable splits 0) (\<lambda>(calls, paid).
         let dust = i128_sat_sub distributable paid in
         rbind (if dust > 0 then
                  rbind (ok_or (i128_add paid dust) (Err TE_ArithmeticOverflow)) (\<lambda>t.
                  Inr (calls @ [Transfer token (self_addr e) primary dust], t))
                else Inr (calls, paid)) (\<lambda>(calls, paid).
         Inr (s\<lparr>tr_collected := (tr_collected s)(token \<mapsto> i128_sat_sub (get_collected s token) paid)\<rparr>, calls)))) s0)))"

section \<open>Reports\<close>

fun set_token_balance :: "TokenBalance \<Rightarrow> TokenBalance list \<Rightarrow> TokenBalance list" where
  "set_token_balance b [] = [b]"
| "set_token_balance b (x # xs) = (if tb_token x = tb_token b then b # xs else x # set_token_balance b xs)"

fun report_balances :: "treasury_env \<Rightarrow> tr_state \<Rightarrow> address list \<Rightarrow> TokenBalance list \<Rightarrow> TokenBalance list tresult" where
  "report_balances c s [] bs = Inr bs"
| "report_balances c s (token # rest) bs =
     rbind (ok_or (tr_decimals s token) (Err TE_TokenDecimalsNotRegistered)) (\<lambda>decimals.
     rbind (ok_or (i128_sub (get_collected s token) (te_balance c token)) Trap) (\<lambda>gap.
     report_balances c s rest
       (set_token_balance \<lparr>tb_token = token, tb_decimals = decimals, tb_inflows = get_collected s token,
          tb_outflows = max gap 0, tb_ending_balance = te_balance c token\<rparr> bs)))"

definition generate_transparency_report ::
  "treasury_env \<Rightarrow> env \<Rightarrow> tr_state \<Rightarrow> address \<Rightarrow> u64 \<Rightarrow> address list \<Rightarrow> (tr_state \<times> TreasuryReport) tresult" where
  "generate_transparency_report c e s admin epoch tokens =
     rbind (tr_as_admin c e s admin) (\<lambda>_.
     rbind (report_balances c s tokens []) (\<lambda>bs.
     let r = \<lparr>rep_epoch = epoch, rep_balances = bs, rep_generated_at = timestamp e, rep_effective_fee_bps = 50\<rparr> in
     Inr (s\<lparr>tr_report := (tr_report s)(epoch \<mapsto> r), tr_last_report := Some epoch\<rparr>, r)))"

fun collected_value ::
  "treasury_env \<Rightarrow> tr_state \<Rightarrow> address \<Rightarrow> symbol \<Rightarrow> u32 \<Rightarrow> (address \<times> symbol) list \<Rightarrow> i128 \<Rightarrow> i128 tresult" where
  "collected_value c s feed currency decimals_out [] acc = Inr acc"
| "collected_value c s feed currency decimals_out ((token, ticker) # rest) acc =
     (if get_collected s token = 0 then collected_value c s feed currency decimals_out rest acc
      else
        rbind (ok_or (tr_decimals s token) (Err TE_TokenDecimalsNotRegistered)) (\<lambda>decimals.
        let converted = or_else (te_convert c feed (get_collected s token) ticker currency decimals decimals_out) 0 in
        collected_value c s feed currency decimals_out rest (or_else (i128_add acc converted) i128_max)))"

definition get_total_collected_value ::
  "treasury_env \<Rightarrow> tr_state \<Rightarrow> address list \<Rightarrow> symbol list \<Rightarrow> symbol \<Rightarrow> u32 \<Rightarrow> i128 tresult" where
  "get_total_collected_value c s tokens symbols currency decimals_out =
     (if length tokens \<noteq> length symbols then Inl (Err TE_InvalidAmount)
      else case tr_oracle s of
        None \<Rightarrow> Inr 0
      | Some feed \<Rightarrow> collected_value c s feed currency decimals_out (zip tokens symbols) 0)"

end
