(* ===== verification/Treasury_Runs.thy ===== *)
theory Treasury_Runs
  imports Treasury
begin

text \<open>
  The treasury over its runs: the calls of the contract as a datatype, what each group of storage
  keys is written by, and the invariants of grants, of the signers' actions and of the sweep.
\<close>

section \<open>Calls and runs\<close>

datatype (plugins only: code) tr_op =
    Tr_set_fee_bps address u32
  | Tr_set_price_oracle address address
  | Tr_whitelist_token address address
  | Tr_set_marketplace address address
  | Tr_declare_emergency address
  | Tr_revoke_emergency address
  | Tr_propose_cap address address i128
  | Tr_execute_cap address address
  | Tr_set_decimals address address u32
  | Tr_propose_admin address address
  | Tr_accept_admin address
  | Tr_cancel_admin address
  | Tr_propose_upgrade address bytes
  | Tr_execute_upgrade address
  | Tr_propose_recipient address address
  | Tr_execute_recipient address address
  | Tr_set_reserve_bps address u32
  | Tr_set_reserve_caller address address bool
  | Tr_set_access address address
  | Tr_set_registry address address
  | Tr_collect_fee address i128
  | Tr_collect_with_invoice address i128 u64
  | Tr_refund address address i128 address
  | Tr_withdraw address address address i128
  | Tr_disburse address address i128 address
  | Tr_submit_grant address address address string "i128 list"
  | Tr_submit_proof address u64 bytes
  | Tr_propose_action address TreasuryAction
  | Tr_approve_action address u64
  | Tr_execute_action address u64
  | Tr_propose_distribution address "address list" u32
  | Tr_execute_distribution address
  | Tr_claim_share address address
  | Tr_configure_sweep address "(address \<times> u32) list" address
  | Tr_sweep address
  | Tr_report address u64 "address list"

text \<open>The two error types are forgotten: a call either fails or yields a state and the calls it makes.\<close>

definition outcome :: "('s \<Rightarrow> 't) \<Rightarrow> ('e, 's) result \<Rightarrow> 't option" where
  "outcome g m = (case m of Inl _ \<Rightarrow> None | Inr x \<Rightarrow> Some (g x))"

lemma outcome_Some [simp]: "outcome g m = Some y \<longleftrightarrow> (\<exists>x. m = Inr x \<and> y = g x)"
  by (auto simp: outcome_def split: sum.splits)

fun tr_exec :: "treasury_env \<Rightarrow> env \<Rightarrow> tr_op \<Rightarrow> tr_state \<Rightarrow> (tr_state \<times> ext_call list) option" where
  "tr_exec c e (Tr_set_fee_bps a n) s = outcome (\<lambda>s. (s, [])) (tr_set_fee_bps c e s a n)"
| "tr_exec c e (Tr_set_price_oracle a p) s = outcome (\<lambda>s. (s, [])) (set_price_oracle c e s a p)"
| "tr_exec c e (Tr_whitelist_token a t) s = outcome (\<lambda>s. (s, [])) (whitelist_token c e s a t)"
| "tr_exec c e (Tr_set_marketplace a m) s = outcome (\<lambda>s. (s, [])) (tr_set_marketplace e s a m)"
| "tr_exec c e (Tr_declare_emergency a) s = outcome (\<lambda>s. (s, [])) (declare_emergency c e s a)"
| "tr_exec c e (Tr_revoke_emergency a) s = outcome (\<lambda>s. (s, [])) (revoke_emergency c e s a)"
| "tr_exec c e (Tr_propose_cap a t n) s = outcome (\<lambda>s. (s, [])) (propose_withdrawal_cap c e s a t n)"
| "tr_exec c e (Tr_execute_cap a t) s = outcome (\<lambda>s. (s, [])) (execute_withdrawal_cap c e s a t)"
| "tr_exec c e (Tr_set_decimals a t n) s = outcome (\<lambda>s. (s, [])) (set_token_decimals c e s a t n)"
| "tr_exec c e (Tr_propose_admin a b) s = outcome (\<lambda>s. (s, [])) (tr_propose_admin e s a b)"
| "tr_exec c e (Tr_accept_admin a) s = outcome (\<lambda>s. (s, [])) (tr_accept_admin e s a)"
| "tr_exec c e (Tr_cancel_admin a) s = outcome (\<lambda>s. (s, [])) (tr_cancel_admin_proposal e s a)"
| "tr_exec c e (Tr_propose_upgrade a h) s = outcome (\<lambda>s. (s, [])) (tr_propose_upgrade c e s a h)"
| "tr_exec c e (Tr_execute_upgrade a) s = outcome (\<lambda>(s, _). (s, [])) (tr_execute_upgrade c e s a)"
| "tr_exec c e (Tr_propose_recipient a r) s = outcome (\<lambda>s. (s, [])) (propose_recipient c e s a r)"
| "tr_exec c e (Tr_execute_recipient a r) s = outcome (\<lambda>s. (s, [])) (execute_recipient c e s a r)"
| "tr_exec c e (Tr_set_reserve_bps a n) s = outcome (\<lambda>s. (s, [])) (set_reserve_allocation_bps c e s a n)"
| "tr_exec c e (Tr_set_reserve_caller a r b) s = outcome (\<lambda>s. (s, [])) (set_reserve_caller c e s a r b)"
| "tr_exec c e (Tr_set_access a ac) s = outcome (\<lambda>s. (s, [])) (tr_set_access_control c e s a ac)"
| "tr_exec c e (Tr_set_registry a r) s = outcome (\<lambda>s. (s, [])) (tr_set_parameter_registry c e s a r)"
| "tr_exec c e (Tr_collect_fee t n) s = outcome (\<lambda>s. (s, [])) (collect_fee c s t n)"
| "tr_exec c e (Tr_collect_with_invoice t n i) s = outcome (\<lambda>s. (s, [])) (collect_fee_with_invoice c s t n i)"
| "tr_exec c e (Tr_refund a t n i) s = outcome (\<lambda>x. x) (refund_fee c e s a t n i)"
| "tr_exec c e (Tr_withdraw a t r n) s = outcome (\<lambda>x. x) (withdraw c e s a t r n)"
| "tr_exec c e (Tr_disburse a t n r) s = outcome (\<lambda>x. x) (disburse_from_reserve c e s a t n r)"
| "tr_exec c e (Tr_submit_grant a r t x ms) s = outcome (\<lambda>(s, _). (s, [])) (submit_grant_proposal c e s a r t x ms)"
| "tr_exec c e (Tr_submit_proof a n h) s = outcome (\<lambda>s. (s, [])) (submit_grant_milestone_proof e s a n h)"
| "tr_exec c e (Tr_propose_action a x) s = outcome (\<lambda>(s, _). (s, [])) (propose_treasury_action c e s a x)"
| "tr_exec c e (Tr_approve_action a n) s = outcome (\<lambda>s. (s, [])) (approve_treasury_action c e s a n)"
| "tr_exec c e (Tr_execute_action a n) s = outcome (\<lambda>x. x) (execute_treasury_action c e s a n)"
| "tr_exec c e (Tr_propose_distribution a xs n) s = outcome (\<lambda>s. (s, [])) (propose_distribution c e s a xs n)"
| "tr_exec c e (Tr_execute_distribution a) s = outcome (\<lambda>s. (s, [])) (execute_distribution c e s a)"
| "tr_exec c e (Tr_claim_share a t) s = outcome (\<lambda>(s, cs, _). (s, cs)) (claim_share c e s a t)"
| "tr_exec c e (Tr_configure_sweep a xs p) s = outcome (\<lambda>s. (s, [])) (configure_sweep_splits c e s a xs p)"
| "tr_exec c e (Tr_sweep t) s = outcome (\<lambda>x. x) (sweep c e s t)"
| "tr_exec c e (Tr_report a n ts) s = outcome (\<lambda>(s, _). (s, [])) (generate_transparency_report c e s a n ts)"

text \<open>
  In a run the answers of the other contracts change from call to call; \<open>K\<close> says what is assumed of
  them throughout, which is where the missing emergency withdrawal comes in.
\<close>

inductive tr_runs :: "(treasury_env \<Rightarrow> bool) \<Rightarrow> tr_state \<Rightarrow> tr_state \<Rightarrow> bool" for K where
  tr_none: "tr_runs K s s"
| tr_step: "tr_runs K s s1 \<Longrightarrow> K c \<Longrightarrow> tr_exec c e x s1 = Some (s2, calls) \<Longrightarrow> tr_runs K s s2"

definition tr_reachable :: "(treasury_env \<Rightarrow> bool) \<Rightarrow> tr_state \<Rightarrow> bool" where
  "tr_reachable K s \<longleftrightarrow> (\<exists>c e a n s0. tr_initialize c e tr_empty a n = Inr s0 \<and> tr_runs K s0 s)"

text \<open>The grants, the signers' actions and the splits are the same in two states.  The emergency
  withdrawal is taken to leave them alone: it pays out and may book that.\<close>

definition same_books :: "tr_state \<Rightarrow> tr_state \<Rightarrow> bool" where
  "same_books s s' \<longleftrightarrow> tr_grant s' = tr_grant s \<and> tr_next_grant s' = tr_next_grant s \<and>
     tr_action s' = tr_action s \<and> tr_next_action s' = tr_next_action s \<and> tr_splits s' = tr_splits s"

definition emergency_pays :: "treasury_env \<Rightarrow> bool" where
  "emergency_pays c \<longleftrightarrow> (\<forall>x t r s s' calls. te_emergency c x t r s = Inr (s', calls) \<longrightarrow> same_books s s')"

lemma tr_runs_invariant:
  assumes "tr_runs K s s'" "I s" "\<And>c e x u u' calls. K c \<Longrightarrow> I u \<Longrightarrow> tr_exec c e x u = Some (u', calls) \<Longrightarrow> I u'"
  shows "I s'"
  using assms(1,2) by (induction rule: tr_runs.induct) (use assms(3) in blast)+

lemma tr_reachable_invariant:
  assumes "tr_reachable K s" "\<And>c e a n s0. tr_initialize c e tr_empty a n = Inr s0 \<Longrightarrow> I s0"
    and "\<And>c e x u u' calls. K c \<Longrightarrow> I u \<Longrightarrow> tr_exec c e x u = Some (u', calls) \<Longrightarrow> I u'"
  shows "I s"
  using assms(1) tr_runs_invariant[where K = K and I = I] assms(2,3) unfolding tr_reachable_def by blast

section \<open>What the calls write\<close>

named_theorems tr_defs
lemmas [tr_defs] = tr_initialize_def do_set_fee_bps_def tr_set_fee_bps_def set_price_oracle_def whitelist_token_def
  tr_set_marketplace_def declare_emergency_def revoke_emergency_def propose_withdrawal_cap_def execute_withdrawal_cap_def
  update_token_decimals_def set_token_decimals_def tr_propose_admin_def tr_accept_admin_def tr_cancel_admin_proposal_def
  do_propose_upgrade_def tr_propose_upgrade_def tr_execute_upgrade_def propose_recipient_def execute_recipient_def
  set_reserve_allocation_bps_def set_reserve_caller_def tr_set_access_control_def update_parameter_registry_def
  tr_set_parameter_registry_def collect_fee_with_invoice_def refund_fee_def withdraw_def propose_distribution_def
  execute_distribution_def claim_share_def configure_sweep_splits_def generate_transparency_report_def

text \<open>What the parts of the calls do to the state.\<close>

lemma set_epoch_same [simp]:
  "tr_grant (set_epoch t a b s) = tr_grant s" "tr_next_grant (set_epoch t a b s) = tr_next_grant s"
  "tr_action (set_epoch t a b s) = tr_action s" "tr_next_action (set_epoch t a b s) = tr_next_action s"
  "tr_splits (set_epoch t a b s) = tr_splits s" "tr_reserve (set_epoch t a b s) = tr_reserve s"
  "tr_collected (set_epoch t a b s) = tr_collected s" "tr_recipient (set_epoch t a b s) = tr_recipient s"
  "tr_lock (set_epoch t a b s) = tr_lock s" "tr_cap (set_epoch t a b s) = tr_cap s"
  "tr_epoch_start (set_epoch t a b s) = (tr_epoch_start s)(t \<mapsto> a)"
  "tr_epoch_withdrawn (set_epoch t a b s) = (tr_epoch_withdrawn s)(t \<mapsto> b)"
  by (simp_all add: set_epoch_def)

lemma pick_Inr:
  "pick c k l = Inr x \<longleftrightarrow> (te_rev c = Kora_Helpers \<and> k = Inr x) \<or> (te_rev c = Local_Helpers \<and> l = Inr x)"
  by (cases "te_rev c") (auto simp: pick_def)

lemma tr_guards_Inr [simp]:
  "tr_as_admin_kora e s a = Inr u \<longleftrightarrow> authorised e a \<and> tr_admin s = Some a"
  "tr_as_admin c e s a = Inr u \<longleftrightarrow> authorised e a \<and> tr_admin s = Some a"
  "tr_require_listed c s t = Inr u \<longleftrightarrow> tr_token_listed s t"
  "tr_require_recipient c s a = Inr u \<longleftrightarrow> is_recipient_allowed s a"
  by (cases "te_rev c", auto simp: pick_Inr tr_as_admin_kora_def tr_as_admin_def tr_require_listed_def tr_require_recipient_def
      require_admin_kora_def require_admin_local_def require_whitelisted_token_kora_def require_whitelisted_token_local_def
      require_allowed_recipient_kora_def require_allowed_recipient_local_def)+

lemma tr_guarded_Inr [simp]:
  "tr_guarded from body s = Inr (s', r) \<longleftrightarrow>
     \<not> tr_lock s \<and> (\<exists>s2. body (s\<lparr>tr_lock := True\<rparr>) = Inr (s2, r) \<and> s' = s2\<lparr>tr_lock := False\<rparr>)"
  unfolding tr_guarded_def by (simp add: tr_locked.guard_Inr_iff)

lemma reserve_part_Inr:
  assumes "reserve_part s t n = Inr s'"
  obtains r where "s' = s\<lparr>tr_reserve := r\<rparr>"
proof -
  have "\<exists>r. s' = s\<lparr>tr_reserve := r\<rparr>"
  proof (cases "s' = s")
    case True
    then show ?thesis by (intro exI[of _ "tr_reserve s"]) simp
  next
    case False
    with assms show ?thesis by (auto simp: reserve_part_def Let_def split: if_splits)
  qed
  with that show thesis by blast
qed

lemma enforce_rate_limit_Inr:
  assumes "enforce_rate_limit c e t n s = Inr s'"
  shows "s' = s \<or> (\<exists>a b. s' = set_epoch t a b s)"
  using assms
  by (auto simp: enforce_rate_limit_def pick_Inr enforce_rate_limit_kora_def enforce_rate_limit_local_def Let_def split: if_splits)

lemma record_withdrawal_Inr [simp]:
  "record_withdrawal e t n s = Inr s' \<longleftrightarrow>
     (\<exists>w. i128_add (or_else (tr_epoch_withdrawn s t) 0) n = Some w \<and> s' = set_epoch t (or_else (tr_epoch_start s t) (timestamp e)) w s)"
  by (auto simp: record_withdrawal_def)

lemma do_withdraw_Inr:
  assumes "do_withdraw c e a t r n s = Inr (s', calls)"
  obtains s1 l w where "enforce_rate_limit c e t n s = Inr s1"
    "s' = (set_epoch t (or_else (tr_epoch_start s1 t) (timestamp e)) w
      (s1\<lparr>tr_lock := True, tr_collected := (tr_collected s1)(t \<mapsto> get_collected s1 t - n)\<rparr>))\<lparr>tr_audit := l, tr_lock := False\<rparr>"
    "i128_add (or_else (tr_epoch_withdrawn s1 t) 0) n = Some w"
    "0 < n" "n \<le> te_balance c t - get_reserve_balance s1 t" "tr_token_listed s t" "is_recipient_allowed s1 r"
    "calls = [Transfer t (self_addr e) r n]"
proof -
  from assms obtain s1 where s1: "enforce_rate_limit c e t n s = Inr s1" by (auto simp: do_withdraw_def)
  with assms that[of s1] show thesis
    by (auto simp: do_withdraw_def get_reserve_balance_def get_collected_def i128_sub_def i128_fit_def split: if_splits)
qed

lemma do_withdraw_same:
  assumes "do_withdraw c e a t r n s = Inr (s', calls)"
  shows "same_books s s' \<and> tr_reserve s' = tr_reserve s"
  using assms
  by (elim do_withdraw_Inr) (auto dest!: enforce_rate_limit_Inr simp: same_books_def)

lemma sweep_same:
  assumes "sweep c e s t = Inr (s', calls)"
  shows "same_books s s' \<and> tr_reserve s' = tr_reserve s"
  using assms by (auto simp: sweep_def same_books_def Let_def split: if_splits)

definition writes_books :: "tr_op \<Rightarrow> bool" where
  "writes_books x \<longleftrightarrow> (case x of Tr_submit_grant _ _ _ _ _ \<Rightarrow> True | Tr_submit_proof _ _ _ \<Rightarrow> True | Tr_propose_action _ _ \<Rightarrow> True
     | Tr_approve_action _ _ \<Rightarrow> True | Tr_execute_action _ _ \<Rightarrow> True | Tr_configure_sweep _ _ _ \<Rightarrow> True | _ \<Rightarrow> False)"

lemma other_calls_same:
  assumes "tr_exec c e x s = Some (s', calls)" "\<not> writes_books x"
  shows "same_books s s'"
proof (cases x)
  case (Tr_withdraw a t r n)
  with assms show ?thesis by (auto simp: withdraw_def dest: do_withdraw_same)
next
  case (Tr_sweep t)
  with assms show ?thesis by (auto dest: sweep_same)
next
  case (Tr_collect_fee t n)
  with assms show ?thesis by (auto simp: collect_fee_def same_books_def elim!: reserve_part_Inr)
next
  case (Tr_collect_with_invoice t n i)
  with assms show ?thesis by (auto simp: collect_fee_with_invoice_def collect_fee_def same_books_def elim!: reserve_part_Inr)
next
  case (Tr_disburse a t n r)
  with assms show ?thesis by (auto simp: disburse_from_reserve_def same_books_def)
qed (use assms in \<open>auto simp: writes_books_def same_books_def tr_defs Let_def split: if_splits\<close>)

end
