(* ===== verification/Treasury_Props.thy ===== *)
theory Treasury_Props
  imports Treasury_Runs
begin

text \<open>
  Correctness of the treasury: withdrawals and their daily cap, grants paid milestone by milestone,
  actions executed once by a quorum after their delay, the sweep, and what a refund does not check.
\<close>

section \<open>Grants\<close>

definition grant_sound :: "GrantProposal \<Rightarrow> bool" where
  "grant_sound g \<longleftrightarrow> (\<forall>a\<in>set (gr_milestones g). 0 < a) \<and> gr_next_milestone g \<le> length (gr_milestones g) \<and>
     gr_remaining g = (if gr_closed g then 0 else sum_list (drop (gr_next_milestone g) (gr_milestones g))) \<and>
     (\<not> gr_closed g \<longrightarrow> gr_next_milestone g < length (gr_milestones g))"

definition grants_sound :: "tr_state \<Rightarrow> bool" where
  "grants_sound s \<longleftrightarrow> (\<forall>n g. tr_grant s n = Some g \<longrightarrow> grant_sound g \<and> gr_id g = n \<and> n < or_else (tr_next_grant s) 1)"

lemma requested_sum_Inr:
  "requested_sum t ms = Inr u \<Longrightarrow> (\<forall>a\<in>set ms. 0 < a) \<and> u = t + sum_list ms"
proof (induction ms arbitrary: t)
  case (Cons a ms)
  from Cons.prems have "0 < a" "requested_sum (t + a) ms = Inr u" by (auto simp: i128_add_def i128_fit_def split: if_splits)
  with Cons.IH[of "t + a"] show ?case by simp
qed simp

lemma grants_sound_put:
  assumes "grants_sound s" "tr_grant s' = (tr_grant s)(n \<mapsto> g')" "tr_next_grant s' = tr_next_grant s"
    and "tr_grant s n = Some g" "grant_sound g'" "gr_id g' = gr_id g"
  shows "grants_sound s'"
  using assms by (auto simp: grants_sound_def)

lemma grants_sound_same: "same_books s s' \<Longrightarrow> grants_sound s \<Longrightarrow> grants_sound s'"
  by (simp add: same_books_def grants_sound_def)

lemma release_Inr:
  assumes "release_grant_milestone c e n s = Inr (s', calls)"
  obtains g registry ratio where "tr_grant s n = Some g" "\<not> gr_closed g" "gr_reviewed g" "tr_proof s n (gr_next_milestone g) \<noteq> None"
    "gr_next_milestone g < length (gr_milestones g)" "tr_registry s = Some registry" "reserve_ratio e registry = Inr ratio"
    "check_grant_reserve (te_balance c (gr_token g)) (get_reserve_balance s (gr_token g)) (gr_milestones g ! gr_next_milestone g) ratio = Inr ()"
    "calls = [Transfer (gr_token g) (self_addr e) (gr_recipient g) (gr_milestones g ! gr_next_milestone g)]"
    "s' = s\<lparr>tr_grant := (tr_grant s)(n \<mapsto> g\<lparr>gr_remaining := gr_remaining g - gr_milestones g ! gr_next_milestone g,
       gr_next_milestone := Suc (gr_next_milestone g), gr_last_activity_at := timestamp e,
       gr_closed := Suc (gr_next_milestone g) \<ge> length (gr_milestones g)\<rparr>), tr_lock := False\<rparr>"
proof -
  from assms obtain g where g: "tr_grant s n = Some g" "\<not> gr_closed g" by (auto simp: release_grant_milestone_def)
  from assms g obtain s2 registry ratio where "gr_reviewed g" "tr_proof s n (gr_next_milestone g) \<noteq> None"
    "gr_next_milestone g < length (gr_milestones g)" "tr_registry s = Some registry" "reserve_ratio e registry = Inr ratio"
    "check_grant_reserve (te_balance c (gr_token g)) (get_reserve_balance s (gr_token g)) (gr_milestones g ! gr_next_milestone g) ratio = Inr ()"
    "calls = [Transfer (gr_token g) (self_addr e) (gr_recipient g) (gr_milestones g ! gr_next_milestone g)]"
    "s\<lparr>tr_lock := True, tr_grant := (tr_grant s)(n \<mapsto> g\<lparr>gr_remaining := gr_remaining g - gr_milestones g ! gr_next_milestone g,
       gr_next_milestone := Suc (gr_next_milestone g), gr_last_activity_at := timestamp e,
       gr_closed := Suc (gr_next_milestone g) \<ge> length (gr_milestones g)\<rparr>)\<rparr> = s2" "s' = s2\<lparr>tr_lock := False\<rparr>"
    by (simp only: release_grant_milestone_def tr_guarded_Inr) (simp add: get_reserve_balance_def Let_def linorder_not_le, blast)
  then show thesis by (intro that[OF g]) auto
qed

lemma grant_after_release:
  assumes "grant_sound g" "gr_next_milestone g < length (gr_milestones g)" "\<not> gr_closed g"
  shows "grant_sound (g\<lparr>gr_remaining := gr_remaining g - gr_milestones g ! gr_next_milestone g,
       gr_next_milestone := Suc (gr_next_milestone g), gr_last_activity_at := t,
       gr_closed := Suc (gr_next_milestone g) \<ge> length (gr_milestones g)\<rparr>)"
proof -
  have "drop (gr_next_milestone g) (gr_milestones g)
    = gr_milestones g ! gr_next_milestone g # drop (Suc (gr_next_milestone g)) (gr_milestones g)"
    using assms(2) by (simp add: Cons_nth_drop_Suc)
  with assms show ?thesis by (auto simp: grant_sound_def)
qed

lemma grants_sound_release:
  assumes "grants_sound s" "release_grant_milestone c e n s = Inr (s', calls)"
  shows "grants_sound s'"
  using assms(2)
proof (cases rule: release_Inr)
  case (1 g registry ratio)
  have "grant_sound g" using assms(1) 1(1) by (simp add: grants_sound_def)
  from grant_after_release[OF this 1(5,2)] show ?thesis
    using grants_sound_put[OF assms(1) _ _ 1(1)] by (simp add: 1(10))
qed

lemma run_action_same:
  assumes "run_treasury_action c e a x s = Inr (s', calls)" "emergency_pays c"
    and "\<forall>n. x \<noteq> TA_ReviewGrant n \<and> x \<noteq> TA_ReleaseGrantMilestone n \<and> x \<noteq> TA_ReclaimGrant n"
  shows "same_books s s'"
proof (cases x)
  case (TA_Withdraw t r n)
  with assms(1) show ?thesis by (auto simp: run_treasury_action_def dest: do_withdraw_same)
next
  case (TA_EmergencyWithdraw t r)
  with assms(1,2) show ?thesis unfolding emergency_pays_def by (simp add: run_treasury_action_def) blast
qed (use assms in \<open>auto simp: run_treasury_action_def no_calls_def same_books_def tr_defs split: if_splits\<close>)

lemma run_action_books:
  assumes "run_treasury_action c e a x s = Inr (s', calls)" "emergency_pays c"
  shows "tr_action s' = tr_action s \<and> tr_next_action s' = tr_next_action s \<and> tr_splits s' = tr_splits s"
proof (cases "\<exists>n. x = TA_ReviewGrant n \<or> x = TA_ReleaseGrantMilestone n \<or> x = TA_ReclaimGrant n")
  case False
  with run_action_same[OF assms] show ?thesis by (auto simp: same_books_def)
next
  case True
  with assms(1) show ?thesis
    by (auto simp: run_treasury_action_def no_calls_def review_grant_def reclaim_grant_def elim!: release_Inr)
qed

lemma grants_sound_action:
  assumes "grants_sound s" "run_treasury_action c e a x s = Inr (s', calls)" "emergency_pays c"
  shows "grants_sound s'"
proof (cases x)
  case (TA_ReviewGrant n)
  with assms(2) obtain g where g: "tr_grant s n = Some g"
    "s' = s\<lparr>tr_grant := (tr_grant s)(n \<mapsto> g\<lparr>gr_reviewed := True, gr_last_activity_at := timestamp e\<rparr>)\<rparr>"
    by (auto simp: run_treasury_action_def no_calls_def review_grant_def)
  have "grant_sound g" using assms(1) g(1) by (simp add: grants_sound_def)
  then have "grant_sound (g\<lparr>gr_reviewed := True, gr_last_activity_at := timestamp e\<rparr>)" by (simp add: grant_sound_def)
  with grants_sound_put[OF assms(1) _ _ g(1)] show ?thesis by (simp add: g(2))
next
  case (TA_ReleaseGrantMilestone n)
  with assms show ?thesis by (auto simp: run_treasury_action_def dest: grants_sound_release)
next
  case (TA_ReclaimGrant n)
  with assms(2) obtain g where g: "tr_grant s n = Some g"
    "s' = s\<lparr>tr_grant := (tr_grant s)(n \<mapsto> g\<lparr>gr_closed := True, gr_remaining := 0\<rparr>)\<rparr>"
    by (auto simp: run_treasury_action_def no_calls_def reclaim_grant_def)
  have "grant_sound g" using assms(1) g(1) by (simp add: grants_sound_def)
  then have "grant_sound (g\<lparr>gr_closed := True, gr_remaining := 0\<rparr>)" by (simp add: grant_sound_def)
  with grants_sound_put[OF assms(1) _ _ g(1)] show ?thesis by (simp add: g(2))
qed (use grants_sound_same[OF run_action_same[OF assms(2,3)] assms(1)] in simp_all)

lemma execute_treasury_Inr:
  assumes "execute_treasury_action c e s a n = Inr (s', calls)"
  obtains config p s1 l where "load_signer_config c s = Inr config" "a \<in> set (ms_signers config)" "tr_action s n = Some p"
    "\<not> tp_executed p" "timestamp e \<le> tp_expires_at p" "ms_threshold config \<le> length (tp_approvals p)"
    "tp_created_at p + max (or_else (tr_action_delay s n) (get_delay (tr_timelock s))) (get_delay (tr_timelock s)) \<le> timestamp e"
    "run_treasury_action c e a (tp_action p) (s\<lparr>tr_action := (tr_action s)(n \<mapsto> p\<lparr>tp_executed := True\<rparr>)\<rparr>) = Inr (s1, calls)"
    "s' = s1\<lparr>tr_audit := l\<rparr>"
proof -
  from assms obtain config p where "load_signer_config c s = Inr config" "a \<in> set (ms_signers config)" "tr_action s n = Some p"
    by (auto simp: execute_treasury_action_def as_treasury_signer_def tr_require_signer_def open_action_def split: if_splits)
  with assms that[of config p] show thesis
    by (auto simp: execute_treasury_action_def as_treasury_signer_def tr_require_signer_def open_action_def Let_def)
qed

lemma grants_sound_step:
  assumes "emergency_pays c" "grants_sound s" "tr_exec c e x s = Some (s', calls)"
  shows "grants_sound s'"
proof (cases "writes_books x")
  case False
  with other_calls_same[OF assms(3)] assms(2) show ?thesis by (rule_tac grants_sound_same)
next
  case True
  then show ?thesis
  proof (cases x)
    case (Tr_submit_grant a r t sc ms)
    with assms(3) obtain u where "requested_sum 0 ms = Inr u" "ms \<noteq> []"
      and s': "tr_grant s' = (tr_grant s)(or_else (tr_next_grant s) 1 \<mapsto> \<lparr>gr_id = or_else (tr_next_grant s) 1, gr_proposer = a, gr_recipient = r,
        gr_token = t, gr_scope = sc, gr_milestones = ms, gr_next_milestone = 0, gr_remaining = u, gr_reviewed = False, gr_closed = False,
        gr_submitted_at = timestamp e, gr_last_activity_at = timestamp e\<rparr>)" "tr_next_grant s' = Some (or_else (tr_next_grant s) 1 + 1)"
      by (auto simp: submit_grant_proposal_def Let_def)
    with requested_sum_Inr[of 0 ms u] assms(2) show ?thesis
      by (auto simp: grants_sound_def grant_sound_def less_Suc_eq)
  next
    case (Tr_submit_proof a n h)
    with assms(3) obtain g where g: "tr_grant s n = Some g" "tr_grant s' = (tr_grant s)(n \<mapsto> g\<lparr>gr_last_activity_at := timestamp e\<rparr>)"
      "tr_next_grant s' = tr_next_grant s" by (auto simp: submit_grant_milestone_proof_def)
    have "grant_sound (g\<lparr>gr_last_activity_at := timestamp e\<rparr>)" using assms(2) g(1) by (auto simp: grants_sound_def grant_sound_def)
    with grants_sound_put[OF assms(2) g(2,3,1)] show ?thesis by simp
  next
    case (Tr_execute_action a n)
    with assms(3) have "execute_treasury_action c e s a n = Inr (s', calls)" by simp
    then show ?thesis
    proof (cases rule: execute_treasury_Inr)
      case (1 config p s1 l)
      have "grants_sound (s\<lparr>tr_action := (tr_action s)(n \<mapsto> p\<lparr>tp_executed := True\<rparr>)\<rparr>)"
        using assms(2) by (simp add: grants_sound_def)
      from grants_sound_action[OF this 1(8) assms(1)] show ?thesis by (simp add: 1(9) grants_sound_def)
    qed
  qed (use assms in \<open>auto simp: grants_sound_def writes_books_def propose_treasury_action_def approve_treasury_action_def
      configure_sweep_splits_def Let_def split: if_splits\<close>)
qed

section \<open>Actions\<close>

definition actions_sound :: "tr_state \<Rightarrow> bool" where
  "actions_sound s \<longleftrightarrow> (\<forall>n p. tr_action s n = Some p \<longrightarrow> distinct (tp_approvals p) \<and> tp_id p = n \<and> n < or_else (tr_next_action s) 1)"

text \<open>What a call does to the actions: it adds a new one, adds an approval to an open one, or executes one.\<close>

lemma actions_step:
  assumes "emergency_pays c" "tr_exec c e x s = Some (s', calls)"
  obtains "tr_action s' = tr_action s" "tr_next_action s' = tr_next_action s"
  | p where "tr_action s' = (tr_action s)(or_else (tr_next_action s) 1 \<mapsto> p)" "tr_next_action s' = Some (or_else (tr_next_action s) 1 + 1)"
      "distinct (tp_approvals p)" "tp_id p = or_else (tr_next_action s) 1"
  | n p p' where "tr_action s n = Some p" "\<not> tp_executed p" "tr_action s' = (tr_action s)(n \<mapsto> p')"
      "tr_next_action s' = tr_next_action s" "distinct (tp_approvals p) \<longrightarrow> distinct (tp_approvals p')" "tp_id p' = tp_id p"
proof (cases "writes_books x")
  case False
  with other_calls_same[OF assms(2)] that(1) show thesis by (simp add: same_books_def)
next
  case True
  then show thesis
  proof (cases x)
    case (Tr_propose_action a y)
    with assms(2) show thesis by (auto simp: propose_treasury_action_def Let_def intro!: that(2))
  next
    case (Tr_approve_action a n)
    with assms(2) obtain p where p: "tr_action s n = Some p" "\<not> tp_executed p" "a \<notin> set (tp_approvals p)"
      "tr_action s' = (tr_action s)(n \<mapsto> p\<lparr>tp_approvals := tp_approvals p @ [a]\<rparr>)" "tr_next_action s' = tr_next_action s"
      by (auto simp: approve_treasury_action_def open_action_def)
    show thesis by (rule that(3)[OF p(1,2,4,5)]) (use p(3) in auto)
  next
    case (Tr_execute_action a n)
    with assms(2) have "execute_treasury_action c e s a n = Inr (s', calls)" by simp
    then show thesis
    proof (cases rule: execute_treasury_Inr)
      case (1 config p s1 l)
      from run_action_books[OF 1(8) assms(1)] have "tr_action s' = (tr_action s)(n \<mapsto> p\<lparr>tp_executed := True\<rparr>)"
        "tr_next_action s' = tr_next_action s" by (simp_all add: 1(9))
      from that(3)[OF 1(3,4) this] show thesis by simp
    qed
  qed (use assms that(1) in \<open>auto simp: writes_books_def submit_grant_proposal_def submit_grant_milestone_proof_def
      configure_sweep_splits_def Let_def split: if_splits\<close>)
qed

lemma actions_sound_step:
  assumes "emergency_pays c" "actions_sound s" "tr_exec c e x s = Some (s', calls)"
  shows "actions_sound s'"
  using assms(1,3) by (cases rule: actions_step) (use assms(2) in \<open>auto simp: actions_sound_def less_Suc_eq\<close>)

lemma executed_action_stays:
  assumes "emergency_pays c" "actions_sound s" "tr_exec c e x s = Some (s', calls)" "tr_action s n = Some p" "tp_executed p"
  shows "tr_action s' n = Some p"
  using assms(1,3) by (cases rule: actions_step) (use assms(2,4,5) in \<open>auto simp: actions_sound_def\<close>)

lemma executed_action_runs:
  assumes "tr_runs emergency_pays s s'" "actions_sound s" "tr_action s n = Some p" "tp_executed p"
  shows "tr_action s' n = Some p"
proof -
  from assms(1) have "actions_sound s' \<and> tr_action s' n = Some p"
  proof (rule tr_runs_invariant)
    fix c e x u u' calls assume "emergency_pays c" "actions_sound u \<and> tr_action u n = Some p" "tr_exec c e x u = Some (u', calls)"
    then show "actions_sound u' \<and> tr_action u' n = Some p"
      using actions_sound_step executed_action_stays[OF _ _ _ _ assms(4)] by blast
  qed (use assms in simp)
  then show ?thesis by simp
qed

lemma tr_start:
  assumes "tr_initialize c e tr_empty a n = Inr s0"
  shows "tr_grant s0 = (\<lambda>_. None)" "tr_action s0 = (\<lambda>_. None)" "tr_splits s0 = None"
  using assms by (auto simp: tr_initialize_def tr_empty_def)

section \<open>The daily cap\<close>

text \<open>A list of withdrawals of one token, each by its own caller, time and version of the helpers.\<close>

fun withdraw_all :: "address \<Rightarrow> (treasury_env \<times> env \<times> address \<times> address \<times> i128) list \<Rightarrow> tr_state \<Rightarrow> tr_state tresult" where
  "withdraw_all t [] s = Inr s"
| "withdraw_all t ((c, e, a, r, n) # ws) s = rbind (do_withdraw c e a t r n s) (\<lambda>(s, _). withdraw_all t ws s)"

definition withdrawn_today :: "tr_state \<Rightarrow> address \<Rightarrow> i128" where
  "withdrawn_today s t = or_else (tr_epoch_withdrawn s t) 0"

lemma rate_limit_in_day:
  assumes "enforce_rate_limit c e t n s = Inr s1" "get_withdrawal_cap s t \<noteq> 0" "0 < n"
    and "tr_epoch_start s t = Some st" "timestamp e < st + EPOCH_DURATION" "timestamp e < u64_max"
  shows "withdrawn_today s t + n \<le> get_withdrawal_cap s t \<and> tr_epoch_start s1 t = Some st \<and> tr_cap s1 = tr_cap s \<and>
    withdrawn_today s1 t = withdrawn_today s t + (case te_rev c of Kora_Helpers \<Rightarrow> 0 | Local_Helpers \<Rightarrow> n)"
proof (cases "te_rev c")
  case Kora_Helpers
  with assms have "enforce_rate_limit_kora e t n s = Inr s1" by (simp add: enforce_rate_limit_def pick_Inr)
  with assms Kora_Helpers show ?thesis
    by (auto simp: enforce_rate_limit_kora_def withdrawn_today_def u64_sat_sub_def EPOCH_DURATION_def i128_add_def i128_fit_def Let_def split: if_splits)
next
  case Local_Helpers
  with assms have "enforce_rate_limit_local e t n s = Inr s1" by (simp add: enforce_rate_limit_def pick_Inr)
  with assms Local_Helpers show ?thesis
    by (auto simp: enforce_rate_limit_local_def withdrawn_today_def u64_sat_add_def i128_add_def i128_fit_def Let_def split: if_splits)
qed

text \<open>The first version counts a withdrawal once, the second twice, so that half of the cap is usable.\<close>

lemma withdraw_in_day:
  assumes "do_withdraw c e a t r n s = Inr (s', calls)" "get_withdrawal_cap s t \<noteq> 0"
    and "tr_epoch_start s t = Some st" "timestamp e < st + EPOCH_DURATION" "timestamp e < u64_max"
  shows "0 < n \<and> withdrawn_today s t + n \<le> get_withdrawal_cap s t \<and> tr_epoch_start s' t = Some st \<and> tr_cap s' = tr_cap s \<and>
    withdrawn_today s' t = withdrawn_today s t + (case te_rev c of Kora_Helpers \<Rightarrow> n | Local_Helpers \<Rightarrow> 2 * n)"
  using assms(1)
proof (cases rule: do_withdraw_Inr)
  case (1 s1 l w)
  from rate_limit_in_day[OF 1(1) assms(2) 1(4) assms(3-5)] 1(3,4) show ?thesis
    by (auto simp: 1(2) withdrawn_today_def i128_add_def i128_fit_def split: revision.splits if_splits)
qed

text \<open>the withdrawals of a token on one day, however many and by whichever version of the helpers,
  do not add up to more than its cap, counted from what was withdrawn before.\<close>

theorem daily_withdrawals_within_cap:
  assumes "withdraw_all t ws s = Inr s'" "get_withdrawal_cap s t \<noteq> 0" "ws \<noteq> []" "tr_epoch_start s t = Some st"
    and "\<forall>(c, e, a, r, n)\<in>set ws. timestamp e < st + EPOCH_DURATION \<and> timestamp e < u64_max"
  shows "withdrawn_today s t + (\<Sum>(c, e, a, r, n)\<leftarrow>ws. n) \<le> get_withdrawal_cap s t"
  using assms
proof (induction ws arbitrary: s)
  case (Cons w ws)
  obtain c e a r n where w: "w = (c, e, a, r, n)" by (cases w)
  from Cons.prems(1) w obtain s1 calls where s1: "do_withdraw c e a t r n s = Inr (s1, calls)" "withdraw_all t ws s1 = Inr s'" by auto
  have day: "timestamp e < st + EPOCH_DURATION" "timestamp e < u64_max" using Cons.prems(5) w by auto
  note d = withdraw_in_day[OF s1(1) Cons.prems(2,4) day]
  from d have cap: "get_withdrawal_cap s1 t = get_withdrawal_cap s t" by (simp add: get_withdrawal_cap_def)
  show ?case
  proof (cases "ws = []")
    case True
    with d w show ?thesis by simp
  next
    case False
    with Cons.IH[OF s1(2)] d cap Cons.prems(2,5)
    have "withdrawn_today s1 t + (\<Sum>(c, e, a, r, n)\<leftarrow>ws. n) \<le> get_withdrawal_cap s t" by simp
    moreover have "withdrawn_today s t + n \<le> withdrawn_today s1 t" using d by (cases "te_rev c") auto
    ultimately show ?thesis using w by simp
  qed
qed simp

section \<open>Withdrawals, refunds and the sweep\<close>

lemma enforce_keeps:
  assumes "enforce_rate_limit c e t n s = Inr s'"
  shows "tr_reserve s' = tr_reserve s" "tr_collected s' = tr_collected s" "tr_recipient s' = tr_recipient s"
  using enforce_rate_limit_Inr[OF assms] by auto

text \<open>C28: a withdrawal is signed by the admin, goes to an allowed recipient in a listed token, leaves the
  reserve in the treasury, and is taken off the collected fees; under the first version of the
  helpers it is refused when the signers need a quorum.\<close>

theorem withdraw_effect:
  assumes "withdraw c e s a t r n = Inr (s', calls)"
  shows "authorised e a \<and> tr_admin s = Some a \<and> tr_token_listed s t \<and> is_recipient_allowed s r \<and> 0 < n \<and>
    calls = [Transfer t (self_addr e) r n] \<and> n + get_reserve_balance s t \<le> te_balance c t \<and>
    get_collected s' t = get_collected s t - n \<and> tr_reserve s' = tr_reserve s \<and>
    (te_rev c = Kora_Helpers \<longrightarrow> (\<forall>config. load_signer_config c s = Inr config \<longrightarrow> ms_threshold config \<le> 1))"
proof -
  from assms have a: "authorised e a" "tr_admin s = Some a" "tr_require_no_quorum c s = Inr ()" and w: "do_withdraw c e a t r n s = Inr (s', calls)"
    by (auto simp: withdraw_def)
  from a(3) have "te_rev c = Kora_Helpers \<longrightarrow> (\<forall>config. load_signer_config c s = Inr config \<longrightarrow> ms_threshold config \<le> 1)"
    by (auto simp: tr_require_no_quorum_def pick_Inr require_no_quorum_kora_def)
  moreover have "tr_token_listed s t \<and> is_recipient_allowed s r \<and> 0 < n \<and> calls = [Transfer t (self_addr e) r n] \<and>
    n + get_reserve_balance s t \<le> te_balance c t \<and> get_collected s' t = get_collected s t - n \<and> tr_reserve s' = tr_reserve s"
    using w
  proof (cases rule: do_withdraw_Inr)
    case (1 s1 l w)
    from enforce_keeps[OF 1(1)] 1(4-8) show ?thesis
      by (simp add: 1(2) get_reserve_balance_def get_collected_def is_recipient_allowed_def)
  qed
  ultimately show ?thesis using a by simp
qed

text \<open>A refund needs nobody's signature. Once a marketplace is set, any caller who names it as the
  caller sends any amount the treasury holds of a listed token to any address, the reserve included.\<close>

lemma refund_needs_no_signature:
  assumes "tr_marketplace s = Some m" "tr_token_listed s t" "0 < n" "n \<le> te_balance c t"
    and "i128_sub (get_collected s t) n \<noteq> None"
  shows "refund_fee c e s m t n anyone =
    Inr (s\<lparr>tr_collected := (tr_collected s)(t \<mapsto> get_collected s t - n)\<rparr>, [Transfer t (self_addr e) anyone n])"
  using assms by (auto simp: refund_fee_def)

locale share_rule =
  fixes share :: "i128 \<Rightarrow> u32 \<Rightarrow> i128 tresult"
  assumes share_within: "0 \<le> d \<Longrightarrow> share d b = Inr r \<Longrightarrow> 0 \<le> r \<and> r * 10000 \<le> d * int b"
begin

lemma pay_splits_within:
  assumes "pay_splits c e t d xs p = Inr (calls, p')" "te_bps_of c = share" "0 \<le> d" "0 \<le> p"
  shows "p \<le> p' \<and> (p' - p) * 10000 \<le> d * int (sum_list (map snd xs)) \<and> moved_out t (self_addr e) calls = p' - p"
  using assms
proof (induction c e t d xs p arbitrary: calls p' rule: pay_splits.induct)
  case (2 c e t d dest b rest p)
  from "2.prems" obtain r where r: "share d b = Inr r" by auto
  note bound = share_within[OF \<open>0 \<le> d\<close> r]
  show ?case
  proof (cases "0 < r")
    case True
    with "2.prems" r obtain calls1 where c1: "i128_add p r = Some (p + r)" "pay_splits c e t d rest (p + r) = Inr (calls1, p')"
      "calls = Transfer t (self_addr e) dest r # calls1" by (auto simp: i128_add_def i128_fit_def split: if_splits)
    have "p + r \<le> p' \<and> (p' - (p + r)) * 10000 \<le> d * int (sum_list (map snd rest)) \<and> moved_out t (self_addr e) calls1 = p' - (p + r)"
      using "2.IH"(1)[OF True c1(2)] "2.prems" r True by simp
    with bound c1(3) True show ?thesis by (simp add: algebra_simps)
  next
    case False
    with "2.prems" r have "pay_splits c e t d rest p = Inr (calls, p')" by simp
    with "2.IH"(2)[OF False this] "2.prems" r bound False show ?thesis by (simp add: algebra_simps)
  qed
qed simp

end

interpretation shared_bps: share_rule "\<lambda>d b. te_lift (bps_of d b)"
proof
  fix d :: i128 and b r
  assume "0 \<le> d" "te_lift (bps_of d b) = Inr r"
  then have "r = d * int b div 10000" by (simp add: bps_of_Inr_iff)
  with \<open>0 \<le> d\<close> show "0 \<le> r \<and> r * 10000 \<le> d * int b" by (simp add: pos_imp_zdiv_nonneg_iff)
qed

lemma sat_sub_bound: "0 < n \<Longrightarrow> n \<le> i128_sat_sub a b \<Longrightarrow> n + b \<le> a"
  by (auto simp: i128_sat_sub_def i128_clamp_def i128_min_def i128_max_def split: if_splits)

lemma split_total_Inr: "split_total e xs t = Inr u \<Longrightarrow> u = t + sum_list (map snd xs)"
proof (induction xs arbitrary: t)
  case (Cons x xs)
  obtain d b where x: "x = (d, b)" by (cases x)
  with Cons.prems have "split_total e xs (t + b) = Inr u" by (auto simp: u32_add_def split: if_splits)
  from Cons.IH[OF this] x show ?case by simp
qed simp

definition splits_sound :: "tr_state \<Rightarrow> bool" where
  "splits_sound s \<longleftrightarrow> (\<forall>xs. tr_splits s = Some xs \<longrightarrow> sum_list (map snd xs) = 10000)"

lemma splits_sound_step:
  assumes "emergency_pays c" "splits_sound s" "tr_exec c e x s = Some (s', calls)"
  shows "splits_sound s'"
proof (cases "writes_books x")
  case False
  with other_calls_same[OF assms(3)] assms(2) show ?thesis by (simp add: same_books_def splits_sound_def)
next
  case True
  then show ?thesis
  proof (cases x)
    case (Tr_configure_sweep a xs p)
    with assms(3) have "split_total e xs 0 = Inr 10000" "tr_splits s' = Some xs" by (auto simp: configure_sweep_splits_def)
    with split_total_Inr[OF this(1)] show ?thesis by (simp add: splits_sound_def)
  next
    case (Tr_execute_action a n)
    with assms(3) have "execute_treasury_action c e s a n = Inr (s', calls)" by simp
    then show ?thesis
    proof (cases rule: execute_treasury_Inr)
      case (1 config p s1 l)
      from run_action_books[OF 1(8) assms(1)] assms(2) show ?thesis by (simp add: 1(9) splits_sound_def)
    qed
  qed (use assms in \<open>auto simp: splits_sound_def writes_books_def propose_treasury_action_def approve_treasury_action_def
      submit_grant_proposal_def submit_grant_milestone_proof_def Let_def split: if_splits\<close>)
qed

definition treasury_sound :: "tr_state \<Rightarrow> bool" where
  "treasury_sound s \<longleftrightarrow> grants_sound s \<and> actions_sound s \<and> splits_sound s"

lemma treasury_sound_step:
  "emergency_pays c \<Longrightarrow> treasury_sound s \<Longrightarrow> tr_exec c e x s = Some (s', calls) \<Longrightarrow> treasury_sound s'"
  unfolding treasury_sound_def using grants_sound_step actions_sound_step splits_sound_step by blast

lemma reachable_sound:
  assumes "tr_reachable emergency_pays s"
  shows "treasury_sound s"
  using assms
proof (rule tr_reachable_invariant)
  fix c e a n s0 assume "tr_initialize c e tr_empty a n = Inr s0"
  from tr_start[OF this] show "treasury_sound s0"
    by (simp add: treasury_sound_def grants_sound_def actions_sound_def splits_sound_def)
qed (rule treasury_sound_step)

text \<open>C30: in every reachable state the unpaid part of an open grant is the sum of its milestones from the
  next one on, a closed grant has nothing left, and grants have the numbers they are stored under.\<close>

theorem grants_hold_unpaid_milestones:
  assumes "tr_reachable emergency_pays s" "tr_grant s n = Some g"
  shows "gr_id g = n \<and> (\<forall>a\<in>set (gr_milestones g). 0 < a) \<and>
    gr_remaining g = (if gr_closed g then 0 else sum_list (drop (gr_next_milestone g) (gr_milestones g))) \<and>
    (\<not> gr_closed g \<longrightarrow> gr_next_milestone g < length (gr_milestones g))"
  using reachable_sound[OF assms(1)] assms(2) by (auto simp: treasury_sound_def grants_sound_def grant_sound_def)

text \<open>a release pays the next milestone of a reviewed grant, for which a proof was handed in, to its
  recipient and leaves the reserve in the treasury; the grant then waits for the following
  milestone, or is closed after the last.\<close>

theorem milestones_paid_in_order:
  assumes "tr_reachable emergency_pays s" "release_grant_milestone c e n s = Inr (s', calls)"
  shows "\<exists>(g :: GrantProposal) g'. let k = gr_next_milestone g; amount = gr_milestones g ! k in
    tr_grant s n = Some g \<and> tr_grant s' = (tr_grant s)(n \<mapsto> g') \<and> gr_reviewed g \<and> tr_proof s n k \<noteq> None \<and>
    calls = [Transfer (gr_token g) (self_addr e) (gr_recipient g) amount] \<and> 0 < amount \<and>
    amount + get_reserve_balance s (gr_token g) \<le> te_balance c (gr_token g) \<and>
    gr_milestones g' = gr_milestones g \<and> gr_next_milestone g' = k + 1 \<and>
    gr_remaining g' = sum_list (drop (k + 1) (gr_milestones g)) \<and> gr_closed g' = (k + 1 = length (gr_milestones g))"
  using assms(2)
proof (cases rule: release_Inr)
  case (1 g registry ratio)
  let ?k = "gr_next_milestone g" let ?a = "gr_milestones g ! ?k"
  have g: "grant_sound g" using reachable_sound[OF assms(1)] 1(1) by (auto simp: treasury_sound_def grants_sound_def)
  have pos: "0 < ?a" using g 1(5) by (simp add: grant_sound_def)
  have "?a \<le> i128_sat_sub (te_balance c (gr_token g)) (get_reserve_balance s (gr_token g))"
    using 1(8) by (auto simp: check_grant_reserve_def split: if_splits)
  then have room: "?a + get_reserve_balance s (gr_token g) \<le> te_balance c (gr_token g)" by (rule sat_sub_bound[OF pos])
  have "drop ?k (gr_milestones g) = ?a # drop (Suc ?k) (gr_milestones g)" using 1(5) by (simp add: Cons_nth_drop_Suc)
  then have "gr_remaining g - ?a = sum_list (drop (Suc ?k) (gr_milestones g))" using g 1(2) by (simp add: grant_sound_def)
  then show ?thesis using 1 pos room
    by (intro exI[of _ g] exI[of _ "g\<lparr>gr_remaining := gr_remaining g - ?a, gr_next_milestone := Suc ?k, gr_last_activity_at := timestamp e,
      gr_closed := Suc ?k \<ge> length (gr_milestones g)\<rparr>"]) (auto simp: Let_def)
qed

text \<open>C29: An action of the signers is executed by a signer who signs, with as many different approvals as the
  threshold asks for, not before the longer of the delay at its proposal and the present one has
  passed, not after it has expired, and never a second time.\<close>

theorem treasury_action_runs_once:
  assumes "tr_reachable emergency_pays s" "emergency_pays c" "execute_treasury_action c e s a n = Inr (s', calls)"
    and "tr_runs emergency_pays s' s''"
  shows "\<exists>p config. authorised e a \<and> tr_action s n = Some p \<and> load_signer_config c s = Inr config \<and> a \<in> set (ms_signers config) \<and>
    distinct (tp_approvals p) \<and> ms_threshold config \<le> length (tp_approvals p) \<and> timestamp e \<le> tp_expires_at p \<and>
    tp_created_at p + max (or_else (tr_action_delay s n) (get_delay (tr_timelock s))) (get_delay (tr_timelock s)) \<le> timestamp e \<and>
    (\<forall>c' e' a'. \<not> is_ok (execute_treasury_action c' e' s'' a' n))"
  using assms(3)
proof (cases rule: execute_treasury_Inr)
  case (1 config p s1 l)
  have sound: "actions_sound s" using reachable_sound[OF assms(1)] by (simp add: treasury_sound_def)
  have "tr_exec c e (Tr_execute_action a n) s = Some (s', calls)" using assms(3) by simp
  from actions_sound_step[OF assms(2) sound this] have start: "actions_sound s'" .
  have "tr_action s' n = Some (p\<lparr>tp_executed := True\<rparr>)"
    using run_action_books[OF 1(8) assms(2)] by (simp add: 1(9))
  with executed_action_runs[OF assms(4) start] have "tr_action s'' n = Some (p\<lparr>tp_executed := True\<rparr>)" by simp
  then have "\<not> is_ok (execute_treasury_action c' e' s'' a' n)" for c' e' a'
    by (auto simp: is_ok_iff elim!: execute_treasury_Inr)
  moreover have "authorised e a"
    using assms(3) by (auto simp: execute_treasury_action_def as_treasury_signer_def)
  ultimately show ?thesis using 1(1-7) sound by (auto simp: actions_sound_def)
qed

text \<open>C31: With the shared rule for shares, a sweep sends out exactly the collected fees that the balance
  covers beyond the reserve, to the last unit, and takes them off the books; when there are none
  it does nothing.  The reserve is taken off the balance, not off the collected fees as the comment
  of the source says (\<open>Collected(token) - ReserveBalance(token)\<close>): as long as the balance covers both,
  all that was collected is paid out, where the comment would keep the reserve's part back.\<close>

theorem sweep_pays_all:
  assumes "tr_reachable emergency_pays s" "te_bps_of c = (\<lambda>d b. te_lift (bps_of d b))" "sweep c e s t = Inr (s', calls)"
    and "get_collected s t \<le> i128_max"
  shows "let d = min (i128_sat_sub (te_balance c t) (get_reserve_balance s t)) (get_collected s t) in
    if d \<le> 0 then s' = s \<and> calls = []
    else moved_out t (self_addr e) calls = d \<and> get_collected s' t = get_collected s t - d \<and>
      d + get_reserve_balance s t \<le> te_balance c t \<and> tr_reserve s' = tr_reserve s"
proof -
  define d where "d = min (i128_sat_sub (te_balance c t) (get_reserve_balance s t)) (get_collected s t)"
  note run = assms(3)[unfolded sweep_def Let_def, folded d_def]
  have "if d \<le> 0 then s' = s \<and> calls = []
    else moved_out t (self_addr e) calls = d \<and> get_collected s' t = get_collected s t - d \<and>
      d + get_reserve_balance s t \<le> te_balance c t \<and> tr_reserve s' = tr_reserve s"
  proof (cases "d \<le> 0")
    case True
    with run show ?thesis by auto
  next
    case False
    with run obtain xs primary calls1 p1 where xs: "tr_splits s = Some xs" "tr_primary s = Some primary"
      "pay_splits c e t d xs 0 = Inr (calls1, p1)" by auto
    have "sum_list (map snd xs) = 10000" using reachable_sound[OF assms(1)] xs(1) by (simp add: treasury_sound_def splits_sound_def)
    with shared_bps.pay_splits_within[OF xs(3) assms(2)] False
    have p1: "0 \<le> p1" "p1 \<le> d" "moved_out t (self_addr e) calls1 = p1" by auto
    have d: "d \<le> get_collected s t" "d \<le> i128_sat_sub (te_balance c t) (get_reserve_balance s t)" by (simp_all add: d_def)
    have dust: "i128_sat_sub d p1 = d - p1" and rest: "i128_sat_sub (get_collected s t) d = get_collected s t - d"
      using p1 d(1) False assms(4) by (auto simp: i128_sat_sub_def i128_clamp_def i128_min_def)
    have "d - p1 > 0 \<or> p1 = d" using p1(2) by linarith
    then have "moved_out t (self_addr e) calls = d \<and> get_collected s' t = get_collected s t - d"
      using run xs False p1(3) dust rest by (auto simp: get_collected_def i128_add_def i128_fit_def split: if_splits)
    then show ?thesis using False sat_sub_bound[OF _ d(2)] sweep_same[OF assms(3)] by simp
  qed
  then show ?thesis unfolding Let_def d_def .
qed

end
