(* ===== verification/Treasury_Example.thy ===== *)
theory Treasury_Example
  imports Treasury_Props
begin

text \<open>
  A concrete treasury: admin 10, signers 20 and 21 with a threshold of two, token 7 with a balance of
  1000.  A tenth of a fee of 500 goes to the reserve; grant 1 has the milestones 100 and 200; the
  signers review it and set the timelock; a sweep goes to the addresses 40 and 41.
\<close>

definition vault :: treasury_env where
  "vault = \<lparr>te_rev = Local_Helpers, te_balance = (\<lambda>_. 1000), te_signers = (\<lambda>_. Some \<lparr>ms_threshold = 2, ms_signers = [20, 21]\<rparr>),
     te_convert = (\<lambda>_ _ _ _ _ _. None), te_chain = (\<lambda>b _. b), te_bps_of = (\<lambda>d b. te_lift (bps_of d b)),
     te_emergency = (\<lambda>_ _ _ _. Inl Trap), te_to_kora = (\<lambda>_. KE_InvalidAmount)\<rparr>"

lemma vault_simps [simp]:
  "te_rev vault = Local_Helpers" "te_balance vault t = 1000" "te_signers vault ac = Some \<lparr>ms_threshold = 2, ms_signers = [20, 21]\<rparr>"
  "te_bps_of vault = (\<lambda>d b. te_lift (bps_of d b))" "emergency_pays vault"
  by (simp_all add: vault_def emergency_pays_def)

definition noon :: "u64 \<Rightarrow> env" where
  "noon t = sample_env\<lparr>timestamp := t, view_registry_param := (\<lambda>_ _. Some
     \<lparr>rp_value = 1000, rp_min_value = 0, rp_max_value = 10000, rp_updated_at = 0, rp_updated_by = 10\<rparr>)\<rparr>"

lemma noon_simps [simp]:
  "timestamp (noon t) = t" "authorised (noon t) a" "self_addr (noon t) = 1"
  "view_registry_param (noon t) a k = Some \<lparr>rp_value = 1000, rp_min_value = 0, rp_max_value = 10000, rp_updated_at = 0, rp_updated_by = 10\<rparr>"
  by (simp_all add: noon_def)

text \<open>The log after one more entry.\<close>

definition noted :: "env \<Rightarrow> address \<Rightarrow> string \<Rightarrow> tr_audit \<Rightarrow> tr_audit" where
  "noted e a x l = (case append_internal_local e a x l of Some l' \<Rightarrow> l' | None \<Rightarrow> l)"

lemma noted_simps:
  assumes "or_else (ta_log_head l) 0 < 400" "or_else (ta_log_total l) 0 < 400"
  shows "append_entry vault e a x l = Some (noted e a x l)"
    "ta_log_head (noted e a x l) = Some (or_else (ta_log_head l) 0 + 1)"
    "ta_log_total (noted e a x l) = Some (or_else (ta_log_total l) 0 + 1)"
  using assms by (auto simp: noted_def append_entry_def append_internal_local_def u64_add_def u64_max_def MAX_AUDIT_LOG_SIZE_def Let_def)

fun tr_replay :: "(u64 \<times> tr_op) list \<Rightarrow> tr_state \<Rightarrow> tr_state option" where
  "tr_replay [] s = Some s"
| "tr_replay ((t, x) # xs) s = Option.bind (tr_exec vault (noon t) x s) (\<lambda>(s, _). tr_replay xs s)"

lemma tr_replay_runs: "tr_replay xs s = Some s' \<Longrightarrow> tr_runs emergency_pays u s \<Longrightarrow> tr_runs emergency_pays u s'"
proof (induction xs arbitrary: s)
  case (Cons x xs)
  then obtain t y s1 calls where x: "x = (t, y)" "tr_exec vault (noon t) y s = Some (s1, calls)" "tr_replay xs s1 = Some s'"
    by (cases x) (auto simp: bind_eq_Some_conv)
  have "emergency_pays vault" by simp
  from Cons.IH[OF x(3) tr_step[OF Cons.prems(2) this x(2)]] show ?case .
qed simp

definition first_days :: "(u64 \<times> tr_op) list" where
  "first_days =
     [(1000, Tr_whitelist_token 10 7), (1000, Tr_set_reserve_bps 10 1000), (1000, Tr_set_registry 10 8), (1000, Tr_set_access 10 5),
      (1000, Tr_set_marketplace 10 6), (1000, Tr_collect_fee 7 500), (1000, Tr_configure_sweep 10 [(40, 6000), (41, 4000)] 41),
      (1000, Tr_submit_grant 30 31 7 ''s'' [100, 200]), (1000, Tr_propose_recipient 10 50),
      (2000, Tr_propose_action 20 (TA_ReviewGrant 1)), (3000, Tr_approve_action 21 1), (90000, Tr_execute_recipient 10 50)]"

definition tr_start_state :: tr_state where
  "tr_start_state = tr_empty\<lparr>tr_admin := Some 10, tr_fee_bps := Some 50, tr_audit := noted (noon 1000) 10 ''initialize'' (tr_audit tr_empty)\<rparr>"

definition opened :: tr_state where
  "opened = tr_empty\<lparr>tr_admin := Some 10, tr_fee_bps := Some 50, tr_collected := [7 \<mapsto> 500], tr_whitelisted := [7 \<mapsto> True],
     tr_registry := Some 8, tr_access := Some 5, tr_recipient := [50 \<mapsto> True], tr_reserve := [7 \<mapsto> 50], tr_reserve_bps := Some 1000,
     tr_next_action := Some 2,
     tr_action := [1 \<mapsto> \<lparr>tp_id = 1, tp_action = TA_ReviewGrant 1, tp_proposer = 20, tp_approvals = [20, 21], tp_executed = False,
       tp_created_at = 2000, tp_expires_at = 606800\<rparr>],
     tr_action_delay := [1 \<mapsto> 172800], tr_next_grant := Some 2,
     tr_grant := [1 \<mapsto> \<lparr>gr_id = 1, gr_proposer = 30, gr_recipient = 31, gr_token = 7, gr_scope = ''s'', gr_milestones = [100, 200],
       gr_next_milestone = 0, gr_remaining = 300, gr_reviewed = False, gr_closed = False, gr_submitted_at = 1000, gr_last_activity_at = 1000\<rparr>],
     tr_marketplace := Some 6, tr_splits := Some [(40, 6000), (41, 4000)], tr_primary := Some 41,
     tr_audit := noted (noon 90000) 10 (action_name AA_ExecuteRecipient) (noted (noon 3000) 21 (action_name AA_ApproveTreasuryAction)
       (noted (noon 2000) 20 (action_name AA_ProposeTreasuryAction) (noted (noon 1000) 10 (action_name AA_ProposeRecipient)
       (noted (noon 1000) 10 (action_name AA_SetAccessControl) (noted (noon 1000) 10 (action_name AA_SetReserveAllocation)
       (noted (noon 1000) 10 (action_name AA_WhitelistToken) (noted (noon 1000) 10 ''initialize'' (tr_audit tr_empty))))))))\<rparr>"

named_theorems tr_eval
lemmas [tr_eval] = first_days_def tr_start_state_def tr_empty_def outcome_def tr_as_admin_def tr_as_admin_kora_def pick_def
  require_admin_local_def require_admin_kora_def require_auth_def whitelist_token_def set_reserve_allocation_bps_def
  tr_set_parameter_registry_def require_no_quorum_kora_def load_signer_config_def update_parameter_registry_def reserve_ratio_def
  tr_set_access_control_def tr_set_marketplace_def collect_fee_def tr_require_listed_def require_whitelisted_token_local_def
  tr_token_listed_def reserve_part_def get_reserve_allocation_bps_def get_reserve_balance_def get_collected_def
  configure_sweep_splits_def submit_grant_proposal_def propose_recipient_def propose_treasury_action_def
  as_treasury_signer_def tr_require_signer_def approve_treasury_action_def open_action_def execute_recipient_def
  tr_log_def tr_append_def noted_simps require_not_self_def require_valid_fee_bps_def u64_add_def u64_max_def u32_add_def u32_max_def
  i128_add_def i128_sub_def i128_mul_def i128_div_def i128_fit_def i128_min_def i128_max_def signed_divide_int_def
  MAX_GRANT_MILESTONES_def TREASURY_PROPOSAL_TTL_def UPGRADE_TIMELOCK_DELAY_def get_delay_def DEFAULT_UPGRADE_DELAY_def tl_empty_def Let_def

lemma opened_replay: "tr_replay first_days tr_start_state = Some opened"
  by (simp add: opened_def tr_eval fun_eq_iff del: One_nat_def cong: rbind_weak_cong bind_weak_cong)

lemma opened_reachable: "tr_reachable emergency_pays opened"
  unfolding tr_reachable_def
proof (intro exI conjI)
  show "tr_initialize vault (noon 1000) tr_empty 10 50 = Inr tr_start_state"
    by (simp add: tr_initialize_def tr_eval cong: rbind_weak_cong)
  show "tr_runs emergency_pays tr_start_state opened" by (rule tr_replay_runs[OF opened_replay tr_none])
qed

lemma opened_facts:
  "tr_admin opened = Some 10" "tr_whitelisted opened = [7 \<mapsto> True]" "tr_recipient opened = [50 \<mapsto> True]" "tr_marketplace opened = Some 6"
  "tr_collected opened = [7 \<mapsto> 500]" "tr_reserve opened = [7 \<mapsto> 50]" "tr_splits opened = Some [(40, 6000), (41, 4000)]"
  "tr_primary opened = Some 41" "tr_access opened = Some 5" "tr_access_inst opened = None" "tr_registry opened = Some 8"
  "tr_cap opened = (\<lambda>_. None)" "tr_epoch_start opened = (\<lambda>_. None)" "tr_epoch_withdrawn opened = (\<lambda>_. None)"
  "\<not> tr_lock opened" "tr_timelock opened = tl_empty" "tr_proof opened = (\<lambda>_ _. None)" "tr_action_delay opened = [1 \<mapsto> 172800]"
  "tr_grant opened = [1 \<mapsto> \<lparr>gr_id = 1, gr_proposer = 30, gr_recipient = 31, gr_token = 7, gr_scope = ''s'', gr_milestones = [100, 200],
     gr_next_milestone = 0, gr_remaining = 300, gr_reviewed = False, gr_closed = False, gr_submitted_at = 1000, gr_last_activity_at = 1000\<rparr>]"
  "tr_action opened = [1 \<mapsto> \<lparr>tp_id = 1, tp_action = TA_ReviewGrant 1, tp_proposer = 20, tp_approvals = [20, 21], tp_executed = False,
     tp_created_at = 2000, tp_expires_at = 606800\<rparr>]"
  "ta_log_head (tr_audit opened) = Some 8" "ta_log_total (tr_audit opened) = Some 8"
  by (simp_all add: opened_def tr_empty_def noted_simps)

theorem grants_hold_unpaid_milestones_witness:
  "\<exists>g. tr_grant opened 1 = Some g \<and> gr_remaining g = 300 \<and> sum_list (drop (gr_next_milestone g) (gr_milestones g)) = 300"
  using grants_hold_unpaid_milestones[OF opened_reachable, of 1] by (simp add: opened_facts)

definition reviewed_state :: tr_state where
  "reviewed_state = (case execute_treasury_action vault (noon 180000) opened 20 1 of Inr (s, _) \<Rightarrow> s | _ \<Rightarrow> opened)"

lemmas more_eval = opened_facts execute_treasury_action_def run_treasury_action_def no_calls_def review_grant_def tr_eval

lemma reviewed_step: "execute_treasury_action vault (noon 180000) opened 20 1 = Inr (reviewed_state, [])"
  unfolding reviewed_state_def by (simp add: more_eval del: One_nat_def cong: rbind_weak_cong)

lemma reviewed_reachable: "tr_reachable emergency_pays reviewed_state"
proof -
  obtain c e a n s0 where "tr_initialize c e tr_empty a n = Inr s0" "tr_runs emergency_pays s0 opened"
    using opened_reachable by (auto simp: tr_reachable_def)
  moreover have "emergency_pays vault" "tr_exec vault (noon 180000) (Tr_execute_action 20 1) opened = Some (reviewed_state, [])"
    using reviewed_step by simp_all
  ultimately show ?thesis unfolding tr_reachable_def using tr_step by blast
qed

theorem treasury_action_runs_once_witness:
  "\<exists>p. tr_action opened 1 = Some p \<and> 2 \<le> length (tp_approvals p) \<and>
     \<not> is_ok (execute_treasury_action vault (noon 190000) reviewed_state 21 1)"
proof -
  have "emergency_pays vault" by simp
  from treasury_action_runs_once[OF opened_reachable this reviewed_step tr_none] show ?thesis by (auto simp: opened_facts)
qed

definition proven :: tr_state where
  "proven = (case submit_grant_milestone_proof (noon 200000) reviewed_state 31 1 [9] of Inr s \<Rightarrow> s | _ \<Rightarrow> reviewed_state)"

lemma reviewed_facts:
  "tr_grant reviewed_state 1 = Some \<lparr>gr_id = 1, gr_proposer = 30, gr_recipient = 31, gr_token = 7, gr_scope = ''s'', gr_milestones = [100, 200],
     gr_next_milestone = 0, gr_remaining = 300, gr_reviewed = True, gr_closed = False, gr_submitted_at = 1000, gr_last_activity_at = 180000\<rparr>"
  "tr_proof reviewed_state = (\<lambda>_ _. None)" "\<not> tr_lock reviewed_state" "tr_registry reviewed_state = Some 8" "tr_reserve reviewed_state = [7 \<mapsto> 50]"
  unfolding reviewed_state_def by (simp_all add: more_eval del: One_nat_def cong: rbind_weak_cong)

lemma proven_step: "submit_grant_milestone_proof (noon 200000) reviewed_state 31 1 [9] = Inr proven"
  unfolding proven_def by (simp add: submit_grant_milestone_proof_def reviewed_facts require_auth_def del: One_nat_def)

lemma proven_reachable: "tr_reachable emergency_pays proven"
proof -
  obtain c e a n s0 where "tr_initialize c e tr_empty a n = Inr s0" "tr_runs emergency_pays s0 reviewed_state"
    using reviewed_reachable by (auto simp: tr_reachable_def)
  moreover have "emergency_pays vault" "tr_exec vault (noon 200000) (Tr_submit_proof 31 1 [9]) reviewed_state = Some (proven, [])"
    using proven_step by simp_all
  ultimately show ?thesis unfolding tr_reachable_def using tr_step by blast
qed

lemma release_step: "\<exists>s. release_grant_milestone vault (noon 210000) 1 proven = Inr (s, [Transfer 7 1 31 100])"
  unfolding proven_def
  by (simp add: release_grant_milestone_def tr_guarded_def with_guard_def acquire_guard_def release_guard_def submit_grant_milestone_proof_def
      reviewed_facts require_auth_def reserve_ratio_def check_grant_reserve_def i128_sat_sub_def i128_clamp_def tr_eval del: One_nat_def)

theorem milestones_paid_in_order_witness:
  "\<exists>s g. release_grant_milestone vault (noon 210000) 1 proven = Inr (s, [Transfer 7 1 31 100]) \<and>
     tr_grant s 1 = Some g \<and> gr_next_milestone g = 1"
proof -
  from release_step obtain s where s: "release_grant_milestone vault (noon 210000) 1 proven = Inr (s, [Transfer 7 1 31 100])" by blast
  have "\<exists>g. tr_grant proven 1 = Some g \<and> gr_next_milestone g = 0"
    unfolding proven_def by (simp add: submit_grant_milestone_proof_def reviewed_facts require_auth_def del: One_nat_def)
  with milestones_paid_in_order[OF proven_reachable s] s show ?thesis by (auto simp: Let_def)
qed

theorem withdraw_effect_witness:
  "\<exists>s. withdraw vault (noon 95000) opened 10 7 50 300 = Inr (s, [Transfer 7 1 50 300]) \<and> get_collected s 7 = 200"
proof -
  have "\<exists>s calls. withdraw vault (noon 95000) opened 10 7 50 300 = Inr (s, calls)"
    by (simp add: withdraw_def do_withdraw_def tr_require_no_quorum_def require_no_quorum_local_def tr_require_not_paused_def
        enforce_rate_limit_def enforce_rate_limit_local_def get_withdrawal_cap_def tr_require_recipient_def require_allowed_recipient_local_def
        is_recipient_allowed_def tr_guarded_def with_guard_def acquire_guard_def release_guard_def record_withdrawal_def set_epoch_def
        MAX_AMOUNT_def opened_facts tr_eval del: One_nat_def cong: rbind_weak_cong)
  then obtain s calls where s: "withdraw vault (noon 95000) opened 10 7 50 300 = Inr (s, calls)" by blast
  from withdraw_effect[OF s] s show ?thesis by (simp add: get_collected_def opened_facts)
qed

text \<open>Nobody has signed this call.\<close>

lemma refund_needs_no_signature_witness:
  "\<exists>s'. refund_fee vault (sample_env\<lparr>authorised := (\<lambda>_. False)\<rparr>) opened 6 7 400 99 = Inr (s', [Transfer 7 1 99 400])"
  using refund_needs_no_signature[of opened 6 7 400 vault "sample_env\<lparr>authorised := (\<lambda>_. False)\<rparr>" 99]
  by (simp add: opened_facts tr_token_listed_def get_collected_def i128_sub_def i128_fit_def i128_min_def i128_max_def)

lemma sweep_step: "\<exists>s calls. sweep vault (noon 95000) opened 7 = Inr (s, calls)"
  by (simp add: sweep_def tr_guarded_def with_guard_def acquire_guard_def release_guard_def opened_facts bps_of_def
      i128_sat_sub_def i128_clamp_def tr_eval del: One_nat_def)

theorem sweep_pays_all_witness:
  "\<exists>s calls. sweep vault (noon 95000) opened 7 = Inr (s, calls) \<and> moved_out 7 1 calls = 500 \<and> get_collected s 7 = 0"
proof -
  from sweep_step obtain s calls where s: "sweep vault (noon 95000) opened 7 = Inr (s, calls)" by blast
  have "te_bps_of vault = (\<lambda>d b. te_lift (bps_of d b))" "get_collected opened 7 \<le> i128_max"
    by (simp_all add: get_collected_def opened_facts i128_max_def)
  from sweep_pays_all[OF opened_reachable this(1) s this(2)] s show ?thesis
    by (simp add: Let_def get_collected_def get_reserve_balance_def opened_facts i128_sat_sub_def i128_clamp_def i128_max_def i128_min_def)
qed

definition capped :: tr_state where
  "capped = opened\<lparr>tr_cap := [7 \<mapsto> 400], tr_epoch_start := [7 \<mapsto> 90000]\<rparr>"

definition two_withdrawals :: "(treasury_env \<times> env \<times> address \<times> address \<times> i128) list" where
  "two_withdrawals = [(vault, noon 95000, 10, 50, 100), (vault, noon 96000, 10, 50, 100)]"

lemma capped_run: "\<exists>s. withdraw_all 7 two_withdrawals capped = Inr s"
  by (simp add: two_withdrawals_def capped_def do_withdraw_def tr_require_not_paused_def enforce_rate_limit_def enforce_rate_limit_local_def
      get_withdrawal_cap_def tr_require_recipient_def require_allowed_recipient_local_def is_recipient_allowed_def tr_guarded_def with_guard_def
      acquire_guard_def release_guard_def record_withdrawal_def set_epoch_def u64_sat_add_def EPOCH_DURATION_def MAX_AMOUNT_def opened_facts tr_eval
      del: One_nat_def cong: rbind_weak_cong)

theorem daily_withdrawals_within_cap_witness:
  "\<exists>s. withdraw_all 7 two_withdrawals capped = Inr s \<and> withdrawn_today capped 7 + (\<Sum>(c, e, a, r, n)\<leftarrow>two_withdrawals. n) \<le> 400"
proof -
  from capped_run obtain s where s: "withdraw_all 7 two_withdrawals capped = Inr s" by blast
  have "get_withdrawal_cap capped 7 = 400" "tr_epoch_start capped 7 = Some 90000" by (simp_all add: capped_def get_withdrawal_cap_def)
  with daily_withdrawals_within_cap[OF s, of 90000]
  have "withdrawn_today capped 7 + (\<Sum>(c, e, a, r, n)\<leftarrow>two_withdrawals. n) \<le> 400"
    by (simp add: two_withdrawals_def EPOCH_DURATION_def u64_max_def)
  with s show ?thesis by blast
qed

end
