(* ===== verification/Vesting.thy ===== *)
theory Vesting
  imports Kora_Validation
begin

text \<open>
  Vesting of granted tokens (\<open>contracts/vesting/src/lib.rs\<close>).  The source calls \<open>calculate_vested_at\<close> without
  defining it, and defines \<open>calculate_vested\<close> twice: the first body computes the vested amount from a variable
  \<open>at_time\<close> that it does not bind, the second calls \<open>calculate_vested_at\<close>.  The function that is missing is the
  argument \<open>cva\<close> of the operations; \<open>vested_body\<close> is the first body, with \<open>at_time\<close> as an argument.
\<close>

section \<open>Data\<close>

text \<open>The last constructor is used by \<open>create_grant\<close> but missing in the enum.\<close>

datatype VestingError =
    VE_AlreadyInitialized | VE_NotAdmin | VE_NotInitialized | VE_InvalidAddress | VE_InvalidAmount | VE_InvalidVestingSchedule
  | VE_GrantAlreadyExists | VE_GrantNotFound | VE_InsufficientVestedBalance | VE_GrantAlreadyRevoked | VE_ArithmeticOverflow
  | VE_NoUpgradeProposed | VE_UpgradeTimelockNotElapsed | VE_InvalidSchedule

type_synonym 'a ve_result = "(VestingError, 'a) result"

definition ve_from_common :: "CommonError \<Rightarrow> VestingError" where
  "ve_from_common c =
     (case c of CE_InvalidAmount \<Rightarrow> VE_InvalidAmount | CE_InvalidAddress \<Rightarrow> VE_InvalidAddress
      | CE_ArithmeticOverflow \<Rightarrow> VE_ArithmeticOverflow | _ \<Rightarrow> VE_InvalidAmount)"

record VestingGrant =
  vg_beneficiary :: address
  vg_total_amount :: i128
  vg_start_time :: u64
  vg_cliff_duration :: u64
  vg_vesting_duration :: u64
  vg_released_amount :: i128
  vg_revoked :: bool
  vg_revoked_at :: "u64 option"

record vs_state =
  vs_admin :: "address option"
  vs_token :: "address option"
  vs_grant :: "address \<Rightarrow> VestingGrant option"
  vs_upgrade :: "(bytes \<times> u64) option"

definition vs_empty :: vs_state where
  "vs_empty = \<lparr>vs_admin = None, vs_token = None, vs_grant = (\<lambda>_. None), vs_upgrade = None\<rparr>"

section \<open>The vested amount\<close>

definition vested_body :: "u64 \<Rightarrow> u64 \<Rightarrow> VestingGrant \<Rightarrow> i128 ve_result" where
  "vested_body now at_time g =
     (let effective_time = (if vg_revoked g then or_else (vg_revoked_at g) now else at_time) in
      if effective_time < vg_start_time g then Inr 0
      else
        rbind (ok_or (u64_sub effective_time (vg_start_time g)) (Err VE_ArithmeticOverflow)) (\<lambda>elapsed.
        if elapsed < vg_cliff_duration g then Inr 0
        else if elapsed \<ge> vg_vesting_duration g then Inr (vg_total_amount g)
        else ok_or (Option.bind (i128_mul (vg_total_amount g) (int elapsed)) (\<lambda>v. i128_div v (int (vg_vesting_duration g))))
               (Err VE_ArithmeticOverflow)))"

type_synonym vested_at = "VestingGrant \<Rightarrow> u64 \<Rightarrow> i128 ve_result"

definition calculate_vested :: "vested_at \<Rightarrow> env \<Rightarrow> VestingGrant \<Rightarrow> i128 ve_result" where
  "calculate_vested cva e g = cva g (timestamp e)"

section \<open>Entry points\<close>

definition vs_require_admin :: "vs_state \<Rightarrow> address \<Rightarrow> unit ve_result" where
  "vs_require_admin s a =
     rbind (ok_or (vs_admin s) (Err VE_NotInitialized)) (\<lambda>admin. if admin \<noteq> a then Inl (Err VE_NotAdmin) else Inr ())"

definition vs_initialize :: "env \<Rightarrow> vs_state \<Rightarrow> address \<Rightarrow> address \<Rightarrow> vs_state ve_result" where
  "vs_initialize e s admin token =
     (if vs_admin s \<noteq> None then Inl (Err VE_AlreadyInitialized)
      else
        rbind (map_err ve_from_common (require_not_self e admin)) (\<lambda>_.
        rbind (map_err ve_from_common (require_not_self e token)) (\<lambda>_.
        Inr (s\<lparr>vs_admin := Some admin, vs_token := Some token\<rparr>))))"

definition put_grant :: "address \<Rightarrow> VestingGrant \<Rightarrow> vs_state \<Rightarrow> vs_state" where
  "put_grant b g s = s\<lparr>vs_grant := (vs_grant s)(b \<mapsto> g)\<rparr>"

definition create_grant ::
  "env \<Rightarrow> vs_state \<Rightarrow> address \<Rightarrow> address \<Rightarrow> i128 \<Rightarrow> u64 \<Rightarrow> u64 \<Rightarrow> u64 \<Rightarrow> vs_state ve_result" where
  "create_grant e s admin beneficiary total_amount start_time cliff_duration vesting_duration =
     rbind (require_auth e admin) (\<lambda>_.
     rbind (vs_require_admin s admin) (\<lambda>_.
     rbind (map_err ve_from_common (require_not_self e beneficiary)) (\<lambda>_.
     rbind (map_err ve_from_common (require_non_negative_amount total_amount)) (\<lambda>_.
     if total_amount \<le> 0 then Inl (Err VE_InvalidAmount)
     else if vesting_duration \<le> cliff_duration then Inl (Err VE_InvalidSchedule)
     else if vs_grant s beneficiary \<noteq> None then Inl (Err VE_GrantAlreadyExists)
     else Inr (put_grant beneficiary \<lparr>vg_beneficiary = beneficiary, vg_total_amount = total_amount, vg_start_time = start_time,
            vg_cliff_duration = cliff_duration, vg_vesting_duration = vesting_duration, vg_released_amount = 0, vg_revoked = False,
            vg_revoked_at = None\<rparr> s)))))"

definition vs_release :: "vested_at \<Rightarrow> env \<Rightarrow> vs_state \<Rightarrow> address \<Rightarrow> (vs_state \<times> ext_call list) ve_result" where
  "vs_release cva e s beneficiary =
     rbind (ok_or (vs_grant s beneficiary) (Err VE_GrantNotFound)) (\<lambda>g.
     rbind (calculate_vested cva e g) (\<lambda>vested.
     rbind (ok_or (i128_sub vested (vg_released_amount g)) (Err VE_ArithmeticOverflow)) (\<lambda>releasable.
     if releasable \<le> 0 then Inl (Err VE_InsufficientVestedBalance)
     else
       rbind (ok_or (i128_add (vg_released_amount g) releasable) (Err VE_ArithmeticOverflow)) (\<lambda>released.
       rbind (ok_or (vs_token s) (Err VE_NotInitialized)) (\<lambda>token.
       Inr (put_grant beneficiary (g\<lparr>vg_released_amount := released\<rparr>) s, [Transfer token (self_addr e) beneficiary releasable]))))))"

definition revoke_grant :: "env \<Rightarrow> vs_state \<Rightarrow> address \<Rightarrow> address \<Rightarrow> vs_state ve_result" where
  "revoke_grant e s admin beneficiary =
     rbind (require_auth e admin) (\<lambda>_.
     rbind (vs_require_admin s admin) (\<lambda>_.
     rbind (ok_or (vs_grant s beneficiary) (Err VE_GrantNotFound)) (\<lambda>g.
     if vg_revoked g then Inl (Err VE_GrantAlreadyRevoked)
     else Inr (put_grant beneficiary (g\<lparr>vg_revoked := True, vg_revoked_at := Some (timestamp e)\<rparr>) s))))"

definition get_vested_balance :: "vested_at \<Rightarrow> env \<Rightarrow> vs_state \<Rightarrow> address \<Rightarrow> i128 ve_result" where
  "get_vested_balance cva e s b = (case vs_grant s b of None \<Rightarrow> Inr 0 | Some g \<Rightarrow> calculate_vested cva e g)"

definition get_unvested_balance :: "vested_at \<Rightarrow> env \<Rightarrow> vs_state \<Rightarrow> address \<Rightarrow> i128 ve_result" where
  "get_unvested_balance cva e s b =
     (case vs_grant s b of
        None \<Rightarrow> Inr 0
      | Some g \<Rightarrow> rbind (calculate_vested cva e g) (\<lambda>vested. ok_or (i128_sub (vg_total_amount g) vested) (Err VE_ArithmeticOverflow)))"

definition get_vested_balance_at :: "vested_at \<Rightarrow> vs_state \<Rightarrow> address \<Rightarrow> u64 \<Rightarrow> i128 ve_result" where
  "get_vested_balance_at cva s b at_time = (case vs_grant s b of None \<Rightarrow> Inr 0 | Some g \<Rightarrow> cva g at_time)"

definition vs_propose_upgrade :: "env \<Rightarrow> vs_state \<Rightarrow> address \<Rightarrow> bytes \<Rightarrow> vs_state ve_result" where
  "vs_propose_upgrade e s admin wasm_hash =
     rbind (require_auth e admin) (\<lambda>_.
     rbind (vs_require_admin s admin) (\<lambda>_. Inr (s\<lparr>vs_upgrade := Some (wasm_hash, timestamp e)\<rparr>)))"

definition vs_execute_upgrade :: "env \<Rightarrow> vs_state \<Rightarrow> address \<Rightarrow> (vs_state \<times> bytes) ve_result" where
  "vs_execute_upgrade e s admin =
     rbind (require_auth e admin) (\<lambda>_.
     rbind (vs_require_admin s admin) (\<lambda>_.
     rbind (ok_or (vs_upgrade s) (Err VE_NoUpgradeProposed)) (\<lambda>(wasm_hash, proposed_at).
     rbind (ok_or (u64_add proposed_at UPGRADE_TIMELOCK_DELAY) Trap) (\<lambda>ready.
     if timestamp e < ready then Inl (Err VE_UpgradeTimelockNotElapsed)
     else Inr (s\<lparr>vs_upgrade := None\<rparr>, wasm_hash)))))"

end
