(* ===== verification/Kora_Sums.thy ===== *)
theory Kora_Sums
  imports Kora_Prelude
begin

text \<open>
  Sums over the entries of a finite map, which several ledgers keep: what an insertion, an update and a
  removal do to them.
\<close>

definition entry_sum :: "('v \<Rightarrow> int) \<Rightarrow> ('k \<Rightarrow> 'v option) \<Rightarrow> int" where
  "entry_sum f m = (\<Sum>k\<in>dom m. f (the (m k)))"

definition entry_at :: "('v \<Rightarrow> int) \<Rightarrow> ('k \<Rightarrow> 'v option) \<Rightarrow> 'k \<Rightarrow> int" where
  "entry_at f m k = (case m k of None \<Rightarrow> 0 | Some v \<Rightarrow> f v)"

lemma entry_at_simps [simp]: "m k = None \<Longrightarrow> entry_at f m k = 0" "m k = Some v \<Longrightarrow> entry_at f m k = f v"
  by (simp_all add: entry_at_def)

lemma entry_sum_empty [simp]: "entry_sum f Map.empty = 0"
  by (simp add: entry_sum_def)

lemma entry_sum_split:
  assumes "finite (dom m)"
  shows "entry_sum f m = entry_at f m k + (\<Sum>l\<in>dom m - {k}. f (the (m l)))"
  using assms by (cases "m k") (auto simp: entry_sum_def entry_at_def sum.remove[of _ k] domIff)

lemma entry_sum_delete:
  assumes "finite (dom m)"
  shows "entry_sum f (m(k := None)) = entry_sum f m - entry_at f m k"
proof -
  have "entry_sum f (m(k := None)) = (\<Sum>l\<in>dom m - {k}. f (the (m l)))" unfolding entry_sum_def by (rule sum.cong) auto
  with entry_sum_split[OF assms, of f k] show ?thesis by simp
qed

lemma entry_sum_update:
  assumes "finite (dom m)"
  shows "entry_sum f (m(k \<mapsto> v)) = entry_sum f m - entry_at f m k + f v"
proof -
  have "entry_sum f (m(k \<mapsto> v)) = f v + (\<Sum>l\<in>dom m - {k}. f (the ((m(k \<mapsto> v)) l)))"
    using assms entry_sum_split[of "m(k \<mapsto> v)" f k] by (simp add: entry_at_def)
  also have "(\<Sum>l\<in>dom m - {k}. f (the ((m(k \<mapsto> v)) l))) = (\<Sum>l\<in>dom m - {k}. f (the (m l)))" by (rule sum.cong) auto
  finally show ?thesis using entry_sum_split[OF assms, of f k] by linarith
qed

lemma entry_sum_ge:
  assumes "finite (dom m)" "\<And>k v. m k = Some v \<Longrightarrow> 0 \<le> f v"
  shows "entry_at f m k \<le> entry_sum f m" "0 \<le> entry_sum f m"
proof -
  have "0 \<le> (\<Sum>l\<in>dom m - {k}. f (the (m l)))" by (rule sum_nonneg) (use assms(2) in auto)
  with entry_sum_split[OF assms(1), of f k] show "entry_at f m k \<le> entry_sum f m" by linarith
  show "0 \<le> entry_sum f m" unfolding entry_sum_def by (rule sum_nonneg) (use assms(2) in auto)
qed

lemma entry_sum_ge2:
  assumes "finite (dom m)" "\<And>k v. m k = Some v \<Longrightarrow> 0 \<le> f v" "k \<noteq> l"
  shows "entry_at f m k + entry_at f m l \<le> entry_sum f m"
proof -
  have "entry_at f (m(k := None)) l \<le> entry_sum f (m(k := None))"
    by (rule entry_sum_ge(1)) (use assms(1,2) in \<open>auto split: if_splits\<close>)
  then show ?thesis using entry_sum_delete[OF assms(1), of f k] assms(3) by (simp add: entry_at_def)
qed

end
