(* ===== verification/Vesting_Props.thy ===== *)
theory Vesting_Props
  imports Vesting Kora_Sums
begin

text \<open>
  Vesting over its runs.  \<open>vesting_rule\<close> states what the operations rely on of the vested amount; it is
  interpreted on the body that the source gives for it.
\<close>

section \<open>The interface of the vested amount\<close>

definition unrevoked :: "VestingGrant \<Rightarrow> VestingGrant" where
  "unrevoked g = g\<lparr>vg_revoked := False, vg_revoked_at := None, vg_released_amount := 0\<rparr>"

lemma unrevoked_simps [simp]:
  "unrevoked (g\<lparr>vg_released_amount := n\<rparr>) = unrevoked g" "vg_total_amount (unrevoked g) = vg_total_amount g"
  "unrevoked (g\<lparr>vg_revoked := b, vg_revoked_at := t\<rparr>) = unrevoked g"
  by (simp_all add: unrevoked_def)

definition effective :: "VestingGrant \<Rightarrow> u64 \<Rightarrow> u64" where
  "effective g t = (if vg_revoked g then or_else (vg_revoked_at g) t else t)"

text \<open>Runs of the operations with the time of the last one and the token calls.\<close>

datatype (plugins only: code) vs_op =
    Vs_create address address i128 u64 u64 u64
  | Vs_release address
  | Vs_revoke address address
  | Vs_propose_upgrade address bytes
  | Vs_execute_upgrade address

fun vs_exec :: "vested_at \<Rightarrow> env \<Rightarrow> vs_op \<Rightarrow> vs_state \<Rightarrow> (vs_state \<times> ext_call list) ve_result" where
  "vs_exec cva e (Vs_create a b n t c d) s = rbind (create_grant e s a b n t c d) (\<lambda>s. Inr (s, []))"
| "vs_exec cva e (Vs_release b) s = vs_release cva e s b"
| "vs_exec cva e (Vs_revoke a b) s = rbind (revoke_grant e s a b) (\<lambda>s. Inr (s, []))"
| "vs_exec cva e (Vs_propose_upgrade a h) s = rbind (vs_propose_upgrade e s a h) (\<lambda>s. Inr (s, []))"
| "vs_exec cva e (Vs_execute_upgrade a) s = rbind (vs_execute_upgrade e s a) (\<lambda>(s, _). Inr (s, []))"

inductive vs_runs :: "vested_at \<Rightarrow> address \<Rightarrow> u64 \<Rightarrow> vs_state \<Rightarrow> ext_call list \<Rightarrow> bool" for cva self where
  vs_start: "vs_initialize e vs_empty a t = Inr s \<Longrightarrow> vs_runs cva self (timestamp e) s []"
| vs_step: "vs_runs cva self t s cs \<Longrightarrow> t \<le> timestamp e \<Longrightarrow> self_addr e = self \<Longrightarrow> vs_exec cva e c s = Inr (s', cs')
    \<Longrightarrow> vs_runs cva self (timestamp e) s' (cs @ cs')"

text \<open>A grant at time \<open>t\<close>: what was released is zero or was vested at some time up to the one that counts.\<close>

definition vesting_sound :: "vested_at \<Rightarrow> u64 \<Rightarrow> VestingGrant \<Rightarrow> bool" where
  "vesting_sound cva t g \<longleftrightarrow> 0 < vg_total_amount g \<and> (vg_revoked g \<longrightarrow> (\<exists>r\<le>t. vg_revoked_at g = Some r)) \<and>
     (vg_released_amount g = 0 \<or> (\<exists>u\<le>effective g t. cva (unrevoked g) u = Inr (vg_released_amount g)))"

definition vestings_sound :: "vested_at \<Rightarrow> u64 \<Rightarrow> address \<Rightarrow> vs_state \<Rightarrow> ext_call list \<Rightarrow> bool" where
  "vestings_sound cva t self s cs \<longleftrightarrow> finite (dom (vs_grant s)) \<and> (\<forall>b g. vs_grant s b = Some g \<longrightarrow> vesting_sound cva t g) \<and>
     (\<exists>tok. vs_token s = Some tok \<and> moved_out tok self cs = entry_sum vg_released_amount (vs_grant s))"

locale vesting_rule =
  fixes cva :: vested_at
  assumes vested_range: "cva g t = Inr v \<Longrightarrow> 0 \<le> vg_total_amount g \<Longrightarrow> 0 \<le> v \<and> v \<le> vg_total_amount g"
    and vested_mono: "cva g t = Inr v \<Longrightarrow> cva g u = Inr v' \<Longrightarrow> t \<le> u \<Longrightarrow> 0 \<le> vg_total_amount g \<Longrightarrow> \<not> vg_revoked g \<Longrightarrow> v \<le> v'"
    and vested_effective: "vg_revoked g \<longrightarrow> vg_revoked_at g \<noteq> None \<Longrightarrow> cva g t = cva (unrevoked g) (effective g t)"
begin

lemma grant_later:
  assumes "vesting_sound cva t g" "t \<le> u"
  shows "vesting_sound cva u g"
proof -
  have "effective g t \<le> effective g u" using assms by (auto simp: effective_def vesting_sound_def)
  with assms show ?thesis unfolding vesting_sound_def by (meson order_trans)
qed

lemma released_le_vested:
  assumes "vesting_sound cva t g" "t \<le> u" "cva g u = Inr v"
  shows "0 \<le> vg_released_amount g \<and> vg_released_amount g \<le> v \<and> v \<le> vg_total_amount g"
proof -
  from grant_later[OF assms(1,2)] have g: "0 < vg_total_amount g" "vg_revoked g \<longrightarrow> vg_revoked_at g \<noteq> None"
    "vg_released_amount g = 0 \<or> (\<exists>w\<le>effective g u. cva (unrevoked g) w = Inr (vg_released_amount g))" by (auto simp: vesting_sound_def)
  have v: "cva (unrevoked g) (effective g u) = Inr v" using vested_effective[OF g(2), of u] assms(3) by simp
  have "\<not> vg_revoked (unrevoked g)" by (simp add: unrevoked_def)
  with g(1,3) v vested_mono[of "unrevoked g" _ _ "effective g u" v] vested_range[of "unrevoked g"] show ?thesis by fastforce
qed

lemma release_sound:
  assumes "vestings_sound cva t self s cs" "vs_release cva e s b = Inr (s', cs')" "t \<le> timestamp e" "self_addr e = self"
  shows "vestings_sound cva (timestamp e) self s' (cs @ cs')"
proof -
  from assms(1) obtain tok where s: "finite (dom (vs_grant s))" "\<And>b g. vs_grant s b = Some g \<Longrightarrow> vesting_sound cva t g"
    "vs_token s = Some tok" "moved_out tok self cs = entry_sum vg_released_amount (vs_grant s)" unfolding vestings_sound_def by blast
  from assms(2) s(3) obtain g v where g: "vs_grant s b = Some g" "cva g (timestamp e) = Inr v"
    "s' = put_grant b (g\<lparr>vg_released_amount := v\<rparr>) s" "cs' = [Transfer tok (self_addr e) b (v - vg_released_amount g)]"
    by (auto simp: vs_release_def calculate_vested_def)
  have later: "vesting_sound cva (timestamp e) g" by (rule grant_later[OF s(2)[OF g(1)] assms(3)])
  then have "cva (unrevoked g) (effective g (timestamp e)) = Inr v"
    using vested_effective[of g "timestamp e"] g(2) by (auto simp: vesting_sound_def)
  with later have "vesting_sound cva (timestamp e) (g\<lparr>vg_released_amount := v\<rparr>)" by (auto simp: vesting_sound_def effective_def)
  moreover have "entry_sum vg_released_amount (vs_grant s') = entry_sum vg_released_amount (vs_grant s) - vg_released_amount g + v"
    using entry_sum_update[OF s(1), of vg_released_amount b "g\<lparr>vg_released_amount := v\<rparr>"] g(1) by (simp add: g(3) put_grant_def)
  ultimately show ?thesis
    using s g(3,4) grant_later[OF s(2) assms(3)] assms(4) unfolding vestings_sound_def by (auto simp: put_grant_def)
qed

lemma create_sound:
  assumes "vestings_sound cva t self s cs" "create_grant e s a b n st c d = Inr s'" "t \<le> timestamp e"
  shows "vestings_sound cva (timestamp e) self s' cs"
proof -
  from assms(2) obtain g where g: "vs_grant s b = None" "s' = put_grant b g s" "0 < vg_total_amount g" "\<not> vg_revoked g" "vg_released_amount g = 0"
    by (auto simp: create_grant_def)
  from assms(1) have s: "finite (dom (vs_grant s))" "\<And>b g. vs_grant s b = Some g \<Longrightarrow> vesting_sound cva t g" by (auto simp: vestings_sound_def)
  have "entry_sum vg_released_amount (vs_grant s') = entry_sum vg_released_amount (vs_grant s)"
    using entry_sum_update[OF s(1), of vg_released_amount b g] g by (simp add: put_grant_def)
  moreover have "vesting_sound cva (timestamp e) g" using g by (simp add: vesting_sound_def)
  ultimately show ?thesis
    using assms(1) g(2) grant_later[OF s(2) assms(3)] unfolding vestings_sound_def by (auto simp: put_grant_def)
qed

lemma revoke_sound:
  assumes "vestings_sound cva t self s cs" "revoke_grant e s a b = Inr s'" "t \<le> timestamp e"
  shows "vestings_sound cva (timestamp e) self s' cs"
proof -
  from assms(2) obtain g where g: "vs_grant s b = Some g" "\<not> vg_revoked g"
    "s' = put_grant b (g\<lparr>vg_revoked := True, vg_revoked_at := Some (timestamp e)\<rparr>) s" by (auto simp: revoke_grant_def)
  let ?g = "g\<lparr>vg_revoked := True, vg_revoked_at := Some (timestamp e)\<rparr>"
  from assms(1) have s: "finite (dom (vs_grant s))" "\<And>b g. vs_grant s b = Some g \<Longrightarrow> vesting_sound cva t g" by (auto simp: vestings_sound_def)
  have "entry_sum vg_released_amount (vs_grant s') = entry_sum vg_released_amount (vs_grant s)"
    using entry_sum_update[OF s(1), of vg_released_amount b ?g] g by (simp add: put_grant_def)
  moreover have "vesting_sound cva (timestamp e) ?g"
    using grant_later[OF s(2)[OF g(1)] assms(3)] g(2) by (auto simp: vesting_sound_def effective_def)
  ultimately show ?thesis
    using assms(1) g(3) grant_later[OF s(2) assms(3)] unfolding vestings_sound_def by (auto simp: put_grant_def)
qed

lemma vs_runs_sound:
  assumes "vs_runs cva self t s cs"
  shows "vestings_sound cva t self s cs"
  using assms
proof (induction rule: vs_runs.induct)
  case (vs_start e a t s)
  then show ?case by (auto simp: vs_initialize_def vs_empty_def vestings_sound_def split: if_splits)
next
  case (vs_step t s cs e c s' cs')
  have keep: "vestings_sound cva (timestamp e) self s' cs" if "vs_grant s' = vs_grant s" "vs_token s' = vs_token s"
    using vs_step.IH that grant_later[OF _ vs_step.hyps(2)] unfolding vestings_sound_def by auto
  show ?case
  proof (cases c)
    case (Vs_create a b n st k d)
    with vs_step.hyps(4) create_sound[OF vs_step.IH _ vs_step.hyps(2)] show ?thesis by auto
  next
    case (Vs_release b)
    with vs_step.hyps(4) release_sound[OF vs_step.IH _ vs_step.hyps(2,3)] show ?thesis by auto
  next
    case (Vs_revoke a b)
    with vs_step.hyps(4) revoke_sound[OF vs_step.IH _ vs_step.hyps(2)] show ?thesis by auto
  next
    case (Vs_propose_upgrade a h)
    with vs_step.hyps(4) keep show ?thesis by (auto simp: vs_propose_upgrade_def)
  next
    case (Vs_execute_upgrade a)
    with vs_step.hyps(4) keep show ?thesis by (auto simp: vs_execute_upgrade_def)
  qed
qed

lemma released_bounds:
  assumes "vs_runs cva self t s cs" "vs_grant s b = Some g" "cva g t = Inr v" "vs_token s = Some tok"
  shows "0 \<le> vg_released_amount g \<and> vg_released_amount g \<le> v \<and> v \<le> vg_total_amount g \<and>
    moved_out tok self cs = entry_sum vg_released_amount (vs_grant s)"
  using vs_runs_sound[OF assms(1)] released_le_vested[of t g t v] assms(2-4) by (auto simp: vestings_sound_def)

end

section \<open>The body of the source as a vesting rule\<close>

definition vested_now :: vested_at where "vested_now g t = vested_body t t g"

lemma vested_now_unrevoked:
  assumes "\<not> vg_revoked g"
  shows "vested_now g t = Inr v \<longleftrightarrow>
    (if t < vg_start_time g + vg_cliff_duration g then v = 0
     else if t \<ge> vg_start_time g + vg_vesting_duration g then v = vg_total_amount g
     else i128_min \<le> vg_total_amount g * int (t - vg_start_time g) \<and> vg_total_amount g * int (t - vg_start_time g) \<le> i128_max \<and>
       i128_div (vg_total_amount g * int (t - vg_start_time g)) (int (vg_vesting_duration g)) = Some v)"
  using assms by (auto simp: vested_now_def vested_body_def Let_def bind_eq_Some_conv)

lemma linear_part:
  assumes "i128_div (T * int k) (int d) = Some v" "0 \<le> T" "k < d" "T * int k \<le> i128_max"
  shows "v = T * int k div int d" "0 \<le> v" "v \<le> T"
proof -
  show v: "v = T * int k div int d" using i128_div_nonneg[of "T * int k" "int d"] assms by simp
  show "0 \<le> v" unfolding v using assms(2,3) by (simp add: pos_imp_zdiv_nonneg_iff)
  have "T * int k \<le> T * int d" using assms(2,3) by (intro mult_left_mono) auto
  then have "T * int k div int d \<le> T * int d div int d" using assms(3) by (intro zdiv_mono1) auto
  then show "v \<le> T" unfolding v using assms(3) by simp
qed

text \<open>The three phases of a grant that is not revoked.\<close>

lemma vested_phases:
  assumes "vested_now g t = Inr v" "\<not> vg_revoked g" "0 \<le> vg_total_amount g"
  obtains "t < vg_start_time g + vg_cliff_duration g" "v = 0"
  | "vg_start_time g + vg_cliff_duration g \<le> t" "vg_start_time g + vg_vesting_duration g \<le> t" "v = vg_total_amount g"
  | "vg_start_time g + vg_cliff_duration g \<le> t" "t < vg_start_time g + vg_vesting_duration g"
    "v = vg_total_amount g * int (t - vg_start_time g) div int (vg_vesting_duration g)" "0 \<le> v" "v \<le> vg_total_amount g"
proof -
  note v = vested_now_unrevoked[OF assms(2), of t v, THEN iffD1, OF assms(1)]
  show thesis
  proof (cases "t < vg_start_time g + vg_cliff_duration g")
    case True
    with v show thesis by (intro that(1)) auto
  next
    case cliff: False
    show thesis
    proof (cases "vg_start_time g + vg_vesting_duration g \<le> t")
      case True
      with v cliff show thesis by (intro that(2)) auto
    next
      case False
      with cliff have k: "t - vg_start_time g < vg_vesting_duration g" by linarith
      from linear_part[OF _ assms(3) k] v cliff False show thesis by (intro that(3)) auto
    qed
  qed
qed

lemma vested_now_mono:
  assumes "vested_now g t = Inr v" "vested_now g u = Inr w" "t \<le> u" "0 \<le> vg_total_amount g" "\<not> vg_revoked g"
  shows "v \<le> w"
  using assms(1,5,4)
proof (cases rule: vested_phases)
  case 1
  from assms(2,5,4) have "0 \<le> w" by (cases rule: vested_phases) (use assms(4) in auto)
  with 1 show ?thesis by simp
next
  case 2
  from assms(2,5,4) show ?thesis by (cases rule: vested_phases) (use 2 assms(3) in auto)
next
  case 3
  from assms(2,5,4) show ?thesis
  proof (cases rule: vested_phases)
    case w: 3
    have "vg_total_amount g * int (t - vg_start_time g) \<le> vg_total_amount g * int (u - vg_start_time g)"
      using assms(3,4) by (intro mult_left_mono) auto
    then show ?thesis unfolding 3(3) w(3) using w(2) 3(1) assms(3) by (intro zdiv_mono1) auto
  qed (use 3 assms(3) in auto)
qed

lemma vested_now_effective:
  "vg_revoked g \<longrightarrow> vg_revoked_at g \<noteq> None \<Longrightarrow> vested_now g t = vested_now (unrevoked g) (effective g t)"
  by (auto simp: vested_now_def vested_body_def unrevoked_def effective_def Let_def)

lemma vested_now_range:
  assumes "vested_now g t = Inr v" "0 \<le> vg_total_amount g"
  shows "0 \<le> v \<and> v \<le> vg_total_amount g"
proof -
  define h where "h = g\<lparr>vg_revoked := False\<rparr>"
  have "vested_now g t = vested_now h (effective g t)"
    by (cases "vg_revoked_at g") (auto simp: vested_now_def vested_body_def h_def effective_def Let_def)
  with assms have "vested_now h (effective g t) = Inr v" "\<not> vg_revoked h" "0 \<le> vg_total_amount h" "vg_total_amount h = vg_total_amount g"
    by (simp_all add: h_def)
  then show ?thesis by (cases rule: vested_phases) (use assms(2) in auto)
qed

interpretation vn_rule: vesting_rule vested_now
  by unfold_locales (fact vested_now_range, rule vested_now_mono, assumption+, fact vested_now_effective)

section \<open>Properties\<close>

text \<open>C33: with the vested amount the source spells out, a grant never releases more than what has vested by then,
  nothing beyond its total, and the tokens that have left the contract are exactly the released amounts.\<close>

theorem released_within_vested:
  assumes "vs_runs vested_now self t s cs" "vs_grant s b = Some g" "vested_now g t = Inr v" "vs_token s = Some tok"
  shows "0 \<le> vg_released_amount g \<and> vg_released_amount g \<le> v \<and> v \<le> vg_total_amount g \<and>
    moved_out tok self cs = (\<Sum>a\<in>dom (vs_grant s). vg_released_amount (the (vs_grant s a)))"
  using vn_rule.released_bounds[OF assms] by (simp add: entry_sum_def)

text \<open>the snapshot of a revoked grant ignores the time that is asked for: it is the amount vested when the
  grant was revoked, also for a time before that, or before the grant began.\<close>

theorem snapshot_ignores_time_when_revoked:
  assumes "vs_grant s b = Some g" "vg_revoked g" "vg_revoked_at g = Some r"
  shows "get_vested_balance_at vested_now s b t = vested_now (unrevoked g) r"
  using vested_now_effective[of g t] assms by (simp add: get_vested_balance_at_def effective_def)

section \<open>A concrete grant\<close>

text \<open>Beneficiary 30 gets 1000 over 100 seconds from time 1000 on, with a cliff of 10; half is released at 1050, and the
  admin revokes the grant at 1060.\<close>

definition vs_at :: "u64 \<Rightarrow> env" where "vs_at t = sample_env\<lparr>timestamp := t\<rparr>"

lemma vs_at_simps [simp]: "timestamp (vs_at t) = t" "authorised (vs_at t) a" "self_addr (vs_at t) = 1"
  by (simp_all add: vs_at_def)

definition grant_30 :: "i128 \<Rightarrow> u64 option \<Rightarrow> VestingGrant" where
  "grant_30 released revoked = \<lparr>vg_beneficiary = 30, vg_total_amount = 1000, vg_start_time = 1000, vg_cliff_duration = 10,
     vg_vesting_duration = 100, vg_released_amount = released, vg_revoked = (revoked \<noteq> None), vg_revoked_at = revoked\<rparr>"

definition vs_ready :: vs_state where "vs_ready = vs_empty\<lparr>vs_admin := Some 10, vs_token := Some 70\<rparr>"

lemma vested_grant_30: "vested_now (grant_30 n None) 1050 = Inr 500" "vested_now (grant_30 n None) 1060 = Inr 600"
  by (simp_all add: vested_now_unrevoked grant_30_def i128_div_nonneg i128_min_def i128_max_def)

lemma vs_run_30: "vs_runs vested_now 1 1050 (put_grant 30 (grant_30 500 None) (put_grant 30 (grant_30 0 None) vs_ready)) [Transfer 70 1 30 500]"
proof -
  have "vs_initialize (vs_at 1000) vs_empty 10 70 = Inr vs_ready"
    by (simp add: vs_initialize_def vs_empty_def vs_ready_def require_not_self_def)
  from vs_start[OF this] have start: "vs_runs vested_now 1 1000 vs_ready []" by simp
  have "vs_exec vested_now (vs_at 1000) (Vs_create 10 30 1000 1000 10 100) vs_ready = Inr (put_grant 30 (grant_30 0 None) vs_ready, [])"
    by (simp add: create_grant_def vs_require_admin_def require_auth_def require_not_self_def require_non_negative_amount_def vs_ready_def
        vs_empty_def grant_30_def)
  from vs_step[OF start _ _ this] have made: "vs_runs vested_now 1 1000 (put_grant 30 (grant_30 0 None) vs_ready) []" by simp
  have "vs_exec vested_now (vs_at 1050) (Vs_release 30) (put_grant 30 (grant_30 0 None) vs_ready)
      = Inr (put_grant 30 (grant_30 500 None) (put_grant 30 (grant_30 0 None) vs_ready), [Transfer 70 1 30 500])"
    using vested_grant_30(1)[of 0]
    by (simp add: vs_release_def calculate_vested_def put_grant_def vs_ready_def vs_empty_def grant_30_def i128_min_def i128_max_def)
  from vs_step[OF made _ _ this] show ?thesis by simp
qed

theorem released_within_vested_witness:
  "\<exists>s. vs_runs vested_now 1 1050 s [Transfer 70 1 30 500] \<and> vs_grant s 30 = Some (grant_30 500 None) \<and>
     vg_released_amount (grant_30 500 None) \<le> 500 \<and>
     moved_out 70 1 [Transfer 70 1 30 500] = (\<Sum>a\<in>dom (vs_grant s). vg_released_amount (the (vs_grant s a)))"
proof -
  let ?s = "put_grant 30 (grant_30 500 None) (put_grant 30 (grant_30 0 None) vs_ready)"
  have "vs_grant ?s 30 = Some (grant_30 500 None)" "vs_token ?s = Some 70" by (simp_all add: put_grant_def vs_ready_def)
  from released_within_vested[OF vs_run_30 this(1) vested_grant_30(1) this(2)] vs_run_30 this(1) show ?thesis by blast
qed

theorem snapshot_ignores_time_when_revoked_witness:
  "\<exists>s. revoke_grant (vs_at 1060) (put_grant 30 (grant_30 0 None) vs_ready) 10 30 = Inr s \<and>
     get_vested_balance_at vested_now s 30 1005 = Inr 600"
proof -
  let ?s = "put_grant 30 (grant_30 0 (Some 1060)) (put_grant 30 (grant_30 0 None) vs_ready)"
  have "revoke_grant (vs_at 1060) (put_grant 30 (grant_30 0 None) vs_ready) 10 30 = Inr ?s"
    by (simp add: revoke_grant_def require_auth_def vs_require_admin_def put_grant_def vs_ready_def grant_30_def)
  moreover have "unrevoked (grant_30 0 (Some 1060)) = grant_30 0 None" by (simp add: unrevoked_def grant_30_def)
  then have "get_vested_balance_at vested_now ?s 30 1005 = Inr 600"
    using snapshot_ignores_time_when_revoked[of ?s 30 "grant_30 0 (Some 1060)" 1060 1005] vested_grant_30(2)[of 0]
    by (simp add: put_grant_def) (simp add: grant_30_def)
  ultimately show ?thesis by blast
qed

end
