(* ===== verification/Dispute_Escrow.thy ===== *)
theory Dispute_Escrow
  imports Kora_Reentrancy Kora_Sums
begin

text \<open>
  The escrow of a disputed repayment (\<open>contracts/dispute_escrow/src/lib.rs\<close>).  The pool is called by the name of its
  functions, several of which it defines more than once; \<open>pool\<close> stands for their answers: the terms of an
  invoice (token, debtor, remaining amount), who holds a position, and whether the pool accepts a reservation or a settlement.
\<close>

section \<open>Data\<close>

definition DISPUTE_TIMEOUT :: u64 where "DISPUTE_TIMEOUT = 7 * 86400"

datatype EscrowError =
    EE_AlreadyInitialized | EE_NotInitialized | EE_Unauthorized | EE_InvalidAmount | EE_AlreadyDisputed | EE_NotFound | EE_Resolved
  | EE_TimeoutNotReached | EE_TimeoutExpired | EE_Reentrancy

type_synonym 'a ee_result = "(EscrowError, 'a) result"

record EscrowDispute =
  ed_invoice_id :: u64
  ed_challenger :: address
  ed_payer :: address
  ed_token :: address
  ed_amount :: i128
  ed_opened_at :: u64
  ed_resolved :: bool
  ed_paid_to_pool :: bool

record de_state =
  de_admin :: "address option"
  de_pool :: "address option"
  de_dispute :: "u64 \<Rightarrow> EscrowDispute option"
  de_lock :: bool

definition de_empty :: de_state where
  "de_empty = \<lparr>de_admin = None, de_pool = None, de_dispute = (\<lambda>_. None), de_lock = False\<rparr>"

text \<open>\<open>None\<close> and \<open>False\<close> are calls that fail, which roll the whole transaction back.\<close>

record pool_view =
  pv_escrow_terms :: "u64 \<Rightarrow> (address \<times> address \<times> i128) option"
  pv_has_position :: "u64 \<Rightarrow> address \<Rightarrow> bool option"
  pv_reserve :: "u64 \<Rightarrow> i128 \<Rightarrow> bool"
  pv_settle :: "u64 \<Rightarrow> i128 \<Rightarrow> bool \<Rightarrow> bool"

section \<open>Entry points\<close>

definition de_guarded ::
  "(de_state \<Rightarrow> (de_state \<times> ext_call list) ee_result) \<Rightarrow> de_state \<Rightarrow> (de_state \<times> ext_call list) ee_result" where
  "de_guarded = with_guard de_lock (\<lambda>b s. s\<lparr>de_lock := b\<rparr>) (\<lambda>_. EE_Reentrancy)"

interpretation de_lockable: lockable de_lock "\<lambda>b s. s\<lparr>de_lock := b\<rparr>"
  by unfold_locales auto

definition de_initialize :: "env \<Rightarrow> de_state \<Rightarrow> address \<Rightarrow> address \<Rightarrow> de_state ee_result" where
  "de_initialize e s admin pool =
     (if de_admin s \<noteq> None then Inl (Err EE_AlreadyInitialized)
      else if admin = pool \<or> admin = self_addr e \<or> pool = self_addr e then Inl (Err EE_Unauthorized)
      else Inr (s\<lparr>de_admin := Some admin, de_pool := Some pool\<rparr>))"

definition put_escrow :: "u64 \<Rightarrow> EscrowDispute \<Rightarrow> de_state \<Rightarrow> de_state" where
  "put_escrow i d s = s\<lparr>de_dispute := (de_dispute s)(i \<mapsto> d)\<rparr>"

definition de_open_dispute ::
  "env \<Rightarrow> pool_view \<Rightarrow> address \<Rightarrow> address \<Rightarrow> u64 \<Rightarrow> i128 \<Rightarrow> de_state \<Rightarrow> (de_state \<times> ext_call list) ee_result" where
  "de_open_dispute e pool challenger payer i amount = de_guarded (\<lambda>s.
     rbind (require_auth e challenger) (\<lambda>_.
     rbind (require_auth e payer) (\<lambda>_.
     if amount \<le> 0 then Inl (Err EE_InvalidAmount)
     else
       rbind (ok_or (de_pool s) (Err EE_NotInitialized)) (\<lambda>_.
       if de_dispute s i \<noteq> None then Inl (Err EE_AlreadyDisputed)
       else
         rbind (ok_or (pv_escrow_terms pool i) Trap) (\<lambda>(asset, sme, remaining).
         if payer \<noteq> sme then Inl (Err EE_Unauthorized)
         else if amount > remaining then Inl (Err EE_InvalidAmount)
         else
           rbind (if challenger \<noteq> sme
                  then rbind (ok_or (pv_has_position pool i challenger) Trap) (\<lambda>owner.
                    if \<not> owner then Inl (Err EE_Unauthorized) else Inr ())
                  else Inr ()) (\<lambda>_.
           let d = \<lparr>ed_invoice_id = i, ed_challenger = challenger, ed_payer = payer, ed_token = asset, ed_amount = amount,
                    ed_opened_at = timestamp e, ed_resolved = False, ed_paid_to_pool = False\<rparr> in
           if \<not> pv_reserve pool i amount then Inl Trap
           else Inr (put_escrow i d s, [Transfer asset payer (self_addr e) amount])))))))"

definition load_open :: "de_state \<Rightarrow> u64 \<Rightarrow> EscrowDispute ee_result" where
  "load_open s i =
     rbind (ok_or (de_dispute s i) (Err EE_NotFound)) (\<lambda>d. if ed_resolved d then Inl (Err EE_Resolved) else Inr d)"

definition de_settle ::
  "env \<Rightarrow> pool_view \<Rightarrow> EscrowDispute \<Rightarrow> bool \<Rightarrow> de_state \<Rightarrow> (de_state \<times> ext_call list) ee_result" where
  "de_settle e pool d pay_pool s =
     rbind (ok_or (de_pool s) (Err EE_NotInitialized)) (\<lambda>pool_addr.
     let d = d\<lparr>ed_resolved := True, ed_paid_to_pool := pay_pool\<rparr> in
     if \<not> pv_settle pool (ed_invoice_id d) (ed_amount d) pay_pool then Inl Trap
     else Inr (put_escrow (ed_invoice_id d) d s,
            [Transfer (ed_token d) (self_addr e) (if pay_pool then pool_addr else ed_payer d) (ed_amount d)]))"

definition resolve_escrow ::
  "env \<Rightarrow> pool_view \<Rightarrow> address \<Rightarrow> u64 \<Rightarrow> bool \<Rightarrow> de_state \<Rightarrow> (de_state \<times> ext_call list) ee_result" where
  "resolve_escrow e pool resolver i pay_pool = de_guarded (\<lambda>s.
     rbind (require_auth e resolver) (\<lambda>_.
     rbind (ok_or (de_admin s) (Err EE_NotInitialized)) (\<lambda>admin.
     if resolver \<noteq> admin then Inl (Err EE_Unauthorized)
     else
       rbind (load_open s i) (\<lambda>d.
       if timestamp e \<ge> min u64_max (ed_opened_at d + DISPUTE_TIMEOUT) then Inl (Err EE_TimeoutExpired)
       else de_settle e pool d pay_pool s))))"

definition resolve_timeout :: "env \<Rightarrow> pool_view \<Rightarrow> u64 \<Rightarrow> de_state \<Rightarrow> (de_state \<times> ext_call list) ee_result" where
  "resolve_timeout e pool i = de_guarded (\<lambda>s.
     rbind (load_open s i) (\<lambda>d.
     if timestamp e < min u64_max (ed_opened_at d + DISPUTE_TIMEOUT) then Inl (Err EE_TimeoutNotReached)
     else de_settle e pool d False s))"

section \<open>Runs\<close>

datatype (plugins only: code) de_op =
    De_open address address u64 i128
  | De_resolve address u64 bool
  | De_timeout u64

fun de_exec :: "env \<Rightarrow> pool_view \<Rightarrow> de_op \<Rightarrow> de_state \<Rightarrow> (de_state \<times> ext_call list) ee_result" where
  "de_exec e p (De_open a b i n) s = de_open_dispute e p a b i n s"
| "de_exec e p (De_resolve a i b) s = resolve_escrow e p a i b s"
| "de_exec e p (De_timeout i) s = resolve_timeout e p i s"

inductive de_runs :: "address \<Rightarrow> de_state \<Rightarrow> ext_call list \<Rightarrow> bool" for self where
  de_start: "self_addr e = self \<Longrightarrow> de_initialize e de_empty a p = Inr s \<Longrightarrow> de_runs self s []"
| de_step: "de_runs self s cs \<Longrightarrow> self_addr e = self \<Longrightarrow> \<not> authorised e self \<Longrightarrow> de_exec e p c s = Inr (s', cs')
    \<Longrightarrow> de_runs self s' (cs @ cs')"

text \<open>What is held in a token for the disputes that are open.\<close>

definition held_for :: "address \<Rightarrow> EscrowDispute \<Rightarrow> i128" where
  "held_for tok d = (if ed_resolved d \<or> ed_token d \<noteq> tok then 0 else ed_amount d)"

definition escrow_sound :: "address \<Rightarrow> de_state \<Rightarrow> ext_call list \<Rightarrow> bool" where
  "escrow_sound self s cs \<longleftrightarrow> \<not> de_lock s \<and> (\<exists>p. de_pool s = Some p \<and> p \<noteq> self) \<and> finite (dom (de_dispute s)) \<and>
     (\<forall>i d. de_dispute s i = Some d \<longrightarrow> ed_invoice_id d = i \<and> 0 < ed_amount d \<and> ed_payer d \<noteq> self) \<and>
     (\<forall>tok. moved_in tok self cs - moved_out tok self cs = entry_sum (held_for tok) (de_dispute s))"

lemma de_open_Inr:
  assumes "de_open_dispute e p a b i n s = Inr (s', cs)"
  obtains asset rest where "authorised e a" "authorised e b" "0 < n" "de_dispute s i = None" "pv_escrow_terms p i = Some (asset, b, rest)"
    "n \<le> rest" "a = b \<or> pv_has_position p i a = Some True" "cs = [Transfer asset b (self_addr e) n]" "\<not> de_lock s"
    "s' = put_escrow i \<lparr>ed_invoice_id = i, ed_challenger = a, ed_payer = b, ed_token = asset, ed_amount = n,
       ed_opened_at = timestamp e, ed_resolved = False, ed_paid_to_pool = False\<rparr> s"
  using assms
  by (auto simp: de_open_dispute_def de_guarded_def de_lockable.guard_Inr_iff Let_def put_escrow_def split: if_splits)

lemma de_settle_Inr:
  assumes "de_settle e p d b s = Inr (s', cs)"
  obtains pa where "de_pool s = Some pa" "cs = [Transfer (ed_token d) (self_addr e) (if b then pa else ed_payer d) (ed_amount d)]"
    "s' = put_escrow (ed_invoice_id d) (d\<lparr>ed_resolved := True, ed_paid_to_pool := b\<rparr>) s"
  using assms by (auto simp: de_settle_def Let_def)

text \<open>Both ways to resolve a dispute settle it; they differ in who may and when.\<close>

lemma resolution_Inr:
  assumes "de_exec e p c s = Inr (s', cs)" "c = De_resolve a i b \<or> c = De_timeout i \<and> \<not> b"
  obtains d pa where "de_dispute s i = Some d" "\<not> ed_resolved d" "de_pool s = Some pa" "\<not> de_lock s"
    "c = De_timeout i \<longrightarrow> min u64_max (ed_opened_at d + DISPUTE_TIMEOUT) \<le> timestamp e"
    "c = De_resolve a i b \<longrightarrow> timestamp e < min u64_max (ed_opened_at d + DISPUTE_TIMEOUT) \<and> de_admin s = Some a \<and> authorised e a"
    "cs = [Transfer (ed_token d) (self_addr e) (if b then pa else ed_payer d) (ed_amount d)]"
    "s' = put_escrow (ed_invoice_id d) (d\<lparr>ed_resolved := True, ed_paid_to_pool := b\<rparr>) s"
  using assms
  by (auto simp: resolve_escrow_def resolve_timeout_def de_guarded_def de_lockable.guard_Inr_iff load_open_def put_escrow_def not_less not_le
      split: if_splits elim!: de_settle_Inr)

lemma entry_put_escrow:
  assumes "finite (dom (de_dispute s))"
  shows "entry_sum f (de_dispute (put_escrow i d s)) = entry_sum f (de_dispute s) - entry_at f (de_dispute s) i + f d"
  using entry_sum_update[OF assms, of f i d] by (simp add: put_escrow_def)

lemma resolution_sound:
  assumes "escrow_sound self s cs" "de_exec e p c s = Inr (s', cs')" "c = De_resolve a i b \<or> c = De_timeout i \<and> \<not> b" "self_addr e = self"
  shows "escrow_sound self s' (cs @ cs')"
  using assms(2,3)
proof (rule resolution_Inr)
  fix d pa assume d: "de_dispute s i = Some d" "\<not> ed_resolved d" "de_pool s = Some pa"
    and r: "cs' = [Transfer (ed_token d) (self_addr e) (if b then pa else ed_payer d) (ed_amount d)]"
      "s' = put_escrow (ed_invoice_id d) (d\<lparr>ed_resolved := True, ed_paid_to_pool := b\<rparr>) s"
  have s: "finite (dom (de_dispute s))" "ed_invoice_id d = i" "ed_payer d \<noteq> self" "pa \<noteq> self" using assms(1) d by (auto simp: escrow_sound_def)
  have "entry_sum (held_for tok) (de_dispute s') = entry_sum (held_for tok) (de_dispute s) - held_for tok d" for tok
    using entry_put_escrow[OF s(1)] d(1) by (simp add: r(2) s(2) held_for_def)
  then show ?thesis using assms(1,4) d s unfolding escrow_sound_def r by (auto simp: put_escrow_def held_for_def)
qed

lemma opening_sound:
  assumes "escrow_sound self s cs" "de_open_dispute e p a b i n s = Inr (s', cs')" "self_addr e = self" "\<not> authorised e self"
  shows "escrow_sound self s' (cs @ cs')"
  using assms(2)
proof (rule de_open_Inr)
  fix asset rest assume o: "authorised e b" "0 < n" "de_dispute s i = None" "cs' = [Transfer asset b (self_addr e) n]"
    "s' = put_escrow i \<lparr>ed_invoice_id = i, ed_challenger = a, ed_payer = b, ed_token = asset, ed_amount = n,
       ed_opened_at = timestamp e, ed_resolved = False, ed_paid_to_pool = False\<rparr> s"
  have fin: "finite (dom (de_dispute s))" using assms(1) by (simp add: escrow_sound_def)
  have "entry_sum (held_for tok) (de_dispute s') = entry_sum (held_for tok) (de_dispute s) + (if asset = tok then n else 0)" for tok
    using entry_put_escrow[OF fin] o(3) by (simp add: o(5) held_for_def)
  then show ?thesis using assms(1,3,4) o unfolding escrow_sound_def by (auto simp: put_escrow_def)
qed

lemma de_runs_sound:
  assumes "de_runs self s cs"
  shows "escrow_sound self s cs"
  using assms
proof (induction rule: de_runs.induct)
  case (de_start e a p s)
  then show ?case by (auto simp: de_initialize_def de_empty_def escrow_sound_def split: if_splits)
next
  case (de_step s cs e p c s' cs')
  show ?case
  proof (cases c)
    case (De_open a b i n)
    with de_step opening_sound[OF de_step.IH, of e p a b i n s' cs'] show ?thesis by simp
  next
    case (De_resolve a i b)
    with resolution_sound[OF de_step.IH de_step.hyps(4), of a i b] de_step.hyps(2) show ?thesis by blast
  next
    case (De_timeout i)
    with resolution_sound[OF de_step.IH de_step.hyps(4), of _ i False] de_step.hyps(2) show ?thesis by blast
  qed
qed

section \<open>Properties\<close>

text \<open>C34: the escrow holds, in every token, exactly the amounts of the disputes that are open.\<close>

theorem escrow_holds_open_disputes:
  assumes "de_runs self s cs"
  shows "moved_in tok self cs - moved_out tok self cs =
    (\<Sum>i\<in>dom (de_dispute s). let d = the (de_dispute s i) in if ed_resolved d \<or> ed_token d \<noteq> tok then 0 else ed_amount d)"
  using de_runs_sound[OF assms] by (simp add: escrow_sound_def entry_sum_def held_for_def Let_def)

text \<open>a dispute ends once: by the admin before the seven days are over, with the amount going where the admin decides, or
  by anybody after them, with the amount going back to the payer; from then on it cannot be resolved or opened again.\<close>

theorem escrow_ends_once:
  assumes "de_runs self s cs" "de_exec e p c s = Inr (s', cs')" "de_dispute s i = Some d" "\<not> ed_resolved d"
    and "\<exists>d'. de_dispute s' i = Some d' \<and> ed_resolved d'" "self_addr e = self"
  shows "((\<exists>a b pa. c = De_resolve a i b \<and> de_admin s = Some a \<and> authorised e a \<and> timestamp e < ed_opened_at d + DISPUTE_TIMEOUT \<and>
       de_pool s = Some pa \<and> cs' = [Transfer (ed_token d) self (if b then pa else ed_payer d) (ed_amount d)]) \<or>
     (c = De_timeout i \<and> min u64_max (ed_opened_at d + DISPUTE_TIMEOUT) \<le> timestamp e \<and>
       cs' = [Transfer (ed_token d) self (ed_payer d) (ed_amount d)])) \<and>
    (\<forall>e2 p2 a2 a2' b2 n2. \<not> is_ok (de_exec e2 p2 (De_resolve a2 i b2) s') \<and> \<not> is_ok (de_exec e2 p2 (De_timeout i) s') \<and>
       \<not> is_ok (de_exec e2 p2 (De_open a2 a2' i n2) s'))"
proof -
  from assms(5) obtain d' where d': "de_dispute s' i = Some d'" "ed_resolved d'" by blast
  have no_more: "\<not> is_ok (de_exec e2 p2 x s')" if x: "x = De_resolve a2 i b2 \<or> x = De_timeout i \<and> \<not> b2 \<or> x = De_open a2 a3 i n2" for e2 p2 x a2 b2 a3 n2
  proof
    assume "is_ok (de_exec e2 p2 x s')"
    then obtain r where "de_exec e2 p2 x s' = Inr r" by (auto simp: is_ok_iff)
    then obtain s2 cs2 where r: "de_exec e2 p2 x s' = Inr (s2, cs2)" by (cases r) auto
    from x consider "x = De_resolve a2 i b2 \<or> x = De_timeout i \<and> \<not> b2" | "x = De_open a2 a3 i n2" by blast
    then show False
    proof cases
      case 1
      from r 1 show False by (rule resolution_Inr) (use d' in auto)
    next
      case 2
      with r have "de_open_dispute e2 p2 a2 a3 i n2 s' = Inr (s2, cs2)" by simp
      then show False by (rule de_open_Inr) (use d' in auto)
    qed
  qed
  have ids: "ed_invoice_id x = j" if "de_dispute s j = Some x" for j x using de_runs_sound[OF assms(1)] that by (simp add: escrow_sound_def)
  have who: "j = i" "\<exists>pa. de_pool s = Some pa \<and> cs' = [Transfer (ed_token d) self (if b then pa else ed_payer d) (ed_amount d)]"
      "c = De_timeout j \<longrightarrow> min u64_max (ed_opened_at d + DISPUTE_TIMEOUT) \<le> timestamp e"
      "c = De_resolve a j b \<longrightarrow> timestamp e < min u64_max (ed_opened_at d + DISPUTE_TIMEOUT) \<and> de_admin s = Some a \<and> authorised e a"
    if "c = De_resolve a j b \<or> c = De_timeout j \<and> \<not> b" for a j b
    using assms(2) that
    by (rule resolution_Inr, use assms(3,4,6) d' ids in \<open>auto simp: put_escrow_def split: if_splits\<close>)+
  have final: "\<forall>e2 p2 a2 a2' b2 n2. \<not> is_ok (de_exec e2 p2 (De_resolve a2 i b2) s') \<and> \<not> is_ok (de_exec e2 p2 (De_timeout i) s') \<and>
      \<not> is_ok (de_exec e2 p2 (De_open a2 a2' i n2) s')"
    by (intro allI conjI no_more) blast+
  have "(\<exists>a b pa. c = De_resolve a i b \<and> de_admin s = Some a \<and> authorised e a \<and> timestamp e < ed_opened_at d + DISPUTE_TIMEOUT \<and>
       de_pool s = Some pa \<and> cs' = [Transfer (ed_token d) self (if b then pa else ed_payer d) (ed_amount d)]) \<or>
     (c = De_timeout i \<and> min u64_max (ed_opened_at d + DISPUTE_TIMEOUT) \<le> timestamp e \<and>
       cs' = [Transfer (ed_token d) self (ed_payer d) (ed_amount d)])"
  proof (cases c)
    case (De_open a b j n)
    with assms(2) have "de_open_dispute e p a b j n s = Inr (s', cs')" by simp
    then have False by (rule de_open_Inr) (use assms(3,4) d' in \<open>auto simp: put_escrow_def split: if_splits\<close>)
    then show ?thesis ..
  next
    case (De_resolve a j b)
    with who[of a j b] show ?thesis by auto
  next
    case (De_timeout j)
    with who[of undefined j False] show ?thesis by auto
  qed
  with final show ?thesis by blast
qed

section \<open>A concrete dispute\<close>

text \<open>Debtor 20 puts 400 of token 70 into escrow for invoice 1; nobody decides, and after the seven days it goes back.\<close>

definition de_at :: "u64 \<Rightarrow> env" where "de_at t = sample_env\<lparr>timestamp := t, authorised := (\<lambda>a. a \<noteq> 1)\<rparr>"

lemma de_at_simps [simp]: "timestamp (de_at t) = t" "authorised (de_at t) a \<longleftrightarrow> a \<noteq> 1" "self_addr (de_at t) = 1"
  by (simp_all add: de_at_def)

definition de_pool_view :: pool_view where
  "de_pool_view = \<lparr>pv_escrow_terms = (\<lambda>i. Some (70, 20, 1000)), pv_has_position = (\<lambda>_ _. Some False), pv_reserve = (\<lambda>_ _. True),
     pv_settle = (\<lambda>_ _ _. True)\<rparr>"

definition de_ready :: de_state where "de_ready = de_empty\<lparr>de_admin := Some 10, de_pool := Some 60\<rparr>"

definition escrow_1 :: "bool \<Rightarrow> EscrowDispute" where
  "escrow_1 resolved = \<lparr>ed_invoice_id = 1, ed_challenger = 20, ed_payer = 20, ed_token = 70, ed_amount = 400, ed_opened_at = 1000,
     ed_resolved = resolved, ed_paid_to_pool = False\<rparr>"

lemma de_run_open: "de_runs 1 (put_escrow 1 (escrow_1 False) de_ready) [Transfer 70 20 1 400]"
proof -
  have "de_initialize (de_at 1000) de_empty 10 60 = Inr de_ready" by (simp add: de_initialize_def de_empty_def de_ready_def)
  from de_start[OF _ this] have start: "de_runs 1 de_ready []" by simp
  have "de_exec (de_at 1000) de_pool_view (De_open 20 20 1 400) de_ready = Inr (put_escrow 1 (escrow_1 False) de_ready, [Transfer 70 20 1 400])"
    by (simp add: de_open_dispute_def de_guarded_def de_lockable.guard_Inr_iff de_ready_def de_empty_def de_pool_view_def escrow_1_def
        require_auth_def put_escrow_def)
  from de_step[OF start _ _ this] show ?thesis by simp
qed

lemma de_timeout_ok: "de_exec (de_at 605800) de_pool_view (De_timeout 1) (put_escrow 1 (escrow_1 False) de_ready)
    = Inr (put_escrow 1 (escrow_1 True) (put_escrow 1 (escrow_1 False) de_ready), [Transfer 70 1 20 400])"
  by (simp add: resolve_timeout_def de_guarded_def de_lockable.guard_Inr_iff de_ready_def de_empty_def de_pool_view_def escrow_1_def
      load_open_def de_settle_def DISPUTE_TIMEOUT_def u64_max_def put_escrow_def)

theorem escrow_holds_open_disputes_witness:
  "\<exists>s. de_runs 1 s [Transfer 70 20 1 400] \<and>
     (\<Sum>i\<in>dom (de_dispute s). let d = the (de_dispute s i) in if ed_resolved d \<or> ed_token d \<noteq> 70 then 0 else ed_amount d) = 400"
proof -
  from escrow_holds_open_disputes[OF de_run_open, of 70] de_run_open show ?thesis by fastforce
qed

theorem escrow_ends_once_witness:
  "\<exists>s s'. de_exec (de_at 605800) de_pool_view (De_timeout 1) s = Inr (s', [Transfer 70 1 20 400]) \<and>
     (\<forall>e2 p2. \<not> is_ok (de_exec e2 p2 (De_timeout 1) s'))"
proof -
  let ?s = "put_escrow 1 (escrow_1 False) de_ready" and ?s' = "put_escrow 1 (escrow_1 True) (put_escrow 1 (escrow_1 False) de_ready)"
  have "de_dispute ?s 1 = Some (escrow_1 False)" "\<not> ed_resolved (escrow_1 False)" by (simp_all add: put_escrow_def escrow_1_def)
  moreover have "\<exists>d'. de_dispute ?s' 1 = Some d' \<and> ed_resolved d'" by (simp add: put_escrow_def escrow_1_def)
  ultimately show ?thesis using escrow_ends_once[OF de_run_open de_timeout_ok] de_timeout_ok by (metis de_at_simps(3))
qed

end
