(* ===== verification/Dispute_Resolution.thy ===== *)
theory Dispute_Resolution
  imports Access_State
begin

text \<open>
  Disputes over invoices (\<open>contracts/dispute_resolution/src/lib.rs\<close>), the contract whose view the pool
  asks before it marks a default.  \<open>acs\<close> gives the access control contract at an address.
\<close>

section \<open>Data\<close>

datatype DisputeResolutionError =
    DR_AlreadyInitialized | DR_NotInitialized | DR_NotAdmin | DR_DisputeNotFound | DR_DisputeAlreadyOpen
  | DR_DisputeAlreadyResolved | DR_DisputeWindowExpired | DR_NotDisputeChallenger | DR_InvalidCid | DR_ProtocolPaused
  | DR_NoUpgradeProposed | DR_UpgradeTimelockNotElapsed | DR_InvalidAmount | DR_ArithmeticOverflow | DR_NotGovernance
  | DR_DisputeNotOpen

type_synonym 'a dr_result = "(DisputeResolutionError, 'a) result"

definition dr_from_common :: "CommonError \<Rightarrow> DisputeResolutionError" where
  "dr_from_common c =
     (case c of CE_InvalidCid \<Rightarrow> DR_InvalidCid | CE_InvalidAmount \<Rightarrow> DR_InvalidAmount
      | CE_ArithmeticOverflow \<Rightarrow> DR_ArithmeticOverflow | _ \<Rightarrow> DR_InvalidCid)"

definition DISPUTE_WINDOW_SECS :: u64 where "DISPUTE_WINDOW_SECS = 7 * 86400"

record InvoiceDispute =
  id_invoice_id :: u64
  id_challenger :: address
  id_evidence_cid :: "string option"
  id_opened_at :: u64
  id_resolved :: bool
  id_upheld :: bool
  id_resolved_at :: u64

record dr_state =
  dr_admin :: "address option"
  dr_access :: "address option"
  dr_dispute :: "u64 \<Rightarrow> InvoiceDispute option"
  dr_upgrade :: "(bytes \<times> u64) option"

definition dr_empty :: dr_state where
  "dr_empty = \<lparr>dr_admin = None, dr_access = None, dr_dispute = (\<lambda>_. None), dr_upgrade = None\<rparr>"

section \<open>Helpers\<close>

definition dr_require_admin :: "dr_state \<Rightarrow> address \<Rightarrow> unit dr_result" where
  "dr_require_admin s caller =
     rbind (ok_or (dr_admin s) (Err DR_NotInitialized)) (\<lambda>admin.
     if admin \<noteq> caller then Inl (Err DR_NotAdmin) else Inr ())"

definition dr_require_not_paused :: "env \<Rightarrow> dr_state \<Rightarrow> unit dr_result" where
  "dr_require_not_paused e s =
     (case dr_access s of
        None \<Rightarrow> Inr ()
      | Some ac \<Rightarrow> if view_is_paused e ac then Inl (Err DR_ProtocolPaused) else Inr ())"

definition require_governance :: "(address \<Rightarrow> ac_state option) \<Rightarrow> dr_state \<Rightarrow> address \<Rightarrow> unit dr_result" where
  "require_governance acs s caller =
     (case Option.bind (dr_access s) acs of
        None \<Rightarrow> Inl (Err DR_NotGovernance)
      | Some ac \<Rightarrow> (case load_multisig_config ac of
          Inl _ \<Rightarrow> Inl (Err DR_NotGovernance)
        | Inr cfg \<Rightarrow> if caller \<in> set (ms_signers cfg) then Inr () else Inl (Err DR_NotGovernance)))"

section \<open>Entry points\<close>

definition dr_initialize :: "dr_state \<Rightarrow> address \<Rightarrow> address \<Rightarrow> dr_state dr_result" where
  "dr_initialize s admin access_control =
     (if dr_admin s \<noteq> None then Inl (Err DR_AlreadyInitialized)
      else Inr (s\<lparr>dr_admin := Some admin, dr_access := Some access_control\<rparr>))"

definition put_invoice_dispute :: "u64 \<Rightarrow> InvoiceDispute \<Rightarrow> dr_state \<Rightarrow> dr_state" where
  "put_invoice_dispute i d s = s\<lparr>dr_dispute := (dr_dispute s)(i \<mapsto> d)\<rparr>"

definition open_dispute :: "env \<Rightarrow> dr_state \<Rightarrow> address \<Rightarrow> u64 \<Rightarrow> dr_state dr_result" where
  "open_dispute e s challenger i =
     rbind (require_auth e challenger) (\<lambda>_.
     rbind (dr_require_not_paused e s) (\<lambda>_.
     if dr_dispute s i \<noteq> None then Inl (Err DR_DisputeAlreadyOpen)
     else Inr (put_invoice_dispute i \<lparr>id_invoice_id = i, id_challenger = challenger, id_evidence_cid = None,
            id_opened_at = timestamp e, id_resolved = False, id_upheld = False, id_resolved_at = 0\<rparr> s)))"

definition unresolved :: "dr_state \<Rightarrow> u64 \<Rightarrow> InvoiceDispute dr_result" where
  "unresolved s i =
     rbind (ok_or (dr_dispute s i) (Err DR_DisputeNotFound)) (\<lambda>d.
     if id_resolved d then Inl (Err DR_DisputeAlreadyResolved) else Inr d)"

definition submit_evidence :: "env \<Rightarrow> dr_state \<Rightarrow> address \<Rightarrow> u64 \<Rightarrow> string \<Rightarrow> dr_state dr_result" where
  "submit_evidence e s challenger i cid =
     rbind (require_auth e challenger) (\<lambda>_.
     rbind (unresolved s i) (\<lambda>d.
     if id_challenger d \<noteq> challenger then Inl (Err DR_NotDisputeChallenger)
     else
       rbind (map_err dr_from_common (require_valid_ipfs_cid cid)) (\<lambda>_.
       Inr (put_invoice_dispute i (d\<lparr>id_evidence_cid := Some cid\<rparr>) s))))"

definition dr_resolve_dispute ::
  "(address \<Rightarrow> ac_state option) \<Rightarrow> env \<Rightarrow> dr_state \<Rightarrow> address \<Rightarrow> u64 \<Rightarrow> bool \<Rightarrow> dr_state dr_result" where
  "dr_resolve_dispute acs e s resolver i upheld =
     rbind (require_auth e resolver) (\<lambda>_.
     rbind (require_governance acs s resolver) (\<lambda>_.
     rbind (unresolved s i) (\<lambda>d.
     rbind (ok_or (u64_add (id_opened_at d) DISPUTE_WINDOW_SECS) Trap) (\<lambda>closing.
     if timestamp e > closing then Inl (Err DR_DisputeWindowExpired)
     else Inr (put_invoice_dispute i (d\<lparr>id_resolved := True, id_upheld := upheld, id_resolved_at := timestamp e\<rparr>) s)))))"

definition has_open_dispute :: "dr_state \<Rightarrow> u64 \<Rightarrow> bool" where
  "has_open_dispute s i = (case dr_dispute s i of None \<Rightarrow> False | Some d \<Rightarrow> \<not> id_resolved d)"

definition dr_propose_upgrade :: "env \<Rightarrow> dr_state \<Rightarrow> address \<Rightarrow> bytes \<Rightarrow> dr_state dr_result" where
  "dr_propose_upgrade e s admin wasm_hash =
     rbind (require_auth e admin) (\<lambda>_.
     rbind (dr_require_admin s admin) (\<lambda>_. Inr (s\<lparr>dr_upgrade := Some (wasm_hash, timestamp e)\<rparr>)))"

text \<open>The hash handed to \<open>update_current_contract_wasm\<close> is the second component.\<close>

definition dr_execute_upgrade :: "env \<Rightarrow> dr_state \<Rightarrow> address \<Rightarrow> (dr_state \<times> bytes) dr_result" where
  "dr_execute_upgrade e s admin =
     rbind (require_auth e admin) (\<lambda>_.
     rbind (dr_require_admin s admin) (\<lambda>_.
     rbind (ok_or (dr_upgrade s) (Err DR_NoUpgradeProposed)) (\<lambda>(wasm_hash, proposed_at).
     rbind (ok_or (u64_add proposed_at UPGRADE_TIMELOCK_DELAY) Trap) (\<lambda>ready.
     if timestamp e < ready then Inl (Err DR_UpgradeTimelockNotElapsed)
     else Inr (s\<lparr>dr_upgrade := None\<rparr>, wasm_hash)))))"

end
