(* ===== verification/Dispute_Props.thy ===== *)
theory Dispute_Props
  imports Dispute_Resolution Pool_Repay
begin

text \<open>
  Disputes over their runs, and what an open one means for the pool that asks the contract before it
  marks a default.
\<close>

section \<open>Runs\<close>

datatype (plugins only: code) dr_op =
    Dr_open address u64
  | Dr_evidence address u64 string
  | Dr_resolve address u64 bool
  | Dr_propose_upgrade address bytes
  | Dr_execute_upgrade address

fun dr_exec :: "(address \<Rightarrow> ac_state option) \<Rightarrow> env \<Rightarrow> dr_op \<Rightarrow> dr_state \<Rightarrow> dr_state dr_result" where
  "dr_exec acs e (Dr_open a i) s = open_dispute e s a i"
| "dr_exec acs e (Dr_evidence a i x) s = submit_evidence e s a i x"
| "dr_exec acs e (Dr_resolve a i b) s = dr_resolve_dispute acs e s a i b"
| "dr_exec acs e (Dr_propose_upgrade a h) s = dr_propose_upgrade e s a h"
| "dr_exec acs e (Dr_execute_upgrade a) s = rbind (dr_execute_upgrade e s a) (\<lambda>(s, _). Inr s)"

text \<open>The time does not go back, and the signers may change between two calls.\<close>

inductive dr_runs :: "u64 \<times> dr_state \<Rightarrow> u64 \<times> dr_state \<Rightarrow> bool" where
  dr_none: "dr_runs x x"
| dr_step: "dr_runs x (t, s) \<Longrightarrow> t \<le> timestamp e \<Longrightarrow> dr_exec acs e c s = Inr s' \<Longrightarrow> dr_runs x (timestamp e, s')"

section \<open>Properties\<close>

lemma unresolved_Inr [simp]: "unresolved s i = Inr d \<longleftrightarrow> dr_dispute s i = Some d \<and> \<not> id_resolved d"
  by (auto simp: unresolved_def)

lemma require_governance_Inr:
  "require_governance acs s a = Inr u \<longleftrightarrow>
     (\<exists>at ac cfg. dr_access s = Some at \<and> acs at = Some ac \<and> load_multisig_config ac = Inr cfg \<and> a \<in> set (ms_signers cfg))"
  by (auto simp: require_governance_def bind_eq_Some_conv load_multisig_config_def split: option.splits sum.splits)

text \<open>What a call can do to a dispute.\<close>

lemma dr_exec_dispute:
  assumes "dr_exec acs e c s = Inr s'" "dr_dispute s i = Some d"
  shows "\<exists>d'. dr_dispute s' i = Some d' \<and> id_opened_at d' = id_opened_at d \<and> id_challenger d' = id_challenger d \<and>
    (id_resolved d \<longrightarrow> d' = d) \<and>
    (id_resolved d' \<and> \<not> id_resolved d \<longrightarrow> (\<exists>a b. c = Dr_resolve a i b \<and> authorised e a \<and> require_governance acs s a = Inr () \<and>
       timestamp e \<le> id_opened_at d + DISPUTE_WINDOW_SECS \<and> id_upheld d' = b))"
  using assms
  by (cases c) (auto simp: open_dispute_def submit_evidence_def dr_resolve_dispute_def dr_propose_upgrade_def dr_execute_upgrade_def
      put_invoice_dispute_def)

lemma late_dispute_stays_open:
  assumes "dr_runs (t, s) (t', s')" "dr_dispute s i = Some d" "\<not> id_resolved d" "id_opened_at d + DISPUTE_WINDOW_SECS < t"
  shows "has_open_dispute s' i"
proof -
  have "t \<le> t' \<and> (\<exists>d'. dr_dispute s' i = Some d' \<and> \<not> id_resolved d' \<and> id_opened_at d' = id_opened_at d)"
    using assms
  proof (induction "(t, s)" "(t', s')" arbitrary: t' s' rule: dr_runs.induct)
    case (dr_step t1 s1 e acs c s2)
    then obtain d1 where d1: "t \<le> t1" "dr_dispute s1 i = Some d1" "\<not> id_resolved d1" "id_opened_at d1 = id_opened_at d" by blast
    from dr_exec_dispute[OF dr_step.hyps(4) d1(2)] obtain d2 where "dr_dispute s2 i = Some d2" "id_opened_at d2 = id_opened_at d1"
      "id_resolved d2 \<longrightarrow> timestamp e \<le> id_opened_at d1 + DISPUTE_WINDOW_SECS" using d1(3) by blast
    with d1 dr_step.hyps(3) assms(4) show ?case by auto
  qed auto
  then show ?thesis by (auto simp: has_open_dispute_def)
qed

text \<open>C35: a dispute that is not resolved within its seven days can never be resolved any more, and from then
  on the pool that asks this contract can never mark the invoice as defaulted. Anybody who signs
  can open such a dispute.\<close>

theorem late_dispute_blocks_default:
  assumes "dr_runs (t, s) (t', s')" "dr_dispute s i = Some d" "\<not> id_resolved d" "id_opened_at d + DISPUTE_WINDOW_SECS < t"
    and "fp_dispute_resolution (w_pool w) = Some dr" "view_open_dispute e dr i = Some (has_open_dispute s' i)"
  shows "\<not> is_ok (mark_default e w admin i tok)"
  using late_dispute_stays_open[OF assms(1-4)] assms(5,6)
  by (auto simp: is_ok_iff mark_default_def Let_def)

text \<open>a dispute is resolved by a call of a signer of the access control, within seven days, and its outcome
  is the final one.\<close>

theorem dispute_resolved_by_signer:
  assumes "dr_exec acs e c s = Inr s'" "dr_dispute s i = Some d" "\<not> id_resolved d" "\<not> has_open_dispute s' i"
    and "dr_runs (timestamp e, s') (t'', s'')"
  shows "\<exists>a b at ac cfg d''. c = Dr_resolve a i b \<and> authorised e a \<and> dr_access s = Some at \<and> acs at = Some ac \<and>
    load_multisig_config ac = Inr cfg \<and> a \<in> set (ms_signers cfg) \<and> timestamp e \<le> id_opened_at d + DISPUTE_WINDOW_SECS \<and>
    dr_dispute s'' i = Some d'' \<and> id_resolved d'' \<and> id_upheld d'' = b"
proof -
  from dr_exec_dispute[OF assms(1,2)] assms(3,4) obtain d' a b where d': "dr_dispute s' i = Some d'" "id_resolved d'"
    "c = Dr_resolve a i b" "authorised e a" "require_governance acs s a = Inr ()" "timestamp e \<le> id_opened_at d + DISPUTE_WINDOW_SECS"
    "id_upheld d' = b" by (auto simp: has_open_dispute_def)
  have "dr_dispute s'' i = Some d'"
    using assms(5) d'(1,2)
  proof (induction "(timestamp e, s')" "(t'', s'')" arbitrary: t'' s'' rule: dr_runs.induct)
    case (dr_step t1 s1 e1 acs1 c1 s2)
    then show ?case using dr_exec_dispute[OF dr_step.hyps(4), of i d'] by auto
  qed simp
  with d' show ?thesis by (auto simp: require_governance_Inr)
qed

section \<open>Witnesses\<close>

text \<open>Address 55 disputes invoice 1; the signers are 20 and 21, in the access control at 5.\<close>

definition disputed :: dr_state where
  "disputed = put_invoice_dispute 1 \<lparr>id_invoice_id = 1, id_challenger = 55, id_evidence_cid = None, id_opened_at = 1000,
     id_resolved = False, id_upheld = False, id_resolved_at = 0\<rparr> (dr_empty\<lparr>dr_admin := Some 10, dr_access := Some 5\<rparr>)"

definition council_at_5 :: "address \<Rightarrow> ac_state option" where
  "council_at_5 = [5 \<mapsto> ac_empty\<lparr>ac_multisig := Some \<lparr>ms_threshold = 2, ms_signers = [20, 21]\<rparr>\<rparr>]"

lemma disputed_opened:
  "rbind (dr_initialize dr_empty 10 5) (\<lambda>s. open_dispute sample_env s 55 1) = Inr disputed"
  by (simp add: dr_initialize_def open_dispute_def disputed_def dr_empty_def dr_require_not_paused_def require_auth_def put_invoice_dispute_def)

theorem late_dispute_blocks_default_witness:
  "\<exists>w. is_ok (mark_default (sample_env\<lparr>timestamp := 605801, view_open_dispute := (\<lambda>_ i. Some (has_open_dispute dr_empty i))\<rparr>) w 10 1 70) \<and>
     \<not> is_ok (mark_default (sample_env\<lparr>timestamp := 605801, view_open_dispute := (\<lambda>_ i. Some (has_open_dispute disputed i))\<rparr>) w 10 1 70)"
proof -
  let ?v = "after_ops two_positions"
  let ?w = "put_pool ((w_pool ?v)\<lparr>fp_dispute_resolution := Some 60\<rparr>) ?v"
  let ?e = "sample_env\<lparr>timestamp := 605801, view_open_dispute := (\<lambda>_ i. Some (has_open_dispute disputed i))\<rparr>"
  have free: "is_ok (mark_default (sample_env\<lparr>timestamp := 605801, view_open_dispute := (\<lambda>_ i. Some (has_open_dispute dr_empty i))\<rparr>) ?w 10 1 70)"
    by (simp add: pool_eval nft_eval has_open_dispute_def dr_empty_def)
  have d: "\<exists>d. dr_dispute disputed 1 = Some d \<and> \<not> id_resolved d \<and> id_opened_at d + DISPUTE_WINDOW_SECS < 605801"
    by (simp add: disputed_def put_invoice_dispute_def DISPUTE_WINDOW_SECS_def)
  then obtain d where "dr_dispute disputed 1 = Some d" "\<not> id_resolved d" "id_opened_at d + DISPUTE_WINDOW_SECS < 605801" by blast
  from late_dispute_blocks_default[OF dr_none this, of ?w 60 ?e 10 70]
  have "\<not> is_ok (mark_default ?e ?w 10 1 70)" by (simp add: put_pool_def)
  with free show ?thesis by blast
qed

theorem dispute_resolved_by_signer_witness:
  "\<exists>s'. dr_exec council_at_5 (sample_env\<lparr>timestamp := 2000\<rparr>) (Dr_resolve 20 1 True) disputed = Inr s' \<and> \<not> has_open_dispute s' 1 \<and>
     (\<exists>d. dr_dispute s' 1 = Some d \<and> id_resolved d \<and> id_upheld d)"
proof -
  let ?e = "sample_env\<lparr>timestamp := 2000\<rparr>"
  have "\<exists>s'. dr_exec council_at_5 ?e (Dr_resolve 20 1 True) disputed = Inr s' \<and> \<not> has_open_dispute s' 1"
    by (simp add: dr_resolve_dispute_def require_governance_def load_multisig_config_def council_at_5_def disputed_def dr_empty_def
        put_invoice_dispute_def has_open_dispute_def require_auth_def unresolved_def DISPUTE_WINDOW_SECS_def u64_add_def u64_max_def)
  then obtain s' where s': "dr_exec council_at_5 ?e (Dr_resolve 20 1 True) disputed = Inr s'" "\<not> has_open_dispute s' 1" by blast
  obtain d where "dr_dispute disputed 1 = Some d" "\<not> id_resolved d" by (simp add: disputed_def put_invoice_dispute_def)
  from dispute_resolved_by_signer[OF s'(1) this s'(2) dr_none] s' show ?thesis by auto
qed

end
