(* ===== verification/Secondary_Market.thy ===== *)
theory Secondary_Market
  imports Financing_Pool
begin

text \<open>
  Listing and sale of pool positions (\<open>contracts/secondary_market/src/lib.rs\<close>).  The pool is the one of the
  \<open>world\<close>; the token calls of a sale are the last component of its result.
\<close>

definition DEFAULT_PROTOCOL_FEE_BPS :: u32 where "DEFAULT_PROTOCOL_FEE_BPS = 250"
definition MAX_PROTOCOL_FEE_BPS :: u32 where "MAX_PROTOCOL_FEE_BPS = 1000"

datatype SecondaryMarketError =
    SM_AlreadyInitialized | SM_InvalidAmount | SM_InvalidAddress | SM_InvalidFeeRate | SM_ListingNotFound | SM_NotAdmin
  | SM_NotInitialized | SM_PoolAlreadyClosed | SM_PositionNotFound | SM_ProtocolPaused | SM_SameAddress

type_synonym 'a sm_result = "(SecondaryMarketError, 'a) result"

definition sm_from_common :: "CommonError \<Rightarrow> SecondaryMarketError" where
  "sm_from_common c =
     (case c of CE_InvalidAmount \<Rightarrow> SM_InvalidAmount | CE_InvalidAddress \<Rightarrow> SM_InvalidAddress
      | CE_InvalidFeeRate \<Rightarrow> SM_InvalidFeeRate | _ \<Rightarrow> SM_InvalidAmount)"

record sm_state =
  sm_admin :: "address option"
  sm_pool :: "address option"
  sm_treasury :: "address option"
  sm_fee_bps :: "u32 option"
  sm_paused :: "bool option"
  sm_listing :: "u64 \<Rightarrow> address \<Rightarrow> PositionSaleOffer option"

definition sm_empty :: sm_state where
  "sm_empty = \<lparr>sm_admin = None, sm_pool = None, sm_treasury = None, sm_fee_bps = None, sm_paused = None, sm_listing = (\<lambda>_ _. None)\<rparr>"

section \<open>Entry points\<close>

definition sm_require_admin :: "env \<Rightarrow> sm_state \<Rightarrow> unit sm_result" where
  "sm_require_admin e s =
     rbind (ok_or (sm_admin s) (Err SM_NotInitialized)) (\<lambda>admin.
     if invoker e \<noteq> admin then Inl (Err SM_NotAdmin) else Inr ())"

definition sm_require_not_paused :: "sm_state \<Rightarrow> unit sm_result" where
  "sm_require_not_paused s = (if sm_paused s = Some True then Inl (Err SM_ProtocolPaused) else Inr ())"

definition sm_initialize :: "sm_state \<Rightarrow> address \<Rightarrow> address \<Rightarrow> address \<Rightarrow> u32 \<Rightarrow> sm_state sm_result" where
  "sm_initialize s admin financing_pool treasury fee_bps =
     (if sm_admin s \<noteq> None then Inl (Err SM_AlreadyInitialized)
      else
        rbind (map_err sm_from_common (require_valid_bps_range fee_bps 0 MAX_PROTOCOL_FEE_BPS)) (\<lambda>_.
        Inr (s\<lparr>sm_admin := Some admin, sm_pool := Some financing_pool, sm_treasury := Some treasury, sm_fee_bps := Some fee_bps,
               sm_paused := Some False\<rparr>)))"

definition sm_pause :: "env \<Rightarrow> sm_state \<Rightarrow> sm_state sm_result" where
  "sm_pause e s = rbind (sm_require_admin e s) (\<lambda>_. Inr (s\<lparr>sm_paused := Some True\<rparr>))"

definition sm_unpause :: "env \<Rightarrow> sm_state \<Rightarrow> sm_state sm_result" where
  "sm_unpause e s = rbind (sm_require_admin e s) (\<lambda>_. Inr (s\<lparr>sm_paused := Some False\<rparr>))"

definition update_protocol_fee_bps :: "env \<Rightarrow> sm_state \<Rightarrow> u32 \<Rightarrow> sm_state sm_result" where
  "update_protocol_fee_bps e s fee_bps =
     rbind (sm_require_admin e s) (\<lambda>_.
     rbind (map_err sm_from_common (require_valid_bps_range fee_bps 0 MAX_PROTOCOL_FEE_BPS)) (\<lambda>_.
     Inr (s\<lparr>sm_fee_bps := Some fee_bps\<rparr>)))"

definition set_listing :: "u64 \<Rightarrow> address \<Rightarrow> PositionSaleOffer option \<Rightarrow> sm_state \<Rightarrow> sm_state" where
  "set_listing i a x s = s\<lparr>sm_listing := (sm_listing s)(i := (sm_listing s i)(a := x))\<rparr>"

definition list_position :: "env \<Rightarrow> world \<Rightarrow> sm_state \<Rightarrow> address \<Rightarrow> u64 \<Rightarrow> address \<Rightarrow> i128 \<Rightarrow> sm_state sm_result" where
  "list_position e w s seller i token price =
     rbind (require_auth e seller) (\<lambda>_.
     rbind (sm_require_not_paused s) (\<lambda>_.
     if price \<le> 0 then Inl (Err SM_InvalidAmount)
     else
       rbind (ok_or (sm_pool s) (Err SM_NotInitialized)) (\<lambda>_.
       rbind (map_err (\<lambda>_. SM_PositionNotFound) (get_pool (w_pool w) i)) (\<lambda>pool.
       if pl_is_closed pool then Inl (Err SM_PoolAlreadyClosed)
       else
         let position = get_position (w_pool w) i seller in
         if pos_investor position \<noteq> seller then Inl (Err SM_PositionNotFound)
         else if sm_listing s i seller \<noteq> None then Inl (Err SM_AlreadyInitialized)
         else Inr (set_listing i seller (Some \<lparr>so_seller = seller, so_invoice_id = i, so_token = token, so_price = price\<rparr>) s)))))"

definition sm_buy_position ::
  "env \<Rightarrow> world \<Rightarrow> sm_state \<Rightarrow> address \<Rightarrow> u64 \<Rightarrow> address \<Rightarrow> (sm_state \<times> world \<times> ext_call list) sm_result" where
  "sm_buy_position e w s buyer i seller =
     rbind (require_auth e buyer) (\<lambda>_.
     rbind (sm_require_not_paused s) (\<lambda>_.
     if buyer = seller then Inl (Err SM_SameAddress)
     else
       rbind (ok_or (sm_listing s i seller) (Err SM_ListingNotFound)) (\<lambda>listing.
       rbind (ok_or (sm_pool s) (Err SM_NotInitialized)) (\<lambda>pool_addr.
       rbind (ok_or (sm_treasury s) (Err SM_NotInitialized)) (\<lambda>treasury.
       let fee_bps = or_else (sm_fee_bps s) DEFAULT_PROTOCOL_FEE_BPS in
       rbind (map_err (\<lambda>_. SM_PositionNotFound) (get_pool (w_pool w) i)) (\<lambda>pool.
       if pl_is_closed pool then Inl (Err SM_PoolAlreadyClosed)
       else
         let s1 = set_listing i seller None s in
         rbind (map_err sm_from_common (bps_of (so_price listing) fee_bps)) (\<lambda>fee.
         rbind (map_err sm_from_common (safe_sub (so_price listing) fee)) (\<lambda>seller_proceeds.
         rbind (or_trap (transfer_position (callee_env e pool_addr) w i seller buyer)) (\<lambda>w'.
         Inr (s1, w', [Transfer (so_token listing) buyer treasury fee, Transfer (so_token listing) buyer seller seller_proceeds]))))))))))"

definition sm_cancel_listing :: "env \<Rightarrow> sm_state \<Rightarrow> address \<Rightarrow> u64 \<Rightarrow> sm_state sm_result" where
  "sm_cancel_listing e s seller i =
     rbind (require_auth e seller) (\<lambda>_.
     if sm_listing s i seller = None then Inl (Err SM_ListingNotFound) else Inr (set_listing i seller None s))"

section \<open>Properties\<close>

lemma set_listing_simps [simp]:
  "sm_listing (set_listing i a x s) j b = (if j = i \<and> b = a then x else sm_listing s j b)"
  "sm_pool (set_listing i a x s) = sm_pool s" "sm_treasury (set_listing i a x s) = sm_treasury s"
  by (simp_all add: set_listing_def)

lemma transfer_position_Inr:
  assumes "transfer_position e w i a b = Inr w'"
  obtains q where "map_get (get_positions_map (w_pool w) i) a = Some q" "authorised e a" "a \<noteq> b"
    "get_positions_map (w_pool w') i = map_set b (q\<lparr>pos_investor := b\<rparr>) (map_remove a (get_positions_map (w_pool w) i))"
  using assms
  by (auto simp: transfer_position_def trade_guard_def Let_def get_positions_map_def put_positions_def put_pool_def)

text \<open>a sale on the secondary market needs the signature of the seller beside the buyer's, because the pool asks
  for it; it pays the listed price in full, the fee to the treasury and the rest to the seller, removes the
  listing and hands the position over.\<close>

theorem secondary_sale_effect:
  assumes "sm_buy_position e w s buyer i seller = Inr (s', w', cs)" "map_ok (get_positions_map (w_pool w) i)" "seller \<noteq> self_addr e"
  shows "authorised e buyer \<and> authorised e seller \<and>
    (\<exists>offer treasury fee q. sm_listing s i seller = Some offer \<and> sm_treasury s = Some treasury \<and>
       fee = so_price offer * int (or_else (sm_fee_bps s) DEFAULT_PROTOCOL_FEE_BPS) div 10000 \<and>
       cs = [Transfer (so_token offer) buyer treasury fee, Transfer (so_token offer) buyer seller (so_price offer - fee)] \<and>
       sm_listing s' i seller = None \<and>
       map_get (get_positions_map (w_pool w) i) seller = Some q \<and>
       map_get (get_positions_map (w_pool w') i) buyer = Some (q\<lparr>pos_investor := buyer\<rparr>) \<and>
       map_get (get_positions_map (w_pool w') i) seller = None)"
proof -
  from assms(1) obtain offer pool_addr treasury fee where r: "authorised e buyer" "buyer \<noteq> seller" "sm_listing s i seller = Some offer"
    "sm_treasury s = Some treasury" "bps_of (so_price offer) (or_else (sm_fee_bps s) DEFAULT_PROTOCOL_FEE_BPS) = Inr fee"
    "transfer_position (callee_env e pool_addr) w i seller buyer = Inr w'"
    "cs = [Transfer (so_token offer) buyer treasury fee, Transfer (so_token offer) buyer seller (so_price offer - fee)]"
    "s' = set_listing i seller None s"
    by (auto simp: sm_buy_position_def Let_def map_err_Inr_iff safe_sub_def)
  from r(6) obtain q where q: "map_get (get_positions_map (w_pool w) i) seller = Some q" "authorised (callee_env e pool_addr) seller"
    "get_positions_map (w_pool w') i = map_set buyer (q\<lparr>pos_investor := buyer\<rparr>) (map_remove seller (get_positions_map (w_pool w) i))"
    by (rule transfer_position_Inr)
  have ok: "map_ok (map_remove seller (get_positions_map (w_pool w) i))" by (rule hm.ok_del[OF assms(2)])
  have got: "map_get (get_positions_map (w_pool w') i) buyer = Some (q\<lparr>pos_investor := buyer\<rparr>)"
    "map_get (get_positions_map (w_pool w') i) seller = None"
    using r(2) by (simp_all add: q(3) hm.get_set[OF ok] hm.get_del[OF assms(2)])
  have fee: "fee = so_price offer * int (or_else (sm_fee_bps s) DEFAULT_PROTOCOL_FEE_BPS) div 10000"
    using r(5) by (auto simp: bps_of_def bind_eq_Some_conv i128_div_nonneg split: if_splits)
  show ?thesis using r q(1,2) got fee assms(3) by auto
qed

text \<open>the market never refuses a seller without a position: the pool answers an empty position in the seller's own
  name, so the check of the owner passes, and the listing stands until a sale fails.\<close>

theorem listing_needs_no_position:
  assumes "authorised e seller" "sm_paused s \<noteq> Some True" "0 < price" "sm_pool s \<noteq> None" "fp_pools (w_pool w) i = Some pl"
    and "\<not> pl_is_closed pl" "sm_listing s i seller = None" "map_get (get_positions_map (w_pool w) i) seller = None"
  shows "\<exists>s'. list_position e w s seller i tok price = Inr s' \<and> sm_listing s' i seller \<noteq> None \<and>
    (\<forall>e' buyer. \<not> is_ok (sm_buy_position e' w s' buyer i seller))"
proof -
  from assms(4) obtain pa where pa: "sm_pool s = Some pa" by blast
  let ?s = "set_listing i seller (Some \<lparr>so_seller = seller, so_invoice_id = i, so_token = tok, so_price = price\<rparr>) s"
  have "list_position e w s seller i tok price = Inr ?s"
    using assms pa by (simp add: list_position_def sm_require_not_paused_def require_auth_def get_pool_def get_position_def)
  moreover have "\<not> is_ok (sm_buy_position e' w ?s buyer i seller)" for e' buyer
    using assms(8) by (auto simp: is_ok_iff sm_buy_position_def transfer_position_def Let_def)
  ultimately show ?thesis by auto
qed

end
