(* ===== verification/Fractionalizer.thy ===== *)
theory Fractionalizer
  imports Financing_Pool
begin

text \<open>
  Shares of a pool position (\<open>contracts/fractionalizer/src/lib.rs\<close>): a position is handed to this contract
  and wrapped into a fixed number of shares, which move between holders and are redeemed for the
  payout of the position.  The pool it calls is the one of the \<open>world\<close>.
\<close>

section \<open>Data\<close>

datatype FractionalizerError =
    FZ_AlreadyInitialized | FZ_NotInitialized | FZ_NotAdmin | FZ_ProtocolPaused | FZ_InvalidAmount | FZ_InvalidAddress
  | FZ_ArithmeticOverflow | FZ_WrapNotFound | FZ_SharesOutstanding | FZ_PoolNotClosed | FZ_AlreadyClaimed | FZ_NotShareHolder
  | FZ_InvalidShareCount | FZ_PositionNotFound

type_synonym 'a fz_result = "(FractionalizerError, 'a) result"

definition MAX_SHARES :: u64 where "MAX_SHARES = 1000000"

record WrapRecord =
  wr_invoice_id :: u64
  wr_original_investor :: address
  wr_total_shares :: u64
  wr_outstanding_shares :: u64
  wr_contributed :: i128
  wr_token :: address
  wr_total_payout :: i128
  wr_settled :: bool

text \<open>One field per storage key; \<open>fx_balance i a h\<close> are the shares of \<open>h\<close> in what \<open>a\<close> wrapped of invoice \<open>i\<close>.\<close>

record fx_state =
  fx_admin :: "address option"
  fx_pool :: "address option"
  fx_access :: "address option"
  fx_wrap :: "u64 \<Rightarrow> address \<Rightarrow> WrapRecord option"
  fx_balance :: "u64 \<Rightarrow> address \<Rightarrow> address \<Rightarrow> u64 option"
  fx_claimed :: "u64 \<Rightarrow> address \<Rightarrow> address \<Rightarrow> bool"

definition fx_empty :: fx_state where
  "fx_empty = \<lparr>fx_admin = None, fx_pool = None, fx_access = None, fx_wrap = (\<lambda>_ _. None), fx_balance = (\<lambda>_ _ _. None),
     fx_claimed = (\<lambda>_ _ _. False)\<rparr>"

section \<open>Helpers\<close>

definition share_balance :: "fx_state \<Rightarrow> u64 \<Rightarrow> address \<Rightarrow> address \<Rightarrow> u64" where
  "share_balance s i a h = or_else (fx_balance s i a h) 0"

definition put_balance :: "u64 \<Rightarrow> address \<Rightarrow> address \<Rightarrow> u64 \<Rightarrow> fx_state \<Rightarrow> fx_state" where
  "put_balance i a h n s = s\<lparr>fx_balance := (fx_balance s)(i := (fx_balance s i)(a := (fx_balance s i a)(h \<mapsto> n)))\<rparr>"

definition put_wrap :: "u64 \<Rightarrow> address \<Rightarrow> WrapRecord option \<Rightarrow> fx_state \<Rightarrow> fx_state" where
  "put_wrap i a x s = s\<lparr>fx_wrap := (fx_wrap s)(i := (fx_wrap s i)(a := x))\<rparr>"

definition put_claimed :: "u64 \<Rightarrow> address \<Rightarrow> address \<Rightarrow> fx_state \<Rightarrow> fx_state" where
  "put_claimed i a h s = s\<lparr>fx_claimed := (fx_claimed s)(i := (fx_claimed s i)(a := (fx_claimed s i a)(h := True)))\<rparr>"

definition fx_financing_pool :: "fx_state \<Rightarrow> address fz_result" where
  "fx_financing_pool s = ok_or (fx_pool s) (Err FZ_NotInitialized)"

definition fx_require_not_paused :: "env \<Rightarrow> fx_state \<Rightarrow> unit fz_result" where
  "fx_require_not_paused e s =
     rbind (ok_or (fx_access s) (Err FZ_NotInitialized)) (\<lambda>ac.
     if view_is_paused e ac then Inl (Err FZ_ProtocolPaused) else Inr ())"

text \<open>\<open>(payout as u128).checked_mul(shares).checked_div(total) as i128\<close>: both casts wrap.\<close>

definition part_of :: "i128 \<Rightarrow> u64 \<Rightarrow> u64 \<Rightarrow> i128 fz_result" where
  "part_of payout shares tot =
     (let p = (payout mod 2 ^ 128) * int shares in
      if p \<ge> 2 ^ 128 \<or> tot = 0 then Inl (Err FZ_ArithmeticOverflow)
      else let q = p div int tot in Inr (if q \<ge> 2 ^ 127 then q - 2 ^ 128 else q))"

section \<open>Entry points\<close>

definition fx_initialize :: "env \<Rightarrow> fx_state \<Rightarrow> address \<Rightarrow> address \<Rightarrow> address \<Rightarrow> fx_state fz_result" where
  "fx_initialize e s admin pool access_control =
     (if fx_admin s \<noteq> None then Inl (Err FZ_AlreadyInitialized)
      else if admin = self_addr e \<or> pool = self_addr e \<or> access_control = self_addr e then Inl (Err FZ_InvalidAddress)
      else Inr (s\<lparr>fx_admin := Some admin, fx_pool := Some pool, fx_access := Some access_control\<rparr>))"

definition wrap :: "env \<Rightarrow> fx_state \<Rightarrow> world \<Rightarrow> address \<Rightarrow> u64 \<Rightarrow> u64 \<Rightarrow> (fx_state \<times> world) fz_result" where
  "wrap e s w investor i total_shares =
     rbind (require_auth e investor) (\<lambda>_.
     rbind (fx_require_not_paused e s) (\<lambda>_.
     if total_shares = 0 \<or> total_shares > MAX_SHARES then Inl (Err FZ_InvalidShareCount)
     else
       rbind (fx_financing_pool s) (\<lambda>pool_addr.
       let position = get_position (w_pool w) i investor in
       if pos_contributed position \<le> 0 then Inl (Err FZ_PositionNotFound)
       else
         rbind (ok_or (fp_pools (w_pool w) i) (Err FZ_PositionNotFound)) (\<lambda>pool.
         let x = \<lparr>wr_invoice_id = i, wr_original_investor = investor, wr_total_shares = total_shares,
                  wr_outstanding_shares = total_shares, wr_contributed = pos_contributed position, wr_token = pl_token pool,
                  wr_total_payout = 0, wr_settled = False\<rparr>;
             s1 = put_balance i investor investor total_shares (put_wrap i investor (Some x) s) in
         rbind (or_trap (transfer_position (callee_env e pool_addr) w i investor (self_addr e))) (\<lambda>w'. Inr (s1, w'))))))"

definition transfer_shares ::
  "env \<Rightarrow> fx_state \<Rightarrow> address \<Rightarrow> address \<Rightarrow> u64 \<Rightarrow> address \<Rightarrow> u64 \<Rightarrow> fx_state fz_result" where
  "transfer_shares e s from_addr original i to_addr amount =
     rbind (require_auth e from_addr) (\<lambda>_.
     if amount = 0 then Inl (Err FZ_InvalidAmount)
     else
       let from_bal = share_balance s i original from_addr in
       if from_bal < amount then Inl (Err FZ_NotShareHolder)
       else
         let s1 = put_balance i original from_addr (from_bal - amount) s in
         rbind (ok_or (u64_add (share_balance s1 i original to_addr) amount) Trap) (\<lambda>n.
         Inr (put_balance i original to_addr n s1)))"

definition settle :: "env \<Rightarrow> fx_state \<Rightarrow> world \<Rightarrow> u64 \<Rightarrow> address \<Rightarrow> fx_state fz_result" where
  "settle e s w i original =
     rbind (ok_or (fx_wrap s i original) (Err FZ_WrapNotFound)) (\<lambda>x.
     if wr_settled x then Inr s
     else
       rbind (fx_financing_pool s) (\<lambda>pool_addr.
       rbind (ok_or (fp_pools (w_pool w) i) (Err FZ_PoolNotClosed)) (\<lambda>pool.
       if \<not> pl_is_closed pool then Inl (Err FZ_PoolNotClosed)
       else
         let position = get_position (w_pool w) i (self_addr e) in
         rbind (ok_or (Option.bind (i128_mul (pl_repaid_amount pool) (int (pos_share_bps position))) (\<lambda>v. i128_div v 10000))
                  (Err FZ_ArithmeticOverflow)) (\<lambda>payout.
         Inr (put_wrap i original (Some (x\<lparr>wr_total_payout := payout, wr_settled := True\<rparr>)) s)))))"

text \<open>The last component of the result is the payout the call returns.\<close>

definition redeem :: "env \<Rightarrow> fx_state \<Rightarrow> address \<Rightarrow> u64 \<Rightarrow> address \<Rightarrow> (fx_state \<times> ext_call list \<times> i128) fz_result" where
  "redeem e s holder i original =
     rbind (require_auth e holder) (\<lambda>_.
     rbind (ok_or (fx_wrap s i original) (Err FZ_WrapNotFound)) (\<lambda>x.
     if \<not> wr_settled x then Inl (Err FZ_PoolNotClosed)
     else if fx_claimed s i original holder then Inl (Err FZ_AlreadyClaimed)
     else
       let holder_shares = share_balance s i original holder in
       if holder_shares = 0 then Inl (Err FZ_NotShareHolder)
       else
         rbind (part_of (wr_total_payout x) holder_shares (wr_total_shares x)) (\<lambda>base_payout.
         let is_last = (wr_outstanding_shares x = holder_shares) in
         rbind (if is_last then
                  rbind (ok_or (u64_sub (wr_total_shares x) holder_shares) Trap) (\<lambda>others.
                  rbind (part_of (wr_total_payout x) others (wr_total_shares x)) (\<lambda>rest.
                  ok_or (i128_sub (wr_total_payout x) rest) (Err FZ_ArithmeticOverflow)))
                else Inr base_payout) (\<lambda>payout.
         rbind (ok_or (u64_sub (wr_outstanding_shares x) holder_shares) (Err FZ_ArithmeticOverflow)) (\<lambda>outstanding.
         rbind (ok_or (i128_sub (wr_total_payout x) payout) (Err FZ_ArithmeticOverflow)) (\<lambda>left_over.
         let x' = x\<lparr>wr_outstanding_shares := outstanding, wr_total_payout := left_over\<rparr>;
             s1 = put_wrap i original (Some x') (put_balance i original holder 0 (put_claimed i original holder s)) in
         Inr (s1, [Transfer (wr_token x) (self_addr e) holder payout], payout)))))))"

definition unwrap :: "env \<Rightarrow> fx_state \<Rightarrow> world \<Rightarrow> address \<Rightarrow> u64 \<Rightarrow> (fx_state \<times> world) fz_result" where
  "unwrap e s w investor i =
     rbind (require_auth e investor) (\<lambda>_.
     rbind (fx_require_not_paused e s) (\<lambda>_.
     rbind (ok_or (fx_wrap s i investor) (Err FZ_WrapNotFound)) (\<lambda>x.
     if share_balance s i investor investor \<noteq> wr_total_shares x then Inl (Err FZ_SharesOutstanding)
     else
       let s1 = put_wrap i investor None (put_balance i investor investor 0 s) in
       rbind (fx_financing_pool s) (\<lambda>pool_addr.
       rbind (or_trap (transfer_position (callee_env e pool_addr) w i (self_addr e) investor)) (\<lambda>w'. Inr (s1, w'))))))"

end
