(* ===== verification/Fractional_Props.thy ===== *)
theory Fractional_Props
  imports Fractionalizer Kora_Sums
begin

text \<open>
  Wrapped positions over their runs: the shares of the holders add up to the outstanding shares, the
  redemptions stay within the payout that was settled, and what the way of counting the remaining payout
  leaves behind.
\<close>

section \<open>Runs\<close>

datatype (plugins only: code) fx_op =
    Fx_wrap address u64 u64
  | Fx_transfer address address u64 address u64
  | Fx_settle u64 address
  | Fx_redeem address u64 address
  | Fx_unwrap address u64

text \<open>A call with the pool it meets; what a redemption returns is the second component.\<close>

fun fx_exec :: "env \<Rightarrow> world \<Rightarrow> fx_op \<Rightarrow> fx_state \<Rightarrow> (fx_state \<times> i128) fz_result" where
  "fx_exec e w (Fx_wrap a i n) s = rbind (wrap e s w a i n) (\<lambda>(s, _). Inr (s, 0))"
| "fx_exec e w (Fx_transfer a o' i b n) s = rbind (transfer_shares e s a o' i b n) (\<lambda>s. Inr (s, 0))"
| "fx_exec e w (Fx_settle i o') s = rbind (settle e s w i o') (\<lambda>s. Inr (s, 0))"
| "fx_exec e w (Fx_redeem h i o') s = rbind (redeem e s h i o') (\<lambda>(s, _, n). Inr (s, n))"
| "fx_exec e w (Fx_unwrap a i) s = rbind (unwrap e s w a i) (\<lambda>(s, _). Inr (s, 0))"

definition payout_left :: "fx_state \<Rightarrow> u64 \<Rightarrow> address \<Rightarrow> i128" where
  "payout_left s i a = (case fx_wrap s i a of None \<Rightarrow> 0 | Some x \<Rightarrow> wr_total_payout x)"

fun paid_for :: "u64 \<Rightarrow> address \<Rightarrow> fx_op \<Rightarrow> i128 \<Rightarrow> i128" where
  "paid_for i a (Fx_redeem _ j b) n = (if j = i \<and> b = a then n else 0)"
| "paid_for i a _ n = 0"

fun settled_by :: "u64 \<Rightarrow> address \<Rightarrow> fx_op \<Rightarrow> fx_state \<Rightarrow> fx_state \<Rightarrow> i128" where
  "settled_by i a (Fx_settle j b) s s' = (if j = i \<and> b = a then payout_left s' i a - payout_left s i a else 0)"
| "settled_by i a _ s s' = 0"

text \<open>The contract does not check that the record it writes is new: an investor who has got another
  position of the same invoice can wrap it over his wrap that is still open.\<close>

definition rewraps :: "u64 \<Rightarrow> address \<Rightarrow> fx_op \<Rightarrow> fx_state \<Rightarrow> bool" where
  "rewraps i a c s \<longleftrightarrow> fx_wrap s i a \<noteq> None \<and> (\<exists>k. c = Fx_wrap a i k)"

text \<open>
  Runs from the start, with the sum of the payouts settled for what \<open>a\<close> wrapped of invoice \<open>i\<close>, the sum
  redeemed for it, and whether it was never wrapped over.  Between two calls the pool may do anything that
  keeps its repaid amounts non-negative.
\<close>

inductive fx_runs :: "u64 \<Rightarrow> address \<Rightarrow> i128 \<Rightarrow> i128 \<Rightarrow> bool \<Rightarrow> fx_state \<Rightarrow> bool" for i a where
  fx_start: "fx_initialize e fx_empty admin pool ac = Inr s \<Longrightarrow> fx_runs i a 0 0 True s"
| fx_step: "fx_runs i a got paid clean s \<Longrightarrow> fx_exec e w c s = Inr (s', n) \<Longrightarrow>
    \<forall>j pl. fp_pools (w_pool w) j = Some pl \<longrightarrow> 0 \<le> pl_repaid_amount pl \<Longrightarrow>
    fx_runs i a (got + settled_by i a c s s') (paid + paid_for i a c n) (clean \<and> \<not> rewraps i a c s) s'"

text \<open>Any calls after a state, except a new wrap in the place of the one watched.\<close>

inductive fx_later :: "u64 \<Rightarrow> address \<Rightarrow> fx_state \<Rightarrow> fx_state \<Rightarrow> bool" for i a where
  later_none: "fx_later i a s s"
| later_step: "fx_later i a s s1 \<Longrightarrow> fx_exec e w c s1 = Inr (s2, n) \<Longrightarrow> \<not> rewraps i a c s1 \<Longrightarrow> fx_later i a s s2"

section \<open>The book of one wrap\<close>

abbreviation share_sum :: "fx_state \<Rightarrow> u64 \<Rightarrow> address \<Rightarrow> int" where
  "share_sum s i a \<equiv> entry_sum int (fx_balance s i a)"

definition payout_sound :: "WrapRecord \<Rightarrow> bool" where
  "payout_sound x \<longleftrightarrow> wr_outstanding_shares x \<le> wr_total_shares x \<and>
     0 < wr_total_shares x \<and> 0 \<le> wr_total_payout x \<and> wr_total_payout x \<le> i128_max \<and> (\<not> wr_settled x \<longrightarrow> wr_total_payout x = 0)"

definition fx_book :: "fx_state \<Rightarrow> u64 \<Rightarrow> address \<Rightarrow> bool" where
  "fx_book s i a \<longleftrightarrow> finite (dom (fx_balance s i a)) \<and>
     (case fx_wrap s i a of None \<Rightarrow> True | Some x \<Rightarrow> payout_sound x)"

definition shares_exact :: "fx_state \<Rightarrow> u64 \<Rightarrow> address \<Rightarrow> bool" where
  "shares_exact s i a \<longleftrightarrow> share_sum s i a = (case fx_wrap s i a of None \<Rightarrow> 0 | Some x \<Rightarrow> int (wr_outstanding_shares x))"

lemma fx_frame [simp]:
  "fx_wrap (put_balance i a h n s) = fx_wrap s" "fx_wrap (put_claimed i a h s) = fx_wrap s"
  "fx_balance (put_wrap i a x s) = fx_balance s" "fx_balance (put_claimed i a h s) = fx_balance s"
  "fx_wrap (put_wrap i a x s) i a = x" "(j, b) \<noteq> (i, a) \<Longrightarrow> fx_wrap (put_wrap i a x s) j b = fx_wrap s j b"
  "(j, b) \<noteq> (i, a) \<Longrightarrow> fx_balance (put_balance i a h n s) j b = fx_balance s j b"
  "fx_balance (put_balance i a h n s) i a = (fx_balance s i a)(h \<mapsto> n)"
  by (auto simp: put_balance_def put_wrap_def put_claimed_def)

lemma entry_at_balance [simp]: "entry_at int (fx_balance s i a) h = int (share_balance s i a h)"
  by (simp add: entry_at_def share_balance_def or_else_def split: option.split)

lemma share_sum_put:
  assumes "finite (dom (fx_balance s i a))"
  shows "share_sum (put_balance i a h n s) i a = share_sum s i a - int (share_balance s i a h) + int n"
  using entry_sum_update[OF assms, of int h n] by simp

lemma share_balance_le:
  assumes "fx_book s i a"
  shows "int (share_balance s i a h) \<le> share_sum s i a" "0 \<le> share_sum s i a"
    "h \<noteq> k \<Longrightarrow> int (share_balance s i a h) + int (share_balance s i a k) \<le> share_sum s i a"
  using entry_sum_ge(1)[where m = "fx_balance s i a" and f = int and k = h] entry_sum_ge(2)[where m = "fx_balance s i a" and f = int]
    entry_sum_ge2[where m = "fx_balance s i a" and f = int and k = h and l = k] assms
  by (simp_all add: fx_book_def)

section \<open>Parts of a payout\<close>

lemma part_of_Inr:
  assumes "part_of T h S = Inr q" "0 \<le> T" "T \<le> i128_max" "h \<le> S"
  shows "q = T * int h div int S" "0 \<le> q" "q \<le> T"
proof -
  have m: "T mod 2 ^ 128 = T" using assms(2,3) by (simp add: i128_max_def)
  have S: "0 < S" using assms(1) by (auto simp: part_of_def Let_def split: if_splits)
  have "T * int h \<le> T * int S" using assms(2,4) by (intro mult_left_mono) auto
  then have "T * int h div int S \<le> T * int S div int S" using S by (intro zdiv_mono1) auto
  then have le: "T * int h div int S \<le> T" using S by simp
  then have "T * int h div int S < 2 ^ 127" using assms(3) by (simp add: i128_max_def)
  with assms(1) m show q: "q = T * int h div int S" by (auto simp: part_of_def Let_def split: if_splits)
  show "0 \<le> q" unfolding q using assms(2) S by (simp add: pos_imp_zdiv_nonneg_iff)
  show "q \<le> T" using q le by simp
qed

lemma redeem_Inr:
  assumes "redeem e s h i a = Inr (s', cs, n)"
  obtains x where "fx_wrap s i a = Some x" "wr_settled x" "\<not> fx_claimed s i a h" "0 < share_balance s i a h"
    "share_balance s i a h \<le> wr_outstanding_shares x" "authorised e h" "cs = [Transfer (wr_token x) (self_addr e) h n]"
    "s' = put_wrap i a (Some (x\<lparr>wr_outstanding_shares := wr_outstanding_shares x - share_balance s i a h,
       wr_total_payout := wr_total_payout x - n\<rparr>)) (put_balance i a h 0 (put_claimed i a h s))"
    "if wr_outstanding_shares x = share_balance s i a h
     then \<exists>r. part_of (wr_total_payout x) (wr_total_shares x - share_balance s i a h) (wr_total_shares x) = Inr r \<and> n = wr_total_payout x - r
     else part_of (wr_total_payout x) (share_balance s i a h) (wr_total_shares x) = Inr n"
proof -
  from assms obtain x where x: "fx_wrap s i a = Some x" "authorised e h" by (auto simp: redeem_def)
  show thesis
  proof (cases "wr_outstanding_shares x = share_balance s i a h")
    case True
    then show thesis using assms x by (intro that[of x]) (auto simp: redeem_def Let_def)
  next
    case False
    then show thesis using assms x by (intro that[of x]) (auto simp: redeem_def Let_def)
  qed
qed

lemma redeem_state:
  assumes "redeem e s h i a = Inr (s', cs, n)" "fx_wrap s i a = Some x"
  shows "0 < share_balance s i a h"
    "s' = put_wrap i a (Some (x\<lparr>wr_outstanding_shares := wr_outstanding_shares x - share_balance s i a h,
       wr_total_payout := wr_total_payout x - n\<rparr>)) (put_balance i a h 0 (put_claimed i a h s))"
  using redeem_Inr[OF assms(1)] assms(2) by auto

lemma redeem_pays:
  assumes "redeem e s h i a = Inr (s', cs, n)" "fx_book s i a" "fx_wrap s i a = Some x"
  shows "n = (if wr_outstanding_shares x = share_balance s i a h
      then wr_total_payout x - wr_total_payout x * int (wr_total_shares x - share_balance s i a h) div int (wr_total_shares x)
      else wr_total_payout x * int (share_balance s i a h) div int (wr_total_shares x))" "0 \<le> n" "n \<le> wr_total_payout x"
proof -
  have w: "payout_sound x" using assms(2,3) by (simp add: fx_book_def)
  from assms(1) have "n = (if wr_outstanding_shares x = share_balance s i a h
      then wr_total_payout x - wr_total_payout x * int (wr_total_shares x - share_balance s i a h) div int (wr_total_shares x)
      else wr_total_payout x * int (share_balance s i a h) div int (wr_total_shares x)) \<and> 0 \<le> n \<and> n \<le> wr_total_payout x"
  proof (rule redeem_Inr)
    fix y assume y: "fx_wrap s i a = Some y" "share_balance s i a h \<le> wr_outstanding_shares y"
      and n: "if wr_outstanding_shares y = share_balance s i a h
        then \<exists>r. part_of (wr_total_payout y) (wr_total_shares y - share_balance s i a h) (wr_total_shares y) = Inr r \<and> n = wr_total_payout y - r
        else part_of (wr_total_payout y) (share_balance s i a h) (wr_total_shares y) = Inr n"
    have xy: "y = x" using y(1) assms(3) by simp
    have range: "0 \<le> wr_total_payout x" "wr_total_payout x \<le> i128_max" "share_balance s i a h \<le> wr_total_shares x"
      using w y(2) unfolding xy by (auto simp: payout_sound_def)
    show ?thesis
    proof (cases "wr_outstanding_shares x = share_balance s i a h")
      case True
      then obtain r where r: "part_of (wr_total_payout x) (wr_total_shares x - share_balance s i a h) (wr_total_shares x) = Inr r"
        "n = wr_total_payout x - r" using n xy by auto
      from part_of_Inr[OF r(1) range(1,2)] r(2) True show ?thesis by simp
    next
      case False
      then have "part_of (wr_total_payout x) (share_balance s i a h) (wr_total_shares x) = Inr n" using n xy by simp
      from part_of_Inr[OF this range] False show ?thesis by simp
    qed
  qed
  then show "n = (if wr_outstanding_shares x = share_balance s i a h
      then wr_total_payout x - wr_total_payout x * int (wr_total_shares x - share_balance s i a h) div int (wr_total_shares x)
      else wr_total_payout x * int (share_balance s i a h) div int (wr_total_shares x))" "0 \<le> n" "n \<le> wr_total_payout x" by blast+
qed

section \<open>Every call keeps the books\<close>

text \<open>What a call does to the book and the remaining payout of each wrap.\<close>

definition keeps_books :: "fx_op \<Rightarrow> fx_state \<Rightarrow> fx_state \<Rightarrow> i128 \<Rightarrow> bool" where
  "keeps_books c s s' n \<longleftrightarrow> (\<forall>i a. fx_book s' i a \<and> 0 \<le> paid_for i a c n \<and>
     payout_left s' i a \<le> payout_left s i a + settled_by i a c s s' - paid_for i a c n \<and>
     (shares_exact s i a \<and> \<not> rewraps i a c s \<longrightarrow> shares_exact s' i a))"

text \<open>It is enough to look at the one wrap the call is about.\<close>

lemma keeps_booksI:
  assumes "\<And>j b. fx_book s j b" "fx_book s' i a" "0 \<le> paid_for i a c n"
    and "payout_left s' i a \<le> payout_left s i a + settled_by i a c s s' - paid_for i a c n"
    and "shares_exact s i a \<Longrightarrow> \<not> rewraps i a c s \<Longrightarrow> shares_exact s' i a"
    and "\<And>j b. (j, b) \<noteq> (i, a) \<Longrightarrow> fx_wrap s' j b = fx_wrap s j b \<and> fx_balance s' j b = fx_balance s j b \<and>
      paid_for j b c n = 0 \<and> settled_by j b c s s' = 0"
  shows "keeps_books c s s' n"
  unfolding keeps_books_def
proof (intro allI)
  fix j b
  show "fx_book s' j b \<and> 0 \<le> paid_for j b c n \<and> payout_left s' j b \<le> payout_left s j b + settled_by j b c s s' - paid_for j b c n \<and>
      (shares_exact s j b \<and> \<not> rewraps j b c s \<longrightarrow> shares_exact s' j b)"
  proof (cases "(j, b) = (i, a)")
    case False
    then show ?thesis using assms(1)[of j b] assms(6)[of j b] by (simp add: fx_book_def shares_exact_def payout_left_def)
  qed (use assms in auto)
qed

lemma payout_left_nonneg: "fx_book s i a \<Longrightarrow> 0 \<le> payout_left s i a"
  by (auto simp: payout_left_def fx_book_def payout_sound_def split: option.splits)

lemma wrap_Inr:
  assumes "wrap e s w a i k = Inr (s', w')"
  obtains x where "s' = put_balance i a a k (put_wrap i a (Some x) s)" "0 < k" "wr_total_shares x = k"
    "wr_outstanding_shares x = k" "wr_total_payout x = 0" "\<not> wr_settled x"
  using assms by (auto simp: wrap_def Let_def split: if_splits)

lemma wrap_shares:
  assumes "finite (dom (fx_balance s i a))" "wrap e s w a i k = Inr (s', w')"
  shows "share_sum s' i a = share_sum s i a - int (share_balance s i a a) + int k"
proof -
  obtain x where x: "s' = put_balance i a a k (put_wrap i a (Some x) s)" by (rule wrap_Inr[OF assms(2)])
  show ?thesis
    using share_sum_put[of "put_wrap i a (Some x) s" i a a k] assms(1) by (simp add: share_balance_def x)
qed

lemma wrap_keeps:
  assumes "\<And>j b. fx_book s j b" "wrap e s w a i k = Inr (s', w')"
  shows "keeps_books (Fx_wrap a i k) s s' 0"
proof -
  obtain x where x: "s' = put_balance i a a k (put_wrap i a (Some x) s)" "0 < k" "wr_total_shares x = k"
    "wr_outstanding_shares x = k" "wr_total_payout x = 0" "\<not> wr_settled x" by (rule wrap_Inr[OF assms(2)])
  have fin: "finite (dom (fx_balance s i a))" using assms(1)[of i a] by (simp add: fx_book_def)
  have book: "fx_book s' i a" using x fin by (simp add: fx_book_def payout_sound_def i128_max_def)
  have exact: "shares_exact s' i a" if e: "shares_exact s i a" and new: "\<not> rewraps i a (Fx_wrap a i k) s"
  proof -
    have "share_sum s i a = 0" using e new by (simp add: shares_exact_def rewraps_def)
    moreover from this have "share_balance s i a a = 0" using share_balance_le(1)[OF assms(1), of i a a] by simp
    ultimately have "share_sum s' i a = int k" using wrap_shares[OF fin assms(2)] by simp
    then show ?thesis using x(4) by (simp add: shares_exact_def x(1))
  qed
  show ?thesis
    by (rule keeps_booksI[OF assms(1) book _ _ exact])
      (use payout_left_nonneg[OF assms(1)] x in \<open>auto simp: x(1) payout_left_def\<close>)
qed

lemma transfer_keeps:
  assumes "\<And>j b. fx_book s j b" "transfer_shares e s b a i d m = Inr s'"
  shows "keeps_books (Fx_transfer b a i d m) s s' 0"
proof -
  let ?s1 = "put_balance i a b (share_balance s i a b - m) s"
  from assms(2) have m: "m \<le> share_balance s i a b" "s' = put_balance i a d (share_balance ?s1 i a d + m) ?s1"
    by (auto simp: transfer_shares_def Let_def)
  have fin: "finite (dom (fx_balance s i a))" using assms(1)[of i a] by (simp add: fx_book_def)
  have "share_sum ?s1 i a = share_sum s i a - int m" using share_sum_put[OF fin, of b "share_balance s i a b - m"] m(1) by simp
  moreover have "share_sum s' i a = share_sum ?s1 i a + int m"
    unfolding m(2) using share_sum_put[of ?s1 i a d "share_balance ?s1 i a d + m"] fin by simp
  ultimately have sum: "share_sum s' i a = share_sum s i a" by simp
  have wraps: "fx_wrap s' = fx_wrap s" unfolding m(2) by simp
  have "finite (dom (fx_balance s' i a))" unfolding m(2) using fin by simp
  then have "fx_book s' i a" using assms(1)[of i a] wraps by (simp add: fx_book_def)
  moreover have "shares_exact s i a \<Longrightarrow> shares_exact s' i a" by (simp add: shares_exact_def sum wraps)
  ultimately show ?thesis
    by (intro keeps_booksI[OF assms(1)]) (auto simp: wraps payout_left_def, auto simp: m(2))
qed

lemma settle_Inr:
  assumes "settle e s w i a = Inr s'" "fx_wrap s i a = Some x"
  obtains x' where "s' = put_wrap i a (Some x') s" "wr_outstanding_shares x' = wr_outstanding_shares x" "wr_settled x \<Longrightarrow> x' = x"
    "\<forall>j pl. fp_pools (w_pool w) j = Some pl \<longrightarrow> 0 \<le> pl_repaid_amount pl \<Longrightarrow> payout_sound x \<Longrightarrow> payout_sound x'"
proof (cases "wr_settled x")
  case True
  then have "s' = s" using assms by (simp add: settle_def)
  moreover have "put_wrap i a (Some x) s = s" using assms(2) by (simp add: put_wrap_def fun_upd_idem)
  ultimately show thesis using that[of x] by simp
next
  case False
  with assms obtain pool T where p: "fp_pools (w_pool w) i = Some pool"
    "pl_repaid_amount pool * int (pos_share_bps (get_position (w_pool w) i (self_addr e))) \<le> i128_max"
    "i128_div (pl_repaid_amount pool * int (pos_share_bps (get_position (w_pool w) i (self_addr e)))) 10000 = Some T"
    "s' = put_wrap i a (Some (x\<lparr>wr_total_payout := T, wr_settled := True\<rparr>)) s"
    by (auto simp: settle_def Let_def bind_eq_Some_conv split: if_splits)
  show thesis
  proof (rule that[OF p(4)])
    assume nn: "\<forall>j pl. fp_pools (w_pool w) j = Some pl \<longrightarrow> 0 \<le> pl_repaid_amount pl" and x: "payout_sound x"
    define v where "v = pl_repaid_amount pool * int (pos_share_bps (get_position (w_pool w) i (self_addr e)))"
    have v: "0 \<le> v" "v \<le> i128_max" "i128_div v 10000 = Some T" using p(1-3) nn by (auto simp: v_def)
    have T: "T = v div 10000" using v i128_div_nonneg[of v 10000] by simp
    have "T \<le> v" unfolding T using v(1) by linarith
    then have "0 \<le> T" "T \<le> i128_max" using v(1,2) by (simp_all add: T)
    with x show "payout_sound (x\<lparr>wr_total_payout := T, wr_settled := True\<rparr>)" by (simp add: payout_sound_def)
  qed (use False in simp_all)
qed

lemma settle_keeps:
  assumes "\<And>j b. fx_book s j b" "settle e s w i a = Inr s'"
    and "\<forall>j pl. fp_pools (w_pool w) j = Some pl \<longrightarrow> 0 \<le> pl_repaid_amount pl"
  shows "keeps_books (Fx_settle i a) s s' 0"
proof -
  from assms(2) obtain x where x: "fx_wrap s i a = Some x" by (auto simp: settle_def)
  obtain x' where s': "s' = put_wrap i a (Some x') s" "wr_outstanding_shares x' = wr_outstanding_shares x"
    "payout_sound x \<Longrightarrow> payout_sound x'" using settle_Inr[OF assms(2) x] assms(3) by metis
  have "fx_book s' i a" using assms(1)[of i a] x s' by (simp add: fx_book_def)
  moreover have "shares_exact s i a \<Longrightarrow> shares_exact s' i a" using x s' by (simp add: shares_exact_def)
  ultimately show ?thesis by (intro keeps_booksI[OF assms(1)]) (auto simp: s'(1))
qed

lemma redeem_keeps:
  assumes "\<And>j b. fx_book s j b" "redeem e s h i a = Inr (s', cs, n)"
  shows "keeps_books (Fx_redeem h i a) s s' n"
  using assms(2)
proof (rule redeem_Inr)
  fix x assume x: "fx_wrap s i a = Some x" "share_balance s i a h \<le> wr_outstanding_shares x" "wr_settled x"
    and s': "s' = put_wrap i a (Some (x\<lparr>wr_outstanding_shares := wr_outstanding_shares x - share_balance s i a h,
       wr_total_payout := wr_total_payout x - n\<rparr>)) (put_balance i a h 0 (put_claimed i a h s))"
  have n: "0 \<le> n" "n \<le> wr_total_payout x" using redeem_pays(2,3)[OF assms(2,1) x(1)] by simp_all
  have w: "finite (dom (fx_balance s i a))" "payout_sound x" using assms(1)[of i a] x(1) by (simp_all add: fx_book_def)
  have sum: "share_sum s' i a = share_sum s i a - int (share_balance s i a h)"
    unfolding s' using share_sum_put[of "put_claimed i a h s" i a h 0] w(1) by (simp add: share_balance_def)
  have "fx_book s' i a" using w x n unfolding s' by (auto simp: fx_book_def payout_sound_def)
  moreover have "shares_exact s i a \<Longrightarrow> shares_exact s' i a"
    using x(1,2) by (simp add: shares_exact_def sum) (simp add: s')
  ultimately show ?thesis
    by (intro keeps_booksI[OF assms(1)]) (use x(1) n in \<open>auto simp: s' payout_left_def\<close>)
qed

lemma unwrap_Inr:
  assumes "unwrap e s w a i = Inr (s', w')"
  obtains x where "fx_wrap s i a = Some x" "share_balance s i a a = wr_total_shares x"
    "s' = put_wrap i a None (put_balance i a a 0 s)"
  using assms by (auto simp: unwrap_def Let_def)

lemma unwrap_keeps:
  assumes "\<And>j b. fx_book s j b" "unwrap e s w a i = Inr (s', w')"
  shows "keeps_books (Fx_unwrap a i) s s' 0"
proof -
  obtain x where x: "fx_wrap s i a = Some x" "share_balance s i a a = wr_total_shares x"
    "s' = put_wrap i a None (put_balance i a a 0 s)" by (rule unwrap_Inr[OF assms(2)])
  have w: "finite (dom (fx_balance s i a))" "payout_sound x" using assms(1)[of i a] x(1) by (simp_all add: fx_book_def)
  have "shares_exact s' i a" if e: "shares_exact s i a"
  proof -
    have "share_sum s i a = int (share_balance s i a a)"
      using share_balance_le(1)[OF assms(1), of i a a] w(2) x(1,2) e by (simp add: payout_sound_def shares_exact_def)
    then have "share_sum s' i a = 0" unfolding x(3) using share_sum_put[OF w(1), of a 0] by simp
    then show ?thesis by (simp add: shares_exact_def x(3))
  qed
  moreover have "fx_book s' i a" using w(1) by (simp add: fx_book_def x(3))
  ultimately show ?thesis
    by (intro keeps_booksI[OF assms(1)]) (use x(1) w(2) in \<open>auto simp: x(3) payout_left_def payout_sound_def\<close>)
qed

lemma fx_exec_keeps:
  assumes "\<And>j b. fx_book s j b" "fx_exec e w c s = Inr (s', n)"
    and "\<forall>j pl. fp_pools (w_pool w) j = Some pl \<longrightarrow> 0 \<le> pl_repaid_amount pl"
  shows "keeps_books c s s' n"
proof (cases c)
  case (Fx_wrap a i k)
  with assms(2) show ?thesis by (auto intro: wrap_keeps[OF assms(1)])
next
  case (Fx_transfer b a i d m)
  with assms(2) show ?thesis by (auto intro: transfer_keeps[OF assms(1)])
next
  case (Fx_settle i a)
  with assms(2) show ?thesis by (auto intro: settle_keeps[OF assms(1) _ assms(3)])
next
  case (Fx_redeem h i a)
  with assms(2) show ?thesis by (auto intro: redeem_keeps[OF assms(1)])
next
  case (Fx_unwrap a i)
  with assms(2) show ?thesis by (auto intro: unwrap_keeps[OF assms(1)])
qed

lemma fx_runs_books:
  assumes "fx_runs i a got paid clean s"
  shows "(\<forall>j b. fx_book s j b) \<and> 0 \<le> paid \<and> paid + payout_left s i a \<le> got \<and> (clean \<longrightarrow> shares_exact s i a)"
  using assms
proof (induction rule: fx_runs.induct)
  case (fx_start e admin pool ac s)
  then show ?case by (auto simp: fx_initialize_def fx_empty_def fx_book_def shares_exact_def payout_left_def split: if_splits)
next
  case (fx_step got paid clean s e w c s' n)
  then have "\<And>j b. fx_book s j b" by blast
  from fx_exec_keeps[OF this fx_step.hyps(2,3)]
  have keep: "\<forall>j b. fx_book s' j b" "0 \<le> paid_for i a c n"
    "payout_left s' i a \<le> payout_left s i a + settled_by i a c s s' - paid_for i a c n"
    "shares_exact s i a \<and> \<not> rewraps i a c s \<longrightarrow> shares_exact s' i a" by (auto simp: keeps_books_def)
  with fx_step.IH show ?case by auto
qed

section \<open>A wrap that is used up\<close>

text \<open>When nobody holds a share of a settled wrap any more, nothing but a new wrap in its place
  changes its record, and neither a redemption nor \<open>unwrap\<close> succeeds.\<close>

definition used_up :: "fx_state \<Rightarrow> u64 \<Rightarrow> address \<Rightarrow> WrapRecord \<Rightarrow> bool" where
  "used_up s i a x \<longleftrightarrow> fx_wrap s i a = Some x \<and> wr_settled x \<and> 0 < wr_total_shares x \<and> (\<forall>h. share_balance s i a h = 0)"

lemma used_up_refuses:
  assumes "used_up s i a x"
  shows "\<not> is_ok (redeem e s h i a)" "\<not> is_ok (unwrap e s w a i)"
proof -
  show "\<not> is_ok (redeem e s h i a)"
  proof
    assume "is_ok (redeem e s h i a)"
    then obtain s3 cs n where "redeem e s h i a = Inr (s3, cs, n)" by (auto simp: is_ok_iff)
    then show False by (rule redeem_Inr) (use assms in \<open>simp add: used_up_def\<close>)
  qed
  show "\<not> is_ok (unwrap e s w a i)"
  proof
    assume "is_ok (unwrap e s w a i)"
    then obtain s3 w3 where "unwrap e s w a i = Inr (s3, w3)" by (auto simp: is_ok_iff)
    then show False by (rule unwrap_Inr) (use assms in \<open>simp add: used_up_def\<close>)
  qed
qed

lemma used_up_same:
  "used_up s i a x \<Longrightarrow> fx_wrap s' i a = fx_wrap s i a \<Longrightarrow> fx_balance s' i a = fx_balance s i a \<Longrightarrow> used_up s' i a x"
  by (simp add: used_up_def share_balance_def)

lemma used_up_stays:
  assumes "used_up s i a x" "fx_exec e w c s = Inr (s', n)" "\<not> rewraps i a c s"
  shows "used_up s' i a x"
proof (cases c)
  case (Fx_wrap b j k)
  with assms(2) obtain w' where w': "wrap e s w b j k = Inr (s', w')" by auto
  have "(i, a) \<noteq> (j, b)" using assms(1,3) Fx_wrap by (auto simp: used_up_def rewraps_def)
  with w' show ?thesis by (auto intro!: used_up_same[OF assms(1)] elim!: wrap_Inr)
next
  case (Fx_transfer b d j h m)
  with assms(2) have m: "0 < m" "m \<le> share_balance s j d b"
    "\<exists>k l. s' = put_balance j d h l (put_balance j d b k s)"
    by (auto simp: transfer_shares_def Let_def split: if_splits)
  have "(i, a) \<noteq> (j, d)" using assms(1) m(1,2) by (auto simp: used_up_def)
  with m(3) show ?thesis by (auto intro!: used_up_same[OF assms(1)])
next
  case (Fx_settle j d)
  with assms(2) have x: "settle e s w j d = Inr s'" by auto
  then obtain y where y: "fx_wrap s j d = Some y" by (auto simp: settle_def)
  obtain y' where "s' = put_wrap j d (Some y') s" "wr_settled y \<Longrightarrow> y' = y" by (rule settle_Inr[OF x y]) blast
  with y show ?thesis
    by (cases "(i, a) = (j, d)") (use assms(1) in \<open>auto intro!: used_up_same[OF assms(1)] simp: used_up_def share_balance_def\<close>)
next
  case (Fx_redeem h j d)
  with assms(2) obtain cs where r: "redeem e s h j d = Inr (s', cs, n)" by auto
  then have "(i, a) \<noteq> (j, d)" using used_up_refuses(1)[OF assms(1)] by (auto simp: is_ok_iff)
  with r show ?thesis by (auto intro!: used_up_same[OF assms(1)] elim!: redeem_Inr)
next
  case (Fx_unwrap d j)
  with assms(2) obtain w' where r: "unwrap e s w d j = Inr (s', w')" by auto
  then have "(i, a) \<noteq> (j, d)" using used_up_refuses(2)[OF assms(1)] by (auto simp: is_ok_iff)
  with r show ?thesis by (auto intro!: used_up_same[OF assms(1)] elim!: unwrap_Inr)
qed

lemma used_up_later: "fx_later i a s s' \<Longrightarrow> used_up s i a x \<Longrightarrow> used_up s' i a x"
  by (induction rule: fx_later.induct) (auto intro: used_up_stays)

section \<open>Properties\<close>

text \<open>C36: In every run the redemptions of what an investor wrapped of an invoice never pay out more than the
  payouts settled for it, and what is left on record is within the difference.  As long as the
  investor has not wrapped another position of the same invoice over his open wrap, the outstanding
  shares are the shares its holders have; \<open>rewrap_exceeds_outstanding\<close> is what such a wrap does.\<close>

theorem redemptions_within_payout:
  assumes "fx_runs i a got paid clean s"
  shows "0 \<le> paid \<and> paid \<le> got \<and>
    (\<forall>x. fx_wrap s i a = Some x \<longrightarrow> 0 \<le> wr_total_payout x \<and> wr_total_payout x \<le> got - paid \<and>
       (clean \<longrightarrow> (\<Sum>h\<in>dom (fx_balance s i a). int (share_balance s i a h)) = int (wr_outstanding_shares x)))"
proof -
  have sum: "share_sum s i a = (\<Sum>h\<in>dom (fx_balance s i a). int (share_balance s i a h))"
    unfolding entry_sum_def by (rule sum.cong) (auto simp: share_balance_def)
  have book: "fx_book s i a" and paid: "0 \<le> paid" "paid + payout_left s i a \<le> got" "clean \<longrightarrow> shares_exact s i a"
    using fx_runs_books[OF assms] by blast+
  have left: "0 \<le> payout_left s i a" by (rule payout_left_nonneg[OF book])
  have "wr_total_payout x = payout_left s i a \<and> (clean \<longrightarrow> share_sum s i a = int (wr_outstanding_shares x))"
    if "fx_wrap s i a = Some x" for x
    using paid(3) that by (simp add: shares_exact_def payout_left_def)
  with paid left show ?thesis by (auto simp: sum)
qed

text \<open>A wrap over an open wrap overwrites the record, but the other holders keep their shares: then
  more shares are held than are outstanding.\<close>

lemma rewrap_exceeds_outstanding:
  assumes "fx_book s i a" "wrap e s w a i k = Inr (s', w')" "h \<noteq> a" "0 < share_balance s i a h"
  shows "\<exists>x. fx_wrap s' i a = Some x \<and> int (wr_outstanding_shares x) < share_sum s' i a"
proof -
  obtain x where x: "s' = put_balance i a a k (put_wrap i a (Some x) s)" "wr_outstanding_shares x = k" by (rule wrap_Inr[OF assms(2)])
  have "int (share_balance s i a a) + int (share_balance s i a h) \<le> share_sum s i a"
    using share_balance_le(3)[OF assms(1), of a h] assms(3) by simp
  then have "int k < share_sum s' i a" using wrap_shares[OF _ assms(2)] assms(1,4) by (simp add: fx_book_def)
  then show ?thesis using x by simp
qed

text \<open>C37: When two holders who own all shares of a settled wrap redeem one after the other, the second redemption
  is counted against what the first one left: the part \<open>(T - T h / S) h / S\<close> of the payout \<open>T\<close>, where \<open>h\<close> of \<open>S\<close>
  shares are the first holder's, is paid to nobody.  In every later state, unless the investor wraps
  another position in the place of this one, that part is still on the record, and neither a
  redemption nor \<open>unwrap\<close> succeeds for the wrap.\<close>

theorem redemption_leaves_rest:
  assumes "fx_runs i a got paid True s" "fx_wrap s i a = Some x" "wr_outstanding_shares x = wr_total_shares x" "b \<noteq> d"
    and "share_balance s i a b + share_balance s i a d = wr_total_shares x"
    and "redeem e1 s b i a = Inr (s1, cs1, n1)" "redeem e2 s1 d i a = Inr (s2, cs2, n2)"
    and "fx_later i a s2 s3"
  shows "let T = wr_total_payout x; h = int (share_balance s i a b); S = int (wr_total_shares x) in
    n1 = T * h div S \<and> n2 = T - n1 - (T - n1) * h div S \<and>
    (\<exists>y. fx_wrap s3 i a = Some y \<and> wr_outstanding_shares y = 0 \<and> wr_total_payout y = (T - n1) * h div S) \<and>
    (\<forall>e h. \<not> is_ok (redeem e s3 h i a)) \<and> (\<forall>e w. \<not> is_ok (unwrap e s3 w a i))"
proof -
  have book: "\<And>j b. fx_book s j b" using fx_runs_books[OF assms(1)] by blast
  have book1: "\<And>j b. fx_book s1 j b" using redeem_keeps[OF book assms(6)] by (auto simp: keeps_books_def)
  have book2: "fx_book s2 i a" using redeem_keeps[OF book1 assms(7)] by (auto simp: keeps_books_def)
  have b: "0 < share_balance s i a b"
    and s1: "s1 = put_wrap i a (Some (x\<lparr>wr_outstanding_shares := wr_outstanding_shares x - share_balance s i a b,
       wr_total_payout := wr_total_payout x - n1\<rparr>)) (put_balance i a b 0 (put_claimed i a b s))"
    using redeem_state[OF assms(6,2)] by simp_all
  let ?x1 = "x\<lparr>wr_outstanding_shares := wr_outstanding_shares x - share_balance s i a b, wr_total_payout := wr_total_payout x - n1\<rparr>"
  have x1: "fx_wrap s1 i a = Some ?x1" unfolding s1 by simp
  have d1: "share_balance s1 i a d = share_balance s i a d" unfolding s1 using assms(4) by (simp add: share_balance_def)
  have d: "0 < share_balance s i a d"
    and s2: "s2 = put_wrap i a (Some (?x1\<lparr>wr_outstanding_shares := wr_outstanding_shares ?x1 - share_balance s i a d,
       wr_total_payout := wr_total_payout ?x1 - n2\<rparr>)) (put_balance i a d 0 (put_claimed i a d s1))"
    using redeem_state[OF assms(7) x1] d1 by simp_all
  have n1: "n1 = wr_total_payout x * int (share_balance s i a b) div int (wr_total_shares x)"
    using redeem_pays(1)[OF assms(6) book assms(2)] assms(3,5) d by simp
  have parts: "wr_total_shares x - share_balance s i a d = share_balance s i a b" "wr_total_shares x - share_balance s i a b = share_balance s i a d"
    using assms(5) by simp_all
  have n2: "n2 = wr_total_payout x - n1 - (wr_total_payout x - n1) * int (share_balance s i a b) div int (wr_total_shares x)"
    using redeem_pays(1)[OF assms(7) book1 x1] by (simp add: d1 parts assms(3))
  let ?y = "?x1\<lparr>wr_outstanding_shares := wr_outstanding_shares ?x1 - share_balance s i a d, wr_total_payout := wr_total_payout ?x1 - n2\<rparr>"
  have y: "fx_wrap s2 i a = Some ?y" unfolding s2 by simp
  have "shares_exact s i a" using fx_runs_books[OF assms(1)] by blast
  then have "shares_exact s2 i a"
    using redeem_keeps[OF book assms(6)] redeem_keeps[OF book1 assms(7)] by (simp add: keeps_books_def rewraps_def)
  then have "share_sum s2 i a = 0" using assms(3,5) y by (simp add: shares_exact_def)
  then have none: "share_balance s2 i a h = 0" for h using share_balance_le(1)[OF book2, of h] by simp
  have "wr_settled x" by (rule redeem_Inr[OF assms(6)]) (use assms(2) in simp)
  moreover have "0 < wr_total_shares x" using d assms(5) by simp
  ultimately have "used_up s2 i a ?y" using y none by (simp add: used_up_def)
  from used_up_later[OF assms(8) this] have u: "used_up s3 i a ?y" .
  then have "fx_wrap s3 i a = Some ?y" by (simp add: used_up_def)
  moreover have "wr_outstanding_shares ?y = 0" using assms(3,5) by simp
  moreover have "wr_total_payout ?y = (wr_total_payout x - n1) * int (share_balance s i a b) div int (wr_total_shares x)"
    using n2 by simp
  ultimately show ?thesis using n1 n2 used_up_refuses[OF u] unfolding Let_def by blast
qed

end
