(* ===== verification/Fractional_Example.thy ===== *)
theory Fractional_Example
  imports Fractional_Props
begin

text \<open>
  A concrete wrap: 80 holds the whole pool of invoice 1, wraps it into two shares and hands one to 82; the
  pool repays 100.
\<close>

definition fx_env :: env where "fx_env = sample_env\<lparr>self_addr := 90\<rparr>"

lemma fx_env_simps [simp]: "self_addr fx_env = 90" "authorised fx_env a" "\<not> view_is_paused fx_env a" "timestamp fx_env = 1000"
  by (simp_all add: fx_env_def)

definition pool_of :: "address \<Rightarrow> i128 \<Rightarrow> bool \<Rightarrow> world" where
  "pool_of owner repaid closed =
     \<lparr>w_pool = pool_empty\<lparr>fp_access_control := Some 5,
        fp_pools := [1 \<mapsto> \<lparr>pl_invoice_id = 1, pl_token = 70, pl_total_funded = 90, pl_face_value = 100, pl_repaid_amount = repaid,
          pl_is_closed = closed, pl_late_penalty_bps = 0, pl_total_owed = 100, pl_penalty_applied = False\<rparr>],
        fp_positions := [1 \<mapsto> [(owner, \<lparr>pos_investor = owner, pos_invoice_id = 1, pos_contributed = 90, pos_share_bps = 10000,
          pos_yield_claimed = 0\<rparr>)]]\<rparr>,
      w_nft = nft_empty, w_calls = []\<rparr>"

definition fx_record :: "u64 \<Rightarrow> i128 \<Rightarrow> bool \<Rightarrow> WrapRecord" where
  "fx_record out left_over settled =
     \<lparr>wr_invoice_id = 1, wr_original_investor = 80, wr_total_shares = 2, wr_outstanding_shares = out, wr_contributed = 90,
      wr_token = 70, wr_total_payout = left_over, wr_settled = settled\<rparr>"

definition fx_ready :: fx_state where "fx_ready = fx_empty\<lparr>fx_admin := Some 10, fx_pool := Some 60, fx_access := Some 5\<rparr>"

definition shares_open :: fx_state where
  "shares_open = put_balance 1 80 82 1 (put_balance 1 80 80 1 (put_balance 1 80 80 2 (put_wrap 1 80 (Some (fx_record 2 0 False)) fx_ready)))"

definition shares_settled :: fx_state where "shares_settled = put_wrap 1 80 (Some (fx_record 2 100 True)) shares_open"

lemmas fx_eval = wrap_def fx_require_not_paused_def fx_financing_pool_def get_position_def get_positions_map_def map_get_def pool_of_def
  transfer_position_def trade_guard_def require_no_escrow_def pool_require_not_paused_def open_pool_def pool_empty_def MAX_SHARES_def
  require_auth_def fx_ready_def fx_empty_def Let_def get_pool_def

lemma fx_run_wrap: "fx_exec fx_env (pool_of 80 0 False) (Fx_wrap 80 1 2) fx_ready
    = Inr (put_balance 1 80 80 2 (put_wrap 1 80 (Some (fx_record 2 0 False)) fx_ready), 0)"
  by (simp add: fx_eval fx_record_def)

lemma fx_run_transfer: "fx_exec fx_env (pool_of 90 0 False) (Fx_transfer 80 80 1 82 1)
      (put_balance 1 80 80 2 (put_wrap 1 80 (Some (fx_record 2 0 False)) fx_ready)) = Inr (shares_open, 0)"
  by (simp add: transfer_shares_def shares_open_def share_balance_def put_balance_def put_wrap_def fx_ready_def fx_empty_def require_auth_def
      Let_def u64_add_def u64_max_def)

lemma fx_run_settle: "fx_exec fx_env (pool_of 90 100 True) (Fx_settle 1 80) shares_open = Inr (shares_settled, 0)"
proof -
  have "i128_mul 100 10000 = Some 1000000" "i128_div 1000000 10000 = Some 100"
    by (simp_all add: i128_max_def i128_min_def i128_div_nonneg i128_mul_def i128_fit_def)
  then show ?thesis
    by (simp add: settle_def shares_settled_def shares_open_def put_balance_def put_wrap_def fx_eval fx_record_def)
qed

lemma fx_runs_settled: "fx_runs 1 80 100 0 True shares_settled"
proof -
  have "fx_initialize fx_env fx_empty 10 60 5 = Inr fx_ready" by (simp add: fx_initialize_def fx_empty_def fx_ready_def)
  from fx_start[OF this] have "fx_runs 1 80 0 0 True fx_ready" .
  from fx_step[OF this fx_run_wrap] have "fx_runs 1 80 0 0 True (put_balance 1 80 80 2 (put_wrap 1 80 (Some (fx_record 2 0 False)) fx_ready))"
    by (simp add: pool_of_def fx_ready_def fx_empty_def rewraps_def)
  from fx_step[OF this fx_run_transfer] have "fx_runs 1 80 0 0 True shares_open" by (simp add: pool_of_def rewraps_def)
  from fx_step[OF this fx_run_settle] show ?thesis
    by (simp add: pool_of_def payout_left_def shares_settled_def shares_open_def fx_record_def rewraps_def)
qed

lemma fx_redeem_first: "\<exists>s cs. redeem fx_env shares_settled 80 1 80 = Inr (s, cs, 50) \<and>
    fx_wrap s 1 80 = Some (fx_record 1 50 True) \<and> \<not> fx_claimed s 1 80 82 \<and> share_balance s 1 80 82 = 1"
  by (simp add: redeem_def shares_settled_def shares_open_def put_balance_def put_wrap_def put_claimed_def fx_ready_def fx_empty_def
      fx_record_def share_balance_def part_of_def require_auth_def Let_def i128_sub_def i128_fit_def i128_min_def i128_max_def)

lemma fx_redeem_second:
  assumes "fx_wrap s 1 80 = Some (fx_record 1 50 True)" "\<not> fx_claimed s 1 80 82" "share_balance s 1 80 82 = 1"
  shows "\<exists>s' cs. redeem fx_env s 82 1 80 = Inr (s', cs, 25)"
  using assms by (simp add: redeem_def fx_record_def part_of_def require_auth_def Let_def i128_sub_def i128_fit_def i128_min_def i128_max_def)

theorem redemption_leaves_rest_witness:
  "\<exists>s1 s2 cs1 cs2 y. redeem fx_env shares_settled 80 1 80 = Inr (s1, cs1, 50) \<and> redeem fx_env s1 82 1 80 = Inr (s2, cs2, 25) \<and>
     fx_wrap s2 1 80 = Some y \<and> wr_total_payout y = 25 \<and> (\<forall>e h. \<not> is_ok (redeem e s2 h 1 80))"
proof -
  from fx_redeem_first obtain s1 cs1 where r1: "redeem fx_env shares_settled 80 1 80 = Inr (s1, cs1, 50)"
    "fx_wrap s1 1 80 = Some (fx_record 1 50 True)" "\<not> fx_claimed s1 1 80 82" "share_balance s1 1 80 82 = 1" by blast
  from fx_redeem_second[OF r1(2-4)] obtain s2 cs2 where r2: "redeem fx_env s1 82 1 80 = Inr (s2, cs2, 25)" by blast
  have x: "fx_wrap shares_settled 1 80 = Some (fx_record 2 100 True)" by (simp add: shares_settled_def)
  have shares: "share_balance shares_settled 1 80 80 = 1" "share_balance shares_settled 1 80 82 = 1"
    by (simp_all add: shares_settled_def shares_open_def share_balance_def put_balance_def put_wrap_def)
  have "wr_outstanding_shares (fx_record 2 100 True) = wr_total_shares (fx_record 2 100 True)"
    "share_balance shares_settled 1 80 80 + share_balance shares_settled 1 80 82 = wr_total_shares (fx_record 2 100 True)"
    using shares by (simp_all add: fx_record_def)
  from redemption_leaves_rest[OF fx_runs_settled x this(1) _ this(2) r1(1) r2 later_none]
  have "(\<exists>y. fx_wrap s2 1 80 = Some y \<and> wr_total_payout y = 25) \<and> (\<forall>e h. \<not> is_ok (redeem e s2 h 1 80))"
    using shares by (auto simp: Let_def fx_record_def)
  with r1(1) r2 show ?thesis by blast
qed

theorem redemptions_within_payout_witness:
  "\<exists>s cs. redeem fx_env shares_settled 80 1 80 = Inr (s, cs, 50) \<and> fx_runs 1 80 100 50 True s \<and>
     (\<Sum>h\<in>dom (fx_balance s 1 80). int (share_balance s 1 80 h)) = 1 \<and> (50::int) \<le> 100"
proof -
  from fx_redeem_first obtain s cs where r: "redeem fx_env shares_settled 80 1 80 = Inr (s, cs, 50)"
    "fx_wrap s 1 80 = Some (fx_record 1 50 True)" by blast
  then have "fx_exec fx_env (pool_of 90 100 True) (Fx_redeem 80 1 80) shares_settled = Inr (s, 50)" by simp
  from fx_step[OF fx_runs_settled this] have run: "fx_runs 1 80 100 50 True s" by (simp add: pool_of_def rewraps_def)
  from redemptions_within_payout[OF run] r run show ?thesis by (auto simp: fx_record_def)
qed

end
