(* ===== verification/Secondary_Example.thy ===== *)
theory Secondary_Example
  imports Secondary_Market Fractional_Example
begin

text \<open>A concrete sale: 80 holds the pool of invoice 1 and sells it to 81 for 1000, at a fee of 250 basis points.\<close>

definition sm_open :: sm_state where
  "sm_open = sm_empty\<lparr>sm_admin := Some 10, sm_pool := Some 60, sm_treasury := Some 61, sm_fee_bps := Some 250, sm_paused := Some False\<rparr>"

definition sm_listed :: sm_state where
  "sm_listed = set_listing 1 80 (Some \<lparr>so_seller = 80, so_invoice_id = 1, so_token = 70, so_price = 1000\<rparr>) sm_open"

lemma sm_list_ok: "list_position fx_env (pool_of 80 0 False) sm_open 80 1 70 1000 = Inr sm_listed"
  by (simp add: list_position_def sm_require_not_paused_def sm_listed_def sm_open_def sm_empty_def fx_eval)

lemma sm_listed_facts:
  "sm_listing sm_listed 1 80 = Some \<lparr>so_seller = 80, so_invoice_id = 1, so_token = 70, so_price = 1000\<rparr>"
  "sm_treasury sm_listed = Some 61" "sm_fee_bps sm_listed = Some 250"
  by (simp_all add: sm_listed_def sm_open_def sm_empty_def set_listing_def)

theorem secondary_sale_effect_witness:
  "\<exists>s' w' cs. sm_buy_position fx_env (pool_of 80 0 False) sm_listed 81 1 80 = Inr (s', w', cs) \<and>
     cs = [Transfer 70 81 61 25, Transfer 70 81 80 975] \<and>
     map_get (get_positions_map (w_pool w') 1) 80 = None"
proof -
  have "bps_of 1000 250 = Inr 25" by (simp add: bps_of_Inr_iff i128_max_def)
  then have "is_ok (sm_buy_position fx_env (pool_of 80 0 False) sm_listed 81 1 80)"
    by (simp add: sm_buy_position_def sm_require_not_paused_def sm_listed_def sm_open_def sm_empty_def set_listing_def safe_sub_def fx_eval
        is_ok_iff i128_sub_def i128_fit_def i128_min_def i128_max_def)
  then obtain r where "sm_buy_position fx_env (pool_of 80 0 False) sm_listed 81 1 80 = Inr r" by (auto simp: is_ok_iff)
  then obtain s' w' cs where r: "sm_buy_position fx_env (pool_of 80 0 False) sm_listed 81 1 80 = Inr (s', w', cs)" by (cases r) auto
  have "map_ok (get_positions_map (w_pool (pool_of 80 0 False)) 1)" by (simp add: map_ok_def get_positions_map_def pool_of_def)
  from secondary_sale_effect[OF r this] r show ?thesis
    by (auto simp: sm_listed_facts simp del: One_nat_def)
qed

theorem listing_needs_no_position_witness:
  "\<exists>s'. list_position fx_env (pool_of 80 0 False) sm_open 99 1 70 5 = Inr s' \<and>
     (\<forall>e' buyer. \<not> is_ok (sm_buy_position e' (pool_of 80 0 False) s' buyer 1 99))"
proof -
  have "\<exists>pl. fp_pools (w_pool (pool_of 80 0 False)) 1 = Some pl \<and> \<not> pl_is_closed pl" by (simp add: pool_of_def)
  then obtain pl where "fp_pools (w_pool (pool_of 80 0 False)) 1 = Some pl" "\<not> pl_is_closed pl" by blast
  moreover have "map_get (get_positions_map (w_pool (pool_of 80 0 False)) 1) 99 = None" by (simp add: pool_of_def get_positions_map_def map_get_def)
  ultimately show ?thesis
    using listing_needs_no_position[of fx_env 99 sm_open 5 "pool_of 80 0 False" 1 pl 70] by (auto simp: sm_open_def sm_empty_def)
qed

end
