(* ===== verification/Verifier_Nomination.thy ===== *)
theory Verifier_Nomination
  imports Kora_Validation
begin

text \<open>
  Nomination of verifiers (\<open>contracts/verifier_nomination/src/lib.rs\<close>): supporters stake tokens on a
  candidate, the open nomination with the largest stake is selected, and stakes are withdrawn when
  a nomination has gone stale, was declined or has run out.
\<close>

section \<open>Data\<close>

datatype NominationError =
    NE_AlreadyInitialized | NE_NotInitialized | NE_NotAdmin | NE_InvalidAmount | NE_NotFound | NE_Closed
  | NE_StakeCapExceeded | NE_NotStale | NE_NotNominee | NE_NoEligibleCandidate | NE_TooManyNominations | NE_ArithmeticOverflow

type_synonym 'a ne_result = "(NominationError, 'a) result"

datatype NominationStatus = NS_Open | NS_Selected | NS_Accepted | NS_Declined | NS_Expired

definition MAX_NOMINATIONS :: u64 where "MAX_NOMINATIONS = 50"

record Nomination =
  no_id :: u64
  no_candidate :: address
  no_total_stake :: i128
  no_created_at :: u64
  no_selected_at :: u64
  no_status :: NominationStatus
  no_supporters :: "address list"

record vn_state =
  vn_admin :: "address option"
  vn_token :: "address option"
  vn_minimum_stake :: "i128 option"
  vn_cap :: "i128 option"
  vn_window :: "u64 option"
  vn_next_id :: "u64 option"
  vn_nomination :: "u64 \<Rightarrow> Nomination option"
  vn_stake :: "u64 \<Rightarrow> address \<Rightarrow> i128 option"

definition vn_empty :: vn_state where
  "vn_empty = \<lparr>vn_admin = None, vn_token = None, vn_minimum_stake = None, vn_cap = None, vn_window = None, vn_next_id = None,
     vn_nomination = (\<lambda>_. None), vn_stake = (\<lambda>_ _. None)\<rparr>"

section \<open>Entry points\<close>

definition vn_initialize ::
  "vn_state \<Rightarrow> address \<Rightarrow> address \<Rightarrow> i128 \<Rightarrow> i128 \<Rightarrow> u64 \<Rightarrow> vn_state ne_result" where
  "vn_initialize s admin token minimum_stake cap window =
     (if vn_admin s \<noteq> None then Inl (Err NE_AlreadyInitialized)
      else if minimum_stake \<le> 0 \<or> cap < minimum_stake \<or> window = 0 then Inl (Err NE_InvalidAmount)
      else Inr (s\<lparr>vn_admin := Some admin, vn_token := Some token, vn_minimum_stake := Some minimum_stake, vn_cap := Some cap,
             vn_window := Some window, vn_next_id := Some 0\<rparr>))"

definition vn_load :: "vn_state \<Rightarrow> u64 \<Rightarrow> Nomination ne_result" where
  "vn_load s n = ok_or (vn_nomination s n) (Err NE_NotFound)"

text \<open>The end of a period of the length of the window, saturating.\<close>

definition window_end :: "vn_state \<Rightarrow> u64 \<Rightarrow> u64" where
  "window_end s start = min u64_max (start + or_else (vn_window s) 0)"

definition put_nomination :: "u64 \<Rightarrow> Nomination \<Rightarrow> vn_state \<Rightarrow> vn_state" where
  "put_nomination n x s = s\<lparr>vn_nomination := (vn_nomination s)(n \<mapsto> x)\<rparr>"

definition get_stake :: "vn_state \<Rightarrow> u64 \<Rightarrow> address \<Rightarrow> i128" where
  "get_stake s n supporter = or_else (vn_stake s n supporter) 0"

definition stake_internal :: "env \<Rightarrow> vn_state \<Rightarrow> u64 \<Rightarrow> address \<Rightarrow> i128 \<Rightarrow> (vn_state \<times> ext_call list) ne_result" where
  "stake_internal e s n supporter amount =
     (if amount \<le> 0 then Inl (Err NE_InvalidAmount)
      else
        rbind (vn_load s n) (\<lambda>x.
        if no_status x \<noteq> NS_Open then Inl (Err NE_Closed)
        else if timestamp e \<ge> window_end s (no_created_at x) then Inl (Err NE_Closed)
        else
          let current = get_stake s n supporter in
          rbind (ok_or (i128_add current amount) (Err NE_ArithmeticOverflow)) (\<lambda>new_stake.
          if new_stake > or_else (vn_cap s) 0 then Inl (Err NE_StakeCapExceeded)
          else
            rbind (ok_or (i128_add (no_total_stake x) amount) (Err NE_ArithmeticOverflow)) (\<lambda>tot.
            rbind (ok_or (vn_token s) (Err NE_NotInitialized)) (\<lambda>token.
            let x' = x\<lparr>no_total_stake := tot, no_supporters := no_supporters x @ (if current = 0 then [supporter] else [])\<rparr> in
            Inr (put_nomination n x' (s\<lparr>vn_stake := (vn_stake s)(n := (vn_stake s n)(supporter \<mapsto> new_stake))\<rparr>),
                 [Transfer token supporter (self_addr e) amount]))))))"

definition nominate ::
  "env \<Rightarrow> vn_state \<Rightarrow> address \<Rightarrow> address \<Rightarrow> i128 \<Rightarrow> (vn_state \<times> ext_call list) ne_result" where
  "nominate e s supporter candidate amount =
     rbind (require_auth e supporter) (\<lambda>_.
     rbind (ok_or (vn_next_id s) (Err NE_NotInitialized)) (\<lambda>n.
     if n \<ge> MAX_NOMINATIONS then Inl (Err NE_TooManyNominations)
     else
       rbind (ok_or (u64_add n 1) (Err NE_ArithmeticOverflow)) (\<lambda>next_n.
       let x = \<lparr>no_id = n, no_candidate = candidate, no_total_stake = 0, no_created_at = timestamp e, no_selected_at = 0,
                no_status = NS_Open, no_supporters = []\<rparr> in
       stake_internal e ((put_nomination n x s)\<lparr>vn_next_id := Some next_n\<rparr>) n supporter amount)))"

definition stake :: "env \<Rightarrow> vn_state \<Rightarrow> address \<Rightarrow> u64 \<Rightarrow> i128 \<Rightarrow> (vn_state \<times> ext_call list) ne_result" where
  "stake e s supporter n amount = rbind (require_auth e supporter) (\<lambda>_. stake_internal e s n supporter amount)"

text \<open>The loop over the numbers; the first of several with the same stake wins.\<close>

definition eligible :: "env \<Rightarrow> vn_state \<Rightarrow> Nomination \<Rightarrow> bool" where
  "eligible e s x \<longleftrightarrow> \<not> (no_status x \<noteq> NS_Open \<or> no_total_stake x < or_else (vn_minimum_stake s) 0
     \<or> timestamp e \<ge> window_end s (no_created_at x))"

fun select_loop :: "env \<Rightarrow> vn_state \<Rightarrow> u64 list \<Rightarrow> Nomination option \<Rightarrow> Nomination option" where
  "select_loop e s [] winner = winner"
| "select_loop e s (n # ns) winner =
     select_loop e s ns
       (case vn_nomination s n of
          None \<Rightarrow> winner
        | Some x \<Rightarrow>
            if \<not> eligible e s x then winner
            else (case winner of
                None \<Rightarrow> Some x
              | Some w \<Rightarrow> if no_total_stake x > no_total_stake w then Some x else winner))"

definition select_candidate :: "env \<Rightarrow> vn_state \<Rightarrow> (vn_state \<times> u64) ne_result" where
  "select_candidate e s =
     rbind (ok_or (vn_next_id s) (Err NE_NotInitialized)) (\<lambda>count.
     rbind (ok_or (select_loop e s [0..<count] None) (Err NE_NoEligibleCandidate)) (\<lambda>x.
     Inr (put_nomination (no_id x) (x\<lparr>no_status := NS_Selected, no_selected_at := timestamp e\<rparr>) s, no_id x)))"

text \<open>The answer of the candidate who was selected.\<close>

definition answer_onboarding :: "NominationStatus \<Rightarrow> env \<Rightarrow> vn_state \<Rightarrow> address \<Rightarrow> u64 \<Rightarrow> vn_state ne_result" where
  "answer_onboarding status e s candidate n =
     rbind (require_auth e candidate) (\<lambda>_.
     rbind (vn_load s n) (\<lambda>x.
     if no_candidate x \<noteq> candidate then Inl (Err NE_NotNominee)
     else if no_status x \<noteq> NS_Selected then Inl (Err NE_Closed)
     else Inr (put_nomination n (x\<lparr>no_status := status\<rparr>) s)))"

definition accept_onboarding :: "env \<Rightarrow> vn_state \<Rightarrow> address \<Rightarrow> u64 \<Rightarrow> vn_state ne_result" where
  "accept_onboarding e s candidate n = answer_onboarding NS_Accepted e s candidate n"

definition decline_onboarding :: "env \<Rightarrow> vn_state \<Rightarrow> address \<Rightarrow> u64 \<Rightarrow> vn_state ne_result" where
  "decline_onboarding e s candidate n = answer_onboarding NS_Declined e s candidate n"

definition vn_withdraw :: "env \<Rightarrow> vn_state \<Rightarrow> address \<Rightarrow> u64 \<Rightarrow> (vn_state \<times> ext_call list) ne_result" where
  "vn_withdraw e s supporter n =
     rbind (require_auth e supporter) (\<lambda>_.
     rbind (vn_load s n) (\<lambda>x.
     let stale = (no_status x = NS_Open \<and> timestamp e \<ge> window_end s (no_created_at x));
         declined = (no_status x = NS_Declined);
         selection_expired = ((no_status x = NS_Selected \<or> no_status x = NS_Accepted) \<and> timestamp e \<ge> window_end s (no_selected_at x));
         already_expired = (no_status x = NS_Expired) in
     if \<not> stale \<and> \<not> declined \<and> \<not> selection_expired \<and> \<not> already_expired then Inl (Err NE_NotStale)
     else
       let amount = get_stake s n supporter in
       if amount \<le> 0 then Inl (Err NE_InvalidAmount)
       else
         rbind (ok_or (i128_sub (no_total_stake x) amount) Trap) (\<lambda>tot.
         rbind (ok_or (vn_token s) (Err NE_NotInitialized)) (\<lambda>token.
         let x' = x\<lparr>no_total_stake := tot, no_status := (if stale \<or> selection_expired then NS_Expired else no_status x)\<rparr> in
         Inr (put_nomination n x' (s\<lparr>vn_stake := (vn_stake s)(n := (vn_stake s n)(supporter := None))\<rparr>),
              [Transfer token (self_addr e) supporter amount])))))"

end
