(* ===== verification/Nomination_Props.thy ===== *)
theory Nomination_Props
  imports Verifier_Nomination Kora_Sums
begin

text \<open>
  Nominations over their runs: the stakes on record add up to the total of each nomination and to the
  tokens the contract holds, and the selection finds the largest stake.
\<close>

section \<open>Runs\<close>

datatype (plugins only: code) vn_op =
    Vn_nominate address address i128
  | Vn_stake address u64 i128
  | Vn_select
  | Vn_accept address u64
  | Vn_decline address u64
  | Vn_withdraw address u64

fun vn_exec :: "env \<Rightarrow> vn_op \<Rightarrow> vn_state \<Rightarrow> (vn_state \<times> ext_call list) ne_result" where
  "vn_exec e (Vn_nominate a b n) s = nominate e s a b n"
| "vn_exec e (Vn_stake a i n) s = stake e s a i n"
| "vn_exec e Vn_select s = rbind (select_candidate e s) (\<lambda>(s, _). Inr (s, []))"
| "vn_exec e (Vn_accept a i) s = rbind (accept_onboarding e s a i) (\<lambda>s. Inr (s, []))"
| "vn_exec e (Vn_decline a i) s = rbind (decline_onboarding e s a i) (\<lambda>s. Inr (s, []))"
| "vn_exec e (Vn_withdraw a i) s = vn_withdraw e s a i"

text \<open>A run of the contract at \<open>self\<close>, with the token calls it has made; the contract itself signs nothing.\<close>

inductive vn_runs :: "address \<Rightarrow> vn_state \<Rightarrow> ext_call list \<Rightarrow> bool" for self where
  vn_start: "vn_initialize vn_empty a t m c w = Inr s \<Longrightarrow> vn_runs self s []"
| vn_step: "vn_runs self s cs \<Longrightarrow> self_addr e = self \<Longrightarrow> \<not> authorised e self \<Longrightarrow> vn_exec e x s = Inr (s', cs')
    \<Longrightarrow> vn_runs self s' (cs @ cs')"

section \<open>Sums of stakes\<close>

definition stake_sum :: "(address \<Rightarrow> i128 option) \<Rightarrow> i128" where
  "stake_sum m = entry_sum (\<lambda>v. v) m"

lemma stake_sum_update:
  assumes "finite (dom m)"
  shows "stake_sum (m(a \<mapsto> v)) = stake_sum m - or_else (m a) 0 + v" "stake_sum (m(a := None)) = stake_sum m - or_else (m a) 0"
  using entry_sum_update[OF assms, of "\<lambda>v. v" a v] entry_sum_delete[OF assms, of "\<lambda>v. v" a]
  by (simp_all add: stake_sum_def or_else_def entry_at_def)

definition stakes_sound :: "vn_state \<Rightarrow> bool" where
  "stakes_sound s \<longleftrightarrow> vn_next_id s \<noteq> None \<and> vn_token s \<noteq> None \<and>
     (\<forall>n. finite (dom (vn_stake s n)) \<and> (\<forall>a v. vn_stake s n a = Some v \<longrightarrow> 0 < v \<and> v \<le> or_else (vn_cap s) 0)) \<and>
     (\<forall>n x. vn_nomination s n = Some x \<longrightarrow> no_id x = n \<and> n < or_else (vn_next_id s) 0 \<and> no_total_stake x = stake_sum (vn_stake s n)) \<and>
     (\<forall>n. vn_nomination s n = None \<longrightarrow> vn_stake s n = Map.empty) \<and>
     (\<forall>n < or_else (vn_next_id s) 0. vn_nomination s n \<noteq> None)"

text \<open>All stakes together.\<close>

definition staked :: "vn_state \<Rightarrow> i128" where
  "staked s = (\<Sum>n<or_else (vn_next_id s) 0. stake_sum (vn_stake s n))"

lemma staked_update:
  assumes "n < or_else (vn_next_id s) 0" "vn_next_id s' = vn_next_id s" "\<And>k. k \<noteq> n \<Longrightarrow> vn_stake s' k = vn_stake s k"
  shows "staked s' = staked s - stake_sum (vn_stake s n) + stake_sum (vn_stake s' n)"
proof -
  let ?N = "{..<or_else (vn_next_id s) 0}"
  have "staked u = stake_sum (vn_stake u n) + (\<Sum>k\<in>?N - {n}. stake_sum (vn_stake u k))" if "vn_next_id u = vn_next_id s" for u
    using assms(1) that by (simp add: staked_def sum.remove[of _ n])
  moreover have "(\<Sum>k\<in>?N - {n}. stake_sum (vn_stake s' k)) = (\<Sum>k\<in>?N - {n}. stake_sum (vn_stake s k))"
    by (rule sum.cong) (auto simp: assms(3))
  ultimately show ?thesis using assms(2) by simp
qed

lemma stake_internal_Inr:
  assumes "stake_internal e s n a v = Inr (s', cs)"
  obtains x w tok where "vn_nomination s n = Some x" "0 < v" "w = get_stake s n a + v" "w \<le> or_else (vn_cap s) 0" "vn_token s = Some tok"
    "vn_stake s' = (vn_stake s)(n := (vn_stake s n)(a \<mapsto> w))" "cs = [Transfer tok a (self_addr e) v]"
    "vn_nomination s' = (vn_nomination s)(n \<mapsto> x\<lparr>no_total_stake := no_total_stake x + v,
       no_supporters := no_supporters x @ (if get_stake s n a = 0 then [a] else [])\<rparr>)"
    "vn_next_id s' = vn_next_id s" "vn_token s' = vn_token s" "vn_cap s' = vn_cap s"
  using assms
  by (auto simp: stake_internal_def vn_load_def put_nomination_def i128_add_def i128_fit_def Let_def split: if_splits)

lemma stakes_sound_stake:
  assumes "stakes_sound s" "stake_internal e s n a v = Inr (s', cs)"
  shows "stakes_sound s' \<and> staked s' = staked s + v \<and> vn_token s' = vn_token s \<and>
    (\<exists>tok. vn_token s = Some tok \<and> cs = [Transfer tok a (self_addr e) v])"
  using assms(2)
proof (cases rule: stake_internal_Inr)
  case (1 x w tok)
  have fin: "finite (dom (vn_stake s n))" using assms(1) by (simp add: stakes_sound_def)
  have new: "stake_sum (vn_stake s' n) = stake_sum (vn_stake s n) + v"
    by (simp add: 1(3,6) stake_sum_update(1)[OF fin] get_stake_def)
  have pos: "0 < w" using assms(1) 1(2,3) by (cases "vn_stake s n a") (force simp: stakes_sound_def get_stake_def)+
  have n: "n < or_else (vn_next_id s) 0" using assms(1) 1(1) by (simp add: stakes_sound_def)
  have "staked s' = staked s + v" using staked_update[OF n 1(9)] 1(6) new by simp
  moreover have "stakes_sound s'"
    using assms(1) 1 pos new fin unfolding stakes_sound_def by (auto simp: domIff)
  ultimately show ?thesis using 1(5,7,10) by simp
qed

lemma stakes_sound_status:
  assumes "stakes_sound s" "vn_nomination s n = Some x" "no_id y = n" "no_total_stake y = no_total_stake x"
  shows "stakes_sound (put_nomination n y s)" "staked (put_nomination n y s) = staked s" "vn_token (put_nomination n y s) = vn_token s"
  using assms by (auto simp: stakes_sound_def put_nomination_def staked_def)

lemma stakes_sound_fresh:
  assumes "stakes_sound s" "vn_next_id s = Some n" "no_id x = n" "no_total_stake x = 0"
  shows "stakes_sound ((put_nomination n x s)\<lparr>vn_next_id := Some (n + 1)\<rparr>)"
    "staked ((put_nomination n x s)\<lparr>vn_next_id := Some (n + 1)\<rparr>) = staked s"
proof -
  have none: "vn_nomination s n = None" using assms(1,2) by (cases "vn_nomination s n") (auto simp: stakes_sound_def)
  then have empty: "vn_stake s n = Map.empty" using assms(1) by (simp add: stakes_sound_def)
  show "stakes_sound ((put_nomination n x s)\<lparr>vn_next_id := Some (n + 1)\<rparr>)"
    using assms empty none unfolding stakes_sound_def put_nomination_def by (auto simp: stake_sum_def less_Suc_eq)
  show "staked ((put_nomination n x s)\<lparr>vn_next_id := Some (n + 1)\<rparr>) = staked s"
    using assms(2) empty by (simp add: staked_def put_nomination_def stake_sum_def)
qed

section \<open>The selection\<close>

definition best_of :: "env \<Rightarrow> vn_state \<Rightarrow> u64 set \<Rightarrow> Nomination option \<Rightarrow> bool" where
  "best_of e s N w \<longleftrightarrow>
     (case w of
        None \<Rightarrow> \<forall>n\<in>N. \<forall>x. vn_nomination s n = Some x \<longrightarrow> \<not> eligible e s x
      | Some y \<Rightarrow> no_id y \<in> N \<and> vn_nomination s (no_id y) = Some y \<and> eligible e s y \<and>
          (\<forall>n\<in>N. \<forall>x. vn_nomination s n = Some x \<and> eligible e s x \<longrightarrow>
             no_total_stake x < no_total_stake y \<or> no_total_stake x = no_total_stake y \<and> no_id y \<le> n))"

lemma select_loop_best:
  assumes "stakes_sound s" "best_of e s {..<k} w"
  shows "best_of e s {..<k + m} (select_loop e s [k..<k + m] w)"
  using assms(2)
proof (induction m arbitrary: k w)
  case (Suc m)
  let ?w = "case vn_nomination s k of None \<Rightarrow> w | Some x \<Rightarrow> if \<not> eligible e s x then w
      else (case w of None \<Rightarrow> Some x | Some y \<Rightarrow> if no_total_stake x > no_total_stake y then Some x else w)"
  have "best_of e s {..<Suc k} ?w"
  proof (cases "\<exists>x. vn_nomination s k = Some x \<and> eligible e s x")
    case True
    then obtain x where x: "vn_nomination s k = Some x" "eligible e s x" by blast
    then have k: "no_id x = k" using assms(1) by (simp add: stakes_sound_def)
    show ?thesis
    proof (cases w)
      case None
      with x k Suc.prems show ?thesis by (auto simp: best_of_def less_Suc_eq)
    next
      case (Some y)
      with x k Suc.prems show ?thesis by (auto simp: best_of_def less_Suc_eq) force+
    qed
  next
    case False
    then have skip: "?w = w" by (auto split: option.splits)
    from False have "\<And>x. vn_nomination s k = Some x \<Longrightarrow> \<not> eligible e s x" by blast
    with Suc.prems show ?thesis unfolding skip lessThan_Suc best_of_def by (cases w) auto
  qed
  from Suc.IH[OF this] show ?case by (simp add: upt_conv_Cons del: upt_Suc)
qed simp

lemma select_candidate_Inr:
  assumes "stakes_sound s" "select_candidate e s = Inr (s', n)"
  obtains x where "vn_nomination s n = Some x" "no_id x = n" "best_of e s {..<or_else (vn_next_id s) 0} (Some x)"
    "s' = put_nomination n (x\<lparr>no_status := NS_Selected, no_selected_at := timestamp e\<rparr>) s"
proof -
  from assms obtain k x where k: "vn_next_id s = Some k" "select_loop e s [0..<k] None = Some x" "n = no_id x"
    "s' = put_nomination n (x\<lparr>no_status := NS_Selected, no_selected_at := timestamp e\<rparr>) s"
    unfolding select_candidate_def rbind_Inr_iff ok_or_Inr_iff by blast
  have "best_of e s {..<0 + k} (select_loop e s [0..<0 + k] None)" by (rule select_loop_best[OF assms(1)]) (simp add: best_of_def)
  with k(2) have best: "best_of e s {..<k} (Some x)" by simp
  then have "vn_nomination s n = Some x" by (simp add: best_of_def k(3))
  from that[OF this] best k(1,3,4) show thesis by simp
qed

section \<open>Every call keeps the books\<close>

lemma nominate_sound:
  assumes "stakes_sound s" "nominate e s a b v = Inr (s', cs)"
  shows "stakes_sound s' \<and> staked s' = staked s + v \<and> vn_token s' = vn_token s \<and>
    (\<exists>tok. vn_token s = Some tok \<and> cs = [Transfer tok a (self_addr e) v]) \<and> authorised e a"
proof -
  from assms(2) obtain n where n: "vn_next_id s = Some n" "authorised e a" and call:
    "stake_internal e ((put_nomination n \<lparr>no_id = n, no_candidate = b, no_total_stake = 0, no_created_at = timestamp e,
       no_selected_at = 0, no_status = NS_Open, no_supporters = []\<rparr> s)\<lparr>vn_next_id := Some (n + 1)\<rparr>) n a v = Inr (s', cs)"
    by (auto simp: nominate_def u64_add_def Let_def require_auth_def split: if_splits)
  let ?x = "\<lparr>no_id = n, no_candidate = b, no_total_stake = 0, no_created_at = timestamp e, no_selected_at = 0,
    no_status = NS_Open, no_supporters = []\<rparr>"
  from stakes_sound_fresh[OF assms(1) n(1), of ?x] stakes_sound_stake[OF _ call] n(2)
  show ?thesis by (simp add: put_nomination_def)
qed

lemma answer_sound:
  assumes "stakes_sound s" "answer_onboarding st e s a n = Inr s'"
  shows "stakes_sound s'" "staked s' = staked s" "vn_token s' = vn_token s"
proof -
  from assms(2) obtain x where x: "vn_nomination s n = Some x" "s' = put_nomination n (x\<lparr>no_status := st\<rparr>) s"
    by (auto simp: answer_onboarding_def vn_load_def split: if_splits)
  then have "no_id x = n" using assms(1) by (auto simp: stakes_sound_def)
  with x stakes_sound_status[OF assms(1) x(1), of "x\<lparr>no_status := st\<rparr>"]
  show "stakes_sound s'" "staked s' = staked s" "vn_token s' = vn_token s" by simp_all
qed

lemma withdraw_Inr:
  assumes "vn_withdraw e s a n = Inr (s', cs)"
  obtains x y tok where "vn_nomination s n = Some x" "0 < get_stake s n a" "vn_token s = Some tok" "authorised e a"
    "cs = [Transfer tok (self_addr e) a (get_stake s n a)]" "y = x\<lparr>no_total_stake := no_total_stake x - get_stake s n a\<rparr> \<or>
       y = x\<lparr>no_total_stake := no_total_stake x - get_stake s n a, no_status := NS_Expired\<rparr>"
    "s' = put_nomination n y (s\<lparr>vn_stake := (vn_stake s)(n := (vn_stake s n)(a := None))\<rparr>)"
proof -
  let ?st = "\<lambda>x. if no_status x = NS_Open \<and> window_end s (no_created_at x) \<le> timestamp e \<or>
      (no_status x = NS_Selected \<or> no_status x = NS_Accepted) \<and> window_end s (no_selected_at x) \<le> timestamp e then NS_Expired else no_status x"
  from assms obtain x tok where *: "vn_nomination s n = Some x" "0 < get_stake s n a" "vn_token s = Some tok" "authorised e a"
    "cs = [Transfer tok (self_addr e) a (get_stake s n a)]"
    "s' = put_nomination n (x\<lparr>no_total_stake := no_total_stake x - get_stake s n a, no_status := ?st x\<rparr>)
       (s\<lparr>vn_stake := (vn_stake s)(n := (vn_stake s n)(a := None))\<rparr>)"
    by (simp add: vn_withdraw_def vn_load_def Let_def not_le split del: if_split) blast
  have "?st x = NS_Expired \<or> ?st x = no_status x" by simp
  then have "x\<lparr>no_total_stake := v, no_status := ?st x\<rparr> = x\<lparr>no_total_stake := v\<rparr> \<or>
    x\<lparr>no_total_stake := v, no_status := ?st x\<rparr> = x\<lparr>no_total_stake := v, no_status := NS_Expired\<rparr>" for v
    by (cases x) auto
  with * show thesis by (intro that)
qed

lemma withdraw_sound:
  assumes "stakes_sound s" "vn_withdraw e s a n = Inr (s', cs)"
  shows "\<exists>v tok. vn_stake s n a = Some v \<and> vn_stake s' n a = None \<and> vn_token s = Some tok \<and> cs = [Transfer tok (self_addr e) a v] \<and>
    stakes_sound s' \<and> staked s' = staked s - v \<and> vn_token s' = vn_token s \<and> authorised e a"
proof -
  from assms(2) obtain x y tok where w: "vn_nomination s n = Some x" "0 < get_stake s n a" "vn_token s = Some tok" "authorised e a"
    "cs = [Transfer tok (self_addr e) a (get_stake s n a)]" and y: "y = x\<lparr>no_total_stake := no_total_stake x - get_stake s n a\<rparr> \<or>
       y = x\<lparr>no_total_stake := no_total_stake x - get_stake s n a, no_status := NS_Expired\<rparr>"
    and s': "s' = put_nomination n y (s\<lparr>vn_stake := (vn_stake s)(n := (vn_stake s n)(a := None))\<rparr>)"
    by (rule withdraw_Inr)
  then obtain v where v: "vn_stake s n a = Some v" "get_stake s n a = v" by (cases "vn_stake s n a") (auto simp: get_stake_def)
  have upd: "vn_nomination s' = (vn_nomination s)(n \<mapsto> y)" "vn_stake s' = (vn_stake s)(n := (vn_stake s n)(a := None))"
    "vn_next_id s' = vn_next_id s" "vn_token s' = vn_token s" "vn_cap s' = vn_cap s" "no_id y = no_id x"
    "no_total_stake y = no_total_stake x - get_stake s n a" using s' y by (auto simp: put_nomination_def)
  have fin: "finite (dom (vn_stake s n))" using assms(1) by (simp add: stakes_sound_def)
  have total: "stake_sum (vn_stake s' n) = stake_sum (vn_stake s n) - v" using v by (simp add: upd(2) stake_sum_update(2)[OF fin])
  have n: "n < or_else (vn_next_id s) 0" using assms(1) w(1) by (simp add: stakes_sound_def)
  have "staked s' = staked s - v" using staked_update[OF n upd(3)] upd(2) total by simp
  moreover have "stakes_sound s'"
    using assms(1) w(1) upd v total fin unfolding stakes_sound_def by (auto simp: domIff)
  ultimately show ?thesis using w v upd by simp
qed

lemma vn_exec_sound:
  assumes "stakes_sound s" "vn_exec e x s = Inr (s', cs)" "\<not> authorised e (self_addr e)" "vn_token s = Some tok"
  shows "stakes_sound s'" "vn_token s' = Some tok"
    "staked s' = staked s + moved_in tok (self_addr e) cs - moved_out tok (self_addr e) cs"
proof -
  have "stakes_sound s' \<and> vn_token s' = Some tok \<and>
    staked s' = staked s + moved_in tok (self_addr e) cs - moved_out tok (self_addr e) cs"
  proof (cases x)
    case (Vn_nominate a b v)
    with assms nominate_sound[OF assms(1), of e a b v s' cs] show ?thesis by auto
  next
    case (Vn_stake a n v)
    with assms stakes_sound_stake[OF assms(1), of e n a v s' cs] show ?thesis by (auto simp: stake_def require_auth_def split: if_splits)
  next
    case Vn_select
    with assms(2) obtain n where call: "select_candidate e s = Inr (s', n)" "cs = []" by auto
    from assms(1) call(1) show ?thesis
    proof (rule select_candidate_Inr)
      fix y assume y: "vn_nomination s n = Some y" "no_id y = n" "s' = put_nomination n (y\<lparr>no_status := NS_Selected, no_selected_at := timestamp e\<rparr>) s"
      let ?y = "y\<lparr>no_status := NS_Selected, no_selected_at := timestamp e\<rparr>"
      from y(2) stakes_sound_status[OF assms(1) y(1), of ?y] y(3) call(2) assms(4) show ?thesis by simp
    qed
  next
    case (Vn_accept a n)
    with assms answer_sound[OF assms(1), of NS_Accepted e a n s'] show ?thesis by (auto simp: accept_onboarding_def)
  next
    case (Vn_decline a n)
    with assms answer_sound[OF assms(1), of NS_Declined e a n s'] show ?thesis by (auto simp: decline_onboarding_def)
  next
    case (Vn_withdraw a n)
    with assms withdraw_sound[OF assms(1), of e a n s' cs] show ?thesis by auto
  qed
  then show "stakes_sound s'" "vn_token s' = Some tok"
    "staked s' = staked s + moved_in tok (self_addr e) cs - moved_out tok (self_addr e) cs" by simp_all
qed

lemma vn_runs_sound:
  assumes "vn_runs self s cs"
  shows "stakes_sound s \<and> (\<exists>tok. vn_token s = Some tok \<and> staked s = moved_in tok self cs - moved_out tok self cs)"
  using assms
proof (induction rule: vn_runs.induct)
  case (vn_start a t m c w s)
  then show ?case
    by (auto simp: vn_initialize_def vn_empty_def stakes_sound_def staked_def stake_sum_def split: if_splits)
next
  case (vn_step s cs e x s' cs')
  then obtain tok where "stakes_sound s" "vn_token s = Some tok" "staked s = moved_in tok self cs - moved_out tok self cs" by blast
  with vn_exec_sound[of s e x s' cs' tok] vn_step.hyps show ?case by auto
qed

section \<open>Properties\<close>

text \<open>C38: on every run the tokens the contract has taken in, less those it has paid out, are exactly the stakes on
  record, nomination by nomination the total of its supporters' stakes; so each withdrawal is covered.\<close>

theorem nomination_stakes_covered:
  assumes "vn_runs self s cs" "vn_token s = Some tok"
  shows "(\<Sum>n<or_else (vn_next_id s) 0. stake_sum (vn_stake s n)) = moved_in tok self cs - moved_out tok self cs \<and>
    (\<forall>n x. vn_nomination s n = Some x \<longrightarrow> no_total_stake x = stake_sum (vn_stake s n) \<and>
       (\<forall>a v. vn_stake s n a = Some v \<longrightarrow> 0 < v \<and> v \<le> or_else (vn_cap s) 0))"
  using vn_runs_sound[OF assms(1)] assms(2) by (auto simp: staked_def stakes_sound_def)

text \<open>the selection takes the open nomination with the largest stake among those that reach the minimum within
  their window, the earliest of several with the same stake.\<close>

theorem selection_takes_largest_stake:
  assumes "vn_runs self s cs" "select_candidate e s = Inr (s', n)"
  shows "\<exists>x. vn_nomination s n = Some x \<and> eligible e s x \<and>
    vn_nomination s' = (vn_nomination s)(n \<mapsto> x\<lparr>no_status := NS_Selected, no_selected_at := timestamp e\<rparr>) \<and>
    (\<forall>k y. vn_nomination s k = Some y \<and> eligible e s y \<longrightarrow>
       no_total_stake y < no_total_stake x \<or> no_total_stake y = no_total_stake x \<and> n \<le> k)"
proof -
  have sound: "stakes_sound s" using vn_runs_sound[OF assms(1)] by blast
  from sound assms(2) show ?thesis
  proof (rule select_candidate_Inr)
    fix x assume x: "vn_nomination s n = Some x" "no_id x = n" "best_of e s {..<or_else (vn_next_id s) 0} (Some x)"
      "s' = put_nomination n (x\<lparr>no_status := NS_Selected, no_selected_at := timestamp e\<rparr>) s"
    then show ?thesis using sound by (auto simp: best_of_def put_nomination_def stakes_sound_def)
  qed
qed

end
