(* ===== verification/Nomination_Example.thy ===== *)
theory Nomination_Example
  imports Nomination_Props
begin

text \<open>
  A concrete run: 20 and 21 each nominate with 60, 22 adds 5 to the second nomination, which is selected.
\<close>

definition vn_at :: "u64 \<Rightarrow> env" where
  "vn_at t = sample_env\<lparr>timestamp := t, authorised := (\<lambda>a. a \<noteq> self_addr sample_env)\<rparr>"

lemma vn_at_simps [simp]:
  "timestamp (vn_at t) = t" "authorised (vn_at t) a \<longleftrightarrow> a \<noteq> self_addr sample_env" "self_addr (vn_at t) = self_addr sample_env"
  by (simp_all add: vn_at_def)

fun vn_replay :: "(u64 \<times> vn_op) list \<Rightarrow> vn_state \<Rightarrow> (vn_state \<times> ext_call list) ne_result" where
  "vn_replay [] s = Inr (s, [])"
| "vn_replay ((t, x) # xs) s =
     rbind (vn_exec (vn_at t) x s) (\<lambda>(s, cs). rbind (vn_replay xs s) (\<lambda>(s, cs'). Inr (s, cs @ cs')))"

lemma vn_replay_runs:
  "vn_replay xs s = Inr (s', cs') \<Longrightarrow> vn_runs (self_addr sample_env) s cs \<Longrightarrow> vn_runs (self_addr sample_env) s' (cs @ cs')"
proof (induction xs arbitrary: s cs cs')
  case (Cons y xs)
  then obtain t x s1 cs1 cs2 where y: "vn_exec (vn_at t) x s = Inr (s1, cs1)" "vn_replay xs s1 = Inr (s', cs2)" "cs' = cs1 @ cs2"
    by (cases y) auto
  have "vn_runs (self_addr sample_env) s1 (cs @ cs1)" by (rule vn_step[OF Cons.prems(2) _ _ y(1)]) simp_all
  from Cons.IH[OF y(2) this] y(3) show ?case by simp
qed simp

definition contest_start :: vn_state where
  "contest_start = vn_empty\<lparr>vn_admin := Some 10, vn_token := Some 7, vn_minimum_stake := Some 50, vn_cap := Some 100,
     vn_window := Some 100, vn_next_id := Some 0\<rparr>"

definition contest_calls :: "(u64 \<times> vn_op) list" where
  "contest_calls = [(1000, Vn_nominate 20 30 60), (1000, Vn_nominate 21 31 60), (1010, Vn_stake 22 1 5)]"

definition nominee :: "u64 \<Rightarrow> address \<Rightarrow> i128 \<Rightarrow> address list \<Rightarrow> Nomination" where
  "nominee n c v xs = \<lparr>no_id = n, no_candidate = c, no_total_stake = v, no_created_at = 1000, no_selected_at = 0,
     no_status = NS_Open, no_supporters = xs\<rparr>"

definition contest :: vn_state where
  "contest = contest_start\<lparr>vn_next_id := Some 2, vn_nomination := [0 \<mapsto> nominee 0 30 60 [20], 1 \<mapsto> nominee 1 31 65 [21, 22]],
     vn_stake := (\<lambda>_. Map.empty)(0 := [20 \<mapsto> 60], 1 := [21 \<mapsto> 60, 22 \<mapsto> 5])\<rparr>"

lemmas contest_eval = contest_calls_def contest_start_def vn_empty_def nominate_def stake_def stake_internal_def vn_load_def
  put_nomination_def get_stake_def window_end_def MAX_NOMINATIONS_def u64_add_def u64_max_def i128_add_def i128_fit_def i128_min_def
  i128_max_def nominee_def Let_def

lemma contest_replay: "\<exists>cs. vn_replay contest_calls contest_start = Inr (contest, cs)"
  by (simp add: contest_eval contest_def fun_upd_def cong: rbind_weak_cong) auto

lemma contest_runs: "\<exists>cs. vn_runs (self_addr sample_env) contest cs"
proof -
  have "vn_initialize vn_empty 10 7 50 100 100 = Inr contest_start" by (simp add: vn_initialize_def vn_empty_def contest_start_def)
  then show ?thesis using contest_replay vn_replay_runs[OF _ vn_start] by blast
qed

lemma contest_facts:
  "vn_token contest = Some 7" "vn_next_id contest = Some 2" "vn_minimum_stake contest = Some 50" "vn_window contest = Some 100"
  "vn_nomination contest = [0 \<mapsto> nominee 0 30 60 [20], 1 \<mapsto> nominee 1 31 65 [21, 22]]"
  by (simp_all add: contest_def contest_start_def)

theorem nomination_stakes_covered_witness:
  "\<exists>cs. vn_runs (self_addr sample_env) contest cs \<and>
     (\<Sum>n<or_else (vn_next_id contest) 0. stake_sum (vn_stake contest n))
       = moved_in 7 (self_addr sample_env) cs - moved_out 7 (self_addr sample_env) cs"
proof -
  from contest_runs obtain cs where cs: "vn_runs (self_addr sample_env) contest cs" by blast
  with nomination_stakes_covered[OF cs contest_facts(1)] show ?thesis by blast
qed

theorem selection_takes_largest_stake_witness:
  "\<exists>s' x. select_candidate (vn_at 1020) contest = Inr (s', 1) \<and> vn_nomination contest 1 = Some x \<and> no_total_stake x = 65 \<and>
     (\<forall>k y. vn_nomination contest k = Some y \<and> eligible (vn_at 1020) contest y \<longrightarrow>
        no_total_stake y < no_total_stake x \<or> no_total_stake y = no_total_stake x \<and> 1 \<le> k)"
proof -
  from contest_runs obtain cs where cs: "vn_runs (self_addr sample_env) contest cs" by blast
  have "\<exists>s'. select_candidate (vn_at 1020) contest = Inr (s', 1)"
    by (simp add: select_candidate_def contest_facts eligible_def window_end_def nominee_def u64_max_def upt_rec)
  then obtain s' where "select_candidate (vn_at 1020) contest = Inr (s', 1)" ..
  with selection_takes_largest_stake[OF cs this] show ?thesis by (auto simp: contest_facts nominee_def)
qed

end
