(* ===== verification/Referral_Rewards.thy ===== *)
theory Referral_Rewards
  imports Invoice_Nft
begin

text \<open>
  The reward for a referral (\<open>contracts/referral_rewards/src/lib.rs\<close>): a fixed bonus to the referrer of a
  debtor whose first invoice was repaid, out of an allocation deposited by the admin.  \<open>nft\<close> is the state of the
  invoice contract, \<open>held\<close> the balance of this contract in a token.
\<close>

datatype ReferralError =
    RE_AlreadyInitialized | RE_InvalidConfiguration | RE_NotInitialized | RE_NotAdmin | RE_InvalidAmount | RE_AllocationExceeded

type_synonym 'a re_result = "(ReferralError, 'a) result"

record rw_state =
  rw_admin :: "address option"
  rw_invoice_nft :: "address option"
  rw_token :: "address option"
  rw_bonus :: "i128 option"
  rw_allocation :: "i128 option"
  rw_funded :: "i128 option"
  rw_paid :: "i128 option"
  rw_claimed :: "address \<Rightarrow> bool"

definition rw_empty :: rw_state where
  "rw_empty = \<lparr>rw_admin = None, rw_invoice_nft = None, rw_token = None, rw_bonus = None, rw_allocation = None, rw_funded = None,
     rw_paid = None, rw_claimed = (\<lambda>_. False)\<rparr>"

definition rw_initialize ::
  "env \<Rightarrow> rw_state \<Rightarrow> address \<Rightarrow> address \<Rightarrow> address \<Rightarrow> i128 \<Rightarrow> i128 \<Rightarrow> rw_state re_result" where
  "rw_initialize e s admin invoice_nft token bonus allocation =
     (if rw_admin s \<noteq> None then Inl (Err RE_AlreadyInitialized)
      else if bonus \<le> 0 \<or> allocation \<le> 0 \<or> bonus > allocation \<or> admin = self_addr e \<or> invoice_nft = self_addr e
        \<or> token = self_addr e \<or> admin = invoice_nft \<or> admin = token \<or> invoice_nft = token
      then Inl (Err RE_InvalidConfiguration)
      else Inr (s\<lparr>rw_admin := Some admin, rw_invoice_nft := Some invoice_nft, rw_token := Some token, rw_bonus := Some bonus,
             rw_allocation := Some allocation, rw_funded := Some 0, rw_paid := Some 0\<rparr>))"

definition rw_deposit :: "env \<Rightarrow> rw_state \<Rightarrow> address \<Rightarrow> i128 \<Rightarrow> (rw_state \<times> ext_call list) re_result" where
  "rw_deposit e s admin amount =
     rbind (require_auth e admin) (\<lambda>_.
     rbind (ok_or (rw_admin s) (Err RE_NotInitialized)) (\<lambda>configured.
     if admin \<noteq> configured then Inl (Err RE_NotAdmin)
     else if amount \<le> 0 then Inl (Err RE_InvalidAmount)
     else
       let funded = or_else (rw_funded s) 0 in
       rbind (ok_or (rw_allocation s) Trap) (\<lambda>allocation.
       if (case i128_add funded amount of None \<Rightarrow> True | Some n \<Rightarrow> n > allocation) then Inl (Err RE_AllocationExceeded)
       else
         rbind (ok_or (rw_token s) Trap) (\<lambda>token.
         Inr (s\<lparr>rw_funded := Some (funded + amount)\<rparr>, [Transfer token admin (self_addr e) amount])))))"

text \<open>Whom the invoice contract names as the referrer, if the first invoice is repaid.\<close>

definition reward_due :: "nft_state \<Rightarrow> address \<Rightarrow> address option" where
  "reward_due nft sme =
     (case nx_referrer nft sme of
        None \<Rightarrow> None
      | Some referrer \<Rightarrow>
          if referrer = sme then None
          else (case nx_first_mint nft sme of
              None \<Rightarrow> None
            | Some i \<Rightarrow> (case get_invoice nft i of
                Inr invoice \<Rightarrow> if inv_sme invoice = sme \<and> inv_status invoice = Repaid then Some referrer else None
              | Inl _ \<Rightarrow> None)))"

definition claim_referral_reward ::
  "env \<Rightarrow> nft_state \<Rightarrow> (address \<Rightarrow> i128) \<Rightarrow> rw_state \<Rightarrow> address \<Rightarrow> (rw_state \<times> ext_call list \<times> bool) re_result" where
  "claim_referral_reward e nft held s sme =
     rbind (ok_or (rw_invoice_nft s) (Err RE_NotInitialized)) (\<lambda>_.
     if rw_claimed s sme then Inr (s, [], False)
     else
       (case reward_due nft sme of
          None \<Rightarrow> Inr (s, [], False)
        | Some referrer \<Rightarrow>
            rbind (ok_or (rw_bonus s) Trap) (\<lambda>bonus.
            rbind (ok_or (rw_funded s) Trap) (\<lambda>funded.
            rbind (ok_or (rw_paid s) Trap) (\<lambda>paid.
            if i128_sat_sub funded paid < bonus then Inr (s, [], False)
            else
              rbind (ok_or (rw_token s) Trap) (\<lambda>token.
              if held token < bonus then Inr (s, [], False)
              else
                rbind (ok_or (i128_add paid bonus) Trap) (\<lambda>paid'.
                Inr (s\<lparr>rw_claimed := (rw_claimed s)(sme := True), rw_paid := Some paid'\<rparr>,
                     [Transfer token (self_addr e) referrer bonus], True))))))))"

section \<open>Runs\<close>

text \<open>
  A run of the contract at \<open>self\<close>, with the rewards paid so far (debtor, referrer and the state of the invoice contract
  at that moment) and the token calls.  The invoice contract and the balances may change between calls.
\<close>

inductive rw_runs :: "address \<Rightarrow> rw_state \<Rightarrow> (address \<times> address \<times> nft_state) list \<Rightarrow> ext_call list \<Rightarrow> bool" for self where
  rw_start: "self_addr e = self \<Longrightarrow> rw_initialize e rw_empty a nft t b al = Inr s \<Longrightarrow> rw_runs self s [] []"
| rw_fund: "rw_runs self s rs cs \<Longrightarrow> self_addr e = self \<Longrightarrow> rw_deposit e s a n = Inr (s', cs') \<Longrightarrow> rw_runs self s' rs (cs @ cs')"
| rw_none: "rw_runs self s rs cs \<Longrightarrow> self_addr e = self \<Longrightarrow> claim_referral_reward e nft held s sme = Inr (s', cs', False)
    \<Longrightarrow> rw_runs self s' rs (cs @ cs')"
| rw_pay: "rw_runs self s rs cs \<Longrightarrow> self_addr e = self \<Longrightarrow> claim_referral_reward e nft held s sme = Inr (s', cs', True)
    \<Longrightarrow> reward_due nft sme = Some r \<Longrightarrow> rw_runs self s' (rs @ [(sme, r, nft)]) (cs @ cs')"

definition rewarded :: "(address \<times> address \<times> nft_state) list \<Rightarrow> address \<Rightarrow> bool" where
  "rewarded rs a \<longleftrightarrow> a \<in> fst ` set rs"

lemma rewarded_simps [simp]: "\<not> rewarded [] a" "rewarded (rs @ [x]) a \<longleftrightarrow> rewarded rs a \<or> a = fst x"
  by (auto simp: rewarded_def)

definition all_due :: "(address \<times> address \<times> nft_state) list \<Rightarrow> bool" where
  "all_due rs \<longleftrightarrow> (\<forall>(sme, r, nft)\<in>set rs. reward_due nft sme = Some r)"

lemma all_due_simps [simp]: "all_due []" "all_due (rs @ [(a, r, n)]) \<longleftrightarrow> all_due rs \<and> reward_due n a = Some r"
  by (auto simp: all_due_def)

definition rewards_sound :: "address \<Rightarrow> rw_state \<Rightarrow> (address \<times> address \<times> nft_state) list \<Rightarrow> ext_call list \<Rightarrow> bool" where
  "rewards_sound self s rs cs \<longleftrightarrow>
     (\<exists>a t bonus al funded. rw_admin s = Some a \<and> a \<noteq> self \<and> rw_token s = Some t \<and> rw_bonus s = Some bonus \<and> 0 < bonus \<and>
        rw_allocation s = Some al \<and> rw_funded s = Some funded \<and> rw_paid s = Some (bonus * int (length rs)) \<and>
        bonus * int (length rs) \<le> funded \<and> funded \<le> al \<and> moved_out t self cs = bonus * int (length rs)) \<and>
     distinct (map fst rs) \<and> rw_claimed s = rewarded rs \<and> all_due rs"

lemma claim_False:
  "claim_referral_reward e nft held s sme = Inr (s', cs, False) \<Longrightarrow> s' = s \<and> cs = []"
  by (auto simp: claim_referral_reward_def split: if_splits option.splits)

lemma i128_sat_sub_ge:
  assumes "i128_sat_sub f p \<ge> b" "0 < b" shows "p + b \<le> f"
  using assms by (auto simp: i128_sat_sub_def i128_clamp_def i128_min_def i128_max_def split: if_splits)

lemma claim_True:
  assumes "claim_referral_reward e nft held s sme = Inr (s', cs, True)" "rewards_sound self s rs cs0" "self_addr e = self"
    "reward_due nft sme = Some r"
  shows "rewards_sound self s' (rs @ [(sme, r, nft)]) (cs0 @ cs)"
proof -
  from assms(2) obtain a t bonus al funded where r: "rw_admin s = Some a" "a \<noteq> self" "rw_token s = Some t" "rw_bonus s = Some bonus" "0 < bonus"
    "rw_allocation s = Some al" "rw_funded s = Some funded" "rw_paid s = Some (bonus * int (length rs))"
    "bonus * int (length rs) \<le> funded" "funded \<le> al" "moved_out t self cs0 = bonus * int (length rs)"
    "distinct (map fst rs)" "rw_claimed s = rewarded rs" "all_due rs"
    unfolding rewards_sound_def by blast
  from assms(1,3,4) r(3,4,7,8) have s': "\<not> rw_claimed s sme" "bonus \<le> i128_sat_sub funded (bonus * int (length rs))"
    "s' = s\<lparr>rw_claimed := (rw_claimed s)(sme := True), rw_paid := Some (bonus * int (length rs) + bonus)\<rparr>" "cs = [Transfer t self r bonus]"
    by (auto simp: claim_referral_reward_def split: if_splits)
  have "bonus * int (length rs) + bonus \<le> funded" by (rule i128_sat_sub_ge[OF s'(2) r(5)])
  moreover have "sme \<notin> set (map fst rs)" using s'(1) r(13) by (simp add: rewarded_def)
  moreover have "(rw_claimed s)(sme := True) = rewarded (rs @ [(sme, r, nft)])" by (rule ext) (simp add: r(13))
  ultimately show ?thesis using r s'(3,4) assms(4)
    unfolding rewards_sound_def by (simp add: distrib_left)
qed

lemma rw_runs_sound:
  assumes "rw_runs self s rs cs"
  shows "rewards_sound self s rs cs"
  using assms
proof (induction rule: rw_runs.induct)
  case (rw_start e a nft t b al s)
  then show ?case by (auto simp: rw_initialize_def rw_empty_def rewards_sound_def fun_eq_iff split: if_splits)
next
  case (rw_fund s rs cs e a n s' cs')
  then show ?case by (auto simp: rw_deposit_def rewards_sound_def Let_def split: if_splits option.splits)
next
  case (rw_none s rs cs e nft held sme s' cs')
  then show ?case using claim_False by fastforce
next
  case (rw_pay s rs cs e nft held sme s' cs' r)
  then show ?case using claim_True by blast
qed

text \<open>C39: every debtor earns one reward at most, paid to the referrer the invoice contract names when the
  debtor's first invoice is repaid; the rewards add up to the tokens that left the contract, and
  stay within what was deposited and the allocation.\<close>

theorem referral_rewards_once:
  assumes "rw_runs self s rs cs" "rw_token s = Some tok" "rw_bonus s = Some bonus"
  shows "distinct (map fst rs) \<and> moved_out tok self cs = bonus * int (length rs) \<and>
    bonus * int (length rs) \<le> or_else (rw_funded s) 0 \<and> or_else (rw_funded s) 0 \<le> or_else (rw_allocation s) 0 \<and>
    (\<forall>(sme, r, nft)\<in>set rs. r \<noteq> sme \<and> nx_referrer nft sme = Some r \<and>
       (\<exists>i v. nx_first_mint nft sme = Some i \<and> get_invoice nft i = Inr v \<and> inv_sme v = sme \<and> inv_status v = Repaid))"
proof -
  have due: "r \<noteq> sme \<and> nx_referrer nft sme = Some r \<and>
      (\<exists>i v. nx_first_mint nft sme = Some i \<and> get_invoice nft i = Inr v \<and> inv_sme v = sme \<and> inv_status v = Repaid)"
    if "reward_due nft sme = Some r" for nft sme r
    using that by (auto simp: reward_due_def split: option.splits if_splits sum.splits)
  from rw_runs_sound[OF assms(1)] assms(2,3) have
    "distinct (map fst rs) \<and> moved_out tok self cs = bonus * int (length rs) \<and>
      bonus * int (length rs) \<le> or_else (rw_funded s) 0 \<and> or_else (rw_funded s) 0 \<le> or_else (rw_allocation s) 0" and "all_due rs"
    by (auto simp: rewards_sound_def)
  with due show ?thesis unfolding all_due_def by blast
qed

section \<open>A concrete run\<close>

text \<open>Debtor 20 was referred by 40, and its first invoice, 1, is repaid; the bonus is 30 of an allocation of 100.\<close>

definition repaid_nft :: nft_state where
  "repaid_nft = nft_empty\<lparr>nx_hot := [1 \<mapsto> \<lparr>hot_id = 1, hot_sme = 20, hot_amount = 500, hot_currency = ''USDC'', hot_due_date = 2000,
       hot_risk_score = 15, hot_risk_tier = AAA, hot_status = Repaid, hot_created_at = 900, hot_funded_at = Some 950, hot_repaid_at = Some 990\<rparr>],
     nx_cold := [1 \<mapsto> \<lparr>cold_debtor_hash = [7], cold_ipfs_cid = ''cid'', cold_metadata_hash = [8], cold_notes = None\<rparr>],
     nx_first_mint := [20 \<mapsto> 1], nx_referrer := [20 \<mapsto> 40]\<rparr>"

definition rw_after :: "i128 \<Rightarrow> i128 \<Rightarrow> (address \<Rightarrow> bool) \<Rightarrow> rw_state" where
  "rw_after funded paid claimed = \<lparr>rw_admin = Some 10, rw_invoice_nft = Some 50, rw_token = Some 70, rw_bonus = Some 30,
     rw_allocation = Some 100, rw_funded = Some funded, rw_paid = Some paid, rw_claimed = claimed\<rparr>"

lemma reward_due_40: "reward_due repaid_nft 20 = Some 40"
  by (simp add: reward_due_def repaid_nft_def get_invoice_def load_hot_def load_cold_def)

theorem referral_rewards_once_witness:
  "rw_runs 1 (rw_after 90 30 ((\<lambda>_. False)(20 := True))) [(20, 40, repaid_nft)] [Transfer 70 10 1 90, Transfer 70 1 40 30] \<and>
     moved_out 70 1 [Transfer 70 10 1 90, Transfer 70 1 40 30] = 30 * 1 \<and> (30::int) * 1 \<le> 90"
proof -
  have "rw_initialize sample_env rw_empty 10 50 70 30 100 = Inr (rw_after 0 0 (\<lambda>_. False))"
    by (simp add: rw_initialize_def rw_empty_def rw_after_def)
  from rw_start[OF _ this] have "rw_runs 1 (rw_after 0 0 (\<lambda>_. False)) [] []" by simp
  moreover have "rw_deposit sample_env (rw_after 0 0 (\<lambda>_. False)) 10 90 = Inr (rw_after 90 0 (\<lambda>_. False), [Transfer 70 10 1 90])"
    by (simp add: rw_deposit_def rw_after_def require_auth_def i128_add_def i128_fit_def i128_min_def i128_max_def)
  ultimately have "rw_runs 1 (rw_after 90 0 (\<lambda>_. False)) [] [Transfer 70 10 1 90]" using rw_fund[of 1 _ "[]" "[]" sample_env] by simp
  moreover have "claim_referral_reward sample_env repaid_nft (\<lambda>_. 90) (rw_after 90 0 (\<lambda>_. False)) 20
      = Inr (rw_after 90 30 ((\<lambda>_. False)(20 := True)), [Transfer 70 1 40 30], True)"
    by (simp add: claim_referral_reward_def rw_after_def reward_due_40 i128_sat_sub_def i128_clamp_def i128_add_def i128_fit_def
        i128_min_def i128_max_def)
  ultimately have run: "rw_runs 1 (rw_after 90 30 ((\<lambda>_. False)(20 := True))) [(20, 40, repaid_nft)] [Transfer 70 10 1 90, Transfer 70 1 40 30]"
    using rw_pay[of 1 _ "[]" "[Transfer 70 10 1 90]" sample_env] reward_due_40 by fastforce
  from referral_rewards_once[OF run, of 70 30] run show ?thesis by (simp add: rw_after_def)
qed

end
