(* ===== verification/Tranche.thy ===== *)
theory Tranche
  imports Invoice_Nft
begin

text \<open>
  Tranches (\<open>contracts/tranche/src/lib.rs\<close>): a basket of invoices under one number, and the amounts
  investors register for it.  \<open>nft\<close> is the state of the invoice contract.
\<close>

datatype TrancheError =
    TE_AlreadyInitialized | TE_ArithmeticOverflow | TE_InvalidAddress | TE_InvalidAmount | TE_NotAdmin | TE_NotInitialized
  | TE_PoolNotFound | TE_PoolAlreadyClosed | TE_TrancheNotFound

type_synonym 'a te_result = "(TrancheError, 'a) result"

definition tn_from_common :: "CommonError \<Rightarrow> TrancheError" where
  "tn_from_common c =
     (case c of CE_InvalidAmount \<Rightarrow> TE_InvalidAmount | CE_InvalidAddress \<Rightarrow> TE_InvalidAddress
      | CE_ArithmeticOverflow \<Rightarrow> TE_ArithmeticOverflow | _ \<Rightarrow> TE_InvalidAmount)"

record Tranche_record =
  tn_id :: u64
  tn_creator :: address
  tn_invoice_ids :: "u64 list"
  tn_total_face_value :: i128
  tn_total_funded :: i128
  tn_is_closed :: bool
  tn_created_at :: u64

text \<open>\<open>tn_next\<close> is the entry \<open>Tranche(0)\<close> of the instance storage, which counts the numbers.\<close>

record tn_state =
  tn_admin :: "address option"
  tn_invoice_nft :: "address option"
  tn_financing_pool :: "address option"
  tn_treasury :: "address option"
  tn_access :: "address option"
  tn_next :: "u64 option"
  tn_tranche :: "u64 \<Rightarrow> Tranche_record option"
  tn_position :: "u64 \<Rightarrow> address \<Rightarrow> Position option"

definition tn_empty :: tn_state where
  "tn_empty = \<lparr>tn_admin = None, tn_invoice_nft = None, tn_financing_pool = None, tn_treasury = None, tn_access = None,
     tn_next = None, tn_tranche = (\<lambda>_. None), tn_position = (\<lambda>_ _. None)\<rparr>"

definition tn_initialize ::
  "env \<Rightarrow> tn_state \<Rightarrow> address \<Rightarrow> address \<Rightarrow> address \<Rightarrow> address \<Rightarrow> address \<Rightarrow> tn_state te_result" where
  "tn_initialize e s admin invoice_nft financing_pool treasury access_control =
     (if tn_admin s \<noteq> None then Inl (Err TE_AlreadyInitialized)
      else
        rbind (map_err tn_from_common (require_not_self e admin)) (\<lambda>_.
        rbind (map_err tn_from_common (require_not_self e invoice_nft)) (\<lambda>_.
        rbind (map_err tn_from_common (require_not_self e financing_pool)) (\<lambda>_.
        rbind (map_err tn_from_common (require_not_self e treasury)) (\<lambda>_.
        rbind (map_err tn_from_common (require_not_self e access_control)) (\<lambda>_.
        Inr (s\<lparr>tn_admin := Some admin, tn_invoice_nft := Some invoice_nft, tn_financing_pool := Some financing_pool,
               tn_treasury := Some treasury, tn_access := Some access_control\<rparr>)))))))"

fun face_value_loop :: "nft_state \<Rightarrow> u64 list \<Rightarrow> i128 \<Rightarrow> i128 te_result" where
  "face_value_loop nft [] acc = Inr acc"
| "face_value_loop nft (i # is) acc =
     rbind (or_trap (get_invoice nft i)) (\<lambda>invoice.
     rbind (ok_or (i128_add acc (inv_amount invoice)) (Err TE_ArithmeticOverflow)) (\<lambda>acc.
     face_value_loop nft is acc))"

definition create_tranche :: "env \<Rightarrow> nft_state \<Rightarrow> tn_state \<Rightarrow> address \<Rightarrow> u64 list \<Rightarrow> (tn_state \<times> u64) te_result" where
  "create_tranche e nft s creator invoice_ids =
     rbind (require_auth e creator) (\<lambda>_.
     if invoice_ids = [] then Inl (Err TE_InvalidAmount)
     else
       rbind (ok_or (tn_invoice_nft s) (Err TE_NotInitialized)) (\<lambda>_.
       rbind (face_value_loop nft invoice_ids 0) (\<lambda>total_face_value.
       let n = or_else (tn_next s) 1;
           x = \<lparr>tn_id = n, tn_creator = creator, tn_invoice_ids = invoice_ids, tn_total_face_value = total_face_value,
                tn_total_funded = 0, tn_is_closed = False, tn_created_at = timestamp e\<rparr> in
       rbind (ok_or (u64_add n 1) Trap) (\<lambda>next_n.
       Inr (s\<lparr>tn_tranche := (tn_tranche s)(n \<mapsto> x), tn_next := Some next_n\<rparr>, n)))))"

definition fund_tranche :: "env \<Rightarrow> tn_state \<Rightarrow> address \<Rightarrow> u64 \<Rightarrow> i128 \<Rightarrow> tn_state te_result" where
  "fund_tranche e s investor n amount =
     rbind (require_auth e investor) (\<lambda>_.
     rbind (map_err tn_from_common (require_non_zero_amount amount)) (\<lambda>_.
     rbind (ok_or (tn_tranche s n) (Err TE_TrancheNotFound)) (\<lambda>x.
     if tn_is_closed x then Inl (Err TE_PoolAlreadyClosed)
     else
       rbind (ok_or (i128_add (tn_total_funded x) amount) (Err TE_ArithmeticOverflow)) (\<lambda>funded.
       Inr (s\<lparr>tn_tranche := (tn_tranche s)(n \<mapsto> x\<lparr>tn_total_funded := funded\<rparr>),
              tn_position := (tn_position s)(n := (tn_position s n)(investor \<mapsto>
                \<lparr>pos_investor = investor, pos_invoice_id = n, pos_contributed = amount, pos_share_bps = 0, pos_yield_claimed = 0\<rparr>))\<rparr>)))))"

section \<open>Properties\<close>

abbreviation amount_of :: "nft_state \<Rightarrow> u64 \<Rightarrow> i128" where
  "amount_of nft i \<equiv> (case get_invoice nft i of Inr x \<Rightarrow> inv_amount x | Inl _ \<Rightarrow> 0)"

lemma face_value_loop_sum:
  assumes "face_value_loop nft is acc = Inr v"
  shows "(\<forall>i\<in>set is. is_ok (get_invoice nft i)) \<and> v = acc + (\<Sum>i\<leftarrow>is. amount_of nft i)"
  using assms
proof (induction "is" arbitrary: acc)
  case (Cons i "is")
  then obtain x where x: "get_invoice nft i = Inr x" "face_value_loop nft is (acc + inv_amount x) = Inr v" by auto
  from Cons.IH[OF x(2)] x(1) show ?case by (simp add: is_ok_iff)
qed simp

text \<open>
  Runs, with the fundings so far (tranche, investor, amount) and the face value the invoice contract gave
  each tranche when it was created.
\<close>

inductive tn_runs :: "tn_state \<Rightarrow> (u64 \<times> address \<times> i128) list \<Rightarrow> (u64 \<Rightarrow> i128) \<Rightarrow> bool" where
  tn_start: "tn_initialize e tn_empty a b c d f = Inr s \<Longrightarrow> tn_runs s [] (\<lambda>_. 0)"
| tn_create: "tn_runs s fs v \<Longrightarrow> create_tranche e nft s a is = Inr (s', n) \<Longrightarrow> tn_runs s' fs (v(n := (\<Sum>i\<leftarrow>is. amount_of nft i)))"
| tn_fund: "tn_runs s fs v \<Longrightarrow> fund_tranche e s a n m = Inr s' \<Longrightarrow> tn_runs s' (fs @ [(n, a, m)]) v"

definition funded_in :: "u64 \<Rightarrow> (u64 \<times> address \<times> i128) list \<Rightarrow> i128" where
  "funded_in n fs = (\<Sum>(k, _, m)\<leftarrow>fs. if k = n then m else 0)"

fun last_funding :: "u64 \<Rightarrow> address \<Rightarrow> (u64 \<times> address \<times> i128) list \<Rightarrow> i128 option" where
  "last_funding n a [] = None"
| "last_funding n a ((k, b, m) # fs) =
     (case last_funding n a fs of Some l \<Rightarrow> Some l | None \<Rightarrow> if k = n \<and> b = a then Some m else None)"

lemma last_funding_append [simp]:
  "last_funding n a (fs @ [(k, b, m)]) = (if k = n \<and> b = a then Some m else last_funding n a fs)"
  by (induction n a fs rule: last_funding.induct) (auto split: option.splits)

lemma funded_in_simps [simp]: "funded_in n [] = 0" "funded_in n (fs @ [(k, b, m)]) = funded_in n fs + (if k = n then m else 0)"
  by (simp_all add: funded_in_def)

definition tranches_sound :: "tn_state \<Rightarrow> (u64 \<times> address \<times> i128) list \<Rightarrow> (u64 \<Rightarrow> i128) \<Rightarrow> bool" where
  "tranches_sound s fs v \<longleftrightarrow>
     (\<forall>n x. tn_tranche s n = Some x \<longrightarrow> tn_id x = n \<and> n < or_else (tn_next s) 1 \<and> \<not> tn_is_closed x \<and>
        tn_total_face_value x = v n \<and> tn_total_funded x = funded_in n fs) \<and>
     (\<forall>n. tn_tranche s n = None \<longrightarrow> funded_in n fs = 0) \<and>
     (\<forall>n a. map_option pos_contributed (tn_position s n a) = last_funding n a fs)"

lemma tn_runs_sound: "tn_runs s fs v \<Longrightarrow> tranches_sound s fs v"
proof (induction rule: tn_runs.induct)
  case (tn_start e a b c d f s)
  then show ?case by (auto simp: tn_initialize_def tn_empty_def tranches_sound_def split: if_splits)
next
  case (tn_create s fs v e nft a "is" s' n)
  from tn_create.hyps(2) obtain t where t: "face_value_loop nft is 0 = Inr t" "n = or_else (tn_next s) 1" "tn_next s' = Some (n + 1)"
    "tn_tranche s' = (tn_tranche s)(n \<mapsto> \<lparr>tn_id = n, tn_creator = a, tn_invoice_ids = is, tn_total_face_value = t,
      tn_total_funded = 0, tn_is_closed = False, tn_created_at = timestamp e\<rparr>)" "tn_position s' = tn_position s"
    by (auto simp: create_tranche_def Let_def)
  have "tn_tranche s n = None" using tn_create.IH t(2) by (cases "tn_tranche s n") (auto simp: tranches_sound_def)
  then have "funded_in n fs = 0" using tn_create.IH by (simp add: tranches_sound_def)
  moreover have "t = (\<Sum>i\<leftarrow>is. amount_of nft i)" using face_value_loop_sum[OF t(1)] by simp
  ultimately show ?case using tn_create.IH t(2-5) unfolding tranches_sound_def by (simp add: less_Suc_eq)
next
  case (tn_fund s fs v e a n m s')
  from tn_fund.hyps(2) obtain x where x: "tn_tranche s n = Some x"
    "s' = s\<lparr>tn_tranche := (tn_tranche s)(n \<mapsto> x\<lparr>tn_total_funded := tn_total_funded x + m\<rparr>),
       tn_position := (tn_position s)(n := (tn_position s n)(a \<mapsto>
         \<lparr>pos_investor = a, pos_invoice_id = n, pos_contributed = m, pos_share_bps = 0, pos_yield_claimed = 0\<rparr>))\<rparr>"
    by (auto simp: fund_tranche_def)
  then show ?case using tn_fund.IH unfolding tranches_sound_def by auto
qed

text \<open>a tranche adds up all amounts registered for it and the amounts of its invoices, but what it records of
  an investor is only the last amount of that investor.\<close>

theorem tranche_keeps_last_amount:
  assumes "tn_runs s fs v" "tn_tranche s n = Some x"
  shows "tn_total_funded x = (\<Sum>(k, _, m)\<leftarrow>fs. if k = n then m else 0) \<and> tn_total_face_value x = v n \<and>
    map_option pos_contributed (tn_position s n a) = last_funding n a fs"
  using tn_runs_sound[OF assms(1)] assms(2) by (simp add: tranches_sound_def funded_in_def)

section \<open>A concrete run\<close>

theorem tranche_keeps_last_amount_witness:
  "\<exists>nft s s1 s2 fs v x. create_tranche sample_env nft s 20 [1] = Inr (s1, 1) \<and> tn_runs s2 fs v \<and> fs = [(1, 30, 50), (1, 30, 7)] \<and>
     tn_tranche s2 1 = Some x \<and> tn_total_funded x = 57 \<and> map_option pos_contributed (tn_position s2 1 30) = Some 7"
proof -
  let ?nft = "nft_empty\<lparr>nx_hot := [1 \<mapsto> \<lparr>hot_id = 1, hot_sme = 20, hot_amount = 500, hot_currency = ''USDC'', hot_due_date = 2000,
       hot_risk_score = 15, hot_risk_tier = AAA, hot_status = Listed, hot_created_at = 900, hot_funded_at = None, hot_repaid_at = None\<rparr>],
     nx_cold := [1 \<mapsto> \<lparr>cold_debtor_hash = [7], cold_ipfs_cid = ''cid'', cold_metadata_hash = [8], cold_notes = None\<rparr>]\<rparr>"
  let ?s = "tn_empty\<lparr>tn_admin := Some 10, tn_invoice_nft := Some 50, tn_financing_pool := Some 51, tn_treasury := Some 60, tn_access := Some 5\<rparr>"
  have init: "tn_initialize sample_env tn_empty 10 50 51 60 5 = Inr ?s" by (simp add: tn_initialize_def tn_empty_def require_not_self_def)
  have "\<exists>s1. create_tranche sample_env ?nft ?s 20 [1] = Inr (s1, 1) \<and> (\<exists>x. tn_tranche s1 1 = Some x \<and> \<not> tn_is_closed x \<and> tn_total_funded x = 0)"
    by (simp add: create_tranche_def tn_empty_def get_invoice_def load_hot_def load_cold_def require_auth_def Let_def u64_add_def u64_max_def
        i128_add_def i128_fit_def i128_min_def i128_max_def)
  then obtain s1 x1 where s1: "create_tranche sample_env ?nft ?s 20 [1] = Inr (s1, 1)" "tn_tranche s1 1 = Some x1" "\<not> tn_is_closed x1"
    "tn_total_funded x1 = 0" by blast
  have "\<exists>s. fund_tranche sample_env s1 30 1 50 = Inr s \<and> (\<exists>x. tn_tranche s 1 = Some x \<and> \<not> tn_is_closed x \<and> tn_total_funded x = 50)"
    using s1 by (simp add: fund_tranche_def require_auth_def require_non_zero_amount_def i128_add_def i128_fit_def i128_min_def i128_max_def)
  then obtain s2 x2 where s2: "fund_tranche sample_env s1 30 1 50 = Inr s2" "tn_tranche s2 1 = Some x2" "\<not> tn_is_closed x2"
    "tn_total_funded x2 = 50" by blast
  have "\<exists>s. fund_tranche sample_env s2 30 1 7 = Inr s \<and> (\<exists>x. tn_tranche s 1 = Some x)"
    using s2 by (simp add: fund_tranche_def require_auth_def require_non_zero_amount_def i128_add_def i128_fit_def i128_min_def i128_max_def)
  then obtain s3 x3 where s3: "fund_tranche sample_env s2 30 1 7 = Inr s3" "tn_tranche s3 1 = Some x3" by blast
  from tn_fund[OF tn_fund[OF tn_create[OF tn_start[OF init] s1(1)] s2(1)] s3(1)]
  obtain v where run: "tn_runs s3 [(1, 30, 50), (1, 30, 7)] v" by auto
  from tranche_keeps_last_amount[OF run s3(2), of 30] run s1(1) s3(2) show ?thesis by fastforce
qed

end
