(* ===== verification/Spec2Isabelle.thy ===== *)
theory Spec2Isabelle
  imports Kora_Timelock Kora_Queue Kora_Key_Rotation Nft_Props Pool_Repay Market_Example Registry_Example Oracle_Example Parameter_Example Voting_Example Governance_Example Treasury_Example Vesting_Props Dispute_Escrow Dispute_Props Secondary_Example Nomination_Example Referral_Rewards Tranche
begin

text \<open>
  A verification library for the Kora invoice-financing contracts (Rust, Soroban), under
  \<open>src/contracts\<close>.

  \<^bold>\<open>The program.\<close>  An SME tokenises an invoice in \<open>invoice_nft\<close>; the \<open>marketplace\<close> lists
  it, takes the investors' contributions and hands a fully funded listing over;
  the \<open>financing_pool\<close> opens a pool for it, records the investors' positions, collects the
  repayment, distributes it and reports funding, repayment and default back to \<open>invoice_nft\<close>.
  \<open>access_control\<close> holds the admin, the pause flag, the roles and the multisig that governs them;
  the \<open>risk_registry\<close> the staked verifiers, the SME profiles they vouch for and the debtors' scores.
  Around them stand the \<open>treasury\<close> (fees, reserve, grants), the \<open>price_oracle\<close> (conversion), the
  \<open>parameter_registry\<close> (tunable limits), \<open>governance\<close> and \<open>governance_voting\<close> with the \<open>vesting\<close> of the
  tokens that vote, the two dispute contracts (\<open>dispute_resolution\<close> is asked before a default,
  \<open>dispute_escrow\<close> holds a disputed repayment), and satellites on positions and invoices: \<open>fractionalizer\<close>,
  \<open>secondary_market\<close>, \<open>tranche\<close>, \<open>referral_rewards\<close>, \<open>verifier_nomination\<close>.  The crate \<open>shared\<close> holds the code they all use: data types, guards and
  checked arithmetic, the reentrancy lock, storage migration, timelocked upgrades, the audit
  log, key rotation and the withdrawal queue.

  \<^bold>\<open>Contract calls.\<close>  A call ends in \<open>Inr\<close> of its value or in \<open>Inl\<close> of a failure: \<open>Err c\<close> for
  an error code of the contract, \<open>Trap\<close> for a panic of the host (a failed \<open>require_auth\<close>, an
  overflow under \<open>overflow-checks\<close>, an \<open>unwrap\<close> of \<open>None\<close>, a failing call through a client
  without \<open>try_\<close>).  The host rolls storage back on both, so a failing operation returns no state.
  \<open>env\<close> is the transaction: who signed, the ledger time, the contract's own address, and the
  answers of contracts outside the model to read-only calls (paused, SME profile, parameters,
  conversion, open dispute, token decimals).  Calls on such contracts that change their state
  (token transfers, fee collection, registry updates) are appended to the log \<open>w_calls\<close> of the
  world, in the order of the code; \<open>moved_in\<close> and \<open>moved_out\<close> read token flows off that log.  The
  calls of the pool on \<open>invoice_nft\<close> and of the marketplace on both are not logged: they run the
  definitions of the called contract on its state inside the world, with the caller as the
  authorised invoker (\<open>callee_env\<close>), and trap the caller when they fail (\<open>or_trap\<close>).

  \<^bold>\<open>Integers.\<close>  \<open>i128\<close> values are \<open>int\<close> and \<open>u64\<close>, \<open>u32\<close> values \<open>nat\<close>.  Every arithmetic operation
  of the source is a function that writes its width out: \<open>i128_add\<close> and its siblings return
  \<open>None\<close> outside the range (\<open>checked_\<close>, or a trap for the bare operators), \<open>i128_sat_add\<close> and
  its siblings clamp, \<open>i128_as_u32\<close> wraps (\<open>as u32\<close>), \<open>i128_div\<close> rounds towards zero.

  \<^bold>\<open>Theories of the shared crate.\<close>
  \<^item> \<open>Kora_Prelude\<close>: results, the integer operations and the rules that unfold a successful call.
  \<^item> \<open>Kora_Types\<close>: \<open>shared/src/types.rs\<close>, \<open>CommonError\<close>, the transaction environment;
    \<open>Kora_Errors\<close>: \<open>KoraError\<close> with its codes and conversions (\<open>errors.rs\<close>).
  \<^item> \<open>Kora_Validation\<close>: \<open>validation.rs\<close>, guards, \<open>bps_of\<close>, decimal normalisation; bounds of the
    basis-point arithmetic and the round trip of the normalisation.
  \<^item> \<open>Kora_Reentrancy\<close>: \<open>reentrancy.rs\<close>; the locale \<open>lockable\<close> is the storage interface of a
    guarded contract, interpreted in \<open>Invoice_Nft\<close>, \<open>Market_State\<close>, \<open>Registry_State\<close> and
    \<open>Dispute_Escrow\<close>.
  \<^item> \<open>Kora_Migration\<close>: \<open>migration.rs\<close>; the locale \<open>versioned_store\<close> is the interface of a
    contract with a schema version, interpreted in \<open>Invoice_Nft\<close>, \<open>Pool_State\<close> and
    \<open>Market_State\<close>.  The migration loop terminates because each round raises the version towards the target.
  \<^item> \<open>Kora_Timelock\<close>: \<open>timelock.rs\<close>; proposals run once, and only after the delay, over any run
    of the module's operations.
  \<^item> \<open>Kora_Queue\<close>: \<open>queue.rs\<close>; the processing loop is a \<open>function\<close> whose measure is the number
    of ids left plus the liquidity left; an observer of the callback shows that it pays in FIFO order,
    and value is conserved.
  \<^item> \<open>Kora_Key_Rotation\<close>: \<open>key_rotation.rs\<close>; bounds of the rotated threshold.
  \<^item> \<open>Kora_Audit\<close>: \<open>audit.rs\<close> and \<open>append_audit_entry\<close>; the ring buffer of 500 slots refines the
    list of the last 500 entries.
  \<^item> \<open>Kora_Map\<close>: the host's \<open>Map\<close> object, a key-sorted list; the locale \<open>host_map\<close> holds its laws
    and how sums over its values change, interpreted on the model's own operations.

  \<^bold>\<open>Theories of \<open>invoice_nft\<close>\<close> (\<open>invoice_nft/src/lib.rs\<close>).
  \<^item> \<open>Invoice_Nft\<close>: \<open>nft_state\<close> has one field per storage key (\<open>nx_hot\<close> and \<open>nx_cold\<close> for the two
    halves of an invoice, \<open>nx_exposure\<close> for \<open>OutstandingExposure\<close>, \<open>nx_mint_window\<close> for the mint window
    and so on); one definition per entry point, under the Rust name (prefixed \<open>nft_\<close> where the
    pool has one of the same name).
  \<^item> \<open>Nft_Lifecycle\<close>: \<open>nft_call\<close> has a constructor per state-changing entry point, \<open>nft_exec\<close>
    dispatches, \<open>nft_runs\<close> are the sequences of successful calls in any environments.  The abstract
    contract \<open>ledger\<close> keeps the invoices, the id counter and the exposure per SME;
    \<open>nft_exec_refines\<close> shows that every successful call is one of its transitions.
  \<^item> \<open>Nft_Props\<close>: the exposure ledger equals its reconciliation on every run without an amendment;
    terms of a funded invoice never change and its end states are final; a removed invoice never
    returns; referrals are acyclic (the referrer walk is bounded by 32 hops as in the code);
    minting, freezing, paging, migration, upgrade and reentrancy; and where the code departs from
    its intent.

  \<^bold>\<open>Theories of \<open>financing_pool\<close>\<close> (\<open>financing_pool/src/lib.rs\<close>).
  \<^item> \<open>Pool_State\<close>: \<open>pool_state\<close> with one field per storage key, \<open>world\<close>, the helpers.
  \<^item> \<open>Financing_Pool\<close>: the entry points in the order of the source.
  \<^item> \<open>Pool_Yield\<close>: a distribution never pays out more than it distributes when shares add up to at
    most 100% and no position is split beyond its contribution.
  \<^item> \<open>Pool_Trading\<close>: positions, shares, their offers; an example world for the witnesses.
  \<^item> \<open>Pool_Repay\<close>: penalty, repayment, netting, approvals of large repayments, installments, default.

  \<^bold>\<open>Theories of \<open>marketplace\<close>\<close> (\<open>marketplace/src/lib.rs\<close>).
  \<^item> \<open>Market_State\<close>: the data, \<open>mkt_state\<close> with one field per storage key, the world
    \<open>mworld\<close> of marketplace, pool and invoice contract, the helpers; \<open>hooks\<close> holds the three debtor
    functions and the schema version that the crate uses but does not define.
  \<^item> \<open>Marketplace\<close>: the entry points in the order of the source.  \<open>fund_invoice_internal\<close> is cut into
    the checks of the listing, the room left, the quote and the commit, in that order; it returns
    its state also with an error, since the batch entry point goes on after one.
  \<^item> \<open>Market_Runs\<close>: calls, runs interleaved with arbitrary changes of the other contracts, and the
    invariant of the funding ledger, kept by every call.
  \<^item> \<open>Market_Props\<close>: exact funding, the hand-over to the pool, refunds paid once, cancellation.
  \<^item> \<open>Market_Gate\<close>: how tokens enter the whitelist; admin actions run once.
  \<^item> \<open>Market_Example\<close>: a concrete history and the witnesses.

  \<^bold>\<open>Theories of \<open>access_control\<close>\<close> (\<open>access_control/src/lib.rs\<close>).
  \<^item> \<open>Kora_Ballot\<close>: the locale \<open>ballot\<close> of a numbered book of proposals with the addresses that have
    voted on each; interpreted on the books of actions, parameters, recoveries and elections.
  \<^item> \<open>Access_State\<close>: \<open>ac_state\<close> with one field per storage key, the helpers, the scan that guards a
    rotation (measure: numbers left to scan).  The cross-contract call that executing a dispute action
    makes is logged in \<open>ac_world\<close>.
  \<^item> \<open>Access_Control\<close>: the entry points in the order of the source; \<open>apply_action\<close> is the \<open>match\<close> that
    \<open>execute_action\<close> and \<open>execute_batch\<close> share.
  \<^item> \<open>Access_Runs\<close>: calls and runs, every call as a step of the four books, the invariant.
  \<^item> \<open>Access_Props\<close>: authority moves only with a quorum, actions run once, the rotation guard is complete
    and its loop ends; \<open>Access_Paths\<close>: what the signers, the admin and an outsider can bring about;
    \<open>Access_Roles\<close>: member lists, pages of the audit log; \<open>Access_Example\<close>: witnesses.

  \<^bold>\<open>Theories of \<open>risk_registry\<close>\<close> (\<open>risk_registry/src/lib.rs\<close>).
  \<^item> \<open>Registry_State\<close>: \<open>rr_state\<close> with one field per storage key and the helpers; \<open>rr_world\<close> adds the
    state of access control, whose \<open>grant_role\<close> and \<open>revoke_role\<close> the registry calls, and the log of
    token transfers.  \<open>Risk_Registry\<close>: the entry points in the order of the source.
  \<^item> \<open>Registry_Runs\<close>: calls, runs (restricted to the calls a predicate allows, interleaved with any
    change of access control), what each call leaves alone.
  \<^item> \<open>Registry_Stakes\<close>: what the registry owes its verifiers is covered by what it holds, as long as
    only current verifiers are slashed.
  \<^item> \<open>Registry_Verifiers\<close>: the life cycle of a verifier as an abstract machine of stages; what removal
    means for good; how access control and an open dispute interfere with it.
  \<^item> \<open>Registry_Scores\<close>: the debtor's average against its mathematical meaning, who moves a profile,
    what a default does and when the circuit breaker of a tier trips; \<open>Registry_Example\<close>: witnesses.

  \<^bold>\<open>Theories of \<open>price_oracle\<close>\<close> (\<open>price_oracle/src/lib.rs\<close>).
  \<^item> \<open>Price_Oracle\<close>: \<open>po_state\<close> with one field per storage key, the entry points in the order of use:
    reading a price, its history, submitting one, conversion, administration.  What the fallback feed
    answers is the argument \<open>fb\<close>.
  \<^item> \<open>Oracle_Median\<close>: the two nested loops of \<open>calculate_median\<close> sort, and a majority within a range
    keeps the median in it.  \<open>Oracle_Props\<close>: the price answered by a reachable oracle, what an accepted submission
    has passed, the ring of past prices as a list with a bound, what removing a feeder leaves
    behind; \<open>Oracle_Example\<close>: witnesses.

  \<^bold>\<open>Theories of \<open>parameter_registry\<close>\<close> (\<open>parameter_registry/src/lib.rs\<close>).
  \<^item> \<open>Parameter_Registry\<close>: \<open>pm_state\<close> with one field per storage key and the entry points; \<open>acs\<close> is the
    state of the access control contract at each address, whose signers govern.
  \<^item> \<open>Parameter_Props\<close>: runs in which access control may change between calls, the book of proposals as a
    \<open>ballot\<close>, values within their bounds, how a parameter moves and when a proposal runs, and
    what that means for the rates of the pool and the marketplace; \<open>Parameter_Example\<close>: witnesses.

  \<^bold>\<open>Theories of \<open>governance_voting\<close>\<close> (\<open>governance_voting/src/lib.rs\<close>).
  \<^item> \<open>Governance_Voting\<close>: \<open>gv_state\<close> with one field per storage key and the entry points; \<open>vest\<close> is
    the vesting contract.  The binary search for the square root has the measure \<open>high - low + 1\<close>.
  \<^item> \<open>Voting_Props\<close>: runs from the empty contract, initialised while there is no proposal; the square root, tallies as sums of votes, finality of
    an execution and what it looks at, the delegation index; \<open>Voting_Example\<close>: witnesses.

  \<^bold>\<open>Theories of \<open>governance\<close>\<close> (\<open>governance/src/lib.rs\<close>).
  \<^item> \<open>Governance\<close>: \<open>gn_state\<close> with one field per storage key and the timelock the contract holds (theory
    \<open>Kora_Timelock\<close>), the entry points of the two kinds of proposal.
  \<^item> \<open>Governance_Props\<close>: runs from the empty contract, initialised while there is no proposal; what puts an upgrade into the timelock, the
    match between upgrades and executed proposals, and that execution does not wait for the votes;
    \<open>Governance_Example\<close>: witnesses.

  \<^bold>\<open>Theories of \<open>treasury\<close>\<close> (\<open>treasury/src/lib.rs\<close>, \<open>report.rs\<close>).
  \<^item> \<open>Treasury_State\<close>: \<open>tr_state\<close> with one field per storage key, the helpers that the crate defines twice in
    both versions, the two audit logs; \<open>treasury_env\<close> holds which version a call reaches, the functions
    the crate calls without defining them, and the answers of tokens, access control and oracle.
  \<^item> \<open>Treasury\<close>: the entry points.
  \<^item> \<open>Treasury_Runs\<close>: the calls as a datatype, runs from the initialisation on, and which calls leave grants,
    actions and splits alone.
  \<^item> \<open>Treasury_Props\<close>: grants, the signers' actions, the daily cap, withdrawals, refunds and the sweep, whose
    interface \<open>share_rule\<close> is interpreted on the shared \<open>bps_of\<close>; \<open>Treasury_Example\<close>: witnesses.

  \<^bold>\<open>Theories of the smaller contracts.\<close>
  \<^item> \<open>Kora_Sums\<close>: sums over the entries of a finite map, shared by their ledgers.
  \<^item> \<open>Vesting\<close> (\<open>vesting/src/lib.rs\<close>): grants and their release, over the missing function \<open>cva\<close>.  \<open>Vesting_Props\<close>: the
    interface \<open>vesting_rule\<close> of the vested amount, interpreted on \<open>vested_now\<close>, and what is released.
  \<^item> \<open>Dispute_Escrow\<close> (\<open>dispute_escrow/src/lib.rs\<close>): the escrow of a disputed repayment, whose balance is that of the
    open disputes; \<open>pool_view\<close> holds the answers of the pool functions it calls by name.
  \<^item> \<open>Dispute_Resolution\<close> (\<open>dispute_resolution/src/lib.rs\<close>) and \<open>Dispute_Props\<close>: disputes over their runs, and
    how an open one stops the pool from marking a default.
  \<^item> \<open>Fractionalizer\<close> (\<open>fractionalizer/src/lib.rs\<close>), \<open>Fractional_Props\<close>, \<open>Fractional_Example\<close>: shares of a pool
    position, on the \<open>world\<close> of the pool; redemptions and what they leave.
  \<^item> \<open>Secondary_Market\<close> (\<open>secondary_market/src/lib.rs\<close>), \<open>Secondary_Example\<close>: what a sale does and whose signature it needs.
  \<^item> \<open>Verifier_Nomination\<close> (\<open>verifier_nomination/src/lib.rs\<close>), \<open>Nomination_Props\<close>, \<open>Nomination_Example\<close>: stakes on
    nominations and the selection.
  \<^item> \<open>Referral_Rewards\<close> (\<open>referral_rewards/src/lib.rs\<close>) and \<open>Tranche\<close> (\<open>tranche/src/lib.rs\<close>), on the state of the invoice
    contract, with their properties.

  \<^bold>\<open>Bounds.\<close>  Limits of the code are constants of the model under the same names
  (\<open>MAX_POSITIONS_PER_POOL\<close>, \<open>MAX_QUEUE_LEN\<close>, \<open>MAX_AUDIT_LOG_SIZE\<close>, \<open>POOL_MAX_AMOUNT\<close> and so on).  The
  model uses no fuel: every loop of the source runs over a finite list, over a bounded counter,
  or has a measure.

  \<^bold>\<open>Not modelled.\<close>  Events and storage time-to-live, which no operation reads back; the SHA-256 of the
  host that the treasury chains over its audit entries (the argument \<open>te_chain\<close>; the other logs keep the
  entries without the checksum); the escrow functions of the pool, which the
  source defines two or three times with different bodies (the storage flags that other operations
  test are kept); \<open>debtor_attestation\<close>, whose file holds two interleaved revisions and does not parse;
  test, fuzzing and tooling crates; the off-chain services, the SDK and the web application.  Where a
  contract asks another one through a view that \<open>env\<close> answers, the model of the other contract is not
  run in the same state; the theorems that join two contracts (\<open>late_dispute_blocks_default\<close>, the rates of the
  parameter registry) say so by giving the view the other model's answer.  Functions that the source calls without
  defining are arguments, and each theorem about them names the instance it is proved for.  A witness
  instantiates each view of \<open>env\<close> with a concrete function.
\<close>

end
